(* ===== verification/Vemu_Prelude.thy ===== *)
theory Vemu_Prelude
  imports Complex_Main "HOL-Library.Word"
begin

text \<open>
  The prelude of the development: names for the C integer types of the sources, the
  result type of C code that may stop (a failed \<^verbatim>\<open>assert\<close>, a call of \<^verbatim>\<open>exit\<close>, an
  operation the C standard leaves undefined), the loop combinator the components
  share, and generic lemmas on results, lists and words.
\<close>

unbundle bit_operations_syntax

section \<open>C integer types\<close>

type_synonym u8 = "8 word"
type_synonym u16 = "16 word"
type_synonym u32 = "32 word"
type_synonym u64 = "64 word"

text \<open>The collection that unfolds the small C-level helpers of the components.\<close>

named_theorems c_defs \<open>definitions of C-level helpers\<close>
named_theorems c_inv \<open>invariant preservation of the operations\<close>

section \<open>Results of C code\<close>

text \<open>
  Where the C code can stop instead of returning, or where the standard gives the
  operation no meaning, the model returns the reason.
\<close>

datatype c_error =
    Assert_Fail            \<comment> \<open>\<^verbatim>\<open>assert(...)\<close> with a false argument\<close>
  | Bad_Conversion         \<comment> \<open>double to integer, value out of the integer's range\<close>
  | Out_Of_Bounds          \<comment> \<open>an array access past its end\<close>
  | Signed_Overflow        \<comment> \<open>signed arithmetic out of the type's range\<close>
  | Bad_Shift              \<comment> \<open>a shift by at least the width of the type\<close>
  | Null_Pointer           \<comment> \<open>a null pointer is dereferenced\<close>
  | Wrong_Type             \<comment> \<open>a dynamically typed object of another type than expected\<close>
  | Exit_Process int       \<comment> \<open>\<^verbatim>\<open>exit(code)\<close>\<close>
  | Hw_Error               \<comment> \<open>QEMU's \<^verbatim>\<open>hw_error\<close>, which aborts\<close>
  | Abort                  \<comment> \<open>\<^verbatim>\<open>abort()\<close>\<close>
  | Cpu_Abort              \<comment> \<open>QEMU's \<^verbatim>\<open>cpu_abort\<close>\<close>

type_synonym 'a result = "c_error + 'a"

fun cbind :: "'e + 'a \<Rightarrow> ('a \<Rightarrow> 'e + 'b) \<Rightarrow> 'e + 'b" where
  "cbind (Inl e) f = Inl e"
| "cbind (Inr x) f = f x"

definition c_assert :: "bool \<Rightarrow> unit result" where
  "c_assert b = (if b then Inr () else Inl Assert_Fail)"

text \<open>Addition of \<^verbatim>\<open>int64_t\<close> values; its overflow is undefined.\<close>

definition i64_add :: "u64 \<Rightarrow> u64 \<Rightarrow> u64 result" where
  "i64_add a b = (if - (2 ^ 63) \<le> sint a + sint b \<and> sint a + sint b < 2 ^ 63 then Inr (a + b)
                  else Inl Signed_Overflow)"

text \<open>Access to an array of known length.\<close>

definition c_nth :: "'a list \<Rightarrow> nat \<Rightarrow> 'a result" where
  "c_nth xs i = (if i < length xs then Inr (xs ! i) else Inl Out_Of_Bounds)"

definition c_update :: "'a list \<Rightarrow> nat \<Rightarrow> 'a \<Rightarrow> 'a list result" where
  "c_update xs i v = (if i < length xs then Inr (xs[i := v]) else Inl Out_Of_Bounds)"

text \<open>
  A \<^verbatim>\<open>for\<close> loop over the indices \<open>is\<close> whose body may stop.
\<close>

fun cfold :: "('i \<Rightarrow> 's \<Rightarrow> 'e + 's) \<Rightarrow> 'i list \<Rightarrow> 's \<Rightarrow> 'e + 's" where
  "cfold f [] s = Inr s"
| "cfold f (i # is) s = cbind (f i s) (cfold f is)"

lemma cbind_Inr_iff: "cbind m f = Inr y \<longleftrightarrow> (\<exists>x. m = Inr x \<and> f x = Inr y)"
  by (cases m) auto

lemma cbind_InrE [elim]:
  assumes "cbind m f = Inr y"
  obtains x where "m = Inr x" and "f x = Inr y"
  using assms by (auto simp: cbind_Inr_iff)

lemma cbind_assoc: "cbind (cbind m f) g = cbind m (\<lambda>x. cbind (f x) g)"
  by (cases m) auto

lemma cbind_cong [fundef_cong]:
  assumes "m = m'" and "\<And>x. m' = Inr x \<Longrightarrow> f x = f' x"
  shows "cbind m f = cbind m' f'"
  using assms by (cases m') auto

lemma i64_add_Inr: "i64_add a b = Inr c \<Longrightarrow> c = a + b"
  by (simp add: i64_add_def split: if_splits)

lemma c_assert_simps [simp]:
  "c_assert True = Inr ()" "c_assert False = Inl Assert_Fail"
  by (simp_all add: c_assert_def)

lemma c_assert_Inr_iff [simp]: "c_assert b = Inr u \<longleftrightarrow> b"
  by (simp add: c_assert_def)

lemma c_nth_simps [simp]: "i < length xs \<Longrightarrow> c_nth xs i = Inr (xs ! i)"
  "i < length xs \<Longrightarrow> c_update xs i v = Inr (xs[i := v])"
  by (simp_all add: c_nth_def c_update_def)

text \<open>An invariant of the body is an invariant of the loop.\<close>

lemma cfold_invariant:
  assumes "cfold f is s = Inr t" and "P s"
    and "\<And>i s t. i \<in> set is \<Longrightarrow> P s \<Longrightarrow> f i s = Inr t \<Longrightarrow> P t"
  shows "P t"
  using assms
proof (induction "is" arbitrary: s)
  case Nil
  then show ?case by simp
next
  case (Cons i "is")
  from Cons.prems(1) obtain u where u: "f i s = Inr u" and t: "cfold f is u = Inr t"
    by auto
  from Cons.prems(2,3) u have "P u" by auto
  with t show ?case by (rule Cons.IH) (use Cons.prems(3) in auto)
qed

lemma cfold_append: "cfold f (xs @ ys) s = cbind (cfold f xs s) (cfold f ys)"
proof (induction xs arbitrary: s)
  case (Cons x xs)
  then show ?case by (cases "f x s") simp_all
qed simp

text \<open>A loop whose body never stops under an invariant returns.\<close>

lemma cfold_total:
  assumes "P s" and "\<And>i s. i \<in> set is \<Longrightarrow> P s \<Longrightarrow> \<exists>t. f i s = Inr t \<and> P t"
  shows "\<exists>t. cfold f is s = Inr t \<and> P t"
  using assms
proof (induction "is" arbitrary: s)
  case Nil
  then show ?case by simp
next
  case (Cons i "is")
  from Cons.prems obtain u where u: "f i s = Inr u" "P u" by auto
  from u(2) have "\<exists>t. cfold f is u = Inr t \<and> P t"
    by (rule Cons.IH) (use Cons.prems(2) in auto)
  with u(1) show ?case by simp
qed

section \<open>Lists\<close>

lemma list_all_nthD: "list_all P xs \<Longrightarrow> i < length xs \<Longrightarrow> P (xs ! i)"
  by (simp add: list_all_length)

lemma map_nthD: "map f xs = ys \<Longrightarrow> i < length xs \<Longrightarrow> f (xs ! i) = ys ! i"
  by auto

lemma list_all2_upt_append:
  assumes "list_all2 P [a..<b] xs" and "list_all2 P [b..<c] ys" and "a \<le> b" and "b \<le> c"
  shows "list_all2 P [a..<c] (xs @ ys)"
proof -
  have "[a..<c] = [a..<b] @ [b..<c]"
    using assms(3,4) by (metis le_add_diff_inverse upt_add_eq_append)
  with assms(1,2) show ?thesis by (simp add: list_all2_appendI)
qed

lemma list_all2_uptD: "list_all2 P [a..<b] xs \<Longrightarrow> a + i < b \<Longrightarrow> P (a + i) (xs ! i)"
  using list_all2_nthD [of P "[a..<b]" xs i] by simp

lemma nth_concat_const:
  assumes "\<forall>c \<in> set cs. length c = n" and "i < n * length cs"
  shows "concat cs ! i = cs ! (i div n) ! (i mod n)"
  using assms
proof (induction cs arbitrary: i)
  case Nil
  then show ?case by simp
next
  case (Cons c cs)
  show ?case
  proof (cases "i < n")
    case True
    then show ?thesis using Cons.prems(1) by (simp add: nth_append)
  next
    case False
    then have i: "i = n + (i - n)" "i - n < n * length cs" "0 < n"
      using Cons.prems(2) by (auto intro: Nat.gr0I)
    have "concat (c # cs) ! i = concat cs ! (i - n)"
      using False Cons.prems(1) by (simp add: nth_append)
    also have "\<dots> = cs ! ((i - n) div n) ! ((i - n) mod n)"
      using Cons.prems(1) i(2) by (intro Cons.IH) auto
    also have "\<dots> = (c # cs) ! (i div n) ! (i mod n)"
      using i(3) False by (simp add: le_div_geq le_mod_geq)
    finally show ?thesis .
  qed
qed

section \<open>Words\<close>

lemma and_numeral_take_bit:
  "x AND 0xF = take_bit 4 x" "x AND 0xFF = take_bit 8 x" "x AND 0xFFFF = take_bit 16 x"
  for x :: "'a::len word"
  by (simp_all add: take_bit_eq_mask mask_eq_exp_minus_1)

lemma unat_take_bit_mod: "unat (take_bit n x) = unat x mod 2 ^ n"
  for x :: "'a::len word"
  unfolding unsigned_take_bit_eq by (rule take_bit_eq_mod)

lemma unat_drop_bit_div: "unat (drop_bit n x) = unat x div 2 ^ n"
  for x :: "'a::len word"
  unfolding unat_drop_bit_eq by (rule drop_bit_eq_div)

lemma bit_odd_unat: "bit w n \<longleftrightarrow> odd (unat w div 2 ^ n)"
  for w :: "'a::len word"
  using bit_iff_odd [of "unat w" n] by (auto simp: bit_unsigned_iff dest: bit_imp_possible_bit)

lemma unat_take_bit_less: "unat (take_bit n x) < 2 ^ n"
  for x :: "'a::len word"
  by (simp add: unat_take_bit_mod)

text \<open>Two adjacent bit fields read as one number.\<close>

lemma unat_fields:
  fixes a b :: "'a::len word"
  assumes "unat b < 2 ^ n" and "unat a * 2 ^ n < 2 ^ LENGTH('a)"
  shows "unat (push_bit n a OR b) = unat a * 2 ^ n + unat b"
proof -
  have "unat (push_bit n a) = unat a * 2 ^ n"
    using assms(2) unfolding unsigned_push_bit_eq
    by (simp add: push_bit_eq_mult take_bit_nat_eq_self)
  then have "unat (push_bit n a OR b) = push_bit n (unat a) OR take_bit n (unat b)"
    using assms(1) unfolding unsigned_or_eq
    by (simp add: push_bit_eq_mult [of n "unat a"] take_bit_nat_eq_self)
  also have "\<dots> = push_bit n (unat a) + take_bit n (unat b)"
    by (rule disjunctive_add [symmetric]) (auto simp: bit_simps)
  finally show ?thesis
    using assms(1) by (simp add: push_bit_eq_mult take_bit_nat_eq_self)
qed

end
