(* ===== verification/Arm_Cpu.thy ===== *)
theory Arm_Cpu
  imports Vemu_Prelude
begin

text \<open>
  The processor state of \<^verbatim>\<open>target-arm/cpu.h\<close> (the part the modelled code uses) and the
  access functions for the status registers and the register banks, from \<^verbatim>\<open>cpu.h\<close> and
  \<^verbatim>\<open>helper.c\<close>: \<open>cpsr_read\<close>, \<open>cpsr_write\<close>, \<open>xpsr_read\<close>, \<open>xpsr_write\<close>, \<open>bank_number\<close>,
  \<open>switch_mode\<close>. Fields of nested structures carry the structure's name as a prefix.
\<close>

section \<open>State\<close>

text \<open>The registers of the system control coprocessor.\<close>

record cp15_regs =
  cp15_c0_cpuid :: u32
  cp15_c0_cssel :: u32
  cp15_c1_sys :: u32
  cp15_c1_coproc :: u32
  cp15_c1_xscaleauxcr :: u32
  cp15_c1_scr :: u32
  cp15_c1_sedbg :: u32
  cp15_c1_nseac :: u32
  cp15_c2_base0 :: u32
  cp15_c2_base0_hi :: u32
  cp15_c2_base1 :: u32
  cp15_c2_base1_hi :: u32
  cp15_c2_control :: u32
  cp15_c2_mask :: u32
  cp15_c2_base_mask :: u32
  cp15_c2_data :: u32
  cp15_c2_insn :: u32
  cp15_c3 :: u32
  cp15_c5_insn :: u32
  cp15_c5_data :: u32
  cp15_c6_region :: "u32 list"      \<comment> \<open>8 regions\<close>
  cp15_c6_insn :: u32
  cp15_c6_data :: u32
  cp15_c7_par :: u32
  cp15_c7_par_hi :: u32
  cp15_c9_insn :: u32
  cp15_c9_data :: u32
  cp15_c9_pmcr :: u32
  cp15_c9_pmcnten :: u32
  cp15_c9_pmovsr :: u32
  cp15_c9_pmxevtyper :: u32
  cp15_c9_pmuserenr :: u32
  cp15_c9_pminten :: u32
  cp15_c12_vbar :: u32
  cp15_c12_mvbar :: u32
  cp15_c13_fcse :: u32
  cp15_c13_context :: u32
  cp15_c13_tls1 :: u32
  cp15_c13_tls2 :: u32
  cp15_c13_tls3 :: u32
  cp15_c15_cpar :: u32
  cp15_c15_ticonfig :: u32
  cp15_c15_i_max :: u32
  cp15_c15_i_min :: u32
  cp15_c15_threadid :: u32
  cp15_c15_config_base_address :: u32
  cp15_c15_diagnostic :: u32
  cp15_c15_power_diagnostic :: u32
  cp15_c15_power_control :: u32

record cpu =
  regs :: "u32 list"             \<comment> \<open>16 registers of the current mode\<close>
  uncached_cpsr :: u32
  spsr :: u32
  banked_spsr :: "u32 list"      \<comment> \<open>7 banks\<close>
  banked_r13 :: "u32 list"
  banked_r14 :: "u32 list"
  usr_regs :: "u32 list"         \<comment> \<open>r8 to r12\<close>
  fiq_regs :: "u32 list"
  CF :: u32
  VF :: u32
  NF :: u32
  ZF :: u32
  QF :: u32
  GE :: u32
  thumb :: u32
  condexec_bits :: u32
  cp15 :: cp15_regs
  v7m_other_sp :: u32
  v7m_vecbase :: u32
  v7m_basepri :: u32
  v7m_control :: u32
  v7m_current_sp :: int
  v7m_exception :: int
  teecr :: u32
  teehbr :: u32
  vfp_regs :: "u64 list"         \<comment> \<open>32 registers, as bit patterns\<close>
  vfp_xregs :: "u32 list"        \<comment> \<open>16 system registers\<close>
  vfp_vec_len :: u32
  vfp_vec_stride :: u32
  bswap_code :: bool
  features :: u64
  exception_index :: int
  halted :: bool
  interrupt_request :: u32

section \<open>Constants\<close>

definition CPSR_M :: u32 where "CPSR_M = 0x1f"
definition CPSR_T :: u32 where "CPSR_T = push_bit 5 1"
definition CPSR_F :: u32 where "CPSR_F = push_bit 6 1"
definition CPSR_I :: u32 where "CPSR_I = push_bit 7 1"
definition CPSR_A :: u32 where "CPSR_A = push_bit 8 1"
definition CPSR_IT_2_7 :: u32 where "CPSR_IT_2_7 = 0xfc00"
definition CPSR_GE :: u32 where "CPSR_GE = push_bit 16 0xf"
definition CPSR_J :: u32 where "CPSR_J = push_bit 24 1"
definition CPSR_IT_0_1 :: u32 where "CPSR_IT_0_1 = push_bit 25 3"
definition CPSR_Q :: u32 where "CPSR_Q = push_bit 27 1"
definition CPSR_V :: u32 where "CPSR_V = push_bit 28 1"
definition CPSR_C :: u32 where "CPSR_C = push_bit 29 1"
definition CPSR_Z :: u32 where "CPSR_Z = push_bit 30 1"
definition CPSR_N :: u32 where "CPSR_N = push_bit 31 1"
definition CPSR_NZCV :: u32 where "CPSR_NZCV = CPSR_N OR CPSR_Z OR CPSR_C OR CPSR_V"
definition CPSR_IT :: u32 where "CPSR_IT = CPSR_IT_0_1 OR CPSR_IT_2_7"
definition CACHED_CPSR_BITS :: u32 where
  "CACHED_CPSR_BITS = CPSR_T OR CPSR_GE OR CPSR_IT OR CPSR_Q OR CPSR_NZCV"
definition CPSR_EXEC :: u32 where "CPSR_EXEC = CPSR_T OR CPSR_IT OR CPSR_J"

lemmas cpsr_consts = CPSR_M_def CPSR_T_def CPSR_F_def CPSR_I_def CPSR_A_def CPSR_IT_2_7_def CPSR_GE_def
  CPSR_J_def CPSR_IT_0_1_def CPSR_Q_def CPSR_V_def CPSR_C_def CPSR_Z_def CPSR_N_def CPSR_NZCV_def
  CPSR_IT_def CACHED_CPSR_BITS_def CPSR_EXEC_def

definition ARM_CPU_MODE_USR :: u32 where "ARM_CPU_MODE_USR = 0x10"
definition ARM_CPU_MODE_FIQ :: u32 where "ARM_CPU_MODE_FIQ = 0x11"
definition ARM_CPU_MODE_IRQ :: u32 where "ARM_CPU_MODE_IRQ = 0x12"
definition ARM_CPU_MODE_SVC :: u32 where "ARM_CPU_MODE_SVC = 0x13"
definition ARM_CPU_MODE_SMC :: u32 where "ARM_CPU_MODE_SMC = 0x16"
definition ARM_CPU_MODE_ABT :: u32 where "ARM_CPU_MODE_ABT = 0x17"
definition ARM_CPU_MODE_UND :: u32 where "ARM_CPU_MODE_UND = 0x1b"
definition ARM_CPU_MODE_SYS :: u32 where "ARM_CPU_MODE_SYS = 0x1f"

lemmas mode_defs = ARM_CPU_MODE_USR_def ARM_CPU_MODE_FIQ_def ARM_CPU_MODE_IRQ_def ARM_CPU_MODE_SVC_def
  ARM_CPU_MODE_SMC_def ARM_CPU_MODE_ABT_def ARM_CPU_MODE_UND_def ARM_CPU_MODE_SYS_def

definition ARM_VFP_FPSID :: nat where "ARM_VFP_FPSID = 0"
definition ARM_VFP_FPSCR :: nat where "ARM_VFP_FPSCR = 1"
definition ARM_VFP_FPEXC :: nat where "ARM_VFP_FPEXC = 8"

definition ARM_FEATURE_VFP :: nat where "ARM_FEATURE_VFP = 0"
definition ARM_FEATURE_AUXCR :: nat where "ARM_FEATURE_AUXCR = 1"
definition ARM_FEATURE_XSCALE :: nat where "ARM_FEATURE_XSCALE = 2"
definition ARM_FEATURE_IWMMXT :: nat where "ARM_FEATURE_IWMMXT = 3"
definition ARM_FEATURE_V6 :: nat where "ARM_FEATURE_V6 = 4"
definition ARM_FEATURE_V6K :: nat where "ARM_FEATURE_V6K = 5"
definition ARM_FEATURE_V7 :: nat where "ARM_FEATURE_V7 = 6"
definition ARM_FEATURE_THUMB2 :: nat where "ARM_FEATURE_THUMB2 = 7"
definition ARM_FEATURE_MPU :: nat where "ARM_FEATURE_MPU = 8"
definition ARM_FEATURE_VFP3 :: nat where "ARM_FEATURE_VFP3 = 9"
definition ARM_FEATURE_VFP_FP16 :: nat where "ARM_FEATURE_VFP_FP16 = 10"
definition ARM_FEATURE_NEON :: nat where "ARM_FEATURE_NEON = 11"
definition ARM_FEATURE_THUMB_DIV :: nat where "ARM_FEATURE_THUMB_DIV = 12"
definition ARM_FEATURE_M :: nat where "ARM_FEATURE_M = 13"
definition ARM_FEATURE_OMAPCP :: nat where "ARM_FEATURE_OMAPCP = 14"
definition ARM_FEATURE_THUMB2EE :: nat where "ARM_FEATURE_THUMB2EE = 15"
definition ARM_FEATURE_V7MP :: nat where "ARM_FEATURE_V7MP = 16"
definition ARM_FEATURE_V4T :: nat where "ARM_FEATURE_V4T = 17"
definition ARM_FEATURE_V5 :: nat where "ARM_FEATURE_V5 = 18"
definition ARM_FEATURE_STRONGARM :: nat where "ARM_FEATURE_STRONGARM = 19"
definition ARM_FEATURE_VAPA :: nat where "ARM_FEATURE_VAPA = 20"
definition ARM_FEATURE_ARM_DIV :: nat where "ARM_FEATURE_ARM_DIV = 21"
definition ARM_FEATURE_VFP4 :: nat where "ARM_FEATURE_VFP4 = 22"
definition ARM_FEATURE_GENERIC_TIMER :: nat where "ARM_FEATURE_GENERIC_TIMER = 23"
definition ARM_FEATURE_MVFR :: nat where "ARM_FEATURE_MVFR = 24"
definition ARM_FEATURE_DUMMY_C15_REGS :: nat where "ARM_FEATURE_DUMMY_C15_REGS = 25"
definition ARM_FEATURE_CACHE_TEST_CLEAN :: nat where "ARM_FEATURE_CACHE_TEST_CLEAN = 26"
definition ARM_FEATURE_CACHE_DIRTY_REG :: nat where "ARM_FEATURE_CACHE_DIRTY_REG = 27"
definition ARM_FEATURE_CACHE_BLOCK_OPS :: nat where "ARM_FEATURE_CACHE_BLOCK_OPS = 28"
definition ARM_FEATURE_MPIDR :: nat where "ARM_FEATURE_MPIDR = 29"
definition ARM_FEATURE_PXN :: nat where "ARM_FEATURE_PXN = 30"
definition ARM_FEATURE_LPAE :: nat where "ARM_FEATURE_LPAE = 31"
definition ARM_FEATURE_TRUSTZONE :: nat where "ARM_FEATURE_TRUSTZONE = 32"

lemmas feature_defs = ARM_FEATURE_VFP_def ARM_FEATURE_AUXCR_def ARM_FEATURE_XSCALE_def
  ARM_FEATURE_IWMMXT_def ARM_FEATURE_V6_def ARM_FEATURE_V6K_def ARM_FEATURE_V7_def
  ARM_FEATURE_THUMB2_def ARM_FEATURE_MPU_def ARM_FEATURE_VFP3_def ARM_FEATURE_VFP_FP16_def
  ARM_FEATURE_NEON_def ARM_FEATURE_THUMB_DIV_def ARM_FEATURE_M_def ARM_FEATURE_OMAPCP_def
  ARM_FEATURE_THUMB2EE_def ARM_FEATURE_V7MP_def ARM_FEATURE_V4T_def ARM_FEATURE_V5_def
  ARM_FEATURE_STRONGARM_def ARM_FEATURE_VAPA_def ARM_FEATURE_ARM_DIV_def ARM_FEATURE_VFP4_def
  ARM_FEATURE_GENERIC_TIMER_def ARM_FEATURE_MVFR_def ARM_FEATURE_DUMMY_C15_REGS_def
  ARM_FEATURE_CACHE_TEST_CLEAN_def ARM_FEATURE_CACHE_DIRTY_REG_def ARM_FEATURE_CACHE_BLOCK_OPS_def
  ARM_FEATURE_MPIDR_def ARM_FEATURE_PXN_def ARM_FEATURE_LPAE_def ARM_FEATURE_TRUSTZONE_def

section \<open>Access functions\<close>

definition arm_feature :: "cpu \<Rightarrow> nat \<Rightarrow> bool" where
  "arm_feature env feature = (features env AND push_bit feature 1 \<noteq> 0)"

definition arm_current_pl :: "cpu \<Rightarrow> int" where
  "arm_current_pl env = (if uncached_cpsr env AND 0x1f = ARM_CPU_MODE_USR then 0 else 1)"

definition cpu_mmu_index :: "cpu \<Rightarrow> int" where
  "cpu_mmu_index env = (if uncached_cpsr env AND CPSR_M = ARM_CPU_MODE_USR then 1 else 0)"

definition cpu_get_tb_privmode :: "cpu \<Rightarrow> bool" where
  "cpu_get_tb_privmode env =
     (if arm_feature env ARM_FEATURE_M then \<not> (v7m_exception env = 0 \<and> v7m_control env AND 1 \<noteq> 0)
      else uncached_cpsr env AND CPSR_M \<noteq> ARM_CPU_MODE_USR)"

text \<open>The values of a comparison in C.\<close>

definition b2w :: "bool \<Rightarrow> u32" where
  "b2w b = (if b then 1 else 0)"

definition cpsr_read :: "cpu \<Rightarrow> u32" where
  "cpsr_read env = (let zf = b2w (ZF env = 0) in
     uncached_cpsr env OR (NF env AND 0x80000000) OR push_bit 30 zf
       OR push_bit 29 (CF env) OR drop_bit 3 (VF env AND 0x80000000) OR push_bit 27 (QF env)
       OR push_bit 5 (thumb env) OR push_bit 25 (condexec_bits env AND 3)
       OR push_bit 8 (condexec_bits env AND 0xfc)
       OR push_bit 16 (GE env))"

definition xpsr_read :: "cpu \<Rightarrow> u32" where
  "xpsr_read env = (let zf = b2w (ZF env = 0) in
     (NF env AND 0x80000000) OR push_bit 30 zf
       OR push_bit 29 (CF env) OR drop_bit 3 (VF env AND 0x80000000) OR push_bit 27 (QF env)
       OR push_bit 24 (thumb env) OR push_bit 25 (condexec_bits env AND 3)
       OR push_bit 8 (condexec_bits env AND 0xfc)
       OR word_of_int (v7m_exception env))"

text \<open>The flag part that the writes of both status registers share.\<close>

definition write_nzcv :: "u32 \<Rightarrow> u32 \<Rightarrow> cpu \<Rightarrow> cpu" where
  "write_nzcv val msk env = (if msk AND CPSR_NZCV \<noteq> 0
     then env\<lparr>ZF := NOT val AND CPSR_Z, NF := val, CF := drop_bit 29 val AND 1,
              VF := push_bit 3 val AND 0x80000000\<rparr>
     else env)"

definition write_q :: "u32 \<Rightarrow> u32 \<Rightarrow> cpu \<Rightarrow> cpu" where
  "write_q val msk env = (if msk AND CPSR_Q \<noteq> 0 then env\<lparr>QF := b2w (val AND CPSR_Q \<noteq> 0)\<rparr> else env)"

definition write_it :: "u32 \<Rightarrow> u32 \<Rightarrow> cpu \<Rightarrow> cpu" where
  "write_it val msk env =
     (let env = (if msk AND CPSR_IT_0_1 \<noteq> 0
                 then env\<lparr>condexec_bits := (condexec_bits env AND NOT 3) OR (drop_bit 25 val AND 3)\<rparr> else env)
      in if msk AND CPSR_IT_2_7 \<noteq> 0
         then env\<lparr>condexec_bits := (condexec_bits env AND 3) OR (drop_bit 8 val AND 0xfc)\<rparr> else env)"

definition xpsr_write :: "u32 \<Rightarrow> u32 \<Rightarrow> cpu \<Rightarrow> cpu" where
  "xpsr_write val msk env =
     (let env = write_q val msk (write_nzcv val msk env);
          env = (if msk AND push_bit 24 1 \<noteq> 0 then env\<lparr>thumb := b2w (val AND push_bit 24 1 \<noteq> 0)\<rparr> else env);
          env = write_it val msk env
      in if msk AND 0x1ff \<noteq> 0 then env\<lparr>v7m_exception := uint (val AND 0x1ff)\<rparr> else env)"

definition bad_mode_switch :: "u32 \<Rightarrow> bool" where
  "bad_mode_switch mode \<longleftrightarrow> mode \<notin> set [ARM_CPU_MODE_USR, ARM_CPU_MODE_SYS, ARM_CPU_MODE_SVC,
     ARM_CPU_MODE_ABT, ARM_CPU_MODE_UND, ARM_CPU_MODE_IRQ, ARM_CPU_MODE_FIQ]"

definition bank_number :: "u32 \<Rightarrow> nat result" where
  "bank_number mode =
     (if mode = ARM_CPU_MODE_USR \<or> mode = ARM_CPU_MODE_SYS then Inr 0
      else if mode = ARM_CPU_MODE_SVC then Inr 1
      else if mode = ARM_CPU_MODE_ABT then Inr 2
      else if mode = ARM_CPU_MODE_UND then Inr 3
      else if mode = ARM_CPU_MODE_IRQ then Inr 4
      else if mode = ARM_CPU_MODE_FIQ then Inr 5
      else if mode = ARM_CPU_MODE_SMC then Inr 6
      else Inl Hw_Error)"

text \<open>\<^verbatim>\<open>memcpy\<close> between five words of a bank and \<^verbatim>\<open>regs + 8\<close>.\<close>

definition regs_8_12 :: "cpu \<Rightarrow> u32 list" where
  "regs_8_12 env = take 5 (drop 8 (regs env))"

definition set_regs_8_12 :: "u32 list \<Rightarrow> cpu \<Rightarrow> cpu" where
  "set_regs_8_12 xs env = env\<lparr>regs := take 8 (regs env) @ take 5 xs @ drop 13 (regs env)\<rparr>"

definition switch_mode :: "u32 \<Rightarrow> cpu \<Rightarrow> cpu result" where
  "switch_mode mode env =
     (let old_mode = uncached_cpsr env AND CPSR_M in
      if mode = old_mode then Inr env
      else
        let env = (if old_mode = ARM_CPU_MODE_FIQ then
                     let env = env\<lparr>fiq_regs := regs_8_12 env\<rparr> in set_regs_8_12 (usr_regs env) env
                   else if mode = ARM_CPU_MODE_FIQ then
                     let env = env\<lparr>usr_regs := regs_8_12 env\<rparr> in set_regs_8_12 (fiq_regs env) env
                   else env)
        in cbind (bank_number old_mode) (\<lambda>i.
           let env = env\<lparr>banked_r13 := (banked_r13 env)[i := regs env ! 13],
                         banked_r14 := (banked_r14 env)[i := regs env ! 14],
                         banked_spsr := (banked_spsr env)[i := spsr env]\<rparr>
           in cbind (bank_number mode) (\<lambda>i.
              Inr (env\<lparr>regs := (regs env)[13 := banked_r13 env ! i, 14 := banked_r14 env ! i],
                       spsr := banked_spsr env ! i\<rparr>))))"

text \<open>The cached flags, then the mode and the uncached bits.\<close>

definition cpsr_write_flags :: "u32 \<Rightarrow> u32 \<Rightarrow> cpu \<Rightarrow> cpu" where
  "cpsr_write_flags val msk env =
     (let env = write_q val msk (write_nzcv val msk env);
          env = (if msk AND CPSR_T \<noteq> 0 then env\<lparr>thumb := b2w (val AND CPSR_T \<noteq> 0)\<rparr> else env);
          env = write_it val msk env
      in if msk AND CPSR_GE \<noteq> 0 then env\<lparr>GE := drop_bit 16 val AND 0xf\<rparr> else env)"

definition cpsr_write :: "u32 \<Rightarrow> u32 \<Rightarrow> cpu \<Rightarrow> cpu result" where
  "cpsr_write val msk env =
     (let env = cpsr_write_flags val msk env
      in cbind (if (uncached_cpsr env XOR val) AND msk AND CPSR_M \<noteq> 0
                then (if bad_mode_switch (val AND CPSR_M) then Inr (msk AND NOT CPSR_M, env)
                      else cbind (switch_mode (val AND CPSR_M) env) (\<lambda>env. Inr (msk, env)))
                else Inr (msk, env))
          (\<lambda>(msk, env).
            let msk = msk AND NOT CACHED_CPSR_BITS
            in Inr (env\<lparr>uncached_cpsr := (uncached_cpsr env AND NOT msk) OR (val AND msk)\<rparr>)))"

section \<open>Well-formed states and the architecture's view\<close>

text \<open>The status register: what the comments of \<^verbatim>\<open>cpu.h\<close> say about the cached flags.\<close>

definition cpsr_wf :: "cpu \<Rightarrow> bool" where
  "cpsr_wf env \<longleftrightarrow> uncached_cpsr env AND CACHED_CPSR_BITS = 0 \<and> CF env \<in> set [0, 1] \<and> QF env \<in> set [0, 1]
     \<and> thumb env \<in> set [0, 1] \<and> GE env AND NOT 0xf = 0"

text \<open>
  The groups of bits that a mask contains as a whole or not at all, as the comment of
  \<open>cpsr_write\<close> in \<^verbatim>\<open>cpu.h\<close> requires.
\<close>

definition mask_ok :: "u32 \<Rightarrow> bool" where
  "mask_ok msk \<longleftrightarrow> list_all (\<lambda>g. msk AND g = 0 \<or> msk AND g = g) [CPSR_NZCV, CPSR_IT_0_1, CPSR_IT_2_7, CPSR_GE, CPSR_M]"

text \<open>
  The register file of the architecture: register \<open>r\<close> as code in mode \<open>m\<close> sees it,
  wherever the emulator keeps it at the moment, and the saved status of a mode.
\<close>

definition cpu_wf :: "cpu \<Rightarrow> bool" where
  "cpu_wf env \<longleftrightarrow> length (regs env) = 16 \<and> length (banked_spsr env) = 7 \<and> length (banked_r13 env) = 7
     \<and> length (banked_r14 env) = 7 \<and> length (usr_regs env) = 5 \<and> length (fiq_regs env) = 5"

definition cpu_mode :: "cpu \<Rightarrow> u32" where
  "cpu_mode env = uncached_cpsr env AND CPSR_M"

definition arch_reg :: "cpu \<Rightarrow> u32 \<Rightarrow> nat \<Rightarrow> u32" where
  "arch_reg env m r =
     (if 8 \<le> r \<and> r \<le> 12 \<and> (m = ARM_CPU_MODE_FIQ) \<noteq> (cpu_mode env = ARM_CPU_MODE_FIQ)
        then (if m = ARM_CPU_MODE_FIQ then fiq_regs env ! (r - 8) else usr_regs env ! (r - 8))
      else if r = 13 \<and> bank_number m \<noteq> bank_number (cpu_mode env) then banked_r13 env ! projr (bank_number m)
      else if r = 14 \<and> bank_number m \<noteq> bank_number (cpu_mode env) then banked_r14 env ! projr (bank_number m)
      else regs env ! r)"

definition arch_spsr :: "cpu \<Rightarrow> u32 \<Rightarrow> u32" where
  "arch_spsr env m = (if bank_number m = bank_number (cpu_mode env) then spsr env
     else banked_spsr env ! projr (bank_number m))"

definition valid_mode :: "u32 \<Rightarrow> bool" where
  "valid_mode m \<longleftrightarrow> (\<exists>b. bank_number m = Inr b)"

definition cp15_zero :: cp15_regs where
    "cp15_zero = \<lparr>cp15_c0_cpuid = 0, cp15_c0_cssel = 0, cp15_c1_sys = 0, cp15_c1_coproc = 0,
     cp15_c1_xscaleauxcr = 0, cp15_c1_scr = 0, cp15_c1_sedbg = 0, cp15_c1_nseac = 0, cp15_c2_base0 =
     0, cp15_c2_base0_hi = 0, cp15_c2_base1 = 0, cp15_c2_base1_hi = 0, cp15_c2_control = 0,
     cp15_c2_mask = 0, cp15_c2_base_mask = 0, cp15_c2_data = 0, cp15_c2_insn = 0, cp15_c3 = 0,
     cp15_c5_insn = 0, cp15_c5_data = 0, cp15_c6_region = replicate 8 0, cp15_c6_insn = 0,
     cp15_c6_data = 0, cp15_c7_par = 0, cp15_c7_par_hi = 0, cp15_c9_insn = 0, cp15_c9_data = 0,
     cp15_c9_pmcr = 0, cp15_c9_pmcnten = 0, cp15_c9_pmovsr = 0, cp15_c9_pmxevtyper = 0,
     cp15_c9_pmuserenr = 0, cp15_c9_pminten = 0, cp15_c12_vbar = 0, cp15_c12_mvbar = 0,
     cp15_c13_fcse = 0, cp15_c13_context = 0, cp15_c13_tls1 = 0, cp15_c13_tls2 = 0, cp15_c13_tls3 =
     0, cp15_c15_cpar = 0, cp15_c15_ticonfig = 0, cp15_c15_i_max = 0, cp15_c15_i_min = 0,
     cp15_c15_threadid = 0, cp15_c15_config_base_address = 0, cp15_c15_diagnostic = 0,
     cp15_c15_power_diagnostic = 0, cp15_c15_power_control = 0\<rparr>"

definition demo_cpu :: cpu where
  "demo_cpu = \<lparr>regs = map of_nat [0..<16], uncached_cpsr = 0x13, spsr = 0x10,
     banked_spsr = replicate 7 0, banked_r13 = replicate 7 0, banked_r14 = replicate 7 0,
     usr_regs = replicate 5 0, fiq_regs = [100, 101, 102, 103, 104], CF = 1, VF = 0, NF = 0x80000000, ZF = 1,
     QF = 0, GE = 5, thumb = 0, condexec_bits = 0, cp15 = cp15_zero, v7m_other_sp = 0, v7m_vecbase = 0, v7m_basepri = 0,
     v7m_control = 0, v7m_current_sp = 0, v7m_exception = 0, teecr = 0, teehbr = 0,
     vfp_regs = replicate 32 0, vfp_xregs = replicate 16 0, vfp_vec_len = 0, vfp_vec_stride = 0,
     bswap_code = False, features = 0, exception_index = 0, halted = False,
     interrupt_request = 0\<rparr>"

section \<open>Lemmas on the status register\<close>

lemma group_bit:
  assumes "msk AND g = 0 \<or> msk AND g = g" "bit g n"
  shows "bit msk n \<longleftrightarrow> msk AND g \<noteq> (0 :: u32)"
  using assms by (metis bit_and_iff bit_0_eq bot_apply bot_bool_def)

lemma and_push_bit_1: "(w :: u32) AND push_bit n 1 = 0 \<longleftrightarrow> \<not> bit w n"
  using bit_iff_and_push_bit_not_eq_0 [of w n] by auto

lemma less_32_cases: "n < (32::nat) \<Longrightarrow> n \<in> {0,1,2,3,4,5,6,7,8,9,10,11,12,13,14,15,16,17,18,19,20,21,22,23,24,25,26,27,28,29,30,31}"
  unfolding insert_iff empty_iff by presburger

lemma u32_eqI:
  assumes "\<And>n. n \<in> {0,1,2,3,4,5,6,7,8,9,10,11,12,13,14,15,16,17,18,19,20,21,22,23,24,25,26,27,28,29,30,31} \<Longrightarrow>
     bit a n = bit (b :: u32) n"
  shows "a = b"
  by (rule bit_word_eqI) (use assms less_32_cases in simp)

lemma u32_zero_iff:
  "w = (0 :: u32) \<longleftrightarrow> (\<forall>n \<in> {0,1,2,3,4,5,6,7,8,9,10,11,12,13,14,15,16,17,18,19,20,21,22,23,24,25,26,27,28,29,30,31}. \<not> bit w n)"
  by (auto intro: u32_eqI)

lemma bit_b2w: "bit (b2w b) n \<longleftrightarrow> n = 0 \<and> b"
  by (simp add: b2w_def bit_1_iff)

lemma bit_01: "w \<in> set [0, 1] \<Longrightarrow> 0 < n \<Longrightarrow> \<not> bit (w :: u32) n"
  by (auto simp: bit_1_iff)

lemma high_bits: "w AND NOT (mask k) = 0 \<Longrightarrow> k \<le> n \<Longrightarrow> \<not> bit (w :: u32) n"
proof
  assume w: "w AND NOT (mask k) = 0" "k \<le> n" "bit w n"
  have "bit (w AND NOT (mask k)) n" using w(2,3) bit_imp_le_length [OF w(3)] by (simp add: bit_simps)
  then show False using w(1) by simp
qed

lemma high_bits_numeral:
  "w AND NOT 0x3 = 0 \<Longrightarrow> 2 \<le> n \<Longrightarrow> \<not> bit (w :: u32) n"
  "w AND NOT 0x7 = 0 \<Longrightarrow> 3 \<le> n \<Longrightarrow> \<not> bit (w :: u32) n"
  "w AND NOT 0xf = 0 \<Longrightarrow> 4 \<le> n \<Longrightarrow> \<not> bit (w :: u32) n"
  "w AND NOT 0xff = 0 \<Longrightarrow> 8 \<le> n \<Longrightarrow> \<not> bit (w :: u32) n"
  using high_bits [of w 2 n] high_bits [of w 3 n] high_bits [of w 4 n] high_bits [of w 8 n]
  by (simp_all add: mask_eq_exp_minus_1)

lemma switch_mode_frame:
  assumes "switch_mode m env = Inr env'"
  shows "NF env' = NF env" "ZF env' = ZF env" "CF env' = CF env" "VF env' = VF env" "QF env' = QF env"
    "thumb env' = thumb env" "condexec_bits env' = condexec_bits env" "GE env' = GE env"
    "uncached_cpsr env' = uncached_cpsr env"
  using assms by (auto simp: switch_mode_def Let_def cbind_Inr_iff set_regs_8_12_def split: if_splits)

lemma flags_fields:
  fixes val msk env
  defines "e \<equiv> cpsr_write_flags val msk env"
  shows "NF e = (if msk AND CPSR_NZCV \<noteq> 0 then val else NF env)"
    "ZF e = (if msk AND CPSR_NZCV \<noteq> 0 then NOT val AND CPSR_Z else ZF env)"
    "CF e = (if msk AND CPSR_NZCV \<noteq> 0 then drop_bit 29 val AND 1 else CF env)"
    "VF e = (if msk AND CPSR_NZCV \<noteq> 0 then push_bit 3 val AND 0x80000000 else VF env)"
    "QF e = (if msk AND CPSR_Q \<noteq> 0 then b2w (val AND CPSR_Q \<noteq> 0) else QF env)"
    "thumb e = (if msk AND CPSR_T \<noteq> 0 then b2w (val AND CPSR_T \<noteq> 0) else thumb env)"
    "GE e = (if msk AND CPSR_GE \<noteq> 0 then drop_bit 16 val AND 0xf else GE env)"
    "condexec_bits e = condexec_bits (write_it val msk env)"
    "uncached_cpsr e = uncached_cpsr env"
  by (simp_all add: e_def cpsr_write_flags_def Let_def write_nzcv_def write_q_def write_it_def)

lemma cpsr_write_Inr:
  assumes "cpsr_write val msk env = Inr env'"
  shows "cpsr_read env' = cpsr_read ((cpsr_write_flags val msk env)\<lparr>uncached_cpsr :=
     (let k = (if (uncached_cpsr env XOR val) AND msk AND CPSR_M \<noteq> 0
         \<and> bad_mode_switch (val AND CPSR_M) then msk AND NOT CPSR_M else msk) AND NOT CACHED_CPSR_BITS
       in (uncached_cpsr env AND NOT k) OR (val AND k))\<rparr>)"
proof -
  let ?e = "cpsr_write_flags val msk env"
  have u: "uncached_cpsr ?e = uncached_cpsr env" by (rule flags_fields)
  from assms obtain k e2 where
    1: "(if (uncached_cpsr env XOR val) AND msk AND CPSR_M \<noteq> 0
                then (if bad_mode_switch (val AND CPSR_M) then Inr (msk AND NOT CPSR_M, ?e)
                      else cbind (switch_mode (val AND CPSR_M) ?e) (\<lambda>env. Inr (msk, env)))
                else Inr (msk, ?e)) = Inr (k, e2)" and
    2: "env' = e2\<lparr>uncached_cpsr := (uncached_cpsr e2 AND NOT (k AND NOT CACHED_CPSR_BITS)) OR (val AND (k AND NOT CACHED_CPSR_BITS))\<rparr>"
    by (auto simp: cpsr_write_def Let_def u cbind_Inr_iff)
  have k: "k = (if (uncached_cpsr env XOR val) AND msk AND CPSR_M \<noteq> 0
         \<and> bad_mode_switch (val AND CPSR_M) then msk AND NOT CPSR_M else msk)"
    using 1 by (auto simp: cbind_Inr_iff split: if_splits)
  have "e2 = ?e \<or> switch_mode (val AND CPSR_M) ?e = Inr e2" using 1 by (auto simp: cbind_Inr_iff split: if_splits)
  then show ?thesis
    by (auto simp: 2 k [symmetric] cpsr_read_def Let_def u switch_mode_frame)
qed

section \<open>Lemmas on the register banks\<close>

lemma bank_less: "bank_number m = Inr b \<Longrightarrow> b < 7"
  by (auto simp: bank_number_def split: if_splits)

lemma fiq_bank: "bank_number m = bank_number m' \<Longrightarrow> valid_mode m \<Longrightarrow> m = ARM_CPU_MODE_FIQ \<longleftrightarrow> m' = ARM_CPU_MODE_FIQ"
  by (auto simp: bank_number_def valid_mode_def mode_defs split: if_splits)

definition set_mode :: "u32 \<Rightarrow> cpu \<Rightarrow> cpu" where
  "set_mode m env = env\<lparr>uncached_cpsr := (uncached_cpsr env AND NOT CPSR_M) OR m\<rparr>"

lemma set_mode_simps [simp]:
  "regs (set_mode m env) = regs env" "spsr (set_mode m env) = spsr env"
  "banked_r13 (set_mode m env) = banked_r13 env" "banked_r14 (set_mode m env) = banked_r14 env"
  "banked_spsr (set_mode m env) = banked_spsr env" "usr_regs (set_mode m env) = usr_regs env"
  "fiq_regs (set_mode m env) = fiq_regs env"
  by (simp_all add: set_mode_def)

lemma valid_mode_bits: "valid_mode m \<Longrightarrow> m AND CPSR_M = m"
  by (auto simp: valid_mode_def bank_number_def mode_defs CPSR_M_def split: if_splits)

lemma mode_set_mode: "valid_mode m \<Longrightarrow> cpu_mode (set_mode m env) = m"
  unfolding cpu_mode_def set_mode_def
  by (simp add: bit.conj_disj_distrib2 valid_mode_bits and.assoc)

lemma switch_mode_total:
  assumes "valid_mode (cpu_mode env)" "valid_mode m"
  shows "\<exists>env'. switch_mode m env = Inr env'"
  using assms by (auto simp: switch_mode_def cpu_mode_def valid_mode_def Let_def)

lemma switch_mode_Inr:
  assumes "switch_mode m env = Inr env'" "m \<noteq> cpu_mode env"
    and "bank_number (cpu_mode env) = Inr bo" "bank_number m = Inr bn"
  defines "e \<equiv> (if cpu_mode env = ARM_CPU_MODE_FIQ then set_regs_8_12 (usr_regs env) (env\<lparr>fiq_regs := regs_8_12 env\<rparr>)
       else if m = ARM_CPU_MODE_FIQ then set_regs_8_12 (fiq_regs env) (env\<lparr>usr_regs := regs_8_12 env\<rparr>) else env)"
  shows "env' = e\<lparr>banked_r13 := (banked_r13 env)[bo := regs e ! 13], banked_r14 := (banked_r14 env)[bo := regs e ! 14],
      banked_spsr := (banked_spsr env)[bo := spsr env],
      regs := (regs e)[13 := (banked_r13 env)[bo := regs e ! 13] ! bn, 14 := (banked_r14 env)[bo := regs e ! 14] ! bn],
      spsr := (banked_spsr env)[bo := spsr env] ! bn\<rparr>"
proof -
  have [simp]: "banked_r13 e = banked_r13 env" "banked_r14 e = banked_r14 env" "banked_spsr e = banked_spsr env"
    "spsr e = spsr env" by (simp_all add: e_def set_regs_8_12_def)
  have "switch_mode m env = cbind (bank_number (cpu_mode env)) (\<lambda>i.
           let env = e\<lparr>banked_r13 := (banked_r13 e)[i := regs e ! 13],
                         banked_r14 := (banked_r14 e)[i := regs e ! 14],
                         banked_spsr := (banked_spsr e)[i := spsr e]\<rparr>
           in cbind (bank_number m) (\<lambda>i.
              Inr (env\<lparr>regs := (regs env)[13 := banked_r13 env ! i, 14 := banked_r14 env ! i],
                       spsr := banked_spsr env ! i\<rparr>)))"
    using assms(2) by (simp add: switch_mode_def Let_def cpu_mode_def e_def)
  then show ?thesis using assms(1,3,4) by simp
qed

lemma switch_mode_nth:
  assumes "switch_mode m env = Inr env'" "m \<noteq> cpu_mode env" "cpu_wf env"
    and "bank_number (cpu_mode env) = Inr bo" "bank_number m = Inr bn" "r < 16"
  shows "regs env' ! r = (if r = 13 then (banked_r13 env)[bo := regs env ! 13] ! bn
      else if r = 14 then (banked_r14 env)[bo := regs env ! 14] ! bn
      else if 8 \<le> r \<and> r \<le> 12 \<and> cpu_mode env = ARM_CPU_MODE_FIQ then usr_regs env ! (r - 8)
      else if 8 \<le> r \<and> r \<le> 12 \<and> m = ARM_CPU_MODE_FIQ then fiq_regs env ! (r - 8) else regs env ! r)"
    "8 \<le> r \<Longrightarrow> r \<le> 12 \<Longrightarrow> usr_regs env' ! (r - 8) =
      (if cpu_mode env \<noteq> ARM_CPU_MODE_FIQ \<and> m = ARM_CPU_MODE_FIQ then regs env ! r else usr_regs env ! (r - 8))"
    "8 \<le> r \<Longrightarrow> r \<le> 12 \<Longrightarrow> fiq_regs env' ! (r - 8) =
      (if cpu_mode env = ARM_CPU_MODE_FIQ then regs env ! r else fiq_regs env ! (r - 8))"
    "banked_r13 env' = (banked_r13 env)[bo := regs env ! 13]" "banked_r14 env' = (banked_r14 env)[bo := regs env ! 14]"
    "banked_spsr env' = (banked_spsr env)[bo := spsr env]" "spsr env' = (banked_spsr env)[bo := spsr env] ! bn"
  unfolding switch_mode_Inr [OF assms(1,2,4,5)]
  using assms(3,6)
  by (auto simp: set_regs_8_12_def regs_8_12_def cpu_wf_def nth_append nth_list_update)

lemma demo_cpu_wf: "cpu_wf demo_cpu" "cpsr_wf demo_cpu" "cpu_mode demo_cpu = ARM_CPU_MODE_SVC"
  by (simp_all add: cpu_wf_def cpsr_wf_def demo_cpu_def cpu_mode_def cpsr_consts mode_defs)

lemma eight_modes: "valid_mode m \<longleftrightarrow> m \<in> {0x10, 0x11, 0x12, 0x13, 0x16, 0x17, 0x1b, 0x1f}"
  by (auto simp: valid_mode_def bank_number_def mode_defs)

lemma banks_shared:
  "valid_mode m \<Longrightarrow> valid_mode k \<Longrightarrow> bank_number m = bank_number k \<longleftrightarrow> m = k \<or> {m, k} = {0x10, 0x1f}"
  unfolding eight_modes by (elim insertE emptyE) (simp_all add: bank_number_def mode_defs doubleton_eq_iff)

lemma valid_modes: "valid_mode ARM_CPU_MODE_SVC" "valid_mode ARM_CPU_MODE_FIQ" "valid_mode ARM_CPU_MODE_USR"
  by (simp_all add: valid_mode_def bank_number_def mode_defs)

lemma cpsr_write_read:
  assumes "cpsr_wf env" "mask_ok msk" "msk AND CPSR_M = 0 \<or> \<not> bad_mode_switch (val AND CPSR_M)"
    and "cpsr_write val msk env = Inr env'"
  shows "cpsr_read env' = (cpsr_read env AND NOT msk) OR (val AND msk)"
proof -
  let ?e = "cpsr_write_flags val msk env"
  have "(uncached_cpsr env XOR val) AND msk AND CPSR_M = 0 \<or> \<not> bad_mode_switch (val AND CPSR_M)"
    using assms(3) by auto
  then have r: "cpsr_read env' = cpsr_read (?e\<lparr>uncached_cpsr :=
      (uncached_cpsr env AND NOT (msk AND NOT CACHED_CPSR_BITS)) OR (val AND (msk AND NOT CACHED_CPSR_BITS))\<rparr>)"
    using cpsr_write_Inr [OF assms(4)] by (auto simp: Let_def)
  show ?thesis
  proof (rule bit_word_eqI)
    fix n assume "n < LENGTH(32)"
    then have n: "n \<in> {0,1,2,3,4,5,6,7,8,9,10,11,12,13,14,15,16,17,18,19,20,21,22,23,24,25,26,27,28,29,30,31}"
      using less_32_cases by simp
    have g: "bit CPSR_NZCV i \<Longrightarrow> bit msk i \<longleftrightarrow> msk AND CPSR_NZCV \<noteq> 0"
      "bit CPSR_IT_0_1 i \<Longrightarrow> bit msk i \<longleftrightarrow> msk AND CPSR_IT_0_1 \<noteq> 0"
      "bit CPSR_IT_2_7 i \<Longrightarrow> bit msk i \<longleftrightarrow> msk AND CPSR_IT_2_7 \<noteq> 0"
      "bit CPSR_GE i \<Longrightarrow> bit msk i \<longleftrightarrow> msk AND CPSR_GE \<noteq> 0" for i
      using assms(2) group_bit by (auto simp: mask_ok_def)
    have u: "bit CACHED_CPSR_BITS i \<Longrightarrow> \<not> bit (uncached_cpsr env) i" for i
      using assms(1) by (auto simp: cpsr_wf_def dest: arg_cong [where f = "\<lambda>w. bit w i"] simp: bit_and_iff)
    have w: "0 < i \<Longrightarrow> \<not> bit (CF env) i" "0 < i \<Longrightarrow> \<not> bit (QF env) i"
      "0 < i \<Longrightarrow> \<not> bit (thumb env) i" "4 \<le> i \<Longrightarrow> \<not> bit (GE env) i" for i
      using assms(1) bit_01 high_bits_numeral(3) unfolding cpsr_wf_def by blast+
    have t: "x AND CPSR_T = 0 \<longleftrightarrow> \<not> bit x 5" "x AND CPSR_Q = 0 \<longleftrightarrow> \<not> bit x 27"
      "x AND CPSR_Z = 0 \<longleftrightarrow> \<not> bit x 30" for x
      by (simp_all only: CPSR_T_def CPSR_Q_def CPSR_Z_def and_push_bit_1)
    note c = CPSR_NZCV_def CPSR_N_def CPSR_Z_def CPSR_C_def CPSR_V_def CPSR_IT_0_1_def CPSR_IT_2_7_def CPSR_GE_def
      CACHED_CPSR_BITS_def CPSR_T_def CPSR_Q_def CPSR_IT_def
    show "bit (cpsr_read env') n = bit ((cpsr_read env AND NOT msk) OR (val AND msk)) n"
      unfolding r using n
      by (elim insertE emptyE)
         (simp_all add: cpsr_read_def Let_def bit_simps flags_fields write_it_def t [simplified c, simplified]
           g [simplified c, simplified] u [simplified c, simplified] w bit_b2w c)
  qed
qed
lemma switch_mode_arch:
  assumes "cpu_wf env" "valid_mode (cpu_mode env)" "valid_mode m" "switch_mode m env = Inr env'"
    and "valid_mode k" "r < 16"
  shows "arch_reg (set_mode m env') k r = arch_reg env k r \<and> arch_spsr (set_mode m env') k = arch_spsr env k"
proof (cases "m = cpu_mode env")
  case True
  then have "env' = env" using assms(4) by (simp add: switch_mode_def cpu_mode_def)
  moreover have "cpu_mode (set_mode m env) = cpu_mode env" using assms(3) True by (simp add: mode_set_mode)
  ultimately show ?thesis unfolding arch_reg_def arch_spsr_def by (simp only: set_mode_simps)
next
  case False
  obtain bo bn bk where b: "bank_number (cpu_mode env) = Inr bo" "bank_number m = Inr bn" "bank_number k = Inr bk"
    using assms(2,3,5) by (auto simp: valid_mode_def)
  have lt: "bo < 7" "bn < 7" "bk < 7" using b bank_less by auto
  have f: "bk = bo \<Longrightarrow> (k = ARM_CPU_MODE_FIQ) = (cpu_mode env = ARM_CPU_MODE_FIQ)"
    "bk = bn \<Longrightarrow> (k = ARM_CPU_MODE_FIQ) = (m = ARM_CPU_MODE_FIQ)"
    "bn = bo \<Longrightarrow> (m = ARM_CPU_MODE_FIQ) = (cpu_mode env = ARM_CPU_MODE_FIQ)"
    using fiq_bank [of k "cpu_mode env"] fiq_bank [of k m] fiq_bank [of m "cpu_mode env"] b assms by auto
  note n = switch_mode_nth [OF assms(4) False assms(1) b(1,2)]
  have l: "length (banked_spsr env) = 7" "length (banked_r13 env) = 7" "length (banked_r14 env) = 7"
    using assms(1) by (simp_all add: cpu_wf_def)
  have "arch_spsr (set_mode m env') k = arch_spsr env k"
    using lt l by (simp add: arch_spsr_def mode_set_mode [OF assms(3)] b n(6,7) [OF assms(6)])
  moreover have "arch_reg (set_mode m env') k r = arch_reg env k r"
    using lt l f False n(1-5) [OF assms(6)]
    by (auto simp: arch_reg_def mode_set_mode [OF assms(3)] b nth_list_update)
  ultimately show ?thesis by simp
qed
lemma flags_regs:
  fixes val msk env
  defines "e \<equiv> cpsr_write_flags val msk env"
  shows "regs e = regs env" "banked_r13 e = banked_r13 env" "banked_r14 e = banked_r14 env"
    "banked_spsr e = banked_spsr env" "spsr e = spsr env" "usr_regs e = usr_regs env" "fiq_regs e = fiq_regs env"
    "uncached_cpsr e = uncached_cpsr env"
  by (simp_all add: e_def cpsr_write_flags_def Let_def write_nzcv_def write_q_def write_it_def)

lemma cpsr_write_total:
  assumes "\<not> bad_mode_switch (val AND CPSR_M)" "valid_mode (cpu_mode env)"
  shows "\<exists>env'. cpsr_write val msk env = Inr env'"
proof -
  let ?e = "cpsr_write_flags val msk env"
  have "valid_mode (val AND CPSR_M)"
    using assms(1) by (auto simp: bad_mode_switch_def valid_mode_def bank_number_def)
  moreover have "valid_mode (cpu_mode ?e)" using assms(2) by (simp add: cpu_mode_def flags_regs)
  ultimately obtain e2 where "switch_mode (val AND CPSR_M) ?e = Inr e2" using switch_mode_total by blast
  then show ?thesis using assms(1) by (simp add: cpsr_write_def Let_def)
qed

section \<open>Correctness\<close>

text \<open>
  C26. Writing the status register under a mask and reading it back: from a valid mode,
  with a mask that contains the flag groups as a whole or not at all and a valid new
  mode, the write returns, and the value then read is the written one on the bits of the
  mask and the old one elsewhere, although ten fields cache parts of it.
\<close>

theorem cpsr_read_write:
  assumes "cpsr_wf env" "mask_ok msk" "\<not> bad_mode_switch (val AND CPSR_M)" "valid_mode (cpu_mode env)"
  shows "\<exists>env'. cpsr_write val msk env = Inr env' \<and> cpsr_read env' = (cpsr_read env AND NOT msk) OR (val AND msk)"
  using cpsr_write_total [OF assms(3,4)] cpsr_write_read [OF assms(1,2)] assms(3) by blast

theorem cpsr_read_write_witness:
  "\<exists>env'. cpsr_write 0x60000010 0xF000001F demo_cpu = Inr env' \<and> cpsr_read env' = 0x60050010"
proof -
  have m: "mask_ok 0xF000001F" by (simp add: mask_ok_def cpsr_consts)
  have b: "\<not> bad_mode_switch (0x60000010 AND CPSR_M)" by (simp add: bad_mode_switch_def cpsr_consts mode_defs)
  have "cpsr_read demo_cpu = 0xA0050013" by (simp add: cpsr_read_def demo_cpu_def b2w_def)
  then show ?thesis
    using cpsr_read_write [OF demo_cpu_wf(2) m b] by (simp add: demo_cpu_wf(3) valid_modes)
qed

text \<open>
  C25. Switching the processor mode moves registers between the active set and the banks
  without losing or mixing any: from any valid mode to any other the switch returns, and
  every register and every saved status of every mode, as the architecture defines them,
  stay what they were. The valid modes are the eight of the architecture, and no two of them
  share a stack pointer, link register or saved status but user and system mode, which are
  one bank.
\<close>

theorem switch_mode_registers:
  assumes "cpu_wf env" "valid_mode (cpu_mode env)" "valid_mode m"
  shows "\<exists>env'. switch_mode m env = Inr env' \<and> cpu_mode (set_mode m env') = m
    \<and> (\<forall>k r. valid_mode k \<and> r < 16 \<longrightarrow> arch_reg (set_mode m env') k r = arch_reg env k r
        \<and> arch_spsr (set_mode m env') k = arch_spsr env k)
    \<and> (\<forall>k. valid_mode k \<longleftrightarrow> k \<in> {0x10, 0x11, 0x12, 0x13, 0x16, 0x17, 0x1b, 0x1f})
    \<and> (\<forall>k k'. valid_mode k \<and> valid_mode k' \<longrightarrow>
        (bank_number k = bank_number k' \<longleftrightarrow> k = k' \<or> {k, k'} = {0x10, 0x1f}))"
  using switch_mode_total [OF assms(2,3)] switch_mode_arch [OF assms] mode_set_mode [OF assms(3)] eight_modes banks_shared
  by blast

theorem switch_mode_registers_witness:
  "\<exists>env'. switch_mode ARM_CPU_MODE_FIQ demo_cpu = Inr env'
    \<and> arch_reg (set_mode ARM_CPU_MODE_FIQ env') ARM_CPU_MODE_FIQ 9 = 101
    \<and> arch_reg (set_mode ARM_CPU_MODE_FIQ env') ARM_CPU_MODE_USR 9 = 9"
proof -
  have v: "valid_mode (cpu_mode demo_cpu)" by (simp add: demo_cpu_wf valid_modes)
  have "arch_reg demo_cpu ARM_CPU_MODE_FIQ 9 = 101" "arch_reg demo_cpu ARM_CPU_MODE_USR 9 = 9"
    by (simp_all add: arch_reg_def demo_cpu_wf(3) mode_defs, simp_all add: demo_cpu_def)
  moreover have "(9 :: nat) < 16" by simp
  ultimately show ?thesis
    using switch_mode_registers [OF demo_cpu_wf(1) v valid_modes(2)] valid_modes by metis
qed

end
