(* ===== verification/Arm_Interrupt.thy ===== *)
theory Arm_Interrupt
  imports Arm_Cpu
begin

text \<open>
  Exception entry, from \<^verbatim>\<open>target-arm/helper.c\<close>: \<open>arm_cpu_do_interrupt\<close> for processors with
  modes and banked registers, \<open>arm_v7m_cpu_do_interrupt\<close> and \<open>do_v7m_exception_exit\<close> for
  the microcontroller profile, where VarEMU keeps the Thumb bit in the stacked program
  counter. Code fetches, physical memory, the interrupt controller and semihosting are
  other parts of QEMU: fields of the records \<open>arm_ext\<close> and \<open>v7m_ext\<close>.
\<close>

section \<open>External functions and constants\<close>

record arm_ext =
  semihosting_enabled :: bool
  ldl_code :: "u32 \<Rightarrow> u32"
  lduw_code :: "u32 \<Rightarrow> u16"
  bswap32 :: "u32 \<Rightarrow> u32"
  bswap16 :: "u16 \<Rightarrow> u16"
  do_arm_semihosting :: "cpu \<Rightarrow> u32 \<times> cpu"
  CPU_INTERRUPT_EXITTB :: u32

record ('m, 'n) v7m_ext =
  stl_phys :: "u32 \<Rightarrow> u32 \<Rightarrow> 'm \<Rightarrow> 'm"
  ldl_phys :: "u32 \<Rightarrow> 'm \<Rightarrow> u32"
  nvic_set_pending :: "int \<Rightarrow> 'n \<Rightarrow> 'n"
  nvic_acknowledge_irq :: "'n \<Rightarrow> int \<times> 'n"
  nvic_complete_irq :: "int \<Rightarrow> 'n \<Rightarrow> 'n"

definition EXCP_UDEF :: int where "EXCP_UDEF = 1"
definition EXCP_SWI :: int where "EXCP_SWI = 2"
definition EXCP_PREFETCH_ABORT :: int where "EXCP_PREFETCH_ABORT = 3"
definition EXCP_DATA_ABORT :: int where "EXCP_DATA_ABORT = 4"
definition EXCP_IRQ :: int where "EXCP_IRQ = 5"
definition EXCP_FIQ :: int where "EXCP_FIQ = 6"
definition EXCP_BKPT :: int where "EXCP_BKPT = 7"
definition EXCP_EXCEPTION_EXIT :: int where "EXCP_EXCEPTION_EXIT = 8"
definition EXCP_SMC :: int where "EXCP_SMC = 11"

definition ARMV7M_EXCP_MEM :: int where "ARMV7M_EXCP_MEM = 4"
definition ARMV7M_EXCP_USAGE :: int where "ARMV7M_EXCP_USAGE = 6"
definition ARMV7M_EXCP_SVC :: int where "ARMV7M_EXCP_SVC = 11"
definition ARMV7M_EXCP_DEBUG :: int where "ARMV7M_EXCP_DEBUG = 12"

lemmas excp_defs = EXCP_UDEF_def EXCP_SWI_def EXCP_PREFETCH_ABORT_def EXCP_DATA_ABORT_def EXCP_IRQ_def
  EXCP_FIQ_def EXCP_BKPT_def EXCP_EXCEPTION_EXIT_def EXCP_SMC_def

definition arm_ldl_code :: "arm_ext \<Rightarrow> u32 \<Rightarrow> bool \<Rightarrow> u32" where
  "arm_ldl_code x addr do_swap = (let insn = ldl_code x addr in if do_swap then bswap32 x insn else insn)"

definition arm_lduw_code :: "arm_ext \<Rightarrow> u32 \<Rightarrow> bool \<Rightarrow> u16" where
  "arm_lduw_code x addr do_swap = (let insn = lduw_code x addr in if do_swap then bswap16 x insn else insn)"

section \<open>Exceptions of processors with modes\<close>

text \<open>
  The switch over the exception: either the exception is handled by semihosting, or the
  new mode, the vector, the status bits to set and the offset of the return address are
  selected.
\<close>

datatype entry = Handled cpu | Enter cpu u32 u32 u32 u32

definition semihosted :: "arm_ext \<Rightarrow> cpu \<Rightarrow> entry" where
  "semihosted x env = (let (r, env) = do_arm_semihosting x env in Handled (env\<lparr>regs := (regs env)[0 := r]\<rparr>))"

definition semihosting_swi :: "arm_ext \<Rightarrow> cpu \<Rightarrow> bool" where
  "semihosting_swi x env \<longleftrightarrow> semihosting_enabled x \<and>
     (let msk = (if thumb env \<noteq> 0 then ucast (arm_lduw_code x (regs env ! 15 - 2) (bswap_code env)) AND 0xff
                 else arm_ldl_code x (regs env ! 15 - 4) (bswap_code env) AND 0xffffff)
      in ((msk = 0x123456 \<and> thumb env = 0) \<or> (msk = 0xab \<and> thumb env \<noteq> 0))
         \<and> uncached_cpsr env AND CPSR_M \<noteq> ARM_CPU_MODE_USR)"

definition semihosting_bkpt :: "arm_ext \<Rightarrow> cpu \<Rightarrow> bool" where
  "semihosting_bkpt x env \<longleftrightarrow> thumb env \<noteq> 0 \<and> semihosting_enabled x \<and>
     (ucast (arm_lduw_code x (regs env ! 15) (bswap_code env)) AND 0xff = (0xab :: u32)
       \<and> uncached_cpsr env AND CPSR_M \<noteq> ARM_CPU_MODE_USR)"

definition select_exception :: "arm_ext \<Rightarrow> cpu \<Rightarrow> entry result" where
  "select_exception x env =
     (if exception_index env = EXCP_UDEF then
        Inr (Enter env ARM_CPU_MODE_UND 0x04 CPSR_I (if thumb env \<noteq> 0 then 2 else 4))
      else if exception_index env = EXCP_SWI then
        (if semihosting_swi x env then Inr (semihosted x env)
         else Inr (Enter env ARM_CPU_MODE_SVC 0x08 CPSR_I 0))
      else if exception_index env = EXCP_BKPT then
        (if semihosting_bkpt x env
         then Inr (semihosted x (env\<lparr>regs := (regs env)[15 := regs env ! 15 + 2]\<rparr>))
         else Inr (Enter (env\<lparr>cp15 := (cp15 env)\<lparr>cp15_c5_insn := 2\<rparr>\<rparr>) ARM_CPU_MODE_ABT 0x0c (CPSR_A OR CPSR_I) 4))
      else if exception_index env = EXCP_PREFETCH_ABORT then
        Inr (Enter env ARM_CPU_MODE_ABT 0x0c (CPSR_A OR CPSR_I) 4)
      else if exception_index env = EXCP_DATA_ABORT then
        Inr (Enter env ARM_CPU_MODE_ABT 0x10 (CPSR_A OR CPSR_I) 8)
      else if exception_index env = EXCP_IRQ then
        Inr (Enter env ARM_CPU_MODE_IRQ 0x18 (CPSR_A OR CPSR_I) 4)
      else if exception_index env = EXCP_FIQ then
        Inr (Enter env ARM_CPU_MODE_FIQ 0x1c (CPSR_A OR CPSR_I OR CPSR_F) 4)
      else if exception_index env = EXCP_SMC then
        (if semihosting_enabled x then Inl Cpu_Abort
         else
           let env = (if uncached_cpsr env AND CPSR_M = ARM_CPU_MODE_SMC
                      then env\<lparr>cp15 := (cp15 env)\<lparr>cp15_c1_scr := cp15_c1_scr (cp15 env) AND NOT 1\<rparr>\<rparr> else env)
           in Inr (Enter env ARM_CPU_MODE_SMC 0x08 (CPSR_A OR CPSR_I OR CPSR_F)
                     (if thumb env \<noteq> 0 then 2 else 0)))
      else Inl Cpu_Abort)"

definition vector_address :: "cpu \<Rightarrow> u32 \<Rightarrow> u32 \<Rightarrow> u32" where
  "vector_address env new_mode addr =
     (if arm_feature env ARM_FEATURE_TRUSTZONE then
        (if new_mode = ARM_CPU_MODE_SMC \<or> uncached_cpsr env AND CPSR_M = ARM_CPU_MODE_SMC
         then addr + cp15_c12_mvbar (cp15 env)
         else if cp15_c1_sys (cp15 env) AND push_bit 13 1 \<noteq> 0 then addr + 0xffff0000
         else addr + cp15_c12_vbar (cp15 env))
      else if cp15_c1_sys (cp15 env) AND push_bit 13 1 \<noteq> 0 then addr + 0xffff0000
      else addr)"

definition enter_exception :: "arm_ext \<Rightarrow> cpu \<Rightarrow> u32 \<Rightarrow> u32 \<Rightarrow> u32 \<Rightarrow> u32 \<Rightarrow> cpu result" where
  "enter_exception x env new_mode addr msk offset =
     (let addr = vector_address env new_mode addr in
      cbind (switch_mode new_mode env) (\<lambda>env.
        let env = env\<lparr>spsr := cpsr_read env\<rparr>;
            env = env\<lparr>condexec_bits := 0\<rparr>;
            env = env\<lparr>uncached_cpsr := (uncached_cpsr env AND NOT CPSR_M) OR new_mode\<rparr>;
            env = env\<lparr>uncached_cpsr := uncached_cpsr env OR msk\<rparr>;
            env = (if arm_feature env ARM_FEATURE_V4T
                   then env\<lparr>thumb := b2w (cp15_c1_sys (cp15 env) AND push_bit 30 1 \<noteq> 0)\<rparr> else env);
            env = env\<lparr>regs := (regs env)[14 := regs env ! 15 + offset]\<rparr>;
            env = env\<lparr>regs := (regs env)[15 := addr]\<rparr>
        in Inr (env\<lparr>interrupt_request := interrupt_request env OR CPU_INTERRUPT_EXITTB x\<rparr>)))"

definition arm_cpu_do_interrupt :: "arm_ext \<Rightarrow> cpu \<Rightarrow> cpu result" where
  "arm_cpu_do_interrupt x env =
     cbind (c_assert (\<not> arm_feature env ARM_FEATURE_M)) (\<lambda>_.
     cbind (select_exception x env) (\<lambda>e. case e of
         Handled env \<Rightarrow> Inr env
       | Enter env new_mode addr msk offset \<Rightarrow> enter_exception x env new_mode addr msk offset))"

section \<open>Exceptions of the microcontroller profile\<close>

definition v7m_push :: "('m, 'n) v7m_ext \<Rightarrow> u32 \<Rightarrow> cpu \<times> 'm \<Rightarrow> cpu \<times> 'm" where
  "v7m_push x val = (\<lambda>(env, mem).
     let env = env\<lparr>regs := (regs env)[13 := regs env ! 13 - 4]\<rparr>
     in (env, stl_phys x (regs env ! 13) val mem))"

definition v7m_pop :: "('m, 'n) v7m_ext \<Rightarrow> 'm \<Rightarrow> cpu \<Rightarrow> u32 \<times> cpu" where
  "v7m_pop x mem env =
     (let val = ldl_phys x (regs env ! 13) mem
      in (val, env\<lparr>regs := (regs env)[13 := regs env ! 13 + 4]\<rparr>))"

definition switch_v7m_sp :: "int \<Rightarrow> cpu \<Rightarrow> cpu" where
  "switch_v7m_sp process env =
     (if v7m_current_sp env \<noteq> process then
        let tmp = v7m_other_sp env in
        env\<lparr>v7m_other_sp := regs env ! 13, regs := (regs env)[13 := tmp], v7m_current_sp := process\<rparr>
      else env)"

text \<open>A popped word stored into register \<open>i\<close>.\<close>

definition pop_reg :: "('m, 'n) v7m_ext \<Rightarrow> 'm \<Rightarrow> nat \<Rightarrow> cpu \<Rightarrow> cpu" where
  "pop_reg x mem i env = (let (val, env) = v7m_pop x mem env in env\<lparr>regs := (regs env)[i := val]\<rparr>)"

definition v7m_pop_frame :: "('m, 'n) v7m_ext \<Rightarrow> 'm \<Rightarrow> cpu \<Rightarrow> cpu" where
  "v7m_pop_frame x mem env =
     (let env = pop_reg x mem 0 env;
          env = pop_reg x mem 1 env;
          env = pop_reg x mem 2 env;
          env = pop_reg x mem 3 env;
          env = pop_reg x mem 12 env;
          env = pop_reg x mem 14 env
      in pop_reg x mem 15 env)"

definition do_v7m_exception_exit :: "('m, 'n) v7m_ext \<Rightarrow> cpu \<times> 'm \<times> 'n \<Rightarrow> cpu \<times> 'm \<times> 'n" where
  "do_v7m_exception_exit x = (\<lambda>(env, mem, nvic).
     let type = regs env ! 15;
         nvic = (if v7m_exception env \<noteq> 0 then nvic_complete_irq x (v7m_exception env) nvic else nvic);
         env = switch_v7m_sp (if type AND 4 \<noteq> 0 then 1 else 0) env;
         env = v7m_pop_frame x mem env;
         env = env\<lparr>thumb := regs env ! 15 AND 1\<rparr>;
         env = env\<lparr>regs := (regs env)[15 := regs env ! 15 AND NOT 1]\<rparr>;
         (xpsr, env) = v7m_pop x mem env;
         env = xpsr_write xpsr 0xfffffdff env;
         env = (if xpsr AND 0x200 \<noteq> 0 then env\<lparr>regs := (regs env)[13 := regs env ! 13 OR 4]\<rparr> else env)
     in (env, mem, nvic))"

text \<open>
  The part of the entry that stacks the frame and jumps to the handler. The program
  counter is stacked with the Thumb bit, as the VarEMU build does.
\<close>

definition v7m_push_frame :: "('m, 'n) v7m_ext \<Rightarrow> u32 \<Rightarrow> cpu \<times> 'm \<Rightarrow> cpu \<times> 'm" where
  "v7m_push_frame x xpsr s =
     (let s = v7m_push x xpsr s;
          s = v7m_push x (regs (fst s) ! 15 OR b2w (thumb (fst s) \<noteq> 0)) s;
          s = v7m_push x (regs (fst s) ! 14) s;
          s = v7m_push x (regs (fst s) ! 12) s;
          s = v7m_push x (regs (fst s) ! 3) s;
          s = v7m_push x (regs (fst s) ! 2) s;
          s = v7m_push x (regs (fst s) ! 1) s
      in v7m_push x (regs (fst s) ! 0) s)"

definition v7m_enter :: "('m, 'n) v7m_ext \<Rightarrow> u32 \<Rightarrow> u32 \<Rightarrow> cpu \<times> 'm \<Rightarrow> cpu \<times> 'm" where
  "v7m_enter x lr xpsr = (\<lambda>(env, mem).
     let (xpsr, env) = (if regs env ! 13 AND 4 \<noteq> 0
                        then (xpsr OR 0x200, env\<lparr>regs := (regs env)[13 := regs env ! 13 - 4]\<rparr>)
                        else (xpsr, env));
         (env, mem) = v7m_push_frame x xpsr (env, mem);
         env = switch_v7m_sp 0 env;
         env = env\<lparr>condexec_bits := 0\<rparr>;
         env = env\<lparr>regs := (regs env)[14 := lr]\<rparr>;
         addr = ldl_phys x (v7m_vecbase env + word_of_int (v7m_exception env) * 4) mem;
         env = env\<lparr>regs := (regs env)[15 := addr AND 0xfffffffe]\<rparr>;
         env = env\<lparr>thumb := addr AND 1\<rparr>
     in (env, mem))"

definition arm_v7m_cpu_do_interrupt ::
    "arm_ext \<Rightarrow> ('m, 'n) v7m_ext \<Rightarrow> cpu \<times> 'm \<times> 'n \<Rightarrow> (cpu \<times> 'm \<times> 'n) result" where
  "arm_v7m_cpu_do_interrupt ax x = (\<lambda>(env, mem, nvic).
     let xpsr = xpsr_read env;
         lr = 0xfffffff1;
         lr = (if v7m_current_sp env \<noteq> 0 then lr OR 4 else lr);
         lr = (if v7m_exception env = 0 then lr OR 8 else lr)
     in if exception_index env = EXCP_UDEF then Inr (env, mem, nvic_set_pending x ARMV7M_EXCP_USAGE nvic)
        else if exception_index env = EXCP_SWI then Inr (env, mem, nvic_set_pending x ARMV7M_EXCP_SVC nvic)
        else if exception_index env = EXCP_PREFETCH_ABORT \<or> exception_index env = EXCP_DATA_ABORT
          then Inr (env, mem, nvic_set_pending x ARMV7M_EXCP_MEM nvic)
        else if exception_index env = EXCP_BKPT then
          (if semihosting_enabled ax
              \<and> ucast (arm_lduw_code ax (regs env ! 15) (bswap_code env)) AND 0xff = (0xab :: u32)
           then let env = env\<lparr>regs := (regs env)[15 := regs env ! 15 + 2]\<rparr>;
                    (r, env) = do_arm_semihosting ax env
                in Inr (env\<lparr>regs := (regs env)[0 := r]\<rparr>, mem, nvic)
           else Inr (env, mem, nvic_set_pending x ARMV7M_EXCP_DEBUG nvic))
        else if exception_index env = EXCP_IRQ then
          let (e, nvic) = nvic_acknowledge_irq x nvic;
              (env, mem) = v7m_enter x lr xpsr (env\<lparr>v7m_exception := e\<rparr>, mem)
          in Inr (env, mem, nvic)
        else if exception_index env = EXCP_EXCEPTION_EXIT then Inr (do_v7m_exception_exit x (env, mem, nvic))
        else Inl Cpu_Abort)"

section \<open>Exception entry and return\<close>

text \<open>Two states with the same registers, banks and status register.\<close>

definition same_core :: "cpu \<Rightarrow> cpu \<Rightarrow> bool" where
  "same_core e e' \<longleftrightarrow> regs e = regs e' \<and> banked_r13 e = banked_r13 e' \<and> banked_r14 e = banked_r14 e'
     \<and> banked_spsr e = banked_spsr e' \<and> spsr e = spsr e' \<and> usr_regs e = usr_regs e' \<and> fiq_regs e = fiq_regs e'
     \<and> uncached_cpsr e = uncached_cpsr e' \<and> NF e = NF e' \<and> ZF e = ZF e' \<and> CF e = CF e' \<and> VF e = VF e'
     \<and> QF e = QF e' \<and> GE e = GE e' \<and> thumb e = thumb e' \<and> condexec_bits e = condexec_bits e'"

lemma arch_reg_cong:
  assumes "regs e = regs e'" "banked_r13 e = banked_r13 e'" "banked_r14 e = banked_r14 e'"
    "usr_regs e = usr_regs e'" "fiq_regs e = fiq_regs e'" "cpu_mode e = cpu_mode e'"
  shows "arch_reg e m r = arch_reg e' m r"
  unfolding arch_reg_def assms ..

lemma arch_spsr_cong:
  assumes "spsr e = spsr e'" "banked_spsr e = banked_spsr e'" "cpu_mode e = cpu_mode e'"
  shows "arch_spsr e m = arch_spsr e' m"
  unfolding arch_spsr_def assms ..

lemma same_core_view:
  assumes "same_core e e'"
  shows "arch_reg e m r = arch_reg e' m r" "arch_spsr e m = arch_spsr e' m" "cpsr_read e = cpsr_read e'"
    "cpu_mode e = cpu_mode e'" "cpu_wf e = cpu_wf e'" "cpsr_wf e = cpsr_wf e'" "regs e = regs e'"
  using assms
  by (auto simp: same_core_def cpsr_read_def cpu_wf_def cpsr_wf_def cpu_mode_def intro!: arch_reg_cong arch_spsr_cong)

lemma select_frame:
  assumes "select_exception x env = Inr (Enter env1 nm addr msk off)"
  shows "same_core env1 env"
    "nm \<in> {ARM_CPU_MODE_UND, ARM_CPU_MODE_SVC, ARM_CPU_MODE_ABT, ARM_CPU_MODE_IRQ, ARM_CPU_MODE_FIQ, ARM_CPU_MODE_SMC}"
    "msk \<in> {CPSR_I, CPSR_A OR CPSR_I, CPSR_A OR CPSR_I OR CPSR_F}"
  using assms by (auto simp: select_exception_def semihosted_def Let_def same_core_def split: if_splits prod.splits)

lemma select_modes:
  assumes "select_exception x env = Inr (Enter env1 nm addr msk off)"
  shows "valid_mode nm" "msk AND CPSR_M = 0" "msk AND CPSR_I = CPSR_I" "msk AND CACHED_CPSR_BITS = 0"
    "nm AND CACHED_CPSR_BITS = 0"
  using select_frame(2,3) [OF assms]
  by (auto simp: valid_mode_def bank_number_def mode_defs cpsr_consts)

lemma entry_table:
  assumes "select_exception x env = Inr (Enter env1 nm addr msk off)"
  shows "(exception_index env, nm, addr, off) \<in> {(EXCP_UDEF, ARM_CPU_MODE_UND, 0x04, if thumb env \<noteq> 0 then 2 else 4),
     (EXCP_SWI, ARM_CPU_MODE_SVC, 0x08, 0), (EXCP_BKPT, ARM_CPU_MODE_ABT, 0x0c, 4),
     (EXCP_PREFETCH_ABORT, ARM_CPU_MODE_ABT, 0x0c, 4), (EXCP_DATA_ABORT, ARM_CPU_MODE_ABT, 0x10, 8),
     (EXCP_IRQ, ARM_CPU_MODE_IRQ, 0x18, 4), (EXCP_FIQ, ARM_CPU_MODE_FIQ, 0x1c, 4),
     (EXCP_SMC, ARM_CPU_MODE_SMC, 0x08, if thumb env \<noteq> 0 then 2 else 0)}"
  using assms by (auto simp: select_exception_def semihosted_def Let_def split: if_splits prod.splits)

text \<open>The state after the mode switch, on which the rest of the entry works.\<close>

lemma enter_exception_Inr:
  assumes "enter_exception x env nm addr msk off = Inr env'"
  obtains e where "switch_mode nm env = Inr e" and "spsr env' = cpsr_read e" and "condexec_bits env' = 0"
    and "uncached_cpsr env' = uncached_cpsr (set_mode nm e) OR msk"
    and "regs env' = (regs e)[14 := regs e ! 15 + off, 15 := vector_address env nm addr]"
    and "banked_r13 env' = banked_r13 e" "banked_r14 env' = banked_r14 e" "banked_spsr env' = banked_spsr e"
    and "usr_regs env' = usr_regs e" "fiq_regs env' = fiq_regs e"
    and "CF env' = CF e" "QF env' = QF e" "GE env' = GE e" "thumb env' \<in> {thumb e, 0, 1}"
proof -
  from assms obtain e where sw: "switch_mode nm env = Inr e"
    unfolding enter_exception_def Let_def by (auto simp: cbind_Inr_iff)
  show thesis
    using assms by (intro that [OF sw]) (auto simp: sw enter_exception_def Let_def set_mode_def b2w_def)
qed

lemma switch_mode_wf:
  assumes "switch_mode m env = Inr env'" "cpu_wf env"
  shows "cpu_wf env'" "regs env' ! 15 = regs env ! 15"
  using assms
  by (auto simp: switch_mode_def Let_def cbind_Inr_iff cpu_wf_def set_regs_8_12_def regs_8_12_def nth_append
      split: if_splits)

lemma switch_mode_cpsr: "switch_mode m env = Inr env' \<Longrightarrow> cpsr_read env' = cpsr_read env"
  by (simp add: cpsr_read_def switch_mode_frame)

lemma mode_with_mask: "valid_mode nm \<Longrightarrow> msk AND CPSR_M = 0 \<Longrightarrow> uncached_cpsr e' = uncached_cpsr (set_mode nm e) OR msk \<Longrightarrow>
    cpu_mode e' = nm"
  using mode_set_mode [of nm e] by (simp add: cpu_mode_def bit.conj_disj_distrib2)

lemma entry_state:
  assumes "cpu_wf env" "valid_mode (cpu_mode env)" "\<not> arm_feature env ARM_FEATURE_M"
    and "select_exception x env = Inr (Enter env1 nm addr msk off)"
  shows "\<exists>env'. arm_cpu_do_interrupt x env = Inr env' \<and> cpu_mode env' = nm \<and> uncached_cpsr env' AND CPSR_I \<noteq> 0
    \<and> arch_spsr env' nm = cpsr_read env \<and> regs env' ! 14 = regs env ! 15 + off
    \<and> regs env' ! 15 = vector_address env1 nm addr
    \<and> (\<forall>m r. valid_mode m \<longrightarrow> r < 15 \<longrightarrow> \<not> (r = 14 \<and> bank_number m = bank_number nm) \<longrightarrow>
         arch_reg env' m r = arch_reg env m r)
    \<and> (\<forall>m. valid_mode m \<longrightarrow> bank_number m \<noteq> bank_number nm \<longrightarrow> arch_spsr env' m = arch_spsr env m)"
proof -
  note c = select_frame(1) [OF assms(4)] and sm = select_modes [OF assms(4)]
  note v = same_core_view [OF c]
  have wf1: "cpu_wf env1" "valid_mode (cpu_mode env1)" using assms(1,2) v by simp_all
  obtain e where e: "switch_mode nm env1 = Inr e" using switch_mode_total [OF wf1(2) sm(1)] by blast
  obtain env' where env': "enter_exception x env1 nm addr msk off = Inr env'"
    using e by (simp add: enter_exception_def Let_def)
  from env' e obtain
    s: "spsr env' = cpsr_read e" and
    u: "uncached_cpsr env' = uncached_cpsr (set_mode nm e) OR msk" and
    r: "regs env' = (regs e)[14 := regs e ! 15 + off, 15 := vector_address env1 nm addr]" and
    b: "banked_r13 env' = banked_r13 e" "banked_r14 env' = banked_r14 e" "banked_spsr env' = banked_spsr e"
      "usr_regs env' = usr_regs e" "fiq_regs env' = fiq_regs e"
    by (elim enter_exception_Inr) auto
  have m: "cpu_mode env' = nm" by (rule mode_with_mask [OF sm(1,2) u])
  have m2: "cpu_mode (set_mode nm e) = nm" by (rule mode_set_mode [OF sm(1)])
  have l: "length (regs e) = 16" "regs e ! 15 = regs env ! 15"
    using switch_mode_wf [OF e wf1(1)] v by (simp_all add: cpu_wf_def)
  have regs: "arch_reg env' k r = arch_reg env k r" if "valid_mode k" "r < 15" "\<not> (r = 14 \<and> bank_number k = bank_number nm)" for k r
  proof -
    have "arch_reg env' k r = arch_reg (set_mode nm e) k r"
      using that(2,3) l(1) by (auto simp: arch_reg_def m m2 b r nth_list_update)
    then show ?thesis using switch_mode_arch [OF wf1 sm(1) e that(1), of r] that(2) v by simp
  qed
  have "arch_spsr env' k = arch_spsr env k" if "valid_mode k" "bank_number k \<noteq> bank_number nm" for k
  proof -
    have "arch_spsr env' k = arch_spsr (set_mode nm e) k" using that(2) by (simp add: arch_spsr_def m m2 b)
    then show ?thesis using switch_mode_arch [OF wf1 sm(1) e that(1), of 0] v by simp
  qed
  moreover have "arm_cpu_do_interrupt x env = Inr env'"
    using assms(3,4) env' by (simp add: arm_cpu_do_interrupt_def)
  moreover have "uncached_cpsr env' AND CPSR_I \<noteq> 0"
    using sm(3) u by (auto simp: bit.conj_disj_distrib2 CPSR_I_def)
  moreover have "arch_spsr env' nm = cpsr_read env"
    using s switch_mode_cpsr [OF e] v by (simp add: arch_spsr_def m)
  moreover have "regs env' ! 14 = regs env ! 15 + off" "regs env' ! 15 = vector_address env1 nm addr"
    using l by (simp_all add: r)
  ultimately show ?thesis using m regs by blast
qed

lemma xor_and_zero: "(u XOR v) AND k = 0 \<Longrightarrow> u AND k = v AND (k :: u32)"
proof (rule bit_word_eqI)
  fix n
  assume "(u XOR v) AND k = 0"
  then have "\<not> bit ((u XOR v) AND k) n" by simp
  then show "bit (u AND k) n = bit (v AND k) n" by (auto simp: bit_and_iff bit_xor_iff)
qed

lemma mode_update:
  assumes "k AND CPSR_M = CPSR_M"
  shows "((u AND NOT (k AND NOT CACHED_CPSR_BITS)) OR (v AND (k AND NOT CACHED_CPSR_BITS))) AND CPSR_M = v AND CPSR_M"
proof (rule bit_word_eqI)
  fix n assume "n < LENGTH(32)"
  show "bit (((u AND NOT (k AND NOT CACHED_CPSR_BITS)) OR (v AND (k AND NOT CACHED_CPSR_BITS))) AND CPSR_M) n =
     bit (v AND CPSR_M) n"
  proof (cases "bit CPSR_M n")
    case True
    then have "bit k n" using assms by (metis bit_and_iff)
    moreover have "\<not> bit CACHED_CPSR_BITS n"
    proof
      assume "bit CACHED_CPSR_BITS n"
      then have "bit (CACHED_CPSR_BITS AND CPSR_M) n" using True by (simp add: bit_and_iff)
      then show False by (simp add: cpsr_consts)
    qed
    ultimately show ?thesis using \<open>n < LENGTH(32)\<close> by (auto simp: bit_simps)
  qed (simp add: bit_and_iff)
qed

lemma cpsr_write_registers:
  assumes "cpsr_write val msk env = Inr env'" "msk AND CPSR_M = CPSR_M" "\<not> bad_mode_switch (val AND CPSR_M)"
    and "cpu_wf env" "valid_mode (cpu_mode env)" "valid_mode m" "r < 16"
  shows "arch_reg env' m r = arch_reg env m r" "cpu_mode env' = val AND CPSR_M"
proof -
  let ?e = "cpsr_write_flags val msk env"
  let ?k = "msk AND NOT CACHED_CPSR_BITS"
  have wf: "cpu_wf ?e" "cpu_mode ?e = cpu_mode env"
    using assms(4) by (simp_all add: cpu_wf_def flags_regs cpu_mode_def)
  have ar: "arch_reg ?e m r = arch_reg env m r" using wf(2) by (intro arch_reg_cong) (simp_all add: flags_regs)
  have vm: "valid_mode (val AND CPSR_M)"
    using assms(3) by (auto simp: bad_mode_switch_def valid_mode_def bank_number_def)
  have xm: "(uncached_cpsr env XOR val) AND msk AND CPSR_M = (uncached_cpsr env XOR val) AND CPSR_M"
    using assms(2) by (simp add: and.assoc)
  obtain e2 where e2: "env' = e2\<lparr>uncached_cpsr := (uncached_cpsr e2 AND NOT ?k) OR (val AND ?k)\<rparr>"
    and c: "((uncached_cpsr env XOR val) AND CPSR_M = 0 \<and> e2 = ?e)
      \<or> switch_mode (val AND CPSR_M) ?e = Inr e2"
  proof (cases "(uncached_cpsr env XOR val) AND CPSR_M = 0")
    case True
    with assms(1) show thesis
      by (intro that [of ?e]) (simp_all add: cpsr_write_def Let_def flags_regs xm)
  next
    case False
    with assms(1,3) obtain e2 where "switch_mode (val AND CPSR_M) ?e = Inr e2"
      "env' = e2\<lparr>uncached_cpsr := (uncached_cpsr e2 AND NOT ?k) OR (val AND ?k)\<rparr>"
      by (auto simp: cpsr_write_def Let_def cbind_Inr_iff flags_regs xm)
    then show thesis by (intro that [of e2]) simp_all
  qed
  show m: "cpu_mode env' = val AND CPSR_M" using mode_update [OF assms(2)] by (simp add: e2 cpu_mode_def)
  from c show "arch_reg env' m r = arch_reg env m r"
  proof
    assume c: "(uncached_cpsr env XOR val) AND CPSR_M = 0 \<and> e2 = ?e"
    then have "cpu_mode env' = cpu_mode env" using m xor_and_zero [of "uncached_cpsr env" val CPSR_M] by (simp add: cpu_mode_def)
    then have "arch_reg env' m r = arch_reg ?e m r" using c wf(2) by (intro arch_reg_cong) (simp_all add: e2)
    then show ?thesis using ar by simp
  next
    assume s: "switch_mode (val AND CPSR_M) ?e = Inr e2"
    have "arch_reg env' m r = arch_reg (set_mode (val AND CPSR_M) e2) m r"
      using m mode_set_mode [OF vm] by (intro arch_reg_cong) (simp_all add: e2)
    then show ?thesis
      using switch_mode_arch [OF wf(1) _ vm s assms(6,7)] assms(5) wf(2) ar by simp
  qed
qed

lemma cpsr_mode:
  assumes "cpsr_wf env"
  shows "cpsr_read env AND CPSR_M = cpu_mode env"
proof (rule bit_word_eqI)
  fix n assume "n < LENGTH(32)"
  show "bit (cpsr_read env AND CPSR_M) n = bit (cpu_mode env) n"
  proof (cases "n < 5")
    case True
    then have "n \<in> {0, 1, 2, 3, 4}" by auto
    then show ?thesis
      by (elim insertE emptyE) (simp_all add: cpsr_read_def cpu_mode_def bit_simps Let_def CPSR_M_def)
  next
    case False
    have "CPSR_M = mask 5" by (simp add: CPSR_M_def mask_eq_exp_minus_1)
    then have "\<not> bit CPSR_M n" unfolding \<open>CPSR_M = mask 5\<close> bit_mask_iff using False by simp
    then show ?thesis by (simp add: cpu_mode_def bit_and_iff)
  qed
qed

lemma entry_wf:
  assumes "cpu_wf env" "cpsr_wf env" "select_exception x env = Inr (Enter env1 nm addr msk off)"
    and "arm_cpu_do_interrupt x env = Inr env'"
  shows "cpu_wf env'" "cpsr_wf env'"
proof -
  note v = same_core_view [OF select_frame(1) [OF assms(3)]] and sm = select_modes [OF assms(3)]
  have "enter_exception x env1 nm addr msk off = Inr env'"
    using assms(3,4) by (auto simp: arm_cpu_do_interrupt_def cbind_Inr_iff)
  then obtain e where e: "switch_mode nm env1 = Inr e"
    and u: "uncached_cpsr env' = uncached_cpsr (set_mode nm e) OR msk"
    and r: "regs env' = (regs e)[14 := regs e ! 15 + off, 15 := vector_address env1 nm addr]"
    and b: "banked_r13 env' = banked_r13 e" "banked_r14 env' = banked_r14 e" "banked_spsr env' = banked_spsr e"
      "usr_regs env' = usr_regs e" "fiq_regs env' = fiq_regs e"
    and f: "CF env' = CF e" "QF env' = QF e" "GE env' = GE e" "thumb env' \<in> {thumb e, 0, 1}"
    by (rule enter_exception_Inr)
  have "cpu_wf e" using switch_mode_wf [OF e] assms(1) v by simp
  then show "cpu_wf env'" by (simp add: cpu_wf_def r b)
  have w: "cpsr_wf e" using assms(2) v switch_mode_frame [OF e] by (simp add: cpsr_wf_def)
  have "(uncached_cpsr e AND NOT CPSR_M) AND CACHED_CPSR_BITS = (uncached_cpsr e AND CACHED_CPSR_BITS) AND NOT CPSR_M"
    by (simp only: ac_simps)
  also have "\<dots> = 0" using w by (simp only: cpsr_wf_def bit.conj_zero_left)
  finally have z: "(uncached_cpsr e AND NOT CPSR_M) AND CACHED_CPSR_BITS = 0" .
  have "uncached_cpsr env' = (uncached_cpsr e AND NOT CPSR_M) OR nm OR msk"
    by (simp add: u set_mode_def or.assoc)
  then have "uncached_cpsr env' AND CACHED_CPSR_BITS = 0"
    using sm(4,5) z by (simp only: bit.conj_disj_distrib2 or.left_neutral)
  then show "cpsr_wf env'" using w f by (auto simp: cpsr_wf_def)
qed

definition demo_arm_ext :: arm_ext where
  "demo_arm_ext = \<lparr>semihosting_enabled = False, ldl_code = (\<lambda>_. 0), lduw_code = (\<lambda>_. 0), bswap32 = id,
     bswap16 = id, do_arm_semihosting = (\<lambda>env. (0, env)), CPU_INTERRUPT_EXITTB = 4\<rparr>"

lemma demo_irq:
  "cpu_wf (demo_cpu\<lparr>exception_index := EXCP_IRQ\<rparr>)"
  "valid_mode (cpu_mode (demo_cpu\<lparr>exception_index := EXCP_IRQ\<rparr>))"
  "\<not> arm_feature (demo_cpu\<lparr>exception_index := EXCP_IRQ\<rparr>) ARM_FEATURE_M"
  "select_exception demo_arm_ext (demo_cpu\<lparr>exception_index := EXCP_IRQ\<rparr>) =
     Inr (Enter (demo_cpu\<lparr>exception_index := EXCP_IRQ\<rparr>) ARM_CPU_MODE_IRQ 0x18 (CPSR_A OR CPSR_I) 4)"
  "regs demo_cpu ! 15 = 15"
  "vector_address (demo_cpu\<lparr>exception_index := EXCP_IRQ\<rparr>) ARM_CPU_MODE_IRQ 0x18 = 0x18"
  "\<exists>env'. arm_cpu_do_interrupt demo_arm_ext (demo_cpu\<lparr>exception_index := EXCP_IRQ\<rparr>) = Inr env'"
proof -
  have m: "cpu_mode (demo_cpu\<lparr>exception_index := EXCP_IRQ\<rparr>) = cpu_mode demo_cpu" by (simp add: cpu_mode_def)
  show 1: "cpu_wf (demo_cpu\<lparr>exception_index := EXCP_IRQ\<rparr>)" using demo_cpu_wf(1) by (simp add: cpu_wf_def)
  show 2: "valid_mode (cpu_mode (demo_cpu\<lparr>exception_index := EXCP_IRQ\<rparr>))"
    unfolding m demo_cpu_wf(3) by (rule valid_modes)
  show 3: "\<not> arm_feature (demo_cpu\<lparr>exception_index := EXCP_IRQ\<rparr>) ARM_FEATURE_M"
    by (simp add: arm_feature_def demo_cpu_def)
  show 4: "select_exception demo_arm_ext (demo_cpu\<lparr>exception_index := EXCP_IRQ\<rparr>) =
     Inr (Enter (demo_cpu\<lparr>exception_index := EXCP_IRQ\<rparr>) ARM_CPU_MODE_IRQ 0x18 (CPSR_A OR CPSR_I) 4)"
    by (simp add: select_exception_def excp_defs)
  show "regs demo_cpu ! 15 = 15" by (simp add: demo_cpu_def)
  show "vector_address (demo_cpu\<lparr>exception_index := EXCP_IRQ\<rparr>) ARM_CPU_MODE_IRQ 0x18 = 0x18"
    by (simp add: vector_address_def arm_feature_def demo_cpu_def cp15_zero_def)
  show "\<exists>env'. arm_cpu_do_interrupt demo_arm_ext (demo_cpu\<lparr>exception_index := EXCP_IRQ\<rparr>) = Inr env'"
    using entry_state [OF 1 2 3 4] by blast
qed

text \<open>
  C27. Exception entry is precise. On a processor with modes, from any valid mode and for
  every exception that is not a semihosting call, the entry returns; the processor is
  then in the exception's mode with interrupts masked, at the vector, with the old
  status register saved as that mode's, the return address in its link register, and
  every other register and saved status of every mode as it was. Mode, vector and return
  offset are those of the architecture's table.
\<close>

theorem exception_entry:
  assumes "cpu_wf env" "valid_mode (cpu_mode env)" "\<not> arm_feature env ARM_FEATURE_M"
    and "select_exception x env = Inr (Enter env1 nm addr msk off)"
  shows "\<exists>env'. arm_cpu_do_interrupt x env = Inr env' \<and> cpu_mode env' = nm \<and> uncached_cpsr env' AND CPSR_I \<noteq> 0
    \<and> arch_spsr env' nm = cpsr_read env \<and> arch_reg env' nm 14 = regs env ! 15 + off
    \<and> regs env' ! 15 = vector_address env1 nm addr
    \<and> (\<forall>m r. valid_mode m \<longrightarrow> r < 15 \<longrightarrow> \<not> (r = 14 \<and> bank_number m = bank_number nm) \<longrightarrow>
         arch_reg env' m r = arch_reg env m r)
    \<and> (\<forall>m. valid_mode m \<longrightarrow> bank_number m \<noteq> bank_number nm \<longrightarrow> arch_spsr env' m = arch_spsr env m)
    \<and> (exception_index env, nm, addr, off) \<in> {(EXCP_UDEF, ARM_CPU_MODE_UND, 0x04, if thumb env \<noteq> 0 then 2 else 4),
         (EXCP_SWI, ARM_CPU_MODE_SVC, 0x08, 0), (EXCP_BKPT, ARM_CPU_MODE_ABT, 0x0c, 4),
         (EXCP_PREFETCH_ABORT, ARM_CPU_MODE_ABT, 0x0c, 4), (EXCP_DATA_ABORT, ARM_CPU_MODE_ABT, 0x10, 8),
         (EXCP_IRQ, ARM_CPU_MODE_IRQ, 0x18, 4), (EXCP_FIQ, ARM_CPU_MODE_FIQ, 0x1c, 4),
         (EXCP_SMC, ARM_CPU_MODE_SMC, 0x08, if thumb env \<noteq> 0 then 2 else 0)}"
proof -
  have "cpu_mode e = nm \<Longrightarrow> arch_reg e nm 14 = regs e ! 14" for e by (simp add: arch_reg_def)
  then show ?thesis using entry_state [OF assms] entry_table [OF assms(4)] by auto
qed

theorem exception_entry_witness:
  "\<exists>env'. arm_cpu_do_interrupt demo_arm_ext (demo_cpu\<lparr>exception_index := EXCP_IRQ\<rparr>) = Inr env'
    \<and> cpu_mode env' = ARM_CPU_MODE_IRQ \<and> arch_reg env' ARM_CPU_MODE_IRQ 14 = 19 \<and> regs env' ! 15 = 0x18"
  using exception_entry [OF demo_irq(1,2,3,4)] demo_irq(5,6) by auto


end
