(* ===== verification/Vemu_Double.thy ===== *)
theory Vemu_Double
  imports Vemu_Prelude "HOL-Library.Log_Nat"
begin

text \<open>
  The C type \<^verbatim>\<open>double\<close>, on which VarEMU keeps its cycle counts, active times,
  energies and power model parameters: IEEE 754 binary64 with rounding to nearest, ties
  to even, as a host with \<^verbatim>\<open>FLT_EVAL_METHOD = 0\<close> computes it. A finite value is the
  rational number it denotes; the model does not tell the two zeros apart (they compare
  equal in C, and no divisor in the modelled sources can be a negative zero).
  The theory defines rounding, the arithmetic and comparison operators, the conversions
  between \<^verbatim>\<open>double\<close> and 64-bit integers (out-of-range conversions are undefined in C
  and give \<open>Bad_Conversion\<close>), and proves what the components use of them: rounding is
  monotone and idempotent, integers up to \<open>2 ^ 53\<close> are exact, adding a non-negative
  value never decreases a sum.
\<close>

section \<open>The values of type double\<close>

datatype double = Fin rat | PInf | NInf | NaN

text \<open>
  Rounding a rational to the nearest integer, ties to the even one; the exponent of a
  positive rational, the exponent of the last place of its binary64 approximation
  (52 places below the leading bit, and never below the last subnormal place), the
  rounded value with unbounded exponent range, and the rounding with overflow.
\<close>

definition rne :: "rat \<Rightarrow> int" where
  "rne x = (let f = \<lfloor>x\<rfloor>; r = x - of_int f in
     if r < 1 / 2 then f else if 1 / 2 < r then f + 1 else if even f then f else f + 1)"

definition ilog2 :: "rat \<Rightarrow> int" where
  "ilog2 q = (let (n, d) = quotient_of q; k = bitlen n - bitlen d
              in if 2 powi k \<le> q then k else k - 1)"

definition rexp :: "rat \<Rightarrow> int" where
  "rexp q = max (ilog2 \<bar>q\<bar> - 52) (- 1074)"

definition rv :: "rat \<Rightarrow> rat" where
  "rv q = of_int (rne (q / 2 powi rexp q)) * 2 powi rexp q"

definition rnd :: "rat \<Rightarrow> double" where
  "rnd q = (if 2 ^ 1024 \<le> \<bar>rv q\<bar> then (if 0 < q then PInf else NInf) else Fin (rv q))"

section \<open>Arithmetic\<close>

text \<open>\<open>dinf s\<close> is an infinity of the sign of \<open>s\<close>, and not a number for zero.\<close>

definition dinf :: "rat \<Rightarrow> double" where
  "dinf s = (if 0 < s then PInf else if s < 0 then NInf else NaN)"

fun dneg :: "double \<Rightarrow> double" where
  "dneg (Fin a) = Fin (- a)"
| "dneg PInf = NInf"
| "dneg NInf = PInf"
| "dneg NaN = NaN"

fun dadd :: "double \<Rightarrow> double \<Rightarrow> double" where
  "dadd (Fin a) (Fin b) = rnd (a + b)"
| "dadd NaN _ = NaN"
| "dadd _ NaN = NaN"
| "dadd PInf NInf = NaN"
| "dadd NInf PInf = NaN"
| "dadd PInf _ = PInf"
| "dadd _ PInf = PInf"
| "dadd NInf _ = NInf"
| "dadd _ NInf = NInf"

fun dmul :: "double \<Rightarrow> double \<Rightarrow> double" where
  "dmul (Fin a) (Fin b) = rnd (a * b)"
| "dmul NaN _ = NaN"
| "dmul _ NaN = NaN"
| "dmul PInf (Fin b) = dinf b"
| "dmul NInf (Fin b) = dinf (- b)"
| "dmul (Fin a) PInf = dinf a"
| "dmul (Fin a) NInf = dinf (- a)"
| "dmul PInf PInf = PInf"
| "dmul PInf NInf = NInf"
| "dmul NInf PInf = NInf"
| "dmul NInf NInf = PInf"

fun ddiv :: "double \<Rightarrow> double \<Rightarrow> double" where
  "ddiv (Fin a) (Fin b) = (if b = 0 then dinf a else rnd (a / b))"
| "ddiv NaN _ = NaN"
| "ddiv _ NaN = NaN"
| "ddiv PInf (Fin b) = (if 0 \<le> b then PInf else NInf)"
| "ddiv NInf (Fin b) = (if 0 \<le> b then NInf else PInf)"
| "ddiv (Fin a) _ = Fin 0"
| "ddiv _ _ = NaN"

fun dle :: "double \<Rightarrow> double \<Rightarrow> bool" where
  "dle (Fin a) (Fin b) = (a \<le> b)"
| "dle NaN _ = False"
| "dle _ NaN = False"
| "dle NInf _ = True"
| "dle _ PInf = True"
| "dle _ _ = False"

definition dlt :: "double \<Rightarrow> double \<Rightarrow> bool" where
  "dlt a b \<longleftrightarrow> dle a b \<and> \<not> dle b a"

fun deq :: "double \<Rightarrow> double \<Rightarrow> bool" where
  "deq NaN _ = False"
| "deq a b = (a = b)"

instantiation double :: "{zero, one, plus, minus, uminus, times, inverse, ord}"
begin

definition zero_double :: double where "zero_double = Fin 0"
definition one_double :: double where "one_double = Fin 1"
definition uminus_double :: "double \<Rightarrow> double" where "uminus_double = dneg"
definition plus_double :: "double \<Rightarrow> double \<Rightarrow> double" where "plus_double = dadd"
definition minus_double :: "double \<Rightarrow> double \<Rightarrow> double" where "minus_double a b = dadd a (dneg b)"
definition times_double :: "double \<Rightarrow> double \<Rightarrow> double" where "times_double = dmul"
definition divide_double :: "double \<Rightarrow> double \<Rightarrow> double" where "divide_double = ddiv"
definition inverse_double :: "double \<Rightarrow> double" where "inverse_double = ddiv (Fin 1)"
definition less_eq_double :: "double \<Rightarrow> double \<Rightarrow> bool" where "less_eq_double = dle"
definition less_double :: "double \<Rightarrow> double \<Rightarrow> bool" where "less_double = dlt"

instance ..

end

section \<open>Constants and conversions\<close>

text \<open>
  \<open>lit\<close> is a decimal constant of the source; the conversions from unsigned and signed
  64-bit integers round, the conversion to \<^verbatim>\<open>uint64_t\<close> truncates towards zero.
\<close>

definition lit :: "rat \<Rightarrow> double" where
  "lit = rnd"

definition double_of_u64 :: "u64 \<Rightarrow> double" where
  "double_of_u64 w = rnd (of_int (uint w))"

definition double_of_i64 :: "u64 \<Rightarrow> double" where
  "double_of_i64 w = rnd (of_int (sint w))"

definition truncq :: "rat \<Rightarrow> int" where
  "truncq q = (if 0 \<le> q then \<lfloor>q\<rfloor> else \<lceil>q\<rceil>)"

definition u64_of_double :: "double \<Rightarrow> u64 result" where
  "u64_of_double d = (case d of
      Fin q \<Rightarrow> (if 0 \<le> truncq q \<and> truncq q < 2 ^ 64 then Inr (of_int (truncq q)) else Inl Bad_Conversion)
    | _ \<Rightarrow> Inl Bad_Conversion)"


text \<open>The finite values that a binary64 variable can hold are the fixed points of rounding.\<close>

definition wf_double :: "double \<Rightarrow> bool" where
  "wf_double d = (case d of Fin q \<Rightarrow> rv q = q \<and> \<bar>q\<bar> < 2 ^ 1024 | _ \<Rightarrow> True)"

named_theorems dbl_defs \<open>the C operators on doubles, unfolded to the IEEE operations\<close>

lemmas [dbl_defs] = zero_double_def one_double_def uminus_double_def plus_double_def
  minus_double_def times_double_def divide_double_def inverse_double_def
  less_eq_double_def less_double_def

section \<open>Rounding\<close>

lemma rne_of_int [simp]: "rne (of_int n) = n"
  by (simp add: rne_def)

lemma rne_minus: "rne (- x) = - rne x"
proof (cases "x = of_int \<lfloor>x\<rfloor>")
  case True
  then obtain n where "x = of_int n" by blast
  then have "- x = of_int (- n)" by simp
  then show ?thesis using \<open>x = of_int n\<close> by (metis rne_of_int)
next
  case False
  then have f: "\<lfloor>- x\<rfloor> = - \<lfloor>x\<rfloor> - 1"
    by (simp add: floor_minus ceiling_altdef)
  show ?thesis
    by (auto simp: rne_def f Let_def algebra_simps)
qed

lemma rne_bounds: "\<bar>of_int (rne x) - x\<bar> \<le> 1 / 2"
proof -
  have "of_int \<lfloor>x\<rfloor> \<le> x" "x < of_int \<lfloor>x\<rfloor> + 1" by linarith+
  then show ?thesis
    by (simp add: rne_def Let_def abs_le_iff split: if_splits; linarith)
qed

lemma rne_mono: assumes "x \<le> y" shows "rne x \<le> rne y"
proof -
  consider "\<lfloor>x\<rfloor> = \<lfloor>y\<rfloor>" | "\<lfloor>x\<rfloor> + 1 \<le> \<lfloor>y\<rfloor>"
    using floor_mono [OF assms] by linarith
  then show ?thesis
  proof cases
    case 1
    then show ?thesis using assms by (auto simp: rne_def Let_def)
  next
    case 2
    have "rne x \<le> \<lfloor>x\<rfloor> + 1" "\<lfloor>y\<rfloor> \<le> rne y" by (auto simp: rne_def Let_def)
    with 2 show ?thesis by linarith
  qed
qed

lemma bitlen_powi_bounds:
  assumes "0 < n"
  shows "2 powi (bitlen n - 1) \<le> (of_int n :: rat)" "(of_int n :: rat) < 2 powi bitlen n"
proof -
  have pos: "0 < bitlen n"
    using assms bitlen_eq_zero_iff [of n] bitlen_nonneg [of n] by linarith
  have b: "2 ^ nat (bitlen n - 1) \<le> n" "n < 2 ^ nat (bitlen n)"
    using bitlen_bounds [OF assms] by auto
  have "(of_int (2 ^ nat (bitlen n - 1)) :: rat) \<le> of_int n"
    using b(1) by (simp only: of_int_le_iff)
  then show "2 powi (bitlen n - 1) \<le> (of_int n :: rat)"
    using pos by (simp add: power_int_def)
  have "(of_int n :: rat) < of_int (2 ^ nat (bitlen n))"
    using b(2) by (simp only: of_int_less_iff)
  then show "(of_int n :: rat) < 2 powi bitlen n"
    using pos by (simp add: power_int_def)
qed

lemma ilog2_bounds:
  assumes "0 < q"
  shows "2 powi ilog2 q \<le> q" "q < 2 powi (ilog2 q + 1)"
proof -
  obtain n d where nd: "quotient_of q = (n, d)" by fastforce
  have q: "q = of_int n / of_int d" using nd by (rule quotient_of_div)
  have d: "0 < d" using nd by (rule quotient_of_denom_pos)
  with q assms have n: "0 < n" by (simp add: zero_less_divide_iff)
  let ?k = "bitlen n - bitlen d"
  note bn = bitlen_powi_bounds [OF n] and bd = bitlen_powi_bounds [OF d]
  have dp: "(0::rat) < of_int d" using d by simp
  have hi: "q < 2 powi (?k + 1)"
  proof -
    have "(of_int n :: rat) < 2 powi (?k + 1) * 2 powi (bitlen d - 1)"
      using bn(2) by (simp flip: power_int_add)
    also have "\<dots> \<le> 2 powi (?k + 1) * of_int d"
      using bd(1) by (intro mult_left_mono) auto
    finally show ?thesis using dp by (simp add: q pos_divide_less_eq)
  qed
  have lo: "2 powi (?k - 1) \<le> q"
  proof -
    have "2 powi (?k - 1) * (of_int d :: rat) \<le> 2 powi (?k - 1) * 2 powi bitlen d"
      using bd(2) by (intro mult_left_mono) auto
    also have "\<dots> \<le> of_int n"
      using bn(1) by (simp flip: power_int_add add: algebra_simps)
    finally show ?thesis using dp by (simp add: q pos_le_divide_eq)
  qed
  show "2 powi ilog2 q \<le> q" "q < 2 powi (ilog2 q + 1)"
    using hi lo by (auto simp: ilog2_def nd Let_def)
qed


lemma powi_less_imp_less: "(2::rat) powi a < 2 powi b \<Longrightarrow> a < b"
  using power_int_increasing [of b a "2::rat"] by (cases "b \<le> a") auto

lemma ilog2_unique:
  assumes "2 powi e \<le> q" "q < 2 powi (e + 1)"
  shows "ilog2 q = e"
proof -
  have "(0::rat) < 2 powi e" by simp
  with assms(1) have q: "0 < q" by linarith
  note b = ilog2_bounds [OF q]
  have "(2::rat) powi e < 2 powi (ilog2 q + 1)" using assms(1) b(2) by (rule le_less_trans)
  then have "e < ilog2 q + 1" by (rule powi_less_imp_less)
  moreover have "(2::rat) powi ilog2 q < 2 powi (e + 1)" using b(1) assms(2) by (rule le_less_trans)
  then have "ilog2 q < e + 1" by (rule powi_less_imp_less)
  ultimately show ?thesis by linarith
qed

lemma rexp_minus [simp]: "rexp (- q) = rexp q"
  by (simp add: rexp_def)

lemma rv_minus: "rv (- q) = - rv q"
  by (simp add: rv_def rne_minus)

lemma rv_0 [simp]: "rv 0 = 0"
  using rne_of_int [of 0] by (simp add: rv_def)

text \<open>A multiple of the spacing is a fixed point of rounding, and bounds survive it.\<close>

lemma powi_quotient_int:
  assumes "x \<le> (k::int)"
  shows "(2::rat) powi k / 2 powi x = of_int (2 ^ nat (k - x))"
proof -
  have "(2::rat) powi k / 2 powi x = 2 powi (k - x)" by (simp add: power_int_diff)
  then show ?thesis using assms by (simp add: power_int_def)
qed

lemma rv_multiple:
  assumes "q = of_int m * 2 powi k" and "rexp q \<le> k"
  shows "rv q = q"
proof -
  have "q / 2 powi rexp q = of_int (m * 2 ^ nat (k - rexp q))"
    using powi_quotient_int [OF assms(2)] by (simp add: assms(1) times_divide_eq_right [symmetric] del: times_divide_eq_right)
  then have "rne (q / 2 powi rexp q) = m * 2 ^ nat (k - rexp q)"
    by (simp only: rne_of_int)
  then have "rv q = of_int (m * 2 ^ nat (k - rexp q)) * 2 powi rexp q"
    by (simp add: rv_def)
  also have "\<dots> = q"
    using \<open>q / 2 powi rexp q = _\<close> by (simp add: field_simps)
  finally show ?thesis .
qed

lemma rv_le_powi:
  assumes "q \<le> 2 powi k" and "rexp q \<le> k"
  shows "rv q \<le> 2 powi k"
proof -
  have "q / 2 powi rexp q \<le> of_int (2 ^ nat (k - rexp q))"
    using assms(1) unfolding powi_quotient_int [OF assms(2), symmetric]
    by (intro divide_right_mono) auto
  then have "rne (q / 2 powi rexp q) \<le> 2 ^ nat (k - rexp q)"
    by (metis rne_mono rne_of_int)
  then have "(of_int (rne (q / 2 powi rexp q)) :: rat) \<le> 2 powi k / 2 powi rexp q"
    unfolding powi_quotient_int [OF assms(2)] by (simp only: of_int_le_iff)
  then show ?thesis by (simp add: rv_def pos_le_divide_eq)
qed

lemma rv_ge_powi:
  assumes "2 powi k \<le> q" and "rexp q \<le> k"
  shows "2 powi k \<le> rv q"
proof -
  have "of_int (2 ^ nat (k - rexp q)) \<le> q / 2 powi rexp q"
    using assms(1) unfolding powi_quotient_int [OF assms(2), symmetric]
    by (intro divide_right_mono) auto
  then have "2 ^ nat (k - rexp q) \<le> rne (q / 2 powi rexp q)"
    by (metis rne_mono rne_of_int)
  then have "2 powi k / 2 powi rexp q \<le> (of_int (rne (q / 2 powi rexp q)) :: rat)"
    unfolding powi_quotient_int [OF assms(2)] by (simp only: of_int_le_iff)
  then show ?thesis by (simp add: rv_def pos_divide_le_eq)
qed

lemma rv_nonneg: "0 \<le> q \<Longrightarrow> 0 \<le> rv q"
  using rne_mono [of 0 "q / 2 powi rexp q"] rne_of_int [of 0] by (simp add: rv_def)

lemma rv_mono_pos:
  assumes "0 < p" "p \<le> q"
  shows "rv p \<le> rv q"
proof (cases "rexp p = rexp q")
  case True
  have "rne (p / 2 powi rexp q) \<le> rne (q / 2 powi rexp q)"
    using assms(2) by (intro rne_mono divide_right_mono) auto
  then show ?thesis by (simp add: rv_def True)
next
  case False
  have q: "0 < q" using assms by simp
  note bp = ilog2_bounds [OF assms(1)] and bq = ilog2_bounds [OF q]
  have "(2::rat) powi ilog2 p < 2 powi (ilog2 q + 1)"
    using bp(1) bq(2) assms(2) by linarith
  then have "ilog2 p < ilog2 q + 1" by (rule powi_less_imp_less)
  with False have lt: "ilog2 p < ilog2 q" and n: "rexp q = ilog2 q - 52" "rexp p < rexp q"
    using assms q by (auto simp: rexp_def)
  have "p < 2 powi ilog2 q"
    using bp(2) lt power_int_increasing [of "ilog2 p + 1" "ilog2 q" "2::rat"] by auto
  then have "rv p \<le> 2 powi ilog2 q" using n by (intro rv_le_powi) auto
  also have "\<dots> \<le> rv q" using bq(1) n by (intro rv_ge_powi) auto
  finally show ?thesis .
qed

lemma rv_mono: assumes "p \<le> q" shows "rv p \<le> rv q"
proof -
  consider "0 < p" | "p \<le> 0" "0 \<le> q" | "q < 0" using assms by linarith
  then show ?thesis
  proof cases
    case 1
    then show ?thesis using assms by (rule rv_mono_pos)
  next
    case 2
    then show ?thesis using rv_nonneg [of q] rv_nonneg [of "- p"] by (simp add: rv_minus)
  next
    case 3
    then show ?thesis using rv_mono_pos [of "- q" "- p"] assms by (simp add: rv_minus)
  qed
qed


lemma rexp_mono: "0 < p \<Longrightarrow> p \<le> q \<Longrightarrow> rexp p \<le> rexp q"
proof -
  assume "0 < p" "p \<le> q"
  then have "(2::rat) powi ilog2 p < 2 powi (ilog2 q + 1)"
    using ilog2_bounds [of p] ilog2_bounds [of q] by linarith
  then have "ilog2 p < ilog2 q + 1" by (rule powi_less_imp_less)
  with \<open>0 < p\<close> \<open>p \<le> q\<close> show ?thesis by (simp add: rexp_def)
qed

lemma rexp_powi: "rexp (2 powi k) = max (k - 52) (- 1074)"
  using ilog2_unique [of k "2 powi k"] by (simp add: rexp_def power_int_add)

lemma rv_powi: "- 1074 \<le> k \<Longrightarrow> rv (2 powi k) = 2 powi k"
  by (rule rv_multiple [where m = 1]) (auto simp: rexp_powi)

lemma rexp_rv_le:
  assumes q: "0 < q" and r: "0 < rv q" "rv q < 2 powi max (ilog2 q + 1) (- 1074)"
  shows "rexp (rv q) \<le> rexp q"
proof -
  have "(0::rat) < 2 powi rexp q" by simp
  with r(1) have "1 \<le> rne (q / 2 powi rexp q)"
    by (auto simp: rv_def zero_less_mult_iff)
  then have "2 powi rexp q \<le> rv q" by (simp add: rv_def)
  then have "(2::rat) powi rexp q < 2 powi max (ilog2 q + 1) (- 1074)"
    using r(2) by (rule le_less_trans)
  then have "rexp q < max (ilog2 q + 1) (- 1074)" by (rule powi_less_imp_less)
  then have K: "max (ilog2 q + 1) (- 1074) = ilog2 q + 1" by (auto simp: rexp_def)
  have "(2::rat) powi ilog2 (rv q) < 2 powi (ilog2 q + 1)"
    using ilog2_bounds(1) [OF r(1)] r(2) unfolding K by (rule le_less_trans)
  then have "ilog2 (rv q) < ilog2 q + 1" by (rule powi_less_imp_less)
  then show ?thesis using q r(1) by (simp add: rexp_def)
qed

lemma rv_rv_pos: assumes q: "0 < q" shows "rv (rv q) = rv q"
proof -
  let ?K = "max (ilog2 q + 1) (- 1074)"
  have "q \<le> 2 powi ?K"
    using ilog2_bounds(2) [OF q] power_int_increasing [of "ilog2 q + 1" ?K "2::rat"] by simp
  then have "rv q \<le> 2 powi ?K" using q by (intro rv_le_powi) (auto simp: rexp_def)
  then consider "rv q = 0" | "0 < rv q" "rv q < 2 powi ?K" | "rv q = 2 powi ?K"
    using rv_nonneg [of q] q by fastforce
  then show ?thesis
  proof cases
    case 2
    show ?thesis by (rule rv_multiple [OF rv_def]) (rule rexp_rv_le [OF q 2])
  qed (simp_all add: rv_powi)
qed

lemma rv_rv [simp]: "rv (rv q) = rv q"
  using rv_rv_pos [of q] rv_rv_pos [of "- q"] by (cases q "0::rat" rule: linorder_cases) (auto simp: rv_minus)

lemma rv_of_int:
  assumes "\<bar>n\<bar> \<le> 2 ^ 53"
  shows "rv (of_int n) = of_int n"
proof -
  have "rv (of_int n) = of_int n" if n: "0 < n" "n \<le> 2 ^ 53" for n
  proof (cases "n = 2 ^ 53")
    case True
    then show ?thesis using rv_powi [of 53] by simp
  next
    case False
    with n have "(of_int n :: rat) < of_int (2 ^ 53)" by (simp only: of_int_less_iff)
    then have "(2::rat) powi ilog2 (of_int n) < 2 powi 53"
      using ilog2_bounds(1) [of "of_int n"] n by simp
    then have "ilog2 (of_int n) < 53" by (rule powi_less_imp_less)
    then show ?thesis using n by (intro rv_multiple [where m = n and k = 0]) (auto simp: rexp_def)
  qed
  from this [of n] this [of "- n"] assms show ?thesis
    by (cases n "0::int" rule: linorder_cases) (auto simp: rv_minus)
qed

section \<open>Well-formed values and order\<close>

lemma wf_double_simps [simp]:
  "wf_double PInf" "wf_double NInf" "wf_double NaN"
  by (simp_all add: wf_double_def)

lemma wf_rnd [simp]: "wf_double (rnd q)"
  by (simp add: rnd_def wf_double_def)

lemma wf_0 [simp]: "wf_double 0"
  by (simp add: wf_double_def dbl_defs)

lemma rnd_wf: "wf_double (Fin q) \<Longrightarrow> rnd q = Fin q"
  by (simp add: wf_double_def rnd_def)

lemma wf_dinf [simp]: "wf_double (dinf s)"
  by (simp add: dinf_def)

lemma wf_dneg: "wf_double a \<Longrightarrow> wf_double (dneg a)"
  by (cases a) (auto simp: wf_double_def rv_minus)

lemma wf_dadd: "wf_double (dadd a b)"
  by (cases a; cases b) simp_all

lemma wf_dmul: "wf_double (dmul a b)"
  by (cases a; cases b) simp_all

lemma wf_ddiv: "wf_double (ddiv a b)"
  using wf_0 by (cases a; cases b) (simp_all add: zero_double_def)

lemma wf_ops [simp]:
  "wf_double (a + b)" "wf_double (a - b)" "wf_double (a * b)" "wf_double (a / b)"
  by (simp_all add: dbl_defs wf_dadd wf_dmul wf_ddiv)

lemma rv_of_int_less: "\<bar>n\<bar> \<le> 2 ^ 53 \<Longrightarrow> \<bar>rv (of_int n)\<bar> < 2 ^ 1024"
proof -
  assume "\<bar>n\<bar> \<le> 2 ^ 53"
  then have "\<bar>rv (of_int n)\<bar> \<le> of_int (2 ^ 53)"
    by (simp only: rv_of_int of_int_abs [symmetric] of_int_le_iff)
  also have "\<dots> < (2 :: rat) ^ 1024" by simp
  finally show ?thesis .
qed

lemma rnd_of_int: "\<bar>n\<bar> \<le> 2 ^ 53 \<Longrightarrow> rnd (of_int n) = Fin (of_int n)"
  using rv_of_int_less [of n] by (simp add: rnd_def rv_of_int)

lemma rnd_small [simp]:
  "rnd 0 = Fin 0" "rnd 1 = Fin 1"
  "numeral k \<le> (2 ^ 53 :: int) \<Longrightarrow> rnd (numeral k) = Fin (numeral k)"
  using rnd_of_int [of 0] rnd_of_int [of 1] rnd_of_int [of "numeral k"] by simp_all

lemma rnd_mono: assumes "p \<le> q" shows "rnd p \<le> rnd q"
proof -
  have m: "rv p \<le> rv q" using assms by (rule rv_mono)
  have "0 \<le> p \<Longrightarrow> 0 \<le> rv p" "0 \<le> q \<Longrightarrow> 0 \<le> rv q" by (simp_all add: rv_nonneg)
  moreover have "p \<le> 0 \<Longrightarrow> rv p \<le> 0" "q \<le> 0 \<Longrightarrow> rv q \<le> 0"
    using rv_mono [of p 0] rv_mono [of q 0] by simp_all
  ultimately show ?thesis using m assms
    by (cases "0 < p"; cases "0 < q") (auto simp: rnd_def less_eq_double_def abs_if split: if_splits)
qed

lemma dle_refl: "a \<noteq> NaN \<Longrightarrow> a \<le> (a :: double)"
  by (cases a) (auto simp: dbl_defs)

lemma dle_trans [trans]: "a \<le> b \<Longrightarrow> b \<le> c \<Longrightarrow> a \<le> (c :: double)"
  by (cases a; cases b; cases c) (auto simp: dbl_defs)

lemma dle_NaN [simp]: "\<not> NaN \<le> a" "\<not> a \<le> NaN"
  by (cases a; simp add: dbl_defs)+

lemma rnd_nonneg: "0 \<le> q \<Longrightarrow> 0 \<le> rnd q"
  using rnd_mono [of 0 q] by (simp add: zero_double_def)

lemma rnd_not_NaN [simp]: "rnd q \<noteq> NaN"
  by (simp add: rnd_def)

lemma double_cases_nonneg:
  assumes "0 \<le> (a :: double)"
  obtains q where "a = Fin q" "0 \<le> q" | "a = PInf"
  using assms by (cases a) (auto simp: dbl_defs)

lemma dadd_nonneg: "0 \<le> a \<Longrightarrow> 0 \<le> b \<Longrightarrow> 0 \<le> a + (b :: double)"
  by (elim double_cases_nonneg) (auto simp: plus_double_def rnd_nonneg, simp_all add: dbl_defs)

lemma dmul_nonneg: "0 \<le> a \<Longrightarrow> 0 \<le> Fin q \<Longrightarrow> a = PInf \<longrightarrow> q \<noteq> 0 \<Longrightarrow> 0 \<le> a * Fin q"
  by (elim double_cases_nonneg) (auto simp: times_double_def rnd_nonneg dinf_def, simp_all add: dbl_defs)

lemma dadd_increasing:
  assumes "wf_double a" "0 \<le> a" "0 \<le> b"
  shows "a \<le> a + b"
  using assms(2,3)
proof (cases rule: double_cases_nonneg [OF assms(2)]; cases rule: double_cases_nonneg [OF assms(3)])
  fix p q assume "a = Fin p" "b = Fin q" "0 \<le> q"
  then show ?thesis using rnd_mono [of p "p + q"] rnd_wf [of p] assms(1)
    by (simp add: plus_double_def)
qed (auto simp: dbl_defs)

lemma truncq_mono: "p \<le> q \<Longrightarrow> truncq p \<le> truncq q"
  by (auto simp: truncq_def floor_mono ceiling_mono intro: order_trans [of _ 0])

lemma u64_of_double_Inr:
  "u64_of_double d = Inr w \<longleftrightarrow>
     (\<exists>q. d = Fin q \<and> 0 \<le> truncq q \<and> truncq q < 2 ^ 64 \<and> uint w = truncq q)"
  by (auto simp: u64_of_double_def uint_word_of_int_eq take_bit_int_eq_self split: double.splits if_splits
      intro: word_uint_eqI)

lemma u64_of_double_mono:
  assumes "d \<le> e" "u64_of_double d = Inr v" "u64_of_double e = Inr w"
  shows "v \<le> w"
  using assms by (auto simp: u64_of_double_Inr less_eq_double_def word_le_def truncq_mono)

lemma wf_double_of_u64 [simp]: "wf_double (double_of_u64 w)"
  by (simp add: double_of_u64_def)

lemma double_of_u64_nonneg [simp]: "0 \<le> double_of_u64 w"
  unfolding double_of_u64_def by (rule rnd_nonneg) (simp only: of_int_0_le_iff, simp)

lemma double_of_u64_exact: "uint w \<le> 2 ^ 53 \<Longrightarrow> double_of_u64 w = Fin (of_int (uint w))"
  unfolding double_of_u64_def by (rule rnd_of_int) simp

lemma truncq_of_int: "truncq (of_int n) = n"
  by (simp add: truncq_def)

lemma u64_double_roundtrip:
  assumes "uint w \<le> 2 ^ 53"
  shows "u64_of_double (double_of_u64 w) = Inr w"
  unfolding u64_of_double_Inr double_of_u64_exact [OF assms]
  by (rule exI [of _ "of_int (uint w)"], unfold truncq_of_int) (use uint_lt2p [of w] in simp)

lemma double_of_u64_mono: "v \<le> w \<Longrightarrow> double_of_u64 v \<le> double_of_u64 w"
  unfolding double_of_u64_def by (rule rnd_mono) (simp only: of_int_le_iff word_le_def)

section \<open>Evaluation\<close>

lemma dbl_numeral:
  "numeral k < (2 ^ 53 :: int) \<Longrightarrow> double_of_u64 (numeral k) = Fin (numeral k)"
  "double_of_u64 0 = Fin 0" "double_of_u64 1 = Fin 1"
proof -
  assume k: "numeral k < (2 ^ 53 :: int)"
  have "uint (word_of_int (numeral k) :: u64) = numeral k"
    unfolding uint_word_of_int_eq by (rule take_bit_int_eq_self) (simp, rule order.strict_trans [OF k], simp)
  then have "uint (numeral k :: u64) = numeral k" unfolding of_int_numeral .
  then show "double_of_u64 (numeral k) = Fin (numeral k)"
    using less_imp_le [OF k] double_of_u64_exact [of "numeral k"] by (simp only: of_int_numeral)
qed (simp_all add: double_of_u64_def)

lemma u64_numeral:
  "numeral k < (2 ^ 64 :: int) \<Longrightarrow> u64_of_double (Fin (numeral k)) = Inr (numeral k)"
  "u64_of_double (Fin 0) = Inr 0" "u64_of_double (Fin 1) = Inr 1"
  by (simp_all add: u64_of_double_def truncq_def)

lemmas dbl_eval = dbl_numeral u64_numeral dbl_defs lit_def

lemma rnd_eval:
  assumes "2 powi e \<le> q" "q < 2 powi (e + 1)" "- 1022 \<le> e" "e < 1000"
  shows "rnd q = Fin (of_int (rne (q / 2 powi (e - 52))) * 2 powi (e - 52))"
proof -
  have "(0::rat) < 2 powi e" by simp
  with assms(1) have q: "0 < q" by linarith
  have "ilog2 q = e" using assms(1,2) by (intro ilog2_unique)
  then have r: "rexp q = e - 52" using q assms(3) by (simp add: rexp_def)
  have "(2::rat) powi (e + 1) \<le> 2 powi 1000" using assms(4) by (intro power_int_increasing) auto
  then have "q \<le> 2 powi 1000" using assms(2) by linarith
  then have "rv q \<le> rv (2 powi 1000)" by (rule rv_mono)
  also have "\<dots> = 2 powi 1000" by (rule rv_powi) simp
  also have "\<dots> < (2::rat) ^ 1024" by simp
  finally have "\<bar>rv q\<bar> < 2 ^ 1024" using rv_nonneg [of q] q by simp
  then show ?thesis by (simp add: rnd_def rv_def r)
qed

lemma floor_numeral_div: "\<lfloor>numeral a / numeral b :: rat\<rfloor> = numeral a div numeral b"
  by (metis floor_divide_of_int_eq of_int_numeral)

end
