(* ===== verification/Vemu_Instr.thy ===== *)
theory Vemu_Instr
  imports Vemu_Double
begin

text \<open>
  The data of \<^verbatim>\<open>vemu.h\<close>: the record of an instruction kind and of the instruction a
  translation block holds; and the class, error and cycle-count constants of
  \<^verbatim>\<open>vemu_arm.c\<close>, one definition for each macro.
\<close>

section \<open>Instruction records\<close>

text \<open>
  \<^verbatim>\<open>VEMU_ERRORS_*\<close> are bits of an integer, but the field \<^verbatim>\<open>errors\<close> has type
  \<^verbatim>\<open>bool\<close>: storing a constant in it keeps only whether the constant is non-zero.
\<close>

definition VEMU_ERRORS_NONE :: u32 where "VEMU_ERRORS_NONE = 0x0"
definition VEMU_ERRORS_REPLACE :: u32 where "VEMU_ERRORS_REPLACE = 0x1"
definition VEMU_ERRORS_PRE :: u32 where "VEMU_ERRORS_PRE = 0x2"
definition VEMU_ERRORS_POST :: u32 where "VEMU_ERRORS_POST = 0x4"

definition bool_of_int :: "u32 \<Rightarrow> bool" where
  "bool_of_int x = (x \<noteq> 0)"

record vemu_instr_info =
  ii_opcode :: u32
  ii_name :: string
  ii_class :: u8
  ii_cycles :: double
  ii_errors :: bool

record vemu_tb_info =
  instr_word :: u32
  instr_info :: vemu_instr_info

text \<open>A row of a table, its fields in the order of the initialiser.\<close>

definition instr :: "u32 \<Rightarrow> string \<Rightarrow> u8 \<Rightarrow> double \<Rightarrow> u32 \<Rightarrow> vemu_instr_info" where
  "instr opc nm cls cy err =
     \<lparr>ii_opcode = opc, ii_name = nm, ii_class = cls, ii_cycles = cy, ii_errors = bool_of_int err\<rparr>"

section \<open>Constants\<close>

definition CLASS_DEFAULT :: u8 where "CLASS_DEFAULT = 0"
definition ERRORS_DEFAULT :: u32 where "ERRORS_DEFAULT = VEMU_ERRORS_NONE"

definition CYCLES_DATA_OP_ARITH :: double where "CYCLES_DATA_OP_ARITH = Fin 1"
definition CYCLES_DATA_OP_LOGIC :: double where "CYCLES_DATA_OP_LOGIC = Fin 1"
definition CYCLES_BRANCH :: double where "CYCLES_BRANCH = Fin 2"
definition CYCLES_DEFAULT :: double where "CYCLES_DEFAULT = Fin 1"
definition CYCLES_NONE :: double where "CYCLES_NONE = Fin 0"
definition CYCLES_ADC :: double where "CYCLES_ADC = CYCLES_DATA_OP_ARITH"
definition CYCLES_ADCS :: double where "CYCLES_ADCS = CYCLES_DATA_OP_ARITH"
definition CYCLES_ADD :: double where "CYCLES_ADD = CYCLES_DATA_OP_ARITH"
definition CYCLES_ADDS :: double where "CYCLES_ADDS = CYCLES_DATA_OP_ARITH"
definition CYCLES_AND :: double where "CYCLES_AND = CYCLES_DATA_OP_LOGIC"
definition CYCLES_ANDS :: double where "CYCLES_ANDS = CYCLES_DATA_OP_LOGIC"
definition CYCLES_ASR :: double where "CYCLES_ASR = CYCLES_DATA_OP_LOGIC"
definition CYCLES_B :: double where "CYCLES_B = CYCLES_BRANCH"
definition CYCLES_BCC :: double where "CYCLES_BCC = CYCLES_BRANCH"
definition CYCLES_BCS :: double where "CYCLES_BCS = CYCLES_BRANCH"
definition CYCLES_BEQ :: double where "CYCLES_BEQ = CYCLES_BRANCH"
definition CYCLES_BGE :: double where "CYCLES_BGE = CYCLES_BRANCH"
definition CYCLES_BGT :: double where "CYCLES_BGT = CYCLES_BRANCH"
definition CYCLES_BHI :: double where "CYCLES_BHI = CYCLES_BRANCH"
definition CYCLES_BIC :: double where "CYCLES_BIC = CYCLES_DATA_OP_LOGIC"
definition CYCLES_BICS :: double where "CYCLES_BICS = CYCLES_DATA_OP_LOGIC"
definition CYCLES_BKPT :: double where "CYCLES_BKPT = CYCLES_DATA_OP_ARITH"
definition CYCLES_BL :: double where "CYCLES_BL = CYCLES_BRANCH"
definition CYCLES_BLE :: double where "CYCLES_BLE = CYCLES_BRANCH"
definition CYCLES_BLS :: double where "CYCLES_BLS = CYCLES_BRANCH"
definition CYCLES_BLT :: double where "CYCLES_BLT = CYCLES_BRANCH"
definition CYCLES_BLX :: double where "CYCLES_BLX = CYCLES_BRANCH"
definition CYCLES_BMI :: double where "CYCLES_BMI = CYCLES_BRANCH"
definition CYCLES_BNE :: double where "CYCLES_BNE = CYCLES_BRANCH"
definition CYCLES_BPL :: double where "CYCLES_BPL = CYCLES_BRANCH"
definition CYCLES_BVC :: double where "CYCLES_BVC = CYCLES_BRANCH"
definition CYCLES_BVS :: double where "CYCLES_BVS = CYCLES_BRANCH"
definition CYCLES_BX :: double where "CYCLES_BX = CYCLES_BRANCH"
definition CYCLES_CBZ :: double where "CYCLES_CBZ = CYCLES_BRANCH"
definition CYCLES_CBNZ :: double where "CYCLES_CBNZ = CYCLES_BRANCH"
definition CYCLES_CDP :: double where "CYCLES_CDP = Fin 1"
definition CYCLES_CLZ :: double where "CYCLES_CLZ = Fin 1"
definition CYCLES_CMN :: double where "CYCLES_CMN = CYCLES_DATA_OP_ARITH"
definition CYCLES_CMNS :: double where "CYCLES_CMNS = CYCLES_DATA_OP_ARITH"
definition CYCLES_CMP :: double where "CYCLES_CMP = CYCLES_DATA_OP_ARITH"
definition CYCLES_CMPS :: double where "CYCLES_CMPS = CYCLES_DATA_OP_ARITH"
definition CYCLES_CPSIE :: double where "CYCLES_CPSIE = CYCLES_DEFAULT"
definition CYCLES_DP :: double where "CYCLES_DP = CYCLES_DEFAULT"
definition CYCLES_EOR :: double where "CYCLES_EOR = CYCLES_DATA_OP_LOGIC"
definition CYCLES_EORS :: double where "CYCLES_EORS = CYCLES_DATA_OP_LOGIC"
definition CYCLES_ITE :: double where "CYCLES_ITE = CYCLES_BRANCH"
definition CYCLES_LDC :: double where "CYCLES_LDC = Fin 2"
definition CYCLES_LDMDA :: double where "CYCLES_LDMDA = Fin 1"
definition CYCLES_LDMDB :: double where "CYCLES_LDMDB = Fin 1"
definition CYCLES_LDMIA :: double where "CYCLES_LDMIA = Fin 1"
definition CYCLES_LDMIB :: double where "CYCLES_LDMIB = Fin 1"
definition CYCLES_LDR :: double where "CYCLES_LDR = Fin 3"
definition CYCLES_LDRB :: double where "CYCLES_LDRB = Fin 3"
definition CYCLES_LDRBT :: double where "CYCLES_LDRBT = Fin 3"
definition CYCLES_LDRD :: double where "CYCLES_LDRD = Fin 2"
definition CYCLES_LDRH :: double where "CYCLES_LDRH = Fin 3"
definition CYCLES_LDRPC :: double where "CYCLES_LDRPC = Fin 3"
definition CYCLES_LDRSB :: double where "CYCLES_LDRSB = Fin 3"
definition CYCLES_LDRSH :: double where "CYCLES_LDRSH = Fin 3"
definition CYCLES_LDRSP :: double where "CYCLES_LDRSP = Fin 3"
definition CYCLES_LDRT :: double where "CYCLES_LDRT = Fin 3"
definition CYCLES_LSL :: double where "CYCLES_LSL = CYCLES_DATA_OP_LOGIC"
definition CYCLES_LSR :: double where "CYCLES_LSR = CYCLES_DATA_OP_LOGIC"
definition CYCLES_MCR :: double where "CYCLES_MCR = Fin 2"
definition CYCLES_MLA :: double where "CYCLES_MLA = Fin 2"
definition CYCLES_MLAS :: double where "CYCLES_MLAS = Fin 4"
definition CYCLES_MOV :: double where "CYCLES_MOV = CYCLES_DATA_OP_LOGIC"
definition CYCLES_MOVS :: double where "CYCLES_MOVS = CYCLES_DATA_OP_LOGIC"
definition CYCLES_MRC :: double where "CYCLES_MRC = Fin 2"
definition CYCLES_MRS :: double where "CYCLES_MRS = Fin 2"
definition CYCLES_MSR :: double where "CYCLES_MSR = Fin 2"
definition CYCLES_MUL :: double where "CYCLES_MUL = Fin 2"
definition CYCLES_MULS :: double where "CYCLES_MULS = Fin 4"
definition CYCLES_MVN :: double where "CYCLES_MVN = CYCLES_DATA_OP_LOGIC"
definition CYCLES_MVNS :: double where "CYCLES_MVNS = CYCLES_DATA_OP_LOGIC"
definition CYCLES_O :: double where "CYCLES_O = CYCLES_DEFAULT"
definition CYCLES_ORR :: double where "CYCLES_ORR = CYCLES_DATA_OP_LOGIC"
definition CYCLES_ORRS :: double where "CYCLES_ORRS = CYCLES_DATA_OP_LOGIC"
definition CYCLES_PLD :: double where "CYCLES_PLD = Fin 1"
definition CYCLES_POP :: double where "CYCLES_POP = Fin 1"
definition CYCLES_PUSH :: double where "CYCLES_PUSH = Fin 1"
definition CYCLES_QADD :: double where "CYCLES_QADD = Fin 1"
definition CYCLES_QDADD :: double where "CYCLES_QDADD = Fin 1"
definition CYCLES_QDSUB :: double where "CYCLES_QDSUB = Fin 1"
definition CYCLES_QSUB :: double where "CYCLES_QSUB = Fin 1"
definition CYCLES_RSB :: double where "CYCLES_RSB = CYCLES_DATA_OP_ARITH"
definition CYCLES_RSBS :: double where "CYCLES_RSBS = CYCLES_DATA_OP_ARITH"
definition CYCLES_RSC :: double where "CYCLES_RSC = CYCLES_DATA_OP_LOGIC"
definition CYCLES_RSCS :: double where "CYCLES_RSCS = CYCLES_DATA_OP_LOGIC"
definition CYCLES_SBC :: double where "CYCLES_SBC = CYCLES_DATA_OP_ARITH"
definition CYCLES_SBCS :: double where "CYCLES_SBCS = CYCLES_DATA_OP_ARITH"
definition CYCLES_SMLABB :: double where "CYCLES_SMLABB = Fin 4"
definition CYCLES_SMLABT :: double where "CYCLES_SMLABT = Fin 4"
definition CYCLES_SMLAL :: double where "CYCLES_SMLAL = Fin 4"
definition CYCLES_SMLALBB :: double where "CYCLES_SMLALBB = Fin 4"
definition CYCLES_SMLALBT :: double where "CYCLES_SMLALBT = Fin 4"
definition CYCLES_SMLALS :: double where "CYCLES_SMLALS = Fin 5"
definition CYCLES_SMLALTB :: double where "CYCLES_SMLALTB = Fin 4"
definition CYCLES_SMLALTT :: double where "CYCLES_SMLALTT = Fin 4"
definition CYCLES_SMLALxy :: double where "CYCLES_SMLALxy = Fin 2"
definition CYCLES_SMLATB :: double where "CYCLES_SMLATB = Fin 4"
definition CYCLES_SMLATT :: double where "CYCLES_SMLATT = Fin 4"
definition CYCLES_SMLAWB :: double where "CYCLES_SMLAWB = Fin 4"
definition CYCLES_SMLAWT :: double where "CYCLES_SMLAWT = Fin 4"
definition CYCLES_SMLAWx :: double where "CYCLES_SMLAWx = Fin 1"
definition CYCLES_SMLAxy :: double where "CYCLES_SMLAxy = Fin 1"
definition CYCLES_SMULBB :: double where "CYCLES_SMULBB = Fin 4"
definition CYCLES_SMULBT :: double where "CYCLES_SMULBT = Fin 4"
definition CYCLES_SMULL :: double where "CYCLES_SMULL = Fin 4"
definition CYCLES_SMULLS :: double where "CYCLES_SMULLS = Fin 5"
definition CYCLES_SMULTB :: double where "CYCLES_SMULTB = Fin 4"
definition CYCLES_SMULTT :: double where "CYCLES_SMULTT = Fin 4"
definition CYCLES_SMULWB :: double where "CYCLES_SMULWB = Fin 4"
definition CYCLES_SMULWT :: double where "CYCLES_SMULWT = Fin 4"
definition CYCLES_SMULWx :: double where "CYCLES_SMULWx = Fin 1"
definition CYCLES_SMULxy :: double where "CYCLES_SMULxy = Fin 1"
definition CYCLES_STC :: double where "CYCLES_STC = Fin 2"
definition CYCLES_STMDA :: double where "CYCLES_STMDA = Fin 2"
definition CYCLES_STMDB :: double where "CYCLES_STMDB = Fin 2"
definition CYCLES_STMIA :: double where "CYCLES_STMIA = Fin 2"
definition CYCLES_STMIB :: double where "CYCLES_STMIB = Fin 2"
definition CYCLES_STR :: double where "CYCLES_STR = Fin 1"
definition CYCLES_STRB :: double where "CYCLES_STRB = Fin 1"
definition CYCLES_STRBT :: double where "CYCLES_STRBT = Fin 1"
definition CYCLES_STRD :: double where "CYCLES_STRD = Fin 2"
definition CYCLES_STRH :: double where "CYCLES_STRH = Fin 1"
definition CYCLES_STRSP :: double where "CYCLES_STRSP = Fin 1"
definition CYCLES_STRT :: double where "CYCLES_STRT = Fin 1"
definition CYCLES_SUB :: double where "CYCLES_SUB = CYCLES_DATA_OP_ARITH"
definition CYCLES_SUBS :: double where "CYCLES_SUBS = CYCLES_DATA_OP_ARITH"
definition CYCLES_SWI :: double where "CYCLES_SWI = Fin 3"
definition CYCLES_SWP :: double where "CYCLES_SWP = Fin 2"
definition CYCLES_SWPB :: double where "CYCLES_SWPB = Fin 2"
definition CYCLES_TEQS :: double where "CYCLES_TEQS = CYCLES_DATA_OP_LOGIC"
definition CYCLES_TSTS :: double where "CYCLES_TSTS = CYCLES_DATA_OP_LOGIC"
definition CYCLES_UMLAL :: double where "CYCLES_UMLAL = Fin 4"
definition CYCLES_UMLALS :: double where "CYCLES_UMLALS = Fin 5"
definition CYCLES_UMULL :: double where "CYCLES_UMULL = Fin 4"
definition CYCLES_UMULLS :: double where "CYCLES_UMULLS = Fin 5"
definition CYCLES_UXTB :: double where "CYCLES_UXTB = CYCLES_DEFAULT"

text \<open>The values of the cycle constants, as one rewriting collection.\<close>

named_theorems cycles_defs \<open>the values of the cycle macros\<close>

lemmas [cycles_defs] = CYCLES_DATA_OP_ARITH_def CYCLES_DATA_OP_LOGIC_def CYCLES_BRANCH_def CYCLES_DEFAULT_def CYCLES_NONE_def CYCLES_ADC_def
lemmas [cycles_defs] = CYCLES_ADCS_def CYCLES_ADD_def CYCLES_ADDS_def CYCLES_AND_def CYCLES_ANDS_def CYCLES_ASR_def
lemmas [cycles_defs] = CYCLES_B_def CYCLES_BCC_def CYCLES_BCS_def CYCLES_BEQ_def CYCLES_BGE_def CYCLES_BGT_def
lemmas [cycles_defs] = CYCLES_BHI_def CYCLES_BIC_def CYCLES_BICS_def CYCLES_BKPT_def CYCLES_BL_def CYCLES_BLE_def
lemmas [cycles_defs] = CYCLES_BLS_def CYCLES_BLT_def CYCLES_BLX_def CYCLES_BMI_def CYCLES_BNE_def CYCLES_BPL_def
lemmas [cycles_defs] = CYCLES_BVC_def CYCLES_BVS_def CYCLES_BX_def CYCLES_CBZ_def CYCLES_CBNZ_def CYCLES_CDP_def
lemmas [cycles_defs] = CYCLES_CLZ_def CYCLES_CMN_def CYCLES_CMNS_def CYCLES_CMP_def CYCLES_CMPS_def CYCLES_CPSIE_def
lemmas [cycles_defs] = CYCLES_DP_def CYCLES_EOR_def CYCLES_EORS_def CYCLES_ITE_def CYCLES_LDC_def CYCLES_LDMDA_def
lemmas [cycles_defs] = CYCLES_LDMDB_def CYCLES_LDMIA_def CYCLES_LDMIB_def CYCLES_LDR_def CYCLES_LDRB_def CYCLES_LDRBT_def
lemmas [cycles_defs] = CYCLES_LDRD_def CYCLES_LDRH_def CYCLES_LDRPC_def CYCLES_LDRSB_def CYCLES_LDRSH_def CYCLES_LDRSP_def
lemmas [cycles_defs] = CYCLES_LDRT_def CYCLES_LSL_def CYCLES_LSR_def CYCLES_MCR_def CYCLES_MLA_def CYCLES_MLAS_def
lemmas [cycles_defs] = CYCLES_MOV_def CYCLES_MOVS_def CYCLES_MRC_def CYCLES_MRS_def CYCLES_MSR_def CYCLES_MUL_def
lemmas [cycles_defs] = CYCLES_MULS_def CYCLES_MVN_def CYCLES_MVNS_def CYCLES_O_def CYCLES_ORR_def CYCLES_ORRS_def
lemmas [cycles_defs] = CYCLES_PLD_def CYCLES_POP_def CYCLES_PUSH_def CYCLES_QADD_def CYCLES_QDADD_def CYCLES_QDSUB_def
lemmas [cycles_defs] = CYCLES_QSUB_def CYCLES_RSB_def CYCLES_RSBS_def CYCLES_RSC_def CYCLES_RSCS_def CYCLES_SBC_def
lemmas [cycles_defs] = CYCLES_SBCS_def CYCLES_SMLABB_def CYCLES_SMLABT_def CYCLES_SMLAL_def CYCLES_SMLALBB_def CYCLES_SMLALBT_def
lemmas [cycles_defs] = CYCLES_SMLALS_def CYCLES_SMLALTB_def CYCLES_SMLALTT_def CYCLES_SMLALxy_def CYCLES_SMLATB_def CYCLES_SMLATT_def
lemmas [cycles_defs] = CYCLES_SMLAWB_def CYCLES_SMLAWT_def CYCLES_SMLAWx_def CYCLES_SMLAxy_def CYCLES_SMULBB_def CYCLES_SMULBT_def
lemmas [cycles_defs] = CYCLES_SMULL_def CYCLES_SMULLS_def CYCLES_SMULTB_def CYCLES_SMULTT_def CYCLES_SMULWB_def CYCLES_SMULWT_def
lemmas [cycles_defs] = CYCLES_SMULWx_def CYCLES_SMULxy_def CYCLES_STC_def CYCLES_STMDA_def CYCLES_STMDB_def CYCLES_STMIA_def
lemmas [cycles_defs] = CYCLES_STMIB_def CYCLES_STR_def CYCLES_STRB_def CYCLES_STRBT_def CYCLES_STRD_def CYCLES_STRH_def
lemmas [cycles_defs] = CYCLES_STRSP_def CYCLES_STRT_def CYCLES_SUB_def CYCLES_SUBS_def CYCLES_SWI_def CYCLES_SWP_def
lemmas [cycles_defs] = CYCLES_SWPB_def CYCLES_TEQS_def CYCLES_TSTS_def CYCLES_UMLAL_def CYCLES_UMLALS_def CYCLES_UMULL_def
lemmas [cycles_defs] = CYCLES_UMULLS_def CYCLES_UXTB_def

section \<open>What a row of a table promises\<close>

text \<open>
  A row stands at the index of its opcode, is in class 0, has no error flag, and its
  cycle count is a whole number from 0 to 5.
\<close>

definition row_ok :: "nat \<Rightarrow> vemu_instr_info \<Rightarrow> bool" where
  "row_ok i r \<longleftrightarrow> ii_opcode r = of_nat i \<and> ii_class r = 0 \<and> \<not> ii_errors r
     \<and> ii_cycles r \<in> set [Fin 0, Fin 1, Fin 2, Fin 3, Fin 4, Fin 5]"

text \<open>
  The cost of an ARM instruction by the fields of its encoding, for the encodings with
  bits 27 to 25 not all zero; \<open>i\<close> is bits 27 to 20 followed by bits 7 to 4. Loads take
  three cycles and stores one; a multiple load takes one and a multiple store two;
  branches and coprocessor transfers take two, a software interrupt three; data
  processing with an immediate takes one, except that a write to a status register takes
  two and the two undefined encodings nothing; the media encodings (register-offset
  form with bit 4 set) have no cost.
\<close>

definition arm_ref_cycles :: "nat \<Rightarrow> double" where
  "arm_ref_cycles i = (let op = i div 256; load = i div 16 mod 2 = 1; b4 = i mod 2 = 1 in
     if op = 2 \<or> op = 3 then
       (if i div 16 = 0x30 \<or> i div 16 = 0x34 then Fin 0
        else if i div 16 = 0x32 \<or> i div 16 = 0x36 then Fin 2 else Fin 1)
     else if op = 4 \<or> op = 5 then (if load then Fin 3 else Fin 1)
     else if op = 6 \<or> op = 7 then (if b4 then Fin 0 else if load then Fin 3 else Fin 1)
     else if op = 8 \<or> op = 9 then (if load then Fin 1 else Fin 2)
     else if op < 14 then Fin 2
     else if op = 14 then (if b4 then Fin 2 else Fin 1)
     else Fin 3)"

definition cost_ok :: "nat \<Rightarrow> vemu_instr_info \<Rightarrow> bool" where
  "cost_ok i r \<longleftrightarrow> ii_cycles r = arm_ref_cycles i"

lemmas row_defs = row_ok_def instr_def bool_of_int_def CLASS_DEFAULT_def ERRORS_DEFAULT_def
  VEMU_ERRORS_NONE_def

end
