(* ===== verification/Vemu_Thumb_Table.thy ===== *)
theory Vemu_Thumb_Table
  imports Vemu_Instr
begin

text \<open>
  The rows of \<^verbatim>\<open>vemu_thumb_instr\<close>, in two lists of 128.
\<close>

definition vemu_thumb_instr_0 :: "vemu_instr_info list" where
  "vemu_thumb_instr_0 = [
    instr 0x00 ''LSL imm'' CLASS_DEFAULT CYCLES_LSL ERRORS_DEFAULT,
    instr 0x01 ''LSL imm'' CLASS_DEFAULT CYCLES_LSL ERRORS_DEFAULT,
    instr 0x02 ''LSL imm'' CLASS_DEFAULT CYCLES_LSL ERRORS_DEFAULT,
    instr 0x03 ''LSL imm'' CLASS_DEFAULT CYCLES_LSL ERRORS_DEFAULT,
    instr 0x04 ''LSL imm'' CLASS_DEFAULT CYCLES_LSL ERRORS_DEFAULT,
    instr 0x05 ''LSL imm'' CLASS_DEFAULT CYCLES_LSL ERRORS_DEFAULT,
    instr 0x06 ''LSL imm'' CLASS_DEFAULT CYCLES_LSL ERRORS_DEFAULT,
    instr 0x07 ''LSL imm'' CLASS_DEFAULT CYCLES_LSL ERRORS_DEFAULT,
    instr 0x08 ''LSR imm'' CLASS_DEFAULT CYCLES_LSR ERRORS_DEFAULT,
    instr 0x09 ''LSR imm'' CLASS_DEFAULT CYCLES_LSR ERRORS_DEFAULT,
    instr 0x0A ''LSR imm'' CLASS_DEFAULT CYCLES_LSR ERRORS_DEFAULT,
    instr 0x0B ''LSR imm'' CLASS_DEFAULT CYCLES_LSR ERRORS_DEFAULT,
    instr 0x0C ''LSR imm'' CLASS_DEFAULT CYCLES_LSR ERRORS_DEFAULT,
    instr 0x0D ''LSR imm'' CLASS_DEFAULT CYCLES_LSR ERRORS_DEFAULT,
    instr 0x0E ''LSR imm'' CLASS_DEFAULT CYCLES_LSR ERRORS_DEFAULT,
    instr 0x0F ''LSR imm'' CLASS_DEFAULT CYCLES_LSR ERRORS_DEFAULT,
    instr 0x10 ''ASR imm'' CLASS_DEFAULT CYCLES_ASR ERRORS_DEFAULT,
    instr 0x11 ''ASR imm'' CLASS_DEFAULT CYCLES_ASR ERRORS_DEFAULT,
    instr 0x12 ''ASR imm'' CLASS_DEFAULT CYCLES_ASR ERRORS_DEFAULT,
    instr 0x13 ''ASR imm'' CLASS_DEFAULT CYCLES_ASR ERRORS_DEFAULT,
    instr 0x14 ''ASR imm'' CLASS_DEFAULT CYCLES_ASR ERRORS_DEFAULT,
    instr 0x15 ''ASR imm'' CLASS_DEFAULT CYCLES_ASR ERRORS_DEFAULT,
    instr 0x16 ''ASR imm'' CLASS_DEFAULT CYCLES_ASR ERRORS_DEFAULT,
    instr 0x17 ''ASR imm'' CLASS_DEFAULT CYCLES_ASR ERRORS_DEFAULT,
    instr 0x18 ''ADD reg'' CLASS_DEFAULT CYCLES_ADD ERRORS_DEFAULT,
    instr 0x19 ''ADD reg'' CLASS_DEFAULT CYCLES_ADD ERRORS_DEFAULT,
    instr 0x1A ''SUB reg'' CLASS_DEFAULT CYCLES_SUB ERRORS_DEFAULT,
    instr 0x1B ''SUB reg'' CLASS_DEFAULT CYCLES_SUB ERRORS_DEFAULT,
    instr 0x1C ''ADD imm3'' CLASS_DEFAULT CYCLES_ADD ERRORS_DEFAULT,
    instr 0x1D ''ADD imm4'' CLASS_DEFAULT CYCLES_ADD ERRORS_DEFAULT,
    instr 0x1E ''SUB imm3'' CLASS_DEFAULT CYCLES_SUB ERRORS_DEFAULT,
    instr 0x1F ''SUB imm4'' CLASS_DEFAULT CYCLES_SUB ERRORS_DEFAULT,
    instr 0x20 ''MOV i8r0'' CLASS_DEFAULT CYCLES_MOV ERRORS_DEFAULT,
    instr 0x21 ''MOV i8r1'' CLASS_DEFAULT CYCLES_MOV ERRORS_DEFAULT,
    instr 0x22 ''MOV i8r2'' CLASS_DEFAULT CYCLES_MOV ERRORS_DEFAULT,
    instr 0x23 ''MOV i8r3'' CLASS_DEFAULT CYCLES_MOV ERRORS_DEFAULT,
    instr 0x24 ''MOV i8r4'' CLASS_DEFAULT CYCLES_MOV ERRORS_DEFAULT,
    instr 0x25 ''MOV i8r5'' CLASS_DEFAULT CYCLES_MOV ERRORS_DEFAULT,
    instr 0x26 ''MOV i8r6'' CLASS_DEFAULT CYCLES_MOV ERRORS_DEFAULT,
    instr 0x27 ''MOV i8r7'' CLASS_DEFAULT CYCLES_MOV ERRORS_DEFAULT,
    instr 0x28 ''CMP i8r0'' CLASS_DEFAULT CYCLES_CMP ERRORS_DEFAULT,
    instr 0x29 ''CMP i8r1'' CLASS_DEFAULT CYCLES_CMP ERRORS_DEFAULT,
    instr 0x2A ''CMP i8r2'' CLASS_DEFAULT CYCLES_CMP ERRORS_DEFAULT,
    instr 0x2B ''CMP i8r3'' CLASS_DEFAULT CYCLES_CMP ERRORS_DEFAULT,
    instr 0x2C ''CMP i8r4'' CLASS_DEFAULT CYCLES_CMP ERRORS_DEFAULT,
    instr 0x2D ''CMP i8r5'' CLASS_DEFAULT CYCLES_CMP ERRORS_DEFAULT,
    instr 0x2E ''CMP i8r6'' CLASS_DEFAULT CYCLES_CMP ERRORS_DEFAULT,
    instr 0x2F ''CMP i8r7'' CLASS_DEFAULT CYCLES_CMP ERRORS_DEFAULT,
    instr 0x30 ''ADD i8r0'' CLASS_DEFAULT CYCLES_ADD ERRORS_DEFAULT,
    instr 0x31 ''ADD i8r1'' CLASS_DEFAULT CYCLES_ADD ERRORS_DEFAULT,
    instr 0x32 ''ADD i8r2'' CLASS_DEFAULT CYCLES_ADD ERRORS_DEFAULT,
    instr 0x33 ''ADD i8r3'' CLASS_DEFAULT CYCLES_ADD ERRORS_DEFAULT,
    instr 0x34 ''ADD i8r4'' CLASS_DEFAULT CYCLES_ADD ERRORS_DEFAULT,
    instr 0x35 ''ADD i8r5'' CLASS_DEFAULT CYCLES_ADD ERRORS_DEFAULT,
    instr 0x36 ''ADD i8r6'' CLASS_DEFAULT CYCLES_ADD ERRORS_DEFAULT,
    instr 0x37 ''ADD i8r7'' CLASS_DEFAULT CYCLES_ADD ERRORS_DEFAULT,
    instr 0x38 ''SUB i8r0'' CLASS_DEFAULT CYCLES_SUB ERRORS_DEFAULT,
    instr 0x39 ''SUB i8r1'' CLASS_DEFAULT CYCLES_SUB ERRORS_DEFAULT,
    instr 0x3A ''SUB i8r2'' CLASS_DEFAULT CYCLES_SUB ERRORS_DEFAULT,
    instr 0x3B ''SUB i8r3'' CLASS_DEFAULT CYCLES_SUB ERRORS_DEFAULT,
    instr 0x3C ''SUB i8r4'' CLASS_DEFAULT CYCLES_SUB ERRORS_DEFAULT,
    instr 0x3D ''SUB i8r5'' CLASS_DEFAULT CYCLES_SUB ERRORS_DEFAULT,
    instr 0x3E ''SUB i8r6'' CLASS_DEFAULT CYCLES_SUB ERRORS_DEFAULT,
    instr 0x3F ''SUB i8r7'' CLASS_DEFAULT CYCLES_SUB ERRORS_DEFAULT,
    instr 0x40 ''DP g1'' CLASS_DEFAULT CYCLES_DP ERRORS_DEFAULT,
    instr 0x41 ''DP g2'' CLASS_DEFAULT CYCLES_DP ERRORS_DEFAULT,
    instr 0x42 ''DP g3'' CLASS_DEFAULT CYCLES_DP ERRORS_DEFAULT,
    instr 0x43 ''DP g4'' CLASS_DEFAULT CYCLES_DP ERRORS_DEFAULT,
    instr 0x44 ''ADD H'' CLASS_DEFAULT CYCLES_ADD ERRORS_DEFAULT,
    instr 0x45 ''CMP H'' CLASS_DEFAULT CYCLES_CMP ERRORS_DEFAULT,
    instr 0x46 ''MOV H'' CLASS_DEFAULT CYCLES_MOV ERRORS_DEFAULT,
    instr 0x47 ''BX reg'' CLASS_DEFAULT CYCLES_BX ERRORS_DEFAULT,
    instr 0x48 ''LDRPC r0'' CLASS_DEFAULT CYCLES_LDRPC ERRORS_DEFAULT,
    instr 0x49 ''LDRPC r1'' CLASS_DEFAULT CYCLES_LDRPC ERRORS_DEFAULT,
    instr 0x4A ''LDRPC r2'' CLASS_DEFAULT CYCLES_LDRPC ERRORS_DEFAULT,
    instr 0x4B ''LDRPC r3'' CLASS_DEFAULT CYCLES_LDRPC ERRORS_DEFAULT,
    instr 0x4C ''LDRPC r4'' CLASS_DEFAULT CYCLES_LDRPC ERRORS_DEFAULT,
    instr 0x4D ''LDRPC r5'' CLASS_DEFAULT CYCLES_LDRPC ERRORS_DEFAULT,
    instr 0x4E ''LDRPC r6'' CLASS_DEFAULT CYCLES_LDRPC ERRORS_DEFAULT,
    instr 0x4F ''LDRPC r7'' CLASS_DEFAULT CYCLES_LDRPC ERRORS_DEFAULT,
    instr 0x50 ''STR reg'' CLASS_DEFAULT CYCLES_STR ERRORS_DEFAULT,
    instr 0x51 ''STR reg'' CLASS_DEFAULT CYCLES_STR ERRORS_DEFAULT,
    instr 0x52 ''STRH reg'' CLASS_DEFAULT CYCLES_STRH ERRORS_DEFAULT,
    instr 0x53 ''STRH reg'' CLASS_DEFAULT CYCLES_STRH ERRORS_DEFAULT,
    instr 0x54 ''STRB reg'' CLASS_DEFAULT CYCLES_STRB ERRORS_DEFAULT,
    instr 0x55 ''STRB reg'' CLASS_DEFAULT CYCLES_STRB ERRORS_DEFAULT,
    instr 0x56 ''LDRSB reg'' CLASS_DEFAULT CYCLES_LDRSB ERRORS_DEFAULT,
    instr 0x57 ''LDRSB reg'' CLASS_DEFAULT CYCLES_LDRSB ERRORS_DEFAULT,
    instr 0x58 ''LDR reg'' CLASS_DEFAULT CYCLES_LDR ERRORS_DEFAULT,
    instr 0x59 ''LDR reg'' CLASS_DEFAULT CYCLES_LDR ERRORS_DEFAULT,
    instr 0x5A ''LDRH reg'' CLASS_DEFAULT CYCLES_LDRH ERRORS_DEFAULT,
    instr 0x5B ''LDRH reg'' CLASS_DEFAULT CYCLES_LDRH ERRORS_DEFAULT,
    instr 0x5C ''LDRB reg'' CLASS_DEFAULT CYCLES_LDRB ERRORS_DEFAULT,
    instr 0x5D ''LDRB reg'' CLASS_DEFAULT CYCLES_LDRB ERRORS_DEFAULT,
    instr 0x5E ''LDRSH reg'' CLASS_DEFAULT CYCLES_LDRSH ERRORS_DEFAULT,
    instr 0x5F ''LDRSH reg'' CLASS_DEFAULT CYCLES_LDRSH ERRORS_DEFAULT,
    instr 0x60 ''STR imm5'' CLASS_DEFAULT CYCLES_STR ERRORS_DEFAULT,
    instr 0x61 ''STR imm6'' CLASS_DEFAULT CYCLES_STR ERRORS_DEFAULT,
    instr 0x62 ''STR imm7'' CLASS_DEFAULT CYCLES_STR ERRORS_DEFAULT,
    instr 0x63 ''STR imm8'' CLASS_DEFAULT CYCLES_STR ERRORS_DEFAULT,
    instr 0x64 ''STR imm9'' CLASS_DEFAULT CYCLES_STR ERRORS_DEFAULT,
    instr 0x65 ''STR imm10'' CLASS_DEFAULT CYCLES_STR ERRORS_DEFAULT,
    instr 0x66 ''STR imm11'' CLASS_DEFAULT CYCLES_STR ERRORS_DEFAULT,
    instr 0x67 ''STR imm12'' CLASS_DEFAULT CYCLES_STR ERRORS_DEFAULT,
    instr 0x68 ''LDR imm5'' CLASS_DEFAULT CYCLES_LDR ERRORS_DEFAULT,
    instr 0x69 ''LDR imm6'' CLASS_DEFAULT CYCLES_LDR ERRORS_DEFAULT,
    instr 0x6A ''LDR imm7'' CLASS_DEFAULT CYCLES_LDR ERRORS_DEFAULT,
    instr 0x6B ''LDR imm8'' CLASS_DEFAULT CYCLES_LDR ERRORS_DEFAULT,
    instr 0x6C ''LDR imm9'' CLASS_DEFAULT CYCLES_LDR ERRORS_DEFAULT,
    instr 0x6D ''LDR imm10'' CLASS_DEFAULT CYCLES_LDR ERRORS_DEFAULT,
    instr 0x6E ''LDR imm11'' CLASS_DEFAULT CYCLES_LDR ERRORS_DEFAULT,
    instr 0x6F ''LDR imm12'' CLASS_DEFAULT CYCLES_LDR ERRORS_DEFAULT,
    instr 0x70 ''STRB imm5'' CLASS_DEFAULT CYCLES_STRB ERRORS_DEFAULT,
    instr 0x71 ''STRB imm6'' CLASS_DEFAULT CYCLES_STRB ERRORS_DEFAULT,
    instr 0x72 ''STRB imm7'' CLASS_DEFAULT CYCLES_STRB ERRORS_DEFAULT,
    instr 0x73 ''STRB imm8'' CLASS_DEFAULT CYCLES_STRB ERRORS_DEFAULT,
    instr 0x74 ''STRB imm9'' CLASS_DEFAULT CYCLES_STRB ERRORS_DEFAULT,
    instr 0x75 ''STRB imm10'' CLASS_DEFAULT CYCLES_STRB ERRORS_DEFAULT,
    instr 0x76 ''STRB imm11'' CLASS_DEFAULT CYCLES_STRB ERRORS_DEFAULT,
    instr 0x77 ''STRB imm12'' CLASS_DEFAULT CYCLES_STRB ERRORS_DEFAULT,
    instr 0x78 ''LDRB imm5'' CLASS_DEFAULT CYCLES_LDRB ERRORS_DEFAULT,
    instr 0x79 ''LDRB imm6'' CLASS_DEFAULT CYCLES_LDRB ERRORS_DEFAULT,
    instr 0x7A ''LDRB imm7'' CLASS_DEFAULT CYCLES_LDRB ERRORS_DEFAULT,
    instr 0x7B ''LDRB imm8'' CLASS_DEFAULT CYCLES_LDRB ERRORS_DEFAULT,
    instr 0x7C ''LDRB imm9'' CLASS_DEFAULT CYCLES_LDRB ERRORS_DEFAULT,
    instr 0x7D ''LDRB imm10'' CLASS_DEFAULT CYCLES_LDRB ERRORS_DEFAULT,
    instr 0x7E ''LDRB imm11'' CLASS_DEFAULT CYCLES_LDRB ERRORS_DEFAULT,
    instr 0x7F ''LDRB imm12'' CLASS_DEFAULT CYCLES_LDRB ERRORS_DEFAULT]"

definition vemu_thumb_instr_1 :: "vemu_instr_info list" where
  "vemu_thumb_instr_1 = [
    instr 0x80 ''STRH imm5'' CLASS_DEFAULT CYCLES_STRH ERRORS_DEFAULT,
    instr 0x81 ''STRH imm6'' CLASS_DEFAULT CYCLES_STRH ERRORS_DEFAULT,
    instr 0x82 ''STRH imm7'' CLASS_DEFAULT CYCLES_STRH ERRORS_DEFAULT,
    instr 0x83 ''STRH imm8'' CLASS_DEFAULT CYCLES_STRH ERRORS_DEFAULT,
    instr 0x84 ''STRH imm9'' CLASS_DEFAULT CYCLES_STRH ERRORS_DEFAULT,
    instr 0x85 ''STRH imm10'' CLASS_DEFAULT CYCLES_STRH ERRORS_DEFAULT,
    instr 0x86 ''STRH imm11'' CLASS_DEFAULT CYCLES_STRH ERRORS_DEFAULT,
    instr 0x87 ''STRH imm12'' CLASS_DEFAULT CYCLES_STRH ERRORS_DEFAULT,
    instr 0x88 ''LDRH imm5'' CLASS_DEFAULT CYCLES_LDRH ERRORS_DEFAULT,
    instr 0x89 ''LDRH imm6'' CLASS_DEFAULT CYCLES_LDRH ERRORS_DEFAULT,
    instr 0x8A ''LDRH imm7'' CLASS_DEFAULT CYCLES_LDRH ERRORS_DEFAULT,
    instr 0x8B ''LDRH imm8'' CLASS_DEFAULT CYCLES_LDRH ERRORS_DEFAULT,
    instr 0x8C ''LDRH imm9'' CLASS_DEFAULT CYCLES_LDRH ERRORS_DEFAULT,
    instr 0x8D ''LDRH imm10'' CLASS_DEFAULT CYCLES_LDRH ERRORS_DEFAULT,
    instr 0x8E ''LDRH imm11'' CLASS_DEFAULT CYCLES_LDRH ERRORS_DEFAULT,
    instr 0x8F ''LDRH imm12'' CLASS_DEFAULT CYCLES_LDRH ERRORS_DEFAULT,
    instr 0x90 ''STRSP r0'' CLASS_DEFAULT CYCLES_STRSP ERRORS_DEFAULT,
    instr 0x91 ''STRSP r1'' CLASS_DEFAULT CYCLES_STRSP ERRORS_DEFAULT,
    instr 0x92 ''STRSP r2'' CLASS_DEFAULT CYCLES_STRSP ERRORS_DEFAULT,
    instr 0x93 ''STRSP r3'' CLASS_DEFAULT CYCLES_STRSP ERRORS_DEFAULT,
    instr 0x94 ''STRSP r4'' CLASS_DEFAULT CYCLES_STRSP ERRORS_DEFAULT,
    instr 0x95 ''STRSP r5'' CLASS_DEFAULT CYCLES_STRSP ERRORS_DEFAULT,
    instr 0x96 ''STRSP r6'' CLASS_DEFAULT CYCLES_STRSP ERRORS_DEFAULT,
    instr 0x97 ''STRSP r7'' CLASS_DEFAULT CYCLES_STRSP ERRORS_DEFAULT,
    instr 0x98 ''LDRSP r0'' CLASS_DEFAULT CYCLES_LDRSP ERRORS_DEFAULT,
    instr 0x99 ''LDRSP r1'' CLASS_DEFAULT CYCLES_LDRSP ERRORS_DEFAULT,
    instr 0x9A ''LDRSP r2'' CLASS_DEFAULT CYCLES_LDRSP ERRORS_DEFAULT,
    instr 0x9B ''LDRSP r3'' CLASS_DEFAULT CYCLES_LDRSP ERRORS_DEFAULT,
    instr 0x9C ''LDRSP r4'' CLASS_DEFAULT CYCLES_LDRSP ERRORS_DEFAULT,
    instr 0x9D ''LDRSP r5'' CLASS_DEFAULT CYCLES_LDRSP ERRORS_DEFAULT,
    instr 0x9E ''LDRSP r6'' CLASS_DEFAULT CYCLES_LDRSP ERRORS_DEFAULT,
    instr 0x9F ''LDRSP r7'' CLASS_DEFAULT CYCLES_LDRSP ERRORS_DEFAULT,
    instr 0xA0 ''ADD PCr0'' CLASS_DEFAULT CYCLES_ADD ERRORS_DEFAULT,
    instr 0xA1 ''ADD PCr1'' CLASS_DEFAULT CYCLES_ADD ERRORS_DEFAULT,
    instr 0xA2 ''ADD PCr2'' CLASS_DEFAULT CYCLES_ADD ERRORS_DEFAULT,
    instr 0xA3 ''ADD PCr3'' CLASS_DEFAULT CYCLES_ADD ERRORS_DEFAULT,
    instr 0xA4 ''ADD PCr4'' CLASS_DEFAULT CYCLES_ADD ERRORS_DEFAULT,
    instr 0xA5 ''ADD PCr5'' CLASS_DEFAULT CYCLES_ADD ERRORS_DEFAULT,
    instr 0xA6 ''ADD PCr6'' CLASS_DEFAULT CYCLES_ADD ERRORS_DEFAULT,
    instr 0xA7 ''ADD PCr7'' CLASS_DEFAULT CYCLES_ADD ERRORS_DEFAULT,
    instr 0xA8 ''ADD SPr0'' CLASS_DEFAULT CYCLES_ADD ERRORS_DEFAULT,
    instr 0xA9 ''ADD SPr1'' CLASS_DEFAULT CYCLES_ADD ERRORS_DEFAULT,
    instr 0xAA ''ADD SPr2'' CLASS_DEFAULT CYCLES_ADD ERRORS_DEFAULT,
    instr 0xAB ''ADD SPr3'' CLASS_DEFAULT CYCLES_ADD ERRORS_DEFAULT,
    instr 0xAC ''ADD SPr4'' CLASS_DEFAULT CYCLES_ADD ERRORS_DEFAULT,
    instr 0xAD ''ADD SPr5'' CLASS_DEFAULT CYCLES_ADD ERRORS_DEFAULT,
    instr 0xAE ''ADD SPr6'' CLASS_DEFAULT CYCLES_ADD ERRORS_DEFAULT,
    instr 0xAF ''ADD SPr7'' CLASS_DEFAULT CYCLES_ADD ERRORS_DEFAULT,
    instr 0xB0 ''ADD SPimm7'' CLASS_DEFAULT CYCLES_ADD ERRORS_DEFAULT,
    instr 0xB1 ''CBZ'' CLASS_DEFAULT CYCLES_CBZ ERRORS_DEFAULT,
    instr 0xB2 ''UXTB'' CLASS_DEFAULT CYCLES_UXTB ERRORS_DEFAULT,
    instr 0xB3 ''CBZ'' CLASS_DEFAULT CYCLES_CBZ ERRORS_DEFAULT,
    instr 0xB4 ''PUSH'' CLASS_DEFAULT CYCLES_PUSH ERRORS_DEFAULT,
    instr 0xB5 ''PUSH lr'' CLASS_DEFAULT CYCLES_PUSH ERRORS_DEFAULT,
    instr 0xB6 ''CPSIE'' CLASS_DEFAULT CYCLES_CPSIE ERRORS_DEFAULT,
    instr 0xB7 '''' CLASS_DEFAULT CYCLES_NONE ERRORS_DEFAULT,
    instr 0xB8 '''' CLASS_DEFAULT CYCLES_NONE ERRORS_DEFAULT,
    instr 0xB9 ''CBNZ'' CLASS_DEFAULT CYCLES_CBNZ ERRORS_DEFAULT,
    instr 0xBA '''' CLASS_DEFAULT CYCLES_NONE ERRORS_DEFAULT,
    instr 0xBB ''CBNZ'' CLASS_DEFAULT CYCLES_CBNZ ERRORS_DEFAULT,
    instr 0xBC ''POP'' CLASS_DEFAULT CYCLES_POP ERRORS_DEFAULT,
    instr 0xBD ''POP pc'' CLASS_DEFAULT CYCLES_POP ERRORS_DEFAULT,
    instr 0xBE ''BKPT'' CLASS_DEFAULT CYCLES_BKPT ERRORS_DEFAULT,
    instr 0xBF ''ITE'' CLASS_DEFAULT CYCLES_ITE ERRORS_DEFAULT,
    instr 0xC0 ''STMIA r0'' CLASS_DEFAULT CYCLES_STMIA ERRORS_DEFAULT,
    instr 0xC1 ''STMIA r1'' CLASS_DEFAULT CYCLES_STMIA ERRORS_DEFAULT,
    instr 0xC2 ''STMIA r2'' CLASS_DEFAULT CYCLES_STMIA ERRORS_DEFAULT,
    instr 0xC3 ''STMIA r3'' CLASS_DEFAULT CYCLES_STMIA ERRORS_DEFAULT,
    instr 0xC4 ''STMIA r4'' CLASS_DEFAULT CYCLES_STMIA ERRORS_DEFAULT,
    instr 0xC5 ''STMIA r5'' CLASS_DEFAULT CYCLES_STMIA ERRORS_DEFAULT,
    instr 0xC6 ''STMIA r6'' CLASS_DEFAULT CYCLES_STMIA ERRORS_DEFAULT,
    instr 0xC7 ''STMIA r7'' CLASS_DEFAULT CYCLES_STMIA ERRORS_DEFAULT,
    instr 0xC8 ''LDMIA r0'' CLASS_DEFAULT CYCLES_LDMIA ERRORS_DEFAULT,
    instr 0xC9 ''LDMIA r1'' CLASS_DEFAULT CYCLES_LDMIA ERRORS_DEFAULT,
    instr 0xCA ''LDMIA r2'' CLASS_DEFAULT CYCLES_LDMIA ERRORS_DEFAULT,
    instr 0xCB ''LDMIA r3'' CLASS_DEFAULT CYCLES_LDMIA ERRORS_DEFAULT,
    instr 0xCC ''LDMIA r4'' CLASS_DEFAULT CYCLES_LDMIA ERRORS_DEFAULT,
    instr 0xCD ''LDMIA r5'' CLASS_DEFAULT CYCLES_LDMIA ERRORS_DEFAULT,
    instr 0xCE ''LDMIA r6'' CLASS_DEFAULT CYCLES_LDMIA ERRORS_DEFAULT,
    instr 0xCF ''LDMIA r7'' CLASS_DEFAULT CYCLES_LDMIA ERRORS_DEFAULT,
    instr 0xD0 ''BEQ'' CLASS_DEFAULT CYCLES_BEQ ERRORS_DEFAULT,
    instr 0xD1 ''BNE'' CLASS_DEFAULT CYCLES_BNE ERRORS_DEFAULT,
    instr 0xD2 ''BCS'' CLASS_DEFAULT CYCLES_BCS ERRORS_DEFAULT,
    instr 0xD3 ''BCC'' CLASS_DEFAULT CYCLES_BCC ERRORS_DEFAULT,
    instr 0xD4 ''BMI'' CLASS_DEFAULT CYCLES_BMI ERRORS_DEFAULT,
    instr 0xD5 ''BPL'' CLASS_DEFAULT CYCLES_BPL ERRORS_DEFAULT,
    instr 0xD6 ''BVS'' CLASS_DEFAULT CYCLES_BVS ERRORS_DEFAULT,
    instr 0xD7 ''BVC'' CLASS_DEFAULT CYCLES_BVC ERRORS_DEFAULT,
    instr 0xD8 ''BHI'' CLASS_DEFAULT CYCLES_BHI ERRORS_DEFAULT,
    instr 0xD9 ''BLS'' CLASS_DEFAULT CYCLES_BLS ERRORS_DEFAULT,
    instr 0xDA ''BGE'' CLASS_DEFAULT CYCLES_BGE ERRORS_DEFAULT,
    instr 0xDB ''BLT'' CLASS_DEFAULT CYCLES_BLT ERRORS_DEFAULT,
    instr 0xDC ''BGT'' CLASS_DEFAULT CYCLES_BGT ERRORS_DEFAULT,
    instr 0xDD ''BLE'' CLASS_DEFAULT CYCLES_BLE ERRORS_DEFAULT,
    instr 0xDE '''' CLASS_DEFAULT CYCLES_NONE ERRORS_DEFAULT,
    instr 0xDF ''SWI'' CLASS_DEFAULT CYCLES_SWI ERRORS_DEFAULT,
    instr 0xE0 ''B'' CLASS_DEFAULT CYCLES_B ERRORS_DEFAULT,
    instr 0xE1 ''B'' CLASS_DEFAULT CYCLES_B ERRORS_DEFAULT,
    instr 0xE2 ''B'' CLASS_DEFAULT CYCLES_B ERRORS_DEFAULT,
    instr 0xE3 ''B'' CLASS_DEFAULT CYCLES_B ERRORS_DEFAULT,
    instr 0xE4 ''B'' CLASS_DEFAULT CYCLES_B ERRORS_DEFAULT,
    instr 0xE5 ''B'' CLASS_DEFAULT CYCLES_B ERRORS_DEFAULT,
    instr 0xE6 ''B'' CLASS_DEFAULT CYCLES_B ERRORS_DEFAULT,
    instr 0xE7 ''B'' CLASS_DEFAULT CYCLES_B ERRORS_DEFAULT,
    instr 0xE8 ''BLX off'' CLASS_DEFAULT CYCLES_BLX ERRORS_DEFAULT,
    instr 0xE9 ''BLX off'' CLASS_DEFAULT CYCLES_BLX ERRORS_DEFAULT,
    instr 0xEA ''BLX off'' CLASS_DEFAULT CYCLES_BLX ERRORS_DEFAULT,
    instr 0xEB ''BLX off'' CLASS_DEFAULT CYCLES_BLX ERRORS_DEFAULT,
    instr 0xEC ''BLX off'' CLASS_DEFAULT CYCLES_BLX ERRORS_DEFAULT,
    instr 0xED ''BLX off'' CLASS_DEFAULT CYCLES_BLX ERRORS_DEFAULT,
    instr 0xEE ''BLX off'' CLASS_DEFAULT CYCLES_BLX ERRORS_DEFAULT,
    instr 0xEF ''BLX off'' CLASS_DEFAULT CYCLES_BLX ERRORS_DEFAULT,
    instr 0xF0 ''BL setup'' CLASS_DEFAULT CYCLES_BL ERRORS_DEFAULT,
    instr 0xF1 ''BL setup'' CLASS_DEFAULT CYCLES_BL ERRORS_DEFAULT,
    instr 0xF2 ''BL setup'' CLASS_DEFAULT CYCLES_BL ERRORS_DEFAULT,
    instr 0xF3 ''BL setup'' CLASS_DEFAULT CYCLES_BL ERRORS_DEFAULT,
    instr 0xF4 ''BL setup'' CLASS_DEFAULT CYCLES_BL ERRORS_DEFAULT,
    instr 0xF5 ''BL setup'' CLASS_DEFAULT CYCLES_BL ERRORS_DEFAULT,
    instr 0xF6 ''BL setup'' CLASS_DEFAULT CYCLES_BL ERRORS_DEFAULT,
    instr 0xF7 ''BL setup'' CLASS_DEFAULT CYCLES_BL ERRORS_DEFAULT,
    instr 0xF8 ''BL off'' CLASS_DEFAULT CYCLES_BL ERRORS_DEFAULT,
    instr 0xF9 ''BL off'' CLASS_DEFAULT CYCLES_BL ERRORS_DEFAULT,
    instr 0xFA ''BL off'' CLASS_DEFAULT CYCLES_BL ERRORS_DEFAULT,
    instr 0xFB ''BL off'' CLASS_DEFAULT CYCLES_BL ERRORS_DEFAULT,
    instr 0xFC ''BL off'' CLASS_DEFAULT CYCLES_BL ERRORS_DEFAULT,
    instr 0xFD ''BL off'' CLASS_DEFAULT CYCLES_BL ERRORS_DEFAULT,
    instr 0xFE ''BL off'' CLASS_DEFAULT CYCLES_BL ERRORS_DEFAULT,
    instr 0xFF ''BL off'' CLASS_DEFAULT CYCLES_BL ERRORS_DEFAULT]"

lemma vemu_thumb_instr_0_ok: "list_all2 row_ok [0..<128] vemu_thumb_instr_0"
  by (simp add: vemu_thumb_instr_0_def row_defs cycles_defs upt_conv_Cons)

lemma vemu_thumb_instr_1_ok: "list_all2 row_ok [128..<256] vemu_thumb_instr_1"
  by (simp add: vemu_thumb_instr_1_def row_defs cycles_defs upt_conv_Cons)

end
