(* ===== verification/Vemu_Arm_Table0.thy ===== *)
theory Vemu_Arm_Table0
  imports Vemu_Instr
begin

text \<open>
  The rows 0x000 to 0x3FF of \<^verbatim>\<open>vemu_arm_instr\<close>, in eight lists of 128.
\<close>

definition vemu_arm_instr_00 :: "vemu_instr_info list" where
  "vemu_arm_instr_00 = [
    instr 0x000 ''AND lli'' CLASS_DEFAULT CYCLES_AND ERRORS_DEFAULT,
    instr 0x001 ''AND llr'' CLASS_DEFAULT CYCLES_AND ERRORS_DEFAULT,
    instr 0x002 ''AND lri'' CLASS_DEFAULT CYCLES_AND ERRORS_DEFAULT,
    instr 0x003 ''AND lrr'' CLASS_DEFAULT CYCLES_AND ERRORS_DEFAULT,
    instr 0x004 ''AND ari'' CLASS_DEFAULT CYCLES_AND ERRORS_DEFAULT,
    instr 0x005 ''AND arr'' CLASS_DEFAULT CYCLES_AND ERRORS_DEFAULT,
    instr 0x006 ''AND rri'' CLASS_DEFAULT CYCLES_AND ERRORS_DEFAULT,
    instr 0x007 ''AND rrr'' CLASS_DEFAULT CYCLES_AND ERRORS_DEFAULT,
    instr 0x008 ''AND lli'' CLASS_DEFAULT CYCLES_AND ERRORS_DEFAULT,
    instr 0x009 ''MUL'' CLASS_DEFAULT CYCLES_MUL ERRORS_DEFAULT,
    instr 0x00A ''AND lri'' CLASS_DEFAULT CYCLES_AND ERRORS_DEFAULT,
    instr 0x00B ''STRH ptrm'' CLASS_DEFAULT CYCLES_STRH ERRORS_DEFAULT,
    instr 0x00C ''AND ari'' CLASS_DEFAULT CYCLES_AND ERRORS_DEFAULT,
    instr 0x00D ''LDRD ptrm'' CLASS_DEFAULT CYCLES_LDRD ERRORS_DEFAULT,
    instr 0x00E ''AND rri'' CLASS_DEFAULT CYCLES_AND ERRORS_DEFAULT,
    instr 0x00F ''STRD ptrm'' CLASS_DEFAULT CYCLES_STRD ERRORS_DEFAULT,
    instr 0x010 ''ANDS lli'' CLASS_DEFAULT CYCLES_ANDS ERRORS_DEFAULT,
    instr 0x011 ''ANDS llr'' CLASS_DEFAULT CYCLES_ANDS ERRORS_DEFAULT,
    instr 0x012 ''ANDS lri'' CLASS_DEFAULT CYCLES_ANDS ERRORS_DEFAULT,
    instr 0x013 ''ANDS lrr'' CLASS_DEFAULT CYCLES_ANDS ERRORS_DEFAULT,
    instr 0x014 ''ANDS ari'' CLASS_DEFAULT CYCLES_ANDS ERRORS_DEFAULT,
    instr 0x015 ''ANDS arr'' CLASS_DEFAULT CYCLES_ANDS ERRORS_DEFAULT,
    instr 0x016 ''ANDS rri'' CLASS_DEFAULT CYCLES_ANDS ERRORS_DEFAULT,
    instr 0x017 ''ANDS rrr'' CLASS_DEFAULT CYCLES_ANDS ERRORS_DEFAULT,
    instr 0x018 ''ANDS lli'' CLASS_DEFAULT CYCLES_ANDS ERRORS_DEFAULT,
    instr 0x019 ''MULS'' CLASS_DEFAULT CYCLES_MULS ERRORS_DEFAULT,
    instr 0x01A ''ANDS lri'' CLASS_DEFAULT CYCLES_ANDS ERRORS_DEFAULT,
    instr 0x01B ''LDRH ptrm'' CLASS_DEFAULT CYCLES_LDRH ERRORS_DEFAULT,
    instr 0x01C ''ANDS ari'' CLASS_DEFAULT CYCLES_ANDS ERRORS_DEFAULT,
    instr 0x01D ''LDRSB ptrm'' CLASS_DEFAULT CYCLES_LDRSB ERRORS_DEFAULT,
    instr 0x01E ''ANDS rri'' CLASS_DEFAULT CYCLES_ANDS ERRORS_DEFAULT,
    instr 0x01F ''LDRSH ptrm'' CLASS_DEFAULT CYCLES_LDRSH ERRORS_DEFAULT,
    instr 0x020 ''EOR lli'' CLASS_DEFAULT CYCLES_EOR ERRORS_DEFAULT,
    instr 0x021 ''EOR llr'' CLASS_DEFAULT CYCLES_EOR ERRORS_DEFAULT,
    instr 0x022 ''EOR lri'' CLASS_DEFAULT CYCLES_EOR ERRORS_DEFAULT,
    instr 0x023 ''EOR lrr'' CLASS_DEFAULT CYCLES_EOR ERRORS_DEFAULT,
    instr 0x024 ''EOR ari'' CLASS_DEFAULT CYCLES_EOR ERRORS_DEFAULT,
    instr 0x025 ''EOR arr'' CLASS_DEFAULT CYCLES_EOR ERRORS_DEFAULT,
    instr 0x026 ''EOR rri'' CLASS_DEFAULT CYCLES_EOR ERRORS_DEFAULT,
    instr 0x027 ''EOR rrrr'' CLASS_DEFAULT CYCLES_EOR ERRORS_DEFAULT,
    instr 0x028 ''EOR lli'' CLASS_DEFAULT CYCLES_EOR ERRORS_DEFAULT,
    instr 0x029 ''MLA'' CLASS_DEFAULT CYCLES_MLA ERRORS_DEFAULT,
    instr 0x02A ''EOR lri'' CLASS_DEFAULT CYCLES_EOR ERRORS_DEFAULT,
    instr 0x02B ''STRH ptrm'' CLASS_DEFAULT CYCLES_STRH ERRORS_DEFAULT,
    instr 0x02C ''EOR ari'' CLASS_DEFAULT CYCLES_EOR ERRORS_DEFAULT,
    instr 0x02D ''LDRD ptrm'' CLASS_DEFAULT CYCLES_LDRD ERRORS_DEFAULT,
    instr 0x02E ''EOR rri'' CLASS_DEFAULT CYCLES_EOR ERRORS_DEFAULT,
    instr 0x02F ''STRD ptrm'' CLASS_DEFAULT CYCLES_STRD ERRORS_DEFAULT,
    instr 0x030 ''EORS lli'' CLASS_DEFAULT CYCLES_EORS ERRORS_DEFAULT,
    instr 0x031 ''EORS llr'' CLASS_DEFAULT CYCLES_EORS ERRORS_DEFAULT,
    instr 0x032 ''EORS lri'' CLASS_DEFAULT CYCLES_EORS ERRORS_DEFAULT,
    instr 0x033 ''EORS lrr'' CLASS_DEFAULT CYCLES_EORS ERRORS_DEFAULT,
    instr 0x034 ''EORS ari'' CLASS_DEFAULT CYCLES_EORS ERRORS_DEFAULT,
    instr 0x035 ''EORS arr'' CLASS_DEFAULT CYCLES_EORS ERRORS_DEFAULT,
    instr 0x036 ''EORS rri'' CLASS_DEFAULT CYCLES_EORS ERRORS_DEFAULT,
    instr 0x037 ''EORS rrr'' CLASS_DEFAULT CYCLES_EORS ERRORS_DEFAULT,
    instr 0x038 ''EORS lli'' CLASS_DEFAULT CYCLES_EORS ERRORS_DEFAULT,
    instr 0x039 ''MLAS'' CLASS_DEFAULT CYCLES_MLAS ERRORS_DEFAULT,
    instr 0x03A ''EORS lri'' CLASS_DEFAULT CYCLES_EORS ERRORS_DEFAULT,
    instr 0x03B ''LDRH ptrm'' CLASS_DEFAULT CYCLES_LDRH ERRORS_DEFAULT,
    instr 0x03C ''EORS ari'' CLASS_DEFAULT CYCLES_EORS ERRORS_DEFAULT,
    instr 0x03D ''LDRSB ptrm'' CLASS_DEFAULT CYCLES_LDRSB ERRORS_DEFAULT,
    instr 0x03E ''EORS rri'' CLASS_DEFAULT CYCLES_EORS ERRORS_DEFAULT,
    instr 0x03F ''LDRSH ptrm'' CLASS_DEFAULT CYCLES_LDRSH ERRORS_DEFAULT,
    instr 0x040 ''SUB lli'' CLASS_DEFAULT CYCLES_SUB ERRORS_DEFAULT,
    instr 0x041 ''SUB llr'' CLASS_DEFAULT CYCLES_SUB ERRORS_DEFAULT,
    instr 0x042 ''SUB lri'' CLASS_DEFAULT CYCLES_SUB ERRORS_DEFAULT,
    instr 0x043 ''SUB lrr'' CLASS_DEFAULT CYCLES_SUB ERRORS_DEFAULT,
    instr 0x044 ''SUB ari'' CLASS_DEFAULT CYCLES_SUB ERRORS_DEFAULT,
    instr 0x045 ''SUB arr'' CLASS_DEFAULT CYCLES_SUB ERRORS_DEFAULT,
    instr 0x046 ''SUB rri'' CLASS_DEFAULT CYCLES_SUB ERRORS_DEFAULT,
    instr 0x047 ''SUB rrr'' CLASS_DEFAULT CYCLES_SUB ERRORS_DEFAULT,
    instr 0x048 ''SUB lli'' CLASS_DEFAULT CYCLES_SUB ERRORS_DEFAULT,
    instr 0x049 '''' CLASS_DEFAULT CYCLES_NONE ERRORS_DEFAULT,
    instr 0x04A ''SUB lri'' CLASS_DEFAULT CYCLES_SUB ERRORS_DEFAULT,
    instr 0x04B ''STRH ptim'' CLASS_DEFAULT CYCLES_STRH ERRORS_DEFAULT,
    instr 0x04C ''SUB ari'' CLASS_DEFAULT CYCLES_SUB ERRORS_DEFAULT,
    instr 0x04D ''LDRD ptim'' CLASS_DEFAULT CYCLES_LDRD ERRORS_DEFAULT,
    instr 0x04E ''SUB rri'' CLASS_DEFAULT CYCLES_SUB ERRORS_DEFAULT,
    instr 0x04F ''STRD ptim'' CLASS_DEFAULT CYCLES_STRD ERRORS_DEFAULT,
    instr 0x050 ''SUBS lli'' CLASS_DEFAULT CYCLES_SUBS ERRORS_DEFAULT,
    instr 0x051 ''SUBS llr'' CLASS_DEFAULT CYCLES_SUBS ERRORS_DEFAULT,
    instr 0x052 ''SUBS lri'' CLASS_DEFAULT CYCLES_SUBS ERRORS_DEFAULT,
    instr 0x053 ''SUBS lrr'' CLASS_DEFAULT CYCLES_SUBS ERRORS_DEFAULT,
    instr 0x054 ''SUBS ari'' CLASS_DEFAULT CYCLES_SUBS ERRORS_DEFAULT,
    instr 0x055 ''SUBS arr'' CLASS_DEFAULT CYCLES_SUBS ERRORS_DEFAULT,
    instr 0x056 ''SUBS rri'' CLASS_DEFAULT CYCLES_SUBS ERRORS_DEFAULT,
    instr 0x057 ''SUBS rrr'' CLASS_DEFAULT CYCLES_SUBS ERRORS_DEFAULT,
    instr 0x058 ''SUBS lli'' CLASS_DEFAULT CYCLES_SUBS ERRORS_DEFAULT,
    instr 0x059 '''' CLASS_DEFAULT CYCLES_NONE ERRORS_DEFAULT,
    instr 0x05A ''SUBS lri'' CLASS_DEFAULT CYCLES_SUBS ERRORS_DEFAULT,
    instr 0x05B ''LDRH ptim'' CLASS_DEFAULT CYCLES_LDRH ERRORS_DEFAULT,
    instr 0x05C ''SUBS ari'' CLASS_DEFAULT CYCLES_SUBS ERRORS_DEFAULT,
    instr 0x05D ''LDRSB ptim'' CLASS_DEFAULT CYCLES_LDRSB ERRORS_DEFAULT,
    instr 0x05E ''SUBS rri'' CLASS_DEFAULT CYCLES_SUBS ERRORS_DEFAULT,
    instr 0x05F ''LDRSH ptim'' CLASS_DEFAULT CYCLES_LDRSH ERRORS_DEFAULT,
    instr 0x060 ''RSB lli'' CLASS_DEFAULT CYCLES_RSB ERRORS_DEFAULT,
    instr 0x061 ''RSB llr'' CLASS_DEFAULT CYCLES_RSB ERRORS_DEFAULT,
    instr 0x062 ''RSB lri'' CLASS_DEFAULT CYCLES_RSB ERRORS_DEFAULT,
    instr 0x063 ''RSB lrr'' CLASS_DEFAULT CYCLES_RSB ERRORS_DEFAULT,
    instr 0x064 ''RSB ari'' CLASS_DEFAULT CYCLES_RSB ERRORS_DEFAULT,
    instr 0x065 ''RSB arr'' CLASS_DEFAULT CYCLES_RSB ERRORS_DEFAULT,
    instr 0x066 ''RSB rri'' CLASS_DEFAULT CYCLES_RSB ERRORS_DEFAULT,
    instr 0x067 ''RSB rrr'' CLASS_DEFAULT CYCLES_RSB ERRORS_DEFAULT,
    instr 0x068 ''RSB lli'' CLASS_DEFAULT CYCLES_RSB ERRORS_DEFAULT,
    instr 0x069 '''' CLASS_DEFAULT CYCLES_NONE ERRORS_DEFAULT,
    instr 0x06A ''RSB lri'' CLASS_DEFAULT CYCLES_RSB ERRORS_DEFAULT,
    instr 0x06B ''STRH ptim'' CLASS_DEFAULT CYCLES_STRH ERRORS_DEFAULT,
    instr 0x06C ''RSB ari'' CLASS_DEFAULT CYCLES_RSB ERRORS_DEFAULT,
    instr 0x06D ''LDRD ptim'' CLASS_DEFAULT CYCLES_LDRD ERRORS_DEFAULT,
    instr 0x06E ''RSB rri'' CLASS_DEFAULT CYCLES_RSB ERRORS_DEFAULT,
    instr 0x06F ''STRD ptim'' CLASS_DEFAULT CYCLES_STRD ERRORS_DEFAULT,
    instr 0x070 ''RSBS lli'' CLASS_DEFAULT CYCLES_RSBS ERRORS_DEFAULT,
    instr 0x071 ''RSBS llr'' CLASS_DEFAULT CYCLES_RSBS ERRORS_DEFAULT,
    instr 0x072 ''RSBS lri'' CLASS_DEFAULT CYCLES_RSBS ERRORS_DEFAULT,
    instr 0x073 ''RSBS lrr'' CLASS_DEFAULT CYCLES_RSBS ERRORS_DEFAULT,
    instr 0x074 ''RSBS ari'' CLASS_DEFAULT CYCLES_RSBS ERRORS_DEFAULT,
    instr 0x075 ''RSBS arr'' CLASS_DEFAULT CYCLES_RSBS ERRORS_DEFAULT,
    instr 0x076 ''RSBS rri'' CLASS_DEFAULT CYCLES_RSBS ERRORS_DEFAULT,
    instr 0x077 ''RSBS rrr'' CLASS_DEFAULT CYCLES_RSBS ERRORS_DEFAULT,
    instr 0x078 ''RSBS lli'' CLASS_DEFAULT CYCLES_RSBS ERRORS_DEFAULT,
    instr 0x079 '''' CLASS_DEFAULT CYCLES_NONE ERRORS_DEFAULT,
    instr 0x07A ''RSBS lri'' CLASS_DEFAULT CYCLES_RSBS ERRORS_DEFAULT,
    instr 0x07B ''LDRH ptim'' CLASS_DEFAULT CYCLES_LDRH ERRORS_DEFAULT,
    instr 0x07C ''RSBS ari'' CLASS_DEFAULT CYCLES_RSBS ERRORS_DEFAULT,
    instr 0x07D ''LDRSB ptim'' CLASS_DEFAULT CYCLES_LDRSB ERRORS_DEFAULT,
    instr 0x07E ''RSBS rri'' CLASS_DEFAULT CYCLES_RSBS ERRORS_DEFAULT,
    instr 0x07F ''LDRSH ptim'' CLASS_DEFAULT CYCLES_LDRSH ERRORS_DEFAULT]"

definition vemu_arm_instr_01 :: "vemu_instr_info list" where
  "vemu_arm_instr_01 = [
    instr 0x080 ''ADD lli'' CLASS_DEFAULT CYCLES_ADD ERRORS_DEFAULT,
    instr 0x081 ''ADD llr'' CLASS_DEFAULT CYCLES_ADD ERRORS_DEFAULT,
    instr 0x082 ''ADD lri'' CLASS_DEFAULT CYCLES_ADD ERRORS_DEFAULT,
    instr 0x083 ''ADD lrr'' CLASS_DEFAULT CYCLES_ADD ERRORS_DEFAULT,
    instr 0x084 ''ADD ari'' CLASS_DEFAULT CYCLES_ADD ERRORS_DEFAULT,
    instr 0x085 ''ADD arr'' CLASS_DEFAULT CYCLES_ADD ERRORS_DEFAULT,
    instr 0x086 ''ADD rri'' CLASS_DEFAULT CYCLES_ADD ERRORS_DEFAULT,
    instr 0x087 ''ADD rrr'' CLASS_DEFAULT CYCLES_ADD ERRORS_DEFAULT,
    instr 0x088 ''ADD lli'' CLASS_DEFAULT CYCLES_ADD ERRORS_DEFAULT,
    instr 0x089 ''UMULL'' CLASS_DEFAULT CYCLES_UMULL ERRORS_DEFAULT,
    instr 0x08A ''ADD lri'' CLASS_DEFAULT CYCLES_ADD ERRORS_DEFAULT,
    instr 0x08B ''STRH ptrp'' CLASS_DEFAULT CYCLES_STRH ERRORS_DEFAULT,
    instr 0x08C ''ADD ari'' CLASS_DEFAULT CYCLES_ADD ERRORS_DEFAULT,
    instr 0x08D ''LDRD ptrp'' CLASS_DEFAULT CYCLES_LDRD ERRORS_DEFAULT,
    instr 0x08E ''ADD rri'' CLASS_DEFAULT CYCLES_ADD ERRORS_DEFAULT,
    instr 0x08F ''STRD ptrp'' CLASS_DEFAULT CYCLES_STRD ERRORS_DEFAULT,
    instr 0x090 ''ADDS lli'' CLASS_DEFAULT CYCLES_ADDS ERRORS_DEFAULT,
    instr 0x091 ''ADDS llr'' CLASS_DEFAULT CYCLES_ADDS ERRORS_DEFAULT,
    instr 0x092 ''ADDS lri'' CLASS_DEFAULT CYCLES_ADDS ERRORS_DEFAULT,
    instr 0x093 ''ADDS lrr'' CLASS_DEFAULT CYCLES_ADDS ERRORS_DEFAULT,
    instr 0x094 ''ADDS ari'' CLASS_DEFAULT CYCLES_ADDS ERRORS_DEFAULT,
    instr 0x095 ''ADDS arr'' CLASS_DEFAULT CYCLES_ADDS ERRORS_DEFAULT,
    instr 0x096 ''ADDS rri'' CLASS_DEFAULT CYCLES_ADDS ERRORS_DEFAULT,
    instr 0x097 ''ADDS rrr'' CLASS_DEFAULT CYCLES_ADDS ERRORS_DEFAULT,
    instr 0x098 ''ADDS lli'' CLASS_DEFAULT CYCLES_ADDS ERRORS_DEFAULT,
    instr 0x099 ''UMULLS'' CLASS_DEFAULT CYCLES_UMULLS ERRORS_DEFAULT,
    instr 0x09A ''ADDS lri'' CLASS_DEFAULT CYCLES_ADDS ERRORS_DEFAULT,
    instr 0x09B ''LDRH ptrp'' CLASS_DEFAULT CYCLES_LDRH ERRORS_DEFAULT,
    instr 0x09C ''ADDS ari'' CLASS_DEFAULT CYCLES_ADDS ERRORS_DEFAULT,
    instr 0x09D ''LDRSB ptrp'' CLASS_DEFAULT CYCLES_LDRSB ERRORS_DEFAULT,
    instr 0x09E ''ADDS rri'' CLASS_DEFAULT CYCLES_ADDS ERRORS_DEFAULT,
    instr 0x09F ''LDRSH ptrp'' CLASS_DEFAULT CYCLES_LDRSH ERRORS_DEFAULT,
    instr 0x0A0 ''ADC lli'' CLASS_DEFAULT CYCLES_ADC ERRORS_DEFAULT,
    instr 0x0A1 ''ADC llr'' CLASS_DEFAULT CYCLES_ADC ERRORS_DEFAULT,
    instr 0x0A2 ''ADC lri'' CLASS_DEFAULT CYCLES_ADC ERRORS_DEFAULT,
    instr 0x0A3 ''ADC lrr'' CLASS_DEFAULT CYCLES_ADC ERRORS_DEFAULT,
    instr 0x0A4 ''ADC ari'' CLASS_DEFAULT CYCLES_ADC ERRORS_DEFAULT,
    instr 0x0A5 ''ADC arr'' CLASS_DEFAULT CYCLES_ADC ERRORS_DEFAULT,
    instr 0x0A6 ''ADC rri'' CLASS_DEFAULT CYCLES_ADC ERRORS_DEFAULT,
    instr 0x0A7 ''ADC rrr'' CLASS_DEFAULT CYCLES_ADC ERRORS_DEFAULT,
    instr 0x0A8 ''ADC lli'' CLASS_DEFAULT CYCLES_ADC ERRORS_DEFAULT,
    instr 0x0A9 ''UMLAL'' CLASS_DEFAULT CYCLES_UMLAL ERRORS_DEFAULT,
    instr 0x0AA ''ADC lri'' CLASS_DEFAULT CYCLES_ADC ERRORS_DEFAULT,
    instr 0x0AB ''STRH ptrp'' CLASS_DEFAULT CYCLES_STRH ERRORS_DEFAULT,
    instr 0x0AC ''ADC ari'' CLASS_DEFAULT CYCLES_ADC ERRORS_DEFAULT,
    instr 0x0AD ''LDRD ptrp'' CLASS_DEFAULT CYCLES_LDRD ERRORS_DEFAULT,
    instr 0x0AE ''ADC rri'' CLASS_DEFAULT CYCLES_ADC ERRORS_DEFAULT,
    instr 0x0AF ''STRD ptrp'' CLASS_DEFAULT CYCLES_STRD ERRORS_DEFAULT,
    instr 0x0B0 ''ADCS lli'' CLASS_DEFAULT CYCLES_ADCS ERRORS_DEFAULT,
    instr 0x0B1 ''ADCS llr'' CLASS_DEFAULT CYCLES_ADCS ERRORS_DEFAULT,
    instr 0x0B2 ''ADCS lri'' CLASS_DEFAULT CYCLES_ADCS ERRORS_DEFAULT,
    instr 0x0B3 ''ADCS lrr'' CLASS_DEFAULT CYCLES_ADCS ERRORS_DEFAULT,
    instr 0x0B4 ''ADCS ari'' CLASS_DEFAULT CYCLES_ADCS ERRORS_DEFAULT,
    instr 0x0B5 ''ADCS arr'' CLASS_DEFAULT CYCLES_ADCS ERRORS_DEFAULT,
    instr 0x0B6 ''ADCS rri'' CLASS_DEFAULT CYCLES_ADCS ERRORS_DEFAULT,
    instr 0x0B7 ''ADCS rrr'' CLASS_DEFAULT CYCLES_ADCS ERRORS_DEFAULT,
    instr 0x0B8 ''ADCS lli'' CLASS_DEFAULT CYCLES_ADCS ERRORS_DEFAULT,
    instr 0x0B9 ''UMLALS'' CLASS_DEFAULT CYCLES_UMLALS ERRORS_DEFAULT,
    instr 0x0BA ''ADCS lri'' CLASS_DEFAULT CYCLES_ADCS ERRORS_DEFAULT,
    instr 0x0BB ''LDRH ptrp'' CLASS_DEFAULT CYCLES_LDRH ERRORS_DEFAULT,
    instr 0x0BC ''ADCS ari'' CLASS_DEFAULT CYCLES_ADCS ERRORS_DEFAULT,
    instr 0x0BD ''LDRSB ptrp'' CLASS_DEFAULT CYCLES_LDRSB ERRORS_DEFAULT,
    instr 0x0BE ''ADCS rri'' CLASS_DEFAULT CYCLES_ADCS ERRORS_DEFAULT,
    instr 0x0BF ''LDRSH ptrp'' CLASS_DEFAULT CYCLES_LDRSH ERRORS_DEFAULT,
    instr 0x0C0 ''SBC lli'' CLASS_DEFAULT CYCLES_SBC ERRORS_DEFAULT,
    instr 0x0C1 ''SBC llr'' CLASS_DEFAULT CYCLES_SBC ERRORS_DEFAULT,
    instr 0x0C2 ''SBC lri'' CLASS_DEFAULT CYCLES_SBC ERRORS_DEFAULT,
    instr 0x0C3 ''SBC lrr'' CLASS_DEFAULT CYCLES_SBC ERRORS_DEFAULT,
    instr 0x0C4 ''SBC ari'' CLASS_DEFAULT CYCLES_SBC ERRORS_DEFAULT,
    instr 0x0C5 ''SBC arr'' CLASS_DEFAULT CYCLES_SBC ERRORS_DEFAULT,
    instr 0x0C6 ''SBC rri'' CLASS_DEFAULT CYCLES_SBC ERRORS_DEFAULT,
    instr 0x0C7 ''SBC rrr'' CLASS_DEFAULT CYCLES_SBC ERRORS_DEFAULT,
    instr 0x0C8 ''SBC lli'' CLASS_DEFAULT CYCLES_SBC ERRORS_DEFAULT,
    instr 0x0C9 ''SMULL'' CLASS_DEFAULT CYCLES_SMULL ERRORS_DEFAULT,
    instr 0x0CA ''SBC lri'' CLASS_DEFAULT CYCLES_SBC ERRORS_DEFAULT,
    instr 0x0CB ''STRH ptip'' CLASS_DEFAULT CYCLES_STRH ERRORS_DEFAULT,
    instr 0x0CC ''SBC ari'' CLASS_DEFAULT CYCLES_SBC ERRORS_DEFAULT,
    instr 0x0CD ''LDRD ptip'' CLASS_DEFAULT CYCLES_LDRD ERRORS_DEFAULT,
    instr 0x0CE ''SBC rri'' CLASS_DEFAULT CYCLES_SBC ERRORS_DEFAULT,
    instr 0x0CF ''STRD ptip'' CLASS_DEFAULT CYCLES_STRD ERRORS_DEFAULT,
    instr 0x0D0 ''SBCS lli'' CLASS_DEFAULT CYCLES_SBCS ERRORS_DEFAULT,
    instr 0x0D1 ''SBCS llr'' CLASS_DEFAULT CYCLES_SBCS ERRORS_DEFAULT,
    instr 0x0D2 ''SBCS lri'' CLASS_DEFAULT CYCLES_SBCS ERRORS_DEFAULT,
    instr 0x0D3 ''SBCS lrr'' CLASS_DEFAULT CYCLES_SBCS ERRORS_DEFAULT,
    instr 0x0D4 ''SBCS ari'' CLASS_DEFAULT CYCLES_SBCS ERRORS_DEFAULT,
    instr 0x0D5 ''SBCS arr'' CLASS_DEFAULT CYCLES_SBCS ERRORS_DEFAULT,
    instr 0x0D6 ''SBCS rri'' CLASS_DEFAULT CYCLES_SBCS ERRORS_DEFAULT,
    instr 0x0D7 ''SBCS rrr'' CLASS_DEFAULT CYCLES_SBCS ERRORS_DEFAULT,
    instr 0x0D8 ''SBCS lli'' CLASS_DEFAULT CYCLES_SBCS ERRORS_DEFAULT,
    instr 0x0D9 ''SMULLS'' CLASS_DEFAULT CYCLES_SMULLS ERRORS_DEFAULT,
    instr 0x0DA ''SBCS lri'' CLASS_DEFAULT CYCLES_SBCS ERRORS_DEFAULT,
    instr 0x0DB ''LDRH ptip'' CLASS_DEFAULT CYCLES_LDRH ERRORS_DEFAULT,
    instr 0x0DC ''SBCS ari'' CLASS_DEFAULT CYCLES_SBCS ERRORS_DEFAULT,
    instr 0x0DD ''LDRSB ptip'' CLASS_DEFAULT CYCLES_LDRSB ERRORS_DEFAULT,
    instr 0x0DE ''SBCS rri'' CLASS_DEFAULT CYCLES_SBCS ERRORS_DEFAULT,
    instr 0x0DF ''LDRSH ptip'' CLASS_DEFAULT CYCLES_LDRSH ERRORS_DEFAULT,
    instr 0x0E0 ''RSC lli'' CLASS_DEFAULT CYCLES_RSC ERRORS_DEFAULT,
    instr 0x0E1 ''RSC llr'' CLASS_DEFAULT CYCLES_RSC ERRORS_DEFAULT,
    instr 0x0E2 ''RSC lri'' CLASS_DEFAULT CYCLES_RSC ERRORS_DEFAULT,
    instr 0x0E3 ''RSC lrr'' CLASS_DEFAULT CYCLES_RSC ERRORS_DEFAULT,
    instr 0x0E4 ''RSC ari'' CLASS_DEFAULT CYCLES_RSC ERRORS_DEFAULT,
    instr 0x0E5 ''RSC arr'' CLASS_DEFAULT CYCLES_RSC ERRORS_DEFAULT,
    instr 0x0E6 ''RSC rri'' CLASS_DEFAULT CYCLES_RSC ERRORS_DEFAULT,
    instr 0x0E7 ''RSC rrr'' CLASS_DEFAULT CYCLES_RSC ERRORS_DEFAULT,
    instr 0x0E8 ''RSC lli'' CLASS_DEFAULT CYCLES_RSC ERRORS_DEFAULT,
    instr 0x0E9 ''SMLAL'' CLASS_DEFAULT CYCLES_SMLAL ERRORS_DEFAULT,
    instr 0x0EA ''RSC lri'' CLASS_DEFAULT CYCLES_RSC ERRORS_DEFAULT,
    instr 0x0EB ''STRH ptip'' CLASS_DEFAULT CYCLES_STRH ERRORS_DEFAULT,
    instr 0x0EC ''RSC ari'' CLASS_DEFAULT CYCLES_RSC ERRORS_DEFAULT,
    instr 0x0ED ''LDRD ptip'' CLASS_DEFAULT CYCLES_LDRD ERRORS_DEFAULT,
    instr 0x0EE ''RSC rri'' CLASS_DEFAULT CYCLES_RSC ERRORS_DEFAULT,
    instr 0x0EF ''STRD ptip'' CLASS_DEFAULT CYCLES_STRD ERRORS_DEFAULT,
    instr 0x0F0 ''RSCS lli'' CLASS_DEFAULT CYCLES_RSCS ERRORS_DEFAULT,
    instr 0x0F1 ''RSCS llr'' CLASS_DEFAULT CYCLES_RSCS ERRORS_DEFAULT,
    instr 0x0F2 ''RSCS lri'' CLASS_DEFAULT CYCLES_RSCS ERRORS_DEFAULT,
    instr 0x0F3 ''RSCS lrr'' CLASS_DEFAULT CYCLES_RSCS ERRORS_DEFAULT,
    instr 0x0F4 ''RSCS ari'' CLASS_DEFAULT CYCLES_RSCS ERRORS_DEFAULT,
    instr 0x0F5 ''RSCS arr'' CLASS_DEFAULT CYCLES_RSCS ERRORS_DEFAULT,
    instr 0x0F6 ''RSCS rri'' CLASS_DEFAULT CYCLES_RSCS ERRORS_DEFAULT,
    instr 0x0F7 ''RSCS rrr'' CLASS_DEFAULT CYCLES_RSCS ERRORS_DEFAULT,
    instr 0x0F8 ''RSCS lli'' CLASS_DEFAULT CYCLES_RSCS ERRORS_DEFAULT,
    instr 0x0F9 ''SMLALS'' CLASS_DEFAULT CYCLES_SMLALS ERRORS_DEFAULT,
    instr 0x0FA ''RSCS lri'' CLASS_DEFAULT CYCLES_RSCS ERRORS_DEFAULT,
    instr 0x0FB ''LDRH ptip'' CLASS_DEFAULT CYCLES_LDRH ERRORS_DEFAULT,
    instr 0x0FC ''RSCS ari'' CLASS_DEFAULT CYCLES_RSCS ERRORS_DEFAULT,
    instr 0x0FD ''LDRSB ptip'' CLASS_DEFAULT CYCLES_LDRSB ERRORS_DEFAULT,
    instr 0x0FE ''RSCS rri'' CLASS_DEFAULT CYCLES_RSCS ERRORS_DEFAULT,
    instr 0x0FF ''LDRSH ptip'' CLASS_DEFAULT CYCLES_LDRSH ERRORS_DEFAULT]"

definition vemu_arm_instr_02 :: "vemu_instr_info list" where
  "vemu_arm_instr_02 = [
    instr 0x100 ''MRS rc'' CLASS_DEFAULT CYCLES_MRS ERRORS_DEFAULT,
    instr 0x101 '''' CLASS_DEFAULT CYCLES_NONE ERRORS_DEFAULT,
    instr 0x102 '''' CLASS_DEFAULT CYCLES_NONE ERRORS_DEFAULT,
    instr 0x103 '''' CLASS_DEFAULT CYCLES_NONE ERRORS_DEFAULT,
    instr 0x104 '''' CLASS_DEFAULT CYCLES_NONE ERRORS_DEFAULT,
    instr 0x105 ''QADD'' CLASS_DEFAULT CYCLES_QADD ERRORS_DEFAULT,
    instr 0x106 '''' CLASS_DEFAULT CYCLES_NONE ERRORS_DEFAULT,
    instr 0x107 '''' CLASS_DEFAULT CYCLES_NONE ERRORS_DEFAULT,
    instr 0x108 ''SMLABB'' CLASS_DEFAULT CYCLES_SMLABB ERRORS_DEFAULT,
    instr 0x109 ''SWP'' CLASS_DEFAULT CYCLES_SWP ERRORS_DEFAULT,
    instr 0x10A ''SMLATB'' CLASS_DEFAULT CYCLES_SMLATB ERRORS_DEFAULT,
    instr 0x10B ''STRH ofrm'' CLASS_DEFAULT CYCLES_STRH ERRORS_DEFAULT,
    instr 0x10C ''SMLABT'' CLASS_DEFAULT CYCLES_SMLABT ERRORS_DEFAULT,
    instr 0x10D ''LDRD ofrm'' CLASS_DEFAULT CYCLES_LDRD ERRORS_DEFAULT,
    instr 0x10E ''SMLATT'' CLASS_DEFAULT CYCLES_SMLATT ERRORS_DEFAULT,
    instr 0x10F ''STRD ofrm'' CLASS_DEFAULT CYCLES_STRD ERRORS_DEFAULT,
    instr 0x110 ''TSTS lli'' CLASS_DEFAULT CYCLES_TSTS ERRORS_DEFAULT,
    instr 0x111 ''TSTS llr'' CLASS_DEFAULT CYCLES_TSTS ERRORS_DEFAULT,
    instr 0x112 ''TSTS lri'' CLASS_DEFAULT CYCLES_TSTS ERRORS_DEFAULT,
    instr 0x113 ''TSTS lrr'' CLASS_DEFAULT CYCLES_TSTS ERRORS_DEFAULT,
    instr 0x114 ''TSTS ari'' CLASS_DEFAULT CYCLES_TSTS ERRORS_DEFAULT,
    instr 0x115 ''TSTS arr'' CLASS_DEFAULT CYCLES_TSTS ERRORS_DEFAULT,
    instr 0x116 ''TSTS rri'' CLASS_DEFAULT CYCLES_TSTS ERRORS_DEFAULT,
    instr 0x117 ''TSTS rrr'' CLASS_DEFAULT CYCLES_TSTS ERRORS_DEFAULT,
    instr 0x118 ''TSTS lli'' CLASS_DEFAULT CYCLES_TSTS ERRORS_DEFAULT,
    instr 0x119 '''' CLASS_DEFAULT CYCLES_NONE ERRORS_DEFAULT,
    instr 0x11A ''TSTS lri'' CLASS_DEFAULT CYCLES_TSTS ERRORS_DEFAULT,
    instr 0x11B ''LDRH ofrm'' CLASS_DEFAULT CYCLES_LDRH ERRORS_DEFAULT,
    instr 0x11C ''TSTS ari'' CLASS_DEFAULT CYCLES_TSTS ERRORS_DEFAULT,
    instr 0x11D ''LDRSB ofrm'' CLASS_DEFAULT CYCLES_LDRSB ERRORS_DEFAULT,
    instr 0x11E ''TSTS rri'' CLASS_DEFAULT CYCLES_TSTS ERRORS_DEFAULT,
    instr 0x11F ''LDRSH ofrm'' CLASS_DEFAULT CYCLES_LDRSH ERRORS_DEFAULT,
    instr 0x120 ''MSR rc'' CLASS_DEFAULT CYCLES_MSR ERRORS_DEFAULT,
    instr 0x121 ''BX'' CLASS_DEFAULT CYCLES_BX ERRORS_DEFAULT,
    instr 0x122 '''' CLASS_DEFAULT CYCLES_NONE ERRORS_DEFAULT,
    instr 0x123 ''BLX reg'' CLASS_DEFAULT CYCLES_BLX ERRORS_DEFAULT,
    instr 0x124 '''' CLASS_DEFAULT CYCLES_NONE ERRORS_DEFAULT,
    instr 0x125 ''QSUB'' CLASS_DEFAULT CYCLES_QSUB ERRORS_DEFAULT,
    instr 0x126 '''' CLASS_DEFAULT CYCLES_NONE ERRORS_DEFAULT,
    instr 0x127 ''BKPT'' CLASS_DEFAULT CYCLES_BKPT ERRORS_DEFAULT,
    instr 0x128 ''SMLAWB'' CLASS_DEFAULT CYCLES_SMLAWB ERRORS_DEFAULT,
    instr 0x129 '''' CLASS_DEFAULT CYCLES_NONE ERRORS_DEFAULT,
    instr 0x12A ''SMULWB'' CLASS_DEFAULT CYCLES_SMULWB ERRORS_DEFAULT,
    instr 0x12B ''STRH prrm'' CLASS_DEFAULT CYCLES_STRH ERRORS_DEFAULT,
    instr 0x12C ''SMLAWT'' CLASS_DEFAULT CYCLES_SMLAWT ERRORS_DEFAULT,
    instr 0x12D ''LDRD prrm'' CLASS_DEFAULT CYCLES_LDRD ERRORS_DEFAULT,
    instr 0x12E ''SMULWT'' CLASS_DEFAULT CYCLES_SMULWT ERRORS_DEFAULT,
    instr 0x12F ''STRD prrm'' CLASS_DEFAULT CYCLES_STRD ERRORS_DEFAULT,
    instr 0x130 ''TEQS lli'' CLASS_DEFAULT CYCLES_TEQS ERRORS_DEFAULT,
    instr 0x131 ''TEQS llr'' CLASS_DEFAULT CYCLES_TEQS ERRORS_DEFAULT,
    instr 0x132 ''TEQS lri'' CLASS_DEFAULT CYCLES_TEQS ERRORS_DEFAULT,
    instr 0x133 ''TEQS lrr'' CLASS_DEFAULT CYCLES_TEQS ERRORS_DEFAULT,
    instr 0x134 ''TEQS ari'' CLASS_DEFAULT CYCLES_TEQS ERRORS_DEFAULT,
    instr 0x135 ''TEQS arr'' CLASS_DEFAULT CYCLES_TEQS ERRORS_DEFAULT,
    instr 0x136 ''TEQS rri'' CLASS_DEFAULT CYCLES_TEQS ERRORS_DEFAULT,
    instr 0x137 ''TEQS rrr'' CLASS_DEFAULT CYCLES_TEQS ERRORS_DEFAULT,
    instr 0x138 ''TEQS lli'' CLASS_DEFAULT CYCLES_TEQS ERRORS_DEFAULT,
    instr 0x139 '''' CLASS_DEFAULT CYCLES_NONE ERRORS_DEFAULT,
    instr 0x13A ''TEQS lri'' CLASS_DEFAULT CYCLES_TEQS ERRORS_DEFAULT,
    instr 0x13B ''LDRH prrm'' CLASS_DEFAULT CYCLES_LDRH ERRORS_DEFAULT,
    instr 0x13C ''TEQS ari'' CLASS_DEFAULT CYCLES_TEQS ERRORS_DEFAULT,
    instr 0x13D ''LDRSB prrm'' CLASS_DEFAULT CYCLES_LDRSB ERRORS_DEFAULT,
    instr 0x13E ''TEQS rri'' CLASS_DEFAULT CYCLES_TEQS ERRORS_DEFAULT,
    instr 0x13F ''LDRSH prrm'' CLASS_DEFAULT CYCLES_LDRSH ERRORS_DEFAULT,
    instr 0x140 ''MRS rs'' CLASS_DEFAULT CYCLES_MRS ERRORS_DEFAULT,
    instr 0x141 '''' CLASS_DEFAULT CYCLES_NONE ERRORS_DEFAULT,
    instr 0x142 '''' CLASS_DEFAULT CYCLES_NONE ERRORS_DEFAULT,
    instr 0x143 '''' CLASS_DEFAULT CYCLES_NONE ERRORS_DEFAULT,
    instr 0x144 '''' CLASS_DEFAULT CYCLES_NONE ERRORS_DEFAULT,
    instr 0x145 ''QDADD'' CLASS_DEFAULT CYCLES_QDADD ERRORS_DEFAULT,
    instr 0x146 '''' CLASS_DEFAULT CYCLES_NONE ERRORS_DEFAULT,
    instr 0x147 '''' CLASS_DEFAULT CYCLES_NONE ERRORS_DEFAULT,
    instr 0x148 ''SMLALBB'' CLASS_DEFAULT CYCLES_SMLALBB ERRORS_DEFAULT,
    instr 0x149 ''SWPB'' CLASS_DEFAULT CYCLES_SWPB ERRORS_DEFAULT,
    instr 0x14A ''SMLALTB'' CLASS_DEFAULT CYCLES_SMLALTB ERRORS_DEFAULT,
    instr 0x14B ''STRH ofim'' CLASS_DEFAULT CYCLES_STRH ERRORS_DEFAULT,
    instr 0x14C ''SMLALBT'' CLASS_DEFAULT CYCLES_SMLALBT ERRORS_DEFAULT,
    instr 0x14D ''LDRD ofim'' CLASS_DEFAULT CYCLES_LDRD ERRORS_DEFAULT,
    instr 0x14E ''SMLALTT'' CLASS_DEFAULT CYCLES_SMLALTT ERRORS_DEFAULT,
    instr 0x14F ''STRD ofim'' CLASS_DEFAULT CYCLES_STRD ERRORS_DEFAULT,
    instr 0x150 ''CMPS lli'' CLASS_DEFAULT CYCLES_CMPS ERRORS_DEFAULT,
    instr 0x151 ''CMPS llr'' CLASS_DEFAULT CYCLES_CMPS ERRORS_DEFAULT,
    instr 0x152 ''CMPS lri'' CLASS_DEFAULT CYCLES_CMPS ERRORS_DEFAULT,
    instr 0x153 ''CMPS lrr'' CLASS_DEFAULT CYCLES_CMPS ERRORS_DEFAULT,
    instr 0x154 ''CMPS ari'' CLASS_DEFAULT CYCLES_CMPS ERRORS_DEFAULT,
    instr 0x155 ''CMPS arr'' CLASS_DEFAULT CYCLES_CMPS ERRORS_DEFAULT,
    instr 0x156 ''CMPS rri'' CLASS_DEFAULT CYCLES_CMPS ERRORS_DEFAULT,
    instr 0x157 ''CMPS rrr'' CLASS_DEFAULT CYCLES_CMPS ERRORS_DEFAULT,
    instr 0x158 ''CMPS lli'' CLASS_DEFAULT CYCLES_CMPS ERRORS_DEFAULT,
    instr 0x159 '''' CLASS_DEFAULT CYCLES_NONE ERRORS_DEFAULT,
    instr 0x15A ''CMPS lri'' CLASS_DEFAULT CYCLES_CMPS ERRORS_DEFAULT,
    instr 0x15B ''LDRH ofim'' CLASS_DEFAULT CYCLES_LDRH ERRORS_DEFAULT,
    instr 0x15C ''CMPS ari'' CLASS_DEFAULT CYCLES_CMPS ERRORS_DEFAULT,
    instr 0x15D ''LDRSB ofim'' CLASS_DEFAULT CYCLES_LDRSB ERRORS_DEFAULT,
    instr 0x15E ''CMPS rri'' CLASS_DEFAULT CYCLES_CMPS ERRORS_DEFAULT,
    instr 0x15F ''LDRSH ofim'' CLASS_DEFAULT CYCLES_LDRSH ERRORS_DEFAULT,
    instr 0x160 ''MSR rs'' CLASS_DEFAULT CYCLES_MSR ERRORS_DEFAULT,
    instr 0x161 ''CLZ'' CLASS_DEFAULT CYCLES_CLZ ERRORS_DEFAULT,
    instr 0x162 '''' CLASS_DEFAULT CYCLES_NONE ERRORS_DEFAULT,
    instr 0x163 '''' CLASS_DEFAULT CYCLES_NONE ERRORS_DEFAULT,
    instr 0x164 '''' CLASS_DEFAULT CYCLES_NONE ERRORS_DEFAULT,
    instr 0x165 ''QDSUB'' CLASS_DEFAULT CYCLES_QDSUB ERRORS_DEFAULT,
    instr 0x166 '''' CLASS_DEFAULT CYCLES_NONE ERRORS_DEFAULT,
    instr 0x167 '''' CLASS_DEFAULT CYCLES_NONE ERRORS_DEFAULT,
    instr 0x168 ''SMULBB'' CLASS_DEFAULT CYCLES_SMULBB ERRORS_DEFAULT,
    instr 0x169 '''' CLASS_DEFAULT CYCLES_NONE ERRORS_DEFAULT,
    instr 0x16A ''SMULTB'' CLASS_DEFAULT CYCLES_SMULTB ERRORS_DEFAULT,
    instr 0x16B ''STRH prim'' CLASS_DEFAULT CYCLES_STRH ERRORS_DEFAULT,
    instr 0x16C ''SMULBT'' CLASS_DEFAULT CYCLES_SMULBT ERRORS_DEFAULT,
    instr 0x16D ''LDRD prim'' CLASS_DEFAULT CYCLES_LDRD ERRORS_DEFAULT,
    instr 0x16E ''SMULTT'' CLASS_DEFAULT CYCLES_SMULTT ERRORS_DEFAULT,
    instr 0x16F ''STRD prim'' CLASS_DEFAULT CYCLES_STRD ERRORS_DEFAULT,
    instr 0x170 ''CMNS lli'' CLASS_DEFAULT CYCLES_CMNS ERRORS_DEFAULT,
    instr 0x171 ''CMNS llr'' CLASS_DEFAULT CYCLES_CMNS ERRORS_DEFAULT,
    instr 0x172 ''CMNS lri'' CLASS_DEFAULT CYCLES_CMNS ERRORS_DEFAULT,
    instr 0x173 ''CMNS lrr'' CLASS_DEFAULT CYCLES_CMNS ERRORS_DEFAULT,
    instr 0x174 ''CMNS ari'' CLASS_DEFAULT CYCLES_CMNS ERRORS_DEFAULT,
    instr 0x175 ''CMNS arr'' CLASS_DEFAULT CYCLES_CMNS ERRORS_DEFAULT,
    instr 0x176 ''CMNS rri'' CLASS_DEFAULT CYCLES_CMNS ERRORS_DEFAULT,
    instr 0x177 ''CMNS rrr'' CLASS_DEFAULT CYCLES_CMNS ERRORS_DEFAULT,
    instr 0x178 ''CMNS lli'' CLASS_DEFAULT CYCLES_CMNS ERRORS_DEFAULT,
    instr 0x179 '''' CLASS_DEFAULT CYCLES_NONE ERRORS_DEFAULT,
    instr 0x17A ''CMNS lri'' CLASS_DEFAULT CYCLES_CMNS ERRORS_DEFAULT,
    instr 0x17B ''LDRH prim'' CLASS_DEFAULT CYCLES_LDRH ERRORS_DEFAULT,
    instr 0x17C ''CMNS ari'' CLASS_DEFAULT CYCLES_CMNS ERRORS_DEFAULT,
    instr 0x17D ''LDRSB prim'' CLASS_DEFAULT CYCLES_LDRSB ERRORS_DEFAULT,
    instr 0x17E ''CMNS rri'' CLASS_DEFAULT CYCLES_CMNS ERRORS_DEFAULT,
    instr 0x17F ''LDRSH prim'' CLASS_DEFAULT CYCLES_LDRSH ERRORS_DEFAULT]"

definition vemu_arm_instr_03 :: "vemu_instr_info list" where
  "vemu_arm_instr_03 = [
    instr 0x180 ''ORR lli'' CLASS_DEFAULT CYCLES_ORR ERRORS_DEFAULT,
    instr 0x181 ''ORR llr'' CLASS_DEFAULT CYCLES_ORR ERRORS_DEFAULT,
    instr 0x182 ''ORR lri'' CLASS_DEFAULT CYCLES_ORR ERRORS_DEFAULT,
    instr 0x183 ''ORR lrr'' CLASS_DEFAULT CYCLES_ORR ERRORS_DEFAULT,
    instr 0x184 ''ORR ari'' CLASS_DEFAULT CYCLES_ORR ERRORS_DEFAULT,
    instr 0x185 ''ORR arr'' CLASS_DEFAULT CYCLES_ORR ERRORS_DEFAULT,
    instr 0x186 ''ORR rri'' CLASS_DEFAULT CYCLES_ORR ERRORS_DEFAULT,
    instr 0x187 ''O rrrrr'' CLASS_DEFAULT CYCLES_O ERRORS_DEFAULT,
    instr 0x188 ''ORR lli'' CLASS_DEFAULT CYCLES_ORR ERRORS_DEFAULT,
    instr 0x189 '''' CLASS_DEFAULT CYCLES_NONE ERRORS_DEFAULT,
    instr 0x18A ''ORR lri'' CLASS_DEFAULT CYCLES_ORR ERRORS_DEFAULT,
    instr 0x18B ''STRH ofrp'' CLASS_DEFAULT CYCLES_STRH ERRORS_DEFAULT,
    instr 0x18C ''ORR ari'' CLASS_DEFAULT CYCLES_ORR ERRORS_DEFAULT,
    instr 0x18D ''LDRD ofrp'' CLASS_DEFAULT CYCLES_LDRD ERRORS_DEFAULT,
    instr 0x18E ''ORR rri'' CLASS_DEFAULT CYCLES_ORR ERRORS_DEFAULT,
    instr 0x18F ''STRD ofrp'' CLASS_DEFAULT CYCLES_STRD ERRORS_DEFAULT,
    instr 0x190 ''ORRS lli'' CLASS_DEFAULT CYCLES_ORRS ERRORS_DEFAULT,
    instr 0x191 ''ORRS llr'' CLASS_DEFAULT CYCLES_ORRS ERRORS_DEFAULT,
    instr 0x192 ''ORRS lri'' CLASS_DEFAULT CYCLES_ORRS ERRORS_DEFAULT,
    instr 0x193 ''ORRS lrr'' CLASS_DEFAULT CYCLES_ORRS ERRORS_DEFAULT,
    instr 0x194 ''ORRS ari'' CLASS_DEFAULT CYCLES_ORRS ERRORS_DEFAULT,
    instr 0x195 ''ORRS arr'' CLASS_DEFAULT CYCLES_ORRS ERRORS_DEFAULT,
    instr 0x196 ''ORRS rri'' CLASS_DEFAULT CYCLES_ORRS ERRORS_DEFAULT,
    instr 0x197 ''ORRS rrr'' CLASS_DEFAULT CYCLES_ORRS ERRORS_DEFAULT,
    instr 0x198 ''ORRS lli'' CLASS_DEFAULT CYCLES_ORRS ERRORS_DEFAULT,
    instr 0x199 '''' CLASS_DEFAULT CYCLES_NONE ERRORS_DEFAULT,
    instr 0x19A ''ORRS lri'' CLASS_DEFAULT CYCLES_ORRS ERRORS_DEFAULT,
    instr 0x19B ''LDRH ofrp'' CLASS_DEFAULT CYCLES_LDRH ERRORS_DEFAULT,
    instr 0x19C ''ORRS ari'' CLASS_DEFAULT CYCLES_ORRS ERRORS_DEFAULT,
    instr 0x19D ''LDRSB ofrp'' CLASS_DEFAULT CYCLES_LDRSB ERRORS_DEFAULT,
    instr 0x19E ''ORRS rri'' CLASS_DEFAULT CYCLES_ORRS ERRORS_DEFAULT,
    instr 0x19F ''LDRSH ofrp'' CLASS_DEFAULT CYCLES_LDRSH ERRORS_DEFAULT,
    instr 0x1A0 ''MOV lli'' CLASS_DEFAULT CYCLES_MOV ERRORS_DEFAULT,
    instr 0x1A1 ''MOV llr'' CLASS_DEFAULT CYCLES_MOV ERRORS_DEFAULT,
    instr 0x1A2 ''MOV lri'' CLASS_DEFAULT CYCLES_MOV ERRORS_DEFAULT,
    instr 0x1A3 ''MOV lrr'' CLASS_DEFAULT CYCLES_MOV ERRORS_DEFAULT,
    instr 0x1A4 ''MOV ari'' CLASS_DEFAULT CYCLES_MOV ERRORS_DEFAULT,
    instr 0x1A5 ''MOV arr'' CLASS_DEFAULT CYCLES_MOV ERRORS_DEFAULT,
    instr 0x1A6 ''MOV rri'' CLASS_DEFAULT CYCLES_MOV ERRORS_DEFAULT,
    instr 0x1A7 ''MOV rrr'' CLASS_DEFAULT CYCLES_MOV ERRORS_DEFAULT,
    instr 0x1A8 ''MOV lli'' CLASS_DEFAULT CYCLES_MOV ERRORS_DEFAULT,
    instr 0x1A9 '''' CLASS_DEFAULT CYCLES_NONE ERRORS_DEFAULT,
    instr 0x1AA ''MOV lri'' CLASS_DEFAULT CYCLES_MOV ERRORS_DEFAULT,
    instr 0x1AB ''STRH prrp'' CLASS_DEFAULT CYCLES_STRH ERRORS_DEFAULT,
    instr 0x1AC ''MOV ari'' CLASS_DEFAULT CYCLES_MOV ERRORS_DEFAULT,
    instr 0x1AD ''LDRD prrp'' CLASS_DEFAULT CYCLES_LDRD ERRORS_DEFAULT,
    instr 0x1AE ''MOV rri'' CLASS_DEFAULT CYCLES_MOV ERRORS_DEFAULT,
    instr 0x1AF ''STRD prrp'' CLASS_DEFAULT CYCLES_STRD ERRORS_DEFAULT,
    instr 0x1B0 ''MOVS lli'' CLASS_DEFAULT CYCLES_MOVS ERRORS_DEFAULT,
    instr 0x1B1 ''MOVS llr'' CLASS_DEFAULT CYCLES_MOVS ERRORS_DEFAULT,
    instr 0x1B2 ''MOVS lri'' CLASS_DEFAULT CYCLES_MOVS ERRORS_DEFAULT,
    instr 0x1B3 ''MOVS lrr'' CLASS_DEFAULT CYCLES_MOVS ERRORS_DEFAULT,
    instr 0x1B4 ''MOVS ari'' CLASS_DEFAULT CYCLES_MOVS ERRORS_DEFAULT,
    instr 0x1B5 ''MOVS arr'' CLASS_DEFAULT CYCLES_MOVS ERRORS_DEFAULT,
    instr 0x1B6 ''MOVS rri'' CLASS_DEFAULT CYCLES_MOVS ERRORS_DEFAULT,
    instr 0x1B7 ''MOVS rrr'' CLASS_DEFAULT CYCLES_MOVS ERRORS_DEFAULT,
    instr 0x1B8 ''MOVS lli'' CLASS_DEFAULT CYCLES_MOVS ERRORS_DEFAULT,
    instr 0x1B9 '''' CLASS_DEFAULT CYCLES_NONE ERRORS_DEFAULT,
    instr 0x1BA ''MOVS lri'' CLASS_DEFAULT CYCLES_MOVS ERRORS_DEFAULT,
    instr 0x1BB ''LDRH prrp'' CLASS_DEFAULT CYCLES_LDRH ERRORS_DEFAULT,
    instr 0x1BC ''MOVS ari'' CLASS_DEFAULT CYCLES_MOVS ERRORS_DEFAULT,
    instr 0x1BD ''LDRSB prrp'' CLASS_DEFAULT CYCLES_LDRSB ERRORS_DEFAULT,
    instr 0x1BE ''MOVS rri'' CLASS_DEFAULT CYCLES_MOVS ERRORS_DEFAULT,
    instr 0x1BF ''LDRSH prrp'' CLASS_DEFAULT CYCLES_LDRSH ERRORS_DEFAULT,
    instr 0x1C0 ''BIC lli'' CLASS_DEFAULT CYCLES_BIC ERRORS_DEFAULT,
    instr 0x1C1 ''BIC llr'' CLASS_DEFAULT CYCLES_BIC ERRORS_DEFAULT,
    instr 0x1C2 ''BIC lri'' CLASS_DEFAULT CYCLES_BIC ERRORS_DEFAULT,
    instr 0x1C3 ''BIC lrr'' CLASS_DEFAULT CYCLES_BIC ERRORS_DEFAULT,
    instr 0x1C4 ''BIC ari'' CLASS_DEFAULT CYCLES_BIC ERRORS_DEFAULT,
    instr 0x1C5 ''BIC arr'' CLASS_DEFAULT CYCLES_BIC ERRORS_DEFAULT,
    instr 0x1C6 ''BIC rri'' CLASS_DEFAULT CYCLES_BIC ERRORS_DEFAULT,
    instr 0x1C7 ''BIC rrr'' CLASS_DEFAULT CYCLES_BIC ERRORS_DEFAULT,
    instr 0x1C8 ''BIC lli'' CLASS_DEFAULT CYCLES_BIC ERRORS_DEFAULT,
    instr 0x1C9 '''' CLASS_DEFAULT CYCLES_NONE ERRORS_DEFAULT,
    instr 0x1CA ''BIC lri'' CLASS_DEFAULT CYCLES_BIC ERRORS_DEFAULT,
    instr 0x1CB ''STRH ofip'' CLASS_DEFAULT CYCLES_STRH ERRORS_DEFAULT,
    instr 0x1CC ''BIC ari'' CLASS_DEFAULT CYCLES_BIC ERRORS_DEFAULT,
    instr 0x1CD ''LDRD ofip'' CLASS_DEFAULT CYCLES_LDRD ERRORS_DEFAULT,
    instr 0x1CE ''BIC rri'' CLASS_DEFAULT CYCLES_BIC ERRORS_DEFAULT,
    instr 0x1CF ''STRD ofip'' CLASS_DEFAULT CYCLES_STRD ERRORS_DEFAULT,
    instr 0x1D0 ''BICS lli'' CLASS_DEFAULT CYCLES_BICS ERRORS_DEFAULT,
    instr 0x1D1 ''BICS llr'' CLASS_DEFAULT CYCLES_BICS ERRORS_DEFAULT,
    instr 0x1D2 ''BICS lri'' CLASS_DEFAULT CYCLES_BICS ERRORS_DEFAULT,
    instr 0x1D3 ''BICS lrr'' CLASS_DEFAULT CYCLES_BICS ERRORS_DEFAULT,
    instr 0x1D4 ''BICS ari'' CLASS_DEFAULT CYCLES_BICS ERRORS_DEFAULT,
    instr 0x1D5 ''BICS arr'' CLASS_DEFAULT CYCLES_BICS ERRORS_DEFAULT,
    instr 0x1D6 ''BICS rri'' CLASS_DEFAULT CYCLES_BICS ERRORS_DEFAULT,
    instr 0x1D7 ''BICS rrr'' CLASS_DEFAULT CYCLES_BICS ERRORS_DEFAULT,
    instr 0x1D8 ''BICS lli'' CLASS_DEFAULT CYCLES_BICS ERRORS_DEFAULT,
    instr 0x1D9 '''' CLASS_DEFAULT CYCLES_NONE ERRORS_DEFAULT,
    instr 0x1DA ''BICS lri'' CLASS_DEFAULT CYCLES_BICS ERRORS_DEFAULT,
    instr 0x1DB ''LDRH ofip'' CLASS_DEFAULT CYCLES_LDRH ERRORS_DEFAULT,
    instr 0x1DC ''BICS ari'' CLASS_DEFAULT CYCLES_BICS ERRORS_DEFAULT,
    instr 0x1DD ''LDRSB ofip'' CLASS_DEFAULT CYCLES_LDRSB ERRORS_DEFAULT,
    instr 0x1DE ''BICS rri'' CLASS_DEFAULT CYCLES_BICS ERRORS_DEFAULT,
    instr 0x1DF ''LDRSH ofip'' CLASS_DEFAULT CYCLES_LDRSH ERRORS_DEFAULT,
    instr 0x1E0 ''MVN lli'' CLASS_DEFAULT CYCLES_MVN ERRORS_DEFAULT,
    instr 0x1E1 ''MVN llr'' CLASS_DEFAULT CYCLES_MVN ERRORS_DEFAULT,
    instr 0x1E2 ''MVN lri'' CLASS_DEFAULT CYCLES_MVN ERRORS_DEFAULT,
    instr 0x1E3 ''MVN lrr'' CLASS_DEFAULT CYCLES_MVN ERRORS_DEFAULT,
    instr 0x1E4 ''MVN ari'' CLASS_DEFAULT CYCLES_MVN ERRORS_DEFAULT,
    instr 0x1E5 ''MVN arr'' CLASS_DEFAULT CYCLES_MVN ERRORS_DEFAULT,
    instr 0x1E6 ''MVN rri'' CLASS_DEFAULT CYCLES_MVN ERRORS_DEFAULT,
    instr 0x1E7 ''MVN rrr'' CLASS_DEFAULT CYCLES_MVN ERRORS_DEFAULT,
    instr 0x1E8 ''MVN lli'' CLASS_DEFAULT CYCLES_MVN ERRORS_DEFAULT,
    instr 0x1E9 '''' CLASS_DEFAULT CYCLES_NONE ERRORS_DEFAULT,
    instr 0x1EA ''MVN lri'' CLASS_DEFAULT CYCLES_MVN ERRORS_DEFAULT,
    instr 0x1EB ''STRH prip'' CLASS_DEFAULT CYCLES_STRH ERRORS_DEFAULT,
    instr 0x1EC ''MVN ari'' CLASS_DEFAULT CYCLES_MVN ERRORS_DEFAULT,
    instr 0x1ED ''LDRD prip'' CLASS_DEFAULT CYCLES_LDRD ERRORS_DEFAULT,
    instr 0x1EE ''MVN rri'' CLASS_DEFAULT CYCLES_MVN ERRORS_DEFAULT,
    instr 0x1EF ''STRD prip'' CLASS_DEFAULT CYCLES_STRD ERRORS_DEFAULT,
    instr 0x1F0 ''MVNS lli'' CLASS_DEFAULT CYCLES_MVNS ERRORS_DEFAULT,
    instr 0x1F1 ''MVNS llr'' CLASS_DEFAULT CYCLES_MVNS ERRORS_DEFAULT,
    instr 0x1F2 ''MVNS lri'' CLASS_DEFAULT CYCLES_MVNS ERRORS_DEFAULT,
    instr 0x1F3 ''MVNS lrr'' CLASS_DEFAULT CYCLES_MVNS ERRORS_DEFAULT,
    instr 0x1F4 ''MVNS ari'' CLASS_DEFAULT CYCLES_MVNS ERRORS_DEFAULT,
    instr 0x1F5 ''MVNS arr'' CLASS_DEFAULT CYCLES_MVNS ERRORS_DEFAULT,
    instr 0x1F6 ''MVNS rri'' CLASS_DEFAULT CYCLES_MVNS ERRORS_DEFAULT,
    instr 0x1F7 ''MVNS rrr'' CLASS_DEFAULT CYCLES_MVNS ERRORS_DEFAULT,
    instr 0x1F8 ''MVNS lli'' CLASS_DEFAULT CYCLES_MVNS ERRORS_DEFAULT,
    instr 0x1F9 '''' CLASS_DEFAULT CYCLES_NONE ERRORS_DEFAULT,
    instr 0x1FA ''MVNS lri'' CLASS_DEFAULT CYCLES_MVNS ERRORS_DEFAULT,
    instr 0x1FB ''LDRH prip'' CLASS_DEFAULT CYCLES_LDRH ERRORS_DEFAULT,
    instr 0x1FC ''MVNS ari'' CLASS_DEFAULT CYCLES_MVNS ERRORS_DEFAULT,
    instr 0x1FD ''LDRSB prip'' CLASS_DEFAULT CYCLES_LDRSB ERRORS_DEFAULT,
    instr 0x1FE ''MVNS rri'' CLASS_DEFAULT CYCLES_MVNS ERRORS_DEFAULT,
    instr 0x1FF ''LDRSH prip'' CLASS_DEFAULT CYCLES_LDRSH ERRORS_DEFAULT]"

definition vemu_arm_instr_04 :: "vemu_instr_info list" where
  "vemu_arm_instr_04 = [
    instr 0x200 ''AND imm'' CLASS_DEFAULT CYCLES_AND ERRORS_DEFAULT,
    instr 0x201 ''AND imm'' CLASS_DEFAULT CYCLES_AND ERRORS_DEFAULT,
    instr 0x202 ''AND imm'' CLASS_DEFAULT CYCLES_AND ERRORS_DEFAULT,
    instr 0x203 ''AND imm'' CLASS_DEFAULT CYCLES_AND ERRORS_DEFAULT,
    instr 0x204 ''AND imm'' CLASS_DEFAULT CYCLES_AND ERRORS_DEFAULT,
    instr 0x205 ''AND imm'' CLASS_DEFAULT CYCLES_AND ERRORS_DEFAULT,
    instr 0x206 ''AND imm'' CLASS_DEFAULT CYCLES_AND ERRORS_DEFAULT,
    instr 0x207 ''AND imm'' CLASS_DEFAULT CYCLES_AND ERRORS_DEFAULT,
    instr 0x208 ''AND imm'' CLASS_DEFAULT CYCLES_AND ERRORS_DEFAULT,
    instr 0x209 ''AND imm'' CLASS_DEFAULT CYCLES_AND ERRORS_DEFAULT,
    instr 0x20A ''AND imm'' CLASS_DEFAULT CYCLES_AND ERRORS_DEFAULT,
    instr 0x20B ''AND imm'' CLASS_DEFAULT CYCLES_AND ERRORS_DEFAULT,
    instr 0x20C ''AND imm'' CLASS_DEFAULT CYCLES_AND ERRORS_DEFAULT,
    instr 0x20D ''AND imm'' CLASS_DEFAULT CYCLES_AND ERRORS_DEFAULT,
    instr 0x20E ''AND imm'' CLASS_DEFAULT CYCLES_AND ERRORS_DEFAULT,
    instr 0x20F ''AND imm'' CLASS_DEFAULT CYCLES_AND ERRORS_DEFAULT,
    instr 0x210 ''ANDS imm'' CLASS_DEFAULT CYCLES_ANDS ERRORS_DEFAULT,
    instr 0x211 ''ANDS imm'' CLASS_DEFAULT CYCLES_ANDS ERRORS_DEFAULT,
    instr 0x212 ''ANDS imm'' CLASS_DEFAULT CYCLES_ANDS ERRORS_DEFAULT,
    instr 0x213 ''ANDS imm'' CLASS_DEFAULT CYCLES_ANDS ERRORS_DEFAULT,
    instr 0x214 ''ANDS imm'' CLASS_DEFAULT CYCLES_ANDS ERRORS_DEFAULT,
    instr 0x215 ''ANDS imm'' CLASS_DEFAULT CYCLES_ANDS ERRORS_DEFAULT,
    instr 0x216 ''ANDS imm'' CLASS_DEFAULT CYCLES_ANDS ERRORS_DEFAULT,
    instr 0x217 ''ANDS imm'' CLASS_DEFAULT CYCLES_ANDS ERRORS_DEFAULT,
    instr 0x218 ''ANDS imm'' CLASS_DEFAULT CYCLES_ANDS ERRORS_DEFAULT,
    instr 0x219 ''ANDS imm'' CLASS_DEFAULT CYCLES_ANDS ERRORS_DEFAULT,
    instr 0x21A ''ANDS imm'' CLASS_DEFAULT CYCLES_ANDS ERRORS_DEFAULT,
    instr 0x21B ''ANDS imm'' CLASS_DEFAULT CYCLES_ANDS ERRORS_DEFAULT,
    instr 0x21C ''ANDS imm'' CLASS_DEFAULT CYCLES_ANDS ERRORS_DEFAULT,
    instr 0x21D ''ANDS imm'' CLASS_DEFAULT CYCLES_ANDS ERRORS_DEFAULT,
    instr 0x21E ''ANDS imm'' CLASS_DEFAULT CYCLES_ANDS ERRORS_DEFAULT,
    instr 0x21F ''ANDS imm'' CLASS_DEFAULT CYCLES_ANDS ERRORS_DEFAULT,
    instr 0x220 ''EOR imm'' CLASS_DEFAULT CYCLES_EOR ERRORS_DEFAULT,
    instr 0x221 ''EOR imm'' CLASS_DEFAULT CYCLES_EOR ERRORS_DEFAULT,
    instr 0x222 ''EOR imm'' CLASS_DEFAULT CYCLES_EOR ERRORS_DEFAULT,
    instr 0x223 ''EOR imm'' CLASS_DEFAULT CYCLES_EOR ERRORS_DEFAULT,
    instr 0x224 ''EOR imm'' CLASS_DEFAULT CYCLES_EOR ERRORS_DEFAULT,
    instr 0x225 ''EOR imm'' CLASS_DEFAULT CYCLES_EOR ERRORS_DEFAULT,
    instr 0x226 ''EOR imm'' CLASS_DEFAULT CYCLES_EOR ERRORS_DEFAULT,
    instr 0x227 ''EOR imm'' CLASS_DEFAULT CYCLES_EOR ERRORS_DEFAULT,
    instr 0x228 ''EOR imm'' CLASS_DEFAULT CYCLES_EOR ERRORS_DEFAULT,
    instr 0x229 ''EOR imm'' CLASS_DEFAULT CYCLES_EOR ERRORS_DEFAULT,
    instr 0x22A ''EOR imm'' CLASS_DEFAULT CYCLES_EOR ERRORS_DEFAULT,
    instr 0x22B ''EOR imm'' CLASS_DEFAULT CYCLES_EOR ERRORS_DEFAULT,
    instr 0x22C ''EOR imm'' CLASS_DEFAULT CYCLES_EOR ERRORS_DEFAULT,
    instr 0x22D ''EOR imm'' CLASS_DEFAULT CYCLES_EOR ERRORS_DEFAULT,
    instr 0x22E ''EOR imm'' CLASS_DEFAULT CYCLES_EOR ERRORS_DEFAULT,
    instr 0x22F ''EOR imm'' CLASS_DEFAULT CYCLES_EOR ERRORS_DEFAULT,
    instr 0x230 ''EORS imm'' CLASS_DEFAULT CYCLES_EORS ERRORS_DEFAULT,
    instr 0x231 ''EORS imm'' CLASS_DEFAULT CYCLES_EORS ERRORS_DEFAULT,
    instr 0x232 ''EORS imm'' CLASS_DEFAULT CYCLES_EORS ERRORS_DEFAULT,
    instr 0x233 ''EORS imm'' CLASS_DEFAULT CYCLES_EORS ERRORS_DEFAULT,
    instr 0x234 ''EORS imm'' CLASS_DEFAULT CYCLES_EORS ERRORS_DEFAULT,
    instr 0x235 ''EORS imm'' CLASS_DEFAULT CYCLES_EORS ERRORS_DEFAULT,
    instr 0x236 ''EORS imm'' CLASS_DEFAULT CYCLES_EORS ERRORS_DEFAULT,
    instr 0x237 ''EORS imm'' CLASS_DEFAULT CYCLES_EORS ERRORS_DEFAULT,
    instr 0x238 ''EORS imm'' CLASS_DEFAULT CYCLES_EORS ERRORS_DEFAULT,
    instr 0x239 ''EORS imm'' CLASS_DEFAULT CYCLES_EORS ERRORS_DEFAULT,
    instr 0x23A ''EORS imm'' CLASS_DEFAULT CYCLES_EORS ERRORS_DEFAULT,
    instr 0x23B ''EORS imm'' CLASS_DEFAULT CYCLES_EORS ERRORS_DEFAULT,
    instr 0x23C ''EORS imm'' CLASS_DEFAULT CYCLES_EORS ERRORS_DEFAULT,
    instr 0x23D ''EORS imm'' CLASS_DEFAULT CYCLES_EORS ERRORS_DEFAULT,
    instr 0x23E ''EORS imm'' CLASS_DEFAULT CYCLES_EORS ERRORS_DEFAULT,
    instr 0x23F ''EORS imm'' CLASS_DEFAULT CYCLES_EORS ERRORS_DEFAULT,
    instr 0x240 ''SUB imm'' CLASS_DEFAULT CYCLES_SUB ERRORS_DEFAULT,
    instr 0x241 ''SUB imm'' CLASS_DEFAULT CYCLES_SUB ERRORS_DEFAULT,
    instr 0x242 ''SUB imm'' CLASS_DEFAULT CYCLES_SUB ERRORS_DEFAULT,
    instr 0x243 ''SUB imm'' CLASS_DEFAULT CYCLES_SUB ERRORS_DEFAULT,
    instr 0x244 ''SUB imm'' CLASS_DEFAULT CYCLES_SUB ERRORS_DEFAULT,
    instr 0x245 ''SUB imm'' CLASS_DEFAULT CYCLES_SUB ERRORS_DEFAULT,
    instr 0x246 ''SUB imm'' CLASS_DEFAULT CYCLES_SUB ERRORS_DEFAULT,
    instr 0x247 ''SUB imm'' CLASS_DEFAULT CYCLES_SUB ERRORS_DEFAULT,
    instr 0x248 ''SUB imm'' CLASS_DEFAULT CYCLES_SUB ERRORS_DEFAULT,
    instr 0x249 ''SUB imm'' CLASS_DEFAULT CYCLES_SUB ERRORS_DEFAULT,
    instr 0x24A ''SUB imm'' CLASS_DEFAULT CYCLES_SUB ERRORS_DEFAULT,
    instr 0x24B ''SUB imm'' CLASS_DEFAULT CYCLES_SUB ERRORS_DEFAULT,
    instr 0x24C ''SUB imm'' CLASS_DEFAULT CYCLES_SUB ERRORS_DEFAULT,
    instr 0x24D ''SUB imm'' CLASS_DEFAULT CYCLES_SUB ERRORS_DEFAULT,
    instr 0x24E ''SUB imm'' CLASS_DEFAULT CYCLES_SUB ERRORS_DEFAULT,
    instr 0x24F ''SUB imm'' CLASS_DEFAULT CYCLES_SUB ERRORS_DEFAULT,
    instr 0x250 ''SUBS imm'' CLASS_DEFAULT CYCLES_SUBS ERRORS_DEFAULT,
    instr 0x251 ''SUBS imm'' CLASS_DEFAULT CYCLES_SUBS ERRORS_DEFAULT,
    instr 0x252 ''SUBS imm'' CLASS_DEFAULT CYCLES_SUBS ERRORS_DEFAULT,
    instr 0x253 ''SUBS imm'' CLASS_DEFAULT CYCLES_SUBS ERRORS_DEFAULT,
    instr 0x254 ''SUBS imm'' CLASS_DEFAULT CYCLES_SUBS ERRORS_DEFAULT,
    instr 0x255 ''SUBS imm'' CLASS_DEFAULT CYCLES_SUBS ERRORS_DEFAULT,
    instr 0x256 ''SUBS imm'' CLASS_DEFAULT CYCLES_SUBS ERRORS_DEFAULT,
    instr 0x257 ''SUBS imm'' CLASS_DEFAULT CYCLES_SUBS ERRORS_DEFAULT,
    instr 0x258 ''SUBS imm'' CLASS_DEFAULT CYCLES_SUBS ERRORS_DEFAULT,
    instr 0x259 ''SUBS imm'' CLASS_DEFAULT CYCLES_SUBS ERRORS_DEFAULT,
    instr 0x25A ''SUBS imm'' CLASS_DEFAULT CYCLES_SUBS ERRORS_DEFAULT,
    instr 0x25B ''SUBS imm'' CLASS_DEFAULT CYCLES_SUBS ERRORS_DEFAULT,
    instr 0x25C ''SUBS imm'' CLASS_DEFAULT CYCLES_SUBS ERRORS_DEFAULT,
    instr 0x25D ''SUBS imm'' CLASS_DEFAULT CYCLES_SUBS ERRORS_DEFAULT,
    instr 0x25E ''SUBS imm'' CLASS_DEFAULT CYCLES_SUBS ERRORS_DEFAULT,
    instr 0x25F ''SUBS imm'' CLASS_DEFAULT CYCLES_SUBS ERRORS_DEFAULT,
    instr 0x260 ''RSB imm'' CLASS_DEFAULT CYCLES_RSB ERRORS_DEFAULT,
    instr 0x261 ''RSB imm'' CLASS_DEFAULT CYCLES_RSB ERRORS_DEFAULT,
    instr 0x262 ''RSB imm'' CLASS_DEFAULT CYCLES_RSB ERRORS_DEFAULT,
    instr 0x263 ''RSB imm'' CLASS_DEFAULT CYCLES_RSB ERRORS_DEFAULT,
    instr 0x264 ''RSB imm'' CLASS_DEFAULT CYCLES_RSB ERRORS_DEFAULT,
    instr 0x265 ''RSB imm'' CLASS_DEFAULT CYCLES_RSB ERRORS_DEFAULT,
    instr 0x266 ''RSB imm'' CLASS_DEFAULT CYCLES_RSB ERRORS_DEFAULT,
    instr 0x267 ''RSB imm'' CLASS_DEFAULT CYCLES_RSB ERRORS_DEFAULT,
    instr 0x268 ''RSB imm'' CLASS_DEFAULT CYCLES_RSB ERRORS_DEFAULT,
    instr 0x269 ''RSB imm'' CLASS_DEFAULT CYCLES_RSB ERRORS_DEFAULT,
    instr 0x26A ''RSB imm'' CLASS_DEFAULT CYCLES_RSB ERRORS_DEFAULT,
    instr 0x26B ''RSB imm'' CLASS_DEFAULT CYCLES_RSB ERRORS_DEFAULT,
    instr 0x26C ''RSB imm'' CLASS_DEFAULT CYCLES_RSB ERRORS_DEFAULT,
    instr 0x26D ''RSB imm'' CLASS_DEFAULT CYCLES_RSB ERRORS_DEFAULT,
    instr 0x26E ''RSB imm'' CLASS_DEFAULT CYCLES_RSB ERRORS_DEFAULT,
    instr 0x26F ''RSB imm'' CLASS_DEFAULT CYCLES_RSB ERRORS_DEFAULT,
    instr 0x270 ''RSBS imm'' CLASS_DEFAULT CYCLES_RSBS ERRORS_DEFAULT,
    instr 0x271 ''RSBS imm'' CLASS_DEFAULT CYCLES_RSBS ERRORS_DEFAULT,
    instr 0x272 ''RSBS imm'' CLASS_DEFAULT CYCLES_RSBS ERRORS_DEFAULT,
    instr 0x273 ''RSBS imm'' CLASS_DEFAULT CYCLES_RSBS ERRORS_DEFAULT,
    instr 0x274 ''RSBS imm'' CLASS_DEFAULT CYCLES_RSBS ERRORS_DEFAULT,
    instr 0x275 ''RSBS imm'' CLASS_DEFAULT CYCLES_RSBS ERRORS_DEFAULT,
    instr 0x276 ''RSBS imm'' CLASS_DEFAULT CYCLES_RSBS ERRORS_DEFAULT,
    instr 0x277 ''RSBS imm'' CLASS_DEFAULT CYCLES_RSBS ERRORS_DEFAULT,
    instr 0x278 ''RSBS imm'' CLASS_DEFAULT CYCLES_RSBS ERRORS_DEFAULT,
    instr 0x279 ''RSBS imm'' CLASS_DEFAULT CYCLES_RSBS ERRORS_DEFAULT,
    instr 0x27A ''RSBS imm'' CLASS_DEFAULT CYCLES_RSBS ERRORS_DEFAULT,
    instr 0x27B ''RSBS imm'' CLASS_DEFAULT CYCLES_RSBS ERRORS_DEFAULT,
    instr 0x27C ''RSBS imm'' CLASS_DEFAULT CYCLES_RSBS ERRORS_DEFAULT,
    instr 0x27D ''RSBS imm'' CLASS_DEFAULT CYCLES_RSBS ERRORS_DEFAULT,
    instr 0x27E ''RSBS imm'' CLASS_DEFAULT CYCLES_RSBS ERRORS_DEFAULT,
    instr 0x27F ''RSBS imm'' CLASS_DEFAULT CYCLES_RSBS ERRORS_DEFAULT]"

definition vemu_arm_instr_05 :: "vemu_instr_info list" where
  "vemu_arm_instr_05 = [
    instr 0x280 ''ADD imm'' CLASS_DEFAULT CYCLES_ADD ERRORS_DEFAULT,
    instr 0x281 ''ADD imm'' CLASS_DEFAULT CYCLES_ADD ERRORS_DEFAULT,
    instr 0x282 ''ADD imm'' CLASS_DEFAULT CYCLES_ADD ERRORS_DEFAULT,
    instr 0x283 ''ADD imm'' CLASS_DEFAULT CYCLES_ADD ERRORS_DEFAULT,
    instr 0x284 ''ADD imm'' CLASS_DEFAULT CYCLES_ADD ERRORS_DEFAULT,
    instr 0x285 ''ADD imm'' CLASS_DEFAULT CYCLES_ADD ERRORS_DEFAULT,
    instr 0x286 ''ADD imm'' CLASS_DEFAULT CYCLES_ADD ERRORS_DEFAULT,
    instr 0x287 ''ADD imm'' CLASS_DEFAULT CYCLES_ADD ERRORS_DEFAULT,
    instr 0x288 ''ADD imm'' CLASS_DEFAULT CYCLES_ADD ERRORS_DEFAULT,
    instr 0x289 ''ADD imm'' CLASS_DEFAULT CYCLES_ADD ERRORS_DEFAULT,
    instr 0x28A ''ADD imm'' CLASS_DEFAULT CYCLES_ADD ERRORS_DEFAULT,
    instr 0x28B ''ADD imm'' CLASS_DEFAULT CYCLES_ADD ERRORS_DEFAULT,
    instr 0x28C ''ADD imm'' CLASS_DEFAULT CYCLES_ADD ERRORS_DEFAULT,
    instr 0x28D ''ADD imm'' CLASS_DEFAULT CYCLES_ADD ERRORS_DEFAULT,
    instr 0x28E ''ADD imm'' CLASS_DEFAULT CYCLES_ADD ERRORS_DEFAULT,
    instr 0x28F ''ADD imm'' CLASS_DEFAULT CYCLES_ADD ERRORS_DEFAULT,
    instr 0x290 ''ADDS imm'' CLASS_DEFAULT CYCLES_ADDS ERRORS_DEFAULT,
    instr 0x291 ''ADDS imm'' CLASS_DEFAULT CYCLES_ADDS ERRORS_DEFAULT,
    instr 0x292 ''ADDS imm'' CLASS_DEFAULT CYCLES_ADDS ERRORS_DEFAULT,
    instr 0x293 ''ADDS imm'' CLASS_DEFAULT CYCLES_ADDS ERRORS_DEFAULT,
    instr 0x294 ''ADDS imm'' CLASS_DEFAULT CYCLES_ADDS ERRORS_DEFAULT,
    instr 0x295 ''ADDS imm'' CLASS_DEFAULT CYCLES_ADDS ERRORS_DEFAULT,
    instr 0x296 ''ADDS imm'' CLASS_DEFAULT CYCLES_ADDS ERRORS_DEFAULT,
    instr 0x297 ''ADDS imm'' CLASS_DEFAULT CYCLES_ADDS ERRORS_DEFAULT,
    instr 0x298 ''ADDS imm'' CLASS_DEFAULT CYCLES_ADDS ERRORS_DEFAULT,
    instr 0x299 ''ADDS imm'' CLASS_DEFAULT CYCLES_ADDS ERRORS_DEFAULT,
    instr 0x29A ''ADDS imm'' CLASS_DEFAULT CYCLES_ADDS ERRORS_DEFAULT,
    instr 0x29B ''ADDS imm'' CLASS_DEFAULT CYCLES_ADDS ERRORS_DEFAULT,
    instr 0x29C ''ADDS imm'' CLASS_DEFAULT CYCLES_ADDS ERRORS_DEFAULT,
    instr 0x29D ''ADDS imm'' CLASS_DEFAULT CYCLES_ADDS ERRORS_DEFAULT,
    instr 0x29E ''ADDS imm'' CLASS_DEFAULT CYCLES_ADDS ERRORS_DEFAULT,
    instr 0x29F ''ADDS imm'' CLASS_DEFAULT CYCLES_ADDS ERRORS_DEFAULT,
    instr 0x2A0 ''ADC imm'' CLASS_DEFAULT CYCLES_ADC ERRORS_DEFAULT,
    instr 0x2A1 ''ADC imm'' CLASS_DEFAULT CYCLES_ADC ERRORS_DEFAULT,
    instr 0x2A2 ''ADC imm'' CLASS_DEFAULT CYCLES_ADC ERRORS_DEFAULT,
    instr 0x2A3 ''ADC imm'' CLASS_DEFAULT CYCLES_ADC ERRORS_DEFAULT,
    instr 0x2A4 ''ADC imm'' CLASS_DEFAULT CYCLES_ADC ERRORS_DEFAULT,
    instr 0x2A5 ''ADC imm'' CLASS_DEFAULT CYCLES_ADC ERRORS_DEFAULT,
    instr 0x2A6 ''ADC imm'' CLASS_DEFAULT CYCLES_ADC ERRORS_DEFAULT,
    instr 0x2A7 ''ADC imm'' CLASS_DEFAULT CYCLES_ADC ERRORS_DEFAULT,
    instr 0x2A8 ''ADC imm'' CLASS_DEFAULT CYCLES_ADC ERRORS_DEFAULT,
    instr 0x2A9 ''ADC imm'' CLASS_DEFAULT CYCLES_ADC ERRORS_DEFAULT,
    instr 0x2AA ''ADC imm'' CLASS_DEFAULT CYCLES_ADC ERRORS_DEFAULT,
    instr 0x2AB ''ADC imm'' CLASS_DEFAULT CYCLES_ADC ERRORS_DEFAULT,
    instr 0x2AC ''ADC imm'' CLASS_DEFAULT CYCLES_ADC ERRORS_DEFAULT,
    instr 0x2AD ''ADC imm'' CLASS_DEFAULT CYCLES_ADC ERRORS_DEFAULT,
    instr 0x2AE ''ADC imm'' CLASS_DEFAULT CYCLES_ADC ERRORS_DEFAULT,
    instr 0x2AF ''ADC imm'' CLASS_DEFAULT CYCLES_ADC ERRORS_DEFAULT,
    instr 0x2B0 ''ADCS imm'' CLASS_DEFAULT CYCLES_ADCS ERRORS_DEFAULT,
    instr 0x2B1 ''ADCS imm'' CLASS_DEFAULT CYCLES_ADCS ERRORS_DEFAULT,
    instr 0x2B2 ''ADCS imm'' CLASS_DEFAULT CYCLES_ADCS ERRORS_DEFAULT,
    instr 0x2B3 ''ADCS imm'' CLASS_DEFAULT CYCLES_ADCS ERRORS_DEFAULT,
    instr 0x2B4 ''ADCS imm'' CLASS_DEFAULT CYCLES_ADCS ERRORS_DEFAULT,
    instr 0x2B5 ''ADCS imm'' CLASS_DEFAULT CYCLES_ADCS ERRORS_DEFAULT,
    instr 0x2B6 ''ADCS imm'' CLASS_DEFAULT CYCLES_ADCS ERRORS_DEFAULT,
    instr 0x2B7 ''ADCS imm'' CLASS_DEFAULT CYCLES_ADCS ERRORS_DEFAULT,
    instr 0x2B8 ''ADCS imm'' CLASS_DEFAULT CYCLES_ADCS ERRORS_DEFAULT,
    instr 0x2B9 ''ADCS imm'' CLASS_DEFAULT CYCLES_ADCS ERRORS_DEFAULT,
    instr 0x2BA ''ADCS imm'' CLASS_DEFAULT CYCLES_ADCS ERRORS_DEFAULT,
    instr 0x2BB ''ADCS imm'' CLASS_DEFAULT CYCLES_ADCS ERRORS_DEFAULT,
    instr 0x2BC ''ADCS imm'' CLASS_DEFAULT CYCLES_ADCS ERRORS_DEFAULT,
    instr 0x2BD ''ADCS imm'' CLASS_DEFAULT CYCLES_ADCS ERRORS_DEFAULT,
    instr 0x2BE ''ADCS imm'' CLASS_DEFAULT CYCLES_ADCS ERRORS_DEFAULT,
    instr 0x2BF ''ADCS imm'' CLASS_DEFAULT CYCLES_ADCS ERRORS_DEFAULT,
    instr 0x2C0 ''SBC imm'' CLASS_DEFAULT CYCLES_SBC ERRORS_DEFAULT,
    instr 0x2C1 ''SBC imm'' CLASS_DEFAULT CYCLES_SBC ERRORS_DEFAULT,
    instr 0x2C2 ''SBC imm'' CLASS_DEFAULT CYCLES_SBC ERRORS_DEFAULT,
    instr 0x2C3 ''SBC imm'' CLASS_DEFAULT CYCLES_SBC ERRORS_DEFAULT,
    instr 0x2C4 ''SBC imm'' CLASS_DEFAULT CYCLES_SBC ERRORS_DEFAULT,
    instr 0x2C5 ''SBC imm'' CLASS_DEFAULT CYCLES_SBC ERRORS_DEFAULT,
    instr 0x2C6 ''SBC imm'' CLASS_DEFAULT CYCLES_SBC ERRORS_DEFAULT,
    instr 0x2C7 ''SBC imm'' CLASS_DEFAULT CYCLES_SBC ERRORS_DEFAULT,
    instr 0x2C8 ''SBC imm'' CLASS_DEFAULT CYCLES_SBC ERRORS_DEFAULT,
    instr 0x2C9 ''SBC imm'' CLASS_DEFAULT CYCLES_SBC ERRORS_DEFAULT,
    instr 0x2CA ''SBC imm'' CLASS_DEFAULT CYCLES_SBC ERRORS_DEFAULT,
    instr 0x2CB ''SBC imm'' CLASS_DEFAULT CYCLES_SBC ERRORS_DEFAULT,
    instr 0x2CC ''SBC imm'' CLASS_DEFAULT CYCLES_SBC ERRORS_DEFAULT,
    instr 0x2CD ''SBC imm'' CLASS_DEFAULT CYCLES_SBC ERRORS_DEFAULT,
    instr 0x2CE ''SBC imm'' CLASS_DEFAULT CYCLES_SBC ERRORS_DEFAULT,
    instr 0x2CF ''SBC imm'' CLASS_DEFAULT CYCLES_SBC ERRORS_DEFAULT,
    instr 0x2D0 ''SBCS imm'' CLASS_DEFAULT CYCLES_SBCS ERRORS_DEFAULT,
    instr 0x2D1 ''SBCS imm'' CLASS_DEFAULT CYCLES_SBCS ERRORS_DEFAULT,
    instr 0x2D2 ''SBCS imm'' CLASS_DEFAULT CYCLES_SBCS ERRORS_DEFAULT,
    instr 0x2D3 ''SBCS imm'' CLASS_DEFAULT CYCLES_SBCS ERRORS_DEFAULT,
    instr 0x2D4 ''SBCS imm'' CLASS_DEFAULT CYCLES_SBCS ERRORS_DEFAULT,
    instr 0x2D5 ''SBCS imm'' CLASS_DEFAULT CYCLES_SBCS ERRORS_DEFAULT,
    instr 0x2D6 ''SBCS imm'' CLASS_DEFAULT CYCLES_SBCS ERRORS_DEFAULT,
    instr 0x2D7 ''SBCS imm'' CLASS_DEFAULT CYCLES_SBCS ERRORS_DEFAULT,
    instr 0x2D8 ''SBCS imm'' CLASS_DEFAULT CYCLES_SBCS ERRORS_DEFAULT,
    instr 0x2D9 ''SBCS imm'' CLASS_DEFAULT CYCLES_SBCS ERRORS_DEFAULT,
    instr 0x2DA ''SBCS imm'' CLASS_DEFAULT CYCLES_SBCS ERRORS_DEFAULT,
    instr 0x2DB ''SBCS imm'' CLASS_DEFAULT CYCLES_SBCS ERRORS_DEFAULT,
    instr 0x2DC ''SBCS imm'' CLASS_DEFAULT CYCLES_SBCS ERRORS_DEFAULT,
    instr 0x2DD ''SBCS imm'' CLASS_DEFAULT CYCLES_SBCS ERRORS_DEFAULT,
    instr 0x2DE ''SBCS imm'' CLASS_DEFAULT CYCLES_SBCS ERRORS_DEFAULT,
    instr 0x2DF ''SBCS imm'' CLASS_DEFAULT CYCLES_SBCS ERRORS_DEFAULT,
    instr 0x2E0 ''RSC imm'' CLASS_DEFAULT CYCLES_RSC ERRORS_DEFAULT,
    instr 0x2E1 ''RSC imm'' CLASS_DEFAULT CYCLES_RSC ERRORS_DEFAULT,
    instr 0x2E2 ''RSC imm'' CLASS_DEFAULT CYCLES_RSC ERRORS_DEFAULT,
    instr 0x2E3 ''RSC imm'' CLASS_DEFAULT CYCLES_RSC ERRORS_DEFAULT,
    instr 0x2E4 ''RSC imm'' CLASS_DEFAULT CYCLES_RSC ERRORS_DEFAULT,
    instr 0x2E5 ''RSC imm'' CLASS_DEFAULT CYCLES_RSC ERRORS_DEFAULT,
    instr 0x2E6 ''RSC imm'' CLASS_DEFAULT CYCLES_RSC ERRORS_DEFAULT,
    instr 0x2E7 ''RSC imm'' CLASS_DEFAULT CYCLES_RSC ERRORS_DEFAULT,
    instr 0x2E8 ''RSC imm'' CLASS_DEFAULT CYCLES_RSC ERRORS_DEFAULT,
    instr 0x2E9 ''RSC imm'' CLASS_DEFAULT CYCLES_RSC ERRORS_DEFAULT,
    instr 0x2EA ''RSC imm'' CLASS_DEFAULT CYCLES_RSC ERRORS_DEFAULT,
    instr 0x2EB ''RSC imm'' CLASS_DEFAULT CYCLES_RSC ERRORS_DEFAULT,
    instr 0x2EC ''RSC imm'' CLASS_DEFAULT CYCLES_RSC ERRORS_DEFAULT,
    instr 0x2ED ''RSC imm'' CLASS_DEFAULT CYCLES_RSC ERRORS_DEFAULT,
    instr 0x2EE ''RSC imm'' CLASS_DEFAULT CYCLES_RSC ERRORS_DEFAULT,
    instr 0x2EF ''RSC imm'' CLASS_DEFAULT CYCLES_RSC ERRORS_DEFAULT,
    instr 0x2F0 ''RSCS imm'' CLASS_DEFAULT CYCLES_RSCS ERRORS_DEFAULT,
    instr 0x2F1 ''RSCS imm'' CLASS_DEFAULT CYCLES_RSCS ERRORS_DEFAULT,
    instr 0x2F2 ''RSCS imm'' CLASS_DEFAULT CYCLES_RSCS ERRORS_DEFAULT,
    instr 0x2F3 ''RSCS imm'' CLASS_DEFAULT CYCLES_RSCS ERRORS_DEFAULT,
    instr 0x2F4 ''RSCS imm'' CLASS_DEFAULT CYCLES_RSCS ERRORS_DEFAULT,
    instr 0x2F5 ''RSCS imm'' CLASS_DEFAULT CYCLES_RSCS ERRORS_DEFAULT,
    instr 0x2F6 ''RSCS imm'' CLASS_DEFAULT CYCLES_RSCS ERRORS_DEFAULT,
    instr 0x2F7 ''RSCS imm'' CLASS_DEFAULT CYCLES_RSCS ERRORS_DEFAULT,
    instr 0x2F8 ''RSCS imm'' CLASS_DEFAULT CYCLES_RSCS ERRORS_DEFAULT,
    instr 0x2F9 ''RSCS imm'' CLASS_DEFAULT CYCLES_RSCS ERRORS_DEFAULT,
    instr 0x2FA ''RSCS imm'' CLASS_DEFAULT CYCLES_RSCS ERRORS_DEFAULT,
    instr 0x2FB ''RSCS imm'' CLASS_DEFAULT CYCLES_RSCS ERRORS_DEFAULT,
    instr 0x2FC ''RSCS imm'' CLASS_DEFAULT CYCLES_RSCS ERRORS_DEFAULT,
    instr 0x2FD ''RSCS imm'' CLASS_DEFAULT CYCLES_RSCS ERRORS_DEFAULT,
    instr 0x2FE ''RSCS imm'' CLASS_DEFAULT CYCLES_RSCS ERRORS_DEFAULT,
    instr 0x2FF ''RSCS imm'' CLASS_DEFAULT CYCLES_RSCS ERRORS_DEFAULT]"

definition vemu_arm_instr_06 :: "vemu_instr_info list" where
  "vemu_arm_instr_06 = [
    instr 0x300 '''' CLASS_DEFAULT CYCLES_NONE ERRORS_DEFAULT,
    instr 0x301 '''' CLASS_DEFAULT CYCLES_NONE ERRORS_DEFAULT,
    instr 0x302 '''' CLASS_DEFAULT CYCLES_NONE ERRORS_DEFAULT,
    instr 0x303 '''' CLASS_DEFAULT CYCLES_NONE ERRORS_DEFAULT,
    instr 0x304 '''' CLASS_DEFAULT CYCLES_NONE ERRORS_DEFAULT,
    instr 0x305 '''' CLASS_DEFAULT CYCLES_NONE ERRORS_DEFAULT,
    instr 0x306 '''' CLASS_DEFAULT CYCLES_NONE ERRORS_DEFAULT,
    instr 0x307 '''' CLASS_DEFAULT CYCLES_NONE ERRORS_DEFAULT,
    instr 0x308 '''' CLASS_DEFAULT CYCLES_NONE ERRORS_DEFAULT,
    instr 0x309 '''' CLASS_DEFAULT CYCLES_NONE ERRORS_DEFAULT,
    instr 0x30A '''' CLASS_DEFAULT CYCLES_NONE ERRORS_DEFAULT,
    instr 0x30B '''' CLASS_DEFAULT CYCLES_NONE ERRORS_DEFAULT,
    instr 0x30C '''' CLASS_DEFAULT CYCLES_NONE ERRORS_DEFAULT,
    instr 0x30D '''' CLASS_DEFAULT CYCLES_NONE ERRORS_DEFAULT,
    instr 0x30E '''' CLASS_DEFAULT CYCLES_NONE ERRORS_DEFAULT,
    instr 0x30F '''' CLASS_DEFAULT CYCLES_NONE ERRORS_DEFAULT,
    instr 0x310 ''TSTS imm'' CLASS_DEFAULT CYCLES_TSTS ERRORS_DEFAULT,
    instr 0x311 ''TSTS imm'' CLASS_DEFAULT CYCLES_TSTS ERRORS_DEFAULT,
    instr 0x312 ''TSTS imm'' CLASS_DEFAULT CYCLES_TSTS ERRORS_DEFAULT,
    instr 0x313 ''TSTS imm'' CLASS_DEFAULT CYCLES_TSTS ERRORS_DEFAULT,
    instr 0x314 ''TSTS imm'' CLASS_DEFAULT CYCLES_TSTS ERRORS_DEFAULT,
    instr 0x315 ''TSTS imm'' CLASS_DEFAULT CYCLES_TSTS ERRORS_DEFAULT,
    instr 0x316 ''TSTS imm'' CLASS_DEFAULT CYCLES_TSTS ERRORS_DEFAULT,
    instr 0x317 ''TSTS imm'' CLASS_DEFAULT CYCLES_TSTS ERRORS_DEFAULT,
    instr 0x318 ''TSTS imm'' CLASS_DEFAULT CYCLES_TSTS ERRORS_DEFAULT,
    instr 0x319 ''TSTS imm'' CLASS_DEFAULT CYCLES_TSTS ERRORS_DEFAULT,
    instr 0x31A ''TSTS imm'' CLASS_DEFAULT CYCLES_TSTS ERRORS_DEFAULT,
    instr 0x31B ''TSTS imm'' CLASS_DEFAULT CYCLES_TSTS ERRORS_DEFAULT,
    instr 0x31C ''TSTS imm'' CLASS_DEFAULT CYCLES_TSTS ERRORS_DEFAULT,
    instr 0x31D ''TSTS imm'' CLASS_DEFAULT CYCLES_TSTS ERRORS_DEFAULT,
    instr 0x31E ''TSTS imm'' CLASS_DEFAULT CYCLES_TSTS ERRORS_DEFAULT,
    instr 0x31F ''TSTS imm'' CLASS_DEFAULT CYCLES_TSTS ERRORS_DEFAULT,
    instr 0x320 ''MSR ic'' CLASS_DEFAULT CYCLES_MSR ERRORS_DEFAULT,
    instr 0x321 ''MSR ic'' CLASS_DEFAULT CYCLES_MSR ERRORS_DEFAULT,
    instr 0x322 ''MSR ic'' CLASS_DEFAULT CYCLES_MSR ERRORS_DEFAULT,
    instr 0x323 ''MSR ic'' CLASS_DEFAULT CYCLES_MSR ERRORS_DEFAULT,
    instr 0x324 ''MSR ic'' CLASS_DEFAULT CYCLES_MSR ERRORS_DEFAULT,
    instr 0x325 ''MSR ic'' CLASS_DEFAULT CYCLES_MSR ERRORS_DEFAULT,
    instr 0x326 ''MSR ic'' CLASS_DEFAULT CYCLES_MSR ERRORS_DEFAULT,
    instr 0x327 ''MSR ic'' CLASS_DEFAULT CYCLES_MSR ERRORS_DEFAULT,
    instr 0x328 ''MSR ic'' CLASS_DEFAULT CYCLES_MSR ERRORS_DEFAULT,
    instr 0x329 ''MSR ic'' CLASS_DEFAULT CYCLES_MSR ERRORS_DEFAULT,
    instr 0x32A ''MSR ic'' CLASS_DEFAULT CYCLES_MSR ERRORS_DEFAULT,
    instr 0x32B ''MSR ic'' CLASS_DEFAULT CYCLES_MSR ERRORS_DEFAULT,
    instr 0x32C ''MSR ic'' CLASS_DEFAULT CYCLES_MSR ERRORS_DEFAULT,
    instr 0x32D ''MSR ic'' CLASS_DEFAULT CYCLES_MSR ERRORS_DEFAULT,
    instr 0x32E ''MSR ic'' CLASS_DEFAULT CYCLES_MSR ERRORS_DEFAULT,
    instr 0x32F ''MSR ic'' CLASS_DEFAULT CYCLES_MSR ERRORS_DEFAULT,
    instr 0x330 ''TEQS imm'' CLASS_DEFAULT CYCLES_TEQS ERRORS_DEFAULT,
    instr 0x331 ''TEQS imm'' CLASS_DEFAULT CYCLES_TEQS ERRORS_DEFAULT,
    instr 0x332 ''TEQS imm'' CLASS_DEFAULT CYCLES_TEQS ERRORS_DEFAULT,
    instr 0x333 ''TEQS imm'' CLASS_DEFAULT CYCLES_TEQS ERRORS_DEFAULT,
    instr 0x334 ''TEQS imm'' CLASS_DEFAULT CYCLES_TEQS ERRORS_DEFAULT,
    instr 0x335 ''TEQS imm'' CLASS_DEFAULT CYCLES_TEQS ERRORS_DEFAULT,
    instr 0x336 ''TEQS imm'' CLASS_DEFAULT CYCLES_TEQS ERRORS_DEFAULT,
    instr 0x337 ''TEQS imm'' CLASS_DEFAULT CYCLES_TEQS ERRORS_DEFAULT,
    instr 0x338 ''TEQS imm'' CLASS_DEFAULT CYCLES_TEQS ERRORS_DEFAULT,
    instr 0x339 ''TEQS imm'' CLASS_DEFAULT CYCLES_TEQS ERRORS_DEFAULT,
    instr 0x33A ''TEQS imm'' CLASS_DEFAULT CYCLES_TEQS ERRORS_DEFAULT,
    instr 0x33B ''TEQS imm'' CLASS_DEFAULT CYCLES_TEQS ERRORS_DEFAULT,
    instr 0x33C ''TEQS imm'' CLASS_DEFAULT CYCLES_TEQS ERRORS_DEFAULT,
    instr 0x33D ''TEQS imm'' CLASS_DEFAULT CYCLES_TEQS ERRORS_DEFAULT,
    instr 0x33E ''TEQS imm'' CLASS_DEFAULT CYCLES_TEQS ERRORS_DEFAULT,
    instr 0x33F ''TEQS imm'' CLASS_DEFAULT CYCLES_TEQS ERRORS_DEFAULT,
    instr 0x340 '''' CLASS_DEFAULT CYCLES_NONE ERRORS_DEFAULT,
    instr 0x341 '''' CLASS_DEFAULT CYCLES_NONE ERRORS_DEFAULT,
    instr 0x342 '''' CLASS_DEFAULT CYCLES_NONE ERRORS_DEFAULT,
    instr 0x343 '''' CLASS_DEFAULT CYCLES_NONE ERRORS_DEFAULT,
    instr 0x344 '''' CLASS_DEFAULT CYCLES_NONE ERRORS_DEFAULT,
    instr 0x345 '''' CLASS_DEFAULT CYCLES_NONE ERRORS_DEFAULT,
    instr 0x346 '''' CLASS_DEFAULT CYCLES_NONE ERRORS_DEFAULT,
    instr 0x347 '''' CLASS_DEFAULT CYCLES_NONE ERRORS_DEFAULT,
    instr 0x348 '''' CLASS_DEFAULT CYCLES_NONE ERRORS_DEFAULT,
    instr 0x349 '''' CLASS_DEFAULT CYCLES_NONE ERRORS_DEFAULT,
    instr 0x34A '''' CLASS_DEFAULT CYCLES_NONE ERRORS_DEFAULT,
    instr 0x34B '''' CLASS_DEFAULT CYCLES_NONE ERRORS_DEFAULT,
    instr 0x34C '''' CLASS_DEFAULT CYCLES_NONE ERRORS_DEFAULT,
    instr 0x34D '''' CLASS_DEFAULT CYCLES_NONE ERRORS_DEFAULT,
    instr 0x34E '''' CLASS_DEFAULT CYCLES_NONE ERRORS_DEFAULT,
    instr 0x34F '''' CLASS_DEFAULT CYCLES_NONE ERRORS_DEFAULT,
    instr 0x350 ''CMPS imm'' CLASS_DEFAULT CYCLES_CMPS ERRORS_DEFAULT,
    instr 0x351 ''CMPS imm'' CLASS_DEFAULT CYCLES_CMPS ERRORS_DEFAULT,
    instr 0x352 ''CMPS imm'' CLASS_DEFAULT CYCLES_CMPS ERRORS_DEFAULT,
    instr 0x353 ''CMPS imm'' CLASS_DEFAULT CYCLES_CMPS ERRORS_DEFAULT,
    instr 0x354 ''CMPS imm'' CLASS_DEFAULT CYCLES_CMPS ERRORS_DEFAULT,
    instr 0x355 ''CMPS imm'' CLASS_DEFAULT CYCLES_CMPS ERRORS_DEFAULT,
    instr 0x356 ''CMPS imm'' CLASS_DEFAULT CYCLES_CMPS ERRORS_DEFAULT,
    instr 0x357 ''CMPS imm'' CLASS_DEFAULT CYCLES_CMPS ERRORS_DEFAULT,
    instr 0x358 ''CMPS imm'' CLASS_DEFAULT CYCLES_CMPS ERRORS_DEFAULT,
    instr 0x359 ''CMPS imm'' CLASS_DEFAULT CYCLES_CMPS ERRORS_DEFAULT,
    instr 0x35A ''CMPS imm'' CLASS_DEFAULT CYCLES_CMPS ERRORS_DEFAULT,
    instr 0x35B ''CMPS imm'' CLASS_DEFAULT CYCLES_CMPS ERRORS_DEFAULT,
    instr 0x35C ''CMPS imm'' CLASS_DEFAULT CYCLES_CMPS ERRORS_DEFAULT,
    instr 0x35D ''CMPS imm'' CLASS_DEFAULT CYCLES_CMPS ERRORS_DEFAULT,
    instr 0x35E ''CMPS imm'' CLASS_DEFAULT CYCLES_CMPS ERRORS_DEFAULT,
    instr 0x35F ''CMPS imm'' CLASS_DEFAULT CYCLES_CMPS ERRORS_DEFAULT,
    instr 0x360 ''MSR is'' CLASS_DEFAULT CYCLES_MSR ERRORS_DEFAULT,
    instr 0x361 ''MSR is'' CLASS_DEFAULT CYCLES_MSR ERRORS_DEFAULT,
    instr 0x362 ''MSR is'' CLASS_DEFAULT CYCLES_MSR ERRORS_DEFAULT,
    instr 0x363 ''MSR is'' CLASS_DEFAULT CYCLES_MSR ERRORS_DEFAULT,
    instr 0x364 ''MSR is'' CLASS_DEFAULT CYCLES_MSR ERRORS_DEFAULT,
    instr 0x365 ''MSR is'' CLASS_DEFAULT CYCLES_MSR ERRORS_DEFAULT,
    instr 0x366 ''MSR is'' CLASS_DEFAULT CYCLES_MSR ERRORS_DEFAULT,
    instr 0x367 ''MSR is'' CLASS_DEFAULT CYCLES_MSR ERRORS_DEFAULT,
    instr 0x368 ''MSR is'' CLASS_DEFAULT CYCLES_MSR ERRORS_DEFAULT,
    instr 0x369 ''MSR is'' CLASS_DEFAULT CYCLES_MSR ERRORS_DEFAULT,
    instr 0x36A ''MSR is'' CLASS_DEFAULT CYCLES_MSR ERRORS_DEFAULT,
    instr 0x36B ''MSR is'' CLASS_DEFAULT CYCLES_MSR ERRORS_DEFAULT,
    instr 0x36C ''MSR is'' CLASS_DEFAULT CYCLES_MSR ERRORS_DEFAULT,
    instr 0x36D ''MSR is'' CLASS_DEFAULT CYCLES_MSR ERRORS_DEFAULT,
    instr 0x36E ''MSR is'' CLASS_DEFAULT CYCLES_MSR ERRORS_DEFAULT,
    instr 0x36F ''MSR is'' CLASS_DEFAULT CYCLES_MSR ERRORS_DEFAULT,
    instr 0x370 ''CMNS imm'' CLASS_DEFAULT CYCLES_CMNS ERRORS_DEFAULT,
    instr 0x371 ''CMNS imm'' CLASS_DEFAULT CYCLES_CMNS ERRORS_DEFAULT,
    instr 0x372 ''CMNS imm'' CLASS_DEFAULT CYCLES_CMNS ERRORS_DEFAULT,
    instr 0x373 ''CMNS imm'' CLASS_DEFAULT CYCLES_CMNS ERRORS_DEFAULT,
    instr 0x374 ''CMNS imm'' CLASS_DEFAULT CYCLES_CMNS ERRORS_DEFAULT,
    instr 0x375 ''CMNS imm'' CLASS_DEFAULT CYCLES_CMNS ERRORS_DEFAULT,
    instr 0x376 ''CMNS imm'' CLASS_DEFAULT CYCLES_CMNS ERRORS_DEFAULT,
    instr 0x377 ''CMNS imm'' CLASS_DEFAULT CYCLES_CMNS ERRORS_DEFAULT,
    instr 0x378 ''CMNS imm'' CLASS_DEFAULT CYCLES_CMNS ERRORS_DEFAULT,
    instr 0x379 ''CMNS imm'' CLASS_DEFAULT CYCLES_CMNS ERRORS_DEFAULT,
    instr 0x37A ''CMNS imm'' CLASS_DEFAULT CYCLES_CMNS ERRORS_DEFAULT,
    instr 0x37B ''CMNS imm'' CLASS_DEFAULT CYCLES_CMNS ERRORS_DEFAULT,
    instr 0x37C ''CMNS imm'' CLASS_DEFAULT CYCLES_CMNS ERRORS_DEFAULT,
    instr 0x37D ''CMNS imm'' CLASS_DEFAULT CYCLES_CMNS ERRORS_DEFAULT,
    instr 0x37E ''CMNS imm'' CLASS_DEFAULT CYCLES_CMNS ERRORS_DEFAULT,
    instr 0x37F ''CMNS imm'' CLASS_DEFAULT CYCLES_CMNS ERRORS_DEFAULT]"

definition vemu_arm_instr_07 :: "vemu_instr_info list" where
  "vemu_arm_instr_07 = [
    instr 0x380 ''ORR imm'' CLASS_DEFAULT CYCLES_ORR ERRORS_DEFAULT,
    instr 0x381 ''ORR imm'' CLASS_DEFAULT CYCLES_ORR ERRORS_DEFAULT,
    instr 0x382 ''ORR imm'' CLASS_DEFAULT CYCLES_ORR ERRORS_DEFAULT,
    instr 0x383 ''ORR imm'' CLASS_DEFAULT CYCLES_ORR ERRORS_DEFAULT,
    instr 0x384 ''ORR imm'' CLASS_DEFAULT CYCLES_ORR ERRORS_DEFAULT,
    instr 0x385 ''ORR imm'' CLASS_DEFAULT CYCLES_ORR ERRORS_DEFAULT,
    instr 0x386 ''ORR imm'' CLASS_DEFAULT CYCLES_ORR ERRORS_DEFAULT,
    instr 0x387 ''ORR imm'' CLASS_DEFAULT CYCLES_ORR ERRORS_DEFAULT,
    instr 0x388 ''ORR imm'' CLASS_DEFAULT CYCLES_ORR ERRORS_DEFAULT,
    instr 0x389 ''ORR imm'' CLASS_DEFAULT CYCLES_ORR ERRORS_DEFAULT,
    instr 0x38A ''ORR imm'' CLASS_DEFAULT CYCLES_ORR ERRORS_DEFAULT,
    instr 0x38B ''ORR imm'' CLASS_DEFAULT CYCLES_ORR ERRORS_DEFAULT,
    instr 0x38C ''ORR imm'' CLASS_DEFAULT CYCLES_ORR ERRORS_DEFAULT,
    instr 0x38D ''ORR imm'' CLASS_DEFAULT CYCLES_ORR ERRORS_DEFAULT,
    instr 0x38E ''ORR imm'' CLASS_DEFAULT CYCLES_ORR ERRORS_DEFAULT,
    instr 0x38F ''ORR imm'' CLASS_DEFAULT CYCLES_ORR ERRORS_DEFAULT,
    instr 0x390 ''ORRS imm'' CLASS_DEFAULT CYCLES_ORRS ERRORS_DEFAULT,
    instr 0x391 ''ORRS imm'' CLASS_DEFAULT CYCLES_ORRS ERRORS_DEFAULT,
    instr 0x392 ''ORRS imm'' CLASS_DEFAULT CYCLES_ORRS ERRORS_DEFAULT,
    instr 0x393 ''ORRS imm'' CLASS_DEFAULT CYCLES_ORRS ERRORS_DEFAULT,
    instr 0x394 ''ORRS imm'' CLASS_DEFAULT CYCLES_ORRS ERRORS_DEFAULT,
    instr 0x395 ''ORRS imm'' CLASS_DEFAULT CYCLES_ORRS ERRORS_DEFAULT,
    instr 0x396 ''ORRS imm'' CLASS_DEFAULT CYCLES_ORRS ERRORS_DEFAULT,
    instr 0x397 ''ORRS imm'' CLASS_DEFAULT CYCLES_ORRS ERRORS_DEFAULT,
    instr 0x398 ''ORRS imm'' CLASS_DEFAULT CYCLES_ORRS ERRORS_DEFAULT,
    instr 0x399 ''ORRS imm'' CLASS_DEFAULT CYCLES_ORRS ERRORS_DEFAULT,
    instr 0x39A ''ORRS imm'' CLASS_DEFAULT CYCLES_ORRS ERRORS_DEFAULT,
    instr 0x39B ''ORRS imm'' CLASS_DEFAULT CYCLES_ORRS ERRORS_DEFAULT,
    instr 0x39C ''ORRS imm'' CLASS_DEFAULT CYCLES_ORRS ERRORS_DEFAULT,
    instr 0x39D ''ORRS imm'' CLASS_DEFAULT CYCLES_ORRS ERRORS_DEFAULT,
    instr 0x39E ''ORRS imm'' CLASS_DEFAULT CYCLES_ORRS ERRORS_DEFAULT,
    instr 0x39F ''ORRS imm'' CLASS_DEFAULT CYCLES_ORRS ERRORS_DEFAULT,
    instr 0x3A0 ''MOV imm'' CLASS_DEFAULT CYCLES_MOV ERRORS_DEFAULT,
    instr 0x3A1 ''MOV imm'' CLASS_DEFAULT CYCLES_MOV ERRORS_DEFAULT,
    instr 0x3A2 ''MOV imm'' CLASS_DEFAULT CYCLES_MOV ERRORS_DEFAULT,
    instr 0x3A3 ''MOV imm'' CLASS_DEFAULT CYCLES_MOV ERRORS_DEFAULT,
    instr 0x3A4 ''MOV imm'' CLASS_DEFAULT CYCLES_MOV ERRORS_DEFAULT,
    instr 0x3A5 ''MOV imm'' CLASS_DEFAULT CYCLES_MOV ERRORS_DEFAULT,
    instr 0x3A6 ''MOV imm'' CLASS_DEFAULT CYCLES_MOV ERRORS_DEFAULT,
    instr 0x3A7 ''MOV imm'' CLASS_DEFAULT CYCLES_MOV ERRORS_DEFAULT,
    instr 0x3A8 ''MOV imm'' CLASS_DEFAULT CYCLES_MOV ERRORS_DEFAULT,
    instr 0x3A9 ''MOV imm'' CLASS_DEFAULT CYCLES_MOV ERRORS_DEFAULT,
    instr 0x3AA ''MOV imm'' CLASS_DEFAULT CYCLES_MOV ERRORS_DEFAULT,
    instr 0x3AB ''MOV imm'' CLASS_DEFAULT CYCLES_MOV ERRORS_DEFAULT,
    instr 0x3AC ''MOV imm'' CLASS_DEFAULT CYCLES_MOV ERRORS_DEFAULT,
    instr 0x3AD ''MOV imm'' CLASS_DEFAULT CYCLES_MOV ERRORS_DEFAULT,
    instr 0x3AE ''MOV imm'' CLASS_DEFAULT CYCLES_MOV ERRORS_DEFAULT,
    instr 0x3AF ''MOV imm'' CLASS_DEFAULT CYCLES_MOV ERRORS_DEFAULT,
    instr 0x3B0 ''MOVS imm'' CLASS_DEFAULT CYCLES_MOVS ERRORS_DEFAULT,
    instr 0x3B1 ''MOVS imm'' CLASS_DEFAULT CYCLES_MOVS ERRORS_DEFAULT,
    instr 0x3B2 ''MOVS imm'' CLASS_DEFAULT CYCLES_MOVS ERRORS_DEFAULT,
    instr 0x3B3 ''MOVS imm'' CLASS_DEFAULT CYCLES_MOVS ERRORS_DEFAULT,
    instr 0x3B4 ''MOVS imm'' CLASS_DEFAULT CYCLES_MOVS ERRORS_DEFAULT,
    instr 0x3B5 ''MOVS imm'' CLASS_DEFAULT CYCLES_MOVS ERRORS_DEFAULT,
    instr 0x3B6 ''MOVS imm'' CLASS_DEFAULT CYCLES_MOVS ERRORS_DEFAULT,
    instr 0x3B7 ''MOVS imm'' CLASS_DEFAULT CYCLES_MOVS ERRORS_DEFAULT,
    instr 0x3B8 ''MOVS imm'' CLASS_DEFAULT CYCLES_MOVS ERRORS_DEFAULT,
    instr 0x3B9 ''MOVS imm'' CLASS_DEFAULT CYCLES_MOVS ERRORS_DEFAULT,
    instr 0x3BA ''MOVS imm'' CLASS_DEFAULT CYCLES_MOVS ERRORS_DEFAULT,
    instr 0x3BB ''MOVS imm'' CLASS_DEFAULT CYCLES_MOVS ERRORS_DEFAULT,
    instr 0x3BC ''MOVS imm'' CLASS_DEFAULT CYCLES_MOVS ERRORS_DEFAULT,
    instr 0x3BD ''MOVS imm'' CLASS_DEFAULT CYCLES_MOVS ERRORS_DEFAULT,
    instr 0x3BE ''MOVS imm'' CLASS_DEFAULT CYCLES_MOVS ERRORS_DEFAULT,
    instr 0x3BF ''MOVS imm'' CLASS_DEFAULT CYCLES_MOVS ERRORS_DEFAULT,
    instr 0x3C0 ''BIC imm'' CLASS_DEFAULT CYCLES_BIC ERRORS_DEFAULT,
    instr 0x3C1 ''BIC imm'' CLASS_DEFAULT CYCLES_BIC ERRORS_DEFAULT,
    instr 0x3C2 ''BIC imm'' CLASS_DEFAULT CYCLES_BIC ERRORS_DEFAULT,
    instr 0x3C3 ''BIC imm'' CLASS_DEFAULT CYCLES_BIC ERRORS_DEFAULT,
    instr 0x3C4 ''BIC imm'' CLASS_DEFAULT CYCLES_BIC ERRORS_DEFAULT,
    instr 0x3C5 ''BIC imm'' CLASS_DEFAULT CYCLES_BIC ERRORS_DEFAULT,
    instr 0x3C6 ''BIC imm'' CLASS_DEFAULT CYCLES_BIC ERRORS_DEFAULT,
    instr 0x3C7 ''BIC imm'' CLASS_DEFAULT CYCLES_BIC ERRORS_DEFAULT,
    instr 0x3C8 ''BIC imm'' CLASS_DEFAULT CYCLES_BIC ERRORS_DEFAULT,
    instr 0x3C9 ''BIC imm'' CLASS_DEFAULT CYCLES_BIC ERRORS_DEFAULT,
    instr 0x3CA ''BIC imm'' CLASS_DEFAULT CYCLES_BIC ERRORS_DEFAULT,
    instr 0x3CB ''BIC imm'' CLASS_DEFAULT CYCLES_BIC ERRORS_DEFAULT,
    instr 0x3CC ''BIC imm'' CLASS_DEFAULT CYCLES_BIC ERRORS_DEFAULT,
    instr 0x3CD ''BIC imm'' CLASS_DEFAULT CYCLES_BIC ERRORS_DEFAULT,
    instr 0x3CE ''BIC imm'' CLASS_DEFAULT CYCLES_BIC ERRORS_DEFAULT,
    instr 0x3CF ''BIC imm'' CLASS_DEFAULT CYCLES_BIC ERRORS_DEFAULT,
    instr 0x3D0 ''BICS imm'' CLASS_DEFAULT CYCLES_BICS ERRORS_DEFAULT,
    instr 0x3D1 ''BICS imm'' CLASS_DEFAULT CYCLES_BICS ERRORS_DEFAULT,
    instr 0x3D2 ''BICS imm'' CLASS_DEFAULT CYCLES_BICS ERRORS_DEFAULT,
    instr 0x3D3 ''BICS imm'' CLASS_DEFAULT CYCLES_BICS ERRORS_DEFAULT,
    instr 0x3D4 ''BICS imm'' CLASS_DEFAULT CYCLES_BICS ERRORS_DEFAULT,
    instr 0x3D5 ''BICS imm'' CLASS_DEFAULT CYCLES_BICS ERRORS_DEFAULT,
    instr 0x3D6 ''BICS imm'' CLASS_DEFAULT CYCLES_BICS ERRORS_DEFAULT,
    instr 0x3D7 ''BICS imm'' CLASS_DEFAULT CYCLES_BICS ERRORS_DEFAULT,
    instr 0x3D8 ''BICS imm'' CLASS_DEFAULT CYCLES_BICS ERRORS_DEFAULT,
    instr 0x3D9 ''BICS imm'' CLASS_DEFAULT CYCLES_BICS ERRORS_DEFAULT,
    instr 0x3DA ''BICS imm'' CLASS_DEFAULT CYCLES_BICS ERRORS_DEFAULT,
    instr 0x3DB ''BICS imm'' CLASS_DEFAULT CYCLES_BICS ERRORS_DEFAULT,
    instr 0x3DC ''BICS imm'' CLASS_DEFAULT CYCLES_BICS ERRORS_DEFAULT,
    instr 0x3DD ''BICS imm'' CLASS_DEFAULT CYCLES_BICS ERRORS_DEFAULT,
    instr 0x3DE ''BICS imm'' CLASS_DEFAULT CYCLES_BICS ERRORS_DEFAULT,
    instr 0x3DF ''BICS imm'' CLASS_DEFAULT CYCLES_BICS ERRORS_DEFAULT,
    instr 0x3E0 ''MVN imm'' CLASS_DEFAULT CYCLES_MVN ERRORS_DEFAULT,
    instr 0x3E1 ''MVN imm'' CLASS_DEFAULT CYCLES_MVN ERRORS_DEFAULT,
    instr 0x3E2 ''MVN imm'' CLASS_DEFAULT CYCLES_MVN ERRORS_DEFAULT,
    instr 0x3E3 ''MVN imm'' CLASS_DEFAULT CYCLES_MVN ERRORS_DEFAULT,
    instr 0x3E4 ''MVN imm'' CLASS_DEFAULT CYCLES_MVN ERRORS_DEFAULT,
    instr 0x3E5 ''MVN imm'' CLASS_DEFAULT CYCLES_MVN ERRORS_DEFAULT,
    instr 0x3E6 ''MVN imm'' CLASS_DEFAULT CYCLES_MVN ERRORS_DEFAULT,
    instr 0x3E7 ''MVN imm'' CLASS_DEFAULT CYCLES_MVN ERRORS_DEFAULT,
    instr 0x3E8 ''MVN imm'' CLASS_DEFAULT CYCLES_MVN ERRORS_DEFAULT,
    instr 0x3E9 ''MVN imm'' CLASS_DEFAULT CYCLES_MVN ERRORS_DEFAULT,
    instr 0x3EA ''MVN imm'' CLASS_DEFAULT CYCLES_MVN ERRORS_DEFAULT,
    instr 0x3EB ''MVN imm'' CLASS_DEFAULT CYCLES_MVN ERRORS_DEFAULT,
    instr 0x3EC ''MVN imm'' CLASS_DEFAULT CYCLES_MVN ERRORS_DEFAULT,
    instr 0x3ED ''MVN imm'' CLASS_DEFAULT CYCLES_MVN ERRORS_DEFAULT,
    instr 0x3EE ''MVN imm'' CLASS_DEFAULT CYCLES_MVN ERRORS_DEFAULT,
    instr 0x3EF ''MVN imm'' CLASS_DEFAULT CYCLES_MVN ERRORS_DEFAULT,
    instr 0x3F0 ''MVNS imm'' CLASS_DEFAULT CYCLES_MVNS ERRORS_DEFAULT,
    instr 0x3F1 ''MVNS imm'' CLASS_DEFAULT CYCLES_MVNS ERRORS_DEFAULT,
    instr 0x3F2 ''MVNS imm'' CLASS_DEFAULT CYCLES_MVNS ERRORS_DEFAULT,
    instr 0x3F3 ''MVNS imm'' CLASS_DEFAULT CYCLES_MVNS ERRORS_DEFAULT,
    instr 0x3F4 ''MVNS imm'' CLASS_DEFAULT CYCLES_MVNS ERRORS_DEFAULT,
    instr 0x3F5 ''MVNS imm'' CLASS_DEFAULT CYCLES_MVNS ERRORS_DEFAULT,
    instr 0x3F6 ''MVNS imm'' CLASS_DEFAULT CYCLES_MVNS ERRORS_DEFAULT,
    instr 0x3F7 ''MVNS imm'' CLASS_DEFAULT CYCLES_MVNS ERRORS_DEFAULT,
    instr 0x3F8 ''MVNS imm'' CLASS_DEFAULT CYCLES_MVNS ERRORS_DEFAULT,
    instr 0x3F9 ''MVNS imm'' CLASS_DEFAULT CYCLES_MVNS ERRORS_DEFAULT,
    instr 0x3FA ''MVNS imm'' CLASS_DEFAULT CYCLES_MVNS ERRORS_DEFAULT,
    instr 0x3FB ''MVNS imm'' CLASS_DEFAULT CYCLES_MVNS ERRORS_DEFAULT,
    instr 0x3FC ''MVNS imm'' CLASS_DEFAULT CYCLES_MVNS ERRORS_DEFAULT,
    instr 0x3FD ''MVNS imm'' CLASS_DEFAULT CYCLES_MVNS ERRORS_DEFAULT,
    instr 0x3FE ''MVNS imm'' CLASS_DEFAULT CYCLES_MVNS ERRORS_DEFAULT,
    instr 0x3FF ''MVNS imm'' CLASS_DEFAULT CYCLES_MVNS ERRORS_DEFAULT]"

lemma vemu_arm_instr_00_ok: "list_all2 row_ok [0..<128] vemu_arm_instr_00"
  by (simp add: vemu_arm_instr_00_def row_defs cycles_defs upt_conv_Cons)

lemma vemu_arm_instr_01_ok: "list_all2 row_ok [128..<256] vemu_arm_instr_01"
  by (simp add: vemu_arm_instr_01_def row_defs cycles_defs upt_conv_Cons)

lemma vemu_arm_instr_02_ok: "list_all2 row_ok [256..<384] vemu_arm_instr_02"
  by (simp add: vemu_arm_instr_02_def row_defs cycles_defs upt_conv_Cons)

lemma vemu_arm_instr_03_ok: "list_all2 row_ok [384..<512] vemu_arm_instr_03"
  by (simp add: vemu_arm_instr_03_def row_defs cycles_defs upt_conv_Cons)

lemma vemu_arm_instr_04_ok: "list_all2 row_ok [512..<640] vemu_arm_instr_04"
  by (simp add: vemu_arm_instr_04_def row_defs cycles_defs upt_conv_Cons)

lemma vemu_arm_instr_05_ok: "list_all2 row_ok [640..<768] vemu_arm_instr_05"
  by (simp add: vemu_arm_instr_05_def row_defs cycles_defs upt_conv_Cons)

lemma vemu_arm_instr_06_ok: "list_all2 row_ok [768..<896] vemu_arm_instr_06"
  by (simp add: vemu_arm_instr_06_def row_defs cycles_defs upt_conv_Cons)

lemma vemu_arm_instr_07_ok: "list_all2 row_ok [896..<1024] vemu_arm_instr_07"
  by (simp add: vemu_arm_instr_07_def row_defs cycles_defs upt_conv_Cons)

lemma vemu_arm_instr_04_cost: "list_all2 cost_ok [512..<640] vemu_arm_instr_04"
  by (simp add: vemu_arm_instr_04_def instr_def cycles_defs cost_ok_def arm_ref_cycles_def upt_conv_Cons)

lemma vemu_arm_instr_05_cost: "list_all2 cost_ok [640..<768] vemu_arm_instr_05"
  by (simp add: vemu_arm_instr_05_def instr_def cycles_defs cost_ok_def arm_ref_cycles_def upt_conv_Cons)

lemma vemu_arm_instr_06_cost: "list_all2 cost_ok [768..<896] vemu_arm_instr_06"
  by (simp add: vemu_arm_instr_06_def instr_def cycles_defs cost_ok_def arm_ref_cycles_def upt_conv_Cons)

lemma vemu_arm_instr_07_cost: "list_all2 cost_ok [896..<1024] vemu_arm_instr_07"
  by (simp add: vemu_arm_instr_07_def instr_def cycles_defs cost_ok_def arm_ref_cycles_def upt_conv_Cons)

end
