(* ===== verification/Vemu_Arm_Table1.thy ===== *)
theory Vemu_Arm_Table1
  imports Vemu_Instr
begin

text \<open>
  The rows 0x400 to 0x7FF of \<^verbatim>\<open>vemu_arm_instr\<close>, in eight lists of 128.
\<close>

definition vemu_arm_instr_08 :: "vemu_instr_info list" where
  "vemu_arm_instr_08 = [
    instr 0x400 ''STR ptim'' CLASS_DEFAULT CYCLES_STR ERRORS_DEFAULT,
    instr 0x401 ''STR ptim'' CLASS_DEFAULT CYCLES_STR ERRORS_DEFAULT,
    instr 0x402 ''STR ptim'' CLASS_DEFAULT CYCLES_STR ERRORS_DEFAULT,
    instr 0x403 ''STR ptim'' CLASS_DEFAULT CYCLES_STR ERRORS_DEFAULT,
    instr 0x404 ''STR ptim'' CLASS_DEFAULT CYCLES_STR ERRORS_DEFAULT,
    instr 0x405 ''STR ptim'' CLASS_DEFAULT CYCLES_STR ERRORS_DEFAULT,
    instr 0x406 ''STR ptim'' CLASS_DEFAULT CYCLES_STR ERRORS_DEFAULT,
    instr 0x407 ''STR ptim'' CLASS_DEFAULT CYCLES_STR ERRORS_DEFAULT,
    instr 0x408 ''STR ptim'' CLASS_DEFAULT CYCLES_STR ERRORS_DEFAULT,
    instr 0x409 ''STR ptim'' CLASS_DEFAULT CYCLES_STR ERRORS_DEFAULT,
    instr 0x40A ''STR ptim'' CLASS_DEFAULT CYCLES_STR ERRORS_DEFAULT,
    instr 0x40B ''STR ptim'' CLASS_DEFAULT CYCLES_STR ERRORS_DEFAULT,
    instr 0x40C ''STR ptim'' CLASS_DEFAULT CYCLES_STR ERRORS_DEFAULT,
    instr 0x40D ''STR ptim'' CLASS_DEFAULT CYCLES_STR ERRORS_DEFAULT,
    instr 0x40E ''STR ptim'' CLASS_DEFAULT CYCLES_STR ERRORS_DEFAULT,
    instr 0x40F ''STR ptim'' CLASS_DEFAULT CYCLES_STR ERRORS_DEFAULT,
    instr 0x410 ''LDR ptim'' CLASS_DEFAULT CYCLES_LDR ERRORS_DEFAULT,
    instr 0x411 ''LDR ptim'' CLASS_DEFAULT CYCLES_LDR ERRORS_DEFAULT,
    instr 0x412 ''LDR ptim'' CLASS_DEFAULT CYCLES_LDR ERRORS_DEFAULT,
    instr 0x413 ''LDR ptim'' CLASS_DEFAULT CYCLES_LDR ERRORS_DEFAULT,
    instr 0x414 ''LDR ptim'' CLASS_DEFAULT CYCLES_LDR ERRORS_DEFAULT,
    instr 0x415 ''LDR ptim'' CLASS_DEFAULT CYCLES_LDR ERRORS_DEFAULT,
    instr 0x416 ''LDR ptim'' CLASS_DEFAULT CYCLES_LDR ERRORS_DEFAULT,
    instr 0x417 ''LDR ptim'' CLASS_DEFAULT CYCLES_LDR ERRORS_DEFAULT,
    instr 0x418 ''LDR ptim'' CLASS_DEFAULT CYCLES_LDR ERRORS_DEFAULT,
    instr 0x419 ''LDR ptim'' CLASS_DEFAULT CYCLES_LDR ERRORS_DEFAULT,
    instr 0x41A ''LDR ptim'' CLASS_DEFAULT CYCLES_LDR ERRORS_DEFAULT,
    instr 0x41B ''LDR ptim'' CLASS_DEFAULT CYCLES_LDR ERRORS_DEFAULT,
    instr 0x41C ''LDR ptim'' CLASS_DEFAULT CYCLES_LDR ERRORS_DEFAULT,
    instr 0x41D ''LDR ptim'' CLASS_DEFAULT CYCLES_LDR ERRORS_DEFAULT,
    instr 0x41E ''LDR ptim'' CLASS_DEFAULT CYCLES_LDR ERRORS_DEFAULT,
    instr 0x41F ''LDR ptim'' CLASS_DEFAULT CYCLES_LDR ERRORS_DEFAULT,
    instr 0x420 ''STRT ptim'' CLASS_DEFAULT CYCLES_STRT ERRORS_DEFAULT,
    instr 0x421 ''STRT ptim'' CLASS_DEFAULT CYCLES_STRT ERRORS_DEFAULT,
    instr 0x422 ''STRT ptim'' CLASS_DEFAULT CYCLES_STRT ERRORS_DEFAULT,
    instr 0x423 ''STRT ptim'' CLASS_DEFAULT CYCLES_STRT ERRORS_DEFAULT,
    instr 0x424 ''STRT ptim'' CLASS_DEFAULT CYCLES_STRT ERRORS_DEFAULT,
    instr 0x425 ''STRT ptim'' CLASS_DEFAULT CYCLES_STRT ERRORS_DEFAULT,
    instr 0x426 ''STRT ptim'' CLASS_DEFAULT CYCLES_STRT ERRORS_DEFAULT,
    instr 0x427 ''STRT ptim'' CLASS_DEFAULT CYCLES_STRT ERRORS_DEFAULT,
    instr 0x428 ''STRT ptim'' CLASS_DEFAULT CYCLES_STRT ERRORS_DEFAULT,
    instr 0x429 ''STRT ptim'' CLASS_DEFAULT CYCLES_STRT ERRORS_DEFAULT,
    instr 0x42A ''STRT ptim'' CLASS_DEFAULT CYCLES_STRT ERRORS_DEFAULT,
    instr 0x42B ''STRT ptim'' CLASS_DEFAULT CYCLES_STRT ERRORS_DEFAULT,
    instr 0x42C ''STRT ptim'' CLASS_DEFAULT CYCLES_STRT ERRORS_DEFAULT,
    instr 0x42D ''STRT ptim'' CLASS_DEFAULT CYCLES_STRT ERRORS_DEFAULT,
    instr 0x42E ''STRT ptim'' CLASS_DEFAULT CYCLES_STRT ERRORS_DEFAULT,
    instr 0x42F ''STRT ptim'' CLASS_DEFAULT CYCLES_STRT ERRORS_DEFAULT,
    instr 0x430 ''LDRT ptim'' CLASS_DEFAULT CYCLES_LDRT ERRORS_DEFAULT,
    instr 0x431 ''LDRT ptim'' CLASS_DEFAULT CYCLES_LDRT ERRORS_DEFAULT,
    instr 0x432 ''LDRT ptim'' CLASS_DEFAULT CYCLES_LDRT ERRORS_DEFAULT,
    instr 0x433 ''LDRT ptim'' CLASS_DEFAULT CYCLES_LDRT ERRORS_DEFAULT,
    instr 0x434 ''LDRT ptim'' CLASS_DEFAULT CYCLES_LDRT ERRORS_DEFAULT,
    instr 0x435 ''LDRT ptim'' CLASS_DEFAULT CYCLES_LDRT ERRORS_DEFAULT,
    instr 0x436 ''LDRT ptim'' CLASS_DEFAULT CYCLES_LDRT ERRORS_DEFAULT,
    instr 0x437 ''LDRT ptim'' CLASS_DEFAULT CYCLES_LDRT ERRORS_DEFAULT,
    instr 0x438 ''LDRT ptim'' CLASS_DEFAULT CYCLES_LDRT ERRORS_DEFAULT,
    instr 0x439 ''LDRT ptim'' CLASS_DEFAULT CYCLES_LDRT ERRORS_DEFAULT,
    instr 0x43A ''LDRT ptim'' CLASS_DEFAULT CYCLES_LDRT ERRORS_DEFAULT,
    instr 0x43B ''LDRT ptim'' CLASS_DEFAULT CYCLES_LDRT ERRORS_DEFAULT,
    instr 0x43C ''LDRT ptim'' CLASS_DEFAULT CYCLES_LDRT ERRORS_DEFAULT,
    instr 0x43D ''LDRT ptim'' CLASS_DEFAULT CYCLES_LDRT ERRORS_DEFAULT,
    instr 0x43E ''LDRT ptim'' CLASS_DEFAULT CYCLES_LDRT ERRORS_DEFAULT,
    instr 0x43F ''LDRT ptim'' CLASS_DEFAULT CYCLES_LDRT ERRORS_DEFAULT,
    instr 0x440 ''STRB ptim'' CLASS_DEFAULT CYCLES_STRB ERRORS_DEFAULT,
    instr 0x441 ''STRB ptim'' CLASS_DEFAULT CYCLES_STRB ERRORS_DEFAULT,
    instr 0x442 ''STRB ptim'' CLASS_DEFAULT CYCLES_STRB ERRORS_DEFAULT,
    instr 0x443 ''STRB ptim'' CLASS_DEFAULT CYCLES_STRB ERRORS_DEFAULT,
    instr 0x444 ''STRB ptim'' CLASS_DEFAULT CYCLES_STRB ERRORS_DEFAULT,
    instr 0x445 ''STRB ptim'' CLASS_DEFAULT CYCLES_STRB ERRORS_DEFAULT,
    instr 0x446 ''STRB ptim'' CLASS_DEFAULT CYCLES_STRB ERRORS_DEFAULT,
    instr 0x447 ''STRB ptim'' CLASS_DEFAULT CYCLES_STRB ERRORS_DEFAULT,
    instr 0x448 ''STRB ptim'' CLASS_DEFAULT CYCLES_STRB ERRORS_DEFAULT,
    instr 0x449 ''STRB ptim'' CLASS_DEFAULT CYCLES_STRB ERRORS_DEFAULT,
    instr 0x44A ''STRB ptim'' CLASS_DEFAULT CYCLES_STRB ERRORS_DEFAULT,
    instr 0x44B ''STRB ptim'' CLASS_DEFAULT CYCLES_STRB ERRORS_DEFAULT,
    instr 0x44C ''STRB ptim'' CLASS_DEFAULT CYCLES_STRB ERRORS_DEFAULT,
    instr 0x44D ''STRB ptim'' CLASS_DEFAULT CYCLES_STRB ERRORS_DEFAULT,
    instr 0x44E ''STRB ptim'' CLASS_DEFAULT CYCLES_STRB ERRORS_DEFAULT,
    instr 0x44F ''STRB ptim'' CLASS_DEFAULT CYCLES_STRB ERRORS_DEFAULT,
    instr 0x450 ''LDRB ptim'' CLASS_DEFAULT CYCLES_LDRB ERRORS_DEFAULT,
    instr 0x451 ''LDRB ptim'' CLASS_DEFAULT CYCLES_LDRB ERRORS_DEFAULT,
    instr 0x452 ''LDRB ptim'' CLASS_DEFAULT CYCLES_LDRB ERRORS_DEFAULT,
    instr 0x453 ''LDRB ptim'' CLASS_DEFAULT CYCLES_LDRB ERRORS_DEFAULT,
    instr 0x454 ''LDRB ptim'' CLASS_DEFAULT CYCLES_LDRB ERRORS_DEFAULT,
    instr 0x455 ''LDRB ptim'' CLASS_DEFAULT CYCLES_LDRB ERRORS_DEFAULT,
    instr 0x456 ''LDRB ptim'' CLASS_DEFAULT CYCLES_LDRB ERRORS_DEFAULT,
    instr 0x457 ''LDRB ptim'' CLASS_DEFAULT CYCLES_LDRB ERRORS_DEFAULT,
    instr 0x458 ''LDRB ptim'' CLASS_DEFAULT CYCLES_LDRB ERRORS_DEFAULT,
    instr 0x459 ''LDRB ptim'' CLASS_DEFAULT CYCLES_LDRB ERRORS_DEFAULT,
    instr 0x45A ''LDRB ptim'' CLASS_DEFAULT CYCLES_LDRB ERRORS_DEFAULT,
    instr 0x45B ''LDRB ptim'' CLASS_DEFAULT CYCLES_LDRB ERRORS_DEFAULT,
    instr 0x45C ''LDRB ptim'' CLASS_DEFAULT CYCLES_LDRB ERRORS_DEFAULT,
    instr 0x45D ''LDRB ptim'' CLASS_DEFAULT CYCLES_LDRB ERRORS_DEFAULT,
    instr 0x45E ''LDRB ptim'' CLASS_DEFAULT CYCLES_LDRB ERRORS_DEFAULT,
    instr 0x45F ''LDRB ptim'' CLASS_DEFAULT CYCLES_LDRB ERRORS_DEFAULT,
    instr 0x460 ''STRBT ptim'' CLASS_DEFAULT CYCLES_STRBT ERRORS_DEFAULT,
    instr 0x461 ''STRBT ptim'' CLASS_DEFAULT CYCLES_STRBT ERRORS_DEFAULT,
    instr 0x462 ''STRBT ptim'' CLASS_DEFAULT CYCLES_STRBT ERRORS_DEFAULT,
    instr 0x463 ''STRBT ptim'' CLASS_DEFAULT CYCLES_STRBT ERRORS_DEFAULT,
    instr 0x464 ''STRBT ptim'' CLASS_DEFAULT CYCLES_STRBT ERRORS_DEFAULT,
    instr 0x465 ''STRBT ptim'' CLASS_DEFAULT CYCLES_STRBT ERRORS_DEFAULT,
    instr 0x466 ''STRBT ptim'' CLASS_DEFAULT CYCLES_STRBT ERRORS_DEFAULT,
    instr 0x467 ''STRBT ptim'' CLASS_DEFAULT CYCLES_STRBT ERRORS_DEFAULT,
    instr 0x468 ''STRBT ptim'' CLASS_DEFAULT CYCLES_STRBT ERRORS_DEFAULT,
    instr 0x469 ''STRBT ptim'' CLASS_DEFAULT CYCLES_STRBT ERRORS_DEFAULT,
    instr 0x46A ''STRBT ptim'' CLASS_DEFAULT CYCLES_STRBT ERRORS_DEFAULT,
    instr 0x46B ''STRBT ptim'' CLASS_DEFAULT CYCLES_STRBT ERRORS_DEFAULT,
    instr 0x46C ''STRBT ptim'' CLASS_DEFAULT CYCLES_STRBT ERRORS_DEFAULT,
    instr 0x46D ''STRBT ptim'' CLASS_DEFAULT CYCLES_STRBT ERRORS_DEFAULT,
    instr 0x46E ''STRBT ptim'' CLASS_DEFAULT CYCLES_STRBT ERRORS_DEFAULT,
    instr 0x46F ''STRBT ptim'' CLASS_DEFAULT CYCLES_STRBT ERRORS_DEFAULT,
    instr 0x470 ''LDRBT ptim'' CLASS_DEFAULT CYCLES_LDRBT ERRORS_DEFAULT,
    instr 0x471 ''LDRBT ptim'' CLASS_DEFAULT CYCLES_LDRBT ERRORS_DEFAULT,
    instr 0x472 ''LDRBT ptim'' CLASS_DEFAULT CYCLES_LDRBT ERRORS_DEFAULT,
    instr 0x473 ''LDRBT ptim'' CLASS_DEFAULT CYCLES_LDRBT ERRORS_DEFAULT,
    instr 0x474 ''LDRBT ptim'' CLASS_DEFAULT CYCLES_LDRBT ERRORS_DEFAULT,
    instr 0x475 ''LDRBT ptim'' CLASS_DEFAULT CYCLES_LDRBT ERRORS_DEFAULT,
    instr 0x476 ''LDRBT ptim'' CLASS_DEFAULT CYCLES_LDRBT ERRORS_DEFAULT,
    instr 0x477 ''LDRBT ptim'' CLASS_DEFAULT CYCLES_LDRBT ERRORS_DEFAULT,
    instr 0x478 ''LDRBT ptim'' CLASS_DEFAULT CYCLES_LDRBT ERRORS_DEFAULT,
    instr 0x479 ''LDRBT ptim'' CLASS_DEFAULT CYCLES_LDRBT ERRORS_DEFAULT,
    instr 0x47A ''LDRBT ptim'' CLASS_DEFAULT CYCLES_LDRBT ERRORS_DEFAULT,
    instr 0x47B ''LDRBT ptim'' CLASS_DEFAULT CYCLES_LDRBT ERRORS_DEFAULT,
    instr 0x47C ''LDRBT ptim'' CLASS_DEFAULT CYCLES_LDRBT ERRORS_DEFAULT,
    instr 0x47D ''LDRBT ptim'' CLASS_DEFAULT CYCLES_LDRBT ERRORS_DEFAULT,
    instr 0x47E ''LDRBT ptim'' CLASS_DEFAULT CYCLES_LDRBT ERRORS_DEFAULT,
    instr 0x47F ''LDRBT ptim'' CLASS_DEFAULT CYCLES_LDRBT ERRORS_DEFAULT]"

definition vemu_arm_instr_09 :: "vemu_instr_info list" where
  "vemu_arm_instr_09 = [
    instr 0x480 ''STR ptip'' CLASS_DEFAULT CYCLES_STR ERRORS_DEFAULT,
    instr 0x481 ''STR ptip'' CLASS_DEFAULT CYCLES_STR ERRORS_DEFAULT,
    instr 0x482 ''STR ptip'' CLASS_DEFAULT CYCLES_STR ERRORS_DEFAULT,
    instr 0x483 ''STR ptip'' CLASS_DEFAULT CYCLES_STR ERRORS_DEFAULT,
    instr 0x484 ''STR ptip'' CLASS_DEFAULT CYCLES_STR ERRORS_DEFAULT,
    instr 0x485 ''STR ptip'' CLASS_DEFAULT CYCLES_STR ERRORS_DEFAULT,
    instr 0x486 ''STR ptip'' CLASS_DEFAULT CYCLES_STR ERRORS_DEFAULT,
    instr 0x487 ''STR ptip'' CLASS_DEFAULT CYCLES_STR ERRORS_DEFAULT,
    instr 0x488 ''STR ptip'' CLASS_DEFAULT CYCLES_STR ERRORS_DEFAULT,
    instr 0x489 ''STR ptip'' CLASS_DEFAULT CYCLES_STR ERRORS_DEFAULT,
    instr 0x48A ''STR ptip'' CLASS_DEFAULT CYCLES_STR ERRORS_DEFAULT,
    instr 0x48B ''STR ptip'' CLASS_DEFAULT CYCLES_STR ERRORS_DEFAULT,
    instr 0x48C ''STR ptip'' CLASS_DEFAULT CYCLES_STR ERRORS_DEFAULT,
    instr 0x48D ''STR ptip'' CLASS_DEFAULT CYCLES_STR ERRORS_DEFAULT,
    instr 0x48E ''STR ptip'' CLASS_DEFAULT CYCLES_STR ERRORS_DEFAULT,
    instr 0x48F ''STR ptip'' CLASS_DEFAULT CYCLES_STR ERRORS_DEFAULT,
    instr 0x490 ''LDR ptip'' CLASS_DEFAULT CYCLES_LDR ERRORS_DEFAULT,
    instr 0x491 ''LDR ptip'' CLASS_DEFAULT CYCLES_LDR ERRORS_DEFAULT,
    instr 0x492 ''LDR ptip'' CLASS_DEFAULT CYCLES_LDR ERRORS_DEFAULT,
    instr 0x493 ''LDR ptip'' CLASS_DEFAULT CYCLES_LDR ERRORS_DEFAULT,
    instr 0x494 ''LDR ptip'' CLASS_DEFAULT CYCLES_LDR ERRORS_DEFAULT,
    instr 0x495 ''LDR ptip'' CLASS_DEFAULT CYCLES_LDR ERRORS_DEFAULT,
    instr 0x496 ''LDR ptip'' CLASS_DEFAULT CYCLES_LDR ERRORS_DEFAULT,
    instr 0x497 ''LDR ptip'' CLASS_DEFAULT CYCLES_LDR ERRORS_DEFAULT,
    instr 0x498 ''LDR ptip'' CLASS_DEFAULT CYCLES_LDR ERRORS_DEFAULT,
    instr 0x499 ''LDR ptip'' CLASS_DEFAULT CYCLES_LDR ERRORS_DEFAULT,
    instr 0x49A ''LDR ptip'' CLASS_DEFAULT CYCLES_LDR ERRORS_DEFAULT,
    instr 0x49B ''LDR ptip'' CLASS_DEFAULT CYCLES_LDR ERRORS_DEFAULT,
    instr 0x49C ''LDR ptip'' CLASS_DEFAULT CYCLES_LDR ERRORS_DEFAULT,
    instr 0x49D ''LDR ptip'' CLASS_DEFAULT CYCLES_LDR ERRORS_DEFAULT,
    instr 0x49E ''LDR ptip'' CLASS_DEFAULT CYCLES_LDR ERRORS_DEFAULT,
    instr 0x49F ''LDR ptip'' CLASS_DEFAULT CYCLES_LDR ERRORS_DEFAULT,
    instr 0x4A0 ''STRT ptip'' CLASS_DEFAULT CYCLES_STRT ERRORS_DEFAULT,
    instr 0x4A1 ''STRT ptip'' CLASS_DEFAULT CYCLES_STRT ERRORS_DEFAULT,
    instr 0x4A2 ''STRT ptip'' CLASS_DEFAULT CYCLES_STRT ERRORS_DEFAULT,
    instr 0x4A3 ''STRT ptip'' CLASS_DEFAULT CYCLES_STRT ERRORS_DEFAULT,
    instr 0x4A4 ''STRT ptip'' CLASS_DEFAULT CYCLES_STRT ERRORS_DEFAULT,
    instr 0x4A5 ''STRT ptip'' CLASS_DEFAULT CYCLES_STRT ERRORS_DEFAULT,
    instr 0x4A6 ''STRT ptip'' CLASS_DEFAULT CYCLES_STRT ERRORS_DEFAULT,
    instr 0x4A7 ''STRT ptip'' CLASS_DEFAULT CYCLES_STRT ERRORS_DEFAULT,
    instr 0x4A8 ''STRT ptip'' CLASS_DEFAULT CYCLES_STRT ERRORS_DEFAULT,
    instr 0x4A9 ''STRT ptip'' CLASS_DEFAULT CYCLES_STRT ERRORS_DEFAULT,
    instr 0x4AA ''STRT ptip'' CLASS_DEFAULT CYCLES_STRT ERRORS_DEFAULT,
    instr 0x4AB ''STRT ptip'' CLASS_DEFAULT CYCLES_STRT ERRORS_DEFAULT,
    instr 0x4AC ''STRT ptip'' CLASS_DEFAULT CYCLES_STRT ERRORS_DEFAULT,
    instr 0x4AD ''STRT ptip'' CLASS_DEFAULT CYCLES_STRT ERRORS_DEFAULT,
    instr 0x4AE ''STRT ptip'' CLASS_DEFAULT CYCLES_STRT ERRORS_DEFAULT,
    instr 0x4AF ''STRT ptip'' CLASS_DEFAULT CYCLES_STRT ERRORS_DEFAULT,
    instr 0x4B0 ''LDRT ptip'' CLASS_DEFAULT CYCLES_LDRT ERRORS_DEFAULT,
    instr 0x4B1 ''LDRT ptip'' CLASS_DEFAULT CYCLES_LDRT ERRORS_DEFAULT,
    instr 0x4B2 ''LDRT ptip'' CLASS_DEFAULT CYCLES_LDRT ERRORS_DEFAULT,
    instr 0x4B3 ''LDRT ptip'' CLASS_DEFAULT CYCLES_LDRT ERRORS_DEFAULT,
    instr 0x4B4 ''LDRT ptip'' CLASS_DEFAULT CYCLES_LDRT ERRORS_DEFAULT,
    instr 0x4B5 ''LDRT ptip'' CLASS_DEFAULT CYCLES_LDRT ERRORS_DEFAULT,
    instr 0x4B6 ''LDRT ptip'' CLASS_DEFAULT CYCLES_LDRT ERRORS_DEFAULT,
    instr 0x4B7 ''LDRT ptip'' CLASS_DEFAULT CYCLES_LDRT ERRORS_DEFAULT,
    instr 0x4B8 ''LDRT ptip'' CLASS_DEFAULT CYCLES_LDRT ERRORS_DEFAULT,
    instr 0x4B9 ''LDRT ptip'' CLASS_DEFAULT CYCLES_LDRT ERRORS_DEFAULT,
    instr 0x4BA ''LDRT ptip'' CLASS_DEFAULT CYCLES_LDRT ERRORS_DEFAULT,
    instr 0x4BB ''LDRT ptip'' CLASS_DEFAULT CYCLES_LDRT ERRORS_DEFAULT,
    instr 0x4BC ''LDRT ptip'' CLASS_DEFAULT CYCLES_LDRT ERRORS_DEFAULT,
    instr 0x4BD ''LDRT ptip'' CLASS_DEFAULT CYCLES_LDRT ERRORS_DEFAULT,
    instr 0x4BE ''LDRT ptip'' CLASS_DEFAULT CYCLES_LDRT ERRORS_DEFAULT,
    instr 0x4BF ''LDRT ptip'' CLASS_DEFAULT CYCLES_LDRT ERRORS_DEFAULT,
    instr 0x4C0 ''STRB ptip'' CLASS_DEFAULT CYCLES_STRB ERRORS_DEFAULT,
    instr 0x4C1 ''STRB ptip'' CLASS_DEFAULT CYCLES_STRB ERRORS_DEFAULT,
    instr 0x4C2 ''STRB ptip'' CLASS_DEFAULT CYCLES_STRB ERRORS_DEFAULT,
    instr 0x4C3 ''STRB ptip'' CLASS_DEFAULT CYCLES_STRB ERRORS_DEFAULT,
    instr 0x4C4 ''STRB ptip'' CLASS_DEFAULT CYCLES_STRB ERRORS_DEFAULT,
    instr 0x4C5 ''STRB ptip'' CLASS_DEFAULT CYCLES_STRB ERRORS_DEFAULT,
    instr 0x4C6 ''STRB ptip'' CLASS_DEFAULT CYCLES_STRB ERRORS_DEFAULT,
    instr 0x4C7 ''STRB ptip'' CLASS_DEFAULT CYCLES_STRB ERRORS_DEFAULT,
    instr 0x4C8 ''STRB ptip'' CLASS_DEFAULT CYCLES_STRB ERRORS_DEFAULT,
    instr 0x4C9 ''STRB ptip'' CLASS_DEFAULT CYCLES_STRB ERRORS_DEFAULT,
    instr 0x4CA ''STRB ptip'' CLASS_DEFAULT CYCLES_STRB ERRORS_DEFAULT,
    instr 0x4CB ''STRB ptip'' CLASS_DEFAULT CYCLES_STRB ERRORS_DEFAULT,
    instr 0x4CC ''STRB ptip'' CLASS_DEFAULT CYCLES_STRB ERRORS_DEFAULT,
    instr 0x4CD ''STRB ptip'' CLASS_DEFAULT CYCLES_STRB ERRORS_DEFAULT,
    instr 0x4CE ''STRB ptip'' CLASS_DEFAULT CYCLES_STRB ERRORS_DEFAULT,
    instr 0x4CF ''STRB ptip'' CLASS_DEFAULT CYCLES_STRB ERRORS_DEFAULT,
    instr 0x4D0 ''LDRB ptip'' CLASS_DEFAULT CYCLES_LDRB ERRORS_DEFAULT,
    instr 0x4D1 ''LDRB ptip'' CLASS_DEFAULT CYCLES_LDRB ERRORS_DEFAULT,
    instr 0x4D2 ''LDRB ptip'' CLASS_DEFAULT CYCLES_LDRB ERRORS_DEFAULT,
    instr 0x4D3 ''LDRB ptip'' CLASS_DEFAULT CYCLES_LDRB ERRORS_DEFAULT,
    instr 0x4D4 ''LDRB ptip'' CLASS_DEFAULT CYCLES_LDRB ERRORS_DEFAULT,
    instr 0x4D5 ''LDRB ptip'' CLASS_DEFAULT CYCLES_LDRB ERRORS_DEFAULT,
    instr 0x4D6 ''LDRB ptip'' CLASS_DEFAULT CYCLES_LDRB ERRORS_DEFAULT,
    instr 0x4D7 ''LDRB ptip'' CLASS_DEFAULT CYCLES_LDRB ERRORS_DEFAULT,
    instr 0x4D8 ''LDRB ptip'' CLASS_DEFAULT CYCLES_LDRB ERRORS_DEFAULT,
    instr 0x4D9 ''LDRB ptip'' CLASS_DEFAULT CYCLES_LDRB ERRORS_DEFAULT,
    instr 0x4DA ''LDRB ptip'' CLASS_DEFAULT CYCLES_LDRB ERRORS_DEFAULT,
    instr 0x4DB ''LDRB ptip'' CLASS_DEFAULT CYCLES_LDRB ERRORS_DEFAULT,
    instr 0x4DC ''LDRB ptip'' CLASS_DEFAULT CYCLES_LDRB ERRORS_DEFAULT,
    instr 0x4DD ''LDRB ptip'' CLASS_DEFAULT CYCLES_LDRB ERRORS_DEFAULT,
    instr 0x4DE ''LDRB ptip'' CLASS_DEFAULT CYCLES_LDRB ERRORS_DEFAULT,
    instr 0x4DF ''LDRB ptip'' CLASS_DEFAULT CYCLES_LDRB ERRORS_DEFAULT,
    instr 0x4E0 ''STRBT ptip'' CLASS_DEFAULT CYCLES_STRBT ERRORS_DEFAULT,
    instr 0x4E1 ''STRBT ptip'' CLASS_DEFAULT CYCLES_STRBT ERRORS_DEFAULT,
    instr 0x4E2 ''STRBT ptip'' CLASS_DEFAULT CYCLES_STRBT ERRORS_DEFAULT,
    instr 0x4E3 ''STRBT ptip'' CLASS_DEFAULT CYCLES_STRBT ERRORS_DEFAULT,
    instr 0x4E4 ''STRBT ptip'' CLASS_DEFAULT CYCLES_STRBT ERRORS_DEFAULT,
    instr 0x4E5 ''STRBT ptip'' CLASS_DEFAULT CYCLES_STRBT ERRORS_DEFAULT,
    instr 0x4E6 ''STRBT ptip'' CLASS_DEFAULT CYCLES_STRBT ERRORS_DEFAULT,
    instr 0x4E7 ''STRBT ptip'' CLASS_DEFAULT CYCLES_STRBT ERRORS_DEFAULT,
    instr 0x4E8 ''STRBT ptip'' CLASS_DEFAULT CYCLES_STRBT ERRORS_DEFAULT,
    instr 0x4E9 ''STRBT ptip'' CLASS_DEFAULT CYCLES_STRBT ERRORS_DEFAULT,
    instr 0x4EA ''STRBT ptip'' CLASS_DEFAULT CYCLES_STRBT ERRORS_DEFAULT,
    instr 0x4EB ''STRBT ptip'' CLASS_DEFAULT CYCLES_STRBT ERRORS_DEFAULT,
    instr 0x4EC ''STRBT ptip'' CLASS_DEFAULT CYCLES_STRBT ERRORS_DEFAULT,
    instr 0x4ED ''STRBT ptip'' CLASS_DEFAULT CYCLES_STRBT ERRORS_DEFAULT,
    instr 0x4EE ''STRBT ptip'' CLASS_DEFAULT CYCLES_STRBT ERRORS_DEFAULT,
    instr 0x4EF ''STRBT ptip'' CLASS_DEFAULT CYCLES_STRBT ERRORS_DEFAULT,
    instr 0x4F0 ''LDRBT ptip'' CLASS_DEFAULT CYCLES_LDRBT ERRORS_DEFAULT,
    instr 0x4F1 ''LDRBT ptip'' CLASS_DEFAULT CYCLES_LDRBT ERRORS_DEFAULT,
    instr 0x4F2 ''LDRBT ptip'' CLASS_DEFAULT CYCLES_LDRBT ERRORS_DEFAULT,
    instr 0x4F3 ''LDRBT ptip'' CLASS_DEFAULT CYCLES_LDRBT ERRORS_DEFAULT,
    instr 0x4F4 ''LDRBT ptip'' CLASS_DEFAULT CYCLES_LDRBT ERRORS_DEFAULT,
    instr 0x4F5 ''LDRBT ptip'' CLASS_DEFAULT CYCLES_LDRBT ERRORS_DEFAULT,
    instr 0x4F6 ''LDRBT ptip'' CLASS_DEFAULT CYCLES_LDRBT ERRORS_DEFAULT,
    instr 0x4F7 ''LDRBT ptip'' CLASS_DEFAULT CYCLES_LDRBT ERRORS_DEFAULT,
    instr 0x4F8 ''LDRBT ptip'' CLASS_DEFAULT CYCLES_LDRBT ERRORS_DEFAULT,
    instr 0x4F9 ''LDRBT ptip'' CLASS_DEFAULT CYCLES_LDRBT ERRORS_DEFAULT,
    instr 0x4FA ''LDRBT ptip'' CLASS_DEFAULT CYCLES_LDRBT ERRORS_DEFAULT,
    instr 0x4FB ''LDRBT ptip'' CLASS_DEFAULT CYCLES_LDRBT ERRORS_DEFAULT,
    instr 0x4FC ''LDRBT ptip'' CLASS_DEFAULT CYCLES_LDRBT ERRORS_DEFAULT,
    instr 0x4FD ''LDRBT ptip'' CLASS_DEFAULT CYCLES_LDRBT ERRORS_DEFAULT,
    instr 0x4FE ''LDRBT ptip'' CLASS_DEFAULT CYCLES_LDRBT ERRORS_DEFAULT,
    instr 0x4FF ''LDRBT ptip'' CLASS_DEFAULT CYCLES_LDRBT ERRORS_DEFAULT]"

definition vemu_arm_instr_10 :: "vemu_instr_info list" where
  "vemu_arm_instr_10 = [
    instr 0x500 ''STR ofim'' CLASS_DEFAULT CYCLES_STR ERRORS_DEFAULT,
    instr 0x501 ''STR ofim'' CLASS_DEFAULT CYCLES_STR ERRORS_DEFAULT,
    instr 0x502 ''STR ofim'' CLASS_DEFAULT CYCLES_STR ERRORS_DEFAULT,
    instr 0x503 ''STR ofim'' CLASS_DEFAULT CYCLES_STR ERRORS_DEFAULT,
    instr 0x504 ''STR ofim'' CLASS_DEFAULT CYCLES_STR ERRORS_DEFAULT,
    instr 0x505 ''STR ofim'' CLASS_DEFAULT CYCLES_STR ERRORS_DEFAULT,
    instr 0x506 ''STR ofim'' CLASS_DEFAULT CYCLES_STR ERRORS_DEFAULT,
    instr 0x507 ''STR ofim'' CLASS_DEFAULT CYCLES_STR ERRORS_DEFAULT,
    instr 0x508 ''STR ofim'' CLASS_DEFAULT CYCLES_STR ERRORS_DEFAULT,
    instr 0x509 ''STR ofim'' CLASS_DEFAULT CYCLES_STR ERRORS_DEFAULT,
    instr 0x50A ''STR ofim'' CLASS_DEFAULT CYCLES_STR ERRORS_DEFAULT,
    instr 0x50B ''STR ofim'' CLASS_DEFAULT CYCLES_STR ERRORS_DEFAULT,
    instr 0x50C ''STR ofim'' CLASS_DEFAULT CYCLES_STR ERRORS_DEFAULT,
    instr 0x50D ''STR ofim'' CLASS_DEFAULT CYCLES_STR ERRORS_DEFAULT,
    instr 0x50E ''STR ofim'' CLASS_DEFAULT CYCLES_STR ERRORS_DEFAULT,
    instr 0x50F ''STR ofim'' CLASS_DEFAULT CYCLES_STR ERRORS_DEFAULT,
    instr 0x510 ''LDR ofim'' CLASS_DEFAULT CYCLES_LDR ERRORS_DEFAULT,
    instr 0x511 ''LDR ofim'' CLASS_DEFAULT CYCLES_LDR ERRORS_DEFAULT,
    instr 0x512 ''LDR ofim'' CLASS_DEFAULT CYCLES_LDR ERRORS_DEFAULT,
    instr 0x513 ''LDR ofim'' CLASS_DEFAULT CYCLES_LDR ERRORS_DEFAULT,
    instr 0x514 ''LDR ofim'' CLASS_DEFAULT CYCLES_LDR ERRORS_DEFAULT,
    instr 0x515 ''LDR ofim'' CLASS_DEFAULT CYCLES_LDR ERRORS_DEFAULT,
    instr 0x516 ''LDR ofim'' CLASS_DEFAULT CYCLES_LDR ERRORS_DEFAULT,
    instr 0x517 ''LDR ofim'' CLASS_DEFAULT CYCLES_LDR ERRORS_DEFAULT,
    instr 0x518 ''LDR ofim'' CLASS_DEFAULT CYCLES_LDR ERRORS_DEFAULT,
    instr 0x519 ''LDR ofim'' CLASS_DEFAULT CYCLES_LDR ERRORS_DEFAULT,
    instr 0x51A ''LDR ofim'' CLASS_DEFAULT CYCLES_LDR ERRORS_DEFAULT,
    instr 0x51B ''LDR ofim'' CLASS_DEFAULT CYCLES_LDR ERRORS_DEFAULT,
    instr 0x51C ''LDR ofim'' CLASS_DEFAULT CYCLES_LDR ERRORS_DEFAULT,
    instr 0x51D ''LDR ofim'' CLASS_DEFAULT CYCLES_LDR ERRORS_DEFAULT,
    instr 0x51E ''LDR ofim'' CLASS_DEFAULT CYCLES_LDR ERRORS_DEFAULT,
    instr 0x51F ''LDR ofim'' CLASS_DEFAULT CYCLES_LDR ERRORS_DEFAULT,
    instr 0x520 ''STR prim'' CLASS_DEFAULT CYCLES_STR ERRORS_DEFAULT,
    instr 0x521 ''STR prim'' CLASS_DEFAULT CYCLES_STR ERRORS_DEFAULT,
    instr 0x522 ''STR prim'' CLASS_DEFAULT CYCLES_STR ERRORS_DEFAULT,
    instr 0x523 ''STR prim'' CLASS_DEFAULT CYCLES_STR ERRORS_DEFAULT,
    instr 0x524 ''STR prim'' CLASS_DEFAULT CYCLES_STR ERRORS_DEFAULT,
    instr 0x525 ''STR prim'' CLASS_DEFAULT CYCLES_STR ERRORS_DEFAULT,
    instr 0x526 ''STR prim'' CLASS_DEFAULT CYCLES_STR ERRORS_DEFAULT,
    instr 0x527 ''STR prim'' CLASS_DEFAULT CYCLES_STR ERRORS_DEFAULT,
    instr 0x528 ''STR prim'' CLASS_DEFAULT CYCLES_STR ERRORS_DEFAULT,
    instr 0x529 ''STR prim'' CLASS_DEFAULT CYCLES_STR ERRORS_DEFAULT,
    instr 0x52A ''STR prim'' CLASS_DEFAULT CYCLES_STR ERRORS_DEFAULT,
    instr 0x52B ''STR prim'' CLASS_DEFAULT CYCLES_STR ERRORS_DEFAULT,
    instr 0x52C ''STR prim'' CLASS_DEFAULT CYCLES_STR ERRORS_DEFAULT,
    instr 0x52D ''STR prim'' CLASS_DEFAULT CYCLES_STR ERRORS_DEFAULT,
    instr 0x52E ''STR prim'' CLASS_DEFAULT CYCLES_STR ERRORS_DEFAULT,
    instr 0x52F ''STR prim'' CLASS_DEFAULT CYCLES_STR ERRORS_DEFAULT,
    instr 0x530 ''LDR prim'' CLASS_DEFAULT CYCLES_LDR ERRORS_DEFAULT,
    instr 0x531 ''LDR prim'' CLASS_DEFAULT CYCLES_LDR ERRORS_DEFAULT,
    instr 0x532 ''LDR prim'' CLASS_DEFAULT CYCLES_LDR ERRORS_DEFAULT,
    instr 0x533 ''LDR prim'' CLASS_DEFAULT CYCLES_LDR ERRORS_DEFAULT,
    instr 0x534 ''LDR prim'' CLASS_DEFAULT CYCLES_LDR ERRORS_DEFAULT,
    instr 0x535 ''LDR prim'' CLASS_DEFAULT CYCLES_LDR ERRORS_DEFAULT,
    instr 0x536 ''LDR prim'' CLASS_DEFAULT CYCLES_LDR ERRORS_DEFAULT,
    instr 0x537 ''LDR prim'' CLASS_DEFAULT CYCLES_LDR ERRORS_DEFAULT,
    instr 0x538 ''LDR prim'' CLASS_DEFAULT CYCLES_LDR ERRORS_DEFAULT,
    instr 0x539 ''LDR prim'' CLASS_DEFAULT CYCLES_LDR ERRORS_DEFAULT,
    instr 0x53A ''LDR prim'' CLASS_DEFAULT CYCLES_LDR ERRORS_DEFAULT,
    instr 0x53B ''LDR prim'' CLASS_DEFAULT CYCLES_LDR ERRORS_DEFAULT,
    instr 0x53C ''LDR prim'' CLASS_DEFAULT CYCLES_LDR ERRORS_DEFAULT,
    instr 0x53D ''LDR prim'' CLASS_DEFAULT CYCLES_LDR ERRORS_DEFAULT,
    instr 0x53E ''LDR prim'' CLASS_DEFAULT CYCLES_LDR ERRORS_DEFAULT,
    instr 0x53F ''LDR prim'' CLASS_DEFAULT CYCLES_LDR ERRORS_DEFAULT,
    instr 0x540 ''STRB ofim'' CLASS_DEFAULT CYCLES_STRB ERRORS_DEFAULT,
    instr 0x541 ''STRB ofim'' CLASS_DEFAULT CYCLES_STRB ERRORS_DEFAULT,
    instr 0x542 ''STRB ofim'' CLASS_DEFAULT CYCLES_STRB ERRORS_DEFAULT,
    instr 0x543 ''STRB ofim'' CLASS_DEFAULT CYCLES_STRB ERRORS_DEFAULT,
    instr 0x544 ''STRB ofim'' CLASS_DEFAULT CYCLES_STRB ERRORS_DEFAULT,
    instr 0x545 ''STRB ofim'' CLASS_DEFAULT CYCLES_STRB ERRORS_DEFAULT,
    instr 0x546 ''STRB ofim'' CLASS_DEFAULT CYCLES_STRB ERRORS_DEFAULT,
    instr 0x547 ''STRB ofim'' CLASS_DEFAULT CYCLES_STRB ERRORS_DEFAULT,
    instr 0x548 ''STRB ofim'' CLASS_DEFAULT CYCLES_STRB ERRORS_DEFAULT,
    instr 0x549 ''STRB ofim'' CLASS_DEFAULT CYCLES_STRB ERRORS_DEFAULT,
    instr 0x54A ''STRB ofim'' CLASS_DEFAULT CYCLES_STRB ERRORS_DEFAULT,
    instr 0x54B ''STRB ofim'' CLASS_DEFAULT CYCLES_STRB ERRORS_DEFAULT,
    instr 0x54C ''STRB ofim'' CLASS_DEFAULT CYCLES_STRB ERRORS_DEFAULT,
    instr 0x54D ''STRB ofim'' CLASS_DEFAULT CYCLES_STRB ERRORS_DEFAULT,
    instr 0x54E ''STRB ofim'' CLASS_DEFAULT CYCLES_STRB ERRORS_DEFAULT,
    instr 0x54F ''STRB ofim'' CLASS_DEFAULT CYCLES_STRB ERRORS_DEFAULT,
    instr 0x550 ''LDRB ofim'' CLASS_DEFAULT CYCLES_LDRB ERRORS_DEFAULT,
    instr 0x551 ''LDRB ofim'' CLASS_DEFAULT CYCLES_LDRB ERRORS_DEFAULT,
    instr 0x552 ''LDRB ofim'' CLASS_DEFAULT CYCLES_LDRB ERRORS_DEFAULT,
    instr 0x553 ''LDRB ofim'' CLASS_DEFAULT CYCLES_LDRB ERRORS_DEFAULT,
    instr 0x554 ''LDRB ofim'' CLASS_DEFAULT CYCLES_LDRB ERRORS_DEFAULT,
    instr 0x555 ''LDRB ofim'' CLASS_DEFAULT CYCLES_LDRB ERRORS_DEFAULT,
    instr 0x556 ''LDRB ofim'' CLASS_DEFAULT CYCLES_LDRB ERRORS_DEFAULT,
    instr 0x557 ''LDRB ofim'' CLASS_DEFAULT CYCLES_LDRB ERRORS_DEFAULT,
    instr 0x558 ''LDRB ofim'' CLASS_DEFAULT CYCLES_LDRB ERRORS_DEFAULT,
    instr 0x559 ''LDRB ofim'' CLASS_DEFAULT CYCLES_LDRB ERRORS_DEFAULT,
    instr 0x55A ''LDRB ofim'' CLASS_DEFAULT CYCLES_LDRB ERRORS_DEFAULT,
    instr 0x55B ''LDRB ofim'' CLASS_DEFAULT CYCLES_LDRB ERRORS_DEFAULT,
    instr 0x55C ''LDRB ofim'' CLASS_DEFAULT CYCLES_LDRB ERRORS_DEFAULT,
    instr 0x55D ''LDRB ofim'' CLASS_DEFAULT CYCLES_LDRB ERRORS_DEFAULT,
    instr 0x55E ''LDRB ofim'' CLASS_DEFAULT CYCLES_LDRB ERRORS_DEFAULT,
    instr 0x55F ''LDRB ofim'' CLASS_DEFAULT CYCLES_LDRB ERRORS_DEFAULT,
    instr 0x560 ''STRB prim'' CLASS_DEFAULT CYCLES_STRB ERRORS_DEFAULT,
    instr 0x561 ''STRB prim'' CLASS_DEFAULT CYCLES_STRB ERRORS_DEFAULT,
    instr 0x562 ''STRB prim'' CLASS_DEFAULT CYCLES_STRB ERRORS_DEFAULT,
    instr 0x563 ''STRB prim'' CLASS_DEFAULT CYCLES_STRB ERRORS_DEFAULT,
    instr 0x564 ''STRB prim'' CLASS_DEFAULT CYCLES_STRB ERRORS_DEFAULT,
    instr 0x565 ''STRB prim'' CLASS_DEFAULT CYCLES_STRB ERRORS_DEFAULT,
    instr 0x566 ''STRB prim'' CLASS_DEFAULT CYCLES_STRB ERRORS_DEFAULT,
    instr 0x567 ''STRB prim'' CLASS_DEFAULT CYCLES_STRB ERRORS_DEFAULT,
    instr 0x568 ''STRB prim'' CLASS_DEFAULT CYCLES_STRB ERRORS_DEFAULT,
    instr 0x569 ''STRB prim'' CLASS_DEFAULT CYCLES_STRB ERRORS_DEFAULT,
    instr 0x56A ''STRB prim'' CLASS_DEFAULT CYCLES_STRB ERRORS_DEFAULT,
    instr 0x56B ''STRB prim'' CLASS_DEFAULT CYCLES_STRB ERRORS_DEFAULT,
    instr 0x56C ''STRB prim'' CLASS_DEFAULT CYCLES_STRB ERRORS_DEFAULT,
    instr 0x56D ''STRB prim'' CLASS_DEFAULT CYCLES_STRB ERRORS_DEFAULT,
    instr 0x56E ''STRB prim'' CLASS_DEFAULT CYCLES_STRB ERRORS_DEFAULT,
    instr 0x56F ''STRB prim'' CLASS_DEFAULT CYCLES_STRB ERRORS_DEFAULT,
    instr 0x570 ''LDRB prim'' CLASS_DEFAULT CYCLES_LDRB ERRORS_DEFAULT,
    instr 0x571 ''LDRB prim'' CLASS_DEFAULT CYCLES_LDRB ERRORS_DEFAULT,
    instr 0x572 ''LDRB prim'' CLASS_DEFAULT CYCLES_LDRB ERRORS_DEFAULT,
    instr 0x573 ''LDRB prim'' CLASS_DEFAULT CYCLES_LDRB ERRORS_DEFAULT,
    instr 0x574 ''LDRB prim'' CLASS_DEFAULT CYCLES_LDRB ERRORS_DEFAULT,
    instr 0x575 ''LDRB prim'' CLASS_DEFAULT CYCLES_LDRB ERRORS_DEFAULT,
    instr 0x576 ''LDRB prim'' CLASS_DEFAULT CYCLES_LDRB ERRORS_DEFAULT,
    instr 0x577 ''LDRB prim'' CLASS_DEFAULT CYCLES_LDRB ERRORS_DEFAULT,
    instr 0x578 ''LDRB prim'' CLASS_DEFAULT CYCLES_LDRB ERRORS_DEFAULT,
    instr 0x579 ''LDRB prim'' CLASS_DEFAULT CYCLES_LDRB ERRORS_DEFAULT,
    instr 0x57A ''LDRB prim'' CLASS_DEFAULT CYCLES_LDRB ERRORS_DEFAULT,
    instr 0x57B ''LDRB prim'' CLASS_DEFAULT CYCLES_LDRB ERRORS_DEFAULT,
    instr 0x57C ''LDRB prim'' CLASS_DEFAULT CYCLES_LDRB ERRORS_DEFAULT,
    instr 0x57D ''LDRB prim'' CLASS_DEFAULT CYCLES_LDRB ERRORS_DEFAULT,
    instr 0x57E ''LDRB prim'' CLASS_DEFAULT CYCLES_LDRB ERRORS_DEFAULT,
    instr 0x57F ''LDRB prim'' CLASS_DEFAULT CYCLES_LDRB ERRORS_DEFAULT]"

definition vemu_arm_instr_11 :: "vemu_instr_info list" where
  "vemu_arm_instr_11 = [
    instr 0x580 ''STR ofip'' CLASS_DEFAULT CYCLES_STR ERRORS_DEFAULT,
    instr 0x581 ''STR ofip'' CLASS_DEFAULT CYCLES_STR ERRORS_DEFAULT,
    instr 0x582 ''STR ofip'' CLASS_DEFAULT CYCLES_STR ERRORS_DEFAULT,
    instr 0x583 ''STR ofip'' CLASS_DEFAULT CYCLES_STR ERRORS_DEFAULT,
    instr 0x584 ''STR ofip'' CLASS_DEFAULT CYCLES_STR ERRORS_DEFAULT,
    instr 0x585 ''STR ofip'' CLASS_DEFAULT CYCLES_STR ERRORS_DEFAULT,
    instr 0x586 ''STR ofip'' CLASS_DEFAULT CYCLES_STR ERRORS_DEFAULT,
    instr 0x587 ''STR ofip'' CLASS_DEFAULT CYCLES_STR ERRORS_DEFAULT,
    instr 0x588 ''STR ofip'' CLASS_DEFAULT CYCLES_STR ERRORS_DEFAULT,
    instr 0x589 ''STR ofip'' CLASS_DEFAULT CYCLES_STR ERRORS_DEFAULT,
    instr 0x58A ''STR ofip'' CLASS_DEFAULT CYCLES_STR ERRORS_DEFAULT,
    instr 0x58B ''STR ofip'' CLASS_DEFAULT CYCLES_STR ERRORS_DEFAULT,
    instr 0x58C ''STR ofip'' CLASS_DEFAULT CYCLES_STR ERRORS_DEFAULT,
    instr 0x58D ''STR ofip'' CLASS_DEFAULT CYCLES_STR ERRORS_DEFAULT,
    instr 0x58E ''STR ofip'' CLASS_DEFAULT CYCLES_STR ERRORS_DEFAULT,
    instr 0x58F ''STR ofip'' CLASS_DEFAULT CYCLES_STR ERRORS_DEFAULT,
    instr 0x590 ''LDR ofip'' CLASS_DEFAULT CYCLES_LDR ERRORS_DEFAULT,
    instr 0x591 ''LDR ofip'' CLASS_DEFAULT CYCLES_LDR ERRORS_DEFAULT,
    instr 0x592 ''LDR ofip'' CLASS_DEFAULT CYCLES_LDR ERRORS_DEFAULT,
    instr 0x593 ''LDR ofip'' CLASS_DEFAULT CYCLES_LDR ERRORS_DEFAULT,
    instr 0x594 ''LDR ofip'' CLASS_DEFAULT CYCLES_LDR ERRORS_DEFAULT,
    instr 0x595 ''LDR ofip'' CLASS_DEFAULT CYCLES_LDR ERRORS_DEFAULT,
    instr 0x596 ''LDR ofip'' CLASS_DEFAULT CYCLES_LDR ERRORS_DEFAULT,
    instr 0x597 ''LDR ofip'' CLASS_DEFAULT CYCLES_LDR ERRORS_DEFAULT,
    instr 0x598 ''LDR ofip'' CLASS_DEFAULT CYCLES_LDR ERRORS_DEFAULT,
    instr 0x599 ''LDR ofip'' CLASS_DEFAULT CYCLES_LDR ERRORS_DEFAULT,
    instr 0x59A ''LDR ofip'' CLASS_DEFAULT CYCLES_LDR ERRORS_DEFAULT,
    instr 0x59B ''LDR ofip'' CLASS_DEFAULT CYCLES_LDR ERRORS_DEFAULT,
    instr 0x59C ''LDR ofip'' CLASS_DEFAULT CYCLES_LDR ERRORS_DEFAULT,
    instr 0x59D ''LDR ofip'' CLASS_DEFAULT CYCLES_LDR ERRORS_DEFAULT,
    instr 0x59E ''LDR ofip'' CLASS_DEFAULT CYCLES_LDR ERRORS_DEFAULT,
    instr 0x59F ''LDR ofip'' CLASS_DEFAULT CYCLES_LDR ERRORS_DEFAULT,
    instr 0x5A0 ''STR prip'' CLASS_DEFAULT CYCLES_STR ERRORS_DEFAULT,
    instr 0x5A1 ''STR prip'' CLASS_DEFAULT CYCLES_STR ERRORS_DEFAULT,
    instr 0x5A2 ''STR prip'' CLASS_DEFAULT CYCLES_STR ERRORS_DEFAULT,
    instr 0x5A3 ''STR prip'' CLASS_DEFAULT CYCLES_STR ERRORS_DEFAULT,
    instr 0x5A4 ''STR prip'' CLASS_DEFAULT CYCLES_STR ERRORS_DEFAULT,
    instr 0x5A5 ''STR prip'' CLASS_DEFAULT CYCLES_STR ERRORS_DEFAULT,
    instr 0x5A6 ''STR prip'' CLASS_DEFAULT CYCLES_STR ERRORS_DEFAULT,
    instr 0x5A7 ''STR prip'' CLASS_DEFAULT CYCLES_STR ERRORS_DEFAULT,
    instr 0x5A8 ''STR prip'' CLASS_DEFAULT CYCLES_STR ERRORS_DEFAULT,
    instr 0x5A9 ''STR prip'' CLASS_DEFAULT CYCLES_STR ERRORS_DEFAULT,
    instr 0x5AA ''STR prip'' CLASS_DEFAULT CYCLES_STR ERRORS_DEFAULT,
    instr 0x5AB ''STR prip'' CLASS_DEFAULT CYCLES_STR ERRORS_DEFAULT,
    instr 0x5AC ''STR prip'' CLASS_DEFAULT CYCLES_STR ERRORS_DEFAULT,
    instr 0x5AD ''STR prip'' CLASS_DEFAULT CYCLES_STR ERRORS_DEFAULT,
    instr 0x5AE ''STR prip'' CLASS_DEFAULT CYCLES_STR ERRORS_DEFAULT,
    instr 0x5AF ''STR prip'' CLASS_DEFAULT CYCLES_STR ERRORS_DEFAULT,
    instr 0x5B0 ''LDR prip'' CLASS_DEFAULT CYCLES_LDR ERRORS_DEFAULT,
    instr 0x5B1 ''LDR prip'' CLASS_DEFAULT CYCLES_LDR ERRORS_DEFAULT,
    instr 0x5B2 ''LDR prip'' CLASS_DEFAULT CYCLES_LDR ERRORS_DEFAULT,
    instr 0x5B3 ''LDR prip'' CLASS_DEFAULT CYCLES_LDR ERRORS_DEFAULT,
    instr 0x5B4 ''LDR prip'' CLASS_DEFAULT CYCLES_LDR ERRORS_DEFAULT,
    instr 0x5B5 ''LDR prip'' CLASS_DEFAULT CYCLES_LDR ERRORS_DEFAULT,
    instr 0x5B6 ''LDR prip'' CLASS_DEFAULT CYCLES_LDR ERRORS_DEFAULT,
    instr 0x5B7 ''LDR prip'' CLASS_DEFAULT CYCLES_LDR ERRORS_DEFAULT,
    instr 0x5B8 ''LDR prip'' CLASS_DEFAULT CYCLES_LDR ERRORS_DEFAULT,
    instr 0x5B9 ''LDR prip'' CLASS_DEFAULT CYCLES_LDR ERRORS_DEFAULT,
    instr 0x5BA ''LDR prip'' CLASS_DEFAULT CYCLES_LDR ERRORS_DEFAULT,
    instr 0x5BB ''LDR prip'' CLASS_DEFAULT CYCLES_LDR ERRORS_DEFAULT,
    instr 0x5BC ''LDR prip'' CLASS_DEFAULT CYCLES_LDR ERRORS_DEFAULT,
    instr 0x5BD ''LDR prip'' CLASS_DEFAULT CYCLES_LDR ERRORS_DEFAULT,
    instr 0x5BE ''LDR prip'' CLASS_DEFAULT CYCLES_LDR ERRORS_DEFAULT,
    instr 0x5BF ''LDR prip'' CLASS_DEFAULT CYCLES_LDR ERRORS_DEFAULT,
    instr 0x5C0 ''STRB ofip'' CLASS_DEFAULT CYCLES_STRB ERRORS_DEFAULT,
    instr 0x5C1 ''STRB ofip'' CLASS_DEFAULT CYCLES_STRB ERRORS_DEFAULT,
    instr 0x5C2 ''STRB ofip'' CLASS_DEFAULT CYCLES_STRB ERRORS_DEFAULT,
    instr 0x5C3 ''STRB ofip'' CLASS_DEFAULT CYCLES_STRB ERRORS_DEFAULT,
    instr 0x5C4 ''STRB ofip'' CLASS_DEFAULT CYCLES_STRB ERRORS_DEFAULT,
    instr 0x5C5 ''STRB ofip'' CLASS_DEFAULT CYCLES_STRB ERRORS_DEFAULT,
    instr 0x5C6 ''STRB ofip'' CLASS_DEFAULT CYCLES_STRB ERRORS_DEFAULT,
    instr 0x5C7 ''STRB ofip'' CLASS_DEFAULT CYCLES_STRB ERRORS_DEFAULT,
    instr 0x5C8 ''STRB ofip'' CLASS_DEFAULT CYCLES_STRB ERRORS_DEFAULT,
    instr 0x5C9 ''STRB ofip'' CLASS_DEFAULT CYCLES_STRB ERRORS_DEFAULT,
    instr 0x5CA ''STRB ofip'' CLASS_DEFAULT CYCLES_STRB ERRORS_DEFAULT,
    instr 0x5CB ''STRB ofip'' CLASS_DEFAULT CYCLES_STRB ERRORS_DEFAULT,
    instr 0x5CC ''STRB ofip'' CLASS_DEFAULT CYCLES_STRB ERRORS_DEFAULT,
    instr 0x5CD ''STRB ofip'' CLASS_DEFAULT CYCLES_STRB ERRORS_DEFAULT,
    instr 0x5CE ''STRB ofip'' CLASS_DEFAULT CYCLES_STRB ERRORS_DEFAULT,
    instr 0x5CF ''STRB ofip'' CLASS_DEFAULT CYCLES_STRB ERRORS_DEFAULT,
    instr 0x5D0 ''LDRB ofip'' CLASS_DEFAULT CYCLES_LDRB ERRORS_DEFAULT,
    instr 0x5D1 ''LDRB ofip'' CLASS_DEFAULT CYCLES_LDRB ERRORS_DEFAULT,
    instr 0x5D2 ''LDRB ofip'' CLASS_DEFAULT CYCLES_LDRB ERRORS_DEFAULT,
    instr 0x5D3 ''LDRB ofip'' CLASS_DEFAULT CYCLES_LDRB ERRORS_DEFAULT,
    instr 0x5D4 ''LDRB ofip'' CLASS_DEFAULT CYCLES_LDRB ERRORS_DEFAULT,
    instr 0x5D5 ''LDRB ofip'' CLASS_DEFAULT CYCLES_LDRB ERRORS_DEFAULT,
    instr 0x5D6 ''LDRB ofip'' CLASS_DEFAULT CYCLES_LDRB ERRORS_DEFAULT,
    instr 0x5D7 ''LDRB ofip'' CLASS_DEFAULT CYCLES_LDRB ERRORS_DEFAULT,
    instr 0x5D8 ''LDRB ofip'' CLASS_DEFAULT CYCLES_LDRB ERRORS_DEFAULT,
    instr 0x5D9 ''LDRB ofip'' CLASS_DEFAULT CYCLES_LDRB ERRORS_DEFAULT,
    instr 0x5DA ''LDRB ofip'' CLASS_DEFAULT CYCLES_LDRB ERRORS_DEFAULT,
    instr 0x5DB ''LDRB ofip'' CLASS_DEFAULT CYCLES_LDRB ERRORS_DEFAULT,
    instr 0x5DC ''LDRB ofip'' CLASS_DEFAULT CYCLES_LDRB ERRORS_DEFAULT,
    instr 0x5DD ''LDRB ofip'' CLASS_DEFAULT CYCLES_LDRB ERRORS_DEFAULT,
    instr 0x5DE ''LDRB ofip'' CLASS_DEFAULT CYCLES_LDRB ERRORS_DEFAULT,
    instr 0x5DF ''LDRB ofip'' CLASS_DEFAULT CYCLES_LDRB ERRORS_DEFAULT,
    instr 0x5E0 ''STRB prip'' CLASS_DEFAULT CYCLES_STRB ERRORS_DEFAULT,
    instr 0x5E1 ''STRB prip'' CLASS_DEFAULT CYCLES_STRB ERRORS_DEFAULT,
    instr 0x5E2 ''STRB prip'' CLASS_DEFAULT CYCLES_STRB ERRORS_DEFAULT,
    instr 0x5E3 ''STRB prip'' CLASS_DEFAULT CYCLES_STRB ERRORS_DEFAULT,
    instr 0x5E4 ''STRB prip'' CLASS_DEFAULT CYCLES_STRB ERRORS_DEFAULT,
    instr 0x5E5 ''STRB prip'' CLASS_DEFAULT CYCLES_STRB ERRORS_DEFAULT,
    instr 0x5E6 ''STRB prip'' CLASS_DEFAULT CYCLES_STRB ERRORS_DEFAULT,
    instr 0x5E7 ''STRB prip'' CLASS_DEFAULT CYCLES_STRB ERRORS_DEFAULT,
    instr 0x5E8 ''STRB prip'' CLASS_DEFAULT CYCLES_STRB ERRORS_DEFAULT,
    instr 0x5E9 ''STRB prip'' CLASS_DEFAULT CYCLES_STRB ERRORS_DEFAULT,
    instr 0x5EA ''STRB prip'' CLASS_DEFAULT CYCLES_STRB ERRORS_DEFAULT,
    instr 0x5EB ''STRB prip'' CLASS_DEFAULT CYCLES_STRB ERRORS_DEFAULT,
    instr 0x5EC ''STRB prip'' CLASS_DEFAULT CYCLES_STRB ERRORS_DEFAULT,
    instr 0x5ED ''STRB prip'' CLASS_DEFAULT CYCLES_STRB ERRORS_DEFAULT,
    instr 0x5EE ''STRB prip'' CLASS_DEFAULT CYCLES_STRB ERRORS_DEFAULT,
    instr 0x5EF ''STRB prip'' CLASS_DEFAULT CYCLES_STRB ERRORS_DEFAULT,
    instr 0x5F0 ''LDRB prip'' CLASS_DEFAULT CYCLES_LDRB ERRORS_DEFAULT,
    instr 0x5F1 ''LDRB prip'' CLASS_DEFAULT CYCLES_LDRB ERRORS_DEFAULT,
    instr 0x5F2 ''LDRB prip'' CLASS_DEFAULT CYCLES_LDRB ERRORS_DEFAULT,
    instr 0x5F3 ''LDRB prip'' CLASS_DEFAULT CYCLES_LDRB ERRORS_DEFAULT,
    instr 0x5F4 ''LDRB prip'' CLASS_DEFAULT CYCLES_LDRB ERRORS_DEFAULT,
    instr 0x5F5 ''LDRB prip'' CLASS_DEFAULT CYCLES_LDRB ERRORS_DEFAULT,
    instr 0x5F6 ''LDRB prip'' CLASS_DEFAULT CYCLES_LDRB ERRORS_DEFAULT,
    instr 0x5F7 ''LDRB prip'' CLASS_DEFAULT CYCLES_LDRB ERRORS_DEFAULT,
    instr 0x5F8 ''LDRB prip'' CLASS_DEFAULT CYCLES_LDRB ERRORS_DEFAULT,
    instr 0x5F9 ''LDRB prip'' CLASS_DEFAULT CYCLES_LDRB ERRORS_DEFAULT,
    instr 0x5FA ''LDRB prip'' CLASS_DEFAULT CYCLES_LDRB ERRORS_DEFAULT,
    instr 0x5FB ''LDRB prip'' CLASS_DEFAULT CYCLES_LDRB ERRORS_DEFAULT,
    instr 0x5FC ''LDRB prip'' CLASS_DEFAULT CYCLES_LDRB ERRORS_DEFAULT,
    instr 0x5FD ''LDRB prip'' CLASS_DEFAULT CYCLES_LDRB ERRORS_DEFAULT,
    instr 0x5FE ''LDRB prip'' CLASS_DEFAULT CYCLES_LDRB ERRORS_DEFAULT,
    instr 0x5FF ''LDRB prip'' CLASS_DEFAULT CYCLES_LDRB ERRORS_DEFAULT]"

definition vemu_arm_instr_12 :: "vemu_instr_info list" where
  "vemu_arm_instr_12 = [
    instr 0x600 ''STR ptrmll'' CLASS_DEFAULT CYCLES_STR ERRORS_DEFAULT,
    instr 0x601 '''' CLASS_DEFAULT CYCLES_NONE ERRORS_DEFAULT,
    instr 0x602 ''STR ptrmlr'' CLASS_DEFAULT CYCLES_STR ERRORS_DEFAULT,
    instr 0x603 '''' CLASS_DEFAULT CYCLES_NONE ERRORS_DEFAULT,
    instr 0x604 ''STR ptrmar'' CLASS_DEFAULT CYCLES_STR ERRORS_DEFAULT,
    instr 0x605 '''' CLASS_DEFAULT CYCLES_NONE ERRORS_DEFAULT,
    instr 0x606 ''STR ptrmrr'' CLASS_DEFAULT CYCLES_STR ERRORS_DEFAULT,
    instr 0x607 '''' CLASS_DEFAULT CYCLES_NONE ERRORS_DEFAULT,
    instr 0x608 ''STR ptrmll'' CLASS_DEFAULT CYCLES_STR ERRORS_DEFAULT,
    instr 0x609 '''' CLASS_DEFAULT CYCLES_NONE ERRORS_DEFAULT,
    instr 0x60A ''STR ptrmlr'' CLASS_DEFAULT CYCLES_STR ERRORS_DEFAULT,
    instr 0x60B '''' CLASS_DEFAULT CYCLES_NONE ERRORS_DEFAULT,
    instr 0x60C ''STR ptrmar'' CLASS_DEFAULT CYCLES_STR ERRORS_DEFAULT,
    instr 0x60D '''' CLASS_DEFAULT CYCLES_NONE ERRORS_DEFAULT,
    instr 0x60E ''STR ptrmrr'' CLASS_DEFAULT CYCLES_STR ERRORS_DEFAULT,
    instr 0x60F '''' CLASS_DEFAULT CYCLES_NONE ERRORS_DEFAULT,
    instr 0x610 ''LDR ptrmll'' CLASS_DEFAULT CYCLES_LDR ERRORS_DEFAULT,
    instr 0x611 '''' CLASS_DEFAULT CYCLES_NONE ERRORS_DEFAULT,
    instr 0x612 ''LDR ptrmlr'' CLASS_DEFAULT CYCLES_LDR ERRORS_DEFAULT,
    instr 0x613 '''' CLASS_DEFAULT CYCLES_NONE ERRORS_DEFAULT,
    instr 0x614 ''LDR ptrmar'' CLASS_DEFAULT CYCLES_LDR ERRORS_DEFAULT,
    instr 0x615 '''' CLASS_DEFAULT CYCLES_NONE ERRORS_DEFAULT,
    instr 0x616 ''LDR ptrmrr'' CLASS_DEFAULT CYCLES_LDR ERRORS_DEFAULT,
    instr 0x617 '''' CLASS_DEFAULT CYCLES_NONE ERRORS_DEFAULT,
    instr 0x618 ''LDR ptrmll'' CLASS_DEFAULT CYCLES_LDR ERRORS_DEFAULT,
    instr 0x619 '''' CLASS_DEFAULT CYCLES_NONE ERRORS_DEFAULT,
    instr 0x61A ''LDR ptrmlr'' CLASS_DEFAULT CYCLES_LDR ERRORS_DEFAULT,
    instr 0x61B '''' CLASS_DEFAULT CYCLES_NONE ERRORS_DEFAULT,
    instr 0x61C ''LDR ptrmar'' CLASS_DEFAULT CYCLES_LDR ERRORS_DEFAULT,
    instr 0x61D '''' CLASS_DEFAULT CYCLES_NONE ERRORS_DEFAULT,
    instr 0x61E ''LDR ptrmrr'' CLASS_DEFAULT CYCLES_LDR ERRORS_DEFAULT,
    instr 0x61F '''' CLASS_DEFAULT CYCLES_NONE ERRORS_DEFAULT,
    instr 0x620 ''STRT ptrmll'' CLASS_DEFAULT CYCLES_STRT ERRORS_DEFAULT,
    instr 0x621 '''' CLASS_DEFAULT CYCLES_NONE ERRORS_DEFAULT,
    instr 0x622 ''STRT ptrmlr'' CLASS_DEFAULT CYCLES_STRT ERRORS_DEFAULT,
    instr 0x623 '''' CLASS_DEFAULT CYCLES_NONE ERRORS_DEFAULT,
    instr 0x624 ''STRT ptrmar'' CLASS_DEFAULT CYCLES_STRT ERRORS_DEFAULT,
    instr 0x625 '''' CLASS_DEFAULT CYCLES_NONE ERRORS_DEFAULT,
    instr 0x626 ''STRT ptrmrr'' CLASS_DEFAULT CYCLES_STRT ERRORS_DEFAULT,
    instr 0x627 '''' CLASS_DEFAULT CYCLES_NONE ERRORS_DEFAULT,
    instr 0x628 ''STRT ptrmll'' CLASS_DEFAULT CYCLES_STRT ERRORS_DEFAULT,
    instr 0x629 '''' CLASS_DEFAULT CYCLES_NONE ERRORS_DEFAULT,
    instr 0x62A ''STRT ptrmlr'' CLASS_DEFAULT CYCLES_STRT ERRORS_DEFAULT,
    instr 0x62B '''' CLASS_DEFAULT CYCLES_NONE ERRORS_DEFAULT,
    instr 0x62C ''STRT ptrmar'' CLASS_DEFAULT CYCLES_STRT ERRORS_DEFAULT,
    instr 0x62D '''' CLASS_DEFAULT CYCLES_NONE ERRORS_DEFAULT,
    instr 0x62E ''STRT ptrmrr'' CLASS_DEFAULT CYCLES_STRT ERRORS_DEFAULT,
    instr 0x62F '''' CLASS_DEFAULT CYCLES_NONE ERRORS_DEFAULT,
    instr 0x630 ''LDRT ptrmll'' CLASS_DEFAULT CYCLES_LDRT ERRORS_DEFAULT,
    instr 0x631 '''' CLASS_DEFAULT CYCLES_NONE ERRORS_DEFAULT,
    instr 0x632 ''LDRT ptrmlr'' CLASS_DEFAULT CYCLES_LDRT ERRORS_DEFAULT,
    instr 0x633 '''' CLASS_DEFAULT CYCLES_NONE ERRORS_DEFAULT,
    instr 0x634 ''LDRT ptrmar'' CLASS_DEFAULT CYCLES_LDRT ERRORS_DEFAULT,
    instr 0x635 '''' CLASS_DEFAULT CYCLES_NONE ERRORS_DEFAULT,
    instr 0x636 ''LDRT ptrmrr'' CLASS_DEFAULT CYCLES_LDRT ERRORS_DEFAULT,
    instr 0x637 '''' CLASS_DEFAULT CYCLES_NONE ERRORS_DEFAULT,
    instr 0x638 ''LDRT ptrmll'' CLASS_DEFAULT CYCLES_LDRT ERRORS_DEFAULT,
    instr 0x639 '''' CLASS_DEFAULT CYCLES_NONE ERRORS_DEFAULT,
    instr 0x63A ''LDRT ptrmlr'' CLASS_DEFAULT CYCLES_LDRT ERRORS_DEFAULT,
    instr 0x63B '''' CLASS_DEFAULT CYCLES_NONE ERRORS_DEFAULT,
    instr 0x63C ''LDRT ptrmar'' CLASS_DEFAULT CYCLES_LDRT ERRORS_DEFAULT,
    instr 0x63D '''' CLASS_DEFAULT CYCLES_NONE ERRORS_DEFAULT,
    instr 0x63E ''LDRT ptrmrr'' CLASS_DEFAULT CYCLES_LDRT ERRORS_DEFAULT,
    instr 0x63F '''' CLASS_DEFAULT CYCLES_NONE ERRORS_DEFAULT,
    instr 0x640 ''STRB ptrmll'' CLASS_DEFAULT CYCLES_STRB ERRORS_DEFAULT,
    instr 0x641 '''' CLASS_DEFAULT CYCLES_NONE ERRORS_DEFAULT,
    instr 0x642 ''STRB ptrmlr'' CLASS_DEFAULT CYCLES_STRB ERRORS_DEFAULT,
    instr 0x643 '''' CLASS_DEFAULT CYCLES_NONE ERRORS_DEFAULT,
    instr 0x644 ''STRB ptrmar'' CLASS_DEFAULT CYCLES_STRB ERRORS_DEFAULT,
    instr 0x645 '''' CLASS_DEFAULT CYCLES_NONE ERRORS_DEFAULT,
    instr 0x646 ''STRB ptrmrr'' CLASS_DEFAULT CYCLES_STRB ERRORS_DEFAULT,
    instr 0x647 '''' CLASS_DEFAULT CYCLES_NONE ERRORS_DEFAULT,
    instr 0x648 ''STRB ptrmll'' CLASS_DEFAULT CYCLES_STRB ERRORS_DEFAULT,
    instr 0x649 '''' CLASS_DEFAULT CYCLES_NONE ERRORS_DEFAULT,
    instr 0x64A ''STRB ptrmlr'' CLASS_DEFAULT CYCLES_STRB ERRORS_DEFAULT,
    instr 0x64B '''' CLASS_DEFAULT CYCLES_NONE ERRORS_DEFAULT,
    instr 0x64C ''STRB ptrmar'' CLASS_DEFAULT CYCLES_STRB ERRORS_DEFAULT,
    instr 0x64D '''' CLASS_DEFAULT CYCLES_NONE ERRORS_DEFAULT,
    instr 0x64E ''STRB ptrmrr'' CLASS_DEFAULT CYCLES_STRB ERRORS_DEFAULT,
    instr 0x64F '''' CLASS_DEFAULT CYCLES_NONE ERRORS_DEFAULT,
    instr 0x650 ''LDRB ptrmll'' CLASS_DEFAULT CYCLES_LDRB ERRORS_DEFAULT,
    instr 0x651 '''' CLASS_DEFAULT CYCLES_NONE ERRORS_DEFAULT,
    instr 0x652 ''LDRB ptrmlr'' CLASS_DEFAULT CYCLES_LDRB ERRORS_DEFAULT,
    instr 0x653 '''' CLASS_DEFAULT CYCLES_NONE ERRORS_DEFAULT,
    instr 0x654 ''LDRB ptrmar'' CLASS_DEFAULT CYCLES_LDRB ERRORS_DEFAULT,
    instr 0x655 '''' CLASS_DEFAULT CYCLES_NONE ERRORS_DEFAULT,
    instr 0x656 ''LDRB ptrmrr'' CLASS_DEFAULT CYCLES_LDRB ERRORS_DEFAULT,
    instr 0x657 '''' CLASS_DEFAULT CYCLES_NONE ERRORS_DEFAULT,
    instr 0x658 ''LDRB ptrmll'' CLASS_DEFAULT CYCLES_LDRB ERRORS_DEFAULT,
    instr 0x659 '''' CLASS_DEFAULT CYCLES_NONE ERRORS_DEFAULT,
    instr 0x65A ''LDRB ptrmlr'' CLASS_DEFAULT CYCLES_LDRB ERRORS_DEFAULT,
    instr 0x65B '''' CLASS_DEFAULT CYCLES_NONE ERRORS_DEFAULT,
    instr 0x65C ''LDRB ptrmar'' CLASS_DEFAULT CYCLES_LDRB ERRORS_DEFAULT,
    instr 0x65D '''' CLASS_DEFAULT CYCLES_NONE ERRORS_DEFAULT,
    instr 0x65E ''LDRB ptrmrr'' CLASS_DEFAULT CYCLES_LDRB ERRORS_DEFAULT,
    instr 0x65F '''' CLASS_DEFAULT CYCLES_NONE ERRORS_DEFAULT,
    instr 0x660 ''STRBT ptrmll'' CLASS_DEFAULT CYCLES_STRBT ERRORS_DEFAULT,
    instr 0x661 '''' CLASS_DEFAULT CYCLES_NONE ERRORS_DEFAULT,
    instr 0x662 ''STRBT ptrmlr'' CLASS_DEFAULT CYCLES_STRBT ERRORS_DEFAULT,
    instr 0x663 '''' CLASS_DEFAULT CYCLES_NONE ERRORS_DEFAULT,
    instr 0x664 ''STRBT ptrmar'' CLASS_DEFAULT CYCLES_STRBT ERRORS_DEFAULT,
    instr 0x665 '''' CLASS_DEFAULT CYCLES_NONE ERRORS_DEFAULT,
    instr 0x666 ''STRBT ptrmrr'' CLASS_DEFAULT CYCLES_STRBT ERRORS_DEFAULT,
    instr 0x667 '''' CLASS_DEFAULT CYCLES_NONE ERRORS_DEFAULT,
    instr 0x668 ''STRBT ptrmll'' CLASS_DEFAULT CYCLES_STRBT ERRORS_DEFAULT,
    instr 0x669 '''' CLASS_DEFAULT CYCLES_NONE ERRORS_DEFAULT,
    instr 0x66A ''STRBT ptrmlr'' CLASS_DEFAULT CYCLES_STRBT ERRORS_DEFAULT,
    instr 0x66B '''' CLASS_DEFAULT CYCLES_NONE ERRORS_DEFAULT,
    instr 0x66C ''STRBT ptrmar'' CLASS_DEFAULT CYCLES_STRBT ERRORS_DEFAULT,
    instr 0x66D '''' CLASS_DEFAULT CYCLES_NONE ERRORS_DEFAULT,
    instr 0x66E ''STRBT ptrmrr'' CLASS_DEFAULT CYCLES_STRBT ERRORS_DEFAULT,
    instr 0x66F '''' CLASS_DEFAULT CYCLES_NONE ERRORS_DEFAULT,
    instr 0x670 ''LDRBT ptrmll'' CLASS_DEFAULT CYCLES_LDRBT ERRORS_DEFAULT,
    instr 0x671 '''' CLASS_DEFAULT CYCLES_NONE ERRORS_DEFAULT,
    instr 0x672 ''LDRBT ptrmlr'' CLASS_DEFAULT CYCLES_LDRBT ERRORS_DEFAULT,
    instr 0x673 '''' CLASS_DEFAULT CYCLES_NONE ERRORS_DEFAULT,
    instr 0x674 ''LDRBT ptrmar'' CLASS_DEFAULT CYCLES_LDRBT ERRORS_DEFAULT,
    instr 0x675 '''' CLASS_DEFAULT CYCLES_NONE ERRORS_DEFAULT,
    instr 0x676 ''LDRBT ptrmrr'' CLASS_DEFAULT CYCLES_LDRBT ERRORS_DEFAULT,
    instr 0x677 '''' CLASS_DEFAULT CYCLES_NONE ERRORS_DEFAULT,
    instr 0x678 ''LDRBT ptrmll'' CLASS_DEFAULT CYCLES_LDRBT ERRORS_DEFAULT,
    instr 0x679 '''' CLASS_DEFAULT CYCLES_NONE ERRORS_DEFAULT,
    instr 0x67A ''LDRBT ptrmlr'' CLASS_DEFAULT CYCLES_LDRBT ERRORS_DEFAULT,
    instr 0x67B '''' CLASS_DEFAULT CYCLES_NONE ERRORS_DEFAULT,
    instr 0x67C ''LDRBT ptrmar'' CLASS_DEFAULT CYCLES_LDRBT ERRORS_DEFAULT,
    instr 0x67D '''' CLASS_DEFAULT CYCLES_NONE ERRORS_DEFAULT,
    instr 0x67E ''LDRBT ptrmrr'' CLASS_DEFAULT CYCLES_LDRBT ERRORS_DEFAULT,
    instr 0x67F '''' CLASS_DEFAULT CYCLES_NONE ERRORS_DEFAULT]"

definition vemu_arm_instr_13 :: "vemu_instr_info list" where
  "vemu_arm_instr_13 = [
    instr 0x680 ''STR ptrpll'' CLASS_DEFAULT CYCLES_STR ERRORS_DEFAULT,
    instr 0x681 '''' CLASS_DEFAULT CYCLES_NONE ERRORS_DEFAULT,
    instr 0x682 ''STR ptrplr'' CLASS_DEFAULT CYCLES_STR ERRORS_DEFAULT,
    instr 0x683 '''' CLASS_DEFAULT CYCLES_NONE ERRORS_DEFAULT,
    instr 0x684 ''STR ptrpar'' CLASS_DEFAULT CYCLES_STR ERRORS_DEFAULT,
    instr 0x685 '''' CLASS_DEFAULT CYCLES_NONE ERRORS_DEFAULT,
    instr 0x686 ''STR ptrprr'' CLASS_DEFAULT CYCLES_STR ERRORS_DEFAULT,
    instr 0x687 '''' CLASS_DEFAULT CYCLES_NONE ERRORS_DEFAULT,
    instr 0x688 ''STR ptrpll'' CLASS_DEFAULT CYCLES_STR ERRORS_DEFAULT,
    instr 0x689 '''' CLASS_DEFAULT CYCLES_NONE ERRORS_DEFAULT,
    instr 0x68A ''STR ptrplr'' CLASS_DEFAULT CYCLES_STR ERRORS_DEFAULT,
    instr 0x68B '''' CLASS_DEFAULT CYCLES_NONE ERRORS_DEFAULT,
    instr 0x68C ''STR ptrpar'' CLASS_DEFAULT CYCLES_STR ERRORS_DEFAULT,
    instr 0x68D '''' CLASS_DEFAULT CYCLES_NONE ERRORS_DEFAULT,
    instr 0x68E ''STR ptrprr'' CLASS_DEFAULT CYCLES_STR ERRORS_DEFAULT,
    instr 0x68F '''' CLASS_DEFAULT CYCLES_NONE ERRORS_DEFAULT,
    instr 0x690 ''LDR ptrpll'' CLASS_DEFAULT CYCLES_LDR ERRORS_DEFAULT,
    instr 0x691 '''' CLASS_DEFAULT CYCLES_NONE ERRORS_DEFAULT,
    instr 0x692 ''LDR ptrplr'' CLASS_DEFAULT CYCLES_LDR ERRORS_DEFAULT,
    instr 0x693 '''' CLASS_DEFAULT CYCLES_NONE ERRORS_DEFAULT,
    instr 0x694 ''LDR ptrpar'' CLASS_DEFAULT CYCLES_LDR ERRORS_DEFAULT,
    instr 0x695 '''' CLASS_DEFAULT CYCLES_NONE ERRORS_DEFAULT,
    instr 0x696 ''LDR ptrprr'' CLASS_DEFAULT CYCLES_LDR ERRORS_DEFAULT,
    instr 0x697 '''' CLASS_DEFAULT CYCLES_NONE ERRORS_DEFAULT,
    instr 0x698 ''LDR ptrpll'' CLASS_DEFAULT CYCLES_LDR ERRORS_DEFAULT,
    instr 0x699 '''' CLASS_DEFAULT CYCLES_NONE ERRORS_DEFAULT,
    instr 0x69A ''LDR ptrplr'' CLASS_DEFAULT CYCLES_LDR ERRORS_DEFAULT,
    instr 0x69B '''' CLASS_DEFAULT CYCLES_NONE ERRORS_DEFAULT,
    instr 0x69C ''LDR ptrpar'' CLASS_DEFAULT CYCLES_LDR ERRORS_DEFAULT,
    instr 0x69D '''' CLASS_DEFAULT CYCLES_NONE ERRORS_DEFAULT,
    instr 0x69E ''LDR ptrprr'' CLASS_DEFAULT CYCLES_LDR ERRORS_DEFAULT,
    instr 0x69F '''' CLASS_DEFAULT CYCLES_NONE ERRORS_DEFAULT,
    instr 0x6A0 ''STRT ptrpll'' CLASS_DEFAULT CYCLES_STRT ERRORS_DEFAULT,
    instr 0x6A1 '''' CLASS_DEFAULT CYCLES_NONE ERRORS_DEFAULT,
    instr 0x6A2 ''STRT ptrplr'' CLASS_DEFAULT CYCLES_STRT ERRORS_DEFAULT,
    instr 0x6A3 '''' CLASS_DEFAULT CYCLES_NONE ERRORS_DEFAULT,
    instr 0x6A4 ''STRT ptrpar'' CLASS_DEFAULT CYCLES_STRT ERRORS_DEFAULT,
    instr 0x6A5 '''' CLASS_DEFAULT CYCLES_NONE ERRORS_DEFAULT,
    instr 0x6A6 ''STRT ptrprr'' CLASS_DEFAULT CYCLES_STRT ERRORS_DEFAULT,
    instr 0x6A7 '''' CLASS_DEFAULT CYCLES_NONE ERRORS_DEFAULT,
    instr 0x6A8 ''STRT ptrpll'' CLASS_DEFAULT CYCLES_STRT ERRORS_DEFAULT,
    instr 0x6A9 '''' CLASS_DEFAULT CYCLES_NONE ERRORS_DEFAULT,
    instr 0x6AA ''STRT ptrplr'' CLASS_DEFAULT CYCLES_STRT ERRORS_DEFAULT,
    instr 0x6AB '''' CLASS_DEFAULT CYCLES_NONE ERRORS_DEFAULT,
    instr 0x6AC ''STRT ptrpar'' CLASS_DEFAULT CYCLES_STRT ERRORS_DEFAULT,
    instr 0x6AD '''' CLASS_DEFAULT CYCLES_NONE ERRORS_DEFAULT,
    instr 0x6AE ''STRT ptrprr'' CLASS_DEFAULT CYCLES_STRT ERRORS_DEFAULT,
    instr 0x6AF '''' CLASS_DEFAULT CYCLES_NONE ERRORS_DEFAULT,
    instr 0x6B0 ''LDRT ptrpll'' CLASS_DEFAULT CYCLES_LDRT ERRORS_DEFAULT,
    instr 0x6B1 '''' CLASS_DEFAULT CYCLES_NONE ERRORS_DEFAULT,
    instr 0x6B2 ''LDRT ptrplr'' CLASS_DEFAULT CYCLES_LDRT ERRORS_DEFAULT,
    instr 0x6B3 '''' CLASS_DEFAULT CYCLES_NONE ERRORS_DEFAULT,
    instr 0x6B4 ''LDRT ptrpar'' CLASS_DEFAULT CYCLES_LDRT ERRORS_DEFAULT,
    instr 0x6B5 '''' CLASS_DEFAULT CYCLES_NONE ERRORS_DEFAULT,
    instr 0x6B6 ''LDRT ptrprr'' CLASS_DEFAULT CYCLES_LDRT ERRORS_DEFAULT,
    instr 0x6B7 '''' CLASS_DEFAULT CYCLES_NONE ERRORS_DEFAULT,
    instr 0x6B8 ''LDRT ptrpll'' CLASS_DEFAULT CYCLES_LDRT ERRORS_DEFAULT,
    instr 0x6B9 '''' CLASS_DEFAULT CYCLES_NONE ERRORS_DEFAULT,
    instr 0x6BA ''LDRT ptrplr'' CLASS_DEFAULT CYCLES_LDRT ERRORS_DEFAULT,
    instr 0x6BB '''' CLASS_DEFAULT CYCLES_NONE ERRORS_DEFAULT,
    instr 0x6BC ''LDRT ptrpar'' CLASS_DEFAULT CYCLES_LDRT ERRORS_DEFAULT,
    instr 0x6BD '''' CLASS_DEFAULT CYCLES_NONE ERRORS_DEFAULT,
    instr 0x6BE ''LDRT ptrprr'' CLASS_DEFAULT CYCLES_LDRT ERRORS_DEFAULT,
    instr 0x6BF '''' CLASS_DEFAULT CYCLES_NONE ERRORS_DEFAULT,
    instr 0x6C0 ''STRB ptrpll'' CLASS_DEFAULT CYCLES_STRB ERRORS_DEFAULT,
    instr 0x6C1 '''' CLASS_DEFAULT CYCLES_NONE ERRORS_DEFAULT,
    instr 0x6C2 ''STRB ptrplr'' CLASS_DEFAULT CYCLES_STRB ERRORS_DEFAULT,
    instr 0x6C3 '''' CLASS_DEFAULT CYCLES_NONE ERRORS_DEFAULT,
    instr 0x6C4 ''STRB ptrpar'' CLASS_DEFAULT CYCLES_STRB ERRORS_DEFAULT,
    instr 0x6C5 '''' CLASS_DEFAULT CYCLES_NONE ERRORS_DEFAULT,
    instr 0x6C6 ''STRB ptrprr'' CLASS_DEFAULT CYCLES_STRB ERRORS_DEFAULT,
    instr 0x6C7 '''' CLASS_DEFAULT CYCLES_NONE ERRORS_DEFAULT,
    instr 0x6C8 ''STRB ptrpll'' CLASS_DEFAULT CYCLES_STRB ERRORS_DEFAULT,
    instr 0x6C9 '''' CLASS_DEFAULT CYCLES_NONE ERRORS_DEFAULT,
    instr 0x6CA ''STRB ptrplr'' CLASS_DEFAULT CYCLES_STRB ERRORS_DEFAULT,
    instr 0x6CB '''' CLASS_DEFAULT CYCLES_NONE ERRORS_DEFAULT,
    instr 0x6CC ''STRB ptrpar'' CLASS_DEFAULT CYCLES_STRB ERRORS_DEFAULT,
    instr 0x6CD '''' CLASS_DEFAULT CYCLES_NONE ERRORS_DEFAULT,
    instr 0x6CE ''STRB ptrprr'' CLASS_DEFAULT CYCLES_STRB ERRORS_DEFAULT,
    instr 0x6CF '''' CLASS_DEFAULT CYCLES_NONE ERRORS_DEFAULT,
    instr 0x6D0 ''LDRB ptrpll'' CLASS_DEFAULT CYCLES_LDRB ERRORS_DEFAULT,
    instr 0x6D1 '''' CLASS_DEFAULT CYCLES_NONE ERRORS_DEFAULT,
    instr 0x6D2 ''LDRB ptrplr'' CLASS_DEFAULT CYCLES_LDRB ERRORS_DEFAULT,
    instr 0x6D3 '''' CLASS_DEFAULT CYCLES_NONE ERRORS_DEFAULT,
    instr 0x6D4 ''LDRB ptrpar'' CLASS_DEFAULT CYCLES_LDRB ERRORS_DEFAULT,
    instr 0x6D5 '''' CLASS_DEFAULT CYCLES_NONE ERRORS_DEFAULT,
    instr 0x6D6 ''LDRB ptrprr'' CLASS_DEFAULT CYCLES_LDRB ERRORS_DEFAULT,
    instr 0x6D7 '''' CLASS_DEFAULT CYCLES_NONE ERRORS_DEFAULT,
    instr 0x6D8 ''LDRB ptrpll'' CLASS_DEFAULT CYCLES_LDRB ERRORS_DEFAULT,
    instr 0x6D9 '''' CLASS_DEFAULT CYCLES_NONE ERRORS_DEFAULT,
    instr 0x6DA ''LDRB ptrplr'' CLASS_DEFAULT CYCLES_LDRB ERRORS_DEFAULT,
    instr 0x6DB '''' CLASS_DEFAULT CYCLES_NONE ERRORS_DEFAULT,
    instr 0x6DC ''LDRB ptrpar'' CLASS_DEFAULT CYCLES_LDRB ERRORS_DEFAULT,
    instr 0x6DD '''' CLASS_DEFAULT CYCLES_NONE ERRORS_DEFAULT,
    instr 0x6DE ''LDRB ptrprr'' CLASS_DEFAULT CYCLES_LDRB ERRORS_DEFAULT,
    instr 0x6DF '''' CLASS_DEFAULT CYCLES_NONE ERRORS_DEFAULT,
    instr 0x6E0 ''STRBT ptrpll'' CLASS_DEFAULT CYCLES_STRBT ERRORS_DEFAULT,
    instr 0x6E1 '''' CLASS_DEFAULT CYCLES_NONE ERRORS_DEFAULT,
    instr 0x6E2 ''STRBT ptrplr'' CLASS_DEFAULT CYCLES_STRBT ERRORS_DEFAULT,
    instr 0x6E3 '''' CLASS_DEFAULT CYCLES_NONE ERRORS_DEFAULT,
    instr 0x6E4 ''STRBT ptrpar'' CLASS_DEFAULT CYCLES_STRBT ERRORS_DEFAULT,
    instr 0x6E5 '''' CLASS_DEFAULT CYCLES_NONE ERRORS_DEFAULT,
    instr 0x6E6 ''STRBT ptrprr'' CLASS_DEFAULT CYCLES_STRBT ERRORS_DEFAULT,
    instr 0x6E7 '''' CLASS_DEFAULT CYCLES_NONE ERRORS_DEFAULT,
    instr 0x6E8 ''STRBT ptrpll'' CLASS_DEFAULT CYCLES_STRBT ERRORS_DEFAULT,
    instr 0x6E9 '''' CLASS_DEFAULT CYCLES_NONE ERRORS_DEFAULT,
    instr 0x6EA ''STRBT ptrplr'' CLASS_DEFAULT CYCLES_STRBT ERRORS_DEFAULT,
    instr 0x6EB '''' CLASS_DEFAULT CYCLES_NONE ERRORS_DEFAULT,
    instr 0x6EC ''STRBT ptrpar'' CLASS_DEFAULT CYCLES_STRBT ERRORS_DEFAULT,
    instr 0x6ED '''' CLASS_DEFAULT CYCLES_NONE ERRORS_DEFAULT,
    instr 0x6EE ''STRBT ptrprr'' CLASS_DEFAULT CYCLES_STRBT ERRORS_DEFAULT,
    instr 0x6EF '''' CLASS_DEFAULT CYCLES_NONE ERRORS_DEFAULT,
    instr 0x6F0 ''LDRBT ptrpll'' CLASS_DEFAULT CYCLES_LDRBT ERRORS_DEFAULT,
    instr 0x6F1 '''' CLASS_DEFAULT CYCLES_NONE ERRORS_DEFAULT,
    instr 0x6F2 ''LDRBT ptrplr'' CLASS_DEFAULT CYCLES_LDRBT ERRORS_DEFAULT,
    instr 0x6F3 '''' CLASS_DEFAULT CYCLES_NONE ERRORS_DEFAULT,
    instr 0x6F4 ''LDRBT ptrpar'' CLASS_DEFAULT CYCLES_LDRBT ERRORS_DEFAULT,
    instr 0x6F5 '''' CLASS_DEFAULT CYCLES_NONE ERRORS_DEFAULT,
    instr 0x6F6 ''LDRBT ptrprr'' CLASS_DEFAULT CYCLES_LDRBT ERRORS_DEFAULT,
    instr 0x6F7 '''' CLASS_DEFAULT CYCLES_NONE ERRORS_DEFAULT,
    instr 0x6F8 ''LDRBT ptrpll'' CLASS_DEFAULT CYCLES_LDRBT ERRORS_DEFAULT,
    instr 0x6F9 '''' CLASS_DEFAULT CYCLES_NONE ERRORS_DEFAULT,
    instr 0x6FA ''LDRBT ptrplr'' CLASS_DEFAULT CYCLES_LDRBT ERRORS_DEFAULT,
    instr 0x6FB '''' CLASS_DEFAULT CYCLES_NONE ERRORS_DEFAULT,
    instr 0x6FC ''LDRBT ptrpar'' CLASS_DEFAULT CYCLES_LDRBT ERRORS_DEFAULT,
    instr 0x6FD '''' CLASS_DEFAULT CYCLES_NONE ERRORS_DEFAULT,
    instr 0x6FE ''LDRBT ptrprr'' CLASS_DEFAULT CYCLES_LDRBT ERRORS_DEFAULT,
    instr 0x6FF '''' CLASS_DEFAULT CYCLES_NONE ERRORS_DEFAULT]"

definition vemu_arm_instr_14 :: "vemu_instr_info list" where
  "vemu_arm_instr_14 = [
    instr 0x700 ''STR ofrmll'' CLASS_DEFAULT CYCLES_STR ERRORS_DEFAULT,
    instr 0x701 '''' CLASS_DEFAULT CYCLES_NONE ERRORS_DEFAULT,
    instr 0x702 ''STR ofrmlr'' CLASS_DEFAULT CYCLES_STR ERRORS_DEFAULT,
    instr 0x703 '''' CLASS_DEFAULT CYCLES_NONE ERRORS_DEFAULT,
    instr 0x704 ''STR ofrmar'' CLASS_DEFAULT CYCLES_STR ERRORS_DEFAULT,
    instr 0x705 '''' CLASS_DEFAULT CYCLES_NONE ERRORS_DEFAULT,
    instr 0x706 ''STR ofrmrr'' CLASS_DEFAULT CYCLES_STR ERRORS_DEFAULT,
    instr 0x707 '''' CLASS_DEFAULT CYCLES_NONE ERRORS_DEFAULT,
    instr 0x708 ''STR ofrmll'' CLASS_DEFAULT CYCLES_STR ERRORS_DEFAULT,
    instr 0x709 '''' CLASS_DEFAULT CYCLES_NONE ERRORS_DEFAULT,
    instr 0x70A ''STR ofrmlr'' CLASS_DEFAULT CYCLES_STR ERRORS_DEFAULT,
    instr 0x70B '''' CLASS_DEFAULT CYCLES_NONE ERRORS_DEFAULT,
    instr 0x70C ''STR ofrmar'' CLASS_DEFAULT CYCLES_STR ERRORS_DEFAULT,
    instr 0x70D '''' CLASS_DEFAULT CYCLES_NONE ERRORS_DEFAULT,
    instr 0x70E ''STR ofrmrr'' CLASS_DEFAULT CYCLES_STR ERRORS_DEFAULT,
    instr 0x70F '''' CLASS_DEFAULT CYCLES_NONE ERRORS_DEFAULT,
    instr 0x710 ''LDR ofrmll'' CLASS_DEFAULT CYCLES_LDR ERRORS_DEFAULT,
    instr 0x711 '''' CLASS_DEFAULT CYCLES_NONE ERRORS_DEFAULT,
    instr 0x712 ''LDR ofrmlr'' CLASS_DEFAULT CYCLES_LDR ERRORS_DEFAULT,
    instr 0x713 '''' CLASS_DEFAULT CYCLES_NONE ERRORS_DEFAULT,
    instr 0x714 ''LDR ofrmar'' CLASS_DEFAULT CYCLES_LDR ERRORS_DEFAULT,
    instr 0x715 '''' CLASS_DEFAULT CYCLES_NONE ERRORS_DEFAULT,
    instr 0x716 ''LDR ofrmrr'' CLASS_DEFAULT CYCLES_LDR ERRORS_DEFAULT,
    instr 0x717 '''' CLASS_DEFAULT CYCLES_NONE ERRORS_DEFAULT,
    instr 0x718 ''LDR ofrmll'' CLASS_DEFAULT CYCLES_LDR ERRORS_DEFAULT,
    instr 0x719 '''' CLASS_DEFAULT CYCLES_NONE ERRORS_DEFAULT,
    instr 0x71A ''LDR ofrmlr'' CLASS_DEFAULT CYCLES_LDR ERRORS_DEFAULT,
    instr 0x71B '''' CLASS_DEFAULT CYCLES_NONE ERRORS_DEFAULT,
    instr 0x71C ''LDR ofrmar'' CLASS_DEFAULT CYCLES_LDR ERRORS_DEFAULT,
    instr 0x71D '''' CLASS_DEFAULT CYCLES_NONE ERRORS_DEFAULT,
    instr 0x71E ''LDR ofrmrr'' CLASS_DEFAULT CYCLES_LDR ERRORS_DEFAULT,
    instr 0x71F '''' CLASS_DEFAULT CYCLES_NONE ERRORS_DEFAULT,
    instr 0x720 ''STR prrmll'' CLASS_DEFAULT CYCLES_STR ERRORS_DEFAULT,
    instr 0x721 '''' CLASS_DEFAULT CYCLES_NONE ERRORS_DEFAULT,
    instr 0x722 ''STR prrmlr'' CLASS_DEFAULT CYCLES_STR ERRORS_DEFAULT,
    instr 0x723 '''' CLASS_DEFAULT CYCLES_NONE ERRORS_DEFAULT,
    instr 0x724 ''STR prrmar'' CLASS_DEFAULT CYCLES_STR ERRORS_DEFAULT,
    instr 0x725 '''' CLASS_DEFAULT CYCLES_NONE ERRORS_DEFAULT,
    instr 0x726 ''STR prrmrr'' CLASS_DEFAULT CYCLES_STR ERRORS_DEFAULT,
    instr 0x727 '''' CLASS_DEFAULT CYCLES_NONE ERRORS_DEFAULT,
    instr 0x728 ''STR prrmll'' CLASS_DEFAULT CYCLES_STR ERRORS_DEFAULT,
    instr 0x729 '''' CLASS_DEFAULT CYCLES_NONE ERRORS_DEFAULT,
    instr 0x72A ''STR prrmlr'' CLASS_DEFAULT CYCLES_STR ERRORS_DEFAULT,
    instr 0x72B '''' CLASS_DEFAULT CYCLES_NONE ERRORS_DEFAULT,
    instr 0x72C ''STR prrmar'' CLASS_DEFAULT CYCLES_STR ERRORS_DEFAULT,
    instr 0x72D '''' CLASS_DEFAULT CYCLES_NONE ERRORS_DEFAULT,
    instr 0x72E ''STR prrmrr'' CLASS_DEFAULT CYCLES_STR ERRORS_DEFAULT,
    instr 0x72F '''' CLASS_DEFAULT CYCLES_NONE ERRORS_DEFAULT,
    instr 0x730 ''LDR prrmll'' CLASS_DEFAULT CYCLES_LDR ERRORS_DEFAULT,
    instr 0x731 '''' CLASS_DEFAULT CYCLES_NONE ERRORS_DEFAULT,
    instr 0x732 ''LDR prrmlr'' CLASS_DEFAULT CYCLES_LDR ERRORS_DEFAULT,
    instr 0x733 '''' CLASS_DEFAULT CYCLES_NONE ERRORS_DEFAULT,
    instr 0x734 ''LDR prrmar'' CLASS_DEFAULT CYCLES_LDR ERRORS_DEFAULT,
    instr 0x735 '''' CLASS_DEFAULT CYCLES_NONE ERRORS_DEFAULT,
    instr 0x736 ''LDR prrmrr'' CLASS_DEFAULT CYCLES_LDR ERRORS_DEFAULT,
    instr 0x737 '''' CLASS_DEFAULT CYCLES_NONE ERRORS_DEFAULT,
    instr 0x738 ''LDR prrmll'' CLASS_DEFAULT CYCLES_LDR ERRORS_DEFAULT,
    instr 0x739 '''' CLASS_DEFAULT CYCLES_NONE ERRORS_DEFAULT,
    instr 0x73A ''LDR prrmlr'' CLASS_DEFAULT CYCLES_LDR ERRORS_DEFAULT,
    instr 0x73B '''' CLASS_DEFAULT CYCLES_NONE ERRORS_DEFAULT,
    instr 0x73C ''LDR prrmar'' CLASS_DEFAULT CYCLES_LDR ERRORS_DEFAULT,
    instr 0x73D '''' CLASS_DEFAULT CYCLES_NONE ERRORS_DEFAULT,
    instr 0x73E ''LDR prrmrr'' CLASS_DEFAULT CYCLES_LDR ERRORS_DEFAULT,
    instr 0x73F '''' CLASS_DEFAULT CYCLES_NONE ERRORS_DEFAULT,
    instr 0x740 ''STRB ofrmll'' CLASS_DEFAULT CYCLES_STRB ERRORS_DEFAULT,
    instr 0x741 '''' CLASS_DEFAULT CYCLES_NONE ERRORS_DEFAULT,
    instr 0x742 ''STRB ofrmlr'' CLASS_DEFAULT CYCLES_STRB ERRORS_DEFAULT,
    instr 0x743 '''' CLASS_DEFAULT CYCLES_NONE ERRORS_DEFAULT,
    instr 0x744 ''STRB ofrmar'' CLASS_DEFAULT CYCLES_STRB ERRORS_DEFAULT,
    instr 0x745 '''' CLASS_DEFAULT CYCLES_NONE ERRORS_DEFAULT,
    instr 0x746 ''STRB ofrmrr'' CLASS_DEFAULT CYCLES_STRB ERRORS_DEFAULT,
    instr 0x747 '''' CLASS_DEFAULT CYCLES_NONE ERRORS_DEFAULT,
    instr 0x748 ''STRB ofrmll'' CLASS_DEFAULT CYCLES_STRB ERRORS_DEFAULT,
    instr 0x749 '''' CLASS_DEFAULT CYCLES_NONE ERRORS_DEFAULT,
    instr 0x74A ''STRB ofrmlr'' CLASS_DEFAULT CYCLES_STRB ERRORS_DEFAULT,
    instr 0x74B '''' CLASS_DEFAULT CYCLES_NONE ERRORS_DEFAULT,
    instr 0x74C ''STRB ofrmar'' CLASS_DEFAULT CYCLES_STRB ERRORS_DEFAULT,
    instr 0x74D '''' CLASS_DEFAULT CYCLES_NONE ERRORS_DEFAULT,
    instr 0x74E ''STRB ofrmrr'' CLASS_DEFAULT CYCLES_STRB ERRORS_DEFAULT,
    instr 0x74F '''' CLASS_DEFAULT CYCLES_NONE ERRORS_DEFAULT,
    instr 0x750 ''LDRB ofrmll'' CLASS_DEFAULT CYCLES_LDRB ERRORS_DEFAULT,
    instr 0x751 '''' CLASS_DEFAULT CYCLES_NONE ERRORS_DEFAULT,
    instr 0x752 ''LDRB ofrmlr'' CLASS_DEFAULT CYCLES_LDRB ERRORS_DEFAULT,
    instr 0x753 '''' CLASS_DEFAULT CYCLES_NONE ERRORS_DEFAULT,
    instr 0x754 ''LDRB ofrmar'' CLASS_DEFAULT CYCLES_LDRB ERRORS_DEFAULT,
    instr 0x755 '''' CLASS_DEFAULT CYCLES_NONE ERRORS_DEFAULT,
    instr 0x756 ''LDRB ofrmrr'' CLASS_DEFAULT CYCLES_LDRB ERRORS_DEFAULT,
    instr 0x757 '''' CLASS_DEFAULT CYCLES_NONE ERRORS_DEFAULT,
    instr 0x758 ''LDRB ofrmll'' CLASS_DEFAULT CYCLES_LDRB ERRORS_DEFAULT,
    instr 0x759 '''' CLASS_DEFAULT CYCLES_NONE ERRORS_DEFAULT,
    instr 0x75A ''LDRB ofrmlr'' CLASS_DEFAULT CYCLES_LDRB ERRORS_DEFAULT,
    instr 0x75B '''' CLASS_DEFAULT CYCLES_NONE ERRORS_DEFAULT,
    instr 0x75C ''LDRB ofrmar'' CLASS_DEFAULT CYCLES_LDRB ERRORS_DEFAULT,
    instr 0x75D '''' CLASS_DEFAULT CYCLES_NONE ERRORS_DEFAULT,
    instr 0x75E ''LDRB ofrmrr'' CLASS_DEFAULT CYCLES_LDRB ERRORS_DEFAULT,
    instr 0x75F '''' CLASS_DEFAULT CYCLES_NONE ERRORS_DEFAULT,
    instr 0x760 ''STRB prrmll'' CLASS_DEFAULT CYCLES_STRB ERRORS_DEFAULT,
    instr 0x761 '''' CLASS_DEFAULT CYCLES_NONE ERRORS_DEFAULT,
    instr 0x762 ''STRB prrmlr'' CLASS_DEFAULT CYCLES_STRB ERRORS_DEFAULT,
    instr 0x763 '''' CLASS_DEFAULT CYCLES_NONE ERRORS_DEFAULT,
    instr 0x764 ''STRB prrmar'' CLASS_DEFAULT CYCLES_STRB ERRORS_DEFAULT,
    instr 0x765 '''' CLASS_DEFAULT CYCLES_NONE ERRORS_DEFAULT,
    instr 0x766 ''STRB prrmrr'' CLASS_DEFAULT CYCLES_STRB ERRORS_DEFAULT,
    instr 0x767 '''' CLASS_DEFAULT CYCLES_NONE ERRORS_DEFAULT,
    instr 0x768 ''STRB prrmll'' CLASS_DEFAULT CYCLES_STRB ERRORS_DEFAULT,
    instr 0x769 '''' CLASS_DEFAULT CYCLES_NONE ERRORS_DEFAULT,
    instr 0x76A ''STRB prrmlr'' CLASS_DEFAULT CYCLES_STRB ERRORS_DEFAULT,
    instr 0x76B '''' CLASS_DEFAULT CYCLES_NONE ERRORS_DEFAULT,
    instr 0x76C ''STRB prrmar'' CLASS_DEFAULT CYCLES_STRB ERRORS_DEFAULT,
    instr 0x76D '''' CLASS_DEFAULT CYCLES_NONE ERRORS_DEFAULT,
    instr 0x76E ''STRB prrmrr'' CLASS_DEFAULT CYCLES_STRB ERRORS_DEFAULT,
    instr 0x76F '''' CLASS_DEFAULT CYCLES_NONE ERRORS_DEFAULT,
    instr 0x770 ''LDRB prrmll'' CLASS_DEFAULT CYCLES_LDRB ERRORS_DEFAULT,
    instr 0x771 '''' CLASS_DEFAULT CYCLES_NONE ERRORS_DEFAULT,
    instr 0x772 ''LDRB prrmlr'' CLASS_DEFAULT CYCLES_LDRB ERRORS_DEFAULT,
    instr 0x773 '''' CLASS_DEFAULT CYCLES_NONE ERRORS_DEFAULT,
    instr 0x774 ''LDRB prrmar'' CLASS_DEFAULT CYCLES_LDRB ERRORS_DEFAULT,
    instr 0x775 '''' CLASS_DEFAULT CYCLES_NONE ERRORS_DEFAULT,
    instr 0x776 ''LDRB prrmrr'' CLASS_DEFAULT CYCLES_LDRB ERRORS_DEFAULT,
    instr 0x777 '''' CLASS_DEFAULT CYCLES_NONE ERRORS_DEFAULT,
    instr 0x778 ''LDRB prrmll'' CLASS_DEFAULT CYCLES_LDRB ERRORS_DEFAULT,
    instr 0x779 '''' CLASS_DEFAULT CYCLES_NONE ERRORS_DEFAULT,
    instr 0x77A ''LDRB prrmlr'' CLASS_DEFAULT CYCLES_LDRB ERRORS_DEFAULT,
    instr 0x77B '''' CLASS_DEFAULT CYCLES_NONE ERRORS_DEFAULT,
    instr 0x77C ''LDRB prrmar'' CLASS_DEFAULT CYCLES_LDRB ERRORS_DEFAULT,
    instr 0x77D '''' CLASS_DEFAULT CYCLES_NONE ERRORS_DEFAULT,
    instr 0x77E ''LDRB prrmrr'' CLASS_DEFAULT CYCLES_LDRB ERRORS_DEFAULT,
    instr 0x77F '''' CLASS_DEFAULT CYCLES_NONE ERRORS_DEFAULT]"

definition vemu_arm_instr_15 :: "vemu_instr_info list" where
  "vemu_arm_instr_15 = [
    instr 0x780 ''STR ofrpll'' CLASS_DEFAULT CYCLES_STR ERRORS_DEFAULT,
    instr 0x781 '''' CLASS_DEFAULT CYCLES_NONE ERRORS_DEFAULT,
    instr 0x782 ''STR ofrplr'' CLASS_DEFAULT CYCLES_STR ERRORS_DEFAULT,
    instr 0x783 '''' CLASS_DEFAULT CYCLES_NONE ERRORS_DEFAULT,
    instr 0x784 ''STR ofrpar'' CLASS_DEFAULT CYCLES_STR ERRORS_DEFAULT,
    instr 0x785 '''' CLASS_DEFAULT CYCLES_NONE ERRORS_DEFAULT,
    instr 0x786 ''STR ofrprr'' CLASS_DEFAULT CYCLES_STR ERRORS_DEFAULT,
    instr 0x787 '''' CLASS_DEFAULT CYCLES_NONE ERRORS_DEFAULT,
    instr 0x788 ''STR ofrpll'' CLASS_DEFAULT CYCLES_STR ERRORS_DEFAULT,
    instr 0x789 '''' CLASS_DEFAULT CYCLES_NONE ERRORS_DEFAULT,
    instr 0x78A ''STR ofrplr'' CLASS_DEFAULT CYCLES_STR ERRORS_DEFAULT,
    instr 0x78B '''' CLASS_DEFAULT CYCLES_NONE ERRORS_DEFAULT,
    instr 0x78C ''STR ofrpar'' CLASS_DEFAULT CYCLES_STR ERRORS_DEFAULT,
    instr 0x78D '''' CLASS_DEFAULT CYCLES_NONE ERRORS_DEFAULT,
    instr 0x78E ''STR ofrprr'' CLASS_DEFAULT CYCLES_STR ERRORS_DEFAULT,
    instr 0x78F '''' CLASS_DEFAULT CYCLES_NONE ERRORS_DEFAULT,
    instr 0x790 ''LDR ofrpll'' CLASS_DEFAULT CYCLES_LDR ERRORS_DEFAULT,
    instr 0x791 '''' CLASS_DEFAULT CYCLES_NONE ERRORS_DEFAULT,
    instr 0x792 ''LDR ofrplr'' CLASS_DEFAULT CYCLES_LDR ERRORS_DEFAULT,
    instr 0x793 '''' CLASS_DEFAULT CYCLES_NONE ERRORS_DEFAULT,
    instr 0x794 ''LDR ofrpar'' CLASS_DEFAULT CYCLES_LDR ERRORS_DEFAULT,
    instr 0x795 '''' CLASS_DEFAULT CYCLES_NONE ERRORS_DEFAULT,
    instr 0x796 ''LDR ofrprr'' CLASS_DEFAULT CYCLES_LDR ERRORS_DEFAULT,
    instr 0x797 '''' CLASS_DEFAULT CYCLES_NONE ERRORS_DEFAULT,
    instr 0x798 ''LDR ofrpll'' CLASS_DEFAULT CYCLES_LDR ERRORS_DEFAULT,
    instr 0x799 '''' CLASS_DEFAULT CYCLES_NONE ERRORS_DEFAULT,
    instr 0x79A ''LDR ofrplr'' CLASS_DEFAULT CYCLES_LDR ERRORS_DEFAULT,
    instr 0x79B '''' CLASS_DEFAULT CYCLES_NONE ERRORS_DEFAULT,
    instr 0x79C ''LDR ofrpar'' CLASS_DEFAULT CYCLES_LDR ERRORS_DEFAULT,
    instr 0x79D '''' CLASS_DEFAULT CYCLES_NONE ERRORS_DEFAULT,
    instr 0x79E ''LDR ofrprr'' CLASS_DEFAULT CYCLES_LDR ERRORS_DEFAULT,
    instr 0x79F '''' CLASS_DEFAULT CYCLES_NONE ERRORS_DEFAULT,
    instr 0x7A0 ''STR prrpll'' CLASS_DEFAULT CYCLES_STR ERRORS_DEFAULT,
    instr 0x7A1 '''' CLASS_DEFAULT CYCLES_NONE ERRORS_DEFAULT,
    instr 0x7A2 ''STR prrplr'' CLASS_DEFAULT CYCLES_STR ERRORS_DEFAULT,
    instr 0x7A3 '''' CLASS_DEFAULT CYCLES_NONE ERRORS_DEFAULT,
    instr 0x7A4 ''STR prrpar'' CLASS_DEFAULT CYCLES_STR ERRORS_DEFAULT,
    instr 0x7A5 '''' CLASS_DEFAULT CYCLES_NONE ERRORS_DEFAULT,
    instr 0x7A6 ''STR prrprr'' CLASS_DEFAULT CYCLES_STR ERRORS_DEFAULT,
    instr 0x7A7 '''' CLASS_DEFAULT CYCLES_NONE ERRORS_DEFAULT,
    instr 0x7A8 ''STR prrpll'' CLASS_DEFAULT CYCLES_STR ERRORS_DEFAULT,
    instr 0x7A9 '''' CLASS_DEFAULT CYCLES_NONE ERRORS_DEFAULT,
    instr 0x7AA ''STR prrplr'' CLASS_DEFAULT CYCLES_STR ERRORS_DEFAULT,
    instr 0x7AB '''' CLASS_DEFAULT CYCLES_NONE ERRORS_DEFAULT,
    instr 0x7AC ''STR prrpar'' CLASS_DEFAULT CYCLES_STR ERRORS_DEFAULT,
    instr 0x7AD '''' CLASS_DEFAULT CYCLES_NONE ERRORS_DEFAULT,
    instr 0x7AE ''STR prrprr'' CLASS_DEFAULT CYCLES_STR ERRORS_DEFAULT,
    instr 0x7AF '''' CLASS_DEFAULT CYCLES_NONE ERRORS_DEFAULT,
    instr 0x7B0 ''LDR prrpll'' CLASS_DEFAULT CYCLES_LDR ERRORS_DEFAULT,
    instr 0x7B1 '''' CLASS_DEFAULT CYCLES_NONE ERRORS_DEFAULT,
    instr 0x7B2 ''LDR prrplr'' CLASS_DEFAULT CYCLES_LDR ERRORS_DEFAULT,
    instr 0x7B3 '''' CLASS_DEFAULT CYCLES_NONE ERRORS_DEFAULT,
    instr 0x7B4 ''LDR prrpar'' CLASS_DEFAULT CYCLES_LDR ERRORS_DEFAULT,
    instr 0x7B5 '''' CLASS_DEFAULT CYCLES_NONE ERRORS_DEFAULT,
    instr 0x7B6 ''LDR prrprr'' CLASS_DEFAULT CYCLES_LDR ERRORS_DEFAULT,
    instr 0x7B7 '''' CLASS_DEFAULT CYCLES_NONE ERRORS_DEFAULT,
    instr 0x7B8 ''LDR prrpll'' CLASS_DEFAULT CYCLES_LDR ERRORS_DEFAULT,
    instr 0x7B9 '''' CLASS_DEFAULT CYCLES_NONE ERRORS_DEFAULT,
    instr 0x7BA ''LDR prrplr'' CLASS_DEFAULT CYCLES_LDR ERRORS_DEFAULT,
    instr 0x7BB '''' CLASS_DEFAULT CYCLES_NONE ERRORS_DEFAULT,
    instr 0x7BC ''LDR prrpar'' CLASS_DEFAULT CYCLES_LDR ERRORS_DEFAULT,
    instr 0x7BD '''' CLASS_DEFAULT CYCLES_NONE ERRORS_DEFAULT,
    instr 0x7BE ''LDR prrprr'' CLASS_DEFAULT CYCLES_LDR ERRORS_DEFAULT,
    instr 0x7BF '''' CLASS_DEFAULT CYCLES_NONE ERRORS_DEFAULT,
    instr 0x7C0 ''STRB ofrpll'' CLASS_DEFAULT CYCLES_STRB ERRORS_DEFAULT,
    instr 0x7C1 '''' CLASS_DEFAULT CYCLES_NONE ERRORS_DEFAULT,
    instr 0x7C2 ''STRB ofrplr'' CLASS_DEFAULT CYCLES_STRB ERRORS_DEFAULT,
    instr 0x7C3 '''' CLASS_DEFAULT CYCLES_NONE ERRORS_DEFAULT,
    instr 0x7C4 ''STRB ofrpar'' CLASS_DEFAULT CYCLES_STRB ERRORS_DEFAULT,
    instr 0x7C5 '''' CLASS_DEFAULT CYCLES_NONE ERRORS_DEFAULT,
    instr 0x7C6 ''STRB ofrprr'' CLASS_DEFAULT CYCLES_STRB ERRORS_DEFAULT,
    instr 0x7C7 '''' CLASS_DEFAULT CYCLES_NONE ERRORS_DEFAULT,
    instr 0x7C8 ''STRB ofrpll'' CLASS_DEFAULT CYCLES_STRB ERRORS_DEFAULT,
    instr 0x7C9 '''' CLASS_DEFAULT CYCLES_NONE ERRORS_DEFAULT,
    instr 0x7CA ''STRB ofrplr'' CLASS_DEFAULT CYCLES_STRB ERRORS_DEFAULT,
    instr 0x7CB '''' CLASS_DEFAULT CYCLES_NONE ERRORS_DEFAULT,
    instr 0x7CC ''STRB ofrpar'' CLASS_DEFAULT CYCLES_STRB ERRORS_DEFAULT,
    instr 0x7CD '''' CLASS_DEFAULT CYCLES_NONE ERRORS_DEFAULT,
    instr 0x7CE ''STRB ofrprr'' CLASS_DEFAULT CYCLES_STRB ERRORS_DEFAULT,
    instr 0x7CF '''' CLASS_DEFAULT CYCLES_NONE ERRORS_DEFAULT,
    instr 0x7D0 ''LDRB ofrpll'' CLASS_DEFAULT CYCLES_LDRB ERRORS_DEFAULT,
    instr 0x7D1 '''' CLASS_DEFAULT CYCLES_NONE ERRORS_DEFAULT,
    instr 0x7D2 ''LDRB ofrplr'' CLASS_DEFAULT CYCLES_LDRB ERRORS_DEFAULT,
    instr 0x7D3 '''' CLASS_DEFAULT CYCLES_NONE ERRORS_DEFAULT,
    instr 0x7D4 ''LDRB ofrpar'' CLASS_DEFAULT CYCLES_LDRB ERRORS_DEFAULT,
    instr 0x7D5 '''' CLASS_DEFAULT CYCLES_NONE ERRORS_DEFAULT,
    instr 0x7D6 ''LDRB ofrprr'' CLASS_DEFAULT CYCLES_LDRB ERRORS_DEFAULT,
    instr 0x7D7 '''' CLASS_DEFAULT CYCLES_NONE ERRORS_DEFAULT,
    instr 0x7D8 ''LDRB ofrpll'' CLASS_DEFAULT CYCLES_LDRB ERRORS_DEFAULT,
    instr 0x7D9 '''' CLASS_DEFAULT CYCLES_NONE ERRORS_DEFAULT,
    instr 0x7DA ''LDRB ofrplr'' CLASS_DEFAULT CYCLES_LDRB ERRORS_DEFAULT,
    instr 0x7DB '''' CLASS_DEFAULT CYCLES_NONE ERRORS_DEFAULT,
    instr 0x7DC ''LDRB ofrpar'' CLASS_DEFAULT CYCLES_LDRB ERRORS_DEFAULT,
    instr 0x7DD '''' CLASS_DEFAULT CYCLES_NONE ERRORS_DEFAULT,
    instr 0x7DE ''LDRB ofrprr'' CLASS_DEFAULT CYCLES_LDRB ERRORS_DEFAULT,
    instr 0x7DF '''' CLASS_DEFAULT CYCLES_NONE ERRORS_DEFAULT,
    instr 0x7E0 ''STRB prrpll'' CLASS_DEFAULT CYCLES_STRB ERRORS_DEFAULT,
    instr 0x7E1 '''' CLASS_DEFAULT CYCLES_NONE ERRORS_DEFAULT,
    instr 0x7E2 ''STRB prrplr'' CLASS_DEFAULT CYCLES_STRB ERRORS_DEFAULT,
    instr 0x7E3 '''' CLASS_DEFAULT CYCLES_NONE ERRORS_DEFAULT,
    instr 0x7E4 ''STRB prrpar'' CLASS_DEFAULT CYCLES_STRB ERRORS_DEFAULT,
    instr 0x7E5 '''' CLASS_DEFAULT CYCLES_NONE ERRORS_DEFAULT,
    instr 0x7E6 ''STRB prrprr'' CLASS_DEFAULT CYCLES_STRB ERRORS_DEFAULT,
    instr 0x7E7 '''' CLASS_DEFAULT CYCLES_NONE ERRORS_DEFAULT,
    instr 0x7E8 ''STRB prrpll'' CLASS_DEFAULT CYCLES_STRB ERRORS_DEFAULT,
    instr 0x7E9 '''' CLASS_DEFAULT CYCLES_NONE ERRORS_DEFAULT,
    instr 0x7EA ''STRB prrplr'' CLASS_DEFAULT CYCLES_STRB ERRORS_DEFAULT,
    instr 0x7EB '''' CLASS_DEFAULT CYCLES_NONE ERRORS_DEFAULT,
    instr 0x7EC ''STRB prrpar'' CLASS_DEFAULT CYCLES_STRB ERRORS_DEFAULT,
    instr 0x7ED '''' CLASS_DEFAULT CYCLES_NONE ERRORS_DEFAULT,
    instr 0x7EE ''STRB prrprr'' CLASS_DEFAULT CYCLES_STRB ERRORS_DEFAULT,
    instr 0x7EF '''' CLASS_DEFAULT CYCLES_NONE ERRORS_DEFAULT,
    instr 0x7F0 ''LDRB prrpll'' CLASS_DEFAULT CYCLES_LDRB ERRORS_DEFAULT,
    instr 0x7F1 '''' CLASS_DEFAULT CYCLES_NONE ERRORS_DEFAULT,
    instr 0x7F2 ''LDRB prrplr'' CLASS_DEFAULT CYCLES_LDRB ERRORS_DEFAULT,
    instr 0x7F3 '''' CLASS_DEFAULT CYCLES_NONE ERRORS_DEFAULT,
    instr 0x7F4 ''LDRB prrpar'' CLASS_DEFAULT CYCLES_LDRB ERRORS_DEFAULT,
    instr 0x7F5 '''' CLASS_DEFAULT CYCLES_NONE ERRORS_DEFAULT,
    instr 0x7F6 ''LDRB prrprr'' CLASS_DEFAULT CYCLES_LDRB ERRORS_DEFAULT,
    instr 0x7F7 '''' CLASS_DEFAULT CYCLES_NONE ERRORS_DEFAULT,
    instr 0x7F8 ''LDRB prrpll'' CLASS_DEFAULT CYCLES_LDRB ERRORS_DEFAULT,
    instr 0x7F9 '''' CLASS_DEFAULT CYCLES_NONE ERRORS_DEFAULT,
    instr 0x7FA ''LDRB prrplr'' CLASS_DEFAULT CYCLES_LDRB ERRORS_DEFAULT,
    instr 0x7FB '''' CLASS_DEFAULT CYCLES_NONE ERRORS_DEFAULT,
    instr 0x7FC ''LDRB prrpar'' CLASS_DEFAULT CYCLES_LDRB ERRORS_DEFAULT,
    instr 0x7FD '''' CLASS_DEFAULT CYCLES_NONE ERRORS_DEFAULT,
    instr 0x7FE ''LDRB prrprr'' CLASS_DEFAULT CYCLES_LDRB ERRORS_DEFAULT,
    instr 0x7FF '''' CLASS_DEFAULT CYCLES_NONE ERRORS_DEFAULT]"

lemma vemu_arm_instr_08_ok: "list_all2 row_ok [1024..<1152] vemu_arm_instr_08"
  by (simp add: vemu_arm_instr_08_def row_defs cycles_defs upt_conv_Cons)

lemma vemu_arm_instr_09_ok: "list_all2 row_ok [1152..<1280] vemu_arm_instr_09"
  by (simp add: vemu_arm_instr_09_def row_defs cycles_defs upt_conv_Cons)

lemma vemu_arm_instr_10_ok: "list_all2 row_ok [1280..<1408] vemu_arm_instr_10"
  by (simp add: vemu_arm_instr_10_def row_defs cycles_defs upt_conv_Cons)

lemma vemu_arm_instr_11_ok: "list_all2 row_ok [1408..<1536] vemu_arm_instr_11"
  by (simp add: vemu_arm_instr_11_def row_defs cycles_defs upt_conv_Cons)

lemma vemu_arm_instr_12_ok: "list_all2 row_ok [1536..<1664] vemu_arm_instr_12"
  by (simp add: vemu_arm_instr_12_def row_defs cycles_defs upt_conv_Cons)

lemma vemu_arm_instr_13_ok: "list_all2 row_ok [1664..<1792] vemu_arm_instr_13"
  by (simp add: vemu_arm_instr_13_def row_defs cycles_defs upt_conv_Cons)

lemma vemu_arm_instr_14_ok: "list_all2 row_ok [1792..<1920] vemu_arm_instr_14"
  by (simp add: vemu_arm_instr_14_def row_defs cycles_defs upt_conv_Cons)

lemma vemu_arm_instr_15_ok: "list_all2 row_ok [1920..<2048] vemu_arm_instr_15"
  by (simp add: vemu_arm_instr_15_def row_defs cycles_defs upt_conv_Cons)

lemma vemu_arm_instr_08_cost: "list_all2 cost_ok [1024..<1152] vemu_arm_instr_08"
  by (simp add: vemu_arm_instr_08_def instr_def cycles_defs cost_ok_def arm_ref_cycles_def upt_conv_Cons)

lemma vemu_arm_instr_09_cost: "list_all2 cost_ok [1152..<1280] vemu_arm_instr_09"
  by (simp add: vemu_arm_instr_09_def instr_def cycles_defs cost_ok_def arm_ref_cycles_def upt_conv_Cons)

lemma vemu_arm_instr_10_cost: "list_all2 cost_ok [1280..<1408] vemu_arm_instr_10"
  by (simp add: vemu_arm_instr_10_def instr_def cycles_defs cost_ok_def arm_ref_cycles_def upt_conv_Cons)

lemma vemu_arm_instr_11_cost: "list_all2 cost_ok [1408..<1536] vemu_arm_instr_11"
  by (simp add: vemu_arm_instr_11_def instr_def cycles_defs cost_ok_def arm_ref_cycles_def upt_conv_Cons)

lemma vemu_arm_instr_12_cost: "list_all2 cost_ok [1536..<1664] vemu_arm_instr_12"
  by (simp add: vemu_arm_instr_12_def instr_def cycles_defs cost_ok_def arm_ref_cycles_def upt_conv_Cons)

lemma vemu_arm_instr_13_cost: "list_all2 cost_ok [1664..<1792] vemu_arm_instr_13"
  by (simp add: vemu_arm_instr_13_def instr_def cycles_defs cost_ok_def arm_ref_cycles_def upt_conv_Cons)

lemma vemu_arm_instr_14_cost: "list_all2 cost_ok [1792..<1920] vemu_arm_instr_14"
  by (simp add: vemu_arm_instr_14_def instr_def cycles_defs cost_ok_def arm_ref_cycles_def upt_conv_Cons)

lemma vemu_arm_instr_15_cost: "list_all2 cost_ok [1920..<2048] vemu_arm_instr_15"
  by (simp add: vemu_arm_instr_15_def instr_def cycles_defs cost_ok_def arm_ref_cycles_def upt_conv_Cons)

end
