(* ===== verification/Vemu_Arm_Table2.thy ===== *)
theory Vemu_Arm_Table2
  imports Vemu_Instr
begin

text \<open>
  The rows 0x800 to 0xBFF of \<^verbatim>\<open>vemu_arm_instr\<close>, in eight lists of 128.
\<close>

definition vemu_arm_instr_16 :: "vemu_instr_info list" where
  "vemu_arm_instr_16 = [
    instr 0x800 ''STMDA'' CLASS_DEFAULT CYCLES_STMDA ERRORS_DEFAULT,
    instr 0x801 ''STMDA'' CLASS_DEFAULT CYCLES_STMDA ERRORS_DEFAULT,
    instr 0x802 ''STMDA'' CLASS_DEFAULT CYCLES_STMDA ERRORS_DEFAULT,
    instr 0x803 ''STMDA'' CLASS_DEFAULT CYCLES_STMDA ERRORS_DEFAULT,
    instr 0x804 ''STMDA'' CLASS_DEFAULT CYCLES_STMDA ERRORS_DEFAULT,
    instr 0x805 ''STMDA'' CLASS_DEFAULT CYCLES_STMDA ERRORS_DEFAULT,
    instr 0x806 ''STMDA'' CLASS_DEFAULT CYCLES_STMDA ERRORS_DEFAULT,
    instr 0x807 ''STMDA'' CLASS_DEFAULT CYCLES_STMDA ERRORS_DEFAULT,
    instr 0x808 ''STMDA'' CLASS_DEFAULT CYCLES_STMDA ERRORS_DEFAULT,
    instr 0x809 ''STMDA'' CLASS_DEFAULT CYCLES_STMDA ERRORS_DEFAULT,
    instr 0x80A ''STMDA'' CLASS_DEFAULT CYCLES_STMDA ERRORS_DEFAULT,
    instr 0x80B ''STMDA'' CLASS_DEFAULT CYCLES_STMDA ERRORS_DEFAULT,
    instr 0x80C ''STMDA'' CLASS_DEFAULT CYCLES_STMDA ERRORS_DEFAULT,
    instr 0x80D ''STMDA'' CLASS_DEFAULT CYCLES_STMDA ERRORS_DEFAULT,
    instr 0x80E ''STMDA'' CLASS_DEFAULT CYCLES_STMDA ERRORS_DEFAULT,
    instr 0x80F ''STMDA'' CLASS_DEFAULT CYCLES_STMDA ERRORS_DEFAULT,
    instr 0x810 ''LDMDA'' CLASS_DEFAULT CYCLES_LDMDA ERRORS_DEFAULT,
    instr 0x811 ''LDMDA'' CLASS_DEFAULT CYCLES_LDMDA ERRORS_DEFAULT,
    instr 0x812 ''LDMDA'' CLASS_DEFAULT CYCLES_LDMDA ERRORS_DEFAULT,
    instr 0x813 ''LDMDA'' CLASS_DEFAULT CYCLES_LDMDA ERRORS_DEFAULT,
    instr 0x814 ''LDMDA'' CLASS_DEFAULT CYCLES_LDMDA ERRORS_DEFAULT,
    instr 0x815 ''LDMDA'' CLASS_DEFAULT CYCLES_LDMDA ERRORS_DEFAULT,
    instr 0x816 ''LDMDA'' CLASS_DEFAULT CYCLES_LDMDA ERRORS_DEFAULT,
    instr 0x817 ''LDMDA'' CLASS_DEFAULT CYCLES_LDMDA ERRORS_DEFAULT,
    instr 0x818 ''LDMDA'' CLASS_DEFAULT CYCLES_LDMDA ERRORS_DEFAULT,
    instr 0x819 ''LDMDA'' CLASS_DEFAULT CYCLES_LDMDA ERRORS_DEFAULT,
    instr 0x81A ''LDMDA'' CLASS_DEFAULT CYCLES_LDMDA ERRORS_DEFAULT,
    instr 0x81B ''LDMDA'' CLASS_DEFAULT CYCLES_LDMDA ERRORS_DEFAULT,
    instr 0x81C ''LDMDA'' CLASS_DEFAULT CYCLES_LDMDA ERRORS_DEFAULT,
    instr 0x81D ''LDMDA'' CLASS_DEFAULT CYCLES_LDMDA ERRORS_DEFAULT,
    instr 0x81E ''LDMDA'' CLASS_DEFAULT CYCLES_LDMDA ERRORS_DEFAULT,
    instr 0x81F ''LDMDA'' CLASS_DEFAULT CYCLES_LDMDA ERRORS_DEFAULT,
    instr 0x820 ''STMDA w'' CLASS_DEFAULT CYCLES_STMDA ERRORS_DEFAULT,
    instr 0x821 ''STMDA w'' CLASS_DEFAULT CYCLES_STMDA ERRORS_DEFAULT,
    instr 0x822 ''STMDA w'' CLASS_DEFAULT CYCLES_STMDA ERRORS_DEFAULT,
    instr 0x823 ''STMDA w'' CLASS_DEFAULT CYCLES_STMDA ERRORS_DEFAULT,
    instr 0x824 ''STMDA w'' CLASS_DEFAULT CYCLES_STMDA ERRORS_DEFAULT,
    instr 0x825 ''STMDA w'' CLASS_DEFAULT CYCLES_STMDA ERRORS_DEFAULT,
    instr 0x826 ''STMDA w'' CLASS_DEFAULT CYCLES_STMDA ERRORS_DEFAULT,
    instr 0x827 ''STMDA w'' CLASS_DEFAULT CYCLES_STMDA ERRORS_DEFAULT,
    instr 0x828 ''STMDA w'' CLASS_DEFAULT CYCLES_STMDA ERRORS_DEFAULT,
    instr 0x829 ''STMDA w'' CLASS_DEFAULT CYCLES_STMDA ERRORS_DEFAULT,
    instr 0x82A ''STMDA w'' CLASS_DEFAULT CYCLES_STMDA ERRORS_DEFAULT,
    instr 0x82B ''STMDA w'' CLASS_DEFAULT CYCLES_STMDA ERRORS_DEFAULT,
    instr 0x82C ''STMDA w'' CLASS_DEFAULT CYCLES_STMDA ERRORS_DEFAULT,
    instr 0x82D ''STMDA w'' CLASS_DEFAULT CYCLES_STMDA ERRORS_DEFAULT,
    instr 0x82E ''STMDA w'' CLASS_DEFAULT CYCLES_STMDA ERRORS_DEFAULT,
    instr 0x82F ''STMDA w'' CLASS_DEFAULT CYCLES_STMDA ERRORS_DEFAULT,
    instr 0x830 ''LDMDA w'' CLASS_DEFAULT CYCLES_LDMDA ERRORS_DEFAULT,
    instr 0x831 ''LDMDA w'' CLASS_DEFAULT CYCLES_LDMDA ERRORS_DEFAULT,
    instr 0x832 ''LDMDA w'' CLASS_DEFAULT CYCLES_LDMDA ERRORS_DEFAULT,
    instr 0x833 ''LDMDA w'' CLASS_DEFAULT CYCLES_LDMDA ERRORS_DEFAULT,
    instr 0x834 ''LDMDA w'' CLASS_DEFAULT CYCLES_LDMDA ERRORS_DEFAULT,
    instr 0x835 ''LDMDA w'' CLASS_DEFAULT CYCLES_LDMDA ERRORS_DEFAULT,
    instr 0x836 ''LDMDA w'' CLASS_DEFAULT CYCLES_LDMDA ERRORS_DEFAULT,
    instr 0x837 ''LDMDA w'' CLASS_DEFAULT CYCLES_LDMDA ERRORS_DEFAULT,
    instr 0x838 ''LDMDA w'' CLASS_DEFAULT CYCLES_LDMDA ERRORS_DEFAULT,
    instr 0x839 ''LDMDA w'' CLASS_DEFAULT CYCLES_LDMDA ERRORS_DEFAULT,
    instr 0x83A ''LDMDA w'' CLASS_DEFAULT CYCLES_LDMDA ERRORS_DEFAULT,
    instr 0x83B ''LDMDA w'' CLASS_DEFAULT CYCLES_LDMDA ERRORS_DEFAULT,
    instr 0x83C ''LDMDA w'' CLASS_DEFAULT CYCLES_LDMDA ERRORS_DEFAULT,
    instr 0x83D ''LDMDA w'' CLASS_DEFAULT CYCLES_LDMDA ERRORS_DEFAULT,
    instr 0x83E ''LDMDA w'' CLASS_DEFAULT CYCLES_LDMDA ERRORS_DEFAULT,
    instr 0x83F ''LDMDA w'' CLASS_DEFAULT CYCLES_LDMDA ERRORS_DEFAULT,
    instr 0x840 ''STMDA u'' CLASS_DEFAULT CYCLES_STMDA ERRORS_DEFAULT,
    instr 0x841 ''STMDA u'' CLASS_DEFAULT CYCLES_STMDA ERRORS_DEFAULT,
    instr 0x842 ''STMDA u'' CLASS_DEFAULT CYCLES_STMDA ERRORS_DEFAULT,
    instr 0x843 ''STMDA u'' CLASS_DEFAULT CYCLES_STMDA ERRORS_DEFAULT,
    instr 0x844 ''STMDA u'' CLASS_DEFAULT CYCLES_STMDA ERRORS_DEFAULT,
    instr 0x845 ''STMDA u'' CLASS_DEFAULT CYCLES_STMDA ERRORS_DEFAULT,
    instr 0x846 ''STMDA u'' CLASS_DEFAULT CYCLES_STMDA ERRORS_DEFAULT,
    instr 0x847 ''STMDA u'' CLASS_DEFAULT CYCLES_STMDA ERRORS_DEFAULT,
    instr 0x848 ''STMDA u'' CLASS_DEFAULT CYCLES_STMDA ERRORS_DEFAULT,
    instr 0x849 ''STMDA u'' CLASS_DEFAULT CYCLES_STMDA ERRORS_DEFAULT,
    instr 0x84A ''STMDA u'' CLASS_DEFAULT CYCLES_STMDA ERRORS_DEFAULT,
    instr 0x84B ''STMDA u'' CLASS_DEFAULT CYCLES_STMDA ERRORS_DEFAULT,
    instr 0x84C ''STMDA u'' CLASS_DEFAULT CYCLES_STMDA ERRORS_DEFAULT,
    instr 0x84D ''STMDA u'' CLASS_DEFAULT CYCLES_STMDA ERRORS_DEFAULT,
    instr 0x84E ''STMDA u'' CLASS_DEFAULT CYCLES_STMDA ERRORS_DEFAULT,
    instr 0x84F ''STMDA u'' CLASS_DEFAULT CYCLES_STMDA ERRORS_DEFAULT,
    instr 0x850 ''LDMDA u'' CLASS_DEFAULT CYCLES_LDMDA ERRORS_DEFAULT,
    instr 0x851 ''LDMDA u'' CLASS_DEFAULT CYCLES_LDMDA ERRORS_DEFAULT,
    instr 0x852 ''LDMDA u'' CLASS_DEFAULT CYCLES_LDMDA ERRORS_DEFAULT,
    instr 0x853 ''LDMDA u'' CLASS_DEFAULT CYCLES_LDMDA ERRORS_DEFAULT,
    instr 0x854 ''LDMDA u'' CLASS_DEFAULT CYCLES_LDMDA ERRORS_DEFAULT,
    instr 0x855 ''LDMDA u'' CLASS_DEFAULT CYCLES_LDMDA ERRORS_DEFAULT,
    instr 0x856 ''LDMDA u'' CLASS_DEFAULT CYCLES_LDMDA ERRORS_DEFAULT,
    instr 0x857 ''LDMDA u'' CLASS_DEFAULT CYCLES_LDMDA ERRORS_DEFAULT,
    instr 0x858 ''LDMDA u'' CLASS_DEFAULT CYCLES_LDMDA ERRORS_DEFAULT,
    instr 0x859 ''LDMDA u'' CLASS_DEFAULT CYCLES_LDMDA ERRORS_DEFAULT,
    instr 0x85A ''LDMDA u'' CLASS_DEFAULT CYCLES_LDMDA ERRORS_DEFAULT,
    instr 0x85B ''LDMDA u'' CLASS_DEFAULT CYCLES_LDMDA ERRORS_DEFAULT,
    instr 0x85C ''LDMDA u'' CLASS_DEFAULT CYCLES_LDMDA ERRORS_DEFAULT,
    instr 0x85D ''LDMDA u'' CLASS_DEFAULT CYCLES_LDMDA ERRORS_DEFAULT,
    instr 0x85E ''LDMDA u'' CLASS_DEFAULT CYCLES_LDMDA ERRORS_DEFAULT,
    instr 0x85F ''LDMDA u'' CLASS_DEFAULT CYCLES_LDMDA ERRORS_DEFAULT,
    instr 0x860 ''STMDA uw'' CLASS_DEFAULT CYCLES_STMDA ERRORS_DEFAULT,
    instr 0x861 ''STMDA uw'' CLASS_DEFAULT CYCLES_STMDA ERRORS_DEFAULT,
    instr 0x862 ''STMDA uw'' CLASS_DEFAULT CYCLES_STMDA ERRORS_DEFAULT,
    instr 0x863 ''STMDA uw'' CLASS_DEFAULT CYCLES_STMDA ERRORS_DEFAULT,
    instr 0x864 ''STMDA uw'' CLASS_DEFAULT CYCLES_STMDA ERRORS_DEFAULT,
    instr 0x865 ''STMDA uw'' CLASS_DEFAULT CYCLES_STMDA ERRORS_DEFAULT,
    instr 0x866 ''STMDA uw'' CLASS_DEFAULT CYCLES_STMDA ERRORS_DEFAULT,
    instr 0x867 ''STMDA uw'' CLASS_DEFAULT CYCLES_STMDA ERRORS_DEFAULT,
    instr 0x868 ''STMDA uw'' CLASS_DEFAULT CYCLES_STMDA ERRORS_DEFAULT,
    instr 0x869 ''STMDA uw'' CLASS_DEFAULT CYCLES_STMDA ERRORS_DEFAULT,
    instr 0x86A ''STMDA uw'' CLASS_DEFAULT CYCLES_STMDA ERRORS_DEFAULT,
    instr 0x86B ''STMDA uw'' CLASS_DEFAULT CYCLES_STMDA ERRORS_DEFAULT,
    instr 0x86C ''STMDA uw'' CLASS_DEFAULT CYCLES_STMDA ERRORS_DEFAULT,
    instr 0x86D ''STMDA uw'' CLASS_DEFAULT CYCLES_STMDA ERRORS_DEFAULT,
    instr 0x86E ''STMDA uw'' CLASS_DEFAULT CYCLES_STMDA ERRORS_DEFAULT,
    instr 0x86F ''STMDA uw'' CLASS_DEFAULT CYCLES_STMDA ERRORS_DEFAULT,
    instr 0x870 ''LDMDA uw'' CLASS_DEFAULT CYCLES_LDMDA ERRORS_DEFAULT,
    instr 0x871 ''LDMDA uw'' CLASS_DEFAULT CYCLES_LDMDA ERRORS_DEFAULT,
    instr 0x872 ''LDMDA uw'' CLASS_DEFAULT CYCLES_LDMDA ERRORS_DEFAULT,
    instr 0x873 ''LDMDA uw'' CLASS_DEFAULT CYCLES_LDMDA ERRORS_DEFAULT,
    instr 0x874 ''LDMDA uw'' CLASS_DEFAULT CYCLES_LDMDA ERRORS_DEFAULT,
    instr 0x875 ''LDMDA uw'' CLASS_DEFAULT CYCLES_LDMDA ERRORS_DEFAULT,
    instr 0x876 ''LDMDA uw'' CLASS_DEFAULT CYCLES_LDMDA ERRORS_DEFAULT,
    instr 0x877 ''LDMDA uw'' CLASS_DEFAULT CYCLES_LDMDA ERRORS_DEFAULT,
    instr 0x878 ''LDMDA uw'' CLASS_DEFAULT CYCLES_LDMDA ERRORS_DEFAULT,
    instr 0x879 ''LDMDA uw'' CLASS_DEFAULT CYCLES_LDMDA ERRORS_DEFAULT,
    instr 0x87A ''LDMDA uw'' CLASS_DEFAULT CYCLES_LDMDA ERRORS_DEFAULT,
    instr 0x87B ''LDMDA uw'' CLASS_DEFAULT CYCLES_LDMDA ERRORS_DEFAULT,
    instr 0x87C ''LDMDA uw'' CLASS_DEFAULT CYCLES_LDMDA ERRORS_DEFAULT,
    instr 0x87D ''LDMDA uw'' CLASS_DEFAULT CYCLES_LDMDA ERRORS_DEFAULT,
    instr 0x87E ''LDMDA uw'' CLASS_DEFAULT CYCLES_LDMDA ERRORS_DEFAULT,
    instr 0x87F ''LDMDA uw'' CLASS_DEFAULT CYCLES_LDMDA ERRORS_DEFAULT]"

definition vemu_arm_instr_17 :: "vemu_instr_info list" where
  "vemu_arm_instr_17 = [
    instr 0x880 ''STMIA'' CLASS_DEFAULT CYCLES_STMIA ERRORS_DEFAULT,
    instr 0x881 ''STMIA'' CLASS_DEFAULT CYCLES_STMIA ERRORS_DEFAULT,
    instr 0x882 ''STMIA'' CLASS_DEFAULT CYCLES_STMIA ERRORS_DEFAULT,
    instr 0x883 ''STMIA'' CLASS_DEFAULT CYCLES_STMIA ERRORS_DEFAULT,
    instr 0x884 ''STMIA'' CLASS_DEFAULT CYCLES_STMIA ERRORS_DEFAULT,
    instr 0x885 ''STMIA'' CLASS_DEFAULT CYCLES_STMIA ERRORS_DEFAULT,
    instr 0x886 ''STMIA'' CLASS_DEFAULT CYCLES_STMIA ERRORS_DEFAULT,
    instr 0x887 ''STMIA'' CLASS_DEFAULT CYCLES_STMIA ERRORS_DEFAULT,
    instr 0x888 ''STMIA'' CLASS_DEFAULT CYCLES_STMIA ERRORS_DEFAULT,
    instr 0x889 ''STMIA'' CLASS_DEFAULT CYCLES_STMIA ERRORS_DEFAULT,
    instr 0x88A ''STMIA'' CLASS_DEFAULT CYCLES_STMIA ERRORS_DEFAULT,
    instr 0x88B ''STMIA'' CLASS_DEFAULT CYCLES_STMIA ERRORS_DEFAULT,
    instr 0x88C ''STMIA'' CLASS_DEFAULT CYCLES_STMIA ERRORS_DEFAULT,
    instr 0x88D ''STMIA'' CLASS_DEFAULT CYCLES_STMIA ERRORS_DEFAULT,
    instr 0x88E ''STMIA'' CLASS_DEFAULT CYCLES_STMIA ERRORS_DEFAULT,
    instr 0x88F ''STMIA'' CLASS_DEFAULT CYCLES_STMIA ERRORS_DEFAULT,
    instr 0x890 ''LDMIA'' CLASS_DEFAULT CYCLES_LDMIA ERRORS_DEFAULT,
    instr 0x891 ''LDMIA'' CLASS_DEFAULT CYCLES_LDMIA ERRORS_DEFAULT,
    instr 0x892 ''LDMIA'' CLASS_DEFAULT CYCLES_LDMIA ERRORS_DEFAULT,
    instr 0x893 ''LDMIA'' CLASS_DEFAULT CYCLES_LDMIA ERRORS_DEFAULT,
    instr 0x894 ''LDMIA'' CLASS_DEFAULT CYCLES_LDMIA ERRORS_DEFAULT,
    instr 0x895 ''LDMIA'' CLASS_DEFAULT CYCLES_LDMIA ERRORS_DEFAULT,
    instr 0x896 ''LDMIA'' CLASS_DEFAULT CYCLES_LDMIA ERRORS_DEFAULT,
    instr 0x897 ''LDMIA'' CLASS_DEFAULT CYCLES_LDMIA ERRORS_DEFAULT,
    instr 0x898 ''LDMIA'' CLASS_DEFAULT CYCLES_LDMIA ERRORS_DEFAULT,
    instr 0x899 ''LDMIA'' CLASS_DEFAULT CYCLES_LDMIA ERRORS_DEFAULT,
    instr 0x89A ''LDMIA'' CLASS_DEFAULT CYCLES_LDMIA ERRORS_DEFAULT,
    instr 0x89B ''LDMIA'' CLASS_DEFAULT CYCLES_LDMIA ERRORS_DEFAULT,
    instr 0x89C ''LDMIA'' CLASS_DEFAULT CYCLES_LDMIA ERRORS_DEFAULT,
    instr 0x89D ''LDMIA'' CLASS_DEFAULT CYCLES_LDMIA ERRORS_DEFAULT,
    instr 0x89E ''LDMIA'' CLASS_DEFAULT CYCLES_LDMIA ERRORS_DEFAULT,
    instr 0x89F ''LDMIA'' CLASS_DEFAULT CYCLES_LDMIA ERRORS_DEFAULT,
    instr 0x8A0 ''STMIA w'' CLASS_DEFAULT CYCLES_STMIA ERRORS_DEFAULT,
    instr 0x8A1 ''STMIA w'' CLASS_DEFAULT CYCLES_STMIA ERRORS_DEFAULT,
    instr 0x8A2 ''STMIA w'' CLASS_DEFAULT CYCLES_STMIA ERRORS_DEFAULT,
    instr 0x8A3 ''STMIA w'' CLASS_DEFAULT CYCLES_STMIA ERRORS_DEFAULT,
    instr 0x8A4 ''STMIA w'' CLASS_DEFAULT CYCLES_STMIA ERRORS_DEFAULT,
    instr 0x8A5 ''STMIA w'' CLASS_DEFAULT CYCLES_STMIA ERRORS_DEFAULT,
    instr 0x8A6 ''STMIA w'' CLASS_DEFAULT CYCLES_STMIA ERRORS_DEFAULT,
    instr 0x8A7 ''STMIA w'' CLASS_DEFAULT CYCLES_STMIA ERRORS_DEFAULT,
    instr 0x8A8 ''STMIA w'' CLASS_DEFAULT CYCLES_STMIA ERRORS_DEFAULT,
    instr 0x8A9 ''STMIA w'' CLASS_DEFAULT CYCLES_STMIA ERRORS_DEFAULT,
    instr 0x8AA ''STMIA w'' CLASS_DEFAULT CYCLES_STMIA ERRORS_DEFAULT,
    instr 0x8AB ''STMIA w'' CLASS_DEFAULT CYCLES_STMIA ERRORS_DEFAULT,
    instr 0x8AC ''STMIA w'' CLASS_DEFAULT CYCLES_STMIA ERRORS_DEFAULT,
    instr 0x8AD ''STMIA w'' CLASS_DEFAULT CYCLES_STMIA ERRORS_DEFAULT,
    instr 0x8AE ''STMIA w'' CLASS_DEFAULT CYCLES_STMIA ERRORS_DEFAULT,
    instr 0x8AF ''STMIA w'' CLASS_DEFAULT CYCLES_STMIA ERRORS_DEFAULT,
    instr 0x8B0 ''LDMIA w'' CLASS_DEFAULT CYCLES_LDMIA ERRORS_DEFAULT,
    instr 0x8B1 ''LDMIA w'' CLASS_DEFAULT CYCLES_LDMIA ERRORS_DEFAULT,
    instr 0x8B2 ''LDMIA w'' CLASS_DEFAULT CYCLES_LDMIA ERRORS_DEFAULT,
    instr 0x8B3 ''LDMIA w'' CLASS_DEFAULT CYCLES_LDMIA ERRORS_DEFAULT,
    instr 0x8B4 ''LDMIA w'' CLASS_DEFAULT CYCLES_LDMIA ERRORS_DEFAULT,
    instr 0x8B5 ''LDMIA w'' CLASS_DEFAULT CYCLES_LDMIA ERRORS_DEFAULT,
    instr 0x8B6 ''LDMIA w'' CLASS_DEFAULT CYCLES_LDMIA ERRORS_DEFAULT,
    instr 0x8B7 ''LDMIA w'' CLASS_DEFAULT CYCLES_LDMIA ERRORS_DEFAULT,
    instr 0x8B8 ''LDMIA w'' CLASS_DEFAULT CYCLES_LDMIA ERRORS_DEFAULT,
    instr 0x8B9 ''LDMIA w'' CLASS_DEFAULT CYCLES_LDMIA ERRORS_DEFAULT,
    instr 0x8BA ''LDMIA w'' CLASS_DEFAULT CYCLES_LDMIA ERRORS_DEFAULT,
    instr 0x8BB ''LDMIA w'' CLASS_DEFAULT CYCLES_LDMIA ERRORS_DEFAULT,
    instr 0x8BC ''LDMIA w'' CLASS_DEFAULT CYCLES_LDMIA ERRORS_DEFAULT,
    instr 0x8BD ''LDMIA w'' CLASS_DEFAULT CYCLES_LDMIA ERRORS_DEFAULT,
    instr 0x8BE ''LDMIA w'' CLASS_DEFAULT CYCLES_LDMIA ERRORS_DEFAULT,
    instr 0x8BF ''LDMIA w'' CLASS_DEFAULT CYCLES_LDMIA ERRORS_DEFAULT,
    instr 0x8C0 ''STMIA u'' CLASS_DEFAULT CYCLES_STMIA ERRORS_DEFAULT,
    instr 0x8C1 ''STMIA u'' CLASS_DEFAULT CYCLES_STMIA ERRORS_DEFAULT,
    instr 0x8C2 ''STMIA u'' CLASS_DEFAULT CYCLES_STMIA ERRORS_DEFAULT,
    instr 0x8C3 ''STMIA u'' CLASS_DEFAULT CYCLES_STMIA ERRORS_DEFAULT,
    instr 0x8C4 ''STMIA u'' CLASS_DEFAULT CYCLES_STMIA ERRORS_DEFAULT,
    instr 0x8C5 ''STMIA u'' CLASS_DEFAULT CYCLES_STMIA ERRORS_DEFAULT,
    instr 0x8C6 ''STMIA u'' CLASS_DEFAULT CYCLES_STMIA ERRORS_DEFAULT,
    instr 0x8C7 ''STMIA u'' CLASS_DEFAULT CYCLES_STMIA ERRORS_DEFAULT,
    instr 0x8C8 ''STMIA u'' CLASS_DEFAULT CYCLES_STMIA ERRORS_DEFAULT,
    instr 0x8C9 ''STMIA u'' CLASS_DEFAULT CYCLES_STMIA ERRORS_DEFAULT,
    instr 0x8CA ''STMIA u'' CLASS_DEFAULT CYCLES_STMIA ERRORS_DEFAULT,
    instr 0x8CB ''STMIA u'' CLASS_DEFAULT CYCLES_STMIA ERRORS_DEFAULT,
    instr 0x8CC ''STMIA u'' CLASS_DEFAULT CYCLES_STMIA ERRORS_DEFAULT,
    instr 0x8CD ''STMIA u'' CLASS_DEFAULT CYCLES_STMIA ERRORS_DEFAULT,
    instr 0x8CE ''STMIA u'' CLASS_DEFAULT CYCLES_STMIA ERRORS_DEFAULT,
    instr 0x8CF ''STMIA u'' CLASS_DEFAULT CYCLES_STMIA ERRORS_DEFAULT,
    instr 0x8D0 ''LDMIA u'' CLASS_DEFAULT CYCLES_LDMIA ERRORS_DEFAULT,
    instr 0x8D1 ''LDMIA u'' CLASS_DEFAULT CYCLES_LDMIA ERRORS_DEFAULT,
    instr 0x8D2 ''LDMIA u'' CLASS_DEFAULT CYCLES_LDMIA ERRORS_DEFAULT,
    instr 0x8D3 ''LDMIA u'' CLASS_DEFAULT CYCLES_LDMIA ERRORS_DEFAULT,
    instr 0x8D4 ''LDMIA u'' CLASS_DEFAULT CYCLES_LDMIA ERRORS_DEFAULT,
    instr 0x8D5 ''LDMIA u'' CLASS_DEFAULT CYCLES_LDMIA ERRORS_DEFAULT,
    instr 0x8D6 ''LDMIA u'' CLASS_DEFAULT CYCLES_LDMIA ERRORS_DEFAULT,
    instr 0x8D7 ''LDMIA u'' CLASS_DEFAULT CYCLES_LDMIA ERRORS_DEFAULT,
    instr 0x8D8 ''LDMIA u'' CLASS_DEFAULT CYCLES_LDMIA ERRORS_DEFAULT,
    instr 0x8D9 ''LDMIA u'' CLASS_DEFAULT CYCLES_LDMIA ERRORS_DEFAULT,
    instr 0x8DA ''LDMIA u'' CLASS_DEFAULT CYCLES_LDMIA ERRORS_DEFAULT,
    instr 0x8DB ''LDMIA u'' CLASS_DEFAULT CYCLES_LDMIA ERRORS_DEFAULT,
    instr 0x8DC ''LDMIA u'' CLASS_DEFAULT CYCLES_LDMIA ERRORS_DEFAULT,
    instr 0x8DD ''LDMIA u'' CLASS_DEFAULT CYCLES_LDMIA ERRORS_DEFAULT,
    instr 0x8DE ''LDMIA u'' CLASS_DEFAULT CYCLES_LDMIA ERRORS_DEFAULT,
    instr 0x8DF ''LDMIA u'' CLASS_DEFAULT CYCLES_LDMIA ERRORS_DEFAULT,
    instr 0x8E0 ''STMIA uw'' CLASS_DEFAULT CYCLES_STMIA ERRORS_DEFAULT,
    instr 0x8E1 ''STMIA uw'' CLASS_DEFAULT CYCLES_STMIA ERRORS_DEFAULT,
    instr 0x8E2 ''STMIA uw'' CLASS_DEFAULT CYCLES_STMIA ERRORS_DEFAULT,
    instr 0x8E3 ''STMIA uw'' CLASS_DEFAULT CYCLES_STMIA ERRORS_DEFAULT,
    instr 0x8E4 ''STMIA uw'' CLASS_DEFAULT CYCLES_STMIA ERRORS_DEFAULT,
    instr 0x8E5 ''STMIA uw'' CLASS_DEFAULT CYCLES_STMIA ERRORS_DEFAULT,
    instr 0x8E6 ''STMIA uw'' CLASS_DEFAULT CYCLES_STMIA ERRORS_DEFAULT,
    instr 0x8E7 ''STMIA uw'' CLASS_DEFAULT CYCLES_STMIA ERRORS_DEFAULT,
    instr 0x8E8 ''STMIA uw'' CLASS_DEFAULT CYCLES_STMIA ERRORS_DEFAULT,
    instr 0x8E9 ''STMIA uw'' CLASS_DEFAULT CYCLES_STMIA ERRORS_DEFAULT,
    instr 0x8EA ''STMIA uw'' CLASS_DEFAULT CYCLES_STMIA ERRORS_DEFAULT,
    instr 0x8EB ''STMIA uw'' CLASS_DEFAULT CYCLES_STMIA ERRORS_DEFAULT,
    instr 0x8EC ''STMIA uw'' CLASS_DEFAULT CYCLES_STMIA ERRORS_DEFAULT,
    instr 0x8ED ''STMIA uw'' CLASS_DEFAULT CYCLES_STMIA ERRORS_DEFAULT,
    instr 0x8EE ''STMIA uw'' CLASS_DEFAULT CYCLES_STMIA ERRORS_DEFAULT,
    instr 0x8EF ''STMIA uw'' CLASS_DEFAULT CYCLES_STMIA ERRORS_DEFAULT,
    instr 0x8F0 ''LDMIA uw'' CLASS_DEFAULT CYCLES_LDMIA ERRORS_DEFAULT,
    instr 0x8F1 ''LDMIA uw'' CLASS_DEFAULT CYCLES_LDMIA ERRORS_DEFAULT,
    instr 0x8F2 ''LDMIA uw'' CLASS_DEFAULT CYCLES_LDMIA ERRORS_DEFAULT,
    instr 0x8F3 ''LDMIA uw'' CLASS_DEFAULT CYCLES_LDMIA ERRORS_DEFAULT,
    instr 0x8F4 ''LDMIA uw'' CLASS_DEFAULT CYCLES_LDMIA ERRORS_DEFAULT,
    instr 0x8F5 ''LDMIA uw'' CLASS_DEFAULT CYCLES_LDMIA ERRORS_DEFAULT,
    instr 0x8F6 ''LDMIA uw'' CLASS_DEFAULT CYCLES_LDMIA ERRORS_DEFAULT,
    instr 0x8F7 ''LDMIA uw'' CLASS_DEFAULT CYCLES_LDMIA ERRORS_DEFAULT,
    instr 0x8F8 ''LDMIA uw'' CLASS_DEFAULT CYCLES_LDMIA ERRORS_DEFAULT,
    instr 0x8F9 ''LDMIA uw'' CLASS_DEFAULT CYCLES_LDMIA ERRORS_DEFAULT,
    instr 0x8FA ''LDMIA uw'' CLASS_DEFAULT CYCLES_LDMIA ERRORS_DEFAULT,
    instr 0x8FB ''LDMIA uw'' CLASS_DEFAULT CYCLES_LDMIA ERRORS_DEFAULT,
    instr 0x8FC ''LDMIA uw'' CLASS_DEFAULT CYCLES_LDMIA ERRORS_DEFAULT,
    instr 0x8FD ''LDMIA uw'' CLASS_DEFAULT CYCLES_LDMIA ERRORS_DEFAULT,
    instr 0x8FE ''LDMIA uw'' CLASS_DEFAULT CYCLES_LDMIA ERRORS_DEFAULT,
    instr 0x8FF ''LDMIA uw'' CLASS_DEFAULT CYCLES_LDMIA ERRORS_DEFAULT]"

definition vemu_arm_instr_18 :: "vemu_instr_info list" where
  "vemu_arm_instr_18 = [
    instr 0x900 ''STMDB'' CLASS_DEFAULT CYCLES_STMDB ERRORS_DEFAULT,
    instr 0x901 ''STMDB'' CLASS_DEFAULT CYCLES_STMDB ERRORS_DEFAULT,
    instr 0x902 ''STMDB'' CLASS_DEFAULT CYCLES_STMDB ERRORS_DEFAULT,
    instr 0x903 ''STMDB'' CLASS_DEFAULT CYCLES_STMDB ERRORS_DEFAULT,
    instr 0x904 ''STMDB'' CLASS_DEFAULT CYCLES_STMDB ERRORS_DEFAULT,
    instr 0x905 ''STMDB'' CLASS_DEFAULT CYCLES_STMDB ERRORS_DEFAULT,
    instr 0x906 ''STMDB'' CLASS_DEFAULT CYCLES_STMDB ERRORS_DEFAULT,
    instr 0x907 ''STMDB'' CLASS_DEFAULT CYCLES_STMDB ERRORS_DEFAULT,
    instr 0x908 ''STMDB'' CLASS_DEFAULT CYCLES_STMDB ERRORS_DEFAULT,
    instr 0x909 ''STMDB'' CLASS_DEFAULT CYCLES_STMDB ERRORS_DEFAULT,
    instr 0x90A ''STMDB'' CLASS_DEFAULT CYCLES_STMDB ERRORS_DEFAULT,
    instr 0x90B ''STMDB'' CLASS_DEFAULT CYCLES_STMDB ERRORS_DEFAULT,
    instr 0x90C ''STMDB'' CLASS_DEFAULT CYCLES_STMDB ERRORS_DEFAULT,
    instr 0x90D ''STMDB'' CLASS_DEFAULT CYCLES_STMDB ERRORS_DEFAULT,
    instr 0x90E ''STMDB'' CLASS_DEFAULT CYCLES_STMDB ERRORS_DEFAULT,
    instr 0x90F ''STMDB'' CLASS_DEFAULT CYCLES_STMDB ERRORS_DEFAULT,
    instr 0x910 ''LDMDB'' CLASS_DEFAULT CYCLES_LDMDB ERRORS_DEFAULT,
    instr 0x911 ''LDMDB'' CLASS_DEFAULT CYCLES_LDMDB ERRORS_DEFAULT,
    instr 0x912 ''LDMDB'' CLASS_DEFAULT CYCLES_LDMDB ERRORS_DEFAULT,
    instr 0x913 ''LDMDB'' CLASS_DEFAULT CYCLES_LDMDB ERRORS_DEFAULT,
    instr 0x914 ''LDMDB'' CLASS_DEFAULT CYCLES_LDMDB ERRORS_DEFAULT,
    instr 0x915 ''LDMDB'' CLASS_DEFAULT CYCLES_LDMDB ERRORS_DEFAULT,
    instr 0x916 ''LDMDB'' CLASS_DEFAULT CYCLES_LDMDB ERRORS_DEFAULT,
    instr 0x917 ''LDMDB'' CLASS_DEFAULT CYCLES_LDMDB ERRORS_DEFAULT,
    instr 0x918 ''LDMDB'' CLASS_DEFAULT CYCLES_LDMDB ERRORS_DEFAULT,
    instr 0x919 ''LDMDB'' CLASS_DEFAULT CYCLES_LDMDB ERRORS_DEFAULT,
    instr 0x91A ''LDMDB'' CLASS_DEFAULT CYCLES_LDMDB ERRORS_DEFAULT,
    instr 0x91B ''LDMDB'' CLASS_DEFAULT CYCLES_LDMDB ERRORS_DEFAULT,
    instr 0x91C ''LDMDB'' CLASS_DEFAULT CYCLES_LDMDB ERRORS_DEFAULT,
    instr 0x91D ''LDMDB'' CLASS_DEFAULT CYCLES_LDMDB ERRORS_DEFAULT,
    instr 0x91E ''LDMDB'' CLASS_DEFAULT CYCLES_LDMDB ERRORS_DEFAULT,
    instr 0x91F ''LDMDB'' CLASS_DEFAULT CYCLES_LDMDB ERRORS_DEFAULT,
    instr 0x920 ''STMDB w'' CLASS_DEFAULT CYCLES_STMDB ERRORS_DEFAULT,
    instr 0x921 ''STMDB w'' CLASS_DEFAULT CYCLES_STMDB ERRORS_DEFAULT,
    instr 0x922 ''STMDB w'' CLASS_DEFAULT CYCLES_STMDB ERRORS_DEFAULT,
    instr 0x923 ''STMDB w'' CLASS_DEFAULT CYCLES_STMDB ERRORS_DEFAULT,
    instr 0x924 ''STMDB w'' CLASS_DEFAULT CYCLES_STMDB ERRORS_DEFAULT,
    instr 0x925 ''STMDB w'' CLASS_DEFAULT CYCLES_STMDB ERRORS_DEFAULT,
    instr 0x926 ''STMDB w'' CLASS_DEFAULT CYCLES_STMDB ERRORS_DEFAULT,
    instr 0x927 ''STMDB w'' CLASS_DEFAULT CYCLES_STMDB ERRORS_DEFAULT,
    instr 0x928 ''STMDB w'' CLASS_DEFAULT CYCLES_STMDB ERRORS_DEFAULT,
    instr 0x929 ''STMDB w'' CLASS_DEFAULT CYCLES_STMDB ERRORS_DEFAULT,
    instr 0x92A ''STMDB w'' CLASS_DEFAULT CYCLES_STMDB ERRORS_DEFAULT,
    instr 0x92B ''STMDB w'' CLASS_DEFAULT CYCLES_STMDB ERRORS_DEFAULT,
    instr 0x92C ''STMDB w'' CLASS_DEFAULT CYCLES_STMDB ERRORS_DEFAULT,
    instr 0x92D ''STMDB w'' CLASS_DEFAULT CYCLES_STMDB ERRORS_DEFAULT,
    instr 0x92E ''STMDB w'' CLASS_DEFAULT CYCLES_STMDB ERRORS_DEFAULT,
    instr 0x92F ''STMDB w'' CLASS_DEFAULT CYCLES_STMDB ERRORS_DEFAULT,
    instr 0x930 ''LDMDB w'' CLASS_DEFAULT CYCLES_LDMDB ERRORS_DEFAULT,
    instr 0x931 ''LDMDB w'' CLASS_DEFAULT CYCLES_LDMDB ERRORS_DEFAULT,
    instr 0x932 ''LDMDB w'' CLASS_DEFAULT CYCLES_LDMDB ERRORS_DEFAULT,
    instr 0x933 ''LDMDB w'' CLASS_DEFAULT CYCLES_LDMDB ERRORS_DEFAULT,
    instr 0x934 ''LDMDB w'' CLASS_DEFAULT CYCLES_LDMDB ERRORS_DEFAULT,
    instr 0x935 ''LDMDB w'' CLASS_DEFAULT CYCLES_LDMDB ERRORS_DEFAULT,
    instr 0x936 ''LDMDB w'' CLASS_DEFAULT CYCLES_LDMDB ERRORS_DEFAULT,
    instr 0x937 ''LDMDB w'' CLASS_DEFAULT CYCLES_LDMDB ERRORS_DEFAULT,
    instr 0x938 ''LDMDB w'' CLASS_DEFAULT CYCLES_LDMDB ERRORS_DEFAULT,
    instr 0x939 ''LDMDB w'' CLASS_DEFAULT CYCLES_LDMDB ERRORS_DEFAULT,
    instr 0x93A ''LDMDB w'' CLASS_DEFAULT CYCLES_LDMDB ERRORS_DEFAULT,
    instr 0x93B ''LDMDB w'' CLASS_DEFAULT CYCLES_LDMDB ERRORS_DEFAULT,
    instr 0x93C ''LDMDB w'' CLASS_DEFAULT CYCLES_LDMDB ERRORS_DEFAULT,
    instr 0x93D ''LDMDB w'' CLASS_DEFAULT CYCLES_LDMDB ERRORS_DEFAULT,
    instr 0x93E ''LDMDB w'' CLASS_DEFAULT CYCLES_LDMDB ERRORS_DEFAULT,
    instr 0x93F ''LDMDB w'' CLASS_DEFAULT CYCLES_LDMDB ERRORS_DEFAULT,
    instr 0x940 ''STMDB u'' CLASS_DEFAULT CYCLES_STMDB ERRORS_DEFAULT,
    instr 0x941 ''STMDB u'' CLASS_DEFAULT CYCLES_STMDB ERRORS_DEFAULT,
    instr 0x942 ''STMDB u'' CLASS_DEFAULT CYCLES_STMDB ERRORS_DEFAULT,
    instr 0x943 ''STMDB u'' CLASS_DEFAULT CYCLES_STMDB ERRORS_DEFAULT,
    instr 0x944 ''STMDB u'' CLASS_DEFAULT CYCLES_STMDB ERRORS_DEFAULT,
    instr 0x945 ''STMDB u'' CLASS_DEFAULT CYCLES_STMDB ERRORS_DEFAULT,
    instr 0x946 ''STMDB u'' CLASS_DEFAULT CYCLES_STMDB ERRORS_DEFAULT,
    instr 0x947 ''STMDB u'' CLASS_DEFAULT CYCLES_STMDB ERRORS_DEFAULT,
    instr 0x948 ''STMDB u'' CLASS_DEFAULT CYCLES_STMDB ERRORS_DEFAULT,
    instr 0x949 ''STMDB u'' CLASS_DEFAULT CYCLES_STMDB ERRORS_DEFAULT,
    instr 0x94A ''STMDB u'' CLASS_DEFAULT CYCLES_STMDB ERRORS_DEFAULT,
    instr 0x94B ''STMDB u'' CLASS_DEFAULT CYCLES_STMDB ERRORS_DEFAULT,
    instr 0x94C ''STMDB u'' CLASS_DEFAULT CYCLES_STMDB ERRORS_DEFAULT,
    instr 0x94D ''STMDB u'' CLASS_DEFAULT CYCLES_STMDB ERRORS_DEFAULT,
    instr 0x94E ''STMDB u'' CLASS_DEFAULT CYCLES_STMDB ERRORS_DEFAULT,
    instr 0x94F ''STMDB u'' CLASS_DEFAULT CYCLES_STMDB ERRORS_DEFAULT,
    instr 0x950 ''LDMDB u'' CLASS_DEFAULT CYCLES_LDMDB ERRORS_DEFAULT,
    instr 0x951 ''LDMDB u'' CLASS_DEFAULT CYCLES_LDMDB ERRORS_DEFAULT,
    instr 0x952 ''LDMDB u'' CLASS_DEFAULT CYCLES_LDMDB ERRORS_DEFAULT,
    instr 0x953 ''LDMDB u'' CLASS_DEFAULT CYCLES_LDMDB ERRORS_DEFAULT,
    instr 0x954 ''LDMDB u'' CLASS_DEFAULT CYCLES_LDMDB ERRORS_DEFAULT,
    instr 0x955 ''LDMDB u'' CLASS_DEFAULT CYCLES_LDMDB ERRORS_DEFAULT,
    instr 0x956 ''LDMDB u'' CLASS_DEFAULT CYCLES_LDMDB ERRORS_DEFAULT,
    instr 0x957 ''LDMDB u'' CLASS_DEFAULT CYCLES_LDMDB ERRORS_DEFAULT,
    instr 0x958 ''LDMDB u'' CLASS_DEFAULT CYCLES_LDMDB ERRORS_DEFAULT,
    instr 0x959 ''LDMDB u'' CLASS_DEFAULT CYCLES_LDMDB ERRORS_DEFAULT,
    instr 0x95A ''LDMDB u'' CLASS_DEFAULT CYCLES_LDMDB ERRORS_DEFAULT,
    instr 0x95B ''LDMDB u'' CLASS_DEFAULT CYCLES_LDMDB ERRORS_DEFAULT,
    instr 0x95C ''LDMDB u'' CLASS_DEFAULT CYCLES_LDMDB ERRORS_DEFAULT,
    instr 0x95D ''LDMDB u'' CLASS_DEFAULT CYCLES_LDMDB ERRORS_DEFAULT,
    instr 0x95E ''LDMDB u'' CLASS_DEFAULT CYCLES_LDMDB ERRORS_DEFAULT,
    instr 0x95F ''LDMDB u'' CLASS_DEFAULT CYCLES_LDMDB ERRORS_DEFAULT,
    instr 0x960 ''STMDB uw'' CLASS_DEFAULT CYCLES_STMDB ERRORS_DEFAULT,
    instr 0x961 ''STMDB uw'' CLASS_DEFAULT CYCLES_STMDB ERRORS_DEFAULT,
    instr 0x962 ''STMDB uw'' CLASS_DEFAULT CYCLES_STMDB ERRORS_DEFAULT,
    instr 0x963 ''STMDB uw'' CLASS_DEFAULT CYCLES_STMDB ERRORS_DEFAULT,
    instr 0x964 ''STMDB uw'' CLASS_DEFAULT CYCLES_STMDB ERRORS_DEFAULT,
    instr 0x965 ''STMDB uw'' CLASS_DEFAULT CYCLES_STMDB ERRORS_DEFAULT,
    instr 0x966 ''STMDB uw'' CLASS_DEFAULT CYCLES_STMDB ERRORS_DEFAULT,
    instr 0x967 ''STMDB uw'' CLASS_DEFAULT CYCLES_STMDB ERRORS_DEFAULT,
    instr 0x968 ''STMDB uw'' CLASS_DEFAULT CYCLES_STMDB ERRORS_DEFAULT,
    instr 0x969 ''STMDB uw'' CLASS_DEFAULT CYCLES_STMDB ERRORS_DEFAULT,
    instr 0x96A ''STMDB uw'' CLASS_DEFAULT CYCLES_STMDB ERRORS_DEFAULT,
    instr 0x96B ''STMDB uw'' CLASS_DEFAULT CYCLES_STMDB ERRORS_DEFAULT,
    instr 0x96C ''STMDB uw'' CLASS_DEFAULT CYCLES_STMDB ERRORS_DEFAULT,
    instr 0x96D ''STMDB uw'' CLASS_DEFAULT CYCLES_STMDB ERRORS_DEFAULT,
    instr 0x96E ''STMDB uw'' CLASS_DEFAULT CYCLES_STMDB ERRORS_DEFAULT,
    instr 0x96F ''STMDB uw'' CLASS_DEFAULT CYCLES_STMDB ERRORS_DEFAULT,
    instr 0x970 ''LDMDB uw'' CLASS_DEFAULT CYCLES_LDMDB ERRORS_DEFAULT,
    instr 0x971 ''LDMDB uw'' CLASS_DEFAULT CYCLES_LDMDB ERRORS_DEFAULT,
    instr 0x972 ''LDMDB uw'' CLASS_DEFAULT CYCLES_LDMDB ERRORS_DEFAULT,
    instr 0x973 ''LDMDB uw'' CLASS_DEFAULT CYCLES_LDMDB ERRORS_DEFAULT,
    instr 0x974 ''LDMDB uw'' CLASS_DEFAULT CYCLES_LDMDB ERRORS_DEFAULT,
    instr 0x975 ''LDMDB uw'' CLASS_DEFAULT CYCLES_LDMDB ERRORS_DEFAULT,
    instr 0x976 ''LDMDB uw'' CLASS_DEFAULT CYCLES_LDMDB ERRORS_DEFAULT,
    instr 0x977 ''LDMDB uw'' CLASS_DEFAULT CYCLES_LDMDB ERRORS_DEFAULT,
    instr 0x978 ''LDMDB uw'' CLASS_DEFAULT CYCLES_LDMDB ERRORS_DEFAULT,
    instr 0x979 ''LDMDB uw'' CLASS_DEFAULT CYCLES_LDMDB ERRORS_DEFAULT,
    instr 0x97A ''LDMDB uw'' CLASS_DEFAULT CYCLES_LDMDB ERRORS_DEFAULT,
    instr 0x97B ''LDMDB uw'' CLASS_DEFAULT CYCLES_LDMDB ERRORS_DEFAULT,
    instr 0x97C ''LDMDB uw'' CLASS_DEFAULT CYCLES_LDMDB ERRORS_DEFAULT,
    instr 0x97D ''LDMDB uw'' CLASS_DEFAULT CYCLES_LDMDB ERRORS_DEFAULT,
    instr 0x97E ''LDMDB uw'' CLASS_DEFAULT CYCLES_LDMDB ERRORS_DEFAULT,
    instr 0x97F ''LDMDB uw'' CLASS_DEFAULT CYCLES_LDMDB ERRORS_DEFAULT]"

definition vemu_arm_instr_19 :: "vemu_instr_info list" where
  "vemu_arm_instr_19 = [
    instr 0x980 ''STMIB'' CLASS_DEFAULT CYCLES_STMIB ERRORS_DEFAULT,
    instr 0x981 ''STMIB'' CLASS_DEFAULT CYCLES_STMIB ERRORS_DEFAULT,
    instr 0x982 ''STMIB'' CLASS_DEFAULT CYCLES_STMIB ERRORS_DEFAULT,
    instr 0x983 ''STMIB'' CLASS_DEFAULT CYCLES_STMIB ERRORS_DEFAULT,
    instr 0x984 ''STMIB'' CLASS_DEFAULT CYCLES_STMIB ERRORS_DEFAULT,
    instr 0x985 ''STMIB'' CLASS_DEFAULT CYCLES_STMIB ERRORS_DEFAULT,
    instr 0x986 ''STMIB'' CLASS_DEFAULT CYCLES_STMIB ERRORS_DEFAULT,
    instr 0x987 ''STMIB'' CLASS_DEFAULT CYCLES_STMIB ERRORS_DEFAULT,
    instr 0x988 ''STMIB'' CLASS_DEFAULT CYCLES_STMIB ERRORS_DEFAULT,
    instr 0x989 ''STMIB'' CLASS_DEFAULT CYCLES_STMIB ERRORS_DEFAULT,
    instr 0x98A ''STMIB'' CLASS_DEFAULT CYCLES_STMIB ERRORS_DEFAULT,
    instr 0x98B ''STMIB'' CLASS_DEFAULT CYCLES_STMIB ERRORS_DEFAULT,
    instr 0x98C ''STMIB'' CLASS_DEFAULT CYCLES_STMIB ERRORS_DEFAULT,
    instr 0x98D ''STMIB'' CLASS_DEFAULT CYCLES_STMIB ERRORS_DEFAULT,
    instr 0x98E ''STMIB'' CLASS_DEFAULT CYCLES_STMIB ERRORS_DEFAULT,
    instr 0x98F ''STMIB'' CLASS_DEFAULT CYCLES_STMIB ERRORS_DEFAULT,
    instr 0x990 ''LDMIB'' CLASS_DEFAULT CYCLES_LDMIB ERRORS_DEFAULT,
    instr 0x991 ''LDMIB'' CLASS_DEFAULT CYCLES_LDMIB ERRORS_DEFAULT,
    instr 0x992 ''LDMIB'' CLASS_DEFAULT CYCLES_LDMIB ERRORS_DEFAULT,
    instr 0x993 ''LDMIB'' CLASS_DEFAULT CYCLES_LDMIB ERRORS_DEFAULT,
    instr 0x994 ''LDMIB'' CLASS_DEFAULT CYCLES_LDMIB ERRORS_DEFAULT,
    instr 0x995 ''LDMIB'' CLASS_DEFAULT CYCLES_LDMIB ERRORS_DEFAULT,
    instr 0x996 ''LDMIB'' CLASS_DEFAULT CYCLES_LDMIB ERRORS_DEFAULT,
    instr 0x997 ''LDMIB'' CLASS_DEFAULT CYCLES_LDMIB ERRORS_DEFAULT,
    instr 0x998 ''LDMIB'' CLASS_DEFAULT CYCLES_LDMIB ERRORS_DEFAULT,
    instr 0x999 ''LDMIB'' CLASS_DEFAULT CYCLES_LDMIB ERRORS_DEFAULT,
    instr 0x99A ''LDMIB'' CLASS_DEFAULT CYCLES_LDMIB ERRORS_DEFAULT,
    instr 0x99B ''LDMIB'' CLASS_DEFAULT CYCLES_LDMIB ERRORS_DEFAULT,
    instr 0x99C ''LDMIB'' CLASS_DEFAULT CYCLES_LDMIB ERRORS_DEFAULT,
    instr 0x99D ''LDMIB'' CLASS_DEFAULT CYCLES_LDMIB ERRORS_DEFAULT,
    instr 0x99E ''LDMIB'' CLASS_DEFAULT CYCLES_LDMIB ERRORS_DEFAULT,
    instr 0x99F ''LDMIB'' CLASS_DEFAULT CYCLES_LDMIB ERRORS_DEFAULT,
    instr 0x9A0 ''STMIB w'' CLASS_DEFAULT CYCLES_STMIB ERRORS_DEFAULT,
    instr 0x9A1 ''STMIB w'' CLASS_DEFAULT CYCLES_STMIB ERRORS_DEFAULT,
    instr 0x9A2 ''STMIB w'' CLASS_DEFAULT CYCLES_STMIB ERRORS_DEFAULT,
    instr 0x9A3 ''STMIB w'' CLASS_DEFAULT CYCLES_STMIB ERRORS_DEFAULT,
    instr 0x9A4 ''STMIB w'' CLASS_DEFAULT CYCLES_STMIB ERRORS_DEFAULT,
    instr 0x9A5 ''STMIB w'' CLASS_DEFAULT CYCLES_STMIB ERRORS_DEFAULT,
    instr 0x9A6 ''STMIB w'' CLASS_DEFAULT CYCLES_STMIB ERRORS_DEFAULT,
    instr 0x9A7 ''STMIB w'' CLASS_DEFAULT CYCLES_STMIB ERRORS_DEFAULT,
    instr 0x9A8 ''STMIB w'' CLASS_DEFAULT CYCLES_STMIB ERRORS_DEFAULT,
    instr 0x9A9 ''STMIB w'' CLASS_DEFAULT CYCLES_STMIB ERRORS_DEFAULT,
    instr 0x9AA ''STMIB w'' CLASS_DEFAULT CYCLES_STMIB ERRORS_DEFAULT,
    instr 0x9AB ''STMIB w'' CLASS_DEFAULT CYCLES_STMIB ERRORS_DEFAULT,
    instr 0x9AC ''STMIB w'' CLASS_DEFAULT CYCLES_STMIB ERRORS_DEFAULT,
    instr 0x9AD ''STMIB w'' CLASS_DEFAULT CYCLES_STMIB ERRORS_DEFAULT,
    instr 0x9AE ''STMIB w'' CLASS_DEFAULT CYCLES_STMIB ERRORS_DEFAULT,
    instr 0x9AF ''STMIB w'' CLASS_DEFAULT CYCLES_STMIB ERRORS_DEFAULT,
    instr 0x9B0 ''LDMIB w'' CLASS_DEFAULT CYCLES_LDMIB ERRORS_DEFAULT,
    instr 0x9B1 ''LDMIB w'' CLASS_DEFAULT CYCLES_LDMIB ERRORS_DEFAULT,
    instr 0x9B2 ''LDMIB w'' CLASS_DEFAULT CYCLES_LDMIB ERRORS_DEFAULT,
    instr 0x9B3 ''LDMIB w'' CLASS_DEFAULT CYCLES_LDMIB ERRORS_DEFAULT,
    instr 0x9B4 ''LDMIB w'' CLASS_DEFAULT CYCLES_LDMIB ERRORS_DEFAULT,
    instr 0x9B5 ''LDMIB w'' CLASS_DEFAULT CYCLES_LDMIB ERRORS_DEFAULT,
    instr 0x9B6 ''LDMIB w'' CLASS_DEFAULT CYCLES_LDMIB ERRORS_DEFAULT,
    instr 0x9B7 ''LDMIB w'' CLASS_DEFAULT CYCLES_LDMIB ERRORS_DEFAULT,
    instr 0x9B8 ''LDMIB w'' CLASS_DEFAULT CYCLES_LDMIB ERRORS_DEFAULT,
    instr 0x9B9 ''LDMIB w'' CLASS_DEFAULT CYCLES_LDMIB ERRORS_DEFAULT,
    instr 0x9BA ''LDMIB w'' CLASS_DEFAULT CYCLES_LDMIB ERRORS_DEFAULT,
    instr 0x9BB ''LDMIB w'' CLASS_DEFAULT CYCLES_LDMIB ERRORS_DEFAULT,
    instr 0x9BC ''LDMIB w'' CLASS_DEFAULT CYCLES_LDMIB ERRORS_DEFAULT,
    instr 0x9BD ''LDMIB w'' CLASS_DEFAULT CYCLES_LDMIB ERRORS_DEFAULT,
    instr 0x9BE ''LDMIB w'' CLASS_DEFAULT CYCLES_LDMIB ERRORS_DEFAULT,
    instr 0x9BF ''LDMIB w'' CLASS_DEFAULT CYCLES_LDMIB ERRORS_DEFAULT,
    instr 0x9C0 ''STMIB u'' CLASS_DEFAULT CYCLES_STMIB ERRORS_DEFAULT,
    instr 0x9C1 ''STMIB u'' CLASS_DEFAULT CYCLES_STMIB ERRORS_DEFAULT,
    instr 0x9C2 ''STMIB u'' CLASS_DEFAULT CYCLES_STMIB ERRORS_DEFAULT,
    instr 0x9C3 ''STMIB u'' CLASS_DEFAULT CYCLES_STMIB ERRORS_DEFAULT,
    instr 0x9C4 ''STMIB u'' CLASS_DEFAULT CYCLES_STMIB ERRORS_DEFAULT,
    instr 0x9C5 ''STMIB u'' CLASS_DEFAULT CYCLES_STMIB ERRORS_DEFAULT,
    instr 0x9C6 ''STMIB u'' CLASS_DEFAULT CYCLES_STMIB ERRORS_DEFAULT,
    instr 0x9C7 ''STMIB u'' CLASS_DEFAULT CYCLES_STMIB ERRORS_DEFAULT,
    instr 0x9C8 ''STMIB u'' CLASS_DEFAULT CYCLES_STMIB ERRORS_DEFAULT,
    instr 0x9C9 ''STMIB u'' CLASS_DEFAULT CYCLES_STMIB ERRORS_DEFAULT,
    instr 0x9CA ''STMIB u'' CLASS_DEFAULT CYCLES_STMIB ERRORS_DEFAULT,
    instr 0x9CB ''STMIB u'' CLASS_DEFAULT CYCLES_STMIB ERRORS_DEFAULT,
    instr 0x9CC ''STMIB u'' CLASS_DEFAULT CYCLES_STMIB ERRORS_DEFAULT,
    instr 0x9CD ''STMIB u'' CLASS_DEFAULT CYCLES_STMIB ERRORS_DEFAULT,
    instr 0x9CE ''STMIB u'' CLASS_DEFAULT CYCLES_STMIB ERRORS_DEFAULT,
    instr 0x9CF ''STMIB u'' CLASS_DEFAULT CYCLES_STMIB ERRORS_DEFAULT,
    instr 0x9D0 ''LDMIB u'' CLASS_DEFAULT CYCLES_LDMIB ERRORS_DEFAULT,
    instr 0x9D1 ''LDMIB u'' CLASS_DEFAULT CYCLES_LDMIB ERRORS_DEFAULT,
    instr 0x9D2 ''LDMIB u'' CLASS_DEFAULT CYCLES_LDMIB ERRORS_DEFAULT,
    instr 0x9D3 ''LDMIB u'' CLASS_DEFAULT CYCLES_LDMIB ERRORS_DEFAULT,
    instr 0x9D4 ''LDMIB u'' CLASS_DEFAULT CYCLES_LDMIB ERRORS_DEFAULT,
    instr 0x9D5 ''LDMIB u'' CLASS_DEFAULT CYCLES_LDMIB ERRORS_DEFAULT,
    instr 0x9D6 ''LDMIB u'' CLASS_DEFAULT CYCLES_LDMIB ERRORS_DEFAULT,
    instr 0x9D7 ''LDMIB u'' CLASS_DEFAULT CYCLES_LDMIB ERRORS_DEFAULT,
    instr 0x9D8 ''LDMIB u'' CLASS_DEFAULT CYCLES_LDMIB ERRORS_DEFAULT,
    instr 0x9D9 ''LDMIB u'' CLASS_DEFAULT CYCLES_LDMIB ERRORS_DEFAULT,
    instr 0x9DA ''LDMIB u'' CLASS_DEFAULT CYCLES_LDMIB ERRORS_DEFAULT,
    instr 0x9DB ''LDMIB u'' CLASS_DEFAULT CYCLES_LDMIB ERRORS_DEFAULT,
    instr 0x9DC ''LDMIB u'' CLASS_DEFAULT CYCLES_LDMIB ERRORS_DEFAULT,
    instr 0x9DD ''LDMIB u'' CLASS_DEFAULT CYCLES_LDMIB ERRORS_DEFAULT,
    instr 0x9DE ''LDMIB u'' CLASS_DEFAULT CYCLES_LDMIB ERRORS_DEFAULT,
    instr 0x9DF ''LDMIB u'' CLASS_DEFAULT CYCLES_LDMIB ERRORS_DEFAULT,
    instr 0x9E0 ''STMIB uw'' CLASS_DEFAULT CYCLES_STMIB ERRORS_DEFAULT,
    instr 0x9E1 ''STMIB uw'' CLASS_DEFAULT CYCLES_STMIB ERRORS_DEFAULT,
    instr 0x9E2 ''STMIB uw'' CLASS_DEFAULT CYCLES_STMIB ERRORS_DEFAULT,
    instr 0x9E3 ''STMIB uw'' CLASS_DEFAULT CYCLES_STMIB ERRORS_DEFAULT,
    instr 0x9E4 ''STMIB uw'' CLASS_DEFAULT CYCLES_STMIB ERRORS_DEFAULT,
    instr 0x9E5 ''STMIB uw'' CLASS_DEFAULT CYCLES_STMIB ERRORS_DEFAULT,
    instr 0x9E6 ''STMIB uw'' CLASS_DEFAULT CYCLES_STMIB ERRORS_DEFAULT,
    instr 0x9E7 ''STMIB uw'' CLASS_DEFAULT CYCLES_STMIB ERRORS_DEFAULT,
    instr 0x9E8 ''STMIB uw'' CLASS_DEFAULT CYCLES_STMIB ERRORS_DEFAULT,
    instr 0x9E9 ''STMIB uw'' CLASS_DEFAULT CYCLES_STMIB ERRORS_DEFAULT,
    instr 0x9EA ''STMIB uw'' CLASS_DEFAULT CYCLES_STMIB ERRORS_DEFAULT,
    instr 0x9EB ''STMIB uw'' CLASS_DEFAULT CYCLES_STMIB ERRORS_DEFAULT,
    instr 0x9EC ''STMIB uw'' CLASS_DEFAULT CYCLES_STMIB ERRORS_DEFAULT,
    instr 0x9ED ''STMIB uw'' CLASS_DEFAULT CYCLES_STMIB ERRORS_DEFAULT,
    instr 0x9EE ''STMIB uw'' CLASS_DEFAULT CYCLES_STMIB ERRORS_DEFAULT,
    instr 0x9EF ''STMIB uw'' CLASS_DEFAULT CYCLES_STMIB ERRORS_DEFAULT,
    instr 0x9F0 ''LDMIB uw'' CLASS_DEFAULT CYCLES_LDMIB ERRORS_DEFAULT,
    instr 0x9F1 ''LDMIB uw'' CLASS_DEFAULT CYCLES_LDMIB ERRORS_DEFAULT,
    instr 0x9F2 ''LDMIB uw'' CLASS_DEFAULT CYCLES_LDMIB ERRORS_DEFAULT,
    instr 0x9F3 ''LDMIB uw'' CLASS_DEFAULT CYCLES_LDMIB ERRORS_DEFAULT,
    instr 0x9F4 ''LDMIB uw'' CLASS_DEFAULT CYCLES_LDMIB ERRORS_DEFAULT,
    instr 0x9F5 ''LDMIB uw'' CLASS_DEFAULT CYCLES_LDMIB ERRORS_DEFAULT,
    instr 0x9F6 ''LDMIB uw'' CLASS_DEFAULT CYCLES_LDMIB ERRORS_DEFAULT,
    instr 0x9F7 ''LDMIB uw'' CLASS_DEFAULT CYCLES_LDMIB ERRORS_DEFAULT,
    instr 0x9F8 ''LDMIB uw'' CLASS_DEFAULT CYCLES_LDMIB ERRORS_DEFAULT,
    instr 0x9F9 ''LDMIB uw'' CLASS_DEFAULT CYCLES_LDMIB ERRORS_DEFAULT,
    instr 0x9FA ''LDMIB uw'' CLASS_DEFAULT CYCLES_LDMIB ERRORS_DEFAULT,
    instr 0x9FB ''LDMIB uw'' CLASS_DEFAULT CYCLES_LDMIB ERRORS_DEFAULT,
    instr 0x9FC ''LDMIB uw'' CLASS_DEFAULT CYCLES_LDMIB ERRORS_DEFAULT,
    instr 0x9FD ''LDMIB uw'' CLASS_DEFAULT CYCLES_LDMIB ERRORS_DEFAULT,
    instr 0x9FE ''LDMIB uw'' CLASS_DEFAULT CYCLES_LDMIB ERRORS_DEFAULT,
    instr 0x9FF ''LDMIB uw'' CLASS_DEFAULT CYCLES_LDMIB ERRORS_DEFAULT]"

definition vemu_arm_instr_20 :: "vemu_instr_info list" where
  "vemu_arm_instr_20 = [
    instr 0xA00 ''B'' CLASS_DEFAULT CYCLES_B ERRORS_DEFAULT,
    instr 0xA01 ''B'' CLASS_DEFAULT CYCLES_B ERRORS_DEFAULT,
    instr 0xA02 ''B'' CLASS_DEFAULT CYCLES_B ERRORS_DEFAULT,
    instr 0xA03 ''B'' CLASS_DEFAULT CYCLES_B ERRORS_DEFAULT,
    instr 0xA04 ''B'' CLASS_DEFAULT CYCLES_B ERRORS_DEFAULT,
    instr 0xA05 ''B'' CLASS_DEFAULT CYCLES_B ERRORS_DEFAULT,
    instr 0xA06 ''B'' CLASS_DEFAULT CYCLES_B ERRORS_DEFAULT,
    instr 0xA07 ''B'' CLASS_DEFAULT CYCLES_B ERRORS_DEFAULT,
    instr 0xA08 ''B'' CLASS_DEFAULT CYCLES_B ERRORS_DEFAULT,
    instr 0xA09 ''B'' CLASS_DEFAULT CYCLES_B ERRORS_DEFAULT,
    instr 0xA0A ''B'' CLASS_DEFAULT CYCLES_B ERRORS_DEFAULT,
    instr 0xA0B ''B'' CLASS_DEFAULT CYCLES_B ERRORS_DEFAULT,
    instr 0xA0C ''B'' CLASS_DEFAULT CYCLES_B ERRORS_DEFAULT,
    instr 0xA0D ''B'' CLASS_DEFAULT CYCLES_B ERRORS_DEFAULT,
    instr 0xA0E ''B'' CLASS_DEFAULT CYCLES_B ERRORS_DEFAULT,
    instr 0xA0F ''B'' CLASS_DEFAULT CYCLES_B ERRORS_DEFAULT,
    instr 0xA10 ''B'' CLASS_DEFAULT CYCLES_B ERRORS_DEFAULT,
    instr 0xA11 ''B'' CLASS_DEFAULT CYCLES_B ERRORS_DEFAULT,
    instr 0xA12 ''B'' CLASS_DEFAULT CYCLES_B ERRORS_DEFAULT,
    instr 0xA13 ''B'' CLASS_DEFAULT CYCLES_B ERRORS_DEFAULT,
    instr 0xA14 ''B'' CLASS_DEFAULT CYCLES_B ERRORS_DEFAULT,
    instr 0xA15 ''B'' CLASS_DEFAULT CYCLES_B ERRORS_DEFAULT,
    instr 0xA16 ''B'' CLASS_DEFAULT CYCLES_B ERRORS_DEFAULT,
    instr 0xA17 ''B'' CLASS_DEFAULT CYCLES_B ERRORS_DEFAULT,
    instr 0xA18 ''B'' CLASS_DEFAULT CYCLES_B ERRORS_DEFAULT,
    instr 0xA19 ''B'' CLASS_DEFAULT CYCLES_B ERRORS_DEFAULT,
    instr 0xA1A ''B'' CLASS_DEFAULT CYCLES_B ERRORS_DEFAULT,
    instr 0xA1B ''B'' CLASS_DEFAULT CYCLES_B ERRORS_DEFAULT,
    instr 0xA1C ''B'' CLASS_DEFAULT CYCLES_B ERRORS_DEFAULT,
    instr 0xA1D ''B'' CLASS_DEFAULT CYCLES_B ERRORS_DEFAULT,
    instr 0xA1E ''B'' CLASS_DEFAULT CYCLES_B ERRORS_DEFAULT,
    instr 0xA1F ''B'' CLASS_DEFAULT CYCLES_B ERRORS_DEFAULT,
    instr 0xA20 ''B'' CLASS_DEFAULT CYCLES_B ERRORS_DEFAULT,
    instr 0xA21 ''B'' CLASS_DEFAULT CYCLES_B ERRORS_DEFAULT,
    instr 0xA22 ''B'' CLASS_DEFAULT CYCLES_B ERRORS_DEFAULT,
    instr 0xA23 ''B'' CLASS_DEFAULT CYCLES_B ERRORS_DEFAULT,
    instr 0xA24 ''B'' CLASS_DEFAULT CYCLES_B ERRORS_DEFAULT,
    instr 0xA25 ''B'' CLASS_DEFAULT CYCLES_B ERRORS_DEFAULT,
    instr 0xA26 ''B'' CLASS_DEFAULT CYCLES_B ERRORS_DEFAULT,
    instr 0xA27 ''B'' CLASS_DEFAULT CYCLES_B ERRORS_DEFAULT,
    instr 0xA28 ''B'' CLASS_DEFAULT CYCLES_B ERRORS_DEFAULT,
    instr 0xA29 ''B'' CLASS_DEFAULT CYCLES_B ERRORS_DEFAULT,
    instr 0xA2A ''B'' CLASS_DEFAULT CYCLES_B ERRORS_DEFAULT,
    instr 0xA2B ''B'' CLASS_DEFAULT CYCLES_B ERRORS_DEFAULT,
    instr 0xA2C ''B'' CLASS_DEFAULT CYCLES_B ERRORS_DEFAULT,
    instr 0xA2D ''B'' CLASS_DEFAULT CYCLES_B ERRORS_DEFAULT,
    instr 0xA2E ''B'' CLASS_DEFAULT CYCLES_B ERRORS_DEFAULT,
    instr 0xA2F ''B'' CLASS_DEFAULT CYCLES_B ERRORS_DEFAULT,
    instr 0xA30 ''B'' CLASS_DEFAULT CYCLES_B ERRORS_DEFAULT,
    instr 0xA31 ''B'' CLASS_DEFAULT CYCLES_B ERRORS_DEFAULT,
    instr 0xA32 ''B'' CLASS_DEFAULT CYCLES_B ERRORS_DEFAULT,
    instr 0xA33 ''B'' CLASS_DEFAULT CYCLES_B ERRORS_DEFAULT,
    instr 0xA34 ''B'' CLASS_DEFAULT CYCLES_B ERRORS_DEFAULT,
    instr 0xA35 ''B'' CLASS_DEFAULT CYCLES_B ERRORS_DEFAULT,
    instr 0xA36 ''B'' CLASS_DEFAULT CYCLES_B ERRORS_DEFAULT,
    instr 0xA37 ''B'' CLASS_DEFAULT CYCLES_B ERRORS_DEFAULT,
    instr 0xA38 ''B'' CLASS_DEFAULT CYCLES_B ERRORS_DEFAULT,
    instr 0xA39 ''B'' CLASS_DEFAULT CYCLES_B ERRORS_DEFAULT,
    instr 0xA3A ''B'' CLASS_DEFAULT CYCLES_B ERRORS_DEFAULT,
    instr 0xA3B ''B'' CLASS_DEFAULT CYCLES_B ERRORS_DEFAULT,
    instr 0xA3C ''B'' CLASS_DEFAULT CYCLES_B ERRORS_DEFAULT,
    instr 0xA3D ''B'' CLASS_DEFAULT CYCLES_B ERRORS_DEFAULT,
    instr 0xA3E ''B'' CLASS_DEFAULT CYCLES_B ERRORS_DEFAULT,
    instr 0xA3F ''B'' CLASS_DEFAULT CYCLES_B ERRORS_DEFAULT,
    instr 0xA40 ''B'' CLASS_DEFAULT CYCLES_B ERRORS_DEFAULT,
    instr 0xA41 ''B'' CLASS_DEFAULT CYCLES_B ERRORS_DEFAULT,
    instr 0xA42 ''B'' CLASS_DEFAULT CYCLES_B ERRORS_DEFAULT,
    instr 0xA43 ''B'' CLASS_DEFAULT CYCLES_B ERRORS_DEFAULT,
    instr 0xA44 ''B'' CLASS_DEFAULT CYCLES_B ERRORS_DEFAULT,
    instr 0xA45 ''B'' CLASS_DEFAULT CYCLES_B ERRORS_DEFAULT,
    instr 0xA46 ''B'' CLASS_DEFAULT CYCLES_B ERRORS_DEFAULT,
    instr 0xA47 ''B'' CLASS_DEFAULT CYCLES_B ERRORS_DEFAULT,
    instr 0xA48 ''B'' CLASS_DEFAULT CYCLES_B ERRORS_DEFAULT,
    instr 0xA49 ''B'' CLASS_DEFAULT CYCLES_B ERRORS_DEFAULT,
    instr 0xA4A ''B'' CLASS_DEFAULT CYCLES_B ERRORS_DEFAULT,
    instr 0xA4B ''B'' CLASS_DEFAULT CYCLES_B ERRORS_DEFAULT,
    instr 0xA4C ''B'' CLASS_DEFAULT CYCLES_B ERRORS_DEFAULT,
    instr 0xA4D ''B'' CLASS_DEFAULT CYCLES_B ERRORS_DEFAULT,
    instr 0xA4E ''B'' CLASS_DEFAULT CYCLES_B ERRORS_DEFAULT,
    instr 0xA4F ''B'' CLASS_DEFAULT CYCLES_B ERRORS_DEFAULT,
    instr 0xA50 ''B'' CLASS_DEFAULT CYCLES_B ERRORS_DEFAULT,
    instr 0xA51 ''B'' CLASS_DEFAULT CYCLES_B ERRORS_DEFAULT,
    instr 0xA52 ''B'' CLASS_DEFAULT CYCLES_B ERRORS_DEFAULT,
    instr 0xA53 ''B'' CLASS_DEFAULT CYCLES_B ERRORS_DEFAULT,
    instr 0xA54 ''B'' CLASS_DEFAULT CYCLES_B ERRORS_DEFAULT,
    instr 0xA55 ''B'' CLASS_DEFAULT CYCLES_B ERRORS_DEFAULT,
    instr 0xA56 ''B'' CLASS_DEFAULT CYCLES_B ERRORS_DEFAULT,
    instr 0xA57 ''B'' CLASS_DEFAULT CYCLES_B ERRORS_DEFAULT,
    instr 0xA58 ''B'' CLASS_DEFAULT CYCLES_B ERRORS_DEFAULT,
    instr 0xA59 ''B'' CLASS_DEFAULT CYCLES_B ERRORS_DEFAULT,
    instr 0xA5A ''B'' CLASS_DEFAULT CYCLES_B ERRORS_DEFAULT,
    instr 0xA5B ''B'' CLASS_DEFAULT CYCLES_B ERRORS_DEFAULT,
    instr 0xA5C ''B'' CLASS_DEFAULT CYCLES_B ERRORS_DEFAULT,
    instr 0xA5D ''B'' CLASS_DEFAULT CYCLES_B ERRORS_DEFAULT,
    instr 0xA5E ''B'' CLASS_DEFAULT CYCLES_B ERRORS_DEFAULT,
    instr 0xA5F ''B'' CLASS_DEFAULT CYCLES_B ERRORS_DEFAULT,
    instr 0xA60 ''B'' CLASS_DEFAULT CYCLES_B ERRORS_DEFAULT,
    instr 0xA61 ''B'' CLASS_DEFAULT CYCLES_B ERRORS_DEFAULT,
    instr 0xA62 ''B'' CLASS_DEFAULT CYCLES_B ERRORS_DEFAULT,
    instr 0xA63 ''B'' CLASS_DEFAULT CYCLES_B ERRORS_DEFAULT,
    instr 0xA64 ''B'' CLASS_DEFAULT CYCLES_B ERRORS_DEFAULT,
    instr 0xA65 ''B'' CLASS_DEFAULT CYCLES_B ERRORS_DEFAULT,
    instr 0xA66 ''B'' CLASS_DEFAULT CYCLES_B ERRORS_DEFAULT,
    instr 0xA67 ''B'' CLASS_DEFAULT CYCLES_B ERRORS_DEFAULT,
    instr 0xA68 ''B'' CLASS_DEFAULT CYCLES_B ERRORS_DEFAULT,
    instr 0xA69 ''B'' CLASS_DEFAULT CYCLES_B ERRORS_DEFAULT,
    instr 0xA6A ''B'' CLASS_DEFAULT CYCLES_B ERRORS_DEFAULT,
    instr 0xA6B ''B'' CLASS_DEFAULT CYCLES_B ERRORS_DEFAULT,
    instr 0xA6C ''B'' CLASS_DEFAULT CYCLES_B ERRORS_DEFAULT,
    instr 0xA6D ''B'' CLASS_DEFAULT CYCLES_B ERRORS_DEFAULT,
    instr 0xA6E ''B'' CLASS_DEFAULT CYCLES_B ERRORS_DEFAULT,
    instr 0xA6F ''B'' CLASS_DEFAULT CYCLES_B ERRORS_DEFAULT,
    instr 0xA70 ''B'' CLASS_DEFAULT CYCLES_B ERRORS_DEFAULT,
    instr 0xA71 ''B'' CLASS_DEFAULT CYCLES_B ERRORS_DEFAULT,
    instr 0xA72 ''B'' CLASS_DEFAULT CYCLES_B ERRORS_DEFAULT,
    instr 0xA73 ''B'' CLASS_DEFAULT CYCLES_B ERRORS_DEFAULT,
    instr 0xA74 ''B'' CLASS_DEFAULT CYCLES_B ERRORS_DEFAULT,
    instr 0xA75 ''B'' CLASS_DEFAULT CYCLES_B ERRORS_DEFAULT,
    instr 0xA76 ''B'' CLASS_DEFAULT CYCLES_B ERRORS_DEFAULT,
    instr 0xA77 ''B'' CLASS_DEFAULT CYCLES_B ERRORS_DEFAULT,
    instr 0xA78 ''B'' CLASS_DEFAULT CYCLES_B ERRORS_DEFAULT,
    instr 0xA79 ''B'' CLASS_DEFAULT CYCLES_B ERRORS_DEFAULT,
    instr 0xA7A ''B'' CLASS_DEFAULT CYCLES_B ERRORS_DEFAULT,
    instr 0xA7B ''B'' CLASS_DEFAULT CYCLES_B ERRORS_DEFAULT,
    instr 0xA7C ''B'' CLASS_DEFAULT CYCLES_B ERRORS_DEFAULT,
    instr 0xA7D ''B'' CLASS_DEFAULT CYCLES_B ERRORS_DEFAULT,
    instr 0xA7E ''B'' CLASS_DEFAULT CYCLES_B ERRORS_DEFAULT,
    instr 0xA7F ''B'' CLASS_DEFAULT CYCLES_B ERRORS_DEFAULT]"

definition vemu_arm_instr_21 :: "vemu_instr_info list" where
  "vemu_arm_instr_21 = [
    instr 0xA80 ''B'' CLASS_DEFAULT CYCLES_B ERRORS_DEFAULT,
    instr 0xA81 ''B'' CLASS_DEFAULT CYCLES_B ERRORS_DEFAULT,
    instr 0xA82 ''B'' CLASS_DEFAULT CYCLES_B ERRORS_DEFAULT,
    instr 0xA83 ''B'' CLASS_DEFAULT CYCLES_B ERRORS_DEFAULT,
    instr 0xA84 ''B'' CLASS_DEFAULT CYCLES_B ERRORS_DEFAULT,
    instr 0xA85 ''B'' CLASS_DEFAULT CYCLES_B ERRORS_DEFAULT,
    instr 0xA86 ''B'' CLASS_DEFAULT CYCLES_B ERRORS_DEFAULT,
    instr 0xA87 ''B'' CLASS_DEFAULT CYCLES_B ERRORS_DEFAULT,
    instr 0xA88 ''B'' CLASS_DEFAULT CYCLES_B ERRORS_DEFAULT,
    instr 0xA89 ''B'' CLASS_DEFAULT CYCLES_B ERRORS_DEFAULT,
    instr 0xA8A ''B'' CLASS_DEFAULT CYCLES_B ERRORS_DEFAULT,
    instr 0xA8B ''B'' CLASS_DEFAULT CYCLES_B ERRORS_DEFAULT,
    instr 0xA8C ''B'' CLASS_DEFAULT CYCLES_B ERRORS_DEFAULT,
    instr 0xA8D ''B'' CLASS_DEFAULT CYCLES_B ERRORS_DEFAULT,
    instr 0xA8E ''B'' CLASS_DEFAULT CYCLES_B ERRORS_DEFAULT,
    instr 0xA8F ''B'' CLASS_DEFAULT CYCLES_B ERRORS_DEFAULT,
    instr 0xA90 ''B'' CLASS_DEFAULT CYCLES_B ERRORS_DEFAULT,
    instr 0xA91 ''B'' CLASS_DEFAULT CYCLES_B ERRORS_DEFAULT,
    instr 0xA92 ''B'' CLASS_DEFAULT CYCLES_B ERRORS_DEFAULT,
    instr 0xA93 ''B'' CLASS_DEFAULT CYCLES_B ERRORS_DEFAULT,
    instr 0xA94 ''B'' CLASS_DEFAULT CYCLES_B ERRORS_DEFAULT,
    instr 0xA95 ''B'' CLASS_DEFAULT CYCLES_B ERRORS_DEFAULT,
    instr 0xA96 ''B'' CLASS_DEFAULT CYCLES_B ERRORS_DEFAULT,
    instr 0xA97 ''B'' CLASS_DEFAULT CYCLES_B ERRORS_DEFAULT,
    instr 0xA98 ''B'' CLASS_DEFAULT CYCLES_B ERRORS_DEFAULT,
    instr 0xA99 ''B'' CLASS_DEFAULT CYCLES_B ERRORS_DEFAULT,
    instr 0xA9A ''B'' CLASS_DEFAULT CYCLES_B ERRORS_DEFAULT,
    instr 0xA9B ''B'' CLASS_DEFAULT CYCLES_B ERRORS_DEFAULT,
    instr 0xA9C ''B'' CLASS_DEFAULT CYCLES_B ERRORS_DEFAULT,
    instr 0xA9D ''B'' CLASS_DEFAULT CYCLES_B ERRORS_DEFAULT,
    instr 0xA9E ''B'' CLASS_DEFAULT CYCLES_B ERRORS_DEFAULT,
    instr 0xA9F ''B'' CLASS_DEFAULT CYCLES_B ERRORS_DEFAULT,
    instr 0xAA0 ''B'' CLASS_DEFAULT CYCLES_B ERRORS_DEFAULT,
    instr 0xAA1 ''B'' CLASS_DEFAULT CYCLES_B ERRORS_DEFAULT,
    instr 0xAA2 ''B'' CLASS_DEFAULT CYCLES_B ERRORS_DEFAULT,
    instr 0xAA3 ''B'' CLASS_DEFAULT CYCLES_B ERRORS_DEFAULT,
    instr 0xAA4 ''B'' CLASS_DEFAULT CYCLES_B ERRORS_DEFAULT,
    instr 0xAA5 ''B'' CLASS_DEFAULT CYCLES_B ERRORS_DEFAULT,
    instr 0xAA6 ''B'' CLASS_DEFAULT CYCLES_B ERRORS_DEFAULT,
    instr 0xAA7 ''B'' CLASS_DEFAULT CYCLES_B ERRORS_DEFAULT,
    instr 0xAA8 ''B'' CLASS_DEFAULT CYCLES_B ERRORS_DEFAULT,
    instr 0xAA9 ''B'' CLASS_DEFAULT CYCLES_B ERRORS_DEFAULT,
    instr 0xAAA ''B'' CLASS_DEFAULT CYCLES_B ERRORS_DEFAULT,
    instr 0xAAB ''B'' CLASS_DEFAULT CYCLES_B ERRORS_DEFAULT,
    instr 0xAAC ''B'' CLASS_DEFAULT CYCLES_B ERRORS_DEFAULT,
    instr 0xAAD ''B'' CLASS_DEFAULT CYCLES_B ERRORS_DEFAULT,
    instr 0xAAE ''B'' CLASS_DEFAULT CYCLES_B ERRORS_DEFAULT,
    instr 0xAAF ''B'' CLASS_DEFAULT CYCLES_B ERRORS_DEFAULT,
    instr 0xAB0 ''B'' CLASS_DEFAULT CYCLES_B ERRORS_DEFAULT,
    instr 0xAB1 ''B'' CLASS_DEFAULT CYCLES_B ERRORS_DEFAULT,
    instr 0xAB2 ''B'' CLASS_DEFAULT CYCLES_B ERRORS_DEFAULT,
    instr 0xAB3 ''B'' CLASS_DEFAULT CYCLES_B ERRORS_DEFAULT,
    instr 0xAB4 ''B'' CLASS_DEFAULT CYCLES_B ERRORS_DEFAULT,
    instr 0xAB5 ''B'' CLASS_DEFAULT CYCLES_B ERRORS_DEFAULT,
    instr 0xAB6 ''B'' CLASS_DEFAULT CYCLES_B ERRORS_DEFAULT,
    instr 0xAB7 ''B'' CLASS_DEFAULT CYCLES_B ERRORS_DEFAULT,
    instr 0xAB8 ''B'' CLASS_DEFAULT CYCLES_B ERRORS_DEFAULT,
    instr 0xAB9 ''B'' CLASS_DEFAULT CYCLES_B ERRORS_DEFAULT,
    instr 0xABA ''B'' CLASS_DEFAULT CYCLES_B ERRORS_DEFAULT,
    instr 0xABB ''B'' CLASS_DEFAULT CYCLES_B ERRORS_DEFAULT,
    instr 0xABC ''B'' CLASS_DEFAULT CYCLES_B ERRORS_DEFAULT,
    instr 0xABD ''B'' CLASS_DEFAULT CYCLES_B ERRORS_DEFAULT,
    instr 0xABE ''B'' CLASS_DEFAULT CYCLES_B ERRORS_DEFAULT,
    instr 0xABF ''B'' CLASS_DEFAULT CYCLES_B ERRORS_DEFAULT,
    instr 0xAC0 ''B'' CLASS_DEFAULT CYCLES_B ERRORS_DEFAULT,
    instr 0xAC1 ''B'' CLASS_DEFAULT CYCLES_B ERRORS_DEFAULT,
    instr 0xAC2 ''B'' CLASS_DEFAULT CYCLES_B ERRORS_DEFAULT,
    instr 0xAC3 ''B'' CLASS_DEFAULT CYCLES_B ERRORS_DEFAULT,
    instr 0xAC4 ''B'' CLASS_DEFAULT CYCLES_B ERRORS_DEFAULT,
    instr 0xAC5 ''B'' CLASS_DEFAULT CYCLES_B ERRORS_DEFAULT,
    instr 0xAC6 ''B'' CLASS_DEFAULT CYCLES_B ERRORS_DEFAULT,
    instr 0xAC7 ''B'' CLASS_DEFAULT CYCLES_B ERRORS_DEFAULT,
    instr 0xAC8 ''B'' CLASS_DEFAULT CYCLES_B ERRORS_DEFAULT,
    instr 0xAC9 ''B'' CLASS_DEFAULT CYCLES_B ERRORS_DEFAULT,
    instr 0xACA ''B'' CLASS_DEFAULT CYCLES_B ERRORS_DEFAULT,
    instr 0xACB ''B'' CLASS_DEFAULT CYCLES_B ERRORS_DEFAULT,
    instr 0xACC ''B'' CLASS_DEFAULT CYCLES_B ERRORS_DEFAULT,
    instr 0xACD ''B'' CLASS_DEFAULT CYCLES_B ERRORS_DEFAULT,
    instr 0xACE ''B'' CLASS_DEFAULT CYCLES_B ERRORS_DEFAULT,
    instr 0xACF ''B'' CLASS_DEFAULT CYCLES_B ERRORS_DEFAULT,
    instr 0xAD0 ''B'' CLASS_DEFAULT CYCLES_B ERRORS_DEFAULT,
    instr 0xAD1 ''B'' CLASS_DEFAULT CYCLES_B ERRORS_DEFAULT,
    instr 0xAD2 ''B'' CLASS_DEFAULT CYCLES_B ERRORS_DEFAULT,
    instr 0xAD3 ''B'' CLASS_DEFAULT CYCLES_B ERRORS_DEFAULT,
    instr 0xAD4 ''B'' CLASS_DEFAULT CYCLES_B ERRORS_DEFAULT,
    instr 0xAD5 ''B'' CLASS_DEFAULT CYCLES_B ERRORS_DEFAULT,
    instr 0xAD6 ''B'' CLASS_DEFAULT CYCLES_B ERRORS_DEFAULT,
    instr 0xAD7 ''B'' CLASS_DEFAULT CYCLES_B ERRORS_DEFAULT,
    instr 0xAD8 ''B'' CLASS_DEFAULT CYCLES_B ERRORS_DEFAULT,
    instr 0xAD9 ''B'' CLASS_DEFAULT CYCLES_B ERRORS_DEFAULT,
    instr 0xADA ''B'' CLASS_DEFAULT CYCLES_B ERRORS_DEFAULT,
    instr 0xADB ''B'' CLASS_DEFAULT CYCLES_B ERRORS_DEFAULT,
    instr 0xADC ''B'' CLASS_DEFAULT CYCLES_B ERRORS_DEFAULT,
    instr 0xADD ''B'' CLASS_DEFAULT CYCLES_B ERRORS_DEFAULT,
    instr 0xADE ''B'' CLASS_DEFAULT CYCLES_B ERRORS_DEFAULT,
    instr 0xADF ''B'' CLASS_DEFAULT CYCLES_B ERRORS_DEFAULT,
    instr 0xAE0 ''B'' CLASS_DEFAULT CYCLES_B ERRORS_DEFAULT,
    instr 0xAE1 ''B'' CLASS_DEFAULT CYCLES_B ERRORS_DEFAULT,
    instr 0xAE2 ''B'' CLASS_DEFAULT CYCLES_B ERRORS_DEFAULT,
    instr 0xAE3 ''B'' CLASS_DEFAULT CYCLES_B ERRORS_DEFAULT,
    instr 0xAE4 ''B'' CLASS_DEFAULT CYCLES_B ERRORS_DEFAULT,
    instr 0xAE5 ''B'' CLASS_DEFAULT CYCLES_B ERRORS_DEFAULT,
    instr 0xAE6 ''B'' CLASS_DEFAULT CYCLES_B ERRORS_DEFAULT,
    instr 0xAE7 ''B'' CLASS_DEFAULT CYCLES_B ERRORS_DEFAULT,
    instr 0xAE8 ''B'' CLASS_DEFAULT CYCLES_B ERRORS_DEFAULT,
    instr 0xAE9 ''B'' CLASS_DEFAULT CYCLES_B ERRORS_DEFAULT,
    instr 0xAEA ''B'' CLASS_DEFAULT CYCLES_B ERRORS_DEFAULT,
    instr 0xAEB ''B'' CLASS_DEFAULT CYCLES_B ERRORS_DEFAULT,
    instr 0xAEC ''B'' CLASS_DEFAULT CYCLES_B ERRORS_DEFAULT,
    instr 0xAED ''B'' CLASS_DEFAULT CYCLES_B ERRORS_DEFAULT,
    instr 0xAEE ''B'' CLASS_DEFAULT CYCLES_B ERRORS_DEFAULT,
    instr 0xAEF ''B'' CLASS_DEFAULT CYCLES_B ERRORS_DEFAULT,
    instr 0xAF0 ''B'' CLASS_DEFAULT CYCLES_B ERRORS_DEFAULT,
    instr 0xAF1 ''B'' CLASS_DEFAULT CYCLES_B ERRORS_DEFAULT,
    instr 0xAF2 ''B'' CLASS_DEFAULT CYCLES_B ERRORS_DEFAULT,
    instr 0xAF3 ''B'' CLASS_DEFAULT CYCLES_B ERRORS_DEFAULT,
    instr 0xAF4 ''B'' CLASS_DEFAULT CYCLES_B ERRORS_DEFAULT,
    instr 0xAF5 ''B'' CLASS_DEFAULT CYCLES_B ERRORS_DEFAULT,
    instr 0xAF6 ''B'' CLASS_DEFAULT CYCLES_B ERRORS_DEFAULT,
    instr 0xAF7 ''B'' CLASS_DEFAULT CYCLES_B ERRORS_DEFAULT,
    instr 0xAF8 ''B'' CLASS_DEFAULT CYCLES_B ERRORS_DEFAULT,
    instr 0xAF9 ''B'' CLASS_DEFAULT CYCLES_B ERRORS_DEFAULT,
    instr 0xAFA ''B'' CLASS_DEFAULT CYCLES_B ERRORS_DEFAULT,
    instr 0xAFB ''B'' CLASS_DEFAULT CYCLES_B ERRORS_DEFAULT,
    instr 0xAFC ''B'' CLASS_DEFAULT CYCLES_B ERRORS_DEFAULT,
    instr 0xAFD ''B'' CLASS_DEFAULT CYCLES_B ERRORS_DEFAULT,
    instr 0xAFE ''B'' CLASS_DEFAULT CYCLES_B ERRORS_DEFAULT,
    instr 0xAFF ''B'' CLASS_DEFAULT CYCLES_B ERRORS_DEFAULT]"

definition vemu_arm_instr_22 :: "vemu_instr_info list" where
  "vemu_arm_instr_22 = [
    instr 0xB00 ''BL'' CLASS_DEFAULT CYCLES_BL ERRORS_DEFAULT,
    instr 0xB01 ''BL'' CLASS_DEFAULT CYCLES_BL ERRORS_DEFAULT,
    instr 0xB02 ''BL'' CLASS_DEFAULT CYCLES_BL ERRORS_DEFAULT,
    instr 0xB03 ''BL'' CLASS_DEFAULT CYCLES_BL ERRORS_DEFAULT,
    instr 0xB04 ''BL'' CLASS_DEFAULT CYCLES_BL ERRORS_DEFAULT,
    instr 0xB05 ''BL'' CLASS_DEFAULT CYCLES_BL ERRORS_DEFAULT,
    instr 0xB06 ''BL'' CLASS_DEFAULT CYCLES_BL ERRORS_DEFAULT,
    instr 0xB07 ''BL'' CLASS_DEFAULT CYCLES_BL ERRORS_DEFAULT,
    instr 0xB08 ''BL'' CLASS_DEFAULT CYCLES_BL ERRORS_DEFAULT,
    instr 0xB09 ''BL'' CLASS_DEFAULT CYCLES_BL ERRORS_DEFAULT,
    instr 0xB0A ''BL'' CLASS_DEFAULT CYCLES_BL ERRORS_DEFAULT,
    instr 0xB0B ''BL'' CLASS_DEFAULT CYCLES_BL ERRORS_DEFAULT,
    instr 0xB0C ''BL'' CLASS_DEFAULT CYCLES_BL ERRORS_DEFAULT,
    instr 0xB0D ''BL'' CLASS_DEFAULT CYCLES_BL ERRORS_DEFAULT,
    instr 0xB0E ''BL'' CLASS_DEFAULT CYCLES_BL ERRORS_DEFAULT,
    instr 0xB0F ''BL'' CLASS_DEFAULT CYCLES_BL ERRORS_DEFAULT,
    instr 0xB10 ''BL'' CLASS_DEFAULT CYCLES_BL ERRORS_DEFAULT,
    instr 0xB11 ''BL'' CLASS_DEFAULT CYCLES_BL ERRORS_DEFAULT,
    instr 0xB12 ''BL'' CLASS_DEFAULT CYCLES_BL ERRORS_DEFAULT,
    instr 0xB13 ''BL'' CLASS_DEFAULT CYCLES_BL ERRORS_DEFAULT,
    instr 0xB14 ''BL'' CLASS_DEFAULT CYCLES_BL ERRORS_DEFAULT,
    instr 0xB15 ''BL'' CLASS_DEFAULT CYCLES_BL ERRORS_DEFAULT,
    instr 0xB16 ''BL'' CLASS_DEFAULT CYCLES_BL ERRORS_DEFAULT,
    instr 0xB17 ''BL'' CLASS_DEFAULT CYCLES_BL ERRORS_DEFAULT,
    instr 0xB18 ''BL'' CLASS_DEFAULT CYCLES_BL ERRORS_DEFAULT,
    instr 0xB19 ''BL'' CLASS_DEFAULT CYCLES_BL ERRORS_DEFAULT,
    instr 0xB1A ''BL'' CLASS_DEFAULT CYCLES_BL ERRORS_DEFAULT,
    instr 0xB1B ''BL'' CLASS_DEFAULT CYCLES_BL ERRORS_DEFAULT,
    instr 0xB1C ''BL'' CLASS_DEFAULT CYCLES_BL ERRORS_DEFAULT,
    instr 0xB1D ''BL'' CLASS_DEFAULT CYCLES_BL ERRORS_DEFAULT,
    instr 0xB1E ''BL'' CLASS_DEFAULT CYCLES_BL ERRORS_DEFAULT,
    instr 0xB1F ''BL'' CLASS_DEFAULT CYCLES_BL ERRORS_DEFAULT,
    instr 0xB20 ''BL'' CLASS_DEFAULT CYCLES_BL ERRORS_DEFAULT,
    instr 0xB21 ''BL'' CLASS_DEFAULT CYCLES_BL ERRORS_DEFAULT,
    instr 0xB22 ''BL'' CLASS_DEFAULT CYCLES_BL ERRORS_DEFAULT,
    instr 0xB23 ''BL'' CLASS_DEFAULT CYCLES_BL ERRORS_DEFAULT,
    instr 0xB24 ''BL'' CLASS_DEFAULT CYCLES_BL ERRORS_DEFAULT,
    instr 0xB25 ''BL'' CLASS_DEFAULT CYCLES_BL ERRORS_DEFAULT,
    instr 0xB26 ''BL'' CLASS_DEFAULT CYCLES_BL ERRORS_DEFAULT,
    instr 0xB27 ''BL'' CLASS_DEFAULT CYCLES_BL ERRORS_DEFAULT,
    instr 0xB28 ''BL'' CLASS_DEFAULT CYCLES_BL ERRORS_DEFAULT,
    instr 0xB29 ''BL'' CLASS_DEFAULT CYCLES_BL ERRORS_DEFAULT,
    instr 0xB2A ''BL'' CLASS_DEFAULT CYCLES_BL ERRORS_DEFAULT,
    instr 0xB2B ''BL'' CLASS_DEFAULT CYCLES_BL ERRORS_DEFAULT,
    instr 0xB2C ''BL'' CLASS_DEFAULT CYCLES_BL ERRORS_DEFAULT,
    instr 0xB2D ''BL'' CLASS_DEFAULT CYCLES_BL ERRORS_DEFAULT,
    instr 0xB2E ''BL'' CLASS_DEFAULT CYCLES_BL ERRORS_DEFAULT,
    instr 0xB2F ''BL'' CLASS_DEFAULT CYCLES_BL ERRORS_DEFAULT,
    instr 0xB30 ''BL'' CLASS_DEFAULT CYCLES_BL ERRORS_DEFAULT,
    instr 0xB31 ''BL'' CLASS_DEFAULT CYCLES_BL ERRORS_DEFAULT,
    instr 0xB32 ''BL'' CLASS_DEFAULT CYCLES_BL ERRORS_DEFAULT,
    instr 0xB33 ''BL'' CLASS_DEFAULT CYCLES_BL ERRORS_DEFAULT,
    instr 0xB34 ''BL'' CLASS_DEFAULT CYCLES_BL ERRORS_DEFAULT,
    instr 0xB35 ''BL'' CLASS_DEFAULT CYCLES_BL ERRORS_DEFAULT,
    instr 0xB36 ''BL'' CLASS_DEFAULT CYCLES_BL ERRORS_DEFAULT,
    instr 0xB37 ''BL'' CLASS_DEFAULT CYCLES_BL ERRORS_DEFAULT,
    instr 0xB38 ''BL'' CLASS_DEFAULT CYCLES_BL ERRORS_DEFAULT,
    instr 0xB39 ''BL'' CLASS_DEFAULT CYCLES_BL ERRORS_DEFAULT,
    instr 0xB3A ''BL'' CLASS_DEFAULT CYCLES_BL ERRORS_DEFAULT,
    instr 0xB3B ''BL'' CLASS_DEFAULT CYCLES_BL ERRORS_DEFAULT,
    instr 0xB3C ''BL'' CLASS_DEFAULT CYCLES_BL ERRORS_DEFAULT,
    instr 0xB3D ''BL'' CLASS_DEFAULT CYCLES_BL ERRORS_DEFAULT,
    instr 0xB3E ''BL'' CLASS_DEFAULT CYCLES_BL ERRORS_DEFAULT,
    instr 0xB3F ''BL'' CLASS_DEFAULT CYCLES_BL ERRORS_DEFAULT,
    instr 0xB40 ''BL'' CLASS_DEFAULT CYCLES_BL ERRORS_DEFAULT,
    instr 0xB41 ''BL'' CLASS_DEFAULT CYCLES_BL ERRORS_DEFAULT,
    instr 0xB42 ''BL'' CLASS_DEFAULT CYCLES_BL ERRORS_DEFAULT,
    instr 0xB43 ''BL'' CLASS_DEFAULT CYCLES_BL ERRORS_DEFAULT,
    instr 0xB44 ''BL'' CLASS_DEFAULT CYCLES_BL ERRORS_DEFAULT,
    instr 0xB45 ''BL'' CLASS_DEFAULT CYCLES_BL ERRORS_DEFAULT,
    instr 0xB46 ''BL'' CLASS_DEFAULT CYCLES_BL ERRORS_DEFAULT,
    instr 0xB47 ''BL'' CLASS_DEFAULT CYCLES_BL ERRORS_DEFAULT,
    instr 0xB48 ''BL'' CLASS_DEFAULT CYCLES_BL ERRORS_DEFAULT,
    instr 0xB49 ''BL'' CLASS_DEFAULT CYCLES_BL ERRORS_DEFAULT,
    instr 0xB4A ''BL'' CLASS_DEFAULT CYCLES_BL ERRORS_DEFAULT,
    instr 0xB4B ''BL'' CLASS_DEFAULT CYCLES_BL ERRORS_DEFAULT,
    instr 0xB4C ''BL'' CLASS_DEFAULT CYCLES_BL ERRORS_DEFAULT,
    instr 0xB4D ''BL'' CLASS_DEFAULT CYCLES_BL ERRORS_DEFAULT,
    instr 0xB4E ''BL'' CLASS_DEFAULT CYCLES_BL ERRORS_DEFAULT,
    instr 0xB4F ''BL'' CLASS_DEFAULT CYCLES_BL ERRORS_DEFAULT,
    instr 0xB50 ''BL'' CLASS_DEFAULT CYCLES_BL ERRORS_DEFAULT,
    instr 0xB51 ''BL'' CLASS_DEFAULT CYCLES_BL ERRORS_DEFAULT,
    instr 0xB52 ''BL'' CLASS_DEFAULT CYCLES_BL ERRORS_DEFAULT,
    instr 0xB53 ''BL'' CLASS_DEFAULT CYCLES_BL ERRORS_DEFAULT,
    instr 0xB54 ''BL'' CLASS_DEFAULT CYCLES_BL ERRORS_DEFAULT,
    instr 0xB55 ''BL'' CLASS_DEFAULT CYCLES_BL ERRORS_DEFAULT,
    instr 0xB56 ''BL'' CLASS_DEFAULT CYCLES_BL ERRORS_DEFAULT,
    instr 0xB57 ''BL'' CLASS_DEFAULT CYCLES_BL ERRORS_DEFAULT,
    instr 0xB58 ''BL'' CLASS_DEFAULT CYCLES_BL ERRORS_DEFAULT,
    instr 0xB59 ''BL'' CLASS_DEFAULT CYCLES_BL ERRORS_DEFAULT,
    instr 0xB5A ''BL'' CLASS_DEFAULT CYCLES_BL ERRORS_DEFAULT,
    instr 0xB5B ''BL'' CLASS_DEFAULT CYCLES_BL ERRORS_DEFAULT,
    instr 0xB5C ''BL'' CLASS_DEFAULT CYCLES_BL ERRORS_DEFAULT,
    instr 0xB5D ''BL'' CLASS_DEFAULT CYCLES_BL ERRORS_DEFAULT,
    instr 0xB5E ''BL'' CLASS_DEFAULT CYCLES_BL ERRORS_DEFAULT,
    instr 0xB5F ''BL'' CLASS_DEFAULT CYCLES_BL ERRORS_DEFAULT,
    instr 0xB60 ''BL'' CLASS_DEFAULT CYCLES_BL ERRORS_DEFAULT,
    instr 0xB61 ''BL'' CLASS_DEFAULT CYCLES_BL ERRORS_DEFAULT,
    instr 0xB62 ''BL'' CLASS_DEFAULT CYCLES_BL ERRORS_DEFAULT,
    instr 0xB63 ''BL'' CLASS_DEFAULT CYCLES_BL ERRORS_DEFAULT,
    instr 0xB64 ''BL'' CLASS_DEFAULT CYCLES_BL ERRORS_DEFAULT,
    instr 0xB65 ''BL'' CLASS_DEFAULT CYCLES_BL ERRORS_DEFAULT,
    instr 0xB66 ''BL'' CLASS_DEFAULT CYCLES_BL ERRORS_DEFAULT,
    instr 0xB67 ''BL'' CLASS_DEFAULT CYCLES_BL ERRORS_DEFAULT,
    instr 0xB68 ''BL'' CLASS_DEFAULT CYCLES_BL ERRORS_DEFAULT,
    instr 0xB69 ''BL'' CLASS_DEFAULT CYCLES_BL ERRORS_DEFAULT,
    instr 0xB6A ''BL'' CLASS_DEFAULT CYCLES_BL ERRORS_DEFAULT,
    instr 0xB6B ''BL'' CLASS_DEFAULT CYCLES_BL ERRORS_DEFAULT,
    instr 0xB6C ''BL'' CLASS_DEFAULT CYCLES_BL ERRORS_DEFAULT,
    instr 0xB6D ''BL'' CLASS_DEFAULT CYCLES_BL ERRORS_DEFAULT,
    instr 0xB6E ''BL'' CLASS_DEFAULT CYCLES_BL ERRORS_DEFAULT,
    instr 0xB6F ''BL'' CLASS_DEFAULT CYCLES_BL ERRORS_DEFAULT,
    instr 0xB70 ''BL'' CLASS_DEFAULT CYCLES_BL ERRORS_DEFAULT,
    instr 0xB71 ''BL'' CLASS_DEFAULT CYCLES_BL ERRORS_DEFAULT,
    instr 0xB72 ''BL'' CLASS_DEFAULT CYCLES_BL ERRORS_DEFAULT,
    instr 0xB73 ''BL'' CLASS_DEFAULT CYCLES_BL ERRORS_DEFAULT,
    instr 0xB74 ''BL'' CLASS_DEFAULT CYCLES_BL ERRORS_DEFAULT,
    instr 0xB75 ''BL'' CLASS_DEFAULT CYCLES_BL ERRORS_DEFAULT,
    instr 0xB76 ''BL'' CLASS_DEFAULT CYCLES_BL ERRORS_DEFAULT,
    instr 0xB77 ''BL'' CLASS_DEFAULT CYCLES_BL ERRORS_DEFAULT,
    instr 0xB78 ''BL'' CLASS_DEFAULT CYCLES_BL ERRORS_DEFAULT,
    instr 0xB79 ''BL'' CLASS_DEFAULT CYCLES_BL ERRORS_DEFAULT,
    instr 0xB7A ''BL'' CLASS_DEFAULT CYCLES_BL ERRORS_DEFAULT,
    instr 0xB7B ''BL'' CLASS_DEFAULT CYCLES_BL ERRORS_DEFAULT,
    instr 0xB7C ''BL'' CLASS_DEFAULT CYCLES_BL ERRORS_DEFAULT,
    instr 0xB7D ''BL'' CLASS_DEFAULT CYCLES_BL ERRORS_DEFAULT,
    instr 0xB7E ''BL'' CLASS_DEFAULT CYCLES_BL ERRORS_DEFAULT,
    instr 0xB7F ''BL'' CLASS_DEFAULT CYCLES_BL ERRORS_DEFAULT]"

definition vemu_arm_instr_23 :: "vemu_instr_info list" where
  "vemu_arm_instr_23 = [
    instr 0xB80 ''BL'' CLASS_DEFAULT CYCLES_BL ERRORS_DEFAULT,
    instr 0xB81 ''BL'' CLASS_DEFAULT CYCLES_BL ERRORS_DEFAULT,
    instr 0xB82 ''BL'' CLASS_DEFAULT CYCLES_BL ERRORS_DEFAULT,
    instr 0xB83 ''BL'' CLASS_DEFAULT CYCLES_BL ERRORS_DEFAULT,
    instr 0xB84 ''BL'' CLASS_DEFAULT CYCLES_BL ERRORS_DEFAULT,
    instr 0xB85 ''BL'' CLASS_DEFAULT CYCLES_BL ERRORS_DEFAULT,
    instr 0xB86 ''BL'' CLASS_DEFAULT CYCLES_BL ERRORS_DEFAULT,
    instr 0xB87 ''BL'' CLASS_DEFAULT CYCLES_BL ERRORS_DEFAULT,
    instr 0xB88 ''BL'' CLASS_DEFAULT CYCLES_BL ERRORS_DEFAULT,
    instr 0xB89 ''BL'' CLASS_DEFAULT CYCLES_BL ERRORS_DEFAULT,
    instr 0xB8A ''BL'' CLASS_DEFAULT CYCLES_BL ERRORS_DEFAULT,
    instr 0xB8B ''BL'' CLASS_DEFAULT CYCLES_BL ERRORS_DEFAULT,
    instr 0xB8C ''BL'' CLASS_DEFAULT CYCLES_BL ERRORS_DEFAULT,
    instr 0xB8D ''BL'' CLASS_DEFAULT CYCLES_BL ERRORS_DEFAULT,
    instr 0xB8E ''BL'' CLASS_DEFAULT CYCLES_BL ERRORS_DEFAULT,
    instr 0xB8F ''BL'' CLASS_DEFAULT CYCLES_BL ERRORS_DEFAULT,
    instr 0xB90 ''BL'' CLASS_DEFAULT CYCLES_BL ERRORS_DEFAULT,
    instr 0xB91 ''BL'' CLASS_DEFAULT CYCLES_BL ERRORS_DEFAULT,
    instr 0xB92 ''BL'' CLASS_DEFAULT CYCLES_BL ERRORS_DEFAULT,
    instr 0xB93 ''BL'' CLASS_DEFAULT CYCLES_BL ERRORS_DEFAULT,
    instr 0xB94 ''BL'' CLASS_DEFAULT CYCLES_BL ERRORS_DEFAULT,
    instr 0xB95 ''BL'' CLASS_DEFAULT CYCLES_BL ERRORS_DEFAULT,
    instr 0xB96 ''BL'' CLASS_DEFAULT CYCLES_BL ERRORS_DEFAULT,
    instr 0xB97 ''BL'' CLASS_DEFAULT CYCLES_BL ERRORS_DEFAULT,
    instr 0xB98 ''BL'' CLASS_DEFAULT CYCLES_BL ERRORS_DEFAULT,
    instr 0xB99 ''BL'' CLASS_DEFAULT CYCLES_BL ERRORS_DEFAULT,
    instr 0xB9A ''BL'' CLASS_DEFAULT CYCLES_BL ERRORS_DEFAULT,
    instr 0xB9B ''BL'' CLASS_DEFAULT CYCLES_BL ERRORS_DEFAULT,
    instr 0xB9C ''BL'' CLASS_DEFAULT CYCLES_BL ERRORS_DEFAULT,
    instr 0xB9D ''BL'' CLASS_DEFAULT CYCLES_BL ERRORS_DEFAULT,
    instr 0xB9E ''BL'' CLASS_DEFAULT CYCLES_BL ERRORS_DEFAULT,
    instr 0xB9F ''BL'' CLASS_DEFAULT CYCLES_BL ERRORS_DEFAULT,
    instr 0xBA0 ''BL'' CLASS_DEFAULT CYCLES_BL ERRORS_DEFAULT,
    instr 0xBA1 ''BL'' CLASS_DEFAULT CYCLES_BL ERRORS_DEFAULT,
    instr 0xBA2 ''BL'' CLASS_DEFAULT CYCLES_BL ERRORS_DEFAULT,
    instr 0xBA3 ''BL'' CLASS_DEFAULT CYCLES_BL ERRORS_DEFAULT,
    instr 0xBA4 ''BL'' CLASS_DEFAULT CYCLES_BL ERRORS_DEFAULT,
    instr 0xBA5 ''BL'' CLASS_DEFAULT CYCLES_BL ERRORS_DEFAULT,
    instr 0xBA6 ''BL'' CLASS_DEFAULT CYCLES_BL ERRORS_DEFAULT,
    instr 0xBA7 ''BL'' CLASS_DEFAULT CYCLES_BL ERRORS_DEFAULT,
    instr 0xBA8 ''BL'' CLASS_DEFAULT CYCLES_BL ERRORS_DEFAULT,
    instr 0xBA9 ''BL'' CLASS_DEFAULT CYCLES_BL ERRORS_DEFAULT,
    instr 0xBAA ''BL'' CLASS_DEFAULT CYCLES_BL ERRORS_DEFAULT,
    instr 0xBAB ''BL'' CLASS_DEFAULT CYCLES_BL ERRORS_DEFAULT,
    instr 0xBAC ''BL'' CLASS_DEFAULT CYCLES_BL ERRORS_DEFAULT,
    instr 0xBAD ''BL'' CLASS_DEFAULT CYCLES_BL ERRORS_DEFAULT,
    instr 0xBAE ''BL'' CLASS_DEFAULT CYCLES_BL ERRORS_DEFAULT,
    instr 0xBAF ''BL'' CLASS_DEFAULT CYCLES_BL ERRORS_DEFAULT,
    instr 0xBB0 ''BL'' CLASS_DEFAULT CYCLES_BL ERRORS_DEFAULT,
    instr 0xBB1 ''BL'' CLASS_DEFAULT CYCLES_BL ERRORS_DEFAULT,
    instr 0xBB2 ''BL'' CLASS_DEFAULT CYCLES_BL ERRORS_DEFAULT,
    instr 0xBB3 ''BL'' CLASS_DEFAULT CYCLES_BL ERRORS_DEFAULT,
    instr 0xBB4 ''BL'' CLASS_DEFAULT CYCLES_BL ERRORS_DEFAULT,
    instr 0xBB5 ''BL'' CLASS_DEFAULT CYCLES_BL ERRORS_DEFAULT,
    instr 0xBB6 ''BL'' CLASS_DEFAULT CYCLES_BL ERRORS_DEFAULT,
    instr 0xBB7 ''BL'' CLASS_DEFAULT CYCLES_BL ERRORS_DEFAULT,
    instr 0xBB8 ''BL'' CLASS_DEFAULT CYCLES_BL ERRORS_DEFAULT,
    instr 0xBB9 ''BL'' CLASS_DEFAULT CYCLES_BL ERRORS_DEFAULT,
    instr 0xBBA ''BL'' CLASS_DEFAULT CYCLES_BL ERRORS_DEFAULT,
    instr 0xBBB ''BL'' CLASS_DEFAULT CYCLES_BL ERRORS_DEFAULT,
    instr 0xBBC ''BL'' CLASS_DEFAULT CYCLES_BL ERRORS_DEFAULT,
    instr 0xBBD ''BL'' CLASS_DEFAULT CYCLES_BL ERRORS_DEFAULT,
    instr 0xBBE ''BL'' CLASS_DEFAULT CYCLES_BL ERRORS_DEFAULT,
    instr 0xBBF ''BL'' CLASS_DEFAULT CYCLES_BL ERRORS_DEFAULT,
    instr 0xBC0 ''BL'' CLASS_DEFAULT CYCLES_BL ERRORS_DEFAULT,
    instr 0xBC1 ''BL'' CLASS_DEFAULT CYCLES_BL ERRORS_DEFAULT,
    instr 0xBC2 ''BL'' CLASS_DEFAULT CYCLES_BL ERRORS_DEFAULT,
    instr 0xBC3 ''BL'' CLASS_DEFAULT CYCLES_BL ERRORS_DEFAULT,
    instr 0xBC4 ''BL'' CLASS_DEFAULT CYCLES_BL ERRORS_DEFAULT,
    instr 0xBC5 ''BL'' CLASS_DEFAULT CYCLES_BL ERRORS_DEFAULT,
    instr 0xBC6 ''BL'' CLASS_DEFAULT CYCLES_BL ERRORS_DEFAULT,
    instr 0xBC7 ''BL'' CLASS_DEFAULT CYCLES_BL ERRORS_DEFAULT,
    instr 0xBC8 ''BL'' CLASS_DEFAULT CYCLES_BL ERRORS_DEFAULT,
    instr 0xBC9 ''BL'' CLASS_DEFAULT CYCLES_BL ERRORS_DEFAULT,
    instr 0xBCA ''BL'' CLASS_DEFAULT CYCLES_BL ERRORS_DEFAULT,
    instr 0xBCB ''BL'' CLASS_DEFAULT CYCLES_BL ERRORS_DEFAULT,
    instr 0xBCC ''BL'' CLASS_DEFAULT CYCLES_BL ERRORS_DEFAULT,
    instr 0xBCD ''BL'' CLASS_DEFAULT CYCLES_BL ERRORS_DEFAULT,
    instr 0xBCE ''BL'' CLASS_DEFAULT CYCLES_BL ERRORS_DEFAULT,
    instr 0xBCF ''BL'' CLASS_DEFAULT CYCLES_BL ERRORS_DEFAULT,
    instr 0xBD0 ''BL'' CLASS_DEFAULT CYCLES_BL ERRORS_DEFAULT,
    instr 0xBD1 ''BL'' CLASS_DEFAULT CYCLES_BL ERRORS_DEFAULT,
    instr 0xBD2 ''BL'' CLASS_DEFAULT CYCLES_BL ERRORS_DEFAULT,
    instr 0xBD3 ''BL'' CLASS_DEFAULT CYCLES_BL ERRORS_DEFAULT,
    instr 0xBD4 ''BL'' CLASS_DEFAULT CYCLES_BL ERRORS_DEFAULT,
    instr 0xBD5 ''BL'' CLASS_DEFAULT CYCLES_BL ERRORS_DEFAULT,
    instr 0xBD6 ''BL'' CLASS_DEFAULT CYCLES_BL ERRORS_DEFAULT,
    instr 0xBD7 ''BL'' CLASS_DEFAULT CYCLES_BL ERRORS_DEFAULT,
    instr 0xBD8 ''BL'' CLASS_DEFAULT CYCLES_BL ERRORS_DEFAULT,
    instr 0xBD9 ''BL'' CLASS_DEFAULT CYCLES_BL ERRORS_DEFAULT,
    instr 0xBDA ''BL'' CLASS_DEFAULT CYCLES_BL ERRORS_DEFAULT,
    instr 0xBDB ''BL'' CLASS_DEFAULT CYCLES_BL ERRORS_DEFAULT,
    instr 0xBDC ''BL'' CLASS_DEFAULT CYCLES_BL ERRORS_DEFAULT,
    instr 0xBDD ''BL'' CLASS_DEFAULT CYCLES_BL ERRORS_DEFAULT,
    instr 0xBDE ''BL'' CLASS_DEFAULT CYCLES_BL ERRORS_DEFAULT,
    instr 0xBDF ''BL'' CLASS_DEFAULT CYCLES_BL ERRORS_DEFAULT,
    instr 0xBE0 ''BL'' CLASS_DEFAULT CYCLES_BL ERRORS_DEFAULT,
    instr 0xBE1 ''BL'' CLASS_DEFAULT CYCLES_BL ERRORS_DEFAULT,
    instr 0xBE2 ''BL'' CLASS_DEFAULT CYCLES_BL ERRORS_DEFAULT,
    instr 0xBE3 ''BL'' CLASS_DEFAULT CYCLES_BL ERRORS_DEFAULT,
    instr 0xBE4 ''BL'' CLASS_DEFAULT CYCLES_BL ERRORS_DEFAULT,
    instr 0xBE5 ''BL'' CLASS_DEFAULT CYCLES_BL ERRORS_DEFAULT,
    instr 0xBE6 ''BL'' CLASS_DEFAULT CYCLES_BL ERRORS_DEFAULT,
    instr 0xBE7 ''BL'' CLASS_DEFAULT CYCLES_BL ERRORS_DEFAULT,
    instr 0xBE8 ''BL'' CLASS_DEFAULT CYCLES_BL ERRORS_DEFAULT,
    instr 0xBE9 ''BL'' CLASS_DEFAULT CYCLES_BL ERRORS_DEFAULT,
    instr 0xBEA ''BL'' CLASS_DEFAULT CYCLES_BL ERRORS_DEFAULT,
    instr 0xBEB ''BL'' CLASS_DEFAULT CYCLES_BL ERRORS_DEFAULT,
    instr 0xBEC ''BL'' CLASS_DEFAULT CYCLES_BL ERRORS_DEFAULT,
    instr 0xBED ''BL'' CLASS_DEFAULT CYCLES_BL ERRORS_DEFAULT,
    instr 0xBEE ''BL'' CLASS_DEFAULT CYCLES_BL ERRORS_DEFAULT,
    instr 0xBEF ''BL'' CLASS_DEFAULT CYCLES_BL ERRORS_DEFAULT,
    instr 0xBF0 ''BL'' CLASS_DEFAULT CYCLES_BL ERRORS_DEFAULT,
    instr 0xBF1 ''BL'' CLASS_DEFAULT CYCLES_BL ERRORS_DEFAULT,
    instr 0xBF2 ''BL'' CLASS_DEFAULT CYCLES_BL ERRORS_DEFAULT,
    instr 0xBF3 ''BL'' CLASS_DEFAULT CYCLES_BL ERRORS_DEFAULT,
    instr 0xBF4 ''BL'' CLASS_DEFAULT CYCLES_BL ERRORS_DEFAULT,
    instr 0xBF5 ''BL'' CLASS_DEFAULT CYCLES_BL ERRORS_DEFAULT,
    instr 0xBF6 ''BL'' CLASS_DEFAULT CYCLES_BL ERRORS_DEFAULT,
    instr 0xBF7 ''BL'' CLASS_DEFAULT CYCLES_BL ERRORS_DEFAULT,
    instr 0xBF8 ''BL'' CLASS_DEFAULT CYCLES_BL ERRORS_DEFAULT,
    instr 0xBF9 ''BL'' CLASS_DEFAULT CYCLES_BL ERRORS_DEFAULT,
    instr 0xBFA ''BL'' CLASS_DEFAULT CYCLES_BL ERRORS_DEFAULT,
    instr 0xBFB ''BL'' CLASS_DEFAULT CYCLES_BL ERRORS_DEFAULT,
    instr 0xBFC ''BL'' CLASS_DEFAULT CYCLES_BL ERRORS_DEFAULT,
    instr 0xBFD ''BL'' CLASS_DEFAULT CYCLES_BL ERRORS_DEFAULT,
    instr 0xBFE ''BL'' CLASS_DEFAULT CYCLES_BL ERRORS_DEFAULT,
    instr 0xBFF ''BL'' CLASS_DEFAULT CYCLES_BL ERRORS_DEFAULT]"

lemma vemu_arm_instr_16_ok: "list_all2 row_ok [2048..<2176] vemu_arm_instr_16"
  by (simp add: vemu_arm_instr_16_def row_defs cycles_defs upt_conv_Cons)

lemma vemu_arm_instr_17_ok: "list_all2 row_ok [2176..<2304] vemu_arm_instr_17"
  by (simp add: vemu_arm_instr_17_def row_defs cycles_defs upt_conv_Cons)

lemma vemu_arm_instr_18_ok: "list_all2 row_ok [2304..<2432] vemu_arm_instr_18"
  by (simp add: vemu_arm_instr_18_def row_defs cycles_defs upt_conv_Cons)

lemma vemu_arm_instr_19_ok: "list_all2 row_ok [2432..<2560] vemu_arm_instr_19"
  by (simp add: vemu_arm_instr_19_def row_defs cycles_defs upt_conv_Cons)

lemma vemu_arm_instr_20_ok: "list_all2 row_ok [2560..<2688] vemu_arm_instr_20"
  by (simp add: vemu_arm_instr_20_def row_defs cycles_defs upt_conv_Cons)

lemma vemu_arm_instr_21_ok: "list_all2 row_ok [2688..<2816] vemu_arm_instr_21"
  by (simp add: vemu_arm_instr_21_def row_defs cycles_defs upt_conv_Cons)

lemma vemu_arm_instr_22_ok: "list_all2 row_ok [2816..<2944] vemu_arm_instr_22"
  by (simp add: vemu_arm_instr_22_def row_defs cycles_defs upt_conv_Cons)

lemma vemu_arm_instr_23_ok: "list_all2 row_ok [2944..<3072] vemu_arm_instr_23"
  by (simp add: vemu_arm_instr_23_def row_defs cycles_defs upt_conv_Cons)

lemma vemu_arm_instr_16_cost: "list_all2 cost_ok [2048..<2176] vemu_arm_instr_16"
  by (simp add: vemu_arm_instr_16_def instr_def cycles_defs cost_ok_def arm_ref_cycles_def upt_conv_Cons)

lemma vemu_arm_instr_17_cost: "list_all2 cost_ok [2176..<2304] vemu_arm_instr_17"
  by (simp add: vemu_arm_instr_17_def instr_def cycles_defs cost_ok_def arm_ref_cycles_def upt_conv_Cons)

lemma vemu_arm_instr_18_cost: "list_all2 cost_ok [2304..<2432] vemu_arm_instr_18"
  by (simp add: vemu_arm_instr_18_def instr_def cycles_defs cost_ok_def arm_ref_cycles_def upt_conv_Cons)

lemma vemu_arm_instr_19_cost: "list_all2 cost_ok [2432..<2560] vemu_arm_instr_19"
  by (simp add: vemu_arm_instr_19_def instr_def cycles_defs cost_ok_def arm_ref_cycles_def upt_conv_Cons)

lemma vemu_arm_instr_20_cost: "list_all2 cost_ok [2560..<2688] vemu_arm_instr_20"
  by (simp add: vemu_arm_instr_20_def instr_def cycles_defs cost_ok_def arm_ref_cycles_def upt_conv_Cons)

lemma vemu_arm_instr_21_cost: "list_all2 cost_ok [2688..<2816] vemu_arm_instr_21"
  by (simp add: vemu_arm_instr_21_def instr_def cycles_defs cost_ok_def arm_ref_cycles_def upt_conv_Cons)

lemma vemu_arm_instr_22_cost: "list_all2 cost_ok [2816..<2944] vemu_arm_instr_22"
  by (simp add: vemu_arm_instr_22_def instr_def cycles_defs cost_ok_def arm_ref_cycles_def upt_conv_Cons)

lemma vemu_arm_instr_23_cost: "list_all2 cost_ok [2944..<3072] vemu_arm_instr_23"
  by (simp add: vemu_arm_instr_23_def instr_def cycles_defs cost_ok_def arm_ref_cycles_def upt_conv_Cons)

end
