(* ===== verification/Vemu_Arm_Table3.thy ===== *)
theory Vemu_Arm_Table3
  imports Vemu_Instr
begin

text \<open>
  The rows 0xC00 to 0xFFF of \<^verbatim>\<open>vemu_arm_instr\<close>, in eight lists of 128.
\<close>

definition vemu_arm_instr_24 :: "vemu_instr_info list" where
  "vemu_arm_instr_24 = [
    instr 0xC00 ''STC ofm'' CLASS_DEFAULT CYCLES_STC ERRORS_DEFAULT,
    instr 0xC01 ''STC ofm'' CLASS_DEFAULT CYCLES_STC ERRORS_DEFAULT,
    instr 0xC02 ''STC ofm'' CLASS_DEFAULT CYCLES_STC ERRORS_DEFAULT,
    instr 0xC03 ''STC ofm'' CLASS_DEFAULT CYCLES_STC ERRORS_DEFAULT,
    instr 0xC04 ''STC ofm'' CLASS_DEFAULT CYCLES_STC ERRORS_DEFAULT,
    instr 0xC05 ''STC ofm'' CLASS_DEFAULT CYCLES_STC ERRORS_DEFAULT,
    instr 0xC06 ''STC ofm'' CLASS_DEFAULT CYCLES_STC ERRORS_DEFAULT,
    instr 0xC07 ''STC ofm'' CLASS_DEFAULT CYCLES_STC ERRORS_DEFAULT,
    instr 0xC08 ''STC ofm'' CLASS_DEFAULT CYCLES_STC ERRORS_DEFAULT,
    instr 0xC09 ''STC ofm'' CLASS_DEFAULT CYCLES_STC ERRORS_DEFAULT,
    instr 0xC0A ''STC ofm'' CLASS_DEFAULT CYCLES_STC ERRORS_DEFAULT,
    instr 0xC0B ''STC ofm'' CLASS_DEFAULT CYCLES_STC ERRORS_DEFAULT,
    instr 0xC0C ''STC ofm'' CLASS_DEFAULT CYCLES_STC ERRORS_DEFAULT,
    instr 0xC0D ''STC ofm'' CLASS_DEFAULT CYCLES_STC ERRORS_DEFAULT,
    instr 0xC0E ''STC ofm'' CLASS_DEFAULT CYCLES_STC ERRORS_DEFAULT,
    instr 0xC0F ''STC ofm'' CLASS_DEFAULT CYCLES_STC ERRORS_DEFAULT,
    instr 0xC10 ''LDC ofm'' CLASS_DEFAULT CYCLES_LDC ERRORS_DEFAULT,
    instr 0xC11 ''LDC ofm'' CLASS_DEFAULT CYCLES_LDC ERRORS_DEFAULT,
    instr 0xC12 ''LDC ofm'' CLASS_DEFAULT CYCLES_LDC ERRORS_DEFAULT,
    instr 0xC13 ''LDC ofm'' CLASS_DEFAULT CYCLES_LDC ERRORS_DEFAULT,
    instr 0xC14 ''LDC ofm'' CLASS_DEFAULT CYCLES_LDC ERRORS_DEFAULT,
    instr 0xC15 ''LDC ofm'' CLASS_DEFAULT CYCLES_LDC ERRORS_DEFAULT,
    instr 0xC16 ''LDC ofm'' CLASS_DEFAULT CYCLES_LDC ERRORS_DEFAULT,
    instr 0xC17 ''LDC ofm'' CLASS_DEFAULT CYCLES_LDC ERRORS_DEFAULT,
    instr 0xC18 ''LDC ofm'' CLASS_DEFAULT CYCLES_LDC ERRORS_DEFAULT,
    instr 0xC19 ''LDC ofm'' CLASS_DEFAULT CYCLES_LDC ERRORS_DEFAULT,
    instr 0xC1A ''LDC ofm'' CLASS_DEFAULT CYCLES_LDC ERRORS_DEFAULT,
    instr 0xC1B ''LDC ofm'' CLASS_DEFAULT CYCLES_LDC ERRORS_DEFAULT,
    instr 0xC1C ''LDC ofm'' CLASS_DEFAULT CYCLES_LDC ERRORS_DEFAULT,
    instr 0xC1D ''LDC ofm'' CLASS_DEFAULT CYCLES_LDC ERRORS_DEFAULT,
    instr 0xC1E ''LDC ofm'' CLASS_DEFAULT CYCLES_LDC ERRORS_DEFAULT,
    instr 0xC1F ''LDC ofm'' CLASS_DEFAULT CYCLES_LDC ERRORS_DEFAULT,
    instr 0xC20 ''STC prm'' CLASS_DEFAULT CYCLES_STC ERRORS_DEFAULT,
    instr 0xC21 ''STC prm'' CLASS_DEFAULT CYCLES_STC ERRORS_DEFAULT,
    instr 0xC22 ''STC prm'' CLASS_DEFAULT CYCLES_STC ERRORS_DEFAULT,
    instr 0xC23 ''STC prm'' CLASS_DEFAULT CYCLES_STC ERRORS_DEFAULT,
    instr 0xC24 ''STC prm'' CLASS_DEFAULT CYCLES_STC ERRORS_DEFAULT,
    instr 0xC25 ''STC prm'' CLASS_DEFAULT CYCLES_STC ERRORS_DEFAULT,
    instr 0xC26 ''STC prm'' CLASS_DEFAULT CYCLES_STC ERRORS_DEFAULT,
    instr 0xC27 ''STC prm'' CLASS_DEFAULT CYCLES_STC ERRORS_DEFAULT,
    instr 0xC28 ''STC prm'' CLASS_DEFAULT CYCLES_STC ERRORS_DEFAULT,
    instr 0xC29 ''STC prm'' CLASS_DEFAULT CYCLES_STC ERRORS_DEFAULT,
    instr 0xC2A ''STC prm'' CLASS_DEFAULT CYCLES_STC ERRORS_DEFAULT,
    instr 0xC2B ''STC prm'' CLASS_DEFAULT CYCLES_STC ERRORS_DEFAULT,
    instr 0xC2C ''STC prm'' CLASS_DEFAULT CYCLES_STC ERRORS_DEFAULT,
    instr 0xC2D ''STC prm'' CLASS_DEFAULT CYCLES_STC ERRORS_DEFAULT,
    instr 0xC2E ''STC prm'' CLASS_DEFAULT CYCLES_STC ERRORS_DEFAULT,
    instr 0xC2F ''STC prm'' CLASS_DEFAULT CYCLES_STC ERRORS_DEFAULT,
    instr 0xC30 ''LDC prm'' CLASS_DEFAULT CYCLES_LDC ERRORS_DEFAULT,
    instr 0xC31 ''LDC prm'' CLASS_DEFAULT CYCLES_LDC ERRORS_DEFAULT,
    instr 0xC32 ''LDC prm'' CLASS_DEFAULT CYCLES_LDC ERRORS_DEFAULT,
    instr 0xC33 ''LDC prm'' CLASS_DEFAULT CYCLES_LDC ERRORS_DEFAULT,
    instr 0xC34 ''LDC prm'' CLASS_DEFAULT CYCLES_LDC ERRORS_DEFAULT,
    instr 0xC35 ''LDC prm'' CLASS_DEFAULT CYCLES_LDC ERRORS_DEFAULT,
    instr 0xC36 ''LDC prm'' CLASS_DEFAULT CYCLES_LDC ERRORS_DEFAULT,
    instr 0xC37 ''LDC prm'' CLASS_DEFAULT CYCLES_LDC ERRORS_DEFAULT,
    instr 0xC38 ''LDC prm'' CLASS_DEFAULT CYCLES_LDC ERRORS_DEFAULT,
    instr 0xC39 ''LDC prm'' CLASS_DEFAULT CYCLES_LDC ERRORS_DEFAULT,
    instr 0xC3A ''LDC prm'' CLASS_DEFAULT CYCLES_LDC ERRORS_DEFAULT,
    instr 0xC3B ''LDC prm'' CLASS_DEFAULT CYCLES_LDC ERRORS_DEFAULT,
    instr 0xC3C ''LDC prm'' CLASS_DEFAULT CYCLES_LDC ERRORS_DEFAULT,
    instr 0xC3D ''LDC prm'' CLASS_DEFAULT CYCLES_LDC ERRORS_DEFAULT,
    instr 0xC3E ''LDC prm'' CLASS_DEFAULT CYCLES_LDC ERRORS_DEFAULT,
    instr 0xC3F ''LDC prm'' CLASS_DEFAULT CYCLES_LDC ERRORS_DEFAULT,
    instr 0xC40 ''STC ofm'' CLASS_DEFAULT CYCLES_STC ERRORS_DEFAULT,
    instr 0xC41 ''STC ofm'' CLASS_DEFAULT CYCLES_STC ERRORS_DEFAULT,
    instr 0xC42 ''STC ofm'' CLASS_DEFAULT CYCLES_STC ERRORS_DEFAULT,
    instr 0xC43 ''STC ofm'' CLASS_DEFAULT CYCLES_STC ERRORS_DEFAULT,
    instr 0xC44 ''STC ofm'' CLASS_DEFAULT CYCLES_STC ERRORS_DEFAULT,
    instr 0xC45 ''STC ofm'' CLASS_DEFAULT CYCLES_STC ERRORS_DEFAULT,
    instr 0xC46 ''STC ofm'' CLASS_DEFAULT CYCLES_STC ERRORS_DEFAULT,
    instr 0xC47 ''STC ofm'' CLASS_DEFAULT CYCLES_STC ERRORS_DEFAULT,
    instr 0xC48 ''STC ofm'' CLASS_DEFAULT CYCLES_STC ERRORS_DEFAULT,
    instr 0xC49 ''STC ofm'' CLASS_DEFAULT CYCLES_STC ERRORS_DEFAULT,
    instr 0xC4A ''STC ofm'' CLASS_DEFAULT CYCLES_STC ERRORS_DEFAULT,
    instr 0xC4B ''STC ofm'' CLASS_DEFAULT CYCLES_STC ERRORS_DEFAULT,
    instr 0xC4C ''STC ofm'' CLASS_DEFAULT CYCLES_STC ERRORS_DEFAULT,
    instr 0xC4D ''STC ofm'' CLASS_DEFAULT CYCLES_STC ERRORS_DEFAULT,
    instr 0xC4E ''STC ofm'' CLASS_DEFAULT CYCLES_STC ERRORS_DEFAULT,
    instr 0xC4F ''STC ofm'' CLASS_DEFAULT CYCLES_STC ERRORS_DEFAULT,
    instr 0xC50 ''LDC ofm'' CLASS_DEFAULT CYCLES_LDC ERRORS_DEFAULT,
    instr 0xC51 ''LDC ofm'' CLASS_DEFAULT CYCLES_LDC ERRORS_DEFAULT,
    instr 0xC52 ''LDC ofm'' CLASS_DEFAULT CYCLES_LDC ERRORS_DEFAULT,
    instr 0xC53 ''LDC ofm'' CLASS_DEFAULT CYCLES_LDC ERRORS_DEFAULT,
    instr 0xC54 ''LDC ofm'' CLASS_DEFAULT CYCLES_LDC ERRORS_DEFAULT,
    instr 0xC55 ''LDC ofm'' CLASS_DEFAULT CYCLES_LDC ERRORS_DEFAULT,
    instr 0xC56 ''LDC ofm'' CLASS_DEFAULT CYCLES_LDC ERRORS_DEFAULT,
    instr 0xC57 ''LDC ofm'' CLASS_DEFAULT CYCLES_LDC ERRORS_DEFAULT,
    instr 0xC58 ''LDC ofm'' CLASS_DEFAULT CYCLES_LDC ERRORS_DEFAULT,
    instr 0xC59 ''LDC ofm'' CLASS_DEFAULT CYCLES_LDC ERRORS_DEFAULT,
    instr 0xC5A ''LDC ofm'' CLASS_DEFAULT CYCLES_LDC ERRORS_DEFAULT,
    instr 0xC5B ''LDC ofm'' CLASS_DEFAULT CYCLES_LDC ERRORS_DEFAULT,
    instr 0xC5C ''LDC ofm'' CLASS_DEFAULT CYCLES_LDC ERRORS_DEFAULT,
    instr 0xC5D ''LDC ofm'' CLASS_DEFAULT CYCLES_LDC ERRORS_DEFAULT,
    instr 0xC5E ''LDC ofm'' CLASS_DEFAULT CYCLES_LDC ERRORS_DEFAULT,
    instr 0xC5F ''LDC ofm'' CLASS_DEFAULT CYCLES_LDC ERRORS_DEFAULT,
    instr 0xC60 ''STC prm'' CLASS_DEFAULT CYCLES_STC ERRORS_DEFAULT,
    instr 0xC61 ''STC prm'' CLASS_DEFAULT CYCLES_STC ERRORS_DEFAULT,
    instr 0xC62 ''STC prm'' CLASS_DEFAULT CYCLES_STC ERRORS_DEFAULT,
    instr 0xC63 ''STC prm'' CLASS_DEFAULT CYCLES_STC ERRORS_DEFAULT,
    instr 0xC64 ''STC prm'' CLASS_DEFAULT CYCLES_STC ERRORS_DEFAULT,
    instr 0xC65 ''STC prm'' CLASS_DEFAULT CYCLES_STC ERRORS_DEFAULT,
    instr 0xC66 ''STC prm'' CLASS_DEFAULT CYCLES_STC ERRORS_DEFAULT,
    instr 0xC67 ''STC prm'' CLASS_DEFAULT CYCLES_STC ERRORS_DEFAULT,
    instr 0xC68 ''STC prm'' CLASS_DEFAULT CYCLES_STC ERRORS_DEFAULT,
    instr 0xC69 ''STC prm'' CLASS_DEFAULT CYCLES_STC ERRORS_DEFAULT,
    instr 0xC6A ''STC prm'' CLASS_DEFAULT CYCLES_STC ERRORS_DEFAULT,
    instr 0xC6B ''STC prm'' CLASS_DEFAULT CYCLES_STC ERRORS_DEFAULT,
    instr 0xC6C ''STC prm'' CLASS_DEFAULT CYCLES_STC ERRORS_DEFAULT,
    instr 0xC6D ''STC prm'' CLASS_DEFAULT CYCLES_STC ERRORS_DEFAULT,
    instr 0xC6E ''STC prm'' CLASS_DEFAULT CYCLES_STC ERRORS_DEFAULT,
    instr 0xC6F ''STC prm'' CLASS_DEFAULT CYCLES_STC ERRORS_DEFAULT,
    instr 0xC70 ''LDC prm'' CLASS_DEFAULT CYCLES_LDC ERRORS_DEFAULT,
    instr 0xC71 ''LDC prm'' CLASS_DEFAULT CYCLES_LDC ERRORS_DEFAULT,
    instr 0xC72 ''LDC prm'' CLASS_DEFAULT CYCLES_LDC ERRORS_DEFAULT,
    instr 0xC73 ''LDC prm'' CLASS_DEFAULT CYCLES_LDC ERRORS_DEFAULT,
    instr 0xC74 ''LDC prm'' CLASS_DEFAULT CYCLES_LDC ERRORS_DEFAULT,
    instr 0xC75 ''LDC prm'' CLASS_DEFAULT CYCLES_LDC ERRORS_DEFAULT,
    instr 0xC76 ''LDC prm'' CLASS_DEFAULT CYCLES_LDC ERRORS_DEFAULT,
    instr 0xC77 ''LDC prm'' CLASS_DEFAULT CYCLES_LDC ERRORS_DEFAULT,
    instr 0xC78 ''LDC prm'' CLASS_DEFAULT CYCLES_LDC ERRORS_DEFAULT,
    instr 0xC79 ''LDC prm'' CLASS_DEFAULT CYCLES_LDC ERRORS_DEFAULT,
    instr 0xC7A ''LDC prm'' CLASS_DEFAULT CYCLES_LDC ERRORS_DEFAULT,
    instr 0xC7B ''LDC prm'' CLASS_DEFAULT CYCLES_LDC ERRORS_DEFAULT,
    instr 0xC7C ''LDC prm'' CLASS_DEFAULT CYCLES_LDC ERRORS_DEFAULT,
    instr 0xC7D ''LDC prm'' CLASS_DEFAULT CYCLES_LDC ERRORS_DEFAULT,
    instr 0xC7E ''LDC prm'' CLASS_DEFAULT CYCLES_LDC ERRORS_DEFAULT,
    instr 0xC7F ''LDC prm'' CLASS_DEFAULT CYCLES_LDC ERRORS_DEFAULT]"

definition vemu_arm_instr_25 :: "vemu_instr_info list" where
  "vemu_arm_instr_25 = [
    instr 0xC80 ''STC ofp'' CLASS_DEFAULT CYCLES_STC ERRORS_DEFAULT,
    instr 0xC81 ''STC ofp'' CLASS_DEFAULT CYCLES_STC ERRORS_DEFAULT,
    instr 0xC82 ''STC ofp'' CLASS_DEFAULT CYCLES_STC ERRORS_DEFAULT,
    instr 0xC83 ''STC ofp'' CLASS_DEFAULT CYCLES_STC ERRORS_DEFAULT,
    instr 0xC84 ''STC ofp'' CLASS_DEFAULT CYCLES_STC ERRORS_DEFAULT,
    instr 0xC85 ''STC ofp'' CLASS_DEFAULT CYCLES_STC ERRORS_DEFAULT,
    instr 0xC86 ''STC ofp'' CLASS_DEFAULT CYCLES_STC ERRORS_DEFAULT,
    instr 0xC87 ''STC ofp'' CLASS_DEFAULT CYCLES_STC ERRORS_DEFAULT,
    instr 0xC88 ''STC ofp'' CLASS_DEFAULT CYCLES_STC ERRORS_DEFAULT,
    instr 0xC89 ''STC ofp'' CLASS_DEFAULT CYCLES_STC ERRORS_DEFAULT,
    instr 0xC8A ''STC ofp'' CLASS_DEFAULT CYCLES_STC ERRORS_DEFAULT,
    instr 0xC8B ''STC ofp'' CLASS_DEFAULT CYCLES_STC ERRORS_DEFAULT,
    instr 0xC8C ''STC ofp'' CLASS_DEFAULT CYCLES_STC ERRORS_DEFAULT,
    instr 0xC8D ''STC ofp'' CLASS_DEFAULT CYCLES_STC ERRORS_DEFAULT,
    instr 0xC8E ''STC ofp'' CLASS_DEFAULT CYCLES_STC ERRORS_DEFAULT,
    instr 0xC8F ''STC ofp'' CLASS_DEFAULT CYCLES_STC ERRORS_DEFAULT,
    instr 0xC90 ''LDC ofp'' CLASS_DEFAULT CYCLES_LDC ERRORS_DEFAULT,
    instr 0xC91 ''LDC ofp'' CLASS_DEFAULT CYCLES_LDC ERRORS_DEFAULT,
    instr 0xC92 ''LDC ofp'' CLASS_DEFAULT CYCLES_LDC ERRORS_DEFAULT,
    instr 0xC93 ''LDC ofp'' CLASS_DEFAULT CYCLES_LDC ERRORS_DEFAULT,
    instr 0xC94 ''LDC ofp'' CLASS_DEFAULT CYCLES_LDC ERRORS_DEFAULT,
    instr 0xC95 ''LDC ofp'' CLASS_DEFAULT CYCLES_LDC ERRORS_DEFAULT,
    instr 0xC96 ''LDC ofp'' CLASS_DEFAULT CYCLES_LDC ERRORS_DEFAULT,
    instr 0xC97 ''LDC ofp'' CLASS_DEFAULT CYCLES_LDC ERRORS_DEFAULT,
    instr 0xC98 ''LDC ofp'' CLASS_DEFAULT CYCLES_LDC ERRORS_DEFAULT,
    instr 0xC99 ''LDC ofp'' CLASS_DEFAULT CYCLES_LDC ERRORS_DEFAULT,
    instr 0xC9A ''LDC ofp'' CLASS_DEFAULT CYCLES_LDC ERRORS_DEFAULT,
    instr 0xC9B ''LDC ofp'' CLASS_DEFAULT CYCLES_LDC ERRORS_DEFAULT,
    instr 0xC9C ''LDC ofp'' CLASS_DEFAULT CYCLES_LDC ERRORS_DEFAULT,
    instr 0xC9D ''LDC ofp'' CLASS_DEFAULT CYCLES_LDC ERRORS_DEFAULT,
    instr 0xC9E ''LDC ofp'' CLASS_DEFAULT CYCLES_LDC ERRORS_DEFAULT,
    instr 0xC9F ''LDC ofp'' CLASS_DEFAULT CYCLES_LDC ERRORS_DEFAULT,
    instr 0xCA0 ''STC prp'' CLASS_DEFAULT CYCLES_STC ERRORS_DEFAULT,
    instr 0xCA1 ''STC prp'' CLASS_DEFAULT CYCLES_STC ERRORS_DEFAULT,
    instr 0xCA2 ''STC prp'' CLASS_DEFAULT CYCLES_STC ERRORS_DEFAULT,
    instr 0xCA3 ''STC prp'' CLASS_DEFAULT CYCLES_STC ERRORS_DEFAULT,
    instr 0xCA4 ''STC prp'' CLASS_DEFAULT CYCLES_STC ERRORS_DEFAULT,
    instr 0xCA5 ''STC prp'' CLASS_DEFAULT CYCLES_STC ERRORS_DEFAULT,
    instr 0xCA6 ''STC prp'' CLASS_DEFAULT CYCLES_STC ERRORS_DEFAULT,
    instr 0xCA7 ''STC prp'' CLASS_DEFAULT CYCLES_STC ERRORS_DEFAULT,
    instr 0xCA8 ''STC prp'' CLASS_DEFAULT CYCLES_STC ERRORS_DEFAULT,
    instr 0xCA9 ''STC prp'' CLASS_DEFAULT CYCLES_STC ERRORS_DEFAULT,
    instr 0xCAA ''STC prp'' CLASS_DEFAULT CYCLES_STC ERRORS_DEFAULT,
    instr 0xCAB ''STC prp'' CLASS_DEFAULT CYCLES_STC ERRORS_DEFAULT,
    instr 0xCAC ''STC prp'' CLASS_DEFAULT CYCLES_STC ERRORS_DEFAULT,
    instr 0xCAD ''STC prp'' CLASS_DEFAULT CYCLES_STC ERRORS_DEFAULT,
    instr 0xCAE ''STC prp'' CLASS_DEFAULT CYCLES_STC ERRORS_DEFAULT,
    instr 0xCAF ''STC prp'' CLASS_DEFAULT CYCLES_STC ERRORS_DEFAULT,
    instr 0xCB0 ''LDC prp'' CLASS_DEFAULT CYCLES_LDC ERRORS_DEFAULT,
    instr 0xCB1 ''LDC prp'' CLASS_DEFAULT CYCLES_LDC ERRORS_DEFAULT,
    instr 0xCB2 ''LDC prp'' CLASS_DEFAULT CYCLES_LDC ERRORS_DEFAULT,
    instr 0xCB3 ''LDC prp'' CLASS_DEFAULT CYCLES_LDC ERRORS_DEFAULT,
    instr 0xCB4 ''LDC prp'' CLASS_DEFAULT CYCLES_LDC ERRORS_DEFAULT,
    instr 0xCB5 ''LDC prp'' CLASS_DEFAULT CYCLES_LDC ERRORS_DEFAULT,
    instr 0xCB6 ''LDC prp'' CLASS_DEFAULT CYCLES_LDC ERRORS_DEFAULT,
    instr 0xCB7 ''LDC prp'' CLASS_DEFAULT CYCLES_LDC ERRORS_DEFAULT,
    instr 0xCB8 ''LDC prp'' CLASS_DEFAULT CYCLES_LDC ERRORS_DEFAULT,
    instr 0xCB9 ''LDC prp'' CLASS_DEFAULT CYCLES_LDC ERRORS_DEFAULT,
    instr 0xCBA ''LDC prp'' CLASS_DEFAULT CYCLES_LDC ERRORS_DEFAULT,
    instr 0xCBB ''LDC prp'' CLASS_DEFAULT CYCLES_LDC ERRORS_DEFAULT,
    instr 0xCBC ''LDC prp'' CLASS_DEFAULT CYCLES_LDC ERRORS_DEFAULT,
    instr 0xCBD ''LDC prp'' CLASS_DEFAULT CYCLES_LDC ERRORS_DEFAULT,
    instr 0xCBE ''LDC prp'' CLASS_DEFAULT CYCLES_LDC ERRORS_DEFAULT,
    instr 0xCBF ''LDC prp'' CLASS_DEFAULT CYCLES_LDC ERRORS_DEFAULT,
    instr 0xCC0 ''STC ofp'' CLASS_DEFAULT CYCLES_STC ERRORS_DEFAULT,
    instr 0xCC1 ''STC ofp'' CLASS_DEFAULT CYCLES_STC ERRORS_DEFAULT,
    instr 0xCC2 ''STC ofp'' CLASS_DEFAULT CYCLES_STC ERRORS_DEFAULT,
    instr 0xCC3 ''STC ofp'' CLASS_DEFAULT CYCLES_STC ERRORS_DEFAULT,
    instr 0xCC4 ''STC ofp'' CLASS_DEFAULT CYCLES_STC ERRORS_DEFAULT,
    instr 0xCC5 ''STC ofp'' CLASS_DEFAULT CYCLES_STC ERRORS_DEFAULT,
    instr 0xCC6 ''STC ofp'' CLASS_DEFAULT CYCLES_STC ERRORS_DEFAULT,
    instr 0xCC7 ''STC ofp'' CLASS_DEFAULT CYCLES_STC ERRORS_DEFAULT,
    instr 0xCC8 ''STC ofp'' CLASS_DEFAULT CYCLES_STC ERRORS_DEFAULT,
    instr 0xCC9 ''STC ofp'' CLASS_DEFAULT CYCLES_STC ERRORS_DEFAULT,
    instr 0xCCA ''STC ofp'' CLASS_DEFAULT CYCLES_STC ERRORS_DEFAULT,
    instr 0xCCB ''STC ofp'' CLASS_DEFAULT CYCLES_STC ERRORS_DEFAULT,
    instr 0xCCC ''STC ofp'' CLASS_DEFAULT CYCLES_STC ERRORS_DEFAULT,
    instr 0xCCD ''STC ofp'' CLASS_DEFAULT CYCLES_STC ERRORS_DEFAULT,
    instr 0xCCE ''STC ofp'' CLASS_DEFAULT CYCLES_STC ERRORS_DEFAULT,
    instr 0xCCF ''STC ofp'' CLASS_DEFAULT CYCLES_STC ERRORS_DEFAULT,
    instr 0xCD0 ''LDC ofp'' CLASS_DEFAULT CYCLES_LDC ERRORS_DEFAULT,
    instr 0xCD1 ''LDC ofp'' CLASS_DEFAULT CYCLES_LDC ERRORS_DEFAULT,
    instr 0xCD2 ''LDC ofp'' CLASS_DEFAULT CYCLES_LDC ERRORS_DEFAULT,
    instr 0xCD3 ''LDC ofp'' CLASS_DEFAULT CYCLES_LDC ERRORS_DEFAULT,
    instr 0xCD4 ''LDC ofp'' CLASS_DEFAULT CYCLES_LDC ERRORS_DEFAULT,
    instr 0xCD5 ''LDC ofp'' CLASS_DEFAULT CYCLES_LDC ERRORS_DEFAULT,
    instr 0xCD6 ''LDC ofp'' CLASS_DEFAULT CYCLES_LDC ERRORS_DEFAULT,
    instr 0xCD7 ''LDC ofp'' CLASS_DEFAULT CYCLES_LDC ERRORS_DEFAULT,
    instr 0xCD8 ''LDC ofp'' CLASS_DEFAULT CYCLES_LDC ERRORS_DEFAULT,
    instr 0xCD9 ''LDC ofp'' CLASS_DEFAULT CYCLES_LDC ERRORS_DEFAULT,
    instr 0xCDA ''LDC ofp'' CLASS_DEFAULT CYCLES_LDC ERRORS_DEFAULT,
    instr 0xCDB ''LDC ofp'' CLASS_DEFAULT CYCLES_LDC ERRORS_DEFAULT,
    instr 0xCDC ''LDC ofp'' CLASS_DEFAULT CYCLES_LDC ERRORS_DEFAULT,
    instr 0xCDD ''LDC ofp'' CLASS_DEFAULT CYCLES_LDC ERRORS_DEFAULT,
    instr 0xCDE ''LDC ofp'' CLASS_DEFAULT CYCLES_LDC ERRORS_DEFAULT,
    instr 0xCDF ''LDC ofp'' CLASS_DEFAULT CYCLES_LDC ERRORS_DEFAULT,
    instr 0xCE0 ''STC prp'' CLASS_DEFAULT CYCLES_STC ERRORS_DEFAULT,
    instr 0xCE1 ''STC prp'' CLASS_DEFAULT CYCLES_STC ERRORS_DEFAULT,
    instr 0xCE2 ''STC prp'' CLASS_DEFAULT CYCLES_STC ERRORS_DEFAULT,
    instr 0xCE3 ''STC prp'' CLASS_DEFAULT CYCLES_STC ERRORS_DEFAULT,
    instr 0xCE4 ''STC prp'' CLASS_DEFAULT CYCLES_STC ERRORS_DEFAULT,
    instr 0xCE5 ''STC prp'' CLASS_DEFAULT CYCLES_STC ERRORS_DEFAULT,
    instr 0xCE6 ''STC prp'' CLASS_DEFAULT CYCLES_STC ERRORS_DEFAULT,
    instr 0xCE7 ''STC prp'' CLASS_DEFAULT CYCLES_STC ERRORS_DEFAULT,
    instr 0xCE8 ''STC prp'' CLASS_DEFAULT CYCLES_STC ERRORS_DEFAULT,
    instr 0xCE9 ''STC prp'' CLASS_DEFAULT CYCLES_STC ERRORS_DEFAULT,
    instr 0xCEA ''STC prp'' CLASS_DEFAULT CYCLES_STC ERRORS_DEFAULT,
    instr 0xCEB ''STC prp'' CLASS_DEFAULT CYCLES_STC ERRORS_DEFAULT,
    instr 0xCEC ''STC prp'' CLASS_DEFAULT CYCLES_STC ERRORS_DEFAULT,
    instr 0xCED ''STC prp'' CLASS_DEFAULT CYCLES_STC ERRORS_DEFAULT,
    instr 0xCEE ''STC prp'' CLASS_DEFAULT CYCLES_STC ERRORS_DEFAULT,
    instr 0xCEF ''STC prp'' CLASS_DEFAULT CYCLES_STC ERRORS_DEFAULT,
    instr 0xCF0 ''LDC prp'' CLASS_DEFAULT CYCLES_LDC ERRORS_DEFAULT,
    instr 0xCF1 ''LDC prp'' CLASS_DEFAULT CYCLES_LDC ERRORS_DEFAULT,
    instr 0xCF2 ''LDC prp'' CLASS_DEFAULT CYCLES_LDC ERRORS_DEFAULT,
    instr 0xCF3 ''LDC prp'' CLASS_DEFAULT CYCLES_LDC ERRORS_DEFAULT,
    instr 0xCF4 ''LDC prp'' CLASS_DEFAULT CYCLES_LDC ERRORS_DEFAULT,
    instr 0xCF5 ''LDC prp'' CLASS_DEFAULT CYCLES_LDC ERRORS_DEFAULT,
    instr 0xCF6 ''LDC prp'' CLASS_DEFAULT CYCLES_LDC ERRORS_DEFAULT,
    instr 0xCF7 ''LDC prp'' CLASS_DEFAULT CYCLES_LDC ERRORS_DEFAULT,
    instr 0xCF8 ''LDC prp'' CLASS_DEFAULT CYCLES_LDC ERRORS_DEFAULT,
    instr 0xCF9 ''LDC prp'' CLASS_DEFAULT CYCLES_LDC ERRORS_DEFAULT,
    instr 0xCFA ''LDC prp'' CLASS_DEFAULT CYCLES_LDC ERRORS_DEFAULT,
    instr 0xCFB ''LDC prp'' CLASS_DEFAULT CYCLES_LDC ERRORS_DEFAULT,
    instr 0xCFC ''LDC prp'' CLASS_DEFAULT CYCLES_LDC ERRORS_DEFAULT,
    instr 0xCFD ''LDC prp'' CLASS_DEFAULT CYCLES_LDC ERRORS_DEFAULT,
    instr 0xCFE ''LDC prp'' CLASS_DEFAULT CYCLES_LDC ERRORS_DEFAULT,
    instr 0xCFF ''LDC prp'' CLASS_DEFAULT CYCLES_LDC ERRORS_DEFAULT]"

definition vemu_arm_instr_26 :: "vemu_instr_info list" where
  "vemu_arm_instr_26 = [
    instr 0xD00 ''STC unm'' CLASS_DEFAULT CYCLES_STC ERRORS_DEFAULT,
    instr 0xD01 ''STC unm'' CLASS_DEFAULT CYCLES_STC ERRORS_DEFAULT,
    instr 0xD02 ''STC unm'' CLASS_DEFAULT CYCLES_STC ERRORS_DEFAULT,
    instr 0xD03 ''STC unm'' CLASS_DEFAULT CYCLES_STC ERRORS_DEFAULT,
    instr 0xD04 ''STC unm'' CLASS_DEFAULT CYCLES_STC ERRORS_DEFAULT,
    instr 0xD05 ''STC unm'' CLASS_DEFAULT CYCLES_STC ERRORS_DEFAULT,
    instr 0xD06 ''STC unm'' CLASS_DEFAULT CYCLES_STC ERRORS_DEFAULT,
    instr 0xD07 ''STC unm'' CLASS_DEFAULT CYCLES_STC ERRORS_DEFAULT,
    instr 0xD08 ''STC unm'' CLASS_DEFAULT CYCLES_STC ERRORS_DEFAULT,
    instr 0xD09 ''STC unm'' CLASS_DEFAULT CYCLES_STC ERRORS_DEFAULT,
    instr 0xD0A ''STC unm'' CLASS_DEFAULT CYCLES_STC ERRORS_DEFAULT,
    instr 0xD0B ''STC unm'' CLASS_DEFAULT CYCLES_STC ERRORS_DEFAULT,
    instr 0xD0C ''STC unm'' CLASS_DEFAULT CYCLES_STC ERRORS_DEFAULT,
    instr 0xD0D ''STC unm'' CLASS_DEFAULT CYCLES_STC ERRORS_DEFAULT,
    instr 0xD0E ''STC unm'' CLASS_DEFAULT CYCLES_STC ERRORS_DEFAULT,
    instr 0xD0F ''STC unm'' CLASS_DEFAULT CYCLES_STC ERRORS_DEFAULT,
    instr 0xD10 ''LDC unm'' CLASS_DEFAULT CYCLES_LDC ERRORS_DEFAULT,
    instr 0xD11 ''LDC unm'' CLASS_DEFAULT CYCLES_LDC ERRORS_DEFAULT,
    instr 0xD12 ''LDC unm'' CLASS_DEFAULT CYCLES_LDC ERRORS_DEFAULT,
    instr 0xD13 ''LDC unm'' CLASS_DEFAULT CYCLES_LDC ERRORS_DEFAULT,
    instr 0xD14 ''LDC unm'' CLASS_DEFAULT CYCLES_LDC ERRORS_DEFAULT,
    instr 0xD15 ''LDC unm'' CLASS_DEFAULT CYCLES_LDC ERRORS_DEFAULT,
    instr 0xD16 ''LDC unm'' CLASS_DEFAULT CYCLES_LDC ERRORS_DEFAULT,
    instr 0xD17 ''LDC unm'' CLASS_DEFAULT CYCLES_LDC ERRORS_DEFAULT,
    instr 0xD18 ''LDC unm'' CLASS_DEFAULT CYCLES_LDC ERRORS_DEFAULT,
    instr 0xD19 ''LDC unm'' CLASS_DEFAULT CYCLES_LDC ERRORS_DEFAULT,
    instr 0xD1A ''LDC unm'' CLASS_DEFAULT CYCLES_LDC ERRORS_DEFAULT,
    instr 0xD1B ''LDC unm'' CLASS_DEFAULT CYCLES_LDC ERRORS_DEFAULT,
    instr 0xD1C ''LDC unm'' CLASS_DEFAULT CYCLES_LDC ERRORS_DEFAULT,
    instr 0xD1D ''LDC unm'' CLASS_DEFAULT CYCLES_LDC ERRORS_DEFAULT,
    instr 0xD1E ''LDC unm'' CLASS_DEFAULT CYCLES_LDC ERRORS_DEFAULT,
    instr 0xD1F ''LDC unm'' CLASS_DEFAULT CYCLES_LDC ERRORS_DEFAULT,
    instr 0xD20 ''STC ptm'' CLASS_DEFAULT CYCLES_STC ERRORS_DEFAULT,
    instr 0xD21 ''STC ptm'' CLASS_DEFAULT CYCLES_STC ERRORS_DEFAULT,
    instr 0xD22 ''STC ptm'' CLASS_DEFAULT CYCLES_STC ERRORS_DEFAULT,
    instr 0xD23 ''STC ptm'' CLASS_DEFAULT CYCLES_STC ERRORS_DEFAULT,
    instr 0xD24 ''STC ptm'' CLASS_DEFAULT CYCLES_STC ERRORS_DEFAULT,
    instr 0xD25 ''STC ptm'' CLASS_DEFAULT CYCLES_STC ERRORS_DEFAULT,
    instr 0xD26 ''STC ptm'' CLASS_DEFAULT CYCLES_STC ERRORS_DEFAULT,
    instr 0xD27 ''STC ptm'' CLASS_DEFAULT CYCLES_STC ERRORS_DEFAULT,
    instr 0xD28 ''STC ptm'' CLASS_DEFAULT CYCLES_STC ERRORS_DEFAULT,
    instr 0xD29 ''STC ptm'' CLASS_DEFAULT CYCLES_STC ERRORS_DEFAULT,
    instr 0xD2A ''STC ptm'' CLASS_DEFAULT CYCLES_STC ERRORS_DEFAULT,
    instr 0xD2B ''STC ptm'' CLASS_DEFAULT CYCLES_STC ERRORS_DEFAULT,
    instr 0xD2C ''STC ptm'' CLASS_DEFAULT CYCLES_STC ERRORS_DEFAULT,
    instr 0xD2D ''STC ptm'' CLASS_DEFAULT CYCLES_STC ERRORS_DEFAULT,
    instr 0xD2E ''STC ptm'' CLASS_DEFAULT CYCLES_STC ERRORS_DEFAULT,
    instr 0xD2F ''STC ptm'' CLASS_DEFAULT CYCLES_STC ERRORS_DEFAULT,
    instr 0xD30 ''LDC ptm'' CLASS_DEFAULT CYCLES_LDC ERRORS_DEFAULT,
    instr 0xD31 ''LDC ptm'' CLASS_DEFAULT CYCLES_LDC ERRORS_DEFAULT,
    instr 0xD32 ''LDC ptm'' CLASS_DEFAULT CYCLES_LDC ERRORS_DEFAULT,
    instr 0xD33 ''LDC ptm'' CLASS_DEFAULT CYCLES_LDC ERRORS_DEFAULT,
    instr 0xD34 ''LDC ptm'' CLASS_DEFAULT CYCLES_LDC ERRORS_DEFAULT,
    instr 0xD35 ''LDC ptm'' CLASS_DEFAULT CYCLES_LDC ERRORS_DEFAULT,
    instr 0xD36 ''LDC ptm'' CLASS_DEFAULT CYCLES_LDC ERRORS_DEFAULT,
    instr 0xD37 ''LDC ptm'' CLASS_DEFAULT CYCLES_LDC ERRORS_DEFAULT,
    instr 0xD38 ''LDC ptm'' CLASS_DEFAULT CYCLES_LDC ERRORS_DEFAULT,
    instr 0xD39 ''LDC ptm'' CLASS_DEFAULT CYCLES_LDC ERRORS_DEFAULT,
    instr 0xD3A ''LDC ptm'' CLASS_DEFAULT CYCLES_LDC ERRORS_DEFAULT,
    instr 0xD3B ''LDC ptm'' CLASS_DEFAULT CYCLES_LDC ERRORS_DEFAULT,
    instr 0xD3C ''LDC ptm'' CLASS_DEFAULT CYCLES_LDC ERRORS_DEFAULT,
    instr 0xD3D ''LDC ptm'' CLASS_DEFAULT CYCLES_LDC ERRORS_DEFAULT,
    instr 0xD3E ''LDC ptm'' CLASS_DEFAULT CYCLES_LDC ERRORS_DEFAULT,
    instr 0xD3F ''LDC ptm'' CLASS_DEFAULT CYCLES_LDC ERRORS_DEFAULT,
    instr 0xD40 ''STC unm'' CLASS_DEFAULT CYCLES_STC ERRORS_DEFAULT,
    instr 0xD41 ''STC unm'' CLASS_DEFAULT CYCLES_STC ERRORS_DEFAULT,
    instr 0xD42 ''STC unm'' CLASS_DEFAULT CYCLES_STC ERRORS_DEFAULT,
    instr 0xD43 ''STC unm'' CLASS_DEFAULT CYCLES_STC ERRORS_DEFAULT,
    instr 0xD44 ''STC unm'' CLASS_DEFAULT CYCLES_STC ERRORS_DEFAULT,
    instr 0xD45 ''STC unm'' CLASS_DEFAULT CYCLES_STC ERRORS_DEFAULT,
    instr 0xD46 ''STC unm'' CLASS_DEFAULT CYCLES_STC ERRORS_DEFAULT,
    instr 0xD47 ''STC unm'' CLASS_DEFAULT CYCLES_STC ERRORS_DEFAULT,
    instr 0xD48 ''STC unm'' CLASS_DEFAULT CYCLES_STC ERRORS_DEFAULT,
    instr 0xD49 ''STC unm'' CLASS_DEFAULT CYCLES_STC ERRORS_DEFAULT,
    instr 0xD4A ''STC unm'' CLASS_DEFAULT CYCLES_STC ERRORS_DEFAULT,
    instr 0xD4B ''STC unm'' CLASS_DEFAULT CYCLES_STC ERRORS_DEFAULT,
    instr 0xD4C ''STC unm'' CLASS_DEFAULT CYCLES_STC ERRORS_DEFAULT,
    instr 0xD4D ''STC unm'' CLASS_DEFAULT CYCLES_STC ERRORS_DEFAULT,
    instr 0xD4E ''STC unm'' CLASS_DEFAULT CYCLES_STC ERRORS_DEFAULT,
    instr 0xD4F ''STC unm'' CLASS_DEFAULT CYCLES_STC ERRORS_DEFAULT,
    instr 0xD50 ''LDC unm'' CLASS_DEFAULT CYCLES_LDC ERRORS_DEFAULT,
    instr 0xD51 ''LDC unm'' CLASS_DEFAULT CYCLES_LDC ERRORS_DEFAULT,
    instr 0xD52 ''LDC unm'' CLASS_DEFAULT CYCLES_LDC ERRORS_DEFAULT,
    instr 0xD53 ''LDC unm'' CLASS_DEFAULT CYCLES_LDC ERRORS_DEFAULT,
    instr 0xD54 ''LDC unm'' CLASS_DEFAULT CYCLES_LDC ERRORS_DEFAULT,
    instr 0xD55 ''LDC unm'' CLASS_DEFAULT CYCLES_LDC ERRORS_DEFAULT,
    instr 0xD56 ''LDC unm'' CLASS_DEFAULT CYCLES_LDC ERRORS_DEFAULT,
    instr 0xD57 ''LDC unm'' CLASS_DEFAULT CYCLES_LDC ERRORS_DEFAULT,
    instr 0xD58 ''LDC unm'' CLASS_DEFAULT CYCLES_LDC ERRORS_DEFAULT,
    instr 0xD59 ''LDC unm'' CLASS_DEFAULT CYCLES_LDC ERRORS_DEFAULT,
    instr 0xD5A ''LDC unm'' CLASS_DEFAULT CYCLES_LDC ERRORS_DEFAULT,
    instr 0xD5B ''LDC unm'' CLASS_DEFAULT CYCLES_LDC ERRORS_DEFAULT,
    instr 0xD5C ''LDC unm'' CLASS_DEFAULT CYCLES_LDC ERRORS_DEFAULT,
    instr 0xD5D ''LDC unm'' CLASS_DEFAULT CYCLES_LDC ERRORS_DEFAULT,
    instr 0xD5E ''LDC unm'' CLASS_DEFAULT CYCLES_LDC ERRORS_DEFAULT,
    instr 0xD5F ''LDC unm'' CLASS_DEFAULT CYCLES_LDC ERRORS_DEFAULT,
    instr 0xD60 ''STC ptm'' CLASS_DEFAULT CYCLES_STC ERRORS_DEFAULT,
    instr 0xD61 ''STC ptm'' CLASS_DEFAULT CYCLES_STC ERRORS_DEFAULT,
    instr 0xD62 ''STC ptm'' CLASS_DEFAULT CYCLES_STC ERRORS_DEFAULT,
    instr 0xD63 ''STC ptm'' CLASS_DEFAULT CYCLES_STC ERRORS_DEFAULT,
    instr 0xD64 ''STC ptm'' CLASS_DEFAULT CYCLES_STC ERRORS_DEFAULT,
    instr 0xD65 ''STC ptm'' CLASS_DEFAULT CYCLES_STC ERRORS_DEFAULT,
    instr 0xD66 ''STC ptm'' CLASS_DEFAULT CYCLES_STC ERRORS_DEFAULT,
    instr 0xD67 ''STC ptm'' CLASS_DEFAULT CYCLES_STC ERRORS_DEFAULT,
    instr 0xD68 ''STC ptm'' CLASS_DEFAULT CYCLES_STC ERRORS_DEFAULT,
    instr 0xD69 ''STC ptm'' CLASS_DEFAULT CYCLES_STC ERRORS_DEFAULT,
    instr 0xD6A ''STC ptm'' CLASS_DEFAULT CYCLES_STC ERRORS_DEFAULT,
    instr 0xD6B ''STC ptm'' CLASS_DEFAULT CYCLES_STC ERRORS_DEFAULT,
    instr 0xD6C ''STC ptm'' CLASS_DEFAULT CYCLES_STC ERRORS_DEFAULT,
    instr 0xD6D ''STC ptm'' CLASS_DEFAULT CYCLES_STC ERRORS_DEFAULT,
    instr 0xD6E ''STC ptm'' CLASS_DEFAULT CYCLES_STC ERRORS_DEFAULT,
    instr 0xD6F ''STC ptm'' CLASS_DEFAULT CYCLES_STC ERRORS_DEFAULT,
    instr 0xD70 ''LDC ptm'' CLASS_DEFAULT CYCLES_LDC ERRORS_DEFAULT,
    instr 0xD71 ''LDC ptm'' CLASS_DEFAULT CYCLES_LDC ERRORS_DEFAULT,
    instr 0xD72 ''LDC ptm'' CLASS_DEFAULT CYCLES_LDC ERRORS_DEFAULT,
    instr 0xD73 ''LDC ptm'' CLASS_DEFAULT CYCLES_LDC ERRORS_DEFAULT,
    instr 0xD74 ''LDC ptm'' CLASS_DEFAULT CYCLES_LDC ERRORS_DEFAULT,
    instr 0xD75 ''LDC ptm'' CLASS_DEFAULT CYCLES_LDC ERRORS_DEFAULT,
    instr 0xD76 ''LDC ptm'' CLASS_DEFAULT CYCLES_LDC ERRORS_DEFAULT,
    instr 0xD77 ''LDC ptm'' CLASS_DEFAULT CYCLES_LDC ERRORS_DEFAULT,
    instr 0xD78 ''LDC ptm'' CLASS_DEFAULT CYCLES_LDC ERRORS_DEFAULT,
    instr 0xD79 ''LDC ptm'' CLASS_DEFAULT CYCLES_LDC ERRORS_DEFAULT,
    instr 0xD7A ''LDC ptm'' CLASS_DEFAULT CYCLES_LDC ERRORS_DEFAULT,
    instr 0xD7B ''LDC ptm'' CLASS_DEFAULT CYCLES_LDC ERRORS_DEFAULT,
    instr 0xD7C ''LDC ptm'' CLASS_DEFAULT CYCLES_LDC ERRORS_DEFAULT,
    instr 0xD7D ''LDC ptm'' CLASS_DEFAULT CYCLES_LDC ERRORS_DEFAULT,
    instr 0xD7E ''LDC ptm'' CLASS_DEFAULT CYCLES_LDC ERRORS_DEFAULT,
    instr 0xD7F ''LDC ptm'' CLASS_DEFAULT CYCLES_LDC ERRORS_DEFAULT]"

definition vemu_arm_instr_27 :: "vemu_instr_info list" where
  "vemu_arm_instr_27 = [
    instr 0xD80 ''STC unp'' CLASS_DEFAULT CYCLES_STC ERRORS_DEFAULT,
    instr 0xD81 ''STC unp'' CLASS_DEFAULT CYCLES_STC ERRORS_DEFAULT,
    instr 0xD82 ''STC unp'' CLASS_DEFAULT CYCLES_STC ERRORS_DEFAULT,
    instr 0xD83 ''STC unp'' CLASS_DEFAULT CYCLES_STC ERRORS_DEFAULT,
    instr 0xD84 ''STC unp'' CLASS_DEFAULT CYCLES_STC ERRORS_DEFAULT,
    instr 0xD85 ''STC unp'' CLASS_DEFAULT CYCLES_STC ERRORS_DEFAULT,
    instr 0xD86 ''STC unp'' CLASS_DEFAULT CYCLES_STC ERRORS_DEFAULT,
    instr 0xD87 ''STC unp'' CLASS_DEFAULT CYCLES_STC ERRORS_DEFAULT,
    instr 0xD88 ''STC unp'' CLASS_DEFAULT CYCLES_STC ERRORS_DEFAULT,
    instr 0xD89 ''STC unp'' CLASS_DEFAULT CYCLES_STC ERRORS_DEFAULT,
    instr 0xD8A ''STC unp'' CLASS_DEFAULT CYCLES_STC ERRORS_DEFAULT,
    instr 0xD8B ''STC unp'' CLASS_DEFAULT CYCLES_STC ERRORS_DEFAULT,
    instr 0xD8C ''STC unp'' CLASS_DEFAULT CYCLES_STC ERRORS_DEFAULT,
    instr 0xD8D ''STC unp'' CLASS_DEFAULT CYCLES_STC ERRORS_DEFAULT,
    instr 0xD8E ''STC unp'' CLASS_DEFAULT CYCLES_STC ERRORS_DEFAULT,
    instr 0xD8F ''STC unp'' CLASS_DEFAULT CYCLES_STC ERRORS_DEFAULT,
    instr 0xD90 ''LDC unp'' CLASS_DEFAULT CYCLES_LDC ERRORS_DEFAULT,
    instr 0xD91 ''LDC unp'' CLASS_DEFAULT CYCLES_LDC ERRORS_DEFAULT,
    instr 0xD92 ''LDC unp'' CLASS_DEFAULT CYCLES_LDC ERRORS_DEFAULT,
    instr 0xD93 ''LDC unp'' CLASS_DEFAULT CYCLES_LDC ERRORS_DEFAULT,
    instr 0xD94 ''LDC unp'' CLASS_DEFAULT CYCLES_LDC ERRORS_DEFAULT,
    instr 0xD95 ''LDC unp'' CLASS_DEFAULT CYCLES_LDC ERRORS_DEFAULT,
    instr 0xD96 ''LDC unp'' CLASS_DEFAULT CYCLES_LDC ERRORS_DEFAULT,
    instr 0xD97 ''LDC unp'' CLASS_DEFAULT CYCLES_LDC ERRORS_DEFAULT,
    instr 0xD98 ''LDC unp'' CLASS_DEFAULT CYCLES_LDC ERRORS_DEFAULT,
    instr 0xD99 ''LDC unp'' CLASS_DEFAULT CYCLES_LDC ERRORS_DEFAULT,
    instr 0xD9A ''LDC unp'' CLASS_DEFAULT CYCLES_LDC ERRORS_DEFAULT,
    instr 0xD9B ''LDC unp'' CLASS_DEFAULT CYCLES_LDC ERRORS_DEFAULT,
    instr 0xD9C ''LDC unp'' CLASS_DEFAULT CYCLES_LDC ERRORS_DEFAULT,
    instr 0xD9D ''LDC unp'' CLASS_DEFAULT CYCLES_LDC ERRORS_DEFAULT,
    instr 0xD9E ''LDC unp'' CLASS_DEFAULT CYCLES_LDC ERRORS_DEFAULT,
    instr 0xD9F ''LDC unp'' CLASS_DEFAULT CYCLES_LDC ERRORS_DEFAULT,
    instr 0xDA0 ''STC ptp'' CLASS_DEFAULT CYCLES_STC ERRORS_DEFAULT,
    instr 0xDA1 ''STC ptp'' CLASS_DEFAULT CYCLES_STC ERRORS_DEFAULT,
    instr 0xDA2 ''STC ptp'' CLASS_DEFAULT CYCLES_STC ERRORS_DEFAULT,
    instr 0xDA3 ''STC ptp'' CLASS_DEFAULT CYCLES_STC ERRORS_DEFAULT,
    instr 0xDA4 ''STC ptp'' CLASS_DEFAULT CYCLES_STC ERRORS_DEFAULT,
    instr 0xDA5 ''STC ptp'' CLASS_DEFAULT CYCLES_STC ERRORS_DEFAULT,
    instr 0xDA6 ''STC ptp'' CLASS_DEFAULT CYCLES_STC ERRORS_DEFAULT,
    instr 0xDA7 ''STC ptp'' CLASS_DEFAULT CYCLES_STC ERRORS_DEFAULT,
    instr 0xDA8 ''STC ptp'' CLASS_DEFAULT CYCLES_STC ERRORS_DEFAULT,
    instr 0xDA9 ''STC ptp'' CLASS_DEFAULT CYCLES_STC ERRORS_DEFAULT,
    instr 0xDAA ''STC ptp'' CLASS_DEFAULT CYCLES_STC ERRORS_DEFAULT,
    instr 0xDAB ''STC ptp'' CLASS_DEFAULT CYCLES_STC ERRORS_DEFAULT,
    instr 0xDAC ''STC ptp'' CLASS_DEFAULT CYCLES_STC ERRORS_DEFAULT,
    instr 0xDAD ''STC ptp'' CLASS_DEFAULT CYCLES_STC ERRORS_DEFAULT,
    instr 0xDAE ''STC ptp'' CLASS_DEFAULT CYCLES_STC ERRORS_DEFAULT,
    instr 0xDAF ''STC ptp'' CLASS_DEFAULT CYCLES_STC ERRORS_DEFAULT,
    instr 0xDB0 ''LDC ptp'' CLASS_DEFAULT CYCLES_LDC ERRORS_DEFAULT,
    instr 0xDB1 ''LDC ptp'' CLASS_DEFAULT CYCLES_LDC ERRORS_DEFAULT,
    instr 0xDB2 ''LDC ptp'' CLASS_DEFAULT CYCLES_LDC ERRORS_DEFAULT,
    instr 0xDB3 ''LDC ptp'' CLASS_DEFAULT CYCLES_LDC ERRORS_DEFAULT,
    instr 0xDB4 ''LDC ptp'' CLASS_DEFAULT CYCLES_LDC ERRORS_DEFAULT,
    instr 0xDB5 ''LDC ptp'' CLASS_DEFAULT CYCLES_LDC ERRORS_DEFAULT,
    instr 0xDB6 ''LDC ptp'' CLASS_DEFAULT CYCLES_LDC ERRORS_DEFAULT,
    instr 0xDB7 ''LDC ptp'' CLASS_DEFAULT CYCLES_LDC ERRORS_DEFAULT,
    instr 0xDB8 ''LDC ptp'' CLASS_DEFAULT CYCLES_LDC ERRORS_DEFAULT,
    instr 0xDB9 ''LDC ptp'' CLASS_DEFAULT CYCLES_LDC ERRORS_DEFAULT,
    instr 0xDBA ''LDC ptp'' CLASS_DEFAULT CYCLES_LDC ERRORS_DEFAULT,
    instr 0xDBB ''LDC ptp'' CLASS_DEFAULT CYCLES_LDC ERRORS_DEFAULT,
    instr 0xDBC ''LDC ptp'' CLASS_DEFAULT CYCLES_LDC ERRORS_DEFAULT,
    instr 0xDBD ''LDC ptp'' CLASS_DEFAULT CYCLES_LDC ERRORS_DEFAULT,
    instr 0xDBE ''LDC ptp'' CLASS_DEFAULT CYCLES_LDC ERRORS_DEFAULT,
    instr 0xDBF ''LDC ptp'' CLASS_DEFAULT CYCLES_LDC ERRORS_DEFAULT,
    instr 0xDC0 ''STC unp'' CLASS_DEFAULT CYCLES_STC ERRORS_DEFAULT,
    instr 0xDC1 ''STC unp'' CLASS_DEFAULT CYCLES_STC ERRORS_DEFAULT,
    instr 0xDC2 ''STC unp'' CLASS_DEFAULT CYCLES_STC ERRORS_DEFAULT,
    instr 0xDC3 ''STC unp'' CLASS_DEFAULT CYCLES_STC ERRORS_DEFAULT,
    instr 0xDC4 ''STC unp'' CLASS_DEFAULT CYCLES_STC ERRORS_DEFAULT,
    instr 0xDC5 ''STC unp'' CLASS_DEFAULT CYCLES_STC ERRORS_DEFAULT,
    instr 0xDC6 ''STC unp'' CLASS_DEFAULT CYCLES_STC ERRORS_DEFAULT,
    instr 0xDC7 ''STC unp'' CLASS_DEFAULT CYCLES_STC ERRORS_DEFAULT,
    instr 0xDC8 ''STC unp'' CLASS_DEFAULT CYCLES_STC ERRORS_DEFAULT,
    instr 0xDC9 ''STC unp'' CLASS_DEFAULT CYCLES_STC ERRORS_DEFAULT,
    instr 0xDCA ''STC unp'' CLASS_DEFAULT CYCLES_STC ERRORS_DEFAULT,
    instr 0xDCB ''STC unp'' CLASS_DEFAULT CYCLES_STC ERRORS_DEFAULT,
    instr 0xDCC ''STC unp'' CLASS_DEFAULT CYCLES_STC ERRORS_DEFAULT,
    instr 0xDCD ''STC unp'' CLASS_DEFAULT CYCLES_STC ERRORS_DEFAULT,
    instr 0xDCE ''STC unp'' CLASS_DEFAULT CYCLES_STC ERRORS_DEFAULT,
    instr 0xDCF ''STC unp'' CLASS_DEFAULT CYCLES_STC ERRORS_DEFAULT,
    instr 0xDD0 ''LDC unp'' CLASS_DEFAULT CYCLES_LDC ERRORS_DEFAULT,
    instr 0xDD1 ''LDC unp'' CLASS_DEFAULT CYCLES_LDC ERRORS_DEFAULT,
    instr 0xDD2 ''LDC unp'' CLASS_DEFAULT CYCLES_LDC ERRORS_DEFAULT,
    instr 0xDD3 ''LDC unp'' CLASS_DEFAULT CYCLES_LDC ERRORS_DEFAULT,
    instr 0xDD4 ''LDC unp'' CLASS_DEFAULT CYCLES_LDC ERRORS_DEFAULT,
    instr 0xDD5 ''LDC unp'' CLASS_DEFAULT CYCLES_LDC ERRORS_DEFAULT,
    instr 0xDD6 ''LDC unp'' CLASS_DEFAULT CYCLES_LDC ERRORS_DEFAULT,
    instr 0xDD7 ''LDC unp'' CLASS_DEFAULT CYCLES_LDC ERRORS_DEFAULT,
    instr 0xDD8 ''LDC unp'' CLASS_DEFAULT CYCLES_LDC ERRORS_DEFAULT,
    instr 0xDD9 ''LDC unp'' CLASS_DEFAULT CYCLES_LDC ERRORS_DEFAULT,
    instr 0xDDA ''LDC unp'' CLASS_DEFAULT CYCLES_LDC ERRORS_DEFAULT,
    instr 0xDDB ''LDC unp'' CLASS_DEFAULT CYCLES_LDC ERRORS_DEFAULT,
    instr 0xDDC ''LDC unp'' CLASS_DEFAULT CYCLES_LDC ERRORS_DEFAULT,
    instr 0xDDD ''LDC unp'' CLASS_DEFAULT CYCLES_LDC ERRORS_DEFAULT,
    instr 0xDDE ''LDC unp'' CLASS_DEFAULT CYCLES_LDC ERRORS_DEFAULT,
    instr 0xDDF ''LDC unp'' CLASS_DEFAULT CYCLES_LDC ERRORS_DEFAULT,
    instr 0xDE0 ''STC ptp'' CLASS_DEFAULT CYCLES_STC ERRORS_DEFAULT,
    instr 0xDE1 ''STC ptp'' CLASS_DEFAULT CYCLES_STC ERRORS_DEFAULT,
    instr 0xDE2 ''STC ptp'' CLASS_DEFAULT CYCLES_STC ERRORS_DEFAULT,
    instr 0xDE3 ''STC ptp'' CLASS_DEFAULT CYCLES_STC ERRORS_DEFAULT,
    instr 0xDE4 ''STC ptp'' CLASS_DEFAULT CYCLES_STC ERRORS_DEFAULT,
    instr 0xDE5 ''STC ptp'' CLASS_DEFAULT CYCLES_STC ERRORS_DEFAULT,
    instr 0xDE6 ''STC ptp'' CLASS_DEFAULT CYCLES_STC ERRORS_DEFAULT,
    instr 0xDE7 ''STC ptp'' CLASS_DEFAULT CYCLES_STC ERRORS_DEFAULT,
    instr 0xDE8 ''STC ptp'' CLASS_DEFAULT CYCLES_STC ERRORS_DEFAULT,
    instr 0xDE9 ''STC ptp'' CLASS_DEFAULT CYCLES_STC ERRORS_DEFAULT,
    instr 0xDEA ''STC ptp'' CLASS_DEFAULT CYCLES_STC ERRORS_DEFAULT,
    instr 0xDEB ''STC ptp'' CLASS_DEFAULT CYCLES_STC ERRORS_DEFAULT,
    instr 0xDEC ''STC ptp'' CLASS_DEFAULT CYCLES_STC ERRORS_DEFAULT,
    instr 0xDED ''STC ptp'' CLASS_DEFAULT CYCLES_STC ERRORS_DEFAULT,
    instr 0xDEE ''STC ptp'' CLASS_DEFAULT CYCLES_STC ERRORS_DEFAULT,
    instr 0xDEF ''STC ptp'' CLASS_DEFAULT CYCLES_STC ERRORS_DEFAULT,
    instr 0xDF0 ''LDC ptp'' CLASS_DEFAULT CYCLES_LDC ERRORS_DEFAULT,
    instr 0xDF1 ''LDC ptp'' CLASS_DEFAULT CYCLES_LDC ERRORS_DEFAULT,
    instr 0xDF2 ''LDC ptp'' CLASS_DEFAULT CYCLES_LDC ERRORS_DEFAULT,
    instr 0xDF3 ''LDC ptp'' CLASS_DEFAULT CYCLES_LDC ERRORS_DEFAULT,
    instr 0xDF4 ''LDC ptp'' CLASS_DEFAULT CYCLES_LDC ERRORS_DEFAULT,
    instr 0xDF5 ''LDC ptp'' CLASS_DEFAULT CYCLES_LDC ERRORS_DEFAULT,
    instr 0xDF6 ''LDC ptp'' CLASS_DEFAULT CYCLES_LDC ERRORS_DEFAULT,
    instr 0xDF7 ''LDC ptp'' CLASS_DEFAULT CYCLES_LDC ERRORS_DEFAULT,
    instr 0xDF8 ''LDC ptp'' CLASS_DEFAULT CYCLES_LDC ERRORS_DEFAULT,
    instr 0xDF9 ''LDC ptp'' CLASS_DEFAULT CYCLES_LDC ERRORS_DEFAULT,
    instr 0xDFA ''LDC ptp'' CLASS_DEFAULT CYCLES_LDC ERRORS_DEFAULT,
    instr 0xDFB ''LDC ptp'' CLASS_DEFAULT CYCLES_LDC ERRORS_DEFAULT,
    instr 0xDFC ''LDC ptp'' CLASS_DEFAULT CYCLES_LDC ERRORS_DEFAULT,
    instr 0xDFD ''LDC ptp'' CLASS_DEFAULT CYCLES_LDC ERRORS_DEFAULT,
    instr 0xDFE ''LDC ptp'' CLASS_DEFAULT CYCLES_LDC ERRORS_DEFAULT,
    instr 0xDFF ''LDC ptp'' CLASS_DEFAULT CYCLES_LDC ERRORS_DEFAULT]"

definition vemu_arm_instr_28 :: "vemu_instr_info list" where
  "vemu_arm_instr_28 = [
    instr 0xE00 ''CDP'' CLASS_DEFAULT CYCLES_CDP ERRORS_DEFAULT,
    instr 0xE01 ''MCR'' CLASS_DEFAULT CYCLES_MCR ERRORS_DEFAULT,
    instr 0xE02 ''CDP'' CLASS_DEFAULT CYCLES_CDP ERRORS_DEFAULT,
    instr 0xE03 ''MCR'' CLASS_DEFAULT CYCLES_MCR ERRORS_DEFAULT,
    instr 0xE04 ''CDP'' CLASS_DEFAULT CYCLES_CDP ERRORS_DEFAULT,
    instr 0xE05 ''MCR'' CLASS_DEFAULT CYCLES_MCR ERRORS_DEFAULT,
    instr 0xE06 ''CDP'' CLASS_DEFAULT CYCLES_CDP ERRORS_DEFAULT,
    instr 0xE07 ''MCR'' CLASS_DEFAULT CYCLES_MCR ERRORS_DEFAULT,
    instr 0xE08 ''CDP'' CLASS_DEFAULT CYCLES_CDP ERRORS_DEFAULT,
    instr 0xE09 ''MCR'' CLASS_DEFAULT CYCLES_MCR ERRORS_DEFAULT,
    instr 0xE0A ''CDP'' CLASS_DEFAULT CYCLES_CDP ERRORS_DEFAULT,
    instr 0xE0B ''MCR'' CLASS_DEFAULT CYCLES_MCR ERRORS_DEFAULT,
    instr 0xE0C ''CDP'' CLASS_DEFAULT CYCLES_CDP ERRORS_DEFAULT,
    instr 0xE0D ''MCR'' CLASS_DEFAULT CYCLES_MCR ERRORS_DEFAULT,
    instr 0xE0E ''CDP'' CLASS_DEFAULT CYCLES_CDP ERRORS_DEFAULT,
    instr 0xE0F ''MCR'' CLASS_DEFAULT CYCLES_MCR ERRORS_DEFAULT,
    instr 0xE10 ''CDP'' CLASS_DEFAULT CYCLES_CDP ERRORS_DEFAULT,
    instr 0xE11 ''MRC'' CLASS_DEFAULT CYCLES_MRC ERRORS_DEFAULT,
    instr 0xE12 ''CDP'' CLASS_DEFAULT CYCLES_CDP ERRORS_DEFAULT,
    instr 0xE13 ''MRC'' CLASS_DEFAULT CYCLES_MRC ERRORS_DEFAULT,
    instr 0xE14 ''CDP'' CLASS_DEFAULT CYCLES_CDP ERRORS_DEFAULT,
    instr 0xE15 ''MRC'' CLASS_DEFAULT CYCLES_MRC ERRORS_DEFAULT,
    instr 0xE16 ''CDP'' CLASS_DEFAULT CYCLES_CDP ERRORS_DEFAULT,
    instr 0xE17 ''MRC'' CLASS_DEFAULT CYCLES_MRC ERRORS_DEFAULT,
    instr 0xE18 ''CDP'' CLASS_DEFAULT CYCLES_CDP ERRORS_DEFAULT,
    instr 0xE19 ''MRC'' CLASS_DEFAULT CYCLES_MRC ERRORS_DEFAULT,
    instr 0xE1A ''CDP'' CLASS_DEFAULT CYCLES_CDP ERRORS_DEFAULT,
    instr 0xE1B ''MRC'' CLASS_DEFAULT CYCLES_MRC ERRORS_DEFAULT,
    instr 0xE1C ''CDP'' CLASS_DEFAULT CYCLES_CDP ERRORS_DEFAULT,
    instr 0xE1D ''MRC'' CLASS_DEFAULT CYCLES_MRC ERRORS_DEFAULT,
    instr 0xE1E ''CDP'' CLASS_DEFAULT CYCLES_CDP ERRORS_DEFAULT,
    instr 0xE1F ''MRC'' CLASS_DEFAULT CYCLES_MRC ERRORS_DEFAULT,
    instr 0xE20 ''CDP'' CLASS_DEFAULT CYCLES_CDP ERRORS_DEFAULT,
    instr 0xE21 ''MCR'' CLASS_DEFAULT CYCLES_MCR ERRORS_DEFAULT,
    instr 0xE22 ''CDP'' CLASS_DEFAULT CYCLES_CDP ERRORS_DEFAULT,
    instr 0xE23 ''MCR'' CLASS_DEFAULT CYCLES_MCR ERRORS_DEFAULT,
    instr 0xE24 ''CDP'' CLASS_DEFAULT CYCLES_CDP ERRORS_DEFAULT,
    instr 0xE25 ''MCR'' CLASS_DEFAULT CYCLES_MCR ERRORS_DEFAULT,
    instr 0xE26 ''CDP'' CLASS_DEFAULT CYCLES_CDP ERRORS_DEFAULT,
    instr 0xE27 ''MCR'' CLASS_DEFAULT CYCLES_MCR ERRORS_DEFAULT,
    instr 0xE28 ''CDP'' CLASS_DEFAULT CYCLES_CDP ERRORS_DEFAULT,
    instr 0xE29 ''MCR'' CLASS_DEFAULT CYCLES_MCR ERRORS_DEFAULT,
    instr 0xE2A ''CDP'' CLASS_DEFAULT CYCLES_CDP ERRORS_DEFAULT,
    instr 0xE2B ''MCR'' CLASS_DEFAULT CYCLES_MCR ERRORS_DEFAULT,
    instr 0xE2C ''CDP'' CLASS_DEFAULT CYCLES_CDP ERRORS_DEFAULT,
    instr 0xE2D ''MCR'' CLASS_DEFAULT CYCLES_MCR ERRORS_DEFAULT,
    instr 0xE2E ''CDP'' CLASS_DEFAULT CYCLES_CDP ERRORS_DEFAULT,
    instr 0xE2F ''MCR'' CLASS_DEFAULT CYCLES_MCR ERRORS_DEFAULT,
    instr 0xE30 ''CDP'' CLASS_DEFAULT CYCLES_CDP ERRORS_DEFAULT,
    instr 0xE31 ''MRC'' CLASS_DEFAULT CYCLES_MRC ERRORS_DEFAULT,
    instr 0xE32 ''CDP'' CLASS_DEFAULT CYCLES_CDP ERRORS_DEFAULT,
    instr 0xE33 ''MRC'' CLASS_DEFAULT CYCLES_MRC ERRORS_DEFAULT,
    instr 0xE34 ''CDP'' CLASS_DEFAULT CYCLES_CDP ERRORS_DEFAULT,
    instr 0xE35 ''MRC'' CLASS_DEFAULT CYCLES_MRC ERRORS_DEFAULT,
    instr 0xE36 ''CDP'' CLASS_DEFAULT CYCLES_CDP ERRORS_DEFAULT,
    instr 0xE37 ''MRC'' CLASS_DEFAULT CYCLES_MRC ERRORS_DEFAULT,
    instr 0xE38 ''CDP'' CLASS_DEFAULT CYCLES_CDP ERRORS_DEFAULT,
    instr 0xE39 ''MRC'' CLASS_DEFAULT CYCLES_MRC ERRORS_DEFAULT,
    instr 0xE3A ''CDP'' CLASS_DEFAULT CYCLES_CDP ERRORS_DEFAULT,
    instr 0xE3B ''MRC'' CLASS_DEFAULT CYCLES_MRC ERRORS_DEFAULT,
    instr 0xE3C ''CDP'' CLASS_DEFAULT CYCLES_CDP ERRORS_DEFAULT,
    instr 0xE3D ''MRC'' CLASS_DEFAULT CYCLES_MRC ERRORS_DEFAULT,
    instr 0xE3E ''CDP'' CLASS_DEFAULT CYCLES_CDP ERRORS_DEFAULT,
    instr 0xE3F ''MRC'' CLASS_DEFAULT CYCLES_MRC ERRORS_DEFAULT,
    instr 0xE40 ''CDP'' CLASS_DEFAULT CYCLES_CDP ERRORS_DEFAULT,
    instr 0xE41 ''MCR'' CLASS_DEFAULT CYCLES_MCR ERRORS_DEFAULT,
    instr 0xE42 ''CDP'' CLASS_DEFAULT CYCLES_CDP ERRORS_DEFAULT,
    instr 0xE43 ''MCR'' CLASS_DEFAULT CYCLES_MCR ERRORS_DEFAULT,
    instr 0xE44 ''CDP'' CLASS_DEFAULT CYCLES_CDP ERRORS_DEFAULT,
    instr 0xE45 ''MCR'' CLASS_DEFAULT CYCLES_MCR ERRORS_DEFAULT,
    instr 0xE46 ''CDP'' CLASS_DEFAULT CYCLES_CDP ERRORS_DEFAULT,
    instr 0xE47 ''MCR'' CLASS_DEFAULT CYCLES_MCR ERRORS_DEFAULT,
    instr 0xE48 ''CDP'' CLASS_DEFAULT CYCLES_CDP ERRORS_DEFAULT,
    instr 0xE49 ''MCR'' CLASS_DEFAULT CYCLES_MCR ERRORS_DEFAULT,
    instr 0xE4A ''CDP'' CLASS_DEFAULT CYCLES_CDP ERRORS_DEFAULT,
    instr 0xE4B ''MCR'' CLASS_DEFAULT CYCLES_MCR ERRORS_DEFAULT,
    instr 0xE4C ''CDP'' CLASS_DEFAULT CYCLES_CDP ERRORS_DEFAULT,
    instr 0xE4D ''MCR'' CLASS_DEFAULT CYCLES_MCR ERRORS_DEFAULT,
    instr 0xE4E ''CDP'' CLASS_DEFAULT CYCLES_CDP ERRORS_DEFAULT,
    instr 0xE4F ''MCR'' CLASS_DEFAULT CYCLES_MCR ERRORS_DEFAULT,
    instr 0xE50 ''CDP'' CLASS_DEFAULT CYCLES_CDP ERRORS_DEFAULT,
    instr 0xE51 ''MRC'' CLASS_DEFAULT CYCLES_MRC ERRORS_DEFAULT,
    instr 0xE52 ''CDP'' CLASS_DEFAULT CYCLES_CDP ERRORS_DEFAULT,
    instr 0xE53 ''MRC'' CLASS_DEFAULT CYCLES_MRC ERRORS_DEFAULT,
    instr 0xE54 ''CDP'' CLASS_DEFAULT CYCLES_CDP ERRORS_DEFAULT,
    instr 0xE55 ''MRC'' CLASS_DEFAULT CYCLES_MRC ERRORS_DEFAULT,
    instr 0xE56 ''CDP'' CLASS_DEFAULT CYCLES_CDP ERRORS_DEFAULT,
    instr 0xE57 ''MRC'' CLASS_DEFAULT CYCLES_MRC ERRORS_DEFAULT,
    instr 0xE58 ''CDP'' CLASS_DEFAULT CYCLES_CDP ERRORS_DEFAULT,
    instr 0xE59 ''MRC'' CLASS_DEFAULT CYCLES_MRC ERRORS_DEFAULT,
    instr 0xE5A ''CDP'' CLASS_DEFAULT CYCLES_CDP ERRORS_DEFAULT,
    instr 0xE5B ''MRC'' CLASS_DEFAULT CYCLES_MRC ERRORS_DEFAULT,
    instr 0xE5C ''CDP'' CLASS_DEFAULT CYCLES_CDP ERRORS_DEFAULT,
    instr 0xE5D ''MRC'' CLASS_DEFAULT CYCLES_MRC ERRORS_DEFAULT,
    instr 0xE5E ''CDP'' CLASS_DEFAULT CYCLES_CDP ERRORS_DEFAULT,
    instr 0xE5F ''MRC'' CLASS_DEFAULT CYCLES_MRC ERRORS_DEFAULT,
    instr 0xE60 ''CDP'' CLASS_DEFAULT CYCLES_CDP ERRORS_DEFAULT,
    instr 0xE61 ''MCR'' CLASS_DEFAULT CYCLES_MCR ERRORS_DEFAULT,
    instr 0xE62 ''CDP'' CLASS_DEFAULT CYCLES_CDP ERRORS_DEFAULT,
    instr 0xE63 ''MCR'' CLASS_DEFAULT CYCLES_MCR ERRORS_DEFAULT,
    instr 0xE64 ''CDP'' CLASS_DEFAULT CYCLES_CDP ERRORS_DEFAULT,
    instr 0xE65 ''MCR'' CLASS_DEFAULT CYCLES_MCR ERRORS_DEFAULT,
    instr 0xE66 ''CDP'' CLASS_DEFAULT CYCLES_CDP ERRORS_DEFAULT,
    instr 0xE67 ''MCR'' CLASS_DEFAULT CYCLES_MCR ERRORS_DEFAULT,
    instr 0xE68 ''CDP'' CLASS_DEFAULT CYCLES_CDP ERRORS_DEFAULT,
    instr 0xE69 ''MCR'' CLASS_DEFAULT CYCLES_MCR ERRORS_DEFAULT,
    instr 0xE6A ''CDP'' CLASS_DEFAULT CYCLES_CDP ERRORS_DEFAULT,
    instr 0xE6B ''MCR'' CLASS_DEFAULT CYCLES_MCR ERRORS_DEFAULT,
    instr 0xE6C ''CDP'' CLASS_DEFAULT CYCLES_CDP ERRORS_DEFAULT,
    instr 0xE6D ''MCR'' CLASS_DEFAULT CYCLES_MCR ERRORS_DEFAULT,
    instr 0xE6E ''CDP'' CLASS_DEFAULT CYCLES_CDP ERRORS_DEFAULT,
    instr 0xE6F ''MCR'' CLASS_DEFAULT CYCLES_MCR ERRORS_DEFAULT,
    instr 0xE70 ''CDP'' CLASS_DEFAULT CYCLES_CDP ERRORS_DEFAULT,
    instr 0xE71 ''MRC'' CLASS_DEFAULT CYCLES_MRC ERRORS_DEFAULT,
    instr 0xE72 ''CDP'' CLASS_DEFAULT CYCLES_CDP ERRORS_DEFAULT,
    instr 0xE73 ''MRC'' CLASS_DEFAULT CYCLES_MRC ERRORS_DEFAULT,
    instr 0xE74 ''CDP'' CLASS_DEFAULT CYCLES_CDP ERRORS_DEFAULT,
    instr 0xE75 ''MRC'' CLASS_DEFAULT CYCLES_MRC ERRORS_DEFAULT,
    instr 0xE76 ''CDP'' CLASS_DEFAULT CYCLES_CDP ERRORS_DEFAULT,
    instr 0xE77 ''MRC'' CLASS_DEFAULT CYCLES_MRC ERRORS_DEFAULT,
    instr 0xE78 ''CDP'' CLASS_DEFAULT CYCLES_CDP ERRORS_DEFAULT,
    instr 0xE79 ''MRC'' CLASS_DEFAULT CYCLES_MRC ERRORS_DEFAULT,
    instr 0xE7A ''CDP'' CLASS_DEFAULT CYCLES_CDP ERRORS_DEFAULT,
    instr 0xE7B ''MRC'' CLASS_DEFAULT CYCLES_MRC ERRORS_DEFAULT,
    instr 0xE7C ''CDP'' CLASS_DEFAULT CYCLES_CDP ERRORS_DEFAULT,
    instr 0xE7D ''MRC'' CLASS_DEFAULT CYCLES_MRC ERRORS_DEFAULT,
    instr 0xE7E ''CDP'' CLASS_DEFAULT CYCLES_CDP ERRORS_DEFAULT,
    instr 0xE7F ''MRC'' CLASS_DEFAULT CYCLES_MRC ERRORS_DEFAULT]"

definition vemu_arm_instr_29 :: "vemu_instr_info list" where
  "vemu_arm_instr_29 = [
    instr 0xE80 ''CDP'' CLASS_DEFAULT CYCLES_CDP ERRORS_DEFAULT,
    instr 0xE81 ''MCR'' CLASS_DEFAULT CYCLES_MCR ERRORS_DEFAULT,
    instr 0xE82 ''CDP'' CLASS_DEFAULT CYCLES_CDP ERRORS_DEFAULT,
    instr 0xE83 ''MCR'' CLASS_DEFAULT CYCLES_MCR ERRORS_DEFAULT,
    instr 0xE84 ''CDP'' CLASS_DEFAULT CYCLES_CDP ERRORS_DEFAULT,
    instr 0xE85 ''MCR'' CLASS_DEFAULT CYCLES_MCR ERRORS_DEFAULT,
    instr 0xE86 ''CDP'' CLASS_DEFAULT CYCLES_CDP ERRORS_DEFAULT,
    instr 0xE87 ''MCR'' CLASS_DEFAULT CYCLES_MCR ERRORS_DEFAULT,
    instr 0xE88 ''CDP'' CLASS_DEFAULT CYCLES_CDP ERRORS_DEFAULT,
    instr 0xE89 ''MCR'' CLASS_DEFAULT CYCLES_MCR ERRORS_DEFAULT,
    instr 0xE8A ''CDP'' CLASS_DEFAULT CYCLES_CDP ERRORS_DEFAULT,
    instr 0xE8B ''MCR'' CLASS_DEFAULT CYCLES_MCR ERRORS_DEFAULT,
    instr 0xE8C ''CDP'' CLASS_DEFAULT CYCLES_CDP ERRORS_DEFAULT,
    instr 0xE8D ''MCR'' CLASS_DEFAULT CYCLES_MCR ERRORS_DEFAULT,
    instr 0xE8E ''CDP'' CLASS_DEFAULT CYCLES_CDP ERRORS_DEFAULT,
    instr 0xE8F ''MCR'' CLASS_DEFAULT CYCLES_MCR ERRORS_DEFAULT,
    instr 0xE90 ''CDP'' CLASS_DEFAULT CYCLES_CDP ERRORS_DEFAULT,
    instr 0xE91 ''MRC'' CLASS_DEFAULT CYCLES_MRC ERRORS_DEFAULT,
    instr 0xE92 ''CDP'' CLASS_DEFAULT CYCLES_CDP ERRORS_DEFAULT,
    instr 0xE93 ''MRC'' CLASS_DEFAULT CYCLES_MRC ERRORS_DEFAULT,
    instr 0xE94 ''CDP'' CLASS_DEFAULT CYCLES_CDP ERRORS_DEFAULT,
    instr 0xE95 ''MRC'' CLASS_DEFAULT CYCLES_MRC ERRORS_DEFAULT,
    instr 0xE96 ''CDP'' CLASS_DEFAULT CYCLES_CDP ERRORS_DEFAULT,
    instr 0xE97 ''MRC'' CLASS_DEFAULT CYCLES_MRC ERRORS_DEFAULT,
    instr 0xE98 ''CDP'' CLASS_DEFAULT CYCLES_CDP ERRORS_DEFAULT,
    instr 0xE99 ''MRC'' CLASS_DEFAULT CYCLES_MRC ERRORS_DEFAULT,
    instr 0xE9A ''CDP'' CLASS_DEFAULT CYCLES_CDP ERRORS_DEFAULT,
    instr 0xE9B ''MRC'' CLASS_DEFAULT CYCLES_MRC ERRORS_DEFAULT,
    instr 0xE9C ''CDP'' CLASS_DEFAULT CYCLES_CDP ERRORS_DEFAULT,
    instr 0xE9D ''MRC'' CLASS_DEFAULT CYCLES_MRC ERRORS_DEFAULT,
    instr 0xE9E ''CDP'' CLASS_DEFAULT CYCLES_CDP ERRORS_DEFAULT,
    instr 0xE9F ''MRC'' CLASS_DEFAULT CYCLES_MRC ERRORS_DEFAULT,
    instr 0xEA0 ''CDP'' CLASS_DEFAULT CYCLES_CDP ERRORS_DEFAULT,
    instr 0xEA1 ''MCR'' CLASS_DEFAULT CYCLES_MCR ERRORS_DEFAULT,
    instr 0xEA2 ''CDP'' CLASS_DEFAULT CYCLES_CDP ERRORS_DEFAULT,
    instr 0xEA3 ''MCR'' CLASS_DEFAULT CYCLES_MCR ERRORS_DEFAULT,
    instr 0xEA4 ''CDP'' CLASS_DEFAULT CYCLES_CDP ERRORS_DEFAULT,
    instr 0xEA5 ''MCR'' CLASS_DEFAULT CYCLES_MCR ERRORS_DEFAULT,
    instr 0xEA6 ''CDP'' CLASS_DEFAULT CYCLES_CDP ERRORS_DEFAULT,
    instr 0xEA7 ''MCR'' CLASS_DEFAULT CYCLES_MCR ERRORS_DEFAULT,
    instr 0xEA8 ''CDP'' CLASS_DEFAULT CYCLES_CDP ERRORS_DEFAULT,
    instr 0xEA9 ''MCR'' CLASS_DEFAULT CYCLES_MCR ERRORS_DEFAULT,
    instr 0xEAA ''CDP'' CLASS_DEFAULT CYCLES_CDP ERRORS_DEFAULT,
    instr 0xEAB ''MCR'' CLASS_DEFAULT CYCLES_MCR ERRORS_DEFAULT,
    instr 0xEAC ''CDP'' CLASS_DEFAULT CYCLES_CDP ERRORS_DEFAULT,
    instr 0xEAD ''MCR'' CLASS_DEFAULT CYCLES_MCR ERRORS_DEFAULT,
    instr 0xEAE ''CDP'' CLASS_DEFAULT CYCLES_CDP ERRORS_DEFAULT,
    instr 0xEAF ''MCR'' CLASS_DEFAULT CYCLES_MCR ERRORS_DEFAULT,
    instr 0xEB0 ''CDP'' CLASS_DEFAULT CYCLES_CDP ERRORS_DEFAULT,
    instr 0xEB1 ''MRC'' CLASS_DEFAULT CYCLES_MRC ERRORS_DEFAULT,
    instr 0xEB2 ''CDP'' CLASS_DEFAULT CYCLES_CDP ERRORS_DEFAULT,
    instr 0xEB3 ''MRC'' CLASS_DEFAULT CYCLES_MRC ERRORS_DEFAULT,
    instr 0xEB4 ''CDP'' CLASS_DEFAULT CYCLES_CDP ERRORS_DEFAULT,
    instr 0xEB5 ''MRC'' CLASS_DEFAULT CYCLES_MRC ERRORS_DEFAULT,
    instr 0xEB6 ''CDP'' CLASS_DEFAULT CYCLES_CDP ERRORS_DEFAULT,
    instr 0xEB7 ''MRC'' CLASS_DEFAULT CYCLES_MRC ERRORS_DEFAULT,
    instr 0xEB8 ''CDP'' CLASS_DEFAULT CYCLES_CDP ERRORS_DEFAULT,
    instr 0xEB9 ''MRC'' CLASS_DEFAULT CYCLES_MRC ERRORS_DEFAULT,
    instr 0xEBA ''CDP'' CLASS_DEFAULT CYCLES_CDP ERRORS_DEFAULT,
    instr 0xEBB ''MRC'' CLASS_DEFAULT CYCLES_MRC ERRORS_DEFAULT,
    instr 0xEBC ''CDP'' CLASS_DEFAULT CYCLES_CDP ERRORS_DEFAULT,
    instr 0xEBD ''MRC'' CLASS_DEFAULT CYCLES_MRC ERRORS_DEFAULT,
    instr 0xEBE ''CDP'' CLASS_DEFAULT CYCLES_CDP ERRORS_DEFAULT,
    instr 0xEBF ''MRC'' CLASS_DEFAULT CYCLES_MRC ERRORS_DEFAULT,
    instr 0xEC0 ''CDP'' CLASS_DEFAULT CYCLES_CDP ERRORS_DEFAULT,
    instr 0xEC1 ''MCR'' CLASS_DEFAULT CYCLES_MCR ERRORS_DEFAULT,
    instr 0xEC2 ''CDP'' CLASS_DEFAULT CYCLES_CDP ERRORS_DEFAULT,
    instr 0xEC3 ''MCR'' CLASS_DEFAULT CYCLES_MCR ERRORS_DEFAULT,
    instr 0xEC4 ''CDP'' CLASS_DEFAULT CYCLES_CDP ERRORS_DEFAULT,
    instr 0xEC5 ''MCR'' CLASS_DEFAULT CYCLES_MCR ERRORS_DEFAULT,
    instr 0xEC6 ''CDP'' CLASS_DEFAULT CYCLES_CDP ERRORS_DEFAULT,
    instr 0xEC7 ''MCR'' CLASS_DEFAULT CYCLES_MCR ERRORS_DEFAULT,
    instr 0xEC8 ''CDP'' CLASS_DEFAULT CYCLES_CDP ERRORS_DEFAULT,
    instr 0xEC9 ''MCR'' CLASS_DEFAULT CYCLES_MCR ERRORS_DEFAULT,
    instr 0xECA ''CDP'' CLASS_DEFAULT CYCLES_CDP ERRORS_DEFAULT,
    instr 0xECB ''MCR'' CLASS_DEFAULT CYCLES_MCR ERRORS_DEFAULT,
    instr 0xECC ''CDP'' CLASS_DEFAULT CYCLES_CDP ERRORS_DEFAULT,
    instr 0xECD ''MCR'' CLASS_DEFAULT CYCLES_MCR ERRORS_DEFAULT,
    instr 0xECE ''CDP'' CLASS_DEFAULT CYCLES_CDP ERRORS_DEFAULT,
    instr 0xECF ''MCR'' CLASS_DEFAULT CYCLES_MCR ERRORS_DEFAULT,
    instr 0xED0 ''CDP'' CLASS_DEFAULT CYCLES_CDP ERRORS_DEFAULT,
    instr 0xED1 ''MRC'' CLASS_DEFAULT CYCLES_MRC ERRORS_DEFAULT,
    instr 0xED2 ''CDP'' CLASS_DEFAULT CYCLES_CDP ERRORS_DEFAULT,
    instr 0xED3 ''MRC'' CLASS_DEFAULT CYCLES_MRC ERRORS_DEFAULT,
    instr 0xED4 ''CDP'' CLASS_DEFAULT CYCLES_CDP ERRORS_DEFAULT,
    instr 0xED5 ''MRC'' CLASS_DEFAULT CYCLES_MRC ERRORS_DEFAULT,
    instr 0xED6 ''CDP'' CLASS_DEFAULT CYCLES_CDP ERRORS_DEFAULT,
    instr 0xED7 ''MRC'' CLASS_DEFAULT CYCLES_MRC ERRORS_DEFAULT,
    instr 0xED8 ''CDP'' CLASS_DEFAULT CYCLES_CDP ERRORS_DEFAULT,
    instr 0xED9 ''MRC'' CLASS_DEFAULT CYCLES_MRC ERRORS_DEFAULT,
    instr 0xEDA ''CDP'' CLASS_DEFAULT CYCLES_CDP ERRORS_DEFAULT,
    instr 0xEDB ''MRC'' CLASS_DEFAULT CYCLES_MRC ERRORS_DEFAULT,
    instr 0xEDC ''CDP'' CLASS_DEFAULT CYCLES_CDP ERRORS_DEFAULT,
    instr 0xEDD ''MRC'' CLASS_DEFAULT CYCLES_MRC ERRORS_DEFAULT,
    instr 0xEDE ''CDP'' CLASS_DEFAULT CYCLES_CDP ERRORS_DEFAULT,
    instr 0xEDF ''MRC'' CLASS_DEFAULT CYCLES_MRC ERRORS_DEFAULT,
    instr 0xEE0 ''CDP'' CLASS_DEFAULT CYCLES_CDP ERRORS_DEFAULT,
    instr 0xEE1 ''MCR'' CLASS_DEFAULT CYCLES_MCR ERRORS_DEFAULT,
    instr 0xEE2 ''CDP'' CLASS_DEFAULT CYCLES_CDP ERRORS_DEFAULT,
    instr 0xEE3 ''MCR'' CLASS_DEFAULT CYCLES_MCR ERRORS_DEFAULT,
    instr 0xEE4 ''CDP'' CLASS_DEFAULT CYCLES_CDP ERRORS_DEFAULT,
    instr 0xEE5 ''MCR'' CLASS_DEFAULT CYCLES_MCR ERRORS_DEFAULT,
    instr 0xEE6 ''CDP'' CLASS_DEFAULT CYCLES_CDP ERRORS_DEFAULT,
    instr 0xEE7 ''MCR'' CLASS_DEFAULT CYCLES_MCR ERRORS_DEFAULT,
    instr 0xEE8 ''CDP'' CLASS_DEFAULT CYCLES_CDP ERRORS_DEFAULT,
    instr 0xEE9 ''MCR'' CLASS_DEFAULT CYCLES_MCR ERRORS_DEFAULT,
    instr 0xEEA ''CDP'' CLASS_DEFAULT CYCLES_CDP ERRORS_DEFAULT,
    instr 0xEEB ''MCR'' CLASS_DEFAULT CYCLES_MCR ERRORS_DEFAULT,
    instr 0xEEC ''CDP'' CLASS_DEFAULT CYCLES_CDP ERRORS_DEFAULT,
    instr 0xEED ''MCR'' CLASS_DEFAULT CYCLES_MCR ERRORS_DEFAULT,
    instr 0xEEE ''CDP'' CLASS_DEFAULT CYCLES_CDP ERRORS_DEFAULT,
    instr 0xEEF ''MCR'' CLASS_DEFAULT CYCLES_MCR ERRORS_DEFAULT,
    instr 0xEF0 ''CDP'' CLASS_DEFAULT CYCLES_CDP ERRORS_DEFAULT,
    instr 0xEF1 ''MRC'' CLASS_DEFAULT CYCLES_MRC ERRORS_DEFAULT,
    instr 0xEF2 ''CDP'' CLASS_DEFAULT CYCLES_CDP ERRORS_DEFAULT,
    instr 0xEF3 ''MRC'' CLASS_DEFAULT CYCLES_MRC ERRORS_DEFAULT,
    instr 0xEF4 ''CDP'' CLASS_DEFAULT CYCLES_CDP ERRORS_DEFAULT,
    instr 0xEF5 ''MRC'' CLASS_DEFAULT CYCLES_MRC ERRORS_DEFAULT,
    instr 0xEF6 ''CDP'' CLASS_DEFAULT CYCLES_CDP ERRORS_DEFAULT,
    instr 0xEF7 ''MRC'' CLASS_DEFAULT CYCLES_MRC ERRORS_DEFAULT,
    instr 0xEF8 ''CDP'' CLASS_DEFAULT CYCLES_CDP ERRORS_DEFAULT,
    instr 0xEF9 ''MRC'' CLASS_DEFAULT CYCLES_MRC ERRORS_DEFAULT,
    instr 0xEFA ''CDP'' CLASS_DEFAULT CYCLES_CDP ERRORS_DEFAULT,
    instr 0xEFB ''MRC'' CLASS_DEFAULT CYCLES_MRC ERRORS_DEFAULT,
    instr 0xEFC ''CDP'' CLASS_DEFAULT CYCLES_CDP ERRORS_DEFAULT,
    instr 0xEFD ''MRC'' CLASS_DEFAULT CYCLES_MRC ERRORS_DEFAULT,
    instr 0xEFE ''CDP'' CLASS_DEFAULT CYCLES_CDP ERRORS_DEFAULT,
    instr 0xEFF ''MRC'' CLASS_DEFAULT CYCLES_MRC ERRORS_DEFAULT]"

definition vemu_arm_instr_30 :: "vemu_instr_info list" where
  "vemu_arm_instr_30 = [
    instr 0xF00 ''SWI'' CLASS_DEFAULT CYCLES_SWI ERRORS_DEFAULT,
    instr 0xF01 ''SWI'' CLASS_DEFAULT CYCLES_SWI ERRORS_DEFAULT,
    instr 0xF02 ''SWI'' CLASS_DEFAULT CYCLES_SWI ERRORS_DEFAULT,
    instr 0xF03 ''SWI'' CLASS_DEFAULT CYCLES_SWI ERRORS_DEFAULT,
    instr 0xF04 ''SWI'' CLASS_DEFAULT CYCLES_SWI ERRORS_DEFAULT,
    instr 0xF05 ''SWI'' CLASS_DEFAULT CYCLES_SWI ERRORS_DEFAULT,
    instr 0xF06 ''SWI'' CLASS_DEFAULT CYCLES_SWI ERRORS_DEFAULT,
    instr 0xF07 ''SWI'' CLASS_DEFAULT CYCLES_SWI ERRORS_DEFAULT,
    instr 0xF08 ''SWI'' CLASS_DEFAULT CYCLES_SWI ERRORS_DEFAULT,
    instr 0xF09 ''SWI'' CLASS_DEFAULT CYCLES_SWI ERRORS_DEFAULT,
    instr 0xF0A ''SWI'' CLASS_DEFAULT CYCLES_SWI ERRORS_DEFAULT,
    instr 0xF0B ''SWI'' CLASS_DEFAULT CYCLES_SWI ERRORS_DEFAULT,
    instr 0xF0C ''SWI'' CLASS_DEFAULT CYCLES_SWI ERRORS_DEFAULT,
    instr 0xF0D ''SWI'' CLASS_DEFAULT CYCLES_SWI ERRORS_DEFAULT,
    instr 0xF0E ''SWI'' CLASS_DEFAULT CYCLES_SWI ERRORS_DEFAULT,
    instr 0xF0F ''SWI'' CLASS_DEFAULT CYCLES_SWI ERRORS_DEFAULT,
    instr 0xF10 ''SWI'' CLASS_DEFAULT CYCLES_SWI ERRORS_DEFAULT,
    instr 0xF11 ''SWI'' CLASS_DEFAULT CYCLES_SWI ERRORS_DEFAULT,
    instr 0xF12 ''SWI'' CLASS_DEFAULT CYCLES_SWI ERRORS_DEFAULT,
    instr 0xF13 ''SWI'' CLASS_DEFAULT CYCLES_SWI ERRORS_DEFAULT,
    instr 0xF14 ''SWI'' CLASS_DEFAULT CYCLES_SWI ERRORS_DEFAULT,
    instr 0xF15 ''SWI'' CLASS_DEFAULT CYCLES_SWI ERRORS_DEFAULT,
    instr 0xF16 ''SWI'' CLASS_DEFAULT CYCLES_SWI ERRORS_DEFAULT,
    instr 0xF17 ''SWI'' CLASS_DEFAULT CYCLES_SWI ERRORS_DEFAULT,
    instr 0xF18 ''SWI'' CLASS_DEFAULT CYCLES_SWI ERRORS_DEFAULT,
    instr 0xF19 ''SWI'' CLASS_DEFAULT CYCLES_SWI ERRORS_DEFAULT,
    instr 0xF1A ''SWI'' CLASS_DEFAULT CYCLES_SWI ERRORS_DEFAULT,
    instr 0xF1B ''SWI'' CLASS_DEFAULT CYCLES_SWI ERRORS_DEFAULT,
    instr 0xF1C ''SWI'' CLASS_DEFAULT CYCLES_SWI ERRORS_DEFAULT,
    instr 0xF1D ''SWI'' CLASS_DEFAULT CYCLES_SWI ERRORS_DEFAULT,
    instr 0xF1E ''SWI'' CLASS_DEFAULT CYCLES_SWI ERRORS_DEFAULT,
    instr 0xF1F ''SWI'' CLASS_DEFAULT CYCLES_SWI ERRORS_DEFAULT,
    instr 0xF20 ''SWI'' CLASS_DEFAULT CYCLES_SWI ERRORS_DEFAULT,
    instr 0xF21 ''SWI'' CLASS_DEFAULT CYCLES_SWI ERRORS_DEFAULT,
    instr 0xF22 ''SWI'' CLASS_DEFAULT CYCLES_SWI ERRORS_DEFAULT,
    instr 0xF23 ''SWI'' CLASS_DEFAULT CYCLES_SWI ERRORS_DEFAULT,
    instr 0xF24 ''SWI'' CLASS_DEFAULT CYCLES_SWI ERRORS_DEFAULT,
    instr 0xF25 ''SWI'' CLASS_DEFAULT CYCLES_SWI ERRORS_DEFAULT,
    instr 0xF26 ''SWI'' CLASS_DEFAULT CYCLES_SWI ERRORS_DEFAULT,
    instr 0xF27 ''SWI'' CLASS_DEFAULT CYCLES_SWI ERRORS_DEFAULT,
    instr 0xF28 ''SWI'' CLASS_DEFAULT CYCLES_SWI ERRORS_DEFAULT,
    instr 0xF29 ''SWI'' CLASS_DEFAULT CYCLES_SWI ERRORS_DEFAULT,
    instr 0xF2A ''SWI'' CLASS_DEFAULT CYCLES_SWI ERRORS_DEFAULT,
    instr 0xF2B ''SWI'' CLASS_DEFAULT CYCLES_SWI ERRORS_DEFAULT,
    instr 0xF2C ''SWI'' CLASS_DEFAULT CYCLES_SWI ERRORS_DEFAULT,
    instr 0xF2D ''SWI'' CLASS_DEFAULT CYCLES_SWI ERRORS_DEFAULT,
    instr 0xF2E ''SWI'' CLASS_DEFAULT CYCLES_SWI ERRORS_DEFAULT,
    instr 0xF2F ''SWI'' CLASS_DEFAULT CYCLES_SWI ERRORS_DEFAULT,
    instr 0xF30 ''SWI'' CLASS_DEFAULT CYCLES_SWI ERRORS_DEFAULT,
    instr 0xF31 ''SWI'' CLASS_DEFAULT CYCLES_SWI ERRORS_DEFAULT,
    instr 0xF32 ''SWI'' CLASS_DEFAULT CYCLES_SWI ERRORS_DEFAULT,
    instr 0xF33 ''SWI'' CLASS_DEFAULT CYCLES_SWI ERRORS_DEFAULT,
    instr 0xF34 ''SWI'' CLASS_DEFAULT CYCLES_SWI ERRORS_DEFAULT,
    instr 0xF35 ''SWI'' CLASS_DEFAULT CYCLES_SWI ERRORS_DEFAULT,
    instr 0xF36 ''SWI'' CLASS_DEFAULT CYCLES_SWI ERRORS_DEFAULT,
    instr 0xF37 ''SWI'' CLASS_DEFAULT CYCLES_SWI ERRORS_DEFAULT,
    instr 0xF38 ''SWI'' CLASS_DEFAULT CYCLES_SWI ERRORS_DEFAULT,
    instr 0xF39 ''SWI'' CLASS_DEFAULT CYCLES_SWI ERRORS_DEFAULT,
    instr 0xF3A ''SWI'' CLASS_DEFAULT CYCLES_SWI ERRORS_DEFAULT,
    instr 0xF3B ''SWI'' CLASS_DEFAULT CYCLES_SWI ERRORS_DEFAULT,
    instr 0xF3C ''SWI'' CLASS_DEFAULT CYCLES_SWI ERRORS_DEFAULT,
    instr 0xF3D ''SWI'' CLASS_DEFAULT CYCLES_SWI ERRORS_DEFAULT,
    instr 0xF3E ''SWI'' CLASS_DEFAULT CYCLES_SWI ERRORS_DEFAULT,
    instr 0xF3F ''SWI'' CLASS_DEFAULT CYCLES_SWI ERRORS_DEFAULT,
    instr 0xF40 ''SWI'' CLASS_DEFAULT CYCLES_SWI ERRORS_DEFAULT,
    instr 0xF41 ''SWI'' CLASS_DEFAULT CYCLES_SWI ERRORS_DEFAULT,
    instr 0xF42 ''SWI'' CLASS_DEFAULT CYCLES_SWI ERRORS_DEFAULT,
    instr 0xF43 ''SWI'' CLASS_DEFAULT CYCLES_SWI ERRORS_DEFAULT,
    instr 0xF44 ''SWI'' CLASS_DEFAULT CYCLES_SWI ERRORS_DEFAULT,
    instr 0xF45 ''SWI'' CLASS_DEFAULT CYCLES_SWI ERRORS_DEFAULT,
    instr 0xF46 ''SWI'' CLASS_DEFAULT CYCLES_SWI ERRORS_DEFAULT,
    instr 0xF47 ''SWI'' CLASS_DEFAULT CYCLES_SWI ERRORS_DEFAULT,
    instr 0xF48 ''SWI'' CLASS_DEFAULT CYCLES_SWI ERRORS_DEFAULT,
    instr 0xF49 ''SWI'' CLASS_DEFAULT CYCLES_SWI ERRORS_DEFAULT,
    instr 0xF4A ''SWI'' CLASS_DEFAULT CYCLES_SWI ERRORS_DEFAULT,
    instr 0xF4B ''SWI'' CLASS_DEFAULT CYCLES_SWI ERRORS_DEFAULT,
    instr 0xF4C ''SWI'' CLASS_DEFAULT CYCLES_SWI ERRORS_DEFAULT,
    instr 0xF4D ''SWI'' CLASS_DEFAULT CYCLES_SWI ERRORS_DEFAULT,
    instr 0xF4E ''SWI'' CLASS_DEFAULT CYCLES_SWI ERRORS_DEFAULT,
    instr 0xF4F ''SWI'' CLASS_DEFAULT CYCLES_SWI ERRORS_DEFAULT,
    instr 0xF50 ''SWI'' CLASS_DEFAULT CYCLES_SWI ERRORS_DEFAULT,
    instr 0xF51 ''SWI'' CLASS_DEFAULT CYCLES_SWI ERRORS_DEFAULT,
    instr 0xF52 ''SWI'' CLASS_DEFAULT CYCLES_SWI ERRORS_DEFAULT,
    instr 0xF53 ''SWI'' CLASS_DEFAULT CYCLES_SWI ERRORS_DEFAULT,
    instr 0xF54 ''SWI'' CLASS_DEFAULT CYCLES_SWI ERRORS_DEFAULT,
    instr 0xF55 ''SWI'' CLASS_DEFAULT CYCLES_SWI ERRORS_DEFAULT,
    instr 0xF56 ''SWI'' CLASS_DEFAULT CYCLES_SWI ERRORS_DEFAULT,
    instr 0xF57 ''SWI'' CLASS_DEFAULT CYCLES_SWI ERRORS_DEFAULT,
    instr 0xF58 ''SWI'' CLASS_DEFAULT CYCLES_SWI ERRORS_DEFAULT,
    instr 0xF59 ''SWI'' CLASS_DEFAULT CYCLES_SWI ERRORS_DEFAULT,
    instr 0xF5A ''SWI'' CLASS_DEFAULT CYCLES_SWI ERRORS_DEFAULT,
    instr 0xF5B ''SWI'' CLASS_DEFAULT CYCLES_SWI ERRORS_DEFAULT,
    instr 0xF5C ''SWI'' CLASS_DEFAULT CYCLES_SWI ERRORS_DEFAULT,
    instr 0xF5D ''SWI'' CLASS_DEFAULT CYCLES_SWI ERRORS_DEFAULT,
    instr 0xF5E ''SWI'' CLASS_DEFAULT CYCLES_SWI ERRORS_DEFAULT,
    instr 0xF5F ''SWI'' CLASS_DEFAULT CYCLES_SWI ERRORS_DEFAULT,
    instr 0xF60 ''SWI'' CLASS_DEFAULT CYCLES_SWI ERRORS_DEFAULT,
    instr 0xF61 ''SWI'' CLASS_DEFAULT CYCLES_SWI ERRORS_DEFAULT,
    instr 0xF62 ''SWI'' CLASS_DEFAULT CYCLES_SWI ERRORS_DEFAULT,
    instr 0xF63 ''SWI'' CLASS_DEFAULT CYCLES_SWI ERRORS_DEFAULT,
    instr 0xF64 ''SWI'' CLASS_DEFAULT CYCLES_SWI ERRORS_DEFAULT,
    instr 0xF65 ''SWI'' CLASS_DEFAULT CYCLES_SWI ERRORS_DEFAULT,
    instr 0xF66 ''SWI'' CLASS_DEFAULT CYCLES_SWI ERRORS_DEFAULT,
    instr 0xF67 ''SWI'' CLASS_DEFAULT CYCLES_SWI ERRORS_DEFAULT,
    instr 0xF68 ''SWI'' CLASS_DEFAULT CYCLES_SWI ERRORS_DEFAULT,
    instr 0xF69 ''SWI'' CLASS_DEFAULT CYCLES_SWI ERRORS_DEFAULT,
    instr 0xF6A ''SWI'' CLASS_DEFAULT CYCLES_SWI ERRORS_DEFAULT,
    instr 0xF6B ''SWI'' CLASS_DEFAULT CYCLES_SWI ERRORS_DEFAULT,
    instr 0xF6C ''SWI'' CLASS_DEFAULT CYCLES_SWI ERRORS_DEFAULT,
    instr 0xF6D ''SWI'' CLASS_DEFAULT CYCLES_SWI ERRORS_DEFAULT,
    instr 0xF6E ''SWI'' CLASS_DEFAULT CYCLES_SWI ERRORS_DEFAULT,
    instr 0xF6F ''SWI'' CLASS_DEFAULT CYCLES_SWI ERRORS_DEFAULT,
    instr 0xF70 ''SWI'' CLASS_DEFAULT CYCLES_SWI ERRORS_DEFAULT,
    instr 0xF71 ''SWI'' CLASS_DEFAULT CYCLES_SWI ERRORS_DEFAULT,
    instr 0xF72 ''SWI'' CLASS_DEFAULT CYCLES_SWI ERRORS_DEFAULT,
    instr 0xF73 ''SWI'' CLASS_DEFAULT CYCLES_SWI ERRORS_DEFAULT,
    instr 0xF74 ''SWI'' CLASS_DEFAULT CYCLES_SWI ERRORS_DEFAULT,
    instr 0xF75 ''SWI'' CLASS_DEFAULT CYCLES_SWI ERRORS_DEFAULT,
    instr 0xF76 ''SWI'' CLASS_DEFAULT CYCLES_SWI ERRORS_DEFAULT,
    instr 0xF77 ''SWI'' CLASS_DEFAULT CYCLES_SWI ERRORS_DEFAULT,
    instr 0xF78 ''SWI'' CLASS_DEFAULT CYCLES_SWI ERRORS_DEFAULT,
    instr 0xF79 ''SWI'' CLASS_DEFAULT CYCLES_SWI ERRORS_DEFAULT,
    instr 0xF7A ''SWI'' CLASS_DEFAULT CYCLES_SWI ERRORS_DEFAULT,
    instr 0xF7B ''SWI'' CLASS_DEFAULT CYCLES_SWI ERRORS_DEFAULT,
    instr 0xF7C ''SWI'' CLASS_DEFAULT CYCLES_SWI ERRORS_DEFAULT,
    instr 0xF7D ''SWI'' CLASS_DEFAULT CYCLES_SWI ERRORS_DEFAULT,
    instr 0xF7E ''SWI'' CLASS_DEFAULT CYCLES_SWI ERRORS_DEFAULT,
    instr 0xF7F ''SWI'' CLASS_DEFAULT CYCLES_SWI ERRORS_DEFAULT]"

definition vemu_arm_instr_31 :: "vemu_instr_info list" where
  "vemu_arm_instr_31 = [
    instr 0xF80 ''SWI'' CLASS_DEFAULT CYCLES_SWI ERRORS_DEFAULT,
    instr 0xF81 ''SWI'' CLASS_DEFAULT CYCLES_SWI ERRORS_DEFAULT,
    instr 0xF82 ''SWI'' CLASS_DEFAULT CYCLES_SWI ERRORS_DEFAULT,
    instr 0xF83 ''SWI'' CLASS_DEFAULT CYCLES_SWI ERRORS_DEFAULT,
    instr 0xF84 ''SWI'' CLASS_DEFAULT CYCLES_SWI ERRORS_DEFAULT,
    instr 0xF85 ''SWI'' CLASS_DEFAULT CYCLES_SWI ERRORS_DEFAULT,
    instr 0xF86 ''SWI'' CLASS_DEFAULT CYCLES_SWI ERRORS_DEFAULT,
    instr 0xF87 ''SWI'' CLASS_DEFAULT CYCLES_SWI ERRORS_DEFAULT,
    instr 0xF88 ''SWI'' CLASS_DEFAULT CYCLES_SWI ERRORS_DEFAULT,
    instr 0xF89 ''SWI'' CLASS_DEFAULT CYCLES_SWI ERRORS_DEFAULT,
    instr 0xF8A ''SWI'' CLASS_DEFAULT CYCLES_SWI ERRORS_DEFAULT,
    instr 0xF8B ''SWI'' CLASS_DEFAULT CYCLES_SWI ERRORS_DEFAULT,
    instr 0xF8C ''SWI'' CLASS_DEFAULT CYCLES_SWI ERRORS_DEFAULT,
    instr 0xF8D ''SWI'' CLASS_DEFAULT CYCLES_SWI ERRORS_DEFAULT,
    instr 0xF8E ''SWI'' CLASS_DEFAULT CYCLES_SWI ERRORS_DEFAULT,
    instr 0xF8F ''SWI'' CLASS_DEFAULT CYCLES_SWI ERRORS_DEFAULT,
    instr 0xF90 ''SWI'' CLASS_DEFAULT CYCLES_SWI ERRORS_DEFAULT,
    instr 0xF91 ''SWI'' CLASS_DEFAULT CYCLES_SWI ERRORS_DEFAULT,
    instr 0xF92 ''SWI'' CLASS_DEFAULT CYCLES_SWI ERRORS_DEFAULT,
    instr 0xF93 ''SWI'' CLASS_DEFAULT CYCLES_SWI ERRORS_DEFAULT,
    instr 0xF94 ''SWI'' CLASS_DEFAULT CYCLES_SWI ERRORS_DEFAULT,
    instr 0xF95 ''SWI'' CLASS_DEFAULT CYCLES_SWI ERRORS_DEFAULT,
    instr 0xF96 ''SWI'' CLASS_DEFAULT CYCLES_SWI ERRORS_DEFAULT,
    instr 0xF97 ''SWI'' CLASS_DEFAULT CYCLES_SWI ERRORS_DEFAULT,
    instr 0xF98 ''SWI'' CLASS_DEFAULT CYCLES_SWI ERRORS_DEFAULT,
    instr 0xF99 ''SWI'' CLASS_DEFAULT CYCLES_SWI ERRORS_DEFAULT,
    instr 0xF9A ''SWI'' CLASS_DEFAULT CYCLES_SWI ERRORS_DEFAULT,
    instr 0xF9B ''SWI'' CLASS_DEFAULT CYCLES_SWI ERRORS_DEFAULT,
    instr 0xF9C ''SWI'' CLASS_DEFAULT CYCLES_SWI ERRORS_DEFAULT,
    instr 0xF9D ''SWI'' CLASS_DEFAULT CYCLES_SWI ERRORS_DEFAULT,
    instr 0xF9E ''SWI'' CLASS_DEFAULT CYCLES_SWI ERRORS_DEFAULT,
    instr 0xF9F ''SWI'' CLASS_DEFAULT CYCLES_SWI ERRORS_DEFAULT,
    instr 0xFA0 ''SWI'' CLASS_DEFAULT CYCLES_SWI ERRORS_DEFAULT,
    instr 0xFA1 ''SWI'' CLASS_DEFAULT CYCLES_SWI ERRORS_DEFAULT,
    instr 0xFA2 ''SWI'' CLASS_DEFAULT CYCLES_SWI ERRORS_DEFAULT,
    instr 0xFA3 ''SWI'' CLASS_DEFAULT CYCLES_SWI ERRORS_DEFAULT,
    instr 0xFA4 ''SWI'' CLASS_DEFAULT CYCLES_SWI ERRORS_DEFAULT,
    instr 0xFA5 ''SWI'' CLASS_DEFAULT CYCLES_SWI ERRORS_DEFAULT,
    instr 0xFA6 ''SWI'' CLASS_DEFAULT CYCLES_SWI ERRORS_DEFAULT,
    instr 0xFA7 ''SWI'' CLASS_DEFAULT CYCLES_SWI ERRORS_DEFAULT,
    instr 0xFA8 ''SWI'' CLASS_DEFAULT CYCLES_SWI ERRORS_DEFAULT,
    instr 0xFA9 ''SWI'' CLASS_DEFAULT CYCLES_SWI ERRORS_DEFAULT,
    instr 0xFAA ''SWI'' CLASS_DEFAULT CYCLES_SWI ERRORS_DEFAULT,
    instr 0xFAB ''SWI'' CLASS_DEFAULT CYCLES_SWI ERRORS_DEFAULT,
    instr 0xFAC ''SWI'' CLASS_DEFAULT CYCLES_SWI ERRORS_DEFAULT,
    instr 0xFAD ''SWI'' CLASS_DEFAULT CYCLES_SWI ERRORS_DEFAULT,
    instr 0xFAE ''SWI'' CLASS_DEFAULT CYCLES_SWI ERRORS_DEFAULT,
    instr 0xFAF ''SWI'' CLASS_DEFAULT CYCLES_SWI ERRORS_DEFAULT,
    instr 0xFB0 ''SWI'' CLASS_DEFAULT CYCLES_SWI ERRORS_DEFAULT,
    instr 0xFB1 ''SWI'' CLASS_DEFAULT CYCLES_SWI ERRORS_DEFAULT,
    instr 0xFB2 ''SWI'' CLASS_DEFAULT CYCLES_SWI ERRORS_DEFAULT,
    instr 0xFB3 ''SWI'' CLASS_DEFAULT CYCLES_SWI ERRORS_DEFAULT,
    instr 0xFB4 ''SWI'' CLASS_DEFAULT CYCLES_SWI ERRORS_DEFAULT,
    instr 0xFB5 ''SWI'' CLASS_DEFAULT CYCLES_SWI ERRORS_DEFAULT,
    instr 0xFB6 ''SWI'' CLASS_DEFAULT CYCLES_SWI ERRORS_DEFAULT,
    instr 0xFB7 ''SWI'' CLASS_DEFAULT CYCLES_SWI ERRORS_DEFAULT,
    instr 0xFB8 ''SWI'' CLASS_DEFAULT CYCLES_SWI ERRORS_DEFAULT,
    instr 0xFB9 ''SWI'' CLASS_DEFAULT CYCLES_SWI ERRORS_DEFAULT,
    instr 0xFBA ''SWI'' CLASS_DEFAULT CYCLES_SWI ERRORS_DEFAULT,
    instr 0xFBB ''SWI'' CLASS_DEFAULT CYCLES_SWI ERRORS_DEFAULT,
    instr 0xFBC ''SWI'' CLASS_DEFAULT CYCLES_SWI ERRORS_DEFAULT,
    instr 0xFBD ''SWI'' CLASS_DEFAULT CYCLES_SWI ERRORS_DEFAULT,
    instr 0xFBE ''SWI'' CLASS_DEFAULT CYCLES_SWI ERRORS_DEFAULT,
    instr 0xFBF ''SWI'' CLASS_DEFAULT CYCLES_SWI ERRORS_DEFAULT,
    instr 0xFC0 ''SWI'' CLASS_DEFAULT CYCLES_SWI ERRORS_DEFAULT,
    instr 0xFC1 ''SWI'' CLASS_DEFAULT CYCLES_SWI ERRORS_DEFAULT,
    instr 0xFC2 ''SWI'' CLASS_DEFAULT CYCLES_SWI ERRORS_DEFAULT,
    instr 0xFC3 ''SWI'' CLASS_DEFAULT CYCLES_SWI ERRORS_DEFAULT,
    instr 0xFC4 ''SWI'' CLASS_DEFAULT CYCLES_SWI ERRORS_DEFAULT,
    instr 0xFC5 ''SWI'' CLASS_DEFAULT CYCLES_SWI ERRORS_DEFAULT,
    instr 0xFC6 ''SWI'' CLASS_DEFAULT CYCLES_SWI ERRORS_DEFAULT,
    instr 0xFC7 ''SWI'' CLASS_DEFAULT CYCLES_SWI ERRORS_DEFAULT,
    instr 0xFC8 ''SWI'' CLASS_DEFAULT CYCLES_SWI ERRORS_DEFAULT,
    instr 0xFC9 ''SWI'' CLASS_DEFAULT CYCLES_SWI ERRORS_DEFAULT,
    instr 0xFCA ''SWI'' CLASS_DEFAULT CYCLES_SWI ERRORS_DEFAULT,
    instr 0xFCB ''SWI'' CLASS_DEFAULT CYCLES_SWI ERRORS_DEFAULT,
    instr 0xFCC ''SWI'' CLASS_DEFAULT CYCLES_SWI ERRORS_DEFAULT,
    instr 0xFCD ''SWI'' CLASS_DEFAULT CYCLES_SWI ERRORS_DEFAULT,
    instr 0xFCE ''SWI'' CLASS_DEFAULT CYCLES_SWI ERRORS_DEFAULT,
    instr 0xFCF ''SWI'' CLASS_DEFAULT CYCLES_SWI ERRORS_DEFAULT,
    instr 0xFD0 ''SWI'' CLASS_DEFAULT CYCLES_SWI ERRORS_DEFAULT,
    instr 0xFD1 ''SWI'' CLASS_DEFAULT CYCLES_SWI ERRORS_DEFAULT,
    instr 0xFD2 ''SWI'' CLASS_DEFAULT CYCLES_SWI ERRORS_DEFAULT,
    instr 0xFD3 ''SWI'' CLASS_DEFAULT CYCLES_SWI ERRORS_DEFAULT,
    instr 0xFD4 ''SWI'' CLASS_DEFAULT CYCLES_SWI ERRORS_DEFAULT,
    instr 0xFD5 ''SWI'' CLASS_DEFAULT CYCLES_SWI ERRORS_DEFAULT,
    instr 0xFD6 ''SWI'' CLASS_DEFAULT CYCLES_SWI ERRORS_DEFAULT,
    instr 0xFD7 ''SWI'' CLASS_DEFAULT CYCLES_SWI ERRORS_DEFAULT,
    instr 0xFD8 ''SWI'' CLASS_DEFAULT CYCLES_SWI ERRORS_DEFAULT,
    instr 0xFD9 ''SWI'' CLASS_DEFAULT CYCLES_SWI ERRORS_DEFAULT,
    instr 0xFDA ''SWI'' CLASS_DEFAULT CYCLES_SWI ERRORS_DEFAULT,
    instr 0xFDB ''SWI'' CLASS_DEFAULT CYCLES_SWI ERRORS_DEFAULT,
    instr 0xFDC ''SWI'' CLASS_DEFAULT CYCLES_SWI ERRORS_DEFAULT,
    instr 0xFDD ''SWI'' CLASS_DEFAULT CYCLES_SWI ERRORS_DEFAULT,
    instr 0xFDE ''SWI'' CLASS_DEFAULT CYCLES_SWI ERRORS_DEFAULT,
    instr 0xFDF ''SWI'' CLASS_DEFAULT CYCLES_SWI ERRORS_DEFAULT,
    instr 0xFE0 ''SWI'' CLASS_DEFAULT CYCLES_SWI ERRORS_DEFAULT,
    instr 0xFE1 ''SWI'' CLASS_DEFAULT CYCLES_SWI ERRORS_DEFAULT,
    instr 0xFE2 ''SWI'' CLASS_DEFAULT CYCLES_SWI ERRORS_DEFAULT,
    instr 0xFE3 ''SWI'' CLASS_DEFAULT CYCLES_SWI ERRORS_DEFAULT,
    instr 0xFE4 ''SWI'' CLASS_DEFAULT CYCLES_SWI ERRORS_DEFAULT,
    instr 0xFE5 ''SWI'' CLASS_DEFAULT CYCLES_SWI ERRORS_DEFAULT,
    instr 0xFE6 ''SWI'' CLASS_DEFAULT CYCLES_SWI ERRORS_DEFAULT,
    instr 0xFE7 ''SWI'' CLASS_DEFAULT CYCLES_SWI ERRORS_DEFAULT,
    instr 0xFE8 ''SWI'' CLASS_DEFAULT CYCLES_SWI ERRORS_DEFAULT,
    instr 0xFE9 ''SWI'' CLASS_DEFAULT CYCLES_SWI ERRORS_DEFAULT,
    instr 0xFEA ''SWI'' CLASS_DEFAULT CYCLES_SWI ERRORS_DEFAULT,
    instr 0xFEB ''SWI'' CLASS_DEFAULT CYCLES_SWI ERRORS_DEFAULT,
    instr 0xFEC ''SWI'' CLASS_DEFAULT CYCLES_SWI ERRORS_DEFAULT,
    instr 0xFED ''SWI'' CLASS_DEFAULT CYCLES_SWI ERRORS_DEFAULT,
    instr 0xFEE ''SWI'' CLASS_DEFAULT CYCLES_SWI ERRORS_DEFAULT,
    instr 0xFEF ''SWI'' CLASS_DEFAULT CYCLES_SWI ERRORS_DEFAULT,
    instr 0xFF0 ''SWI'' CLASS_DEFAULT CYCLES_SWI ERRORS_DEFAULT,
    instr 0xFF1 ''SWI'' CLASS_DEFAULT CYCLES_SWI ERRORS_DEFAULT,
    instr 0xFF2 ''SWI'' CLASS_DEFAULT CYCLES_SWI ERRORS_DEFAULT,
    instr 0xFF3 ''SWI'' CLASS_DEFAULT CYCLES_SWI ERRORS_DEFAULT,
    instr 0xFF4 ''SWI'' CLASS_DEFAULT CYCLES_SWI ERRORS_DEFAULT,
    instr 0xFF5 ''SWI'' CLASS_DEFAULT CYCLES_SWI ERRORS_DEFAULT,
    instr 0xFF6 ''SWI'' CLASS_DEFAULT CYCLES_SWI ERRORS_DEFAULT,
    instr 0xFF7 ''SWI'' CLASS_DEFAULT CYCLES_SWI ERRORS_DEFAULT,
    instr 0xFF8 ''SWI'' CLASS_DEFAULT CYCLES_SWI ERRORS_DEFAULT,
    instr 0xFF9 ''SWI'' CLASS_DEFAULT CYCLES_SWI ERRORS_DEFAULT,
    instr 0xFFA ''SWI'' CLASS_DEFAULT CYCLES_SWI ERRORS_DEFAULT,
    instr 0xFFB ''SWI'' CLASS_DEFAULT CYCLES_SWI ERRORS_DEFAULT,
    instr 0xFFC ''SWI'' CLASS_DEFAULT CYCLES_SWI ERRORS_DEFAULT,
    instr 0xFFD ''SWI'' CLASS_DEFAULT CYCLES_SWI ERRORS_DEFAULT,
    instr 0xFFE ''SWI'' CLASS_DEFAULT CYCLES_SWI ERRORS_DEFAULT,
    instr 0xFFF ''SWI'' CLASS_DEFAULT CYCLES_SWI ERRORS_DEFAULT]"

lemma vemu_arm_instr_24_ok: "list_all2 row_ok [3072..<3200] vemu_arm_instr_24"
  by (simp add: vemu_arm_instr_24_def row_defs cycles_defs upt_conv_Cons)

lemma vemu_arm_instr_25_ok: "list_all2 row_ok [3200..<3328] vemu_arm_instr_25"
  by (simp add: vemu_arm_instr_25_def row_defs cycles_defs upt_conv_Cons)

lemma vemu_arm_instr_26_ok: "list_all2 row_ok [3328..<3456] vemu_arm_instr_26"
  by (simp add: vemu_arm_instr_26_def row_defs cycles_defs upt_conv_Cons)

lemma vemu_arm_instr_27_ok: "list_all2 row_ok [3456..<3584] vemu_arm_instr_27"
  by (simp add: vemu_arm_instr_27_def row_defs cycles_defs upt_conv_Cons)

lemma vemu_arm_instr_28_ok: "list_all2 row_ok [3584..<3712] vemu_arm_instr_28"
  by (simp add: vemu_arm_instr_28_def row_defs cycles_defs upt_conv_Cons)

lemma vemu_arm_instr_29_ok: "list_all2 row_ok [3712..<3840] vemu_arm_instr_29"
  by (simp add: vemu_arm_instr_29_def row_defs cycles_defs upt_conv_Cons)

lemma vemu_arm_instr_30_ok: "list_all2 row_ok [3840..<3968] vemu_arm_instr_30"
  by (simp add: vemu_arm_instr_30_def row_defs cycles_defs upt_conv_Cons)

lemma vemu_arm_instr_31_ok: "list_all2 row_ok [3968..<4096] vemu_arm_instr_31"
  by (simp add: vemu_arm_instr_31_def row_defs cycles_defs upt_conv_Cons)

lemma vemu_arm_instr_24_cost: "list_all2 cost_ok [3072..<3200] vemu_arm_instr_24"
  by (simp add: vemu_arm_instr_24_def instr_def cycles_defs cost_ok_def arm_ref_cycles_def upt_conv_Cons)

lemma vemu_arm_instr_25_cost: "list_all2 cost_ok [3200..<3328] vemu_arm_instr_25"
  by (simp add: vemu_arm_instr_25_def instr_def cycles_defs cost_ok_def arm_ref_cycles_def upt_conv_Cons)

lemma vemu_arm_instr_26_cost: "list_all2 cost_ok [3328..<3456] vemu_arm_instr_26"
  by (simp add: vemu_arm_instr_26_def instr_def cycles_defs cost_ok_def arm_ref_cycles_def upt_conv_Cons)

lemma vemu_arm_instr_27_cost: "list_all2 cost_ok [3456..<3584] vemu_arm_instr_27"
  by (simp add: vemu_arm_instr_27_def instr_def cycles_defs cost_ok_def arm_ref_cycles_def upt_conv_Cons)

lemma vemu_arm_instr_28_cost: "list_all2 cost_ok [3584..<3712] vemu_arm_instr_28"
  by (simp add: vemu_arm_instr_28_def instr_def cycles_defs cost_ok_def arm_ref_cycles_def upt_conv_Cons)

lemma vemu_arm_instr_29_cost: "list_all2 cost_ok [3712..<3840] vemu_arm_instr_29"
  by (simp add: vemu_arm_instr_29_def instr_def cycles_defs cost_ok_def arm_ref_cycles_def upt_conv_Cons)

lemma vemu_arm_instr_30_cost: "list_all2 cost_ok [3840..<3968] vemu_arm_instr_30"
  by (simp add: vemu_arm_instr_30_def instr_def cycles_defs cost_ok_def arm_ref_cycles_def upt_conv_Cons)

lemma vemu_arm_instr_31_cost: "list_all2 cost_ok [3968..<4096] vemu_arm_instr_31"
  by (simp add: vemu_arm_instr_31_def instr_def cycles_defs cost_ok_def arm_ref_cycles_def upt_conv_Cons)

end
