(* ===== verification/Vemu_Arm.thy ===== *)
theory Vemu_Arm
  imports Vemu_Thumb_Table Vemu_Arm_Table0 Vemu_Arm_Table1 Vemu_Arm_Table2 Vemu_Arm_Table3
begin

text \<open>
  The decoder of \<^verbatim>\<open>vemu_arm.c\<close>: the three instruction tables and
  \<open>vemu_target_decode_instr\<close>, which selects a table by the kind of code (ARM, 16-bit
  Thumb, 32-bit Thumb) and a row by bits of the instruction word. The tables are
  variables of the program (the configuration file changes the class of rows), so they
  are a record that the operations take and return.
  The locale \<open>instr_table\<close> states what the decoder relies on; it is interpreted on the
  ARM and the Thumb table.
\<close>

section \<open>The tables\<close>

definition vemu_thumb_instr :: "vemu_instr_info list" where
  "vemu_thumb_instr = concat [vemu_thumb_instr_0, vemu_thumb_instr_1]"

definition vemu_arm_instr :: "vemu_instr_info list" where
  "vemu_arm_instr = concat
    [vemu_arm_instr_00, vemu_arm_instr_01, vemu_arm_instr_02, vemu_arm_instr_03,
     vemu_arm_instr_04, vemu_arm_instr_05, vemu_arm_instr_06, vemu_arm_instr_07,
     vemu_arm_instr_08, vemu_arm_instr_09, vemu_arm_instr_10, vemu_arm_instr_11,
     vemu_arm_instr_12, vemu_arm_instr_13, vemu_arm_instr_14, vemu_arm_instr_15,
     vemu_arm_instr_16, vemu_arm_instr_17, vemu_arm_instr_18, vemu_arm_instr_19,
     vemu_arm_instr_20, vemu_arm_instr_21, vemu_arm_instr_22, vemu_arm_instr_23,
     vemu_arm_instr_24, vemu_arm_instr_25, vemu_arm_instr_26, vemu_arm_instr_27,
     vemu_arm_instr_28, vemu_arm_instr_29, vemu_arm_instr_30, vemu_arm_instr_31]"

definition vemu_thumb2_instr :: "vemu_instr_info list" where
  "vemu_thumb2_instr = [instr 0xFFF ''UNKNOWN'' CLASS_DEFAULT CYCLES_DEFAULT ERRORS_DEFAULT]"

record instr_tables =
  thumb_instr :: "vemu_instr_info list"
  arm_instr :: "vemu_instr_info list"
  thumb2_instr :: "vemu_instr_info list"

definition initial_tables :: instr_tables where
  "initial_tables = \<lparr>thumb_instr = vemu_thumb_instr, arm_instr = vemu_arm_instr,
     thumb2_instr = vemu_thumb2_instr\<rparr>"

definition vemu_target_get_all_instr_info :: "instr_tables \<Rightarrow> bool \<Rightarrow> vemu_instr_info list" where
  "vemu_target_get_all_instr_info ts thumb = (if thumb then thumb_instr ts else arm_instr ts)"

text \<open>The function returns a pointer into the table; this is a store through it.\<close>

definition set_all_instr_info :: "bool \<Rightarrow> vemu_instr_info list \<Rightarrow> instr_tables \<Rightarrow> instr_tables" where
  "set_all_instr_info thumb t ts = (if thumb then ts\<lparr>thumb_instr := t\<rparr> else ts\<lparr>arm_instr := t\<rparr>)"

definition vemu_target_get_all_instr_size :: "instr_tables \<Rightarrow> bool \<Rightarrow> nat" where
  "vemu_target_get_all_instr_size ts thumb =
     (if thumb then length (thumb_instr ts) else length (arm_instr ts))"

section \<open>Decoding\<close>

definition thumb_opcode :: "u32 \<Rightarrow> u32" where
  "thumb_opcode w = push_bit 4 (drop_bit 12 w AND 0xF) OR (drop_bit 8 w AND 0xF)"

definition arm_opcode :: "u32 \<Rightarrow> u32" where
  "arm_opcode w = push_bit 4 (drop_bit 20 w AND 0xFF) OR (drop_bit 4 w AND 0xF)"

text \<open>Reading a row through the table pointer and copying it into the block.\<close>

definition fetch_row :: "vemu_instr_info list \<Rightarrow> u32 \<Rightarrow> u32 \<Rightarrow> vemu_tb_info result" where
  "fetch_row t opc w =
     (if unat opc < length t then Inr \<lparr>instr_word = w, instr_info = t ! unat opc\<rparr>
      else Inl Out_Of_Bounds)"

definition vemu_target_decode_instr :: "instr_tables \<Rightarrow> u32 \<Rightarrow> int \<Rightarrow> vemu_tb_info result" where
  "vemu_target_decode_instr ts w thumb =
     (if thumb = 1 then
        cbind (c_assert (thumb_opcode w \<le> 0xff)) (\<lambda>_. fetch_row (thumb_instr ts) (thumb_opcode w) w)
      else if thumb = 2 then fetch_row (thumb2_instr ts) 0 w
      else if thumb = 0 then
        cbind (c_assert (arm_opcode w \<le> 0xfff)) (\<lambda>_. fetch_row (arm_instr ts) (arm_opcode w) w)
      else Inl Null_Pointer)"

section \<open>Well-formed tables\<close>

text \<open>
  The configuration changes the class of a row and nothing else: what every reachable
  table keeps of \<open>row_ok\<close>.
\<close>

definition row_wf :: "nat \<Rightarrow> vemu_instr_info \<Rightarrow> bool" where
  "row_wf i r \<longleftrightarrow> ii_opcode r = of_nat i \<and> \<not> ii_errors r
     \<and> ii_cycles r \<in> set [Fin 0, Fin 1, Fin 2, Fin 3, Fin 4, Fin 5]"

definition rows_wf :: "nat \<Rightarrow> vemu_instr_info list \<Rightarrow> bool" where
  "rows_wf n t \<longleftrightarrow> list_all2 row_wf [0..<n] t"

definition tables_wf :: "instr_tables \<Rightarrow> bool" where
  "tables_wf ts \<longleftrightarrow> rows_wf 256 (thumb_instr ts) \<and> rows_wf 4096 (arm_instr ts)
     \<and> length (thumb2_instr ts) = 1 \<and> row_wf 0xFFF (thumb2_instr ts ! 0)"

section \<open>The interface of a table\<close>

locale instr_table =
  fixes tab :: "vemu_instr_info list" and bits :: nat
  assumes length_tab: "length tab = 2 ^ bits"
    and row_at: "i < 2 ^ bits \<Longrightarrow> row_wf i (tab ! i)"
begin

lemma fetch_total:
  "unat opc < 2 ^ bits \<Longrightarrow> fetch_row tab opc w = Inr \<lparr>instr_word = w, instr_info = tab ! unat opc\<rparr>"
  by (simp add: fetch_row_def length_tab)

lemma fetch_opcode:
  assumes "fetch_row tab opc w = Inr tb"
  shows "ii_opcode (instr_info tb) = opc" "instr_word tb = w"
    "\<not> ii_errors (instr_info tb)" "wf_double (ii_cycles (instr_info tb))"
    "0 \<le> ii_cycles (instr_info tb)"
proof -
  have tb: "tb = \<lparr>instr_word = w, instr_info = tab ! unat opc\<rparr>" and "unat opc < length tab"
    using assms by (simp_all add: fetch_row_def split: if_splits)
  then have r: "row_wf (unat opc) (tab ! unat opc)" by (simp add: row_at length_tab)
  then show "ii_opcode (instr_info tb) = opc" "instr_word tb = w" "\<not> ii_errors (instr_info tb)"
    by (simp_all add: tb row_wf_def)
  have "\<exists>n::int. \<bar>n\<bar> \<le> 2 ^ 53 \<and> 0 \<le> n \<and> ii_cycles (tab ! unat opc) = Fin (of_int n)"
    using r by (auto simp: row_wf_def intro: exI [of _ 0] exI [of _ 1] exI [of _ 2] exI [of _ 3]
        exI [of _ 4] exI [of _ 5])
  then obtain n :: int where n: "\<bar>n\<bar> \<le> 2 ^ 53" "0 \<le> n" "ii_cycles (instr_info tb) = Fin (of_int n)"
    by (auto simp: tb)
  then show "wf_double (ii_cycles (instr_info tb))"
    using rnd_of_int [of n] wf_rnd [of "of_int n"] by simp
  from n show "0 \<le> ii_cycles (instr_info tb)" by (simp add: dbl_defs)
qed

end

section \<open>The tables of the program\<close>

lemmas arm_chunks_ok =
  vemu_arm_instr_00_ok vemu_arm_instr_01_ok vemu_arm_instr_02_ok vemu_arm_instr_03_ok
  vemu_arm_instr_04_ok vemu_arm_instr_05_ok vemu_arm_instr_06_ok vemu_arm_instr_07_ok
  vemu_arm_instr_08_ok vemu_arm_instr_09_ok vemu_arm_instr_10_ok vemu_arm_instr_11_ok
  vemu_arm_instr_12_ok vemu_arm_instr_13_ok vemu_arm_instr_14_ok vemu_arm_instr_15_ok
  vemu_arm_instr_16_ok vemu_arm_instr_17_ok vemu_arm_instr_18_ok vemu_arm_instr_19_ok
  vemu_arm_instr_20_ok vemu_arm_instr_21_ok vemu_arm_instr_22_ok vemu_arm_instr_23_ok
  vemu_arm_instr_24_ok vemu_arm_instr_25_ok vemu_arm_instr_26_ok vemu_arm_instr_27_ok
  vemu_arm_instr_28_ok vemu_arm_instr_29_ok vemu_arm_instr_30_ok vemu_arm_instr_31_ok

lemmas arm_chunks_cost =
  vemu_arm_instr_04_cost vemu_arm_instr_05_cost vemu_arm_instr_06_cost vemu_arm_instr_07_cost
  vemu_arm_instr_08_cost vemu_arm_instr_09_cost vemu_arm_instr_10_cost vemu_arm_instr_11_cost
  vemu_arm_instr_12_cost vemu_arm_instr_13_cost vemu_arm_instr_14_cost vemu_arm_instr_15_cost
  vemu_arm_instr_16_cost vemu_arm_instr_17_cost vemu_arm_instr_18_cost vemu_arm_instr_19_cost
  vemu_arm_instr_20_cost vemu_arm_instr_21_cost vemu_arm_instr_22_cost vemu_arm_instr_23_cost
  vemu_arm_instr_24_cost vemu_arm_instr_25_cost vemu_arm_instr_26_cost vemu_arm_instr_27_cost
  vemu_arm_instr_28_cost vemu_arm_instr_29_cost vemu_arm_instr_30_cost vemu_arm_instr_31_cost

lemma thumb_rows_ok: "list_all2 row_ok [0..<256] vemu_thumb_instr"
  unfolding vemu_thumb_instr_def concat.simps append_Nil2
  by (rule list_all2_upt_append [OF vemu_thumb_instr_0_ok vemu_thumb_instr_1_ok]) simp_all

lemma arm_rows_ok: "list_all2 row_ok [0..<4096] vemu_arm_instr"
  unfolding vemu_arm_instr_def concat.simps append_Nil2
  by ((rule list_all2_upt_append, rule arm_chunks_ok)+, rule arm_chunks_ok) simp_all

lemma row_ok_wf: "row_ok i r \<Longrightarrow> row_wf i r"
  by (simp add: row_ok_def row_wf_def)

lemma rows_ok_wf: "list_all2 row_ok [0..<n] t \<Longrightarrow> rows_wf n t"
  unfolding rows_wf_def by (erule list_all2_mono) (rule row_ok_wf)

lemma initial_tables_wf: "tables_wf initial_tables"
  using rows_ok_wf [OF thumb_rows_ok] rows_ok_wf [OF arm_rows_ok]
  by (simp add: tables_wf_def initial_tables_def vemu_thumb2_instr_def row_wf_def row_defs cycles_defs)

lemma rows_instr_table:
  assumes "rows_wf (2 ^ n) t"
  shows "instr_table t n"
  using assms list_all2_uptD [of row_wf 0 "2 ^ n" t] unfolding rows_wf_def
  by unfold_locales (auto dest: list_all2_lengthD)

lemma tables_wf_tables:
  assumes "tables_wf ts"
  shows "instr_table (thumb_instr ts) 8" "instr_table (arm_instr ts) 12"
  using assms by (auto simp: tables_wf_def intro!: rows_instr_table)

interpretation thumb_tab: instr_table vemu_thumb_instr 8
  using tables_wf_tables(1) [OF initial_tables_wf] by (simp add: initial_tables_def)

interpretation arm_tab: instr_table vemu_arm_instr 12
  using tables_wf_tables(2) [OF initial_tables_wf] by (simp add: initial_tables_def)

section \<open>The decoder\<close>

lemma unat_thumb_opcode: "unat (thumb_opcode w) = (unat w div 2 ^ 12 mod 16) * 16 + unat w div 2 ^ 8 mod 16"
proof -
  have "unat (thumb_opcode w)
      = unat (take_bit 4 (drop_bit 12 w)) * 2 ^ 4 + unat (take_bit 4 (drop_bit 8 w))"
    unfolding thumb_opcode_def and_numeral_take_bit
    using unat_take_bit_less [of 4 "drop_bit 12 w"] by (intro unat_fields unat_take_bit_less) simp
  then show ?thesis by (simp add: unat_take_bit_mod unat_drop_bit_div)
qed

lemma unat_arm_opcode: "unat (arm_opcode w) = (unat w div 2 ^ 20 mod 256) * 16 + unat w div 2 ^ 4 mod 16"
proof -
  have "unat (arm_opcode w)
      = unat (take_bit 8 (drop_bit 20 w)) * 2 ^ 4 + unat (take_bit 4 (drop_bit 4 w))"
    unfolding arm_opcode_def and_numeral_take_bit
    using unat_take_bit_less [of 8 "drop_bit 20 w"] by (intro unat_fields unat_take_bit_less) simp
  then show ?thesis by (simp add: unat_take_bit_mod unat_drop_bit_div)
qed

lemma opcode_bounds:
  "unat (thumb_opcode w) < 2 ^ 8" "unat (arm_opcode w) < 2 ^ 12"
  "thumb_opcode w \<le> 0xff" "arm_opcode w \<le> 0xfff"
proof -
  have m: "x mod 16 < 16" "x mod 256 < 256" for x :: nat by simp_all
  show t: "unat (thumb_opcode w) < 2 ^ 8"
    unfolding unat_thumb_opcode using m(1) [of "unat w div 2 ^ 12"] m(1) [of "unat w div 2 ^ 8"] by simp
  show a: "unat (arm_opcode w) < 2 ^ 12"
    unfolding unat_arm_opcode using m(2) [of "unat w div 2 ^ 20"] m(1) [of "unat w div 2 ^ 4"] by simp
  show "thumb_opcode w \<le> 0xff" "arm_opcode w \<le> 0xfff"
    using t a by (simp_all add: word_le_nat_alt)
qed

lemma decode_cases:
  assumes "tables_wf ts"
  shows "vemu_target_decode_instr ts w 1 = Inr \<lparr>instr_word = w, instr_info = thumb_instr ts ! unat (thumb_opcode w)\<rparr>"
    and "vemu_target_decode_instr ts w 0 = Inr \<lparr>instr_word = w, instr_info = arm_instr ts ! unat (arm_opcode w)\<rparr>"
    and "vemu_target_decode_instr ts w 2 = Inr \<lparr>instr_word = w, instr_info = thumb2_instr ts ! 0\<rparr>"
  using tables_wf_tables [OF assms, THEN instr_table.fetch_total] assms
  by (simp_all add: vemu_target_decode_instr_def opcode_bounds [simplified] tables_wf_def fetch_row_def)

lemma arm_cost_tail:
  "\<exists>hd tl. vemu_arm_instr = hd @ tl \<and> length hd = 512 \<and> list_all2 cost_ok [512..<4096] tl"
proof -
  define tl where "tl = concat
    [vemu_arm_instr_04, vemu_arm_instr_05, vemu_arm_instr_06, vemu_arm_instr_07,
     vemu_arm_instr_08, vemu_arm_instr_09, vemu_arm_instr_10, vemu_arm_instr_11,
     vemu_arm_instr_12, vemu_arm_instr_13, vemu_arm_instr_14, vemu_arm_instr_15,
     vemu_arm_instr_16, vemu_arm_instr_17, vemu_arm_instr_18, vemu_arm_instr_19,
     vemu_arm_instr_20, vemu_arm_instr_21, vemu_arm_instr_22, vemu_arm_instr_23,
     vemu_arm_instr_24, vemu_arm_instr_25, vemu_arm_instr_26, vemu_arm_instr_27,
     vemu_arm_instr_28, vemu_arm_instr_29, vemu_arm_instr_30, vemu_arm_instr_31]"
  define hd where
    "hd = vemu_arm_instr_00 @ vemu_arm_instr_01 @ vemu_arm_instr_02 @ vemu_arm_instr_03"
  have "vemu_arm_instr = hd @ tl"
    by (simp only: vemu_arm_instr_def hd_def tl_def concat.simps append_assoc)
  moreover have "length hd = 512"
    using arm_chunks_ok(1-4) [THEN list_all2_lengthD] by (simp add: hd_def)
  moreover have "list_all2 cost_ok [512..<4096] tl"
    unfolding tl_def concat.simps append_Nil2
    by ((rule list_all2_upt_append, rule arm_chunks_cost)+, rule arm_chunks_cost) simp_all
  ultimately show ?thesis by blast
qed

lemma arm_cost_at:
  assumes "512 \<le> i" "i < 4096"
  shows "ii_cycles (vemu_arm_instr ! i) = arm_ref_cycles i"
proof -
  obtain hd tl where e: "vemu_arm_instr = hd @ tl" "length hd = 512"
    and c: "list_all2 cost_ok [512..<4096] tl"
    using arm_cost_tail by blast
  have "cost_ok (512 + (i - 512)) (tl ! (i - 512))"
    using c by (rule list_all2_uptD) (use assms in simp)
  moreover have "vemu_arm_instr ! i = tl ! (i - 512)"
    unfolding e(1) nth_append e(2) using assms(1) by simp
  ultimately show ?thesis using assms(1) by (simp add: cost_ok_def)
qed

text \<open>
  C38. On well-formed tables the decoder returns for every instruction word and every kind
  of code the translator passes it (0 ARM, 1 Thumb, 2 32-bit Thumb): no assertion fails
  and no table access is out of bounds. The block records the instruction word, a row
  that carries no error flag, and, for ARM and 16-bit Thumb code, the row whose opcode
  is the one computed from the bits of the word: bits 27 to 20 and 7 to 4 of an ARM word,
  bits 15 to 8 of a Thumb halfword. Any other kind dereferences a null pointer.
\<close>

theorem decode_total:
  assumes "tables_wf ts"
  shows "(thumb \<in> {0, 1, 2} \<longrightarrow>
      (\<exists>tb. vemu_target_decode_instr ts w thumb = Inr tb \<and> instr_word tb = w
         \<and> \<not> ii_errors (instr_info tb)
         \<and> (thumb = 0 \<longrightarrow> ii_opcode (instr_info tb) = arm_opcode w)
         \<and> (thumb = 1 \<longrightarrow> ii_opcode (instr_info tb) = thumb_opcode w)
         \<and> (thumb = 0 \<longrightarrow> unat (ii_opcode (instr_info tb)) = (unat w div 2 ^ 20 mod 256) * 16 + unat w div 2 ^ 4 mod 16)
         \<and> (thumb = 1 \<longrightarrow> unat (ii_opcode (instr_info tb)) = (unat w div 2 ^ 12 mod 16) * 16 + unat w div 2 ^ 8 mod 16)))
    \<and> (thumb \<notin> {0, 1, 2} \<longrightarrow> vemu_target_decode_instr ts w thumb = Inl Null_Pointer)"
proof -
  have r: "row_wf (unat (thumb_opcode w)) (thumb_instr ts ! unat (thumb_opcode w))"
    "row_wf (unat (arm_opcode w)) (arm_instr ts ! unat (arm_opcode w))"
    using tables_wf_tables [OF assms, THEN instr_table.row_at] opcode_bounds by simp_all
  moreover have "\<not> ii_errors (thumb2_instr ts ! 0)" using assms by (simp add: tables_wf_def row_wf_def)
  ultimately have "thumb \<in> {0, 1, 2} \<Longrightarrow>
      \<exists>tb. vemu_target_decode_instr ts w thumb = Inr tb \<and> instr_word tb = w
         \<and> \<not> ii_errors (instr_info tb)
         \<and> (thumb = 0 \<longrightarrow> ii_opcode (instr_info tb) = arm_opcode w)
         \<and> (thumb = 1 \<longrightarrow> ii_opcode (instr_info tb) = thumb_opcode w)
         \<and> (thumb = 0 \<longrightarrow> unat (ii_opcode (instr_info tb)) = (unat w div 2 ^ 20 mod 256) * 16 + unat w div 2 ^ 4 mod 16)
         \<and> (thumb = 1 \<longrightarrow> unat (ii_opcode (instr_info tb)) = (unat w div 2 ^ 12 mod 16) * 16 + unat w div 2 ^ 8 mod 16)"
    unfolding unat_arm_opcode [symmetric] unat_thumb_opcode [symmetric]
    by (auto simp: decode_cases [OF assms] row_wf_def)
  moreover have "thumb \<notin> {0, 1, 2} \<Longrightarrow> vemu_target_decode_instr ts w thumb = Inl Null_Pointer"
    by (simp add: vemu_target_decode_instr_def)
  ultimately show ?thesis by blast
qed

theorem decode_total_witness:
  "(\<exists>tb. vemu_target_decode_instr initial_tables 0xE0010293 0 = Inr tb \<and> instr_word tb = 0xE0010293
      \<and> \<not> ii_errors (instr_info tb) \<and> ii_opcode (instr_info tb) = 0x009)
   \<and> vemu_target_decode_instr initial_tables 0 3 = Inl Null_Pointer"
proof -
  have "arm_opcode 0xE0010293 = 0x009" by (simp add: arm_opcode_def)
  then show ?thesis
    using decode_total [OF initial_tables_wf, of 0 "0xE0010293"]
      decode_total [OF initial_tables_wf, of 3 0] by auto
qed

text \<open>
  C39. The ARM table charges every instruction outside the data-processing (register) and
  multiply group (bits 27 to 25 not all zero) the cost that the fields of its encoding
  determine: the 3584 rows of the table agree with the reference function
  \<open>arm_ref_cycles\<close> of bits 27 to 20 and 7 to 4.
\<close>

theorem arm_decode_cost:
  assumes "unat w div 2 ^ 25 mod 8 \<noteq> 0"
  shows "\<exists>tb. vemu_target_decode_instr initial_tables w 0 = Inr tb \<and>
     ii_cycles (instr_info tb)
       = arm_ref_cycles ((unat w div 2 ^ 20 mod 256) * 16 + unat w div 2 ^ 4 mod 16)"
proof -
  have "unat w div 2 ^ 25 mod 8 = unat w div 2 ^ 20 mod 256 div 2 ^ 5"
    by (simp add: div_mult2_eq [symmetric] mod_mult2_eq [of _ 32 8, simplified])
  with assms have "\<not> unat w div 2 ^ 20 mod 256 < 2 ^ 5" by (auto simp only: div_less)
  then have "512 \<le> unat (arm_opcode w)" unfolding unat_arm_opcode by simp
  moreover have "unat (arm_opcode w) < 4096" using opcode_bounds(2) [of w] by simp
  ultimately show ?thesis
    by (simp add: decode_cases [OF initial_tables_wf])
       (simp add: initial_tables_def arm_cost_at unat_arm_opcode)
qed

theorem arm_decode_cost_witness:
  "\<exists>tb. vemu_target_decode_instr initial_tables 0xE5901000 0 = Inr tb \<and> ii_cycles (instr_info tb) = Fin 3"
  using arm_decode_cost [of "0xE5901000"] by (simp add: arm_ref_cycles_def)

end
