(* ===== verification/Vemu_Params.thy ===== *)
theory Vemu_Params
  imports Vemu_Double
begin

text \<open>
  The parameter store of the power model of \<^verbatim>\<open>vemu_power_45nm.c\<close>: the union
  \<^verbatim>\<open>pm_parameters\<close> of a structure of fourteen doubles and an array of fourteen doubles,
  and the two operations the rest of VarEMU uses on it. Parameter 0 is the clock
  frequency and parameter 1 the supply voltage.
  The locale \<open>param_store\<close> is the contract of the store, interpreted on the two
  operations.
\<close>

record esweek_pm =
  pm_F :: double            \<comment> \<open>frequency\<close>
  pm_Vdd :: double          \<comment> \<open>supply voltage\<close>
  pm_T :: double            \<comment> \<open>temperature in celsius\<close>
  pm_Nd :: double           \<comment> \<open>dynamic power multiplier\<close>
  pm_Bd :: double
  pm_Cd :: double
  pm_Nl :: double           \<comment> \<open>leakage power multiplier\<close>
  pm_Al :: double
  pm_Bl :: double
  pm_Vnl :: double
  pm_Vpl :: double
  pm_delta_vtp :: double    \<comment> \<open>pmos threshold degradation\<close>
  pm_mode :: double         \<comment> \<open>1 or 0 for upper/lower bound for aging\<close>
  pm_Vdd_scalar :: double   \<comment> \<open>new Vdd scalar to compensate aging\<close>

text \<open>The array member of the union, read and written.\<close>

definition pm_array :: "esweek_pm \<Rightarrow> double list" where
  "pm_array p = [pm_F p, pm_Vdd p, pm_T p, pm_Nd p, pm_Bd p, pm_Cd p, pm_Nl p, pm_Al p, pm_Bl p,
     pm_Vnl p, pm_Vpl p, pm_delta_vtp p, pm_mode p, pm_Vdd_scalar p]"

definition pm_of_array :: "double list \<Rightarrow> esweek_pm" where
  "pm_of_array a = \<lparr>pm_F = a ! 0, pm_Vdd = a ! 1, pm_T = a ! 2, pm_Nd = a ! 3, pm_Bd = a ! 4,
     pm_Cd = a ! 5, pm_Nl = a ! 6, pm_Al = a ! 7, pm_Bl = a ! 8, pm_Vnl = a ! 9, pm_Vpl = a ! 10,
     pm_delta_vtp = a ! 11, pm_mode = a ! 12, pm_Vdd_scalar = a ! 13\<rparr>"

text \<open>Static storage starts as zero.\<close>

definition pm_parameters_init :: esweek_pm where
  "pm_parameters_init = pm_of_array (replicate 14 0)"

definition vemu_pm_change_parameter :: "u8 \<Rightarrow> u8 \<Rightarrow> double \<Rightarrow> esweek_pm \<Rightarrow> esweek_pm result" where
  "vemu_pm_change_parameter cls parameter value pm =
     cbind (c_assert (parameter < 14)) (\<lambda>_. Inr (pm_of_array ((pm_array pm)[unat parameter := value])))"

definition vemu_pm_get_parameter :: "u8 \<Rightarrow> u8 \<Rightarrow> esweek_pm \<Rightarrow> double result" where
  "vemu_pm_get_parameter cls parameter pm =
     cbind (c_assert (parameter < 14)) (\<lambda>_. Inr (pm_array pm ! unat parameter))"

section \<open>The contract of the store\<close>

locale param_store =
  fixes change :: "u8 \<Rightarrow> u8 \<Rightarrow> double \<Rightarrow> 'p \<Rightarrow> 'p result"
    and get :: "u8 \<Rightarrow> u8 \<Rightarrow> 'p \<Rightarrow> double result"
    and n :: u8
  assumes change_ok: "i < n \<Longrightarrow> \<exists>p'. change c i v p = Inr p'"
    and change_bad: "\<not> i < n \<Longrightarrow> change c i v p = Inl Assert_Fail"
    and get_ok: "i < n \<Longrightarrow> \<exists>v. get c i p = Inr v"
    and get_bad: "\<not> i < n \<Longrightarrow> get c i p = Inl Assert_Fail"
    and get_change: "change c i v p = Inr p' \<Longrightarrow> get d j p' = (if j = i then Inr v else get d j p)"
    and get_ext: "(\<And>i. get 0 i p = get 0 i q) \<Longrightarrow> p = q"
    and get_class: "get c i p = get d i p"
begin

lemma get_change_same: "change c i v p = Inr p' \<Longrightarrow> get d i p' = Inr v"
  by (simp add: get_change)

lemma get_change_other: "change c i v p = Inr p' \<Longrightarrow> j \<noteq> i \<Longrightarrow> get d j p' = get d j p"
  by (simp add: get_change)

text \<open>The last of two changes of one parameter counts; changes of two parameters commute.\<close>

lemma change_change_same:
  assumes "change c i v p = Inr p'"
  shows "change d i w p' = change d i w p"
proof -
  have "i < n" using assms change_bad by (metis Inl_Inr_False)
  then obtain q q' where q: "change d i w p' = Inr q" "change d i w p = Inr q'"
    using change_ok by metis
  have "q = q'" by (rule get_ext) (simp add: get_change [OF q(1)] get_change [OF q(2)] get_change [OF assms])
  with q show ?thesis by simp
qed

lemma change_change_other:
  assumes "i \<noteq> j"
  shows "cbind (change c i v p) (change d j w) = cbind (change d j w p) (change c i v)"
proof (cases "i < n \<and> j < n")
  case True
  then obtain p1 p2 q1 q2 where
    p: "change c i v p = Inr p1" "change d j w p1 = Inr p2" and
    q: "change d j w p = Inr q1" "change c i v q1 = Inr q2"
    using change_ok by metis
  have "p2 = q2"
    by (rule get_ext)
       (use assms in \<open>simp add: get_change [OF p(1)] get_change [OF p(2)] get_change [OF q(1)] get_change [OF q(2)]\<close>)
  with p q show ?thesis by simp
next
  case False
  have bad: "change c i v q = Inl Assert_Fail" if "\<not> i < n" for q using that by (rule change_bad)
  have bad': "change d j w q = Inl Assert_Fail" if "\<not> j < n" for q using that by (rule change_bad)
  from False bad bad' show ?thesis
    using change_ok [of i c v p] change_ok [of j d w p] by (cases "i < n"; cases "j < n") auto
qed

end

section \<open>The store of the 45 nm model\<close>

lemma length_pm_array [simp]: "length (pm_array p) = 14"
  by (simp add: pm_array_def)

lemma pm_of_array_inverse [simp]: "pm_of_array (pm_array p) = p"
  by (simp add: pm_array_def pm_of_array_def)

lemma pm_array_inverse:
  assumes "length a = 14"
  shows "pm_array (pm_of_array a) = a"
proof -
  have "pm_array (pm_of_array a) = map ((!) a) [0..<14]"
    by (simp add: pm_array_def pm_of_array_def upt_conv_Cons numeral_eq_Suc)
  also have "\<dots> = a" unfolding assms [symmetric] by (rule map_nth)
  finally show ?thesis .
qed

lemma less_14: "i < (14 :: u8) \<longleftrightarrow> unat i < 14"
  by (simp add: word_less_nat_alt)

interpretation pm: param_store vemu_pm_change_parameter vemu_pm_get_parameter 14
proof unfold_locales
  fix c d i j v p p'
  assume "vemu_pm_change_parameter c i v p = Inr p'"
  then have "p' = pm_of_array ((pm_array p)[unat i := v])" "i < 14"
    by (auto simp: vemu_pm_change_parameter_def cbind_Inr_iff)
  then show "vemu_pm_get_parameter d j p' = (if j = i then Inr v else vemu_pm_get_parameter d j p)"
    by (auto simp: vemu_pm_get_parameter_def pm_array_inverse less_14 nth_list_update c_assert_def
        word_unat_eq_iff)
next
  fix p q
  assume g: "\<And>i. vemu_pm_get_parameter 0 i p = vemu_pm_get_parameter 0 i q"
  have "pm_array p = pm_array q"
  proof (rule nth_equalityI)
    fix k assume "k < length (pm_array p)"
    then have k: "unat (of_nat k :: u8) = k" "k < 14" by (simp_all add: unat_of_nat)
    then show "pm_array p ! k = pm_array q ! k"
      using g [of "of_nat k"] by (simp add: vemu_pm_get_parameter_def less_14)
  qed simp
  then show "p = q" by (metis pm_of_array_inverse)
qed (auto simp: vemu_pm_change_parameter_def vemu_pm_get_parameter_def c_assert_def)

end
