(* ===== verification/Vemu_Cycles.thy ===== *)
theory Vemu_Cycles
  imports Vemu_Instr Vemu_Params
begin

text \<open>
  Cycle and time accounting, \<^verbatim>\<open>vemu_cycles.c\<close>. The file-level variables are the record
  \<open>cycles_state\<close>; \<open>now\<close> is the value that \<^verbatim>\<open>qemu_get_clock_ns(vm_clock)\<close> returns at the
  call, and \<open>pm\<close> the state of the power model, whose parameter 0 is the frequency.
\<close>

section \<open>State\<close>

definition MAX_INSTR_CLASSES :: nat where
  "MAX_INSTR_CLASSES = 4"

record cycles_state =
  cycle_count :: "double list"
  active_time :: "double list"
  total_sleep_time :: u64          \<comment> \<open>an \<^verbatim>\<open>int64_t\<close>\<close>
  last_active_time_vm :: u64
  last_active_time_cycles :: u64
  last_sleep_time :: u64
  entered_sleep_mode :: bool

text \<open>Static storage starts as zero.\<close>

definition cycles_state_zero :: cycles_state where
  "cycles_state_zero = \<lparr>cycle_count = replicate MAX_INSTR_CLASSES 0,
     active_time = replicate MAX_INSTR_CLASSES 0, total_sleep_time = 0, last_active_time_vm = 0,
     last_active_time_cycles = 0, last_sleep_time = 0, entered_sleep_mode = False\<rparr>"

section \<open>Operations\<close>

definition period_ns :: "esweek_pm \<Rightarrow> double result" where
  "period_ns pm = cbind (vemu_pm_get_parameter 0 0 pm) (\<lambda>f.
     cbind (u64_of_double f) (\<lambda>n. Inr (lit 1000000000 / double_of_u64 n)))"

definition vemu_get_cycles :: "u8 \<Rightarrow> cycles_state \<Rightarrow> u64 result" where
  "vemu_get_cycles cls s =
     cbind (c_assert (unat cls < MAX_INSTR_CLASSES)) (\<lambda>_. u64_of_double (cycle_count s ! unat cls))"

text \<open>
  The sum is a \<^verbatim>\<open>uint64_t\<close>: each addition converts it to double and the result back.
\<close>

definition vemu_get_cycles_all_classes :: "cycles_state \<Rightarrow> u64 result" where
  "vemu_get_cycles_all_classes s =
     cfold (\<lambda>i sum. u64_of_double (double_of_u64 sum + cycle_count s ! i)) [0..<MAX_INSTR_CLASSES] 0"

definition vemu_get_act_time :: "u8 \<Rightarrow> cycles_state \<Rightarrow> u64 result" where
  "vemu_get_act_time cls s =
     cbind (c_assert (unat cls < MAX_INSTR_CLASSES)) (\<lambda>_. u64_of_double (active_time s ! unat cls))"

definition vemu_get_act_time_all_classes :: "cycles_state \<Rightarrow> u64 result" where
  "vemu_get_act_time_all_classes s =
     u64_of_double (fold (\<lambda>i sum. sum + active_time s ! i) [0..<MAX_INSTR_CLASSES] 0)"

definition vemu_get_slp_time :: "u64 \<Rightarrow> cycles_state \<Rightarrow> u64 result" where
  "vemu_get_slp_time now s =
     cbind (if entered_sleep_mode s
            then (let time = now; interval = time - last_sleep_time s in i64_add (total_sleep_time s) interval)
            else Inr (total_sleep_time s))
       (\<lambda>retval. Inr (if sint retval < 0 then 0 else retval))"

definition vemu_increment_cycles :: "esweek_pm \<Rightarrow> vemu_tb_info \<Rightarrow> cycles_state \<Rightarrow> cycles_state result" where
  "vemu_increment_cycles pm tb_info s =
     (let cls = unat (ii_class (instr_info tb_info)); cycles = ii_cycles (instr_info tb_info) in
      cbind (c_assert (cls < MAX_INSTR_CLASSES)) (\<lambda>_.
      cbind (period_ns pm) (\<lambda>p.
        Inr (s\<lparr>cycle_count := (cycle_count s)[cls := cycle_count s ! cls + cycles],
               active_time := (active_time s)[cls := active_time s ! cls + cycles * p]\<rparr>))))"

definition vemu_active_start :: "u64 \<Rightarrow> cycles_state \<Rightarrow> cycles_state result" where
  "vemu_active_start now s =
     (if \<not> entered_sleep_mode s then Inr s
      else let time = now; interval = time - last_sleep_time s in
        cbind (i64_add (total_sleep_time s) interval) (\<lambda>total.
        cbind (vemu_get_act_time_all_classes s) (\<lambda>act.
          Inr (s\<lparr>total_sleep_time := total, last_active_time_vm := time,
                 last_active_time_cycles := act, entered_sleep_mode := False\<rparr>))))"

definition vemu_sleep_start :: "u64 \<Rightarrow> cycles_state \<Rightarrow> cycles_state result" where
  "vemu_sleep_start now s =
     (let time = now; interval = time - last_active_time_vm s in
      cbind (vemu_get_act_time_all_classes s) (\<lambda>act.
        let act_period = act - last_active_time_cycles s; delta = act_period - interval in
        Inr (s\<lparr>last_sleep_time := time + delta, entered_sleep_mode := True\<rparr>)))"

text \<open>The initialisation does not touch \<open>active_time\<close>.\<close>

definition vemu_init_cycles :: "u64 \<Rightarrow> cycles_state \<Rightarrow> cycles_state" where
  "vemu_init_cycles now s = s\<lparr>
     cycle_count := fold (\<lambda>i xs. xs[i := 0]) [0..<MAX_INSTR_CLASSES] (cycle_count s),
     last_active_time_vm := now, last_sleep_time := now, last_active_time_cycles := 0,
     total_sleep_time := 0, entered_sleep_mode := False\<rparr>"

section \<open>Executions\<close>

text \<open>
  What the emulator does with the counters: an instruction of a translation block is
  executed (\<^verbatim>\<open>HELPER(vemu_info)\<close>), a \<^verbatim>\<open>wfi\<close> halts the processor
  (\<^verbatim>\<open>HELPER(wfi)\<close>), and a pending interrupt wakes it (\<^verbatim>\<open>cpu_has_work\<close>). A halted
  processor executes no instruction. The power model and the clock are whatever they
  are at each step.
\<close>

definition run_tbs :: "esweek_pm \<Rightarrow> vemu_tb_info list \<Rightarrow> cycles_state \<Rightarrow> cycles_state result" where
  "run_tbs pm tbs s = cfold (vemu_increment_cycles pm) tbs s"

inductive cycles_reach :: "u64 \<Rightarrow> cycles_state \<Rightarrow> bool" for t0 where
  init: "cycles_reach t0 (vemu_init_cycles t0 cycles_state_zero)"
| exec: "cycles_reach t0 s \<Longrightarrow> \<not> entered_sleep_mode s \<Longrightarrow> vemu_increment_cycles pm tb s = Inr s' \<Longrightarrow>
    cycles_reach t0 s'"
| wfi: "cycles_reach t0 s \<Longrightarrow> vemu_sleep_start now s = Inr s' \<Longrightarrow> cycles_reach t0 s'"
| wake: "cycles_reach t0 s \<Longrightarrow> vemu_active_start now s = Inr s' \<Longrightarrow> cycles_reach t0 s'"

text \<open>A processor of one gigahertz that runs one five-cycle instruction and then sleeps.\<close>

definition demo_pm :: esweek_pm where
  "demo_pm = pm_parameters_init\<lparr>pm_F := Fin 1000000000\<rparr>"

definition demo_tb :: vemu_tb_info where
  "demo_tb = \<lparr>instr_word = 0, instr_info = instr 0 ''MUL'' 0 (Fin 5) 0\<rparr>"

definition demo_awake :: cycles_state where
  "demo_awake = (vemu_init_cycles 0 cycles_state_zero)
     \<lparr>cycle_count := [Fin 5, 0, 0, 0], active_time := [Fin 5, 0, 0, 0]\<rparr>"

definition demo_asleep :: cycles_state where
  "demo_asleep = demo_awake\<lparr>last_sleep_time := 5, entered_sleep_mode := True\<rparr>"

section \<open>Well-formed states\<close>

text \<open>A counter is a binary64 value that is not negative and not NaN.\<close>

definition counter_ok :: "double \<Rightarrow> bool" where
  "counter_ok d \<longleftrightarrow> wf_double d \<and> 0 \<le> d"

definition cycles_wf :: "cycles_state \<Rightarrow> bool" where
  "cycles_wf s \<longleftrightarrow> length (cycle_count s) = MAX_INSTR_CLASSES \<and> length (active_time s) = MAX_INSTR_CLASSES
     \<and> list_all counter_ok (cycle_count s) \<and> list_all counter_ok (active_time s)"

text \<open>The clock has a usable frequency: it is at least one hertz and fits 64 bits.\<close>

definition freq_ok :: "esweek_pm \<Rightarrow> bool" where
  "freq_ok pm \<longleftrightarrow> Fin 1 \<le> pm_F pm \<and> pm_F pm < Fin (2 ^ 64)"

text \<open>The block's instruction has a class and a finite number of cycles.\<close>

definition tb_ok :: "vemu_tb_info \<Rightarrow> bool" where
  "tb_ok tb \<longleftrightarrow> unat (ii_class (instr_info tb)) < MAX_INSTR_CLASSES
     \<and> (case ii_cycles (instr_info tb) of Fin q \<Rightarrow> 0 \<le> q | _ \<Rightarrow> False)"

lemma get_frequency: "vemu_pm_get_parameter c 0 pm = Inr (pm_F pm)"
  by (simp add: vemu_pm_get_parameter_def pm_array_def)

lemma rnd_bounded: "0 \<le> q \<Longrightarrow> q \<le> 2 ^ 53 \<Longrightarrow> \<exists>p. rnd q = Fin p \<and> 0 \<le> p \<and> p \<le> 2 ^ 53"
  using rnd_mono [of q "2 ^ 53"] rnd_nonneg [of q] rnd_of_int [of "2 ^ 53"]
  by (cases "rnd q") (auto simp: dbl_defs)

lemma period_ns_ok:
  assumes "freq_ok pm"
  obtains p where "period_ns pm = Inr (Fin p)" and "0 \<le> p" and "p \<le> 2 ^ 53"
proof -
  from assms obtain f where f: "pm_F pm = Fin f" "1 \<le> f" "f < 2 ^ 64"
    by (cases "pm_F pm") (auto simp: freq_ok_def dbl_defs dlt_def)
  have fl: "1 \<le> \<lfloor>f\<rfloor>" "\<lfloor>f\<rfloor> < 2 ^ 64" using f by (auto simp: floor_less_iff)
  define n where "n = (word_of_int \<lfloor>f\<rfloor> :: u64)"
  have n: "u64_of_double (pm_F pm) = Inr n" "uint n = \<lfloor>f\<rfloor>"
    using f fl by (auto simp: u64_of_double_Inr truncq_def n_def uint_word_of_int_eq take_bit_int_eq_self)
  have "double_of_u64 1 \<le> double_of_u64 n"
    by (rule double_of_u64_mono) (use n fl in \<open>simp add: word_le_def\<close>)
  moreover have "double_of_u64 n \<le> rnd (2 powi 64)"
    unfolding double_of_u64_def n(2) by (rule rnd_mono) (use f(3) of_int_floor_le [of f] in simp)
  moreover have "rnd (2 powi 64) = Fin (2 powi 64)"
    using rv_powi [of 64] by (simp add: rnd_def)
  ultimately obtain d where d: "double_of_u64 n = Fin d" "1 \<le> d"
    using double_of_u64_exact [of 1] by (cases "double_of_u64 n") (auto simp: less_eq_double_def)
  have "1000000000 / d \<le> 2 ^ 53" using d(2) by (simp add: divide_le_eq)
  then obtain p where p: "rnd (1000000000 / d) = Fin p" "0 \<le> p" "p \<le> 2 ^ 53"
    using rnd_bounded [of "1000000000 / d"] d(2) by auto
  have "period_ns pm = Inr (Fin p)"
    using d p n(1) by (simp add: period_ns_def get_frequency lit_def divide_double_def)
  with p that show ?thesis by blast
qed

lemma counter_ok_0 [simp]: "counter_ok 0"
  by (simp add: counter_ok_def, simp add: dbl_defs)

lemma counter_ok_refl: "counter_ok a \<Longrightarrow> a \<le> a"
  by (auto simp: counter_ok_def intro!: dle_refl)

lemma counter_ok_add: "counter_ok a \<Longrightarrow> 0 \<le> b \<Longrightarrow> counter_ok (a + b)"
  by (simp add: counter_ok_def dadd_nonneg)

lemma cycles_wf_counters:
  "cycles_wf s \<Longrightarrow> i < MAX_INSTR_CLASSES \<Longrightarrow> counter_ok (cycle_count s ! i)"
  "cycles_wf s \<Longrightarrow> i < MAX_INSTR_CLASSES \<Longrightarrow> counter_ok (active_time s ! i)"
  by (simp_all add: cycles_wf_def list_all_length)

lemma list_all_update: "list_all P xs \<Longrightarrow> (i < length xs \<Longrightarrow> P v) \<Longrightarrow> list_all P (xs[i := v])"
  using set_update_subset_insert [of xs i v]
  by (cases "i < length xs") (auto simp: list_all_iff list_update_beyond)

lemma increment_Inr:
  assumes "vemu_increment_cycles pm tb s = Inr s'"
  obtains p where "unat (ii_class (instr_info tb)) < MAX_INSTR_CLASSES" and "period_ns pm = Inr p"
    and "s' = (let c = unat (ii_class (instr_info tb)); n = ii_cycles (instr_info tb) in
         s\<lparr>cycle_count := (cycle_count s)[c := cycle_count s ! c + n],
           active_time := (active_time s)[c := active_time s ! c + n * p]\<rparr>)"
  using assms by (auto simp: vemu_increment_cycles_def Let_def cbind_Inr_iff)

lemma tb_cycles_nonneg:
  assumes "tb_ok tb" "period_ns pm = Inr p" "freq_ok pm"
  shows "0 \<le> ii_cycles (instr_info tb)" "0 \<le> ii_cycles (instr_info tb) * p"
proof -
  from assms(1) obtain q where q: "ii_cycles (instr_info tb) = Fin q" "0 \<le> q"
    by (auto simp: tb_ok_def split: double.splits)
  from period_ns_ok [OF assms(3)] assms(2) obtain r where r: "p = Fin r" "0 \<le> r" by auto
  show "0 \<le> ii_cycles (instr_info tb)" using q by (simp add: dbl_defs)
  show "0 \<le> ii_cycles (instr_info tb) * p"
    using q r rnd_nonneg [of "q * r"] by (simp add: times_double_def)
qed

lemma init_cycles_count:
  assumes "length (cycle_count s) = MAX_INSTR_CLASSES"
  shows "cycle_count (vemu_init_cycles now s) = replicate MAX_INSTR_CLASSES 0"
  using assms
  by (auto simp: vemu_init_cycles_def MAX_INSTR_CLASSES_def upt_conv_Cons length_Suc_conv
      numeral_eq_Suc)

lemma cycles_wf_zero: "cycles_wf cycles_state_zero"
  by (simp add: cycles_wf_def cycles_state_zero_def list_all_length)

lemma cycles_wf_init [c_inv]: "cycles_wf s \<Longrightarrow> cycles_wf (vemu_init_cycles now s)"
  using init_cycles_count [of s now]
  by (simp add: cycles_wf_def list_all_length, simp add: vemu_init_cycles_def)

lemma cycles_wf_sleep [c_inv]: "vemu_sleep_start now s = Inr s' \<Longrightarrow> cycles_wf s \<Longrightarrow> cycles_wf s'"
  by (auto simp: vemu_sleep_start_def Let_def cycles_wf_def cbind_Inr_iff)

lemma cycles_wf_active [c_inv]: "vemu_active_start now s = Inr s' \<Longrightarrow> cycles_wf s \<Longrightarrow> cycles_wf s'"
  by (auto simp: vemu_active_start_def Let_def cycles_wf_def cbind_Inr_iff split: if_splits)

lemma cycles_wf_increment [c_inv]:
  assumes "vemu_increment_cycles pm tb s = Inr s'" "cycles_wf s" "tb_ok tb" "freq_ok pm"
  shows "cycles_wf s'"
proof -
  from assms(1) obtain p where c: "unat (ii_class (instr_info tb)) < MAX_INSTR_CLASSES"
    and p: "period_ns pm = Inr p"
    and s': "s' = (let c = unat (ii_class (instr_info tb)); n = ii_cycles (instr_info tb) in
         s\<lparr>cycle_count := (cycle_count s)[c := cycle_count s ! c + n],
           active_time := (active_time s)[c := active_time s ! c + n * p]\<rparr>)"
    by (rule increment_Inr)
  note nn = tb_cycles_nonneg [OF assms(3) p assms(4)]
  show ?thesis using assms(2) c nn cycles_wf_counters [OF assms(2) c]
    by (auto simp: s' Let_def cycles_wf_def intro!: list_all_update counter_ok_add)
qed

lemma increment_total:
  assumes "tb_ok tb" "freq_ok pm"
  shows "\<exists>s'. vemu_increment_cycles pm tb s = Inr s'"
  using assms by (elim period_ns_ok) (simp add: vemu_increment_cycles_def tb_ok_def Let_def)

section \<open>Counters only grow, and are exact up to two to the 53rd\<close>

lemma increment_counters:
  assumes "vemu_increment_cycles pm tb s = Inr s'" "cycles_wf s" "tb_ok tb" "freq_ok pm"
    and "i < MAX_INSTR_CLASSES"
  shows "cycle_count s ! i \<le> cycle_count s' ! i" "active_time s ! i \<le> active_time s' ! i"
proof -
  from assms(1) obtain p where c: "unat (ii_class (instr_info tb)) < MAX_INSTR_CLASSES"
    and p: "period_ns pm = Inr p"
    and s': "s' = (let c = unat (ii_class (instr_info tb)); n = ii_cycles (instr_info tb) in
         s\<lparr>cycle_count := (cycle_count s)[c := cycle_count s ! c + n],
           active_time := (active_time s)[c := active_time s ! c + n * p]\<rparr>)"
    by (rule increment_Inr)
  note nn = tb_cycles_nonneg [OF assms(3) p assms(4)]
  have ok: "counter_ok (cycle_count s ! i)" "counter_ok (active_time s ! i)"
    using assms(2,5) by (simp_all add: cycles_wf_counters)
  then have refl: "cycle_count s ! i \<le> cycle_count s ! i" "active_time s ! i \<le> active_time s ! i"
    by (simp_all add: counter_ok_refl)
  show "cycle_count s ! i \<le> cycle_count s' ! i" "active_time s ! i \<le> active_time s' ! i"
    using ok nn refl c assms(2,5)
    by (auto simp: s' Let_def cycles_wf_def nth_list_update counter_ok_def intro!: dadd_increasing)
qed

lemma uint_u64_of_nat: "m < 2 ^ 64 \<Longrightarrow> uint (of_nat m :: u64) = int m"
  unfolding uint_nat by (subst unat_of_nat) simp

lemma double_sum_exact:
  assumes "a = Fin (of_nat m)" "b = Fin (of_nat k)" "m + k \<le> 2 ^ 53"
  shows "a + b = Fin (of_nat (m + k))"
proof -
  have "rnd (of_int (int (m + k))) = Fin (of_int (int (m + k)))"
    using assms(3) by (intro rnd_of_int) simp
  with assms(1,2) show ?thesis by (simp add: plus_double_def)
qed

lemma u64_of_double_of_nat: "m \<le> 2 ^ 53 \<Longrightarrow> u64_of_double (Fin (of_nat m)) = Inr (of_nat m)"
  using truncq_of_int [of "int m"] uint_u64_of_nat [of m] by (simp add: u64_of_double_Inr)

text \<open>
  The specification of the cycle counters: the total of the whole numbers of cycles of
  the executed instructions of a class.
\<close>

definition tb_cycles :: "vemu_tb_info \<Rightarrow> nat" where
  "tb_cycles tb = (case ii_cycles (instr_info tb) of Fin q \<Rightarrow> nat \<lfloor>q\<rfloor> | _ \<Rightarrow> 0)"

definition spec_cycles :: "nat \<Rightarrow> vemu_tb_info list \<Rightarrow> nat" where
  "spec_cycles c tbs = sum_list (map tb_cycles (filter (\<lambda>tb. unat (ii_class (instr_info tb)) = c) tbs))"

definition whole_tb :: "vemu_tb_info \<Rightarrow> bool" where
  "whole_tb tb \<longleftrightarrow> unat (ii_class (instr_info tb)) < MAX_INSTR_CLASSES
     \<and> ii_cycles (instr_info tb) = Fin (of_nat (tb_cycles tb))"

lemma whole_tb_ok: "whole_tb tb \<Longrightarrow> tb_ok tb"
  by (simp add: whole_tb_def tb_ok_def)

text \<open>The counters hold the numbers \<open>v\<close>.\<close>

definition counts :: "(nat \<Rightarrow> nat) \<Rightarrow> cycles_state \<Rightarrow> bool" where
  "counts v s \<longleftrightarrow> length (cycle_count s) = MAX_INSTR_CLASSES
     \<and> (\<forall>i < MAX_INSTR_CLASSES. cycle_count s ! i = Fin (of_nat (v i)))"

lemma counts_increment:
  assumes "counts v s" "whole_tb tb" "freq_ok pm"
    and "v (unat (ii_class (instr_info tb))) + tb_cycles tb \<le> 2 ^ 53"
  shows "\<exists>s'. vemu_increment_cycles pm tb s = Inr s' \<and> counts (\<lambda>i. v i + spec_cycles i [tb]) s'"
proof -
  from increment_total [OF whole_tb_ok [OF assms(2)] assms(3)]
  obtain s' where s': "vemu_increment_cycles pm tb s = Inr s'" by blast
  then obtain p where e: "s' = (let c = unat (ii_class (instr_info tb)); n = ii_cycles (instr_info tb) in
         s\<lparr>cycle_count := (cycle_count s)[c := cycle_count s ! c + n],
           active_time := (active_time s)[c := active_time s ! c + n * p]\<rparr>)"
    by (rule increment_Inr)
  have "counts (\<lambda>i. v i + spec_cycles i [tb]) s'"
    using assms(1,2) double_sum_exact [OF _ _ assms(4)]
    by (auto simp: counts_def e Let_def nth_list_update whole_tb_def spec_cycles_def)
  with s' show ?thesis by blast
qed

lemma spec_cycles_Cons: "spec_cycles c (tb # tbs) = spec_cycles c [tb] + spec_cycles c tbs"
  by (simp add: spec_cycles_def)

lemma counts_run:
  assumes "counts v s" "freq_ok pm" "\<forall>tb \<in> set tbs. whole_tb tb"
    and "\<forall>i. v i + spec_cycles i tbs \<le> 2 ^ 53"
  shows "\<exists>s'. run_tbs pm tbs s = Inr s' \<and> counts (\<lambda>i. v i + spec_cycles i tbs) s'"
  using assms
proof (induction tbs arbitrary: v s)
  case Nil
  then show ?case by (simp add: run_tbs_def spec_cycles_def)
next
  case (Cons tb tbs)
  let ?c = "unat (ii_class (instr_info tb))"
  have "v ?c + spec_cycles ?c (tb # tbs) \<le> 2 ^ 53" using Cons.prems(4) by blast
  then have "v ?c + tb_cycles tb \<le> 2 ^ 53" by (simp add: spec_cycles_def)
  then obtain u where u: "vemu_increment_cycles pm tb s = Inr u"
    and c: "counts (\<lambda>i. v i + spec_cycles i [tb]) u"
    using counts_increment [OF Cons.prems(1) _ Cons.prems(2)] Cons.prems(3) by auto
  from Cons.IH [OF c Cons.prems(2)] Cons.prems(3,4) obtain s' where
    "run_tbs pm tbs u = Inr s'" "counts (\<lambda>i. v i + spec_cycles i (tb # tbs)) s'"
    by (auto simp: spec_cycles_Cons [of _ tb tbs] add.assoc)
  with u show ?case by (auto simp: run_tbs_def)
qed

lemma counts_get:
  assumes "counts v s" "v (unat c) \<le> 2 ^ 53" "unat c < MAX_INSTR_CLASSES"
  shows "vemu_get_cycles c s = Inr (of_nat (v (unat c)))"
  using assms by (simp add: vemu_get_cycles_def counts_def u64_of_double_of_nat)

lemma counts_get_step:
  assumes "m + k \<le> 2 ^ 53" "d = Fin (of_nat k)"
  shows "u64_of_double (double_of_u64 (of_nat m) + d) = Inr (of_nat (m + k))"
proof -
  have "uint (of_nat m :: u64) = int m" using assms(1) by (intro uint_u64_of_nat) simp
  then have "double_of_u64 (of_nat m) = Fin (of_nat m)"
    using assms(1) by (subst double_of_u64_exact) simp_all
  then have "double_of_u64 (of_nat m) + d = Fin (of_nat (m + k))"
    using assms by (intro double_sum_exact) auto
  then show ?thesis using assms(1) by (simp only: u64_of_double_of_nat)
qed

lemma counts_get_all:
  assumes "counts v s" "v 0 + v 1 + v 2 + v 3 \<le> 2 ^ 53"
  shows "vemu_get_cycles_all_classes s = Inr (of_nat (v 0 + v 1 + v 2 + v 3))"
proof -
  have d: "cycle_count s ! i = Fin (of_nat (v i))" if "i < 4" for i
    using assms(1) that by (simp add: counts_def MAX_INSTR_CLASSES_def)
  have "[0..<MAX_INSTR_CLASSES] = [0, 1, 2, 3]" by (simp add: MAX_INSTR_CLASSES_def upt_conv_Cons)
  then show ?thesis
    using counts_get_step [of 0 "v 0"] counts_get_step [of "v 0" "v 1"]
      counts_get_step [of "v 0 + v 1" "v 2"] counts_get_step [of "v 0 + v 1 + v 2" "v 3"] assms(2)
    by (simp add: vemu_get_cycles_all_classes_def d)
qed

section \<open>Time is conserved\<close>

text \<open>
  While the processor runs, the sleep time plus the active time at the last wake-up is
  the clock time from the start to that wake-up. While it sleeps, the sleep began (on
  the scale of the modelled hardware) at the start plus the active and the sleep time so
  far. All three are 64-bit numbers, so the equations hold modulo two to the 64th.
\<close>

definition time_inv :: "u64 \<Rightarrow> cycles_state \<Rightarrow> bool" where
  "time_inv t0 s \<longleftrightarrow> total_sleep_time s + last_active_time_cycles s = last_active_time_vm s - t0
     \<and> (entered_sleep_mode s \<longrightarrow> (\<exists>a. vemu_get_act_time_all_classes s = Inr a
          \<and> last_sleep_time s = t0 + a + total_sleep_time s))"

lemma act_time_cong: "active_time s = active_time s' \<Longrightarrow>
    vemu_get_act_time_all_classes s = vemu_get_act_time_all_classes s'"
  by (simp add: vemu_get_act_time_all_classes_def)

text \<open>The start of a sleep does not depend on the clock.\<close>

lemma sleep_start_eq:
  assumes "vemu_sleep_start now s = Inr s'"
  obtains a where "vemu_get_act_time_all_classes s = Inr a"
    and "s' = s\<lparr>last_sleep_time := last_active_time_vm s + (a - last_active_time_cycles s),
                entered_sleep_mode := True\<rparr>"
  using assms by (auto simp: vemu_sleep_start_def Let_def cbind_Inr_iff)

lemma time_inv_sleep:
  assumes "vemu_sleep_start now s = Inr s'" "time_inv t0 s"
  shows "time_inv t0 s'"
proof -
  from assms(1) obtain a where a: "vemu_get_act_time_all_classes s = Inr a"
    and s': "s' = s\<lparr>last_sleep_time := last_active_time_vm s + (a - last_active_time_cycles s),
                entered_sleep_mode := True\<rparr>"
    by (rule sleep_start_eq)
  have "vemu_get_act_time_all_classes s' = Inr a" using a act_time_cong [of s' s] by (simp add: s')
  moreover have "last_active_time_vm s = t0 + total_sleep_time s + last_active_time_cycles s"
    using assms(2) by (simp add: time_inv_def algebra_simps)
  ultimately show ?thesis using assms(2) by (auto simp: time_inv_def s')
qed

lemma time_inv_active:
  assumes "vemu_active_start now s = Inr s'" "time_inv t0 s"
  shows "time_inv t0 s'"
  using assms
  by (auto simp: vemu_active_start_def time_inv_def Let_def cbind_Inr_iff dest!: i64_add_Inr split: if_splits)

lemma time_inv_increment:
  assumes "vemu_increment_cycles pm tb s = Inr s'" "time_inv t0 s" "\<not> entered_sleep_mode s"
  shows "time_inv t0 s'"
  using assms by (elim increment_Inr) (simp add: time_inv_def Let_def)

lemma reach_time_inv: "cycles_reach t0 s \<Longrightarrow> time_inv t0 s"
proof (induction rule: cycles_reach.induct)
  case init
  show ?case by (simp add: time_inv_def vemu_init_cycles_def)
qed (auto intro: time_inv_sleep time_inv_active time_inv_increment)

text \<open>Differences of clock values below 146 years are exact.\<close>

lemma sint_u64_of_int:
  assumes "- 0x8000000000000000 \<le> k" "k < 0x8000000000000000"
  shows "sint (word_of_int k :: u64) = k"
  using assms by (simp add: sint_sbintrunc' signed_take_bit_int_eq_self)

lemma uint_u64_sint:
  assumes "0 \<le> sint (w :: u64)"
  shows "uint w = sint w"
proof -
  have "w = word_of_int (sint w)" by (metis scast_eq scast_id)
  then have "uint w = uint (word_of_int (sint w) :: u64)" by (rule arg_cong)
  also have "\<dots> = take_bit 64 (sint w)" unfolding uint_word_of_int_eq by simp
  also have "\<dots> = sint w" using assms sint_lt [of w] by (simp add: take_bit_int_eq_self)
  finally show ?thesis .
qed

definition clock_range :: "u64 \<Rightarrow> bool" where
  "clock_range t \<longleftrightarrow> uint t < 2 ^ 62"

lemma sleep_sum:
  assumes "time_inv t0 s" "entered_sleep_mode s" "vemu_get_act_time_all_classes s = Inr act"
    and "clock_range t0" "clock_range now" "clock_range act"
    and "clock_range (last_active_time_vm s)" "clock_range (last_active_time_cycles s)"
  shows "\<exists>v. i64_add (total_sleep_time s) (now - last_sleep_time s) = Inr v
    \<and> sint v = uint now - uint t0 - uint act"
proof -
  let ?lv = "last_active_time_vm s" and ?lc = "last_active_time_cycles s"
  have r: "0 \<le> uint t0" "0 \<le> uint now" "0 \<le> uint act" "0 \<le> uint ?lv" "0 \<le> uint ?lc"
    "uint t0 < 0x4000000000000000" "uint now < 0x4000000000000000" "uint act < 0x4000000000000000"
    "uint ?lv < 0x4000000000000000" "uint ?lc < 0x4000000000000000"
    using assms(4-8) by (simp_all add: clock_range_def)
  have t: "total_sleep_time s = ?lv - t0 - ?lc"
    using assms(1) by (simp add: time_inv_def algebra_simps)
  then have tw: "total_sleep_time s = word_of_int (uint ?lv - uint t0 - uint ?lc)" by simp
  have i: "now - last_sleep_time s = now - act - ?lv + ?lc"
    using assms(1-3) t by (auto simp: time_inv_def)
  then have iw: "now - last_sleep_time s = word_of_int (uint now - uint act - uint ?lv + uint ?lc)" by simp
  have st: "sint (total_sleep_time s) = uint ?lv - uint t0 - uint ?lc"
    unfolding tw by (rule sint_u64_of_int) (use r in linarith)+
  have si: "sint (now - last_sleep_time s) = uint now - uint act - uint ?lv + uint ?lc"
    unfolding iw by (rule sint_u64_of_int) (use r in linarith)+
  have sum: "total_sleep_time s + (now - last_sleep_time s) = word_of_int (uint now - uint t0 - uint act)"
    using t i by simp
  have "sint (total_sleep_time s + (now - last_sleep_time s)) = uint now - uint t0 - uint act"
    unfolding sum by (rule sint_u64_of_int) (use r in linarith)+
  moreover have "- 0x8000000000000000 \<le> sint (total_sleep_time s) + sint (now - last_sleep_time s)"
    "sint (total_sleep_time s) + sint (now - last_sleep_time s) < 0x8000000000000000"
    unfolding st si using r by linarith+
  ultimately show ?thesis by (simp add: i64_add_def)
qed

section \<open>Lemmas on runs\<close>

lemma run_tbs_monotone:
  assumes "run_tbs pm tbs s = Inr s'" "cycles_wf s" "freq_ok pm" "\<forall>tb \<in> set tbs. tb_ok tb"
  shows "cycles_wf s' \<and> (\<forall>i < MAX_INSTR_CLASSES. cycle_count s ! i \<le> cycle_count s' ! i
    \<and> active_time s ! i \<le> active_time s' ! i)"
  using assms(1) unfolding run_tbs_def
proof (rule cfold_invariant)
  show "cycles_wf s \<and> (\<forall>i < MAX_INSTR_CLASSES. cycle_count s ! i \<le> cycle_count s ! i
    \<and> active_time s ! i \<le> active_time s ! i)"
    using assms(2) by (simp add: cycles_wf_counters counter_ok_refl)
next
  fix tb u v
  assume tb: "tb \<in> set tbs" and u: "cycles_wf u \<and> (\<forall>i < MAX_INSTR_CLASSES.
      cycle_count s ! i \<le> cycle_count u ! i \<and> active_time s ! i \<le> active_time u ! i)"
    and v: "vemu_increment_cycles pm tb u = Inr v"
  have ok: "tb_ok tb" using assms(4) tb by blast
  show "cycles_wf v \<and> (\<forall>i < MAX_INSTR_CLASSES. cycle_count s ! i \<le> cycle_count v ! i
      \<and> active_time s ! i \<le> active_time v ! i)"
    using u cycles_wf_increment [OF v _ ok assms(3)] increment_counters [OF v _ ok assms(3)]
    by (blast intro: dle_trans)
qed

lemma run_tbs_total:
  assumes "freq_ok pm" "\<forall>tb \<in> set tbs. tb_ok tb"
  shows "\<exists>s'. run_tbs pm tbs s = Inr s'"
  using cfold_total [of "\<lambda>_. True" s tbs "vemu_increment_cycles pm"] increment_total [OF _ assms(1)] assms(2)
  by (auto simp: run_tbs_def)

lemma spec_cycles_sum:
  assumes "\<forall>tb \<in> set tbs. whole_tb tb"
  shows "spec_cycles 0 tbs + spec_cycles 1 tbs + spec_cycles 2 tbs + spec_cycles 3 tbs
    = sum_list (map tb_cycles tbs)"
  using assms
proof (induction tbs)
  case Nil
  then show ?case by (simp add: spec_cycles_def)
next
  case (Cons tb tbs)
  have "unat (ii_class (instr_info tb)) < 4"
    using Cons.prems by (simp add: whole_tb_def MAX_INSTR_CLASSES_def)
  then have "unat (ii_class (instr_info tb)) \<in> {0, 1, 2, 3}" by auto
  with Cons show ?case by (auto simp: spec_cycles_def)
qed

lemma counts_init: "counts (\<lambda>_. 0) (vemu_init_cycles now cycles_state_zero)"
  by (simp add: counts_def init_cycles_count cycles_state_zero_def zero_double_def)

lemma zero_counters: "replicate MAX_INSTR_CLASSES (0 :: double) = [0, 0, 0, 0]"
  by (simp add: MAX_INSTR_CLASSES_def numeral_eq_Suc)

lemma replicate_4: "replicate 4 x = [x, x, x, x]"
  by (simp add: numeral_eq_Suc)

lemmas cycles_eval = replicate_4 zero_counters MAX_INSTR_CLASSES_def dbl_eval upt_conv_Cons Let_def
  cycles_state_zero_def vemu_init_cycles_def

lemma demo_exec:
  "vemu_increment_cycles demo_pm demo_tb (vemu_init_cycles 0 cycles_state_zero) = Inr demo_awake"
  by (simp add: vemu_increment_cycles_def demo_pm_def demo_tb_def instr_def period_ns_def get_frequency
      demo_awake_def zero_counters cycles_state_zero_def vemu_init_cycles_def,
      simp add: cycles_eval)

lemma demo_wfi: "vemu_sleep_start 3 demo_awake = Inr demo_asleep"
  by (simp add: vemu_sleep_start_def vemu_get_act_time_all_classes_def demo_asleep_def demo_awake_def
      cycles_eval)

lemma demo_act_time: "vemu_get_act_time_all_classes demo_asleep = Inr 5"
  by (simp add: vemu_get_act_time_all_classes_def demo_asleep_def demo_awake_def cycles_eval)

lemma demo_reach: "cycles_reach 0 demo_awake" "cycles_reach 0 demo_asleep"
proof -
  have "\<not> entered_sleep_mode (vemu_init_cycles 0 cycles_state_zero)" by (simp add: vemu_init_cycles_def)
  then show "cycles_reach 0 demo_awake"
    using cycles_reach.exec [OF cycles_reach.init _ demo_exec] by simp
  then show "cycles_reach 0 demo_asleep" by (rule cycles_reach.wfi) (rule demo_wfi)
qed

lemma demo_freq: "freq_ok demo_pm"
  by (simp add: freq_ok_def demo_pm_def dbl_defs dlt_def)

lemma demo_tb_whole: "whole_tb demo_tb" "tb_cycles demo_tb = 5"
  by (simp_all add: whole_tb_def demo_tb_def tb_cycles_def instr_def MAX_INSTR_CLASSES_def)

lemma demo_wf: "cycles_wf demo_awake"
  by (rule cycles_wf_increment [OF demo_exec cycles_wf_init [OF cycles_wf_zero]
      whole_tb_ok [OF demo_tb_whole(1)] demo_freq])

section \<open>Correctness of the counters\<close>

text \<open>
  C9. Time is conserved. In every state that instructions, \<^verbatim>\<open>wfi\<close> and wake-ups can reach
  from the start at clock time \<open>t0\<close>, with the processor asleep and all times below
  \<open>2 ^ 62\<close> nanoseconds: the sleep time reported at clock time \<open>now\<close> is the elapsed time
  less the active time, or 0 when the active time is the larger one; and a wake-up at
  \<open>now\<close> returns, leaves the processor awake, and books exactly the (possibly negative)
  difference.
\<close>

theorem sleep_time_conservation:
  assumes "cycles_reach t0 s" "entered_sleep_mode s" "vemu_get_act_time_all_classes s = Inr act"
    and "clock_range t0" "clock_range now" "clock_range act"
    and "clock_range (last_active_time_vm s)" "clock_range (last_active_time_cycles s)"
  shows "(\<exists>slp. vemu_get_slp_time now s = Inr slp \<and> uint slp = max 0 (uint now - uint t0 - uint act))
    \<and> (\<exists>s'. vemu_active_start now s = Inr s' \<and> \<not> entered_sleep_mode s'
         \<and> sint (total_sleep_time s') = uint now - uint t0 - uint act)"
proof -
  from sleep_sum [OF reach_time_inv [OF assms(1)] assms(2-)] obtain v where
    v: "i64_add (total_sleep_time s) (now - last_sleep_time s) = Inr v"
    "sint v = uint now - uint t0 - uint act" by blast
  have "uint v = sint v" if "\<not> sint v < 0"
    using that by (intro uint_u64_sint) simp
  then have "uint (if sint v < 0 then 0 else v) = max 0 (uint now - uint t0 - uint act)"
    using v(2) by auto
  then show ?thesis using v assms(2,3)
    by (simp add: vemu_get_slp_time_def vemu_active_start_def Let_def)
qed

theorem sleep_time_conservation_witness:
  "(\<exists>slp. vemu_get_slp_time 12 demo_asleep = Inr slp \<and> uint slp = 7)
    \<and> (\<exists>s'. vemu_active_start 12 demo_asleep = Inr s' \<and> \<not> entered_sleep_mode s'
         \<and> sint (total_sleep_time s') = 7)"
  using sleep_time_conservation [OF demo_reach(2) _ demo_act_time, of 12]
  by (simp add: clock_range_def demo_asleep_def demo_awake_def vemu_init_cycles_def)

text \<open>
  C10. The cycle counters are exact. Running instructions whose cycle counts are whole
  numbers, from the start and at a usable frequency, always succeeds; and as long as the
  total stays within \<open>2 ^ 53\<close>, each class's counter reads exactly the sum of the cycles
  of the executed instructions of the class, and the counter over all classes the sum
  over all of them: no rounding error accumulates in the doubles.
\<close>

theorem cycles_exact:
  assumes "freq_ok pm" "\<forall>tb \<in> set tbs. whole_tb tb" "sum_list (map tb_cycles tbs) \<le> 2 ^ 53"
  shows "\<exists>s. run_tbs pm tbs (vemu_init_cycles t0 cycles_state_zero) = Inr s
    \<and> (\<forall>c. unat c < MAX_INSTR_CLASSES \<longrightarrow> vemu_get_cycles c s = Inr (of_nat (spec_cycles (unat c) tbs)))
    \<and> vemu_get_cycles_all_classes s = Inr (of_nat (sum_list (map tb_cycles tbs)))"
proof -
  have le: "spec_cycles c tbs \<le> sum_list (map tb_cycles tbs)" for c
    unfolding spec_cycles_def by (rule sum_list_filter_le_nat)
  then have b: "\<forall>i. 0 + spec_cycles i tbs \<le> 2 ^ 53" using assms(3) by (auto intro: order_trans)
  from counts_run [OF counts_init assms(1,2) b] obtain s where
    s: "run_tbs pm tbs (vemu_init_cycles t0 cycles_state_zero) = Inr s"
    and c: "counts (\<lambda>i. spec_cycles i tbs) s" by auto
  have "vemu_get_cycles_all_classes s = Inr (of_nat (sum_list (map tb_cycles tbs)))"
    using counts_get_all [OF c] assms(3) unfolding spec_cycles_sum [OF assms(2)] .
  then show ?thesis using s counts_get [OF c] b by simp
qed

theorem cycles_exact_witness:
  "\<exists>s. run_tbs demo_pm [demo_tb, demo_tb] (vemu_init_cycles 0 cycles_state_zero) = Inr s
    \<and> vemu_get_cycles_all_classes s = Inr 10"
  using cycles_exact [OF demo_freq, of "[demo_tb, demo_tb]" 0] by (auto simp: demo_tb_whole)

text \<open>
  No counter ever runs backwards: executing instructions from a well-formed state
  succeeds, keeps the state well-formed, and what the accessors report as cycles and as
  active time of a class afterwards is at least what they reported before.
\<close>

theorem counters_monotone:
  assumes "cycles_wf s" "freq_ok pm" "\<forall>tb \<in> set tbs. tb_ok tb"
  shows "\<exists>s'. run_tbs pm tbs s = Inr s' \<and> cycles_wf s'
    \<and> (\<forall>c v w. vemu_get_cycles c s = Inr v \<and> vemu_get_cycles c s' = Inr w \<longrightarrow> v \<le> w)
    \<and> (\<forall>c v w. vemu_get_act_time c s = Inr v \<and> vemu_get_act_time c s' = Inr w \<longrightarrow> v \<le> w)"
proof -
  obtain s' where s': "run_tbs pm tbs s = Inr s'" using run_tbs_total [OF assms(2,3)] by blast
  from run_tbs_monotone [OF s' assms] show ?thesis
    unfolding vemu_get_cycles_def vemu_get_act_time_def
    by (intro exI [of _ s']) (auto simp: s' cbind_Inr_iff intro: u64_of_double_mono)
qed

theorem counters_monotone_witness:
  "\<exists>s'. run_tbs demo_pm [demo_tb] demo_awake = Inr s' \<and> cycles_wf s'"
  using counters_monotone [OF demo_wf demo_freq, of "[demo_tb]"] demo_tb_whole whole_tb_ok by auto

end
