(* ===== verification/Vemu_Errors.thy ===== *)
theory Vemu_Errors
  imports Arm_Cpu Vemu_Instr
begin

text \<open>
  Fault injection, \<^verbatim>\<open>vemu_errors.c\<close>: the replacements of multiplications, and the guard
  that limits them to user code with faults enabled. \<open>vemu_errors_enabled\<close> is the global
  switch, an argument here.
\<close>

section \<open>Operations\<close>

definition VEMU_OPCODE_MUL :: u32 where "VEMU_OPCODE_MUL = 0x009"
definition VEMU_OPCODE_MLA :: u32 where "VEMU_OPCODE_MLA = 0x029"
definition VEMU_OPCODE_UMULL :: u32 where "VEMU_OPCODE_UMULL = 0x089"

definition vemu_mul :: "u32 \<Rightarrow> cpu \<Rightarrow> cpu" where
  "vemu_mul w env =
     (let rd = unat (drop_bit 16 w AND 0xf);
          rs = unat (drop_bit 8 w AND 0xf);
          rm = unat (w AND 0xf)
      in env\<lparr>regs := (regs env)[rd := regs env ! rm + regs env ! rs]\<rparr>)"

definition vemu_mla :: "u32 \<Rightarrow> cpu \<Rightarrow> cpu" where
  "vemu_mla w env =
     (let rd = unat (drop_bit 16 w AND 0xf);
          rs = unat (drop_bit 8 w AND 0xf);
          rm = unat (w AND 0xf);
          rn = unat (drop_bit 12 w AND 0xf)
      in env\<lparr>regs := (regs env)[rd := regs env ! rm * regs env ! rs + regs env ! rn]\<rparr>)"

definition vemu_umull :: "u32 \<Rightarrow> cpu \<Rightarrow> cpu" where
  "vemu_umull w env = env"

definition vemu_error_pre :: "cpu \<Rightarrow> vemu_tb_info \<Rightarrow> u32" where
  "vemu_error_pre env tb = 0"

definition vemu_error_post :: "cpu \<Rightarrow> vemu_tb_info \<Rightarrow> u32" where
  "vemu_error_post env tb = 0"

text \<open>The variable \<^verbatim>\<open>privmode\<close> of the guard.\<close>

definition error_privmode :: "cpu \<Rightarrow> bool" where
  "error_privmode env =
     (if arm_feature env ARM_FEATURE_M
      then \<not> (v7m_exception env \<noteq> 0 \<and> v7m_control env AND 1 \<noteq> 0)
      else uncached_cpsr env AND CPSR_M \<noteq> ARM_CPU_MODE_USR)"

text \<open>The switch falls through from \<open>MLA\<close> to the empty \<open>UMULL\<close>.\<close>

definition vemu_error_replace :: "u64 \<Rightarrow> cpu \<Rightarrow> vemu_tb_info \<Rightarrow> u32 \<times> cpu" where
  "vemu_error_replace errors_on env tb =
     (let errors_enabled = (\<not> error_privmode env \<and> 0 < errors_on) in
      if \<not> errors_enabled then (0, env)
      else let w = instr_word tb; opc = ii_opcode (instr_info tb);
               env = (if opc = VEMU_OPCODE_MUL then vemu_mul w env
                      else if opc = VEMU_OPCODE_MLA then vemu_umull w (vemu_mla w env)
                      else if opc = VEMU_OPCODE_UMULL then vemu_umull w env
                      else env)
           in (1, env))"

section \<open>Properties\<close>

text \<open>The fields of the instruction word are digits of its value in base 16.\<close>

lemma instr_field: "unat (w AND 0xf) = unat w mod 16" for w :: u32
  by (simp add: and_numeral_take_bit unat_take_bit_mod)

lemmas error_ops = vemu_error_replace_def vemu_mul_def vemu_mla_def vemu_umull_def Let_def
  VEMU_OPCODE_MUL_def VEMU_OPCODE_MLA_def VEMU_OPCODE_UMULL_def

text \<open>What one faulty instruction stores in its destination register.\<close>

lemma error_replace_eq:
  "vemu_error_replace e env tb =
     (let w = unat (instr_word tb); opc = ii_opcode (instr_info tb);
          r = (\<lambda>k. regs env ! (w div 2 ^ k mod 16))
      in if error_privmode env \<or> e = 0 then (0, env)
         else (1, if opc = 0x009 then env\<lparr>regs := (regs env)[w div 2 ^ 16 mod 16 := r 0 + r 8]\<rparr>
                  else if opc = 0x029 then env\<lparr>regs := (regs env)[w div 2 ^ 16 mod 16 := r 0 * r 8 + r 12]\<rparr>
                  else env))"
  by (simp add: error_ops word_gt_0 instr_field unat_drop_bit_div)

text \<open>
  The guard of the fault injection and the privilege the translator uses agree, except
  on a microcontroller whose thread code is unprivileged: there they are opposite, since
  the guard tests \<^verbatim>\<open>exception\<close> where the translator tests \<^verbatim>\<open>exception == 0\<close>. Thread
  code is spared and exception handlers, which are privileged, get the faults.
\<close>

theorem fault_guard_privilege:
  "error_privmode env \<longleftrightarrow>
     (if arm_feature env ARM_FEATURE_M \<and> v7m_control env AND 1 \<noteq> 0
      then \<not> cpu_get_tb_privmode env else cpu_get_tb_privmode env)"
  by (auto simp: error_privmode_def cpu_get_tb_privmode_def)

text \<open>
  C37. Where faults go and what they do. The hook is active when the switch is on and, on a
  processor with modes, the code runs in user mode, on a microcontroller, it is an exception
  handler while thread code is unprivileged. Without the microcontroller profile it is thus
  never active in privileged code, with it only in privileged code. An inactive hook changes
  nothing and lets the instruction run. An active one always suppresses the instruction: a
  multiplication stores the sum of its operands, a multiply-accumulate the right result,
  both modulo 2^32 and in the destination register alone, any other instruction nothing.
\<close>

theorem fault_confined:
  assumes "cpu_wf env" "vemu_error_replace e env tb = (r, env')"
  shows "let w = unat (instr_word tb); opc = ii_opcode (instr_info tb); d = w div 2 ^ 16 mod 16;
             x = (\<lambda>k. uint (regs env ! (w div 2 ^ k mod 16)));
             active = (e \<noteq> 0 \<and> (if arm_feature env ARM_FEATURE_M
               then v7m_exception env \<noteq> 0 \<and> odd (v7m_control env) else cpu_mode env = ARM_CPU_MODE_USR))
         in (active \<longrightarrow> cpu_get_tb_privmode env = arm_feature env ARM_FEATURE_M)
          \<and> (\<not> active \<longrightarrow> r = 0 \<and> env' = env)
          \<and> (active \<longrightarrow> r = 1 \<and> env'\<lparr>regs := regs env\<rparr> = env
              \<and> (\<forall>i. i \<noteq> d \<longrightarrow> regs env' ! i = regs env ! i)
              \<and> uint (regs env' ! d) = (if opc = 0x009 then (x 0 + x 8) mod 2 ^ 32
                  else if opc = 0x029 then (x 0 * x 8 + x 12) mod 2 ^ 32 else uint (regs env ! d)))"
proof -
  have d: "unat (instr_word tb) div 65536 mod 16 < length (regs env)"
    using assms(1) by (simp add: cpu_wf_def)
  have o: "w AND 1 = 0 \<longleftrightarrow> even w" for w :: u32
    by (simp add: and_one_eq even_iff_mod_2_eq_zero)
  show ?thesis
    using assms(2) d fault_guard_privilege [of env]
    by (auto simp: error_replace_eq error_privmode_def cpu_mode_def o Let_def uint_word_ariths mod_simps
        split: if_splits)
qed

theorem fault_confined_witness:
  "\<exists>env'. vemu_error_replace 1 (demo_cpu\<lparr>uncached_cpsr := 0x10\<rparr>) \<lparr>instr_word = 0xE0000291, instr_info = instr 0x009 ''MUL'' 0 (Fin 2) 0\<rparr> = (1, env')
     \<and> regs env' ! 0 = 3"
proof -
  let ?e = "demo_cpu\<lparr>uncached_cpsr := 0x10\<rparr>"
  let ?tb = "\<lparr>instr_word = 0xE0000291, instr_info = instr 0x009 ''MUL'' 0 (Fin 2) 0\<rparr>"
  obtain r env' where r: "vemu_error_replace 1 ?e ?tb = (r, env')" by fastforce
  have "\<not> arm_feature ?e ARM_FEATURE_M" "cpu_mode ?e = ARM_CPU_MODE_USR" "cpu_wf ?e"
    by (simp_all add: arm_feature_def cpu_mode_def demo_cpu_def cpu_wf_def CPSR_M_def ARM_CPU_MODE_USR_def)
  with fault_confined [OF _ r] have "r = 1" "uint (regs env' ! 0) = 3"
    by (simp_all add: instr_def demo_cpu_def Let_def)
  then show ?thesis using r by (auto simp: word_uint_eq_iff)
qed

end
