(* ===== verification/Arm_Translate.thy ===== *)
theory Arm_Translate
  imports Arm_Interrupt Vemu_Arm Vemu_Cycles Vemu_Errors
begin

text \<open>
  The translator's part in VarEMU: \<open>cpu_get_tb_cpu_state\<close> of \<^verbatim>\<open>cpu.h\<close>, which packs the
  processor state into the flags of a translation block, and from \<^verbatim>\<open>translate.c\<close>
  \<open>gen_vemu_info\<close>, \<open>gen_vemu_error_replace\<close> and \<open>gen_intermediate_code_internal\<close>, which
  translates a block. A translated block is a list of operations, of which the model
  distinguishes those of VarEMU and those of the block structure. The translation of single
  instructions (\<^verbatim>\<open>disas_arm_insn\<close>, \<^verbatim>\<open>disas_thumb_insn\<close>), the operation buffer and the
  breakpoints are parameters, fields of the record \<open>translator\<close>. The search for a program
  counter (\<^verbatim>\<open>search_pc\<close>) and log output are left out.
\<close>

section \<open>Block flags\<close>

definition ARM_TBFLAG_THUMB :: "u32 \<Rightarrow> u32" where "ARM_TBFLAG_THUMB F = drop_bit 0 (F AND push_bit 0 1)"
definition ARM_TBFLAG_VECLEN :: "u32 \<Rightarrow> u32" where "ARM_TBFLAG_VECLEN F = drop_bit 1 (F AND push_bit 1 0x7)"
definition ARM_TBFLAG_VECSTRIDE :: "u32 \<Rightarrow> u32" where "ARM_TBFLAG_VECSTRIDE F = drop_bit 4 (F AND push_bit 4 0x3)"
definition ARM_TBFLAG_PRIV :: "u32 \<Rightarrow> u32" where "ARM_TBFLAG_PRIV F = drop_bit 6 (F AND push_bit 6 1)"
definition ARM_TBFLAG_VFPEN :: "u32 \<Rightarrow> u32" where "ARM_TBFLAG_VFPEN F = drop_bit 7 (F AND push_bit 7 1)"
definition ARM_TBFLAG_CONDEXEC :: "u32 \<Rightarrow> u32" where "ARM_TBFLAG_CONDEXEC F = drop_bit 8 (F AND push_bit 8 0xff)"
definition ARM_TBFLAG_BSWAP_CODE :: "u32 \<Rightarrow> u32" where "ARM_TBFLAG_BSWAP_CODE F = drop_bit 16 (F AND push_bit 16 1)"

lemmas tbflag_defs = ARM_TBFLAG_THUMB_def ARM_TBFLAG_VECLEN_def ARM_TBFLAG_VECSTRIDE_def ARM_TBFLAG_PRIV_def
  ARM_TBFLAG_VFPEN_def ARM_TBFLAG_CONDEXEC_def ARM_TBFLAG_BSWAP_CODE_def

definition cpu_get_tb_cpu_state :: "cpu \<Rightarrow> u32 \<times> u32 \<times> u32" where
  "cpu_get_tb_cpu_state env =
     (let flags = push_bit 0 (thumb env) OR push_bit 1 (vfp_vec_len env) OR push_bit 4 (vfp_vec_stride env)
            OR push_bit 8 (condexec_bits env) OR push_bit 16 (b2w (bswap_code env));
          flags = (if cpu_get_tb_privmode env then flags OR push_bit 6 1 else flags);
          flags = (if vfp_xregs env ! ARM_VFP_FPEXC AND push_bit 30 1 \<noteq> 0 then flags OR push_bit 7 1 else flags)
      in (regs env ! 15, 0, flags))"

section \<open>Translation of a block\<close>

definition DISAS_NEXT :: int where "DISAS_NEXT = 0"
definition DISAS_JUMP :: int where "DISAS_JUMP = 1"
definition DISAS_UPDATE :: int where "DISAS_UPDATE = 2"
definition DISAS_TB_JUMP :: int where "DISAS_TB_JUMP = 3"
definition DISAS_WFI :: int where "DISAS_WFI = 4"
definition DISAS_SWI :: int where "DISAS_SWI = 5"
definition DISAS_SMC :: int where "DISAS_SMC = 6"
definition CF_COUNT_MASK :: u32 where "CF_COUNT_MASK = 0x7fff"
definition CF_LAST_IO :: u32 where "CF_LAST_IO = 0x8000"

lemmas disas_defs = DISAS_NEXT_def DISAS_JUMP_def DISAS_UPDATE_def DISAS_TB_JUMP_def DISAS_WFI_def
  DISAS_SWI_def DISAS_SMC_def

datatype tcg_op =
    Call_vemu_info            \<comment> \<open>\<^verbatim>\<open>gen_helper_vemu_info\<close> with the block as argument\<close>
  | Call_vemu_error_replace   \<comment> \<open>the helper and the branch over the instruction\<close>
  | Call_wfi
  | Insn u32                  \<comment> \<open>an operation of an instruction\<close>
  | Set_condexec u32
  | Set_pc u32
  | Set_label
  | Exception int
  | Goto_tb u32
  | Exit_tb
  | Io_start
  | Io_end

record disas_context =
  dc_pc :: u32
  dc_is_jmp :: int
  dc_condjmp :: bool
  dc_condexec_mask :: u32
  dc_condexec_cond :: u32
  dc_thumb :: bool
  dc_bswap_code :: bool
  dc_user :: bool
  dc_vfp_enabled :: bool
  dc_vec_len :: u32
  dc_vec_stride :: u32
  dc_vemu :: vemu_tb_info     \<comment> \<open>\<^verbatim>\<open>dc->tb->vemu\<close>\<close>
  dc_ops :: "tcg_op list"     \<comment> \<open>generated so far\<close>

record translator =
  tr_code :: arm_ext
  tr_disas :: "disas_context \<Rightarrow> disas_context"   \<comment> \<open>one instruction\<close>
  tr_room :: "tcg_op list \<Rightarrow> bool"               \<comment> \<open>\<^verbatim>\<open>gen_opc_ptr < gen_opc_end\<close>\<close>
  tr_next_page :: "u32 \<Rightarrow> u32"                   \<comment> \<open>start of the page after an address\<close>
  tr_breakpoints :: "u32 list"
  tr_excp_debug :: int                           \<comment> \<open>\<^verbatim>\<open>EXCP_DEBUG\<close>\<close>
  tr_is_m :: bool                                \<comment> \<open>\<^verbatim>\<open>IS_M(env)\<close>\<close>
  tr_singlestep_enabled :: bool                  \<comment> \<open>\<^verbatim>\<open>env->singlestep_enabled\<close>\<close>
  tr_singlestep :: bool                          \<comment> \<open>the global of \<^verbatim>\<open>vl.c\<close>\<close>

definition emit :: "tcg_op list \<Rightarrow> disas_context \<Rightarrow> disas_context" where
  "emit xs dc = dc\<lparr>dc_ops := dc_ops dc @ xs\<rparr>"

text \<open>The instruction word and the kind of code that VarEMU decodes.\<close>

definition vemu_fetch :: "arm_ext \<Rightarrow> u32 \<Rightarrow> bool \<Rightarrow> bool \<Rightarrow> u32 \<times> int" where
  "vemu_fetch x pc is_thumb bswap =
     (if is_thumb then
        let insn = ucast (arm_lduw_code x pc bswap) :: u32 in
        if drop_bit 12 insn = 0xF \<or> drop_bit 12 insn = 0xE then
          (if \<not> (insn AND push_bit 12 1 = 0 \<or> insn AND push_bit 11 1 \<noteq> 0) then
             let insn_hw2 = ucast (arm_lduw_code x (pc + 2) bswap) in (push_bit 16 insn OR insn_hw2, 2)
           else (insn, 0))
        else (insn, 1)
      else (arm_ldl_code x pc bswap, 0))"

definition gen_vemu_info :: "arm_ext \<Rightarrow> instr_tables \<Rightarrow> disas_context \<Rightarrow> disas_context result" where
  "gen_vemu_info x ts dc =
     (let (insn, thumb_type) = vemu_fetch x (dc_pc dc) (dc_thumb dc) (dc_bswap_code dc) in
      cbind (vemu_target_decode_instr ts insn thumb_type) (\<lambda>tb.
        Inr (emit [Call_vemu_info] (dc\<lparr>dc_vemu := tb\<rparr>))))"

definition gen_vemu_error_replace :: "disas_context \<Rightarrow> disas_context" where
  "gen_vemu_error_replace dc = (emit [Call_vemu_error_replace] dc)\<lparr>dc_condjmp := True\<rparr>"

text \<open>The flag is a \<^verbatim>\<open>bool\<close>; as an integer it is 0 or 1.\<close>

definition errors_replace :: "vemu_tb_info \<Rightarrow> bool" where
  "errors_replace tb \<longleftrightarrow> b2w (ii_errors (instr_info tb)) AND VEMU_ERRORS_REPLACE \<noteq> 0"

definition gen_set_condexec :: "disas_context \<Rightarrow> disas_context" where
  "gen_set_condexec dc =
     (if dc_condexec_mask dc \<noteq> 0
      then emit [Set_condexec (push_bit 4 (dc_condexec_cond dc) OR drop_bit 1 (dc_condexec_mask dc))] dc
      else dc)"

definition gen_exception_insn :: "disas_context \<Rightarrow> u32 \<Rightarrow> int \<Rightarrow> disas_context" where
  "gen_exception_insn dc offset excp =
     (emit [Set_pc (dc_pc dc - offset), Exception excp] (gen_set_condexec dc))\<lparr>dc_is_jmp := DISAS_JUMP\<rparr>"

text \<open>The IT state after an instruction of a conditional block.\<close>

definition condexec_advance :: "disas_context \<Rightarrow> disas_context" where
  "condexec_advance dc =
     (if dc_condexec_mask dc \<noteq> 0 then
        let dc = dc\<lparr>dc_condexec_cond := (dc_condexec_cond dc AND 0xe) OR (drop_bit 4 (dc_condexec_mask dc) AND 1)\<rparr>;
            dc = dc\<lparr>dc_condexec_mask := push_bit 1 (dc_condexec_mask dc) AND 0x1f\<rparr>
        in if dc_condexec_mask dc = 0 then dc\<lparr>dc_condexec_cond := 0\<rparr> else dc
      else dc)"

text \<open>One round of the loop after the checks at its head.\<close>

definition translate_insn :: "translator \<Rightarrow> instr_tables \<Rightarrow> disas_context \<Rightarrow> disas_context result" where
  "translate_insn tr ts dc =
     cbind (gen_vemu_info (tr_code tr) ts dc) (\<lambda>dc.
       let dc = (if errors_replace (dc_vemu dc) then gen_vemu_error_replace dc else dc);
           dc = (if dc_thumb dc then condexec_advance (tr_disas tr dc) else tr_disas tr dc);
           dc = (if dc_condjmp dc \<and> dc_is_jmp dc = 0 then (emit [Set_label] dc)\<lparr>dc_condjmp := False\<rparr> else dc)
       in Inr dc)"

text \<open>How the loop is left: by its condition, at an exception return, or at a breakpoint.\<close>

datatype loop_exit = Loop_end | Loop_break | Loop_breakpoint

function translate_loop ::
    "translator \<Rightarrow> instr_tables \<Rightarrow> u32 \<Rightarrow> nat \<Rightarrow> bool \<Rightarrow> nat \<Rightarrow> disas_context \<Rightarrow>
       (loop_exit \<times> nat \<times> disas_context) result" where
  "translate_loop tr ts next_page_start max_insns last_io num_insns dc =
     (if dc_pc dc \<ge> 0xfffffff0 \<and> tr_is_m tr then
        Inr (Loop_break, num_insns, (emit [Exception EXCP_EXCEPTION_EXIT] dc)\<lparr>dc_is_jmp := DISAS_UPDATE\<rparr>)
      else if dc_pc dc \<in> set (tr_breakpoints tr) then
        Inr (Loop_breakpoint, num_insns,
             (gen_exception_insn dc 0 (tr_excp_debug tr))\<lparr>dc_pc := dc_pc dc + 2\<rparr>)
      else
        let dc = (if num_insns + 1 = max_insns \<and> last_io then emit [Io_start] dc else dc) in
        cbind (translate_insn tr ts dc) (\<lambda>dc.
          if dc_is_jmp dc = 0 \<and> tr_room tr (dc_ops dc) \<and> \<not> tr_singlestep_enabled tr \<and> \<not> tr_singlestep tr
             \<and> dc_pc dc < next_page_start \<and> num_insns + 1 < max_insns
          then translate_loop tr ts next_page_start max_insns last_io (num_insns + 1) dc
          else Inr (Loop_end, num_insns + 1, dc)))"
  by pat_completeness auto
termination by (relation "measure (\<lambda>(tr, ts, np, mx, io, n, dc). mx - n)") auto

declare translate_loop.simps [simp del]

text \<open>The end of a block, under the debugger's single stepping and without it.\<close>

definition tail_singlestep :: "translator \<Rightarrow> disas_context \<Rightarrow> disas_context" where
  "tail_singlestep tr dc =
     (let trap = (if dc_is_jmp dc = DISAS_SWI then EXCP_SWI else if dc_is_jmp dc = DISAS_SMC then EXCP_SMC
                  else tr_excp_debug tr);
          dc = (if dc_condjmp dc then emit [Set_label] (emit [Exception trap] (gen_set_condexec dc)) else dc);
          dc = (if dc_condjmp dc \<or> dc_is_jmp dc = 0 then (emit [Set_pc (dc_pc dc)] dc)\<lparr>dc_condjmp := False\<rparr> else dc);
          dc = gen_set_condexec dc
      in if dc_is_jmp dc = DISAS_SWI \<and> \<not> dc_condjmp dc then emit [Exception EXCP_SWI] dc
         else if dc_is_jmp dc = DISAS_SMC \<and> \<not> dc_condjmp dc then emit [Exception EXCP_SMC] dc
         else emit [Exception (tr_excp_debug tr)] dc)"

definition tail_normal :: "disas_context \<Rightarrow> disas_context" where
  "tail_normal dc =
     (let dc = gen_set_condexec dc;
          dc = (if dc_is_jmp dc = DISAS_NEXT then emit [Goto_tb (dc_pc dc)] dc
                else if dc_is_jmp dc = DISAS_TB_JUMP then dc
                else if dc_is_jmp dc = DISAS_WFI then emit [Call_wfi] dc
                else if dc_is_jmp dc = DISAS_SWI then emit [Exception EXCP_SWI] dc
                else if dc_is_jmp dc = DISAS_SMC then emit [Exception EXCP_SMC] dc
                else emit [Exit_tb] dc)
      in if dc_condjmp dc
         then (emit [Goto_tb (dc_pc dc)] (gen_set_condexec (emit [Set_label] dc)))\<lparr>dc_condjmp := False\<rparr>
         else dc)"

definition translate_tail :: "translator \<Rightarrow> bool \<Rightarrow> disas_context \<Rightarrow> disas_context result" where
  "translate_tail tr last_io dc =
     cbind (if last_io then (if dc_condjmp dc then Inl Cpu_Abort else Inr (emit [Io_end] dc)) else Inr dc) (\<lambda>dc.
       Inr (if tr_singlestep_enabled tr then tail_singlestep tr dc else tail_normal dc))"

record translation_block =
  tb_pc :: u32
  tb_flags :: u32
  tb_cflags :: u32
  tb_vemu :: vemu_tb_info
  tb_code :: "tcg_op list"
  tb_size :: u32
  tb_icount :: nat

definition disas_init :: "translation_block \<Rightarrow> disas_context" where
  "disas_init tb =
     (let dc = \<lparr>dc_pc = tb_pc tb, dc_is_jmp = DISAS_NEXT, dc_condjmp = False,
        dc_condexec_mask = push_bit 1 (ARM_TBFLAG_CONDEXEC (tb_flags tb) AND 0xf),
        dc_condexec_cond = drop_bit 4 (ARM_TBFLAG_CONDEXEC (tb_flags tb)),
        dc_thumb = (ARM_TBFLAG_THUMB (tb_flags tb) \<noteq> 0),
        dc_bswap_code = (ARM_TBFLAG_BSWAP_CODE (tb_flags tb) \<noteq> 0),
        dc_user = (ARM_TBFLAG_PRIV (tb_flags tb) = 0),
        dc_vfp_enabled = (ARM_TBFLAG_VFPEN (tb_flags tb) \<noteq> 0),
        dc_vec_len = ARM_TBFLAG_VECLEN (tb_flags tb), dc_vec_stride = ARM_TBFLAG_VECSTRIDE (tb_flags tb),
        dc_vemu = tb_vemu tb, dc_ops = []\<rparr>
      in if dc_condexec_mask dc \<noteq> 0 \<or> dc_condexec_cond dc \<noteq> 0 then emit [Set_condexec 0] dc else dc)"

definition gen_intermediate_code ::
    "translator \<Rightarrow> instr_tables \<Rightarrow> translation_block \<Rightarrow> translation_block result" where
  "gen_intermediate_code tr ts tb =
     (let max_insns = unat (tb_cflags tb AND CF_COUNT_MASK);
          max_insns = (if max_insns = 0 then unat CF_COUNT_MASK else max_insns);
          last_io = (tb_cflags tb AND CF_LAST_IO \<noteq> 0)
      in cbind (translate_loop tr ts (tr_next_page tr (tb_pc tb)) max_insns last_io 0 (disas_init tb))
           (\<lambda>(ex, num_insns, dc).
         cbind (if ex = Loop_breakpoint then Inr dc else translate_tail tr last_io dc) (\<lambda>dc.
           Inr (tb\<lparr>tb_vemu := dc_vemu dc, tb_code := dc_ops dc, tb_size := dc_pc dc - tb_pc tb,
                   tb_icount := num_insns\<rparr>))))"

section \<open>What a translated block charges\<close>

text \<open>
  The translation of an instruction appends its own operations and leaves VarEMU's record
  of the block alone.
\<close>

definition own_op :: "tcg_op \<Rightarrow> bool" where
  "own_op op \<longleftrightarrow> op \<noteq> Call_vemu_info \<and> op \<noteq> Call_vemu_error_replace"

definition disas_ok :: "translator \<Rightarrow> bool" where
  "disas_ok tr \<longleftrightarrow> (\<forall>dc. dc_vemu (tr_disas tr dc) = dc_vemu dc
     \<and> (\<exists>xs. dc_ops (tr_disas tr dc) = dc_ops dc @ xs \<and> list_all own_op xs))"

text \<open>Two contexts between which \<open>n\<close> charges and no fault hook were generated.\<close>

definition charges :: "nat \<Rightarrow> disas_context \<Rightarrow> disas_context \<Rightarrow> bool" where
  "charges n dc dc' \<longleftrightarrow> count_list (dc_ops dc') Call_vemu_info = count_list (dc_ops dc) Call_vemu_info + n
     \<and> (Call_vemu_error_replace \<in> set (dc_ops dc') \<longrightarrow> Call_vemu_error_replace \<in> set (dc_ops dc))"

text \<open>The record VarEMU decodes for the instruction at an address.\<close>

definition insn_info :: "translator \<Rightarrow> instr_tables \<Rightarrow> u32 \<Rightarrow> bool \<Rightarrow> bool \<Rightarrow> vemu_tb_info result" where
  "insn_info tr ts pc is_thumb bswap =
     (let (insn, thumb_type) = vemu_fetch (tr_code tr) pc is_thumb bswap in vemu_target_decode_instr ts insn thumb_type)"

lemma own_count: "list_all own_op xs \<Longrightarrow> count_list xs Call_vemu_info = 0 \<and> Call_vemu_error_replace \<notin> set xs"
  by (auto simp: list_all_iff own_op_def count_list_0_iff)

lemma charges_emit: "list_all own_op xs \<Longrightarrow> charges 0 dc (emit xs dc)"
  using own_count [of xs] by (simp add: charges_def emit_def)

lemma charges_refl: "charges 0 dc dc"
  by (simp add: charges_def)

lemma charges_trans: "charges m a b \<Longrightarrow> charges n b c \<Longrightarrow> charges (m + n) a c"
  by (auto simp: charges_def)

lemma charges_ops: "dc_ops a = dc_ops a' \<Longrightarrow> dc_ops b = dc_ops b' \<Longrightarrow> charges n a b = charges n a' b'"
  by (simp add: charges_def)

lemma gen_set_condexec_charges:
  "charges 0 dc (gen_set_condexec dc)" "dc_vemu (gen_set_condexec dc) = dc_vemu dc"
  by (simp_all add: gen_set_condexec_def charges_refl charges_emit own_op_def) (simp add: emit_def)

lemma advance_fields: "dc_ops (condexec_advance dc) = dc_ops dc" "dc_vemu (condexec_advance dc) = dc_vemu dc"
  by (simp_all add: condexec_advance_def Let_def)

lemma no_fault_row:
  assumes "tables_wf ts" "vemu_target_decode_instr ts w k = Inr tb"
  shows "\<not> errors_replace tb"
proof -
  note r = tables_wf_tables [OF assms(1), THEN instr_table.row_at]
  note b = opcode_bounds(1,2) [of w]
  consider "k = 0" | "k = 1" | "k = 2"
    using assms(2) by (auto simp: vemu_target_decode_instr_def split: if_splits)
  then have "\<not> ii_errors (instr_info tb)"
  proof cases
    case 1
    then have "tb = \<lparr>instr_word = w, instr_info = arm_instr ts ! unat (arm_opcode w)\<rparr>"
      using assms(2) decode_cases(2) [OF assms(1), of w] by simp
    then show ?thesis using r(2) [OF b(2)] by (simp add: row_wf_def)
  next
    case 2
    then have "tb = \<lparr>instr_word = w, instr_info = thumb_instr ts ! unat (thumb_opcode w)\<rparr>"
      using assms(2) decode_cases(1) [OF assms(1), of w] by simp
    then show ?thesis using r(1) [OF b(1)] by (simp add: row_wf_def)
  next
    case 3
    then have "tb = \<lparr>instr_word = w, instr_info = thumb2_instr ts ! 0\<rparr>"
      using assms(2) decode_cases(3) [OF assms(1), of w] by simp
    then show ?thesis using assms(1) by (simp add: tables_wf_def row_wf_def)
  qed
  then show ?thesis by (simp add: errors_replace_def b2w_def)
qed

lemma translate_insn_charges:
  assumes "disas_ok tr" "tables_wf ts" "translate_insn tr ts dc = Inr dc'"
  shows "charges 1 dc dc' \<and> insn_info tr ts (dc_pc dc) (dc_thumb dc) (dc_bswap_code dc) = Inr (dc_vemu dc')"
proof -
  obtain w k tb where f: "vemu_fetch (tr_code tr) (dc_pc dc) (dc_thumb dc) (dc_bswap_code dc) = (w, k)"
    "vemu_target_decode_instr ts w k = Inr tb"
    using assms(3) by (auto simp: translate_insn_def gen_vemu_info_def cbind_Inr_iff split: prod.splits)
  define d where "d = emit [Call_vemu_info] (dc\<lparr>dc_vemu := tb\<rparr>)"
  define e where "e = (if dc_thumb dc then condexec_advance (tr_disas tr d) else tr_disas tr d)"
  have d: "dc_vemu d = tb" "dc_thumb d = dc_thumb dc" "charges 1 dc d" by (simp_all add: d_def emit_def charges_def)
  obtain xs where xs: "dc_ops (tr_disas tr d) = dc_ops d @ xs" "list_all own_op xs" "dc_vemu (tr_disas tr d) = tb"
    using assms(1) d(1) unfolding disas_ok_def by metis
  have "charges 0 d e" "dc_vemu e = tb"
    using xs own_count [OF xs(2)] by (simp_all add: e_def advance_fields charges_def)
  moreover have "dc' = (if dc_condjmp e \<and> dc_is_jmp e = 0 then (emit [Set_label] e)\<lparr>dc_condjmp := False\<rparr> else e)"
  proof -
    have g: "gen_vemu_info (tr_code tr) ts dc = Inr d" by (simp add: gen_vemu_info_def f d_def)
    have n: "errors_replace (dc_vemu d) = False" using no_fault_row [OF assms(2) f(2)] d(1) by simp
    show ?thesis using assms(3) unfolding translate_insn_def g cbind.simps n Let_def if_False d(2) e_def [symmetric] by simp
  qed
  ultimately have "charges 0 d dc'" "dc_vemu dc' = tb" by (auto simp: charges_def emit_def)
  then show ?thesis using charges_trans [OF d(3)] f by (simp add: insn_info_def)
qed

text \<open>
  A run of instructions: each is translated in the context the one before it left, or after
  the operation that marks the last one of a block with I/O. The list holds the contexts in
  which the instructions are translated, hence their addresses and instruction sets.
\<close>

inductive insn_run :: "translator \<Rightarrow> instr_tables \<Rightarrow> disas_context \<Rightarrow> disas_context list \<Rightarrow> disas_context \<Rightarrow> bool"
  for tr :: translator and ts :: instr_tables where
  none: "insn_run tr ts dc [] dc"
| insn: "c = dc \<or> c = emit [Io_start] dc \<Longrightarrow> translate_insn tr ts c = Inr d \<Longrightarrow> insn_run tr ts d cs dc'
    \<Longrightarrow> insn_run tr ts dc (c # cs) dc'"

inductive_simps insn_run_Nil: "insn_run tr ts dc [] dc'"

lemma insn_run_last:
  assumes "disas_ok tr" "tables_wf ts" "insn_run tr ts dc cs dc'" "cs \<noteq> []"
  shows "insn_info tr ts (dc_pc (last cs)) (dc_thumb (last cs)) (dc_bswap_code (last cs)) = Inr (dc_vemu dc')"
  using assms(3,4)
proof induction
  case (insn c dc d cs dc')
  then show ?case using translate_insn_charges [OF assms(1,2) insn(2)] by (cases "cs = []") (auto simp: insn_run_Nil)
qed simp

lemma insn_run_hd:
  "insn_run tr ts dc cs dc' \<Longrightarrow> cs \<noteq> [] \<Longrightarrow> dc_pc (hd cs) = dc_pc dc \<and> dc_thumb (hd cs) = dc_thumb dc
     \<and> dc_bswap_code (hd cs) = dc_bswap_code dc"
  by (erule insn_run.cases) (auto simp: emit_def)

lemma translate_loop_charges:
  assumes "disas_ok tr" "tables_wf ts"
    and "translate_loop tr ts np mx io n dc = Inr (ex, n', dc')"
  shows "\<exists>cs d. insn_run tr ts dc cs d \<and> n' = n + length cs \<and> charges (length cs) dc dc' \<and> dc_vemu dc' = dc_vemu d"
  using assms(1,2,3)
proof (induction tr ts np mx io n dc rule: translate_loop.induct)
  case (1 tr ts np mx io n dc)
  let ?d = "if n + 1 = mx \<and> io then emit [Io_start] dc else dc"
  consider "dc_pc dc \<ge> 0xfffffff0 \<and> tr_is_m tr" | "\<not> (dc_pc dc \<ge> 0xfffffff0 \<and> tr_is_m tr)" "dc_pc dc \<in> set (tr_breakpoints tr)"
    | "\<not> (dc_pc dc \<ge> 0xfffffff0 \<and> tr_is_m tr)" "dc_pc dc \<notin> set (tr_breakpoints tr)" by blast
  then show ?case
  proof cases
    case 3
    obtain e where e: "translate_insn tr ts ?d = Inr e"
      using 1(4) 3 by (auto simp: translate_loop.simps [of tr ts np mx io n dc] Let_def cbind_Inr_iff)
    have d: "charges 0 dc ?d" "dc_pc ?d = dc_pc dc" "dc_thumb ?d = dc_thumb dc" "dc_bswap_code ?d = dc_bswap_code dc"
      by (simp_all add: charges_emit charges_refl own_op_def) (simp_all add: emit_def)
    note i = translate_insn_charges [OF 1(2,3) e, unfolded d]
    have c1: "charges 1 dc e" using charges_trans [OF d(1)] i by fastforce
    let ?c = "dc_is_jmp e = 0 \<and> tr_room tr (dc_ops e) \<and> \<not> tr_singlestep_enabled tr \<and> \<not> tr_singlestep tr
             \<and> dc_pc e < np \<and> n + 1 < mx"
    have r: "(if ?c then translate_loop tr ts np mx io (n + 1) e else Inr (Loop_end, n + 1, e)) = Inr (ex, n', dc')"
      using 1(4) 3 e by (simp add: translate_loop.simps [of tr ts np mx io n dc] Let_def)
    show ?thesis
    proof (cases ?c)
      case True
      have rT: "translate_loop tr ts np mx io (n + 1) e = Inr (ex, n', dc')"
        using r unfolding if_P [OF True] .
      obtain cs d' where l: "insn_run tr ts e cs d'" "n' = n + 1 + length cs" "charges (length cs) e dc'" "dc_vemu dc' = dc_vemu d'"
        using 1(1) [OF 3 refl e True 1(2,3) rT] by blast
      have "insn_run tr ts dc (?d # cs) d'" by (rule insn_run.insn [OF _ e l(1)]) simp
      moreover have "charges (length (?d # cs)) dc dc'" using charges_trans [OF c1 l(3)] by simp
      ultimately show ?thesis using l(2,4) by (intro exI [of _ "?d # cs"] exI [of _ d'] conjI) simp_all
    next
      case False
      have "ex = Loop_end" "n' = n + 1" "dc' = e" using r unfolding if_not_P [OF False] by simp_all
      moreover have "insn_run tr ts dc [?d] e" by (rule insn_run.insn [OF _ e insn_run.none]) simp
      ultimately show ?thesis using c1 by (intro exI [of _ "[?d]"] exI [of _ e] conjI) simp_all
    qed
  next
    case a: 1
    have "n' = n" "dc' = (emit [Exception EXCP_EXCEPTION_EXIT] dc)\<lparr>dc_is_jmp := DISAS_UPDATE\<rparr>"
      using 1(4) unfolding translate_loop.simps [of tr ts np mx io n dc] if_P [OF a] by simp_all
    then show ?thesis by (intro exI [of _ "[]"] exI [of _ dc]) (simp add: insn_run.none emit_def charges_def)
  next
    case b: 2
    have "n' = n" "dc' = (gen_exception_insn dc 0 (tr_excp_debug tr))\<lparr>dc_pc := dc_pc dc + 2\<rparr>"
      using 1(4) unfolding translate_loop.simps [of tr ts np mx io n dc] if_not_P [OF b(1)] if_P [OF b(2)] by simp_all
    then show ?thesis using gen_set_condexec_charges [of dc]
      by (intro exI [of _ "[]"] exI [of _ dc]) (simp add: insn_run.none gen_exception_insn_def emit_def charges_def)
  qed
qed

text \<open>Operations that charge nothing and keep the record.\<close>

definition kept :: "disas_context \<Rightarrow> disas_context \<Rightarrow> bool" where
  "kept dc d \<longleftrightarrow> charges 0 dc d \<and> dc_vemu d = dc_vemu dc"

lemma kept_refl: "kept dc dc"
  by (simp add: kept_def charges_refl)

lemma kept_emit: "list_all own_op xs \<Longrightarrow> kept dc d \<Longrightarrow> kept dc (emit xs d)"
  using charges_trans [of 0 dc d 0 "emit xs d"] charges_emit [of xs d] by (simp add: kept_def) (simp add: emit_def)

lemma kept_condexec: "kept dc d \<Longrightarrow> kept dc (gen_set_condexec d)"
  using charges_trans [of 0 dc d 0] gen_set_condexec_charges [of d] by (simp add: kept_def)

lemma kept_condjmp: "kept dc (d\<lparr>dc_condjmp := b\<rparr>) \<longleftrightarrow> kept dc d"
  by (simp add: kept_def charges_def)

lemmas kept_rules = kept_emit kept_condexec kept_condjmp own_op_def

lemma tail_kept: "kept dc d \<Longrightarrow> kept dc (tail_singlestep tr d)" "kept dc d \<Longrightarrow> kept dc (tail_normal d)"
  unfolding tail_singlestep_def tail_normal_def Let_def by (simp_all add: kept_rules)

lemma translate_tail_charges: "translate_tail tr io dc = Inr dc' \<Longrightarrow> kept dc dc'"
  by (auto simp: translate_tail_def cbind_Inr_iff kept_refl kept_rules tail_kept split: if_splits)


lemma fetch_kind: "snd (vemu_fetch x pc t b) \<in> {0, 1, 2}"
  by (simp add: vemu_fetch_def Let_def)

lemma insn_info_total: "tables_wf ts \<Longrightarrow> \<exists>tb. insn_info tr ts pc t b = Inr tb"
  using fetch_kind [of "tr_code tr" pc t b] decode_cases [of ts]
  by (auto simp: insn_info_def split: prod.splits)

lemma translate_insn_total: "tables_wf ts \<Longrightarrow> \<exists>dc'. translate_insn tr ts dc = Inr dc'"
  using insn_info_total [of ts tr "dc_pc dc" "dc_thumb dc" "dc_bswap_code dc"]
  by (auto simp: translate_insn_def gen_vemu_info_def insn_info_def Let_def split: prod.splits)

lemma translate_loop_total:
  "tables_wf ts \<Longrightarrow> n < mx \<Longrightarrow> \<exists>ex n' dc'. translate_loop tr ts np mx io n dc = Inr (ex, n', dc') \<and> n' \<le> mx"
proof (induction tr ts np mx io n dc rule: translate_loop.induct)
  case (1 tr ts np mx io n dc)
  show ?case
  proof (cases "dc_pc dc \<ge> 0xfffffff0 \<and> tr_is_m tr \<or> dc_pc dc \<in> set (tr_breakpoints tr)")
    case True
    then show ?thesis using 1(3) by (auto simp: translate_loop.simps [of tr ts np mx io n dc])
  next
    case False
    let ?d = "if n + 1 = mx \<and> io then emit [Io_start] dc else dc"
    obtain e where e: "translate_insn tr ts ?d = Inr e" using translate_insn_total [OF 1(2)] by blast
    have f: "\<not> (dc_pc dc \<ge> 0xfffffff0 \<and> tr_is_m tr)" "dc_pc dc \<notin> set (tr_breakpoints tr)" using False by auto
    have l: "translate_loop tr ts np mx io n dc = (if dc_is_jmp e = 0 \<and> tr_room tr (dc_ops e)
        \<and> \<not> tr_singlestep_enabled tr \<and> \<not> tr_singlestep tr \<and> dc_pc e < np \<and> n + 1 < mx
       then translate_loop tr ts np mx io (n + 1) e else Inr (Loop_end, n + 1, e))"
      unfolding translate_loop.simps [of tr ts np mx io n dc] if_not_P [OF f(1)] if_not_P [OF f(2)] Let_def e cbind.simps ..
    show ?thesis using 1(1) [OF f refl e _ 1(2)] 1(3) unfolding l by auto
  qed
qed

lemma disas_init_fields:
  "dc_pc (disas_init tb) = tb_pc tb" "dc_thumb (disas_init tb) \<longleftrightarrow> ARM_TBFLAG_THUMB (tb_flags tb) \<noteq> 0"
  "dc_bswap_code (disas_init tb) \<longleftrightarrow> ARM_TBFLAG_BSWAP_CODE (tb_flags tb) \<noteq> 0"
  "count_list (dc_ops (disas_init tb)) Call_vemu_info = 0" "Call_vemu_error_replace \<notin> set (dc_ops (disas_init tb))"
  "dc_vemu (disas_init tb) = tb_vemu tb"
  by (simp_all add: disas_init_def Let_def emit_def)

lemma block_insns:
  assumes "disas_ok tr" "tables_wf ts" "gen_intermediate_code tr ts tb = Inr tb'"
  shows "\<exists>cs d. insn_run tr ts (disas_init tb) cs d \<and> tb_icount tb' = length cs
     \<and> count_list (tb_code tb') Call_vemu_info = length cs \<and> Call_vemu_error_replace \<notin> set (tb_code tb')
     \<and> tb_vemu tb' = dc_vemu d"
proof -
  obtain np mx io ex n dc dc' where
    l: "translate_loop tr ts np mx io 0 (disas_init tb) = Inr (ex, n, dc)"
    and t: "(if ex = Loop_breakpoint then Inr dc else translate_tail tr io dc) = Inr dc'"
    and tb': "tb' = tb\<lparr>tb_vemu := dc_vemu dc', tb_code := dc_ops dc', tb_size := dc_pc dc' - tb_pc tb, tb_icount := n\<rparr>"
    using assms(3) by (auto simp: gen_intermediate_code_def Let_def cbind_Inr_iff)
  have k: "kept dc dc'" using t kept_refl translate_tail_charges by (cases "ex = Loop_breakpoint") auto
  from translate_loop_charges [OF assms(1,2) l] obtain cs d where i: "insn_run tr ts (disas_init tb) cs d" "n = length cs"
    "charges (length cs) (disas_init tb) dc" "dc_vemu dc = dc_vemu d" by auto
  show ?thesis
    using i k by (intro exI [of _ cs] exI [of _ d]) (simp add: tb' kept_def charges_def disas_init_fields)
qed

section \<open>The IT state and the flags\<close>

text \<open>
  The eight bits of the IT state that condition and mask stand for; the step of the
  architecture; and the ranges of the fields that are packed into the flags.
\<close>

definition it_state :: "disas_context \<Rightarrow> u32" where
  "it_state dc = push_bit 4 (dc_condexec_cond dc) OR drop_bit 1 (dc_condexec_mask dc)"

definition ITAdvance :: "u32 \<Rightarrow> u32" where
  "ITAdvance s = (if s AND 7 = 0 then 0 else (s AND 0xe0) OR (push_bit 1 s AND 0x1f))"

definition flags_wf :: "cpu \<Rightarrow> bool" where
  "flags_wf env \<longleftrightarrow> thumb env \<in> set [0, 1] \<and> vfp_vec_len env AND NOT 0x7 = 0 \<and> vfp_vec_stride env AND NOT 0x3 = 0
     \<and> condexec_bits env AND NOT 0xff = 0"

lemma tb_flag_fields:
  assumes "flags_wf env" "cpu_get_tb_cpu_state env = (pc, cs_base, flags)"
  shows "ARM_TBFLAG_THUMB flags = thumb env" "ARM_TBFLAG_VECLEN flags = vfp_vec_len env"
    "ARM_TBFLAG_VECSTRIDE flags = vfp_vec_stride env" "ARM_TBFLAG_PRIV flags = b2w (cpu_get_tb_privmode env)"
    "ARM_TBFLAG_VFPEN flags = b2w (vfp_xregs env ! ARM_VFP_FPEXC AND push_bit 30 1 \<noteq> 0)"
    "ARM_TBFLAG_CONDEXEC flags = condexec_bits env" "ARM_TBFLAG_BSWAP_CODE flags = b2w (bswap_code env)"
proof -
  define t l s e where "t = thumb env" and "l = vfp_vec_len env" and "s = vfp_vec_stride env" and "e = condexec_bits env"
  define p v w where "p = b2w (cpu_get_tb_privmode env)" and "v = b2w (vfp_xregs env ! ARM_VFP_FPEXC AND push_bit 30 1 \<noteq> 0)"
    and "w = b2w (bswap_code env)"
  have F: "flags = t OR push_bit 1 l OR push_bit 4 s OR push_bit 8 e OR push_bit 16 w OR push_bit 6 p OR push_bit 7 v"
  proof -
    have "(if b then G OR push_bit k 1 else G) = G OR push_bit k (b2w b)" for b k and G :: u32 by (simp add: b2w_def)
    then show ?thesis
      using assms(2) unfolding cpu_get_tb_cpu_state_def Let_def t_def l_def s_def e_def p_def v_def w_def
      by (simp add: or.assoc)
  qed
  have z: "3 \<le> n \<Longrightarrow> \<not> bit l n" "2 \<le> n \<Longrightarrow> \<not> bit s n" "8 \<le> n \<Longrightarrow> \<not> bit e n" for n
    using assms(1) high_bits_numeral [of _ n] unfolding flags_wf_def l_def s_def e_def by blast+
  have o: "0 < n \<Longrightarrow> \<not> bit t n" "0 < n \<Longrightarrow> \<not> bit p n" "0 < n \<Longrightarrow> \<not> bit v n" "0 < n \<Longrightarrow> \<not> bit w n" for n
    using assms(1) bit_01 [of "thumb env" n] by (simp_all add: flags_wf_def t_def p_def v_def w_def bit_b2w)
  note fold = t_def [symmetric] l_def [symmetric] s_def [symmetric] e_def [symmetric] p_def [symmetric] v_def [symmetric] w_def [symmetric]
  show "ARM_TBFLAG_THUMB flags = thumb env" "ARM_TBFLAG_VECLEN flags = vfp_vec_len env"
    "ARM_TBFLAG_VECSTRIDE flags = vfp_vec_stride env" "ARM_TBFLAG_PRIV flags = b2w (cpu_get_tb_privmode env)"
    "ARM_TBFLAG_VFPEN flags = b2w (vfp_xregs env ! ARM_VFP_FPEXC AND push_bit 30 1 \<noteq> 0)"
    "ARM_TBFLAG_CONDEXEC flags = condexec_bits env" "ARM_TBFLAG_BSWAP_CODE flags = b2w (bswap_code env)"
    unfolding F tbflag_defs fold
    by (rule u32_eqI, elim insertE emptyE, simp_all add: bit_simps mult.commute [of l] numeral_2_eq_2 [symmetric] z o)+
qed

text \<open>Translation returns for every block that is not cut off for input and output.\<close>

lemma gen_total:
  assumes "tables_wf ts" "tb_cflags tb AND CF_LAST_IO = 0"
  shows "\<exists>tb'. gen_intermediate_code tr ts tb = Inr tb'"
proof -
  define mx where "mx = (let k = unat (tb_cflags tb AND CF_COUNT_MASK) in if k = 0 then unat CF_COUNT_MASK else k)"
  have "0 < mx" by (simp add: mx_def Let_def CF_COUNT_MASK_def)
  from translate_loop_total [OF assms(1) this]
  obtain ex n dc where "translate_loop tr ts (tr_next_page tr (tb_pc tb)) mx False 0 (disas_init tb) = Inr (ex, n, dc)" by blast
  then show ?thesis using assms(2) by (simp add: gen_intermediate_code_def Let_def mx_def translate_tail_def)
qed

text \<open>A block under single stepping.\<close>

lemma singlestep_block:
  assumes "disas_ok tr" "tables_wf ts" "tr_singlestep tr" "tb_cflags tb AND CF_LAST_IO = 0"
    and "tb_pc tb \<notin> set (tr_breakpoints tr)" "\<not> (tb_pc tb \<ge> 0xfffffff0 \<and> tr_is_m tr)"
  shows "\<exists>tb'. gen_intermediate_code tr ts tb = Inr tb' \<and> tb_icount tb' = 1
    \<and> count_list (tb_code tb') Call_vemu_info = 1 \<and> Call_vemu_error_replace \<notin> set (tb_code tb')
    \<and> insn_info tr ts (tb_pc tb) (ARM_TBFLAG_THUMB (tb_flags tb) \<noteq> 0) (ARM_TBFLAG_BSWAP_CODE (tb_flags tb) \<noteq> 0)
        = Inr (tb_vemu tb')"
proof -
  define mx where "mx = (let k = unat (tb_cflags tb AND CF_COUNT_MASK) in if k = 0 then unat CF_COUNT_MASK else k)"
  obtain dc where e: "translate_insn tr ts (disas_init tb) = Inr dc" using translate_insn_total [OF assms(2)] by blast
  have f: "\<not> (dc_pc (disas_init tb) \<ge> 0xfffffff0 \<and> tr_is_m tr)" "dc_pc (disas_init tb) \<notin> set (tr_breakpoints tr)"
    using assms(5,6) by (simp_all add: disas_init_fields)
  have l: "translate_loop tr ts (tr_next_page tr (tb_pc tb)) mx False 0 (disas_init tb) = Inr (Loop_end, 1, dc)"
    unfolding translate_loop.simps [of tr ts _ mx False 0] if_not_P [OF f(1)] if_not_P [OF f(2)]
    by (simp add: e assms(3))
  obtain dc' where t: "translate_tail tr False dc = Inr dc'" by (simp add: translate_tail_def)
  obtain tb' where tb': "gen_intermediate_code tr ts tb = Inr tb'" "tb_icount tb' = 1"
    using l t assms(4) by (simp add: gen_intermediate_code_def Let_def mx_def)
  obtain cs d where b: "insn_run tr ts (disas_init tb) cs d" "tb_icount tb' = length cs"
    "count_list (tb_code tb') Call_vemu_info = length cs" "Call_vemu_error_replace \<notin> set (tb_code tb')" "tb_vemu tb' = dc_vemu d"
    using block_insns [OF assms(1,2) tb'(1)] by blast
  then obtain c where "cs = [c]" using tb'(2) by (cases cs) auto
  then show ?thesis
    using b tb' insn_run_last [OF assms(1,2) b(1)] insn_run_hd [OF b(1)] by (simp add: disas_init_fields)
qed

text \<open>A concrete translator, whose memory holds zeros, for examples.\<close>

definition demo_translator :: translator where
  "demo_translator = \<lparr>tr_code = demo_arm_ext,
     tr_disas = (\<lambda>dc. emit [Insn (dc_pc dc)] (dc\<lparr>dc_pc := dc_pc dc + (if dc_thumb dc then 2 else 4)\<rparr>)),
     tr_room = (\<lambda>ops. length ops < 640), tr_next_page = (\<lambda>pc. (pc AND NOT 0x3ff) + 0x400), tr_breakpoints = [],
     tr_excp_debug = 0x10002, tr_is_m = False, tr_singlestep_enabled = False, tr_singlestep = True\<rparr>"

definition demo_block :: translation_block where
  "demo_block = \<lparr>tb_pc = 0x8000, tb_flags = 0, tb_cflags = 0, tb_vemu = \<lparr>instr_word = 0, instr_info = vemu_thumb2_instr ! 0\<rparr>,
     tb_code = [], tb_size = 0, tb_icount = 0\<rparr>"

lemma demo_translator_ok: "disas_ok demo_translator"
  by (simp add: disas_ok_def demo_translator_def emit_def own_op_def)

section \<open>Properties\<close>

text \<open>
  C36. A block charges its last instruction. The block's instructions are a run from its
  address, in its instruction set, as many as the block counts. Translation generates one
  call of the accounting helper for each and never the fault hook, since no row of the tables
  is marked. But there is one record per block, and at the end it is the one decoded for the
  last instruction of the run (for a block with no instruction, the one it had). Every call of
  the block charges that record, whatever the other instructions cost.
\<close>

theorem block_charges_last:
  assumes "disas_ok tr" "tables_wf ts" "gen_intermediate_code tr ts tb = Inr tb'"
  shows "Call_vemu_error_replace \<notin> set (tb_code tb') \<and> count_list (tb_code tb') Call_vemu_info = tb_icount tb'
    \<and> (\<exists>cs d. insn_run tr ts (disas_init tb) cs d \<and> length cs = tb_icount tb'
        \<and> (cs = [] \<longrightarrow> tb_vemu tb' = tb_vemu tb)
        \<and> (cs \<noteq> [] \<longrightarrow> dc_pc (hd cs) = tb_pc tb
            \<and> dc_thumb (hd cs) = (ARM_TBFLAG_THUMB (tb_flags tb) \<noteq> 0)
            \<and> dc_bswap_code (hd cs) = (ARM_TBFLAG_BSWAP_CODE (tb_flags tb) \<noteq> 0)
            \<and> insn_info tr ts (dc_pc (last cs)) (dc_thumb (last cs)) (dc_bswap_code (last cs)) = Inr (tb_vemu tb')))"
proof -
  obtain cs d where b: "insn_run tr ts (disas_init tb) cs d" "tb_icount tb' = length cs"
    "count_list (tb_code tb') Call_vemu_info = length cs" "Call_vemu_error_replace \<notin> set (tb_code tb')" "tb_vemu tb' = dc_vemu d"
    using block_insns [OF assms] by blast
  have "cs = [] \<longrightarrow> tb_vemu tb' = tb_vemu tb" using b(1,5) by (auto simp: insn_run_Nil disas_init_fields)
  then show ?thesis
    using b insn_run_last [OF assms(1,2) b(1)] insn_run_hd [OF b(1)] by (auto simp: disas_init_fields)
qed

text \<open>
  A block of two instructions, a multiplication and an instruction of another class: the
  block charges the record of the second one twice.
\<close>

definition demo_code :: "u32 \<Rightarrow> u32" where
  "demo_code pc = (if pc = 0x8000 then 0xE0000291 else if pc = 0x8004 then 0xE1A00000 else 0)"

definition demo_translator2 :: translator where
  "demo_translator2 = demo_translator\<lparr>tr_code := demo_arm_ext\<lparr>ldl_code := demo_code\<rparr>, tr_singlestep := False\<rparr>"

lemma demo_translator2_ok: "disas_ok demo_translator2"
  by (simp add: disas_ok_def demo_translator2_def demo_translator_def emit_def own_op_def)

lemma demo_fetch:
  "vemu_fetch (tr_code demo_translator2) 0x8000 False False = (0xE0000291, 0)"
  "vemu_fetch (tr_code demo_translator2) 0x8004 False False = (0xE1A00000, 0)"
  by (simp_all add: vemu_fetch_def demo_translator2_def demo_arm_ext_def demo_code_def arm_ldl_code_def)

lemma demo_insn:
  assumes "translate_insn demo_translator2 ts c = Inr d" "\<not> dc_thumb c"
  shows "dc_pc d = dc_pc c + 4" "\<not> dc_thumb d" "dc_bswap_code d = dc_bswap_code c" "dc_is_jmp d = dc_is_jmp c"
    "length (dc_ops d) \<le> length (dc_ops c) + 4"
  using assms by (auto simp: translate_insn_def gen_vemu_info_def gen_vemu_error_replace_def demo_translator2_def
      demo_translator_def emit_def cbind_Inr_iff Let_def split: prod.splits if_splits)

lemma demo_block2:
  "\<exists>tb'. gen_intermediate_code demo_translator2 initial_tables (demo_block\<lparr>tb_cflags := 2\<rparr>) = Inr tb' \<and> tb_icount tb' = 2"
proof -
  let ?tb = "demo_block\<lparr>tb_cflags := 2\<rparr>" and ?c = "disas_init (demo_block\<lparr>tb_cflags := 2\<rparr>)"
  have c: "dc_pc ?c = 0x8000" "\<not> dc_thumb ?c" "dc_is_jmp ?c = 0" "dc_ops ?c = []"
    by (simp_all add: disas_init_def demo_block_def tbflag_defs DISAS_NEXT_def)
  obtain d where d: "translate_insn demo_translator2 initial_tables ?c = Inr d" using translate_insn_total [OF initial_tables_wf] by blast
  obtain e where e: "translate_insn demo_translator2 initial_tables d = Inr e" using translate_insn_total [OF initial_tables_wf] by blast
  note f = demo_insn [OF d c(2), unfolded c]
  have t: "tr_breakpoints demo_translator2 = []" "\<not> tr_is_m demo_translator2" "\<not> tr_singlestep demo_translator2"
      "\<not> tr_singlestep_enabled demo_translator2" "tr_next_page demo_translator2 0x8000 = 0x8400" "tr_room demo_translator2 (dc_ops d)"
    using f(5) by (simp_all add: demo_translator2_def demo_translator_def)
  have "translate_loop demo_translator2 initial_tables 0x8400 2 False 1 d = Inr (Loop_end, 2, e)"
    using t(1-4) by (subst translate_loop.simps) (simp add: e)
  then have "translate_loop demo_translator2 initial_tables 0x8400 2 False 0 ?c = Inr (Loop_end, 2, e)"
    using t f by (subst translate_loop.simps) (simp add: d)
  moreover have "tb_pc ?tb = 0x8000" "tb_cflags ?tb = 2" by (simp_all add: demo_block_def)
  ultimately show ?thesis
    using t(5) by (simp add: gen_intermediate_code_def Let_def CF_COUNT_MASK_def CF_LAST_IO_def translate_tail_def)
qed

theorem block_charges_last_witness:
  "\<exists>tb'. gen_intermediate_code demo_translator2 initial_tables (demo_block\<lparr>tb_cflags := 2\<rparr>) = Inr tb'
    \<and> tb_icount tb' = 2 \<and> count_list (tb_code tb') Call_vemu_info = 2
    \<and> insn_info demo_translator2 initial_tables 0x8004 False False = Inr (tb_vemu tb')
    \<and> insn_info demo_translator2 initial_tables 0x8000 False False \<noteq> Inr (tb_vemu tb')"
proof -
  let ?c = "disas_init (demo_block\<lparr>tb_cflags := 2\<rparr>)"
  have i: "dc_pc ?c = 0x8000" "\<not> dc_thumb ?c" "\<not> dc_bswap_code ?c"
    by (simp_all add: disas_init_def demo_block_def tbflag_defs)
  obtain tb' where g: "gen_intermediate_code demo_translator2 initial_tables (demo_block\<lparr>tb_cflags := 2\<rparr>) = Inr tb'" "tb_icount tb' = 2"
    using demo_block2 by blast
  from block_charges_last [OF demo_translator2_ok initial_tables_wf g(1)] obtain cs d where
    b: "count_list (tb_code tb') Call_vemu_info = 2" "insn_run demo_translator2 initial_tables ?c cs d" "length cs = 2"
      "insn_info demo_translator2 initial_tables (dc_pc (last cs)) (dc_thumb (last cs)) (dc_bswap_code (last cs)) = Inr (tb_vemu tb')"
    using g(2) by auto
  obtain c1 c2 where cs: "cs = [c1, c2]" using b(3) by (auto simp: numeral_2_eq_2 length_Suc_conv)
  from b(2) [unfolded cs] obtain d1 where d1: "c1 = ?c \<or> c1 = emit [Io_start] ?c" "translate_insn demo_translator2 initial_tables c1 = Inr d1"
      "c2 = d1 \<or> c2 = emit [Io_start] d1"
    by (auto elim!: insn_run.cases)
  have c1: "dc_pc c1 = 0x8000" "\<not> dc_thumb c1" "\<not> dc_bswap_code c1" using d1(1) i by (auto simp: emit_def)
  have "dc_pc c2 = 0x8004" "\<not> dc_thumb c2" "\<not> dc_bswap_code c2"
    using d1(3) demo_insn [OF d1(2) c1(2)] c1 by (auto simp: emit_def)
  then have l: "insn_info demo_translator2 initial_tables 0x8004 False False = Inr (tb_vemu tb')" using b(4) cs by simp
  then have "instr_word (tb_vemu tb') = 0xE1A00000"
    by (auto simp: insn_info_def demo_fetch decode_cases(2) [OF initial_tables_wf] dest: sym)
  then have "insn_info demo_translator2 initial_tables 0x8000 False False \<noteq> Inr (tb_vemu tb')"
    by (auto simp: insn_info_def demo_fetch decode_cases(2) [OF initial_tables_wf] dest!: arg_cong [of _ _ instr_word])
  then show ?thesis using g b(1) l by blast
qed

text \<open>
  C30. Under the global single stepping, which the option \<^verbatim>\<open>-variability\<close> turns on, the
  account is right: translating a block always returns, the block holds one instruction,
  it charges once, and what it charges is the record decoded for the instruction at its
  address in its instruction set. (The address is no breakpoint and no exception return.)
\<close>

theorem singlestep_exact:
  assumes "disas_ok tr" "tables_wf ts" "tr_singlestep tr" "tb_cflags tb AND CF_LAST_IO = 0"
    and "tb_pc tb \<notin> set (tr_breakpoints tr)" "\<not> (tb_pc tb \<ge> 0xfffffff0 \<and> tr_is_m tr)"
  shows "\<exists>tb'. gen_intermediate_code tr ts tb = Inr tb' \<and> tb_icount tb' = 1
    \<and> count_list (tb_code tb') Call_vemu_info = 1 \<and> Call_vemu_error_replace \<notin> set (tb_code tb')
    \<and> insn_info tr ts (tb_pc tb) (ARM_TBFLAG_THUMB (tb_flags tb) \<noteq> 0) (ARM_TBFLAG_BSWAP_CODE (tb_flags tb) \<noteq> 0)
        = Inr (tb_vemu tb')"
  by (rule singlestep_block [OF assms])

theorem singlestep_exact_witness:
  "\<exists>tb'. gen_intermediate_code demo_translator initial_tables demo_block = Inr tb' \<and> tb_icount tb' = 1
    \<and> insn_info demo_translator initial_tables 0x8000 False False = Inr (tb_vemu tb')"
proof -
  have "tr_singlestep demo_translator" "tb_cflags demo_block AND CF_LAST_IO = 0" "tb_pc demo_block \<notin> set (tr_breakpoints demo_translator)"
    "\<not> (tb_pc demo_block \<ge> 0xfffffff0 \<and> tr_is_m demo_translator)" "tb_pc demo_block = 0x8000"
    "ARM_TBFLAG_THUMB (tb_flags demo_block) = 0" "ARM_TBFLAG_BSWAP_CODE (tb_flags demo_block) = 0"
    by (simp_all add: demo_translator_def demo_block_def tbflag_defs)
  then show ?thesis using singlestep_exact [OF demo_translator_ok initial_tables_wf, of demo_block] by auto
qed

text \<open>
  What VarEMU decodes of Thumb code. A halfword below \<open>0xE000\<close> is looked up in the
  Thumb table; one from \<open>0xF000\<close> to \<open>0xF7FF\<close> is joined with the next and takes the one
  row for 32-bit code; every other one (the unconditional branches \<open>0xE000\<close> to \<open>0xE7FF\<close>
  and the prefixes from \<open>0xE800\<close> and from \<open>0xF800\<close>) is looked up in the ARM table, in the
  row of the number in its bits 7 to 4.
\<close>

theorem thumb_code_rows:
  assumes "tables_wf ts" "h = arm_lduw_code (tr_code tr) pc b" "h2 = arm_lduw_code (tr_code tr) (pc + 2) b"
  shows "insn_info tr ts pc True b = Inr
     (if unat h < 0xE000 then \<lparr>instr_word = ucast h, instr_info = thumb_instr ts ! (unat h div 256)\<rparr>
      else if 0xF000 \<le> unat h \<and> unat h < 0xF800
        then \<lparr>instr_word = push_bit 16 (ucast h) OR ucast h2, instr_info = thumb2_instr ts ! 0\<rparr>
      else \<lparr>instr_word = ucast h, instr_info = arm_instr ts ! (unat h div 16 mod 16)\<rparr>)"
proof -
  define w where "w = (ucast h :: u32)"
  have u: "unat w = unat h" "unat h < 65536"
    using unsigned_less [of h, where ?'a = nat] by (simp_all add: w_def unsigned_ucast_eq take_bit_nat_eq_self)
  have top: "drop_bit 12 w = k \<longleftrightarrow> unat h div 4096 = unat k" for k
    by (simp add: word_unat_eq_iff unat_drop_bit_div u)
  have b12: "w AND push_bit 12 1 = 0 \<longleftrightarrow> even (unat h div 4096)"
    unfolding and_push_bit_1 by (simp add: bit_odd_unat u)
  have b11: "w AND push_bit 11 1 = 0 \<longleftrightarrow> even (unat h div 2048)"
    unfolding and_push_bit_1 by (simp add: bit_odd_unat u)
  have op: "unat (thumb_opcode w) = unat h div 256 mod 256" "unat (arm_opcode w) = unat h div 16 mod 16"
    using mod_mult2_eq [of "unat h div 256" 16 16] u
    by (simp_all add: unat_thumb_opcode unat_arm_opcode div_mult2_eq [symmetric])
  consider "unat h < 0xE000" | "0xE000 \<le> unat h" "unat h < 0xF000" | "0xF000 \<le> unat h" "unat h < 0xF800" | "0xF800 \<le> unat h"
    by linarith
  then show ?thesis
  proof cases
    case 1
    then have "unat h div 4096 \<noteq> 14" "unat h div 4096 \<noteq> 15" by linarith+
    then have "vemu_fetch (tr_code tr) pc True b = (w, 1)"
      by (simp add: vemu_fetch_def Let_def assms(2) [symmetric] w_def [symmetric] top)
    moreover have "unat h div 256 mod 256 = unat h div 256" using 1 by simp
    ultimately show ?thesis using 1 by (simp add: insn_info_def decode_cases [OF assms(1)] op w_def [symmetric])
  next
    case 2
    then have "unat h div 4096 = 14" by linarith
    then have "vemu_fetch (tr_code tr) pc True b = (w, 0)"
      by (simp add: vemu_fetch_def Let_def assms(2) [symmetric] w_def [symmetric] top b12 [simplified])
    then show ?thesis using 2 by (simp add: insn_info_def decode_cases [OF assms(1)] op w_def [symmetric])
  next
    case 3
    then have "unat h div 4096 = 15" "unat h div 2048 = 30" by linarith+
    then have "vemu_fetch (tr_code tr) pc True b = (push_bit 16 w OR ucast h2, 2)"
      by (simp add: vemu_fetch_def Let_def assms(2,3) [symmetric] w_def [symmetric] top b12 [simplified] b11 [simplified])
    then show ?thesis using 3 by (simp add: insn_info_def decode_cases [OF assms(1)] w_def [symmetric])
  next
    case 4
    then have "unat h div 4096 = 15" "unat h div 2048 = 31" using u(2) by linarith+
    then have "vemu_fetch (tr_code tr) pc True b = (w, 0)"
      by (simp add: vemu_fetch_def Let_def assms(2) [symmetric] w_def [symmetric] top b12 [simplified] b11 [simplified])
    then show ?thesis using 4 by (simp add: insn_info_def decode_cases [OF assms(1)] op w_def [symmetric])
  qed
qed

theorem thumb_code_rows_witness:
  "insn_info (demo_translator\<lparr>tr_code := demo_arm_ext\<lparr>lduw_code := \<lambda>_. 0xE7FE\<rparr>\<rparr>) initial_tables 0x8000 True False
     = Inr \<lparr>instr_word = 0xE7FE, instr_info = arm_instr initial_tables ! 15\<rparr>"
proof -
  let ?t = "demo_translator\<lparr>tr_code := demo_arm_ext\<lparr>lduw_code := \<lambda>_. 0xE7FE\<rparr>\<rparr>"
  have "arm_lduw_code (tr_code ?t) pc False = 0xE7FE" for pc by (simp add: arm_lduw_code_def)
  from thumb_code_rows [OF initial_tables_wf this [symmetric] this [symmetric]] show ?thesis by simp
qed

text \<open>
  C35. Inside an IT block the translator steps the IT state as the architecture defines it:
  from the eight bits that the condition and the mask stand for, \<open>ITAdvance\<close> of the ARM
  architecture gives the bits they stand for after the instruction.
\<close>

theorem it_advance:
  assumes "dc_condexec_mask dc \<noteq> 0" "dc_condexec_mask dc AND NOT 0x1e = 0" "dc_condexec_cond dc AND NOT 0xf = 0"
  shows "it_state (condexec_advance dc) = ITAdvance (it_state dc)
    \<and> dc_condexec_mask (condexec_advance dc) AND NOT 0x1e = 0 \<and> dc_condexec_cond (condexec_advance dc) AND NOT 0xf = 0"
proof -
  define m c where "m = dc_condexec_mask dc" and "c = dc_condexec_cond dc"
  have m: "\<forall>n \<in> {0,5,6,7,8,9,10,11,12,13,14,15,16,17,18,19,20,21,22,23,24,25,26,27,28,29,30,31}. \<not> bit m n"
    using assms(2) unfolding m_def u32_zero_iff by (simp add: bit_simps)
  have c: "\<forall>n \<in> {4,5,6,7,8,9,10,11,12,13,14,15,16,17,18,19,20,21,22,23,24,25,26,27,28,29,30,31}. \<not> bit c n"
    using assms(3) unfolding c_def u32_zero_iff by (simp add: bit_simps)
  have z: "push_bit 1 m AND 0x1f = 0 \<longleftrightarrow> \<not> bit m 1 \<and> \<not> bit m 2 \<and> \<not> bit m 3"
    "(push_bit 4 c OR drop_bit 1 m) AND 7 = 0 \<longleftrightarrow> \<not> bit m 1 \<and> \<not> bit m 2 \<and> \<not> bit m 3"
    using m c unfolding u32_zero_iff by (simp_all add: bit_simps mult.commute [of m] numeral_2_eq_2 [symmetric])
  have e: "dc_condexec_mask (condexec_advance dc) = push_bit 1 m AND 0x1f"
    "dc_condexec_cond (condexec_advance dc) =
       (if push_bit 1 m AND 0x1f = 0 then 0 else (c AND 0xe) OR (drop_bit 4 m AND 1))"
    using assms(1) by (simp_all add: condexec_advance_def Let_def m_def c_def)
  have "it_state (condexec_advance dc) = ITAdvance (it_state dc)"
  proof (cases "bit m 1 \<or> bit m 2 \<or> bit m 3")
    case True
    then have nz: "push_bit 1 m AND 0x1f \<noteq> 0" "it_state dc AND 7 \<noteq> 0" using z unfolding it_state_def m_def c_def by blast+
    show ?thesis
      unfolding ITAdvance_def if_not_P [OF nz(2)] unfolding it_state_def e if_not_P [OF nz(1)] m_def [symmetric] c_def [symmetric]
      by (rule u32_eqI, elim insertE emptyE)
        (use m c in \<open>simp_all add: bit_simps mult.commute [of m] mult.commute [of "_ OR _" 2]
          mult.commute [of "drop_bit _ _" 2] numeral_2_eq_2 [symmetric]\<close>)
  next
    case False
    then have nz: "push_bit 1 m AND 0x1f = 0" "it_state dc AND 7 = 0" using z unfolding it_state_def m_def c_def by blast+
    then show ?thesis unfolding ITAdvance_def if_P [OF nz(2)] unfolding it_state_def e if_P [OF nz(1)] by simp
  qed
  moreover have "dc_condexec_mask (condexec_advance dc) AND NOT 0x1e = 0"
    unfolding e u32_zero_iff using m by (simp add: bit_simps mult.commute [of m])
  moreover have "dc_condexec_cond (condexec_advance dc) AND NOT 0xf = 0"
    unfolding e u32_zero_iff using c by (simp add: bit_simps)
  ultimately show ?thesis by blast
qed

theorem it_advance_witness:
  "it_state (condexec_advance ((disas_init demo_block)\<lparr>dc_condexec_mask := 0x14, dc_condexec_cond := 1\<rparr>)) = ITAdvance 0x1a"
proof -
  let ?d = "(disas_init demo_block)\<lparr>dc_condexec_mask := 0x14, dc_condexec_cond := 1\<rparr>"
  have "dc_condexec_mask ?d \<noteq> 0" "dc_condexec_mask ?d AND NOT 0x1e = 0" "dc_condexec_cond ?d AND NOT 0xf = 0" "it_state ?d = 0x1a"
    by (simp_all add: it_state_def)
  then show ?thesis using it_advance [of ?d] by simp
qed

text \<open>
  C34. The flags of a block carry the state the translator needs: unpacking the flags that
  \<open>cpu_get_tb_cpu_state\<close> packs gives back the instruction set, the byte order, the
  privilege, the vector length and stride, the floating-point enable and the IT state.
\<close>

theorem tb_flags_roundtrip:
  assumes "flags_wf env" "cpu_get_tb_cpu_state env = (pc, cs_base, flags)"
    and "dc = disas_init \<lparr>tb_pc = pc, tb_flags = flags, tb_cflags = cf, tb_vemu = vi, tb_code = code, tb_size = sz, tb_icount = n\<rparr>"
  shows "dc_pc dc = regs env ! 15 \<and> (dc_thumb dc \<longleftrightarrow> thumb env = 1) \<and> dc_bswap_code dc = bswap_code env
    \<and> dc_user dc = (\<not> cpu_get_tb_privmode env) \<and> dc_vec_len dc = vfp_vec_len env \<and> dc_vec_stride dc = vfp_vec_stride env
    \<and> (dc_vfp_enabled dc \<longleftrightarrow> vfp_xregs env ! ARM_VFP_FPEXC AND push_bit 30 1 \<noteq> 0) \<and> it_state dc = condexec_bits env"
proof -
  note f = tb_flag_fields [OF assms(1,2)]
  have "dc_thumb dc \<longleftrightarrow> thumb env \<noteq> 0" "dc_bswap_code dc = bswap_code env" "dc_user dc = (\<not> cpu_get_tb_privmode env)"
    "dc_vec_len dc = vfp_vec_len env" "dc_vec_stride dc = vfp_vec_stride env"
    "dc_vfp_enabled dc \<longleftrightarrow> vfp_xregs env ! ARM_VFP_FPEXC AND push_bit 30 1 \<noteq> 0"
    "dc_condexec_mask dc = push_bit 1 (condexec_bits env AND 0xf)" "dc_condexec_cond dc = drop_bit 4 (condexec_bits env)"
    unfolding assms(3) disas_init_def by (simp_all add: f Let_def emit_def b2w_def)
  moreover have "dc_pc dc = regs env ! 15"
    using assms(2) by (simp add: assms(3) disas_init_fields cpu_get_tb_cpu_state_def Let_def)
  moreover have "push_bit 4 (drop_bit 4 w) OR drop_bit 1 (push_bit 1 (w AND 0xf)) = w" for w :: u32
    by (rule u32_eqI, elim insertE emptyE) (simp_all add: bit_simps mult.commute [of "_ AND _" 2] mult.commute [of w] numeral_2_eq_2 [symmetric])
  moreover have "thumb env \<noteq> 0 \<longleftrightarrow> thumb env = 1" using assms(1) by (auto simp: flags_wf_def)
  ultimately show ?thesis by (simp add: it_state_def)
qed


theorem tb_flags_roundtrip_witness:
  "it_state (disas_init (case cpu_get_tb_cpu_state (demo_cpu\<lparr>condexec_bits := 0x1a, thumb := 1\<rparr>) of
     (pc, _, flags) \<Rightarrow> demo_block\<lparr>tb_pc := pc, tb_flags := flags\<rparr>)) = 0x1a"
proof -
  let ?e = "demo_cpu\<lparr>condexec_bits := 0x1a, thumb := 1\<rparr>" and ?v = "\<lparr>instr_word = 0, instr_info = vemu_thumb2_instr ! 0\<rparr>"
  have w: "flags_wf ?e" by (simp add: flags_wf_def demo_cpu_def)
  obtain pc b f where c: "cpu_get_tb_cpu_state ?e = (pc, b, f)" by (cases "cpu_get_tb_cpu_state ?e")
  have "it_state (disas_init \<lparr>tb_pc = pc, tb_flags = f, tb_cflags = 0, tb_vemu = ?v, tb_code = [], tb_size = 0, tb_icount = 0\<rparr>) = 0x1a"
    using tb_flags_roundtrip [OF w c refl] by simp
  then show ?thesis by (simp add: c demo_block_def)
qed
end
