(* ===== verification/C_Lib.thy ===== *)
theory C_Lib
  imports Vemu_Double
begin

text \<open>
  The functions of the C library that read text: \<^verbatim>\<open>strtol\<close> (base 10), \<^verbatim>\<open>atoi\<close>,
  \<^verbatim>\<open>strtod\<close> and \<^verbatim>\<open>atof\<close> in the C locale, and \<^verbatim>\<open>fgets\<close> with the end-of-file flag of its
  stream. A C string is the list of its characters before the terminating null.
\<close>

section \<open>Characters\<close>

definition code :: "char \<Rightarrow> nat" where
  "code c = of_char c"

definition newline :: char where
  "newline = CHR 0x0A"

definition is_space :: "char \<Rightarrow> bool" where
  "is_space c \<longleftrightarrow> code c = 32 \<or> 9 \<le> code c \<and> code c \<le> 13"

definition is_digit :: "char \<Rightarrow> bool" where
  "is_digit c \<longleftrightarrow> 48 \<le> code c \<and> code c \<le> 57"

definition digit_val :: "char \<Rightarrow> nat" where
  "digit_val c = (if is_digit c then code c - 48 else if 97 \<le> code c then code c - 87 else code c - 55)"

definition is_xdigit :: "char \<Rightarrow> bool" where
  "is_xdigit c \<longleftrightarrow> is_digit c \<or> 97 \<le> code c \<and> code c \<le> 102 \<or> 65 \<le> code c \<and> code c \<le> 70"

definition lower :: "char \<Rightarrow> nat" where
  "lower c = (if 65 \<le> code c \<and> code c \<le> 90 then code c + 32 else code c)"

definition c_str :: "string \<Rightarrow> string" where
  "c_str s = takeWhile (\<lambda>c. c \<noteq> CHR 0x00) s"

section \<open>Integers\<close>

definition number :: "nat \<Rightarrow> string \<Rightarrow> nat" where
  "number base s = foldl (\<lambda>n c. base * n + digit_val c) 0 s"

fun take_sign :: "string \<Rightarrow> bool \<times> string" where
  "take_sign (c # s) = (if c = CHR ''-'' then (True, s) else if c = CHR ''+'' then (False, s) else (False, c # s))"
| "take_sign [] = (False, [])"

text \<open>A value out of the range of \<^verbatim>\<open>long\<close> is returned as the nearest one.\<close>

definition strtol10 :: "string \<Rightarrow> int" where
  "strtol10 s =
     (let (neg, s) = take_sign (dropWhile is_space s);
          n = int (number 10 (takeWhile is_digit s));
          v = (if neg then - n else n)
      in max (- (2 ^ 63)) (min (2 ^ 63 - 1) v))"

definition atoi :: "string \<Rightarrow> int" where
  "atoi s = signed_take_bit 31 (strtol10 s)"

section \<open>Floating-point numbers\<close>

text \<open>The exponent part after the letter \<open>e\<close> or \<open>p\<close>; without digits there is none.\<close>

definition exponent :: "nat \<Rightarrow> string \<Rightarrow> int" where
  "exponent letter s =
     (case s of c # s \<Rightarrow>
        if lower c = letter then
          (let (neg, s) = take_sign s; n = int (number 10 (takeWhile is_digit s)) in if neg then - n else n)
        else 0
      | [] \<Rightarrow> 0)"

text \<open>The digits before and after the point, and the rest.\<close>

definition mantissa :: "(char \<Rightarrow> bool) \<Rightarrow> string \<Rightarrow> string \<times> string \<times> string" where
  "mantissa dig s =
     (let ip = takeWhile dig s; s = dropWhile dig s in
      case s of c # r \<Rightarrow> if c = CHR ''.'' \<and> (ip \<noteq> [] \<or> takeWhile dig r \<noteq> [])
                         then (ip, takeWhile dig r, dropWhile dig r) else (ip, [], s)
      | [] \<Rightarrow> (ip, [], []))"

definition decimal :: "string \<Rightarrow> rat" where
  "decimal s = (let (ip, fp, r) = mantissa is_digit s in
     if ip = [] \<and> fp = [] then 0
     else of_nat (number 10 (ip @ fp)) * 10 powi (exponent 101 r - int (length fp)))"

definition hexadecimal :: "string \<Rightarrow> rat" where
  "hexadecimal s = (let (ip, fp, r) = mantissa is_xdigit s in
     of_nat (number 16 (ip @ fp)) * 2 powi (exponent 112 r - 4 * int (length fp)))"

definition has_hex :: "string \<Rightarrow> bool" where
  "has_hex s \<longleftrightarrow> map lower (take 2 s) = [48, 120]
     \<and> (let (ip, fp, r) = mantissa is_xdigit (drop 2 s) in ip \<noteq> [] \<or> fp \<noteq> [])"

definition strtod :: "string \<Rightarrow> double" where
  "strtod s =
     (let (neg, s) = take_sign (dropWhile is_space s) in
      if map lower (take 3 s) = [105, 110, 102] then (if neg then NInf else PInf)
      else if map lower (take 3 s) = [110, 97, 110] then NaN
      else let q = (if has_hex s then hexadecimal (drop 2 s) else decimal s) in rnd (if neg then - q else q))"

definition atof :: "string \<Rightarrow> double" where
  "atof s = strtod s"

section \<open>Reading lines\<close>

text \<open>A stream: what is left to read and the end-of-file flag; and the buffer read into.\<close>

record stream =
  rest :: string
  eof :: bool
  buffer :: string

text \<open>At most \<open>k\<close> characters up to a newline; the flag tells whether the end was met.\<close>

fun read_line :: "nat \<Rightarrow> string \<Rightarrow> string \<times> string \<times> bool" where
  "read_line 0 s = ([], s, False)"
| "read_line (Suc k) [] = ([], [], True)"
| "read_line (Suc k) (c # s) =
     (if c = newline then ([c], s, False)
      else let (l, r, e) = read_line k s in (c # l, r, e))"

definition fgets :: "nat \<Rightarrow> stream \<Rightarrow> stream" where
  "fgets n f =
     (let (l, r, e) = read_line (n - 1) (rest f) in
      if l = [] then f\<lparr>eof := True\<rparr>
      else f\<lparr>rest := r, eof := eof f \<or> e, buffer := l\<rparr>)"

section \<open>Lemmas\<close>

lemma read_line_rest: "read_line k s = (l, r, e) \<Longrightarrow> s = l @ r"
  by (induction k s arbitrary: l r e rule: read_line.induct) (auto split: if_splits prod.splits)

lemma fgets_progress:
  "length (rest (fgets n f)) < length (rest f) \<or> eof (fgets n f) \<and> length (rest (fgets n f)) = length (rest f)"
proof -
  obtain l r e where r: "read_line (n - 1) (rest f) = (l, r, e)" by (metis prod_cases3)
  show ?thesis using read_line_rest [OF r] unfolding fgets_def r by (cases "l = []") auto
qed

lemma fgets_decreases:
  "\<not> eof f \<Longrightarrow> 2 * length (rest (fgets n f)) + (if eof (fgets n f) then 0 else 1) < 2 * length (rest f) + 1"
  using fgets_progress [of n f] by auto

lemma read_line_newline:
  "newline \<notin> set l \<Longrightarrow> length l < k \<Longrightarrow> read_line k (l @ newline # s) = (l @ [newline], s, False)"
  by (induction k l rule: read_line.induct) auto

lemma fgets_newline:
  assumes "newline \<notin> set l" "length l < n - 1" "rest f = l @ newline # s" "\<not> eof f"
  shows "fgets n f = f\<lparr>rest := s, buffer := l @ [newline]\<rparr>"
  using assms read_line_newline [of l "n - 1" s] by (simp add: fgets_def)

lemma fgets_end: "rest f = [] \<Longrightarrow> 1 < n \<Longrightarrow> fgets n f = f\<lparr>eof := True\<rparr>"
  by (cases "n - 1") (auto simp: fgets_def)

text \<open>The text of a natural number, and that it is read back.\<close>

function show_nat :: "nat \<Rightarrow> string" where
  "show_nat n = (if n < 10 then [char_of (48 + n)] else show_nat (n div 10) @ [char_of (48 + n mod 10)])"
  by auto
termination by (relation "measure id") auto

declare show_nat.simps [simp del]

lemma digit_char: "d < 10 \<Longrightarrow> is_digit (char_of (48 + d)) \<and> digit_val (char_of (48 + d)) = d"
  by (simp add: is_digit_def digit_val_def code_def)

lemma number_snoc: "number b (s @ [c]) = b * number b s + digit_val c"
  by (simp add: number_def)

lemma show_nat_digits: "list_all is_digit (show_nat n) \<and> show_nat n \<noteq> [] \<and> number 10 (show_nat n) = n"
proof (induction n rule: show_nat.induct)
  case (1 n)
  show ?case
  proof (cases "n < 10")
    case True
    then show ?thesis using digit_char [of n] by (simp add: show_nat.simps [of n] number_def)
  next
    case False
    then have "show_nat n = show_nat (n div 10) @ [char_of (48 + n mod 10)]" by (simp add: show_nat.simps [of n])
    then show ?thesis using 1 [OF False] digit_char [of "n mod 10"] by (simp add: number_snoc)
  qed
qed

lemma show_nat_length: "n < 10 ^ Suc k \<Longrightarrow> length (show_nat n) \<le> Suc k"
proof (induction k arbitrary: n)
  case 0
  then show ?case by (simp add: show_nat.simps [of n])
next
  case (Suc k)
  then have "n div 10 < 10 ^ Suc k" by (simp add: less_mult_imp_div_less mult.commute)
  then show ?case using Suc.IH [of "n div 10"] by (simp add: show_nat.simps [of n])
qed

lemma digit_not_space: "is_digit c \<Longrightarrow> \<not> is_space c \<and> c \<noteq> CHR ''-'' \<and> c \<noteq> CHR ''+''"
  by (auto simp: is_digit_def is_space_def code_def)

lemma digits_read:
  assumes "list_all is_digit s" "s \<noteq> []"
  shows "take_sign (dropWhile is_space s) = (False, s)" "takeWhile is_digit s = s" "dropWhile is_digit s = []"
  using assms digit_not_space by (cases s; auto simp: list_all_iff)+

lemma strtol10_show: "n < 2 ^ 63 \<Longrightarrow> strtol10 (show_nat n) = int n"
proof -
  assume n: "n < 2 ^ 63"
  have d: "list_all is_digit (show_nat n)" "show_nat n \<noteq> []" "number 10 (show_nat n) = n"
    using show_nat_digits by auto
  show ?thesis unfolding strtol10_def digits_read(1) [OF d(1,2)] using n by (simp add: digits_read(2) [OF d(1,2)] d(3))
qed

lemma lower_digit: "is_digit c \<Longrightarrow> lower c = code c \<and> code c < 58"
  by (auto simp: lower_def is_digit_def)

lemma strtod_show: "strtod (show_nat n) = rnd (of_nat n)"
proof -
  let ?s = "show_nat n"
  note d = show_nat_digits [of n]
  then have ds: "list_all is_digit ?s" "?s \<noteq> []" and n: "number 10 ?s = n" by auto
  have "\<forall>c \<in> set ?s. lower c < 58" using ds(1) lower_digit by (auto simp: list_all_iff)
  then have lt: "\<forall>x \<in> set (map lower (take k ?s)). x < 58" for k by (auto dest: in_set_takeD)
  have "map lower (take 3 ?s) \<noteq> [105, 110, 102]" "map lower (take 3 ?s) \<noteq> [110, 97, 110]"
    "map lower (take 2 ?s) \<noteq> [48, 120]"
    using lt [of 3] lt [of 2] by auto
  moreover have "mantissa is_digit ?s = (?s, [], [])"
    unfolding mantissa_def digits_read(2,3) [OF ds] by simp
  ultimately show ?thesis
    using digits_read(1) [OF ds] ds(2) n by (simp add: strtod_def has_hex_def decimal_def exponent_def)
qed

end
