(* ===== verification/Vemu_Power.thy ===== *)
theory Vemu_Power
  imports Vemu_Cycles
begin

text \<open>
  The power model of \<^verbatim>\<open>vemu_power_45nm.c\<close>: sleep power (leakage), active power (dynamic
  plus leakage), the evaluation of transistor aging, which degrades the threshold
  voltage and raises the supply voltage to compensate, and the printed table of powers.
  The macro \<^verbatim>\<open>ADAPTIVE\<close> is defined (as 0) and tested by \<^verbatim>\<open>#ifdef\<close>, so the adaptive code
  is compiled in.

  The values of \<^verbatim>\<open>exp\<close> and \<^verbatim>\<open>pow\<close> on doubles are not fixed by the C standard; the two
  functions of the mathematical library are the record \<open>libm\<close>, an argument of every
  definition that calls them.
\<close>

record libm =
  m_exp :: "double \<Rightarrow> double"
  m_pow :: "double \<Rightarrow> double \<Rightarrow> double"

definition TIME_SCALAR :: double where
  "TIME_SCALAR = lit 1051200"

section \<open>Operations\<close>

definition vemu_aging_evaluation ::
    "libm \<Rightarrow> u64 \<Rightarrow> cycles_state \<Rightarrow> esweek_pm \<Rightarrow> (double \<times> esweek_pm) result" where
  "vemu_aging_evaluation m now cs p =
     cbind (vemu_get_act_time 0 cs) (\<lambda>act.
     cbind (vemu_get_act_time 1 cs) (\<lambda>gated.
     cbind (vemu_get_slp_time now cs) (\<lambda>slp.
       let act_time = double_of_u64 act / lit (10 ^ 9) * TIME_SCALAR;
           clk_gated_time = double_of_u64 gated / lit (10 ^ 9) * TIME_SCALAR;
           slp_time = double_of_u64 slp / lit (10 ^ 9) * TIME_SCALAR;
           omega = (if pm_mode p < lit (1 / 2)
                    then (lit (1 / 2) * act_time + clk_gated_time) / (slp_time + act_time)
                    else (act_time + clk_gated_time) / (slp_time + act_time));
           omega = (if lit (99 / 100) < omega then lit (99 / 100) else omega);
           t = act_time + slp_time + clk_gated_time;
           temp = pm_T p + lit 273;
           C = lit (10 ^ 8) * m_exp m (lit (- 9864.2) / temp);
           Kv = lit (2.9642 / 10 ^ 44) * (pm_Vdd p - lit 0.65) * m_pow m C (lit 0.5)
                  * m_exp m ((pm_Vdd p - lit 0.65) / lit 0.1008);
           bt = (lit (1.1902 / 10 ^ 9) + lit 0.0707 * m_pow m ((lit 1 - omega) * C) (lit 0.5))
                  / (lit 1.3224 * lit (1 / 10 ^ 9) + m_pow m (C * t) (lit 0.5));
           bt = lit 1 - bt;
           delta_vt = lit 1917400000 * m_pow m ((m_pow m (lit 0.1 * omega) (lit 0.5) * Kv)
                        / (lit 1 - m_pow m bt (lit 3.6232))) (lit 0.276);
           nom_delay = pm_Vdd p / m_pow m (pm_Vdd p - (lit 0.4 + lit 0)) (lit 1.1)
                        + pm_Vdd p / m_pow m (pm_Vdd p - lit 0.5) (lit 1.1);
           sv = pm_Vdd_scalar p * pm_Vdd p;
           p = (if nom_delay < sv / m_pow m (sv - (lit 0.4 + delta_vt)) (lit 1.1)
                                 + sv / m_pow m (sv - lit 0.5) (lit 1.1)
                then p\<lparr>pm_Vdd_scalar := pm_Vdd_scalar p + lit 0.005\<rparr> else p);
           p = p\<lparr>pm_delta_vtp := delta_vt\<rparr>
       in Inr (delta_vt, p))))"

definition vemu_pm_slp_power :: "libm \<Rightarrow> esweek_pm \<Rightarrow> double" where
  "vemu_pm_slp_power m p =
     (let t = pm_T p + lit 273;
          v = pm_Vdd p;
          v = v * pm_Vdd_scalar p;
          power = pm_Nl p * v * t * t
            * (m_exp m (pm_Al p * pm_Vnl p / t) + m_exp m (pm_Al p * (pm_Vpl p + pm_delta_vtp p) / t))
            * m_exp m (pm_Bl p * v / t)
      in power / lit 1000000)"

definition vemu_pm_act_power :: "libm \<Rightarrow> u8 \<Rightarrow> esweek_pm \<Rightarrow> double" where
  "vemu_pm_act_power m cls p =
     (let v = pm_Vdd p;
          f = pm_F p / lit (10 ^ 6);
          v = v * pm_Vdd_scalar p;
          power = v * v + pm_Bd p * m_pow m (v - pm_Cd p - pm_delta_vtp p) (lit 3);
          power = power * pm_Nd p * f
      in power + vemu_pm_slp_power m p)"

text \<open>
  The printed lines are returned; the loop counter runs from -20 to 100. Entry 0 of the
  array, which the loop varies and restores, is the frequency.
\<close>

definition curve_row :: "libm \<Rightarrow> int \<Rightarrow> (int \<times> double \<times> double) list \<times> esweek_pm \<Rightarrow>
    (int \<times> double \<times> double) list \<times> esweek_pm" where
  "curve_row m ttt = (\<lambda>(out, p).
     let p = pm_of_array ((pm_array p)[0 := rnd (of_int ttt)])
     in (out @ [(ttt, vemu_pm_slp_power m p, vemu_pm_act_power m 0 p)], p))"

definition vemu_pm_print_temp_p_curve ::
    "libm \<Rightarrow> esweek_pm \<Rightarrow> (int \<times> double \<times> double) list \<times> esweek_pm" where
  "vemu_pm_print_temp_p_curve m p =
     (let oldT = pm_array p ! 0;
          (out, p) = fold (curve_row m) [- 20..100] ([], p)
      in (out, pm_of_array ((pm_array p)[0 := oldT])))"

section \<open>Properties\<close>

text \<open>
  The evaluation of aging returns whenever the three times it reads can be read. It
  changes nothing in the model but the threshold degradation, which it sets to the value
  it returns, and the supply scalar, which it leaves or raises by one step of 0.005.
\<close>

theorem aging_frame:
  assumes "vemu_get_act_time 0 cs = Inr a" "vemu_get_act_time 1 cs = Inr g" "vemu_get_slp_time now cs = Inr s"
  shows "\<exists>d k. vemu_aging_evaluation m now cs p = Inr (d, p\<lparr>pm_delta_vtp := d, pm_Vdd_scalar := k\<rparr>)
    \<and> k \<in> {pm_Vdd_scalar p, pm_Vdd_scalar p + lit 0.005}"
proof -
  have up: "\<exists>k. (if b then p\<lparr>pm_Vdd_scalar := pm_Vdd_scalar p + lit 0.005\<rparr> else p)\<lparr>pm_delta_vtp := d\<rparr>
      = p\<lparr>pm_delta_vtp := d, pm_Vdd_scalar := k\<rparr> \<and> k \<in> {pm_Vdd_scalar p, pm_Vdd_scalar p + lit 0.005}"
    for b d
    by (rule exI [of _ "if b then pm_Vdd_scalar p + lit 0.005 else pm_Vdd_scalar p"]) (cases p, simp)
  show ?thesis
    unfolding vemu_aging_evaluation_def assms cbind.simps Let_def
    by (rule exI) (use up in blast)
qed

theorem aging_frame_witness:
  "\<exists>d k. vemu_aging_evaluation \<lparr>m_exp = (\<lambda>_. 1), m_pow = (\<lambda>_ _. 1)\<rparr> 12 demo_asleep demo_pm
    = Inr (d, demo_pm\<lparr>pm_delta_vtp := d, pm_Vdd_scalar := k\<rparr>)"
proof -
  have "vemu_get_act_time 0 demo_asleep = Inr 5" "vemu_get_act_time 1 demo_asleep = Inr 0"
    by (simp_all add: vemu_get_act_time_def demo_asleep_def demo_awake_def cycles_eval)
  moreover have "vemu_get_slp_time 12 demo_asleep = Inr 7"
    by (simp add: vemu_get_slp_time_def i64_add_def demo_asleep_def demo_awake_def cycles_eval)
  ultimately show ?thesis using aging_frame by blast
qed

lemma pm_array_0: "pm_of_array ((pm_array p)[0 := v]) = p\<lparr>pm_F := v\<rparr>"
  by (simp add: pm_of_array_def pm_array_def)

lemma slp_power_frequency: "vemu_pm_slp_power m (p\<lparr>pm_F := f\<rparr>) = vemu_pm_slp_power m p"
  by (simp add: vemu_pm_slp_power_def)

lemma curve_row_eq:
  "curve_row m t (out, p) = (let q = p\<lparr>pm_F := rnd (of_int t)\<rparr> in
     (out @ [(t, vemu_pm_slp_power m p, vemu_pm_act_power m 0 q)], q))"
  by (simp add: curve_row_def pm_array_0 slp_power_frequency Let_def)

lemma curve_fold:
  "fold (curve_row m) ts (out, p) =
     (out @ map (\<lambda>t. (t, vemu_pm_slp_power m p, vemu_pm_act_power m 0 (p\<lparr>pm_F := rnd (of_int t)\<rparr>))) ts,
      if ts = [] then p else p\<lparr>pm_F := rnd (of_int (last ts))\<rparr>)"
proof (induction ts arbitrary: out p)
  case Nil
  then show ?case by simp
next
  case (Cons t ts)
  then show ?case
    by (simp add: curve_row_eq slp_power_frequency Let_def)
qed

text \<open>
  Printing the temperature curve leaves the model's parameters as they were, and
  prints one line for each of the 121 values; but what the loop varies is the frequency:
  the sleep power is the same on every line, that of the current temperature.
\<close>

theorem temp_curve:
  "vemu_pm_print_temp_p_curve m p =
     (map (\<lambda>t. (t, vemu_pm_slp_power m p, vemu_pm_act_power m 0 (p\<lparr>pm_F := rnd (of_int t)\<rparr>))) [- 20..100], p)"
proof -
  have "[- 20..100 :: int] \<noteq> []" by simp
  moreover have "p\<lparr>pm_F := f, pm_F := pm_array p ! 0\<rparr> = p" for f by (simp add: pm_array_def)
  ultimately show ?thesis
    unfolding vemu_pm_print_temp_p_curve_def curve_fold Let_def prod.case pm_array_0
    by (simp only: if_False append_Nil)
qed

end
