(* ===== verification/Vemu_Energy.thy ===== *)
theory Vemu_Energy
  imports Vemu_Power
begin

text \<open>
  Energy accounting, \<^verbatim>\<open>vemu_energy.c\<close>: each read of a class's active energy (or of the
  sleep energy) charges the time since the last read at the power the model gives now,
  and remembers the time of the read. The file-level variables are the record
  \<open>energy_state\<close>; the clock, the counters and the power model are arguments.
  The locale \<open>time_source\<close> is what the accounting relies on: times that only grow. It is
  interpreted on the counters of \<open>Vemu_Cycles\<close>.
\<close>

section \<open>State and operations\<close>

record energy_state =
  act_time_ckpt :: "u64 list"
  slp_time_ckpt :: u64
  act_energy :: "double list"
  slp_energy :: double

definition vemu_get_act_energy ::
    "libm \<Rightarrow> esweek_pm \<Rightarrow> cycles_state \<Rightarrow> u8 \<Rightarrow> energy_state \<Rightarrow> (u64 \<times> energy_state) result" where
  "vemu_get_act_energy m pm cs cls es =
     cbind (c_assert (unat cls < MAX_INSTR_CLASSES)) (\<lambda>_.
     cbind (vemu_get_act_time cls cs) (\<lambda>curr_time.
       let interval = curr_time - act_time_ckpt es ! unat cls;
           energy = double_of_u64 interval * vemu_pm_act_power m cls pm;
           es = es\<lparr>act_time_ckpt := (act_time_ckpt es)[unat cls := curr_time]\<rparr>;
           es = es\<lparr>act_energy := (act_energy es)[unat cls := act_energy es ! unat cls + energy]\<rparr>
       in cbind (u64_of_double (act_energy es ! unat cls)) (\<lambda>r. Inr (r, es))))"

definition vemu_get_act_energy_all_classes ::
    "libm \<Rightarrow> esweek_pm \<Rightarrow> cycles_state \<Rightarrow> energy_state \<Rightarrow> (u64 \<times> energy_state) result" where
  "vemu_get_act_energy_all_classes m pm cs es =
     cfold (\<lambda>i (sum, es). cbind (vemu_get_act_energy m pm cs (of_nat i) es) (\<lambda>(e, es). Inr (sum + e, es)))
       [0..<MAX_INSTR_CLASSES] (0, es)"

definition vemu_get_slp_energy ::
    "libm \<Rightarrow> u64 \<Rightarrow> esweek_pm \<Rightarrow> cycles_state \<Rightarrow> energy_state \<Rightarrow> (u64 \<times> energy_state) result" where
  "vemu_get_slp_energy m now pm cs es =
     cbind (vemu_get_slp_time now cs) (\<lambda>curr_slp_time.
       let interval = curr_slp_time - slp_time_ckpt es;
           energy = double_of_i64 interval * vemu_pm_slp_power m pm
       in if sint interval < 0 then cbind (u64_of_double (slp_energy es)) (\<lambda>r. Inr (r, es))
          else let es = es\<lparr>slp_time_ckpt := curr_slp_time\<rparr>;
                   es = es\<lparr>slp_energy := slp_energy es + energy\<rparr>
               in cbind (u64_of_double (slp_energy es)) (\<lambda>r. Inr (r, es)))"

definition vemu_energy_init :: "energy_state \<Rightarrow> energy_state" where
  "vemu_energy_init es =
     (let es = fold (\<lambda>i es. es\<lparr>act_time_ckpt := (act_time_ckpt es)[i := 0],
                               act_energy := (act_energy es)[i := 0]\<rparr>) [0..<MAX_INSTR_CLASSES] es
      in es\<lparr>slp_time_ckpt := 0, slp_energy := 0\<rparr>)"

text \<open>Static storage starts as zero.\<close>

definition energy_state_zero :: energy_state where
  "energy_state_zero = \<lparr>act_time_ckpt = replicate MAX_INSTR_CLASSES 0, slp_time_ckpt = 0,
     act_energy = replicate MAX_INSTR_CLASSES 0, slp_energy = 0\<rparr>"

definition vemu_energy_change_parameter ::
    "libm \<Rightarrow> u64 \<Rightarrow> cycles_state \<Rightarrow> u8 \<Rightarrow> u8 \<Rightarrow> double \<Rightarrow> esweek_pm \<times> energy_state \<Rightarrow>
       (esweek_pm \<times> energy_state) result" where
  "vemu_energy_change_parameter m now cs cc pp vv = (\<lambda>(pm, es).
     cbind (vemu_get_act_energy_all_classes m pm cs es) (\<lambda>(_, es).
     cbind (vemu_get_slp_energy m now pm cs es) (\<lambda>(_, es).
     cbind (vemu_pm_change_parameter cc pp vv pm) (\<lambda>pm.
       Inr (pm, es)))))"

text \<open>The states the counters can be in later on.\<close>

definition cycles_later :: "cycles_state \<Rightarrow> cycles_state \<Rightarrow> bool" where
  "cycles_later s s' \<longleftrightarrow> cycles_wf s
     \<and> (\<exists>pm tbs. freq_ok pm \<and> (\<forall>tb \<in> set tbs. tb_ok tb) \<and> run_tbs pm tbs s = Inr s')"

text \<open>
  Executions at fixed parameters: instructions, sleeps and wake-ups, and reads of the
  energies, in any order.
\<close>

inductive energy_reach :: "libm \<Rightarrow> esweek_pm \<Rightarrow> cycles_state \<Rightarrow> energy_state \<Rightarrow> bool" for m pm where
  start: "energy_reach m pm (vemu_init_cycles t0 cycles_state_zero) energy_state_zero"
| exec: "energy_reach m pm cs es \<Longrightarrow> tb_ok tb \<Longrightarrow> vemu_increment_cycles pm tb cs = Inr cs' \<Longrightarrow>
    energy_reach m pm cs' es"
| wfi: "energy_reach m pm cs es \<Longrightarrow> vemu_sleep_start now cs = Inr cs' \<Longrightarrow> energy_reach m pm cs' es"
| wake: "energy_reach m pm cs es \<Longrightarrow> vemu_active_start now cs = Inr cs' \<Longrightarrow> energy_reach m pm cs' es"
| read: "energy_reach m pm cs es \<Longrightarrow> vemu_get_act_energy m pm cs c es = Inr (r, es') \<Longrightarrow>
    energy_reach m pm cs es'"
| read_slp: "energy_reach m pm cs es \<Longrightarrow> vemu_get_slp_energy m now pm cs es = Inr (r, es') \<Longrightarrow>
    energy_reach m pm cs es'"

text \<open>A model with an active power of 1000 and no leakage.\<close>

definition demo_libm :: libm where
  "demo_libm = \<lparr>m_exp = (\<lambda>_. Fin 1), m_pow = (\<lambda>_ _. Fin 1)\<rparr>"

definition demo_energy_pm :: esweek_pm where
  "demo_energy_pm = demo_pm\<lparr>pm_Vdd := Fin 1, pm_Nd := Fin 1, pm_Vdd_scalar := Fin 1\<rparr>"

section \<open>The interface of the time source\<close>

locale time_source =
  fixes act :: "'c \<Rightarrow> 's \<Rightarrow> u64 result" and later :: "'s \<Rightarrow> 's \<Rightarrow> bool"
  assumes act_mono: "later s s' \<Longrightarrow> act c s = Inr v \<Longrightarrow> act c s' = Inr w \<Longrightarrow> v \<le> w"
begin

text \<open>The 64-bit difference of two times is the time between them: it does not wrap.\<close>

lemma elapsed:
  "later s s' \<Longrightarrow> act c s = Inr v \<Longrightarrow> act c s' = Inr w \<Longrightarrow> unat (w - v) = unat w - unat v"
  by (rule unat_sub) (rule act_mono)

lemma elapsed_sum:
  assumes "later s s'" "act c s = Inr v" "act c s' = Inr w" and "later s' s''" "act c s'' = Inr u"
  shows "unat (w - v) + unat (u - w) = unat u - unat v"
proof -
  have "unat v \<le> unat w" "unat w \<le> unat u"
    using act_mono [OF assms(1-3)] act_mono [OF assms(4,3,5)] by (simp_all add: word_le_nat_alt)
  then show ?thesis using elapsed [OF assms(1-3)] elapsed [OF assms(4,3,5)] by simp
qed

end

lemma unat_counter_mono:
  assumes "cycles_later s s'" "vemu_get_act_time c s = Inr v" "vemu_get_act_time c s' = Inr w"
  shows "v \<le> w"
  using assms run_tbs_monotone [of _ _ s s']
  by (auto simp: cycles_later_def vemu_get_act_time_def cbind_Inr_iff intro: u64_of_double_mono)

interpretation cyc: time_source vemu_get_act_time cycles_later
  by unfold_locales (rule unat_counter_mono)

section \<open>What a read charges\<close>

definition energy_wf :: "energy_state \<Rightarrow> bool" where
  "energy_wf es \<longleftrightarrow> length (act_time_ckpt es) = MAX_INSTR_CLASSES \<and> length (act_energy es) = MAX_INSTR_CLASSES
     \<and> list_all wf_double (act_energy es) \<and> wf_double (slp_energy es)"

text \<open>Class \<open>c\<close> is charged up to time \<open>t\<close> at power \<open>P\<close>.\<close>

definition charge :: "double \<Rightarrow> nat \<Rightarrow> u64 \<Rightarrow> energy_state \<Rightarrow> energy_state" where
  "charge P c t es = es\<lparr>act_time_ckpt := (act_time_ckpt es)[c := t],
     act_energy := (act_energy es)[c := act_energy es ! c + double_of_u64 (t - act_time_ckpt es ! c) * P]\<rparr>"

lemma act_power_class: "vemu_pm_act_power m c pm = vemu_pm_act_power m 0 pm"
  by (simp add: vemu_pm_act_power_def)

lemma act_energy_Inr:
  assumes "energy_wf es"
  shows "vemu_get_act_energy m pm cs c es = Inr (r, es') \<longleftrightarrow>
    unat c < MAX_INSTR_CLASSES \<and> (\<exists>t. vemu_get_act_time c cs = Inr t
      \<and> es' = charge (vemu_pm_act_power m 0 pm) (unat c) t es
      \<and> u64_of_double (act_energy es' ! unat c) = Inr r)"
  using assms
  by (auto simp: vemu_get_act_energy_def cbind_Inr_iff Let_def charge_def energy_wf_def act_power_class [of m c])

lemma energy_wf_charge [c_inv]: "energy_wf es \<Longrightarrow> energy_wf (charge P c t es)"
  by (auto simp: energy_wf_def charge_def intro: list_all_update)

lemma charge_simps [simp]:
  "slp_time_ckpt (charge P c t es) = slp_time_ckpt es" "slp_energy (charge P c t es) = slp_energy es"
  by (simp_all add: charge_def)

lemma charge_nth:
  assumes "energy_wf es" "c < MAX_INSTR_CLASSES"
  shows "act_time_ckpt (charge P c t es) ! i = (if i = c then t else act_time_ckpt es ! i)"
    "act_energy (charge P c t es) ! i = (if i = c
       then act_energy es ! c + double_of_u64 (t - act_time_ckpt es ! c) * P else act_energy es ! i)"
  using assms by (auto simp: charge_def energy_wf_def)

text \<open>The loop over the classes charges each of them once.\<close>

definition charge_all :: "double \<Rightarrow> (nat \<Rightarrow> u64) \<Rightarrow> energy_state \<Rightarrow> energy_state" where
  "charge_all P t es = charge P 3 (t 3) (charge P 2 (t 2) (charge P 1 (t 1) (charge P 0 (t 0) es)))"

definition times_read :: "cycles_state \<Rightarrow> (nat \<Rightarrow> u64) \<Rightarrow> bool" where
  "times_read cs t \<longleftrightarrow> (\<forall>i < MAX_INSTR_CLASSES. vemu_get_act_time (of_nat i) cs = Inr (t i))"

definition energies_read :: "energy_state \<Rightarrow> (nat \<Rightarrow> u64) \<Rightarrow> bool" where
  "energies_read es r \<longleftrightarrow> (\<forall>i < MAX_INSTR_CLASSES. u64_of_double (act_energy es ! i) = Inr (r i))"

lemma all_below_4: "(\<forall>i < MAX_INSTR_CLASSES. Q i) \<longleftrightarrow> Q 0 \<and> Q 1 \<and> Q 2 \<and> Q 3"
  by (auto simp: MAX_INSTR_CLASSES_def numeral_eq_Suc All_less_Suc)

lemma energy_wf_charge_all [c_inv]: "energy_wf es \<Longrightarrow> energy_wf (charge_all P t es)"
  by (simp add: charge_all_def c_inv)

lemma charge_all_simps [simp]:
  "slp_time_ckpt (charge_all P t es) = slp_time_ckpt es" "slp_energy (charge_all P t es) = slp_energy es"
  by (simp_all add: charge_all_def)

lemma charge_all_nth:
  assumes "energy_wf es" "i < MAX_INSTR_CLASSES"
  shows "act_time_ckpt (charge_all P t es) ! i = t i"
    "act_energy (charge_all P t es) ! i =
       act_energy es ! i + double_of_u64 (t i - act_time_ckpt es ! i) * P"
proof -
  have "i \<in> {0, 1, 2, 3}" using assms(2) by (auto simp: MAX_INSTR_CLASSES_def)
  then show "act_time_ckpt (charge_all P t es) ! i = t i"
    "act_energy (charge_all P t es) ! i =
       act_energy es ! i + double_of_u64 (t i - act_time_ckpt es ! i) * P"
    using assms(1) by (auto simp: charge_all_def charge_nth c_inv MAX_INSTR_CLASSES_def)
qed

lemma all_classes_Inr:
  assumes "energy_wf es"
  shows "vemu_get_act_energy_all_classes m pm cs es = Inr (tot, es') \<longleftrightarrow>
    (\<exists>t r. times_read cs t \<and> es' = charge_all (vemu_pm_act_power m 0 pm) t es \<and> energies_read es' r
       \<and> tot = r 0 + r 1 + r 2 + r 3)"
proof -
  let ?P = "vemu_pm_act_power m 0 pm"
  have l: "[0..<MAX_INSTR_CLASSES] = [0, 1, 2, 3]" by (simp add: MAX_INSTR_CLASSES_def upt_conv_Cons)
  have "vemu_get_act_energy_all_classes m pm cs es = Inr (tot, es') \<longleftrightarrow>
    (\<exists>a b c d p q r s. vemu_get_act_time 0 cs = Inr a \<and> vemu_get_act_time 1 cs = Inr b
       \<and> vemu_get_act_time 2 cs = Inr c \<and> vemu_get_act_time 3 cs = Inr d
       \<and> es' = charge ?P 3 d (charge ?P 2 c (charge ?P 1 b (charge ?P 0 a es)))
       \<and> u64_of_double (act_energy es' ! 0) = Inr p \<and> u64_of_double (act_energy es' ! 1) = Inr q
       \<and> u64_of_double (act_energy es' ! 2) = Inr r \<and> u64_of_double (act_energy es' ! 3) = Inr s
       \<and> tot = p + q + r + s)"
    unfolding vemu_get_act_energy_all_classes_def l
    using assms
    by (auto simp: cbind_Inr_iff act_energy_Inr c_inv charge_nth MAX_INSTR_CLASSES_def)
  also have "\<dots> \<longleftrightarrow> (\<exists>t r. times_read cs t \<and> es' = charge_all ?P t es \<and> energies_read es' r
       \<and> tot = r 0 + r 1 + r 2 + r 3)" (is "?L \<longleftrightarrow> ?R")
  proof
    assume ?L
    then obtain a b c d p q r s where "vemu_get_act_time 0 cs = Inr a \<and> vemu_get_act_time 1 cs = Inr b
       \<and> vemu_get_act_time 2 cs = Inr c \<and> vemu_get_act_time 3 cs = Inr d
       \<and> es' = charge ?P 3 d (charge ?P 2 c (charge ?P 1 b (charge ?P 0 a es)))
       \<and> u64_of_double (act_energy es' ! 0) = Inr p \<and> u64_of_double (act_energy es' ! 1) = Inr q
       \<and> u64_of_double (act_energy es' ! 2) = Inr r \<and> u64_of_double (act_energy es' ! 3) = Inr s
       \<and> tot = p + q + r + s" by blast
    then show ?R
      by (rule_tac x = "(!) [a, b, c, d]" in exI, rule_tac x = "(!) [p, q, r, s]" in exI)
         (simp add: times_read_def energies_read_def all_below_4 charge_all_def)
  qed (auto simp: times_read_def energies_read_def all_below_4 charge_all_def)
  finally show ?thesis .
qed

section \<open>Reads at one instant\<close>

lemma double_add_nothing:
  assumes "wf_double a" "u64_of_double a = Inr r"
  shows "a + double_of_u64 0 * Fin p = a" "a + double_of_i64 0 * Fin p = a"
proof -
  obtain q where q: "a = Fin q" using assms(2) by (auto simp: u64_of_double_Inr)
  have "rnd q = Fin q" using assms(1) q by (auto intro: rnd_wf)
  then show "a + double_of_u64 0 * Fin p = a" "a + double_of_i64 0 * Fin p = a"
    by (simp_all add: q double_of_u64_def double_of_i64_def plus_double_def times_double_def)
qed

lemma times_read_unique: "times_read cs t \<Longrightarrow> times_read cs t' \<Longrightarrow> i < MAX_INSTR_CLASSES \<Longrightarrow> t i = t' i"
  unfolding times_read_def by (metis Inr_inject)

lemma charge_same:
  assumes "energy_wf es" "c < MAX_INSTR_CLASSES" "act_time_ckpt es ! c = t"
    and "u64_of_double (act_energy es ! c) = Inr r"
  shows "charge (Fin p) c t es = es"
proof -
  have "wf_double (act_energy es ! c)" using assms(1,2) by (simp add: energy_wf_def list_all_length)
  then have "act_energy es ! c + double_of_u64 (t - act_time_ckpt es ! c) * Fin p = act_energy es ! c"
    using assms(3,4) double_add_nothing by simp
  moreover have "(act_time_ckpt es)[c := t] = act_time_ckpt es"
    using assms(3) by (metis list_update_id)
  ultimately show ?thesis by (simp add: charge_def)
qed

lemma charge_all_same:
  assumes "energy_wf es" "energies_read es r" "\<forall>i < MAX_INSTR_CLASSES. act_time_ckpt es ! i = t i"
  shows "charge_all (Fin p) t es = es"
proof -
  have "charge (Fin p) i (t i) es = es" if "i < MAX_INSTR_CLASSES" for i
    using assms that by (auto simp: energies_read_def intro: charge_same)
  then show ?thesis by (simp add: charge_all_def MAX_INSTR_CLASSES_def)
qed

lemma slp_energy_Inr:
  "vemu_get_slp_energy m now pm cs es = Inr (r, es') \<longleftrightarrow>
    (\<exists>t. vemu_get_slp_time now cs = Inr t \<and> u64_of_double (slp_energy es') = Inr r
      \<and> es' = (if sint (t - slp_time_ckpt es) < 0 then es
               else es\<lparr>slp_time_ckpt := t, slp_energy := slp_energy es
                        + double_of_i64 (t - slp_time_ckpt es) * vemu_pm_slp_power m pm\<rparr>))"
proof (cases "vemu_get_slp_time now cs")
  case (Inr t)
  then show ?thesis
    by (cases "sint (t - slp_time_ckpt es) < 0")
       (auto simp: vemu_get_slp_energy_def cbind_Inr_iff Let_def)
qed (simp add: vemu_get_slp_energy_def)

lemma energy_wf_slp [c_inv]:
  "vemu_get_slp_energy m now pm cs es = Inr (r, es') \<Longrightarrow> energy_wf es \<Longrightarrow> energy_wf es'"
  by (auto simp: slp_energy_Inr energy_wf_def split: if_splits)

lemma slp_frame:
  "vemu_get_slp_energy m now pm cs es = Inr (r, es') \<Longrightarrow>
     act_time_ckpt es' = act_time_ckpt es \<and> act_energy es' = act_energy es"
  by (auto simp: slp_energy_Inr split: if_splits)

lemma slp_read_again:
  assumes "vemu_get_slp_energy m now pm cs es = Inr (b, es')" "vemu_pm_slp_power m pm = Fin q" "energy_wf es'"
  shows "vemu_get_slp_energy m now pm cs es' = Inr (b, es')"
proof -
  from assms(1) obtain t where t: "vemu_get_slp_time now cs = Inr t"
    and b: "u64_of_double (slp_energy es') = Inr b"
    and es': "es' = (if sint (t - slp_time_ckpt es) < 0 then es
               else es\<lparr>slp_time_ckpt := t, slp_energy := slp_energy es
                        + double_of_i64 (t - slp_time_ckpt es) * vemu_pm_slp_power m pm\<rparr>)"
    unfolding slp_energy_Inr by blast
  show ?thesis
  proof (cases "sint (t - slp_time_ckpt es) < 0")
    case True
    then have "es' = es" by (simp add: es')
    with assms(1) show ?thesis by simp
  next
    case False
    then have ck: "slp_time_ckpt es' = t" by (simp add: es')
    have "wf_double (slp_energy es')" using assms(3) by (simp add: energy_wf_def)
    then have "slp_energy es' + double_of_i64 (t - slp_time_ckpt es') * Fin q = slp_energy es'"
      using b by (simp add: ck double_add_nothing)
    moreover have "es'\<lparr>slp_time_ckpt := t, slp_energy := slp_energy es'\<rparr> = es'" using ck by simp
    ultimately show ?thesis unfolding slp_energy_Inr assms(2) using t b ck by simp
  qed
qed

section \<open>Reads at fixed parameters\<close>

lemma u64_of_double_floor:
  assumes "u64_of_double d = Inr t" "0 \<le> d"
  shows "Fin (of_nat (unat t)) \<le> d" "Fin (of_nat n) \<le> d \<Longrightarrow> n \<le> unat t"
proof -
  from assms obtain q where q: "d = Fin q" "0 \<le> q" "uint t = \<lfloor>q\<rfloor>"
    by (auto simp: u64_of_double_Inr truncq_def dbl_defs split: if_splits)
  have f: "int (unat t) = \<lfloor>q\<rfloor>" using q(3) by (simp only: uint_nat)
  have "(of_nat (unat t) :: rat) = of_int (int (unat t))" by simp
  also have "\<dots> \<le> q" unfolding f by (rule of_int_floor_le)
  finally show "Fin (of_nat (unat t)) \<le> d" by (simp add: q(1) less_eq_double_def)
  assume "Fin (of_nat n) \<le> d"
  then have "of_int (int n) \<le> q" by (simp add: q(1) less_eq_double_def)
  then have "int n \<le> \<lfloor>q\<rfloor>" by (simp only: le_floor_iff)
  then show "n \<le> unat t" unfolding f [symmetric] by (simp only: of_nat_le_iff)
qed

lemma rnd_of_nat: "n \<le> 2 ^ 53 \<Longrightarrow> rnd (of_nat n) = Fin (of_nat n)"
  using rnd_of_int [of "int n"] by simp

lemma exact_charge:
  assumes "a = Fin (of_nat (P * unat k))" "unat k \<le> unat t" "P * unat t \<le> 2 ^ 53" "0 < P"
  shows "a + double_of_u64 (t - k) * Fin (of_nat P) = Fin (of_nat (P * unat t))"
proof -
  let ?n = "unat t - unat k"
  have n: "unat (t - k) = ?n" using assms(2) by (intro unat_sub) (simp add: word_le_nat_alt)
  have "?n \<le> P * unat t" using assms(4) by (cases P) auto
  then have "uint (t - k) \<le> 2 ^ 53" using assms(3) n by (simp add: uint_nat)
  then have d: "double_of_u64 (t - k) = Fin (of_nat ?n)"
    by (subst double_of_u64_exact) (simp_all add: uint_nat n)
  have m: "P * unat k + P * ?n = P * unat t" using assms(2) by (simp add: algebra_simps)
  then have "P * ?n \<le> 2 ^ 53" using assms(3) by linarith
  then have "rnd (of_nat (P * ?n)) = Fin (of_nat (P * ?n))" by (rule rnd_of_nat)
  then have "double_of_u64 (t - k) * Fin (of_nat P) = Fin (of_nat (P * ?n))"
    by (simp add: d times_double_def mult.commute)
  then show ?thesis
    using double_sum_exact [OF assms(1) _ , of _ "P * ?n"] assms(3) by (simp add: m)
qed

text \<open>
  At a constant power of \<open>P\<close> a class's energy is \<open>P\<close> times the time charged so far, and
  no more time has been charged than has passed.
\<close>

definition charged_inv :: "nat \<Rightarrow> cycles_state \<Rightarrow> energy_state \<Rightarrow> bool" where
  "charged_inv P cs es \<longleftrightarrow> cycles_wf cs \<and> energy_wf es \<and> (\<forall>i < MAX_INSTR_CLASSES.
     Fin (of_nat (unat (act_time_ckpt es ! i))) \<le> active_time cs ! i
     \<and> (P * unat (act_time_ckpt es ! i) \<le> 2 ^ 53 \<longrightarrow>
          act_energy es ! i = Fin (of_nat (P * unat (act_time_ckpt es ! i)))))"

lemma charged_inv_start: "charged_inv P (vemu_init_cycles t0 cycles_state_zero) energy_state_zero"
  using cycles_wf_init [OF cycles_wf_zero]
  by (simp add: charged_inv_def energy_wf_def energy_state_zero_def list_all_length,
      simp add: vemu_init_cycles_def cycles_state_zero_def dbl_defs)

lemma charged_inv_time:
  assumes "charged_inv P cs es" "cycles_wf cs'" "\<forall>i < MAX_INSTR_CLASSES. active_time cs ! i \<le> active_time cs' ! i"
  shows "charged_inv P cs' es"
  using assms unfolding charged_inv_def by (blast intro: dle_trans)

lemma charged_inv_frame:
  assumes "charged_inv P cs es" "cycles_wf cs'" "active_time cs' = active_time cs"
  shows "charged_inv P cs' es"
  using assms by (simp add: charged_inv_def)

lemma charged_read:
  assumes "charged_inv P cs es" "unat c < MAX_INSTR_CLASSES" "vemu_get_act_time c cs = Inr t"
  shows "unat (act_time_ckpt es ! unat c) \<le> unat t" "Fin (of_nat (unat t)) \<le> active_time cs ! unat c"
    "0 < P \<Longrightarrow> P * unat t \<le> 2 ^ 53 \<Longrightarrow>
       act_energy (charge (Fin (of_nat P)) (unat c) t es) ! unat c = Fin (of_nat (P * unat t))"
proof -
  have d: "u64_of_double (active_time cs ! unat c) = Inr t"
    using assms(2,3) by (simp add: vemu_get_act_time_def)
  have "0 \<le> active_time cs ! unat c"
    using assms(1,2) cycles_wf_counters(2) by (auto simp: charged_inv_def counter_ok_def)
  note f = u64_of_double_floor [OF d this]
  show le: "unat (act_time_ckpt es ! unat c) \<le> unat t" "Fin (of_nat (unat t)) \<le> active_time cs ! unat c"
    using f assms(1,2) by (auto simp: charged_inv_def)
  assume P: "0 < P" "P * unat t \<le> 2 ^ 53"
  have "P * unat (act_time_ckpt es ! unat c) \<le> 2 ^ 53"
    using le(1) P(2) by (meson mult_le_mono2 order_trans)
  then have "act_energy es ! unat c = Fin (of_nat (P * unat (act_time_ckpt es ! unat c)))"
    using assms(1,2) by (simp add: charged_inv_def)
  then show "act_energy (charge (Fin (of_nat P)) (unat c) t es) ! unat c = Fin (of_nat (P * unat t))"
    using exact_charge [OF _ le(1) P(2,1)] assms(1,2) by (simp add: charge_nth charged_inv_def)
qed

lemma charged_inv_read:
  assumes "charged_inv P cs es" "vemu_get_act_energy m pm cs c es = Inr (r, es')"
    and "vemu_pm_act_power m 0 pm = Fin (of_nat P)" "0 < P"
  shows "charged_inv P cs es'"
proof -
  have wf: "energy_wf es" using assms(1) by (simp add: charged_inv_def)
  from assms(2) obtain t where c: "unat c < MAX_INSTR_CLASSES" and t: "vemu_get_act_time c cs = Inr t"
    and es': "es' = charge (Fin (of_nat P)) (unat c) t es"
    by (auto simp: act_energy_Inr [OF wf] assms(3))
  show ?thesis
    using assms(1) charged_read [OF assms(1) c t] charge_nth [OF wf c] energy_wf_charge [OF wf] assms(4)
    by (auto simp: charged_inv_def es')
qed

lemma charged_inv_slp:
  assumes "charged_inv P cs es" "vemu_get_slp_energy m now pm cs es = Inr (r, es')"
  shows "charged_inv P cs es'"
  using assms slp_frame [OF assms(2)] energy_wf_slp [OF assms(2)] by (simp add: charged_inv_def)

lemma charged_inv_reach:
  assumes "energy_reach m pm cs es" "freq_ok pm" "vemu_pm_act_power m 0 pm = Fin (of_nat P)" "0 < P"
  shows "charged_inv P cs es"
  using assms(1)
proof (induction rule: energy_reach.induct)
  case (start t0)
  show ?case by (rule charged_inv_start)
next
  case (exec cs es tb cs')
  have wf: "cycles_wf cs" using exec.IH by (simp add: charged_inv_def)
  show ?case
    using charged_inv_time [OF exec.IH cycles_wf_increment [OF exec.hyps(3) wf exec.hyps(2) assms(2)]]
      increment_counters(2) [OF exec.hyps(3) wf exec.hyps(2) assms(2)] by blast
next
  case (wfi cs es now cs')
  have "active_time cs' = active_time cs" using wfi.hyps(2) by (auto elim: sleep_start_eq)
  then show ?case
    using wfi by (intro charged_inv_frame [OF wfi.IH]) (auto simp: charged_inv_def intro: cycles_wf_sleep)
next
  case (wake cs es now cs')
  have "active_time cs' = active_time cs"
    using wake.hyps(2) by (auto simp: vemu_active_start_def Let_def cbind_Inr_iff split: if_splits)
  then show ?case
    using wake by (intro charged_inv_frame [OF wake.IH]) (auto simp: charged_inv_def intro: cycles_wf_active)
qed (use assms(3,4) charged_inv_read charged_inv_slp in blast)+

lemma demo_power:
  "vemu_pm_act_power demo_libm c demo_energy_pm = Fin 1000" "vemu_pm_slp_power demo_libm demo_energy_pm = Fin 0"
  by (simp_all add: vemu_pm_act_power_def vemu_pm_slp_power_def demo_libm_def demo_energy_pm_def demo_pm_def
      pm_parameters_init_def pm_of_array_def Let_def dbl_eval)

lemma demo_energy_freq: "freq_ok demo_energy_pm"
  using demo_freq by (simp add: freq_ok_def demo_energy_pm_def)

lemma demo_energy_exec:
  "vemu_increment_cycles demo_energy_pm demo_tb (vemu_init_cycles 0 cycles_state_zero) = Inr demo_awake"
  using demo_exec
  by (simp add: vemu_increment_cycles_def period_ns_def get_frequency demo_energy_pm_def)

definition demo_read :: energy_state where
  "demo_read = \<lparr>act_time_ckpt = [5, 0, 0, 0], slp_time_ckpt = 7, act_energy = [Fin 5000, 0, 0, 0], slp_energy = 0\<rparr>"

lemma demo_reads:
  "vemu_get_act_energy_all_classes demo_libm demo_energy_pm demo_asleep energy_state_zero =
     Inr (5000, demo_read\<lparr>slp_time_ckpt := 0\<rparr>)"
  "vemu_get_slp_energy demo_libm 12 demo_energy_pm demo_asleep (demo_read\<lparr>slp_time_ckpt := 0\<rparr>) = Inr (0, demo_read)"
proof -
  show "vemu_get_act_energy_all_classes demo_libm demo_energy_pm demo_asleep energy_state_zero =
     Inr (5000, demo_read\<lparr>slp_time_ckpt := 0\<rparr>)"
    by (simp add: vemu_get_act_energy_all_classes_def vemu_get_act_energy_def vemu_get_act_time_def
        demo_asleep_def demo_awake_def demo_power energy_state_zero_def demo_read_def cycles_eval)
  show "vemu_get_slp_energy demo_libm 12 demo_energy_pm demo_asleep (demo_read\<lparr>slp_time_ckpt := 0\<rparr>) = Inr (0, demo_read)"
    by (simp add: vemu_get_slp_energy_def vemu_get_slp_time_def i64_add_def double_of_i64_def
        demo_asleep_def demo_awake_def demo_power demo_read_def cycles_eval)
qed

definition demo_awake2 :: cycles_state where
  "demo_awake2 = demo_awake\<lparr>cycle_count := [Fin 10, 0, 0, 0], active_time := [Fin 10, 0, 0, 0]\<rparr>"

lemma demo_later: "cycles_later demo_awake demo_awake2"
proof -
  have "run_tbs demo_pm [demo_tb] demo_awake = Inr demo_awake2"
    by (simp add: run_tbs_def vemu_increment_cycles_def demo_pm_def demo_tb_def instr_def period_ns_def
        get_frequency demo_awake_def demo_awake2_def, simp add: cycles_eval)
  then show ?thesis
    using demo_wf demo_freq whole_tb_ok [OF demo_tb_whole(1)] unfolding cycles_later_def
    by (intro conjI exI [of _ demo_pm] exI [of _ "[demo_tb]"]) auto
qed

lemma demo_times: "vemu_get_act_time 0 demo_awake = Inr 5" "vemu_get_act_time 0 demo_awake2 = Inr 10"
  by (simp_all add: vemu_get_act_time_def demo_awake_def demo_awake2_def cycles_eval)

lemma demo_power2: "vemu_pm_act_power demo_libm c (demo_energy_pm\<lparr>pm_Nd := Fin 2\<rparr>) = Fin 2000"
  by (simp add: vemu_pm_act_power_def vemu_pm_slp_power_def demo_libm_def demo_energy_pm_def demo_pm_def
      pm_parameters_init_def pm_of_array_def Let_def dbl_eval)

lemma demo_change:
  "vemu_energy_change_parameter demo_libm 3 demo_awake 0 3 (Fin 2) (demo_energy_pm, energy_state_zero)
      = Inr (demo_energy_pm\<lparr>pm_Nd := Fin 2\<rparr>, demo_read\<lparr>slp_time_ckpt := 0\<rparr>)"
proof -
  have "active_time demo_asleep = active_time demo_awake" by (simp add: demo_asleep_def)
  then have "vemu_get_act_energy_all_classes demo_libm demo_energy_pm demo_awake energy_state_zero =
     Inr (5000, demo_read\<lparr>slp_time_ckpt := 0\<rparr>)"
    using demo_reads(1)
    by (simp add: vemu_get_act_energy_all_classes_def vemu_get_act_energy_def vemu_get_act_time_def)
  moreover have "vemu_get_slp_energy demo_libm 3 demo_energy_pm demo_awake (demo_read\<lparr>slp_time_ckpt := 0\<rparr>)
      = Inr (0, demo_read\<lparr>slp_time_ckpt := 0\<rparr>)"
    by (simp add: vemu_get_slp_energy_def vemu_get_slp_time_def double_of_i64_def
        demo_awake_def demo_power demo_read_def cycles_eval)
  moreover have "vemu_pm_change_parameter 0 3 (Fin 2) demo_energy_pm = Inr (demo_energy_pm\<lparr>pm_Nd := Fin 2\<rparr>)"
    by (simp add: vemu_pm_change_parameter_def pm_of_array_def pm_array_def)
  ultimately show ?thesis by (simp add: vemu_energy_change_parameter_def)
qed

lemma demo_read_later:
  "vemu_get_act_energy demo_libm (demo_energy_pm\<lparr>pm_Nd := Fin 2\<rparr>) demo_awake2 0 (demo_read\<lparr>slp_time_ckpt := 0\<rparr>)
     = Inr (15000, charge (Fin 2000) 0 10 (demo_read\<lparr>slp_time_ckpt := 0\<rparr>))"
  by (simp add: vemu_get_act_energy_def demo_times demo_power2 demo_read_def charge_def cycles_eval)

section \<open>Correctness of the accounting\<close>

text \<open>
  Reading the energies again at the same instant, at finite powers, returns the same
  values and changes nothing: no time is charged twice.
\<close>

theorem energy_read_idempotent:
  assumes "energy_wf es" "vemu_pm_act_power m 0 pm = Fin p" "vemu_pm_slp_power m pm = Fin q"
    and "vemu_get_act_energy_all_classes m pm cs es = Inr (a, es1)"
    and "vemu_get_slp_energy m now pm cs es1 = Inr (b, es2)"
  shows "vemu_get_act_energy_all_classes m pm cs es2 = Inr (a, es2)
    \<and> vemu_get_slp_energy m now pm cs es2 = Inr (b, es2)"
proof
  from assms(4) obtain t r where t: "times_read cs t" and es1: "es1 = charge_all (Fin p) t es"
    and r: "energies_read es1 r" and a: "a = r 0 + r 1 + r 2 + r 3"
    by (auto simp: all_classes_Inr [OF assms(1)] assms(2))
  have wf1: "energy_wf es1" unfolding es1 using assms(1) by (rule energy_wf_charge_all)
  note wf = wf1 energy_wf_slp [OF assms(5) wf1]
  have r2: "energies_read es2 r" using r slp_frame [OF assms(5)] by (simp add: energies_read_def)
  have "\<forall>i < MAX_INSTR_CLASSES. act_time_ckpt es2 ! i = t i"
    using slp_frame [OF assms(5)] charge_all_nth(1) [OF assms(1)] by (simp add: es1)
  then have "charge_all (Fin p) t es2 = es2" using wf r2 by (intro charge_all_same)
  then show "vemu_get_act_energy_all_classes m pm cs es2 = Inr (a, es2)"
    unfolding all_classes_Inr [OF wf(2)] assms(2)
    by (intro exI [of _ t] exI [of _ r]) (simp add: t r2 a)
  show "vemu_get_slp_energy m now pm cs es2 = Inr (b, es2)"
    by (rule slp_read_again [OF assms(5,3) wf(2)])
qed

theorem energy_read_idempotent_witness:
  "\<exists>a es1 b es2. vemu_get_act_energy_all_classes demo_libm demo_energy_pm demo_asleep energy_state_zero = Inr (a, es1)
    \<and> vemu_get_slp_energy demo_libm 12 demo_energy_pm demo_asleep es1 = Inr (b, es2)
    \<and> vemu_get_act_energy_all_classes demo_libm demo_energy_pm demo_asleep es2 = Inr (a, es2)
    \<and> vemu_get_slp_energy demo_libm 12 demo_energy_pm demo_asleep es2 = Inr (b, es2)"
proof -
  have wf: "energy_wf energy_state_zero" by (simp add: energy_wf_def energy_state_zero_def list_all_length)
  note r = demo_reads
  show ?thesis
    using r energy_read_idempotent [OF wf _ demo_power(2) r(1,2)] demo_power(1) by blast
qed

text \<open>
  C12. A change of a parameter through \<open>vemu_energy_change_parameter\<close> bills the past at the
  old power and the future at the new one. Between the change (counters \<open>cs\<close>, active time
  \<open>t1\<close> of class \<open>c\<close>) and a later read (counters \<open>cs'\<close>, active time \<open>t2\<close>), the energy of
  the class grows first by the time since the last read times the power before the change,
  then by the time since the change times the power after it; the second interval is
  exactly \<open>t2 - t1\<close>.
\<close>

theorem change_parameter_bills:
  assumes "energy_wf es" "vemu_energy_change_parameter m now cs cc pp vv (pm, es) = Inr (pm', es')"
    and "cycles_later cs cs'" "vemu_get_act_time c cs = Inr t1" "vemu_get_act_time c cs' = Inr t2"
    and "vemu_get_act_energy m pm' cs' c es' = Inr (r, es'')"
  shows "act_energy es'' ! unat c =
      act_energy es ! unat c + double_of_u64 (t1 - act_time_ckpt es ! unat c) * vemu_pm_act_power m c pm
        + double_of_u64 (t2 - t1) * vemu_pm_act_power m c pm'
    \<and> unat (t2 - t1) = unat t2 - unat t1
    \<and> vemu_pm_change_parameter cc pp vv pm = Inr pm'"
proof -
  from assms(2) obtain a es1 b where
    1: "vemu_get_act_energy_all_classes m pm cs es = Inr (a, es1)" and
    2: "vemu_get_slp_energy m now pm cs es1 = Inr (b, es')" and
    3: "vemu_pm_change_parameter cc pp vv pm = Inr pm'"
    by (auto simp: vemu_energy_change_parameter_def cbind_Inr_iff)
  from 1 obtain t where t: "times_read cs t" and es1: "es1 = charge_all (vemu_pm_act_power m 0 pm) t es"
    by (auto simp: all_classes_Inr [OF assms(1)])
  have wf: "energy_wf es'"
    by (rule energy_wf_slp [OF 2]) (simp add: es1 energy_wf_charge_all assms(1))
  from assms(6) have c: "unat c < MAX_INSTR_CLASSES"
    and es'': "es'' = charge (vemu_pm_act_power m 0 pm') (unat c) t2 es'"
    using assms(5) by (auto simp: act_energy_Inr [OF wf])
  have "t (unat c) = t1" using t c assms(4) by (auto simp: times_read_def)
  then have "act_time_ckpt es' ! unat c = t1" "act_energy es' ! unat c = act_energy es ! unat c
      + double_of_u64 (t1 - act_time_ckpt es ! unat c) * vemu_pm_act_power m 0 pm"
    using charge_all_nth [OF assms(1) c] slp_frame [OF 2] by (simp_all add: es1)
  then show ?thesis
    using charge_nth [OF wf c] cyc.elapsed [OF assms(3-5)] 3
    by (simp add: es'' act_power_class [of m c])
qed

theorem change_parameter_bills_witness:
  "\<exists>es' es''. vemu_energy_change_parameter demo_libm 3 demo_awake 0 3 (Fin 2) (demo_energy_pm, energy_state_zero)
      = Inr (demo_energy_pm\<lparr>pm_Nd := Fin 2\<rparr>, es')
    \<and> vemu_get_act_energy demo_libm (demo_energy_pm\<lparr>pm_Nd := Fin 2\<rparr>) demo_awake2 0 es' = Inr (15000, es'')
    \<and> act_energy es'' ! 0 = Fin 15000"
proof -
  have wf: "energy_wf energy_state_zero" by (simp add: energy_wf_def energy_state_zero_def list_all_length)
  note b = change_parameter_bills [OF wf demo_change demo_later demo_times demo_read_later]
  have "act_energy energy_state_zero ! 0 = Fin 0" by (simp add: energy_state_zero_def cycles_eval)
  moreover have "act_time_ckpt energy_state_zero ! 0 = 0" by (simp add: energy_state_zero_def cycles_eval)
  ultimately have "act_energy (charge (Fin 2000) 0 10 (demo_read\<lparr>slp_time_ckpt := 0\<rparr>)) ! 0 = Fin 15000"
    using b by (simp add: demo_power demo_power2 dbl_eval)
  then show ?thesis using demo_change demo_read_later by blast
qed

text \<open>
  C11. The energy of a class is the power times its active time, however often it is
  read. In every execution from the start at fixed parameters whose active power is the
  whole number \<open>P\<close>, with reads of the energies anywhere in it, a read of a class at active
  time \<open>t\<close> returns exactly \<open>P * t\<close>, as long as that is at most \<open>2 ^ 53\<close>.
\<close>

theorem energy_is_power_times_time:
  assumes "energy_reach m pm cs es" "freq_ok pm" "vemu_pm_act_power m 0 pm = Fin (of_nat P)" "0 < P"
    and "unat c < MAX_INSTR_CLASSES" "vemu_get_act_time c cs = Inr t" "P * unat t \<le> 2 ^ 53"
  shows "\<exists>es'. vemu_get_act_energy m pm cs c es = Inr (of_nat (P * unat t), es')"
proof -
  have inv: "charged_inv P cs es" by (rule charged_inv_reach [OF assms(1-4)])
  then have wf: "energy_wf es" by (simp add: charged_inv_def)
  have "u64_of_double (act_energy (charge (Fin (of_nat P)) (unat c) t es) ! unat c) = Inr (of_nat (P * unat t))"
    using charged_read(3) [OF inv assms(5,6,4,7)] u64_of_double_of_nat [OF assms(7)] by simp
  then show ?thesis using assms(5,6) by (simp add: act_energy_Inr [OF wf] assms(3))
qed

theorem energy_is_power_times_time_witness:
  "\<exists>es'. vemu_get_act_energy demo_libm demo_energy_pm demo_asleep 0 energy_state_zero = Inr (5000, es')"
proof -
  have t: "vemu_get_act_time 0 demo_asleep = Inr 5"
    by (simp add: vemu_get_act_time_def demo_asleep_def demo_awake_def cycles_eval)
  have r: "energy_reach demo_libm demo_energy_pm demo_asleep energy_state_zero"
    using energy_reach.exec [OF energy_reach.start whole_tb_ok [OF demo_tb_whole(1)] demo_energy_exec]
      demo_wfi by (rule energy_reach.wfi)
  show ?thesis
    using energy_is_power_times_time [OF r demo_energy_freq, of 1000 0 5] t demo_power
    by (simp add: MAX_INSTR_CLASSES_def)
qed

end
