(* ===== verification/Vemu_Hw_Module.thy ===== *)
theory Vemu_Hw_Module
  imports Vemu_Energy
begin

text \<open>
  The VarEMU device of \<^verbatim>\<open>vemu_hw_module.c\<close>: a page of memory-mapped registers. A write to
  \<open>READ_CMD\<close> copies times, energies and cycle counts into a snapshot that the guest then
  reads word by word; other writes set the fault switch, the frequency and the voltage,
  or end the emulator. The record \<open>vemu\<close> is the state of VarEMU: the counters, the
  energies, the power model, the fault switch and the snapshot.
\<close>

section \<open>State\<close>

record vemu_regs =
  r_act_time :: "u64 list"
  r_act_energy :: "u64 list"
  r_cycles :: "u64 list"
  r_total_act_time :: u64
  r_total_act_energy :: u64
  r_total_cycles :: u64
  r_slp_time :: u64
  r_slp_energy :: u64
  r_fault_status :: u64
  r_frequency :: u64
  r_voltage :: u64

definition VEMU_STATE_N_VARS :: nat where
  "VEMU_STATE_N_VARS = MAX_INSTR_CLASSES * 3 + 8"

text \<open>The members \<^verbatim>\<open>array64\<close> and \<^verbatim>\<open>array8\<close> of the union; the host is little-endian.\<close>

definition array64 :: "vemu_regs \<Rightarrow> u64 list" where
  "array64 r = r_act_time r @ r_act_energy r @ r_cycles r @
     [r_total_act_time r, r_total_act_energy r, r_total_cycles r, r_slp_time r, r_slp_energy r,
      r_fault_status r, r_frequency r, r_voltage r]"

definition le_bytes :: "u64 \<Rightarrow> u8 list" where
  "le_bytes w = map (\<lambda>k. ucast (drop_bit (8 * k) w)) [0..<8]"

definition le_word :: "u8 list \<Rightarrow> u64" where
  "le_word bs = foldr (\<lambda>b acc. push_bit 8 acc OR ucast b) bs 0"

definition array8 :: "vemu_regs \<Rightarrow> u8 list" where
  "array8 r = concat (map le_bytes (array64 r))"

definition vemu_regs_zero :: vemu_regs where
  "vemu_regs_zero = \<lparr>r_act_time = replicate MAX_INSTR_CLASSES 0, r_act_energy = replicate MAX_INSTR_CLASSES 0,
     r_cycles = replicate MAX_INSTR_CLASSES 0, r_total_act_time = 0, r_total_act_energy = 0,
     r_total_cycles = 0, r_slp_time = 0, r_slp_energy = 0, r_fault_status = 0, r_frequency = 0, r_voltage = 0\<rparr>"

record vemu =
  v_cycles :: cycles_state
  v_energy :: energy_state
  v_pm :: esweek_pm
  vemu_errors_enabled :: u64
  last_state :: vemu_regs

section \<open>Operations\<close>

definition SET_FAULTS :: u64 where "SET_FAULTS = 0x000"
definition SET_FREQUENCY :: u64 where "SET_FREQUENCY = SET_FAULTS + 8"
definition SET_VOLTAGE :: u64 where "SET_VOLTAGE = SET_FREQUENCY + 8"
definition READ_CMD :: u64 where "READ_CMD = 0xD00"
definition EXIT_CMD :: u64 where "EXIT_CMD = 0xF00"

text \<open>
  The variable the bytes are copied into is not initialised: \<open>junk\<close> is what it holds, and
  shows in the bytes past \<open>sz\<close>. Bytes past the end of the array are out of bounds; the
  assertion lets the offset 160 and accesses that cross the end pass.
\<close>

definition vemu_mod_read :: "u64 \<Rightarrow> u64 \<Rightarrow> nat \<Rightarrow> vemu \<Rightarrow> u64 result" where
  "vemu_mod_read junk offset sz s =
     cbind (c_assert (unat offset \<le> VEMU_STATE_N_VARS * 8)) (\<lambda>_.
       if unat offset + sz \<le> VEMU_STATE_N_VARS * 8
       then Inr (le_word (take sz (drop (unat offset) (array8 (last_state s))) @ drop sz (le_bytes junk)))
       else Inl Out_Of_Bounds)"

text \<open>One iteration of the loop of \<open>READ_CMD\<close>, and the whole command.\<close>

definition read_class :: "libm \<Rightarrow> nat \<Rightarrow> vemu \<Rightarrow> vemu result" where
  "read_class m i s =
     cbind (vemu_get_act_time (of_nat i) (v_cycles s)) (\<lambda>t.
     let s = s\<lparr>last_state := (last_state s)\<lparr>r_act_time := (r_act_time (last_state s))[i := t]\<rparr>\<rparr> in
     cbind (vemu_get_act_energy m (v_pm s) (v_cycles s) (of_nat i) (v_energy s)) (\<lambda>(e, es).
     let s = s\<lparr>v_energy := es,
               last_state := (last_state s)\<lparr>r_act_energy := (r_act_energy (last_state s))[i := e]\<rparr>\<rparr> in
     cbind (vemu_get_cycles (of_nat i) (v_cycles s)) (\<lambda>c.
       Inr (s\<lparr>last_state := (last_state s)\<lparr>r_cycles := (r_cycles (last_state s))[i := c]\<rparr>\<rparr>))))"

definition read_cmd :: "libm \<Rightarrow> u64 \<Rightarrow> vemu \<Rightarrow> vemu result" where
  "read_cmd m now s =
     cbind (cfold (read_class m) [0..<MAX_INSTR_CLASSES] s) (\<lambda>s.
     cbind (vemu_get_act_time_all_classes (v_cycles s)) (\<lambda>t.
     cbind (vemu_get_act_energy_all_classes m (v_pm s) (v_cycles s) (v_energy s)) (\<lambda>(e, es).
     cbind (vemu_get_cycles_all_classes (v_cycles s)) (\<lambda>c.
     cbind (vemu_get_slp_time now (v_cycles s)) (\<lambda>st.
     cbind (vemu_get_slp_energy m now (v_pm s) (v_cycles s) es) (\<lambda>(se, es).
     cbind (vemu_pm_get_parameter 0 0 (v_pm s)) (\<lambda>f.
     cbind (u64_of_double f) (\<lambda>f.
     cbind (vemu_pm_get_parameter 0 1 (v_pm s)) (\<lambda>v.
     cbind (u64_of_double (v * lit 1000)) (\<lambda>v.
       Inr (s\<lparr>v_energy := es, last_state := (last_state s)\<lparr>r_total_act_time := t, r_total_act_energy := e,
         r_total_cycles := c, r_slp_time := st, r_slp_energy := se,
         r_fault_status := vemu_errors_enabled s, r_frequency := f, r_voltage := v\<rparr>\<rparr>)))))))))))"

definition vemu_mod_write :: "libm \<Rightarrow> u64 \<Rightarrow> u64 \<Rightarrow> u64 \<Rightarrow> nat \<Rightarrow> vemu \<Rightarrow> vemu result" where
  "vemu_mod_write m now offset val sz s =
     (if offset = SET_FAULTS then Inr (s\<lparr>vemu_errors_enabled := val\<rparr>)
      else if offset = SET_FREQUENCY then
        cbind (vemu_pm_change_parameter 0 0 (double_of_u64 val) (v_pm s)) (\<lambda>pm. Inr (s\<lparr>v_pm := pm\<rparr>))
      else if offset = SET_VOLTAGE then
        cbind (vemu_pm_change_parameter 0 1 (double_of_u64 val / lit 1000) (v_pm s)) (\<lambda>pm. Inr (s\<lparr>v_pm := pm\<rparr>))
      else if offset = READ_CMD then read_cmd m now s
      else if offset = EXIT_CMD then Inl (Exit_Process (- 1))
      else Inr s)"

section \<open>Byte access to the snapshot\<close>

lemma bit_le_word: "bit (le_word bs) n \<longleftrightarrow> n < 64 \<and> n div 8 < length bs \<and> bit (bs ! (n div 8)) (n mod 8)"
proof (induction bs arbitrary: n)
  case Nil
  then show ?case by (simp add: le_word_def)
next
  case (Cons b bs)
  have "bit (le_word (b # bs)) n \<longleftrightarrow> (8 \<le> n \<and> n < 64 \<and> bit (le_word bs) (n - 8)) \<or> (n < 64 \<and> bit b n)"
    by (simp add: le_word_def bit_simps)
  also have "\<dots> \<longleftrightarrow> n < 64 \<and> n div 8 < length (b # bs) \<and> bit ((b # bs) ! (n div 8)) (n mod 8)"
  proof (cases "8 \<le> n")
    case True
    then have "\<not> bit b n" using bit_imp_le_length by fastforce
    then show ?thesis using True by (auto simp: Cons le_div_geq le_mod_geq)
  next
    case False
    then show ?thesis by simp
  qed
  finally show ?case .
qed

lemma length_le_bytes [simp]: "length (le_bytes w) = 8"
  by (simp add: le_bytes_def)

lemma le_bytes_nth: "k < 8 \<Longrightarrow> le_bytes w ! k = ucast (drop_bit (8 * k) w)"
  by (simp add: le_bytes_def)

lemma le_word_bytes:
  assumes "off + sz \<le> 8"
  shows "take_bit (8 * sz) (le_word (take sz (drop off (le_bytes w)) @ js)) = take_bit (8 * sz) (drop_bit (8 * off) w)"
proof (rule bit_word_eqI)
  fix n assume n: "n < LENGTH(64)"
  show "bit (take_bit (8 * sz) (le_word (take sz (drop off (le_bytes w)) @ js))) n =
        bit (take_bit (8 * sz) (drop_bit (8 * off) w)) n"
  proof (cases "n < 8 * sz")
    case True
    then have d: "n div 8 < sz" by (simp add: less_mult_imp_div_less mult.commute)
    have e: "8 * off + 8 * (n div 8) + n mod 8 = 8 * off + n" by simp
    show ?thesis using True d n assms
      by (simp add: bit_take_bit_iff bit_le_word nth_append le_bytes_nth bit_simps e)
  qed (simp add: bit_take_bit_iff)
qed

lemma drop_array8:
  assumes "k < length ws" "off + sz \<le> 8"
  shows "take sz (drop (8 * k + off) (concat (map le_bytes ws))) = take sz (drop off (le_bytes (ws ! k)))"
  using assms
proof (induction ws arbitrary: k)
  case Nil
  then show ?case by simp
next
  case (Cons w ws)
  show ?case using Cons by (cases k) auto
qed

definition regs_wf :: "vemu_regs \<Rightarrow> bool" where
  "regs_wf r \<longleftrightarrow> length (r_act_time r) = MAX_INSTR_CLASSES \<and> length (r_act_energy r) = MAX_INSTR_CLASSES
     \<and> length (r_cycles r) = MAX_INSTR_CLASSES"

lemma length_array64: "regs_wf r \<Longrightarrow> length (array64 r) = VEMU_STATE_N_VARS"
  by (simp add: regs_wf_def array64_def VEMU_STATE_N_VARS_def MAX_INSTR_CLASSES_def)

definition vemu_wf :: "vemu \<Rightarrow> bool" where
  "vemu_wf s \<longleftrightarrow> cycles_wf (v_cycles s) \<and> energy_wf (v_energy s) \<and> regs_wf (last_state s)"

text \<open>
  Every variable of the snapshot can be read in pieces: an access of \<open>sz\<close> bytes at
  byte \<open>off\<close> of variable \<open>k\<close> that stays inside the variable returns, and its low \<open>8 * sz\<close>
  bits are those bits of the variable.
\<close>

theorem mod_read_variable:
  assumes "regs_wf (last_state s)" "k < VEMU_STATE_N_VARS" "off + sz \<le> 8"
  shows "\<exists>v. vemu_mod_read junk (of_nat (8 * k + off)) sz s = Inr v
    \<and> take_bit (8 * sz) v = take_bit (8 * sz) (drop_bit (8 * off) (array64 (last_state s) ! k))"
proof -
  have "8 * k + off + sz \<le> VEMU_STATE_N_VARS * 8" using assms(2,3) by linarith
  moreover have "VEMU_STATE_N_VARS * 8 = 160" by (simp add: VEMU_STATE_N_VARS_def MAX_INSTR_CLASSES_def)
  ultimately have "unat (of_nat (8 * k + off) :: u64) = 8 * k + off" "8 * k + off + sz \<le> 160"
    by (simp_all add: unat_of_nat del: of_nat_add of_nat_mult)
  then show ?thesis
    using drop_array8 [of k "array64 (last_state s)" off sz] le_word_bytes [OF assms(3)] assms
      \<open>VEMU_STATE_N_VARS * 8 = 160\<close>
    by (simp add: vemu_mod_read_def array8_def length_array64 del: of_nat_add of_nat_mult)
qed

theorem mod_read_variable_witness:
  "\<exists>v. vemu_mod_read 0xDEADBEEF00000000 (of_nat (8 * 18 + 0)) 4
        \<lparr>v_cycles = cycles_state_zero, v_energy = energy_state_zero, v_pm = demo_pm, vemu_errors_enabled = 0,
          last_state = vemu_regs_zero\<lparr>r_frequency := 1000000000\<rparr>\<rparr> = Inr v
    \<and> take_bit (8 * 4) v = 1000000000"
proof -
  have "regs_wf (vemu_regs_zero\<lparr>r_frequency := 1000000000\<rparr>)" by (simp add: regs_wf_def vemu_regs_zero_def)
  moreover have "array64 (vemu_regs_zero\<lparr>r_frequency := 1000000000\<rparr>) ! 18 = 1000000000"
    by (simp add: array64_def vemu_regs_zero_def cycles_eval)
  moreover have "18 < VEMU_STATE_N_VARS" by (simp add: VEMU_STATE_N_VARS_def MAX_INSTR_CLASSES_def)
  ultimately show ?thesis
    using mod_read_variable [of "\<lparr>v_cycles = cycles_state_zero, v_energy = energy_state_zero, v_pm = demo_pm,
        vemu_errors_enabled = 0, last_state = vemu_regs_zero\<lparr>r_frequency := 1000000000\<rparr>\<rparr>" 18 0 4 "0xDEADBEEF00000000"]
    by simp
qed

section \<open>The read command\<close>

text \<open>The effect of an iteration that returns.\<close>

definition ret :: "'a result \<Rightarrow> 'a" where
  "ret r = projr r"

lemma ret_Inr [simp]: "ret (Inr x) = x"
  by (simp add: ret_def)

definition snap_energy :: "libm \<Rightarrow> nat \<Rightarrow> vemu \<Rightarrow> energy_state" where
  "snap_energy m i s = charge (vemu_pm_act_power m 0 (v_pm s)) i
     (ret (vemu_get_act_time (of_nat i) (v_cycles s))) (v_energy s)"

definition snap :: "libm \<Rightarrow> nat \<Rightarrow> vemu \<Rightarrow> vemu" where
  "snap m i s = s\<lparr>v_energy := snap_energy m i s,
     last_state := (last_state s)
       \<lparr>r_act_time := (r_act_time (last_state s))[i := ret (vemu_get_act_time (of_nat i) (v_cycles s))],
        r_act_energy := (r_act_energy (last_state s))[i := ret (u64_of_double (act_energy (snap_energy m i s) ! i))],
        r_cycles := (r_cycles (last_state s))[i := ret (vemu_get_cycles (of_nat i) (v_cycles s))]\<rparr>\<rparr>"

definition snap_ok :: "libm \<Rightarrow> nat \<Rightarrow> vemu \<Rightarrow> bool" where
  "snap_ok m i s \<longleftrightarrow> (\<exists>t c e. vemu_get_act_time (of_nat i) (v_cycles s) = Inr t
     \<and> vemu_get_cycles (of_nat i) (v_cycles s) = Inr c
     \<and> u64_of_double (act_energy (snap_energy m i s) ! i) = Inr e)"

lemma read_class_Inr:
  assumes "energy_wf (v_energy s)" "i < MAX_INSTR_CLASSES"
  shows "read_class m i s = Inr s' \<longleftrightarrow> snap_ok m i s \<and> s' = snap m i s"
proof -
  have i: "unat (of_nat i :: u8) = i" using assms(2) by (simp add: MAX_INSTR_CLASSES_def unat_of_nat)
  show ?thesis using assms
    by (auto simp: read_class_def cbind_Inr_iff act_energy_Inr i Let_def snap_ok_def snap_def snap_energy_def)
qed

lemma snap_wf: "energy_wf (v_energy s) \<Longrightarrow> energy_wf (v_energy (snap m i s))"
  by (simp add: snap_def snap_energy_def energy_wf_charge)

lemma four_updates: "length xs = MAX_INSTR_CLASSES \<Longrightarrow> xs[0 := a, Suc 0 := b, 2 := c, 3 := d] = [a, b, c, d]"
  by (auto simp: MAX_INSTR_CLASSES_def length_Suc_conv numeral_eq_Suc)

lemma read_loop:
  assumes "vemu_wf s" "cfold (read_class m) [0..<MAX_INSTR_CLASSES] s = Inr s'"
  shows "\<exists>t e c. times_read (v_cycles s) t \<and> energies_read (v_energy s') e
    \<and> (\<forall>i < MAX_INSTR_CLASSES. vemu_get_cycles (of_nat i) (v_cycles s) = Inr (c i))
    \<and> s' = s\<lparr>v_energy := charge_all (vemu_pm_act_power m 0 (v_pm s)) t (v_energy s),
        last_state := (last_state s)\<lparr>r_act_time := [t 0, t 1, t 2, t 3],
          r_act_energy := [e 0, e 1, e 2, e 3], r_cycles := [c 0, c 1, c 2, c 3]\<rparr>\<rparr>"
proof -
  let ?P = "vemu_pm_act_power m 0 (v_pm s)"
  let ?s1 = "snap m 0 s"
  let ?s2 = "snap m 1 ?s1"
  let ?s3 = "snap m 2 ?s2"
  have wf: "energy_wf (v_energy s)" and lens: "regs_wf (last_state s)"
    using assms(1) by (simp_all add: vemu_wf_def)
  have l: "[0..<MAX_INSTR_CLASSES] = [0, 1, 2, 3]" by (simp add: MAX_INSTR_CLASSES_def upt_conv_Cons)
  have ok: "snap_ok m 0 s" "snap_ok m 1 ?s1" "snap_ok m 2 ?s2" "snap_ok m 3 ?s3" and s': "s' = snap m 3 ?s3"
    using assms(2) wf unfolding l
    by (auto simp: cbind_Inr_iff read_class_Inr snap_wf MAX_INSTR_CLASSES_def)
  define t where "t i = ret (vemu_get_act_time (of_nat i) (v_cycles s))" for i
  define c where "c i = ret (vemu_get_cycles (of_nat i) (v_cycles s))" for i
  define e where "e i = ret (u64_of_double (act_energy (v_energy s') ! i))" for i
  have es': "v_energy s' = charge_all ?P t (v_energy s)"
    by (simp add: s' snap_def snap_energy_def charge_all_def t_def)
  have en: "act_energy (snap_energy m 0 s) ! 0 = act_energy (v_energy s') ! 0"
    "act_energy (snap_energy m 1 ?s1) ! 1 = act_energy (v_energy s') ! 1"
    "act_energy (snap_energy m 2 ?s2) ! 2 = act_energy (v_energy s') ! 2"
    "act_energy (snap_energy m 3 ?s3) ! 3 = act_energy (v_energy s') ! 3"
    using wf by (simp_all add: s' snap_def snap_energy_def charge_nth energy_wf_charge MAX_INSTR_CLASSES_def)
  have "times_read (v_cycles s) t" "\<forall>i < MAX_INSTR_CLASSES. vemu_get_cycles (of_nat i) (v_cycles s) = Inr (c i)"
    using ok by (auto simp: times_read_def all_below_4 t_def c_def snap_ok_def snap_def)
  moreover have "energies_read (v_energy s') e"
    using ok en by (auto simp: energies_read_def all_below_4 e_def snap_ok_def)
  moreover have "s' = s\<lparr>v_energy := charge_all ?P t (v_energy s),
        last_state := (last_state s)\<lparr>r_act_time := [t 0, t 1, t 2, t 3],
          r_act_energy := [e 0, e 1, e 2, e 3], r_cycles := [c 0, c 1, c 2, c 3]\<rparr>\<rparr>"
    using lens unfolding es' [symmetric] e_def en [symmetric]
    by (simp add: s' snap_def t_def c_def four_updates regs_wf_def)
  ultimately show ?thesis by blast
qed

lemma read_cmd_Inr:
  assumes "read_cmd m now s = Inr s'"
  obtains u e se es where "cfold (read_class m) [0..<MAX_INSTR_CLASSES] s = Inr u"
    and "vemu_get_act_energy_all_classes m (v_pm u) (v_cycles u) (v_energy u) = Inr (e, es)"
    and "vemu_get_slp_energy m now (v_pm u) (v_cycles u) es = Inr (se, v_energy s')"
    and "r_total_act_energy (last_state s') = e" "r_slp_energy (last_state s') = se"
    and "vemu_get_act_time_all_classes (v_cycles u) = Inr (r_total_act_time (last_state s'))"
    and "vemu_get_cycles_all_classes (v_cycles u) = Inr (r_total_cycles (last_state s'))"
    and "vemu_get_slp_time now (v_cycles u) = Inr (r_slp_time (last_state s'))"
    and "u64_of_double (pm_F (v_pm u)) = Inr (r_frequency (last_state s'))"
    and "u64_of_double (pm_Vdd (v_pm u) * lit 1000) = Inr (r_voltage (last_state s'))"
    and "v_cycles s' = v_cycles u" "v_pm s' = v_pm u" "vemu_errors_enabled s' = vemu_errors_enabled u"
    and "r_fault_status (last_state s') = vemu_errors_enabled u"
    and "r_act_time (last_state s') = r_act_time (last_state u)"
    and "r_act_energy (last_state s') = r_act_energy (last_state u)"
    and "r_cycles (last_state s') = r_cycles (last_state u)"
  using assms
  by (auto simp: read_cmd_def cbind_Inr_iff vemu_pm_get_parameter_def pm_array_def)

text \<open>Dividing by a thousand and multiplying again rounds 1001 down.\<close>

lemma volt_1001: "double_of_u64 1001 / lit 1000 * lit 1000 = Fin (8804889115230207 / 8796093022208)"
proof -
  have 1: "rnd (1001 / 1000) = Fin (2254051613498933 / 2251799813685248)"
    using rnd_eval [of 0 "1001/1000"]
    by (simp add: power_int_minus rne_def Let_def floor_numeral_div)
  show ?thesis using rnd_eval [of 9 "2254051613498933 / 2251799813685248 * 1000"]
    by (simp add: dbl_eval 1 power_int_minus rne_def Let_def floor_numeral_div)
qed
lemma write_cases:
  "vemu_mod_write m now SET_FAULTS val sz s = Inr (s\<lparr>vemu_errors_enabled := val\<rparr>)"
  "vemu_mod_write m now SET_FREQUENCY val sz s = Inr (s\<lparr>v_pm := (v_pm s)\<lparr>pm_F := double_of_u64 val\<rparr>\<rparr>)"
  "vemu_mod_write m now SET_VOLTAGE val sz s = Inr (s\<lparr>v_pm := (v_pm s)\<lparr>pm_Vdd := double_of_u64 val / lit 1000\<rparr>\<rparr>)"
  "vemu_mod_write m now READ_CMD val sz s = read_cmd m now s"
  "vemu_mod_write m now EXIT_CMD val sz s = Inl (Exit_Process (- 1))"
  by (simp_all add: vemu_mod_write_def READ_CMD_def EXIT_CMD_def SET_FAULTS_def SET_FREQUENCY_def SET_VOLTAGE_def
      vemu_pm_change_parameter_def pm_of_array_def pm_array_def)

lemma read_loop_frame:
  assumes "cfold (read_class m) [0..<MAX_INSTR_CLASSES] s = Inr u"
  shows "v_pm u = v_pm s \<and> vemu_errors_enabled u = vemu_errors_enabled s \<and> v_cycles u = v_cycles s"
  using assms
proof (rule cfold_invariant)
  fix i x y
  assume "v_pm x = v_pm s \<and> vemu_errors_enabled x = vemu_errors_enabled s \<and> v_cycles x = v_cycles s"
    and "read_class m i x = Inr y"
  then show "v_pm y = v_pm s \<and> vemu_errors_enabled y = vemu_errors_enabled s \<and> v_cycles y = v_cycles s"
    by (auto simp: read_class_def cbind_Inr_iff Let_def)
qed simp

lemma read_cmd_settings:
  assumes "read_cmd m now s = Inr s'"
  shows "u64_of_double (pm_F (v_pm s)) = Inr (r_frequency (last_state s'))"
    "u64_of_double (pm_Vdd (v_pm s) * lit 1000) = Inr (r_voltage (last_state s'))"
    "r_fault_status (last_state s') = vemu_errors_enabled s"
  using assms by (auto elim!: read_cmd_Inr dest!: read_loop_frame)

definition demo_vemu :: vemu where
  "demo_vemu = \<lparr>v_cycles = demo_asleep, v_energy = energy_state_zero, v_pm = demo_energy_pm,
     vemu_errors_enabled = 0, last_state = vemu_regs_zero\<rparr>"

lemma demo_vemu_wf: "vemu_wf demo_vemu"
  using cycles_wf_sleep [OF demo_wfi demo_wf]
  by (simp add: vemu_wf_def demo_vemu_def energy_wf_def energy_state_zero_def list_all_length
      regs_wf_def vemu_regs_zero_def)

lemma demo_read_loop:
  "\<exists>u. cfold (read_class demo_libm) [0..<MAX_INSTR_CLASSES] demo_vemu = Inr u \<and> v_energy u = demo_read\<lparr>slp_time_ckpt := 0\<rparr>"
  by (simp add: demo_vemu_def read_class_def vemu_get_act_energy_def vemu_get_act_time_def vemu_get_cycles_def
      demo_asleep_def demo_awake_def demo_power energy_state_zero_def demo_read_def vemu_regs_zero_def cycles_eval)

lemma demo_read_cmd: "\<exists>s'. read_cmd demo_libm 12 demo_vemu = Inr s'"
proof -
  obtain u where u: "cfold (read_class demo_libm) [0..<MAX_INSTR_CLASSES] demo_vemu = Inr u"
    "v_energy u = demo_read\<lparr>slp_time_ckpt := 0\<rparr>" using demo_read_loop by blast
  then have f: "v_cycles u = demo_asleep" "v_pm u = demo_energy_pm"
    using read_loop_frame [OF u(1)] by (simp_all add: demo_vemu_def)
  have e: "vemu_get_act_energy_all_classes demo_libm demo_energy_pm demo_asleep (demo_read\<lparr>slp_time_ckpt := 0\<rparr>)
      = Inr (5000, demo_read\<lparr>slp_time_ckpt := 0\<rparr>)"
    by (simp add: vemu_get_act_energy_all_classes_def vemu_get_act_energy_def vemu_get_act_time_def
        demo_asleep_def demo_awake_def demo_power demo_read_def cycles_eval)
  have c: "vemu_get_cycles_all_classes demo_asleep = Inr 5" "vemu_get_slp_time 12 demo_asleep = Inr 7"
    by (simp_all add: vemu_get_cycles_all_classes_def vemu_get_slp_time_def i64_add_def demo_asleep_def
        demo_awake_def cycles_eval)
  have p: "vemu_pm_get_parameter 0 0 demo_energy_pm = Inr (Fin 1000000000)"
    "vemu_pm_get_parameter 0 1 demo_energy_pm = Inr (Fin 1)"
    by (simp_all add: vemu_pm_get_parameter_def pm_array_def demo_energy_pm_def demo_pm_def)
  show ?thesis
    by (simp add: read_cmd_def u f e c p demo_act_time demo_reads(2) dbl_eval)
qed

text \<open>The same with a model that draws no power at the voltage 1.001.\<close>

lemma demo_idle_power:
  assumes "d * lit 1000 = Fin v"
  shows "vemu_pm_act_power demo_libm c (demo_pm\<lparr>pm_Vdd := d\<rparr>) = Fin 0"
    "vemu_pm_slp_power demo_libm (demo_pm\<lparr>pm_Vdd := d\<rparr>) = Fin 0"
proof -
  have "\<exists>q. d = Fin q" using assms by (cases d) (auto simp: dbl_eval dinf_def)
  then show "vemu_pm_act_power demo_libm c (demo_pm\<lparr>pm_Vdd := d\<rparr>) = Fin 0"
    "vemu_pm_slp_power demo_libm (demo_pm\<lparr>pm_Vdd := d\<rparr>) = Fin 0"
    by (auto simp: vemu_pm_act_power_def vemu_pm_slp_power_def demo_libm_def demo_pm_def
        pm_parameters_init_def pm_of_array_def Let_def dbl_eval)
qed

lemma demo_read_idle:
  assumes "d * lit 1000 = Fin (8804889115230207 / 8796093022208)"
  shows "\<exists>s'. read_cmd demo_libm 12 (demo_vemu\<lparr>v_pm := demo_pm\<lparr>pm_Vdd := d\<rparr>\<rparr>) = Inr s'"
proof -
  let ?p = "demo_pm\<lparr>pm_Vdd := d\<rparr>"
  let ?es = "\<lparr>act_time_ckpt = [5, 0, 0, 0], slp_time_ckpt = 0, act_energy = [0, 0, 0, 0], slp_energy = 0\<rparr>"
  note w = demo_idle_power [OF assms]
  obtain u where u: "cfold (read_class demo_libm) [0..<MAX_INSTR_CLASSES] (demo_vemu\<lparr>v_pm := ?p\<rparr>) = Inr u"
    "v_energy u = ?es"
    by (simp add: demo_vemu_def read_class_def vemu_get_act_energy_def vemu_get_act_time_def vemu_get_cycles_def
        demo_asleep_def demo_awake_def w energy_state_zero_def vemu_regs_zero_def cycles_eval)
  have f: "v_cycles u = demo_asleep" "v_pm u = ?p"
    using read_loop_frame [OF u(1)] by (simp_all add: demo_vemu_def)
  have e: "vemu_get_act_energy_all_classes demo_libm ?p demo_asleep ?es = Inr (0, ?es)"
    by (simp add: vemu_get_act_energy_all_classes_def vemu_get_act_energy_def vemu_get_act_time_def
        demo_asleep_def demo_awake_def w cycles_eval)
  have c: "vemu_get_cycles_all_classes demo_asleep = Inr 5" "vemu_get_slp_time 12 demo_asleep = Inr 7"
    by (simp_all add: vemu_get_cycles_all_classes_def vemu_get_slp_time_def i64_add_def demo_asleep_def
        demo_awake_def cycles_eval)
  have p: "vemu_pm_get_parameter 0 0 ?p = Inr (Fin 1000000000)" "vemu_pm_get_parameter 0 1 ?p = Inr d"
    by (simp_all add: vemu_pm_get_parameter_def pm_array_def demo_pm_def)
  have v: "u64_of_double (d * lit 1000) = Inr 1000"
    unfolding assms by (simp add: u64_of_double_def truncq_def floor_numeral_div)
  have se: "\<exists>es. vemu_get_slp_energy demo_libm 12 ?p demo_asleep ?es = Inr (0, es)"
    by (simp add: vemu_get_slp_energy_def c w double_of_i64_def dbl_eval)
  show ?thesis using se
    by (auto simp add: read_cmd_def u f e c p v demo_act_time u64_numeral)
qed

text \<open>The energy spent asleep does not depend on the energies of the classes.\<close>

lemma slp_energy_other:
  assumes "slp_time_ckpt es = slp_time_ckpt es'" "slp_energy es = slp_energy es'"
    and "vemu_get_slp_energy m now pm cs es' = Inr (r, x)"
  shows "\<exists>y. vemu_get_slp_energy m now pm cs es = Inr (r, y)"
  using assms by (cases "vemu_get_slp_time now cs")
    (auto simp: vemu_get_slp_energy_def cbind_Inr_iff Let_def split: if_splits)

section \<open>Correctness of the device\<close>

text \<open>
  C13. The snapshot is consistent. A \<open>READ_CMD\<close> that returns, at a finite active power,
  changes neither the counters nor the model, reports for every class what the counters
  give at that moment, reports as totals what the accessors over all classes give, as
  frequency and voltage those of the model in hertz and millivolts, as energy spent asleep
  what it would be without the pass over the classes, and the total active energy is the sum
  of the four reported energies, although the second pass over the energies charges them
  again.
\<close>

theorem read_cmd_snapshot:
  assumes "vemu_mod_write m now READ_CMD val sz s = Inr s'" "vemu_wf s"
    and "vemu_pm_act_power m 0 (v_pm s) = Fin p"
  shows "v_cycles s' = v_cycles s \<and> v_pm s' = v_pm s \<and> vemu_errors_enabled s' = vemu_errors_enabled s
    \<and> (\<forall>i < MAX_INSTR_CLASSES.
         vemu_get_act_time (of_nat i) (v_cycles s) = Inr (r_act_time (last_state s') ! i)
       \<and> vemu_get_cycles (of_nat i) (v_cycles s) = Inr (r_cycles (last_state s') ! i))
    \<and> vemu_get_act_time_all_classes (v_cycles s) = Inr (r_total_act_time (last_state s'))
    \<and> vemu_get_cycles_all_classes (v_cycles s) = Inr (r_total_cycles (last_state s'))
    \<and> vemu_get_slp_time now (v_cycles s) = Inr (r_slp_time (last_state s'))
    \<and> r_fault_status (last_state s') = vemu_errors_enabled s
    \<and> u64_of_double (pm_F (v_pm s)) = Inr (r_frequency (last_state s'))
    \<and> u64_of_double (pm_Vdd (v_pm s) * lit 1000) = Inr (r_voltage (last_state s'))
    \<and> (\<exists>es. vemu_get_slp_energy m now (v_pm s) (v_cycles s) (v_energy s) = Inr (r_slp_energy (last_state s'), es))
    \<and> r_total_act_energy (last_state s') = sum_list (r_act_energy (last_state s'))
    \<and> vemu_wf s'"
proof -
  have rc: "read_cmd m now s = Inr s'"
    using assms(1) by (simp add: vemu_mod_write_def READ_CMD_def SET_FAULTS_def SET_FREQUENCY_def SET_VOLTAGE_def)
  then obtain u e se es where u: "cfold (read_class m) [0..<MAX_INSTR_CLASSES] s = Inr u"
    and all: "vemu_get_act_energy_all_classes m (v_pm u) (v_cycles u) (v_energy u) = Inr (e, es)"
    and slp: "vemu_get_slp_energy m now (v_pm u) (v_cycles u) es = Inr (se, v_energy s')"
    and r: "r_total_act_energy (last_state s') = e" "r_slp_energy (last_state s') = se"
      "vemu_get_act_time_all_classes (v_cycles u) = Inr (r_total_act_time (last_state s'))"
      "vemu_get_cycles_all_classes (v_cycles u) = Inr (r_total_cycles (last_state s'))"
      "vemu_get_slp_time now (v_cycles u) = Inr (r_slp_time (last_state s'))"
      "v_cycles s' = v_cycles u" "v_pm s' = v_pm u" "vemu_errors_enabled s' = vemu_errors_enabled u"
      "r_fault_status (last_state s') = vemu_errors_enabled u"
      "r_act_time (last_state s') = r_act_time (last_state u)"
      "r_act_energy (last_state s') = r_act_energy (last_state u)"
      "r_cycles (last_state s') = r_cycles (last_state u)"
    by (rule read_cmd_Inr)
  from read_loop [OF assms(2) u] obtain t en c where t: "times_read (v_cycles s) t"
    and en: "energies_read (v_energy u) en"
    and c: "\<forall>i < MAX_INSTR_CLASSES. vemu_get_cycles (of_nat i) (v_cycles s) = Inr (c i)"
    and ueq: "u = s\<lparr>v_energy := charge_all (Fin p) t (v_energy s),
        last_state := (last_state s)\<lparr>r_act_time := [t 0, t 1, t 2, t 3],
          r_act_energy := [en 0, en 1, en 2, en 3], r_cycles := [c 0, c 1, c 2, c 3]\<rparr>\<rparr>"
    unfolding assms(3) by blast
  have wf: "energy_wf (v_energy s)" "energy_wf (v_energy u)"
    using assms(2) by (simp_all add: ueq vemu_wf_def energy_wf_charge_all)
  have "charge_all (Fin p) t (v_energy u) = v_energy u"
    using charge_all_same [OF wf(2) en] charge_all_nth(1) [OF wf(1)] by (simp add: ueq)
  then have again: "vemu_get_act_energy_all_classes m (v_pm u) (v_cycles u) (v_energy u)
      = Inr (en 0 + en 1 + en 2 + en 3, v_energy u)"
    unfolding all_classes_Inr [OF wf(2)]
    by (intro exI [of _ t] exI [of _ en]) (use t en assms(3) in \<open>simp add: ueq\<close>)
  then have e: "e = en 0 + en 1 + en 2 + en 3" "es = v_energy u" using all by simp_all
  have wf': "energy_wf (v_energy s')" using energy_wf_slp [OF slp] wf(2) by (simp add: e)
  have four: "(\<forall>i < MAX_INSTR_CLASSES. vemu_get_act_time (of_nat i) (v_cycles s) = Inr (r_act_time (last_state s') ! i)
       \<and> vemu_get_cycles (of_nat i) (v_cycles s) = Inr (r_cycles (last_state s') ! i))"
    using t c r(10,12) by (simp add: ueq times_read_def all_below_4)
  have "vemu_wf s'"
    using assms(2) wf' r(6,10-12) by (simp add: vemu_wf_def regs_wf_def ueq MAX_INSTR_CLASSES_def)
  moreover have "\<exists>es. vemu_get_slp_energy m now (v_pm s) (v_cycles s) (v_energy s) = Inr (r_slp_energy (last_state s'), es)"
    using slp_energy_other [OF _ _ slp] r(2) unfolding e(2) by (simp add: ueq charge_all_def charge_def)
  ultimately show ?thesis using four r e(1) read_cmd_settings(1,2) [OF rc] by (simp add: ueq)
qed

theorem read_cmd_snapshot_witness:
  "\<exists>s'. vemu_mod_write demo_libm 12 READ_CMD 0 4 demo_vemu = Inr s'
    \<and> r_total_act_energy (last_state s') = sum_list (r_act_energy (last_state s'))"
proof -
  obtain s' where s': "vemu_mod_write demo_libm 12 READ_CMD 0 4 demo_vemu = Inr s'"
    using demo_read_cmd by (auto simp: write_cases)
  moreover have "vemu_pm_act_power demo_libm 0 (v_pm demo_vemu) = Fin 1000"
    by (simp add: demo_vemu_def demo_power)
  ultimately show ?thesis using read_cmd_snapshot [OF s' demo_vemu_wf] by blast
qed

text \<open>
  What the guest sets it reads back: after writes to the fault switch and to the
  frequency, in this order or the other, the next snapshot reports the two values,
  the frequency as long as it is at most \<open>2 ^ 53\<close> hertz.
\<close>

theorem settings_roundtrip:
  assumes "uint f \<le> 2 ^ 53"
    and "cbind (vemu_mod_write m now1 SET_FAULTS e 4 s) (vemu_mod_write m now2 SET_FREQUENCY f 4) = Inr s1
      \<or> cbind (vemu_mod_write m now1 SET_FREQUENCY f 4 s) (vemu_mod_write m now2 SET_FAULTS e 4) = Inr s1"
    and "vemu_mod_write m now3 READ_CMD v 4 s1 = Inr s2"
  shows "r_frequency (last_state s2) = f \<and> r_fault_status (last_state s2) = e"
proof -
  have "pm_F (v_pm s1) = double_of_u64 f" "vemu_errors_enabled s1 = e"
    using assms(2) by (auto simp: write_cases)
  then show ?thesis
    using read_cmd_settings [OF assms(3) [unfolded write_cases]] u64_double_roundtrip [OF assms(1)] by simp
qed

theorem settings_roundtrip_witness:
  "\<exists>s2. vemu_mod_write demo_libm 12 READ_CMD 0 4 demo_vemu = Inr s2
    \<and> r_frequency (last_state s2) = 1000000000 \<and> r_fault_status (last_state s2) = 0"
proof -
  have "demo_vemu\<lparr>vemu_errors_enabled := 0, v_pm := (v_pm demo_vemu)\<lparr>pm_F := Fin 1000000000\<rparr>\<rparr> = demo_vemu"
    by (simp add: demo_vemu_def demo_energy_pm_def demo_pm_def)
  then have s: "cbind (vemu_mod_write demo_libm 0 SET_FAULTS 0 4 demo_vemu)
      (vemu_mod_write demo_libm 0 SET_FREQUENCY 1000000000 4) = Inr demo_vemu"
    by (simp add: write_cases dbl_eval)
  obtain s2 where s2: "vemu_mod_write demo_libm 12 READ_CMD 0 4 demo_vemu = Inr s2"
    using demo_read_cmd by (auto simp: write_cases)
  with settings_roundtrip [OF _ disjI1 [OF s] s2] show ?thesis by simp
qed

text \<open>
  The voltage is not read back exactly: after 1001 millivolts are set, the snapshot
  reports 1000, since the division by 1000 and the multiplication by 1000 round and the
  conversion to an integer truncates.
\<close>

theorem voltage_readback:
  assumes "vemu_mod_write m now1 SET_VOLTAGE 1001 4 s = Inr s1" "vemu_mod_write m now2 READ_CMD v 4 s1 = Inr s2"
  shows "r_voltage (last_state s2) = 1000"
proof -
  have "pm_Vdd (v_pm s1) * lit 1000 = Fin (8804889115230207 / 8796093022208)"
    using assms(1) volt_1001 by (auto simp: write_cases)
  moreover have "u64_of_double (Fin (8804889115230207 / 8796093022208)) = Inr 1000"
    by (simp add: u64_of_double_def truncq_def floor_numeral_div)
  ultimately show ?thesis using read_cmd_settings(2) [OF assms(2) [unfolded write_cases]] by simp
qed

theorem voltage_readback_witness:
  "\<exists>s1 s2. vemu_mod_write demo_libm 0 SET_VOLTAGE 1001 4 (demo_vemu\<lparr>v_pm := demo_pm\<rparr>) = Inr s1
    \<and> vemu_mod_write demo_libm 12 READ_CMD 0 4 s1 = Inr s2 \<and> r_voltage (last_state s2) = 1000"
proof -
  let ?s1 = "demo_vemu\<lparr>v_pm := demo_pm\<lparr>pm_Vdd := double_of_u64 1001 / lit 1000\<rparr>\<rparr>"
  have s1: "vemu_mod_write demo_libm 0 SET_VOLTAGE 1001 4 (demo_vemu\<lparr>v_pm := demo_pm\<rparr>) = Inr ?s1"
    by (simp add: write_cases)
  obtain s2 where s2: "vemu_mod_write demo_libm 12 READ_CMD 0 4 ?s1 = Inr s2"
    using demo_read_idle [OF volt_1001] by (auto simp: write_cases)
  from voltage_readback [OF s1 s2] s1 s2 show ?thesis by blast
qed

text \<open>
  C40. A write to the voltage or the frequency register does not settle the energy
  account: the next read of a class charges the whole time since its last read at the
  power after the change, also the part before it.
\<close>

theorem set_register_rebills:
  assumes "vemu_wf s" "offset \<in> {SET_FREQUENCY, SET_VOLTAGE}" "vemu_mod_write m now offset val sz s = Inr s1"
    and "unat c < MAX_INSTR_CLASSES" "vemu_get_act_time c cs' = Inr t"
    and "vemu_get_act_energy m (v_pm s1) cs' c (v_energy s1) = Inr (r, es)"
  shows "act_energy es ! unat c = act_energy (v_energy s) ! unat c
      + double_of_u64 (t - act_time_ckpt (v_energy s) ! unat c) * vemu_pm_act_power m c (v_pm s1)"
proof -
  have e: "v_energy s1 = v_energy s" using assms(2,3) by (auto simp: write_cases)
  have wf: "energy_wf (v_energy s)" using assms(1) by (simp add: vemu_wf_def)
  have "es = charge (vemu_pm_act_power m 0 (v_pm s1)) (unat c) t (v_energy s)"
    using assms(5,6) by (auto simp: e act_energy_Inr [OF wf])
  then show ?thesis using charge_nth [OF wf assms(4)] by (simp add: act_power_class [of m c])
qed

theorem set_register_rebills_witness:
  "\<exists>s1 r es. vemu_mod_write demo_libm 0 SET_FREQUENCY 2000000000 4 demo_vemu = Inr s1
    \<and> vemu_get_act_energy demo_libm (v_pm s1) demo_asleep 0 (v_energy s1) = Inr (r, es)
    \<and> act_energy es ! 0 = act_energy energy_state_zero ! 0 + double_of_u64 (5 - 0) * Fin 2000"
proof -
  let ?s1 = "demo_vemu\<lparr>v_pm := demo_energy_pm\<lparr>pm_F := Fin 2000000000\<rparr>\<rparr>"
  have s1: "vemu_mod_write demo_libm 0 SET_FREQUENCY 2000000000 4 demo_vemu = Inr ?s1"
    by (simp add: write_cases demo_vemu_def dbl_eval)
  have pw: "vemu_pm_act_power demo_libm 0 (v_pm ?s1) = Fin 2000"
    by (simp add: vemu_pm_act_power_def vemu_pm_slp_power_def demo_libm_def demo_energy_pm_def demo_pm_def
      pm_parameters_init_def pm_of_array_def Let_def dbl_eval)
  have t: "vemu_get_act_time 0 demo_asleep = Inr 5"
    by (simp add: vemu_get_act_time_def demo_asleep_def demo_awake_def cycles_eval)
  have "\<exists>r es. vemu_get_act_energy demo_libm (v_pm ?s1) demo_asleep 0 (v_energy ?s1) = Inr (r, es)"
    by (simp add: vemu_get_act_energy_def t pw [simplified] demo_vemu_def energy_state_zero_def cycles_eval)
  then obtain r es where r: "vemu_get_act_energy demo_libm (v_pm ?s1) demo_asleep 0 (v_energy ?s1) = Inr (r, es)"
    by blast
  have z: "act_time_ckpt (v_energy demo_vemu) ! 0 = 0" "v_energy demo_vemu = energy_state_zero"
    by (simp_all add: demo_vemu_def energy_state_zero_def cycles_eval)
  have "unat (0 :: u8) < MAX_INSTR_CLASSES" by (simp add: MAX_INSTR_CLASSES_def)
  from set_register_rebills [OF demo_vemu_wf _ s1 this t r] pw z s1 r show ?thesis by auto
qed

end
