(* ===== verification/Vemu_User_Io.thy ===== *)
theory Vemu_User_Io
  imports C_Lib Vemu_Arm Vemu_Hw_Module
begin

text \<open>
  The configuration file and the monitor commands, \<^verbatim>\<open>vemu_user_io.c\<close>. The file is parsed
  line by line; its first line describes the instruction classes and the power model, the
  others assign instructions to classes. QEMU's JSON objects are a parameter, the record
  \<open>qapi\<close>: a dictionary is iterated by \<^verbatim>\<open>qdict_first\<close> and \<^verbatim>\<open>qdict_next\<close> over its \<open>qdict_items\<close>,
  a conversion to another kind of object returns nothing, and the typed accessors may stop.
  Printed messages are left out.
\<close>

section \<open>External functions\<close>

record ('q, 'd) qapi =
  qobject_from_json :: "string \<Rightarrow> 'q option"
  is_qdict :: "'q \<Rightarrow> bool"                         \<comment> \<open>\<^verbatim>\<open>qobject_type(obj) == QTYPE_QDICT\<close>\<close>
  qobject_to_qdict :: "'q \<Rightarrow> 'd option"
  qobject_to_qlist :: "'q \<Rightarrow> 'q list option"
  qobject_to_qstring :: "'q \<Rightarrow> string option"
  qdict_items :: "'d \<Rightarrow> (string \<times> 'q) list"
  qdict_size :: "'d \<Rightarrow> nat"
  qdict_haskey :: "'d \<Rightarrow> string \<Rightarrow> bool"
  qdict_get :: "'d \<Rightarrow> string \<Rightarrow> 'q option"
  qdict_get_int :: "'d \<Rightarrow> string \<Rightarrow> int result"
  qdict_get_str :: "'d \<Rightarrow> string \<Rightarrow> string result"

text \<open>A conversion whose result is used as a pointer without a check.\<close>

definition deref :: "'a option \<Rightarrow> 'a result" where
  "deref x = (case x of None \<Rightarrow> Inl Null_Pointer | Some a \<Rightarrow> Inr a)"

section \<open>Parameters of the power model\<close>

text \<open>The list of one class: entry \<open>idx\<close> is stored as parameter \<open>idx\<close>.\<close>

fun parse_power_param :: "('q, 'd) qapi \<Rightarrow> u8 \<Rightarrow> int \<Rightarrow> 'q list \<Rightarrow> esweek_pm \<Rightarrow> esweek_pm result" where
  "parse_power_param q cls idx [] pm = Inr pm"
| "parse_power_param q cls idx (e # es) pm =
     cbind (deref (qobject_to_qstring q e)) (\<lambda>entry.
     cbind (vemu_pm_change_parameter cls (word_of_int idx) (atof entry) pm)
       (parse_power_param q cls (idx + 1) es))"

definition parse_class_entry :: "('q, 'd) qapi \<Rightarrow> u8 \<Rightarrow> string \<times> 'q \<Rightarrow> esweek_pm \<Rightarrow> esweek_pm result" where
  "parse_class_entry q cls kv pm =
     cbind (deref (qobject_to_qdict q (snd kv))) (\<lambda>pdict.
       case qdict_get q pdict ''power_param'' of
         Some params \<Rightarrow> cbind (deref (qobject_to_qlist q params)) (\<lambda>plist. parse_power_param q cls 0 plist pm)
       | None \<Rightarrow> Inr pm)"

definition vemu_parse_pm_parameters :: "('q, 'd) qapi \<Rightarrow> 'd \<Rightarrow> string \<Rightarrow> esweek_pm \<Rightarrow> esweek_pm result" where
  "vemu_parse_pm_parameters q cls class_idx pm =
     (if qdict_items q cls = [] then Inl Null_Pointer
      else cfold (parse_class_entry q (word_of_int (atoi class_idx))) (qdict_items q cls) pm)"

section \<open>Classes of instructions\<close>

text \<open>The loop that looks for the class; \<^verbatim>\<open>-1\<close> when no entry has the name.\<close>

fun find_class :: "('q, 'd) qapi \<Rightarrow> string \<Rightarrow> (string \<times> 'q) list \<Rightarrow> int result" where
  "find_class q class_name [] = Inr (- 1)"
| "find_class q class_name (kv # kvs) =
     cbind (deref (qobject_to_qdict q (snd kv))) (\<lambda>pdict.
     cbind (qdict_get_int q pdict ''idx'') (\<lambda>idx.
     cbind (qdict_get_str q pdict ''class_name'') (\<lambda>str.
       if str = class_name then Inr (signed_take_bit 31 idx) else find_class q class_name kvs)))"

definition set_class :: "string \<Rightarrow> int \<Rightarrow> nat \<Rightarrow> vemu_instr_info list \<Rightarrow> vemu_instr_info list" where
  "set_class nm idx i all_instr =
     (if ii_name (all_instr ! i) = nm then all_instr[i := (all_instr ! i)\<lparr>ii_class := word_of_int idx\<rparr>] else all_instr)"

definition set_classes :: "string \<Rightarrow> int \<Rightarrow> bool \<Rightarrow> instr_tables \<Rightarrow> instr_tables" where
  "set_classes nm idx thumb ts =
     (let all_instr = vemu_target_get_all_instr_info ts thumb;
          max_instr = vemu_target_get_all_instr_size ts thumb
      in set_all_instr_info thumb (fold (set_class nm idx) [0..<max_instr] all_instr) ts)"

definition vemu_parse_instr_class ::
    "('q, 'd) qapi \<Rightarrow> 'd \<Rightarrow> string \<Rightarrow> string \<Rightarrow> instr_tables \<Rightarrow> instr_tables result" where
  "vemu_parse_instr_class q class_info class_name nm ts =
     (if qdict_items q class_info = [] then Inl Null_Pointer
      else cbind (find_class q class_name (qdict_items q class_info)) (\<lambda>idx.
        Inr (if idx \<noteq> - 1 then fold (set_classes nm idx) [False, True] ts else ts)))"

section \<open>The file\<close>

text \<open>One entry of a line that assigns instructions: the class and the list of its instructions.\<close>

definition parse_assignment ::
    "('q, 'd) qapi \<Rightarrow> 'd \<Rightarrow> string \<times> 'q \<Rightarrow> instr_tables \<Rightarrow> instr_tables result" where
  "parse_assignment q class_info kv ts =
     cbind (deref (qobject_to_qlist q (snd kv))) (\<lambda>insn_list.
       cfold (\<lambda>e ts. cbind (deref (qobject_to_qstring q e)) (\<lambda>insn.
                vemu_parse_instr_class q class_info (fst kv) insn ts)) insn_list ts)"

text \<open>
  The body of the loop. A line that is no JSON is skipped. Lines about errors are read and
  have no effect, but their values are still taken for lists.
\<close>

definition parse_line ::
    "('q, 'd) qapi \<Rightarrow> 'd \<Rightarrow> string \<Rightarrow> instr_tables \<times> esweek_pm \<Rightarrow> (instr_tables \<times> esweek_pm) result" where
  "parse_line q class_info line = (\<lambda>(ts, pm).
     case qobject_from_json q (c_str line) of
       None \<Rightarrow> Inr (ts, pm)
     | Some qobj \<Rightarrow>
         cbind (deref (qobject_to_qdict q qobj)) (\<lambda>qdict.
           if qdict_haskey q qdict ''y'' then
             (if qdict_items q qdict = [] then Inl Null_Pointer
              else cfold (\<lambda>kv s. cbind (deref (qobject_to_qlist q (snd kv))) (\<lambda>_. Inr s))
                     (qdict_items q qdict) (ts, pm))
           else if qdict_haskey q qdict ''start_pc'' \<and> qdict_haskey q qdict ''end_pc'' then Inr (ts, pm)
           else if qdict_haskey q qdict ''start_icount'' \<and> qdict_haskey q qdict ''end_icount'' then Inr (ts, pm)
           else if qdict_haskey q qdict ''error_regs'' then Inr (ts, pm)
           else if qdict_haskey q qdict ''mem_errors'' then Inr (ts, pm)
           else if qdict_items q qdict = [] then Inl Null_Pointer
           else cbind (vemu_parse_pm_parameters q class_info (fst (hd (qdict_items q qdict))) pm) (\<lambda>pm.
                cbind (cfold (parse_assignment q class_info) (qdict_items q qdict) ts) (\<lambda>ts.
                  Inr (ts, pm)))))"

text \<open>The loop \<^verbatim>\<open>while(!feof(fp))\<close>: each round consumes input or sets the flag.\<close>

function parse_loop ::
    "('q, 'd) qapi \<Rightarrow> 'd \<Rightarrow> stream \<Rightarrow> instr_tables \<times> esweek_pm \<Rightarrow> (instr_tables \<times> esweek_pm) result" where
  "parse_loop q class_info fp s =
     (if eof fp then Inr s
      else let fp = fgets 2000 fp in
           cbind (parse_line q class_info (buffer fp) s) (parse_loop q class_info fp))"
  by pat_completeness auto
termination
  by (relation "measure (\<lambda>(q, ci, fp, s). 2 * length (rest fp) + (if eof fp then 0 else 1))")
    (use fgets_decreases [of _ 2000] in auto)

declare parse_loop.simps [simp del]

text \<open>\<open>files\<close> is the file system, \<open>junk\<close> what the line buffer holds before it is written.\<close>

definition vemu_parse_input_file ::
    "('q, 'd) qapi \<Rightarrow> (string \<Rightarrow> string option) \<Rightarrow> string \<Rightarrow> string \<Rightarrow> instr_tables \<times> esweek_pm \<Rightarrow>
       (instr_tables \<times> esweek_pm) result" where
  "vemu_parse_input_file q files junk fname s =
     (case files fname of
        None \<Rightarrow> Inl (Exit_Process 0)
      | Some txt \<Rightarrow>
          let fp = fgets 2000 \<lparr>rest = txt, eof = False, buffer = junk\<rparr> in
          cbind (deref (qobject_from_json q (c_str (buffer fp)))) (\<lambda>qobj.
          cbind (c_assert (is_qdict q qobj)) (\<lambda>_.
          cbind (deref (qobject_to_qdict q qobj)) (\<lambda>qdict.
          cbind (c_assert (0 < qdict_size q qdict)) (\<lambda>_.
            parse_loop q qdict fp s)))))"

definition vemu_init ::
    "('q, 'd) qapi \<Rightarrow> (string \<Rightarrow> string option) \<Rightarrow> string \<Rightarrow> string \<Rightarrow> u64 \<Rightarrow>
       instr_tables \<times> esweek_pm \<times> cycles_state \<Rightarrow> (instr_tables \<times> esweek_pm \<times> cycles_state) result" where
  "vemu_init q files junk fname now = (\<lambda>(ts, pm, cs).
     cbind (vemu_parse_input_file q files junk fname (ts, pm)) (\<lambda>(ts, pm).
       Inr (ts, pm, vemu_init_cycles now cs)))"

section \<open>Monitor commands\<close>

text \<open>
  The arguments arrive in quotes, which are cut off by copying \<^verbatim>\<open>strlen - 2\<close> characters into
  a buffer of 4096: a shorter argument makes the length wrap around, a longer one overruns
  the buffer.
\<close>

definition strip_quotes :: "string \<Rightarrow> string result" where
  "strip_quotes c =
     (if length c < 2 \<or> 4096 \<le> length c - 2 then Inl Out_Of_Bounds else Inr (take (length c - 2) (tl c)))"

definition vemu_do_change_model_param ::
    "libm \<Rightarrow> u64 \<Rightarrow> string \<Rightarrow> string \<Rightarrow> string \<Rightarrow> vemu \<Rightarrow> vemu result" where
  "vemu_do_change_model_param m now c p v s =
     cbind (strip_quotes c) (\<lambda>cc.
     cbind (strip_quotes p) (\<lambda>pp.
     cbind (strip_quotes v) (\<lambda>vv.
     cbind (vemu_energy_change_parameter m now (v_cycles s) (word_of_int (strtol10 cc))
              (word_of_int (strtol10 pp)) (strtod vv) (v_pm s, v_energy s)) (\<lambda>(pm, es).
       Inr (s\<lparr>v_pm := pm, v_energy := es\<rparr>)))))"

text \<open>The reply: its keys in order, each with the kind, the mode and the value as an \<^verbatim>\<open>int64_t\<close>.\<close>

type_synonym reply = "(string \<times> string \<times> string \<times> int) list"

definition vemu_do_info_time :: "u64 \<Rightarrow> vemu \<Rightarrow> reply result" where
  "vemu_do_info_time now s =
     cbind (vemu_get_act_time_all_classes (v_cycles s)) (\<lambda>act_time.
     cbind (vemu_get_slp_time now (v_cycles s)) (\<lambda>slp_time.
       Inr [(''1'', ''TIME_TYPE'', ''ACT'', sint act_time), (''2'', ''TIME_TYPE'', ''SLP'', sint slp_time)]))"

definition vemu_do_info_energy :: "libm \<Rightarrow> u64 \<Rightarrow> vemu \<Rightarrow> (reply \<times> vemu) result" where
  "vemu_do_info_energy m now s =
     cbind (vemu_get_act_energy_all_classes m (v_pm s) (v_cycles s) (v_energy s)) (\<lambda>(act_energy, es).
     cbind (vemu_get_slp_energy m now (v_pm s) (v_cycles s) es) (\<lambda>(slp_energy, es).
       Inr ([(''1'', ''ENERGY_TYPE'', ''ACT'', sint act_energy), (''2'', ''ENERGY_TYPE'', ''SLP'', sint slp_energy)],
            s\<lparr>v_energy := es\<rparr>)))"

definition vemu_do_info_all :: "libm \<Rightarrow> u64 \<Rightarrow> vemu \<Rightarrow> (reply \<times> vemu) result" where
  "vemu_do_info_all m now s =
     cbind (vemu_get_act_energy_all_classes m (v_pm s) (v_cycles s) (v_energy s)) (\<lambda>(act_energy, es).
     cbind (vemu_get_slp_energy m now (v_pm s) (v_cycles s) es) (\<lambda>(slp_energy, es).
     cbind (vemu_get_act_time_all_classes (v_cycles s)) (\<lambda>act_time.
     cbind (vemu_get_slp_time now (v_cycles s)) (\<lambda>slp_time.
       Inr ([(''1'', ''ENERGY_TYPE'', ''ACT'', sint act_energy), (''2'', ''ENERGY_TYPE'', ''SLP'', sint slp_energy),
             (''3'', ''TIME_TYPE'', ''ACT'', sint act_time), (''4'', ''TIME_TYPE'', ''SLP'', sint slp_time)],
            s\<lparr>v_energy := es\<rparr>)))))"

section \<open>What the configuration changes\<close>

text \<open>Two rows, or two sets of tables, that differ in classes only.\<close>

definition same_row :: "vemu_instr_info \<Rightarrow> vemu_instr_info \<Rightarrow> bool" where
  "same_row r r' \<longleftrightarrow> r' = r\<lparr>ii_class := ii_class r'\<rparr>"

definition same_tables :: "instr_tables \<Rightarrow> instr_tables \<Rightarrow> bool" where
  "same_tables ts ts' \<longleftrightarrow> list_all2 same_row (thumb_instr ts) (thumb_instr ts')
     \<and> list_all2 same_row (arm_instr ts) (arm_instr ts') \<and> thumb2_instr ts' = thumb2_instr ts"

text \<open>A row after its instruction was put into a class.\<close>

definition reclass :: "string \<Rightarrow> int \<Rightarrow> vemu_instr_info \<Rightarrow> vemu_instr_info" where
  "reclass nm idx r = (if ii_name r = nm then r\<lparr>ii_class := word_of_int idx\<rparr> else r)"

lemma set_class_fold:
  "n \<le> length t \<Longrightarrow> fold (set_class nm idx) [0..<n] t = map (reclass nm idx) (take n t) @ drop n t"
proof (induction n)
  case (Suc n)
  then have n: "n < length t" "fold (set_class nm idx) [0..<n] t = map (reclass nm idx) (take n t) @ drop n t" by simp_all
  have d: "drop n t = t ! n # drop (Suc n) t" using n(1) by (simp add: Cons_nth_drop_Suc)
  have "fold (set_class nm idx) [0..<Suc n] t = set_class nm idx n (map (reclass nm idx) (take n t) @ drop n t)"
    by (simp add: n(2))
  also have "\<dots> = map (reclass nm idx) (take (Suc n) t) @ drop (Suc n) t"
    using n(1) by (simp add: set_class_def nth_append d reclass_def take_Suc_conv_app_nth list_update_append)
  finally show ?case .
qed simp

lemma set_classes_eq:
  "set_classes nm idx thumb ts =
     (if thumb then ts\<lparr>thumb_instr := map (reclass nm idx) (thumb_instr ts)\<rparr>
      else ts\<lparr>arm_instr := map (reclass nm idx) (arm_instr ts)\<rparr>)"
  by (simp add: set_classes_def Let_def set_all_instr_info_def vemu_target_get_all_instr_info_def
      vemu_target_get_all_instr_size_def set_class_fold)

lemma parse_instr_class_eq:
  assumes "vemu_parse_instr_class q ci cname nm ts = Inr ts'"
  obtains idx where "find_class q cname (qdict_items q ci) = Inr idx"
    and "idx = - 1 \<and> ts' = ts \<or> idx \<noteq> - 1 \<and> ts' = ts\<lparr>arm_instr := map (reclass nm idx) (arm_instr ts),
           thumb_instr := map (reclass nm idx) (thumb_instr ts)\<rparr>"
  using assms by (auto simp: vemu_parse_instr_class_def cbind_Inr_iff set_classes_eq split: if_splits)

lemma same_row_refl: "same_row r r"
  by (simp add: same_row_def)

lemma same_row_trans: "same_row r s \<Longrightarrow> same_row s t \<Longrightarrow> same_row r t"
  by (cases r; cases s; cases t) (simp add: same_row_def)

lemma same_row_reclass: "same_row r (reclass nm idx r)"
  by (simp add: same_row_def reclass_def)

lemma same_tables_refl: "same_tables ts ts"
  by (simp add: same_tables_def list_all2_refl same_row_refl)

lemma same_tables_trans: "same_tables ts us \<Longrightarrow> same_tables us vs \<Longrightarrow> same_tables ts vs"
  unfolding same_tables_def using list_all2_trans [of same_row same_row same_row] same_row_trans by metis

lemma same_tables_reclass:
  "same_tables ts (ts\<lparr>arm_instr := map (reclass nm idx) (arm_instr ts),
     thumb_instr := map (reclass nm idx) (thumb_instr ts)\<rparr>)"
  by (simp add: same_tables_def list_all2_map2 list_all2_same same_row_reclass)

text \<open>What every assignment of a class keeps, the whole file keeps.\<close>

lemma parse_line_invariant:
  assumes "parse_line q ci line (ts, pm) = Inr (ts', pm')" "P ts"
    and inv: "\<And>cname nm ts ts'. vemu_parse_instr_class q ci cname nm ts = Inr ts' \<Longrightarrow> P ts \<Longrightarrow> P ts'"
  shows "P ts'"
proof -
  have a: "parse_assignment q ci kv ts = Inr ts' \<Longrightarrow> P ts \<Longrightarrow> P ts'" for kv ts ts'
    by (auto simp: parse_assignment_def cbind_Inr_iff elim!: cfold_invariant [where P = P] intro: inv)
  have l: "cfold (parse_assignment q ci) l ts = Inr ts' \<Longrightarrow> P ts'" for l
    by (erule cfold_invariant [where P = P]) (use assms(2) a in auto)
  have y: "cfold (\<lambda>kv s. cbind (deref (qobject_to_qlist q (snd kv))) (\<lambda>_. Inr s)) l s = Inr t \<Longrightarrow> t = s"
    for l and s t :: "instr_tables \<times> esweek_pm"
    by (rule cfold_invariant [where P = "\<lambda>x. x = s"]) (auto simp: cbind_Inr_iff)
  show ?thesis
    using assms(1,2) by (auto simp: parse_line_def cbind_Inr_iff dest: y l split: option.splits if_splits)
qed

lemma parse_loop_invariant:
  assumes "parse_loop q ci fp s = Inr s'" "P (fst s)"
    and inv: "\<And>cname nm ts ts'. vemu_parse_instr_class q ci cname nm ts = Inr ts' \<Longrightarrow> P ts \<Longrightarrow> P ts'"
  shows "P (fst s')"
  using assms
proof (induction q ci fp s rule: parse_loop.induct)
  case (1 q ci fp s)
  show ?case
  proof (cases "eof fp")
    case True
    then show ?thesis using 1(2,3) by (simp add: parse_loop.simps [of q ci fp s])
  next
    case False
    then obtain u where u: "parse_line q ci (buffer (fgets 2000 fp)) s = Inr u" "parse_loop q ci (fgets 2000 fp) u = Inr s'"
      using 1(2) by (auto simp: parse_loop.simps [of q ci fp s] Let_def cbind_Inr_iff)
    have "P (fst u)"
      using parse_line_invariant [of q ci _ "fst s" "snd s" "fst u" "snd u" P, OF _ 1(3) 1(4)] u(1) by simp
    then show ?thesis using 1(1) [OF False refl u(1) u(2)] 1(4) by blast
  qed
qed

lemma parse_loop_same: "parse_loop q ci fp s = Inr s' \<Longrightarrow> same_tables (fst s) (fst s')"
  by (erule parse_loop_invariant [where P = "same_tables (fst s)"])
    (auto simp: same_tables_refl elim!: parse_instr_class_eq intro: same_tables_trans same_tables_reclass)

text \<open>A file whose class indices are in range keeps the classes of all rows in range.\<close>

definition classes_ok :: "instr_tables \<Rightarrow> bool" where
  "classes_ok ts \<longleftrightarrow> list_all (\<lambda>r. unat (ii_class r) < MAX_INSTR_CLASSES) (thumb_instr ts @ arm_instr ts @ thumb2_instr ts)"

definition indices_ok :: "('q, 'd) qapi \<Rightarrow> (string \<times> 'q) list \<Rightarrow> bool" where
  "indices_ok q kvs \<longleftrightarrow> (\<forall>kv \<in> set kvs. \<forall>d i. qobject_to_qdict q (snd kv) = Some d \<longrightarrow> qdict_get_int q d ''idx'' = Inr i \<longrightarrow>
     0 \<le> i \<and> i < int MAX_INSTR_CLASSES)"

text \<open>The dictionary of classes, the first line of the file.\<close>

definition file_classes :: "('q, 'd) qapi \<Rightarrow> (string \<Rightarrow> string option) \<Rightarrow> string \<Rightarrow> string \<Rightarrow> 'd option" where
  "file_classes q files junk fname =
     (case files fname of
        None \<Rightarrow> None
      | Some txt \<Rightarrow> (case qobject_from_json q (c_str (buffer (fgets 2000 \<lparr>rest = txt, eof = False, buffer = junk\<rparr>))) of
          None \<Rightarrow> None
        | Some qobj \<Rightarrow> qobject_to_qdict q qobj))"

lemma find_class_range:
  "indices_ok q kvs \<Longrightarrow> find_class q cname kvs = Inr idx \<Longrightarrow> idx = - 1 \<or> 0 \<le> idx \<and> idx < int MAX_INSTR_CLASSES"
proof (induction kvs)
  case (Cons kv kvs)
  have "0 \<le> i \<and> i < int MAX_INSTR_CLASSES \<Longrightarrow> signed_take_bit 31 i = i" for i
    by (simp add: signed_take_bit_int_eq_self MAX_INSTR_CLASSES_def)
  then show ?case using Cons by (auto simp: cbind_Inr_iff indices_ok_def deref_def split: if_splits option.splits)
qed simp

lemma reclass_ok:
  assumes "unat (ii_class r) < MAX_INSTR_CLASSES" "0 \<le> idx \<and> idx < int MAX_INSTR_CLASSES"
  shows "unat (ii_class (reclass nm idx r)) < MAX_INSTR_CLASSES"
proof -
  have "unat (word_of_int idx :: u8) = nat idx" using assms(2)
    by (simp add: MAX_INSTR_CLASSES_def unsigned_of_int take_bit_int_eq_self)
  then show ?thesis using assms by (auto simp: reclass_def)
qed

lemma parse_loop_classes:
  assumes "indices_ok q (qdict_items q ci)" "parse_loop q ci fp s = Inr s'" "classes_ok (fst s)"
  shows "classes_ok (fst s')"
  using assms(2,3)
proof (rule parse_loop_invariant)
  fix cname nm ts ts'
  assume p: "vemu_parse_instr_class q ci cname nm ts = Inr ts'" and c: "classes_ok ts"
  from p obtain idx where f: "find_class q cname (qdict_items q ci) = Inr idx"
    and ts: "idx = - 1 \<and> ts' = ts \<or> idx \<noteq> - 1 \<and> ts' = ts\<lparr>arm_instr := map (reclass nm idx) (arm_instr ts),
           thumb_instr := map (reclass nm idx) (thumb_instr ts)\<rparr>" by (rule parse_instr_class_eq)
  show "classes_ok ts'"
    using find_class_range [OF assms(1) f] ts c reclass_ok by (fastforce simp: classes_ok_def list_all_iff)
qed

lemma same_row_wf: "same_row r r' \<Longrightarrow> row_wf i r \<Longrightarrow> row_wf i r'"
  by (cases r; cases r') (simp add: same_row_def row_wf_def)

lemma same_rows_wf: "list_all2 same_row t t' \<Longrightarrow> rows_wf n t \<Longrightarrow> rows_wf n t'"
  unfolding rows_wf_def using list_all2_trans [of row_wf same_row row_wf] same_row_wf by metis

lemma same_tables_wf: "same_tables ts ts' \<Longrightarrow> tables_wf ts \<Longrightarrow> tables_wf ts'"
  by (auto simp: same_tables_def tables_wf_def intro: same_rows_wf)

lemma vemu_init_Inr:
  assumes "vemu_init q files junk fname now (ts, pm, cs) = Inr (ts', pm', cs')"
  obtains ci fp where "parse_loop q ci fp (ts, pm) = Inr (ts', pm')" and "cs' = vemu_init_cycles now cs"
    and "file_classes q files junk fname = Some ci"
  using assms by (auto simp: vemu_init_def vemu_parse_input_file_def cbind_Inr_iff Let_def file_classes_def deref_def
    split: option.splits)

section \<open>The lines of the file\<close>

lemma parse_loop_eof: "eof fp \<Longrightarrow> parse_loop q ci fp s = Inr s"
  by (simp add: parse_loop.simps [of q ci fp s])

lemma parse_loop_end:
  "\<not> eof fp \<Longrightarrow> rest fp = [] \<Longrightarrow> parse_loop q ci fp s = parse_line q ci (buffer fp) s"
  by (cases "parse_line q ci (buffer fp) s")
    (simp_all add: parse_loop.simps [of q ci fp s] fgets_end Let_def parse_loop_eof)

lemma parse_loop_lines:
  assumes "\<forall>l \<in> set ls. newline \<notin> set l \<and> length l < 1999" "\<not> eof fp"
    and "rest fp = concat (map (\<lambda>l. l @ [newline]) ls)"
  shows "parse_loop q ci fp s = cfold (parse_line q ci)
     (map (\<lambda>l. l @ [newline]) ls @ [if ls = [] then buffer fp else last ls @ [newline]]) s"
  using assms
proof (induction ls arbitrary: fp s)
  case Nil
  then show ?case by (simp add: parse_loop_end) (cases "parse_line q ci (buffer fp) s"; simp)
next
  case (Cons l ls)
  let ?f = "fp\<lparr>rest := concat (map (\<lambda>l. l @ [newline]) ls), buffer := l @ [newline]\<rparr>"
  have g: "fgets 2000 fp = ?f" using Cons.prems by (intro fgets_newline) auto
  have "parse_loop q ci fp s = cbind (parse_line q ci (l @ [newline]) s) (parse_loop q ci ?f)"
    using Cons.prems(2) by (simp add: parse_loop.simps [of q ci fp s] g Let_def)
  moreover have "parse_loop q ci ?f = cfold (parse_line q ci)
     (map (\<lambda>l. l @ [newline]) ls @ [if ls = [] then l @ [newline] else last ls @ [newline]])"
    using Cons.IH [of ?f] Cons.prems by (intro ext) simp
  ultimately show ?case by simp
qed

section \<open>Parameter lists\<close>

lemma change_parameter_array:
  "k < 14 \<Longrightarrow> vemu_pm_change_parameter cls (of_nat k) v pm = Inr (pm_of_array ((pm_array pm)[k := v]))"
  "vemu_pm_change_parameter cls 14 v pm = Inl Assert_Fail"
proof -
  assume k: "k < 14"
  then have u: "unat (of_nat k :: u8) = k" by (simp add: unat_of_nat)
  then have "(of_nat k :: u8) < 14" using k by (simp add: word_less_nat_alt)
  then show "vemu_pm_change_parameter cls (of_nat k) v pm = Inr (pm_of_array ((pm_array pm)[k := v]))"
    using u by (simp add: vemu_pm_change_parameter_def)
qed (simp add: vemu_pm_change_parameter_def)

lemma parse_power_param_from:
  assumes "map (qobject_to_qstring q) es = map Some vs" "k \<le> 14"
  shows "parse_power_param q cls (int k) es pm =
     (if k + length vs \<le> 14
      then Inr (pm_of_array (take k (pm_array pm) @ map atof vs @ drop (k + length vs) (pm_array pm)))
      else Inl Assert_Fail)"
  using assms
proof (induction es arbitrary: vs k pm)
  case Nil
  then show ?case by simp
next
  case (Cons e es)
  then obtain v vs' where vs: "vs = v # vs'" "qobject_to_qstring q e = Some v"
    "map (qobject_to_qstring q) es = map Some vs'" by (cases vs) auto
  show ?case
  proof (cases "k < 14")
    case True
    let ?a = "pm_array pm"
    have IH: "parse_power_param q cls (int (Suc k)) es p =
     (if Suc k + length vs' \<le> 14
      then Inr (pm_of_array (take (Suc k) (pm_array p) @ map atof vs' @ drop (Suc k + length vs') (pm_array p)))
      else Inl Assert_Fail)" for p
      using Cons.IH [OF vs(3), of "Suc k" p] True by simp
    have "take (Suc k) (?a[k := atof v]) = take k ?a @ [atof v]"
      using True by (simp add: take_Suc_conv_app_nth)
    then show ?thesis
      using IH True by (simp add: vs deref_def change_parameter_array pm_array_inverse add.commute)
  next
    case False
    then have "k = 14" using Cons.prems(2) by simp
    then show ?thesis by (simp add: vs deref_def change_parameter_array)
  qed
qed

section \<open>An example\<close>

text \<open>A file with one class, which sets one parameter and holds the instruction \<open>MUL\<close>.\<close>

datatype demo_q = Q_Int int | Q_Str string | Q_List "demo_q list" | Q_Dict "(string \<times> demo_q) list"

definition demo_classes :: "(string \<times> demo_q) list" where
  "demo_classes = [(''0'', Q_Dict [(''class_name'', Q_Str ''slow''), (''idx'', Q_Int 2),
     (''power_param'', Q_List [Q_Str ''7''])])]"

definition demo_qapi :: "(demo_q, (string \<times> demo_q) list) qapi" where
  "demo_qapi = \<lparr>qobject_from_json = (\<lambda>s. if s = ''C'' @ [newline] then Some (Q_Dict demo_classes)
        else if s = ''A'' @ [newline] then Some (Q_Dict [(''slow'', Q_List [Q_Str ''MUL''])]) else None),
     is_qdict = (\<lambda>q. case q of Q_Dict d \<Rightarrow> True | _ \<Rightarrow> False),
     qobject_to_qdict = (\<lambda>q. case q of Q_Dict d \<Rightarrow> Some d | _ \<Rightarrow> None),
     qobject_to_qlist = (\<lambda>q. case q of Q_List l \<Rightarrow> Some l | _ \<Rightarrow> None),
     qobject_to_qstring = (\<lambda>q. case q of Q_Str s \<Rightarrow> Some s | _ \<Rightarrow> None),
     qdict_items = id, qdict_size = length, qdict_haskey = (\<lambda>d k. map_of d k \<noteq> None), qdict_get = map_of,
     qdict_get_int = (\<lambda>d k. case map_of d k of Some (Q_Int i) \<Rightarrow> Inr i | _ \<Rightarrow> Inl Assert_Fail),
     qdict_get_str = (\<lambda>d k. case map_of d k of Some (Q_Str i) \<Rightarrow> Inr i | _ \<Rightarrow> Inl Assert_Fail)\<rparr>"

definition demo_tables :: instr_tables where
  "demo_tables = \<lparr>thumb_instr = [instr 0 ''ADD'' 0 (Fin 1) 0], arm_instr = [instr 0 ''MUL'' 0 (Fin 2) 0],
     thumb2_instr = [instr 0xFFF ''UNKNOWN'' 0 (Fin 1) 0]\<rparr>"

lemma demo_line:
  "parse_line demo_qapi demo_classes (''A'' @ [newline]) (demo_tables\<lparr>arm_instr := [instr 0 ''MUL'' k (Fin 2) 0]\<rparr>, pm)
     = Inr (demo_tables\<lparr>arm_instr := [instr 0 ''MUL'' 2 (Fin 2) 0]\<rparr>, pm_of_array (Fin 7 # tl (pm_array pm)))"
proof -
  have a: "atof ''7'' = Fin 7"
    by (simp add: atof_def strtod_def is_space_def code_def lower_def has_hex_def decimal_def mantissa_def is_digit_def
        exponent_def number_def digit_val_def rnd_eval)
  have u: "vemu_pm_change_parameter cls 0 v pm = Inr (pm_of_array (v # tl (pm_array pm)))" for cls v
    using change_parameter_array(1) [of 0 cls v pm] by (simp add: pm_array_def)
  show ?thesis
    by (simp add: parse_line_def demo_qapi_def demo_classes_def c_str_def newline_def deref_def
        vemu_parse_pm_parameters_def parse_class_entry_def u a parse_assignment_def vemu_parse_instr_class_def
        set_classes_eq demo_tables_def reclass_def instr_def)
qed

lemma demo_init:
  "vemu_init demo_qapi [''f'' \<mapsto> ''C'' @ [newline] @ ''A'' @ [newline]] [] ''f'' 0 (demo_tables, pm_parameters_init, cycles_state_zero)
    = Inr (demo_tables\<lparr>arm_instr := [instr 0 ''MUL'' 2 (Fin 2) 0]\<rparr>, pm_parameters_init\<lparr>pm_F := Fin 7\<rparr>,
           vemu_init_cycles 0 cycles_state_zero)"
proof -
  let ?f = "\<lparr>rest = ''A'' @ [newline], eof = False, buffer = ''C'' @ [newline]\<rparr>"
  have t: "demo_tables = demo_tables\<lparr>arm_instr := [instr 0 ''MUL'' 0 (Fin 2) 0]\<rparr>" by (simp add: demo_tables_def)
  have g: "fgets 2000 \<lparr>rest = ''C'' @ [newline] @ ''A'' @ [newline], eof = False, buffer = []\<rparr> = ?f"
    using fgets_newline [of "''C''" 2000] by (simp add: newline_def)
  have l: "parse_loop demo_qapi demo_classes ?f s = cfold (parse_line demo_qapi demo_classes)
      [''A'' @ [newline], ''A'' @ [newline]] s" for s
    using parse_loop_lines [of "[''A'']" ?f demo_qapi demo_classes s] by (simp add: newline_def)
  have p: "pm_of_array (Fin 7 # tl (pm_array (pm_of_array (Fin 7 # tl (pm_array pm_parameters_init)))))
      = pm_parameters_init\<lparr>pm_F := Fin 7\<rparr>"
    by (simp add: pm_of_array_def pm_array_def)
  have j: "qobject_from_json demo_qapi (c_str (''C'' @ [newline])) = Some (Q_Dict demo_classes)"
    "is_qdict demo_qapi (Q_Dict d)" "qobject_to_qdict demo_qapi (Q_Dict d) = Some d"
    "0 < qdict_size demo_qapi demo_classes" for d
    by (simp_all add: demo_qapi_def c_str_def newline_def demo_classes_def)
  have "parse_loop demo_qapi demo_classes ?f (demo_tables, pm_parameters_init) =
      Inr (demo_tables\<lparr>arm_instr := [instr 0 ''MUL'' 2 (Fin 2) 0]\<rparr>, pm_parameters_init\<lparr>pm_F := Fin 7\<rparr>)"
    using demo_line [of 0 pm_parameters_init, folded t] demo_line [of 2] unfolding l by (simp add: p)
  then show ?thesis
    using j by (simp add: vemu_init_def vemu_parse_input_file_def g [simplified] deref_def)
qed

section \<open>Properties\<close>

text \<open>
  C31. The configuration file changes classes and nothing else: whatever the JSON objects
  are, when \<open>vemu_init\<close> returns, every row of the ARM and the Thumb table is the old row
  with perhaps another class, the table of 32-bit Thumb code is untouched, well-formed
  tables stay well-formed, and the counters are those of \<open>vemu_init_cycles\<close>. So no file
  can mark an instruction as faulty or change what it costs.
\<close>

theorem config_classes_only:
  assumes "vemu_init q files junk fname now (ts, pm, cs) = Inr (ts', pm', cs')"
  shows "same_tables ts ts' \<and> (tables_wf ts \<longrightarrow> tables_wf ts') \<and> cs' = vemu_init_cycles now cs"
proof -
  obtain ci fp where l: "parse_loop q ci fp (ts, pm) = Inr (ts', pm')" and c: "cs' = vemu_init_cycles now cs"
    using vemu_init_Inr [OF assms] by blast
  have "same_tables ts ts'" using parse_loop_same [OF l] by simp
  then show ?thesis using same_tables_wf c by blast
qed

theorem config_classes_only_witness:
  "same_tables demo_tables (demo_tables\<lparr>arm_instr := [instr 0 ''MUL'' 2 (Fin 2) 0]\<rparr>)"
  using config_classes_only [OF demo_init] by blast

text \<open>
  The parameters of the power model are read in order: a list of at most fourteen
  strings sets the first parameters to their values and leaves the others; a longer list
  fails the assertion of \<open>vemu_pm_change_parameter\<close>.
\<close>

theorem power_param_list:
  assumes "map (qobject_to_qstring q) es = map Some vs"
  shows "parse_power_param q cls 0 es pm =
     (if length vs \<le> 14 then Inr (pm_of_array (map atof vs @ drop (length vs) (pm_array pm))) else Inl Assert_Fail)"
  using parse_power_param_from [OF assms, of 0 cls pm] by simp

theorem power_param_list_witness:
  "parse_power_param demo_qapi 0 0 [Q_Str ''7''] pm_parameters_init = Inr (pm_of_array (atof ''7'' # replicate 13 0))
   \<and> parse_power_param demo_qapi 0 0 (replicate 15 (Q_Str ''7'')) pm_parameters_init = Inl Assert_Fail"
proof -
  have a: "pm_array pm_parameters_init = replicate 14 0" by (simp add: pm_parameters_init_def pm_array_inverse)
  have "map (qobject_to_qstring demo_qapi) (replicate n (Q_Str ''7'')) = map Some (replicate n ''7'')" for n
    by (simp add: demo_qapi_def)
  note p = power_param_list [OF this, of 0 _ pm_parameters_init]
  show ?thesis using p [of 1] p [of 15] by (simp add: a)
qed

text \<open>
  C32. The loop over the file terminates and handles the lines in order, and the last one
  twice: the end-of-file flag is only set by the read that fails, which leaves the last
  line in the buffer. This is for a file that ends in a newline and whose lines fit the
  buffer of 2000 characters.
\<close>

theorem file_lines:
  assumes "\<forall>l \<in> set ls. newline \<notin> set l \<and> length l < 1999" "ls \<noteq> []" "\<not> eof fp"
    and "rest fp = concat (map (\<lambda>l. l @ [newline]) ls)"
  shows "parse_loop q ci fp s = cfold (parse_line q ci)
     (map (\<lambda>l. l @ [newline]) ls @ [last ls @ [newline]]) s"
  using parse_loop_lines [OF assms(1,3,4)] assms(2) by simp

theorem file_lines_witness:
  "parse_loop demo_qapi demo_classes \<lparr>rest = ''A'' @ [newline], eof = False, buffer = []\<rparr> (demo_tables, pm_parameters_init) =
     cfold (parse_line demo_qapi demo_classes) [''A'' @ [newline], ''A'' @ [newline]] (demo_tables, pm_parameters_init)"
  using file_lines [of "[''A'']" "\<lparr>rest = ''A'' @ [newline], eof = False, buffer = []\<rparr>"] by (simp add: newline_def)

text \<open>
  C33. A monitor command sets what it says: for the decimal texts, in quotes, of a class, of
  one of the fourteen parameters and of a value of at most \<open>2 ^ 53\<close>, when the command
  returns the model holds exactly that value at that parameter, the other parameters are
  unchanged, and so are the counters and the device's registers.
\<close>

theorem monitor_sets_parameter:
  assumes "c < 256" "p < 14" "v \<le> 2 ^ 53" "quote = CHR 0x22"
    and "vemu_do_change_model_param m now (quote # show_nat c @ [quote]) (quote # show_nat p @ [quote])
           (quote # show_nat v @ [quote]) s = Inr s'"
  shows "vemu_pm_get_parameter d (of_nat p) (v_pm s') = Inr (Fin (of_nat v))
    \<and> (\<forall>j. j \<noteq> of_nat p \<longrightarrow> vemu_pm_get_parameter d j (v_pm s') = vemu_pm_get_parameter d j (v_pm s))
    \<and> v_cycles s' = v_cycles s \<and> last_state s' = last_state s \<and> vemu_errors_enabled s' = vemu_errors_enabled s"
proof -
  have l: "length (show_nat c) < 4096" "length (show_nat p) < 4096" "length (show_nat v) < 4096"
    using show_nat_length [of c 2] show_nat_length [of p 2] show_nat_length [of v 15] assms(1-3) by simp_all
  have q: "length x < 4096 \<Longrightarrow> strip_quotes (quote # x @ [quote]) = Inr x" for x by (simp add: strip_quotes_def)
  have n: "strtol10 (show_nat c) = int c" "strtol10 (show_nat p) = int p" using assms(1,2) by (simp_all add: strtol10_show)
  have "rnd (rat_of_int (int v)) = Fin (of_int (int v))" by (rule rnd_of_int) (use assms(3) in simp)
  then have d: "strtod (show_nat v) = Fin (of_nat v)" by (simp add: strtod_show)
  obtain pm es where "vemu_energy_change_parameter m now (v_cycles s) (of_nat c) (of_nat p) (Fin (of_nat v))
      (v_pm s, v_energy s) = Inr (pm, es)" and s': "s' = s\<lparr>v_pm := pm, v_energy := es\<rparr>"
    using assms(5) by (auto simp: vemu_do_change_model_param_def q l n d cbind_Inr_iff)
  then have "vemu_pm_change_parameter (of_nat c) (of_nat p) (Fin (of_nat v)) (v_pm s) = Inr pm"
    by (auto simp: vemu_energy_change_parameter_def cbind_Inr_iff)
  then show ?thesis using pm.get_change_same pm.get_change_other by (simp add: s')
qed

theorem monitor_sets_parameter_witness:
  "\<exists>s'. vemu_do_change_model_param demo_libm 3 (CHR 0x22 # show_nat 0 @ [CHR 0x22]) (CHR 0x22 # show_nat 3 @ [CHR 0x22])
       (CHR 0x22 # show_nat 2 @ [CHR 0x22]) (demo_vemu\<lparr>v_cycles := demo_awake\<rparr>) = Inr s'
     \<and> vemu_pm_get_parameter 0 3 (v_pm s') = Inr (Fin 2)"
proof -
  have n: "strtol10 (show_nat 0) = 0" "strtol10 (show_nat 3) = 3" "strtod (show_nat 2) = Fin 2"
    using strtol10_show [of 0] strtol10_show [of 3] by (simp_all add: strtod_show rnd_eval)
  have l: "length (show_nat k) < 4096" if "k < 10" for k using show_nat_length [of k 0] that by simp
  obtain s' where s': "vemu_do_change_model_param demo_libm 3 (CHR 0x22 # show_nat 0 @ [CHR 0x22])
      (CHR 0x22 # show_nat 3 @ [CHR 0x22]) (CHR 0x22 # show_nat 2 @ [CHR 0x22]) (demo_vemu\<lparr>v_cycles := demo_awake\<rparr>) = Inr s'"
    using demo_change l [of 0] l [of 3] l [of 2]
    by (auto simp: vemu_do_change_model_param_def strip_quotes_def n demo_vemu_def)
  then show ?thesis using monitor_sets_parameter [OF _ _ _ refl s', of 0] by simp
qed

end
