(* ===== verification/Vemu_Machine.thy ===== *)
theory Vemu_Machine
  imports Arm_Translate Vemu_User_Io
begin

text \<open>
  Where the emulator meets VarEMU: the helpers of \<^verbatim>\<open>op_helper.c\<close> that generated code calls,
  \<open>cpu_has_work\<close> of \<^verbatim>\<open>cpu.h\<close>, which the execution loop polls, and the option \<^verbatim>\<open>-variability\<close> of
  \<^verbatim>\<open>vl.c\<close>. A machine is a processor and the state of VarEMU. Constants of QEMU's core are
  fields of the record \<open>qemu\<close>. The relation \<open>mreach\<close> collects what can happen to a machine:
  a block is charged, generated code changes the processor, a \<^verbatim>\<open>wfi\<close> halts it, the loop
  polls for work, the guest writes to the device, the user gives a monitor command.
\<close>

section \<open>Helpers\<close>

record qemu =
  EXCP_HLT :: int
  CPU_INTERRUPT_TGT_EXT_1 :: u32
  CPU_INTERRUPT_HARD :: u32
  INTERRUPT_EXITTB :: u32

record machine =
  m_env :: cpu
  m_vemu :: vemu

definition CPU_INTERRUPT_FIQ :: "qemu \<Rightarrow> u32" where
  "CPU_INTERRUPT_FIQ q = CPU_INTERRUPT_TGT_EXT_1 q"

definition set_cycles :: "cycles_state \<Rightarrow> machine \<Rightarrow> machine" where
  "set_cycles cs mc = mc\<lparr>m_vemu := (m_vemu mc)\<lparr>v_cycles := cs\<rparr>\<rparr>"

definition helper_wfi :: "qemu \<Rightarrow> u64 \<Rightarrow> machine \<Rightarrow> machine result" where
  "helper_wfi q now mc =
     cbind (vemu_sleep_start now (v_cycles (m_vemu mc))) (\<lambda>cs.
       Inr ((set_cycles cs mc)\<lparr>m_env := (m_env mc)\<lparr>exception_index := EXCP_HLT q, halted := True\<rparr>\<rparr>))"

definition helper_vemu_info :: "translation_block \<Rightarrow> machine \<Rightarrow> machine result" where
  "helper_vemu_info tb mc =
     cbind (vemu_increment_cycles (v_pm (m_vemu mc)) (tb_vemu tb) (v_cycles (m_vemu mc))) (\<lambda>cs.
       Inr (set_cycles cs mc))"

definition helper_vemu_error_replace :: "translation_block \<Rightarrow> machine \<Rightarrow> u32 \<times> machine" where
  "helper_vemu_error_replace tb mc =
     (let (r, env) = vemu_error_replace (vemu_errors_enabled (m_vemu mc)) (m_env mc) (tb_vemu tb)
      in (r, mc\<lparr>m_env := env\<rparr>))"

definition helper_vemu_error_pre :: "translation_block \<Rightarrow> machine \<Rightarrow> machine" where
  "helper_vemu_error_pre tb mc = (let _ = vemu_error_pre (m_env mc) (tb_vemu tb) in mc)"

definition helper_vemu_error_post :: "translation_block \<Rightarrow> machine \<Rightarrow> machine" where
  "helper_vemu_error_post tb mc = (let _ = vemu_error_post (m_env mc) (tb_vemu tb) in mc)"

definition helper_exception :: "u32 \<Rightarrow> cpu \<Rightarrow> cpu" where
  "helper_exception excp env = env\<lparr>exception_index := sint excp\<rparr>"

definition helper_cpsr_read :: "cpu \<Rightarrow> u32" where
  "helper_cpsr_read env = cpsr_read env AND NOT CPSR_EXEC"

definition helper_cpsr_write :: "u32 \<Rightarrow> u32 \<Rightarrow> cpu \<Rightarrow> cpu result" where
  "helper_cpsr_write val msk env = cpsr_write val msk env"

definition cpu_has_work :: "qemu \<Rightarrow> u64 \<Rightarrow> machine \<Rightarrow> (bool \<times> machine) result" where
  "cpu_has_work q now mc =
     (let rv = (interrupt_request (m_env mc)
           AND (CPU_INTERRUPT_FIQ q OR CPU_INTERRUPT_HARD q OR INTERRUPT_EXITTB q) \<noteq> 0)
      in if rv then cbind (vemu_active_start now (v_cycles (m_vemu mc))) (\<lambda>cs. Inr (True, set_cycles cs mc))
         else Inr (False, mc))"

text \<open>The option: the configuration is read and every block gets one instruction.\<close>

definition option_variability ::
    "('q, 'd) qapi \<Rightarrow> (string \<Rightarrow> string option) \<Rightarrow> string \<Rightarrow> string \<Rightarrow> u64 \<Rightarrow> translator \<Rightarrow>
       instr_tables \<times> esweek_pm \<times> cycles_state \<Rightarrow> (translator \<times> instr_tables \<times> esweek_pm \<times> cycles_state) result" where
  "option_variability q files junk optarg now tr s =
     cbind (vemu_init q files junk optarg now s) (\<lambda>s. Inr (tr\<lparr>tr_singlestep := True\<rparr>, s))"

section \<open>Runs of the machine\<close>

text \<open>
  The execution loop of QEMU runs blocks only while the processor is not halted, and ends
  the halt when it finds work.
\<close>

inductive mreach :: "qemu \<Rightarrow> libm \<Rightarrow> u64 \<Rightarrow> machine \<Rightarrow> bool" for q m t0 where
  boot: "\<not> halted (m_env mc) \<Longrightarrow> v_cycles (m_vemu mc) = vemu_init_cycles t0 cycles_state_zero \<Longrightarrow> mreach q m t0 mc"
| charge: "mreach q m t0 mc \<Longrightarrow> \<not> halted (m_env mc) \<Longrightarrow> helper_vemu_info tb mc = Inr mc' \<Longrightarrow> mreach q m t0 mc'"
| code: "mreach q m t0 mc \<Longrightarrow> halted env = halted (m_env mc) \<Longrightarrow> mreach q m t0 (mc\<lparr>m_env := env\<rparr>)"
| wfi: "mreach q m t0 mc \<Longrightarrow> \<not> halted (m_env mc) \<Longrightarrow> helper_wfi q now mc = Inr mc' \<Longrightarrow> mreach q m t0 mc'"
| poll: "mreach q m t0 mc \<Longrightarrow> cpu_has_work q now mc = Inr (b, mc') \<Longrightarrow>
    mreach q m t0 (if b then mc'\<lparr>m_env := (m_env mc')\<lparr>halted := False\<rparr>\<rparr> else mc')"
| mmio: "mreach q m t0 mc \<Longrightarrow> vemu_mod_write m now off val sz (m_vemu mc) = Inr v \<Longrightarrow> mreach q m t0 (mc\<lparr>m_vemu := v\<rparr>)"
| monitor: "mreach q m t0 mc \<Longrightarrow> vemu_do_change_model_param m now c p x (m_vemu mc) = Inr v \<Longrightarrow>
    mreach q m t0 (mc\<lparr>m_vemu := v\<rparr>)"
| info: "mreach q m t0 mc \<Longrightarrow> vemu_do_info_all m now (m_vemu mc) = Inr (r, v) \<Longrightarrow> mreach q m t0 (mc\<lparr>m_vemu := v\<rparr>)"

lemma mod_write_cycles:
  assumes "vemu_mod_write m now off val sz s = Inr s'"
  shows "v_cycles s' = v_cycles s"
proof (cases "off = READ_CMD")
  case True
  then have r: "read_cmd m now s = Inr s'" using assms by (simp add: write_cases)
  then obtain u where "cfold (read_class m) [0..<MAX_INSTR_CLASSES] s = Inr u" "v_cycles s' = v_cycles u"
    by (auto simp: read_cmd_def cbind_Inr_iff)
  then show ?thesis using read_loop_frame by simp
next
  case False
  then show ?thesis using assms by (auto simp: vemu_mod_write_def cbind_Inr_iff split: if_splits)
qed

lemma change_param_cycles:
  assumes "vemu_do_change_model_param m now c p x s = Inr s'"
  shows "v_cycles s' = v_cycles s"
  using assms by (auto simp: vemu_do_change_model_param_def cbind_Inr_iff)

lemma info_all_cycles:
  assumes "vemu_do_info_all m now s = Inr (r, s')"
  shows "v_cycles s' = v_cycles s"
  using assms by (auto simp: vemu_do_info_all_def cbind_Inr_iff)

lemma sleep_start_mode: "vemu_sleep_start now s = Inr s' \<Longrightarrow> entered_sleep_mode s'"
  by (auto simp: vemu_sleep_start_def cbind_Inr_iff Let_def)

lemma active_start_mode: "vemu_active_start now s = Inr s' \<Longrightarrow> \<not> entered_sleep_mode s'"
  by (auto simp: vemu_active_start_def cbind_Inr_iff Let_def split: if_splits)

lemma increment_mode: "vemu_increment_cycles pm tb s = Inr s' \<Longrightarrow> entered_sleep_mode s' = entered_sleep_mode s"
  by (elim increment_Inr) (simp add: Let_def)

text \<open>The account is asleep exactly while the processor is halted, and is one that the counters can reach.\<close>

lemma mreach_cycles:
  "mreach q m t0 mc \<Longrightarrow> cycles_reach t0 (v_cycles (m_vemu mc))
     \<and> entered_sleep_mode (v_cycles (m_vemu mc)) = halted (m_env mc)"
proof (induction rule: mreach.induct)
  case (boot mc)
  then show ?case using cycles_reach.init by (simp add: vemu_init_cycles_def)
next
  case (charge mc tb mc')
  then obtain cs where cs: "vemu_increment_cycles (v_pm (m_vemu mc)) (tb_vemu tb) (v_cycles (m_vemu mc)) = Inr cs"
    "mc' = set_cycles cs mc" by (auto simp: helper_vemu_info_def cbind_Inr_iff)
  have "\<not> entered_sleep_mode (v_cycles (m_vemu mc))" using charge by simp
  then have "cycles_reach t0 cs" using cycles_reach.exec [OF _ _ cs(1)] charge.IH by blast
  then show ?case using increment_mode [OF cs(1)] charge cs(2) by (simp add: set_cycles_def)
next
  case (wfi mc now mc')
  then obtain cs where cs: "vemu_sleep_start now (v_cycles (m_vemu mc)) = Inr cs"
    "mc' = (set_cycles cs mc)\<lparr>m_env := (m_env mc)\<lparr>exception_index := EXCP_HLT q, halted := True\<rparr>\<rparr>"
    by (auto simp: helper_wfi_def cbind_Inr_iff)
  have "cycles_reach t0 cs" using cycles_reach.wfi [OF _ cs(1)] wfi.IH by blast
  then show ?case using sleep_start_mode [OF cs(1)] by (simp add: cs(2) set_cycles_def)
next
  case (poll mc now b mc')
  show ?case
  proof (cases b)
    case True
    then obtain cs where cs: "vemu_active_start now (v_cycles (m_vemu mc)) = Inr cs" "mc' = set_cycles cs mc"
      using poll.hyps(2) by (auto simp: cpu_has_work_def Let_def cbind_Inr_iff split: if_splits)
    have "cycles_reach t0 cs" using cycles_reach.wake [OF _ cs(1)] poll.IH by blast
    then show ?thesis using active_start_mode [OF cs(1)] True by (simp add: cs(2) set_cycles_def)
  next
    case False
    then show ?thesis using poll by (auto simp: cpu_has_work_def Let_def cbind_Inr_iff split: if_splits)
  qed
qed (simp_all add: mod_write_cycles change_param_cycles info_all_cycles)

section \<open>Properties\<close>

text \<open>
  C2. The clock time of the whole machine is accounted for. Whatever a machine has done
  since VarEMU was started at clock time \<open>t0\<close> (blocks, generated code, halts, polls, device
  writes, monitor commands), while it is halted the monitor command reports as active time
  what the counters hold and as sleep time the rest of the elapsed time, or 0; and as soon
  as an interrupt is pending, the next poll finds work, ends the sleep and books exactly
  that rest. All times are below \<open>2 ^ 62\<close> nanoseconds.
\<close>

theorem machine_time:
  assumes "mreach q m t0 mc" "halted (m_env mc)" "cs = v_cycles (m_vemu mc)" "vemu_get_act_time_all_classes cs = Inr act"
    and "clock_range t0" "clock_range now" "clock_range act"
    and "clock_range (last_active_time_vm cs)" "clock_range (last_active_time_cycles cs)"
  shows "vemu_do_info_time now (m_vemu mc) = Inr [(''1'', ''TIME_TYPE'', ''ACT'', uint act),
      (''2'', ''TIME_TYPE'', ''SLP'', max 0 (uint now - uint t0 - uint act))]
    \<and> (interrupt_request (m_env mc) AND (CPU_INTERRUPT_FIQ q OR CPU_INTERRUPT_HARD q OR INTERRUPT_EXITTB q) \<noteq> 0 \<longrightarrow>
        (\<exists>mc'. cpu_has_work q now mc = Inr (True, mc') \<and> \<not> entered_sleep_mode (v_cycles (m_vemu mc'))
          \<and> sint (total_sleep_time (v_cycles (m_vemu mc'))) = uint now - uint t0 - uint act))"
proof -
  have r: "cycles_reach t0 cs" "entered_sleep_mode cs" using mreach_cycles [OF assms(1)] assms(2,3) by simp_all
  from sleep_sum [OF reach_time_inv [OF r(1)] r(2) assms(4-9)] obtain v where
    v: "i64_add (total_sleep_time cs) (now - last_sleep_time cs) = Inr v" "sint v = uint now - uint t0 - uint act" by blast
  have "0 \<le> uint act" "uint act < 0x4000000000000000" using assms(7) by (simp_all add: clock_range_def)
  then have "sint (word_of_int (uint act) :: u64) = uint act" by (intro sint_u64_of_int) linarith+
  then have a: "sint act = uint act" by simp
  have s: "sint (if sint v < 0 then 0 else v) = max 0 (uint now - uint t0 - uint act)" using v(2) by simp
  have t: "vemu_do_info_time now (m_vemu mc) = Inr [(''1'', ''TIME_TYPE'', ''ACT'', uint act),
      (''2'', ''TIME_TYPE'', ''SLP'', max 0 (uint now - uint t0 - uint act))]"
    using r(2) assms(4) v(1) by (simp add: vemu_do_info_time_def assms(3) [symmetric] vemu_get_slp_time_def Let_def a s)
  have "\<exists>c. vemu_active_start now cs = Inr c \<and> \<not> entered_sleep_mode c \<and> sint (total_sleep_time c) = uint now - uint t0 - uint act"
    using r(2) v assms(4) by (simp add: vemu_active_start_def Let_def)
  then show ?thesis using t by (auto simp: cpu_has_work_def Let_def assms(3) [symmetric] set_cycles_def)
qed


definition demo_qemu :: qemu where
  "demo_qemu = \<lparr>EXCP_HLT = 0x10001, CPU_INTERRUPT_TGT_EXT_1 = 0x10, CPU_INTERRUPT_HARD = 0x02, INTERRUPT_EXITTB = 0x04\<rparr>"

definition demo_machine :: "bool \<Rightarrow> cycles_state \<Rightarrow> machine" where
  "demo_machine h cs = \<lparr>m_env = demo_cpu\<lparr>halted := h, interrupt_request := 2\<rparr>, m_vemu = demo_vemu\<lparr>v_pm := demo_pm, v_cycles := cs\<rparr>\<rparr>"

lemma demo_machine_reach: "mreach demo_qemu m 0 (demo_machine True demo_asleep)"
proof -
  let ?init = "vemu_init_cycles 0 cycles_state_zero"
  have 0: "mreach demo_qemu m 0 (demo_machine False ?init)"
    by (rule mreach.boot) (simp_all add: demo_machine_def)
  have "helper_vemu_info (demo_block\<lparr>tb_vemu := demo_tb\<rparr>) (demo_machine False ?init) = Inr (demo_machine False demo_awake)"
    using demo_exec by (simp add: helper_vemu_info_def demo_machine_def set_cycles_def)
  then have 1: "mreach demo_qemu m 0 (demo_machine False demo_awake)"
    by (rule mreach.charge [OF 0, rotated]) (simp add: demo_machine_def)
  obtain mc where mc: "helper_wfi demo_qemu 3 (demo_machine False demo_awake) = Inr mc"
    "mc = (demo_machine True demo_asleep)\<lparr>m_env := (m_env (demo_machine True demo_asleep))\<lparr>exception_index := EXCP_HLT demo_qemu\<rparr>\<rparr>"
    using demo_wfi by (simp add: helper_wfi_def demo_machine_def set_cycles_def)
  have "mreach demo_qemu m 0 mc" by (rule mreach.wfi [OF 1 _ mc(1)]) (simp add: demo_machine_def)
  from mreach.code [OF this, of "m_env (demo_machine True demo_asleep)"]
  show ?thesis by (simp add: mc(2) demo_machine_def)
qed

theorem machine_time_witness:
  "vemu_do_info_time 12 (m_vemu (demo_machine True demo_asleep)) =
      Inr [(''1'', ''TIME_TYPE'', ''ACT'', 5), (''2'', ''TIME_TYPE'', ''SLP'', 7)]
   \<and> (\<exists>mc'. cpu_has_work demo_qemu 12 (demo_machine True demo_asleep) = Inr (True, mc')
        \<and> sint (total_sleep_time (v_cycles (m_vemu mc'))) = 7)"
proof -
  have "halted (m_env (demo_machine True demo_asleep))" "demo_asleep = v_cycles (m_vemu (demo_machine True demo_asleep))"
    "interrupt_request (m_env (demo_machine True demo_asleep)) AND
       (CPU_INTERRUPT_FIQ demo_qemu OR CPU_INTERRUPT_HARD demo_qemu OR INTERRUPT_EXITTB demo_qemu) \<noteq> 0"
    by (simp_all add: demo_machine_def demo_qemu_def CPU_INTERRUPT_FIQ_def)
  moreover have "clock_range 0" "clock_range 12" "clock_range 5" "clock_range (last_active_time_vm demo_asleep)"
    "clock_range (last_active_time_cycles demo_asleep)"
    by (simp_all add: clock_range_def demo_asleep_def demo_awake_def vemu_init_cycles_def)
  ultimately show ?thesis
    using machine_time [OF demo_machine_reach _ _ demo_act_time, where now = 12] by auto
qed
end
