(* ===== verification/Vemu_System.thy ===== *)
theory Vemu_System
  imports Vemu_Machine
begin

text \<open>
  The pipeline from the command line to the counters: the configuration is read, blocks
  are translated with the tables it leaves, and each block charges as often as its code
  calls the helper. The lemmas here say what the configuration leaves of the costs.
\<close>

section \<open>Running blocks\<close>

definition charge_block :: "translator \<Rightarrow> instr_tables \<Rightarrow> translation_block \<Rightarrow> machine \<Rightarrow> machine result" where
  "charge_block tr ts tb mc =
     cbind (gen_intermediate_code tr ts tb) (\<lambda>tb'.
       cfold (\<lambda>_. helper_vemu_info tb') [0..<count_list (tb_code tb') Call_vemu_info] mc)"

definition charge_blocks :: "translator \<Rightarrow> instr_tables \<Rightarrow> translation_block list \<Rightarrow> machine \<Rightarrow> machine result" where
  "charge_blocks tr ts tbs mc = cfold (charge_block tr ts) tbs mc"

text \<open>The record, the cost and the class of the instruction at the start of a block.\<close>

definition block_info :: "translator \<Rightarrow> instr_tables \<Rightarrow> translation_block \<Rightarrow> vemu_tb_info result" where
  "block_info tr ts tb = insn_info tr ts (tb_pc tb) (ARM_TBFLAG_THUMB (tb_flags tb) \<noteq> 0) (ARM_TBFLAG_BSWAP_CODE (tb_flags tb) \<noteq> 0)"

definition block_cost :: "translator \<Rightarrow> instr_tables \<Rightarrow> translation_block \<Rightarrow> nat" where
  "block_cost tr ts tb = (case block_info tr ts tb of Inl _ \<Rightarrow> 0 | Inr i \<Rightarrow> tb_cycles i)"

definition block_class :: "translator \<Rightarrow> instr_tables \<Rightarrow> translation_block \<Rightarrow> nat" where
  "block_class tr ts tb = (case block_info tr ts tb of Inl _ \<Rightarrow> 0 | Inr i \<Rightarrow> unat (ii_class (instr_info i)))"

text \<open>A block that starts at neither a breakpoint nor an exception return and may hold a last instruction.\<close>

definition block_ok :: "translator \<Rightarrow> translation_block \<Rightarrow> bool" where
  "block_ok tr tb \<longleftrightarrow> tb_cflags tb AND CF_LAST_IO = 0 \<and> tb_pc tb \<notin> set (tr_breakpoints tr)
     \<and> \<not> (tb_pc tb \<ge> 0xfffffff0 \<and> tr_is_m tr)"

section \<open>Costs under a configuration\<close>

lemma decode_same:
  assumes "tables_wf ts" "same_tables ts ts'" "k \<in> {0, 1, 2}"
  shows "\<exists>i i'. vemu_target_decode_instr ts w k = Inr i \<and> vemu_target_decode_instr ts' w k = Inr i'
    \<and> same_row (instr_info i) (instr_info i')"
proof -
  have wf': "tables_wf ts'" using same_tables_wf [OF assms(2,1)] .
  have l: "length (thumb_instr ts) = 256" "length (arm_instr ts) = 4096"
    using assms(1) by (auto simp: tables_wf_def rows_wf_def dest: list_all2_lengthD)
  have "same_row (thumb_instr ts ! n) (thumb_instr ts' ! n)" if "n < 256" for n
    using assms(2) that l by (auto simp: same_tables_def intro: list_all2_nthD)
  moreover have "same_row (arm_instr ts ! n) (arm_instr ts' ! n)" if "n < 4096" for n
    using assms(2) that l by (auto simp: same_tables_def intro: list_all2_nthD)
  moreover have "thumb2_instr ts' = thumb2_instr ts" using assms(2) by (simp add: same_tables_def)
  ultimately show ?thesis
    using assms(3) opcode_bounds(1,2) [of w] by (auto simp: decode_cases [OF assms(1)] decode_cases [OF wf'] same_row_refl)
qed

lemma same_row_cycles: "same_row r r' \<Longrightarrow> ii_cycles r' = ii_cycles r"
  by (cases r; cases r') (simp add: same_row_def)

lemma block_cost_same:
  assumes "tables_wf ts" "same_tables ts ts'"
  shows "block_cost tr ts' tb = block_cost tr ts tb"
proof -
  obtain w k where f: "vemu_fetch (tr_code tr) (tb_pc tb) (ARM_TBFLAG_THUMB (tb_flags tb) \<noteq> 0)
      (ARM_TBFLAG_BSWAP_CODE (tb_flags tb) \<noteq> 0) = (w, k)" by fastforce
  then have "k \<in> {0, 1, 2}" using fetch_kind by (metis snd_conv)
  from decode_same [OF assms this, of w] obtain i i' where
    "vemu_target_decode_instr ts w k = Inr i" "vemu_target_decode_instr ts' w k = Inr i'" "same_row (instr_info i) (instr_info i')"
    by (elim exE conjE)
  then show ?thesis
    using same_row_cycles by (simp add: block_cost_def block_info_def insn_info_def f tb_cycles_def)
qed

lemma decode_whole:
  assumes "tables_wf ts" "k \<in> {0, 1, 2}" "vemu_target_decode_instr ts w k = Inr i"
  shows "ii_cycles (instr_info i) = Fin (of_nat (tb_cycles i)) \<and> tb_cycles i \<le> 5
    \<and> (classes_ok ts \<longrightarrow> unat (ii_class (instr_info i)) < MAX_INSTR_CLASSES)"
proof -
  note r = tables_wf_tables [OF assms(1), THEN instr_table.row_at]
  note b = opcode_bounds(1,2) [of w]
  have l: "length (thumb_instr ts) = 256" "length (arm_instr ts) = 4096" "length (thumb2_instr ts) = 1"
    using assms(1) by (auto simp: tables_wf_def rows_wf_def dest: list_all2_lengthD)
  have c: "classes_ok ts \<longrightarrow> (\<forall>x \<in> set (thumb_instr ts) \<union> set (arm_instr ts) \<union> set (thumb2_instr ts).
      unat (ii_class x) < MAX_INSTR_CLASSES)"
    by (auto simp: classes_ok_def list_all_iff)
  have e: "\<exists>n. row_wf n (thumb_instr ts ! unat (thumb_opcode w))" "\<exists>n. row_wf n (arm_instr ts ! unat (arm_opcode w))"
    "\<exists>n. row_wf n (thumb2_instr ts ! 0)"
    using r(1) [OF b(1)] r(2) [OF b(2)] assms(1) unfolding tables_wf_def by blast+
  have "(\<exists>n. row_wf n (instr_info i)) \<and> instr_info i \<in> set (thumb_instr ts) \<union> set (arm_instr ts) \<union> set (thumb2_instr ts)"
    using assms(2,3) b l by (auto simp: decode_cases [OF assms(1)] e)
  then have "classes_ok ts \<longrightarrow> unat (ii_class (instr_info i)) < MAX_INSTR_CLASSES"
    "ii_cycles (instr_info i) \<in> set [Fin 0, Fin 1, Fin 2, Fin 3, Fin 4, Fin 5]" using c by (auto simp: row_wf_def)
  then show ?thesis by (auto simp: tb_cycles_def)
qed

lemma block_info_whole:
  assumes "tables_wf ts"
  shows "\<exists>i. block_info tr ts tb = Inr i \<and> ii_cycles (instr_info i) = Fin (of_nat (tb_cycles i))
    \<and> tb_cycles i = block_cost tr ts tb \<and> block_cost tr ts tb \<le> 5 \<and> unat (ii_class (instr_info i)) = block_class tr ts tb
    \<and> (classes_ok ts \<longrightarrow> block_class tr ts tb < MAX_INSTR_CLASSES)"
proof -
  obtain w k where f: "vemu_fetch (tr_code tr) (tb_pc tb) (ARM_TBFLAG_THUMB (tb_flags tb) \<noteq> 0)
      (ARM_TBFLAG_BSWAP_CODE (tb_flags tb) \<noteq> 0) = (w, k)" by fastforce
  then have k: "k \<in> {0, 1, 2}" using fetch_kind by (metis snd_conv)
  obtain i where "block_info tr ts tb = Inr i" using insn_info_total [OF assms] unfolding block_info_def by blast
  moreover from this have "vemu_target_decode_instr ts w k = Inr i" by (simp add: block_info_def insn_info_def f)
  ultimately show ?thesis using decode_whole [OF assms k] by (simp add: block_cost_def block_class_def)
qed

lemma initial_classes_ok: "classes_ok initial_tables"
proof -
  have z: "list_all2 row_ok is t \<Longrightarrow> list_all (\<lambda>r. unat (ii_class r) < MAX_INSTR_CLASSES) t" for "is" t
    by (auto simp: list_all_length list_all2_conv_all_nth row_ok_def MAX_INSTR_CLASSES_def)
  show ?thesis using z [OF thumb_rows_ok] z [OF arm_rows_ok]
    by (simp add: classes_ok_def initial_tables_def vemu_thumb2_instr_def instr_def CLASS_DEFAULT_def MAX_INSTR_CLASSES_def)
qed

section \<open>What the blocks charge\<close>

lemma charge_block_info:
  assumes "disas_ok tr" "tables_wf ts" "tr_singlestep tr" "block_ok tr tb" "block_info tr ts tb = Inr i"
  shows "charge_block tr ts tb mc =
    cbind (vemu_increment_cycles (v_pm (m_vemu mc)) i (v_cycles (m_vemu mc))) (\<lambda>cs. Inr (set_cycles cs mc))"
proof -
  obtain tb' where "gen_intermediate_code tr ts tb = Inr tb'" "count_list (tb_code tb') Call_vemu_info = 1" "tb_vemu tb' = i"
    using singlestep_block [OF assms(1-3), of tb] assms(4,5) by (auto simp: block_ok_def block_info_def)
  then show ?thesis
    by (cases "vemu_increment_cycles (v_pm (m_vemu mc)) i (v_cycles (m_vemu mc))")
      (simp_all add: charge_block_def helper_vemu_info_def)
qed

lemma charge_blocks_run:
  assumes "disas_ok tr" "tables_wf ts" "tr_singlestep tr" "\<forall>tb \<in> set tbs. block_ok tr tb"
    and "map (block_info tr ts) tbs = map Inr is" "run_tbs (v_pm (m_vemu mc)) is (v_cycles (m_vemu mc)) = Inr cs"
  shows "charge_blocks tr ts tbs mc = Inr (set_cycles cs mc)"
  using assms(4-6)
proof (induction tbs arbitrary: "is" mc)
  case Nil
  then show ?case by (simp add: charge_blocks_def run_tbs_def set_cycles_def)
next
  case (Cons tb tbs)
  then obtain i is' where i: "is = i # is'" "block_info tr ts tb = Inr i" "map (block_info tr ts) tbs = map Inr is'"
    by (cases "is") auto
  obtain u where u: "vemu_increment_cycles (v_pm (m_vemu mc)) i (v_cycles (m_vemu mc)) = Inr u"
    "run_tbs (v_pm (m_vemu mc)) is' u = Inr cs"
    using Cons.prems(3) by (auto simp: i(1) run_tbs_def cbind_Inr_iff)
  have c: "charge_block tr ts tb mc = Inr (set_cycles u mc)"
    using charge_block_info [OF assms(1-3) _ i(2), of mc] Cons.prems(1) u(1) by simp
  have "charge_blocks tr ts tbs (set_cycles u mc) = Inr (set_cycles cs (set_cycles u mc))"
    using Cons.IH [OF _ i(3)] Cons.prems(1) u(2) by (simp add: set_cycles_def)
  then show ?case using c by (simp add: charge_blocks_def) (simp add: set_cycles_def)
qed

text \<open>A class out of range is caught by the assertion of the accounting, when such a block runs.\<close>

lemma charge_blocks_assert:
  assumes "disas_ok tr" "tables_wf ts" "tr_singlestep tr" "freq_ok (v_pm (m_vemu mc))"
    and "\<forall>tb \<in> set tbs. block_ok tr tb" "\<exists>tb \<in> set tbs. \<not> block_class tr ts tb < MAX_INSTR_CLASSES"
  shows "charge_blocks tr ts tbs mc = Inl Assert_Fail"
  using assms(4-6)
proof (induction tbs arbitrary: mc)
  case (Cons tb tbs)
  obtain i where i: "block_info tr ts tb = Inr i" "ii_cycles (instr_info i) = Fin (of_nat (tb_cycles i))"
      "unat (ii_class (instr_info i)) = block_class tr ts tb"
    using block_info_whole [OF assms(2), of tr tb] by blast
  have "block_ok tr tb" using Cons.prems(2) by simp
  note c = charge_block_info [OF assms(1-3) this i(1), of mc]
  show ?case
  proof (cases "block_class tr ts tb < MAX_INSTR_CLASSES")
    case True
    then have "tb_ok i" using i(2,3) by (simp add: tb_ok_def)
    then obtain s where "vemu_increment_cycles (v_pm (m_vemu mc)) i (v_cycles (m_vemu mc)) = Inr s"
      using increment_total Cons.prems(1) by blast
    moreover have "charge_blocks tr ts tbs (set_cycles s mc) = Inl Assert_Fail"
      using Cons True by (auto simp: set_cycles_def)
    ultimately show ?thesis using c by (simp add: charge_blocks_def)
  next
    case False
    then show ?thesis using c i(3) by (simp add: charge_blocks_def vemu_increment_cycles_def c_assert_def Let_def)
  qed
qed simp

text \<open>With the classes in range, blocks add their costs to counters that start at zero.\<close>

lemma charge_blocks_cost:
  assumes "disas_ok tr" "tables_wf ts" "tr_singlestep tr" "freq_ok (v_pm (m_vemu mc))"
    and "\<forall>tb \<in> set tbs. block_ok tr tb" "\<forall>tb \<in> set tbs. block_class tr ts tb < MAX_INSTR_CLASSES"
    and "v_cycles (m_vemu mc) = vemu_init_cycles t0 cycles_state_zero" "sum_list (map (block_cost tr ts) tbs) \<le> 2 ^ 53"
  shows "\<exists>mc'. charge_blocks tr ts tbs mc = Inr mc'
    \<and> vemu_get_cycles_all_classes (v_cycles (m_vemu mc')) = Inr (of_nat (sum_list (map (block_cost tr ts) tbs)))"
proof -
  define infos where "infos = map (\<lambda>tb. projr (block_info tr ts tb)) tbs"
  have i: "block_info tr ts tb = Inr (projr (block_info tr ts tb))" "tb_cycles (projr (block_info tr ts tb)) = block_cost tr ts tb"
    "block_class tr ts tb < MAX_INSTR_CLASSES \<Longrightarrow> whole_tb (projr (block_info tr ts tb))" for tb
    using block_info_whole [OF assms(2), of tr tb] by (auto simp: whole_tb_def)
  have infos: "map (block_info tr ts) tbs = map Inr infos" "\<forall>x \<in> set infos. whole_tb x"
    "sum_list (map tb_cycles infos) = sum_list (map (block_cost tr ts) tbs)"
    using i assms(6) by (simp_all add: infos_def comp_def)
  have "spec_cycles c infos \<le> sum_list (map tb_cycles infos)" for c
    unfolding spec_cycles_def by (rule sum_list_filter_le_nat)
  then have "\<forall>c. 0 + spec_cycles c infos \<le> 2 ^ 53" using assms(8) infos(3) by (metis add_0 order_trans)
  from counts_run [OF counts_init [of t0] assms(4) infos(2) this] obtain s where
    s: "run_tbs (v_pm (m_vemu mc)) infos (v_cycles (m_vemu mc)) = Inr s" "counts (\<lambda>c. spec_cycles c infos) s" by (auto simp: assms(7))
  have "vemu_get_cycles_all_classes s = Inr (of_nat (sum_list (map (block_cost tr ts) tbs)))"
    using counts_get_all [OF s(2)] assms(8) unfolding spec_cycles_sum [OF infos(2)] infos(3) .
  then show ?thesis using charge_blocks_run [OF assms(1-3,5) infos(1) s(1)] by (simp add: set_cycles_def)
qed

end
