(* ===== verification/Variability_Driver.thy ===== *)
theory Variability_Driver
  imports Vemu_Hw_Module
begin

text \<open>
  The guest kernel's side of VarEMU: the driver \<^verbatim>\<open>drivers/misc/variability.c\<close>, its hooks in the
  scheduler (\<^verbatim>\<open>prepare_task_switch\<close> and \<^verbatim>\<open>finish_task_switch\<close> of \<^verbatim>\<open>kernel/sched/core.c\<close>) and
  in \<^verbatim>\<open>dup_task_struct\<close> of \<^verbatim>\<open>kernel/fork.c\<close>, and the two system calls. The kernel's access to
  memory-mapped registers (\<^verbatim>\<open>iowrite32\<close>, \<^verbatim>\<open>ioread32\<close>, \<^verbatim>\<open>memcpy_fromio\<close>) is a parameter, the
  record \<open>io\<close>; what the driver relies on is the locale \<open>varemu_device\<close>, which is interpreted
  on the device of \<^verbatim>\<open>Vemu_Hw_Module\<close>. A \<^verbatim>\<open>vemu_state\<close> is the list of its twenty 64-bit
  variables, the member \<^verbatim>\<open>array64\<close> of the union.
\<close>

section \<open>State\<close>

type_synonym vemu_state = "u64 list"

definition vemu_state_zero :: vemu_state where
  "vemu_state_zero = replicate VEMU_STATE_N_VARS 0"

text \<open>Positions of the last three members of the structure in the array.\<close>

definition fault_status :: nat where "fault_status = 17"
definition frequency :: nat where "frequency = 18"
definition voltage :: nat where "voltage = 19"

lemmas var_defs = fault_status_def frequency_def voltage_def VEMU_STATE_N_VARS_def MAX_INSTR_CLASSES_def

record 'h io =
  iowrite32 :: "u32 \<Rightarrow> int \<Rightarrow> 'h \<Rightarrow> 'h result"   \<comment> \<open>value, offset from \<^verbatim>\<open>base_pointer\<close>\<close>
  ioread32 :: "int \<Rightarrow> 'h \<Rightarrow> u32 result"
  memcpy_fromio :: "int \<Rightarrow> nat \<Rightarrow> 'h \<Rightarrow> u8 list result"

record 'h kernel =
  base_pointer :: bool                \<comment> \<open>whether it is not null\<close>
  vemu_state_pin :: vemu_state
  vemu_state_pout :: vemu_state
  vemu_state_sys :: vemu_state
  vemu_state_tmp :: vemu_state
  tasks :: "nat list"                 \<comment> \<open>the tasks created so far\<close>
  task_vemu :: "nat \<Rightarrow> vemu_state"    \<comment> \<open>the field \<^verbatim>\<open>vemu\<close> of their \<^verbatim>\<open>task_struct\<close>\<close>
  current :: nat
  hw :: 'h

section \<open>Operations\<close>

definition READ_HW :: int where "READ_HW = 0x1000000"
definition READ_SYS :: int where "READ_SYS = 0x0100000"
definition READ_PROC :: int where "READ_PROC = 0x0010000"
definition EFAULT :: int where "EFAULT = 14"

text \<open>The 64-bit words that bytes stand for; the guest is little-endian.\<close>

definition words_of :: "u8 list \<Rightarrow> vemu_state" where
  "words_of bs = map (\<lambda>k. le_word (take 8 (drop (8 * k) bs))) [0..<VEMU_STATE_N_VARS]"

definition vemu_read_state :: "'h io \<Rightarrow> bool \<Rightarrow> vemu_state \<Rightarrow> 'h \<Rightarrow> (vemu_state \<times> 'h) result" where
  "vemu_read_state io mapped target h =
     (if \<not> mapped then Inr (target, h)
      else cbind (iowrite32 io 1 (uint READ_CMD) h) (\<lambda>h.
           cbind (memcpy_fromio io 0 (VEMU_STATE_N_VARS * 8) h) (\<lambda>bs. Inr (words_of bs, h))))"

definition vemu_reg_read :: "'h io \<Rightarrow> bool \<Rightarrow> int \<Rightarrow> 'h \<Rightarrow> u64 result" where
  "vemu_reg_read io mapped offset h =
     (if \<not> mapped then Inr 0
      else cbind (ioread32 io offset h) (\<lambda>lo.
           cbind (ioread32 io (offset + 4) h) (\<lambda>hi. Inr (push_bit 32 (ucast hi) + ucast lo))))"

definition vemu_reg_write :: "'h io \<Rightarrow> bool \<Rightarrow> int \<Rightarrow> u64 \<Rightarrow> 'h \<Rightarrow> 'h result" where
  "vemu_reg_write io mapped offset val h =
     (if \<not> mapped then Inr h else iowrite32 io (ucast val) offset h)"

definition vemu_add_delta :: "vemu_state \<Rightarrow> vemu_state \<Rightarrow> vemu_state \<Rightarrow> vemu_state" where
  "vemu_add_delta target new old =
     fold (\<lambda>i t. t[i := t ! i + (new ! i - old ! i)]) [0..<VEMU_STATE_N_VARS - 3] target"

definition vemu_process_in :: "'h io \<Rightarrow> 'h kernel \<Rightarrow> 'h kernel result" where
  "vemu_process_in io k =
     cbind (vemu_read_state io (base_pointer k) (vemu_state_pin k) (hw k)) (\<lambda>(pin, h).
     let k = k\<lparr>vemu_state_pin := pin, hw := h\<rparr>;
         k = k\<lparr>vemu_state_sys := vemu_add_delta (vemu_state_sys k) (vemu_state_pin k) (vemu_state_pout k)\<rparr> in
     cbind (vemu_reg_write io (base_pointer k) (uint SET_FAULTS) (task_vemu k (current k) ! fault_status) (hw k)) (\<lambda>h.
       Inr (k\<lparr>hw := h\<rparr>)))"

definition vemu_process_out :: "'h io \<Rightarrow> 'h kernel \<Rightarrow> 'h kernel result" where
  "vemu_process_out io k =
     cbind (vemu_read_state io (base_pointer k) (vemu_state_pout k) (hw k)) (\<lambda>(pout, h).
     let k = k\<lparr>vemu_state_pout := pout, hw := h\<rparr>;
         v = vemu_add_delta (task_vemu k (current k)) (vemu_state_pout k) (vemu_state_pin k);
         v = v[fault_status := vemu_state_pout k ! fault_status];
         v = v[frequency := vemu_state_pout k ! frequency];
         v = v[voltage := vemu_state_pout k ! voltage]
     in Inr (k\<lparr>task_vemu := (task_vemu k)(current k := v)\<rparr>))"

text \<open>The scheduler's switch to another task, of which only the driver's hooks are modelled, and a fork.\<close>

definition prepare_task_switch :: "'h io \<Rightarrow> 'h kernel \<Rightarrow> 'h kernel result" where
  "prepare_task_switch io k = vemu_process_out io k"

definition finish_task_switch :: "'h io \<Rightarrow> 'h kernel \<Rightarrow> 'h kernel result" where
  "finish_task_switch io k = vemu_process_in io k"

definition context_switch :: "'h io \<Rightarrow> nat \<Rightarrow> 'h kernel \<Rightarrow> 'h kernel result" where
  "context_switch io t k = cbind (prepare_task_switch io k) (\<lambda>k. finish_task_switch io (k\<lparr>current := t\<rparr>))"

definition dup_task_struct :: "nat \<Rightarrow> 'h kernel \<Rightarrow> 'h kernel" where
  "dup_task_struct t k = k\<lparr>tasks := t # tasks k, task_vemu := (task_vemu k)(t := vemu_state_zero)\<rparr>"

text \<open>
  The system calls: what they return, and for the read what is copied to the user; the
  argument \<open>user_ok\<close> says whether \<^verbatim>\<open>copy_to_user\<close> succeeds, \<open>val\<close> is what \<^verbatim>\<open>copy_from_user\<close>
  gets.
\<close>

definition sys_var_reg_read ::
    "'h io \<Rightarrow> int \<Rightarrow> bool \<Rightarrow> 'h kernel \<Rightarrow> (int \<times> vemu_state option \<times> 'h kernel) result" where
  "sys_var_reg_read io offset user_ok k =
     (let copy = (\<lambda>src k. Inr (if user_ok then (0, Some src, k) else (- EFAULT, None, k))) in
      if offset AND READ_HW \<noteq> 0 then
        cbind (vemu_read_state io (base_pointer k) (vemu_state_tmp k) (hw k)) (\<lambda>(tmp, h).
          copy tmp (k\<lparr>vemu_state_tmp := tmp, hw := h\<rparr>))
      else if offset AND READ_PROC \<noteq> 0 then
        cbind (vemu_process_out io k) (\<lambda>k. cbind (vemu_process_in io k) (\<lambda>k. copy (task_vemu k (current k)) k))
      else if offset AND READ_SYS \<noteq> 0 then copy (vemu_state_sys k) k
      else Inr (- EFAULT, None, k))"

definition sys_var_reg_write :: "'h io \<Rightarrow> int \<Rightarrow> u64 option \<Rightarrow> 'h kernel \<Rightarrow> (int \<times> 'h kernel) result" where
  "sys_var_reg_write io offset val k =
     (if offset > 0x1000 \<or> offset mod 8 \<noteq> 0 then Inr (- EFAULT, k)
      else case val of
        None \<Rightarrow> Inr (- EFAULT, k)
      | Some myval \<Rightarrow> cbind (vemu_reg_write io (base_pointer k) offset myval (hw k)) (\<lambda>h. Inr (0, k\<lparr>hw := h\<rparr>)))"

text \<open>\<open>mapped\<close> says whether \<^verbatim>\<open>ioremap\<close> succeeds.\<close>

definition variability_init :: "bool \<Rightarrow> 'h kernel \<Rightarrow> 'h kernel" where
  "variability_init mapped k = k\<lparr>base_pointer := mapped, vemu_state_pin := vemu_state_zero,
     vemu_state_pout := vemu_state_zero, vemu_state_sys := vemu_state_zero, vemu_state_tmp := vemu_state_zero\<rparr>"

section \<open>Runs of the kernel\<close>

text \<open>
  What happens to the kernel's account: the machine runs, and with it the device; the
  scheduler switches; a task is created; the current task makes a system call.
\<close>

datatype 'h event = Run 'h | Switch nat | Fork nat | Read int bool | Write int "u64 option"

fun kstep :: "'h io \<Rightarrow> 'h event \<Rightarrow> 'h kernel \<Rightarrow> 'h kernel result" where
  "kstep io (Run h) k = Inr (k\<lparr>hw := h\<rparr>)"
| "kstep io (Switch t) k = context_switch io t k"
| "kstep io (Fork t) k = Inr (dup_task_struct t k)"
| "kstep io (Read offset user_ok) k = cbind (sys_var_reg_read io offset user_ok k) (\<lambda>(r, d, k). Inr k)"
| "kstep io (Write offset val) k = cbind (sys_var_reg_write io offset val k) (\<lambda>(r, k). Inr k)"

text \<open>A switch goes to a task that exists, and a fork creates one that does not.\<close>

fun event_ok :: "'h event \<Rightarrow> 'h kernel \<Rightarrow> bool" where
  "event_ok (Switch t) k \<longleftrightarrow> t \<in> set (tasks k)"
| "event_ok (Fork t) k \<longleftrightarrow> t \<notin> set (tasks k)"
| "event_ok _ k \<longleftrightarrow> True"

inductive kreach :: "'h io \<Rightarrow> ('h \<Rightarrow> 'h \<Rightarrow> bool) \<Rightarrow> 'h kernel \<Rightarrow> 'h kernel \<Rightarrow> bool" for io runs k where
  start: "kreach io runs k k"
| step: "kreach io runs k k1 \<Longrightarrow> event_ok e k1 \<Longrightarrow> (\<forall>h. e = Run h \<longrightarrow> runs (hw k1) h) \<Longrightarrow> kstep io e k1 = Inr k2
    \<Longrightarrow> kreach io runs k k2"

inductive_cases kreachE: "kreach io runs k k'"

text \<open>The state in which the driver starts: one task, whose account is empty.\<close>

definition boot :: "'h \<Rightarrow> 'h kernel" where
  "boot h = variability_init True \<lparr>base_pointer = False, vemu_state_pin = vemu_state_zero, vemu_state_pout = vemu_state_zero,
     vemu_state_sys = vemu_state_zero, vemu_state_tmp = vemu_state_zero, tasks = [0],
     task_vemu = (\<lambda>_. vemu_state_zero), current = 0, hw = h\<rparr>"

section \<open>The account\<close>

lemma length_words_of [simp]: "length (words_of bs) = VEMU_STATE_N_VARS"
  by (simp add: words_of_def)

lemma delta_fold:
  assumes "n \<le> length t" "length t = length t0"
    and "\<forall>i < length t. t ! i = (if i < m then t0 ! i + (new ! i - old ! i) else t0 ! i)" "m \<le> n"
  shows "fold (\<lambda>i t. t[i := t ! i + (new ! i - old ! i)]) [m..<n] t
    = map (\<lambda>i. if i < n then t0 ! i + (new ! i - old ! i) else (t0 :: vemu_state) ! i) [0..<length t0]"
  using assms
proof (induction "n - m" arbitrary: m t)
  case 0
  then show ?case by (auto intro: nth_equalityI)
next
  case (Suc d)
  then have m: "m < n" "[m..<n] = m # [Suc m..<n]" by (simp_all add: upt_conv_Cons)
  show ?case unfolding m(2) fold_simps(2) comp_apply using Suc(2-) m(1)
    by (intro Suc(1)) (auto simp: nth_list_update less_Suc_eq)
qed

lemma add_delta:
  assumes "length t = VEMU_STATE_N_VARS"
  shows "length (vemu_add_delta t new old) = VEMU_STATE_N_VARS"
    "i < VEMU_STATE_N_VARS \<Longrightarrow> vemu_add_delta t new old ! i =
      (if i < 17 then t ! i + (new ! i - old ! i) else t ! i)"
  using delta_fold [of "VEMU_STATE_N_VARS - 3" t t 0 new old] assms
  by (simp_all add: vemu_add_delta_def var_defs)


definition accounts :: "'h kernel \<Rightarrow> nat \<Rightarrow> u64" where
  "accounts k i = sum_list (map (\<lambda>t. task_vemu k t ! i) (tasks k)) + vemu_state_sys k ! i"

definition kernel_wf :: "'h kernel \<Rightarrow> bool" where
  "kernel_wf k \<longleftrightarrow> base_pointer k \<and> distinct (tasks k) \<and> current k \<in> set (tasks k)
     \<and> (\<forall>t. length (task_vemu k t) = VEMU_STATE_N_VARS) \<and> length (vemu_state_pin k) = VEMU_STATE_N_VARS
     \<and> length (vemu_state_pout k) = VEMU_STATE_N_VARS \<and> length (vemu_state_sys k) = VEMU_STATE_N_VARS"

lemma sum_list_update:
  fixes f g :: "nat \<Rightarrow> u64"
  assumes "distinct ts" "c \<in> set ts" "\<And>t. t \<noteq> c \<Longrightarrow> g t = f t"
  shows "sum_list (map g ts) = sum_list (map f ts) + (g c - f c)"
  using assms
proof (induction ts)
  case Nil
  then show ?case by simp
next
  case (Cons t ts)
  show ?case
  proof (cases "t = c")
    case True
    have "map g ts = map f ts"
    proof (rule map_cong [OF refl])
      fix x assume "x \<in> set ts"
      then have "x \<noteq> c" using Cons.prems(1) True by auto
      then show "g x = f x" by (rule Cons.prems(3))
    qed
    then have "sum_list (map g ts) = sum_list (map f ts)" by (rule arg_cong)
    then show ?thesis using True by simp
  qed (use Cons in \<open>simp add: algebra_simps\<close>)
qed

text \<open>The effect of the two hooks when they return.\<close>

lemma process_out_Inr:
  assumes "vemu_process_out io k = Inr k'" "kernel_wf k"
  shows "kernel_wf k' \<and> tasks k' = tasks k \<and> current k' = current k \<and> vemu_state_pin k' = vemu_state_pin k
    \<and> vemu_state_sys k' = vemu_state_sys k
    \<and> (\<forall>t. t \<noteq> current k \<longrightarrow> task_vemu k' t = task_vemu k t)
    \<and> (\<forall>i < 17. task_vemu k' (current k) ! i = task_vemu k (current k) ! i + (vemu_state_pout k' ! i - vemu_state_pin k ! i))
    \<and> (\<forall>i < VEMU_STATE_N_VARS. 17 \<le> i \<longrightarrow> task_vemu k' (current k) ! i = vemu_state_pout k' ! i)
    \<and> vemu_read_state io True (vemu_state_pout k) (hw k) = Inr (vemu_state_pout k', hw k')"
proof -
  obtain pout h where r: "vemu_read_state io True (vemu_state_pout k) (hw k) = Inr (pout, h)"
    using assms by (auto simp: vemu_process_out_def kernel_wf_def cbind_Inr_iff)
  define v where "v = (vemu_add_delta (task_vemu k (current k)) pout (vemu_state_pin k))
    [fault_status := pout ! fault_status, frequency := pout ! frequency, voltage := pout ! voltage]"
  have k': "k' = k\<lparr>vemu_state_pout := pout, hw := h, task_vemu := (task_vemu k)(current k := v)\<rparr>"
    using assms r by (simp add: vemu_process_out_def kernel_wf_def Let_def v_def)
  have l: "length (task_vemu k (current k)) = VEMU_STATE_N_VARS" "length pout = VEMU_STATE_N_VARS"
    using assms(2) r by (auto simp: kernel_wf_def vemu_read_state_def cbind_Inr_iff)
  note d = add_delta [OF l(1), where new = pout and old = "vemu_state_pin k"]
  have "length v = VEMU_STATE_N_VARS" "\<forall>i < 17. v ! i = task_vemu k (current k) ! i + (pout ! i - vemu_state_pin k ! i)"
    using d by (simp_all add: v_def var_defs)
  moreover have "v ! i = pout ! i" if "i < VEMU_STATE_N_VARS" "17 \<le> i" for i
  proof -
    have "i \<in> {17, 18, 19}" using that by (auto simp: var_defs)
    then show ?thesis using d(1) by (auto simp: v_def var_defs)
  qed
  ultimately show ?thesis using assms(2) r l(2) by (simp add: k' kernel_wf_def)
qed

lemma process_in_Inr:
  assumes "vemu_process_in io k = Inr k'" "kernel_wf k"
  shows "kernel_wf k' \<and> tasks k' = tasks k \<and> current k' = current k \<and> vemu_state_pout k' = vemu_state_pout k
    \<and> task_vemu k' = task_vemu k
    \<and> (\<forall>i < 17. vemu_state_sys k' ! i = vemu_state_sys k ! i + (vemu_state_pin k' ! i - vemu_state_pout k ! i))
    \<and> (\<exists>h. vemu_read_state io True (vemu_state_pin k) (hw k) = Inr (vemu_state_pin k', h)
         \<and> iowrite32 io (ucast (task_vemu k (current k) ! fault_status)) (uint SET_FAULTS) h = Inr (hw k'))"
proof -
  obtain pin h where r: "vemu_read_state io True (vemu_state_pin k) (hw k) = Inr (pin, h)"
    using assms by (auto simp: vemu_process_in_def kernel_wf_def cbind_Inr_iff)
  obtain h' where w: "iowrite32 io (ucast (task_vemu k (current k) ! fault_status)) (uint SET_FAULTS) h = Inr h'"
    using assms r by (auto simp: vemu_process_in_def kernel_wf_def cbind_Inr_iff vemu_reg_write_def Let_def)
  have k': "k' = k\<lparr>vemu_state_pin := pin, vemu_state_sys := vemu_add_delta (vemu_state_sys k) pin (vemu_state_pout k), hw := h'\<rparr>"
    using assms r w by (simp add: vemu_process_in_def kernel_wf_def vemu_reg_write_def Let_def)
  have l: "length (vemu_state_sys k) = VEMU_STATE_N_VARS" "length pin = VEMU_STATE_N_VARS"
    using assms(2) r by (auto simp: kernel_wf_def vemu_read_state_def cbind_Inr_iff)
  show ?thesis
    using assms(2) r w l(2) add_delta [OF l(1), where new = pin and old = "vemu_state_pout k"] by (simp add: k' kernel_wf_def var_defs)
qed

lemma out_in_accounts:
  assumes "vemu_process_out io k = Inr k1" "t \<in> set (tasks k)" "vemu_process_in io (k1\<lparr>current := t\<rparr>) = Inr k2"
    and "kernel_wf k" "\<forall>i < 17. accounts k i = vemu_state_pin k ! i"
  shows "kernel_wf k2 \<and> tasks k2 = tasks k \<and> current k2 = t \<and> (\<forall>i < 17. accounts k2 i = vemu_state_pin k2 ! i)"
proof -
  note o = process_out_Inr [OF assms(1,4)]
  have w: "kernel_wf (k1\<lparr>current := t\<rparr>)" using o assms(2) by (auto simp: kernel_wf_def)
  note n = process_in_Inr [OF assms(3) w]
  have "accounts k2 i = vemu_state_pin k2 ! i" if "i < 17" for i
  proof -
    have "sum_list (map (\<lambda>t. task_vemu k1 t ! i) (tasks k)) = sum_list (map (\<lambda>t. task_vemu k t ! i) (tasks k))
        + (task_vemu k1 (current k) ! i - task_vemu k (current k) ! i)"
      using o assms(4) by (intro sum_list_update) (simp_all add: kernel_wf_def)
    then have "sum_list (map (\<lambda>t. task_vemu k2 t ! i) (tasks k2)) = sum_list (map (\<lambda>t. task_vemu k t ! i) (tasks k))
        + (vemu_state_pout k1 ! i - vemu_state_pin k ! i)" using o n that by simp
    moreover have "vemu_state_sys k2 ! i = vemu_state_sys k ! i + (vemu_state_pin k2 ! i - vemu_state_pout k1 ! i)"
      using o n that by simp
    moreover have "sum_list (map (\<lambda>t. task_vemu k t ! i) (tasks k)) = vemu_state_pin k ! i - vemu_state_sys k ! i"
      using assms(5) that by (simp add: accounts_def eq_diff_eq)
    ultimately show ?thesis unfolding accounts_def by simp
  qed
  then show ?thesis using n o by simp
qed

lemma dup_accounts:
  assumes "t \<notin> set (tasks k)" "kernel_wf k"
  shows "kernel_wf (dup_task_struct t k)" "i < 17 \<Longrightarrow> accounts (dup_task_struct t k) i = accounts k i"
proof -
  have "map (\<lambda>u. ((task_vemu k)(t := vemu_state_zero)) u ! i) (tasks k) = map (\<lambda>u. task_vemu k u ! i) (tasks k)"
    using assms(1) by auto
  then have "sum_list (map (\<lambda>u. ((task_vemu k)(t := vemu_state_zero)) u ! i) (tasks k))
      = sum_list (map (\<lambda>u. task_vemu k u ! i) (tasks k))" by (rule arg_cong)
  moreover have "i < 17 \<Longrightarrow> vemu_state_zero ! i = 0" by (simp add: vemu_state_zero_def var_defs)
  ultimately show "i < 17 \<Longrightarrow> accounts (dup_task_struct t k) i = accounts k i"
    by (simp add: accounts_def dup_task_struct_def)
  show "kernel_wf (dup_task_struct t k)"
    using assms by (simp add: kernel_wf_def dup_task_struct_def vemu_state_zero_def)
qed

text \<open>What a read does: a new snapshot, a pass of both hooks, or nothing.\<close>

lemma sys_read_cases:
  assumes "sys_var_reg_read io offset user_ok k = Inr (r, d, k')" "kernel_wf k"
  shows "(\<exists>tmp h. vemu_read_state io True (vemu_state_tmp k) (hw k) = Inr (tmp, h)
        \<and> k' = k\<lparr>vemu_state_tmp := tmp, hw := h\<rparr>)
    \<or> (\<exists>k1. vemu_process_out io k = Inr k1 \<and> vemu_process_in io (k1\<lparr>current := current k\<rparr>) = Inr k')
    \<or> k' = k"
proof -
  let ?hw = "offset AND READ_HW \<noteq> 0" and ?pr = "offset AND READ_PROC \<noteq> 0"
  have b: "base_pointer k" using assms(2) by (simp add: kernel_wf_def)
  consider ?hw | "\<not> ?hw" ?pr | "\<not> ?hw" "\<not> ?pr" by blast
  then show ?thesis
  proof cases
    case 1
    then show ?thesis using assms(1) b by (auto simp: sys_var_reg_read_def cbind_Inr_iff Let_def split: if_splits)
  next
    case 2
    then obtain k1 where k1: "vemu_process_out io k = Inr k1" "vemu_process_in io k1 = Inr k'"
      using assms(1) by (auto simp: sys_var_reg_read_def cbind_Inr_iff Let_def split: if_splits)
    moreover have "k1\<lparr>current := current k\<rparr> = k1" using process_out_Inr [OF k1(1) assms(2)] by simp
    ultimately show ?thesis by metis
  next
    case 3
    then show ?thesis using assms(1) by (auto simp: sys_var_reg_read_def Let_def split: if_splits)
  qed
qed

lemma sys_write_cases:
  assumes "sys_var_reg_write io offset v k = Inr (r, k')" "kernel_wf k"
  shows "k' = k \<and> (v = None \<or> offset \<noteq> 0)
    \<or> (\<exists>w h. v = Some w \<and> iowrite32 io (ucast w) offset (hw k) = Inr h \<and> k' = k\<lparr>hw := h\<rparr>)"
proof (cases "offset > 0x1000 \<or> offset mod 8 \<noteq> 0")
  case True
  then have "k' = k" "offset \<noteq> 0" using assms(1) by (auto simp: sys_var_reg_write_def)
  then show ?thesis by simp
next
  case False
  have "base_pointer k" using assms(2) by (simp add: kernel_wf_def)
  then show ?thesis using assms(1) False
    by (cases v) (auto simp: sys_var_reg_write_def vemu_reg_write_def cbind_Inr_iff)
qed

lemma hw_accounts:
  "kernel_wf (k\<lparr>hw := h\<rparr>) = kernel_wf k" "accounts (k\<lparr>hw := h\<rparr>) i = accounts k i"
  "kernel_wf (k\<lparr>vemu_state_tmp := tmp\<rparr>) = kernel_wf k" "accounts (k\<lparr>vemu_state_tmp := tmp\<rparr>) i = accounts k i"
  by (simp_all add: kernel_wf_def accounts_def)

lemma kstep_accounts:
  assumes "kstep io e k = Inr k'" "event_ok e k" "kernel_wf k" "\<forall>i < 17. accounts k i = vemu_state_pin k ! i"
  shows "kernel_wf k' \<and> (\<forall>i < 17. accounts k' i = vemu_state_pin k' ! i)"
proof (cases e)
  case (Run h)
  then show ?thesis using assms by (auto simp: hw_accounts)
next
  case (Switch t)
  then obtain k1 where "vemu_process_out io k = Inr k1" "vemu_process_in io (k1\<lparr>current := t\<rparr>) = Inr k'" "t \<in> set (tasks k)"
    using assms(1,2) by (auto simp: context_switch_def prepare_task_switch_def finish_task_switch_def cbind_Inr_iff)
  then show ?thesis using out_in_accounts [OF _ _ _ assms(3,4)] by simp
next
  case (Fork t)
  then have "k' = dup_task_struct t k" "t \<notin> set (tasks k)" using assms(1,2) by simp_all
  then show ?thesis using dup_accounts [of t k] assms(3,4) by (simp add: dup_task_struct_def)
next
  case (Read offset u)
  then obtain r d where "sys_var_reg_read io offset u k = Inr (r, d, k')" using assms(1) by (auto simp: cbind_Inr_iff)
  from sys_read_cases [OF this assms(3)] show ?thesis
  proof (elim disjE exE conjE)
    fix k1
    assume k1: "vemu_process_out io k = Inr k1" "vemu_process_in io (k1\<lparr>current := current k\<rparr>) = Inr k'"
    have "current k \<in> set (tasks k)" using assms(3) by (simp add: kernel_wf_def)
    then show ?thesis using out_in_accounts [OF k1(1) _ k1(2) assms(3,4)] by simp
  qed (use assms(3,4) in \<open>simp_all add: hw_accounts\<close>)
next
  case (Write offset v)
  then obtain r where "sys_var_reg_write io offset v k = Inr (r, k')" using assms(1) by (auto simp: cbind_Inr_iff)
  from sys_write_cases [OF this assms(3)] show ?thesis
    by (elim disjE exE conjE) (use assms(3,4) in \<open>simp_all add: hw_accounts\<close>)
qed

lemma boot_wf: "kernel_wf (boot h)" "\<forall>i < 17. accounts (boot h) i = vemu_state_pin (boot h) ! i"
  by (simp_all add: boot_def variability_init_def kernel_wf_def accounts_def vemu_state_zero_def var_defs)

lemma kreach_accounts:
  "kreach io runs (boot h) k \<Longrightarrow> kernel_wf k \<and> (\<forall>i < 17. accounts k i = vemu_state_pin k ! i)"
proof (induction rule: kreach.induct)
  case start
  show ?case by (intro conjI boot_wf)
next
  case (step k1 e k2)
  show ?case using kstep_accounts [OF step.hyps(4,2)] step.IH by simp
qed

section \<open>The interface to the device\<close>

text \<open>
  The fault switch of every task: the device's for the task that runs, the saved one for
  the others. A value fits 32 bits, the width of the register writes.
\<close>

definition task_faults :: "('h \<Rightarrow> u64) \<Rightarrow> 'h kernel \<Rightarrow> nat \<Rightarrow> u64" where
  "task_faults faults k t = (if t = current k then faults (hw k) else task_vemu k t ! fault_status)"

definition faults_wf :: "('h \<Rightarrow> u64) \<Rightarrow> ('h \<Rightarrow> bool) \<Rightarrow> 'h kernel \<Rightarrow> bool" where
  "faults_wf faults dev_ok k \<longleftrightarrow> kernel_wf k \<and> dev_ok (hw k) \<and> (\<forall>t. take_bit 32 (task_faults faults k t) = task_faults faults k t)"

text \<open>What the switch of every task should do: a system call sets the caller's, a fork starts with 0.\<close>

fun fault_spec :: "'h event \<Rightarrow> nat \<Rightarrow> (nat \<Rightarrow> u64) \<Rightarrow> nat \<Rightarrow> u64" where
  "fault_spec (Fork t) cur f = f(t := 0)"
| "fault_spec (Write offset (Some v)) cur f = (if offset = 0 then f(cur := take_bit 32 v) else f)"
| "fault_spec _ cur f = f"

lemma task_faults_hw:
  "task_faults faults (k\<lparr>hw := h\<rparr>) = (task_faults faults k)(current k := faults h)"
  "task_faults faults (k\<lparr>vemu_state_tmp := tmp\<rparr>) = task_faults faults k"
  "(task_faults faults k)(current k := faults (hw k)) = task_faults faults k"
  by (auto simp: task_faults_def)

lemma ucast_u32_take_bit: "(ucast (ucast w :: u32) :: u64) = take_bit 32 w"
  by (rule bit_word_eqI) (auto simp: bit_simps)

text \<open>
  What the driver relies on: \<open>report\<close> is what the device would hand out, \<open>faults\<close> its
  fault switch. A read command makes a report that names the state of the switch and
  leaves the switch alone, copying gives the report, and only the fault register writes
  the switch.
\<close>

locale varemu_device =
  fixes io :: "'h io" and report :: "'h \<Rightarrow> vemu_state" and faults :: "'h \<Rightarrow> u64" and dev_ok :: "'h \<Rightarrow> bool"
  assumes write_ok: "dev_ok h \<Longrightarrow> iowrite32 io v off h = Inr h' \<Longrightarrow> dev_ok h'"
    and write_faults: "dev_ok h \<Longrightarrow> iowrite32 io v (uint SET_FAULTS) h = Inr h' \<Longrightarrow> faults h' = ucast v \<and> report h' = report h"
    and write_other: "dev_ok h \<Longrightarrow> iowrite32 io v off h = Inr h' \<Longrightarrow> off \<noteq> uint SET_FAULTS \<Longrightarrow> faults h' = faults h"
    and read_cmd_report: "dev_ok h \<Longrightarrow> iowrite32 io v (uint READ_CMD) h = Inr h' \<Longrightarrow> report h' ! fault_status = faults h"
    and copy_report: "dev_ok h \<Longrightarrow> memcpy_fromio io 0 (VEMU_STATE_N_VARS * 8) h = Inr bs \<Longrightarrow> words_of bs = report h"
begin

lemma read_state:
  assumes "vemu_read_state io True target h = Inr (st, h')" "dev_ok h"
  shows "dev_ok h' \<and> faults h' = faults h \<and> st = report h' \<and> st ! fault_status = faults h"
proof -
  obtain bs where w: "iowrite32 io 1 (uint READ_CMD) h = Inr h'"
    and c: "memcpy_fromio io 0 (VEMU_STATE_N_VARS * 8) h' = Inr bs" and st: "st = words_of bs"
    using assms(1) by (auto simp: vemu_read_state_def cbind_Inr_iff)
  have "uint READ_CMD \<noteq> uint SET_FAULTS" by (simp add: READ_CMD_def SET_FAULTS_def)
  then show ?thesis
    using write_ok [OF assms(2) w] write_other [OF assms(2) w] read_cmd_report [OF assms(2) w]
      copy_report [OF _ c] st by simp
qed

lemma out_in_faults:
  assumes "faults_wf faults dev_ok k" "vemu_process_out io k = Inr k1" "t \<in> set (tasks k)"
    and "vemu_process_in io (k1\<lparr>current := t\<rparr>) = Inr k2"
  shows "faults_wf faults dev_ok k2 \<and> task_faults faults k2 = task_faults faults k \<and> current k2 = t \<and> vemu_state_pin k2 = report (hw k2)"
proof -
  have w: "kernel_wf k" "dev_ok (hw k)" using assms(1) by (simp_all add: faults_wf_def)
  note o = process_out_Inr [OF assms(2) w(1)]
  have w1: "kernel_wf (k1\<lparr>current := t\<rparr>)" using o assms(3) by (auto simp: kernel_wf_def)
  note n = process_in_Inr [OF assms(4) w1]
  have r1: "dev_ok (hw k1)" "vemu_state_pout k1 ! fault_status = faults (hw k)"
    using read_state [of "vemu_state_pout k" "hw k"] o w(2) by auto
  obtain h where r2: "vemu_read_state io True (vemu_state_pin k1) (hw k1) = Inr (vemu_state_pin k2, h)"
    and f2: "iowrite32 io (ucast (task_vemu k1 t ! fault_status)) (uint SET_FAULTS) h = Inr (hw k2)" using n by auto
  note r2' = read_state [OF r2 r1(1)]
  have h: "dev_ok h" "vemu_state_pin k2 = report h" using r2' by blast+
  note f2' = write_faults [OF h(1) f2] write_ok [OF h(1) f2]
  have "fault_status < VEMU_STATE_N_VARS" "17 \<le> fault_status" by (simp_all add: var_defs)
  then have v: "task_vemu k1 u ! fault_status = task_faults faults k u" for u
    using o r1(2) by (cases "u = current k") (auto simp: task_faults_def)
  have "(ucast (ucast (task_faults faults k t) :: u32) :: u64) = task_faults faults k t"
    using assms(1) by (simp add: faults_wf_def ucast_u32_take_bit)
  then have "task_faults faults k2 = task_faults faults k"
    using n f2' v by (auto simp: task_faults_def [of faults k2])
  then show ?thesis using assms(1) n f2' h by (simp add: faults_wf_def)
qed

lemma kstep_faults:
  assumes "faults_wf faults dev_ok k" "event_ok e k" "kstep io e k = Inr k'"
    and "\<forall>h. e = Run h \<longrightarrow> dev_ok h \<and> faults h = faults (hw k)"
  shows "faults_wf faults dev_ok k' \<and> task_faults faults k' = fault_spec e (current k) (task_faults faults k)"
proof (cases e)
  case (Run h)
  then have "k' = k\<lparr>hw := h\<rparr>" "dev_ok h" "faults h = faults (hw k)" using assms(3,4) by simp_all
  then show ?thesis using assms(1) Run by (simp add: faults_wf_def hw_accounts task_faults_hw)
next
  case (Switch t)
  then obtain k1 where k1: "vemu_process_out io k = Inr k1" "t \<in> set (tasks k)" "vemu_process_in io (k1\<lparr>current := t\<rparr>) = Inr k'"
    using assms(2,3) by (auto simp: context_switch_def prepare_task_switch_def finish_task_switch_def cbind_Inr_iff)
  show ?thesis using out_in_faults [OF assms(1) k1] unfolding Switch fault_spec.simps by blast
next
  case (Fork t)
  then have "k' = dup_task_struct t k" "t \<notin> set (tasks k)" "t \<noteq> current k"
    using assms(1-3) by (auto simp: faults_wf_def kernel_wf_def)
  moreover have "task_faults faults (dup_task_struct t k) = (task_faults faults k)(t := 0)"
    using \<open>t \<noteq> current k\<close> by (auto simp: task_faults_def dup_task_struct_def vemu_state_zero_def var_defs)
  moreover have "hw (dup_task_struct t k) = hw k" by (simp add: dup_task_struct_def)
  ultimately show ?thesis using dup_accounts(1) [of t k] assms(1) Fork by (simp add: faults_wf_def)
next
  case (Read offset u)
  then obtain r d where "sys_var_reg_read io offset u k = Inr (r, d, k')" using assms(3) by (auto simp: cbind_Inr_iff)
  then have "faults_wf faults dev_ok k' \<and> task_faults faults k' = task_faults faults k"
  proof (rule sys_read_cases [THEN disjE])
    show "kernel_wf k" using assms(1) by (simp add: faults_wf_def)
    assume "\<exists>tmp h. vemu_read_state io True (vemu_state_tmp k) (hw k) = Inr (tmp, h) \<and> k' = k\<lparr>vemu_state_tmp := tmp, hw := h\<rparr>"
    then obtain tmp h where "vemu_read_state io True (vemu_state_tmp k) (hw k) = Inr (tmp, h)"
      and k': "k' = k\<lparr>vemu_state_tmp := tmp, hw := h\<rparr>" by blast
    then have "dev_ok h" "faults h = faults (hw k)" using read_state assms(1) by (auto simp: faults_wf_def)
    then show ?thesis using assms(1) by (simp add: k' faults_wf_def hw_accounts task_faults_hw)
  next
    assume "(\<exists>k1. vemu_process_out io k = Inr k1 \<and> vemu_process_in io (k1\<lparr>current := current k\<rparr>) = Inr k') \<or> k' = k"
    then show ?thesis
    proof (elim disjE exE conjE)
      fix k1 assume k1: "vemu_process_out io k = Inr k1" "vemu_process_in io (k1\<lparr>current := current k\<rparr>) = Inr k'"
      have "current k \<in> set (tasks k)" using assms(1) by (simp add: faults_wf_def kernel_wf_def)
      then show ?thesis using out_in_faults [OF assms(1) k1(1) _ k1(2)] by blast
    qed (use assms(1) in blast)
  qed
  then show ?thesis using Read by simp
next
  case (Write offset v)
  then obtain r where "sys_var_reg_write io offset v k = Inr (r, k')" using assms(3) by (auto simp: cbind_Inr_iff)
  moreover have "kernel_wf k" using assms(1) by (simp add: faults_wf_def)
  ultimately have c: "k' = k \<and> (v = None \<or> offset \<noteq> 0)
    \<or> (\<exists>w h. v = Some w \<and> iowrite32 io (ucast w) offset (hw k) = Inr h \<and> k' = k\<lparr>hw := h\<rparr>)"
    by (rule sys_write_cases)
  then show ?thesis
  proof (elim disjE exE conjE)
    fix w h assume w: "v = Some w" "iowrite32 io (ucast w) offset (hw k) = Inr h" "k' = k\<lparr>hw := h\<rparr>"
    have ok: "dev_ok (hw k)" "dev_ok h" using assms(1) write_ok w(2) by (auto simp: faults_wf_def)
    have "faults h = (if offset = 0 then take_bit 32 w else faults (hw k))"
      using write_faults [OF ok(1)] write_other [OF ok(1)] w(2) by (auto simp: ucast_u32_take_bit SET_FAULTS_def)
    moreover have "take_bit 32 (faults (hw k)) = faults (hw k)"
      using assms(1) by (metis faults_wf_def task_faults_def)
    ultimately show ?thesis using assms(1) ok w Write by (simp add: faults_wf_def hw_accounts task_faults_hw)
  qed (use assms(1) Write in \<open>cases v; simp\<close>)+
qed

end

section \<open>The device behind the interface\<close>

text \<open>
  The registers as the guest sees them: an access at an offset inside the page reaches the
  handlers of \<^verbatim>\<open>Vemu_Hw_Module\<close>, a copy reads byte by byte. The state is VarEMU's and the
  clock; \<open>junk\<close> is what the uninitialised variable of the read handler holds.
\<close>

definition device_io :: "libm \<Rightarrow> u64 \<Rightarrow> (vemu \<times> u64) io" where
  "device_io m junk = \<lparr>
     iowrite32 = (\<lambda>v off (s, now). if 0 \<le> off \<and> off < 0x1000
       then cbind (vemu_mod_write m now (word_of_int off) (ucast v) 4 s) (\<lambda>s. Inr (s, now)) else Inl Out_Of_Bounds),
     ioread32 = (\<lambda>off (s, now). if 0 \<le> off \<and> off < 0x1000
       then cbind (vemu_mod_read junk (word_of_int off) 4 s) (\<lambda>v. Inr (ucast v)) else Inl Out_Of_Bounds),
     memcpy_fromio = (\<lambda>off n (s, now).
       cfold (\<lambda>k bs. cbind (vemu_mod_read junk (word_of_int (off + int k)) 1 s) (\<lambda>v. Inr (bs @ [ucast v]))) [0..<n] [])\<rparr>"

definition device_report :: "vemu \<times> u64 \<Rightarrow> vemu_state" where
  "device_report h = array64 (last_state (fst h))"

definition device_faults :: "vemu \<times> u64 \<Rightarrow> u64" where
  "device_faults h = vemu_errors_enabled (fst h)"

definition device_ok :: "vemu \<times> u64 \<Rightarrow> bool" where
  "device_ok h \<longleftrightarrow> vemu_wf (fst h)"

lemma length_array8: "regs_wf r \<Longrightarrow> length (array8 r) = 160"
  using length_array64 [of r]
  by (simp add: array8_def length_concat comp_def sum_list_triv var_defs)

lemma mod_read_byte:
  assumes "regs_wf (last_state s)" "k < 160"
  shows "\<exists>v. vemu_mod_read junk (word_of_int (int k)) 1 s = Inr v \<and> ucast v = array8 (last_state s) ! k"
proof -
  have k: "unat (of_nat k :: u64) = k" using assms(2) by (simp add: unat_of_nat)
  define v where "v = le_word (take 1 (drop k (array8 (last_state s))) @ drop 1 (le_bytes junk))"
  have "vemu_mod_read junk (word_of_int (int k)) 1 s = Inr v"
    using assms(2) k by (simp add: vemu_mod_read_def v_def var_defs)
  moreover have t: "take 1 (drop k (array8 (last_state s))) = [array8 (last_state s) ! k]"
    using assms length_array8 [OF assms(1)] by (simp add: take_Suc_conv_app_nth)
  have "(ucast v :: u8) = array8 (last_state s) ! k"
    unfolding v_def t by (rule bit_word_eqI) (auto simp: bit_simps bit_le_word)
  ultimately show ?thesis by blast
qed

lemma copy_bytes:
  assumes "regs_wf (last_state s)" "n \<le> 160"
  shows "cfold (\<lambda>k bs. cbind (vemu_mod_read junk (word_of_int (0 + int k)) 1 s) (\<lambda>v. Inr (bs @ [ucast v]))) [0..<n] []
    = Inr (take n (array8 (last_state s)))"
  using assms(2)
proof (induction n)
  case 0
  then show ?case by simp
next
  case (Suc n)
  obtain v where "vemu_mod_read junk (word_of_int (int n)) 1 s = Inr v" "ucast v = array8 (last_state s) ! n"
    using mod_read_byte [OF assms(1), of n junk] Suc(2) by auto
  then show ?case using Suc length_array8 [OF assms(1)] by (simp add: cfold_append take_Suc_conv_app_nth)
qed

lemma words_of_array8:
  assumes "regs_wf r"
  shows "words_of (array8 r) = array64 r"
proof (rule nth_equalityI)
  show "length (words_of (array8 r)) = length (array64 r)" using length_array64 [OF assms] by simp
next
  fix k assume k: "k < length (words_of (array8 r))"
  then have k': "k < length (array64 r)" using length_array64 [OF assms] by simp
  have "take 8 (drop (8 * k) (array8 r)) = le_bytes (array64 r ! k)"
    using drop_array8 [OF k', of 0 8] by (simp add: array8_def)
  moreover have "le_word (le_bytes w) = w" for w
    using le_word_bytes [of 0 8 w "[]"] by (simp add: take_bit_word_eq_self)
  ultimately show "words_of (array8 r) ! k = array64 r ! k" using k by (simp add: words_of_def)
qed

lemma read_cmd_wf:
  assumes "read_cmd m now s = Inr s'" "vemu_wf s"
  shows "vemu_wf s'" "vemu_errors_enabled s' = vemu_errors_enabled s"
proof -
  obtain u e se es where u: "cfold (read_class m) [0..<MAX_INSTR_CLASSES] s = Inr u"
    and all: "vemu_get_act_energy_all_classes m (v_pm u) (v_cycles u) (v_energy u) = Inr (e, es)"
    and slp: "vemu_get_slp_energy m now (v_pm u) (v_cycles u) es = Inr (se, v_energy s')"
    and r: "v_cycles s' = v_cycles u" "vemu_errors_enabled s' = vemu_errors_enabled u"
      "r_act_time (last_state s') = r_act_time (last_state u)"
      "r_act_energy (last_state s') = r_act_energy (last_state u)"
      "r_cycles (last_state s') = r_cycles (last_state u)"
    using assms(1) by (auto simp: read_cmd_def cbind_Inr_iff)
  obtain t en c :: "nat \<Rightarrow> u64" where ueq: "u = s\<lparr>v_energy := charge_all (vemu_pm_act_power m 0 (v_pm s)) t (v_energy s),
        last_state := (last_state s)\<lparr>r_act_time := [t 0, t 1, t 2, t 3],
          r_act_energy := [en 0, en 1, en 2, en 3], r_cycles := [c 0, c 1, c 2, c 3]\<rparr>\<rparr>"
    using read_loop [OF assms(2) u] by blast
  have wf: "energy_wf (v_energy u)" using assms(2) by (simp add: ueq vemu_wf_def energy_wf_charge_all)
  have "energy_wf es" using all wf unfolding all_classes_Inr [OF wf] by (auto simp: energy_wf_charge_all)
  then show "vemu_wf s'"
    using energy_wf_slp [OF slp] assms(2) r by (simp add: vemu_wf_def regs_wf_def ueq MAX_INSTR_CLASSES_def)
  show "vemu_errors_enabled s' = vemu_errors_enabled s" using r(2) by (simp add: ueq)
qed


lemma mod_write_frame:
  assumes "vemu_mod_write m now off v sz s = Inr s'" "vemu_wf s"
  shows "vemu_wf s'" "off \<noteq> SET_FAULTS \<Longrightarrow> vemu_errors_enabled s' = vemu_errors_enabled s"
    "off = READ_CMD \<Longrightarrow> r_fault_status (last_state s') = vemu_errors_enabled s"
    "off = SET_FAULTS \<Longrightarrow> vemu_errors_enabled s' = v \<and> last_state s' = last_state s"
proof -
  show "vemu_wf s'" "off \<noteq> SET_FAULTS \<Longrightarrow> vemu_errors_enabled s' = vemu_errors_enabled s"
    using assms read_cmd_wf [of m now s s']
    by (auto simp: vemu_mod_write_def cbind_Inr_iff vemu_wf_def split: if_splits)
  show "off = READ_CMD \<Longrightarrow> r_fault_status (last_state s') = vemu_errors_enabled s"
    using read_cmd_settings(3) assms(1) by (auto simp: write_cases)
  show "off = SET_FAULTS \<Longrightarrow> vemu_errors_enabled s' = v \<and> last_state s' = last_state s"
    using assms(1) by (auto simp: write_cases)
qed

lemma device_iowrite:
  assumes "iowrite32 (device_io m junk) v off h = Inr h'"
  shows "vemu_mod_write m (snd h) (word_of_int off) (ucast v) 4 (fst h) = Inr (fst h') \<and> 0 \<le> off \<and> off < 0x1000"
  using assms by (auto simp: device_io_def cbind_Inr_iff split: prod.splits if_splits)

interpretation device: varemu_device "device_io m junk" device_report device_faults device_ok
proof
  fix h h' :: "vemu \<times> u64" and v off
  assume ok: "device_ok h" and w: "iowrite32 (device_io m junk) v off h = Inr h'"
  note f = mod_write_frame [OF conjunct1 [OF device_iowrite [OF w]] ok [unfolded device_ok_def]]
  show "device_ok h'" using f(1) by (simp add: device_ok_def)
  assume "off \<noteq> uint SET_FAULTS"
  then have "(word_of_int off :: u64) \<noteq> SET_FAULTS"
    using device_iowrite [OF w] by (auto simp: SET_FAULTS_def word_of_int_eq_0_iff dest!: zdvd_imp_le)
  then show "device_faults h' = device_faults h" using f(2) by (simp add: device_faults_def)
next
  fix h h' :: "vemu \<times> u64" and v
  assume ok: "device_ok h" and w: "iowrite32 (device_io m junk) v (uint SET_FAULTS) h = Inr h'"
  note f = mod_write_frame(4) [OF conjunct1 [OF device_iowrite [OF w]] ok [unfolded device_ok_def]]
  then show "device_faults h' = ucast v \<and> device_report h' = device_report h"
    by (simp add: device_faults_def device_report_def)
next
  fix h h' :: "vemu \<times> u64" and v
  assume ok: "device_ok h" and w: "iowrite32 (device_io m junk) v (uint READ_CMD) h = Inr h'"
  note f = mod_write_frame(1,3) [OF conjunct1 [OF device_iowrite [OF w]] ok [unfolded device_ok_def]]
  then have "r_fault_status (last_state (fst h')) = vemu_errors_enabled (fst h)" "regs_wf (last_state (fst h'))"
    by (simp_all add: vemu_wf_def)
  then show "device_report h' ! fault_status = device_faults h"
    by (simp add: device_report_def array64_def regs_wf_def nth_append device_faults_def var_defs)
next
  fix h :: "vemu \<times> u64" and bs
  assume ok: "device_ok h" and c: "memcpy_fromio (device_io m junk) 0 (VEMU_STATE_N_VARS * 8) h = Inr bs"
  have w: "regs_wf (last_state (fst h))" using ok by (simp add: device_ok_def vemu_wf_def)
  have n: "VEMU_STATE_N_VARS * 8 = 160" by (simp add: var_defs)
  have "bs = array8 (last_state (fst h))"
    using c copy_bytes [OF w, of 160 junk] length_array8 [OF w] unfolding n by (simp add: device_io_def split: prod.splits)
  then show "words_of bs = device_report h" using words_of_array8 [OF w] by (simp add: device_report_def)
qed

section \<open>An example\<close>

text \<open>A device that has slept since five cycles of work, with a model that draws no power.\<close>

definition demo_idle :: vemu where
  "demo_idle = demo_vemu\<lparr>v_pm := demo_pm\<lparr>pm_Vdd := Fin 1\<rparr>,
     v_energy := \<lparr>act_time_ckpt = [5, 0, 0, 0], slp_time_ckpt = 7, act_energy = [0, 0, 0, 0], slp_energy = 0\<rparr>\<rparr>"

definition demo_idle_regs :: vemu_regs where
  "demo_idle_regs = \<lparr>r_act_time = [5, 0, 0, 0], r_act_energy = [0, 0, 0, 0], r_cycles = [5, 0, 0, 0],
     r_total_act_time = 5, r_total_act_energy = 0, r_total_cycles = 5, r_slp_time = 7, r_slp_energy = 0,
     r_fault_status = 0, r_frequency = 1000000000, r_voltage = 1000\<rparr>"

lemma demo_idle_read:
  assumes "regs_wf r"
  shows "read_cmd demo_libm 12 (demo_idle\<lparr>last_state := r\<rparr>) = Inr (demo_idle\<lparr>last_state := demo_idle_regs\<rparr>)"
proof -
  let ?p = "demo_pm\<lparr>pm_Vdd := Fin 1\<rparr>" and ?es = "v_energy demo_idle"
  have "Fin 1 * lit 1000 = Fin 1000" by (simp add: dbl_eval)
  note w = demo_idle_power [OF this]
  obtain a0 a1 a2 a3 e0 e1 e2 e3 c0 c1 c2 c3 where r: "r_act_time r = [a0, a1, a2, a3]" "r_act_energy r = [e0, e1, e2, e3]"
    "r_cycles r = [c0, c1, c2, c3]"
    using assms by (auto simp: regs_wf_def MAX_INSTR_CLASSES_def length_Suc_conv numeral_eq_Suc)
  define u where "u = demo_idle\<lparr>last_state := r\<lparr>r_act_time := [5, 0, 0, 0], r_act_energy := [0, 0, 0, 0], r_cycles := [5, 0, 0, 0]\<rparr>\<rparr>"
  have u: "cfold (read_class demo_libm) [0..<MAX_INSTR_CLASSES] (demo_idle\<lparr>last_state := r\<rparr>) = Inr u"
    by (simp add: demo_idle_def demo_vemu_def read_class_def vemu_get_act_energy_def vemu_get_act_time_def vemu_get_cycles_def
        demo_asleep_def demo_awake_def w r cycles_eval u_def)
  have f: "v_cycles u = demo_asleep" "v_pm u = ?p" "v_energy u = ?es"
    by (simp_all add: u_def demo_idle_def demo_vemu_def)
  have e: "vemu_get_act_energy_all_classes demo_libm ?p demo_asleep ?es = Inr (0, ?es)"
    by (simp add: vemu_get_act_energy_all_classes_def vemu_get_act_energy_def vemu_get_act_time_def
        demo_asleep_def demo_awake_def w cycles_eval demo_idle_def)
  have c: "vemu_get_cycles_all_classes demo_asleep = Inr 5" "vemu_get_slp_time 12 demo_asleep = Inr 7"
    by (simp_all add: vemu_get_cycles_all_classes_def vemu_get_slp_time_def i64_add_def demo_asleep_def
        demo_awake_def cycles_eval)
  have p: "vemu_pm_get_parameter 0 0 ?p = Inr (Fin 1000000000)" "vemu_pm_get_parameter 0 1 ?p = Inr (Fin 1)"
    by (simp_all add: vemu_pm_get_parameter_def pm_array_def demo_pm_def)
  have se: "vemu_get_slp_energy demo_libm 12 ?p demo_asleep ?es = Inr (0, ?es)"
    by (simp add: vemu_get_slp_energy_def c w double_of_i64_def dbl_eval demo_idle_def)
  show ?thesis
    by (simp add: read_cmd_def u f e c p se demo_act_time dbl_eval)
      (simp add: u_def demo_idle_regs_def demo_idle_def demo_vemu_def)
qed

lemma demo_idle_regs_wf: "regs_wf demo_idle_regs" "regs_wf vemu_regs_zero" "demo_idle\<lparr>last_state := vemu_regs_zero\<rparr> = demo_idle"
  "vemu_errors_enabled demo_idle = 0"
  by (simp_all add: regs_wf_def demo_idle_regs_def vemu_regs_zero_def MAX_INSTR_CLASSES_def demo_idle_def demo_vemu_def)

lemma demo_read_state:
  assumes "regs_wf r"
  shows "vemu_read_state (device_io demo_libm junk) True target (demo_idle\<lparr>last_state := r\<rparr>, 12)
    = Inr (array64 demo_idle_regs, (demo_idle\<lparr>last_state := demo_idle_regs\<rparr>, 12))"
proof -
  let ?s = "demo_idle\<lparr>last_state := demo_idle_regs\<rparr>"
  have "iowrite32 (device_io demo_libm junk) 1 (uint READ_CMD) (demo_idle\<lparr>last_state := r\<rparr>, 12) = Inr (?s, 12)"
    using demo_idle_read [OF assms] write_cases(4) [of demo_libm 12 1 4]
    by (simp add: device_io_def) (simp add: READ_CMD_def)
  moreover have "memcpy_fromio (device_io demo_libm junk) 0 (VEMU_STATE_N_VARS * 8) (?s, 12) = Inr (array8 demo_idle_regs)"
    using copy_bytes [of ?s 160 junk] length_array8 demo_idle_regs_wf(1) by (simp add: device_io_def var_defs)
  ultimately show ?thesis by (simp add: vemu_read_state_def words_of_array8 demo_idle_regs_wf(1))
qed

lemma demo_set_faults:
  "iowrite32 (device_io m junk) v (uint SET_FAULTS) (s, now) = Inr (s\<lparr>vemu_errors_enabled := ucast v\<rparr>, now)"
  using write_cases(1) [of m now "ucast v" 4 s] by (simp add: device_io_def) (simp add: SET_FAULTS_def)

lemma demo_idle_ok: "device_ok (demo_idle\<lparr>last_state := demo_idle_regs\<rparr>, 12)" "device_ok (demo_idle, 12)"
  using demo_vemu_wf demo_idle_regs_wf
  by (simp_all add: device_ok_def vemu_wf_def demo_idle_def demo_vemu_def energy_wf_def list_all_length MAX_INSTR_CLASSES_def
    regs_wf_def vemu_regs_zero_def nth_Cons')

lemma demo_switch:
  "\<exists>k'. context_switch (device_io demo_libm junk) 0 (boot (demo_idle, 12)) = Inr k'
    \<and> hw k' = (demo_idle\<lparr>last_state := demo_idle_regs\<rparr>, 12)"
proof -
  note r = demo_read_state [OF demo_idle_regs_wf(1)] demo_read_state [OF demo_idle_regs_wf(2), unfolded demo_idle_regs_wf(3)]
  have l: "length (array64 demo_idle_regs) = 20" "array64 demo_idle_regs ! 17 = 0"
    by (simp_all add: array64_def demo_idle_regs_def)
  have b: "base_pointer (boot h)" "vemu_state_pout (boot h) = vemu_state_zero" "hw (boot h) = h" "current (boot h) = 0"
    "task_vemu (boot h) = (\<lambda>_. vemu_state_zero)" for h :: 'h
    by (simp_all add: boot_def variability_init_def)
  have d: "length (vemu_add_delta vemu_state_zero a b) = VEMU_STATE_N_VARS" for a b
    by (rule add_delta(1)) (simp add: vemu_state_zero_def)
  show ?thesis
    by (simp add: context_switch_def prepare_task_switch_def finish_task_switch_def vemu_process_out_def vemu_process_in_def b r vemu_reg_write_def demo_set_faults
        l d Let_def var_defs)
      (simp add: demo_idle_def demo_vemu_def)
qed

section \<open>Properties\<close>

definition device_run :: "vemu \<times> u64 \<Rightarrow> vemu \<times> u64 \<Rightarrow> bool" where
  "device_run h h' \<longleftrightarrow> device_ok h' \<and> device_faults h' = device_faults h"

lemma kreach_faults:
  assumes "kreach (device_io m junk) device_run (boot h) k" "device_ok h" "take_bit 32 (device_faults h) = device_faults h"
  shows "faults_wf device_faults device_ok k"
  using assms(1)
proof (induction rule: kreach.induct)
  case start
  have "task_faults device_faults (boot h) t = (if t = 0 then device_faults h else 0)" for t
    by (simp add: task_faults_def boot_def variability_init_def vemu_state_zero_def var_defs)
  moreover have "hw (boot h) = h" by (simp add: boot_def variability_init_def)
  ultimately show ?case using assms(2,3) boot_wf(1) by (simp add: faults_wf_def)
next
  case (step k1 e k2)
  have "\<forall>h. e = Run h \<longrightarrow> device_ok h \<and> device_faults h = device_faults (hw k1)"
    using step.hyps(3) by (simp add: device_run_def)
  then show ?case using device.kstep_faults [OF step.IH step.hyps(2,4)] by blast
qed



text \<open>
  C4. Every task has its own fault switch, although the device has only one: a switch to
  another task leaves the switch of every task as it was, a task created starts with 0, a
  system call that writes the fault register sets the caller's to the low 32 bits of the
  value, and nothing else changes any of them.
\<close>

theorem fault_switch_per_task:
  assumes "kreach (device_io m junk) device_run (boot h) k" "device_ok h" "take_bit 32 (device_faults h) = device_faults h"
    and "event_ok e k" "\<forall>h'. e = Run h' \<longrightarrow> device_run (hw k) h'" "kstep (device_io m junk) e k = Inr k'"
  shows "task_faults device_faults k' = fault_spec e (current k) (task_faults device_faults k)"
  using device.kstep_faults [OF kreach_faults [OF assms(1-3)] assms(4,6)] assms(5) by (simp add: device_run_def)

theorem fault_switch_per_task_witness:
  "\<exists>k'. kstep (device_io demo_libm 0) (Write 0 (Some 0x100000007)) (boot (demo_idle, 12)) = Inr k'
    \<and> task_faults device_faults k' 0 = 7"
proof -
  have "\<exists>k'. kstep (device_io demo_libm 0) (Write 0 (Some 0x100000007)) (boot (demo_idle, 12)) = Inr k'"
    using demo_set_faults [of demo_libm 0]
    by (simp add: sys_var_reg_write_def vemu_reg_write_def boot_def variability_init_def SET_FAULTS_def)
  then obtain k' where k': "kstep (device_io demo_libm 0) (Write 0 (Some 0x100000007)) (boot (demo_idle, 12)) = Inr k'" by blast
  have "device_faults (demo_idle, 12) = 0" "current (boot (demo_idle, 12 :: u64)) = 0"
    by (simp_all add: boot_def variability_init_def device_faults_def demo_idle_regs_wf)
  with fault_switch_per_task [OF kreach.start demo_idle_ok(2) _ _ _ k'] k' show ?thesis by simp
qed
end
