(* ===== verification/Vemu_User_Lib.thy ===== *)
theory Vemu_User_Lib
  imports Variability_Driver
begin

text \<open>
  The library of guest programs: \<^verbatim>\<open>vemu.h\<close>, whose functions make the system calls of the
  driver, and \<^verbatim>\<open>vemu_display.h\<close>, which scales the counters to values with an SI prefix. The
  pointers that \<^verbatim>\<open>vemu.h\<close> passes are valid, so copying to and from user space succeeds.
\<close>

section \<open>The library\<close>

definition vemu_write :: "'h io \<Rightarrow> u32 \<Rightarrow> u64 \<Rightarrow> 'h kernel \<Rightarrow> 'h kernel result" where
  "vemu_write io reg val k = cbind (sys_var_reg_write io (sint reg) (Some val) k) (\<lambda>(r, k). Inr k)"

definition vemu_read :: "'h io \<Rightarrow> u32 \<Rightarrow> vemu_state \<Rightarrow> 'h kernel \<Rightarrow> (vemu_state \<times> 'h kernel) result" where
  "vemu_read io regtype rs k =
     cbind (sys_var_reg_read io (sint regtype) True k) (\<lambda>(r, d, k). Inr (case d of None \<Rightarrow> rs | Some v \<Rightarrow> v, k))"

definition vemu_delta :: "vemu_state \<Rightarrow> vemu_state \<Rightarrow> vemu_state \<Rightarrow> vemu_state" where
  "vemu_delta target new old = fold (\<lambda>i t. t[i := new ! i - old ! i]) [0..<VEMU_STATE_N_VARS - 1] target"

definition vemu_enable_errors :: "'h io \<Rightarrow> u64 \<Rightarrow> 'h kernel \<Rightarrow> 'h kernel result" where
  "vemu_enable_errors io idx k = vemu_write io (ucast SET_FAULTS) idx k"

definition vemu_disable_errors :: "'h io \<Rightarrow> 'h kernel \<Rightarrow> 'h kernel result" where
  "vemu_disable_errors io k = vemu_write io (ucast SET_FAULTS) 0 k"

definition vemu_dvfs :: "'h io \<Rightarrow> u64 \<Rightarrow> u64 \<Rightarrow> 'h kernel \<Rightarrow> 'h kernel result" where
  "vemu_dvfs io freq voltagemv k =
     cbind (vemu_write io (ucast SET_FREQUENCY) freq k) (vemu_write io (ucast SET_VOLTAGE) voltagemv)"

definition vemu_kill :: "'h io \<Rightarrow> 'h kernel \<Rightarrow> 'h kernel result" where
  "vemu_kill io k = vemu_write io (ucast EXIT_CMD) 1 k"

section \<open>The display\<close>

definition si_prefix :: string where
  "si_prefix = ''num KMG''"

text \<open>The initialisers that fit the array of twenty; there are twelve more in the source.\<close>

definition decimal_power :: "int list" where
  "decimal_power = replicate 16 (- 3) @ replicate 4 0"

text \<open>The inner loop, which need not end for an infinite value.\<close>

partial_function (option) scale :: "double \<Rightarrow> int \<Rightarrow> (double \<times> int) option" where
  "scale x p = (if Fin 999 < x then scale (x / lit 1000) (p + 1) else Some (x, p))"

definition display_entry :: "u64 \<Rightarrow> int \<Rightarrow> (double \<times> char) result option" where
  "display_entry v p = (case scale (double_of_u64 v) p of
      None \<Rightarrow> None
    | Some (x, p) \<Rightarrow> Some (if 0 \<le> p + 3 \<and> p + 3 < int (length si_prefix)
        then Inr (x, si_prefix ! nat (p + 3)) else Inl Out_Of_Bounds))"

fun display_loop :: "nat list \<Rightarrow> vemu_state \<Rightarrow> double list \<times> string \<Rightarrow> (double list \<times> string) result option" where
  "display_loop [] rs s = Some (Inr s)"
| "display_loop (i # is) rs (d, ps) =
     (if \<not> i < length d then Some (Inl Out_Of_Bounds)
      else case display_entry (rs ! i) (decimal_power ! i) of
        None \<Rightarrow> None
      | Some (Inl e) \<Rightarrow> Some (Inl e)
      | Some (Inr (x, c)) \<Rightarrow>
          (if i < length ps then display_loop is rs (d[i := x], ps[i := c]) else Some (Inl Out_Of_Bounds)))"

text \<open>
  The structures \<^verbatim>\<open>vemu_regs_display\<close> and \<^verbatim>\<open>vemu_regs_prefix\<close> have eighteen members each, the
  list of the doubles and the list of the characters.
\<close>

definition vemu_prepare_display :: "vemu_state \<Rightarrow> double list \<times> string \<Rightarrow> (double list \<times> string) result option" where
  "vemu_prepare_display rs s = display_loop [0..<VEMU_STATE_N_VARS - 1] rs s"

section \<open>Scaling\<close>

lemma rnd_below:
  assumes "0 \<le> q" "q \<le> B" "rnd B = Fin B"
  shows "\<exists>r. rnd q = Fin r \<and> 0 \<le> r \<and> r \<le> B"
  using rnd_mono [OF assms(1)] rnd_mono [OF assms(2)] assms(3)
  by (cases "rnd q") (auto simp: less_eq_double_def)

text \<open>From a value of at most \<open>B\<close> the loop ends after at most \<open>n\<close> rounds.\<close>

definition scales :: "rat \<Rightarrow> nat \<Rightarrow> bool" where
  "scales B n \<longleftrightarrow> (\<forall>q p. 0 \<le> q \<and> q \<le> B \<longrightarrow> (\<exists>k x. k \<le> n \<and> scale (Fin q) p = Some (x, p + int k)
     \<and> x \<le> Fin 999 \<and> (if k = 0 then x = Fin q else rnd (999 / 1000) \<le> x)))"

lemma scales_0: "scales 999 0"
  unfolding scales_def by (auto simp: scale.simps dbl_defs dlt_def)

lemma scales_Suc:
  assumes "scales B' n" "B \<le> 1000 * B'" "rnd B' = Fin B'"
  shows "scales B (Suc n)"
  unfolding scales_def
proof (intro allI impI)
  fix q p assume q: "0 \<le> q \<and> q \<le> B"
  show "\<exists>k x. k \<le> Suc n \<and> scale (Fin q) p = Some (x, p + int k) \<and> x \<le> Fin 999
    \<and> (if k = 0 then x = Fin q else rnd (999 / 1000) \<le> x)"
  proof (cases "q \<le> 999")
    case True
    then show ?thesis by (intro exI [of _ 0] exI [of _ "Fin q"]) (simp add: scale.simps [of "Fin q"] dbl_defs dlt_def)
  next
    case False
    obtain r where r: "rnd (q / 1000) = Fin r" "0 \<le> r" "r \<le> B'" using rnd_below [of "q / 1000" B'] q assms(2,3) by auto
    have s: "scale (Fin q) p = scale (Fin r) (p + 1)"
      using False r(1) by (subst scale.simps) (simp add: dbl_eval dlt_def)
    obtain k x where k: "k \<le> n" "scale (Fin r) (p + 1) = Some (x, p + 1 + int k)" "x \<le> Fin 999"
      "if k = 0 then x = Fin r else rnd (999 / 1000) \<le> x" using assms(1) r unfolding scales_def by blast
    have "rnd (999 / 1000) \<le> Fin r" using rnd_mono [of "999 / 1000" "q / 1000"] False r(1) by simp
    then have "rnd (999 / 1000) \<le> x" using k(4) by (simp split: if_splits)
    then show ?thesis using k s by (intro exI [of _ "Suc k"] exI [of _ x]) simp
  qed
qed

lemma rnd_2_55: "rnd 36028797018963968 = Fin 36028797018963968"
  using rnd_eval [of 55 36028797018963968] by (simp add: rne_def Let_def)

lemma scales_u64: "scales (2 ^ 64) 6"
proof -
  from scales_Suc [OF scales_0, of 36029] have "scales 36029 1" by simp
  from scales_Suc [OF this, of 36028798] have "scales 36028798 2" by (simp add: numeral_2_eq_2)
  from scales_Suc [OF this, of 36028797019] have "scales 36028797019 3" by (simp add: numeral_3_eq_3)
  from scales_Suc [OF this, of 36028797018964] have "scales 36028797018964 4" by simp
  from scales_Suc [OF this, of 36028797018963968] have "scales 36028797018963968 5" by simp
  from scales_Suc [OF this, of "2 ^ 64"] rnd_2_55 show ?thesis by simp
qed

lemma scale_u64:
  "\<exists>k x. k \<le> 6 \<and> scale (double_of_u64 v) p = Some (x, p + int k) \<and> x \<le> Fin 999
    \<and> (if k = 0 then x = double_of_u64 v else rnd (999 / 1000) \<le> x)"
proof -
  have b: "rnd (2 ^ 64) = Fin (2 ^ 64)" using rnd_eval [of 64 "2 ^ 64"] by (simp add: rne_def Let_def)
  have "uint v \<le> 2 ^ 64" using uint_lt2p [of v] by simp
  then have "of_int (uint v) \<le> (of_int (2 ^ 64) :: rat)" by (simp only: of_int_le_iff)
  then have "rnd (of_int (uint v)) \<le> rnd (2 ^ 64)" by (intro rnd_mono) (simp only: of_int_power of_int_numeral)
  then have "double_of_u64 v \<le> Fin (2 ^ 64)" unfolding double_of_u64_def b .
  then obtain q where q: "double_of_u64 v = Fin q" "0 \<le> q" "q \<le> 2 ^ 64"
    using double_of_u64_nonneg [of v] by (cases "double_of_u64 v") (auto simp: dbl_defs)
  show ?thesis unfolding q(1) using scales_u64 q(2,3) unfolding scales_def by blast
qed

lemma display_entry_total: "\<exists>r. display_entry v p = Some r \<and> (r = Inl Out_Of_Bounds \<or> (\<exists>y. r = Inr y))"
  using scale_u64 [of v p] by (auto simp: display_entry_def)

lemma display_loop_overrun:
  assumes "18 \<in> set is" "length d = 18" "length ps = 18"
  shows "display_loop is rs (d, ps) = Some (Inl Out_Of_Bounds)"
  using assms
proof (induction "is" arbitrary: d ps)
  case Nil
  then show ?case by simp
next
  case (Cons i "is")
  obtain r where "display_entry (rs ! i) (decimal_power ! i) = Some r" "r = Inl Out_Of_Bounds \<or> (\<exists>y. r = Inr y)"
    using display_entry_total by blast
  then show ?case using Cons by (auto split: prod.splits)
qed


section \<open>Measuring\<close>

lemma nth_delta:
  assumes "length t = VEMU_STATE_N_VARS" "i < 19"
  shows "vemu_delta t new old ! i = new ! i - old ! i"
proof -
  have "i < n \<Longrightarrow> n \<le> 20 \<Longrightarrow> fold (\<lambda>i t. t[i := new ! i - old ! i]) [0..<n] t ! i = new ! i - old ! i" for n
  proof (induction n)
    case (Suc n)
    have "length (fold (\<lambda>i t. t[i := new ! i - old ! i]) is t) = length t" for "is"
      by (induction "is" arbitrary: t) simp_all
    then show ?case using Suc assms(1) by (cases "i = n") (auto simp: var_defs)
  qed simp
  then show ?thesis using assms(2) by (simp add: vemu_delta_def var_defs)
qed

text \<open>What the call that reads the account of the process does.\<close>

lemma read_proc:
  assumes "vemu_read io (word_of_int READ_PROC) b k = Inr (b', k')" "kernel_wf k"
  shows "\<exists>k1. vemu_process_out io k = Inr k1 \<and> vemu_process_in io k1 = Inr k' \<and> b' = task_vemu k' (current k')"
proof -
  have s: "sint (word_of_int READ_PROC :: u32) = READ_PROC" "READ_PROC AND READ_HW = 0" "READ_PROC \<noteq> 0"
    by (simp_all add: READ_PROC_def READ_HW_def)
  show ?thesis using assms(1)
    by (auto simp: vemu_read_def s sys_var_reg_read_def Let_def cbind_Inr_iff)
qed


lemma device_read_state:
  assumes "vemu_read_state (device_io m junk) True target h = Inr (st, h')" "device_ok h"
  shows "read_cmd m (snd h) (fst h) = Inr (fst h') \<and> st = array64 (last_state (fst h'))"
proof -
  have w: "iowrite32 (device_io m junk) 1 (uint READ_CMD) h = Inr h'"
    using assms(1) by (auto simp: vemu_read_state_def cbind_Inr_iff)
  have "read_cmd m (snd h) (fst h) = Inr (fst h')"
    using device_iowrite [OF w] write_cases(4) [of m "snd h" 1 4 "fst h"] by simp
  then show ?thesis using device.read_state [OF assms] by (simp add: device_report_def)
qed

lemma vemu_write_device:
  assumes "vemu_write (device_io m junk) (ucast reg) val k = Inr k'" "kernel_wf k" "reg \<in> {SET_FAULTS, SET_FREQUENCY, SET_VOLTAGE}"
  shows "\<exists>s. vemu_mod_write m (snd (hw k)) reg (take_bit 32 val) 4 (fst (hw k)) = Inr s \<and> k' = k\<lparr>hw := (s, snd (hw k))\<rparr>"
proof -
  have b: "base_pointer k" using assms(2) by (simp add: kernel_wf_def)
  obtain off where off: "sint (ucast reg :: u32) = off" "off \<in> {0, 8, 16}" "word_of_int off = reg"
    using assms(3) by (auto simp: SET_FAULTS_def SET_FREQUENCY_def SET_VOLTAGE_def)
  have c: "\<not> (0x1000 < off \<or> off mod 8 \<noteq> 0)" "0 \<le> off" "off < 0x1000" using off(2) by auto
  obtain h where h: "iowrite32 (device_io m junk) (ucast val) off (hw k) = Inr h" "k' = k\<lparr>hw := h\<rparr>"
    using assms(1) b c by (auto simp: vemu_write_def off(1) sys_var_reg_write_def vemu_reg_write_def cbind_Inr_iff)
  then show ?thesis
    by (cases "hw k") (use c off(3) in \<open>auto simp: device_io_def cbind_Inr_iff ucast_u32_take_bit\<close>)
qed

lemma demo_read_proc:
  assumes "kernel_wf k" "hw k = (demo_idle\<lparr>last_state := r\<rparr>, 12)" "regs_wf r"
  shows "\<exists>b' k'. vemu_read (device_io demo_libm junk) (word_of_int READ_PROC) b k = Inr (b', k') \<and> kernel_wf k'
    \<and> hw k' = (demo_idle\<lparr>last_state := demo_idle_regs\<rparr>, 12)"
proof -
  let ?io = "device_io demo_libm junk" and ?h = "(demo_idle\<lparr>last_state := demo_idle_regs\<rparr>, 12)"
  have b: "base_pointer k" using assms(1) by (simp add: kernel_wf_def)
  have "\<exists>k1. vemu_process_out ?io k = Inr k1"
    using demo_read_state [OF assms(3), of junk] by (simp add: vemu_process_out_def b assms(2))
  then obtain k1 where k1: "vemu_process_out ?io k = Inr k1" by blast
  note o = process_out_Inr [OF k1 assms(1)]
  have p: "vemu_state_pout k1 = array64 demo_idle_regs" "hw k1 = ?h"
    using o demo_read_state [OF assms(3), of junk] by (simp_all add: assms(2))
  have "fault_status < VEMU_STATE_N_VARS" "17 \<le> fault_status" "array64 demo_idle_regs ! fault_status = 0"
    by (simp_all add: var_defs array64_def demo_idle_regs_def)
  then have z: "task_vemu k1 (current k1) ! fault_status = 0" using o p(1) by simp
  have w1: "kernel_wf k1" using o by blast
  then have b1: "base_pointer k1" by (simp add: kernel_wf_def)
  have e: "demo_idle\<lparr>last_state := demo_idle_regs, vemu_errors_enabled := 0\<rparr> = demo_idle\<lparr>last_state := demo_idle_regs\<rparr>"
    by (simp add: demo_idle_def demo_vemu_def)
  have "\<exists>k'. vemu_process_in ?io k1 = Inr k' \<and> hw k' = ?h"
    using demo_read_state [OF demo_idle_regs_wf(1), of junk]
    by (simp add: vemu_process_in_def b1 p(2) Let_def vemu_reg_write_def demo_set_faults z e)
  then obtain k' where k': "vemu_process_in ?io k1 = Inr k'" "hw k' = ?h" by blast
  have "sint (word_of_int READ_PROC :: u32) = READ_PROC" "READ_PROC AND READ_HW = 0" "READ_PROC \<noteq> 0"
    by (simp_all add: READ_PROC_def READ_HW_def)
  then show ?thesis using k1 k' process_in_Inr [OF k'(1) w1]
    by (simp add: vemu_read_def sys_var_reg_read_def)
qed

section \<open>Properties\<close>

text \<open>
  C5. Two readings of its own account measure what a program does: if a process reads its
  account, runs, and reads again without being switched out, the difference of the two
  readings is, in each of the seventeen counters, the difference between the device's
  reports at the two calls (modulo \<open>2 ^ 64\<close>), so nothing that happened before the first or
  in the kernel's account is in it.
\<close>

theorem measured_interval:
  assumes "kreach (device_io m junk) device_run (boot h) k" "device_ok h" "take_bit 32 (device_faults h) = device_faults h"
    and "vemu_read (device_io m junk) (word_of_int READ_PROC) b k = Inr (b1, k1)" "device_run (hw k1) h2"
    and "vemu_read (device_io m junk) (word_of_int READ_PROC) b' (k1\<lparr>hw := h2\<rparr>) = Inr (b2, k2)"
    and "length t = VEMU_STATE_N_VARS" "i < 17"
  shows "\<exists>s2. read_cmd m (snd h2) (fst h2) = Inr s2
    \<and> vemu_delta t b2 b1 ! i = array64 (last_state s2) ! i - array64 (last_state (fst (hw k1))) ! i"
proof -
  let ?io = "device_io m junk"
  have f: "faults_wf device_faults device_ok k" using kreach_faults [OF assms(1-3)] .
  then have w: "kernel_wf k" by (simp add: faults_wf_def)
  obtain ka where a: "vemu_process_out ?io k = Inr ka" "vemu_process_in ?io ka = Inr k1" "b1 = task_vemu k1 (current k1)"
    using read_proc [OF assms(4) w] by (elim exE conjE)
  have c: "ka\<lparr>current := current k\<rparr> = ka" "current k \<in> set (tasks k)"
    using process_out_Inr [OF a(1) w] w by (simp_all add: kernel_wf_def)
  have k1: "faults_wf device_faults device_ok k1" "current k1 = current k" "vemu_state_pin k1 = device_report (hw k1)"
    using device.out_in_faults [OF f a(1) c(2), unfolded c(1), OF a(2)] by blast+
  have w1: "kernel_wf (k1\<lparr>hw := h2\<rparr>)" using k1(1) by (simp add: faults_wf_def hw_accounts)
  obtain kb where d: "vemu_process_out ?io (k1\<lparr>hw := h2\<rparr>) = Inr kb" "vemu_process_in ?io kb = Inr k2"
    "b2 = task_vemu k2 (current k2)" using read_proc [OF assms(6) w1] by (elim exE conjE)
  note o = process_out_Inr [OF d(1) w1]
  then have "kernel_wf kb" by blast
  note n = process_in_Inr [OF d(2) this]
  have r: "vemu_read_state ?io True (vemu_state_pout k1) h2 = Inr (vemu_state_pout kb, hw kb)" using o by simp
  have "device_ok h2" using assms(5) by (simp add: device_run_def)
  note s = device_read_state [OF r this]
  have "b2 ! i = b1 ! i + (vemu_state_pout kb ! i - vemu_state_pin k1 ! i)"
    using o n assms(8) by (simp add: d(3) a(3))
  then show ?thesis using s k1(3) nth_delta [OF assms(7), of i b2 b1] assms(8) by (simp add: device_report_def)
qed

theorem measured_interval_witness:
  "\<exists>b1 k1 b2 k2. vemu_read (device_io demo_libm 0) (word_of_int READ_PROC) [] (boot (demo_idle, 12)) = Inr (b1, k1)
    \<and> vemu_read (device_io demo_libm 0) (word_of_int READ_PROC) []
        (k1\<lparr>hw := (demo_idle\<lparr>last_state := demo_idle_regs\<rparr>, 12)\<rparr>) = Inr (b2, k2)
    \<and> vemu_delta vemu_state_zero b2 b1 ! 12 = 0"
proof -
  let ?io = "device_io demo_libm 0" and ?h = "(demo_idle\<lparr>last_state := demo_idle_regs\<rparr>, 12 :: u64)"
  have "hw (boot (demo_idle, 12 :: u64)) = (demo_idle\<lparr>last_state := vemu_regs_zero\<rparr>, 12)"
    by (simp add: boot_def variability_init_def demo_idle_regs_wf)
  then obtain b1 k1 where k1: "vemu_read ?io (word_of_int READ_PROC) [] (boot (demo_idle, 12)) = Inr (b1, k1)"
    "kernel_wf k1" "hw k1 = ?h" using demo_read_proc [OF boot_wf(1) _ demo_idle_regs_wf(2)] by blast
  have "kernel_wf (k1\<lparr>hw := ?h\<rparr>)" "hw (k1\<lparr>hw := ?h\<rparr>) = ?h" using k1(2) by (simp_all add: hw_accounts)
  then obtain b2 k2 where k2: "vemu_read ?io (word_of_int READ_PROC) [] (k1\<lparr>hw := ?h\<rparr>) = Inr (b2, k2)"
    using demo_read_proc [OF _ _ demo_idle_regs_wf(1)] by blast
  have "device_run (hw k1) ?h" "take_bit 32 (device_faults (demo_idle, 12)) = device_faults (demo_idle, 12)"
    using demo_idle_ok(1) by (simp_all add: device_run_def k1(3) device_faults_def demo_idle_regs_wf(4))
  with measured_interval [OF kreach.start demo_idle_ok(2) _ k1(1) _ k2, of vemu_state_zero 12]
  have "vemu_delta vemu_state_zero b2 b1 ! 12 = 0"
    using demo_idle_read [OF demo_idle_regs_wf(1)] by (auto simp: vemu_state_zero_def k1(3))
  then show ?thesis using k1(1) k2 by blast
qed

text \<open>
  C6. Scaling through the whole stack: after \<open>vemu_dvfs\<close>, the power model runs at the low
  32 bits of the frequency and of the voltage in millivolts, and the frequency that the
  process reads back from the hardware is the one it set, cut to 32 bits. The accounts of
  the kernel and the fault switch are as before.
\<close>

theorem dvfs_roundtrip:
  assumes "kernel_wf k" "device_ok (hw k)" "vemu_dvfs (device_io m junk) f mv k = Inr k1"
    and "vemu_read (device_io m junk) (word_of_int READ_HW) b k1 = Inr (b', k2)"
  shows "b' ! frequency = take_bit 32 f \<and> pm_F (v_pm (fst (hw k1))) = double_of_u64 (take_bit 32 f)
    \<and> pm_Vdd (v_pm (fst (hw k1))) = double_of_u64 (take_bit 32 mv) / lit 1000
    \<and> (\<forall>j. accounts k2 j = accounts k j) \<and> device_faults (hw k2) = device_faults (hw k)"
proof -
  let ?io = "device_io m junk"
  obtain ka where a: "vemu_write ?io (ucast SET_FREQUENCY) f k = Inr ka" "vemu_write ?io (ucast SET_VOLTAGE) mv ka = Inr k1"
    using assms(3) by (auto simp: vemu_dvfs_def cbind_Inr_iff)
  obtain s now where h: "hw k = (s, now)" by (cases "hw k")
  let ?s1 = "s\<lparr>v_pm := (v_pm s)\<lparr>pm_F := double_of_u64 (take_bit 32 f)\<rparr>\<rparr>"
  let ?s2 = "?s1\<lparr>v_pm := (v_pm ?s1)\<lparr>pm_Vdd := double_of_u64 (take_bit 32 mv) / lit 1000\<rparr>\<rparr>"
  have ka: "ka = k\<lparr>hw := (?s1, now)\<rparr>" using vemu_write_device [OF a(1) assms(1)] by (auto simp: write_cases h)
  have k1: "k1 = k\<lparr>hw := (?s2, now)\<rparr>"
    using vemu_write_device [OF a(2)] assms(1) by (auto simp: ka hw_accounts write_cases)
  have "sint (word_of_int READ_HW :: u32) = READ_HW" "READ_HW \<noteq> 0" "base_pointer k"
    using assms(1) by (simp_all add: READ_HW_def kernel_wf_def)
  then obtain h2 where r: "vemu_read_state ?io True (vemu_state_tmp k) (?s2, now) = Inr (b', h2)"
    and k2: "k2 = k1\<lparr>vemu_state_tmp := b', hw := h2\<rparr>"
    using assms(4) by (auto simp: vemu_read_def sys_var_reg_read_def Let_def cbind_Inr_iff k1)
  have ok: "device_ok (?s2, now)" using assms(2) by (simp add: device_ok_def vemu_wf_def h)
  note d = device.read_state [OF r ok] device_read_state [OF r ok]
  have "regs_wf (last_state (fst h2))" using d(1) by (simp add: device_ok_def vemu_wf_def)
  then have "b' ! frequency = r_frequency (last_state (fst h2))"
    using d(2) by (simp add: array64_def regs_wf_def nth_append var_defs)
  moreover have "uint (take_bit 32 f) \<le> 2 ^ 53"
    using take_bit_int_less_exp [of 32 "uint f"] by (simp add: unsigned_take_bit_eq)
  ultimately have "b' ! frequency = take_bit 32 f"
    using read_cmd_settings(1) [of m now ?s2 "fst h2"] d(2) u64_double_roundtrip [of "take_bit 32 f"] by simp
  then show ?thesis using d(1) by (simp add: k2 k1 hw_accounts h device_faults_def)
qed

theorem dvfs_roundtrip_witness:
  "\<exists>k1 b' k2. vemu_dvfs (device_io demo_libm 0) 1000000000 1000 (boot (demo_idle, 12)) = Inr k1
    \<and> vemu_read (device_io demo_libm 0) (word_of_int READ_HW) [] k1 = Inr (b', k2) \<and> b' ! frequency = 1000000000"
proof -
  let ?io = "device_io demo_libm 0" and ?k = "boot (demo_idle, 12 :: u64)"
  have b: "base_pointer ?k" "hw ?k = (demo_idle, 12)" "base_pointer (k\<lparr>hw := h\<rparr>) = base_pointer k" for k :: "'h kernel" and h
    by (simp_all add: boot_def variability_init_def)
  have f: "demo_idle\<lparr>v_pm := (v_pm demo_idle)\<lparr>pm_F := Fin 1000000000\<rparr>\<rparr> = demo_idle"
    "demo_idle\<lparr>v_pm := (v_pm demo_idle)\<lparr>pm_Vdd := Fin 1\<rparr>\<rparr> = demo_idle"
    by (simp_all add: demo_idle_def demo_vemu_def demo_pm_def)
  have w: "iowrite32 ?io 1000000000 8 (demo_idle, 12) = Inr (demo_idle, 12)"
    "iowrite32 ?io 1000 16 (demo_idle, 12) = Inr (demo_idle, 12)"
    using write_cases(2) [of demo_libm 12 1000000000 4 demo_idle] write_cases(3) [of demo_libm 12 1000 4 demo_idle] f
    by (simp_all add: device_io_def SET_FREQUENCY_def SET_VOLTAGE_def SET_FAULTS_def dbl_eval)
  have k1: "vemu_dvfs ?io 1000000000 1000 ?k = Inr (?k\<lparr>hw := (demo_idle, 12)\<rparr>)"
    by (simp add: vemu_dvfs_def vemu_write_def sys_var_reg_write_def vemu_reg_write_def b w
        SET_FREQUENCY_def SET_VOLTAGE_def SET_FAULTS_def)
  have "sint (word_of_int READ_HW :: u32) = READ_HW" "READ_HW \<noteq> 0" by (simp_all add: READ_HW_def)
  then have "\<exists>b' k2. vemu_read ?io (word_of_int READ_HW) [] (?k\<lparr>hw := (demo_idle, 12)\<rparr>) = Inr (b', k2)"
    using demo_read_state [OF demo_idle_regs_wf(2), of 0, unfolded demo_idle_regs_wf(3)]
    by (simp add: vemu_read_def sys_var_reg_read_def b)
  then obtain b' k2 where k2: "vemu_read ?io (word_of_int READ_HW) [] (?k\<lparr>hw := (demo_idle, 12)\<rparr>) = Inr (b', k2)" by blast
  have "device_ok (hw ?k)" using demo_idle_ok(2) by (simp add: b)
  from dvfs_roundtrip [OF boot_wf(1) this k1 k2] k1 k2 show ?thesis by auto
qed

text \<open>
  C7. Scaling for the display ends for every counter value, after at most six divisions,
  with a value of at most 999 that is the counter itself or is at least 0.999 (as a double):
  the loop on doubles neither runs forever nor overshoots.
\<close>

theorem display_scales:
  "\<exists>k x. k \<le> 6 \<and> scale (double_of_u64 v) p = Some (x, p + int k) \<and> x \<le> Fin 999
    \<and> (if k = 0 then x = double_of_u64 v else rnd (999 / 1000) \<le> x)"
  by (rule scale_u64)

text \<open>
  C8. The display function never returns with a result: its loop runs over nineteen
  variables while the structures it fills have eighteen members, so it writes past their
  end whatever the counters are, unless a counter is so large that the table of prefixes
  is overrun first.
\<close>

theorem display_overruns:
  assumes "length d = 18" "length ps = 18"
  shows "vemu_prepare_display rs (d, ps) = Some (Inl Out_Of_Bounds)"
  unfolding vemu_prepare_display_def by (rule display_loop_overrun) (use assms in \<open>simp_all add: var_defs\<close>)

theorem display_overruns_witness:
  "vemu_prepare_display vemu_state_zero (replicate 18 (Fin 0), replicate 18 (CHR '' '')) = Some (Inl Out_Of_Bounds)"
  by (rule display_overruns) simp_all
end
