(* ===== verification/Arm_V7m.thy ===== *)
theory Arm_V7m
  imports Arm_Interrupt
begin

text \<open>
  Exceptions of the microcontroller profile: the frame that \<open>arm_v7m_cpu_do_interrupt\<close> stacks
  and \<open>do_v7m_exception_exit\<close> unstacks (\<^verbatim>\<open>target-arm/helper.c\<close>). Physical memory is a
  parameter; what the code relies on is \<open>mem_law\<close>, that an aligned load returns the last
  value stored at its address.
\<close>

section \<open>Assumptions and well-formedness\<close>

definition mem_law :: "('m, 'n) v7m_ext \<Rightarrow> bool" where
  "mem_law x \<longleftrightarrow> (\<forall>a b v mem. a AND 3 = 0 \<longrightarrow> b AND 3 = 0 \<longrightarrow>
     ldl_phys x b (stl_phys x a v mem) = (if a = b then v else ldl_phys x b mem))"

definition v7m_wf :: "cpu \<Rightarrow> bool" where
  "v7m_wf env \<longleftrightarrow> length (regs env) = 16 \<and> CF env \<in> set [0, 1] \<and> QF env \<in> set [0, 1] \<and> thumb env \<in> set [0, 1]
     \<and> 0 \<le> v7m_exception env \<and> v7m_exception env < 512 \<and> v7m_current_sp env \<in> set [0, 1]"

text \<open>The address of the frame: below the stack pointer, aligned to 8 bytes.\<close>

definition frame_base :: "cpu \<Rightarrow> u32" where
  "frame_base env = (if regs env ! 13 AND 4 \<noteq> 0 then regs env ! 13 - 4 else regs env ! 13) - 32"

text \<open>
  What a handler that follows the procedure call standard leaves when it branches to the
  value it found in its link register: the preserved registers, the stack pointers and the
  stacked frame. A branch with exchange takes bit 0 of its target for the instruction set
  and clears it, so the program counter is the link register up to that bit.
\<close>

definition handler_returns :: "('m, 'n) v7m_ext \<Rightarrow> u32 \<Rightarrow> cpu \<times> 'm \<Rightarrow> cpu \<times> 'm \<Rightarrow> bool" where
  "handler_returns x base = (\<lambda>(env1, mem1) (env2, mem2).
     length (regs env2) = 16 \<and> take 8 (drop 4 (regs env2)) = take 8 (drop 4 (regs env1))
     \<and> regs env2 ! 13 = regs env1 ! 13 \<and> regs env2 ! 15 AND NOT 1 = regs env1 ! 14 AND NOT 1
     \<and> v7m_current_sp env2 = v7m_current_sp env1 \<and> v7m_other_sp env2 = v7m_other_sp env1
     \<and> list_all (\<lambda>k. ldl_phys x (base + k) mem2 = ldl_phys x (base + k) mem1) [0, 4, 8, 12, 16, 20, 24, 28])"

section \<open>Words\<close>

lemma aligned_add: "a AND 3 = 0 \<Longrightarrow> b AND 3 = 0 \<Longrightarrow> (a + b) AND 3 = (0 :: u32)"
proof -
  assume "a AND 3 = 0" "b AND 3 = 0"
  moreover have t: "w AND 3 = take_bit 2 w" for w :: u32 by (simp add: take_bit_eq_mask mask_eq_exp_minus_1)
  ultimately have "take_bit 2 a = 0" "take_bit 2 b = 0" by simp_all
  then have "unat a mod 4 = 0" "unat b mod 4 = 0"
    using unat_take_bit_mod [of 2 a] unat_take_bit_mod [of 2 b] by simp_all
  then have z: "(unat a + unat b) mod 4 = 0" by presburger
  have "unat (a + b) mod 4 = (unat a + unat b) mod 2 ^ 32 mod 4" by (simp add: unat_word_ariths)
  also have "\<dots> = (unat a + unat b) mod 4" by (rule mod_mod_cancel) simp
  finally have "unat (a + b) mod 4 = 0" using z by simp
  then show ?thesis using unat_take_bit_mod [of 2 "a + b"] t by (simp add: unat_eq_0)
qed

lemma unalign_4:
  assumes "(sp :: u32) AND 4 \<noteq> 0"
  shows "(sp - 4) OR 4 = sp"
proof -
  have b: "bit sp 2" using assms and_push_bit_1 [of sp 2] by (simp add: push_bit_eq_mult)
  have "(sp AND NOT 4) + 4 = (sp AND NOT 4) OR 4" by (rule disjunctive_add_eq_or) (simp add: bit_eq_iff bit_simps)
  moreover have "(sp AND NOT 4) OR 4 = sp" by (rule u32_eqI, elim insertE emptyE) (simp_all add: bit_simps b)
  ultimately show ?thesis by (simp add: eq_diff_eq [symmetric])
qed

lemma pc_even: "(pc :: u32) AND 1 = 0 \<Longrightarrow> (pc OR 1) AND NOT 1 = pc \<and> pc AND NOT 1 = pc"
proof -
  assume "pc AND 1 = 0"
  then have "\<not> bit pc 0" using and_push_bit_1 [of pc 0] by simp
  then show ?thesis
    by (intro conjI u32_eqI; elim insertE emptyE) (simp_all add: bit_simps)
qed

section \<open>The program status register in the frame\<close>

lemmas xpsr_consts = CPSR_NZCV_def CPSR_N_def CPSR_Z_def CPSR_C_def CPSR_V_def CPSR_IT_0_1_def CPSR_IT_2_7_def CPSR_Q_def

lemma xpsr_write_full:
  fixes v e
  defines "w \<equiv> xpsr_write v 0xfffffdff e"
  shows "NF w = v" "ZF w = NOT v AND CPSR_Z" "CF w = drop_bit 29 v AND 1" "VF w = push_bit 3 v AND 0x80000000"
    "QF w = b2w (v AND CPSR_Q \<noteq> 0)" "thumb w = b2w (v AND push_bit 24 1 \<noteq> 0)"
    "condexec_bits w = (((condexec_bits e AND NOT 3) OR (drop_bit 25 v AND 3)) AND 3) OR (drop_bit 8 v AND 0xfc)"
    "v7m_exception w = uint (v AND 0x1ff)"
  by (simp_all add: w_def xpsr_write_def Let_def write_nzcv_def write_q_def write_it_def xpsr_consts)

lemma and_mask_9: "(v :: u32) AND 0x1ff = take_bit 9 v"
  by (simp add: take_bit_eq_mask mask_eq_exp_minus_1)

lemma xpsr_read_write: "xpsr_read (xpsr_write v 0xfffffdff e) = v AND 0xFF00FDFF"
proof -
  have t: "x AND CPSR_Q = 0 \<longleftrightarrow> \<not> bit x 27" "NOT x AND CPSR_Z = 0 \<longleftrightarrow> bit x 30"
     "x AND push_bit 24 1 = 0 \<longleftrightarrow> \<not> bit x 24" for x :: u32
    by (simp_all only: CPSR_Q_def CPSR_Z_def and_push_bit_1) (simp add: bit_not_iff)
  show ?thesis
    unfolding xpsr_read_def Let_def xpsr_write_full
    by (rule u32_eqI, elim insertE emptyE) (simp_all add: bit_simps bit_b2w t t [simplified] and_mask_9)
qed

lemma xpsr_read_bits:
  assumes "v7m_wf env" "k \<in> {0, 0x200}"
  shows "(xpsr_read env OR k) AND 0xFF00FDFF = xpsr_read env"
    "uint ((xpsr_read env OR k) AND 0x1ff) = v7m_exception env"
    "b2w ((xpsr_read env OR k) AND push_bit 24 1 \<noteq> 0) = thumb env"
    "(xpsr_read env OR k) AND 0x200 = k"
proof -
  have w: "0 < i \<Longrightarrow> \<not> bit (CF env) i" "0 < i \<Longrightarrow> \<not> bit (QF env) i" "0 < i \<Longrightarrow> \<not> bit (thumb env) i" for i
    using assms(1) bit_01 unfolding v7m_wf_def by blast+
  define x where "x = (word_of_int (v7m_exception env) :: u32)"
  have u: "uint x = v7m_exception env" using assms(1) by (simp add: x_def v7m_wf_def unsigned_of_int take_bit_int_eq_self)
  have x: "take_bit 9 x = x"
    by (rule word_uint_eqI) (use assms(1) in \<open>simp add: u v7m_wf_def unsigned_take_bit_eq take_bit_int_eq_self\<close>)
  then have xb: "9 \<le> i \<Longrightarrow> \<not> bit x i" for i by (metis bit_take_bit_iff not_le)
  show "(xpsr_read env OR k) AND 0xFF00FDFF = xpsr_read env"
  unfolding xpsr_read_def Let_def x_def [symmetric] using assms(2)
    by (intro u32_eqI, elim insertE emptyE) (simp_all add: bit_simps bit_b2w w xb)
  show "uint ((xpsr_read env OR k) AND 0x1ff) = v7m_exception env"
  proof -
    have "(xpsr_read env OR k) AND 0x1ff = x"
    unfolding xpsr_read_def Let_def x_def [symmetric] using assms(2)
    by (intro u32_eqI, elim insertE emptyE) (simp_all add: bit_simps bit_b2w w xb)
    then show ?thesis using u by simp
  qed
  show "b2w ((xpsr_read env OR k) AND push_bit 24 1 \<noteq> 0) = thumb env"
    using assms xb [of 24] unfolding and_push_bit_1 xpsr_read_def Let_def x_def [symmetric]
    by (auto simp: bit_simps bit_b2w b2w_def v7m_wf_def w)
  show "(xpsr_read env OR k) AND 0x200 = k"
  unfolding xpsr_read_def Let_def x_def [symmetric] using assms(2)
    by (intro u32_eqI, elim insertE emptyE) (simp_all add: bit_simps bit_b2w w xb)
qed
section \<open>The frame\<close>

lemma list_16: "length xs = 16 \<Longrightarrow> \<exists>a b c d e f g h i j k l m n p q. xs = [a, b, c, d, e, f, g, h, i, j, k, l, m, n, p, q]"
  by (auto simp: length_Suc_conv numeral_eq_Suc)

lemma push_frame_eq:
  assumes "regs env = [a, b, c, d, e, f, g, h, i, j, k, l, m, sp, lr0, pc]"
  shows "v7m_push_frame x xpsr (env, mem) =
     (env\<lparr>regs := [a, b, c, d, e, f, g, h, i, j, k, l, m, sp - 32, lr0, pc]\<rparr>,
      stl_phys x (sp - 32) a (stl_phys x (sp - 28) b (stl_phys x (sp - 24) c (stl_phys x (sp - 20) d
        (stl_phys x (sp - 16) m (stl_phys x (sp - 12) lr0 (stl_phys x (sp - 8) (pc OR b2w (thumb env \<noteq> 0))
          (stl_phys x (sp - 4) xpsr mem))))))))"
  by (simp add: v7m_push_frame_def assms v7m_push_def Let_def)

lemma v7m_enter_eq:
  assumes "regs env = [a, b, c, d, e, f, g, h, i, j, k, l, m, sp, lr0, pc]"
    and s_def: "s = (if sp AND 4 \<noteq> 0 then sp - 4 else sp)"
    and xp_def: "xp = (if sp AND 4 \<noteq> 0 then xpsr OR 0x200 else xpsr)"
  shows "\<exists>pc'. regs (fst (v7m_enter x lr xpsr (env, mem))) = [a, b, c, d, e, f, g, h, i, j, k, l, m,
      if v7m_current_sp env \<noteq> 0 then v7m_other_sp env else s - 32, lr, pc']"
    "v7m_other_sp (fst (v7m_enter x lr xpsr (env, mem))) =
      (if v7m_current_sp env \<noteq> 0 then s - 32 else v7m_other_sp env)"
    "v7m_current_sp (fst (v7m_enter x lr xpsr (env, mem))) = 0"
    "snd (v7m_enter x lr xpsr (env, mem)) =
      stl_phys x (s - 32) a (stl_phys x (s - 28) b (stl_phys x (s - 24) c (stl_phys x (s - 20) d
        (stl_phys x (s - 16) m (stl_phys x (s - 12) lr0 (stl_phys x (s - 8) (pc OR b2w (thumb env \<noteq> 0))
          (stl_phys x (s - 4) xp mem)))))))"
proof -
  let ?e = "env\<lparr>regs := [a, b, c, d, e, f, g, h, i, j, k, l, m, s, lr0, pc]\<rparr>"
  have p: "(if regs env ! 13 AND 4 \<noteq> 0 then (xpsr OR 0x200, env\<lparr>regs := (regs env)[13 := regs env ! 13 - 4]\<rparr>)
     else (xpsr, env)) = (xp, ?e)"
  proof -
    have "env\<lparr>regs := [a, b, c, d, e, f, g, h, i, j, k, l, m, sp, lr0, pc]\<rparr> = env"
      unfolding assms(1) [symmetric] by simp
    then show ?thesis using assms by simp
  qed
  have "v7m_push_frame x xp (?e, mem) = (?e\<lparr>regs := [a, b, c, d, e, f, g, h, i, j, k, l, m, s - 32, lr0, pc]\<rparr>,
      stl_phys x (s - 32) a (stl_phys x (s - 28) b (stl_phys x (s - 24) c (stl_phys x (s - 20) d
        (stl_phys x (s - 16) m (stl_phys x (s - 12) lr0 (stl_phys x (s - 8) (pc OR b2w (thumb ?e \<noteq> 0))
          (stl_phys x (s - 4) xp mem))))))))" by (rule push_frame_eq) simp
  note q = this
  show "\<exists>pc'. regs (fst (v7m_enter x lr xpsr (env, mem))) = [a, b, c, d, e, f, g, h, i, j, k, l, m,
      if v7m_current_sp env \<noteq> 0 then v7m_other_sp env else s - 32, lr, pc']"
    "v7m_other_sp (fst (v7m_enter x lr xpsr (env, mem))) =
      (if v7m_current_sp env \<noteq> 0 then s - 32 else v7m_other_sp env)"
    "v7m_current_sp (fst (v7m_enter x lr xpsr (env, mem))) = 0"
    "snd (v7m_enter x lr xpsr (env, mem)) =
      stl_phys x (s - 32) a (stl_phys x (s - 28) b (stl_phys x (s - 24) c (stl_phys x (s - 20) d
        (stl_phys x (s - 16) m (stl_phys x (s - 12) lr0 (stl_phys x (s - 8) (pc OR b2w (thumb env \<noteq> 0))
          (stl_phys x (s - 4) xp mem)))))))"
    unfolding v7m_enter_def prod.case p Let_def q
    by (simp_all add: switch_v7m_sp_def Let_def)
qed

lemma xpsr_write_frame:
  "regs (xpsr_write v k e) = regs e" "v7m_current_sp (xpsr_write v k e) = v7m_current_sp e"
  "v7m_other_sp (xpsr_write v k e) = v7m_other_sp e"
  by (simp_all add: xpsr_write_def write_nzcv_def write_q_def write_it_def Let_def)

lemma xpsr_read_regs:
  "xpsr_read (e\<lparr>regs := r\<rparr>) = xpsr_read e"
  by (simp add: xpsr_read_def)

lemma pop_frame_eq:
  assumes "regs env = [a, b, c, d, e, f, g, h, i, j, k, l, m, fp, lr, ty]"
    and ld: "ldl_phys x fp mem = A" "ldl_phys x (fp + 4) mem = B" "ldl_phys x (fp + 8) mem = C"
      "ldl_phys x (fp + 12) mem = D" "ldl_phys x (fp + 16) mem = M" "ldl_phys x (fp + 20) mem = L"
      "ldl_phys x (fp + 24) mem = P"
  shows "v7m_pop_frame x mem env = env\<lparr>regs := [A, B, C, D, e, f, g, h, i, j, k, l, M, fp + 28, L, P]\<rparr>"
  using ld by (simp add: v7m_pop_frame_def pop_reg_def v7m_pop_def assms(1) Let_def add.commute [of fp])

lemma v7m_exit_eq:
  assumes "regs env = [a, b, c, d, e, f, g, h, i, j, k, l, m, sp, lr, ty]" "v7m_current_sp env = 0"
    and fp: "fp = (if ty AND 4 \<noteq> 0 then v7m_other_sp env else sp)"
    and ld: "ldl_phys x fp mem = A" "ldl_phys x (fp + 4) mem = B" "ldl_phys x (fp + 8) mem = C"
      "ldl_phys x (fp + 12) mem = D" "ldl_phys x (fp + 16) mem = M" "ldl_phys x (fp + 20) mem = L"
      "ldl_phys x (fp + 24) mem = P" "ldl_phys x (fp + 28) mem = X"
    and env'_def: "env' = fst (do_v7m_exception_exit x (env, mem, nvic))"
  shows "regs env' = [A, B, C, D, e, f, g, h, i, j, k, l, M, (if X AND 0x200 \<noteq> 0 then (fp + 32) OR 4 else fp + 32), L, P AND NOT 1]"
    "v7m_current_sp env' = (if ty AND 4 \<noteq> 0 then 1 else 0)"
    "v7m_other_sp env' = (if ty AND 4 \<noteq> 0 then sp else v7m_other_sp env)"
    "\<exists>e. xpsr_read env' = xpsr_read (xpsr_write X 0xfffffdff e)
       \<and> v7m_exception env' = v7m_exception (xpsr_write X 0xfffffdff e) \<and> thumb env' = thumb (xpsr_write X 0xfffffdff e)"
proof -
  define e1 where "e1 = switch_v7m_sp (if ty AND 4 \<noteq> 0 then 1 else 0) env"
  have e1: "regs e1 = [a, b, c, d, e, f, g, h, i, j, k, l, m, fp, lr, ty]"
    "v7m_current_sp e1 = (if ty AND 4 \<noteq> 0 then 1 else 0)"
    "v7m_other_sp e1 = (if ty AND 4 \<noteq> 0 then sp else v7m_other_sp env)"
    using assms(1,2) fp by (simp_all add: e1_def switch_v7m_sp_def Let_def)
  note pf = pop_frame_eq [OF e1(1) ld(1-7)]
  define e2 where "e2 = e1\<lparr>thumb := P AND 1, regs := [A, B, C, D, e, f, g, h, i, j, k, l, M, fp + 32, L, P AND NOT 1]\<rparr>"
  have ty: "regs env ! 15 = ty" using assms(1) by simp
  have "env' = (let e3 = xpsr_write X 0xfffffdff e2 in
      if X AND 0x200 \<noteq> 0 then e3\<lparr>regs := (regs e3)[13 := regs e3 ! 13 OR 4]\<rparr> else e3)"
    unfolding env'_def do_v7m_exception_exit_def prod.case Let_def ty e1_def [symmetric] pf
    using ld(8) by (simp add: v7m_pop_def Let_def e2_def add.commute [of fp])
  then show "regs env' = [A, B, C, D, e, f, g, h, i, j, k, l, M, (if X AND 0x200 \<noteq> 0 then (fp + 32) OR 4 else fp + 32), L, P AND NOT 1]"
    "v7m_current_sp env' = (if ty AND 4 \<noteq> 0 then 1 else 0)"
    "v7m_other_sp env' = (if ty AND 4 \<noteq> 0 then sp else v7m_other_sp env)"
    "\<exists>e. xpsr_read env' = xpsr_read (xpsr_write X 0xfffffdff e)
       \<and> v7m_exception env' = v7m_exception (xpsr_write X 0xfffffdff e) \<and> thumb env' = thumb (xpsr_write X 0xfffffdff e)"
    using e1(2,3) by (auto simp: Let_def xpsr_write_frame xpsr_read_regs e2_def intro!: exI [of _ e2])
qed

lemma frame_loads:
  assumes "mem_law x" "(s :: u32) AND 3 = 0"
    and "mem' = stl_phys x (s - 32) a (stl_phys x (s - 28) b (stl_phys x (s - 24) c (stl_phys x (s - 20) d
        (stl_phys x (s - 16) m (stl_phys x (s - 12) l (stl_phys x (s - 8) p (stl_phys x (s - 4) xp mem)))))))"
  shows "ldl_phys x (s - 32) mem' = a" "ldl_phys x (s - 28) mem' = b" "ldl_phys x (s - 24) mem' = c"
    "ldl_phys x (s - 20) mem' = d" "ldl_phys x (s - 16) mem' = m" "ldl_phys x (s - 12) mem' = l"
    "ldl_phys x (s - 8) mem' = p" "ldl_phys x (s - 4) mem' = xp"
proof -
  have ld: "ldl_phys x b (stl_phys x a v mem) = (if a = b then v else ldl_phys x b mem)"
    if "a AND 3 = 0" "b AND 3 = 0" for a b v mem
    using assms(1) that unfolding mem_law_def by blast
  have al: "- k AND 3 = 0 \<Longrightarrow> (s - k) AND 3 = 0" for k
    using aligned_add [of s "- k"] assms(2) by simp
  show "ldl_phys x (s - 32) mem' = a" "ldl_phys x (s - 28) mem' = b" "ldl_phys x (s - 24) mem' = c"
    "ldl_phys x (s - 20) mem' = d" "ldl_phys x (s - 16) mem' = m" "ldl_phys x (s - 12) mem' = l"
    "ldl_phys x (s - 8) mem' = p" "ldl_phys x (s - 4) mem' = xp"
    unfolding assms(3) by (simp_all add: ld al)
qed

lemma irq_enters:
  assumes "exception_index env = EXCP_IRQ"
    and "arm_v7m_cpu_do_interrupt ax x (env, mem, nvic) = Inr (env1, mem1, nvic1)"
  shows "\<exists>n lr. (env1, mem1) = v7m_enter x lr (xpsr_read env) (env\<lparr>v7m_exception := n\<rparr>, mem)
    \<and> (lr AND 4 \<noteq> 0 \<longleftrightarrow> v7m_current_sp env \<noteq> 0)"
proof -
  define lr where "lr = (if v7m_exception env = 0 then (if v7m_current_sp env \<noteq> 0 then 0xfffffff1 OR 4 else 0xfffffff1) OR 8
     else (if v7m_current_sp env \<noteq> 0 then 0xfffffff1 OR 4 else 0xfffffff1 :: u32))"
  obtain n nv where "nvic_acknowledge_irq x nvic = (n, nv)" by fastforce
  then have "(env1, mem1) = v7m_enter x lr (xpsr_read env) (env\<lparr>v7m_exception := n\<rparr>, mem)"
    using assms by (auto simp: arm_v7m_cpu_do_interrupt_def Let_def excp_defs lr_def split: prod.splits)
  moreover have "lr AND 4 \<noteq> 0 \<longleftrightarrow> v7m_current_sp env \<noteq> 0" by (simp add: lr_def)
  ultimately show ?thesis by blast
qed

definition demo_v7m_ext :: "(u32 \<Rightarrow> u32, int) v7m_ext" where
  "demo_v7m_ext = \<lparr>stl_phys = (\<lambda>a v mem. mem(a := v)), ldl_phys = (\<lambda>a mem. mem a),
     nvic_set_pending = (\<lambda>e n. e), nvic_acknowledge_irq = (\<lambda>n. (16, n)), nvic_complete_irq = (\<lambda>e n. 0)\<rparr>"

definition demo_thread :: cpu where
  "demo_thread = demo_cpu\<lparr>regs := [0, 1, 2, 3, 4, 5, 6, 7, 8, 9, 10, 11, 12, 0x1004, 14, 0x8000], thumb := 1,
     exception_index := EXCP_IRQ, v7m_current_sp := 1, v7m_other_sp := 0x2000\<rparr>"

lemma demo_thread_ok:
  "mem_law demo_v7m_ext" "v7m_wf demo_thread" "regs demo_thread ! 13 AND 3 = 0" "regs demo_thread ! 15 AND 1 = 0"
  "exception_index demo_thread = EXCP_IRQ"
  by (simp_all add: mem_law_def demo_v7m_ext_def v7m_wf_def demo_thread_def demo_cpu_def)

lemma demo_entry:
  "\<exists>env1 mem1 nvic1. arm_v7m_cpu_do_interrupt demo_arm_ext demo_v7m_ext (demo_thread, \<lambda>_. 0, 0) = Inr (env1, mem1, nvic1)
     \<and> length (regs env1) = 16"
proof -
  let ?e = "demo_thread\<lparr>v7m_exception := 16\<rparr>"
  let ?v = "v7m_enter demo_v7m_ext 0xfffffffd (xpsr_read demo_thread) (?e, \<lambda>_. 0)"
  have "regs ?e = [0, 1, 2, 3, 4, 5, 6, 7, 8, 9, 10, 11, 12, 0x1004, 14, 0x8000]" by (simp add: demo_thread_def)
  from v7m_enter_eq(1) [OF this refl refl, of demo_v7m_ext "0xfffffffd" "xpsr_read demo_thread" "\<lambda>_. 0"]
  have l: "length (regs (fst ?v)) = 16" by auto
  have d: "v7m_current_sp demo_thread = 1" "v7m_exception demo_thread = 0"
    "nvic_acknowledge_irq demo_v7m_ext 0 = (16, 0)"
    by (simp_all add: demo_thread_def demo_cpu_def demo_v7m_ext_def)
  have "arm_v7m_cpu_do_interrupt demo_arm_ext demo_v7m_ext (demo_thread, \<lambda>_. 0, 0) = Inr (fst ?v, snd ?v, 0)"
    by (simp add: arm_v7m_cpu_do_interrupt_def demo_thread_ok(5) excp_defs Let_def d split: prod.splits)
  then show ?thesis using l by blast
qed

text \<open>
  C29. An interrupt leaves no trace. On a microcontroller core, take an interrupt in any
  state whose stack pointer is aligned to 4 and whose program counter is even, on either
  stack and also inside another handler; let the handler run, keeping the registers the
  procedure call standard preserves, its stack pointers and the stacked frame; and return
  through the value that the entry left in the link register. Then all sixteen registers,
  the status register with flags, IT state and active exception, the instruction set, and
  both stack pointers are what they were.
\<close>

theorem v7m_roundtrip:
  assumes "mem_law x" "v7m_wf env" "regs env ! 13 AND 3 = 0" "regs env ! 15 AND 1 = 0"
    and "exception_index env = EXCP_IRQ"
    and "arm_v7m_cpu_do_interrupt ax x (env, mem, nvic) = Inr (env1, mem1, nvic1)"
    and "handler_returns x (frame_base env) (env1, mem1) (env2, mem2)"
    and "do_v7m_exception_exit x (env2, mem2, nvic2) = (env3, mem3, nvic3)"
  shows "regs env3 = regs env \<and> xpsr_read env3 = xpsr_read env \<and> v7m_exception env3 = v7m_exception env
    \<and> thumb env3 = thumb env \<and> v7m_current_sp env3 = v7m_current_sp env \<and> v7m_other_sp env3 = v7m_other_sp env"
proof -
  obtain a b c d e f g h i j k l m sp lr0 pc where r: "regs env = [a, b, c, d, e, f, g, h, i, j, k, l, m, sp, lr0, pc]"
    using assms(2) list_16 [of "regs env"] unfolding v7m_wf_def by blast
  obtain a2 b2 c2 d2 e2 f2 g2 h2 i2 j2 k2 l2 m2 sp2 lr2 pc2 where
    r2: "regs env2 = [a2, b2, c2, d2, e2, f2, g2, h2, i2, j2, k2, l2, m2, sp2, lr2, pc2]"
    using assms(7) list_16 [of "regs env2"] unfolding handler_returns_def by blast
  define s where "s = (if sp AND 4 \<noteq> 0 then sp - 4 else sp)"
  define K :: u32 where "K = (if sp AND 4 \<noteq> 0 then 0x200 else 0)"
  obtain n lr where e1: "(env1, mem1) = v7m_enter x lr (xpsr_read env) (env\<lparr>v7m_exception := n\<rparr>, mem)"
    and l4: "lr AND 4 \<noteq> 0 \<longleftrightarrow> v7m_current_sp env \<noteq> 0" using irq_enters [OF assms(5,6)] by blast
  have r': "regs (env\<lparr>v7m_exception := n\<rparr>) = [a, b, c, d, e, f, g, h, i, j, k, l, m, sp, lr0, pc]" using r by simp
  have xp: "xpsr_read env OR K = (if sp AND 4 \<noteq> 0 then xpsr_read env OR 0x200 else xpsr_read env)" by (simp add: K_def)
  note en = v7m_enter_eq [OF r' s_def xp, of x lr mem, folded e1, simplified]
  have h: "e2 = e" "f2 = f" "g2 = g" "h2 = h" "i2 = i" "j2 = j" "k2 = k" "l2 = l"
    "sp2 = (if v7m_current_sp env \<noteq> 0 then v7m_other_sp env else s - 32)" "pc2 AND NOT 1 = lr AND NOT 1"
    "v7m_current_sp env2 = 0" "v7m_other_sp env2 = (if v7m_current_sp env \<noteq> 0 then s - 32 else v7m_other_sp env)"
    using en assms(7) r2 by (auto simp: handler_returns_def)
  have "s AND 3 = 0" using assms(3) r aligned_add [of sp "- 4"] by (simp add: s_def)
  note ld1 = frame_loads [OF assms(1) this en(4)]
  have fb: "frame_base env = s - 32" using r by (simp add: frame_base_def s_def)
  have ld2: "ldl_phys x (s - 32) mem2 = a" "ldl_phys x (s - 32 + 4) mem2 = b" "ldl_phys x (s - 32 + 8) mem2 = c"
    "ldl_phys x (s - 32 + 12) mem2 = d" "ldl_phys x (s - 32 + 16) mem2 = m" "ldl_phys x (s - 32 + 20) mem2 = lr0"
    "ldl_phys x (s - 32 + 24) mem2 = pc OR b2w (thumb env \<noteq> 0)" "ldl_phys x (s - 32 + 28) mem2 = xpsr_read env OR K"
    using assms(7) ld1 by (simp_all add: handler_returns_def fb)
  have "pc2 AND 4 = (pc2 AND NOT 1) AND 4" "lr AND 4 = (lr AND NOT 1) AND 4" by (simp_all add: and.assoc)
  then have p4: "pc2 AND 4 \<noteq> 0 \<longleftrightarrow> v7m_current_sp env \<noteq> 0" using h(10) l4 by simp
  have fp: "s - 32 = (if pc2 AND 4 \<noteq> 0 then v7m_other_sp env2 else sp2)" using h p4 by simp
  have e3: "env3 = fst (do_v7m_exception_exit x (env2, mem2, nvic2))" using assms(8) by simp
  note ex = v7m_exit_eq [OF r2 h(11) fp ld2 e3]
  have K: "K \<in> {0, 0x200}" by (simp add: K_def)
  note xb = xpsr_read_bits [OF assms(2) K]
  have pc: "(pc OR b2w q) AND NOT 1 = pc" for q
    using assms(4) r pc_even [of pc] by (auto simp: b2w_def)
  have sp: "(if (xpsr_read env OR K) AND 0x200 \<noteq> 0 then (s - 32 + 32) OR 4 else s - 32 + 32) = sp"
    unfolding xb(4) using unalign_4 [of sp] by (simp add: K_def s_def)
  have cs: "v7m_current_sp env \<in> set [0, 1]" using assms(2) by (simp add: v7m_wf_def)
  have "regs env3 = regs env" unfolding ex(1) sp pc r h(1-8) ..
  moreover have "v7m_current_sp env3 = v7m_current_sp env \<and> v7m_other_sp env3 = v7m_other_sp env"
    using ex(2,3) h(9,12) p4 cs by auto
  moreover have "xpsr_read env3 = xpsr_read env \<and> v7m_exception env3 = v7m_exception env \<and> thumb env3 = thumb env"
    using ex(4) by (auto simp only: xpsr_read_write xpsr_write_full xb)
  ultimately show ?thesis by blast
qed

theorem v7m_roundtrip_witness:
  "\<exists>env1 mem1 nvic1 env2 env3 mem3 nvic3.
     arm_v7m_cpu_do_interrupt demo_arm_ext demo_v7m_ext (demo_thread, \<lambda>_. 0, 0) = Inr (env1, mem1, nvic1)
     \<and> handler_returns demo_v7m_ext (frame_base demo_thread) (env1, mem1) (env2, mem1)
     \<and> do_v7m_exception_exit demo_v7m_ext (env2, mem1, nvic1) = (env3, mem3, nvic3)
     \<and> regs env3 = regs demo_thread \<and> v7m_current_sp env3 = 1"
proof -
  obtain env1 mem1 nvic1 where 1:
    "arm_v7m_cpu_do_interrupt demo_arm_ext demo_v7m_ext (demo_thread, \<lambda>_. 0, 0) = Inr (env1, mem1, nvic1)"
    and l: "length (regs env1) = 16"
    using demo_entry by blast
  define env2 where "env2 = env1\<lparr>regs := (regs env1)[15 := regs env1 ! 14 AND NOT 1]\<rparr>"
  have 2: "handler_returns demo_v7m_ext (frame_base demo_thread) (env1, mem1) (env2, mem1)"
    using l by (simp add: handler_returns_def env2_def drop_update_swap)
  obtain env3 mem3 nvic3 where 3: "do_v7m_exception_exit demo_v7m_ext (env2, mem1, nvic1) = (env3, mem3, nvic3)"
    by (metis prod_cases3)
  show ?thesis using v7m_roundtrip [OF demo_thread_ok 1 2 3] 1 2 3
    by (auto simp: demo_thread_def)
qed

end
