(* ===== verification/Arm_Cp_Table.thy ===== *)
theory Arm_Cp_Table
  imports Arm_Cpu
begin

text \<open>
  The coprocessor registers of \<^verbatim>\<open>target-arm/helper.c\<close> and \<^verbatim>\<open>cpu.h\<close>: the type of register
  definitions, every table of definitions, and their registration
  (\<open>register_cp_regs_for_features\<close>) in the hash table that the translator looks them up in.
  Function pointers are constants of the types \<open>cp_readfn\<close>, \<open>cp_writefn\<close> and \<open>cp_resetfn\<close>, field
  offsets constants of \<open>cp_field\<close>; the functions themselves are in \<open>Arm_Coproc\<close>.
\<close>

section \<open>Constants\<close>

definition ARM_CP_SPECIAL :: u32 where "ARM_CP_SPECIAL = 1"
definition ARM_CP_CONST :: u32 where "ARM_CP_CONST = 2"
definition ARM_CP_64BIT :: u32 where "ARM_CP_64BIT = 4"
definition ARM_CP_SUPPRESS_TB_END :: u32 where "ARM_CP_SUPPRESS_TB_END = 8"
definition ARM_CP_OVERRIDE :: u32 where "ARM_CP_OVERRIDE = 16"
definition ARM_CP_NOP :: u32 where "ARM_CP_NOP = ARM_CP_SPECIAL OR push_bit 8 1"
definition ARM_CP_WFI :: u32 where "ARM_CP_WFI = ARM_CP_SPECIAL OR push_bit 8 2"
definition ARM_LAST_SPECIAL :: u32 where "ARM_LAST_SPECIAL = ARM_CP_WFI"
definition ARM_CP_FLAG_MASK :: u32 where "ARM_CP_FLAG_MASK = 0x1f"

lemmas cp_type_defs = ARM_CP_SPECIAL_def ARM_CP_CONST_def ARM_CP_64BIT_def ARM_CP_SUPPRESS_TB_END_def
  ARM_CP_OVERRIDE_def ARM_CP_NOP_def ARM_CP_WFI_def ARM_LAST_SPECIAL_def ARM_CP_FLAG_MASK_def

definition cptype_valid :: "u32 \<Rightarrow> bool" where
  "cptype_valid cptype \<longleftrightarrow> cptype AND NOT ARM_CP_FLAG_MASK = 0
     \<or> (cptype AND ARM_CP_SPECIAL \<noteq> 0 \<and> cptype \<le> ARM_LAST_SPECIAL)"

definition PL3_R :: u32 where "PL3_R = 0x80"
definition PL3_W :: u32 where "PL3_W = 0x40"
definition PL2_R :: u32 where "PL2_R = 0x20 OR PL3_R"
definition PL2_W :: u32 where "PL2_W = 0x10 OR PL3_W"
definition PL1_R :: u32 where "PL1_R = 0x08 OR PL2_R"
definition PL1_W :: u32 where "PL1_W = 0x04 OR PL2_W"
definition PL0_R :: u32 where "PL0_R = 0x02 OR PL1_R"
definition PL0_W :: u32 where "PL0_W = 0x01 OR PL1_W"
definition PL1_RW :: u32 where "PL1_RW = PL1_R OR PL1_W"
definition PL0_RW :: u32 where "PL0_RW = PL0_R OR PL0_W"

lemmas pl_defs = PL3_R_def PL3_W_def PL2_R_def PL2_W_def PL1_R_def PL1_W_def PL0_R_def PL0_W_def PL1_RW_def PL0_RW_def

definition CP_ANY :: nat where "CP_ANY = 0xff"

definition ENCODE_CP_REG :: "nat \<Rightarrow> nat \<Rightarrow> nat \<Rightarrow> nat \<Rightarrow> nat \<Rightarrow> nat \<Rightarrow> u32" where
  "ENCODE_CP_REG cp is64 crn crm opc1 opc2 =
     push_bit 16 (of_nat cp) OR push_bit 15 (of_nat is64) OR push_bit 11 (of_nat crn)
       OR push_bit 7 (of_nat crm) OR push_bit 3 (of_nat opc1) OR of_nat opc2"

section \<open>Register definitions\<close>

text \<open>The fields of the processor state that register definitions point to.\<close>

datatype cp_field = Fld_c3 | Fld_c13_fcse | Fld_c9_data | Fld_c9_insn | Fld_c6_insn | Fld_c1_coproc
  | Fld_c9_pmcnten | Fld_c9_pmovsr | Fld_c9_pmxevtyper | Fld_c9_pmuserenr | Fld_c9_pminten |
  Fld_c0_cssel | Fld_teecr | Fld_teehbr | Fld_c13_tls1 | Fld_c13_tls2 | Fld_c13_tls3 | Fld_c7_par |
  Fld_c5_data | Fld_c5_insn | Fld_c2_data | Fld_c2_insn | Fld_c2_base0 | Fld_c2_base1 |
  Fld_c2_control | Fld_c6_data | Fld_c15_ticonfig | Fld_c15_i_max | Fld_c15_i_min | Fld_c15_threadid
  | Fld_c15_cpar | Fld_c1_xscaleauxcr | Fld_c1_scr | Fld_c1_sedbg | Fld_c1_nseac | Fld_c12_vbar |
  Fld_c12_mvbar | Fld_c0_cpuid | Fld_c9_pmcr | Fld_c1_sys

datatype cp_readfn = Pmreg_read | Ccsidr_read | Teehbr_read | Pmsav5_data_ap_read |
  Pmsav5_insn_ap_read | Arm946_prbs_read | Arm_cp_read_zero | Mpidr_read | Par64_read | Ttbr064_read
  | Ttbr164_read

datatype cp_writefn = Dacr_write | Fcse_write | Contextidr_write | Tlbiall_write | Tlbimva_write |
  Tlbiasid_write | Tlbimvaa_write | Cpacr_write | Pmcntenset_write | Pmcntenclr_write | Pmovsr_write
  | Pmxevtyper_write | Pmuserenr_write | Pmintenset_write | Pmintenclr_write | Csselr_write |
  Teecr_write | Teehbr_write | Par_write | Ats_write | Pmsav5_data_ap_write | Pmsav5_insn_ap_write |
  Arm946_prbs_write | Vmsa_ttbcr_write | Omap_ticonfig_write | Omap_threadid_write | Omap_wfi_write
  | Omap_cachemaint_write | Xscale_cpar_write | Par64_write | Ttbr064_write | Ttbr164_write |
  Vbar_write | Arm_cp_write_ignore | Pmcr_write | Sctlr_write

datatype cp_resetfn = Vmsa_ttbcr_reset | Par64_reset | Ttbr064_reset | Ttbr164_reset

text \<open>Reading and writing a field through its offset.\<close>

fun cpreg_get :: "cp_field \<Rightarrow> cpu \<Rightarrow> u32" where
  "cpreg_get Fld_c3 env = cp15_c3 (cp15 env)"
| "cpreg_get Fld_c13_fcse env = cp15_c13_fcse (cp15 env)"
| "cpreg_get Fld_c9_data env = cp15_c9_data (cp15 env)"
| "cpreg_get Fld_c9_insn env = cp15_c9_insn (cp15 env)"
| "cpreg_get Fld_c6_insn env = cp15_c6_insn (cp15 env)"
| "cpreg_get Fld_c1_coproc env = cp15_c1_coproc (cp15 env)"
| "cpreg_get Fld_c9_pmcnten env = cp15_c9_pmcnten (cp15 env)"
| "cpreg_get Fld_c9_pmovsr env = cp15_c9_pmovsr (cp15 env)"
| "cpreg_get Fld_c9_pmxevtyper env = cp15_c9_pmxevtyper (cp15 env)"
| "cpreg_get Fld_c9_pmuserenr env = cp15_c9_pmuserenr (cp15 env)"
| "cpreg_get Fld_c9_pminten env = cp15_c9_pminten (cp15 env)"
| "cpreg_get Fld_c0_cssel env = cp15_c0_cssel (cp15 env)"
| "cpreg_get Fld_teecr env = teecr env"
| "cpreg_get Fld_teehbr env = teehbr env"
| "cpreg_get Fld_c13_tls1 env = cp15_c13_tls1 (cp15 env)"
| "cpreg_get Fld_c13_tls2 env = cp15_c13_tls2 (cp15 env)"
| "cpreg_get Fld_c13_tls3 env = cp15_c13_tls3 (cp15 env)"
| "cpreg_get Fld_c7_par env = cp15_c7_par (cp15 env)"
| "cpreg_get Fld_c5_data env = cp15_c5_data (cp15 env)"
| "cpreg_get Fld_c5_insn env = cp15_c5_insn (cp15 env)"
| "cpreg_get Fld_c2_data env = cp15_c2_data (cp15 env)"
| "cpreg_get Fld_c2_insn env = cp15_c2_insn (cp15 env)"
| "cpreg_get Fld_c2_base0 env = cp15_c2_base0 (cp15 env)"
| "cpreg_get Fld_c2_base1 env = cp15_c2_base1 (cp15 env)"
| "cpreg_get Fld_c2_control env = cp15_c2_control (cp15 env)"
| "cpreg_get Fld_c6_data env = cp15_c6_data (cp15 env)"
| "cpreg_get Fld_c15_ticonfig env = cp15_c15_ticonfig (cp15 env)"
| "cpreg_get Fld_c15_i_max env = cp15_c15_i_max (cp15 env)"
| "cpreg_get Fld_c15_i_min env = cp15_c15_i_min (cp15 env)"
| "cpreg_get Fld_c15_threadid env = cp15_c15_threadid (cp15 env)"
| "cpreg_get Fld_c15_cpar env = cp15_c15_cpar (cp15 env)"
| "cpreg_get Fld_c1_xscaleauxcr env = cp15_c1_xscaleauxcr (cp15 env)"
| "cpreg_get Fld_c1_scr env = cp15_c1_scr (cp15 env)"
| "cpreg_get Fld_c1_sedbg env = cp15_c1_sedbg (cp15 env)"
| "cpreg_get Fld_c1_nseac env = cp15_c1_nseac (cp15 env)"
| "cpreg_get Fld_c12_vbar env = cp15_c12_vbar (cp15 env)"
| "cpreg_get Fld_c12_mvbar env = cp15_c12_mvbar (cp15 env)"
| "cpreg_get Fld_c0_cpuid env = cp15_c0_cpuid (cp15 env)"
| "cpreg_get Fld_c9_pmcr env = cp15_c9_pmcr (cp15 env)"
| "cpreg_get Fld_c1_sys env = cp15_c1_sys (cp15 env)"

fun cpreg_set :: "cp_field \<Rightarrow> u32 \<Rightarrow> cpu \<Rightarrow> cpu" where
  "cpreg_set Fld_c3 v env = env\<lparr>cp15 := (cp15 env)\<lparr>cp15_c3 := v\<rparr>\<rparr>"
| "cpreg_set Fld_c13_fcse v env = env\<lparr>cp15 := (cp15 env)\<lparr>cp15_c13_fcse := v\<rparr>\<rparr>"
| "cpreg_set Fld_c9_data v env = env\<lparr>cp15 := (cp15 env)\<lparr>cp15_c9_data := v\<rparr>\<rparr>"
| "cpreg_set Fld_c9_insn v env = env\<lparr>cp15 := (cp15 env)\<lparr>cp15_c9_insn := v\<rparr>\<rparr>"
| "cpreg_set Fld_c6_insn v env = env\<lparr>cp15 := (cp15 env)\<lparr>cp15_c6_insn := v\<rparr>\<rparr>"
| "cpreg_set Fld_c1_coproc v env = env\<lparr>cp15 := (cp15 env)\<lparr>cp15_c1_coproc := v\<rparr>\<rparr>"
| "cpreg_set Fld_c9_pmcnten v env = env\<lparr>cp15 := (cp15 env)\<lparr>cp15_c9_pmcnten := v\<rparr>\<rparr>"
| "cpreg_set Fld_c9_pmovsr v env = env\<lparr>cp15 := (cp15 env)\<lparr>cp15_c9_pmovsr := v\<rparr>\<rparr>"
| "cpreg_set Fld_c9_pmxevtyper v env = env\<lparr>cp15 := (cp15 env)\<lparr>cp15_c9_pmxevtyper := v\<rparr>\<rparr>"
| "cpreg_set Fld_c9_pmuserenr v env = env\<lparr>cp15 := (cp15 env)\<lparr>cp15_c9_pmuserenr := v\<rparr>\<rparr>"
| "cpreg_set Fld_c9_pminten v env = env\<lparr>cp15 := (cp15 env)\<lparr>cp15_c9_pminten := v\<rparr>\<rparr>"
| "cpreg_set Fld_c0_cssel v env = env\<lparr>cp15 := (cp15 env)\<lparr>cp15_c0_cssel := v\<rparr>\<rparr>"
| "cpreg_set Fld_teecr v env = env\<lparr>teecr := v\<rparr>"
| "cpreg_set Fld_teehbr v env = env\<lparr>teehbr := v\<rparr>"
| "cpreg_set Fld_c13_tls1 v env = env\<lparr>cp15 := (cp15 env)\<lparr>cp15_c13_tls1 := v\<rparr>\<rparr>"
| "cpreg_set Fld_c13_tls2 v env = env\<lparr>cp15 := (cp15 env)\<lparr>cp15_c13_tls2 := v\<rparr>\<rparr>"
| "cpreg_set Fld_c13_tls3 v env = env\<lparr>cp15 := (cp15 env)\<lparr>cp15_c13_tls3 := v\<rparr>\<rparr>"
| "cpreg_set Fld_c7_par v env = env\<lparr>cp15 := (cp15 env)\<lparr>cp15_c7_par := v\<rparr>\<rparr>"
| "cpreg_set Fld_c5_data v env = env\<lparr>cp15 := (cp15 env)\<lparr>cp15_c5_data := v\<rparr>\<rparr>"
| "cpreg_set Fld_c5_insn v env = env\<lparr>cp15 := (cp15 env)\<lparr>cp15_c5_insn := v\<rparr>\<rparr>"
| "cpreg_set Fld_c2_data v env = env\<lparr>cp15 := (cp15 env)\<lparr>cp15_c2_data := v\<rparr>\<rparr>"
| "cpreg_set Fld_c2_insn v env = env\<lparr>cp15 := (cp15 env)\<lparr>cp15_c2_insn := v\<rparr>\<rparr>"
| "cpreg_set Fld_c2_base0 v env = env\<lparr>cp15 := (cp15 env)\<lparr>cp15_c2_base0 := v\<rparr>\<rparr>"
| "cpreg_set Fld_c2_base1 v env = env\<lparr>cp15 := (cp15 env)\<lparr>cp15_c2_base1 := v\<rparr>\<rparr>"
| "cpreg_set Fld_c2_control v env = env\<lparr>cp15 := (cp15 env)\<lparr>cp15_c2_control := v\<rparr>\<rparr>"
| "cpreg_set Fld_c6_data v env = env\<lparr>cp15 := (cp15 env)\<lparr>cp15_c6_data := v\<rparr>\<rparr>"
| "cpreg_set Fld_c15_ticonfig v env = env\<lparr>cp15 := (cp15 env)\<lparr>cp15_c15_ticonfig := v\<rparr>\<rparr>"
| "cpreg_set Fld_c15_i_max v env = env\<lparr>cp15 := (cp15 env)\<lparr>cp15_c15_i_max := v\<rparr>\<rparr>"
| "cpreg_set Fld_c15_i_min v env = env\<lparr>cp15 := (cp15 env)\<lparr>cp15_c15_i_min := v\<rparr>\<rparr>"
| "cpreg_set Fld_c15_threadid v env = env\<lparr>cp15 := (cp15 env)\<lparr>cp15_c15_threadid := v\<rparr>\<rparr>"
| "cpreg_set Fld_c15_cpar v env = env\<lparr>cp15 := (cp15 env)\<lparr>cp15_c15_cpar := v\<rparr>\<rparr>"
| "cpreg_set Fld_c1_xscaleauxcr v env = env\<lparr>cp15 := (cp15 env)\<lparr>cp15_c1_xscaleauxcr := v\<rparr>\<rparr>"
| "cpreg_set Fld_c1_scr v env = env\<lparr>cp15 := (cp15 env)\<lparr>cp15_c1_scr := v\<rparr>\<rparr>"
| "cpreg_set Fld_c1_sedbg v env = env\<lparr>cp15 := (cp15 env)\<lparr>cp15_c1_sedbg := v\<rparr>\<rparr>"
| "cpreg_set Fld_c1_nseac v env = env\<lparr>cp15 := (cp15 env)\<lparr>cp15_c1_nseac := v\<rparr>\<rparr>"
| "cpreg_set Fld_c12_vbar v env = env\<lparr>cp15 := (cp15 env)\<lparr>cp15_c12_vbar := v\<rparr>\<rparr>"
| "cpreg_set Fld_c12_mvbar v env = env\<lparr>cp15 := (cp15 env)\<lparr>cp15_c12_mvbar := v\<rparr>\<rparr>"
| "cpreg_set Fld_c0_cpuid v env = env\<lparr>cp15 := (cp15 env)\<lparr>cp15_c0_cpuid := v\<rparr>\<rparr>"
| "cpreg_set Fld_c9_pmcr v env = env\<lparr>cp15 := (cp15 env)\<lparr>cp15_c9_pmcr := v\<rparr>\<rparr>"
| "cpreg_set Fld_c1_sys v env = env\<lparr>cp15 := (cp15 env)\<lparr>cp15_c1_sys := v\<rparr>\<rparr>"

record ARMCPRegInfo =
  ri_name :: string
  ri_cp :: nat
  ri_crn :: nat
  ri_crm :: nat
  ri_opc1 :: nat
  ri_opc2 :: nat
  ri_type :: u32
  ri_access :: u32
  ri_resetvalue :: u64
  ri_fieldoffset :: "cp_field option"
  ri_readfn :: "cp_readfn option"
  ri_writefn :: "cp_writefn option"
  ri_resetfn :: "cp_resetfn option"

text \<open>What an initialiser leaves out is zero.\<close>

definition reg0 :: ARMCPRegInfo where
  "reg0 = \<lparr>ri_name = [], ri_cp = 0, ri_crn = 0, ri_crm = 0, ri_opc1 = 0, ri_opc2 = 0, ri_type = 0, ri_access = 0,
     ri_resetvalue = 0, ri_fieldoffset = None, ri_readfn = None, ri_writefn = None, ri_resetfn = None\<rparr>"

text \<open>The identification values of the processor model, from its class.\<close>

record arm_cpu =
  midr :: u32
  ctr :: u32
  clidr :: u32
  ccsidr :: "u32 list"
  reset_sctlr :: u32
  reset_auxcr :: u32
  id_pfr0 :: u32
  id_pfr1 :: u32
  id_dfr0 :: u32
  id_afr0 :: u32
  id_mmfr0 :: u32
  id_mmfr1 :: u32
  id_mmfr2 :: u32
  id_mmfr3 :: u32
  id_isar0 :: u32
  id_isar1 :: u32
  id_isar2 :: u32
  id_isar3 :: u32
  id_isar4 :: u32
  id_isar5 :: u32
  cpu_index :: u32

section \<open>The tables\<close>

definition cp_reginfo :: "ARMCPRegInfo list" where
  "cp_reginfo = [
     reg0\<lparr>ri_name := ''DBGDIDR'', ri_cp := 14, ri_crn := 0, ri_crm := 0, ri_opc1 := 0, ri_opc2 := 0,
       ri_access := PL0_R, ri_type := ARM_CP_CONST, ri_resetvalue := 0\<rparr>,
     reg0\<lparr>ri_name := ''DACR'', ri_cp := 15, ri_crn := 3, ri_crm := CP_ANY, ri_opc1 := CP_ANY,
       ri_opc2 := CP_ANY, ri_access := PL1_RW, ri_fieldoffset := Some Fld_c3, ri_resetvalue := 0,
       ri_writefn := Some Dacr_write\<rparr>,
     reg0\<lparr>ri_name := ''FCSEIDR'', ri_cp := 15, ri_crn := 13, ri_crm := 0, ri_opc1 := 0, ri_opc2 := 0,
       ri_access := PL1_RW, ri_fieldoffset := Some Fld_c13_fcse, ri_resetvalue := 0,
       ri_writefn := Some Fcse_write\<rparr>,
     reg0\<lparr>ri_name := ''CONTEXTIDR'', ri_cp := 15, ri_crn := 13, ri_crm := 0, ri_opc1 := 0,
       ri_opc2 := 1, ri_access := PL1_RW, ri_fieldoffset := Some Fld_c13_fcse, ri_resetvalue := 0,
       ri_writefn := Some Contextidr_write\<rparr>,
     reg0\<lparr>ri_name := ''TLB_LOCKDOWN'', ri_cp := 15, ri_crn := 10, ri_crm := CP_ANY, ri_opc1 := CP_ANY,
       ri_opc2 := CP_ANY, ri_access := PL1_RW, ri_type := ARM_CP_NOP\<rparr>,
     reg0\<lparr>ri_name := ''TLBIALL'', ri_cp := 15, ri_crn := 8, ri_crm := CP_ANY, ri_opc1 := CP_ANY,
       ri_opc2 := 0, ri_access := PL1_W, ri_writefn := Some Tlbiall_write\<rparr>,
     reg0\<lparr>ri_name := ''TLBIMVA'', ri_cp := 15, ri_crn := 8, ri_crm := CP_ANY, ri_opc1 := CP_ANY,
       ri_opc2 := 1, ri_access := PL1_W, ri_writefn := Some Tlbimva_write\<rparr>,
     reg0\<lparr>ri_name := ''TLBIASID'', ri_cp := 15, ri_crn := 8, ri_crm := CP_ANY, ri_opc1 := CP_ANY,
       ri_opc2 := 2, ri_access := PL1_W, ri_writefn := Some Tlbiasid_write\<rparr>,
     reg0\<lparr>ri_name := ''TLBIMVAA'', ri_cp := 15, ri_crn := 8, ri_crm := CP_ANY, ri_opc1 := CP_ANY,
       ri_opc2 := 3, ri_access := PL1_W, ri_writefn := Some Tlbimvaa_write\<rparr>,
     reg0\<lparr>ri_name := ''CACHEMAINT'', ri_cp := 15, ri_crn := 7, ri_crm := CP_ANY, ri_opc1 := 0,
       ri_opc2 := CP_ANY, ri_access := PL1_W, ri_type := ARM_CP_NOP OR ARM_CP_OVERRIDE\<rparr>]"

definition not_v6_cp_reginfo :: "ARMCPRegInfo list" where
  "not_v6_cp_reginfo = [
     reg0\<lparr>ri_name := ''WFI_v5'', ri_cp := 15, ri_crn := 7, ri_crm := 8, ri_opc1 := 0, ri_opc2 := 2,
       ri_access := PL1_W, ri_type := ARM_CP_WFI\<rparr>]"

definition not_v7_cp_reginfo :: "ARMCPRegInfo list" where
  "not_v7_cp_reginfo = [
     reg0\<lparr>ri_name := ''WFI_v6'', ri_cp := 15, ri_crn := 7, ri_crm := 0, ri_opc1 := 0, ri_opc2 := 4,
       ri_access := PL1_W, ri_type := ARM_CP_WFI\<rparr>,
     reg0\<lparr>ri_name := ''DLOCKDOWN'', ri_cp := 15, ri_crn := 9, ri_crm := 0, ri_opc1 := 0, ri_opc2 := 0,
       ri_access := PL1_RW, ri_fieldoffset := Some Fld_c9_data, ri_resetvalue := 0\<rparr>,
     reg0\<lparr>ri_name := ''ILOCKDOWN'', ri_cp := 15, ri_crn := 9, ri_crm := 0, ri_opc1 := 0, ri_opc2 := 1,
       ri_access := PL1_RW, ri_fieldoffset := Some Fld_c9_insn, ri_resetvalue := 0\<rparr>,
     reg0\<lparr>ri_name := ''DUMMY'', ri_cp := 15, ri_crn := 0, ri_crm := 0, ri_opc1 := 1,
       ri_opc2 := CP_ANY, ri_access := PL1_R, ri_type := ARM_CP_CONST, ri_resetvalue := 0\<rparr>]"

definition v6_cp_reginfo :: "ARMCPRegInfo list" where
  "v6_cp_reginfo = [
     reg0\<lparr>ri_name := ''MVA_prefetch'', ri_cp := 15, ri_crn := 7, ri_crm := 13, ri_opc1 := 0,
       ri_opc2 := 1, ri_access := PL1_W, ri_type := ARM_CP_NOP\<rparr>,
     reg0\<lparr>ri_name := ''ISB'', ri_cp := 15, ri_crn := 7, ri_crm := 5, ri_opc1 := 0, ri_opc2 := 4,
       ri_access := PL0_W, ri_type := ARM_CP_NOP\<rparr>,
     reg0\<lparr>ri_name := ''DSB'', ri_cp := 15, ri_crn := 7, ri_crm := 10, ri_opc1 := 0, ri_opc2 := 4,
       ri_access := PL0_W, ri_type := ARM_CP_NOP\<rparr>,
     reg0\<lparr>ri_name := ''DMB'', ri_cp := 15, ri_crn := 7, ri_crm := 10, ri_opc1 := 0, ri_opc2 := 5,
       ri_access := PL0_W, ri_type := ARM_CP_NOP\<rparr>,
     reg0\<lparr>ri_name := ''IFAR'', ri_cp := 15, ri_crn := 6, ri_crm := 0, ri_opc1 := 0, ri_opc2 := 2,
       ri_access := PL1_RW, ri_fieldoffset := Some Fld_c6_insn, ri_resetvalue := 0\<rparr>,
     reg0\<lparr>ri_name := ''WFAR'', ri_cp := 15, ri_crn := 6, ri_crm := 0, ri_opc1 := 0, ri_opc2 := 1,
       ri_access := PL1_RW, ri_type := ARM_CP_CONST, ri_resetvalue := 0\<rparr>,
     reg0\<lparr>ri_name := ''CPACR'', ri_cp := 15, ri_crn := 1, ri_crm := 0, ri_opc1 := 0, ri_opc2 := 2,
       ri_access := PL1_RW, ri_fieldoffset := Some Fld_c1_coproc, ri_resetvalue := 0,
       ri_writefn := Some Cpacr_write\<rparr>]"

definition v7_cp_reginfo :: "ARMCPRegInfo list" where
  "v7_cp_reginfo = [
     reg0\<lparr>ri_name := ''DBGDRAR'', ri_cp := 14, ri_crn := 1, ri_crm := 0, ri_opc1 := 0, ri_opc2 := 0,
       ri_access := PL0_R, ri_type := ARM_CP_CONST, ri_resetvalue := 0\<rparr>,
     reg0\<lparr>ri_name := ''DBGDSAR'', ri_cp := 14, ri_crn := 2, ri_crm := 0, ri_opc1 := 0, ri_opc2 := 0,
       ri_access := PL0_R, ri_type := ARM_CP_CONST, ri_resetvalue := 0\<rparr>,
     reg0\<lparr>ri_name := ''NOP'', ri_cp := 15, ri_crn := 7, ri_crm := 0, ri_opc1 := 0, ri_opc2 := 4,
       ri_access := PL1_W, ri_type := ARM_CP_NOP\<rparr>,
     reg0\<lparr>ri_name := ''PMCNTENSET'', ri_cp := 15, ri_crn := 9, ri_crm := 12, ri_opc1 := 0,
       ri_opc2 := 1, ri_access := PL0_RW, ri_resetvalue := 0, ri_fieldoffset := Some Fld_c9_pmcnten,
       ri_readfn := Some Pmreg_read, ri_writefn := Some Pmcntenset_write\<rparr>,
     reg0\<lparr>ri_name := ''PMCNTENCLR'', ri_cp := 15, ri_crn := 9, ri_crm := 12, ri_opc1 := 0,
       ri_opc2 := 2, ri_access := PL0_RW, ri_fieldoffset := Some Fld_c9_pmcnten,
       ri_readfn := Some Pmreg_read, ri_writefn := Some Pmcntenclr_write\<rparr>,
     reg0\<lparr>ri_name := ''PMOVSR'', ri_cp := 15, ri_crn := 9, ri_crm := 12, ri_opc1 := 0, ri_opc2 := 3,
       ri_access := PL0_RW, ri_fieldoffset := Some Fld_c9_pmovsr, ri_readfn := Some Pmreg_read,
       ri_writefn := Some Pmovsr_write\<rparr>,
     reg0\<lparr>ri_name := ''PMSWINC'', ri_cp := 15, ri_crn := 9, ri_crm := 12, ri_opc1 := 0, ri_opc2 := 4,
       ri_access := PL0_W, ri_type := ARM_CP_NOP\<rparr>,
     reg0\<lparr>ri_name := ''PMSELR'', ri_cp := 15, ri_crn := 9, ri_crm := 12, ri_opc1 := 0, ri_opc2 := 5,
       ri_access := PL0_RW, ri_type := ARM_CP_CONST, ri_resetvalue := 0\<rparr>,
     reg0\<lparr>ri_name := ''PMCCNTR'', ri_cp := 15, ri_crn := 9, ri_crm := 13, ri_opc1 := 0, ri_opc2 := 0,
       ri_access := PL0_RW, ri_type := ARM_CP_CONST, ri_resetvalue := 0\<rparr>,
     reg0\<lparr>ri_name := ''PMXEVTYPER'', ri_cp := 15, ri_crn := 9, ri_crm := 13, ri_opc1 := 0,
       ri_opc2 := 1, ri_access := PL0_RW, ri_fieldoffset := Some Fld_c9_pmxevtyper,
       ri_readfn := Some Pmreg_read, ri_writefn := Some Pmxevtyper_write\<rparr>,
     reg0\<lparr>ri_name := ''PMXEVCNTR'', ri_cp := 15, ri_crn := 9, ri_crm := 13, ri_opc1 := 0,
       ri_opc2 := 2, ri_access := PL0_RW, ri_type := ARM_CP_CONST, ri_resetvalue := 0\<rparr>,
     reg0\<lparr>ri_name := ''PMUSERENR'', ri_cp := 15, ri_crn := 9, ri_crm := 14, ri_opc1 := 0,
       ri_opc2 := 0, ri_access := PL0_R OR PL1_RW, ri_fieldoffset := Some Fld_c9_pmuserenr,
       ri_resetvalue := 0, ri_writefn := Some Pmuserenr_write\<rparr>,
     reg0\<lparr>ri_name := ''PMINTENSET'', ri_cp := 15, ri_crn := 9, ri_crm := 14, ri_opc1 := 0,
       ri_opc2 := 1, ri_access := PL1_RW, ri_fieldoffset := Some Fld_c9_pminten, ri_resetvalue := 0,
       ri_writefn := Some Pmintenset_write\<rparr>,
     reg0\<lparr>ri_name := ''PMINTENCLR'', ri_cp := 15, ri_crn := 9, ri_crm := 14, ri_opc1 := 0,
       ri_opc2 := 2, ri_access := PL1_RW, ri_fieldoffset := Some Fld_c9_pminten, ri_resetvalue := 0,
       ri_writefn := Some Pmintenclr_write\<rparr>,
     reg0\<lparr>ri_name := ''CCSIDR'', ri_cp := 15, ri_crn := 0, ri_crm := 0, ri_opc1 := 1, ri_opc2 := 0,
       ri_access := PL1_R, ri_readfn := Some Ccsidr_read\<rparr>,
     reg0\<lparr>ri_name := ''CSSELR'', ri_cp := 15, ri_crn := 0, ri_crm := 0, ri_opc1 := 2, ri_opc2 := 0,
       ri_access := PL1_RW, ri_fieldoffset := Some Fld_c0_cssel, ri_writefn := Some Csselr_write,
       ri_resetvalue := 0\<rparr>,
     reg0\<lparr>ri_name := ''AIDR'', ri_cp := 15, ri_crn := 0, ri_crm := 0, ri_opc1 := 1, ri_opc2 := 7,
       ri_access := PL1_R, ri_type := ARM_CP_CONST, ri_resetvalue := 0\<rparr>]"

definition t2ee_cp_reginfo :: "ARMCPRegInfo list" where
  "t2ee_cp_reginfo = [
     reg0\<lparr>ri_name := ''TEECR'', ri_cp := 14, ri_crn := 0, ri_crm := 0, ri_opc1 := 6, ri_opc2 := 0,
       ri_access := PL1_RW, ri_fieldoffset := Some Fld_teecr, ri_resetvalue := 0,
       ri_writefn := Some Teecr_write\<rparr>,
     reg0\<lparr>ri_name := ''TEEHBR'', ri_cp := 14, ri_crn := 1, ri_crm := 0, ri_opc1 := 6, ri_opc2 := 0,
       ri_access := PL0_RW, ri_fieldoffset := Some Fld_teehbr, ri_resetvalue := 0,
       ri_readfn := Some Teehbr_read, ri_writefn := Some Teehbr_write\<rparr>]"

definition v6k_cp_reginfo :: "ARMCPRegInfo list" where
  "v6k_cp_reginfo = [
     reg0\<lparr>ri_name := ''TPIDRURW'', ri_cp := 15, ri_crn := 13, ri_crm := 0, ri_opc1 := 0, ri_opc2 := 2,
       ri_access := PL0_RW, ri_fieldoffset := Some Fld_c13_tls1, ri_resetvalue := 0\<rparr>,
     reg0\<lparr>ri_name := ''TPIDRURO'', ri_cp := 15, ri_crn := 13, ri_crm := 0, ri_opc1 := 0, ri_opc2 := 3,
       ri_access := PL0_R OR PL1_W, ri_fieldoffset := Some Fld_c13_tls2, ri_resetvalue := 0\<rparr>,
     reg0\<lparr>ri_name := ''TPIDRPRW'', ri_cp := 15, ri_crn := 13, ri_crm := 0, ri_opc1 := 0, ri_opc2 := 4,
       ri_access := PL1_RW, ri_fieldoffset := Some Fld_c13_tls3, ri_resetvalue := 0\<rparr>]"

definition generic_timer_cp_reginfo :: "ARMCPRegInfo list" where
  "generic_timer_cp_reginfo = [
     reg0\<lparr>ri_name := ''GENERIC_TIMER'', ri_cp := 15, ri_crn := 14, ri_crm := CP_ANY,
       ri_opc1 := CP_ANY, ri_opc2 := CP_ANY, ri_access := PL1_RW, ri_type := ARM_CP_CONST,
       ri_resetvalue := 0\<rparr>]"

definition vapa_cp_reginfo :: "ARMCPRegInfo list" where
  "vapa_cp_reginfo = [
     reg0\<lparr>ri_name := ''PAR'', ri_cp := 15, ri_crn := 7, ri_crm := 4, ri_opc1 := 0, ri_opc2 := 0,
       ri_access := PL1_RW, ri_resetvalue := 0, ri_fieldoffset := Some Fld_c7_par,
       ri_writefn := Some Par_write\<rparr>,
     reg0\<lparr>ri_name := ''ATS'', ri_cp := 15, ri_crn := 7, ri_crm := 8, ri_opc1 := 0, ri_opc2 := CP_ANY,
       ri_access := PL1_W, ri_writefn := Some Ats_write\<rparr>]"

definition pmsav5_cp_reginfo :: "ARMCPRegInfo list" where
  "pmsav5_cp_reginfo = [
     reg0\<lparr>ri_name := ''DATA_AP'', ri_cp := 15, ri_crn := 5, ri_crm := 0, ri_opc1 := 0, ri_opc2 := 0,
       ri_access := PL1_RW, ri_fieldoffset := Some Fld_c5_data, ri_resetvalue := 0,
       ri_readfn := Some Pmsav5_data_ap_read, ri_writefn := Some Pmsav5_data_ap_write\<rparr>,
     reg0\<lparr>ri_name := ''INSN_AP'', ri_cp := 15, ri_crn := 5, ri_crm := 0, ri_opc1 := 0, ri_opc2 := 1,
       ri_access := PL1_RW, ri_fieldoffset := Some Fld_c5_insn, ri_resetvalue := 0,
       ri_readfn := Some Pmsav5_insn_ap_read, ri_writefn := Some Pmsav5_insn_ap_write\<rparr>,
     reg0\<lparr>ri_name := ''DATA_EXT_AP'', ri_cp := 15, ri_crn := 5, ri_crm := 0, ri_opc1 := 0,
       ri_opc2 := 2, ri_access := PL1_RW, ri_fieldoffset := Some Fld_c5_data, ri_resetvalue := 0\<rparr>,
     reg0\<lparr>ri_name := ''INSN_EXT_AP'', ri_cp := 15, ri_crn := 5, ri_crm := 0, ri_opc1 := 0,
       ri_opc2 := 3, ri_access := PL1_RW, ri_fieldoffset := Some Fld_c5_insn, ri_resetvalue := 0\<rparr>,
     reg0\<lparr>ri_name := ''DCACHE_CFG'', ri_cp := 15, ri_crn := 2, ri_crm := 0, ri_opc1 := 0,
       ri_opc2 := 0, ri_access := PL1_RW, ri_fieldoffset := Some Fld_c2_data, ri_resetvalue := 0\<rparr>,
     reg0\<lparr>ri_name := ''ICACHE_CFG'', ri_cp := 15, ri_crn := 2, ri_crm := 0, ri_opc1 := 0,
       ri_opc2 := 1, ri_access := PL1_RW, ri_fieldoffset := Some Fld_c2_insn, ri_resetvalue := 0\<rparr>,
     reg0\<lparr>ri_name := ''946_PRBS'', ri_cp := 15, ri_crn := 6, ri_crm := CP_ANY, ri_opc1 := 0,
       ri_opc2 := CP_ANY, ri_access := PL1_RW, ri_readfn := Some Arm946_prbs_read,
       ri_writefn := Some Arm946_prbs_write\<rparr>]"

definition vmsa_cp_reginfo :: "ARMCPRegInfo list" where
  "vmsa_cp_reginfo = [
     reg0\<lparr>ri_name := ''DFSR'', ri_cp := 15, ri_crn := 5, ri_crm := 0, ri_opc1 := 0, ri_opc2 := 0,
       ri_access := PL1_RW, ri_fieldoffset := Some Fld_c5_data, ri_resetvalue := 0\<rparr>,
     reg0\<lparr>ri_name := ''IFSR'', ri_cp := 15, ri_crn := 5, ri_crm := 0, ri_opc1 := 0, ri_opc2 := 1,
       ri_access := PL1_RW, ri_fieldoffset := Some Fld_c5_insn, ri_resetvalue := 0\<rparr>,
     reg0\<lparr>ri_name := ''TTBR0'', ri_cp := 15, ri_crn := 2, ri_crm := 0, ri_opc1 := 0, ri_opc2 := 0,
       ri_access := PL1_RW, ri_fieldoffset := Some Fld_c2_base0, ri_resetvalue := 0\<rparr>,
     reg0\<lparr>ri_name := ''TTBR1'', ri_cp := 15, ri_crn := 2, ri_crm := 0, ri_opc1 := 0, ri_opc2 := 1,
       ri_access := PL1_RW, ri_fieldoffset := Some Fld_c2_base1, ri_resetvalue := 0\<rparr>,
     reg0\<lparr>ri_name := ''TTBCR'', ri_cp := 15, ri_crn := 2, ri_crm := 0, ri_opc1 := 0, ri_opc2 := 2,
       ri_access := PL1_RW, ri_writefn := Some Vmsa_ttbcr_write, ri_resetfn := Some Vmsa_ttbcr_reset,
       ri_fieldoffset := Some Fld_c2_control\<rparr>,
     reg0\<lparr>ri_name := ''DFAR'', ri_cp := 15, ri_crn := 6, ri_crm := 0, ri_opc1 := 0, ri_opc2 := 0,
       ri_access := PL1_RW, ri_fieldoffset := Some Fld_c6_data, ri_resetvalue := 0\<rparr>]"

definition omap_cp_reginfo :: "ARMCPRegInfo list" where
  "omap_cp_reginfo = [
     reg0\<lparr>ri_name := ''DFSR'', ri_cp := 15, ri_crn := 5, ri_crm := CP_ANY, ri_opc1 := CP_ANY,
       ri_opc2 := CP_ANY, ri_access := PL1_RW, ri_type := ARM_CP_OVERRIDE,
       ri_fieldoffset := Some Fld_c5_data, ri_resetvalue := 0\<rparr>,
     reg0\<lparr>ri_name := '''', ri_cp := 15, ri_crn := 15, ri_crm := 0, ri_opc1 := 0, ri_opc2 := 0,
       ri_access := PL1_RW, ri_type := ARM_CP_NOP\<rparr>,
     reg0\<lparr>ri_name := ''TICONFIG'', ri_cp := 15, ri_crn := 15, ri_crm := 1, ri_opc1 := 0, ri_opc2 := 0,
       ri_access := PL1_RW, ri_fieldoffset := Some Fld_c15_ticonfig, ri_resetvalue := 0,
       ri_writefn := Some Omap_ticonfig_write\<rparr>,
     reg0\<lparr>ri_name := ''IMAX'', ri_cp := 15, ri_crn := 15, ri_crm := 2, ri_opc1 := 0, ri_opc2 := 0,
       ri_access := PL1_RW, ri_fieldoffset := Some Fld_c15_i_max, ri_resetvalue := 0\<rparr>,
     reg0\<lparr>ri_name := ''IMIN'', ri_cp := 15, ri_crn := 15, ri_crm := 3, ri_opc1 := 0, ri_opc2 := 0,
       ri_access := PL1_RW, ri_resetvalue := 0xff0, ri_fieldoffset := Some Fld_c15_i_min\<rparr>,
     reg0\<lparr>ri_name := ''THREADID'', ri_cp := 15, ri_crn := 15, ri_crm := 4, ri_opc1 := 0, ri_opc2 := 0,
       ri_access := PL1_RW, ri_fieldoffset := Some Fld_c15_threadid, ri_resetvalue := 0,
       ri_writefn := Some Omap_threadid_write\<rparr>,
     reg0\<lparr>ri_name := ''TI925T_STATUS'', ri_cp := 15, ri_crn := 15, ri_crm := 8, ri_opc1 := 0,
       ri_opc2 := 0, ri_access := PL1_RW, ri_readfn := Some Arm_cp_read_zero,
       ri_writefn := Some Omap_wfi_write\<rparr>,
     reg0\<lparr>ri_name := ''OMAP_CACHEMAINT'', ri_cp := 15, ri_crn := 7, ri_crm := CP_ANY, ri_opc1 := 0,
       ri_opc2 := CP_ANY, ri_access := PL1_W, ri_type := ARM_CP_OVERRIDE,
       ri_writefn := Some Omap_cachemaint_write\<rparr>,
     reg0\<lparr>ri_name := ''C9'', ri_cp := 15, ri_crn := 9, ri_crm := CP_ANY, ri_opc1 := CP_ANY,
       ri_opc2 := CP_ANY, ri_access := PL1_RW, ri_type := ARM_CP_CONST OR ARM_CP_OVERRIDE,
       ri_resetvalue := 0\<rparr>]"

definition xscale_cp_reginfo :: "ARMCPRegInfo list" where
  "xscale_cp_reginfo = [
     reg0\<lparr>ri_name := ''XSCALE_CPAR'', ri_cp := 15, ri_crn := 15, ri_crm := 1, ri_opc1 := 0,
       ri_opc2 := 0, ri_access := PL1_RW, ri_fieldoffset := Some Fld_c15_cpar, ri_resetvalue := 0,
       ri_writefn := Some Xscale_cpar_write\<rparr>,
     reg0\<lparr>ri_name := ''XSCALE_AUXCR'', ri_cp := 15, ri_crn := 1, ri_crm := 0, ri_opc1 := 0,
       ri_opc2 := 1, ri_access := PL1_RW, ri_fieldoffset := Some Fld_c1_xscaleauxcr,
       ri_resetvalue := 0\<rparr>]"

definition dummy_c15_cp_reginfo :: "ARMCPRegInfo list" where
  "dummy_c15_cp_reginfo = [
     reg0\<lparr>ri_name := ''C15_IMPDEF'', ri_cp := 15, ri_crn := 15, ri_crm := CP_ANY, ri_opc1 := CP_ANY,
       ri_opc2 := CP_ANY, ri_access := PL1_RW, ri_type := ARM_CP_CONST, ri_resetvalue := 0\<rparr>]"

definition cache_dirty_status_cp_reginfo :: "ARMCPRegInfo list" where
  "cache_dirty_status_cp_reginfo = [
     reg0\<lparr>ri_name := ''CDSR'', ri_cp := 15, ri_crn := 7, ri_crm := 10, ri_opc1 := 0, ri_opc2 := 6,
       ri_access := PL1_R, ri_type := ARM_CP_CONST, ri_resetvalue := 0\<rparr>]"

definition cache_block_ops_cp_reginfo :: "ARMCPRegInfo list" where
  "cache_block_ops_cp_reginfo = [
     reg0\<lparr>ri_name := ''BXSR'', ri_cp := 15, ri_crn := 7, ri_crm := 12, ri_opc1 := 0, ri_opc2 := 4,
       ri_access := PL0_R, ri_type := ARM_CP_CONST, ri_resetvalue := 0\<rparr>,
     reg0\<lparr>ri_name := ''IICR'', ri_cp := 15, ri_crm := 5, ri_opc1 := 0, ri_access := PL1_W,
       ri_type := ARM_CP_NOP OR ARM_CP_64BIT\<rparr>,
     reg0\<lparr>ri_name := ''IDCR'', ri_cp := 15, ri_crm := 6, ri_opc1 := 0, ri_access := PL1_W,
       ri_type := ARM_CP_NOP OR ARM_CP_64BIT\<rparr>,
     reg0\<lparr>ri_name := ''CDCR'', ri_cp := 15, ri_crm := 12, ri_opc1 := 0, ri_access := PL0_W,
       ri_type := ARM_CP_NOP OR ARM_CP_64BIT\<rparr>,
     reg0\<lparr>ri_name := ''PIR'', ri_cp := 15, ri_crm := 12, ri_opc1 := 1, ri_access := PL0_W,
       ri_type := ARM_CP_NOP OR ARM_CP_64BIT\<rparr>,
     reg0\<lparr>ri_name := ''PDR'', ri_cp := 15, ri_crm := 12, ri_opc1 := 2, ri_access := PL0_W,
       ri_type := ARM_CP_NOP OR ARM_CP_64BIT\<rparr>,
     reg0\<lparr>ri_name := ''CIDCR'', ri_cp := 15, ri_crm := 14, ri_opc1 := 0, ri_access := PL1_W,
       ri_type := ARM_CP_NOP OR ARM_CP_64BIT\<rparr>]"

definition cache_test_clean_cp_reginfo :: "ARMCPRegInfo list" where
  "cache_test_clean_cp_reginfo = [
     reg0\<lparr>ri_name := ''TC_DCACHE'', ri_cp := 15, ri_crn := 7, ri_crm := 10, ri_opc1 := 0,
       ri_opc2 := 3, ri_access := PL0_R, ri_type := ARM_CP_CONST, ri_resetvalue := push_bit 30 1\<rparr>,
     reg0\<lparr>ri_name := ''TCI_DCACHE'', ri_cp := 15, ri_crn := 7, ri_crm := 14, ri_opc1 := 0,
       ri_opc2 := 3, ri_access := PL0_R, ri_type := ARM_CP_CONST, ri_resetvalue := push_bit 30 1\<rparr>]"

definition strongarm_cp_reginfo :: "ARMCPRegInfo list" where
  "strongarm_cp_reginfo = [
     reg0\<lparr>ri_name := ''C9_READBUFFER'', ri_cp := 15, ri_crn := 9, ri_crm := CP_ANY, ri_opc1 := CP_ANY,
       ri_opc2 := CP_ANY, ri_access := PL1_RW, ri_type := ARM_CP_CONST OR ARM_CP_OVERRIDE,
       ri_resetvalue := 0\<rparr>]"

definition mpidr_cp_reginfo :: "ARMCPRegInfo list" where
  "mpidr_cp_reginfo = [
     reg0\<lparr>ri_name := ''MPIDR'', ri_cp := 15, ri_crn := 0, ri_crm := 0, ri_opc1 := 0, ri_opc2 := 5,
       ri_access := PL1_R, ri_readfn := Some Mpidr_read\<rparr>]"

definition lpae_cp_reginfo :: "ARMCPRegInfo list" where
  "lpae_cp_reginfo = [
     reg0\<lparr>ri_name := ''AMAIR0'', ri_cp := 15, ri_crn := 10, ri_crm := 3, ri_opc1 := 0, ri_opc2 := 0,
       ri_access := PL1_RW, ri_type := ARM_CP_CONST OR ARM_CP_OVERRIDE, ri_resetvalue := 0\<rparr>,
     reg0\<lparr>ri_name := ''AMAIR1'', ri_cp := 15, ri_crn := 10, ri_crm := 3, ri_opc1 := 0, ri_opc2 := 1,
       ri_access := PL1_RW, ri_type := ARM_CP_CONST OR ARM_CP_OVERRIDE, ri_resetvalue := 0\<rparr>,
     reg0\<lparr>ri_name := ''DBGDRAR'', ri_cp := 14, ri_crm := 1, ri_opc1 := 0, ri_access := PL0_R,
       ri_type := ARM_CP_CONST OR ARM_CP_64BIT, ri_resetvalue := 0\<rparr>,
     reg0\<lparr>ri_name := ''DBGDSAR'', ri_cp := 14, ri_crm := 2, ri_opc1 := 0, ri_access := PL0_R,
       ri_type := ARM_CP_CONST OR ARM_CP_64BIT, ri_resetvalue := 0\<rparr>,
     reg0\<lparr>ri_name := ''PAR'', ri_cp := 15, ri_crm := 7, ri_opc1 := 0, ri_access := PL1_RW,
       ri_type := ARM_CP_64BIT, ri_readfn := Some Par64_read, ri_writefn := Some Par64_write,
       ri_resetfn := Some Par64_reset\<rparr>,
     reg0\<lparr>ri_name := ''TTBR0'', ri_cp := 15, ri_crm := 2, ri_opc1 := 0, ri_access := PL1_RW,
       ri_type := ARM_CP_64BIT, ri_readfn := Some Ttbr064_read, ri_writefn := Some Ttbr064_write,
       ri_resetfn := Some Ttbr064_reset\<rparr>,
     reg0\<lparr>ri_name := ''TTBR1'', ri_cp := 15, ri_crm := 2, ri_opc1 := 1, ri_access := PL1_RW,
       ri_type := ARM_CP_64BIT, ri_readfn := Some Ttbr164_read, ri_writefn := Some Ttbr164_write,
       ri_resetfn := Some Ttbr164_reset\<rparr>]"

definition trustzone_cp_reginfo :: "ARMCPRegInfo list" where
  "trustzone_cp_reginfo = [
     reg0\<lparr>ri_name := ''SCR'', ri_cp := 15, ri_crn := 1, ri_crm := 1, ri_opc1 := 0, ri_opc2 := 0,
       ri_access := PL1_RW, ri_fieldoffset := Some Fld_c1_scr, ri_resetvalue := 0\<rparr>,
     reg0\<lparr>ri_name := ''SDER'', ri_cp := 15, ri_crn := 1, ri_crm := 1, ri_opc1 := 0, ri_opc2 := 1,
       ri_access := PL1_RW, ri_fieldoffset := Some Fld_c1_sedbg, ri_resetvalue := 0\<rparr>,
     reg0\<lparr>ri_name := ''NSACR'', ri_cp := 15, ri_crn := 1, ri_crm := 1, ri_opc1 := 0, ri_opc2 := 2,
       ri_access := PL1_RW, ri_fieldoffset := Some Fld_c1_nseac, ri_resetvalue := 0\<rparr>,
     reg0\<lparr>ri_name := ''VBAR'', ri_cp := 15, ri_crn := 12, ri_crm := 0, ri_opc1 := 0, ri_opc2 := 0,
       ri_access := PL1_RW, ri_fieldoffset := Some Fld_c12_vbar, ri_writefn := Some Vbar_write,
       ri_resetvalue := 0\<rparr>,
     reg0\<lparr>ri_name := ''MVBAR'', ri_cp := 15, ri_crn := 12, ri_crm := 0, ri_opc1 := 0, ri_opc2 := 1,
       ri_access := PL1_RW, ri_fieldoffset := Some Fld_c12_mvbar, ri_writefn := Some Vbar_write,
       ri_resetvalue := 0\<rparr>]"

definition v6_idregs :: "arm_cpu \<Rightarrow> ARMCPRegInfo list" where
  "v6_idregs cpu = [
     reg0\<lparr>ri_name := ''ID_PFR0'', ri_cp := 15, ri_crn := 0, ri_crm := 1, ri_opc1 := 0, ri_opc2 := 0,
       ri_access := PL1_R, ri_type := ARM_CP_CONST, ri_resetvalue := ucast (id_pfr0 cpu)\<rparr>,
     reg0\<lparr>ri_name := ''ID_PFR1'', ri_cp := 15, ri_crn := 0, ri_crm := 1, ri_opc1 := 0, ri_opc2 := 1,
       ri_access := PL1_R, ri_type := ARM_CP_CONST, ri_resetvalue := ucast (id_pfr1 cpu)\<rparr>,
     reg0\<lparr>ri_name := ''ID_DFR0'', ri_cp := 15, ri_crn := 0, ri_crm := 1, ri_opc1 := 0, ri_opc2 := 2,
       ri_access := PL1_R, ri_type := ARM_CP_CONST, ri_resetvalue := ucast (id_dfr0 cpu)\<rparr>,
     reg0\<lparr>ri_name := ''ID_AFR0'', ri_cp := 15, ri_crn := 0, ri_crm := 1, ri_opc1 := 0, ri_opc2 := 3,
       ri_access := PL1_R, ri_type := ARM_CP_CONST, ri_resetvalue := ucast (id_afr0 cpu)\<rparr>,
     reg0\<lparr>ri_name := ''ID_MMFR0'', ri_cp := 15, ri_crn := 0, ri_crm := 1, ri_opc1 := 0, ri_opc2 := 4,
       ri_access := PL1_R, ri_type := ARM_CP_CONST, ri_resetvalue := ucast (id_mmfr0 cpu)\<rparr>,
     reg0\<lparr>ri_name := ''ID_MMFR1'', ri_cp := 15, ri_crn := 0, ri_crm := 1, ri_opc1 := 0, ri_opc2 := 5,
       ri_access := PL1_R, ri_type := ARM_CP_CONST, ri_resetvalue := ucast (id_mmfr1 cpu)\<rparr>,
     reg0\<lparr>ri_name := ''ID_MMFR2'', ri_cp := 15, ri_crn := 0, ri_crm := 1, ri_opc1 := 0, ri_opc2 := 6,
       ri_access := PL1_R, ri_type := ARM_CP_CONST, ri_resetvalue := ucast (id_mmfr2 cpu)\<rparr>,
     reg0\<lparr>ri_name := ''ID_MMFR3'', ri_cp := 15, ri_crn := 0, ri_crm := 1, ri_opc1 := 0, ri_opc2 := 7,
       ri_access := PL1_R, ri_type := ARM_CP_CONST, ri_resetvalue := ucast (id_mmfr3 cpu)\<rparr>,
     reg0\<lparr>ri_name := ''ID_ISAR0'', ri_cp := 15, ri_crn := 0, ri_crm := 2, ri_opc1 := 0, ri_opc2 := 0,
       ri_access := PL1_R, ri_type := ARM_CP_CONST, ri_resetvalue := ucast (id_isar0 cpu)\<rparr>,
     reg0\<lparr>ri_name := ''ID_ISAR1'', ri_cp := 15, ri_crn := 0, ri_crm := 2, ri_opc1 := 0, ri_opc2 := 1,
       ri_access := PL1_R, ri_type := ARM_CP_CONST, ri_resetvalue := ucast (id_isar1 cpu)\<rparr>,
     reg0\<lparr>ri_name := ''ID_ISAR2'', ri_cp := 15, ri_crn := 0, ri_crm := 2, ri_opc1 := 0, ri_opc2 := 2,
       ri_access := PL1_R, ri_type := ARM_CP_CONST, ri_resetvalue := ucast (id_isar2 cpu)\<rparr>,
     reg0\<lparr>ri_name := ''ID_ISAR3'', ri_cp := 15, ri_crn := 0, ri_crm := 2, ri_opc1 := 0, ri_opc2 := 3,
       ri_access := PL1_R, ri_type := ARM_CP_CONST, ri_resetvalue := ucast (id_isar3 cpu)\<rparr>,
     reg0\<lparr>ri_name := ''ID_ISAR4'', ri_cp := 15, ri_crn := 0, ri_crm := 2, ri_opc1 := 0, ri_opc2 := 4,
       ri_access := PL1_R, ri_type := ARM_CP_CONST, ri_resetvalue := ucast (id_isar4 cpu)\<rparr>,
     reg0\<lparr>ri_name := ''ID_ISAR5'', ri_cp := 15, ri_crn := 0, ri_crm := 2, ri_opc1 := 0, ri_opc2 := 5,
       ri_access := PL1_R, ri_type := ARM_CP_CONST, ri_resetvalue := ucast (id_isar5 cpu)\<rparr>,
     reg0\<lparr>ri_name := ''ID_ISAR6'', ri_cp := 15, ri_crn := 0, ri_crm := 2, ri_opc1 := 0, ri_opc2 := 6,
       ri_access := PL1_R, ri_type := ARM_CP_CONST, ri_resetvalue := 0\<rparr>,
     reg0\<lparr>ri_name := ''ID_ISAR7'', ri_cp := 15, ri_crn := 0, ri_crm := 2, ri_opc1 := 0, ri_opc2 := 7,
       ri_access := PL1_R, ri_type := ARM_CP_CONST, ri_resetvalue := 0\<rparr>]"

definition id_cp_reginfo :: "arm_cpu \<Rightarrow> ARMCPRegInfo list" where
  "id_cp_reginfo cpu = [
     reg0\<lparr>ri_name := ''MIDR'', ri_cp := 15, ri_crn := 0, ri_crm := 0, ri_opc1 := 0, ri_opc2 := 0,
       ri_access := PL1_R, ri_resetvalue := ucast (midr cpu), ri_writefn := Some Arm_cp_write_ignore,
       ri_fieldoffset := Some Fld_c0_cpuid\<rparr>,
     reg0\<lparr>ri_name := ''CTR'', ri_cp := 15, ri_crn := 0, ri_crm := 0, ri_opc1 := 0, ri_opc2 := 1,
       ri_access := PL1_R, ri_type := ARM_CP_CONST, ri_resetvalue := ucast (ctr cpu)\<rparr>,
     reg0\<lparr>ri_name := ''TCMTR'', ri_cp := 15, ri_crn := 0, ri_crm := 0, ri_opc1 := 0, ri_opc2 := 2,
       ri_access := PL1_R, ri_type := ARM_CP_CONST, ri_resetvalue := 0\<rparr>,
     reg0\<lparr>ri_name := ''TLBTR'', ri_cp := 15, ri_crn := 0, ri_crm := 0, ri_opc1 := 0, ri_opc2 := 3,
       ri_access := PL1_R, ri_type := ARM_CP_CONST, ri_resetvalue := 0\<rparr>,
     reg0\<lparr>ri_name := ''DUMMY'', ri_cp := 15, ri_crn := 0, ri_crm := 3, ri_opc1 := 0,
       ri_opc2 := CP_ANY, ri_access := PL1_R, ri_type := ARM_CP_CONST, ri_resetvalue := 0\<rparr>,
     reg0\<lparr>ri_name := ''DUMMY'', ri_cp := 15, ri_crn := 0, ri_crm := 4, ri_opc1 := 0,
       ri_opc2 := CP_ANY, ri_access := PL1_R, ri_type := ARM_CP_CONST, ri_resetvalue := 0\<rparr>,
     reg0\<lparr>ri_name := ''DUMMY'', ri_cp := 15, ri_crn := 0, ri_crm := 5, ri_opc1 := 0,
       ri_opc2 := CP_ANY, ri_access := PL1_R, ri_type := ARM_CP_CONST, ri_resetvalue := 0\<rparr>,
     reg0\<lparr>ri_name := ''DUMMY'', ri_cp := 15, ri_crn := 0, ri_crm := 6, ri_opc1 := 0,
       ri_opc2 := CP_ANY, ri_access := PL1_R, ri_type := ARM_CP_CONST, ri_resetvalue := 0\<rparr>,
     reg0\<lparr>ri_name := ''DUMMY'', ri_cp := 15, ri_crn := 0, ri_crm := 7, ri_opc1 := 0,
       ri_opc2 := CP_ANY, ri_access := PL1_R, ri_type := ARM_CP_CONST, ri_resetvalue := 0\<rparr>]"

definition pmcr_reginfo :: "arm_cpu \<Rightarrow> ARMCPRegInfo" where
  "pmcr_reginfo cpu =
     reg0\<lparr>ri_name := ''PMCR'', ri_cp := 15, ri_crn := 9, ri_crm := 12, ri_opc1 := 0, ri_opc2 := 0,
       ri_access := PL0_RW, ri_resetvalue := ucast (midr cpu AND 0xff000000),
       ri_fieldoffset := Some Fld_c9_pmcr, ri_readfn := Some Pmreg_read, ri_writefn := Some Pmcr_write\<rparr>"

definition clidr_reginfo :: "arm_cpu \<Rightarrow> ARMCPRegInfo" where
  "clidr_reginfo cpu =
     reg0\<lparr>ri_name := ''CLIDR'', ri_cp := 15, ri_crn := 0, ri_crm := 0, ri_opc1 := 1, ri_opc2 := 1,
       ri_access := PL1_R, ri_type := ARM_CP_CONST, ri_resetvalue := ucast (clidr cpu)\<rparr>"

definition crn0_wi_reginfo :: "ARMCPRegInfo" where
  "crn0_wi_reginfo =
     reg0\<lparr>ri_name := ''CRN0_WI'', ri_cp := 15, ri_crn := 0, ri_crm := CP_ANY, ri_opc1 := CP_ANY,
       ri_opc2 := CP_ANY, ri_access := PL1_W, ri_type := ARM_CP_NOP OR ARM_CP_OVERRIDE\<rparr>"

definition auxcr_reginfo :: "arm_cpu \<Rightarrow> ARMCPRegInfo" where
  "auxcr_reginfo cpu =
     reg0\<lparr>ri_name := ''AUXCR'', ri_cp := 15, ri_crn := 1, ri_crm := 0, ri_opc1 := 0, ri_opc2 := 1,
       ri_access := PL1_RW, ri_type := ARM_CP_CONST, ri_resetvalue := ucast (reset_auxcr cpu)\<rparr>"

definition sctlr_reginfo :: "arm_cpu \<Rightarrow> ARMCPRegInfo" where
  "sctlr_reginfo cpu =
     reg0\<lparr>ri_name := ''SCTLR'', ri_cp := 15, ri_crn := 1, ri_crm := 0, ri_opc1 := 0, ri_opc2 := 0,
       ri_access := PL1_RW, ri_fieldoffset := Some Fld_c1_sys, ri_writefn := Some Sctlr_write,
       ri_resetvalue := ucast (reset_sctlr cpu)\<rparr>"

lemmas cp_table_defs = cp_reginfo_def
  not_v6_cp_reginfo_def
  not_v7_cp_reginfo_def
  v6_cp_reginfo_def
  v7_cp_reginfo_def
  t2ee_cp_reginfo_def
  v6k_cp_reginfo_def
  generic_timer_cp_reginfo_def
  vapa_cp_reginfo_def
  pmsav5_cp_reginfo_def
  vmsa_cp_reginfo_def
  omap_cp_reginfo_def
  xscale_cp_reginfo_def
  dummy_c15_cp_reginfo_def
  cache_dirty_status_cp_reginfo_def
  cache_block_ops_cp_reginfo_def
  cache_test_clean_cp_reginfo_def
  strongarm_cp_reginfo_def
  mpidr_cp_reginfo_def
  lpae_cp_reginfo_def
  trustzone_cp_reginfo_def
  v6_idregs_def
  id_cp_reginfo_def
  pmcr_reginfo_def
  clidr_reginfo_def
  crn0_wi_reginfo_def
  auxcr_reginfo_def
  sctlr_reginfo_def

section \<open>Registration\<close>

type_synonym cp_regs = "u32 \<rightharpoonup> ARMCPRegInfo"

text \<open>The values a field of a definition stands for.\<close>

definition cp_range :: "nat \<Rightarrow> nat \<Rightarrow> nat list" where
  "cp_range field mx = (if field = CP_ANY then [0..<Suc mx] else [field])"

definition ri_is64 :: "ARMCPRegInfo \<Rightarrow> nat" where
  "ri_is64 r = (if ri_type r AND ARM_CP_64BIT \<noteq> 0 then 1 else 0)"

definition ri_key :: "ARMCPRegInfo \<Rightarrow> u32" where
  "ri_key r = ENCODE_CP_REG (ri_cp r) (ri_is64 r) (ri_crn r) (ri_crm r) (ri_opc1 r) (ri_opc2 r)"

definition define_key :: "ARMCPRegInfo \<Rightarrow> nat \<times> nat \<times> nat \<Rightarrow> cp_regs \<Rightarrow> cp_regs result" where
  "define_key r = (\<lambda>(crm, opc1, opc2) m.
     let r2 = r\<lparr>ri_crm := crm, ri_opc1 := opc1, ri_opc2 := opc2\<rparr>;
         key = ri_key r2
     in cbind (if ri_type r AND ARM_CP_OVERRIDE = 0
               then c_assert (case m key of None \<Rightarrow> True | Some oldreg \<Rightarrow> ri_type oldreg AND ARM_CP_OVERRIDE \<noteq> 0)
               else Inr ()) (\<lambda>_.
        Inr (m(key \<mapsto> r2))))"

definition ri_keys :: "ARMCPRegInfo \<Rightarrow> (nat \<times> nat \<times> nat) list" where
  "ri_keys r = List.product (cp_range (ri_crm r) 15) (List.product (cp_range (ri_opc1 r) 7) (cp_range (ri_opc2 r) 7))"

definition ri_valid :: "ARMCPRegInfo \<Rightarrow> bool" where
  "ri_valid r \<longleftrightarrow> \<not> (ri_type r AND ARM_CP_64BIT \<noteq> 0 \<and> (ri_opc2 r \<noteq> 0 \<or> ri_crn r \<noteq> 0))
     \<and> (ri_type r AND (ARM_CP_SPECIAL OR ARM_CP_CONST) = 0 \<longrightarrow>
          (ri_access r AND PL3_R \<noteq> 0 \<longrightarrow> ri_fieldoffset r \<noteq> None \<or> ri_readfn r \<noteq> None)
        \<and> (ri_access r AND PL3_W \<noteq> 0 \<longrightarrow> ri_fieldoffset r \<noteq> None \<or> ri_writefn r \<noteq> None))
     \<and> cptype_valid (ri_type r)"

definition define_one_arm_cp_reg :: "ARMCPRegInfo \<Rightarrow> cp_regs \<Rightarrow> cp_regs result" where
  "define_one_arm_cp_reg r m =
     cbind (c_assert (ri_valid r)) (\<lambda>_. cfold (define_key r) (ri_keys r) m)"

definition define_arm_cp_regs :: "ARMCPRegInfo list \<Rightarrow> cp_regs \<Rightarrow> cp_regs result" where
  "define_arm_cp_regs = cfold define_one_arm_cp_reg"

definition define_if :: "bool \<Rightarrow> ARMCPRegInfo list \<Rightarrow> cp_regs \<Rightarrow> cp_regs result" where
  "define_if b rs m = (if b then define_arm_cp_regs rs m else Inr m)"

definition define_id_regs :: "arm_cpu \<Rightarrow> cpu \<Rightarrow> cp_regs \<Rightarrow> cp_regs result" where
  "define_id_regs cpu env m =
     (if arm_feature env ARM_FEATURE_OMAPCP \<or> arm_feature env ARM_FEATURE_STRONGARM
      then cbind (define_one_arm_cp_reg crn0_wi_reginfo m)
             (define_arm_cp_regs (map (\<lambda>r. r\<lparr>ri_access := PL1_RW\<rparr>) (id_cp_reginfo cpu)))
      else define_arm_cp_regs (id_cp_reginfo cpu) m)"

definition define_sctlr :: "arm_cpu \<Rightarrow> cpu \<Rightarrow> cp_regs \<Rightarrow> cp_regs result" where
  "define_sctlr cpu env =
     (let sctlr = sctlr_reginfo cpu;
          sctlr = (if arm_feature env ARM_FEATURE_XSCALE
                   then sctlr\<lparr>ri_type := ri_type sctlr OR ARM_CP_SUPPRESS_TB_END\<rparr> else sctlr)
      in define_one_arm_cp_reg sctlr)"

definition register_cp_regs_for_features :: "arm_cpu \<Rightarrow> cpu \<Rightarrow> cp_regs \<Rightarrow> cp_regs result" where
  "register_cp_regs_for_features cpu env m =
     (let f = arm_feature env in
      if f ARM_FEATURE_M then Inr m
      else
        cbind (define_arm_cp_regs cp_reginfo m) (\<lambda>m.
        cbind (if f ARM_FEATURE_V6
               then cbind (define_arm_cp_regs (v6_idregs cpu) m) (define_arm_cp_regs v6_cp_reginfo)
               else define_arm_cp_regs not_v6_cp_reginfo m) (\<lambda>m.
        cbind (define_if (f ARM_FEATURE_V6K) v6k_cp_reginfo m) (\<lambda>m.
        cbind (if f ARM_FEATURE_V7
               then cbind (define_one_arm_cp_reg (pmcr_reginfo cpu) m) (\<lambda>m.
                    cbind (define_one_arm_cp_reg (clidr_reginfo cpu) m) (define_arm_cp_regs v7_cp_reginfo))
               else define_arm_cp_regs not_v7_cp_reginfo m) (\<lambda>m.
        cbind (if f ARM_FEATURE_MPU
               then cbind (c_assert (\<not> f ARM_FEATURE_V6)) (\<lambda>_. define_arm_cp_regs pmsav5_cp_reginfo m)
               else define_arm_cp_regs vmsa_cp_reginfo m) (\<lambda>m.
        cbind (define_if (f ARM_FEATURE_THUMB2EE) t2ee_cp_reginfo m) (\<lambda>m.
        cbind (define_if (f ARM_FEATURE_GENERIC_TIMER) generic_timer_cp_reginfo m) (\<lambda>m.
        cbind (define_if (f ARM_FEATURE_VAPA) vapa_cp_reginfo m) (\<lambda>m.
        cbind (define_if (f ARM_FEATURE_CACHE_TEST_CLEAN) cache_test_clean_cp_reginfo m) (\<lambda>m.
        cbind (define_if (f ARM_FEATURE_CACHE_DIRTY_REG) cache_dirty_status_cp_reginfo m) (\<lambda>m.
        cbind (define_if (f ARM_FEATURE_CACHE_BLOCK_OPS) cache_block_ops_cp_reginfo m) (\<lambda>m.
        cbind (define_if (f ARM_FEATURE_OMAPCP) omap_cp_reginfo m) (\<lambda>m.
        cbind (define_if (f ARM_FEATURE_STRONGARM) strongarm_cp_reginfo m) (\<lambda>m.
        cbind (define_if (f ARM_FEATURE_XSCALE) xscale_cp_reginfo m) (\<lambda>m.
        cbind (define_if (f ARM_FEATURE_DUMMY_C15_REGS) dummy_c15_cp_reginfo m) (\<lambda>m.
        cbind (define_if (f ARM_FEATURE_MPIDR) mpidr_cp_reginfo m) (\<lambda>m.
        cbind (define_if (f ARM_FEATURE_LPAE) lpae_cp_reginfo m) (\<lambda>m.
        cbind (define_if (f ARM_FEATURE_TRUSTZONE) trustzone_cp_reginfo m) (\<lambda>m.
        cbind (define_id_regs cpu env m) (\<lambda>m.
        cbind (if f ARM_FEATURE_AUXCR then define_one_arm_cp_reg (auxcr_reginfo cpu) m else Inr m)
          (define_sctlr cpu env)))))))))))))))))))))"

definition get_arm_cp_reginfo :: "cp_regs \<Rightarrow> u32 \<Rightarrow> ARMCPRegInfo option" where
  "get_arm_cp_reginfo m encoded_cp = m encoded_cp"

end
