(* ===== verification/Arm_Cp_Registration.thy ===== *)
theory Arm_Cp_Registration
  imports Arm_Cp_Table
begin

text \<open>
  The registration of coprocessor registers is right: for consistent sets of features no
  assertion of \<open>define_one_arm_cp_reg\<close> fails, and the hash table it builds answers every
  lookup as the list of definitions does when the last matching one is taken.
\<close>

section \<open>Register codes\<close>

text \<open>
  A code is what an instruction names: coprocessor, width, CRn, CRm, opc1 and opc2.
\<close>

type_synonym cp_code = "nat \<times> nat \<times> nat \<times> nat \<times> nat \<times> nat"

fun code_ok :: "cp_code \<Rightarrow> bool" where
  "code_ok (cp, is64, crn, crm, opc1, opc2) \<longleftrightarrow> cp < 16 \<and> is64 < 2 \<and> crn < 16 \<and> crm < 16 \<and> opc1 < 16 \<and> opc2 < 8"

fun encode :: "cp_code \<Rightarrow> u32" where
  "encode (cp, is64, crn, crm, opc1, opc2) = ENCODE_CP_REG cp is64 crn crm opc1 opc2"

lemma unat_of_nat_small: "n < 65536 \<Longrightarrow> unat (of_nat n :: u32) = n"
  by (simp add: unat_of_nat take_bit_nat_eq_self)

lemma unat_encode:
  assumes "code_ok (cp, is64, crn, crm, opc1, opc2)"
  shows "unat (ENCODE_CP_REG cp is64 crn crm opc1 opc2)
    = ((((cp * 2 + is64) * 16 + crn) * 16 + crm) * 16 + opc1) * 8 + opc2"
proof -
  note s = unat_of_nat_small
  have 1: "unat (push_bit 3 (of_nat opc1) OR of_nat opc2 :: u32) = opc1 * 8 + opc2"
    using assms unat_fields [of "of_nat opc2 :: u32" 3 "of_nat opc1"] by (simp add: s)
  have 2: "unat (push_bit 7 (of_nat crm) OR (push_bit 3 (of_nat opc1) OR of_nat opc2) :: u32) = crm * 128 + opc1 * 8 + opc2"
    using assms 1 unat_fields [of "push_bit 3 (of_nat opc1) OR of_nat opc2 :: u32" 7 "of_nat crm"] by (simp add: s)
  have 3: "unat (push_bit 11 (of_nat crn) OR (push_bit 7 (of_nat crm) OR (push_bit 3 (of_nat opc1) OR of_nat opc2)) :: u32)
      = crn * 2048 + crm * 128 + opc1 * 8 + opc2"
    using assms 2 unat_fields [of "push_bit 7 (of_nat crm) OR (push_bit 3 (of_nat opc1) OR of_nat opc2) :: u32" 11 "of_nat crn"]
    by (simp add: s)
  have 4: "unat (push_bit 15 (of_nat is64) OR (push_bit 11 (of_nat crn) OR (push_bit 7 (of_nat crm) OR
      (push_bit 3 (of_nat opc1) OR of_nat opc2))) :: u32) = is64 * 32768 + crn * 2048 + crm * 128 + opc1 * 8 + opc2"
    using assms 3 unat_fields [of "push_bit 11 (of_nat crn) OR (push_bit 7 (of_nat crm) OR
      (push_bit 3 (of_nat opc1) OR of_nat opc2)) :: u32" 15 "of_nat is64"]
    by (simp add: s)
  show ?thesis
    using assms 4 unat_fields [of "push_bit 15 (of_nat is64) OR (push_bit 11 (of_nat crn) OR (push_bit 7 (of_nat crm) OR
      (push_bit 3 (of_nat opc1) OR of_nat opc2))) :: u32" 16 "of_nat cp"]
    by (simp add: s ENCODE_CP_REG_def or.assoc)
qed

lemma digits_eq:
  fixes a b c d m :: nat
  assumes "a * m + b = c * m + d" "b < m" "d < m"
  shows "a = c \<and> b = d"
proof -
  have "a = (a * m + b) div m" "c = (c * m + d) div m" "b = (a * m + b) mod m" "d = (c * m + d) mod m"
    using assms(2,3) by simp_all
  then show ?thesis using assms(1) by simp
qed

lemma encode_inj:
  assumes "code_ok c" "code_ok c'" "encode c = encode c'"
  shows "c = c'"
proof -
  obtain cp s crn crm o1 o2 where c: "c = (cp, s, crn, crm, o1, o2)" by (cases c)
  obtain cp' s' crn' crm' o1' o2' where c': "c' = (cp', s', crn', crm', o1', o2')" by (cases c')
  have b: "s < 2" "s' < 2" "crn < 16" "crn' < 16" "crm < 16" "crm' < 16" "o1 < 16" "o1' < 16" "o2 < 8" "o2' < 8"
    using assms(1,2) by (simp_all add: c c')
  have e: "((((cp * 2 + s) * 16 + crn) * 16 + crm) * 16 + o1) * 8 + o2
      = ((((cp' * 2 + s') * 16 + crn') * 16 + crm') * 16 + o1') * 8 + o2'"
    using assms unat_encode [of cp s crn crm o1 o2] unat_encode [of cp' s' crn' crm' o1' o2'] by (simp add: c c')
  note 1 = digits_eq [OF e b(9,10)]
  note 2 = digits_eq [OF 1 [THEN conjunct1] b(7,8)]
  note 3 = digits_eq [OF 2 [THEN conjunct1] b(5,6)]
  note 4 = digits_eq [OF 3 [THEN conjunct1] b(3,4)]
  note 5 = digits_eq [OF 4 [THEN conjunct1] b(1,2)]
  show ?thesis using 1 2 3 4 5 by (simp only: c c' simp_thms)
qed

declare encode.simps [simp del]

section \<open>Definitions and codes\<close>

text \<open>A definition is in range if its fields are register numbers or wildcards.\<close>

definition ri_range :: "ARMCPRegInfo \<Rightarrow> bool" where
  "ri_range r \<longleftrightarrow> ri_cp r < 16 \<and> ri_crn r < 16 \<and> (ri_crm r < 16 \<or> ri_crm r = CP_ANY)
     \<and> (ri_opc1 r < 8 \<or> ri_opc1 r = CP_ANY) \<and> (ri_opc2 r < 8 \<or> ri_opc2 r = CP_ANY)"

fun matches :: "ARMCPRegInfo \<Rightarrow> cp_code \<Rightarrow> bool" where
  "matches r (cp, is64, crn, crm, opc1, opc2) \<longleftrightarrow> ri_cp r = cp \<and> ri_is64 r = is64 \<and> ri_crn r = crn
     \<and> (crm, opc1, opc2) \<in> set (ri_keys r)"

fun inst :: "cp_code \<Rightarrow> ARMCPRegInfo \<Rightarrow> ARMCPRegInfo" where
  "inst (cp, is64, crn, crm, opc1, opc2) r = r\<lparr>ri_crm := crm, ri_opc1 := opc1, ri_opc2 := opc2\<rparr>"

definition overriding :: "ARMCPRegInfo \<Rightarrow> bool" where
  "overriding r \<longleftrightarrow> ri_type r AND ARM_CP_OVERRIDE \<noteq> 0"

text \<open>Two definitions, the first one registered before the second, may not claim the same code.\<close>

definition compat :: "ARMCPRegInfo \<Rightarrow> ARMCPRegInfo \<Rightarrow> bool" where
  "compat r r' \<longleftrightarrow> overriding r \<or> overriding r' \<or> (\<forall>c. \<not> (matches r c \<and> matches r' c))"

lemma is64_less [simp]: "ri_is64 r < 2" "ri_is64 r < Suc (Suc 0)"
  by (simp_all add: ri_is64_def)

lemma keys_range:
  assumes "ri_range r" "(crm, opc1, opc2) \<in> set (ri_keys r)"
  shows "code_ok (ri_cp r, ri_is64 r, ri_crn r, crm, opc1, opc2)"
  using assms by (auto simp: ri_range_def ri_keys_def cp_range_def split: if_splits)

lemma keys_distinct: "distinct (ri_keys r)"
  by (simp add: ri_keys_def distinct_product cp_range_def)

lemma key_encode: "ri_key (r\<lparr>ri_crm := crm, ri_opc1 := opc1, ri_opc2 := opc2\<rparr>)
    = encode (ri_cp r, ri_is64 r, ri_crn r, crm, opc1, opc2)"
  by (simp add: ri_key_def ri_is64_def encode.simps)

section \<open>The loop over the keys\<close>

lemma cfold_define_key:
  assumes "ri_range r" "set ks \<subseteq> set (ri_keys r)" "distinct ks"
    and "\<forall>(crm, opc1, opc2) \<in> set ks. \<forall>old. m (encode (ri_cp r, ri_is64 r, ri_crn r, crm, opc1, opc2)) = Some old \<longrightarrow>
           overriding r \<or> overriding old"
  shows "\<exists>m'. cfold (define_key r) ks m = Inr m' \<and> (\<forall>c. code_ok c \<longrightarrow> m' (encode c) =
    (case c of (cp, is64, crn, k) \<Rightarrow> if cp = ri_cp r \<and> is64 = ri_is64 r \<and> crn = ri_crn r \<and> k \<in> set ks
       then Some (inst c r) else m (encode c)))"
  using assms
proof (induction ks arbitrary: m)
  case Nil
  then show ?case by auto
next
  case (Cons k ks)
  obtain crm opc1 opc2 where k: "k = (crm, opc1, opc2)" by (cases k)
  let ?c = "(ri_cp r, ri_is64 r, ri_crn r, crm, opc1, opc2)"
  define m1 where "m1 = m(encode ?c \<mapsto> inst ?c r)"
  have ok: "code_ok ?c" using keys_range [OF Cons.prems(1), of crm opc1 opc2] Cons.prems(2) k by simp
  have other: "m1 (encode c) = (if c = ?c then Some (inst ?c r) else m (encode c))" if "code_ok c" for c
  proof (cases "c = ?c")
    case False
    then have "encode c \<noteq> encode ?c" using encode_inj [OF that ok] by blast
    then show ?thesis unfolding m1_def fun_upd_apply if_not_P [OF False] by (rule if_not_P)
  qed (simp add: m1_def)
  have s: "define_key r k m = Inr m1"
    using Cons.prems(4) by (auto simp: k define_key_def Let_def key_encode m1_def overriding_def split: option.split)
  have c4: "\<forall>(crm, opc1, opc2) \<in> set ks. \<forall>old. m1 (encode (ri_cp r, ri_is64 r, ri_crn r, crm, opc1, opc2)) = Some old \<longrightarrow>
      overriding r \<or> overriding old"
  proof (clarify)
    fix a b d old
    assume in_ks: "(a, b, d) \<in> set ks" and m1: "m1 (encode (ri_cp r, ri_is64 r, ri_crn r, a, b, d)) = Some old" and "\<not> overriding old"
    have "code_ok (ri_cp r, ri_is64 r, ri_crn r, a, b, d)"
      using keys_range [OF Cons.prems(1), of a b d] Cons.prems(2) in_ks by auto
    moreover have "(a, b, d) \<noteq> (crm, opc1, opc2)" using Cons.prems(3) in_ks k by auto
    ultimately have "m (encode (ri_cp r, ri_is64 r, ri_crn r, a, b, d)) = Some old" using m1 other by auto
    then show "overriding r" using Cons.prems(4) in_ks \<open>\<not> overriding old\<close> by auto
  qed
  obtain m' where m': "cfold (define_key r) ks m1 = Inr m'" "\<forall>c. code_ok c \<longrightarrow> m' (encode c) =
      (case c of (cp, is64, crn, k) \<Rightarrow> if cp = ri_cp r \<and> is64 = ri_is64 r \<and> crn = ri_crn r \<and> k \<in> set ks
         then Some (inst c r) else m1 (encode c))"
    using Cons.IH [OF Cons.prems(1) _ _ c4] Cons.prems(2,3) by auto
  show ?case
  proof (intro exI conjI allI impI)
    show "cfold (define_key r) (k # ks) m = Inr m'" using s m'(1) by simp
    fix c assume "code_ok c"
    then show "m' (encode c) = (case c of (cp, is64, crn, j) \<Rightarrow> if cp = ri_cp r \<and> is64 = ri_is64 r \<and> crn = ri_crn r \<and> j \<in> set (k # ks)
        then Some (inst c r) else m (encode c))"
      using m'(2) other by (auto simp: k split: prod.split)
  qed
qed

section \<open>The table represents the list of definitions\<close>

definition lookup_spec :: "ARMCPRegInfo list \<Rightarrow> cp_code \<Rightarrow> ARMCPRegInfo option" where
  "lookup_spec rs c = map_option (inst c) (find (\<lambda>r. matches r c) (rev rs))"

definition represents :: "ARMCPRegInfo list \<Rightarrow> cp_regs \<Rightarrow> bool" where
  "represents rs m \<longleftrightarrow> (\<forall>c. code_ok c \<longrightarrow> m (encode c) = lookup_spec rs c)"

lemma overriding_inst [simp]: "overriding (inst c r) = overriding r"
  by (cases c) (simp add: overriding_def)

lemma lookup_spec_Some:
  assumes "lookup_spec rs c = Some q"
  shows "\<exists>r \<in> set rs. matches r c \<and> q = inst c r"
  using assms by (auto simp: lookup_spec_def find_Some_iff) (metis length_rev nth_mem set_rev)

lemma lookup_spec_snoc: "lookup_spec (rs @ [r]) c = (if matches r c then Some (inst c r) else lookup_spec rs c)"
  by (simp add: lookup_spec_def)

lemma define_one_represents:
  assumes "represents rs m" "ri_valid r" "ri_range r" "\<forall>r' \<in> set rs. compat r' r"
  shows "\<exists>m'. define_one_arm_cp_reg r m = Inr m' \<and> represents (rs @ [r]) m'"
proof -
  have "\<forall>(crm, opc1, opc2) \<in> set (ri_keys r). \<forall>old. m (encode (ri_cp r, ri_is64 r, ri_crn r, crm, opc1, opc2)) = Some old \<longrightarrow>
      overriding r \<or> overriding old"
  proof clarify
    fix crm opc1 opc2 :: nat and old
    let ?c = "(ri_cp r, ri_is64 r, ri_crn r, crm, opc1, opc2)"
    assume k: "(crm, opc1, opc2) \<in> set (ri_keys r)" and m: "m (encode ?c) = Some old" and n: "\<not> overriding old"
    have "lookup_spec rs ?c = Some old" using assms(1) m keys_range [OF assms(3) k] by (simp add: represents_def)
    then obtain r' where r': "r' \<in> set rs" "matches r' ?c" "old = inst ?c r'" using lookup_spec_Some by blast
    have "compat r' r" using assms(4) r'(1) by blast
    moreover have "\<not> overriding r'" using n by (simp only: r'(3) overriding_inst not_False_eq_True)
    moreover have "matches r ?c" using k by simp
    ultimately show "overriding r" using r'(2) unfolding compat_def by blast
  qed
  from cfold_define_key [OF assms(3) subset_refl keys_distinct this] obtain m' where
    f: "cfold (define_key r) (ri_keys r) m = Inr m'" and l: "\<forall>c. code_ok c \<longrightarrow> m' (encode c) =
      (case c of (cp, is64, crn, k) \<Rightarrow> if cp = ri_cp r \<and> is64 = ri_is64 r \<and> crn = ri_crn r \<and> k \<in> set (ri_keys r)
         then Some (inst c r) else m (encode c))" by blast
  have "represents (rs @ [r]) m'"
    unfolding represents_def lookup_spec_snoc
  proof (intro allI impI)
    fix c assume c: "code_ok c"
    have "m (encode c) = lookup_spec rs c" using assms(1) c unfolding represents_def by blast
    then show "m' (encode c) = (if matches r c then Some (inst c r) else lookup_spec rs c)"
      using l [rule_format, OF c] by (cases c) auto
  qed
  then show ?thesis using f assms(2) by (simp add: define_one_arm_cp_reg_def)
qed

lemma define_regs_represents:
  assumes "represents rs m" "\<forall>r \<in> set rs'. ri_valid r \<and> ri_range r" "\<forall>r \<in> set rs. \<forall>r' \<in> set rs'. compat r r'"
    and "sorted_wrt compat rs'"
  shows "\<exists>m'. cfold define_one_arm_cp_reg rs' m = Inr m' \<and> represents (rs @ rs') m'"
  using assms
proof (induction rs' arbitrary: rs m)
  case Nil
  then show ?case by simp
next
  case (Cons r rs')
  obtain m1 where m1: "define_one_arm_cp_reg r m = Inr m1" "represents (rs @ [r]) m1"
    using define_one_represents [OF Cons.prems(1), of r] Cons.prems(2,3) by auto
  from Cons.IH [OF m1(2)] Cons.prems show ?case by (auto simp: m1(1))
qed

section \<open>All definitions of a processor\<close>

definition sctlr :: "arm_cpu \<Rightarrow> cpu \<Rightarrow> ARMCPRegInfo" where
  "sctlr cpu env = (if arm_feature env ARM_FEATURE_XSCALE
     then (sctlr_reginfo cpu)\<lparr>ri_type := ri_type (sctlr_reginfo cpu) OR ARM_CP_SUPPRESS_TB_END\<rparr> else sctlr_reginfo cpu)"

definition cp_groups :: "arm_cpu \<Rightarrow> cpu \<Rightarrow> (bool \<times> ARMCPRegInfo list) list" where
  "cp_groups cpu env =
     (let f = arm_feature env; wi = (f ARM_FEATURE_OMAPCP \<or> f ARM_FEATURE_STRONGARM)
      in [
       (True, cp_reginfo),
       (f ARM_FEATURE_V6, v6_idregs cpu),
       (f ARM_FEATURE_V6, v6_cp_reginfo),
       (\<not> f ARM_FEATURE_V6, not_v6_cp_reginfo),
       (f ARM_FEATURE_V6K, v6k_cp_reginfo),
       (f ARM_FEATURE_V7, [pmcr_reginfo cpu]),
       (f ARM_FEATURE_V7, [clidr_reginfo cpu]),
       (f ARM_FEATURE_V7, v7_cp_reginfo),
       (\<not> f ARM_FEATURE_V7, not_v7_cp_reginfo),
       (f ARM_FEATURE_MPU, pmsav5_cp_reginfo),
       (\<not> f ARM_FEATURE_MPU, vmsa_cp_reginfo),
       (f ARM_FEATURE_THUMB2EE, t2ee_cp_reginfo),
       (f ARM_FEATURE_GENERIC_TIMER, generic_timer_cp_reginfo),
       (f ARM_FEATURE_VAPA, vapa_cp_reginfo),
       (f ARM_FEATURE_CACHE_TEST_CLEAN, cache_test_clean_cp_reginfo),
       (f ARM_FEATURE_CACHE_DIRTY_REG, cache_dirty_status_cp_reginfo),
       (f ARM_FEATURE_CACHE_BLOCK_OPS, cache_block_ops_cp_reginfo),
       (f ARM_FEATURE_OMAPCP, omap_cp_reginfo),
       (f ARM_FEATURE_STRONGARM, strongarm_cp_reginfo),
       (f ARM_FEATURE_XSCALE, xscale_cp_reginfo),
       (f ARM_FEATURE_DUMMY_C15_REGS, dummy_c15_cp_reginfo),
       (f ARM_FEATURE_MPIDR, mpidr_cp_reginfo),
       (f ARM_FEATURE_LPAE, lpae_cp_reginfo),
       (f ARM_FEATURE_TRUSTZONE, trustzone_cp_reginfo),
       (wi, [crn0_wi_reginfo]),
       (True, (if wi then map (\<lambda>r. r\<lparr>ri_access := PL1_RW\<rparr>) (id_cp_reginfo cpu) else id_cp_reginfo cpu)),
       (f ARM_FEATURE_AUXCR, [auxcr_reginfo cpu]),
       (True, [sctlr cpu env])])"

definition cp_regs_of :: "(bool \<times> 'a list) list \<Rightarrow> 'a list" where
  "cp_regs_of gs = concat (map (\<lambda>(g, rs). if g then rs else []) gs)"

lemma cp_regs_of_simps [simp]:
  "cp_regs_of [] = []" "cp_regs_of ((g, rs) # gs) = (if g then rs else []) @ cp_regs_of gs"
  by (simp_all add: cp_regs_of_def)

lemma cfold_single: "cfold f [x] = f x"
proof
  show "cfold f [x] s = f x s" for s by (cases "f x s") simp_all
qed

lemma cfold_append_fun: "cfold f (xs @ ys) = (\<lambda>s. cbind (cfold f xs s) (cfold f ys))"
  by (simp add: fun_eq_iff cfold_append)

lemma cfold_Nil_fun: "cfold f [] = Inr"
  by (simp add: fun_eq_iff)

lemma cbind_Inr_right: "cbind m Inr = m"
  by (cases m) simp_all

lemma register_all:
  assumes "\<not> arm_feature env ARM_FEATURE_M" "\<not> (arm_feature env ARM_FEATURE_MPU \<and> arm_feature env ARM_FEATURE_V6)"
  shows "register_cp_regs_for_features cpu env m = cfold define_one_arm_cp_reg (cp_regs_of (cp_groups cpu env)) m"
proof -
  let ?D = "cfold define_one_arm_cp_reg" and ?f = "arm_feature env"
  note fold_simps = define_arm_cp_regs_def cfold_append_fun cfold_single cfold_Nil_fun cbind_Inr_right cbind_assoc
  have i: "define_if b rs = ?D (if b then rs else [])" for b rs
    by (simp add: fun_eq_iff define_if_def define_arm_cp_regs_def)
  have d: "define_id_regs cpu env = ?D
      ((if ?f ARM_FEATURE_OMAPCP \<or> ?f ARM_FEATURE_STRONGARM then [crn0_wi_reginfo] else [])
       @ (if ?f ARM_FEATURE_OMAPCP \<or> ?f ARM_FEATURE_STRONGARM
          then map (\<lambda>r. r\<lparr>ri_access := PL1_RW\<rparr>) (id_cp_reginfo cpu) else id_cp_reginfo cpu))"
    by (simp add: fun_eq_iff define_id_regs_def fold_simps del: cfold.simps)
  have s: "define_sctlr cpu env = ?D [sctlr cpu env]"
    by (simp add: fun_eq_iff define_sctlr_def sctlr_def Let_def cfold_single del: cfold.simps)
  have p: "(if ?f ARM_FEATURE_MPU
      then cbind (c_assert (\<not> ?f ARM_FEATURE_V6)) (\<lambda>_. define_arm_cp_regs pmsav5_cp_reginfo m)
      else define_arm_cp_regs vmsa_cp_reginfo m)
    = ?D ((if ?f ARM_FEATURE_MPU then pmsav5_cp_reginfo else []) @ (if \<not> ?f ARM_FEATURE_MPU then vmsa_cp_reginfo else [])) m" for m
    using assms(2) by (auto simp: define_arm_cp_regs_def)
  have v6: "(if ?f ARM_FEATURE_V6 then cbind (define_arm_cp_regs (v6_idregs cpu) m) (define_arm_cp_regs v6_cp_reginfo)
      else define_arm_cp_regs not_v6_cp_reginfo m)
    = ?D ((if ?f ARM_FEATURE_V6 then v6_idregs cpu else []) @ (if ?f ARM_FEATURE_V6 then v6_cp_reginfo else [])
        @ (if \<not> ?f ARM_FEATURE_V6 then not_v6_cp_reginfo else [])) m" for m
    by (simp add: fold_simps del: cfold.simps)
  have v7: "(if ?f ARM_FEATURE_V7
      then cbind (define_one_arm_cp_reg (pmcr_reginfo cpu) m) (\<lambda>m.
           cbind (define_one_arm_cp_reg (clidr_reginfo cpu) m) (define_arm_cp_regs v7_cp_reginfo))
      else define_arm_cp_regs not_v7_cp_reginfo m)
    = ?D ((if ?f ARM_FEATURE_V7 then [pmcr_reginfo cpu] else []) @ (if ?f ARM_FEATURE_V7 then [clidr_reginfo cpu] else [])
        @ (if ?f ARM_FEATURE_V7 then v7_cp_reginfo else []) @ (if \<not> ?f ARM_FEATURE_V7 then not_v7_cp_reginfo else [])) m" for m
    by (simp add: fold_simps del: cfold.simps)
  have x: "(if ?f ARM_FEATURE_AUXCR then define_one_arm_cp_reg (auxcr_reginfo cpu) m else Inr m)
    = ?D (if ?f ARM_FEATURE_AUXCR then [auxcr_reginfo cpu] else []) m" for m
    by (simp add: cfold_single del: cfold.simps(2))
  show ?thesis
    unfolding register_cp_regs_for_features_def Let_def cp_groups_def if_not_P [OF assms(1)] v6 v7 p i d s x
    by (simp only: define_arm_cp_regs_def cfold_append_fun cbind_assoc cp_regs_of_simps if_True append_Nil2)
qed

section \<open>Compatibility of the tables\<close>

text \<open>
  What decides compatibility: the code fields of a definition and whether it overrides.
\<close>

type_synonym cp_shape = "nat \<times> nat \<times> nat \<times> nat \<times> nat \<times> nat \<times> bool"

definition shape :: "ARMCPRegInfo \<Rightarrow> cp_shape" where
  "shape r = (ri_cp r, ri_is64 r, ri_crn r, ri_crm r, ri_opc1 r, ri_opc2 r, overriding r)"

definition meet :: "nat \<Rightarrow> nat \<Rightarrow> bool" where
  "meet a b \<longleftrightarrow> (if a = 255 then True else if b = 255 then True else a = b)"

fun shape_ok :: "cp_shape \<Rightarrow> cp_shape \<Rightarrow> bool" where
  "shape_ok (cp, is64, crn, crm, opc1, opc2, ov) (cp', is64', crn', crm', opc1', opc2', ov') \<longleftrightarrow>
     (if crn = crn' then if ov then True else if ov' then True else if cp = cp' then
        if is64 = is64' then if meet crm crm' then if meet opc1 opc1' then \<not> meet opc2 opc2' else True else True else True else True
      else True)"

lemma range_meet: "x \<in> set (cp_range a n) \<Longrightarrow> x \<in> set (cp_range b n) \<Longrightarrow> meet a b"
  by (auto simp: cp_range_def meet_def CP_ANY_def split: if_splits)

lemma shape_compat: "shape_ok (shape r) (shape r') \<Longrightarrow> compat r r'"
  by (auto simp: shape_def compat_def ri_keys_def dest: range_meet split: if_splits)

text \<open>The shapes of the groups of definitions, in the order of \<open>cp_groups\<close>.\<close>

definition cp_shapes :: "cp_shape list list" where
  "cp_shapes = [
     [(14, 0, 0, 0, 0, 0, False), (15, 0, 3, 255, 255, 255, False), (15, 0, 13, 0, 0, 0, False),
      (15, 0, 13, 0, 0, 1, False), (15, 0, 10, 255, 255, 255, False), (15, 0, 8, 255, 255, 0, False),
      (15, 0, 8, 255, 255, 1, False), (15, 0, 8, 255, 255, 2, False), (15, 0, 8, 255, 255, 3, False),
      (15, 0, 7, 255, 0, 255, True)],
     [(15, 0, 0, 1, 0, 0, False), (15, 0, 0, 1, 0, 1, False), (15, 0, 0, 1, 0, 2, False),
      (15, 0, 0, 1, 0, 3, False), (15, 0, 0, 1, 0, 4, False), (15, 0, 0, 1, 0, 5, False),
      (15, 0, 0, 1, 0, 6, False), (15, 0, 0, 1, 0, 7, False), (15, 0, 0, 2, 0, 0, False),
      (15, 0, 0, 2, 0, 1, False), (15, 0, 0, 2, 0, 2, False), (15, 0, 0, 2, 0, 3, False),
      (15, 0, 0, 2, 0, 4, False), (15, 0, 0, 2, 0, 5, False), (15, 0, 0, 2, 0, 6, False),
      (15, 0, 0, 2, 0, 7, False)],
     [(15, 0, 7, 13, 0, 1, False), (15, 0, 7, 5, 0, 4, False), (15, 0, 7, 10, 0, 4, False),
      (15, 0, 7, 10, 0, 5, False), (15, 0, 6, 0, 0, 2, False), (15, 0, 6, 0, 0, 1, False),
      (15, 0, 1, 0, 0, 2, False)],
     [(15, 0, 7, 8, 0, 2, False)],
     [(15, 0, 13, 0, 0, 2, False), (15, 0, 13, 0, 0, 3, False), (15, 0, 13, 0, 0, 4, False)],
     [(15, 0, 9, 12, 0, 0, False)],
     [(15, 0, 0, 0, 1, 1, False)],
     [(14, 0, 1, 0, 0, 0, False), (14, 0, 2, 0, 0, 0, False), (15, 0, 7, 0, 0, 4, False),
      (15, 0, 9, 12, 0, 1, False), (15, 0, 9, 12, 0, 2, False), (15, 0, 9, 12, 0, 3, False),
      (15, 0, 9, 12, 0, 4, False), (15, 0, 9, 12, 0, 5, False), (15, 0, 9, 13, 0, 0, False),
      (15, 0, 9, 13, 0, 1, False), (15, 0, 9, 13, 0, 2, False), (15, 0, 9, 14, 0, 0, False),
      (15, 0, 9, 14, 0, 1, False), (15, 0, 9, 14, 0, 2, False), (15, 0, 0, 0, 1, 0, False),
      (15, 0, 0, 0, 2, 0, False), (15, 0, 0, 0, 1, 7, False)],
     [(15, 0, 7, 0, 0, 4, False), (15, 0, 9, 0, 0, 0, False), (15, 0, 9, 0, 0, 1, False),
      (15, 0, 0, 0, 1, 255, False)],
     [(15, 0, 5, 0, 0, 0, False), (15, 0, 5, 0, 0, 1, False), (15, 0, 5, 0, 0, 2, False),
      (15, 0, 5, 0, 0, 3, False), (15, 0, 2, 0, 0, 0, False), (15, 0, 2, 0, 0, 1, False),
      (15, 0, 6, 255, 0, 255, False)],
     [(15, 0, 5, 0, 0, 0, False), (15, 0, 5, 0, 0, 1, False), (15, 0, 2, 0, 0, 0, False),
      (15, 0, 2, 0, 0, 1, False), (15, 0, 2, 0, 0, 2, False), (15, 0, 6, 0, 0, 0, False)],
     [(14, 0, 0, 0, 6, 0, False), (14, 0, 1, 0, 6, 0, False)],
     [(15, 0, 14, 255, 255, 255, False)],
     [(15, 0, 7, 4, 0, 0, False), (15, 0, 7, 8, 0, 255, False)],
     [(15, 0, 7, 10, 0, 3, False), (15, 0, 7, 14, 0, 3, False)],
     [(15, 0, 7, 10, 0, 6, False)],
     [(15, 0, 7, 12, 0, 4, False), (15, 1, 0, 5, 0, 0, False), (15, 1, 0, 6, 0, 0, False),
      (15, 1, 0, 12, 0, 0, False), (15, 1, 0, 12, 1, 0, False), (15, 1, 0, 12, 2, 0, False),
      (15, 1, 0, 14, 0, 0, False)],
     [(15, 0, 5, 255, 255, 255, True), (15, 0, 15, 0, 0, 0, False), (15, 0, 15, 1, 0, 0, False),
      (15, 0, 15, 2, 0, 0, False), (15, 0, 15, 3, 0, 0, False), (15, 0, 15, 4, 0, 0, False),
      (15, 0, 15, 8, 0, 0, False), (15, 0, 7, 255, 0, 255, True), (15, 0, 9, 255, 255, 255, True)],
     [(15, 0, 9, 255, 255, 255, True)],
     [(15, 0, 15, 1, 0, 0, False), (15, 0, 1, 0, 0, 1, False)],
     [(15, 0, 15, 255, 255, 255, False)],
     [(15, 0, 0, 0, 0, 5, False)],
     [(15, 0, 10, 3, 0, 0, True), (15, 0, 10, 3, 0, 1, True), (14, 1, 0, 1, 0, 0, False),
      (14, 1, 0, 2, 0, 0, False), (15, 1, 0, 7, 0, 0, False), (15, 1, 0, 2, 0, 0, False),
      (15, 1, 0, 2, 1, 0, False)],
     [(15, 0, 1, 1, 0, 0, False), (15, 0, 1, 1, 0, 1, False), (15, 0, 1, 1, 0, 2, False),
      (15, 0, 12, 0, 0, 0, False), (15, 0, 12, 0, 0, 1, False)],
     [(15, 0, 0, 255, 255, 255, True)],
     [(15, 0, 0, 0, 0, 0, False), (15, 0, 0, 0, 0, 1, False), (15, 0, 0, 0, 0, 2, False),
      (15, 0, 0, 0, 0, 3, False), (15, 0, 0, 3, 0, 255, False), (15, 0, 0, 4, 0, 255, False),
      (15, 0, 0, 5, 0, 255, False), (15, 0, 0, 6, 0, 255, False), (15, 0, 0, 7, 0, 255, False)],
     [(15, 0, 1, 0, 0, 1, False)],
     [(15, 0, 1, 0, 0, 0, False)]]"

lemmas shape_simps = shape_def reg0_def overriding_def ri_is64_def cp_type_defs CP_ANY_def

lemma groups_shapes: "map (\<lambda>(g, rs). map shape rs) (cp_groups cpu env) = cp_shapes"
proof -
  have a: "shape (r\<lparr>ri_access := x\<rparr>) = shape r" for r x by (simp add: shape_def overriding_def ri_is64_def)
  have s: "shape (sctlr cpu env) = (15, 0, 1, 0, 0, 0, False)"
    by (simp add: sctlr_def sctlr_reginfo_def shape_simps)
  have t: "map shape cp_reginfo = [(14, 0, 0, 0, 0, 0, False), (15, 0, 3, 255, 255, 255, False), (15, 0, 13, 0, 0, 0, False),
      (15, 0, 13, 0, 0, 1, False), (15, 0, 10, 255, 255, 255, False), (15, 0, 8, 255, 255, 0, False),
      (15, 0, 8, 255, 255, 1, False), (15, 0, 8, 255, 255, 2, False), (15, 0, 8, 255, 255, 3, False),
      (15, 0, 7, 255, 0, 255, True)]"
    "map shape (v6_idregs cpu) = [(15, 0, 0, 1, 0, 0, False), (15, 0, 0, 1, 0, 1, False), (15, 0, 0, 1, 0, 2, False),
      (15, 0, 0, 1, 0, 3, False), (15, 0, 0, 1, 0, 4, False), (15, 0, 0, 1, 0, 5, False),
      (15, 0, 0, 1, 0, 6, False), (15, 0, 0, 1, 0, 7, False), (15, 0, 0, 2, 0, 0, False),
      (15, 0, 0, 2, 0, 1, False), (15, 0, 0, 2, 0, 2, False), (15, 0, 0, 2, 0, 3, False),
      (15, 0, 0, 2, 0, 4, False), (15, 0, 0, 2, 0, 5, False), (15, 0, 0, 2, 0, 6, False),
      (15, 0, 0, 2, 0, 7, False)]"
    "map shape v6_cp_reginfo = [(15, 0, 7, 13, 0, 1, False), (15, 0, 7, 5, 0, 4, False), (15, 0, 7, 10, 0, 4, False),
      (15, 0, 7, 10, 0, 5, False), (15, 0, 6, 0, 0, 2, False), (15, 0, 6, 0, 0, 1, False),
      (15, 0, 1, 0, 0, 2, False)]"
    "map shape not_v6_cp_reginfo = [(15, 0, 7, 8, 0, 2, False)]"
    "map shape v6k_cp_reginfo = [(15, 0, 13, 0, 0, 2, False), (15, 0, 13, 0, 0, 3, False), (15, 0, 13, 0, 0, 4, False)]"
    "shape (pmcr_reginfo cpu) = (15, 0, 9, 12, 0, 0, False)"
    "shape (clidr_reginfo cpu) = (15, 0, 0, 0, 1, 1, False)"
    "map shape v7_cp_reginfo = [(14, 0, 1, 0, 0, 0, False), (14, 0, 2, 0, 0, 0, False), (15, 0, 7, 0, 0, 4, False),
      (15, 0, 9, 12, 0, 1, False), (15, 0, 9, 12, 0, 2, False), (15, 0, 9, 12, 0, 3, False),
      (15, 0, 9, 12, 0, 4, False), (15, 0, 9, 12, 0, 5, False), (15, 0, 9, 13, 0, 0, False),
      (15, 0, 9, 13, 0, 1, False), (15, 0, 9, 13, 0, 2, False), (15, 0, 9, 14, 0, 0, False),
      (15, 0, 9, 14, 0, 1, False), (15, 0, 9, 14, 0, 2, False), (15, 0, 0, 0, 1, 0, False),
      (15, 0, 0, 0, 2, 0, False), (15, 0, 0, 0, 1, 7, False)]"
    "map shape not_v7_cp_reginfo = [(15, 0, 7, 0, 0, 4, False), (15, 0, 9, 0, 0, 0, False), (15, 0, 9, 0, 0, 1, False),
      (15, 0, 0, 0, 1, 255, False)]"
    "map shape pmsav5_cp_reginfo = [(15, 0, 5, 0, 0, 0, False), (15, 0, 5, 0, 0, 1, False), (15, 0, 5, 0, 0, 2, False),
      (15, 0, 5, 0, 0, 3, False), (15, 0, 2, 0, 0, 0, False), (15, 0, 2, 0, 0, 1, False),
      (15, 0, 6, 255, 0, 255, False)]"
    "map shape vmsa_cp_reginfo = [(15, 0, 5, 0, 0, 0, False), (15, 0, 5, 0, 0, 1, False), (15, 0, 2, 0, 0, 0, False),
      (15, 0, 2, 0, 0, 1, False), (15, 0, 2, 0, 0, 2, False), (15, 0, 6, 0, 0, 0, False)]"
    "map shape t2ee_cp_reginfo = [(14, 0, 0, 0, 6, 0, False), (14, 0, 1, 0, 6, 0, False)]"
    "map shape generic_timer_cp_reginfo = [(15, 0, 14, 255, 255, 255, False)]"
    "map shape vapa_cp_reginfo = [(15, 0, 7, 4, 0, 0, False), (15, 0, 7, 8, 0, 255, False)]"
    "map shape cache_test_clean_cp_reginfo = [(15, 0, 7, 10, 0, 3, False), (15, 0, 7, 14, 0, 3, False)]"
    "map shape cache_dirty_status_cp_reginfo = [(15, 0, 7, 10, 0, 6, False)]"
    "map shape cache_block_ops_cp_reginfo = [(15, 0, 7, 12, 0, 4, False), (15, 1, 0, 5, 0, 0, False), (15, 1, 0, 6, 0, 0, False),
      (15, 1, 0, 12, 0, 0, False), (15, 1, 0, 12, 1, 0, False), (15, 1, 0, 12, 2, 0, False),
      (15, 1, 0, 14, 0, 0, False)]"
    "map shape omap_cp_reginfo = [(15, 0, 5, 255, 255, 255, True), (15, 0, 15, 0, 0, 0, False), (15, 0, 15, 1, 0, 0, False),
      (15, 0, 15, 2, 0, 0, False), (15, 0, 15, 3, 0, 0, False), (15, 0, 15, 4, 0, 0, False),
      (15, 0, 15, 8, 0, 0, False), (15, 0, 7, 255, 0, 255, True), (15, 0, 9, 255, 255, 255, True)]"
    "map shape strongarm_cp_reginfo = [(15, 0, 9, 255, 255, 255, True)]"
    "map shape xscale_cp_reginfo = [(15, 0, 15, 1, 0, 0, False), (15, 0, 1, 0, 0, 1, False)]"
    "map shape dummy_c15_cp_reginfo = [(15, 0, 15, 255, 255, 255, False)]"
    "map shape mpidr_cp_reginfo = [(15, 0, 0, 0, 0, 5, False)]"
    "map shape lpae_cp_reginfo = [(15, 0, 10, 3, 0, 0, True), (15, 0, 10, 3, 0, 1, True), (14, 1, 0, 1, 0, 0, False),
      (14, 1, 0, 2, 0, 0, False), (15, 1, 0, 7, 0, 0, False), (15, 1, 0, 2, 0, 0, False),
      (15, 1, 0, 2, 1, 0, False)]"
    "map shape trustzone_cp_reginfo = [(15, 0, 1, 1, 0, 0, False), (15, 0, 1, 1, 0, 1, False), (15, 0, 1, 1, 0, 2, False),
      (15, 0, 12, 0, 0, 0, False), (15, 0, 12, 0, 0, 1, False)]"
    "shape crn0_wi_reginfo = (15, 0, 0, 255, 255, 255, True)"
    "map shape (id_cp_reginfo cpu) = [(15, 0, 0, 0, 0, 0, False), (15, 0, 0, 0, 0, 1, False), (15, 0, 0, 0, 0, 2, False),
      (15, 0, 0, 0, 0, 3, False), (15, 0, 0, 3, 0, 255, False), (15, 0, 0, 4, 0, 255, False),
      (15, 0, 0, 5, 0, 255, False), (15, 0, 0, 6, 0, 255, False), (15, 0, 0, 7, 0, 255, False)]"
    "shape (auxcr_reginfo cpu) = (15, 0, 1, 0, 0, 1, False)"
    by (simp_all add: cp_table_defs shape_simps)
  show ?thesis
    unfolding cp_groups_def cp_shapes_def Let_def
    by (simp only: list.map prod.case s t if_distrib [of "map shape"] map_map comp_def a if_cancel)
qed

text \<open>The pairs of groups that clash.\<close>

definition cp_clashes :: "(nat \<times> nat) list" where
  "cp_clashes = [(2, 9), (3, 13), (6, 8), (7, 8), (9, 10), (17, 19), (17, 20), (19, 20), (19, 26)]"

definition pair_ok :: "nat \<times> cp_shape \<Rightarrow> nat \<times> cp_shape \<Rightarrow> bool" where
  "pair_ok p q \<longleftrightarrow> (if shape_ok (snd p) (snd q) then True else (fst p, fst q) \<in> set cp_clashes)"

fun label :: "nat \<Rightarrow> 'a list list \<Rightarrow> (nat \<times> 'a) list" where
  "label n [] = []"
| "label n (l # ls) = map (Pair n) l @ label (Suc n) ls"

text \<open>Only definitions with the same CRn need be compared.\<close>

definition shape_crn :: "nat \<times> cp_shape \<Rightarrow> nat" where
  "shape_crn p = fst (snd (snd (snd p)))"

lemma sorted_by_crn:
  assumes "\<forall>c. sorted_wrt pair_ok (filter (\<lambda>p. shape_crn p = c) ps)"
  shows "sorted_wrt pair_ok ps"
  using assms
proof (induction ps)
  case (Cons p ps)
  have "sorted_wrt pair_ok (filter (\<lambda>p. shape_crn p = c) ps)" for c
    using Cons.prems [rule_format, of c] by (simp split: if_splits)
  moreover have "pair_ok p q" if "q \<in> set ps" for q
  proof (cases "shape_crn q = shape_crn p")
    case True
    then show ?thesis using Cons.prems [rule_format, of "shape_crn p"] that by (simp del: split_paired_All)
  next
    case False
    then show ?thesis by (cases p; cases q) (auto simp: pair_ok_def shape_crn_def)
  qed
  ultimately show ?case using Cons.IH by simp
qed simp

lemma shapes_sorted: "sorted_wrt pair_ok (label 0 cp_shapes)"
proof (rule sorted_by_crn, rule allI)
  fix c
  have "list_all (\<lambda>c. sorted_wrt pair_ok (filter (\<lambda>p. shape_crn p = c) (label 0 cp_shapes))) [0..<16]"
    and r: "list_all (\<lambda>p. shape_crn p < 16) (label 0 cp_shapes)"
    by code_simp+
  moreover have "filter (\<lambda>p. shape_crn p = c) (label 0 cp_shapes) = []" if "16 \<le> c"
    using r that by (auto simp: filter_empty_conv list_all_iff)
  ultimately show "sorted_wrt pair_ok (filter (\<lambda>p. shape_crn p = c) (label 0 cp_shapes))"
    by (cases "c < 16") (simp_all add: list_all_iff)
qed

lemma regs_of_group:
  assumes "r \<in> set (cp_regs_of gs)"
  shows "\<exists>k < length gs. fst (gs ! k) \<and> (n + k, shape r) \<in> set (label n (map (\<lambda>(g, rs). map shape rs) gs))"
  using assms
proof (induction gs arbitrary: n)
  case (Cons p gs)
  obtain g rs where p: "p = (g, rs)" by (cases p)
  from Cons.prems p consider "g" "r \<in> set rs" | "r \<in> set (cp_regs_of gs)" by (auto split: if_splits)
  then show ?case
  proof cases
    case 1
    then show ?thesis by (intro exI [of _ 0]) (simp add: p)
  next
    case 2
    from Cons.IH [OF this, of "Suc n"] obtain k where "k < length gs" "fst (gs ! k)"
        "(Suc n + k, shape r) \<in> set (label (Suc n) (map (\<lambda>(g, rs). map shape rs) gs))" by blast
    then show ?thesis by (intro exI [of _ "Suc k"]) (simp add: p)
  qed
qed simp

lemma sorted_groups:
  assumes "sorted_wrt pair_ok (label n (map (\<lambda>(g, rs). map shape rs) gs))"
    and "\<forall>k < length gs. \<forall>j < length gs. fst (gs ! k) \<longrightarrow> fst (gs ! j) \<longrightarrow> (n + k, n + j) \<notin> set cp_clashes"
  shows "sorted_wrt compat (cp_regs_of gs)"
  using assms
proof (induction gs arbitrary: n)
  case (Cons p gs)
  obtain g rs where p: "p = (g, rs)" by (cases p)
  let ?L = "label (Suc n) (map (\<lambda>(g, rs). map shape rs) gs)"
  have srt: "sorted_wrt pair_ok (map (Pair n) (map shape rs))" "sorted_wrt pair_ok ?L"
    and cross: "\<And>r q. r \<in> set rs \<Longrightarrow> q \<in> set ?L \<Longrightarrow> pair_ok (n, shape r) q"
    using Cons.prems(1) by (auto simp: p sorted_wrt_append)
  have clash: "fst ((p # gs) ! k) \<Longrightarrow> fst ((p # gs) ! j) \<Longrightarrow> k < Suc (length gs) \<Longrightarrow> j < Suc (length gs) \<Longrightarrow>
      (n + k, n + j) \<notin> set cp_clashes" for k j using Cons.prems(2) by simp
  have "\<forall>k < length gs. \<forall>j < length gs. fst (gs ! k) \<longrightarrow> fst (gs ! j) \<longrightarrow> (Suc n + k, Suc n + j) \<notin> set cp_clashes"
    using clash [of "Suc _" "Suc _"] by auto
  from Cons.IH [OF srt(2) this] have tail: "sorted_wrt compat (cp_regs_of gs)" .
  show ?case
  proof (cases g)
    case True
    have "(n, n) \<notin> set cp_clashes" using clash [of 0 0] True by (simp add: p)
    then have "sorted_wrt compat rs"
      using srt(1) by (auto simp: sorted_wrt_map pair_ok_def intro!: shape_compat elim!: sorted_wrt_mono_rel [rotated] split: if_splits)
    moreover have "compat r r'" if r: "r \<in> set rs" and r': "r' \<in> set (cp_regs_of gs)" for r r'
    proof -
      obtain k where k: "k < length gs" "fst (gs ! k)" "(Suc n + k, shape r') \<in> set ?L" using regs_of_group [OF r'] by blast
      have "(n, Suc n + k) \<notin> set cp_clashes" using clash [of 0 "Suc k"] True k(1,2) by (simp add: p)
      then show ?thesis using cross [OF r k(3)] by (auto simp: pair_ok_def intro: shape_compat split: if_splits)
    qed
    ultimately show ?thesis using tail True by (simp add: p sorted_wrt_append)
  qed (simp add: p tail)
qed simp

text \<open>Feature sets whose tables do not clash.\<close>

definition features_ok :: "cpu \<Rightarrow> bool" where
  "features_ok env \<longleftrightarrow> (let f = arm_feature env in \<not> f ARM_FEATURE_M
     \<and> \<not> (f ARM_FEATURE_MPU \<and> f ARM_FEATURE_V6) \<and> (f ARM_FEATURE_VAPA \<longrightarrow> f ARM_FEATURE_V6)
     \<and> \<not> (f ARM_FEATURE_OMAPCP \<and> f ARM_FEATURE_XSCALE)
     \<and> \<not> (f ARM_FEATURE_DUMMY_C15_REGS \<and> (f ARM_FEATURE_OMAPCP \<or> f ARM_FEATURE_XSCALE))
     \<and> \<not> (f ARM_FEATURE_XSCALE \<and> f ARM_FEATURE_AUXCR))"

lemma groups_sorted:
  assumes "features_ok env"
  shows "sorted_wrt compat (cp_regs_of (cp_groups cpu env))"
proof (rule sorted_groups [of 0])
  show "sorted_wrt pair_ok (label 0 (map (\<lambda>(g, rs). map shape rs) (cp_groups cpu env)))"
    unfolding groups_shapes by (rule shapes_sorted)
  have "\<forall>(i, j) \<in> set cp_clashes. \<not> (fst (cp_groups cpu env ! i) \<and> fst (cp_groups cpu env ! j))"
    using assms by (auto simp: cp_clashes_def cp_groups_def features_ok_def Let_def)
  then show "\<forall>k < length (cp_groups cpu env). \<forall>j < length (cp_groups cpu env). fst (cp_groups cpu env ! k) \<longrightarrow>
      fst (cp_groups cpu env ! j) \<longrightarrow> (0 + k, 0 + j) \<notin> set cp_clashes" by auto
qed

lemma groups_valid:
  assumes "r \<in> set (cp_regs_of (cp_groups cpu env))"
  shows "ri_valid r \<and> ri_range r"
proof -
  have t: "list_all (\<lambda>r. ri_valid r \<and> ri_range r) cp_reginfo"
    "list_all (\<lambda>r. ri_valid r \<and> ri_range r) (v6_idregs cpu)"
    "list_all (\<lambda>r. ri_valid r \<and> ri_range r) v6_cp_reginfo"
    "list_all (\<lambda>r. ri_valid r \<and> ri_range r) not_v6_cp_reginfo"
    "list_all (\<lambda>r. ri_valid r \<and> ri_range r) v6k_cp_reginfo"
    "ri_valid (pmcr_reginfo cpu) \<and> ri_range (pmcr_reginfo cpu)"
    "ri_valid (clidr_reginfo cpu) \<and> ri_range (clidr_reginfo cpu)"
    "list_all (\<lambda>r. ri_valid r \<and> ri_range r) v7_cp_reginfo"
    "list_all (\<lambda>r. ri_valid r \<and> ri_range r) not_v7_cp_reginfo"
    "list_all (\<lambda>r. ri_valid r \<and> ri_range r) pmsav5_cp_reginfo"
    "list_all (\<lambda>r. ri_valid r \<and> ri_range r) vmsa_cp_reginfo"
    "list_all (\<lambda>r. ri_valid r \<and> ri_range r) t2ee_cp_reginfo"
    "list_all (\<lambda>r. ri_valid r \<and> ri_range r) generic_timer_cp_reginfo"
    "list_all (\<lambda>r. ri_valid r \<and> ri_range r) vapa_cp_reginfo"
    "list_all (\<lambda>r. ri_valid r \<and> ri_range r) cache_test_clean_cp_reginfo"
    "list_all (\<lambda>r. ri_valid r \<and> ri_range r) cache_dirty_status_cp_reginfo"
    "list_all (\<lambda>r. ri_valid r \<and> ri_range r) cache_block_ops_cp_reginfo"
    "list_all (\<lambda>r. ri_valid r \<and> ri_range r) omap_cp_reginfo"
    "list_all (\<lambda>r. ri_valid r \<and> ri_range r) strongarm_cp_reginfo"
    "list_all (\<lambda>r. ri_valid r \<and> ri_range r) xscale_cp_reginfo"
    "list_all (\<lambda>r. ri_valid r \<and> ri_range r) dummy_c15_cp_reginfo"
    "list_all (\<lambda>r. ri_valid r \<and> ri_range r) mpidr_cp_reginfo"
    "list_all (\<lambda>r. ri_valid r \<and> ri_range r) lpae_cp_reginfo"
    "list_all (\<lambda>r. ri_valid r \<and> ri_range r) trustzone_cp_reginfo"
    "ri_valid crn0_wi_reginfo \<and> ri_range crn0_wi_reginfo"
    "list_all (\<lambda>r. ri_valid r \<and> ri_range r) (id_cp_reginfo cpu)" "list_all (\<lambda>r. ri_valid r \<and> ri_range r) (map (\<lambda>r. r\<lparr>ri_access := PL1_RW\<rparr>) (id_cp_reginfo cpu))"
    "ri_valid (auxcr_reginfo cpu) \<and> ri_range (auxcr_reginfo cpu)"
    "ri_valid (sctlr cpu env) \<and> ri_range (sctlr cpu env)"
    by (simp_all add: cp_table_defs ri_valid_def ri_range_def cptype_valid_def cp_type_defs pl_defs reg0_def CP_ANY_def sctlr_def)
  have "list_all (\<lambda>(g, rs). list_all (\<lambda>r. ri_valid r \<and> ri_range r) rs) (cp_groups cpu env)"
    unfolding cp_groups_def Let_def by (simp add: t split: if_split)
  then show ?thesis using assms unfolding cp_regs_of_def by (auto simp: list_all_iff split: if_splits)
qed

lemma registered:
  assumes "features_ok env"
  shows "\<exists>m. register_cp_regs_for_features cpu env Map.empty = Inr m \<and> represents (cp_regs_of (cp_groups cpu env)) m"
proof -
  have n: "\<not> arm_feature env ARM_FEATURE_M" "\<not> (arm_feature env ARM_FEATURE_MPU \<and> arm_feature env ARM_FEATURE_V6)"
    using assms by (simp_all add: features_ok_def Let_def)
  have "represents [] Map.empty" by (simp add: represents_def lookup_spec_def)
  from define_regs_represents [OF this _ _ groups_sorted [OF assms]] show ?thesis
    unfolding register_all [OF n] using groups_valid by simp
qed

section \<open>Correctness\<close>

text \<open>
  C17. Registering the coprocessor registers of a processor with a consistent set of
  features never fails an assertion, whatever its identification values. The table answers
  every register code an instruction can name as the list of definitions does when the
  last matching definition is taken, with the wildcards of that definition replaced by the
  numbers of the instruction; codes without a definition are absent.
\<close>

theorem registers_defined:
  assumes "features_ok env"
  shows "\<exists>m. register_cp_regs_for_features cpu env Map.empty = Inr m
    \<and> (\<forall>cp is64 crn crm opc1 opc2. code_ok (cp, is64, crn, crm, opc1, opc2) \<longrightarrow>
         get_arm_cp_reginfo m (ENCODE_CP_REG cp is64 crn crm opc1 opc2)
           = lookup_spec (cp_regs_of (cp_groups cpu env)) (cp, is64, crn, crm, opc1, opc2))"
proof -
  from registered [OF assms] obtain m where "register_cp_regs_for_features cpu env Map.empty = Inr m"
    "represents (cp_regs_of (cp_groups cpu env)) m" by blast
  then show ?thesis unfolding represents_def get_arm_cp_reginfo_def by (metis encode.simps)
qed

definition demo_arm_cpu :: arm_cpu where
  "demo_arm_cpu = \<lparr>midr = 0x410fc090, ctr = 0, clidr = 0, ccsidr = replicate 16 0, reset_sctlr = 0xc50078, reset_auxcr = 0,
     id_pfr0 = 0, id_pfr1 = 0, id_dfr0 = 0, id_afr0 = 0, id_mmfr0 = 0, id_mmfr1 = 0, id_mmfr2 = 0, id_mmfr3 = 0,
     id_isar0 = 0, id_isar1 = 0, id_isar2 = 0, id_isar3 = 0, id_isar4 = 0, id_isar5 = 0, cpu_index = 0\<rparr>"

text \<open>A processor with the features V6, V6K, V7 and MPIDR.\<close>

definition demo_v7 :: cpu where
  "demo_v7 = demo_cpu\<lparr>features := 0x20000070\<rparr>"

lemma demo_v7_ok: "features_ok demo_v7"
  by (simp add: features_ok_def demo_v7_def arm_feature_def feature_defs)

theorem registers_defined_witness:
  "\<exists>m. register_cp_regs_for_features demo_arm_cpu demo_v7 Map.empty = Inr m
    \<and> map_option ri_name (get_arm_cp_reginfo m (ENCODE_CP_REG 15 0 13 0 0 2)) = Some ''TPIDRURW''
    \<and> map_option ri_crm (get_arm_cp_reginfo m (ENCODE_CP_REG 15 0 8 7 3 0)) = Some 7"
proof -
  let ?L = "cp_regs_of (cp_groups demo_arm_cpu demo_v7)"
  note d = lookup_spec_def cp_groups_def cp_table_defs demo_v7_def arm_feature_def feature_defs sctlr_def ri_keys_def
    reg0_def cp_range_def CP_ANY_def ri_is64_def cp_type_defs
  have 1: "map_option ri_name (lookup_spec ?L (15, 0, 13, 0, 0, 2)) = Some ''TPIDRURW''" by (simp add: d)
  have 2: "map_option ri_crm (lookup_spec ?L (15, 0, 8, 7, 3, 0)) = Some 7" by (simp add: d)
  show ?thesis using registers_defined [OF demo_v7_ok, of demo_arm_cpu] 1 2 by auto
qed

end
