(* ===== verification/Arm_Mmu.thy ===== *)
theory Arm_Mmu
  imports Arm_Interrupt
begin

text \<open>
  Address translation of \<^verbatim>\<open>target-arm/helper.c\<close>: the permission check \<open>check_ap\<close>, the
  table walks \<open>get_phys_addr_v5\<close>, \<open>get_phys_addr_v6\<close> and \<open>get_phys_addr_lpae\<close>, the region
  lookup \<open>get_phys_addr_mpu\<close>, and the fault handler \<open>cpu_arm_handle_mmu_fault\<close>. Physical
  memory, the page flags and the bit-field functions of QEMU are fields of \<open>mmu_ext\<close>;
  \<open>mmu_ext_ok\<close> states what the code relies on.
\<close>

section \<open>External functions and constants\<close>

record mmu_ext =
  PAGE_READ :: u32
  PAGE_WRITE :: u32
  PAGE_EXEC :: u32
  phys_ldl :: "u64 \<Rightarrow> u32"
  phys_ldq :: "u64 \<Rightarrow> u64"
  extract32 :: "u32 \<Rightarrow> nat \<Rightarrow> nat \<Rightarrow> u32"
  extract64 :: "u64 \<Rightarrow> nat \<Rightarrow> nat \<Rightarrow> u64"

definition mmu_ext_ok :: "mmu_ext \<Rightarrow> bool" where
  "mmu_ext_ok x \<longleftrightarrow> PAGE_READ x \<noteq> 0 \<and> PAGE_WRITE x \<noteq> 0 \<and> PAGE_EXEC x \<noteq> 0
     \<and> PAGE_READ x AND PAGE_WRITE x = 0 \<and> PAGE_READ x AND PAGE_EXEC x = 0 \<and> PAGE_WRITE x AND PAGE_EXEC x = 0
     \<and> extract32 x = (\<lambda>v start len. take_bit len (drop_bit start v))
     \<and> extract64 x = (\<lambda>v start len. take_bit len (drop_bit start v))"

text \<open>
  The result of a walk: the return value zero with the three results written through
  pointers, or a fault status.
\<close>

datatype walk = Mapped (w_phys_addr: u64) (w_prot: u32) (w_page_size: u32) | Fault u32

definition TARGET_PAGE_BITS :: nat where "TARGET_PAGE_BITS = 10"

definition MMU_USER_IDX :: int where "MMU_USER_IDX = 1"

section \<open>Short descriptors\<close>

definition check_ap :: "mmu_ext \<Rightarrow> cpu \<Rightarrow> u32 \<Rightarrow> u32 \<Rightarrow> int \<Rightarrow> bool \<Rightarrow> u32 result" where
  "check_ap x env ap domain_prot access_type is_user =
     (if domain_prot = 3 then Inr (PAGE_READ x OR PAGE_WRITE x)
      else
        let prot_ro = (if access_type = 1 then 0 else PAGE_READ x) in
        if ap = 0 then
          (if access_type = 1 then Inr 0
           else let sr = drop_bit 8 (cp15_c1_sys (cp15 env)) AND 3 in
             if sr = 1 then Inr (if is_user then 0 else PAGE_READ x)
             else if sr = 2 then Inr (PAGE_READ x)
             else Inr 0)
        else if ap = 1 then Inr (if is_user then 0 else PAGE_READ x OR PAGE_WRITE x)
        else if ap = 2 then Inr (if is_user then prot_ro else PAGE_READ x OR PAGE_WRITE x)
        else if ap = 3 then Inr (PAGE_READ x OR PAGE_WRITE x)
        else if ap = 4 then Inr 0
        else if ap = 5 then Inr (if is_user then 0 else prot_ro)
        else if ap = 6 then Inr prot_ro
        else if ap = 7 then (if \<not> arm_feature env ARM_FEATURE_V6K then Inr 0 else Inr prot_ro)
        else Inl Abort)"

definition get_level1_table_address :: "cpu \<Rightarrow> u32 \<Rightarrow> u32" where
  "get_level1_table_address env address =
     (let c = cp15 env;
          table = (if address AND cp15_c2_mask c \<noteq> 0 then cp15_c2_base1 c AND 0xffffc000
                   else cp15_c2_base0 c AND cp15_c2_base_mask c)
      in table OR (drop_bit 18 address AND 0x3ffc))"

text \<open>
  The end of a walk over short descriptors: the permission check, with the fault code the
  walk has chosen.
\<close>

definition v5_permission :: "mmu_ext \<Rightarrow> cpu \<Rightarrow> u32 \<Rightarrow> int \<Rightarrow> bool \<Rightarrow> u32 \<Rightarrow> u32 \<Rightarrow> u32 \<Rightarrow> u32 \<Rightarrow> u32 \<Rightarrow> walk result" where
  "v5_permission x env domain_prot access_type is_user domain code phys_addr ap page_size =
     cbind (check_ap x env ap domain_prot access_type is_user) (\<lambda>prot.
       if prot = 0 then Inr (Fault (code OR push_bit 4 domain))
       else Inr (Mapped (ucast phys_addr) (prot OR PAGE_EXEC x) page_size))"

definition v5_level2 :: "mmu_ext \<Rightarrow> cpu \<Rightarrow> u32 \<Rightarrow> int \<Rightarrow> bool \<Rightarrow> u32 \<Rightarrow> u32 \<Rightarrow> u32 \<Rightarrow> u32 \<Rightarrow> walk result" where
  "v5_level2 x env address access_type is_user desc type domain domain_prot =
     (let table = (if type = 1 then (desc AND 0xfffffc00) OR (drop_bit 10 address AND 0x3fc)
                   else (desc AND 0xfffff000) OR (drop_bit 8 address AND 0xffc));
          desc = phys_ldl x (ucast table);
          subpage_ap = drop_bit (unat (4 + (drop_bit 13 address AND 6))) desc AND 3;
          finish = v5_permission x env domain_prot access_type is_user domain 15
      in if desc AND 3 = 0 then Inr (Fault (7 OR push_bit 4 domain))
         else if desc AND 3 = 1 then finish ((desc AND 0xffff0000) OR (address AND 0xffff)) subpage_ap 0x10000
         else if desc AND 3 = 2 then finish ((desc AND 0xfffff000) OR (address AND 0xfff)) subpage_ap 0x1000
         else if type = 1 then
           (if arm_feature env ARM_FEATURE_XSCALE
            then finish ((desc AND 0xfffff000) OR (address AND 0xfff)) (drop_bit 4 desc AND 3) 0x400
            else Inr (Fault (7 OR push_bit 4 domain)))
         else finish ((desc AND 0xfffffc00) OR (address AND 0x3ff)) (drop_bit 4 desc AND 3) 0x400)"

definition get_phys_addr_v5 :: "mmu_ext \<Rightarrow> cpu \<Rightarrow> u32 \<Rightarrow> int \<Rightarrow> bool \<Rightarrow> walk result" where
  "get_phys_addr_v5 x env address access_type is_user =
     (let table = get_level1_table_address env address;
          desc = phys_ldl x (ucast table);
          type = desc AND 3;
          domain = drop_bit 5 desc AND 0x0f;
          domain_prot = drop_bit (unat (domain * 2)) (cp15_c3 (cp15 env)) AND 3
      in if type = 0 then Inr (Fault (5 OR push_bit 4 domain))
         else if domain_prot = 0 \<or> domain_prot = 2
         then Inr (Fault ((if type = 2 then 9 else 11) OR push_bit 4 domain))
         else if type = 2
         then v5_permission x env domain_prot access_type is_user domain 13
                ((desc AND 0xfff00000) OR (address AND 0x000fffff)) (drop_bit 10 desc AND 3) (1024 * 1024)
         else v5_level2 x env address access_type is_user desc type domain domain_prot)"

definition v6_permission ::
    "mmu_ext \<Rightarrow> cpu \<Rightarrow> u32 \<Rightarrow> int \<Rightarrow> bool \<Rightarrow> u32 \<Rightarrow> u32 \<Rightarrow> u32 \<Rightarrow> u32 \<Rightarrow> u32 \<Rightarrow> u32 \<Rightarrow> u32 \<Rightarrow> walk result" where
  "v6_permission x env domain_prot access_type is_user domain code phys_addr ap xn pxn page_size =
     (if domain_prot = 3
      then Inr (Mapped (ucast phys_addr) (PAGE_READ x OR PAGE_WRITE x OR PAGE_EXEC x) page_size)
      else
        let xn = (if pxn \<noteq> 0 \<and> \<not> is_user then 1 else xn) in
        if xn \<noteq> 0 \<and> access_type = 2 then Inr (Fault (code OR push_bit 4 domain))
        else if cp15_c1_sys (cp15 env) AND push_bit 29 1 \<noteq> 0 \<and> ap AND 1 = 0
        then Inr (Fault ((if code = 15 then 6 else 3) OR push_bit 4 domain))
        else cbind (check_ap x env ap domain_prot access_type is_user) (\<lambda>prot.
          if prot = 0 then Inr (Fault (code OR push_bit 4 domain))
          else Inr (Mapped (ucast phys_addr) (if xn = 0 then prot OR PAGE_EXEC x else prot) page_size)))"

definition v6_level2 :: "mmu_ext \<Rightarrow> cpu \<Rightarrow> u32 \<Rightarrow> int \<Rightarrow> bool \<Rightarrow> u32 \<Rightarrow> u32 \<Rightarrow> u32 \<Rightarrow> u32 \<Rightarrow> walk result" where
  "v6_level2 x env address access_type is_user desc pxn domain domain_prot =
     (let table = (desc AND 0xfffffc00) OR (drop_bit 10 address AND 0x3fc);
          desc = phys_ldl x (ucast table);
          ap = (drop_bit 4 desc AND 3) OR (drop_bit 7 desc AND 4);
          finish = v6_permission x env domain_prot access_type is_user domain 15
      in if desc AND 3 = 0 then Inr (Fault (7 OR push_bit 4 domain))
         else if desc AND 3 = 1
         then finish ((desc AND 0xffff0000) OR (address AND 0xffff)) ap (desc AND push_bit 15 1) pxn 0x10000
         else finish ((desc AND 0xfffff000) OR (address AND 0xfff)) ap (desc AND 1) pxn 0x1000)"

definition get_phys_addr_v6 :: "mmu_ext \<Rightarrow> cpu \<Rightarrow> u32 \<Rightarrow> int \<Rightarrow> bool \<Rightarrow> walk result" where
  "get_phys_addr_v6 x env address access_type is_user =
     (let table = get_level1_table_address env address;
          desc = phys_ldl x (ucast table);
          type = desc AND 3
      in if type = 0 \<or> (type = 3 \<and> \<not> arm_feature env ARM_FEATURE_PXN) then Inr (Fault 5)
         else
           let domain = (if type = 1 \<or> desc AND push_bit 18 1 = 0 then drop_bit 5 desc AND 0x0f else 0);
               domain_prot = drop_bit (unat (domain * 2)) (cp15_c3 (cp15 env)) AND 3
           in if domain_prot = 0 \<or> domain_prot = 2
              then Inr (Fault ((if type \<noteq> 1 then 9 else 11) OR push_bit 4 domain))
              else if type \<noteq> 1 then
                let (phys_addr, page_size) =
                      (if desc AND push_bit 18 1 \<noteq> 0
                       then ((desc AND 0xff000000) OR (address AND 0x00ffffff), 0x1000000)
                       else ((desc AND 0xfff00000) OR (address AND 0x000fffff), 0x100000));
                    ap = (drop_bit 10 desc AND 3) OR (drop_bit 13 desc AND 4)
                in v6_permission x env domain_prot access_type is_user domain 13 phys_addr ap
                     (desc AND push_bit 4 1) (desc AND 1) page_size
              else v6_level2 x env address access_type is_user desc
                     (if arm_feature env ARM_FEATURE_PXN then drop_bit 2 desc AND 1 else 0) domain domain_prot)"

section \<open>Long descriptors\<close>

definition translation_fault :: u32 where "translation_fault = 1"
definition access_fault :: u32 where "access_fault = 2"
definition permission_fault :: u32 where "permission_fault = 3"

definition lpae_fault :: "u32 \<Rightarrow> nat \<Rightarrow> walk" where
  "lpae_fault fault_type level = Fault (push_bit 9 1 OR push_bit 2 fault_type OR of_nat level)"

definition lpae_attrs :: "mmu_ext \<Rightarrow> u64 \<Rightarrow> u32 \<Rightarrow> u32" where
  "lpae_attrs x descriptor tableattrs =
     (let attrs = ucast (extract64 x descriptor 2 10 OR push_bit 10 (extract64 x descriptor 52 12));
          attrs = attrs OR push_bit 11 (extract32 x tableattrs 0 2);
          attrs = attrs OR push_bit 5 (extract32 x tableattrs 3 1)
      in if extract32 x tableattrs 2 1 \<noteq> 0 then attrs AND NOT (push_bit 4 1) else attrs)"

text \<open>
  The loop over the levels: the level of the fault, or the level, the address, the page
  size and the attributes of the block or page found.
\<close>

function lpae_loop :: "mmu_ext \<Rightarrow> u32 \<Rightarrow> nat \<Rightarrow> u64 \<Rightarrow> u32 \<Rightarrow> nat + nat \<times> u64 \<times> u32 \<times> u32" where
  "lpae_loop x address level descaddr tableattrs =
     (let descaddr = descaddr OR ucast (drop_bit (9 * (4 - level)) address AND 0xff8);
          descriptor = phys_ldq x descaddr
      in if descriptor AND 1 = 0 \<or> (descriptor AND 2 = 0 \<and> level = 3) then Inl level
         else
           let descaddr = descriptor AND 0xfffffff000 in
           if descriptor AND 2 \<noteq> 0 \<and> level < 3
           then lpae_loop x address (level + 1) descaddr (tableattrs OR ucast (extract64 x descriptor 59 5))
           else
             let page_size = push_bit (39 - 9 * level) 1 :: u32 in
             Inr (level, descaddr OR ucast (address AND (page_size - 1)), page_size,
                  lpae_attrs x descriptor tableattrs))"
  by pat_completeness auto

termination lpae_loop
  by (relation "measure (\<lambda>(x, address, level, descaddr, tableattrs). 3 - level)") auto

declare lpae_loop.simps [simp del]

definition lpae_select :: "mmu_ext \<Rightarrow> cpu \<Rightarrow> u32 \<Rightarrow> bool option" where
  "lpae_select x env address =
     (let t0sz = extract32 x (cp15_c2_control (cp15 env)) 0 3;
          t1sz = extract32 x (cp15_c2_control (cp15 env)) 16 3
      in if t0sz \<noteq> 0 \<and> extract32 x address (unat (32 - t0sz)) (unat t0sz) = 0 then Some False
         else if t1sz \<noteq> 0 \<and> extract32 x (NOT address) (unat (32 - t1sz)) (unat t1sz) = 0 then Some True
         else if t0sz = 0 then Some False
         else if t1sz = 0 then Some True
         else None)"

definition lpae_permission :: "mmu_ext \<Rightarrow> int \<Rightarrow> bool \<Rightarrow> nat \<Rightarrow> u64 \<Rightarrow> u32 \<Rightarrow> u32 \<Rightarrow> walk" where
  "lpae_permission x access_type is_user level descaddr page_size attrs =
     (if attrs AND push_bit 8 1 = 0 then lpae_fault access_fault level
      else if is_user \<and> attrs AND push_bit 4 1 = 0 then lpae_fault permission_fault level
      else
        let prot = PAGE_READ x OR PAGE_WRITE x OR PAGE_EXEC x;
            never = (attrs AND push_bit 12 1 \<noteq> 0 \<or> (\<not> is_user \<and> attrs AND push_bit 11 1 \<noteq> 0));
            readonly = (attrs AND push_bit 5 1 \<noteq> 0)
        in if never \<and> access_type = 2 then lpae_fault permission_fault level
           else
             let prot = (if never then prot AND NOT (PAGE_EXEC x) else prot) in
             if readonly \<and> access_type = 1 then lpae_fault permission_fault level
             else
               let prot = (if readonly then prot AND NOT (PAGE_WRITE x) else prot) in
               Mapped descaddr prot page_size)"

definition lpae_walk :: "mmu_ext \<Rightarrow> u32 \<Rightarrow> int \<Rightarrow> bool \<Rightarrow> u64 \<Rightarrow> u32 \<Rightarrow> walk" where
  "lpae_walk x address access_type is_user ttbr tsz =
     (let (level, n) = (if 1 < tsz then (2, 14 - unat tsz) else (1, 5 - unat tsz));
          address = address AND drop_bit (unat tsz) 0xffffffff;
          descaddr = extract64 x ttbr 0 40;
          descaddr = descaddr AND NOT (push_bit n 1 - 1)
      in case lpae_loop x address level descaddr 0 of
           Inl level \<Rightarrow> lpae_fault translation_fault level
         | Inr (level, descaddr, page_size, attrs) \<Rightarrow>
             lpae_permission x access_type is_user level descaddr page_size attrs)"

definition get_phys_addr_lpae :: "mmu_ext \<Rightarrow> cpu \<Rightarrow> u32 \<Rightarrow> int \<Rightarrow> bool \<Rightarrow> walk" where
  "get_phys_addr_lpae x env address access_type is_user =
     (let c = cp15 env in
      case lpae_select x env address of
        None \<Rightarrow> lpae_fault translation_fault 1
      | Some False \<Rightarrow>
          if extract32 x (cp15_c2_control c) 7 1 \<noteq> 0 then lpae_fault translation_fault 1
          else lpae_walk x address access_type is_user
                 (push_bit 32 (ucast (cp15_c2_base0_hi c)) OR ucast (cp15_c2_base0 c))
                 (extract32 x (cp15_c2_control c) 0 3)
      | Some True \<Rightarrow>
          if extract32 x (cp15_c2_control c) 23 1 \<noteq> 0 then lpae_fault translation_fault 1
          else lpae_walk x address access_type is_user
                 (push_bit 32 (ucast (cp15_c2_base1_hi c)) OR ucast (cp15_c2_base1 c))
                 (extract32 x (cp15_c2_control c) 16 3))"

section \<open>Memory protection unit\<close>

text \<open>The search for the region of an address, from region 7 down to region 0.\<close>

fun mpu_region :: "u32 list \<Rightarrow> u32 \<Rightarrow> nat \<Rightarrow> nat option" where
  "mpu_region region address 0 = None"
| "mpu_region region address (Suc n) =
     (let base = region ! n;
          msk = push_bit 1 (push_bit (unat (drop_bit 1 base AND 0x1f)) 1) - 1 :: u32
      in if base AND 1 = 0 then mpu_region region address n
         else if (base XOR address) AND NOT msk = 0 then Some n
         else mpu_region region address n)"

definition get_phys_addr_mpu :: "mmu_ext \<Rightarrow> cpu \<Rightarrow> u32 \<Rightarrow> int \<Rightarrow> bool \<Rightarrow> walk" where
  "get_phys_addr_mpu x env address access_type is_user =
     (case mpu_region (cp15_c6_region (cp15 env)) address 8 of
        None \<Rightarrow> Fault 2
      | Some n \<Rightarrow>
          let msk = (if access_type = 2 then cp15_c5_insn (cp15 env) else cp15_c5_data (cp15 env));
              msk = drop_bit (n * 4) msk AND 0xf;
              ok = (\<lambda>prot. Mapped (ucast address) (prot OR PAGE_EXEC x) (push_bit TARGET_PAGE_BITS 1))
          in if msk = 0 then Fault 1
             else if msk = 1 then (if is_user then Fault 1 else ok (PAGE_READ x OR PAGE_WRITE x))
             else if msk = 2 then ok (if \<not> is_user then PAGE_READ x OR PAGE_WRITE x else PAGE_READ x)
             else if msk = 3 then ok (PAGE_READ x OR PAGE_WRITE x)
             else if msk = 5 then (if is_user then Fault 1 else ok (PAGE_READ x))
             else if msk = 6 then ok (PAGE_READ x)
             else Fault 1)"

section \<open>Translation and faults\<close>

definition extended_addresses_enabled :: "cpu \<Rightarrow> bool" where
  "extended_addresses_enabled env \<longleftrightarrow>
     arm_feature env ARM_FEATURE_LPAE \<and> cp15_c2_control (cp15 env) AND push_bit 31 1 \<noteq> 0"

definition get_phys_addr :: "mmu_ext \<Rightarrow> cpu \<Rightarrow> u32 \<Rightarrow> int \<Rightarrow> bool \<Rightarrow> walk result" where
  "get_phys_addr x env address access_type is_user =
     (let address = (if address < 0x02000000 then address + cp15_c13_fcse (cp15 env) else address) in
      if cp15_c1_sys (cp15 env) AND 1 = 0
      then Inr (Mapped (ucast address) (PAGE_READ x OR PAGE_WRITE x OR PAGE_EXEC x) (push_bit TARGET_PAGE_BITS 1))
      else if arm_feature env ARM_FEATURE_MPU then Inr (get_phys_addr_mpu x env address access_type is_user)
      else if extended_addresses_enabled env then Inr (get_phys_addr_lpae x env address access_type is_user)
      else if cp15_c1_sys (cp15 env) AND push_bit 23 1 \<noteq> 0 then get_phys_addr_v6 x env address access_type is_user
      else get_phys_addr_v5 x env address access_type is_user)"

text \<open>
  The fault handler either enters a page into the translation buffer (the call
  \<open>tlb_set_page\<close> with its arguments, of QEMU's core) and returns 0, or records the fault and
  returns 1.
\<close>

datatype tlb_set_page = Tlb_set_page (tlb_vaddr: u32) (tlb_paddr: u64) (tlb_prot: u32) (tlb_mmu_idx: int) (tlb_size: u32)

definition cpu_arm_handle_mmu_fault ::
    "mmu_ext \<Rightarrow> cpu \<Rightarrow> u32 \<Rightarrow> int \<Rightarrow> int \<Rightarrow> (int \<times> tlb_set_page option \<times> cpu) result" where
  "cpu_arm_handle_mmu_fault x env address access_type mmu_idx =
     (let is_user = (mmu_idx = MMU_USER_IDX) in
      cbind (get_phys_addr x env address access_type is_user) (\<lambda>ret. case ret of
        Mapped phys_addr prot page_size \<Rightarrow>
          let phys_addr = phys_addr AND NOT 0x3ff; address = address AND NOT 0x3ff
          in Inr (0, Some (Tlb_set_page address phys_addr prot mmu_idx page_size), env)
      | Fault ret \<Rightarrow>
          if access_type = 2
          then Inr (1, None, env\<lparr>cp15 := (cp15 env)\<lparr>cp15_c5_insn := ret, cp15_c6_insn := address\<rparr>,
                                 exception_index := EXCP_PREFETCH_ABORT\<rparr>)
          else
            let c5_data = (if access_type = 1 \<and> arm_feature env ARM_FEATURE_V6 then ret OR push_bit 11 1 else ret)
            in Inr (1, None, env\<lparr>cp15 := (cp15 env)\<lparr>cp15_c5_data := c5_data, cp15_c6_data := address\<rparr>,
                                 exception_index := EXCP_DATA_ABORT\<rparr>)))"

definition cpu_get_phys_page_debug :: "mmu_ext \<Rightarrow> cpu \<Rightarrow> u32 \<Rightarrow> u64 result" where
  "cpu_get_phys_page_debug x env addr =
     cbind (get_phys_addr x env addr 0 False) (\<lambda>ret. case ret of
       Mapped phys_addr prot page_size \<Rightarrow> Inr phys_addr | Fault ret \<Rightarrow> Inr (- 1))"


section \<open>Addresses of one page\<close>

text \<open>
  The translation buffer holds pages of 1024 bytes. Two addresses of one page are
  translated to the same frame: \<open>move_page\<close> puts an address into the frame of a walk.
\<close>

definition same_page :: "u32 \<Rightarrow> u32 \<Rightarrow> bool" where
  "same_page a b \<longleftrightarrow> a AND NOT 0x3ff = b AND NOT 0x3ff"

definition frame :: "u32 \<Rightarrow> u64 \<Rightarrow> u64" where
  "frame b pa = (pa AND NOT 0x3ff) OR ucast (b AND 0x3ff)"

fun move_page :: "u32 \<Rightarrow> walk \<Rightarrow> walk" where
  "move_page b (Mapped pa prot sz) = Mapped (frame b pa) prot sz"
| "move_page b (Fault c) = Fault c"

lemma page_bits: "0x3ff = (mask 10 :: 'a::len word)"
  by (simp add: mask_eq_exp_minus_1)

lemma bit_u32_less: "bit w n \<Longrightarrow> n < 32" for w :: u32
  using bit_imp_le_length [of w n] by simp

lemma same_page_bits: "same_page a b \<longleftrightarrow> (\<forall>n \<ge> 10. bit a n = bit b n)"
  by (auto simp: same_page_def page_bits bit_eq_iff bit_simps not_less dest: bit_u32_less)

lemma same_page_drop: "same_page a b \<Longrightarrow> 10 \<le> k \<Longrightarrow> drop_bit k a = drop_bit k b"
  by (auto simp: same_page_bits intro!: bit_word_eqI simp: bit_simps)

lemma same_page_and:
  assumes "same_page a b" "m AND 0x3ff = 0"
  shows "a AND m = b AND m"
proof (rule bit_word_eqI)
  fix n assume "n < LENGTH(32)"
  have "bit m n \<Longrightarrow> 10 \<le> n"
    using assms(2) by (auto simp: page_bits bit_eq_iff bit_simps not_less dest: bit_u32_less)
  then show "bit (a AND m) n = bit (b AND m) n" using assms(1) by (auto simp: same_page_bits bit_simps)
qed

lemma frame_or:
  assumes "same_page a b" "hi AND 0x3ff = 0" "m AND 0x3ff = 0x3ff"
  shows "frame b (ucast ((d AND hi) OR (a AND m) :: u32)) = ucast ((d AND hi) OR (b AND m))"
proof (rule bit_word_eqI)
  fix n assume n: "n < LENGTH(64)"
  have h: "bit hi n \<Longrightarrow> 10 \<le> n"
    using assms(2) by (auto simp: page_bits bit_eq_iff bit_simps not_less dest: bit_u32_less)
  have "bit (m AND 0x3ff) n = bit (0x3ff :: u32) n" by (simp only: assms(3))
  then have m: "n < 10 \<Longrightarrow> bit m n" by (simp add: page_bits bit_simps)
  show "bit (frame b (ucast ((d AND hi) OR (a AND m)))) n = bit (ucast ((d AND hi) OR (b AND m)) :: u64) n"
  proof (cases "n < 10")
    case True
    then show ?thesis using h m by (auto simp: frame_def page_bits bit_simps)
  next
    case False
    then show ?thesis using assms(1) n by (auto simp: frame_def page_bits bit_simps same_page_bits not_less)
  qed
qed


lemma v5_permission_page:
  assumes "frame b (ucast pa) = ucast pb"
  shows "v5_permission x env dp t u dmn code pb ap sz = map_sum id (move_page b) (v5_permission x env dp t u dmn code pa ap sz)"
  by (cases "check_ap x env ap dp t u") (simp_all add: v5_permission_def assms)

lemma v6_permission_page:
  assumes "frame b (ucast pa) = ucast pb"
  shows "v6_permission x env dp t u dmn code pb ap xn pxn sz
    = map_sum id (move_page b) (v6_permission x env dp t u dmn code pa ap xn pxn sz)"
  by (cases u; cases "check_ap x env ap dp t u") (simp_all add: v6_permission_def assms)

lemma level1_page: "same_page a b \<Longrightarrow> cp15_c2_mask (cp15 env) AND 0x3ff = 0 \<Longrightarrow>
    get_level1_table_address env a = get_level1_table_address env b"
  by (simp add: get_level1_table_address_def same_page_drop same_page_and)

lemma v5_level2_page:
  assumes "same_page a b"
  shows "v5_level2 x env b t u desc type dmn dp = map_sum id (move_page b) (v5_level2 x env a t u desc type dmn dp)"
proof -
  have d: "drop_bit 8 a AND 0xffc = drop_bit 8 b AND 0xffc"
  proof (rule bit_word_eqI)
    fix n
    have "bit (0xffc :: u32) n \<Longrightarrow> 2 \<le> n" by (cases n; cases "n - 1") (simp_all add: bit_simps)
    then show "bit (drop_bit 8 a AND 0xffc) n = bit (drop_bit 8 b AND 0xffc) n"
      using assms by (auto simp: same_page_bits bit_simps)
  qed
  have f: "frame b (ucast ((d AND 0xffff0000) OR (a AND 0xffff))) = ucast ((d AND 0xffff0000) OR (b AND 0xffff))"
    "frame b (ucast ((d AND 0xfffff000) OR (a AND 0xfff))) = ucast ((d AND 0xfffff000) OR (b AND 0xfff))"
    "frame b (ucast ((d AND 0xfffffc00) OR (a AND 0x3ff))) = ucast ((d AND 0xfffffc00) OR (b AND 0x3ff))" for d :: u32
    by (rule frame_or [OF assms]; simp)+
  show ?thesis
    using same_page_drop [OF assms]
    by (simp add: v5_level2_def Let_def d f [THEN v5_permission_page])
qed

lemma v5_page:
  assumes "same_page a b" "cp15_c2_mask (cp15 env) AND 0x3ff = 0"
  shows "get_phys_addr_v5 x env b t u = map_sum id (move_page b) (get_phys_addr_v5 x env a t u)"
proof -
  have f: "frame b (ucast ((d AND 0xfff00000) OR (a AND 0x000fffff))) = ucast ((d AND 0xfff00000) OR (b AND 0x000fffff))" for d :: u32
    by (rule frame_or [OF assms(1)]) simp_all
  show ?thesis
    by (simp add: get_phys_addr_v5_def Let_def level1_page [OF assms] f [THEN v5_permission_page] v5_level2_page [OF assms(1)])
qed


lemma v6_level2_page:
  assumes "same_page a b"
  shows "v6_level2 x env b t u desc pxn dmn dp = map_sum id (move_page b) (v6_level2 x env a t u desc pxn dmn dp)"
proof -
  have f: "frame b (ucast ((d AND 0xffff0000) OR (a AND 0xffff))) = ucast ((d AND 0xffff0000) OR (b AND 0xffff))"
    "frame b (ucast ((d AND 0xfffff000) OR (a AND 0xfff))) = ucast ((d AND 0xfffff000) OR (b AND 0xfff))" for d :: u32
    by (rule frame_or [OF assms]; simp)+
  show ?thesis
    by (simp add: v6_level2_def Let_def same_page_drop [OF assms] f [THEN v6_permission_page])
qed

lemma v6_page:
  assumes "same_page a b" "cp15_c2_mask (cp15 env) AND 0x3ff = 0"
  shows "get_phys_addr_v6 x env b t u = map_sum id (move_page b) (get_phys_addr_v6 x env a t u)"
proof -
  have f: "frame b (ucast ((d AND 0xfff00000) OR (a AND 0x000fffff))) = ucast ((d AND 0xfff00000) OR (b AND 0x000fffff))"
    "frame b (ucast ((d AND 0xff000000) OR (a AND 0x00ffffff))) = ucast ((d AND 0xff000000) OR (b AND 0x00ffffff))" for d :: u32
    by (rule frame_or [OF assms(1)]; simp)+
  show ?thesis
    by (simp add: get_phys_addr_v6_def Let_def level1_page [OF assms] f [THEN v6_permission_page] v6_level2_page [OF assms(1)])
qed

lemma lpae_index_page:
  assumes "same_page a b" "level \<le> 3"
  shows "drop_bit (9 * (4 - level)) a AND 0xff8 = drop_bit (9 * (4 - level)) b AND 0xff8"
proof (rule bit_word_eqI)
  fix n
  have "bit (0xff8 :: u32) n \<Longrightarrow> 3 \<le> n" by (cases n; cases "n - 1"; cases "n - 2") (simp_all add: bit_simps)
  then show "bit (drop_bit (9 * (4 - level)) a AND 0xff8) n = bit (drop_bit (9 * (4 - level)) b AND 0xff8) n"
    using assms by (auto simp: same_page_bits bit_simps)
qed

lemma lpae_offset_page:
  assumes "same_page a b" "1 \<le> level" "level \<le> 3"
  shows "frame b ((d AND 0xfffffff000) OR ucast (a AND (push_bit (39 - 9 * level) 1 - 1)))
    = (d AND 0xfffffff000) OR ucast (b AND (push_bit (39 - 9 * level) 1 - 1))"
proof (rule bit_word_eqI)
  fix n assume n: "n < LENGTH(64)"
  define k where "k = 39 - 9 * level"
  have k: "12 \<le> k" using assms(3) by (simp add: k_def)
  have m: "push_bit k 1 - 1 = (mask k :: u32)" by (simp add: push_bit_eq_mult mask_eq_exp_minus_1)
  have d: "bit (0xfffffff000 :: u64) n \<Longrightarrow> 10 \<le> n"
  proof (rule ccontr)
    assume "bit (0xfffffff000 :: u64) n" "\<not> 10 \<le> n"
    then have "bit (0xfffffff000 AND 0x3ff :: u64) n" by (simp add: page_bits bit_simps)
    then show False by simp
  qed
  show "bit (frame b ((d AND 0xfffffff000) OR ucast (a AND (push_bit (39 - 9 * level) 1 - 1)))) n
    = bit ((d AND 0xfffffff000) OR ucast (b AND (push_bit (39 - 9 * level) 1 - 1))) n"
    unfolding k_def [symmetric] m using assms(1) k n d
    by (auto simp: frame_def page_bits bit_simps same_page_bits not_less)
qed


lemma lpae_loop_page:
  assumes "same_page a b" "1 \<le> level" "level \<le> 3"
  shows "lpae_loop x b level d ta = map_sum id (\<lambda>(l, pa, sz, ats). (l, frame b pa, sz, ats)) (lpae_loop x a level d ta)"
  using assms
proof (induction x a level d ta rule: lpae_loop.induct)
  case (1 x a level d ta)
  let ?q = "d OR ucast (drop_bit (9 * (4 - level)) b AND 0xff8)"
  have i: "drop_bit (9 * (4 - level)) a AND 0xff8 = drop_bit (9 * (4 - level)) b AND 0xff8"
    using lpae_index_page [OF 1(2,4)] .
  show ?case
  proof (cases "phys_ldq x ?q AND 1 = 0 \<or> (phys_ldq x ?q AND 2 = 0 \<and> level = 3)")
    case True
    then show ?thesis by (simp add: lpae_loop.simps [of x _ level] Let_def i)
  next
    case no_fault: False
    show ?thesis
    proof (cases "phys_ldq x ?q AND 2 \<noteq> 0 \<and> level < 3")
      case True
      then show ?thesis
        using 1(1) [OF refl refl _ refl, unfolded i, OF no_fault True] 1(2,3) no_fault
        by (simp add: lpae_loop.simps [of x _ level] Let_def i)
    next
      case False
      then show ?thesis
        unfolding lpae_loop.simps [of x _ level] Let_def i if_not_P [OF no_fault] if_not_P [OF False]
        using lpae_offset_page [OF 1(2,3,4), of "phys_ldq x ?q"] by simp
    qed
  qed
qed

lemma lpae_select_page:
  assumes "same_page a b" "mmu_ext_ok x"
  shows "lpae_select x env a = lpae_select x env b"
proof -
  have s: "10 \<le> unat (32 - take_bit 3 w)" for w :: u32
  proof -
    have "unat (take_bit 3 w) < 8" using unat_take_bit_less [of 3 w] by simp
    then show ?thesis by (simp add: unat_sub word_le_nat_alt)
  qed
  have n: "same_page (NOT a) (NOT b)" using assms(1) by (auto simp: same_page_bits bit_simps)
  have e: "extract32 x = (\<lambda>v start len. take_bit len (drop_bit start v))" using assms(2) by (simp add: mmu_ext_ok_def)
  show ?thesis
    unfolding lpae_select_def e Let_def drop_bit_0 id_apply
    by (simp only: same_page_drop [OF n s] same_page_drop [OF assms(1) s])
qed

lemma lpae_walk_page:
  assumes "same_page a b" "unat tsz < 8"
  shows "lpae_walk x b t u ttbr tsz = move_page b (lpae_walk x a t u ttbr tsz)"
proof -
  let ?m = "drop_bit (unat tsz) 0xffffffff :: u32"
  have p: "lpae_permission x t u level (frame b d) sz ats = move_page b (lpae_permission x t u level d sz ats)" for level d sz ats
    by (simp add: lpae_permission_def lpae_fault_def Let_def)
  have same: "same_page (a AND ?m) (b AND ?m)"
    using assms(1) by (auto simp: same_page_bits bit_simps)
  have "?m AND 0x3ff = 0x3ff"
  proof (rule bit_word_eqI)
    fix n
    have one: "0xffffffff = (mask 32 :: u32)" by (simp add: mask_eq_exp_minus_1)
    show "bit (?m AND 0x3ff) n = bit (0x3ff :: u32) n"
      unfolding one using assms(2) by (auto simp: page_bits bit_simps)
  qed
  then have f: "frame (b AND ?m) d = frame b d" for d by (simp add: frame_def and.assoc)
  define level n where "level = (if 1 < tsz then 2 else 1 :: nat)" and "n = (if 1 < tsz then 14 - unat tsz else 5 - unat tsz)"
  have l: "(if 1 < tsz then (2, 14 - unat tsz) else (1, 5 - unat tsz)) = (level, n)" "1 \<le> level" "level \<le> 3"
    by (simp_all add: level_def n_def)
  show ?thesis
    unfolding lpae_walk_def l(1) Let_def prod.case lpae_loop_page [OF same l(2,3)] f
    by (simp add: lpae_fault_def p split: sum.split)
qed

lemma lpae_page:
  assumes "same_page a b" "mmu_ext_ok x"
  shows "get_phys_addr_lpae x env b t u = move_page b (get_phys_addr_lpae x env a t u)"
proof -
  have e: "extract32 x = (\<lambda>v start len. take_bit len (drop_bit start v))" using assms(2) by (simp add: mmu_ext_ok_def)
  have s: "unat (extract32 x w k 3) < 8" for w k using unat_take_bit_less [of 3 "drop_bit k w"] by (simp add: e)
  show ?thesis
    unfolding get_phys_addr_lpae_def lpae_select_page [OF assms]
    by (simp add: lpae_walk_page [OF assms(1) s] lpae_fault_def Let_def split: option.split bool.split)
qed


definition mva :: "cpu \<Rightarrow> u32 \<Rightarrow> u32" where
  "mva env a = (if a < 0x02000000 then a + cp15_c13_fcse (cp15 env) else a)"

text \<open>
  What the table masks and the process identifier must satisfy: they do not split a page.
\<close>

definition mmu_wf :: "cpu \<Rightarrow> bool" where
  "mmu_wf env \<longleftrightarrow> cp15_c13_fcse (cp15 env) AND 0x3ff = 0 \<and> cp15_c2_mask (cp15 env) AND 0x3ff = 0"

lemma page_split: "a = (a AND NOT 0x3ff) + (a AND 0x3ff)" for a :: u32
proof -
  have "(a AND NOT 0x3ff) + (a AND 0x3ff) = (a AND NOT 0x3ff) OR (a AND 0x3ff)"
    by (rule disjunctive_add) (auto simp: bit_simps)
  then show ?thesis by (simp flip: bit.conj_disj_distrib)
qed

lemma same_page_mva:
  assumes "same_page a b" "mmu_wf env"
  shows "same_page (mva env a) (mva env b)" "mva env b AND 0x3ff = b AND 0x3ff"
proof -
  let ?f = "cp15_c13_fcse (cp15 env)"
  have low: "(w + ?f) AND 0x3ff = w AND 0x3ff" for w
  proof -
    have "unat (take_bit 10 (w + ?f)) = (unat w + unat ?f) mod 2 ^ 10"
      by (simp add: unat_take_bit_mod unat_word_ariths mod_mod_cancel)
    also have "\<dots> = unat (take_bit 10 w)"
      using assms(2) unat_take_bit_mod [of 10 ?f]
      by (simp add: mmu_wf_def page_bits take_bit_eq_mask [symmetric] unat_take_bit_mod mod_add_right_eq [of _ "unat ?f", symmetric])
    finally have "take_bit 10 (w + ?f) = take_bit 10 w" by (simp only: word_unat_eq_iff)
    then show ?thesis by (simp add: page_bits take_bit_eq_mask)
  qed
  have high: "(w + ?f) AND NOT 0x3ff = (w AND NOT 0x3ff) + ?f" for w
  proof -
    have "w + ?f = ((w + ?f) AND NOT 0x3ff) + (w AND 0x3ff)" using page_split [of "w + ?f"] low [of w] by simp
    moreover have "w + ?f = (w AND NOT 0x3ff) + (w AND 0x3ff) + ?f" using page_split [of w] by simp
    ultimately show ?thesis by (simp add: algebra_simps)
  qed
  have "w < 0x02000000 \<longleftrightarrow> drop_bit 25 w = 0" for w :: u32
    by (simp add: word_less_nat_alt unat_drop_bit_div word_unat_eq_iff div_eq_0_iff)
  then have lt: "a < 0x02000000 \<longleftrightarrow> b < 0x02000000" using same_page_drop [OF assms(1), of 25] by simp
  show "same_page (mva env a) (mva env b)"
    using assms(1) unfolding mva_def lt same_page_def by (cases "b < 0x02000000"; simp only: high if_True if_False)
  show "mva env b AND 0x3ff = b AND 0x3ff" by (simp add: mva_def low)
qed


lemma get_phys_addr_page:
  assumes "same_page a b" "mmu_ext_ok x" "mmu_wf env"
    and "\<not> arm_feature env ARM_FEATURE_MPU \<or> cp15_c1_sys (cp15 env) AND 1 = 0"
  shows "get_phys_addr x env b t u = map_sum id (move_page b) (get_phys_addr x env a t u)"
proof -
  note m = same_page_mva [OF assms(1,3)]
  have c: "cp15_c2_mask (cp15 env) AND 0x3ff = 0" using assms(3) by (simp add: mmu_wf_def)
  have f: "move_page (mva env b) w = move_page b w" for w
    by (cases w) (simp_all add: frame_def m(2))
  have off: "frame b (ucast (mva env a)) = ucast (mva env b)"
  proof -
    have "mva env a AND NOT 0x3ff = mva env b AND NOT 0x3ff" using m(1) by (simp add: same_page_def)
    then have "frame (mva env b) (ucast (mva env a)) = ucast (mva env b)"
      using frame_or [OF m(1), of 0 "- 1" 0] by simp
    then show ?thesis by (simp add: frame_def m(2))
  qed
  show ?thesis
    using assms(4) unfolding get_phys_addr_def Let_def mva_def [symmetric]
    by (auto simp: off v5_page [OF m(1) c] v6_page [OF m(1) c] lpae_page [OF m(1) assms(2)] f
        sum.map_comp comp_def intro!: sum.map_cong0)
qed

section \<open>Access rights\<close>

definition need :: "mmu_ext \<Rightarrow> int \<Rightarrow> u32" where
  "need x t = (if t = 1 then PAGE_WRITE x else if t = 2 then PAGE_EXEC x else PAGE_READ x)"


lemma page_flags:
  assumes "mmu_ext_ok x"
  shows "PAGE_READ x AND PAGE_READ x \<noteq> 0" "PAGE_WRITE x AND PAGE_WRITE x \<noteq> 0" "PAGE_EXEC x AND PAGE_EXEC x \<noteq> 0"
    "PAGE_READ x AND PAGE_WRITE x = 0" "PAGE_WRITE x AND PAGE_READ x = 0" "PAGE_READ x AND PAGE_EXEC x = 0"
    "PAGE_EXEC x AND PAGE_READ x = 0" "PAGE_WRITE x AND PAGE_EXEC x = 0" "PAGE_EXEC x AND PAGE_WRITE x = 0"
  using assms by (auto simp: mmu_ext_ok_def and.commute)

lemma or_nonzero: "a \<noteq> 0 \<Longrightarrow> a OR b \<noteq> 0" "b \<noteq> 0 \<Longrightarrow> a OR b \<noteq> 0" for a b :: "'a::len word"
  by (metis or_eq_0_iff)+

lemma and_or_right: "(a OR b) AND c = (a AND c) OR (b AND c)" for a b c :: "'a::len word"
  by (rule bit.conj_disj_distrib2)

lemma and_not_disjoint:
  fixes a b :: "'a::len word"
  assumes "a AND b = 0"
  shows "a AND NOT b = a"
proof (rule bit_word_eqI)
  fix n
  have "\<not> bit (a AND b) n" by (simp add: assms)
  then show "n < LENGTH('a) \<Longrightarrow> bit (a AND NOT b) n = bit a n" by (auto simp: bit_simps)
qed

text \<open>
  The permission check answers alike for all kinds of access: what it grants is either
  reading or reading and writing, and it grants writing to every access or to none.
\<close>

lemma check_ap_rights:
  assumes "mmu_ext_ok x" "check_ap x env ap dp t u = Inr prot" "prot \<noteq> 0"
  shows "prot = PAGE_READ x \<and> t \<noteq> 1 \<or> prot = PAGE_READ x OR PAGE_WRITE x"
    and "t' \<noteq> 1 \<or> prot AND PAGE_WRITE x \<noteq> 0 \<Longrightarrow> \<exists>prot'. check_ap x env ap dp t' u = Inr prot' \<and> prot' \<noteq> 0"
  using assms(2,3) page_flags [OF assms(1)] or_nonzero [of "PAGE_READ x" "PAGE_WRITE x"]
  by (auto simp: check_ap_def Let_def split: if_splits)


text \<open>
  A walk, as a function of the kind of access, has consistent rights if it grants what was
  asked for, and if every other right it hands out with the page would be granted too, at
  the same address.
\<close>

definition rights_ok :: "mmu_ext \<Rightarrow> (int \<Rightarrow> walk result) \<Rightarrow> bool" where
  "rights_ok x W \<longleftrightarrow> (\<forall>t \<in> {0, 1, 2}. \<forall>t' \<in> {0, 1, 2}. \<forall>p prot s. W t = Inr (Mapped p prot s) \<longrightarrow>
     prot AND need x t \<noteq> 0 \<and> (prot AND need x t' \<noteq> 0 \<longrightarrow> (\<exists>prot'. W t' = Inr (Mapped p prot' s))))"

lemma rights_ok_fault [simp]: "rights_ok x (\<lambda>t. Inr (Fault c))"
  by (simp add: rights_ok_def)

lemma rights_ok_if: "(c \<Longrightarrow> rights_ok x A) \<Longrightarrow> (\<not> c \<Longrightarrow> rights_ok x B) \<Longrightarrow> rights_ok x (\<lambda>t. if c then A t else B t)"
  by (cases c) simp_all

lemma rights_ok_all:
  assumes "mmu_ext_ok x"
  shows "rights_ok x (\<lambda>t. Inr (Mapped p (PAGE_READ x OR PAGE_WRITE x OR PAGE_EXEC x) s))"
  using page_flags [OF assms] by (auto simp: rights_ok_def need_def and_or_right or_nonzero)

lemma v5_permission_rights:
  assumes "mmu_ext_ok x"
  shows "rights_ok x (\<lambda>t. v5_permission x env dp t u dmn code pa ap sz)"
  unfolding rights_ok_def
proof (intro ballI allI impI)
  fix t t' :: int and p prot s
  assume t: "t \<in> {0, 1, 2}" "t' \<in> {0, 1, 2}" and w: "v5_permission x env dp t u dmn code pa ap sz = Inr (Mapped p prot s)"
  from w obtain q where q: "check_ap x env ap dp t u = Inr q" "q \<noteq> 0" "prot = q OR PAGE_EXEC x" "p = ucast pa" "s = sz"
    by (auto simp: v5_permission_def cbind_Inr_iff split: if_splits)
  note r = check_ap_rights [OF assms q(1,2)]
  have "prot AND need x t \<noteq> 0"
    using r(1) page_flags [OF assms] t(1) by (auto simp: q(3) need_def and_or_right or_nonzero)
  moreover have "\<exists>prot'. v5_permission x env dp t' u dmn code pa ap sz = Inr (Mapped p prot' s)" if "prot AND need x t' \<noteq> 0"
  proof -
    have "t' \<noteq> 1 \<or> q AND PAGE_WRITE x \<noteq> 0"
      using that page_flags [OF assms] by (auto simp: q(3) need_def and_or_right)
    from r(2) [OF this] obtain q' where "check_ap x env ap dp t' u = Inr q'" "q' \<noteq> 0" by blast
    then show ?thesis by (simp add: v5_permission_def q(4,5))
  qed
  ultimately show "prot AND need x t \<noteq> 0 \<and> (prot AND need x t' \<noteq> 0 \<longrightarrow>
      (\<exists>prot'. v5_permission x env dp t' u dmn code pa ap sz = Inr (Mapped p prot' s)))" by blast
qed

lemma v5_rights:
  assumes "mmu_ext_ok x"
  shows "rights_ok x (\<lambda>t. get_phys_addr_v5 x env a t u)"
  unfolding get_phys_addr_v5_def v5_level2_def Let_def
  by (intro rights_ok_if rights_ok_fault v5_permission_rights assms)

lemma v6_permission_rights:
  assumes "mmu_ext_ok x"
  shows "rights_ok x (\<lambda>t. v6_permission x env dp t u dmn code pa ap xn pxn sz)"
proof (cases "dp = 3")
  case True
  then show ?thesis using rights_ok_all [OF assms] by (simp add: v6_permission_def)
next
  case False
  define xn' where "xn' = (if pxn \<noteq> 0 \<and> \<not> u then 1 else xn)"
  let ?P = "\<lambda>t. v6_permission x env dp t u dmn code pa ap xn pxn sz"
  have P: "?P t = Inr (Mapped p prot s) \<longleftrightarrow> \<not> (xn' \<noteq> 0 \<and> t = 2)
      \<and> \<not> (cp15_c1_sys (cp15 env) AND push_bit 29 1 \<noteq> 0 \<and> ap AND 1 = 0)
      \<and> (\<exists>q. check_ap x env ap dp t u = Inr q \<and> q \<noteq> 0 \<and> p = ucast pa \<and> s = sz
           \<and> prot = (if xn' = 0 then q OR PAGE_EXEC x else q))" for t p prot s
    unfolding v6_permission_def Let_def if_not_P [OF False] xn'_def [symmetric]
    by (cases "check_ap x env ap dp t u") auto
  show ?thesis
    unfolding rights_ok_def
  proof (intro ballI allI impI)
    fix t t' :: int and p prot s
    assume t: "t \<in> {0, 1, 2}" "t' \<in> {0, 1, 2}" and "?P t = Inr (Mapped p prot s)"
    then obtain q where q: "check_ap x env ap dp t u = Inr q" "q \<noteq> 0" "prot = (if xn' = 0 then q OR PAGE_EXEC x else q)"
        "p = ucast pa" "s = sz" and c: "\<not> (xn' \<noteq> 0 \<and> t = 2)"
        "\<not> (cp15_c1_sys (cp15 env) AND push_bit 29 1 \<noteq> 0 \<and> ap AND 1 = 0)"
      unfolding P by blast
    note r = check_ap_rights [OF assms q(1,2)]
    have "prot AND need x t \<noteq> 0"
      using r(1) page_flags [OF assms] t(1) c(1) by (auto simp: q(3) need_def and_or_right or_nonzero)
    moreover have "\<exists>prot'. ?P t' = Inr (Mapped p prot' s)" if "prot AND need x t' \<noteq> 0"
    proof -
      have w: "t' \<noteq> 1 \<or> q AND PAGE_WRITE x \<noteq> 0" and e: "\<not> (xn' \<noteq> 0 \<and> t' = 2)"
        using that r(1) page_flags [OF assms] by (auto simp: q(3) need_def and_or_right split: if_splits)
      from r(2) [OF w] obtain q' where "check_ap x env ap dp t' u = Inr q'" "q' \<noteq> 0" by blast
      then show ?thesis unfolding P using e c(2) q(4,5) by blast
    qed
    ultimately show "prot AND need x t \<noteq> 0 \<and> (prot AND need x t' \<noteq> 0 \<longrightarrow> (\<exists>prot'. ?P t' = Inr (Mapped p prot' s)))"
      by blast
  qed
qed


lemma rights_ok_prod: "(\<And>p s. rights_ok x (F p s)) \<Longrightarrow> rights_ok x (\<lambda>t. case z of (p, s) \<Rightarrow> F p s t)"
  by (cases z) simp

lemma v6_rights:
  assumes "mmu_ext_ok x"
  shows "rights_ok x (\<lambda>t. get_phys_addr_v6 x env a t u)"
  unfolding get_phys_addr_v6_def v6_level2_def Let_def
  by (intro rights_ok_if rights_ok_prod rights_ok_fault v6_permission_rights assms)

lemma lpae_permission_rights:
  assumes "mmu_ext_ok x"
  shows "rights_ok x (\<lambda>t. Inr (lpae_permission x t u level d sz ats))"
proof -
  define ro nx where "ro = (ats AND push_bit 5 1 \<noteq> 0)"
    and "nx = (ats AND push_bit 12 1 \<noteq> 0 \<or> (\<not> u \<and> ats AND push_bit 11 1 \<noteq> 0))"
  define prot where "prot = (let q = PAGE_READ x OR PAGE_WRITE x OR PAGE_EXEC x;
      q = (if nx then q AND NOT (PAGE_EXEC x) else q) in if ro then q AND NOT (PAGE_WRITE x) else q)"
  have R: "PAGE_READ x AND NOT (PAGE_EXEC x) = PAGE_READ x" "PAGE_READ x AND NOT (PAGE_WRITE x) = PAGE_READ x"
    "PAGE_WRITE x AND NOT (PAGE_EXEC x) = PAGE_WRITE x" "PAGE_EXEC x AND NOT (PAGE_WRITE x) = PAGE_EXEC x"
    using page_flags [OF assms] by (simp_all add: and_not_disjoint)
  have prot: "prot = PAGE_READ x OR (if ro then 0 else PAGE_WRITE x) OR (if nx then 0 else PAGE_EXEC x)"
    by (cases ro; cases nx) (simp_all add: prot_def Let_def and_or_right R or.assoc)
  note fl = page_flags [OF assms]
  have q: "prot AND PAGE_READ x \<noteq> 0" "prot AND PAGE_WRITE x \<noteq> 0 \<longleftrightarrow> \<not> ro" "prot AND PAGE_EXEC x \<noteq> 0 \<longleftrightarrow> \<not> nx"
    unfolding prot by (cases ro; cases nx; simp add: and_or_right fl(4-9) or_nonzero fl(1-3) [simplified])+
  have P: "lpae_permission x t u level d sz ats = Mapped p r s \<longleftrightarrow> ats AND push_bit 8 1 \<noteq> 0 \<and> \<not> (u \<and> ats AND push_bit 4 1 = 0)
      \<and> \<not> (nx \<and> t = 2) \<and> \<not> (ro \<and> t = 1) \<and> p = d \<and> r = prot \<and> s = sz" for t p r s
    unfolding lpae_permission_def Let_def ro_def [symmetric] nx_def [symmetric] lpae_fault_def
    by (auto simp: prot_def Let_def)
  show ?thesis
    unfolding rights_ok_def sum.inject P using q by (auto simp: need_def split: if_splits)
qed

lemma lpae_rights:
  assumes "mmu_ext_ok x"
  shows "rights_ok x (\<lambda>t. Inr (get_phys_addr_lpae x env a t u))"
proof -
  have w: "rights_ok x (\<lambda>t. Inr (lpae_walk x a t u ttbr tsz))" for ttbr tsz
    unfolding lpae_walk_def Let_def
    by (cases "lpae_loop x (a AND drop_bit (unat tsz) 0xffffffff) (fst (if 1 < tsz then (2, 14 - unat tsz) else (1, 5 - unat tsz)))
          (extract64 x ttbr 0 40 AND NOT (push_bit (snd (if 1 < tsz then (2 :: nat, 14 - unat tsz) else (1, 5 - unat tsz))) 1 - 1)) 0")
      (auto simp: case_prod_beta lpae_fault_def lpae_permission_rights [OF assms])
  show ?thesis
    unfolding get_phys_addr_lpae_def Let_def
    by (cases "lpae_select x env a"; cases "the (lpae_select x env a)"; cases "extract32 x (cp15_c2_control (cp15 env)) 23 1 = 0";
        cases "extract32 x (cp15_c2_control (cp15 env)) 7 1 = 0")
      (simp_all add: w lpae_fault_def)
qed

lemma get_phys_addr_rights:
  assumes "mmu_ext_ok x" "\<not> arm_feature env ARM_FEATURE_MPU \<or> cp15_c1_sys (cp15 env) AND 1 = 0"
  shows "rights_ok x (\<lambda>t. get_phys_addr x env a t u)"
proof (cases "cp15_c1_sys (cp15 env) AND 1 = 0")
  case True
  then show ?thesis using rights_ok_all [OF assms(1)] by (simp add: get_phys_addr_def Let_def)
next
  case False
  then show ?thesis
    using assms(2) unfolding get_phys_addr_def Let_def
    by (simp add: rights_ok_if lpae_rights [OF assms(1)] v6_rights [OF assms(1)] v5_rights [OF assms(1)])
qed

section \<open>The walks always return\<close>

lemma and_three: "w AND 3 \<in> {0, 1, 2, 3 :: u32}"
proof -
  have "unat (w AND 3) < 4"
    using unat_take_bit_less [of 2 w] by (simp add: take_bit_eq_mask mask_eq_exp_minus_1)
  then have "unat (w AND 3) \<in> {0, 1, 2, 3}" by auto
  then show ?thesis by (auto simp: word_unat_eq_iff)
qed

lemma ap_range: "(w AND 3) OR (v AND 4) \<in> {0, 1, 2, 3, 4, 5, 6, 7 :: u32}"
proof -
  let ?a = "(w AND 3) OR (v AND 4)"
  have "?a AND 7 = ?a" by (simp add: and_or_right and.assoc)
  then have "?a = take_bit 3 ?a" by (simp add: take_bit_eq_mask mask_eq_exp_minus_1)
  then have "unat ?a < 8" using unat_take_bit_less [of 3 ?a] by simp
  then have "unat ?a \<in> {0, 1, 2, 3, 4, 5, 6, 7}" by auto
  then show ?thesis by (auto simp: word_unat_eq_iff)
qed

lemma check_ap_total: "ap \<in> {0, 1, 2, 3, 4, 5, 6, 7} \<Longrightarrow> \<exists>prot. check_ap x env ap dp t u = Inr prot"
  by (auto simp: check_ap_def Let_def)


lemma v5_permission_total: "ap \<in> {0, 1, 2, 3, 4, 5, 6, 7} \<Longrightarrow> \<exists>w. v5_permission x env dp t u dmn code pa ap sz = Inr w"
  using check_ap_total [of ap x env dp t u] by (auto simp: v5_permission_def)

lemma v6_permission_total: "ap \<in> {0, 1, 2, 3, 4, 5, 6, 7} \<Longrightarrow> \<exists>w. v6_permission x env dp t u dmn code pa ap xn pxn sz = Inr w"
  using check_ap_total [of ap x env dp t u] by (cases u) (auto simp: v6_permission_def Let_def)

lemma and_three_ap: "w AND 3 \<in> {0, 1, 2, 3, 4, 5, 6, 7 :: u32}"
  using and_three [of w] by auto

lemma ex_if: "(c \<Longrightarrow> \<exists>w. A = Inr w) \<Longrightarrow> (\<not> c \<Longrightarrow> \<exists>w. B = Inr w) \<Longrightarrow> \<exists>w. (if c then A else B) = Inr w"
  by simp

lemma get_phys_addr_total: "\<exists>w. get_phys_addr x env a t u = Inr w"
proof -
  have "\<exists>w. get_phys_addr_v5 x env b t u = Inr w" for b
    unfolding get_phys_addr_v5_def v5_level2_def Let_def
    by (intro ex_if v5_permission_total and_three_ap) auto
  moreover have "\<exists>w. get_phys_addr_v6 x env b t u = Inr w" for b
    unfolding get_phys_addr_v6_def v6_level2_def Let_def case_prod_beta
    by (intro ex_if v6_permission_total ap_range) auto
  ultimately show ?thesis by (simp add: get_phys_addr_def Let_def)
qed

section \<open>Delivery of faults\<close>

lemma switch_mode_cp15: "switch_mode m env = Inr env' \<Longrightarrow> cp15 env' = cp15 env"
  by (auto simp: switch_mode_def Let_def cbind_Inr_iff set_regs_8_12_def split: if_splits)

lemma enter_exception_cp15:
  assumes "enter_exception y env nm addr msk off = Inr env'"
  shows "cp15 env' = cp15 env"
proof -
  from assms obtain e where e: "switch_mode nm env = Inr e"
    unfolding enter_exception_def Let_def by (auto simp: cbind_Inr_iff)
  have "cp15 env' = cp15 e" using assms by (auto simp: e enter_exception_def Let_def)
  then show ?thesis by (simp only: switch_mode_cp15 [OF e])
qed

lemma do_interrupt_cp15:
  assumes "arm_cpu_do_interrupt y env = Inr env'" "select_exception y env = Inr (Enter env nm addr msk off)"
  shows "cp15 env' = cp15 env"
proof (rule enter_exception_cp15)
  show "enter_exception y env nm addr msk off = Inr env'"
    using assms by (simp add: arm_cpu_do_interrupt_def cbind_Inr_iff)
qed

lemma select_aborts:
  "exception_index e = EXCP_DATA_ABORT \<Longrightarrow> select_exception y e = Inr (Enter e ARM_CPU_MODE_ABT 0x10 (CPSR_A OR CPSR_I) 8)"
  "exception_index e = EXCP_PREFETCH_ABORT \<Longrightarrow> select_exception y e = Inr (Enter e ARM_CPU_MODE_ABT 0x0c (CPSR_A OR CPSR_I) 4)"
  by (simp_all add: select_exception_def excp_defs)

text \<open>
  The fault registers after a failed access: status and address of an instruction fetch go to one pair
  of registers, those of a data access to the other; from version 6 on the status tells writes (bit 11).
\<close>

definition fault_registers :: "cpu \<Rightarrow> u32 \<Rightarrow> int \<Rightarrow> u32 \<Rightarrow> cp15_regs" where
  "fault_registers env a t c =
     (if t = 2 then (cp15 env)\<lparr>cp15_c5_insn := c, cp15_c6_insn := a\<rparr>
      else (cp15 env)\<lparr>cp15_c5_data := (if t = 1 \<and> arm_feature env ARM_FEATURE_V6 then c OR 0x800 else c), cp15_c6_data := a\<rparr>)"

text \<open>What the fault handler leaves behind when the walk fails.\<close>

lemma handle_fault:
  assumes "get_phys_addr x env a t (idx = MMU_USER_IDX) = Inr (Fault c)"
  shows "\<exists>env1. cpu_arm_handle_mmu_fault x env a t idx = Inr (1, None, env1) \<and> same_core env1 env
    \<and> features env1 = features env \<and> exception_index env1 = (if t = 2 then EXCP_PREFETCH_ABORT else EXCP_DATA_ABORT)
    \<and> cp15 env1 = fault_registers env a t c
    \<and> (\<forall>nm addr. vector_address env1 nm addr = vector_address env nm addr)"
  using assms by (simp add: cpu_arm_handle_mmu_fault_def Let_def same_core_def vector_address_def arm_feature_def fault_registers_def)

text \<open>A failed walk is delivered to the operating system.\<close>

lemma fault_delivered:
  assumes "cpu_wf env" "valid_mode (cpu_mode env)" "\<not> arm_feature env ARM_FEATURE_M"
    and "get_phys_addr x env a t (idx = MMU_USER_IDX) = Inr (Fault c)"
  shows "\<exists>env1 env2. cpu_arm_handle_mmu_fault x env a t idx = Inr (1, None, env1)
    \<and> arm_cpu_do_interrupt y env1 = Inr env2 \<and> cpu_mode env2 = ARM_CPU_MODE_ABT
    \<and> arch_spsr env2 ARM_CPU_MODE_ABT = cpsr_read env \<and> regs env2 ! 14 = regs env ! 15 + (if t = 2 then 4 else 8)
    \<and> regs env2 ! 15 = vector_address env ARM_CPU_MODE_ABT (if t = 2 then 0x0c else 0x10)
    \<and> cp15 env2 = fault_registers env a t c"
proof -
  obtain env1 where h: "cpu_arm_handle_mmu_fault x env a t idx = Inr (1, None, env1)" "same_core env1 env"
      "features env1 = features env" "exception_index env1 = (if t = 2 then EXCP_PREFETCH_ABORT else EXCP_DATA_ABORT)"
      "cp15 env1 = fault_registers env a t c" "\<forall>nm addr. vector_address env1 nm addr = vector_address env nm addr"
    using handle_fault [OF assms(4)] by blast
  note v = same_core_view [OF h(2)]
  let ?addr = "if t = 2 then 0x0c else 0x10 :: u32" and ?off = "if t = 2 then 4 else 8 :: u32"
  have s: "select_exception y env1 = Inr (Enter env1 ARM_CPU_MODE_ABT ?addr (CPSR_A OR CPSR_I) ?off)"
    using h(4) select_aborts by (cases "t = 2") simp_all
  have "cpu_wf env1" "valid_mode (cpu_mode env1)" "\<not> arm_feature env1 ARM_FEATURE_M"
    using assms(1-3) v h(3) by (simp_all add: arm_feature_def)
  from entry_state [OF this s] obtain env2 where e: "arm_cpu_do_interrupt y env1 = Inr env2" "cpu_mode env2 = ARM_CPU_MODE_ABT"
      "arch_spsr env2 ARM_CPU_MODE_ABT = cpsr_read env1" "regs env2 ! 14 = regs env1 ! 15 + ?off"
      "regs env2 ! 15 = vector_address env1 ARM_CPU_MODE_ABT ?addr"
    by blast
  have r: "regs env2 ! 14 = regs env ! 15 + ?off" "arch_spsr env2 ARM_CPU_MODE_ABT = cpsr_read env"
      "regs env2 ! 15 = vector_address env ARM_CPU_MODE_ABT ?addr" "cp15 env2 = fault_registers env a t c"
    using e v(3,7) h(5,6) do_interrupt_cp15 [OF e(1) s] by simp_all
  show ?thesis by (rule exI [of _ env1], rule exI [of _ env2], intro conjI h(1) e(1,2) r)
qed

section \<open>Correctness\<close>


definition demo_mmu_ext :: mmu_ext where
  "demo_mmu_ext = \<lparr>PAGE_READ = 1, PAGE_WRITE = 2, PAGE_EXEC = 4, phys_ldl = (\<lambda>_. 0x00100C02), phys_ldq = (\<lambda>_. 0),
     extract32 = (\<lambda>v start len. take_bit len (drop_bit start v)),
     extract64 = (\<lambda>v start len. take_bit len (drop_bit start v))\<rparr>"

definition demo_mmu_cpu :: cpu where
  "demo_mmu_cpu = demo_cpu\<lparr>cp15 := cp15_zero\<lparr>cp15_c1_sys := 0x00800001, cp15_c3 := 1\<rparr>\<rparr>"

lemma demo_mmu_ok: "mmu_ext_ok demo_mmu_ext" "mmu_wf demo_mmu_cpu" "\<not> arm_feature demo_mmu_cpu ARM_FEATURE_MPU"
  by (simp_all add: mmu_ext_ok_def demo_mmu_ext_def mmu_wf_def demo_mmu_cpu_def demo_cpu_def cp15_zero_def arm_feature_def)


text \<open>
  C16. Every memory access is settled as the translation tables decide, on a processor with modes and from any valid
  mode. The walk always has a result. If it maps the address, the handler enters the page, aligned, with the rights of the walk, and leaves the processor
  as it was. If it fails, nothing is entered, and the exception that follows is delivered: the
  abort mode is entered at its vector, the saved status and the return address are those of the faulting
  instruction, the fault status register of the kind of access holds the status of the walk, with the bit for writes
  from version 6 on, its fault address register holds the address, and no other coprocessor register changes.
\<close>

theorem memory_fault_delivery:
  assumes "cpu_wf env" "valid_mode (cpu_mode env)" "\<not> arm_feature env ARM_FEATURE_M"
  shows "\<exists>w. get_phys_addr x env a t (idx = MMU_USER_IDX) = Inr w
    \<and> (\<forall>p prot sz. w = Mapped p prot sz \<longrightarrow> cpu_arm_handle_mmu_fault x env a t idx
         = Inr (0, Some (Tlb_set_page (a AND NOT 0x3ff) (p AND NOT 0x3ff) prot idx sz), env))
    \<and> (\<forall>c. w = Fault c \<longrightarrow> (\<exists>env1 env2. cpu_arm_handle_mmu_fault x env a t idx = Inr (1, None, env1)
         \<and> arm_cpu_do_interrupt y env1 = Inr env2 \<and> cpu_mode env2 = ARM_CPU_MODE_ABT
         \<and> arch_spsr env2 ARM_CPU_MODE_ABT = cpsr_read env
         \<and> regs env2 ! 14 = regs env ! 15 + (if t = 2 then 4 else 8)
         \<and> regs env2 ! 15 = vector_address env ARM_CPU_MODE_ABT (if t = 2 then 0x0c else 0x10)
         \<and> cp15 env2 = fault_registers env a t c))"
proof -
  obtain w where w: "get_phys_addr x env a t (idx = MMU_USER_IDX) = Inr w" using get_phys_addr_total by blast
  have m: "cpu_arm_handle_mmu_fault x env a t idx = Inr (0, Some (Tlb_set_page (a AND NOT 0x3ff) (p AND NOT 0x3ff) prot idx sz), env)"
    if "w = Mapped p prot sz" for p prot sz using w that by (simp add: cpu_arm_handle_mmu_fault_def Let_def)
  show ?thesis using w m fault_delivered [OF assms] by blast
qed

theorem memory_fault_delivery_witness:
  "\<exists>env1 env2. cpu_arm_handle_mmu_fault (demo_mmu_ext\<lparr>phys_ldl := \<lambda>_. 0\<rparr>) (demo_mmu_cpu\<lparr>features := 0x10\<rparr>) 0x12345678 1 1 = Inr (1, None, env1)
    \<and> arm_cpu_do_interrupt demo_arm_ext env1 = Inr env2 \<and> cpu_mode env2 = ARM_CPU_MODE_ABT
    \<and> regs env2 ! 14 = 23 \<and> regs env2 ! 15 = 0x10 \<and> cp15_c6_data (cp15 env2) = 0x12345678 \<and> cp15_c5_data (cp15 env2) = 0x805"
proof -
  let ?c = "demo_mmu_cpu\<lparr>features := 0x10\<rparr>"
  let ?x = "demo_mmu_ext\<lparr>phys_ldl := \<lambda>_. 0\<rparr>"
  have wf: "cpu_wf ?c" "valid_mode (cpu_mode ?c)" "\<not> arm_feature ?c ARM_FEATURE_M"
    using demo_cpu_wf(1,3) valid_modes
    by (simp_all add: demo_mmu_cpu_def cpu_wf_def cpu_mode_def) (simp add: arm_feature_def demo_cpu_def ARM_FEATURE_M_def)
  have g: "get_phys_addr ?x ?c 0x12345678 1 True = Inr (Fault 5)"
    by (simp add: get_phys_addr_def get_phys_addr_v6_def get_level1_table_address_def demo_mmu_ext_def demo_mmu_cpu_def
        demo_cpu_def cp15_zero_def arm_feature_def extended_addresses_enabled_def feature_defs)
  have r: "regs ?c ! 15 = 15" by (simp add: demo_mmu_cpu_def demo_cpu_def)
  have v: "vector_address ?c ARM_CPU_MODE_ABT 0x10 = 0x10"
    by (simp add: vector_address_def arm_feature_def demo_mmu_cpu_def demo_cpu_def cp15_zero_def feature_defs)
  have "fault_registers ?c 0x12345678 1 5 = (cp15 ?c)\<lparr>cp15_c5_data := 0x805, cp15_c6_data := 0x12345678\<rparr>"
    by (simp add: fault_registers_def arm_feature_def demo_mmu_cpu_def demo_cpu_def feature_defs)
  then show ?thesis
    using memory_fault_delivery [OF wf, of ?x "0x12345678" 1 1 demo_arm_ext] g r v by (auto simp: MMU_USER_IDX_def)
qed

section \<open>Regions of the protection unit\<close>

text \<open>A region matches the addresses that agree with its base above its size.\<close>

definition region_matches :: "u32 \<Rightarrow> u32 \<Rightarrow> bool" where
  "region_matches base a \<longleftrightarrow> bit base 0 \<and> (\<forall>k > unat (drop_bit 1 base AND 0x1f). bit base k = bit a k)"

lemma region_mask: "push_bit 1 (push_bit n 1) - 1 = (mask (Suc n) :: u32)"
  by (simp add: push_bit_eq_mult mask_eq_exp_minus_1)

lemma region_test:
  "(if base AND 1 = 0 then False else (base XOR a) AND NOT (push_bit 1 (push_bit (unat (drop_bit 1 base AND 0x1f)) 1) - 1) = 0)
    = region_matches base a" for base a :: u32
proof -
  let ?n = "unat (drop_bit 1 base AND 0x1f)"
  have "(base XOR a) AND NOT (mask (Suc ?n)) = 0 \<longleftrightarrow> (\<forall>k > ?n. bit base k = bit a k)"
    by (auto simp: bit_eq_iff bit_simps dest: bit_u32_less)
  moreover have "base AND 1 = 0 \<longleftrightarrow> \<not> bit base 0" by (simp add: and_one_eq mod_2_eq_odd bit_0)
  ultimately show ?thesis unfolding region_mask region_matches_def by (simp only: simp_thms split: if_split) blast
qed

declare mpu_region.simps(2) [simp del]

lemma mpu_region_spec:
  "mpu_region rs a n = (if \<exists>k < n. region_matches (rs ! k) a then Some (GREATEST k. k < n \<and> region_matches (rs ! k) a) else None)"
proof (induction n)
  case 0
  then show ?case by simp
next
  case (Suc n)
  have step: "mpu_region rs a (Suc n) = (if region_matches (rs ! n) a then Some n else mpu_region rs a n)"
    unfolding region_test [symmetric] mpu_region.simps Let_def by (simp split: if_split)
  show ?case
  proof (cases "region_matches (rs ! n) a")
    case True
    then have "(GREATEST k. k < Suc n \<and> region_matches (rs ! k) a) = n" by (intro Greatest_equality) auto
    then show ?thesis using True by (auto simp: step)
  next
    case False
    then have "(k < Suc n \<and> region_matches (rs ! k) a) = (k < n \<and> region_matches (rs ! k) a)" for k
      by (auto simp: less_Suc_eq)
    then show ?thesis using False Suc by (simp add: step)
  qed
qed

text \<open>
  The protection unit decides by the highest region that contains the address, and
  does not ask what the access wants: in a region that may only be read, a write is
  translated successfully, to the address itself, with rights that do not contain
  writing. The fault handler then enters a page that does not allow the access it was
  called for.
\<close>

theorem mpu_write_unchecked:
  assumes "mmu_ext_ok x" "arm_feature env ARM_FEATURE_MPU" "cp15_c1_sys (cp15 env) AND 1 \<noteq> 0" "0x02000000 \<le> a"
    and "n < 8" "region_matches (cp15_c6_region (cp15 env) ! n) a"
    and "\<forall>k < 8. n < k \<longrightarrow> \<not> region_matches (cp15_c6_region (cp15 env) ! k) a"
    and "drop_bit (n * 4) (cp15_c5_data (cp15 env)) AND 0xf = 6"
  shows "cpu_arm_handle_mmu_fault x env a 1 idx
      = Inr (0, Some (Tlb_set_page (a AND NOT 0x3ff) (ucast a AND NOT 0x3ff) (PAGE_READ x OR PAGE_EXEC x) idx 0x400), env)
    \<and> (PAGE_READ x OR PAGE_EXEC x) AND need x 1 = 0"
proof -
  have g: "(GREATEST k. k < 8 \<and> region_matches (cp15_c6_region (cp15 env) ! k) a) = n"
    by (rule Greatest_equality) (use assms(5-7) in \<open>auto simp: not_less [symmetric]\<close>)
  have m: "mpu_region (cp15_c6_region (cp15 env)) a 8 = Some n"
    unfolding mpu_region_spec g using assms(5,6) by auto
  have "get_phys_addr x env a 1 u = Inr (Mapped (ucast a) (PAGE_READ x OR PAGE_EXEC x) 0x400)" for u
    using assms(2-4,8) m
    by (simp add: get_phys_addr_def get_phys_addr_mpu_def Let_def TARGET_PAGE_BITS_def push_bit_eq_mult not_less [symmetric])
  then show ?thesis
    using page_flags [OF assms(1)] by (simp add: cpu_arm_handle_mmu_fault_def need_def and_or_right)
qed


theorem mpu_write_unchecked_witness:
  "cpu_arm_handle_mmu_fault demo_mmu_ext
     (demo_cpu\<lparr>features := push_bit ARM_FEATURE_MPU 1, cp15 := cp15_zero\<lparr>cp15_c1_sys := 1, cp15_c5_data := 6,
        cp15_c6_region := [0x1000003F, 0, 0, 0, 0, 0, 0, 0]\<rparr>\<rparr>) 0x12345678 1 1
   = Inr (0, Some (Tlb_set_page 0x12345400 0x12345400 5 1 0x400),
       demo_cpu\<lparr>features := push_bit ARM_FEATURE_MPU 1, cp15 := cp15_zero\<lparr>cp15_c1_sys := 1, cp15_c5_data := 6,
        cp15_c6_region := [0x1000003F, 0, 0, 0, 0, 0, 0, 0]\<rparr>\<rparr>)"
proof -
  let ?e = "demo_cpu\<lparr>features := push_bit ARM_FEATURE_MPU 1, cp15 := cp15_zero\<lparr>cp15_c1_sys := 1, cp15_c5_data := 6,
        cp15_c6_region := [0x1000003F, 0, 0, 0, 0, 0, 0, 0]\<rparr>\<rparr>"
  have f: "arm_feature ?e ARM_FEATURE_MPU" by (simp add: arm_feature_def ARM_FEATURE_MPU_def)
  have m: "region_matches (cp15_c6_region (cp15 ?e) ! 0) 0x12345678"
    by (auto simp: region_matches_def dest: bit_u32_less)
  have o: "\<forall>k < 8. 0 < k \<longrightarrow> \<not> region_matches (cp15_c6_region (cp15 ?e) ! k) 0x12345678"
    by (auto simp: region_matches_def nth_Cons numeral_eq_Suc less_Suc_eq)
  show ?thesis
    using mpu_write_unchecked [OF demo_mmu_ok(1) f _ _ _ m o, of 1] by (simp add: demo_mmu_ext_def)
qed

end
