(* ===== verification/Arm_Coproc.thy ===== *)
theory Arm_Coproc
  imports Arm_Cp_Registration Arm_Mmu Arm_Translate
begin

text \<open>
  The coprocessor registers at work: the read, write and reset functions of
  \<^verbatim>\<open>target-arm/helper.c\<close>, the helpers \<open>get_cp_reg\<close> and \<open>set_cp_reg\<close> of \<^verbatim>\<open>op_helper.c\<close>, and the
  translation of the access instructions, \<open>disas_coproc_insn\<close> of \<^verbatim>\<open>translate.c\<close>. Calls into
  QEMU's core (flushing the translation buffer or the translated code, stopping the
  processor) are values of \<open>emu_call\<close>, in the order they are made.
\<close>

section \<open>Write functions\<close>

datatype emu_call =
    Tlb_flush bool
  | Tlb_flush_page u32
  | Tb_flush
  | Cpu_interrupt_halt

text \<open>What a write function returns: the exception number or 0, the state, the calls made.\<close>

type_synonym cp_outcome = "(int \<times> cpu \<times> emu_call list) result"

definition TARGET_PAGE_MASK :: u32 where "TARGET_PAGE_MASK = NOT (push_bit TARGET_PAGE_BITS 1 - 1)"

definition dacr_write :: "u64 \<Rightarrow> cpu \<Rightarrow> cp_outcome" where
  "dacr_write value env = Inr (0, env\<lparr>cp15 := (cp15 env)\<lparr>cp15_c3 := ucast value\<rparr>\<rparr>, [Tlb_flush True])"

definition fcse_write :: "u64 \<Rightarrow> cpu \<Rightarrow> cp_outcome" where
  "fcse_write value env =
     (if ucast (cp15_c13_fcse (cp15 env)) \<noteq> value
      then Inr (0, env\<lparr>cp15 := (cp15 env)\<lparr>cp15_c13_fcse := ucast value\<rparr>\<rparr>, [Tlb_flush True])
      else Inr (0, env, []))"

definition contextidr_write :: "u64 \<Rightarrow> cpu \<Rightarrow> cp_outcome" where
  "contextidr_write value env =
     Inr (0, env\<lparr>cp15 := (cp15 env)\<lparr>cp15_c13_context := ucast value\<rparr>\<rparr>,
       if ucast (cp15_c13_context (cp15 env)) \<noteq> value \<and> \<not> arm_feature env ARM_FEATURE_MPU then [Tlb_flush True] else [])"

definition tlbiall_write :: "u64 \<Rightarrow> cpu \<Rightarrow> cp_outcome" where
  "tlbiall_write value env = Inr (0, env, [Tlb_flush True])"

definition tlbimva_write :: "u64 \<Rightarrow> cpu \<Rightarrow> cp_outcome" where
  "tlbimva_write value env = Inr (0, env, [Tlb_flush_page (ucast value AND TARGET_PAGE_MASK)])"

definition tlbiasid_write :: "u64 \<Rightarrow> cpu \<Rightarrow> cp_outcome" where
  "tlbiasid_write value env = Inr (0, env, [Tlb_flush (value = 0)])"

definition tlbimvaa_write :: "u64 \<Rightarrow> cpu \<Rightarrow> cp_outcome" where
  "tlbimvaa_write value env = Inr (0, env, [Tlb_flush_page (ucast value AND TARGET_PAGE_MASK)])"

definition cpacr_write :: "u64 \<Rightarrow> cpu \<Rightarrow> cp_outcome" where
  "cpacr_write value env =
     (if ucast (cp15_c1_coproc (cp15 env)) \<noteq> value
      then Inr (0, env\<lparr>cp15 := (cp15 env)\<lparr>cp15_c1_coproc := ucast value\<rparr>\<rparr>, [Tb_flush])
      else Inr (0, env, []))"

definition pm_denied :: "cpu \<Rightarrow> bool" where
  "pm_denied env \<longleftrightarrow> arm_current_pl env = 0 \<and> cp15_c9_pmuserenr (cp15 env) = 0"

definition pmcr_write :: "u64 \<Rightarrow> cpu \<Rightarrow> cp_outcome" where
  "pmcr_write value env =
     (if pm_denied env then Inr (EXCP_UDEF, env, [])
      else
        let pmcr = cp15_c9_pmcr (cp15 env) AND NOT 0x39; pmcr = pmcr OR (ucast value AND 0x39)
        in Inr (0, env\<lparr>cp15 := (cp15 env)\<lparr>cp15_c9_pmcr := pmcr\<rparr>\<rparr>, []))"

definition pmcntenset_write :: "u64 \<Rightarrow> cpu \<Rightarrow> cp_outcome" where
  "pmcntenset_write value env =
     (if pm_denied env then Inr (EXCP_UDEF, env, [])
      else
        let value = value AND 0xffffffff80000000
        in Inr (0, env\<lparr>cp15 := (cp15 env)\<lparr>cp15_c9_pmcnten := cp15_c9_pmcnten (cp15 env) OR ucast value\<rparr>\<rparr>, []))"

definition pmcntenclr_write :: "u64 \<Rightarrow> cpu \<Rightarrow> cp_outcome" where
  "pmcntenclr_write value env =
     (if pm_denied env then Inr (EXCP_UDEF, env, [])
      else
        let value = value AND 0xffffffff80000000
        in Inr (0, env\<lparr>cp15 := (cp15 env)\<lparr>cp15_c9_pmcnten := cp15_c9_pmcnten (cp15 env) AND NOT (ucast value)\<rparr>\<rparr>, []))"

definition pmovsr_write :: "u64 \<Rightarrow> cpu \<Rightarrow> cp_outcome" where
  "pmovsr_write value env =
     (if pm_denied env then Inr (EXCP_UDEF, env, [])
      else Inr (0, env\<lparr>cp15 := (cp15 env)\<lparr>cp15_c9_pmovsr := cp15_c9_pmovsr (cp15 env) AND NOT (ucast value)\<rparr>\<rparr>, []))"

definition pmxevtyper_write :: "u64 \<Rightarrow> cpu \<Rightarrow> cp_outcome" where
  "pmxevtyper_write value env =
     (if pm_denied env then Inr (EXCP_UDEF, env, [])
      else Inr (0, env\<lparr>cp15 := (cp15 env)\<lparr>cp15_c9_pmxevtyper := ucast value AND 0xff\<rparr>\<rparr>, []))"

definition pmuserenr_write :: "u64 \<Rightarrow> cpu \<Rightarrow> cp_outcome" where
  "pmuserenr_write value env = Inr (0, env\<lparr>cp15 := (cp15 env)\<lparr>cp15_c9_pmuserenr := ucast value AND 1\<rparr>\<rparr>, [])"

definition pmintenset_write :: "u64 \<Rightarrow> cpu \<Rightarrow> cp_outcome" where
  "pmintenset_write value env =
     (let value = value AND 0xffffffff80000000
      in Inr (0, env\<lparr>cp15 := (cp15 env)\<lparr>cp15_c9_pminten := cp15_c9_pminten (cp15 env) OR ucast value\<rparr>\<rparr>, []))"

definition pmintenclr_write :: "u64 \<Rightarrow> cpu \<Rightarrow> cp_outcome" where
  "pmintenclr_write value env =
     (let value = value AND 0xffffffff80000000
      in Inr (0, env\<lparr>cp15 := (cp15 env)\<lparr>cp15_c9_pminten := cp15_c9_pminten (cp15 env) AND NOT (ucast value)\<rparr>\<rparr>, []))"

definition csselr_write :: "u64 \<Rightarrow> cpu \<Rightarrow> cp_outcome" where
  "csselr_write value env = Inr (0, env\<lparr>cp15 := (cp15 env)\<lparr>cp15_c0_cssel := ucast value AND 0xf\<rparr>\<rparr>, [])"

definition teecr_write :: "u64 \<Rightarrow> cpu \<Rightarrow> cp_outcome" where
  "teecr_write value env = Inr (0, env\<lparr>teecr := ucast (value AND 1)\<rparr>, [])"

definition teehbr_write :: "u64 \<Rightarrow> cpu \<Rightarrow> cp_outcome" where
  "teehbr_write value env =
     (if arm_current_pl env = 0 \<and> teecr env AND 1 \<noteq> 0 then Inr (EXCP_UDEF, env, [])
      else Inr (0, env\<lparr>teehbr := ucast value\<rparr>, []))"

definition par_write :: "u64 \<Rightarrow> cpu \<Rightarrow> cp_outcome" where
  "par_write value env =
     (let par = (if arm_feature env ARM_FEATURE_LPAE then ucast value
                 else if arm_feature env ARM_FEATURE_V7 then ucast value AND 0xfffff6ff
                 else ucast value AND 0xfffff1ff)
      in Inr (0, env\<lparr>cp15 := (cp15 env)\<lparr>cp15_c7_par := par\<rparr>\<rparr>, []))"

text \<open>The physical address register after an address translation operation.\<close>

definition ats_par :: "cpu \<Rightarrow> walk \<Rightarrow> u32 \<times> u32" where
  "ats_par env ret =
     (if extended_addresses_enabled env then
        let par64 = push_bit 11 1 :: u64;
            par64 = (case ret of
                Mapped phys_addr prot page_size \<Rightarrow> par64 OR (phys_addr AND NOT 0xfff)
              | Fault ret \<Rightarrow> (par64 OR 1) OR ucast (push_bit 1 (ret AND 0x3f)))
        in (ucast par64, ucast (drop_bit 32 par64))
      else
        (case ret of
           Mapped phys_addr prot page_size \<Rightarrow>
             if page_size = push_bit 24 1 \<and> arm_feature env ARM_FEATURE_V7
             then (ucast ((phys_addr AND 0xff000000) OR push_bit 1 1), 0)
             else (ucast (phys_addr AND 0xfffff000), 0)
         | Fault ret \<Rightarrow>
             (drop_bit 5 (ret AND push_bit 1 10) OR drop_bit 6 (ret AND push_bit 1 12)
                OR push_bit 1 (ret AND 0xf) OR 1, 0)))"

definition ats_write :: "mmu_ext \<Rightarrow> ARMCPRegInfo \<Rightarrow> u64 \<Rightarrow> cpu \<Rightarrow> cp_outcome" where
  "ats_write x ri value env =
     (let opc2 = of_nat (ri_opc2 ri) :: u32;
          is_user = (opc2 AND 2 \<noteq> 0);
          access_type = (if opc2 AND 1 \<noteq> 0 then 1 else 0)
      in if opc2 AND 4 \<noteq> 0 then Inr (EXCP_UDEF, env, [])
         else cbind (get_phys_addr x env (ucast value) access_type is_user) (\<lambda>ret.
           let (par, par_hi) = ats_par env ret
           in Inr (0, env\<lparr>cp15 := (cp15 env)\<lparr>cp15_c7_par := par, cp15_c7_par_hi := par_hi\<rparr>\<rparr>, [])))"

text \<open>The permission bits of the protection unit, in the simple and in the extended format.\<close>

fun mpu_bits :: "(nat \<Rightarrow> u32 \<Rightarrow> u32) \<Rightarrow> nat list \<Rightarrow> u32 \<Rightarrow> u32 \<Rightarrow> u32" where
  "mpu_bits part [] msk ret = ret"
| "mpu_bits part (i # is) msk ret = mpu_bits part is (push_bit 2 msk) (ret OR part i msk)"

definition mpu_indices :: "nat list" where "mpu_indices = [0, 2, 4, 6, 8, 10, 12, 14]"

definition simple_mpu_ap_bits :: "u32 \<Rightarrow> u32" where
  "simple_mpu_ap_bits val = mpu_bits (\<lambda>i msk. drop_bit i val AND msk) mpu_indices 3 0"

definition extended_mpu_ap_bits :: "u32 \<Rightarrow> u32" where
  "extended_mpu_ap_bits val = mpu_bits (\<lambda>i msk. push_bit i (val AND msk)) mpu_indices 3 0"

definition pmsav5_data_ap_write :: "u64 \<Rightarrow> cpu \<Rightarrow> cp_outcome" where
  "pmsav5_data_ap_write value env =
     Inr (0, env\<lparr>cp15 := (cp15 env)\<lparr>cp15_c5_data := extended_mpu_ap_bits (ucast value)\<rparr>\<rparr>, [])"

definition pmsav5_insn_ap_write :: "u64 \<Rightarrow> cpu \<Rightarrow> cp_outcome" where
  "pmsav5_insn_ap_write value env =
     Inr (0, env\<lparr>cp15 := (cp15 env)\<lparr>cp15_c5_insn := extended_mpu_ap_bits (ucast value)\<rparr>\<rparr>, [])"

definition arm946_prbs_write :: "ARMCPRegInfo \<Rightarrow> u64 \<Rightarrow> cpu \<Rightarrow> cp_outcome" where
  "arm946_prbs_write ri value env =
     (if 8 \<le> ri_crm ri then Inr (EXCP_UDEF, env, [])
      else Inr (0, env\<lparr>cp15 := (cp15 env)\<lparr>cp15_c6_region := (cp15_c6_region (cp15 env))[ri_crm ri := ucast value]\<rparr>\<rparr>, []))"

text \<open>A shift by the width of the type or more is undefined.\<close>

definition vmsa_ttbcr_write :: "u64 \<Rightarrow> cpu \<Rightarrow> cp_outcome" where
  "vmsa_ttbcr_write value env =
     (let lpae = arm_feature env ARM_FEATURE_LPAE;
          value = (if lpae then value AND NOT (push_bit 19 7 OR push_bit 14 3 OR push_bit 3 0xf) else value AND 7);
          calls = (if lpae then [Tlb_flush True] else [])
      in if 32 \<le> value then Inl Bad_Shift
         else Inr (0, env\<lparr>cp15 := (cp15 env)\<lparr>cp15_c2_control := ucast value,
                cp15_c2_mask := NOT (drop_bit (unat value) 0xffffffff),
                cp15_c2_base_mask := NOT (drop_bit (unat value) 0x3fff)\<rparr>\<rparr>, calls))"

definition vmsa_ttbcr_reset :: "cpu \<Rightarrow> cpu" where
  "vmsa_ttbcr_reset env = env\<lparr>cp15 := (cp15 env)\<lparr>cp15_c2_base_mask := 0xffffc000, cp15_c2_control := 0, cp15_c2_mask := 0\<rparr>\<rparr>"

definition ARM_CPUID_TI915T :: u32 where "ARM_CPUID_TI915T = 0x54029152"
definition ARM_CPUID_TI925T :: u32 where "ARM_CPUID_TI925T = 0x54029252"

definition omap_ticonfig_write :: "u64 \<Rightarrow> cpu \<Rightarrow> cp_outcome" where
  "omap_ticonfig_write value env =
     Inr (0, env\<lparr>cp15 := (cp15 env)\<lparr>cp15_c15_ticonfig := ucast value AND 0xe7,
       cp15_c0_cpuid := (if value AND push_bit 5 1 \<noteq> 0 then ARM_CPUID_TI915T else ARM_CPUID_TI925T)\<rparr>\<rparr>, [])"

definition omap_threadid_write :: "u64 \<Rightarrow> cpu \<Rightarrow> cp_outcome" where
  "omap_threadid_write value env = Inr (0, env\<lparr>cp15 := (cp15 env)\<lparr>cp15_c15_threadid := ucast value AND 0xffff\<rparr>\<rparr>, [])"

definition omap_wfi_write :: "u64 \<Rightarrow> cpu \<Rightarrow> cp_outcome" where
  "omap_wfi_write value env = Inr (0, env, [Cpu_interrupt_halt])"

definition omap_cachemaint_write :: "u64 \<Rightarrow> cpu \<Rightarrow> cp_outcome" where
  "omap_cachemaint_write value env =
     Inr (0, env\<lparr>cp15 := (cp15 env)\<lparr>cp15_c15_i_max := 0x000, cp15_c15_i_min := 0xff0\<rparr>\<rparr>, [])"

definition xscale_cpar_write :: "u64 \<Rightarrow> cpu \<Rightarrow> cp_outcome" where
  "xscale_cpar_write value env =
     (let value = value AND 0x3fff in
      if ucast (cp15_c15_cpar (cp15 env)) \<noteq> value
      then Inr (0, env\<lparr>cp15 := (cp15 env)\<lparr>cp15_c15_cpar := ucast value\<rparr>\<rparr>, [Tb_flush])
      else Inr (0, env, []))"

definition par64_write :: "u64 \<Rightarrow> cpu \<Rightarrow> cp_outcome" where
  "par64_write value env =
     Inr (0, env\<lparr>cp15 := (cp15 env)\<lparr>cp15_c7_par_hi := ucast (drop_bit 32 value), cp15_c7_par := ucast value\<rparr>\<rparr>, [])"

definition par64_reset :: "cpu \<Rightarrow> cpu" where
  "par64_reset env = env\<lparr>cp15 := (cp15 env)\<lparr>cp15_c7_par_hi := 0, cp15_c7_par := 0\<rparr>\<rparr>"

definition ttbr064_write :: "u64 \<Rightarrow> cpu \<Rightarrow> cp_outcome" where
  "ttbr064_write value env =
     Inr (0, env\<lparr>cp15 := (cp15 env)\<lparr>cp15_c2_base0_hi := ucast (drop_bit 32 value), cp15_c2_base0 := ucast value\<rparr>\<rparr>,
       [Tlb_flush True])"

definition ttbr064_reset :: "cpu \<Rightarrow> cpu" where
  "ttbr064_reset env = env\<lparr>cp15 := (cp15 env)\<lparr>cp15_c2_base0_hi := 0, cp15_c2_base0 := 0\<rparr>\<rparr>"

definition ttbr164_write :: "u64 \<Rightarrow> cpu \<Rightarrow> cp_outcome" where
  "ttbr164_write value env =
     Inr (0, env\<lparr>cp15 := (cp15 env)\<lparr>cp15_c2_base1_hi := ucast (drop_bit 32 value), cp15_c2_base1 := ucast value\<rparr>\<rparr>, [])"

definition ttbr164_reset :: "cpu \<Rightarrow> cpu" where
  "ttbr164_reset env = env\<lparr>cp15 := (cp15 env)\<lparr>cp15_c2_base1_hi := 0, cp15_c2_base1 := 0\<rparr>\<rparr>"

definition vbar_write :: "ARMCPRegInfo \<Rightarrow> u64 \<Rightarrow> cpu \<Rightarrow> cp_outcome" where
  "vbar_write ri value env =
     (case ri_fieldoffset ri of
        None \<Rightarrow> Inl Null_Pointer
      | Some fld \<Rightarrow> Inr (0, cpreg_set fld (ucast value AND NOT 0x1f) env, []))"

definition sctlr_write :: "u64 \<Rightarrow> cpu \<Rightarrow> cp_outcome" where
  "sctlr_write value env = Inr (0, env\<lparr>cp15 := (cp15 env)\<lparr>cp15_c1_sys := ucast value\<rparr>\<rparr>, [Tlb_flush True])"

definition arm_cp_write_ignore :: "u64 \<Rightarrow> cpu \<Rightarrow> cp_outcome" where
  "arm_cp_write_ignore value env = Inr (0, env, [])"

section \<open>Read functions\<close>

text \<open>What a read function returns: the exception number or 0, and the value.\<close>

type_synonym cp_value = "(int \<times> u64) result"

definition pmreg_read :: "ARMCPRegInfo \<Rightarrow> cpu \<Rightarrow> cp_value" where
  "pmreg_read ri env =
     (if pm_denied env then Inr (EXCP_UDEF, 0)
      else case ri_fieldoffset ri of None \<Rightarrow> Inl Null_Pointer | Some fld \<Rightarrow> Inr (0, ucast (cpreg_get fld env)))"

definition ccsidr_read :: "arm_cpu \<Rightarrow> cpu \<Rightarrow> cp_value" where
  "ccsidr_read cpu env =
     (let i = unat (cp15_c0_cssel (cp15 env))
      in if i < length (ccsidr cpu) then Inr (0, ucast (ccsidr cpu ! i)) else Inl Out_Of_Bounds)"

definition teehbr_read :: "cpu \<Rightarrow> cp_value" where
  "teehbr_read env =
     (if arm_current_pl env = 0 \<and> teecr env AND 1 \<noteq> 0 then Inr (EXCP_UDEF, 0) else Inr (0, ucast (teehbr env)))"

definition pmsav5_data_ap_read :: "cpu \<Rightarrow> cp_value" where
  "pmsav5_data_ap_read env = Inr (0, ucast (simple_mpu_ap_bits (cp15_c5_data (cp15 env))))"

definition pmsav5_insn_ap_read :: "cpu \<Rightarrow> cp_value" where
  "pmsav5_insn_ap_read env = Inr (0, ucast (simple_mpu_ap_bits (cp15_c5_insn (cp15 env))))"

definition arm946_prbs_read :: "ARMCPRegInfo \<Rightarrow> cpu \<Rightarrow> cp_value" where
  "arm946_prbs_read ri env =
     (if 8 \<le> ri_crm ri then Inr (EXCP_UDEF, 0) else Inr (0, ucast (cp15_c6_region (cp15 env) ! ri_crm ri)))"

definition arm_cp_read_zero :: "cpu \<Rightarrow> cp_value" where
  "arm_cp_read_zero env = Inr (0, 0)"

definition mpidr_read :: "arm_cpu \<Rightarrow> cpu \<Rightarrow> cp_value" where
  "mpidr_read cpu env =
     (let mpidr = cpu_index cpu;
          mpidr = (if arm_feature env ARM_FEATURE_V7MP then mpidr OR push_bit 31 1 else mpidr)
      in Inr (0, ucast mpidr))"

definition par64_read :: "cpu \<Rightarrow> cp_value" where
  "par64_read env = Inr (0, push_bit 32 (ucast (cp15_c7_par_hi (cp15 env))) OR ucast (cp15_c7_par (cp15 env)))"

definition ttbr064_read :: "cpu \<Rightarrow> cp_value" where
  "ttbr064_read env = Inr (0, push_bit 32 (ucast (cp15_c2_base0_hi (cp15 env))) OR ucast (cp15_c2_base0 (cp15 env)))"

definition ttbr164_read :: "cpu \<Rightarrow> cp_value" where
  "ttbr164_read env = Inr (0, push_bit 32 (ucast (cp15_c2_base1_hi (cp15 env))) OR ucast (cp15_c2_base1 (cp15 env)))"

section \<open>Calls through function pointers\<close>

fun call_writefn :: "mmu_ext \<Rightarrow> cp_writefn \<Rightarrow> ARMCPRegInfo \<Rightarrow> u64 \<Rightarrow> cpu \<Rightarrow> cp_outcome" where
  "call_writefn x Dacr_write ri value env = dacr_write value env"
| "call_writefn x Fcse_write ri value env = fcse_write value env"
| "call_writefn x Contextidr_write ri value env = contextidr_write value env"
| "call_writefn x Tlbiall_write ri value env = tlbiall_write value env"
| "call_writefn x Tlbimva_write ri value env = tlbimva_write value env"
| "call_writefn x Tlbiasid_write ri value env = tlbiasid_write value env"
| "call_writefn x Tlbimvaa_write ri value env = tlbimvaa_write value env"
| "call_writefn x Cpacr_write ri value env = cpacr_write value env"
| "call_writefn x Pmcntenset_write ri value env = pmcntenset_write value env"
| "call_writefn x Pmcntenclr_write ri value env = pmcntenclr_write value env"
| "call_writefn x Pmovsr_write ri value env = pmovsr_write value env"
| "call_writefn x Pmxevtyper_write ri value env = pmxevtyper_write value env"
| "call_writefn x Pmuserenr_write ri value env = pmuserenr_write value env"
| "call_writefn x Pmintenset_write ri value env = pmintenset_write value env"
| "call_writefn x Pmintenclr_write ri value env = pmintenclr_write value env"
| "call_writefn x Csselr_write ri value env = csselr_write value env"
| "call_writefn x Teecr_write ri value env = teecr_write value env"
| "call_writefn x Teehbr_write ri value env = teehbr_write value env"
| "call_writefn x Par_write ri value env = par_write value env"
| "call_writefn x Ats_write ri value env = ats_write x ri value env"
| "call_writefn x Pmsav5_data_ap_write ri value env = pmsav5_data_ap_write value env"
| "call_writefn x Pmsav5_insn_ap_write ri value env = pmsav5_insn_ap_write value env"
| "call_writefn x Arm946_prbs_write ri value env = arm946_prbs_write ri value env"
| "call_writefn x Vmsa_ttbcr_write ri value env = vmsa_ttbcr_write value env"
| "call_writefn x Omap_ticonfig_write ri value env = omap_ticonfig_write value env"
| "call_writefn x Omap_threadid_write ri value env = omap_threadid_write value env"
| "call_writefn x Omap_wfi_write ri value env = omap_wfi_write value env"
| "call_writefn x Omap_cachemaint_write ri value env = omap_cachemaint_write value env"
| "call_writefn x Xscale_cpar_write ri value env = xscale_cpar_write value env"
| "call_writefn x Par64_write ri value env = par64_write value env"
| "call_writefn x Ttbr064_write ri value env = ttbr064_write value env"
| "call_writefn x Ttbr164_write ri value env = ttbr164_write value env"
| "call_writefn x Vbar_write ri value env = vbar_write ri value env"
| "call_writefn x Arm_cp_write_ignore ri value env = arm_cp_write_ignore value env"
| "call_writefn x Pmcr_write ri value env = pmcr_write value env"
| "call_writefn x Sctlr_write ri value env = sctlr_write value env"

fun call_readfn :: "arm_cpu \<Rightarrow> cp_readfn \<Rightarrow> ARMCPRegInfo \<Rightarrow> cpu \<Rightarrow> cp_value" where
  "call_readfn cpu Pmreg_read ri env = pmreg_read ri env"
| "call_readfn cpu Ccsidr_read ri env = ccsidr_read cpu env"
| "call_readfn cpu Teehbr_read ri env = teehbr_read env"
| "call_readfn cpu Pmsav5_data_ap_read ri env = pmsav5_data_ap_read env"
| "call_readfn cpu Pmsav5_insn_ap_read ri env = pmsav5_insn_ap_read env"
| "call_readfn cpu Arm946_prbs_read ri env = arm946_prbs_read ri env"
| "call_readfn cpu Arm_cp_read_zero ri env = arm_cp_read_zero env"
| "call_readfn cpu Mpidr_read ri env = mpidr_read cpu env"
| "call_readfn cpu Par64_read ri env = par64_read env"
| "call_readfn cpu Ttbr064_read ri env = ttbr064_read env"
| "call_readfn cpu Ttbr164_read ri env = ttbr164_read env"

text \<open>
  The helpers: \<open>raise_exception\<close> leaves the translated code. The first component tells
  whether that happened.
\<close>

definition raise_exception :: "int \<Rightarrow> cpu \<Rightarrow> cpu" where
  "raise_exception tt env = env\<lparr>exception_index := tt\<rparr>"

definition helper_set_cp_reg64 :: "mmu_ext \<Rightarrow> ARMCPRegInfo \<Rightarrow> u64 \<Rightarrow> cpu \<Rightarrow> (bool \<times> cpu \<times> emu_call list) result" where
  "helper_set_cp_reg64 x ri value env =
     (case ri_writefn ri of
        None \<Rightarrow> Inl Null_Pointer
      | Some fn \<Rightarrow> cbind (call_writefn x fn ri value env) (\<lambda>(excp, env, calls).
          Inr (if excp \<noteq> 0 then (True, raise_exception excp env, calls) else (False, env, calls))))"

definition helper_set_cp_reg :: "mmu_ext \<Rightarrow> ARMCPRegInfo \<Rightarrow> u32 \<Rightarrow> cpu \<Rightarrow> (bool \<times> cpu \<times> emu_call list) result" where
  "helper_set_cp_reg x ri value env =
     (case ri_writefn ri of
        None \<Rightarrow> Inl Null_Pointer
      | Some fn \<Rightarrow> cbind (call_writefn x fn ri (ucast value) env) (\<lambda>(excp, env, calls).
          Inr (if excp \<noteq> 0 then (True, raise_exception excp env, calls) else (False, env, calls))))"

definition helper_get_cp_reg64 :: "arm_cpu \<Rightarrow> ARMCPRegInfo \<Rightarrow> cpu \<Rightarrow> (bool \<times> u64 \<times> cpu) result" where
  "helper_get_cp_reg64 cpu ri env =
     (case ri_readfn ri of
        None \<Rightarrow> Inl Null_Pointer
      | Some fn \<Rightarrow> cbind (call_readfn cpu fn ri env) (\<lambda>(excp, value).
          Inr (if excp \<noteq> 0 then (True, value, raise_exception excp env) else (False, value, env))))"

definition helper_get_cp_reg :: "arm_cpu \<Rightarrow> ARMCPRegInfo \<Rightarrow> cpu \<Rightarrow> (bool \<times> u32 \<times> cpu) result" where
  "helper_get_cp_reg cpu ri env =
     (case ri_readfn ri of
        None \<Rightarrow> Inl Null_Pointer
      | Some fn \<Rightarrow> cbind (call_readfn cpu fn ri env) (\<lambda>(excp, value).
          Inr (if excp \<noteq> 0 then (True, ucast value, raise_exception excp env) else (False, ucast value, env))))"


section \<open>Translation of coprocessor instructions\<close>

text \<open>
  The operations generated. They work on one temporary: a load sets it, a store or a call
  uses it.
\<close>

datatype cp_op =
    Gen_set_pc_im u32                      \<comment> \<open>\<^verbatim>\<open>gen_set_pc_im\<close>, also in \<^verbatim>\<open>gen_lookup_tb\<close>\<close>
  | Ld_const u64
  | Ld_field "cp_field option"
  | Ld_field64 "cp_field option"
  | Call_get_cp_reg ARMCPRegInfo
  | Call_get_cp_reg64 ARMCPRegInfo
  | Store_reg nat                          \<comment> \<open>the low word of the temporary\<close>
  | Store_reg_high nat                     \<comment> \<open>the high word\<close>
  | Set_nzcv
  | Load_reg nat
  | Load_reg_high nat                      \<comment> \<open>concatenation with the register\<close>
  | Load_imm u32                           \<comment> \<open>\<^verbatim>\<open>load_reg\<close> of the program counter\<close>
  | Load_imm_high u32
  | Call_set_cp_reg ARMCPRegInfo
  | Call_set_cp_reg64 ARMCPRegInfo
  | St_field "cp_field option"
  | St_field64 "cp_field option"

definition cp_access_ok :: "cpu \<Rightarrow> ARMCPRegInfo \<Rightarrow> bool \<Rightarrow> bool" where
  "cp_access_ok env ri isread \<longleftrightarrow>
     drop_bit (nat (arm_current_pl env * 2 + (if isread then 1 else 0))) (ri_access ri) AND 1 \<noteq> 0"

text \<open>The translation state the function uses, and what it returns: 1 for an undefined
  instruction, the operations generated, and the new value of \<^verbatim>\<open>is_jmp\<close> if it is set.\<close>

record cp_disas =
  cd_pc :: u32
  cd_thumb :: bool
  cd_iwmmxt :: "u32 \<Rightarrow> int \<times> cp_op list \<times> int option"   \<comment> \<open>\<^verbatim>\<open>disas_iwmmxt_insn\<close>\<close>
  cd_dsp :: "u32 \<Rightarrow> int \<times> cp_op list \<times> int option"      \<comment> \<open>\<^verbatim>\<open>disas_dsp_insn\<close>\<close>
  cd_vfp :: "u32 \<Rightarrow> int \<times> cp_op list \<times> int option"      \<comment> \<open>\<^verbatim>\<open>disas_vfp_insn\<close>\<close>

definition cp_load_reg :: "cp_disas \<Rightarrow> nat \<Rightarrow> cp_op" where
  "cp_load_reg s reg = (if reg = 15 then Load_imm (cd_pc s + (if cd_thumb s then 2 else 4)) else Load_reg reg)"

definition cp_load_reg_high :: "cp_disas \<Rightarrow> nat \<Rightarrow> cp_op" where
  "cp_load_reg_high s reg = (if reg = 15 then Load_imm_high (cd_pc s + (if cd_thumb s then 2 else 4)) else Load_reg_high reg)"

definition store_jmp :: "nat \<Rightarrow> int option" where
  "store_jmp reg = (if reg = 15 then Some DISAS_JUMP else None)"

definition gen_cp_read :: "cp_disas \<Rightarrow> ARMCPRegInfo \<Rightarrow> bool \<Rightarrow> nat \<Rightarrow> nat \<Rightarrow> cp_op list \<times> int option" where
  "gen_cp_read s ri is64 rt rt2 =
     (let const = (ri_type ri AND ARM_CP_CONST \<noteq> 0); fn = (ri_readfn ri \<noteq> None) in
      if is64 then
        ((if const then [Ld_const (ri_resetvalue ri)]
          else if fn then [Gen_set_pc_im (cd_pc s), Call_get_cp_reg64 ri]
          else [Ld_field64 (ri_fieldoffset ri)]) @ [Store_reg rt, Store_reg_high rt2],
         if rt = 15 then store_jmp rt else store_jmp rt2)
      else
        ((if const then [Ld_const (take_bit 32 (ri_resetvalue ri))]
          else if fn then [Gen_set_pc_im (cd_pc s), Call_get_cp_reg ri]
          else [Ld_field (ri_fieldoffset ri)]) @ [if rt = 15 then Set_nzcv else Store_reg rt], None))"

definition gen_cp_write :: "cp_disas \<Rightarrow> ARMCPRegInfo \<Rightarrow> bool \<Rightarrow> nat \<Rightarrow> nat \<Rightarrow> cp_op list \<times> int option" where
  "gen_cp_write s ri is64 rt rt2 =
     (if ri_type ri AND ARM_CP_CONST \<noteq> 0 then ([], None)
      else
        let fn = (ri_writefn ri \<noteq> None);
            ops = (if is64 then
                     [cp_load_reg s rt, cp_load_reg_high s rt2]
                       @ (if fn then [Gen_set_pc_im (cd_pc s), Call_set_cp_reg64 ri] else [St_field64 (ri_fieldoffset ri)])
                   else if fn then [Gen_set_pc_im (cd_pc s), cp_load_reg s rt, Call_set_cp_reg ri]
                   else [cp_load_reg s rt, St_field (ri_fieldoffset ri)])
        in if ri_type ri AND ARM_CP_SUPPRESS_TB_END = 0
           then (ops @ [Gen_set_pc_im (cd_pc s AND NOT 1)], Some DISAS_UPDATE) else (ops, None))"

text \<open>The access to a register that is defined.\<close>

definition gen_cp_access :: "cpu \<Rightarrow> cp_disas \<Rightarrow> ARMCPRegInfo \<Rightarrow> bool \<Rightarrow> bool \<Rightarrow> nat \<Rightarrow> nat \<Rightarrow> int \<times> cp_op list \<times> int option" where
  "gen_cp_access env s ri isread is64 rt rt2 =
     (if \<not> cp_access_ok env ri isread then (1, [], None)
      else
        let special = ri_type ri AND NOT (ARM_CP_FLAG_MASK AND NOT ARM_CP_SPECIAL) in
        if special = ARM_CP_NOP then (0, [], None)
        else if special = ARM_CP_WFI then
          (if isread then (1, [], None) else (0, [Gen_set_pc_im (cd_pc s)], Some DISAS_WFI))
        else if isread then (0, gen_cp_read s ri is64 rt rt2)
        else (0, gen_cp_write s ri is64 rt rt2))"

definition disas_coproc_insn :: "cp_regs \<Rightarrow> cpu \<Rightarrow> cp_disas \<Rightarrow> u32 \<Rightarrow> int \<times> cp_op list \<times> int option" where
  "disas_coproc_insn m env s insn =
     (let cpnum = unat (drop_bit 8 insn AND 0xf) in
      if arm_feature env ARM_FEATURE_XSCALE \<and> (cp15_c15_cpar (cp15 env) XOR 0x3fff) AND push_bit cpnum 1 \<noteq> 0
      then (1, [], None)
      else if cpnum = 0 \<or> cpnum = 1 then
        (if arm_feature env ARM_FEATURE_IWMMXT then cd_iwmmxt s insn
         else if arm_feature env ARM_FEATURE_XSCALE then cd_dsp s insn
         else (1, [], None))
      else if cpnum = 10 \<or> cpnum = 11 then cd_vfp s insn
      else
        let is64 = (insn AND push_bit 25 1 = 0) in
        if \<not> is64 \<and> insn AND push_bit 4 1 = 0 then (1, [], None)
        else
          let crm = unat (insn AND 0xf);
              (crn, opc1, opc2, rt2) =
                (if is64 then (0, unat (drop_bit 4 insn AND 0xf), 0, unat (drop_bit 16 insn AND 0xf))
                 else (unat (drop_bit 16 insn AND 0xf), unat (drop_bit 21 insn AND 7), unat (drop_bit 5 insn AND 7), 0));
              isread = (drop_bit 20 insn AND 1 \<noteq> 0);
              rt = unat (drop_bit 12 insn AND 0xf)
          in case get_arm_cp_reginfo m (ENCODE_CP_REG cpnum (if is64 then 1 else 0) crn crm opc1 opc2) of
               None \<Rightarrow> (1, [], None)
             | Some ri \<Rightarrow> gen_cp_access env s ri isread is64 rt rt2)"

section \<open>Execution of the generated operations\<close>

text \<open>
  The meaning of the operations on the processor state, the temporary and the calls made.
  The first component of the result tells whether a helper left the translated code. No
  register with 64 bits is defined with a field only, so the two accesses to such a field
  have no meaning here.
\<close>

type_synonym cp_run = "cpu \<times> u64 \<times> emu_call list"

definition set_tmp :: "u64 \<Rightarrow> cp_run \<Rightarrow> (bool \<times> cp_run) result" where
  "set_tmp v = (\<lambda>(env, t, cs). Inr (False, env, v, cs))"

definition set_reg :: "nat \<Rightarrow> u32 \<Rightarrow> cp_run \<Rightarrow> (bool \<times> cp_run) result" where
  "set_reg r v = (\<lambda>(env, t, cs). Inr (False, env\<lparr>regs := (regs env)[r := v]\<rparr>, t, cs))"

fun run_op :: "mmu_ext \<Rightarrow> arm_cpu \<Rightarrow> cp_op \<Rightarrow> cp_run \<Rightarrow> (bool \<times> cp_run) result" where
  "run_op x cpu (Gen_set_pc_im v) (env, t, cs) = set_reg 15 v (env, t, cs)"
| "run_op x cpu (Ld_const v) (env, t, cs) = set_tmp v (env, t, cs)"
| "run_op x cpu (Ld_field None) (env, t, cs) = Inl Null_Pointer"
| "run_op x cpu (Ld_field (Some f)) (env, t, cs) = set_tmp (ucast (cpreg_get f env)) (env, t, cs)"
| "run_op x cpu (Ld_field64 f) (env, t, cs) = Inl Wrong_Type"
| "run_op x cpu (Call_get_cp_reg ri) (env, t, cs) =
     cbind (helper_get_cp_reg cpu ri env) (\<lambda>(exited, v, env). Inr (exited, env, ucast v, cs))"
| "run_op x cpu (Call_get_cp_reg64 ri) (env, t, cs) =
     cbind (helper_get_cp_reg64 cpu ri env) (\<lambda>(exited, v, env). Inr (exited, env, v, cs))"
| "run_op x cpu (Store_reg r) (env, t, cs) = set_reg r (if r = 15 then ucast t AND NOT 1 else ucast t) (env, t, cs)"
| "run_op x cpu (Store_reg_high r) (env, t, cs) =
     set_reg r (if r = 15 then ucast (drop_bit 32 t) AND NOT 1 else ucast (drop_bit 32 t)) (env, t, cs)"
| "run_op x cpu Set_nzcv (env, t, cs) = cbind (cpsr_write (ucast t) CPSR_NZCV env) (\<lambda>env. Inr (False, env, t, cs))"
| "run_op x cpu (Load_reg r) (env, t, cs) = set_tmp (ucast (regs env ! r)) (env, t, cs)"
| "run_op x cpu (Load_reg_high r) (env, t, cs) = set_tmp (take_bit 32 t OR push_bit 32 (ucast (regs env ! r))) (env, t, cs)"
| "run_op x cpu (Load_imm v) (env, t, cs) = set_tmp (ucast v) (env, t, cs)"
| "run_op x cpu (Load_imm_high v) (env, t, cs) = set_tmp (take_bit 32 t OR push_bit 32 (ucast v)) (env, t, cs)"
| "run_op x cpu (Call_set_cp_reg ri) (env, t, cs) =
     cbind (helper_set_cp_reg x ri (ucast t) env) (\<lambda>(exited, env, calls). Inr (exited, env, t, cs @ calls))"
| "run_op x cpu (Call_set_cp_reg64 ri) (env, t, cs) =
     cbind (helper_set_cp_reg64 x ri t env) (\<lambda>(exited, env, calls). Inr (exited, env, t, cs @ calls))"
| "run_op x cpu (St_field None) (env, t, cs) = Inl Null_Pointer"
| "run_op x cpu (St_field (Some f)) (env, t, cs) = Inr (False, cpreg_set f (ucast t) env, t, cs)"
| "run_op x cpu (St_field64 f) (env, t, cs) = Inl Wrong_Type"

fun run_ops :: "mmu_ext \<Rightarrow> arm_cpu \<Rightarrow> cp_op list \<Rightarrow> cp_run \<Rightarrow> (bool \<times> cp_run) result" where
  "run_ops x cpu [] r = Inr (False, r)"
| "run_ops x cpu (op # ops) r = cbind (run_op x cpu op r) (\<lambda>(exited, r). if exited then Inr (True, r) else run_ops x cpu ops r)"

end
