(* ===== verification/Arm_Isolation.thy ===== *)
theory Arm_Isolation
  imports Arm_Coproc
begin

text \<open>
  Coprocessor instructions executed in user mode: what they may change of the processor
  state, and that the registers of the kernel are out of their reach.
\<close>

unbundle bit_operations_syntax

section \<open>What user code may change\<close>

text \<open>
  The state without what instructions of the user mode may change: the registers and
  flags of the mode, the thread register, and, when the kernel allows it, the performance
  monitors and the handler base of Thumb-2 EE.
\<close>

definition protected :: "cpu \<Rightarrow> cpu" where
  "protected env = env\<lparr>regs := [], CF := 0, VF := 0, NF := 0, ZF := 0, exception_index := 0,
     teehbr := (if teecr env AND 1 \<noteq> 0 then teehbr env else 0),
     cp15 := (let c = cp15 env; pm = (\<lambda>v. if cp15_c9_pmuserenr c = 0 then v else 0) in
        c\<lparr>cp15_c13_tls1 := 0, cp15_c9_pmcr := pm (cp15_c9_pmcr c), cp15_c9_pmcnten := pm (cp15_c9_pmcnten c),
          cp15_c9_pmovsr := pm (cp15_c9_pmovsr c), cp15_c9_pmxevtyper := pm (cp15_c9_pmxevtyper c)\<rparr>)\<rparr>"

lemma protected_simps [simp]:
  "protected (env\<lparr>regs := rs\<rparr>) = protected env" "protected (env\<lparr>exception_index := i\<rparr>) = protected env"
  "protected (raise_exception i env) = protected env"
  "protected (cpreg_set Fld_c13_tls1 v env) = protected env"
  by (simp_all add: protected_def raise_exception_def Let_def)

lemma protected_pl:
  assumes "protected env' = protected env"
  shows "arm_current_pl env' = arm_current_pl env"
proof -
  have "uncached_cpsr (protected env') = uncached_cpsr (protected env)" using assms by simp
  then show ?thesis by (simp add: protected_def arm_current_pl_def)
qed

lemma nzcv_write: "\<exists>env'. cpsr_write v CPSR_NZCV env = Inr env' \<and> protected env' = protected env"
proof -
  have "cpsr_write_flags v CPSR_NZCV env = env\<lparr>ZF := NOT v AND CPSR_Z, NF := v, CF := drop_bit 29 v AND 1,
      VF := push_bit 3 v AND 0x80000000\<rparr>"
    by (simp add: cpsr_write_flags_def write_nzcv_def write_q_def write_it_def cpsr_consts)
  then have "cpsr_write v CPSR_NZCV env = Inr (env\<lparr>ZF := NOT v AND CPSR_Z, NF := v, CF := drop_bit 29 v AND 1,
      VF := push_bit 3 v AND 0x80000000\<rparr>)"
    by (simp add: cpsr_write_def cpsr_consts and.assoc)
  then show ?thesis by (simp add: protected_def)
qed


text \<open>An operation is safe if, in user mode, it succeeds, makes no call and changes nothing protected.\<close>

definition safe_result :: "cpu \<Rightarrow> emu_call list \<Rightarrow> (bool \<times> cp_run) result \<Rightarrow> bool" where
  "safe_result env cs r \<longleftrightarrow>
     (case r of Inl e \<Rightarrow> False | Inr (exited, env', t', cs') \<Rightarrow> cs' = cs \<and> protected env' = protected env)"

definition safe_op :: "cp_op \<Rightarrow> bool" where
  "safe_op op \<longleftrightarrow> (\<forall>x cpu env t cs. arm_current_pl env = 0 \<longrightarrow> safe_result env cs (run_op x cpu op (env, t, cs)))"

lemma safe_result_cong: "protected env1 = protected env \<Longrightarrow> safe_result env1 cs r = safe_result env cs r"
  unfolding safe_result_def by (erule ssubst) (rule refl)

lemma run_safe:
  assumes "list_all safe_op ops" "arm_current_pl env = 0"
  shows "safe_result env cs (run_ops x cpu ops (env, t, cs))"
  using assms
proof (induction ops arbitrary: env t)
  case Nil
  then show ?case by (simp add: safe_result_def)
next
  case (Cons op ops)
  then have "safe_result env cs (run_op x cpu op (env, t, cs))" unfolding list.pred_inject safe_op_def by blast
  then obtain exited env1 t1 where r: "run_op x cpu op (env, t, cs) = Inr (exited, env1, t1, cs)"
    and p: "protected env1 = protected env" by (auto simp: safe_result_def split: sum.splits)
  have pl: "arm_current_pl env1 = 0" using protected_pl [OF p] Cons.prems(2) by simp
  show ?case
  proof (cases exited)
    case True
    then show ?thesis using r p by (simp add: safe_result_def)
  next
    case False
    then show ?thesis using r Cons.IH [OF _ pl, of t1] Cons.prems(1) by (simp add: safe_result_cong [OF p])
  qed
qed

lemma safe_nzcv: "safe_op Set_nzcv"
  unfolding safe_op_def
proof (intro allI impI)
  fix x cpu env cs and t :: u64
  obtain env' where "cpsr_write (ucast t) CPSR_NZCV env = Inr env'" "protected env' = protected env"
    using nzcv_write by blast
  then show "safe_result env cs (run_op x cpu Set_nzcv (env, t, cs))" by (simp add: safe_result_def)
qed

lemma safe_regs:
  "safe_op (Gen_set_pc_im v)" "safe_op (Ld_const w)" "safe_op (Ld_field (Some f))" "safe_op (Store_reg r)"
  "safe_op (Store_reg_high r)" "safe_op (cp_load_reg s r)" "safe_op (cp_load_reg_high s r)"
  "safe_op (St_field (Some Fld_c13_tls1))"
  by (simp_all add: safe_op_def safe_result_def set_reg_def set_tmp_def cp_load_reg_def cp_load_reg_high_def del: cpreg_set.simps)

text \<open>The definitions an instruction of user mode may reach by a write or by a read.\<close>

definition ri_special :: "ARMCPRegInfo \<Rightarrow> u32" where
  "ri_special ri = ri_type ri AND NOT (ARM_CP_FLAG_MASK AND NOT ARM_CP_SPECIAL)"

definition user_writefn :: "cp_writefn \<Rightarrow> bool" where
  "user_writefn fn \<longleftrightarrow> fn \<in> {Pmcr_write, Pmcntenset_write, Pmcntenclr_write, Pmovsr_write, Pmxevtyper_write, Teehbr_write}"

definition user_write :: "ARMCPRegInfo \<Rightarrow> bool" where
  "user_write ri \<longleftrightarrow> ri_special ri = ARM_CP_NOP \<or> ri_type ri AND ARM_CP_CONST \<noteq> 0
     \<or> (case ri_writefn ri of Some fn \<Rightarrow> user_writefn fn
        | None \<Rightarrow> ri_fieldoffset ri = Some Fld_c13_tls1 \<and> ri_is64 ri = 0)"

definition user_read :: "ARMCPRegInfo \<Rightarrow> bool" where
  "user_read ri \<longleftrightarrow> ri_special ri = ARM_CP_NOP \<or> ri_type ri AND ARM_CP_CONST \<noteq> 0
     \<or> (case ri_readfn ri of Some fn \<Rightarrow> fn = Teehbr_read \<or> fn = Pmreg_read \<and> ri_fieldoffset ri \<noteq> None
        | None \<Rightarrow> ri_fieldoffset ri \<noteq> None \<and> ri_is64 ri = 0)"

definition user_ok :: "ARMCPRegInfo \<Rightarrow> bool" where
  "user_ok ri \<longleftrightarrow> (if ri_access ri AND 1 \<noteq> 0 then user_write ri \<and> ri_special ri \<noteq> ARM_CP_WFI else True)
     \<and> (if ri_access ri AND 2 \<noteq> 0 then user_read ri else True)"

lemma inst_fields [simp]:
  "ri_type (inst c r) = ri_type r" "ri_access (inst c r) = ri_access r" "ri_readfn (inst c r) = ri_readfn r"
  "ri_writefn (inst c r) = ri_writefn r" "ri_fieldoffset (inst c r) = ri_fieldoffset r"
  by (cases c, simp)+

lemma user_ok_inst [simp]: "user_ok (inst c r) = user_ok r" "ri_is64 (inst c r) = ri_is64 r"
  by (simp_all only: user_ok_def user_write_def user_read_def ri_special_def ri_is64_def inst_fields)

lemma pm_protected:
  assumes "cp15_c9_pmuserenr (cp15 env) \<noteq> 0"
  shows "protected (env\<lparr>cp15 := (cp15 env)\<lparr>cp15_c9_pmcr := v\<rparr>\<rparr>) = protected env"
    "protected (env\<lparr>cp15 := (cp15 env)\<lparr>cp15_c9_pmcnten := v\<rparr>\<rparr>) = protected env"
    "protected (env\<lparr>cp15 := (cp15 env)\<lparr>cp15_c9_pmovsr := v\<rparr>\<rparr>) = protected env"
    "protected (env\<lparr>cp15 := (cp15 env)\<lparr>cp15_c9_pmxevtyper := v\<rparr>\<rparr>) = protected env"
  using assms by (simp_all add: protected_def Let_def)

lemma user_writefn_frame:
  assumes "user_writefn fn" "arm_current_pl env = 0"
  shows "case call_writefn x fn ri v env of Inl e \<Rightarrow> False | Inr (excp, env', cs) \<Rightarrow> cs = [] \<and> protected env' = protected env"
proof -
  have "cp15_c9_pmuserenr (cp15 env) \<noteq> 0 \<or> pm_denied env" using assms(2) by (simp add: pm_denied_def)
  moreover have "teecr env AND 1 \<noteq> 0 \<or> protected (env\<lparr>teehbr := ucast v\<rparr>) = protected env" by (simp add: protected_def)
  ultimately show ?thesis using assms(1) unfolding user_writefn_def insert_iff empty_iff
    apply (elim disjE FalseE)
    apply (simp_all only: call_writefn.simps pmcr_write_def pmcntenset_write_def pmcntenclr_write_def pmovsr_write_def
      pmxevtyper_write_def teehbr_write_def Let_def assms(2) simp_thms if_True if_False sum.case prod.case split: if_split)
    apply (simp_all add: pm_protected)
    done
qed

lemma safe_set:
  assumes "ri_writefn ri = Some fn" "user_writefn fn"
  shows "safe_op (Call_set_cp_reg ri)" "safe_op (Call_set_cp_reg64 ri)"
proof -
  have "safe_result env cs (run_op x cpu (Call_set_cp_reg ri) (env, t, cs))
      \<and> safe_result env cs (run_op x cpu (Call_set_cp_reg64 ri) (env, t, cs))" if "arm_current_pl env = 0" for x cpu env t cs
    using user_writefn_frame [OF assms(2) that, of x ri "ucast (ucast t :: u32)"] user_writefn_frame [OF assms(2) that, of x ri t]
    by (auto simp: safe_result_def helper_set_cp_reg_def helper_set_cp_reg64_def assms(1) split: sum.splits if_splits)
  then show "safe_op (Call_set_cp_reg ri)" "safe_op (Call_set_cp_reg64 ri)" unfolding safe_op_def by blast+
qed

lemma safe_get:
  assumes "ri_readfn ri = Some fn" "fn = Teehbr_read \<or> fn = Pmreg_read \<and> ri_fieldoffset ri \<noteq> None"
  shows "safe_op (Call_get_cp_reg ri)" "safe_op (Call_get_cp_reg64 ri)"
  using assms(2)
  by (auto simp: safe_op_def safe_result_def helper_get_cp_reg_def helper_get_cp_reg64_def assms(1)
    teehbr_read_def pmreg_read_def)

lemma gen_write_safe:
  assumes "user_write ri" "ri_special ri \<noteq> ARM_CP_NOP" "ri_is64 ri = (if is64 then 1 else 0)"
  shows "list_all safe_op (fst (gen_cp_write s ri is64 rt rt2))"
proof (cases "ri_type ri AND ARM_CP_CONST \<noteq> 0")
  case True
  then show ?thesis by (simp add: gen_cp_write_def)
next
  case False
  then have "case ri_writefn ri of Some fn \<Rightarrow> user_writefn fn | None \<Rightarrow> ri_fieldoffset ri = Some Fld_c13_tls1 \<and> \<not> is64"
    using assms by (auto simp: user_write_def split: option.splits)
  then show ?thesis using False safe_set [of ri]
    by (cases "ri_writefn ri") (simp_all add: gen_cp_write_def Let_def safe_regs)
qed

lemma gen_read_safe:
  assumes "user_read ri" "ri_special ri \<noteq> ARM_CP_NOP" "ri_is64 ri = (if is64 then 1 else 0)"
  shows "list_all safe_op (fst (gen_cp_read s ri is64 rt rt2))"
proof (cases "ri_type ri AND ARM_CP_CONST \<noteq> 0")
  case True
  then show ?thesis by (simp add: gen_cp_read_def Let_def safe_regs safe_nzcv)
next
  case False
  then have "case ri_readfn ri of Some fn \<Rightarrow> fn = Teehbr_read \<or> fn = Pmreg_read \<and> ri_fieldoffset ri \<noteq> None
      | None \<Rightarrow> ri_fieldoffset ri \<noteq> None \<and> \<not> is64"
    using assms by (auto simp: user_read_def split: option.splits)
  then show ?thesis using False safe_get [of ri]
    by (cases "ri_readfn ri") (auto simp: gen_cp_read_def Let_def safe_regs safe_nzcv)
qed

lemma groups_user:
  assumes "r \<in> set (cp_regs_of (cp_groups cpu env))"
  shows "user_ok r"
proof -
  have "list_all (\<lambda>(g, rs). list_all user_ok rs) (cp_groups cpu env)"
    by (simp add: cp_groups_def Let_def cp_table_defs sctlr_def reg0_def user_ok_def user_write_def user_read_def user_writefn_def
      ri_special_def ri_is64_def cp_type_defs pl_defs)
  then show ?thesis using assms unfolding cp_regs_of_def by (auto simp: list_all_iff split: if_splits)
qed

section \<open>Isolation\<close>

lemma unat_low: "unat (x AND 0xf :: u32) < 16" "unat (x AND 7 :: u32) < 8"
proof -
  have "x AND 0xf = take_bit 4 x" "x AND 7 = take_bit 3 x" by (simp_all add: take_bit_eq_mask mask_eq_exp_minus_1)
  then show "unat (x AND 0xf :: u32) < 16" "unat (x AND 7 :: u32) < 8"
    using take_bit_nat_less_exp [of 4 "unat x"] take_bit_nat_less_exp [of 3 "unat x"] by (simp_all add: unat_take_bit_mod)
qed

lemma code_ok_insn: "code_ok (unat (drop_bit 8 (insn :: u32) AND 0xf), if is64 then 1 else 0,
    if is64 then 0 else unat (drop_bit 16 insn AND 0xf), unat (insn AND 0xf),
    if is64 then unat (drop_bit 4 insn AND 0xf) else unat (drop_bit 21 insn AND 7),
    if is64 then 0 else unat (drop_bit 5 insn AND 7))"
  using less_trans [OF unat_low(2) [of "drop_bit 21 insn"], of 16] by (auto simp: unat_low)

lemma lookup_user:
  assumes "represents (cp_regs_of (cp_groups cpu env)) m" "code_ok c" "get_arm_cp_reginfo m (encode c) = Some ri"
  shows "user_ok ri \<and> ri_is64 ri = fst (snd c)"
proof -
  have "lookup_spec (cp_regs_of (cp_groups cpu env)) c = Some ri"
    using assms unfolding represents_def get_arm_cp_reginfo_def by metis
  from lookup_spec_Some [OF this] obtain r where "r \<in> set (cp_regs_of (cp_groups cpu env))" "matches r c" "ri = inst c r"
    by blast
  then show ?thesis using groups_user by (cases c) (simp del: inst.simps)
qed

lemma access_bit: "drop_bit (Suc 0) (w :: u32) AND 1 \<noteq> 0 \<longleftrightarrow> w AND 2 \<noteq> 0"
proof -
  have "drop_bit (Suc 0) w AND 1 \<noteq> 0 \<longleftrightarrow> bit w 1" by (simp add: and_one_eq bit_iff_odd_drop_bit odd_iff_mod_2_eq_one)
  moreover have "w AND 2 = (if bit w 1 then 2 else 0)"
    by (rule bit_word_eqI) (auto simp: bit_simps bit_numeral_rec intro: gr0I split: nat.splits)
  ultimately show ?thesis by simp
qed

lemma gen_cp_read_jmp: "gen_cp_read s ri is64 rt rt2 \<noteq> (ops, Some DISAS_WFI)"
  by (simp add: gen_cp_read_def Let_def store_jmp_def DISAS_JUMP_def DISAS_WFI_def)

lemma gen_cp_write_jmp: "gen_cp_write s ri is64 rt rt2 \<noteq> (ops, Some DISAS_WFI)"
  by (simp add: gen_cp_write_def Let_def DISAS_UPDATE_def DISAS_WFI_def)

lemma access_safe:
  assumes "user_ok ri" "ri_is64 ri = (if is64 then 1 else 0)" "arm_current_pl env = 0"
    and "gen_cp_access env s ri isread is64 rt rt2 = (0, ops, jmp)"
  shows "list_all safe_op ops \<and> jmp \<noteq> Some DISAS_WFI"
proof (cases "ri_special ri = ARM_CP_NOP")
  case True
  then show ?thesis using assms(4) by (auto simp: gen_cp_access_def ri_special_def Let_def split: if_splits)
next
  case False
  note d = gen_cp_access_def Let_def ri_special_def [symmetric]
  have acc: "cp_access_ok env ri isread" using assms(4) by (auto simp: d split: if_splits)
  show ?thesis
  proof (cases isread)
    case True
    then have "user_read ri" using acc assms(1,3) by (auto simp: cp_access_ok_def user_ok_def access_bit split: if_splits)
    from gen_read_safe [OF this False assms(2), of s rt rt2] show ?thesis
      using True False acc assms(4) by (auto simp: d gen_cp_read_jmp split: if_splits)
  next
    case w: False
    then have "user_write ri" "ri_special ri \<noteq> ARM_CP_WFI"
      using acc assms(1,3) by (auto simp: cp_access_ok_def user_ok_def split: if_splits)
    from gen_write_safe [OF this(1) False assms(2), of s rt rt2] this(2) show ?thesis
      using w False acc assms(4) by (auto simp: gen_cp_access_def Let_def ri_special_def gen_cp_write_jmp split: if_splits)
  qed
qed

lemma disas_lookup:
  assumes "\<not> unat (drop_bit 8 insn AND 0xf) \<in> {0, 1, 10, 11}" "disas_coproc_insn m env s insn = (0, ops, jmp)"
  shows "\<exists>is64 ri isread rt rt2. get_arm_cp_reginfo m (encode (unat (drop_bit 8 insn AND 0xf), if is64 then 1 else 0,
      if is64 then 0 else unat (drop_bit 16 insn AND 0xf), unat (insn AND 0xf),
      if is64 then unat (drop_bit 4 insn AND 0xf) else unat (drop_bit 21 insn AND 7),
      if is64 then 0 else unat (drop_bit 5 insn AND 7))) = Some ri
    \<and> gen_cp_access env s ri isread is64 rt rt2 = (0, ops, jmp)"
proof (cases "insn AND push_bit 25 1 = 0")
  case True
  show ?thesis using True assms
    by (intro exI [of _ True]) (auto simp: disas_coproc_insn_def Let_def encode.simps split: if_splits option.splits)
next
  case False
  show ?thesis using False assms
    by (intro exI [of _ False]) (auto simp: disas_coproc_insn_def Let_def encode.simps split: if_splits option.splits)
qed

text \<open>
  C14. User code cannot reach the state of the kernel through coprocessor instructions.
  Take a processor in user mode whose registers were defined for a consistent set of
  features, and an instruction for any coprocessor but the media and floating point ones.
  If it is not undefined, its translated code runs to an end or raises an exception, without
  error. It makes no call into the emulator: no buffer is flushed, the processor is not
  stopped, and no block ends in a wait for an interrupt. Nothing changes but the
  registers and flags of the mode, the exception raised, the thread register, the
  performance monitors if the kernel enabled them for users, and the handler base of
  Thumb-2 EE if the kernel did not lock it.
\<close>

theorem user_isolation:
  assumes "features_ok env0" "register_cp_regs_for_features cpu env0 Map.empty = Inr m"
    and "arm_current_pl env = 0" "unat (drop_bit 8 insn AND 0xf) \<notin> {0, 1, 10, 11}"
    and "disas_coproc_insn m env s insn = (0, ops, jmp)"
  shows "jmp \<noteq> Some DISAS_WFI \<and> (\<exists>exited env' t'. run_ops x cpu ops (env, t, []) = Inr (exited, env', t', [])
    \<and> protected env' = protected env)"
proof -
  from disas_lookup [OF assms(4,5)] obtain is64 ri isread rt rt2 where
    l: "get_arm_cp_reginfo m (encode (unat (drop_bit 8 insn AND 0xf), if is64 then 1 else 0,
      if is64 then 0 else unat (drop_bit 16 insn AND 0xf), unat (insn AND 0xf),
      if is64 then unat (drop_bit 4 insn AND 0xf) else unat (drop_bit 21 insn AND 7),
      if is64 then 0 else unat (drop_bit 5 insn AND 7))) = Some ri"
    and g: "gen_cp_access env s ri isread is64 rt rt2 = (0, ops, jmp)" by blast
  have "represents (cp_regs_of (cp_groups cpu env0)) m" using registered [OF assms(1), of cpu] assms(2) by auto
  from lookup_user [OF this code_ok_insn l] have u: "user_ok ri" "ri_is64 ri = (if is64 then 1 else 0)" by simp_all
  from access_safe [OF u assms(3) g] have a: "list_all safe_op ops" and j: "jmp \<noteq> Some DISAS_WFI" by simp_all
  from run_safe [OF a assms(3), of "[]" x cpu t] show ?thesis
    using j unfolding safe_result_def by (auto split: sum.splits)
qed

text \<open>A write of the thread register by a user program, \<^verbatim>\<open>mcr p15, 0, r0, c13, c0, 2\<close>.\<close>

definition demo_user :: cpu where
  "demo_user = demo_v7\<lparr>uncached_cpsr := 0x10\<rparr>"

definition demo_disas :: cp_disas where
  "demo_disas = \<lparr>cd_pc = 0x8004, cd_thumb = False, cd_iwmmxt = \<lambda>insn. (1, [], None), cd_dsp = \<lambda>insn. (1, [], None),
     cd_vfp = \<lambda>insn. (1, [], None)\<rparr>"

lemma demo_lookup:
  assumes "represents (cp_regs_of (cp_groups demo_arm_cpu demo_v7)) m"
  shows "disas_coproc_insn m demo_user demo_disas 0xee0d0f50
    = (0, [Load_reg 0, St_field (Some Fld_c13_tls1), Gen_set_pc_im 0x8004], Some DISAS_UPDATE)"
proof -
  let ?c = "(15, 0, 13, 0, 0, 2) :: cp_code"
  let ?L = "cp_regs_of (cp_groups demo_arm_cpu demo_v7)"
  note d = lookup_spec_def cp_groups_def cp_table_defs demo_v7_def arm_feature_def feature_defs sctlr_def ri_keys_def
    reg0_def cp_range_def CP_ANY_def ri_is64_def cp_type_defs
  have "map_option (\<lambda>ri. (ri_type ri, ri_access ri, ri_fieldoffset ri, ri_writefn ri)) (lookup_spec ?L ?c)
      = Some (0, PL0_RW, Some Fld_c13_tls1, None)" by (simp add: d)
  moreover have "m (encode ?c) = lookup_spec ?L ?c" using assms unfolding represents_def by simp
  ultimately obtain ri where "m (ENCODE_CP_REG 15 0 13 0 0 2) = Some ri" "ri_type ri = 0" "ri_access ri = PL0_RW"
    "ri_fieldoffset ri = Some Fld_c13_tls1" "ri_writefn ri = None" by (auto simp: encode.simps)
  then show ?thesis
    by (simp add: disas_coproc_insn_def gen_cp_access_def gen_cp_write_def demo_disas_def cp_load_reg_def get_arm_cp_reginfo_def
      cp_access_ok_def pl_defs demo_user_def demo_v7_def arm_current_pl_def mode_defs arm_feature_def feature_defs
      cp_type_defs)
qed

theorem user_isolation_witness:
  "\<exists>m ops jmp. register_cp_regs_for_features demo_arm_cpu demo_v7 Map.empty = Inr m
    \<and> disas_coproc_insn m demo_user demo_disas 0xee0d0f50 = (0, ops, jmp) \<and> ops \<noteq> []
    \<and> (\<exists>exited env' t'. run_ops demo_mmu_ext demo_arm_cpu ops (demo_user, 0, []) = Inr (exited, env', t', [])
        \<and> protected env' = protected demo_user)"
proof -
  obtain m where m: "register_cp_regs_for_features demo_arm_cpu demo_v7 Map.empty = Inr m"
    "represents (cp_regs_of (cp_groups demo_arm_cpu demo_v7)) m" using registered [OF demo_v7_ok] by blast
  have "arm_current_pl demo_user = 0" by (simp add: demo_user_def arm_current_pl_def mode_defs)
  from user_isolation [OF demo_v7_ok m(1) this _ demo_lookup [OF m(2)], of demo_mmu_ext 0] show ?thesis
    using m(1) demo_lookup [OF m(2)] by simp
qed

end
