(* ===== verification/Arm_Mmu_Control.thy ===== *)
theory Arm_Mmu_Control
  imports Arm_Coproc
begin

text \<open>
  The control registers of address translation against the walks that use them: the
  split of the address space by \<^verbatim>\<open>TTBCR\<close>, and the two formats of the permissions of
  the protection unit.
\<close>

section \<open>The split of the address space\<close>

lemma not_mask_push: "w AND NOT (mask k) = push_bit k (drop_bit k w)" for w :: u32
  by (auto simp: bit_simps intro!: bit_word_eqI)

lemma drop_less: "unat (drop_bit k w) * 2 ^ k < 2 ^ LENGTH(32)" for w :: u32
  unfolding unat_drop_bit_div
  by (rule le_less_trans [OF div_times_less_eq_dividend unsigned_less])

lemma and_not_mask: "unat (w AND NOT (mask k)) = unat w div 2 ^ k * 2 ^ k" for w :: u32
  unfolding not_mask_push using unat_fields [of "0 :: u32" k, OF _ drop_less [of k w]] by (simp add: unat_drop_bit_div)

lemma high_bits_zero: "w AND NOT (mask k) = 0 \<longleftrightarrow> unat w < 2 ^ k" for w :: u32
  by (simp add: and_not_mask div_eq_0_iff flip: unat_0_iff)

lemma table_index: "unat (drop_bit 18 w AND 0x3ffc) = 4 * (unat w div 2 ^ 20)" for w :: u32
proof -
  have "drop_bit 18 w AND 0x3ffc = push_bit 2 (drop_bit 20 w)"
  proof (rule bit_word_eqI)
    fix n
    assume "n < LENGTH(32)"
    have m: "bit (0x3ffc :: u32) n \<longleftrightarrow> 2 \<le> n \<and> n < 14"
    proof -
      have e: "(0x3ffc :: u32) = push_bit 2 (mask 12)" by (simp add: mask_eq_exp_minus_1)
      show ?thesis unfolding e using \<open>n < LENGTH(32)\<close> by (auto simp: bit_simps)
    qed
    show "bit (drop_bit 18 w AND 0x3ffc) n = bit (push_bit 2 (drop_bit 20 w)) n"
      using m by (auto simp: bit_simps dest: bit_u32_less)
  qed
  moreover have "unat (push_bit 2 (drop_bit 20 w)) = unat w div 2 ^ 20 * 4"
    using unat_fields [of "0 :: u32" 2 "drop_bit 20 w"] unsigned_less [of w, where ?'a = nat] by (simp add: unat_drop_bit_div less_mult_imp_div_less)
  ultimately show ?thesis by simp
qed

lemma table_entry:
  assumes "unat (a :: u32) < 2 ^ (18 + k)" "2 \<le> k" "k \<le> 14"
  shows "unat ((b AND NOT (mask k)) OR (drop_bit 18 a AND 0x3ffc)) = unat b div 2 ^ k * 2 ^ k + 4 * (unat a div 2 ^ 20)"
proof -
  obtain j where j: "k = j + 2" using assms(2) by (metis le_add_diff_inverse2)
  have "unat a div 2 ^ 20 < 2 ^ j"
    using assms(1) by (intro less_mult_imp_div_less) (simp add: j power_add)
  then have l: "unat (drop_bit 18 a AND 0x3ffc) < 2 ^ k" by (simp add: table_index j)
  show ?thesis unfolding not_mask_push
    using unat_fields [OF l drop_less [of k b]] by (simp add: unat_drop_bit_div table_index)
qed

lemma ttbcr_masks:
  assumes "k \<le> 7"
  shows "NOT (drop_bit k 0xffffffff) = NOT (mask (32 - k) :: u32)" "NOT (drop_bit k 0x3fff) = NOT (mask (14 - k) :: u32)"
proof -
  have "drop_bit k (0xffffffff :: u32) = mask (32 - k)" "drop_bit k (0x3fff :: u32) = mask (14 - k)"
  proof -
    have e: "(0xffffffff :: u32) = mask 32" "(0x3fff :: u32) = mask 14" by (simp_all add: mask_eq_exp_minus_1)
    show "drop_bit k (0xffffffff :: u32) = mask (32 - k)" "drop_bit k (0x3fff :: u32) = mask (14 - k)"
      unfolding e using assms by (auto simp: bit_simps intro!: bit_word_eqI)
  qed
  then show "NOT (drop_bit k 0xffffffff) = NOT (mask (32 - k) :: u32)" "NOT (drop_bit k 0x3fff) = NOT (mask (14 - k) :: u32)"
    by simp_all
qed

text \<open>
  C18. The translation table control register splits the address space as the
  architecture defines. On a processor without large physical addresses, a write of the
  register never fails and flushes nothing. With \<open>N\<close> the low three bits written, the
  walk of an address below \<open>2 ^ (32 - N)\<close> starts at the entry of its megabyte in the
  table of \<^verbatim>\<open>TTBR0\<close>, aligned to \<open>2 ^ (14 - N)\<close> bytes; every other address uses
  the table of \<^verbatim>\<open>TTBR1\<close>, aligned to 16 kilobytes. The precomputed masks of the
  code are equivalent to this definition by arithmetic.
\<close>

theorem ttbcr_split:
  assumes "\<not> arm_feature env ARM_FEATURE_LPAE"
  shows "\<exists>env'. vmsa_ttbcr_write v env = Inr (0, env', [])
    \<and> cp15_c2_control (cp15 env') = ucast v AND 7
    \<and> (let n = unat (v AND 7); b0 = unat (cp15_c2_base0 (cp15 env)); b1 = unat (cp15_c2_base1 (cp15 env)) in
        \<forall>address. unat (get_level1_table_address env' address) =
          (if unat address < 2 ^ (32 - n) then b0 div 2 ^ (14 - n) * 2 ^ (14 - n) else b1 div 2 ^ 14 * 2 ^ 14)
            + 4 * (unat address div 2 ^ 20))"
proof -
  define n where "n = unat (v AND 7)"
  have "v AND 7 = take_bit 3 v" by (simp add: take_bit_eq_mask mask_eq_exp_minus_1)
  then have n: "n \<le> 7" using unat_take_bit_less [of 3 v] by (simp add: n_def)
  then have s: "\<not> 32 \<le> v AND 7" by (simp add: n_def word_le_nat_alt)
  define env' where "env' = env\<lparr>cp15 := (cp15 env)\<lparr>cp15_c2_control := ucast (v AND 7),
    cp15_c2_mask := NOT (mask (32 - n)), cp15_c2_base_mask := NOT (mask (14 - n))\<rparr>\<rparr>"
  have w: "vmsa_ttbcr_write v env = Inr (0, env', [])"
    using assms s ttbcr_masks [OF n] by (simp add: vmsa_ttbcr_write_def env'_def n_def [symmetric])
  have "unat (get_level1_table_address env' a) =
      (if unat a < 2 ^ (32 - n) then unat (cp15_c2_base0 (cp15 env)) div 2 ^ (14 - n) * 2 ^ (14 - n)
       else unat (cp15_c2_base1 (cp15 env)) div 2 ^ 14 * 2 ^ 14) + 4 * (unat a div 2 ^ 20)" for a
  proof -
    have m: "(0xffffc000 :: u32) = NOT (mask 14)" by (simp add: mask_eq_exp_minus_1)
    have "18 + (14 - n) = 32 - n" using n by simp
    then have "unat a < 2 ^ (32 - n) \<Longrightarrow> unat a < 2 ^ (18 + (14 - n))" by simp
    then show ?thesis
      using table_entry [of a "14 - n" "cp15_c2_base0 (cp15 env)"] table_entry [of a 14 "cp15_c2_base1 (cp15 env)"]
        n unsigned_less [of a, where ?'a = nat] unfolding get_level1_table_address_def Let_def m high_bits_zero env'_def
      by (simp add: high_bits_zero)
  qed
  moreover have "cp15_c2_control (cp15 env') = ucast v AND 7" by (simp add: env'_def unsigned_and_eq)
  ultimately show ?thesis using w by (simp add: n_def Let_def)
qed

theorem ttbcr_split_witness:
  "\<exists>env'. vmsa_ttbcr_write 1 demo_cpu = Inr (0, env', []) \<and> cp15_c2_control (cp15 env') = 1
    \<and> unat (get_level1_table_address env' 0x7ff00000)
        = unat (cp15_c2_base0 (cp15 demo_cpu)) div 8192 * 8192 + 4 * 0x7ff
    \<and> unat (get_level1_table_address env' 0x80000000)
        = unat (cp15_c2_base1 (cp15 demo_cpu)) div 16384 * 16384 + 4 * 0x800"
proof -
  have "\<not> arm_feature demo_cpu ARM_FEATURE_LPAE" by (simp add: arm_feature_def feature_defs demo_cpu_def)
  from ttbcr_split [OF this, of 1] show ?thesis by (auto simp: Let_def)
qed

section \<open>The permissions of the protection unit\<close>

lemma mpu_bits_bit:
  "bit (mpu_bits part is m r) n \<longleftrightarrow> bit r n \<or> (\<exists>j < length is. bit (part (is ! j) (push_bit (2 * j) m)) n)"
proof (induction "is" arbitrary: m r)
  case Nil
  then show ?case by simp
next
  case (Cons i "is")
  have e: "push_bit (2 * j) (push_bit 2 m) = push_bit (2 * Suc j) m" for j by (simp add: push_bit_push_bit add.commute)
  have "(\<exists>j < length (i # is). bit (part ((i # is) ! j) (push_bit (2 * j) m)) n)
      \<longleftrightarrow> bit (part i m) n \<or> (\<exists>j < length is. bit (part (is ! j) (push_bit (2 * Suc j) m)) n)"
    by (auto simp: less_Suc_eq_0_disj)
  then show ?case unfolding mpu_bits.simps Cons.IH e by (simp only: bit_or_iff) blast
qed

lemma mpu_length: "length mpu_indices = 8"
  by (simp add: mpu_indices_def)

lemma mpu_index: "j < 8 \<Longrightarrow> mpu_indices ! j = 2 * j"
  by (auto simp: mpu_indices_def eval_nat_numeral less_Suc_eq)

lemma bit_3: "bit (push_bit k 3 :: u32) n \<longleftrightarrow> n < 32 \<and> k \<le> n \<and> n < k + 2"
proof -
  have e: "(3 :: u32) = mask 2" by (simp add: mask_eq_exp_minus_1)
  show ?thesis unfolding e by (auto simp: bit_simps)
qed

lemma extended_bit: "bit (extended_mpu_ap_bits v) n \<longleftrightarrow> n < 32 \<and> (\<exists>j < 8. 4 * j \<le> n \<and> n < 4 * j + 2 \<and> bit v (n - 2 * j))"
proof -
  have "bit (push_bit (mpu_indices ! j) (v AND push_bit (2 * j) 3)) n
      \<longleftrightarrow> n < 32 \<and> 4 * j \<le> n \<and> n < 4 * j + 2 \<and> bit v (n - 2 * j)" if "j < 8" for j
    using that unfolding mpu_index [OF that] bit_push_bit_iff [of "2 * j" "v AND push_bit (2 * j) 3"] bit_and_iff bit_3
    by auto
  then show ?thesis unfolding extended_mpu_ap_bits_def mpu_bits_bit mpu_length by auto
qed

lemma simple_bit: "bit (simple_mpu_ap_bits v) n \<longleftrightarrow> (\<exists>j < 8. 2 * j \<le> n \<and> n < 2 * j + 2 \<and> bit v (n + 2 * j))"
proof -
  have "bit (drop_bit (mpu_indices ! j) v AND push_bit (2 * j) 3) n
      \<longleftrightarrow> 2 * j \<le> n \<and> n < 2 * j + 2 \<and> bit v (n + 2 * j)" if "j < 8" for j
    using that by (auto simp: mpu_index bit_drop_bit_eq bit_and_iff bit_3 add.commute)
  then show ?thesis unfolding simple_mpu_ap_bits_def mpu_bits_bit mpu_length by auto
qed

lemma simple_extended: "simple_mpu_ap_bits (extended_mpu_ap_bits w) = w AND 0xffff"
proof (rule bit_word_eqI)
  fix n
  have m: "(0xffff :: u32) = mask 16" by (simp add: mask_eq_exp_minus_1)
  have "bit (simple_mpu_ap_bits (extended_mpu_ap_bits w)) n \<longleftrightarrow> n < 16 \<and> bit w n"
  proof
    assume "bit (simple_mpu_ap_bits (extended_mpu_ap_bits w)) n"
    then obtain j k where "j < 8" "2 * j \<le> n" "n < 2 * j + 2" "k < 8" "4 * k \<le> n + 2 * j" "n + 2 * j < 4 * k + 2"
      "bit w (n + 2 * j - 2 * k)" unfolding simple_bit extended_bit by blast
    moreover from this have "j = k" by linarith
    ultimately show "n < 16 \<and> bit w n" by simp
  next
    assume "n < 16 \<and> bit w n"
    then show "bit (simple_mpu_ap_bits (extended_mpu_ap_bits w)) n" unfolding simple_bit extended_bit
      by (intro exI [of _ "n div 2"] conjI) (auto intro!: exI [of _ "n div 2"])
  qed
  then show "bit (simple_mpu_ap_bits (extended_mpu_ap_bits w)) n = bit (w AND 0xffff) n"
    unfolding m by (auto simp: bit_simps dest: bit_u32_less)
qed

lemma extended_region:
  assumes "i < 8"
  shows "drop_bit (i * 4) (extended_mpu_ap_bits w) AND 0xf = drop_bit (i * 2) w AND 3"
proof (rule bit_word_eqI)
  fix n
  have m: "(0xf :: u32) = mask 4" "(3 :: u32) = mask 2" by (simp_all add: mask_eq_exp_minus_1)
  have "n < 4 \<and> bit (extended_mpu_ap_bits w) (i * 4 + n) \<longleftrightarrow> n < 2 \<and> bit w (i * 2 + n)"
  proof
    assume a: "n < 4 \<and> bit (extended_mpu_ap_bits w) (i * 4 + n)"
    then obtain j where "4 * j \<le> i * 4 + n" "i * 4 + n < 4 * j + 2" "bit w (i * 4 + n - 2 * j)"
      unfolding extended_bit by blast
    moreover from this have "j = i" using a by linarith
    ultimately show "n < 2 \<and> bit w (i * 2 + n)" by (simp add: ac_simps)
  next
    assume "n < 2 \<and> bit w (i * 2 + n)"
    then show "n < 4 \<and> bit (extended_mpu_ap_bits w) (i * 4 + n)" using assms unfolding extended_bit
      by (auto intro!: exI [of _ i] simp: mult.commute)
  qed
  then show "bit (drop_bit (i * 4) (extended_mpu_ap_bits w) AND 0xf) n = bit (drop_bit (i * 2) w AND 3) n"
    unfolding m by (auto simp: bit_simps)
qed

text \<open>
  C19. The permissions of the protection unit survive the change of format. A program
  that writes the simple data permissions register, two bits for each of eight regions,
  reads back the sixteen bits it wrote, and the walk finds for every region, in the four
  bits it reads of the extended format, exactly the two bits written for that region.
\<close>

theorem mpu_permissions:
  "\<exists>env'. pmsav5_data_ap_write v env = Inr (0, env', [])
    \<and> pmsav5_data_ap_read env' = Inr (0, v AND 0xffff)
    \<and> (\<forall>n < 8. drop_bit (n * 4) (cp15_c5_data (cp15 env')) AND 0xf = drop_bit (n * 2) (ucast v) AND 3)"
proof -
  have "(ucast (ucast v AND 0xffff :: u32) :: u64) = v AND 0xffff"
  proof -
    have m: "(0xffff :: u32) = mask 16" "(0xffff :: u64) = mask 16" by (simp_all add: mask_eq_exp_minus_1)
    show ?thesis unfolding m by (auto simp: bit_simps intro!: bit_word_eqI)
  qed
  then show ?thesis
    by (simp add: pmsav5_data_ap_write_def pmsav5_data_ap_read_def simple_extended extended_region)
qed

theorem mpu_permissions_witness:
  "\<exists>env'. pmsav5_data_ap_write 0x1b demo_cpu = Inr (0, env', []) \<and> pmsav5_data_ap_read env' = Inr (0, 0x1b)
    \<and> drop_bit 4 (cp15_c5_data (cp15 env')) AND 0xf = 2"
  using mpu_permissions [of "0x1b" demo_cpu] by (auto dest!: spec [of _ 1])

end
