(* ===== verification/Arm_Op_Helper.thy ===== *)
theory Arm_Op_Helper
  imports Arm_Coproc
begin

text \<open>
  The arithmetic helpers of \<^verbatim>\<open>target-arm/op_helper.c\<close>: saturating arithmetic, variable shifts
  with carry, table lookup, the access to the registers of user mode from privileged
  modes, and \<open>tlb_fill\<close>. A helper that changes the state returns its value and the
  new state. The theorems compare them with the arithmetic of integers that the
  architecture defines the instructions by.
\<close>

section \<open>Saturation\<close>

definition SIGNBIT :: u32 where "SIGNBIT = 0x80000000"

definition helper_add_setq :: "u32 \<Rightarrow> u32 \<Rightarrow> cpu \<Rightarrow> u32 \<times> cpu" where
  "helper_add_setq a b env =
     (let res = a + b in
      if (res XOR a) AND SIGNBIT \<noteq> 0 \<and> (a XOR b) AND SIGNBIT = 0 then (res, env\<lparr>QF := 1\<rparr>) else (res, env))"

definition helper_add_saturate :: "u32 \<Rightarrow> u32 \<Rightarrow> cpu \<Rightarrow> u32 \<times> cpu" where
  "helper_add_saturate a b env =
     (let res = a + b in
      if (res XOR a) AND SIGNBIT \<noteq> 0 \<and> (a XOR b) AND SIGNBIT = 0
      then (NOT (signed_drop_bit 31 a XOR SIGNBIT), env\<lparr>QF := 1\<rparr>) else (res, env))"

definition helper_sub_saturate :: "u32 \<Rightarrow> u32 \<Rightarrow> cpu \<Rightarrow> u32 \<times> cpu" where
  "helper_sub_saturate a b env =
     (let res = a - b in
      if (res XOR a) AND SIGNBIT \<noteq> 0 \<and> (a XOR b) AND SIGNBIT \<noteq> 0
      then (NOT (signed_drop_bit 31 a XOR SIGNBIT), env\<lparr>QF := 1\<rparr>) else (res, env))"

definition helper_double_saturate :: "u32 \<Rightarrow> cpu \<Rightarrow> u32 \<times> cpu" where
  "helper_double_saturate val env =
     (if 0x40000000 \<le> sint val then (NOT SIGNBIT, env\<lparr>QF := 1\<rparr>)
      else if sint val \<le> sint (0xc0000000 :: u32) then (SIGNBIT, env\<lparr>QF := 1\<rparr>)
      else (push_bit 1 val, env))"

definition helper_add_usaturate :: "u32 \<Rightarrow> u32 \<Rightarrow> cpu \<Rightarrow> u32 \<times> cpu" where
  "helper_add_usaturate a b env =
     (let res = a + b in if res < a then (NOT 0, env\<lparr>QF := 1\<rparr>) else (res, env))"

definition helper_sub_usaturate :: "u32 \<Rightarrow> u32 \<Rightarrow> cpu \<Rightarrow> u32 \<times> cpu" where
  "helper_sub_usaturate a b env =
     (let res = a - b in if res > a then (0, env\<lparr>QF := 1\<rparr>) else (res, env))"

text \<open>The shift of the two saturation functions is an instruction field; a shift by 32 or more is undefined.\<close>

definition do_ssat :: "u32 \<Rightarrow> nat \<Rightarrow> cpu \<Rightarrow> (u32 \<times> cpu) result" where
  "do_ssat val shift env =
     (if 32 \<le> shift then Inl Bad_Shift
      else
        let top = sint (signed_drop_bit shift val); msk = push_bit shift 1 - 1 in
        Inr (if 0 < top then (msk, env\<lparr>QF := 1\<rparr>)
             else if top < - 1 then (NOT msk, env\<lparr>QF := 1\<rparr>)
             else (val, env)))"

definition do_usat :: "u32 \<Rightarrow> nat \<Rightarrow> cpu \<Rightarrow> (u32 \<times> cpu) result" where
  "do_usat val shift env =
     (if 32 \<le> shift then Inl Bad_Shift
      else
        let mx = push_bit shift 1 - 1 in
        Inr (if sint val < 0 then (0, env\<lparr>QF := 1\<rparr>)
             else if val > mx then (mx, env\<lparr>QF := 1\<rparr>)
             else (val, env)))"

definition helper_ssat :: "u32 \<Rightarrow> u32 \<Rightarrow> cpu \<Rightarrow> (u32 \<times> cpu) result" where
  "helper_ssat x shift env = do_ssat x (unat shift) env"

definition helper_usat :: "u32 \<Rightarrow> u32 \<Rightarrow> cpu \<Rightarrow> (u32 \<times> cpu) result" where
  "helper_usat x shift env = do_usat x (unat shift) env"

definition helper_ssat16 :: "u32 \<Rightarrow> u32 \<Rightarrow> cpu \<Rightarrow> (u32 \<times> cpu) result" where
  "helper_ssat16 x shift env =
     cbind (do_ssat (scast (ucast x :: u16)) (unat shift) env) (\<lambda>(lo, env).
     cbind (do_ssat (signed_drop_bit 16 x) (unat shift) env) (\<lambda>(hi, env).
       Inr (ucast (ucast lo :: u16) OR push_bit 16 hi, env)))"

definition helper_usat16 :: "u32 \<Rightarrow> u32 \<Rightarrow> cpu \<Rightarrow> (u32 \<times> cpu) result" where
  "helper_usat16 x shift env =
     cbind (do_usat (scast (ucast x :: u16)) (unat shift) env) (\<lambda>(lo, env).
     cbind (do_usat (signed_drop_bit 16 x) (unat shift) env) (\<lambda>(hi, env).
       Inr (ucast (ucast lo :: u16) OR push_bit 16 hi, env)))"

section \<open>Shifts\<close>

definition helper_shl_cc :: "u32 \<Rightarrow> u32 \<Rightarrow> cpu \<Rightarrow> u32 \<times> cpu" where
  "helper_shl_cc x i env =
     (let shift = unat (i AND 0xff) in
      if 32 \<le> shift then (0, env\<lparr>CF := (if shift = 32 then x AND 1 else 0)\<rparr>)
      else if shift \<noteq> 0 then (push_bit shift x, env\<lparr>CF := drop_bit (32 - shift) x AND 1\<rparr>)
      else (x, env))"

definition helper_shr_cc :: "u32 \<Rightarrow> u32 \<Rightarrow> cpu \<Rightarrow> u32 \<times> cpu" where
  "helper_shr_cc x i env =
     (let shift = unat (i AND 0xff) in
      if 32 \<le> shift then (0, env\<lparr>CF := (if shift = 32 then drop_bit 31 x AND 1 else 0)\<rparr>)
      else if shift \<noteq> 0 then (drop_bit shift x, env\<lparr>CF := drop_bit (shift - 1) x AND 1\<rparr>)
      else (x, env))"

definition helper_sar_cc :: "u32 \<Rightarrow> u32 \<Rightarrow> cpu \<Rightarrow> u32 \<times> cpu" where
  "helper_sar_cc x i env =
     (let shift = unat (i AND 0xff) in
      if 32 \<le> shift then (signed_drop_bit 31 x, env\<lparr>CF := drop_bit 31 x AND 1\<rparr>)
      else if shift \<noteq> 0 then (signed_drop_bit shift x, env\<lparr>CF := drop_bit (shift - 1) x AND 1\<rparr>)
      else (x, env))"

definition helper_ror_cc :: "u32 \<Rightarrow> u32 \<Rightarrow> cpu \<Rightarrow> u32 \<times> cpu" where
  "helper_ror_cc x i env =
     (let shift1 = unat (i AND 0xff); shift = unat ((i AND 0xff) AND 0x1f) in
      if shift = 0 then (x, if shift1 \<noteq> 0 then env\<lparr>CF := drop_bit 31 x AND 1\<rparr> else env)
      else (drop_bit shift x OR push_bit (32 - shift) x, env\<lparr>CF := drop_bit (shift - 1) x AND 1\<rparr>))"

section \<open>Registers of user mode, table lookup\<close>

definition helper_get_user_reg :: "nat \<Rightarrow> cpu \<Rightarrow> u32 result" where
  "helper_get_user_reg regno env =
     (if regno = 13 then c_nth (banked_r13 env) 0
      else if regno = 14 then c_nth (banked_r14 env) 0
      else if 8 \<le> regno \<and> uncached_cpsr env AND 0x1f = ARM_CPU_MODE_FIQ then c_nth (usr_regs env) (regno - 8)
      else c_nth (regs env) regno)"

definition helper_set_user_reg :: "nat \<Rightarrow> u32 \<Rightarrow> cpu \<Rightarrow> cpu result" where
  "helper_set_user_reg regno val env =
     (if regno = 13 then cbind (c_update (banked_r13 env) 0 val) (\<lambda>xs. Inr (env\<lparr>banked_r13 := xs\<rparr>))
      else if regno = 14 then cbind (c_update (banked_r14 env) 0 val) (\<lambda>xs. Inr (env\<lparr>banked_r14 := xs\<rparr>))
      else if 8 \<le> regno \<and> uncached_cpsr env AND 0x1f = ARM_CPU_MODE_FIQ
      then cbind (c_update (usr_regs env) (regno - 8) val) (\<lambda>xs. Inr (env\<lparr>usr_regs := xs\<rparr>))
      else cbind (c_update (regs env) regno val) (\<lambda>xs. Inr (env\<lparr>regs := xs\<rparr>)))"

definition tbl_byte :: "cpu \<Rightarrow> u32 \<Rightarrow> u32 \<Rightarrow> nat \<Rightarrow> nat \<Rightarrow> nat \<Rightarrow> u32 \<Rightarrow> u32 result" where
  "tbl_byte env ireg def rn maxindex shift val =
     (let index = unat (drop_bit shift ireg AND 0xff) in
      if index < maxindex
      then cbind (c_nth (vfp_regs env) (rn + index div 8)) (\<lambda>d.
             Inr (val OR push_bit shift (ucast (drop_bit (index mod 8 * 8) d AND 0xff))))
      else Inr (val OR (def AND push_bit shift 0xff)))"

definition helper_neon_tbl :: "u32 \<Rightarrow> u32 \<Rightarrow> nat \<Rightarrow> nat \<Rightarrow> cpu \<Rightarrow> u32 result" where
  "helper_neon_tbl ireg def rn maxindex env = cfold (tbl_byte env ireg def rn maxindex) [0, 8, 16, 24] 0"

section \<open>Filling the translation buffer\<close>

text \<open>
  \<open>restore\<close> is \<^verbatim>\<open>cpu_restore_state\<close>, called if the access came from translated code. The result
  tells whether the translated code is left, with the page entered and the new state.
\<close>

definition tlb_fill :: "mmu_ext \<Rightarrow> (cpu \<Rightarrow> cpu) option \<Rightarrow> u32 \<Rightarrow> int \<Rightarrow> int \<Rightarrow> cpu \<Rightarrow> (bool \<times> tlb_set_page option \<times> cpu) result" where
  "tlb_fill x restore addr is_write mmu_idx env =
     cbind (cpu_arm_handle_mmu_fault x env addr is_write mmu_idx) (\<lambda>(ret, page, env).
       if ret \<noteq> 0 then
         let env = (case restore of None \<Rightarrow> env | Some f \<Rightarrow> f env)
         in Inr (True, page, raise_exception (exception_index env) env)
       else Inr (False, page, env))"

section \<open>Signed arithmetic of words\<close>

lemma signed_wrap:
  fixes k :: int
  assumes "- 3 * 2 ^ n \<le> k" "k < 3 * 2 ^ n"
  shows "signed_take_bit n k = (if k < - (2 ^ n) then k + 2 * 2 ^ n else if k \<ge> 2 ^ n then k - 2 * 2 ^ n else k)"
proof -
  let ?m = "2 * 2 ^ n :: int"
  have e: "signed_take_bit n k = (k + 2 ^ n) mod ?m - 2 ^ n"
    by (simp add: signed_take_bit_eq_take_bit_shift take_bit_eq_mod)
  consider "k < - (2 ^ n)" | "- (2 ^ n) \<le> k" "k < 2 ^ n" | "2 ^ n \<le> k" by linarith
  then show ?thesis
  proof cases
    case 1
    have "(k + 2 ^ n) mod ?m = (k + 2 ^ n + ?m) mod ?m" by (simp only: mod_add_self2)
    also have "\<dots> = k + 2 ^ n + ?m" using 1 assms by (intro mod_pos_pos_trivial) simp_all
    finally show ?thesis using 1 e by simp
  next
    case 2
    then show ?thesis using e by (simp add: mod_pos_pos_trivial)
  next
    case 3
    have "0 < (2 :: int) ^ n" by simp
    then have n: "\<not> k < - (2 ^ n)" using 3 by linarith
    have "(k + 2 ^ n) mod ?m = (k + 2 ^ n - ?m) mod ?m" by (simp only: minus_mod_self2)
    also have "\<dots> = k + 2 ^ n - ?m" using 3 assms by (intro mod_pos_pos_trivial) simp_all
    finally show ?thesis using 3 e n by simp
  qed
qed

lemma sint_range: "- (2 ^ (LENGTH('a) - 1)) \<le> sint x" "sint x < 2 ^ (LENGTH('a) - 1)" for x :: "'a::len word"
  using sint_ge [of x] sint_lt [of x] by simp_all

lemma sint_add: "sint (a + b) = (let k = sint a + sint b; m = 2 ^ (LENGTH('a) - 1) in
    if k < - m then k + 2 * m else if m \<le> k then k - 2 * m else k)" for a b :: "'a::len word"
  using signed_wrap [of "LENGTH('a) - 1" "sint a + sint b"] sint_range [of a] sint_range [of b]
  by (simp add: sint_word_ariths Let_def)

lemma sint_sub: "sint (a - b) = (let k = sint a - sint b; m = 2 ^ (LENGTH('a) - 1) in
    if k < - m then k + 2 * m else if m \<le> k then k - 2 * m else k)" for a b :: "'a::len word"
  using signed_wrap [of "LENGTH('a) - 1" "sint a - sint b"] sint_range [of a] sint_range [of b]
  by (simp add: sint_word_ariths Let_def)

lemma sign_bit: "bit w (LENGTH('a) - 1) \<longleftrightarrow> sint w < 0" for w :: "'a::len word"
  by (simp add: bit_last_iff)

lemma sign32: "w AND SIGNBIT \<noteq> 0 \<longleftrightarrow> sint w < 0"
proof -
  have "bit SIGNBIT n \<longleftrightarrow> n = 31" if "n < 32" for n
  proof -
    have e: "SIGNBIT = push_bit 31 1" by (simp add: SIGNBIT_def)
    show ?thesis unfolding e bit_push_bit_iff bit_1_iff using that by auto
  qed
  then have "w AND SIGNBIT = 0 \<longleftrightarrow> \<not> bit w 31" by (auto simp: bit_eq_iff [of "w AND SIGNBIT"] bit_and_iff dest: spec [of _ 31])
  then show ?thesis using sign_bit [of w] by simp
qed

lemma sign_xor: "(v XOR w) AND SIGNBIT \<noteq> 0 \<longleftrightarrow> (sint v < 0) \<noteq> (sint w < 0)"
  unfolding sign32 using sign_bit [of "v XOR w"] sign_bit [of v] sign_bit [of w] by (simp add: bit_simps)

lemma signed_drop_31: "signed_drop_bit 31 w = (if sint w < 0 then - 1 else 0)" for w :: u32
proof -
  have "bit w (if Suc 0 \<le> n then LENGTH(32) - 1 else 31 + n) = bit w 31" for n by (cases n) simp_all
  then show ?thesis using sign_bit [of w] by (auto simp: bit_simps intro!: bit_word_eqI)
qed

section \<open>Saturation is exact\<close>

text \<open>The value cut to a range, and the sticky saturation flag set if it was cut.\<close>

definition saturated :: "int \<Rightarrow> int \<Rightarrow> int \<Rightarrow> cpu \<Rightarrow> int \<times> cpu" where
  "saturated lo hi v env = (max lo (min hi v), if lo \<le> v \<and> v \<le> hi then env else env\<lparr>QF := 1\<rparr>)"

lemma saturate_value: "NOT (signed_drop_bit 31 a XOR SIGNBIT) = (if sint a < 0 then 0x80000000 else 0x7fffffff)"
  by (simp add: signed_drop_31 SIGNBIT_def)

lemma add_overflow: "((a + b) XOR a) AND SIGNBIT \<noteq> 0 \<and> (a XOR b) AND SIGNBIT = 0
    \<longleftrightarrow> \<not> (- (2 ^ 31) \<le> sint a + sint b \<and> sint a + sint b \<le> 2 ^ 31 - 1)"
proof -
  have "(a XOR b) AND SIGNBIT = 0 \<longleftrightarrow> (sint a < 0) = (sint b < 0)" using sign_xor [of a b] by blast
  then show ?thesis unfolding sign_xor sint_add Let_def
    using sint_range [of a] sint_range [of b] by simp linarith
qed

lemma sub_overflow: "((a - b) XOR a) AND SIGNBIT \<noteq> 0 \<and> (a XOR b) AND SIGNBIT \<noteq> 0
    \<longleftrightarrow> \<not> (- (2 ^ 31) \<le> sint a - sint b \<and> sint a - sint b \<le> 2 ^ 31 - 1)"
  unfolding sign_xor sint_sub Let_def using sint_range [of a] sint_range [of b] by simp linarith

lemma add_saturate:
  "map_prod sint id (helper_add_saturate a b env) = saturated (- (2 ^ 31)) (2 ^ 31 - 1) (sint a + sint b) env"
  unfolding helper_add_saturate_def Let_def add_overflow saturate_value saturated_def
  using sint_range [of a] sint_range [of b] sint_add [of a b] by (simp add: Let_def split: if_splits)

lemma sub_saturate:
  "map_prod sint id (helper_sub_saturate a b env) = saturated (- (2 ^ 31)) (2 ^ 31 - 1) (sint a - sint b) env"
  unfolding helper_sub_saturate_def Let_def sub_overflow saturate_value saturated_def
  using sint_range [of a] sint_range [of b] sint_sub [of a b] by (simp add: Let_def split: if_splits)

text \<open>The flag is also set for the one value whose double is the least number.\<close>

lemma double_saturate:
  "map_prod sint id (helper_double_saturate a env) =
     (if sint a = - (2 ^ 30) then (- (2 ^ 31), env\<lparr>QF := 1\<rparr>) else saturated (- (2 ^ 31)) (2 ^ 31 - 1) (2 * sint a) env)"
proof -
  have e: "push_bit 1 a = a + a" by (simp add: push_bit_eq_mult)
  have m: "sint SIGNBIT = - 0x80000000" "sint (NOT SIGNBIT) = 0x7fffffff" "sint (0xc0000000 :: u32) = - 0x40000000"
    by (simp_all add: SIGNBIT_def)
  consider "0x40000000 \<le> sint a" | "sint a \<le> - 0x40000000" | "\<not> 0x40000000 \<le> sint a" "\<not> sint a \<le> - 0x40000000" by blast
  then show ?thesis
  proof cases
    case 3
    then have "sint (a + a) = 2 * sint a" unfolding sint_add Let_def by simp
    then have "map_prod sint id (helper_double_saturate a env) = (2 * sint a, env)"
      unfolding helper_double_saturate_def m e using 3 by (simp only: if_False map_prod_simp id_apply)
    then show ?thesis using 3 unfolding saturated_def by simp
  qed (simp_all add: helper_double_saturate_def m saturated_def)
qed

lemma add_usaturate:
  "map_prod uint id (helper_add_usaturate a b env) = saturated 0 (2 ^ 32 - 1) (uint a + uint b) env"
proof -
  have "uint (NOT 0 :: u32) = 2 ^ 32 - 1" by (simp add: unsigned_minus_1_eq_mask mask_eq_exp_minus_1)
  then show ?thesis unfolding helper_add_usaturate_def saturated_def Let_def word_less_def uint_plus_if'
    using uint_lt2p [of a] uint_lt2p [of b] uint_plus_if' [of a b] by simp
qed

lemma sub_usaturate:
  "map_prod uint id (helper_sub_usaturate a b env) = saturated 0 (2 ^ 32 - 1) (uint a - uint b) env"
proof -
  have "uint a < 2 ^ 32" "0 \<le> uint b" "uint b < 2 ^ 32" "0 \<le> uint a" using uint_lt2p [of a] uint_lt2p [of b] by simp_all
  then have "uint a - uint b \<le> 2 ^ 32 - 1" by linarith
  then show ?thesis unfolding helper_sub_usaturate_def saturated_def Let_def word_less_def uint_sub_if'
    using uint_lt2p [of b] uint_sub_if' [of a b] by simp
qed

text \<open>The two functions that saturate to a width given as a shift.\<close>

lemma mask_word: "push_bit n 1 - 1 = (mask n :: u32)"
  by (simp add: mask_eq_exp_minus_1 push_bit_eq_mult)

lemma sint_of: "- (2 ^ 31) \<le> k \<Longrightarrow> k < 2 ^ 31 \<Longrightarrow> sint (word_of_int k :: u32) = k"
  by (simp add: sint_sbintrunc' signed_take_bit_int_eq_self)

lemma int_div_less:
  fixes v k p :: int
  assumes "0 < p"
  shows "v div p < k \<longleftrightarrow> v < k * p"
proof -
  have "v = p * (v div p) + v mod p" "0 \<le> v mod p" "v mod p < p" using assms by simp_all
  then have e: "p * (v div p) \<le> v" "v < p * (v div p) + p" by linarith+
  have "v < k * p" if "v div p + 1 \<le> k" using mult_left_mono [OF that, of p] e assms by (simp add: algebra_simps)
  moreover have "k * p \<le> v" if "k \<le> v div p" using mult_left_mono [OF that, of p] e assms mult.commute [of k p] by linarith
  ultimately show ?thesis by linarith
qed

lemma sint_masks:
  assumes "n < 32"
  shows "sint (mask n :: u32) = 2 ^ n - 1" "sint (NOT (mask n) :: u32) = - (2 ^ n)" "uint (mask n :: u32) = 2 ^ n - 1"
proof -
  have p: "(2 :: int) ^ n \<le> 2 ^ 31" using assms by (intro power_increasing) simp_all
  have "0 < (2 :: int) ^ n" by simp
  with p have q: "- (2 ^ 31) \<le> (2 :: int) ^ n - 1" "(2 :: int) ^ n - 1 < 2 ^ 31" "- (2 ^ 31) \<le> - ((2 :: int) ^ n)" "- ((2 :: int) ^ n) < 2 ^ 31"
    by linarith+
  have "(mask n :: u32) = word_of_int (2 ^ n - 1)" "(NOT (mask n) :: u32) = word_of_int (- (2 ^ n))"
    by (simp_all add: mask_eq_exp_minus_1 not_eq_complement)
  then show "sint (mask n :: u32) = 2 ^ n - 1" "sint (NOT (mask n) :: u32) = - (2 ^ n)"
    using sint_of [OF q(1,2)] sint_of [OF q(3,4)] by simp_all
  show "uint (mask n :: u32) = 2 ^ n - 1" using assms unfolding uint_mask_eq by (simp add: mask_eq_exp_minus_1 min_def)
qed

lemma ssat:
  assumes "n < 32"
  shows "\<exists>r env'. do_ssat v n env = Inr (r, env') \<and> (sint r, env') = saturated (- (2 ^ n)) (2 ^ n - 1) (sint v) env"
proof -
  define P :: int where "P = 2 ^ n"
  have p: "0 < P" by (simp add: P_def)
  have "sint (signed_drop_bit n v) = sint v div P" by (simp add: P_def sint_signed_drop_bit_eq drop_bit_eq_div)
  then have top: "0 < sint (signed_drop_bit n v) \<longleftrightarrow> P \<le> sint v" "sint (signed_drop_bit n v) < - 1 \<longleftrightarrow> sint v < - P"
    using int_div_less [OF p, of "sint v" 1] int_div_less [OF p, of "sint v" "- 1"] by auto
  note m = sint_masks(1,2) [OF assms, folded P_def]
  have "do_ssat v n env = Inr (if P \<le> sint v then (mask n, env\<lparr>QF := 1\<rparr>)
      else if sint v < - P then (NOT (mask n), env\<lparr>QF := 1\<rparr>) else (v, env))"
    unfolding do_ssat_def Let_def mask_word top using assms by simp
  then show ?thesis unfolding P_def [symmetric] saturated_def using p m by (cases "P \<le> sint v"; cases "sint v < - P") auto
qed

lemma usat:
  assumes "n < 32"
  shows "\<exists>r env'. do_usat v n env = Inr (r, env') \<and> (uint r, env') = saturated 0 (2 ^ n - 1) (sint v) env"
proof -
  define P :: int where "P = 2 ^ n"
  have p: "0 < P" by (simp add: P_def)
  have u: "uint v = sint v" if "0 \<le> sint v"
    using that sint_range [of v] by (simp add: uint_sint take_bit_int_eq_self)
  note m = sint_masks(3) [OF assms, folded P_def]
  have "do_usat v n env = Inr (if sint v < 0 then (0, env\<lparr>QF := 1\<rparr>)
      else if P - 1 < sint v then (mask n, env\<lparr>QF := 1\<rparr>) else (v, env))"
    unfolding do_usat_def Let_def mask_word word_less_def m using assms u by (cases "sint v < 0") simp_all
  then show ?thesis unfolding P_def [symmetric] saturated_def using p m u
    by (cases "sint v < 0"; cases "P - 1 < sint v") auto
qed

lemma fst_saturated: "fst (saturated lo hi v env) = max lo (min hi v)"
  by (simp add: saturated_def)

lemma high_half: "sint (signed_drop_bit 16 x) = sint (ucast (drop_bit 16 x) :: u16)" for x :: u32
proof -
  have "signed_drop_bit 16 x = scast (ucast (drop_bit 16 x) :: u16)"
  proof (rule bit_word_eqI)
    fix n
    show "bit (signed_drop_bit 16 x) n = bit (scast (ucast (drop_bit 16 x) :: u16) :: u32) n"
      by (cases "n = 15") (auto simp: bit_simps min_def dest: bit_imp_le_length)
  qed
  then show ?thesis by (simp add: sint_up_scast is_up)
qed

lemma half_of_int: "ucast (word_of_int k :: u32) = (word_of_int k :: u16)"
  by (auto simp: bit_simps intro!: bit_word_eqI)

section \<open>Two halfwords\<close>

text \<open>
  What the two dual instructions share: a function that cuts a value to a range given by
  its second argument, applied to the sign-extended halves.
\<close>

locale lane_saturation =
  fixes sat :: "u32 \<Rightarrow> nat \<Rightarrow> cpu \<Rightarrow> (u32 \<times> cpu) result" and lo hi :: "nat \<Rightarrow> int"
  assumes sat_exact: "n < 32 \<Longrightarrow> sat v n env =
    Inr (word_of_int (fst (saturated (lo n) (hi n) (sint v) env)), snd (saturated (lo n) (hi n) (sint v) env))"
begin

lemma dual_exact:
  assumes "n < 32"
  shows "\<exists>r env1 env2. cbind (sat (scast (ucast x :: u16)) n env) (\<lambda>(lo, env).
       cbind (sat (signed_drop_bit 16 x) n env) (\<lambda>(hi, env). Inr (ucast (ucast lo :: u16) OR push_bit 16 hi, env)))
         = Inr (r, env2)
    \<and> ucast r = (word_of_int (fst (saturated (lo n) (hi n) (sint (ucast x :: u16)) env)) :: u16)
    \<and> ucast (drop_bit 16 r) = (word_of_int (fst (saturated (lo n) (hi n) (sint (ucast (drop_bit 16 x) :: u16)) env)) :: u16)
    \<and> env1 = snd (saturated (lo n) (hi n) (sint (ucast x :: u16)) env)
    \<and> env2 = snd (saturated (lo n) (hi n) (sint (ucast (drop_bit 16 x) :: u16)) env1)"
proof -
  have halves: "sint (scast (ucast x :: u16) :: u32) = sint (ucast x :: u16)"
    "sint (signed_drop_bit 16 x) = sint (ucast (drop_bit 16 x) :: u16)"
    by (rule sint_up_scast; simp add: is_up) (rule high_half)
  have h: "ucast (ucast l OR push_bit 16 h :: u32) = l" "ucast (drop_bit 16 (ucast l OR push_bit 16 h :: u32)) = (ucast h :: u16)"
    for l :: u16 and h :: u32
  proof -
    have "\<not> bit l (16 + n)" for n using bit_imp_le_length [of l "16 + n"] by auto
    then show "ucast (ucast l OR push_bit 16 h :: u32) = l" "ucast (drop_bit 16 (ucast l OR push_bit 16 h :: u32)) = (ucast h :: u16)"
      by (auto simp: bit_simps intro!: bit_word_eqI)
  qed
  show ?thesis unfolding sat_exact [OF assms] halves cbind.simps prod.case
    by (intro exI conjI, rule refl) (simp_all only: h half_of_int fst_saturated)
qed

end

lemma word_sint: "sint w = k \<Longrightarrow> w = word_of_int k" for w :: "'a::len word"
  by auto

lemma word_uint: "uint w = k \<Longrightarrow> w = word_of_int k" for w :: "'a::len word"
  by auto

interpretation signed_lanes: lane_saturation do_ssat "\<lambda>n. - (2 ^ n)" "\<lambda>n. 2 ^ n - 1"
proof unfold_locales
  fix n v env
  assume "n < (32 :: nat)"
  from ssat [OF this, of v env] show "do_ssat v n env = Inr (word_of_int (fst (saturated (- (2 ^ n)) (2 ^ n - 1) (sint v) env)),
      snd (saturated (- (2 ^ n)) (2 ^ n - 1) (sint v) env))"
    by (metis fst_conv snd_conv word_sint)
qed

interpretation unsigned_lanes: lane_saturation do_usat "\<lambda>_. 0" "\<lambda>n. 2 ^ n - 1"
proof unfold_locales
  fix n v env
  assume "n < (32 :: nat)"
  from usat [OF this, of v env] show "do_usat v n env = Inr (word_of_int (fst (saturated 0 (2 ^ n - 1) (sint v) env)),
      snd (saturated 0 (2 ^ n - 1) (sint v) env))"
    by (metis fst_conv snd_conv word_uint)
qed

lemma half_range:
  assumes "n < 16"
  shows "sint (word_of_int (max (- (2 ^ n)) (min (2 ^ n - 1) k)) :: u16) = max (- (2 ^ n)) (min (2 ^ n - 1) k)"
    "uint (word_of_int (max 0 (min (2 ^ n - 1) k)) :: u16) = max 0 (min (2 ^ n - 1) k)"
proof -
  have p: "(2 :: int) ^ n \<le> 2 ^ 15" using assms by (intro power_increasing) simp_all
  have q: "0 < (2 :: int) ^ n" by simp
  have "- (2 ^ 15) \<le> max (- (2 ^ n)) (min (2 ^ n - 1) k)" "max (- (2 ^ n)) (min (2 ^ n - 1) k) < 2 ^ 15"
    using p q by linarith+
  then show "sint (word_of_int (max (- (2 ^ n)) (min (2 ^ n - 1) k)) :: u16) = max (- (2 ^ n)) (min (2 ^ n - 1) k)"
    by (simp add: sint_sbintrunc' signed_take_bit_int_eq_self)
  have "0 \<le> max 0 (min (2 ^ n - 1) k)" "max 0 (min (2 ^ n - 1) k) < 2 ^ 15" using p q by linarith+
  then show "uint (word_of_int (max 0 (min (2 ^ n - 1) k)) :: u16) = max 0 (min (2 ^ n - 1) k)"
    by (simp add: uint_word_of_int take_bit_int_eq_self)
qed

text \<open>
  C20. Saturating arithmetic is exact. The signed and unsigned additions and subtractions
  return the integer result, cut to the range of the word, and set the sticky flag \<open>Q\<close>,
  and nothing else, exactly if it was cut. Saturation to a width returns the argument cut
  to the range of that width, for whole words and for both halves of the dual instructions.
  Doubling returns the right value, but sets the flag also for the least argument
  whose double is representable, \<open>- (2 ^ 30)\<close>.
\<close>

theorem saturation_exact:
  "map_prod sint id (helper_add_saturate a b env) = saturated (- (2 ^ 31)) (2 ^ 31 - 1) (sint a + sint b) env
   \<and> map_prod sint id (helper_sub_saturate a b env) = saturated (- (2 ^ 31)) (2 ^ 31 - 1) (sint a - sint b) env
   \<and> map_prod uint id (helper_add_usaturate a b env) = saturated 0 (2 ^ 32 - 1) (uint a + uint b) env
   \<and> map_prod uint id (helper_sub_usaturate a b env) = saturated 0 (2 ^ 32 - 1) (uint a - uint b) env
   \<and> map_prod sint id (helper_double_saturate a env) =
       (if sint a = - (2 ^ 30) then (- (2 ^ 31), env\<lparr>QF := 1\<rparr>) else saturated (- (2 ^ 31)) (2 ^ 31 - 1) (2 * sint a) env)
   \<and> (unat n < 32 \<longrightarrow>
        map_sum id (map_prod sint id) (helper_ssat a n env) = Inr (saturated (- (2 ^ unat n)) (2 ^ unat n - 1) (sint a) env)
      \<and> map_sum id (map_prod uint id) (helper_usat a n env) = Inr (saturated 0 (2 ^ unat n - 1) (sint a) env))
   \<and> (unat n < 16 \<longrightarrow>
       (let lo = sint (ucast a :: u16); hi = sint (ucast (drop_bit 16 a) :: u16);
            s = saturated (- (2 ^ unat n)) (2 ^ unat n - 1); u = saturated 0 (2 ^ unat n - 1) in
        (\<exists>r. helper_ssat16 a n env = Inr (r, snd (s hi (snd (s lo env))))
          \<and> sint (ucast r :: u16) = fst (s lo env) \<and> sint (ucast (drop_bit 16 r) :: u16) = fst (s hi env))
        \<and> (\<exists>r. helper_usat16 a n env = Inr (r, snd (u hi (snd (u lo env))))
          \<and> uint (ucast r :: u16) = fst (u lo env) \<and> uint (ucast (drop_bit 16 r) :: u16) = fst (u hi env))))"
proof -
  have "map_sum id (map_prod sint id) (helper_ssat a n env) = Inr (saturated (- (2 ^ unat n)) (2 ^ unat n - 1) (sint a) env)"
    "map_sum id (map_prod uint id) (helper_usat a n env) = Inr (saturated 0 (2 ^ unat n - 1) (sint a) env)" if "unat n < 32"
    using ssat [OF that, of a env] usat [OF that, of a env] by (auto simp: helper_ssat_def helper_usat_def)
  moreover have "\<exists>r. helper_ssat16 a n env = Inr (r, snd (s hi (snd (s lo env))))
      \<and> sint (ucast r :: u16) = fst (s lo env) \<and> sint (ucast (drop_bit 16 r) :: u16) = fst (s hi env)"
    if "unat n < 16" "s = saturated (- (2 ^ unat n)) (2 ^ unat n - 1)" "lo = sint (ucast a :: u16)"
      "hi = sint (ucast (drop_bit 16 a) :: u16)" for s lo hi
    using signed_lanes.dual_exact [of "unat n" a env] half_range(1) [OF that(1)] that
    unfolding helper_ssat16_def by (auto simp: fst_saturated)
  moreover have "\<exists>r. helper_usat16 a n env = Inr (r, snd (s hi (snd (s lo env))))
      \<and> uint (ucast r :: u16) = fst (s lo env) \<and> uint (ucast (drop_bit 16 r) :: u16) = fst (s hi env)"
    if "unat n < 16" "s = saturated 0 (2 ^ unat n - 1)" "lo = sint (ucast a :: u16)"
      "hi = sint (ucast (drop_bit 16 a) :: u16)" for s lo hi
    using unsigned_lanes.dual_exact [of "unat n" a env] half_range(2) [OF that(1)] that
    unfolding helper_usat16_def by (auto simp: fst_saturated)
  ultimately show ?thesis unfolding Let_def
    by (intro conjI impI add_saturate sub_saturate add_usaturate sub_usaturate double_saturate) simp_all
qed

theorem saturation_exact_witness:
  "map_prod sint id (helper_add_saturate 0x7fffffff 1 demo_cpu) = (2 ^ 31 - 1, demo_cpu\<lparr>QF := 1\<rparr>)
   \<and> map_sum id (map_prod sint id) (helper_ssat 0x7fffffff 3 demo_cpu) = Inr (7, demo_cpu\<lparr>QF := 1\<rparr>)
   \<and> (\<exists>r. helper_ssat16 0x7fffffff 3 demo_cpu = Inr (r, demo_cpu\<lparr>QF := 1\<rparr>) \<and> sint (ucast r :: u16) = - 1
        \<and> sint (ucast (drop_bit 16 r) :: u16) = 7)"
  using saturation_exact [of "0x7fffffff" 1 demo_cpu 3] by (auto simp: saturated_def Let_def)

section \<open>Shifts are exact\<close>

definition shift_spec :: "u32 \<Rightarrow> bool \<Rightarrow> nat \<Rightarrow> cpu \<Rightarrow> u32 \<times> cpu" where
  "shift_spec r carry n env = (r, env\<lparr>CF := (if n = 0 then CF env else of_bool carry)\<rparr>)"

lemma low_bit: "drop_bit k x AND 1 = of_bool (bit x k)" for x :: u32
  by (simp add: and_one_eq bit_iff_odd_drop_bit odd_iff_mod_2_eq_one)

lemma carry_same: "env\<lparr>CF := CF env\<rparr> = env"
  by simp

lemma shl_cc: "helper_shl_cc x i env = (let n = unat (i AND 0xff) in shift_spec (word_of_int (uint x * 2 ^ n)) (bit (uint x * 2 ^ n) 32) n env)"
proof -
  define n where "n = unat (i AND 0xff)"
  have c: "bit (uint x * 2 ^ n) 32 \<longleftrightarrow> n \<le> 32 \<and> bit x (32 - n)"
    unfolding push_bit_eq_mult [symmetric] bit_push_bit_iff by (auto simp: bit_uint_iff dest: bit_u32_less)
  have w: "word_of_int (uint x * 2 ^ n) = push_bit n x" by (simp add: push_bit_eq_mult)
  have z: "push_bit n x = 0" if "32 \<le> n" using that by (auto simp: bit_simps intro!: bit_word_eqI)
  have "x AND 1 = of_bool (bit x 0)" using low_bit [of 0 x] by simp
  moreover consider "n = 0" | "n = 32" | "32 < n" | "0 < n" "n < 32" by linarith
  ultimately show ?thesis unfolding helper_shl_cc_def shift_spec_def n_def [symmetric] Let_def low_bit c w
    by cases (use z in simp_all)
qed

lemma shr_cc: "helper_shr_cc x i env = (let n = unat (i AND 0xff) in shift_spec (word_of_int (uint x div 2 ^ n)) (bit (uint x) (n - 1)) n env)"
proof -
  define n where "n = unat (i AND 0xff)"
  have c: "bit (uint x) (n - 1) \<longleftrightarrow> bit x (n - 1)" by (auto simp: bit_uint_iff dest: bit_u32_less)
  have "take_bit 32 (uint x) = uint x" using uint_lt2p [of x] by (simp add: take_bit_int_eq_self)
  then have w: "word_of_int (uint x div 2 ^ n) = drop_bit n x"
    by (intro word_uint [symmetric], unfold unsigned_drop_bit_eq) (simp add: drop_bit_eq_div)
  have z: "drop_bit n x = 0" if "32 \<le> n" using that by (auto simp: bit_simps intro!: bit_word_eqI dest: bit_u32_less)
  have b: "\<not> bit x (n - 1)" if "32 < n" using that bit_u32_less [of x "n - 1"] by auto
  consider "n = 0" | "n = 32" | "32 < n" | "0 < n" "n < 32" by linarith
  then show ?thesis unfolding helper_shr_cc_def shift_spec_def n_def [symmetric] Let_def low_bit c w
    by cases (use z b in simp_all)
qed

lemma sar_cc: "helper_sar_cc x i env = (let n = unat (i AND 0xff) in shift_spec (word_of_int (sint x div 2 ^ n)) (bit (sint x) (n - 1)) n env)"
proof -
  define n where "n = unat (i AND 0xff)"
  have b: "bit (sint x) k \<longleftrightarrow> bit x (min k 31)" for k by (auto simp: bit_sint_iff min_def dest: bit_u32_less)
  have w: "word_of_int (sint x div 2 ^ n) = signed_drop_bit n x"
    by (rule word_sint [symmetric]) (simp add: sint_signed_drop_bit_eq drop_bit_eq_div)
  have z: "signed_drop_bit n x = signed_drop_bit 31 x" if "32 \<le> n"
  proof -
    have "bit x (if Suc 0 \<le> k then LENGTH(32) - 1 else 31 + k) = bit x 31" for k by (cases k) simp_all
    then show ?thesis using that by (auto simp: bit_simps intro!: bit_word_eqI)
  qed
  consider "n = 0" | "32 \<le> n" | "0 < n" "n < 32" by linarith
  then show ?thesis unfolding helper_sar_cc_def shift_spec_def n_def [symmetric] Let_def low_bit b w
    by cases (use z in simp_all)
qed

lemma ror_cc: "helper_ror_cc x i env = (let n = unat (i AND 0xff) in shift_spec (word_rotr n x) (bit (word_rotr n x) 31) n env)"
proof -
  let ?n = "unat (i AND 0xff)"
  have "w AND 0x1f = take_bit 5 w" for w :: u32 by (simp add: take_bit_eq_mask mask_eq_exp_minus_1)
  then have m: "unat ((i AND 0xff) AND 0x1f) = ?n mod 32" by (simp only: unat_take_bit_mod) simp
  have r: "bit (word_rotr n x) k \<longleftrightarrow> k < 32 \<and> bit x ((k + n) mod 32)" for n k by (simp add: bit_word_rotr_iff)
  have z: "word_rotr n x = x" "bit (word_rotr n x) 31 \<longleftrightarrow> bit x 31" if "n mod 32 = 0" for n
  proof -
    have "(k + n) mod 32 = k" if "k < 32" for k using \<open>n mod 32 = 0\<close> that by (simp add: mod_add_right_eq [symmetric, of k n])
    then show "word_rotr n x = x" "bit (word_rotr n x) 31 \<longleftrightarrow> bit x 31" by (auto simp: r intro!: bit_word_eqI)
  qed
  have s: "word_rotr n x = drop_bit (n mod 32) x OR push_bit (32 - n mod 32) x" "bit (word_rotr n x) 31 \<longleftrightarrow> bit x (n mod 32 - 1)"
    if "n mod 32 \<noteq> 0" for n
  proof -
    define j where "j = n mod 32"
    have j: "0 < j" "j < 32" using that by (simp_all add: j_def)
    have e: "(k + n) mod 32 = (if k + j < 32 then k + j else k + j - 32)" if "k < 32" for k
    proof -
      have "(k + n) mod 32 = (k + j) mod 32" by (simp add: j_def mod_add_right_eq)
      then show ?thesis using j that by (auto simp: mod_if)
    qed
    have "bit (word_rotr n x) k = bit (drop_bit j x OR push_bit (32 - j) x) k" if "k < 32" for k
      using e [OF that] j that by (auto simp: r bit_or_iff bit_drop_bit_eq bit_push_bit_iff add.commute dest: bit_u32_less)
    then show "word_rotr n x = drop_bit (n mod 32) x OR push_bit (32 - n mod 32) x"
      unfolding j_def [symmetric] by (intro bit_word_eqI) simp
    show "bit (word_rotr n x) 31 \<longleftrightarrow> bit x (n mod 32 - 1)"
      unfolding j_def [symmetric] using e [of 31] j by (simp add: r)
  qed
  define n where "n = ?n"
  show ?thesis unfolding helper_ror_cc_def shift_spec_def Let_def low_bit m n_def [symmetric]
    using z [of n] s [of n] by (cases "n mod 32 = 0"; cases "n = 0") simp_all
qed

text \<open>
  C21. Shifts by a register behave as the architecture defines them, for every shift
  amount from 0 to 255. With \<open>n\<close> the low byte of the second operand, the result of a left
  shift is the product with \<open>2 ^ n\<close> and the carry its bit 32; right shifts are divisions of
  the unsigned or signed value that round down, with the last bit shifted out as carry;
  rotation has the top bit of the result as carry. A shift by 0 keeps the carry, and
  nothing else of the state changes.
\<close>

theorem shifts_exact:
  "let n = unat (i AND 0xff) in
     helper_shl_cc x i env = shift_spec (word_of_int (uint x * 2 ^ n)) (bit (uint x * 2 ^ n) 32) n env
   \<and> helper_shr_cc x i env = shift_spec (word_of_int (uint x div 2 ^ n)) (bit (uint x) (n - 1)) n env
   \<and> helper_sar_cc x i env = shift_spec (word_of_int (sint x div 2 ^ n)) (bit (sint x) (n - 1)) n env
   \<and> helper_ror_cc x i env = shift_spec (word_rotr n x) (bit (word_rotr n x) 31) n env"
  unfolding Let_def by (intro conjI shl_cc [unfolded Let_def] shr_cc [unfolded Let_def] sar_cc [unfolded Let_def] ror_cc [unfolded Let_def])

section \<open>User registers\<close>

text \<open>
  The modes that use register \<open>r\<close> of user mode.
\<close>

definition shares_user_reg :: "u32 \<Rightarrow> nat \<Rightarrow> bool" where
  "shares_user_reg m r \<longleftrightarrow>
     (if r = 13 \<or> r = 14 then bank_number m = Inr 0 else if 8 \<le> r \<and> r \<le> 12 then m \<noteq> ARM_CPU_MODE_FIQ else True)"

lemma zero_bank: "bank_number m = Inr b \<Longrightarrow> b = 0 \<longleftrightarrow> m = ARM_CPU_MODE_USR \<or> m = ARM_CPU_MODE_SYS"
  by (auto simp: bank_number_def mode_defs split: if_splits)

lemma set_user_reg_cells:
  assumes "cpu_wf env" "r < 15"
  shows "helper_set_user_reg r v env = Inr
    (if r = 13 then env\<lparr>banked_r13 := (banked_r13 env)[0 := v]\<rparr>
     else if r = 14 then env\<lparr>banked_r14 := (banked_r14 env)[0 := v]\<rparr>
     else if 8 \<le> r \<and> cpu_mode env = ARM_CPU_MODE_FIQ then env\<lparr>usr_regs := (usr_regs env)[r - 8 := v]\<rparr>
     else env\<lparr>regs := (regs env)[r := v]\<rparr>)"
  using assms by (simp add: helper_set_user_reg_def cpu_wf_def cpu_mode_def CPSR_M_def)

text \<open>
  A privileged mode, other than the system mode, reaches the registers of user mode:
  reading one gives what the user program sees in it, and writing one changes it for the
  modes that share it and for no other mode.
\<close>

theorem user_registers:
  assumes "cpu_wf env" "valid_mode (cpu_mode env)" "cpu_mode env \<notin> {ARM_CPU_MODE_USR, ARM_CPU_MODE_SYS}" "r < 15"
  shows "helper_get_user_reg r env = Inr (arch_reg env ARM_CPU_MODE_USR r)
    \<and> (\<exists>env'. helper_set_user_reg r v env = Inr env' \<and> cpu_mode env' = cpu_mode env
         \<and> (\<forall>m s. valid_mode m \<longrightarrow> s < 16 \<longrightarrow>
              arch_reg env' m s = (if s = r \<and> shares_user_reg m r then v else arch_reg env m s)))"
proof -
  obtain b where b: "bank_number (cpu_mode env) = Inr b" using assms(2) by (auto simp: valid_mode_def)
  have nz: "b \<noteq> 0" using zero_bank [OF b] assms(3) by auto
  have u: "bank_number ARM_CPU_MODE_USR = Inr 0" "ARM_CPU_MODE_USR \<noteq> ARM_CPU_MODE_FIQ" by (simp_all add: bank_number_def mode_defs)
  have get: "helper_get_user_reg r env = Inr (arch_reg env ARM_CPU_MODE_USR r)"
    using assms(1,4) u b nz
    by (auto simp: helper_get_user_reg_def arch_reg_def cpu_wf_def cpu_mode_def CPSR_M_def)
  have "arch_reg env' m s = (if s = r \<and> shares_user_reg m r then v else arch_reg env m s)"
    if st: "helper_set_user_reg r v env = Inr env'" and vm: "valid_mode m" and "s < 16" for env' m s
  proof -
    obtain b' where b': "bank_number m = Inr b'" using vm by (auto simp: valid_mode_def)
    obtain q where q: "bank_number ARM_CPU_MODE_FIQ = Inr q" using valid_modes by (auto simp: valid_mode_def)
    have l: "b' < 7" using bank_less [OF b'] .
    note st = st [unfolded set_user_reg_cells [OF assms(1,4)]]
    note d = arch_reg_def shares_user_reg_def cpu_mode_def [of "_\<lparr>regs := _\<rparr>"] cpu_mode_def [of "_\<lparr>usr_regs := _\<rparr>"]
      cpu_mode_def [of "_\<lparr>banked_r13 := _\<rparr>"] cpu_mode_def [of "_\<lparr>banked_r14 := _\<rparr>"] cpu_mode_def [of env, symmetric]
    consider "r = 13" | "r = 14" | "8 \<le> r" "r \<le> 12" "cpu_mode env = ARM_CPU_MODE_FIQ"
      | "r < 13" "\<not> (8 \<le> r \<and> cpu_mode env = ARM_CPU_MODE_FIQ)" using assms(4) by linarith
    then show ?thesis
    proof cases
      case 1
      then have "env' = env\<lparr>banked_r13 := (banked_r13 env)[0 := v]\<rparr>" using st by simp
      then show ?thesis using 1 assms(1) b b' q l nz by (auto simp: d cpu_wf_def nth_list_update)
    next
      case 2
      then have "env' = env\<lparr>banked_r14 := (banked_r14 env)[0 := v]\<rparr>" using st by simp
      then show ?thesis using 2 assms(1) b b' q l nz by (auto simp: d cpu_wf_def nth_list_update)
    next
      case 3
      then have "env' = env\<lparr>usr_regs := (usr_regs env)[r - 8 := v]\<rparr>" using st by simp
      moreover have "r - 8 = s - 8 \<longleftrightarrow> s = r" if "8 \<le> s" using that 3 by linarith
      ultimately show ?thesis using 3 assms(1) by (cases "8 \<le> s \<and> s \<le> 12") (auto simp: d cpu_wf_def nth_list_update)
    next
      case 4
      then have "env' = env\<lparr>regs := (regs env)[r := v]\<rparr>" using st by (auto split: if_splits)
      then show ?thesis using 4 assms(1) b b' q by (cases "s = 13 \<or> s = 14"; cases "8 \<le> s \<and> s \<le> 12") (auto simp: d cpu_wf_def nth_list_update)
    qed
  qed
  moreover have "\<exists>env'. helper_set_user_reg r v env = Inr env' \<and> cpu_mode env' = cpu_mode env"
    unfolding set_user_reg_cells [OF assms(1,4)] by (simp add: cpu_mode_def)
  ultimately show ?thesis using get by blast
qed

theorem user_registers_witness:
  "helper_get_user_reg 13 demo_cpu = Inr (arch_reg demo_cpu ARM_CPU_MODE_USR 13)
   \<and> (\<exists>env'. helper_set_user_reg 13 7 demo_cpu = Inr env' \<and> arch_reg env' ARM_CPU_MODE_USR 13 = 7
        \<and> arch_reg env' ARM_CPU_MODE_SVC 13 = arch_reg demo_cpu ARM_CPU_MODE_SVC 13)"
proof -
  have "cpu_wf demo_cpu" "valid_mode (cpu_mode demo_cpu)" "cpu_mode demo_cpu \<notin> {ARM_CPU_MODE_USR, ARM_CPU_MODE_SYS}"
    by (simp_all add: cpu_wf_def demo_cpu_def cpu_mode_def CPSR_M_def mode_defs valid_mode_def bank_number_def)
  from user_registers [OF this, of 13 7] valid_modes show ?thesis
    by (auto simp: shares_user_reg_def bank_number_def mode_defs)
qed

end
