(* ===== verification/Arm_Helper.thy ===== *)
theory Arm_Helper
  imports Arm_Op_Helper Arm_V7m
begin

text \<open>
  The instruction helpers of \<^verbatim>\<open>target-arm/helper.c\<close>: extension, division and bit
  reversal, the saturating lanes of the media instructions, the special registers
  of the microcontroller profile, the banked stack pointers, and the status register
  of the floating point unit. The softfloat library is a parameter, the record \<open>softfloat\<close>.
\<close>

section \<open>Arithmetic\<close>

definition helper_sxtb16 :: "u32 \<Rightarrow> u32" where
  "helper_sxtb16 x =
     (let res = ucast (scast (ucast x :: u8) :: u16)
      in res OR push_bit 16 (scast (ucast (drop_bit 16 x) :: u8)))"

definition helper_uxtb16 :: "u32 \<Rightarrow> u32" where
  "helper_uxtb16 x =
     (let res = ucast (ucast (ucast x :: u8) :: u16)
      in res OR push_bit 16 (ucast (ucast (drop_bit 16 x) :: u8)))"

text \<open>Division in C cuts towards zero.\<close>

definition c_quotient :: "int \<Rightarrow> int \<Rightarrow> int" where
  "c_quotient a b = sgn a * sgn b * (\<bar>a\<bar> div \<bar>b\<bar>)"

definition helper_sdiv :: "u32 \<Rightarrow> u32 \<Rightarrow> u32" where
  "helper_sdiv num den =
     (if sint den = 0 then 0
      else if sint num = - (2 ^ 31) \<and> sint den = - 1 then 0x80000000
      else word_of_int (c_quotient (sint num) (sint den)))"

definition helper_udiv :: "u32 \<Rightarrow> u32 \<Rightarrow> u32" where
  "helper_udiv num den = (if den = 0 then 0 else num div den)"

definition helper_rbit :: "u32 \<Rightarrow> u32" where
  "helper_rbit x =
     (let x = drop_bit 24 (x AND 0xff000000) OR drop_bit 8 (x AND 0x00ff0000)
              OR push_bit 8 (x AND 0x0000ff00) OR push_bit 24 (x AND 0x000000ff);
          x = drop_bit 4 (x AND 0xf0f0f0f0) OR push_bit 4 (x AND 0x0f0f0f0f)
      in drop_bit 3 (x AND 0x88888888) OR drop_bit 1 (x AND 0x44444444)
         OR push_bit 1 (x AND 0x22222222) OR push_bit 3 (x AND 0x11111111))"

section \<open>Lanes\<close>

definition add16_sat :: "u16 \<Rightarrow> u16 \<Rightarrow> u16" where
  "add16_sat a b =
     (let res = a + b in
      if (res XOR a) AND 0x8000 \<noteq> 0 \<and> (a XOR b) AND 0x8000 = 0
      then (if a AND 0x8000 \<noteq> 0 then 0x8000 else 0x7fff) else res)"

definition add8_sat :: "u8 \<Rightarrow> u8 \<Rightarrow> u8" where
  "add8_sat a b =
     (let res = a + b in
      if (res XOR a) AND 0x80 \<noteq> 0 \<and> (a XOR b) AND 0x80 = 0
      then (if a AND 0x80 \<noteq> 0 then 0x80 else 0x7f) else res)"

definition sub16_sat :: "u16 \<Rightarrow> u16 \<Rightarrow> u16" where
  "sub16_sat a b =
     (let res = a - b in
      if (res XOR a) AND 0x8000 \<noteq> 0 \<and> (a XOR b) AND 0x8000 \<noteq> 0
      then (if a AND 0x8000 \<noteq> 0 then 0x8000 else 0x7fff) else res)"

definition sub8_sat :: "u8 \<Rightarrow> u8 \<Rightarrow> u8" where
  "sub8_sat a b =
     (let res = a - b in
      if (res XOR a) AND 0x80 \<noteq> 0 \<and> (a XOR b) AND 0x80 \<noteq> 0
      then (if a AND 0x80 \<noteq> 0 then 0x80 else 0x7f) else res)"

definition add16_usat :: "u16 \<Rightarrow> u16 \<Rightarrow> u16" where
  "add16_usat a b = (let res = a + b in if res < a then 0xffff else res)"

definition sub16_usat :: "u16 \<Rightarrow> u16 \<Rightarrow> u16" where
  "sub16_usat a b = (if a > b then a - b else 0)"

definition add8_usat :: "u8 \<Rightarrow> u8 \<Rightarrow> u8" where
  "add8_usat a b = (let res = a + b in if res < a then 0xff else res)"

definition sub8_usat :: "u8 \<Rightarrow> u8 \<Rightarrow> u8" where
  "sub8_usat a b = (if a > b then a - b else 0)"

definition do_usad :: "u8 \<Rightarrow> u8 \<Rightarrow> u8" where
  "do_usad a b = (if a > b then a - b else b - a)"

definition helper_usad8 :: "u32 \<Rightarrow> u32 \<Rightarrow> u32" where
  "helper_usad8 a b =
     ucast (do_usad (ucast a) (ucast b))
     + ucast (do_usad (ucast (drop_bit 8 a)) (ucast (drop_bit 8 b)))
     + ucast (do_usad (ucast (drop_bit 16 a)) (ucast (drop_bit 16 b)))
     + ucast (do_usad (ucast (drop_bit 24 a)) (ucast (drop_bit 24 b)))"

definition helper_sel_flags :: "u32 \<Rightarrow> u32 \<Rightarrow> u32 \<Rightarrow> u32" where
  "helper_sel_flags flags a b =
     (let msk = 0;
          msk = (if flags AND 1 \<noteq> 0 then msk OR 0xff else msk);
          msk = (if flags AND 2 \<noteq> 0 then msk OR 0xff00 else msk);
          msk = (if flags AND 4 \<noteq> 0 then msk OR 0xff0000 else msk);
          msk = (if flags AND 8 \<noteq> 0 then msk OR 0xff000000 else msk)
      in (a AND msk) OR (b AND NOT msk))"

section \<open>Banked stack pointers and special registers\<close>

definition helper_set_r13_banked :: "u32 \<Rightarrow> u32 \<Rightarrow> cpu \<Rightarrow> cpu result" where
  "helper_set_r13_banked mode val env =
     (if uncached_cpsr env AND CPSR_M = mode
      then cbind (c_update (regs env) 13 val) (\<lambda>xs. Inr (env\<lparr>regs := xs\<rparr>))
      else cbind (bank_number mode) (\<lambda>b. cbind (c_update (banked_r13 env) b val) (\<lambda>xs. Inr (env\<lparr>banked_r13 := xs\<rparr>))))"

definition helper_get_r13_banked :: "u32 \<Rightarrow> cpu \<Rightarrow> u32 result" where
  "helper_get_r13_banked mode env =
     (if uncached_cpsr env AND CPSR_M = mode then c_nth (regs env) 13
      else cbind (bank_number mode) (c_nth (banked_r13 env)))"

definition helper_v7m_mrs :: "nat \<Rightarrow> cpu \<Rightarrow> u32 result" where
  "helper_v7m_mrs reg env =
     (if reg = 0 then Inr (xpsr_read env AND 0xf8000000)
      else if reg = 1 then Inr (xpsr_read env AND 0xf80001ff)
      else if reg = 2 then Inr (xpsr_read env AND 0xff00fc00)
      else if reg = 3 then Inr (xpsr_read env AND 0xff00fdff)
      else if reg = 5 then Inr (xpsr_read env AND 0x000001ff)
      else if reg = 6 then Inr (xpsr_read env AND 0x0700fc00)
      else if reg = 7 then Inr (xpsr_read env AND 0x0700edff)
      else if reg = 8 then (if v7m_current_sp env \<noteq> 0 then Inr (v7m_other_sp env) else c_nth (regs env) 13)
      else if reg = 9 then (if v7m_current_sp env \<noteq> 0 then c_nth (regs env) 13 else Inr (v7m_other_sp env))
      else if reg = 16 then Inr (b2w (uncached_cpsr env AND CPSR_I \<noteq> 0))
      else if reg = 17 \<or> reg = 18 then Inr (v7m_basepri env)
      else if reg = 19 then Inr (b2w (uncached_cpsr env AND CPSR_F \<noteq> 0))
      else if reg = 20 then Inr (v7m_control env)
      else Inl Cpu_Abort)"

definition set_sp :: "u32 \<Rightarrow> cpu \<Rightarrow> cpu result" where
  "set_sp val env = cbind (c_update (regs env) 13 val) (\<lambda>xs. Inr (env\<lparr>regs := xs\<rparr>))"

definition helper_v7m_msr :: "nat \<Rightarrow> u32 \<Rightarrow> cpu \<Rightarrow> cpu result" where
  "helper_v7m_msr reg val env =
     (if reg = 0 \<or> reg = 1 then Inr (xpsr_write val 0xf8000000 env)
      else if reg = 2 \<or> reg = 3 then Inr (xpsr_write val 0xfe00fc00 env)
      else if reg = 5 then Inr env
      else if reg = 6 \<or> reg = 7 then Inr (xpsr_write val 0x0600fc00 env)
      else if reg = 8 then (if v7m_current_sp env \<noteq> 0 then Inr (env\<lparr>v7m_other_sp := val\<rparr>) else set_sp val env)
      else if reg = 9 then (if v7m_current_sp env \<noteq> 0 then set_sp val env else Inr (env\<lparr>v7m_other_sp := val\<rparr>))
      else if reg = 16 then Inr (env\<lparr>uncached_cpsr :=
        (if val AND 1 \<noteq> 0 then uncached_cpsr env OR CPSR_I else uncached_cpsr env AND NOT CPSR_I)\<rparr>)
      else if reg = 17 then Inr (env\<lparr>v7m_basepri := val AND 0xff\<rparr>)
      else if reg = 18 then
        (let val = val AND 0xff in
         if val \<noteq> 0 \<and> (val < v7m_basepri env \<or> v7m_basepri env = 0) then Inr (env\<lparr>v7m_basepri := val\<rparr>) else Inr env)
      else if reg = 19 then Inr (env\<lparr>uncached_cpsr :=
        (if val AND 1 \<noteq> 0 then uncached_cpsr env OR CPSR_F else uncached_cpsr env AND NOT CPSR_F)\<rparr>)
      else if reg = 20 then
        Inr (switch_v7m_sp (if val AND 2 \<noteq> 0 then 1 else 0) (env\<lparr>v7m_control := val AND 3\<rparr>))
      else Inl Cpu_Abort)"

section \<open>Floating point status\<close>

text \<open>QEMU's softfloat library; \<open>'s\<close> is its type of status words.\<close>

record 's softfloat =
  float_flag_invalid :: u32
  float_flag_divbyzero :: u32
  float_flag_overflow :: u32
  float_flag_underflow :: u32
  float_flag_output_denormal :: u32
  float_flag_inexact :: u32
  float_flag_input_denormal :: u32
  float_round_nearest_even :: u32
  float_round_up :: u32
  float_round_down :: u32
  float_round_to_zero :: u32
  get_float_exception_flags :: "'s \<Rightarrow> u32"
  set_float_exception_flags :: "u32 \<Rightarrow> 's \<Rightarrow> 's"
  set_float_rounding_mode :: "u32 \<Rightarrow> 's \<Rightarrow> 's"
  set_flush_to_zero :: "bool \<Rightarrow> 's \<Rightarrow> 's"
  set_flush_inputs_to_zero :: "bool \<Rightarrow> 's \<Rightarrow> 's"
  set_default_nan_mode :: "bool \<Rightarrow> 's \<Rightarrow> 's"

text \<open>The status words of \<^verbatim>\<open>env->vfp\<close>, kept beside the processor state.\<close>

record 's vfp_status =
  fp_status :: 's
  standard_fp_status :: 's

definition vfp_exceptbits_from_host :: "'s softfloat \<Rightarrow> u32 \<Rightarrow> u32" where
  "vfp_exceptbits_from_host x host_bits =
     (let t = 0;
          t = (if host_bits AND float_flag_invalid x \<noteq> 0 then t OR 1 else t);
          t = (if host_bits AND float_flag_divbyzero x \<noteq> 0 then t OR 2 else t);
          t = (if host_bits AND float_flag_overflow x \<noteq> 0 then t OR 4 else t);
          t = (if host_bits AND (float_flag_underflow x OR float_flag_output_denormal x) \<noteq> 0 then t OR 8 else t);
          t = (if host_bits AND float_flag_inexact x \<noteq> 0 then t OR 0x10 else t);
          t = (if host_bits AND float_flag_input_denormal x \<noteq> 0 then t OR 0x80 else t)
      in t)"

definition vfp_exceptbits_to_host :: "'s softfloat \<Rightarrow> u32 \<Rightarrow> u32" where
  "vfp_exceptbits_to_host x target_bits =
     (let h = 0;
          h = (if target_bits AND 1 \<noteq> 0 then h OR float_flag_invalid x else h);
          h = (if target_bits AND 2 \<noteq> 0 then h OR float_flag_divbyzero x else h);
          h = (if target_bits AND 4 \<noteq> 0 then h OR float_flag_overflow x else h);
          h = (if target_bits AND 8 \<noteq> 0 then h OR float_flag_underflow x else h);
          h = (if target_bits AND 0x10 \<noteq> 0 then h OR float_flag_inexact x else h);
          h = (if target_bits AND 0x80 \<noteq> 0 then h OR float_flag_input_denormal x else h)
      in h)"

definition vfp_get_fpscr :: "'s softfloat \<Rightarrow> cpu \<Rightarrow> 's vfp_status \<Rightarrow> u32 result" where
  "vfp_get_fpscr x env st =
     cbind (c_nth (vfp_xregs env) ARM_VFP_FPSCR) (\<lambda>r.
       let fpscr = (r AND 0xffc8ffff) OR push_bit 16 (vfp_vec_len env) OR push_bit 20 (vfp_vec_stride env);
           i = get_float_exception_flags x (fp_status st) OR get_float_exception_flags x (standard_fp_status st)
       in Inr (fpscr OR vfp_exceptbits_from_host x i))"

definition rounding_mode :: "'s softfloat \<Rightarrow> u32 \<Rightarrow> u32" where
  "rounding_mode x i =
     (if i = 0 then float_round_nearest_even x else if i = 1 then float_round_up x
      else if i = 2 then float_round_down x else if i = 3 then float_round_to_zero x else i)"

definition vfp_set_fpscr :: "'s softfloat \<Rightarrow> u32 \<Rightarrow> cpu \<Rightarrow> 's vfp_status \<Rightarrow> (cpu \<times> 's vfp_status) result" where
  "vfp_set_fpscr x val env st =
     cbind (c_nth (vfp_xregs env) ARM_VFP_FPSCR) (\<lambda>changed.
     cbind (c_update (vfp_xregs env) ARM_VFP_FPSCR (val AND 0xffc8ffff)) (\<lambda>xs.
       let env = env\<lparr>vfp_xregs := xs, vfp_vec_len := drop_bit 16 val AND 7, vfp_vec_stride := drop_bit 20 val AND 3\<rparr>;
           changed = changed XOR val;
           fs = fp_status st;
           fs = (if changed AND push_bit 22 3 \<noteq> 0
                 then set_float_rounding_mode x (rounding_mode x (drop_bit 22 val AND 3)) fs else fs);
           fs = (if changed AND push_bit 24 1 \<noteq> 0
                 then set_flush_inputs_to_zero x (val AND push_bit 24 1 \<noteq> 0) (set_flush_to_zero x (val AND push_bit 24 1 \<noteq> 0) fs) else fs);
           fs = (if changed AND push_bit 25 1 \<noteq> 0 then set_default_nan_mode x (val AND push_bit 25 1 \<noteq> 0) fs else fs);
           fs = set_float_exception_flags x (vfp_exceptbits_to_host x val) fs
       in Inr (env, st\<lparr>fp_status := fs, standard_fp_status := set_float_exception_flags x 0 (standard_fp_status st)\<rparr>)))"

section \<open>Saturating lanes\<close>

text \<open>
  What a pair of saturating operations promises: with \<open>val\<close> the number a word stands for,
  sum and difference are the exact ones cut to the range.
\<close>

locale saturating_lane =
  fixes add sub :: "'a::len word \<Rightarrow> 'a word \<Rightarrow> 'a word" and val :: "'a word \<Rightarrow> int" and lo hi :: int
  assumes add_val: "val (add a b) = max lo (min hi (val a + val b))"
    and sub_val: "val (sub a b) = max lo (min hi (val a - val b))"
    and val_range: "lo \<le> val a" "val a \<le> hi"
    and val_inj: "val a = val b \<Longrightarrow> a = b"
begin

lemma add_sub: "lo \<le> val a + val b \<Longrightarrow> val a + val b \<le> hi \<Longrightarrow> sub (add a b) b = a"
  using val_range [of a] by (intro val_inj) (simp add: add_val sub_val)

lemma add_commute: "add a b = add b a"
  by (rule val_inj) (simp add: add_val add.commute)

end

lemma sign16: "w AND 0x8000 \<noteq> 0 \<longleftrightarrow> sint w < 0" for w :: u16
proof -
  have e: "(0x8000 :: u16) = push_bit 15 1" by simp
  show ?thesis unfolding e bit_iff_and_push_bit_not_eq_0 [symmetric] using sign_bit [of w] by simp
qed

lemma sign8: "w AND 0x80 \<noteq> 0 \<longleftrightarrow> sint w < 0" for w :: u8
proof -
  have e: "(0x80 :: u8) = push_bit 7 1" by simp
  show ?thesis unfolding e bit_iff_and_push_bit_not_eq_0 [symmetric] using sign_bit [of w] by simp
qed

lemma sint_xor: "sint (v XOR w) < 0 \<longleftrightarrow> (sint v < 0) \<noteq> (sint w < 0)" for v w :: "'a::len word"
  using sign_bit [of "v XOR w"] sign_bit [of v] sign_bit [of w] by (simp add: bit_simps)

lemmas sat_defs = add16_sat_def add8_sat_def sub16_sat_def sub8_sat_def

lemma signed_sat:
  "sint (add16_sat a b) = max (- (2 ^ 15)) (min (2 ^ 15 - 1) (sint a + sint b))"
  "sint (sub16_sat a b) = max (- (2 ^ 15)) (min (2 ^ 15 - 1) (sint a - sint b))"
  "sint (add8_sat c d) = max (- (2 ^ 7)) (min (2 ^ 7 - 1) (sint c + sint d))"
  "sint (sub8_sat c d) = max (- (2 ^ 7)) (min (2 ^ 7 - 1) (sint c - sint d))"
proof -
  note r = sint_range [of a] sint_range [of b] sint_range [of c] sint_range [of d]
  have z: "(v AND 0x8000 = 0) = (\<not> sint v < 0)" "(w AND 0x80 = 0) = (\<not> sint w < 0)" for v :: u16 and w :: u8
    using sign16 [of v] sign8 [of w] by blast+
  show "sint (add16_sat a b) = max (- (2 ^ 15)) (min (2 ^ 15 - 1) (sint a + sint b))"
    "sint (sub16_sat a b) = max (- (2 ^ 15)) (min (2 ^ 15 - 1) (sint a - sint b))"
    using r(1-4) sint_add [of a b] sint_sub [of a b] by (auto simp: sat_defs Let_def z sint_xor min_def max_def split: if_splits)
  show "sint (add8_sat c d) = max (- (2 ^ 7)) (min (2 ^ 7 - 1) (sint c + sint d))"
    "sint (sub8_sat c d) = max (- (2 ^ 7)) (min (2 ^ 7 - 1) (sint c - sint d))"
    using r(5-8) sint_add [of c d] sint_sub [of c d] by (auto simp: sat_defs Let_def z sint_xor min_def max_def split: if_splits)
qed

lemmas usat_defs = add16_usat_def add8_usat_def sub16_usat_def sub8_usat_def

lemma unsigned_sat:
  "uint (add16_usat a b) = max 0 (min (2 ^ 16 - 1) (uint a + uint b))"
  "uint (sub16_usat a b) = max 0 (min (2 ^ 16 - 1) (uint a - uint b))"
  "uint (add8_usat c d) = max 0 (min (2 ^ 8 - 1) (uint c + uint d))"
  "uint (sub8_usat c d) = max 0 (min (2 ^ 8 - 1) (uint c - uint d))"
proof -
  have r: "uint a < 65536" "uint b < 65536" "uint c < 256" "uint d < 256"
    using uint_lt2p [of a] uint_lt2p [of b] uint_lt2p [of c] uint_lt2p [of d] by simp_all
  have n: "uint a - uint b \<le> 65535" "uint c - uint d \<le> 255" using r uint_ge_0 [of b] uint_ge_0 [of d] by linarith+
  show "uint (add16_usat a b) = max 0 (min (2 ^ 16 - 1) (uint a + uint b))"
    "uint (sub16_usat a b) = max 0 (min (2 ^ 16 - 1) (uint a - uint b))"
    using r(1,2) n(1) uint_plus_if' [of a b] uint_sub_if' [of a b]
    by (auto simp: usat_defs Let_def word_less_def min_def max_def split: if_splits)
  show "uint (add8_usat c d) = max 0 (min (2 ^ 8 - 1) (uint c + uint d))"
    "uint (sub8_usat c d) = max 0 (min (2 ^ 8 - 1) (uint c - uint d))"
    using r(3,4) n(2) uint_plus_if' [of c d] uint_sub_if' [of c d]
    by (auto simp: usat_defs Let_def word_less_def min_def max_def split: if_splits)
qed

lemma sint_bounds: "- (2 ^ 15) \<le> sint a" "sint a \<le> 2 ^ 15 - 1" "- (2 ^ 7) \<le> sint c" "sint c \<le> 2 ^ 7 - 1"
  "uint a \<le> 2 ^ 16 - 1" "uint c \<le> 2 ^ 8 - 1" for a :: u16 and c :: u8
  using sint_range [of a] sint_range [of c] uint_lt2p [of a] uint_lt2p [of c] by simp_all

interpretation s16: saturating_lane add16_sat sub16_sat sint "- (2 ^ 15)" "2 ^ 15 - 1"
  by unfold_locales (use signed_sat sint_bounds in \<open>auto simp: signed_word_eqI\<close>)

interpretation s8: saturating_lane add8_sat sub8_sat sint "- (2 ^ 7)" "2 ^ 7 - 1"
  by unfold_locales (use signed_sat sint_bounds in \<open>auto simp: signed_word_eqI\<close>)

interpretation u16: saturating_lane add16_usat sub16_usat uint 0 "2 ^ 16 - 1"
  by unfold_locales (use unsigned_sat sint_bounds in \<open>auto simp: word_uint_eq_iff\<close>)

interpretation u8: saturating_lane add8_usat sub8_usat uint 0 "2 ^ 8 - 1"
  by unfold_locales (use unsigned_sat sint_bounds in \<open>auto simp: word_uint_eq_iff\<close>)

section \<open>Media instructions\<close>

text \<open>The bytes and the halves of a word.\<close>

definition lane8 :: "nat \<Rightarrow> u32 \<Rightarrow> u8" where
  "lane8 k w = ucast (drop_bit (8 * k) w)"

definition lane16 :: "nat \<Rightarrow> u32 \<Rightarrow> u16" where
  "lane16 k w = ucast (drop_bit (16 * k) w)"

lemma bit_lane8: "bit (lane8 k w) n \<longleftrightarrow> n < 8 \<and> bit w (8 * k + n)"
  by (auto simp: lane8_def bit_simps)

lemma bit_lane16: "bit (lane16 k w) n \<longleftrightarrow> n < 16 \<and> bit w (16 * k + n)"
  by (auto simp: lane16_def bit_simps)

lemma bit_times_2: "bit (w * 2) n \<longleftrightarrow> n \<noteq> 0 \<and> n < 32 \<and> bit w (n - 1)" for w :: u32
  unfolding mult.commute [of w 2] by (auto simp: bit_double_iff)

lemma rbit_bit:
  assumes "n < 32"
  shows "bit (helper_rbit x) n = bit x (31 - n)"
  using less_32_cases [OF assms] unfolding insert_iff empty_iff
  by (elim disjE; hypsubst?) (simp_all add: helper_rbit_def Let_def bit_simps bit_times_2)

lemma flag_tests: "w AND 1 = 0 \<longleftrightarrow> \<not> bit w 0" "w AND 2 = 0 \<longleftrightarrow> \<not> bit w 1" "w AND 4 = 0 \<longleftrightarrow> \<not> bit w 2"
  "w AND 8 = 0 \<longleftrightarrow> \<not> bit w 3" "w AND 0x10 = 0 \<longleftrightarrow> \<not> bit w 4" "w AND 0x80 = 0 \<longleftrightarrow> \<not> bit w 7" for w :: u32
  using and_push_bit_1 [of w 0] and_push_bit_1 [of w 1] and_push_bit_1 [of w 2] and_push_bit_1 [of w 3]
    and_push_bit_1 [of w 4] and_push_bit_1 [of w 7] by simp_all

lemma sel_bit:
  assumes "n < 32"
  shows "bit (helper_sel_flags f a b) n = (if bit f (n div 8) then bit a n else bit b n)"
  using less_32_cases [OF assms] unfolding insert_iff empty_iff
  by (elim disjE; hypsubst?) (simp_all add: helper_sel_flags_def Let_def bit_simps flag_tests)

lemma sel_lane: "k < 4 \<Longrightarrow> lane8 k (helper_sel_flags f a b) = (if bit f k then lane8 k a else lane8 k b)"
  by (rule bit_word_eqI) (auto simp: bit_lane8 sel_bit)

lemma usad_exact: "uint (do_usad a b) = \<bar>uint a - uint b\<bar>"
  using uint_sub_if' [of a b] uint_sub_if' [of b a] by (auto simp: do_usad_def word_less_def split: if_splits)

lemma usad8_exact: "uint (helper_usad8 a b) = (\<Sum>k<4. \<bar>uint (lane8 k a) - uint (lane8 k b)\<bar>)"
proof -
  let ?d = "\<lambda>k. do_usad (lane8 k a) (lane8 k b)"
  have r: "uint (?d k) < 256" for k using uint_lt2p [of "?d k"] by simp
  have u: "uint (ucast (?d k) :: u32) = uint (?d k)" for k by (simp add: uint_up_ucast is_up)
  have "helper_usad8 a b = ucast (?d 0) + ucast (?d 1) + ucast (?d 2) + ucast (?d 3)"
    by (simp add: helper_usad8_def lane8_def)
  then have "uint (helper_usad8 a b) = uint (?d 0) + uint (?d 1) + uint (?d 2) + uint (?d 3)"
    using r [of 0] r [of 1] r [of 2] r [of 3] by (simp add: uint_plus_if' u)
  then show ?thesis unfolding usad_exact by (simp add: eval_nat_numeral)
qed

lemma sxtb16_lane: "k < 2 \<Longrightarrow> lane16 k (helper_sxtb16 x) = scast (lane8 (2 * k) x)"
  by (rule bit_word_eqI) (auto simp: bit_lane16 bit_lane8 helper_sxtb16_def Let_def bit_simps less_2_cases_iff)

lemma uxtb16_lane: "k < 2 \<Longrightarrow> lane16 k (helper_uxtb16 x) = ucast (lane8 (2 * k) x)"
  by (rule bit_word_eqI) (auto simp: bit_lane16 bit_lane8 helper_uxtb16_def Let_def bit_simps less_2_cases_iff)

lemma quotient_exact:
  assumes "b \<noteq> 0"
  shows "\<exists>r. a = c_quotient a b * b + r \<and> \<bar>r\<bar> < \<bar>b\<bar> \<and> (r = 0 \<or> sgn r = sgn a)"
proof -
  let ?r = "sgn a * (\<bar>a\<bar> mod \<bar>b\<bar>)"
  have "c_quotient a b * b + ?r = sgn a * (\<bar>a\<bar> div \<bar>b\<bar> * (sgn b * b) + \<bar>a\<bar> mod \<bar>b\<bar>)"
    by (simp add: c_quotient_def algebra_simps)
  also have "\<dots> = sgn a * \<bar>a\<bar>" by (simp add: sgn_mult_abs abs_sgn [symmetric] mult.commute [of "sgn b"])
  finally have "a = c_quotient a b * b + ?r" unfolding sgn_mult_abs by (rule sym)
  moreover have "\<bar>?r\<bar> < \<bar>b\<bar>" using assms by (simp add: abs_mult sgn_if)
  moreover have "?r = 0 \<or> sgn ?r = sgn a"
  proof -
    define k where "k = \<bar>a\<bar> mod \<bar>b\<bar>"
    have "0 \<le> k" using assms by (simp add: k_def)
    then show ?thesis unfolding k_def [symmetric] by (auto simp: sgn_mult sgn_if)
  qed
  ultimately show ?thesis by blast
qed

lemma quotient_range:
  assumes "- (2 ^ 31) \<le> a" "a < 2 ^ 31" "b \<noteq> 0" "\<not> (a = - (2 ^ 31) \<and> b = - 1)"
  shows "- (2 ^ 31) \<le> c_quotient a b" "c_quotient a b < 2 ^ 31"
proof -
  define m where "m = \<bar>a\<bar> div \<bar>b\<bar>"
  have b1: "1 \<le> \<bar>b\<bar>" using assms(3) by linarith
  have m0: "0 \<le> m" using b1 by (simp add: m_def pos_imp_zdiv_nonneg_iff)
  have "m * \<bar>b\<bar> + \<bar>a\<bar> mod \<bar>b\<bar> = \<bar>a\<bar>" "0 \<le> \<bar>a\<bar> mod \<bar>b\<bar>" using b1 by (simp_all add: m_def)
  then have mb: "m * \<bar>b\<bar> \<le> \<bar>a\<bar>" by linarith
  have ma: "m \<le> \<bar>a\<bar>" using mult_left_mono [OF b1 m0] mb by simp
  have q: "c_quotient a b = sgn a * sgn b * m" by (simp add: c_quotient_def m_def)
  then have "\<bar>c_quotient a b\<bar> \<le> m" using m0 by (simp add: abs_mult sgn_if)
  then show "- (2 ^ 31) \<le> c_quotient a b" using ma assms(1,2) by linarith
  show "c_quotient a b < 2 ^ 31"
  proof (rule ccontr)
    assume n: "\<not> c_quotient a b < 2 ^ 31"
    then have v: "m = 2 ^ 31" "a = - (2 ^ 31)" using \<open>\<bar>c_quotient a b\<bar> \<le> m\<close> ma assms(1,2) by linarith+
    then have "b < 0" using n q by (simp add: sgn_if split: if_splits)
    moreover have "\<bar>b\<bar> \<le> 1" using mb v by simp
    ultimately show False using v(2) assms(4) by linarith
  qed
qed

lemma sdiv_exact:
  assumes "y \<noteq> 0" "\<not> (sint x = - (2 ^ 31) \<and> sint y = - 1)"
  shows "\<exists>r. sint x = sint (helper_sdiv x y) * sint y + r \<and> \<bar>r\<bar> < \<bar>sint y\<bar> \<and> (r = 0 \<or> sgn r = sgn (sint x))"
proof -
  have y: "sint y \<noteq> 0" using assms(1) by (metis signed_0 signed_word_eqI)
  have "sint (helper_sdiv x y) = c_quotient (sint x) (sint y)"
    using quotient_range [OF _ _ y assms(2)] sint_range [of x] assms y by (auto simp: helper_sdiv_def sint_of)
  then show ?thesis using quotient_exact [OF y, of "sint x"] by simp
qed

text \<open>
  C24. The helpers of the media and division instructions compute what the architecture
  defines. Bit reversal mirrors the word; the selection takes each byte from the operand
  that its flag chooses; the sum of absolute differences is the sum over the bytes, without
  overflow; extension keeps the value of the bytes 0 and 2; unsigned division rounds down
  and signed division towards zero, a division by zero gives 0 and the one quotient that
  is out of range wraps; and on lanes of 16 and 8 bits, signed and unsigned, addition and subtraction are
  cut to the range, so that a sum in range is undone by subtraction.
\<close>

theorem media_exact:
  "(\<forall>n<32. bit (helper_rbit x) n = bit x (31 - n))
   \<and> (\<forall>k<4. lane8 k (helper_sel_flags f x y) = (if bit f k then lane8 k x else lane8 k y))
   \<and> uint (helper_usad8 x y) = (\<Sum>k<4. \<bar>uint (lane8 k x) - uint (lane8 k y)\<bar>)
   \<and> (\<forall>k<2. sint (lane16 k (helper_sxtb16 x)) = sint (lane8 (2 * k) x)
         \<and> uint (lane16 k (helper_uxtb16 x)) = uint (lane8 (2 * k) x))
   \<and> uint (helper_udiv x y) = uint x div uint y
   \<and> (if y = 0 then helper_sdiv x y = 0
      else if sint x = - (2 ^ 31) \<and> sint y = - 1 then sint (helper_sdiv x y) = - (2 ^ 31)
      else \<exists>r. sint x = sint (helper_sdiv x y) * sint y + r \<and> \<bar>r\<bar> < \<bar>sint y\<bar> \<and> (r = 0 \<or> sgn r = sgn (sint x)))
   \<and> sint (add16_sat a b) = max (- (2 ^ 15)) (min (2 ^ 15 - 1) (sint a + sint b))
   \<and> sint (sub16_sat a b) = max (- (2 ^ 15)) (min (2 ^ 15 - 1) (sint a - sint b))
   \<and> sint (add8_sat c d) = max (- (2 ^ 7)) (min (2 ^ 7 - 1) (sint c + sint d))
   \<and> sint (sub8_sat c d) = max (- (2 ^ 7)) (min (2 ^ 7 - 1) (sint c - sint d))
   \<and> uint (add16_usat a b) = min (2 ^ 16 - 1) (uint a + uint b) \<and> uint (sub16_usat a b) = max 0 (uint a - uint b)
   \<and> uint (add8_usat c d) = min (2 ^ 8 - 1) (uint c + uint d) \<and> uint (sub8_usat c d) = max 0 (uint c - uint d)
   \<and> (uint a + uint b < 2 ^ 16 \<longrightarrow> sub16_usat (add16_usat a b) b = a)
   \<and> (- (2 ^ 7) \<le> sint c + sint d \<and> sint c + sint d < 2 ^ 7 \<longrightarrow> sub8_sat (add8_sat c d) d = c)"
proof -
  have s: "sint (scast w :: u16) = sint w" for w :: u8 by (simp add: sint_up_scast is_up)
  have u: "uint (ucast w :: u16) = uint w" for w :: u8 by (simp add: uint_up_ucast is_up)
  have d: "uint (helper_udiv x y) = uint x div uint y" by (auto simp: helper_udiv_def uint_div)
  have le: "uint a - uint b \<le> 65535" "uint c - uint d \<le> 255"
    using sint_bounds(5) [of a, simplified] sint_bounds(6) [of c, simplified] uint_ge_0 [of b] uint_ge_0 [of d] by linarith+
  have m: "min (2 ^ 16 - 1) (uint a - uint b) = uint a - uint b" "min (2 ^ 8 - 1) (uint c - uint d) = uint c - uint d"
    "max 0 (min (2 ^ 16 - 1) (uint a + uint b)) = min (2 ^ 16 - 1) (uint a + uint b)"
    "max 0 (min (2 ^ 8 - 1) (uint c + uint d)) = min (2 ^ 8 - 1) (uint c + uint d)"
    using le by (simp_all add: min_def max_def)
  have z: "helper_sdiv x y = 0" if "y = 0" using that by (simp add: helper_sdiv_def)
  have o: "sint (helper_sdiv x y) = - (2 ^ 31)" if "sint x = - (2 ^ 31)" "sint y = - 1" using that by (simp add: helper_sdiv_def)
  show ?thesis unfolding signed_sat unsigned_sat m usad8_exact d
    using rbit_bit sel_lane sxtb16_lane uxtb16_lane sdiv_exact z o s u u16.add_sub [of a b] s8.add_sub [of c d] by auto
qed

theorem media_exact_witness:
  "bit (helper_rbit 1) 31 \<and> lane8 2 (helper_sel_flags 4 0x110000 0) = lane8 2 0x110000
   \<and> sint (lane16 1 (helper_sxtb16 0x800000)) = - 128 \<and> sub16_usat (add16_usat 3 4) 4 = 3 \<and> sub8_sat (add8_sat 3 (- 4)) (- 4) = 3"
proof -
  note m = media_exact [of _ 4 0 3 4 3 "- 4"]
  have "bit (helper_rbit 1) 31" using m [of 1] by simp
  moreover have "lane8 2 (helper_sel_flags 4 0x110000 0) = lane8 2 0x110000"
    using m [of "0x110000", THEN conjunct2, THEN conjunct1, THEN spec, of 2] by simp
  moreover have "sint (lane16 1 (helper_sxtb16 0x800000)) = - 128"
    using m [of "0x800000", THEN conjunct2, THEN conjunct2, THEN conjunct2, THEN conjunct1, THEN spec, of 1] by (simp add: lane8_def)
  ultimately show ?thesis using m [of 1] by simp
qed

section \<open>Register files\<close>

text \<open>
  A file of named registers that are read and written one at a time: a write never fails
  and keeps the state well-formed, the written register then reads as \<open>kept\<close> says (from the
  written value and the one it had), and every other register reads as before.
\<close>

locale register_file =
  fixes rd :: "'r \<Rightarrow> 's \<Rightarrow> 'v result" and wr :: "'r \<Rightarrow> 'v \<Rightarrow> 's \<Rightarrow> 's result"
    and names :: "'r set" and kept :: "'r \<Rightarrow> 'v \<Rightarrow> 'v \<Rightarrow> 'v" and ok :: "'s \<Rightarrow> bool"
  assumes rd_total: "ok s \<Longrightarrow> r \<in> names \<Longrightarrow> \<exists>x. rd r s = Inr x"
    and wr_total: "ok s \<Longrightarrow> r \<in> names \<Longrightarrow> \<exists>s'. wr r v s = Inr s' \<and> ok s'"
    and rd_wr: "ok s \<Longrightarrow> r \<in> names \<Longrightarrow> q \<in> names \<Longrightarrow> wr r v s = Inr s' \<Longrightarrow> rd q s = Inr x \<Longrightarrow>
      rd q s' = Inr (if q = r then kept r v x else x)"
begin

lemma writes:
  assumes "ok s" "set (map fst ws) \<subseteq> names"
  shows "\<exists>s'. cfold (\<lambda>(r, v). wr r v) ws s = Inr s' \<and> ok s'
    \<and> (\<forall>q \<in> names. \<forall>x. rd q s = Inr x \<longrightarrow> rd q s' = Inr (foldl (\<lambda>x v. kept q v x) x (map snd (filter (\<lambda>w. fst w = q) ws))))"
  using assms
proof (induction ws arbitrary: s)
  case Nil
  then show ?case by simp
next
  case (Cons w ws)
  obtain r v where w: "w = (r, v)" by (cases w)
  have r: "r \<in> names" using Cons.prems(2) w by simp
  obtain t where t: "wr r v s = Inr t" "ok t" using wr_total [OF Cons.prems(1) r] by blast
  obtain s' where s': "cfold (\<lambda>(r, v). wr r v) ws t = Inr s'" "ok s'"
    "\<forall>q \<in> names. \<forall>x. rd q t = Inr x \<longrightarrow> rd q s' = Inr (foldl (\<lambda>x v. kept q v x) x (map snd (filter (\<lambda>w. fst w = q) ws)))"
    using Cons.IH [OF t(2)] Cons.prems(2) by auto
  have "rd q s' = Inr (foldl (\<lambda>x v. kept q v x) x (map snd (filter (\<lambda>w. fst w = q) (w # ws))))"
    if "q \<in> names" "rd q s = Inr x" for q x
    using s'(3) that rd_wr [OF Cons.prems(1) r that(1) t(1) that(2)] by (auto simp: w)
  then show ?case using s' t by (auto simp: w)
qed

end

section \<open>Special registers\<close>

definition special_registers :: "nat set" where
  "special_registers = {0, 5, 6, 8, 9, 16, 17, 19, 20}"

text \<open>
  What a special register keeps of a written value: of the status register the flags
  (0) or the IT state (6), while the number of the exception (5) cannot be written.
\<close>

definition special_kept :: "nat \<Rightarrow> u32 \<Rightarrow> u32 \<Rightarrow> u32" where
  "special_kept r v old =
     (if r = 0 then v AND 0xf8000000
      else if r = 5 then old
      else if r = 6 then (v AND 0x0600fc00) OR (old AND push_bit 24 1)
      else if r = 16 \<or> r = 19 then v AND 1
      else if r = 17 then v AND 0xff
      else if r = 20 then v AND 3
      else v)"

lemma xpsr_write_part:
  assumes "v7m_wf env" "m \<in> {0xf8000000, 0x0600fc00}"
  shows "xpsr_read (xpsr_write v m env) = (v AND m) OR (xpsr_read env AND NOT m)"
proof -
  have w: "0 < i \<Longrightarrow> \<not> bit (CF env) i" "0 < i \<Longrightarrow> \<not> bit (QF env) i" "0 < i \<Longrightarrow> \<not> bit (thumb env) i" for i
    using assms(1) bit_01 unfolding v7m_wf_def by blast+
  define x where "x = (word_of_int (v7m_exception env) :: u32)"
  have u: "uint x = v7m_exception env" using assms(1) by (simp add: x_def v7m_wf_def unsigned_of_int take_bit_int_eq_self)
  have x: "take_bit 9 x = x"
    by (rule word_uint_eqI) (use assms(1) in \<open>simp add: u v7m_wf_def unsigned_take_bit_eq take_bit_int_eq_self\<close>)
  have h: "9 \<le> i \<Longrightarrow> \<not> bit x i" for i using bit_take_bit_iff [of 9 x i] unfolding x by simp
  have t: "y AND CPSR_Q = 0 \<longleftrightarrow> \<not> bit y 27" "NOT y AND CPSR_Z = 0 \<longleftrightarrow> bit y 30" for y :: u32
    by (simp_all only: CPSR_Q_def CPSR_Z_def and_push_bit_1) (simp add: bit_not_iff)
  have e: "xpsr_write v 0xf8000000 env = env\<lparr>ZF := NOT v AND CPSR_Z, NF := v, CF := drop_bit 29 v AND 1, VF := push_bit 3 v AND 0x80000000, QF := b2w (v AND CPSR_Q \<noteq> 0)\<rparr>"
    "xpsr_write v 0x0600fc00 env = env\<lparr>condexec_bits := (((condexec_bits env AND NOT 3) OR (drop_bit 25 v AND 3)) AND 3) OR (drop_bit 8 v AND 0xfc)\<rparr>"
    by (simp_all add: xpsr_write_def Let_def write_nzcv_def write_q_def write_it_def CPSR_NZCV_def CPSR_N_def CPSR_Z_def CPSR_C_def CPSR_V_def
        CPSR_IT_0_1_def CPSR_IT_2_7_def CPSR_Q_def)
  have "xpsr_read (xpsr_write v 0xf8000000 env) = (v AND 0xf8000000) OR (xpsr_read env AND NOT 0xf8000000)"
    unfolding e xpsr_read_def Let_def cpu.simps x_def [symmetric]
    by (rule u32_eqI, elim insertE emptyE) (simp_all add: bit_simps bit_b2w t w h x_def [symmetric])
  moreover have "xpsr_read (xpsr_write v 0x0600fc00 env) = (v AND 0x0600fc00) OR (xpsr_read env AND NOT 0x0600fc00)"
    unfolding e xpsr_read_def Let_def cpu.simps x_def [symmetric]
    by (rule u32_eqI, elim insertE emptyE) (simp_all add: bit_simps bit_b2w w h x_def [symmetric])
  ultimately show ?thesis using assms(2) by blast
qed

lemma xpsr_write_keeps:
  assumes "v7m_wf env" "m \<in> {0xf8000000, 0x0600fc00}"
  shows "v7m_wf (xpsr_write v m env)" "uncached_cpsr (xpsr_write v m env) = uncached_cpsr env"
    "v7m_basepri (xpsr_write v m env) = v7m_basepri env" "v7m_control (xpsr_write v m env) = v7m_control env"
proof -
  note d = xpsr_write_def write_nzcv_def write_q_def write_it_def Let_def
  have 1: "drop_bit 29 v AND 1 = (0 :: u32) \<or> drop_bit 29 v AND 1 = (1 :: u32)" unfolding low_bit by simp
  have "m AND 0x1ff = 0" "m AND push_bit 24 1 = 0" using assms(2) by auto
  then show "v7m_wf (xpsr_write v m env)" using assms(1) 1 by (simp add: d v7m_wf_def b2w_def)
  show "uncached_cpsr (xpsr_write v m env) = uncached_cpsr env"
    "v7m_basepri (xpsr_write v m env) = v7m_basepri env" "v7m_control (xpsr_write v m env) = v7m_control env"
    by (simp_all add: d)
qed

lemma xpsr_read_frame:
  "xpsr_read (env\<lparr>v7m_other_sp := u\<rparr>) = xpsr_read env" "xpsr_read (env\<lparr>regs := r\<rparr>) = xpsr_read env"
  "xpsr_read (env\<lparr>uncached_cpsr := c\<rparr>) = xpsr_read env" "xpsr_read (env\<lparr>v7m_basepri := p\<rparr>) = xpsr_read env"
  "xpsr_read (env\<lparr>v7m_control := k\<rparr>) = xpsr_read env" "xpsr_read (env\<lparr>v7m_current_sp := i\<rparr>) = xpsr_read env"
  by (simp_all add: xpsr_read_def)

lemma mask_tests: "w AND CPSR_I = 0 \<longleftrightarrow> \<not> bit w 7" "w AND CPSR_F = 0 \<longleftrightarrow> \<not> bit w 6"
  "bit CPSR_I n \<longleftrightarrow> n = 7" "bit CPSR_F n \<longleftrightarrow> n = 6"
  unfolding CPSR_I_def CPSR_F_def and_push_bit_1 bit_push_bit_iff by (auto simp: bit_simps)

text \<open>The two masks are bits of one word; each is written without the other.\<close>

lemma mask_writes:
  fixes a v :: u32
  defines "i \<equiv> if v AND 1 \<noteq> 0 then a OR CPSR_I else a AND NOT CPSR_I" and "f \<equiv> if v AND 1 \<noteq> 0 then a OR CPSR_F else a AND NOT CPSR_F"
  shows "b2w (i AND CPSR_I \<noteq> 0) = v AND 1" "(i AND CPSR_F \<noteq> 0) = (a AND CPSR_F \<noteq> 0)"
    "b2w (f AND CPSR_F \<noteq> 0) = v AND 1" "(f AND CPSR_I \<noteq> 0) = (a AND CPSR_I \<noteq> 0)"
  unfolding i_def f_def mask_tests flag_tests
  using low_bit [of 0 v] by (simp_all add: bit_or_iff bit_and_iff bit_not_iff mask_tests b2w_def del: and_one_eq)

lemma mrs_masks: "helper_v7m_mrs q (env\<lparr>uncached_cpsr := u\<rparr>) =
    (if q = 16 then Inr (b2w (u AND CPSR_I \<noteq> 0)) else if q = 19 then Inr (b2w (u AND CPSR_F \<noteq> 0)) else helper_v7m_mrs q env)"
  by (simp add: helper_v7m_mrs_def xpsr_read_frame)

lemma mask_msr:
  "helper_v7m_msr 16 v env = Inr (env\<lparr>uncached_cpsr := (if v AND 1 \<noteq> 0 then uncached_cpsr env OR CPSR_I else uncached_cpsr env AND NOT CPSR_I)\<rparr>)"
  "helper_v7m_msr 19 v env = Inr (env\<lparr>uncached_cpsr := (if v AND 1 \<noteq> 0 then uncached_cpsr env OR CPSR_F else uncached_cpsr env AND NOT CPSR_F)\<rparr>)"
  by (simp_all add: helper_v7m_msr_def)

lemma mask_read_write:
  assumes "r = 16 \<or> r = 19" "helper_v7m_msr r v env = Inr env'"
  shows "helper_v7m_mrs q env' = (if q = r then Inr (v AND 1) else helper_v7m_mrs q env)"
proof -
  have m: "helper_v7m_mrs 16 env = Inr (b2w (uncached_cpsr env AND CPSR_I \<noteq> 0))" "helper_v7m_mrs 19 env = Inr (b2w (uncached_cpsr env AND CPSR_F \<noteq> 0))"
    by (simp_all add: helper_v7m_mrs_def)
  from assms show ?thesis by (elim disjE; hypsubst) (simp only: mask_msr sum.inject; hypsubst; simp only: mrs_masks mask_writes; simp add: m)+
qed

lemma switch_sp_views:
  fixes env p k
  assumes "v7m_wf env" "p \<in> {0, 1}"
  defines "e \<equiv> switch_v7m_sp p (env\<lparr>v7m_control := k\<rparr>)"
  shows "v7m_wf e" "helper_v7m_mrs 8 e = helper_v7m_mrs 8 env" "helper_v7m_mrs 9 e = helper_v7m_mrs 9 env"
    "xpsr_read e = xpsr_read env" "uncached_cpsr e = uncached_cpsr env" "v7m_basepri e = v7m_basepri env" "v7m_control e = k"
  using assms(1,2) by (auto simp: e_def switch_v7m_sp_def v7m_wf_def helper_v7m_mrs_def Let_def xpsr_read_frame)

lemma special_read_write:
  assumes "v7m_wf env" "r \<in> special_registers" "q \<in> special_registers"
  shows "\<exists>env'. helper_v7m_msr r v env = Inr env' \<and> v7m_wf env'
    \<and> helper_v7m_mrs q env' = (if q = r then map_sum id (special_kept r v) (helper_v7m_mrs r env) else helper_v7m_mrs q env)"
proof -
  have f: "v7m_wf (env\<lparr>v7m_other_sp := u\<rparr>)" "v7m_wf (env\<lparr>regs := (regs env)[13 := u]\<rparr>)" "v7m_wf (env\<lparr>uncached_cpsr := u\<rparr>)"
    "v7m_wf (env\<lparr>v7m_basepri := u\<rparr>)" "13 < length (regs env)" for u
    using assms(1) by (simp_all add: v7m_wf_def)
  note x = xpsr_write_part [OF assms(1)] xpsr_write_keeps [OF assms(1)] xpsr_write_frame
  note s = switch_sp_views [OF assms(1)]
  have m: "(v AND 0xf8000000 OR y AND NOT 0xf8000000) AND 0xf8000000 = v AND 0xf8000000"
    "(v AND 0xf8000000 OR y AND NOT 0xf8000000) AND 0x1ff = y AND 0x1ff"
    "(v AND 0xf8000000 OR y AND NOT 0xf8000000) AND 0x0700fc00 = y AND 0x0700fc00"
    "(v AND 0x0600fc00 OR y AND NOT 0x0600fc00) AND 0xf8000000 = y AND 0xf8000000"
    "(v AND 0x0600fc00 OR y AND NOT 0x0600fc00) AND 0x1ff = y AND 0x1ff"
    "(v AND 0x0600fc00 OR y AND NOT 0x0600fc00) AND 0x0700fc00 = (v AND 0x0600fc00) OR (y AND 0x0700fc00 AND push_bit 24 1)" for y
    by (rule u32_eqI, elim insertE emptyE; simp add: bit_simps)+
  note d = helper_v7m_msr_def helper_v7m_mrs_def special_kept_def set_sp_def xpsr_read_frame
  consider "r = 0" | "r = 5" | "r = 6" | "r = 8" | "r = 9" | "r = 17" | "r = 20" | "r = 16 \<or> r = 19"
    using assms(2) by (auto simp: special_registers_def)
  then show ?thesis
  proof cases
    case 1
    then show ?thesis using assms(3) x by (auto simp: d m m [simplified] and.assoc special_registers_def)
  next
    case 2
    then show ?thesis using assms(1,3) by (auto simp: d)
  next
    case 3
    then show ?thesis using assms(3) x by (auto simp: d m m [simplified] and.assoc special_registers_def)
  next
    case 4
    then show ?thesis using assms(3) f by (auto simp: d special_registers_def)
  next
    case 5
    then show ?thesis using assms(3) f by (auto simp: d special_registers_def)
  next
    case 6
    then show ?thesis using assms(3) f by (auto simp: d special_registers_def)
  next
    case 7
    then show ?thesis using assms(3) s by (auto simp: d special_registers_def)
  next
    case 8
    have "\<exists>u. helper_v7m_msr r v env = Inr (env\<lparr>uncached_cpsr := u\<rparr>)"
      using 8 mask_msr by metis
    then obtain env' where e: "helper_v7m_msr r v env = Inr env'" "v7m_wf env'" using f(3) by blast
    have "map_sum id (special_kept r v) (helper_v7m_mrs r env) = Inr (v AND 1)" using 8 by (auto simp: d)
    then show ?thesis using e mask_read_write [OF 8 e(1)] by simp
  qed
qed

interpretation special: register_file helper_v7m_mrs helper_v7m_msr special_registers special_kept v7m_wf
proof
  fix env :: cpu and r q :: nat and v x :: u32 and env' :: cpu
  assume w: "v7m_wf env" and r: "r \<in> special_registers"
  have "13 < length (regs env)" using w by (simp add: v7m_wf_def)
  then show "\<exists>x. helper_v7m_mrs r env = Inr x" using r by (auto simp: special_registers_def helper_v7m_mrs_def)
  show "\<exists>s'. helper_v7m_msr r v env = Inr s' \<and> v7m_wf s'" using special_read_write [OF w r r] by blast
  assume q: "q \<in> special_registers" "helper_v7m_msr r v env = Inr env'" "helper_v7m_mrs q env = Inr x"
  show "helper_v7m_mrs q env' = Inr (if q = r then special_kept r v x else x)"
    using special_read_write [OF w r q(1), of v] q(2,3) by auto
qed

text \<open>The modes that have a stack pointer of their own; system mode shares the one of user mode.\<close>

definition banked_modes :: "u32 set" where
  "banked_modes = {m. valid_mode m \<and> m \<noteq> ARM_CPU_MODE_SYS}"

lemma bank_inj: "bank_number m = Inr b \<Longrightarrow> bank_number n = Inr b \<Longrightarrow> m \<noteq> ARM_CPU_MODE_SYS \<Longrightarrow> n \<noteq> ARM_CPU_MODE_SYS \<Longrightarrow> m = n"
  by (auto simp: bank_number_def split: if_splits)

definition banked_ok :: "cpu \<Rightarrow> bool" where
  "banked_ok env \<longleftrightarrow> cpu_wf env \<and> cpu_mode env \<in> banked_modes"

lemma r13_banked_cells:
  assumes "cpu_wf env" "bank_number m = Inr b"
  shows "helper_get_r13_banked m env = Inr (if cpu_mode env = m then regs env ! 13 else banked_r13 env ! b)"
    "helper_set_r13_banked m v env = Inr (if cpu_mode env = m then env\<lparr>regs := (regs env)[13 := v]\<rparr> else env\<lparr>banked_r13 := (banked_r13 env)[b := v]\<rparr>)"
  using assms bank_less [OF assms(2)] by (simp_all add: helper_get_r13_banked_def helper_set_r13_banked_def cpu_wf_def cpu_mode_def)

interpretation banked_sp: register_file helper_get_r13_banked helper_set_r13_banked banked_modes "\<lambda>_ v _. v" banked_ok
proof
  fix env env' :: cpu and m n :: u32 and v x :: u32
  assume ok: "banked_ok env" and m: "m \<in> banked_modes"
  have w: "cpu_wf env" using ok by (simp add: banked_ok_def)
  obtain b where b: "bank_number m = Inr b" using m by (auto simp: banked_modes_def valid_mode_def)
  show "\<exists>x. helper_get_r13_banked m env = Inr x" using r13_banked_cells [OF w b] by blast
  show "\<exists>s'. helper_set_r13_banked m v env = Inr s' \<and> banked_ok s'"
    using ok r13_banked_cells [OF w b] by (auto simp: banked_ok_def cpu_wf_def cpu_mode_def)
  assume n: "n \<in> banked_modes" and st: "helper_set_r13_banked m v env = Inr env'" and x: "helper_get_r13_banked n env = Inr x"
  obtain c where c: "bank_number n = Inr c" using n by (auto simp: banked_modes_def valid_mode_def)
  have l: "b < 7" "c < 7" "length (banked_r13 env) = 7" "length (regs env) = 16"
    using bank_less [OF b] bank_less [OF c] w by (simp_all add: cpu_wf_def)
  have "m = n" if "b = c" using bank_inj [OF b, of n] that c m n by (simp add: banked_modes_def)
  then have i: "b \<noteq> c" if "n \<noteq> m" using that by blast
  have e: "env' = (if cpu_mode env = m then env\<lparr>regs := (regs env)[13 := v]\<rparr> else env\<lparr>banked_r13 := (banked_r13 env)[b := v]\<rparr>)"
    using st r13_banked_cells(2) [OF w b] by simp
  have w': "cpu_wf env'" "cpu_mode env' = cpu_mode env" using w unfolding e by (simp_all add: cpu_wf_def cpu_mode_def)
  have x: "x = (if cpu_mode env = n then regs env ! 13 else banked_r13 env ! c)" using x r13_banked_cells(1) [OF w c] by simp
  have "helper_get_r13_banked n env' = Inr (if cpu_mode env = n then regs env' ! 13 else banked_r13 env' ! c)"
    using r13_banked_cells(1) [OF w'(1) c] w'(2) by simp
  then show "helper_get_r13_banked n env' = Inr (if n = m then v else x)"
    using l i b c unfolding x e by (cases "n = m"; cases "cpu_mode env = m") simp_all
qed

interpretation user_regs: register_file helper_get_user_reg helper_set_user_reg "{..<15}" "\<lambda>_ v _. v" cpu_wf
proof
  fix env env' :: cpu and r q :: nat and v x :: u32
  assume w: "cpu_wf env" and r: "r \<in> {..<15}"
  have l: "length (regs env) = 16" "length (banked_r13 env) = 7" "length (banked_r14 env) = 7" "length (usr_regs env) = 5"
    using w by (simp_all add: cpu_wf_def)
  note cell = set_user_reg_cells [OF w, of r v] 
  show "\<exists>x. helper_get_user_reg r env = Inr x" using r l by (auto simp: helper_get_user_reg_def)
  show "\<exists>s'. helper_set_user_reg r v env = Inr s' \<and> cpu_wf s'"
    using w r by (simp add: cell cpu_wf_def)
  assume q: "q \<in> {..<15}" and st: "helper_set_user_reg r v env = Inr env'" and x: "helper_get_user_reg q env = Inr x"
  have d: "8 \<le> q \<Longrightarrow> 8 \<le> r \<Longrightarrow> r - 8 = q - 8 \<longleftrightarrow> q = r" by linarith
  show "helper_get_user_reg q env' = Inr (if q = r then v else x)"
    using r q st x l d unfolding cell [OF r [unfolded lessThan_iff]]
    by (auto simp: helper_get_user_reg_def cpu_mode_def CPSR_M_def nth_list_update split: if_splits)
qed

text \<open>
  C22. The special registers of the microcontroller profile are independent of each
  other. Any sequence of writes to them succeeds and keeps the state well-formed, and
  afterwards each register reads as its own writes alone leave it: the flags and the
  IT state their parts of the status word, the masks one bit, the base priority eight,
  the two stack pointers the whole value, also when a write of \<^verbatim>\<open>CONTROL\<close> has made the other
  one current; the exception number cannot be written. The stack pointers of the other
  modes and the user registers, as privileged code reaches them, are such files as well.
\<close>

theorem register_files:
  assumes "set (map fst ws) \<subseteq> special_registers" "v7m_wf env"
    and "set (map fst us) \<subseteq> {..<15}" "set (map fst bs) \<subseteq> banked_modes" "cpu_wf e" "cpu_mode e \<in> banked_modes"
  shows "(\<exists>env'. cfold (\<lambda>(r, v). helper_v7m_msr r v) ws env = Inr env' \<and> v7m_wf env'
        \<and> (\<forall>q \<in> special_registers. \<forall>x. helper_v7m_mrs q env = Inr x \<longrightarrow>
             helper_v7m_mrs q env' = Inr (foldl (\<lambda>x v. special_kept q v x) x (map snd (filter (\<lambda>w. fst w = q) ws)))))
    \<and> (\<exists>e'. cfold (\<lambda>(r, v). helper_set_user_reg r v) us e = Inr e' \<and> cpu_wf e'
        \<and> (\<forall>q \<in> {..<15}. \<forall>x. helper_get_user_reg q e = Inr x \<longrightarrow>
             helper_get_user_reg q e' = Inr (foldl (\<lambda>_ v. v) x (map snd (filter (\<lambda>w. fst w = q) us)))))
    \<and> (\<exists>e'. cfold (\<lambda>(m, v). helper_set_r13_banked m v) bs e = Inr e' \<and> cpu_wf e'
        \<and> (\<forall>q \<in> banked_modes. \<forall>x. helper_get_r13_banked q e = Inr x \<longrightarrow>
             helper_get_r13_banked q e' = Inr (foldl (\<lambda>_ v. v) x (map snd (filter (\<lambda>w. fst w = q) bs)))))"
proof -
  have "banked_ok e" using assms(5,6) by (simp add: banked_ok_def)
  from banked_sp.writes [OF this assms(4)] show ?thesis
    by (intro conjI special.writes [OF assms(2,1)] user_regs.writes [OF assms(5,3)]) (auto simp only: banked_ok_def)
qed

theorem register_files_witness:
  "\<exists>env'. cfold (\<lambda>(r, v). helper_v7m_msr r v) [(8, 0x3000), (20, 0), (17, 0x140)] demo_thread = Inr env'
     \<and> helper_v7m_mrs 8 env' = Inr 0x3000 \<and> helper_v7m_mrs 9 env' = Inr 0x1004 \<and> helper_v7m_mrs 17 env' = Inr 0x40"
proof -
  let ?ws = "[(8, 0x3000), (20, 0), (17, 0x140)] :: (nat \<times> u32) list"
  have s: "set (map fst ?ws) \<subseteq> special_registers" "8 \<in> special_registers" "9 \<in> special_registers" "17 \<in> special_registers"
    by (simp_all add: special_registers_def)
  have m: "cpu_mode demo_cpu \<in> banked_modes" using valid_modes(1) demo_cpu_wf(3) by (simp add: banked_modes_def mode_defs)
  have r: "helper_v7m_mrs 8 demo_thread = Inr 0x2000" "helper_v7m_mrs 9 demo_thread = Inr 0x1004" "\<exists>x. helper_v7m_mrs 17 demo_thread = Inr x"
    by (simp_all add: helper_v7m_mrs_def demo_thread_def c_nth_def)
  have e: "set (map fst []) \<subseteq> A" for A :: "'b set" by simp
  from register_files [OF s(1) demo_thread_ok(2) e e demo_cpu_wf(1) m, THEN conjunct1]
  obtain env' where "cfold (\<lambda>(r, v). helper_v7m_msr r v) ?ws demo_thread = Inr env'"
    "\<forall>q \<in> special_registers. \<forall>x. helper_v7m_mrs q demo_thread = Inr x \<longrightarrow>
       helper_v7m_mrs q env' = Inr (foldl (\<lambda>x v. special_kept q v x) x (map snd (filter (\<lambda>w. fst w = q) ?ws)))"
    by (elim exE conjE)
  moreover from this(2) have "helper_v7m_mrs 8 env' = Inr 0x3000" "helper_v7m_mrs 9 env' = Inr 0x1004" "helper_v7m_mrs 17 env' = Inr 0x40"
    using s(2-4) r by (force simp: special_kept_def)+
  ultimately show ?thesis by blast
qed

section \<open>The status register of the floating point unit\<close>

text \<open>
  What is relied on of the softfloat library: the exception flags are different bits, flags
  that are set are read back, and each setting of a status word can be observed (the
  arguments of \<open>softfloat_ok\<close> are its rounding mode, the two flush settings and the default-NaN mode)
  and is changed by its own function only.
\<close>

record 's fp_view =
  view_rounding :: "'s \<Rightarrow> u32"
  view_flush :: "'s \<Rightarrow> bool"
  view_flush_inputs :: "'s \<Rightarrow> bool"
  view_default_nan :: "'s \<Rightarrow> bool"

definition flags_ok :: "'s softfloat \<Rightarrow> bool" where
  "flags_ok x \<longleftrightarrow>
     (let fs = [float_flag_invalid x, float_flag_divbyzero x, float_flag_overflow x, float_flag_underflow x,
                float_flag_output_denormal x, float_flag_inexact x, float_flag_input_denormal x]
      in (\<forall>f \<in> set fs. f \<noteq> 0) \<and> (\<forall>i \<in> {0, 1, 2, 3, 4, 5, 6}. \<forall>j \<in> {0, 1, 2, 3, 4, 5, 6}. i \<noteq> j \<longrightarrow> fs ! i AND fs ! j = 0))"

definition softfloat_ok :: "'s softfloat \<Rightarrow> 's fp_view \<Rightarrow> bool" where
  "softfloat_ok x g \<longleftrightarrow> flags_ok x
     \<and> (\<forall>f s. get_float_exception_flags x (set_float_exception_flags x f s) = f)
     \<and> (\<forall>f s. let t = set_float_exception_flags x f s in view_rounding g t = view_rounding g s \<and> view_flush g t = view_flush g s
          \<and> view_flush_inputs g t = view_flush_inputs g s \<and> view_default_nan g t = view_default_nan g s)
     \<and> (\<forall>m s. let t = set_float_rounding_mode x m s in view_rounding g t = m \<and> view_flush g t = view_flush g s
          \<and> view_flush_inputs g t = view_flush_inputs g s \<and> view_default_nan g t = view_default_nan g s)
     \<and> (\<forall>b s. let t = set_flush_to_zero x b s in view_rounding g t = view_rounding g s \<and> view_flush g t = b
          \<and> view_flush_inputs g t = view_flush_inputs g s \<and> view_default_nan g t = view_default_nan g s)
     \<and> (\<forall>b s. let t = set_flush_inputs_to_zero x b s in view_rounding g t = view_rounding g s \<and> view_flush g t = view_flush g s
          \<and> view_flush_inputs g t = b \<and> view_default_nan g t = view_default_nan g s)
     \<and> (\<forall>b s. let t = set_default_nan_mode x b s in view_rounding g t = view_rounding g s \<and> view_flush g t = view_flush g s
          \<and> view_flush_inputs g t = view_flush_inputs g s \<and> view_default_nan g t = b)"

text \<open>The status word does what the fields of the register say.\<close>

definition fpscr_sync :: "'s softfloat \<Rightarrow> 's fp_view \<Rightarrow> cpu \<Rightarrow> 's vfp_status \<Rightarrow> bool" where
  "fpscr_sync x g env st \<longleftrightarrow>
     (let r = vfp_xregs env ! ARM_VFP_FPSCR; s = fp_status st in
      view_rounding g s = rounding_mode x (drop_bit 22 r AND 3) \<and> view_flush g s = bit r 24
      \<and> view_flush_inputs g s = bit r 24 \<and> view_default_nan g s = bit r 25)"

lemma when_and: "(if b then f else 0) AND h = (if b then f AND h else 0)" for f h :: u32
  by simp

lemma flag_pairs:
  assumes "flags_ok x" "i < 7" "j < 7"
  defines "fs \<equiv> [float_flag_invalid x, float_flag_divbyzero x, float_flag_overflow x, float_flag_underflow x,
                float_flag_output_denormal x, float_flag_inexact x, float_flag_input_denormal x]"
  shows "fs ! i AND fs ! j = 0 \<longleftrightarrow> i \<noteq> j"
proof -
  have m: "k < 7 \<Longrightarrow> k \<in> {0, 1, 2, 3, 4, 5, 6}" for k :: nat unfolding insert_iff empty_iff by presburger
  have f: "\<forall>f \<in> set fs. f \<noteq> 0" "\<forall>i \<in> {0, 1, 2, 3, 4, 5, 6}. \<forall>j \<in> {0, 1, 2, 3, 4, 5, 6}. i \<noteq> j \<longrightarrow> fs ! i AND fs ! j = 0"
    using assms(1) unfolding flags_ok_def fs_def [symmetric] Let_def by blast+
  have "length fs = 7" by (simp add: fs_def)
  then have "fs ! i \<noteq> 0" using f(1) nth_mem [of i fs] assms(2) by metis
  then show ?thesis using f(2) m [OF assms(2)] m [OF assms(3)] by (cases "i = j") (simp only: and.idem simp_thms, blast)
qed

lemma exceptbits_inverse:
  assumes "flags_ok x"
  shows "vfp_exceptbits_from_host x (vfp_exceptbits_to_host x v) = v AND 0x9f"
proof -
  note p = flag_pairs [OF assms, of _ 0] flag_pairs [OF assms, of _ 1] flag_pairs [OF assms, of _ 2] flag_pairs [OF assms, of _ 3]
    flag_pairs [OF assms, of _ 4] flag_pairs [OF assms, of _ 5] flag_pairs [OF assms, of _ 6]
  note q = p [of 0] p [of 1] p [of 2] p [of 3] p [of 5] p [of 6]
  have h: "vfp_exceptbits_to_host x v = (if bit v 0 then float_flag_invalid x else 0) OR (if bit v 1 then float_flag_divbyzero x else 0)
      OR (if bit v 2 then float_flag_overflow x else 0) OR (if bit v 3 then float_flag_underflow x else 0)
      OR (if bit v 4 then float_flag_inexact x else 0) OR (if bit v 7 then float_flag_input_denormal x else 0)"
    unfolding vfp_exceptbits_to_host_def Let_def flag_tests by (simp add: or.assoc)
  define k where "k = vfp_exceptbits_to_host x v"
  have t: "k AND float_flag_invalid x \<noteq> 0 \<longleftrightarrow> bit v 0" "k AND float_flag_divbyzero x \<noteq> 0 \<longleftrightarrow> bit v 1"
    "k AND float_flag_overflow x \<noteq> 0 \<longleftrightarrow> bit v 2"
    "k AND (float_flag_underflow x OR float_flag_output_denormal x) \<noteq> 0 \<longleftrightarrow> bit v 3"
    "k AND float_flag_inexact x \<noteq> 0 \<longleftrightarrow> bit v 4" "k AND float_flag_input_denormal x \<noteq> 0 \<longleftrightarrow> bit v 7"
    using q unfolding k_def h by (simp_all add: bit.conj_disj_distrib bit.conj_disj_distrib2 when_and)
  show ?thesis unfolding k_def [symmetric] vfp_exceptbits_from_host_def t Let_def
    by (rule u32_eqI, elim insertE emptyE; simp add: bit_simps)
qed

lemma fpscr_fields:
  "((v AND 0xffc8ffff) OR push_bit 16 (drop_bit 16 v AND 7) OR push_bit 20 (drop_bit 20 v AND 3)) OR (v AND 0x9f) = (v :: u32)"
  "drop_bit 22 (v AND 0xffc8ffff) AND 3 = drop_bit 22 v AND (3 :: u32)"
  "bit (v AND 0xffc8ffff) 24 = bit v 24" "bit (v AND 0xffc8ffff :: u32) 25 = bit v 25"
  by (rule u32_eqI, elim insertE emptyE; simp add: bit_simps)+ (simp_all add: bit_simps)

lemma changed_field:
  assumes "(r XOR v) AND push_bit 22 3 = 0"
  shows "drop_bit 22 r AND 3 = drop_bit 22 v AND (3 :: u32)"
proof -
  have "bit r n = bit v n" if "n = 22 \<or> n = 23" for n
  proof -
    have "bit (push_bit 22 (3 :: u32)) n" using that by (auto simp: bit_simps)
    then show ?thesis using assms by (metis bit_and_iff bit_xor_iff bit_0_eq bot_apply bot_bool_def)
  qed
  from this [of 22] this [of 23] show ?thesis by (intro u32_eqI; elim insertE emptyE) (simp_all add: bit_simps)
qed

lemma changed_bit: "(if (r XOR v) AND push_bit n 1 = 0 then bit r n else v AND push_bit n 1 \<noteq> 0) = bit v n" for r v :: u32
  unfolding and_push_bit_1 by (simp add: bit_xor_iff)

lemma softfloat_views:
  assumes "softfloat_ok x g"
  shows "view_rounding g (set_float_exception_flags x f s) = view_rounding g s" "view_rounding g (set_float_rounding_mode x m s) = m"
    "view_rounding g (set_flush_to_zero x b s) = view_rounding g s" "view_rounding g (set_flush_inputs_to_zero x b s) = view_rounding g s"
    "view_rounding g (set_default_nan_mode x b s) = view_rounding g s"
    "view_flush g (set_float_exception_flags x f s) = view_flush g s" "view_flush g (set_float_rounding_mode x m s) = view_flush g s"
    "view_flush g (set_flush_to_zero x b s) = b" "view_flush g (set_flush_inputs_to_zero x b s) = view_flush g s"
    "view_flush g (set_default_nan_mode x b s) = view_flush g s"
    "view_flush_inputs g (set_float_exception_flags x f s) = view_flush_inputs g s" "view_flush_inputs g (set_float_rounding_mode x m s) = view_flush_inputs g s"
    "view_flush_inputs g (set_flush_to_zero x b s) = view_flush_inputs g s" "view_flush_inputs g (set_flush_inputs_to_zero x b s) = b"
    "view_flush_inputs g (set_default_nan_mode x b s) = view_flush_inputs g s"
    "view_default_nan g (set_float_exception_flags x f s) = view_default_nan g s" "view_default_nan g (set_float_rounding_mode x m s) = view_default_nan g s"
    "view_default_nan g (set_flush_to_zero x b s) = view_default_nan g s" "view_default_nan g (set_flush_inputs_to_zero x b s) = view_default_nan g s"
    "view_default_nan g (set_default_nan_mode x b s) = b"
  using assms by (simp_all add: softfloat_ok_def Let_def)

text \<open>The settings after a write: a changed field is set, the others keep their value.\<close>

lemma fpscr_write_views:
  assumes "softfloat_ok x g" "ARM_VFP_FPSCR < length (vfp_xregs env)" "vfp_set_fpscr x v env st = Inr (env', st')"
  defines "c \<equiv> (vfp_xregs env ! ARM_VFP_FPSCR) XOR v"
  shows "view_rounding g (fp_status st') = (if c AND push_bit 22 3 = 0 then view_rounding g (fp_status st) else rounding_mode x (drop_bit 22 v AND 3))"
    "view_flush g (fp_status st') = (if c AND push_bit 24 1 = 0 then view_flush g (fp_status st) else v AND push_bit 24 1 \<noteq> 0)"
    "view_flush_inputs g (fp_status st') = (if c AND push_bit 24 1 = 0 then view_flush_inputs g (fp_status st) else v AND push_bit 24 1 \<noteq> 0)"
    "view_default_nan g (fp_status st') = (if c AND push_bit 25 1 = 0 then view_default_nan g (fp_status st) else v AND push_bit 25 1 \<noteq> 0)"
proof -
  let ?z = "v AND push_bit 24 1 \<noteq> 0"
  define f1 where "f1 = (if c AND push_bit 22 3 \<noteq> 0 then set_float_rounding_mode x (rounding_mode x (drop_bit 22 v AND 3)) (fp_status st) else fp_status st)"
  define f2 where "f2 = (if c AND push_bit 24 1 \<noteq> 0 then set_flush_inputs_to_zero x ?z (set_flush_to_zero x ?z f1) else f1)"
  define f3 where "f3 = (if c AND push_bit 25 1 \<noteq> 0 then set_default_nan_mode x (v AND push_bit 25 1 \<noteq> 0) f2 else f2)"
  have e: "fp_status st' = set_float_exception_flags x (vfp_exceptbits_to_host x v) f3"
    using assms(3) unfolding vfp_set_fpscr_def c_nth_simps(1) [OF assms(2)] c_nth_simps(2) [OF assms(2)] cbind.simps Let_def
      c_def [symmetric] f1_def [symmetric] f2_def [symmetric] f3_def [symmetric] by auto
  note w = softfloat_views [OF assms(1)]
  show "view_rounding g (fp_status st') = (if c AND push_bit 22 3 = 0 then view_rounding g (fp_status st) else rounding_mode x (drop_bit 22 v AND 3))"
    "view_flush g (fp_status st') = (if c AND push_bit 24 1 = 0 then view_flush g (fp_status st) else ?z)"
    "view_flush_inputs g (fp_status st') = (if c AND push_bit 24 1 = 0 then view_flush_inputs g (fp_status st) else ?z)"
    "view_default_nan g (fp_status st') = (if c AND push_bit 25 1 = 0 then view_default_nan g (fp_status st) else v AND push_bit 25 1 \<noteq> 0)"
    unfolding e f1_def f2_def f3_def
    by (simp_all only: w if_distrib [of "view_rounding g"] if_distrib [of "view_flush g"] if_distrib [of "view_flush_inputs g"]
        if_distrib [of "view_default_nan g"] if_cancel if_not_P if_P split: if_split) auto
qed

text \<open>
  C23. The floating point status register keeps what is written to it: after a write the
  register reads as the written value, the exception flags included, which live in the
  status words of the softfloat library; and rounding mode, flushing and
  default-NaN mode of the arithmetic are those the register shows, if they were so before.
  Nothing else of the processor changes.
\<close>

theorem fpscr_write_read:
  assumes "softfloat_ok x g" "length (vfp_xregs env) = 16" "fpscr_sync x g env st"
  shows "\<exists>env' st'. vfp_set_fpscr x v env st = Inr (env', st') \<and> vfp_get_fpscr x env' st' = Inr v \<and> fpscr_sync x g env' st'
    \<and> (\<exists>xs l d. env' = env\<lparr>vfp_xregs := xs, vfp_vec_len := l, vfp_vec_stride := d\<rparr>)"
proof -
  let ?r = "vfp_xregs env ! ARM_VFP_FPSCR"
  have i: "ARM_VFP_FPSCR < length (vfp_xregs env)" using assms(2) by (simp add: ARM_VFP_FPSCR_def)
  have f: "flags_ok x" and ok: "softfloat_ok x g" using assms(1) by (simp_all add: softfloat_ok_def)
  obtain env' st' where w: "vfp_set_fpscr x v env st = Inr (env', st')" using i by (simp add: vfp_set_fpscr_def Let_def)
  have e: "env' = env\<lparr>vfp_xregs := (vfp_xregs env)[ARM_VFP_FPSCR := v AND 0xffc8ffff], vfp_vec_len := drop_bit 16 v AND 7, vfp_vec_stride := drop_bit 20 v AND 3\<rparr>"
    and l: "get_float_exception_flags x (fp_status st') = vfp_exceptbits_to_host x v" "get_float_exception_flags x (standard_fp_status st') = 0"
    using w i ok by (auto simp: vfp_set_fpscr_def Let_def softfloat_ok_def)
  have "vfp_get_fpscr x env' st' = Inr v"
    using i fpscr_fields(1) [of v] by (simp add: vfp_get_fpscr_def e l exceptbits_inverse [OF f])
  moreover have "fpscr_sync x g env' st'"
  proof -
    note s = fpscr_write_views [OF ok i w]
    have r: "vfp_xregs env' ! ARM_VFP_FPSCR = v AND 0xffc8ffff" using i by (simp add: e)
    have y: "view_rounding g (fp_status st) = rounding_mode x (drop_bit 22 ?r AND 3)" "view_flush g (fp_status st) = bit ?r 24"
      "view_flush_inputs g (fp_status st) = bit ?r 24" "view_default_nan g (fp_status st) = bit ?r 25"
      using assms(3) unfolding fpscr_sync_def Let_def by blast+
    have "view_rounding g (fp_status st') = rounding_mode x (drop_bit 22 v AND 3)"
      unfolding s(1) y(1) using changed_field [of ?r v] by (cases "(?r XOR v) AND push_bit 22 3 = 0") (simp_all only: if_True if_False refl)
    moreover have "view_flush g (fp_status st') = bit v 24" "view_flush_inputs g (fp_status st') = bit v 24" "view_default_nan g (fp_status st') = bit v 25"
      unfolding s(2-4) y(2-4) changed_bit by (rule refl)+
    ultimately show ?thesis unfolding fpscr_sync_def Let_def r fpscr_fields by blast
  qed
  ultimately show ?thesis using w e by blast
qed

text \<open>A status word of flags and settings, as a witness.\<close>

definition demo_softfloat :: "(u32 \<times> u32 \<times> bool \<times> bool \<times> bool) softfloat" where
  "demo_softfloat = \<lparr>float_flag_invalid = 1, float_flag_divbyzero = 4, float_flag_overflow = 8, float_flag_underflow = 16,
     float_flag_output_denormal = 128, float_flag_inexact = 32, float_flag_input_denormal = 64,
     float_round_nearest_even = 0, float_round_up = 2, float_round_down = 1, float_round_to_zero = 3,
     get_float_exception_flags = fst, set_float_exception_flags = (\<lambda>f (_, s). (f, s)),
     set_float_rounding_mode = (\<lambda>m (f, _, s). (f, m, s)), set_flush_to_zero = (\<lambda>b (f, m, _, s). (f, m, b, s)),
     set_flush_inputs_to_zero = (\<lambda>b (f, m, z, _, d). (f, m, z, b, d)), set_default_nan_mode = (\<lambda>b (f, m, z, i, _). (f, m, z, i, b))\<rparr>"

definition demo_fp_view :: "(u32 \<times> u32 \<times> bool \<times> bool \<times> bool) fp_view" where
  "demo_fp_view = \<lparr>view_rounding = (\<lambda>(_, m, _). m), view_flush = (\<lambda>(_, _, z, _). z),
     view_flush_inputs = (\<lambda>(_, _, _, i, _). i), view_default_nan = (\<lambda>(_, _, _, _, d). d)\<rparr>"

lemma demo_softfloat_ok: "softfloat_ok demo_softfloat demo_fp_view"
  unfolding softfloat_ok_def
  by (simp_all add: demo_softfloat_def demo_fp_view_def Let_def flags_ok_def del: set_upt)

theorem fpscr_write_read_witness:
  "\<exists>env' st'. vfp_set_fpscr demo_softfloat 0x01c00010 (demo_cpu\<lparr>vfp_xregs := replicate 16 0\<rparr>)
       \<lparr>fp_status = (0, 0, False, False, False), standard_fp_status = (0, 0, True, True, True)\<rparr> = Inr (env', st')
     \<and> vfp_get_fpscr demo_softfloat env' st' = Inr 0x01c00010 \<and> fpscr_sync demo_softfloat demo_fp_view env' st'"
proof -
  let ?env = "demo_cpu\<lparr>vfp_xregs := replicate 16 0\<rparr>"
  let ?st = "\<lparr>fp_status = (0, 0, False, False, False), standard_fp_status = (0, 0, True, True, True)\<rparr>"
  have l: "length (vfp_xregs ?env) = 16" by simp
  have s: "fpscr_sync demo_softfloat demo_fp_view ?env ?st"
    by (simp add: fpscr_sync_def demo_softfloat_def demo_fp_view_def rounding_mode_def ARM_VFP_FPSCR_def)
  obtain env' st' where "vfp_set_fpscr demo_softfloat 0x01c00010 ?env ?st = Inr (env', st')"
    "vfp_get_fpscr demo_softfloat env' st' = Inr 0x01c00010" "fpscr_sync demo_softfloat demo_fp_view env' st'"
    using fpscr_write_read [OF demo_softfloat_ok l s, of "0x01c00010"] by (elim exE conjE)
  then show ?thesis by (intro exI conjI)
qed

end
