(* ===== verification/Spec2Isabelle.thy ===== *)
theory Spec2Isabelle
  imports Vemu_System Vemu_User_Lib Arm_V7m Arm_Isolation Arm_Mmu_Control Arm_Op_Helper Arm_Helper
begin

text \<open>
  A verification of VarEMU, an extension of the emulator QEMU that accounts cycles, time
  and energy per class of ARM instructions under a model of hardware variability, with
  the driver and the library through which guest programs read these accounts.

  \<^bold>\<open>The program and its parts.\<close>
  The translator of the emulator (\<^verbatim>\<open>varemu/target-arm/translate.c\<close>) puts a call before every
  translated guest instruction that charges the cycles found for it in the tables of
  \<^verbatim>\<open>varemu/vemu/vemu_arm.c\<close> to the counters of \<^verbatim>\<open>vemu_cycles.c\<close>. \<^verbatim>\<open>vemu_power_45nm.c\<close> and
  \<^verbatim>\<open>vemu_energy.c\<close> turn active and sleep time into energy. Accounts and parameters are
  read and set through a memory-mapped device (\<^verbatim>\<open>vemu_hw_module.c\<close>) by the guest, and
  through the configuration file and the monitor commands (\<^verbatim>\<open>vemu_user_io.c\<close>) by the user.
  \<^verbatim>\<open>vemu_errors.c\<close> replaces multiplications by faulty ones while the guest has switched
  this on. In the guest, the driver \<^verbatim>\<open>linux/linux-3.6.3-variability/drivers/misc/variability.c\<close>
  keeps an account per task at every context switch (\<^verbatim>\<open>kernel/sched/core.c\<close>, \<^verbatim>\<open>kernel/fork.c\<close>)
  and answers two system calls, which the library \<^verbatim>\<open>linux/fs/home/default/src/vemu.h\<close> wraps.
  All of this stands on the processor of \<^verbatim>\<open>varemu/target-arm\<close>: its status registers and
  modes decide which code is privileged, its exceptions switch between tasks, and its
  address translation and coprocessor registers protect the kernel.

  \<^bold>\<open>How the model is built.\<close>
  Machine integers are words of their width (\<open>u8\<close> to \<open>u64\<close>), doubles are IEEE 754 binary64
  values (\<open>Vemu_Double\<close>), structures are records, unions of a structure and an array are the
  record with two conversions. An operation takes the variables it changes and returns them;
  one that can fail (a C assertion, an access outside an array, a shift by too many bits)
  returns a value of \<open>c_error + 'a\<close>, and sequencing is \<open>cbind\<close>. Code that is not in the
  repository is a parameter: the mathematical library (\<open>libm\<close>), QEMU's dictionary and JSON
  functions (\<open>qapi\<close>), code and physical memory, interrupt controller and semihosting (\<open>arm_ext\<close>,
  \<open>v7m_ext\<close>, \<open>mmu_ext\<close>), constants and breakpoints of QEMU (\<open>qemu\<close>, \<open>translator\<close>), the kernel's
  access to device registers and user memory (\<open>io\<close>). The hypotheses on them are named
  predicates with that documented behaviour, and hold of the concrete \<open>demo_\<dots>\<close> values on
  which the witnesses of the theorems are evaluated.

  \<^bold>\<open>Theories, in the order of the code.\<close>
  \<^item> \<open>Vemu_Prelude\<close>: the result type, word types, array access, lemmas on bits and lists.
  \<^item> \<open>Vemu_Double\<close>, \<open>C_Lib\<close>: doubles as the C program uses them (rounding to nearest, exact
    integers up to \<open>2 ^ 53\<close>), and \<^verbatim>\<open>strtol\<close>, \<^verbatim>\<open>atoi\<close>, \<^verbatim>\<open>strtod\<close>, \<^verbatim>\<open>atof\<close>, \<^verbatim>\<open>fgets\<close>.
  \<^item> \<open>Vemu_Instr\<close>, \<open>Vemu_Arm_Table0\<close> to \<open>Vemu_Arm_Table3\<close>, \<open>Vemu_Thumb_Table\<close>, \<open>Vemu_Arm\<close>: the 4353 rows of the
    instruction tables with their cycle macros, row by row, and \<open>vemu_target_decode_instr\<close>. The decoder is total
    on well-formed tables (\<open>decode_total\<close>) and the costs are compared with a reference function
    of the encoding (\<open>arm_decode_cost\<close>). The locale \<open>instr_table\<close> is interpreted on the ARM and the Thumb table.
  \<^item> \<open>Vemu_Params\<close>, \<open>Vemu_Power\<close>: the parameters of the power model (locale \<open>param_store\<close>), and sleep and
    active power (\<^verbatim>\<open>vemu_power_45nm.c\<close>).
  \<^item> \<open>Vemu_Cycles\<close>: \<^verbatim>\<open>vemu_cycles.c\<close>. Rule induction over \<open>cycles_reach\<close> shows that sleep and active time
    add up to the elapsed time (\<open>sleep_time_conservation\<close>), and the counters, doubles in the
    code, are the exact sums (\<open>cycles_exact\<close>).
  \<^item> \<open>Vemu_Energy\<close>: \<^verbatim>\<open>vemu_energy.c\<close> over any source of times (locale \<open>time_source\<close>, interpreted on the counters);
    energy is power times time however often it is read, and parameter changes
    bill the past at the old power.
  \<^item> \<open>Vemu_Hw_Module\<close>: the device: byte reads of the snapshot, commands, consistency of a snapshot.
  \<^item> \<open>Vemu_Errors\<close>: the faulty multiplications and when they apply, on processors with modes and on microcontrollers.
  \<^item> \<open>Vemu_User_Io\<close>: configuration file and monitor commands, down to the characters.
  \<^item> \<open>Arm_Cpu\<close>: the processor state, \<open>cpsr_write\<close>, \<open>switch_mode\<close> and the banked registers (\<^verbatim>\<open>cpu.h\<close>, \<^verbatim>\<open>helper.c\<close>);
    \<open>arch_reg\<close> states what register each mode sees, and mode switches refine it.
  \<^item> \<open>Arm_Interrupt\<close>, \<open>Arm_V7m\<close>: exception entry and return of both profiles, with round trips.
  \<^item> \<open>Arm_Mmu\<close>: the table walks of the short and long formats, the protection unit and the handler of memory
    faults: what enters the translation buffer is right for the whole page and within the rights of the tables,
    and a failed walk reaches the operating system with the fault registers set (\<open>fault_registers\<close>).
  \<^item> \<open>Arm_Cp_Table\<close>, \<open>Arm_Cp_Registration\<close>: every coprocessor register definition, and that registering them
    passes the assertions and builds the table that the list of definitions describes.
  \<^item> \<open>Arm_Translate\<close>: \<open>gen_intermediate_code_internal\<close> with the hooks of VarEMU; which record a block charges, by
    the run of instructions (\<open>insn_run\<close>) that the block translates.
  \<^item> \<open>Arm_Coproc\<close>, \<open>Arm_Isolation\<close>, \<open>Arm_Mmu_Control\<close>: the access functions of coprocessor registers, the
    translation and execution of the access instructions, the isolation of the kernel from
    user code, and the registers that control address translation.
  \<^item> \<open>Arm_Op_Helper\<close>: saturation, shifts and user registers (\<^verbatim>\<open>op_helper.c\<close>) against integer arithmetic
    (locale \<open>lane_saturation\<close>).
  \<^item> \<open>Arm_Helper\<close>: extension, division, bit reversal and saturating lanes (locale \<open>saturating_lane\<close>, interpreted on the four kinds
    of lanes); special registers, banked stack pointers and user registers as files of independent registers (locale
    \<open>register_file\<close>, interpreted on all three); and the floating point status register, which stays in step with
    the status words of the softfloat library (\<open>softfloat\<close>, a parameter).
  \<^item> \<open>Vemu_Machine\<close>, \<open>Vemu_System\<close>: the emulator's run: waiting for interrupts, accounting, monitor; and the cost of
    a sequence of blocks under the tables a configuration file leaves, with the assertion that stops a run when the file
    gave an instruction a class out of range.
  \<^item> \<open>Variability_Driver\<close>, \<open>Vemu_User_Lib\<close>: driver, scheduler hooks and library on top of any device
    that keeps the laws of the locale \<open>varemu_device\<close>, interpreted on the model of
    \<^verbatim>\<open>vemu_hw_module.c\<close>. Accounts add up over all tasks (\<open>account_conservation\<close>), every task has
    its own fault switch, and an interval measured by a process is what the device counted while it ran.

  \<^bold>\<open>Loops and bounds.\<close>
  Every function is total but \<open>scale\<close>, the loop of \<^verbatim>\<open>vemu_display.h\<close>, a \<open>partial_function\<close>; \<open>display_scales\<close>
  proves that it returns for every counter. The block translation loop, the file loop and the walk of long descriptors have termination
  proofs (by the room left in the buffer and page, the characters left, the level), so no fuel is used. Counters are
  exact up to \<open>2 ^ 53\<close>, the bound of integers in doubles; theorems that need it state it.

  \<^bold>\<open>Where the code does not do what it means to.\<close>
  Several theorems state the behaviour of the code as it is where it departs from its purpose:
  \<open>block_charges_last\<close>, \<open>thumb_code_rows\<close>, \<open>set_register_rebills\<close>, \<open>fault_confined\<close>, \<open>file_lines\<close>,
  \<open>display_overruns\<close>, \<open>temp_curve\<close>, \<open>voltage_readback\<close>, \<open>mpu_write_unchecked\<close> and the case of doubling in \<open>saturation_exact\<close>.

  \<^bold>\<open>Not modelled.\<close>
  The translation of the single ARM and Thumb instructions (most of \<^verbatim>\<open>translate.c\<close>) and the floating point arithmetic and NEON helpers
  of \<^verbatim>\<open>helper.c\<close>: they are emitters for, and callers of, QEMU's code generator and softfloat library, which are not in the
  repository; instruction translation is a parameter of \<open>gen_intermediate_code\<close>. Of \<^verbatim>\<open>vl.c\<close>, \<^verbatim>\<open>monitor.c\<close>, \<^verbatim>\<open>kernel/sched/core.c\<close> and
  \<^verbatim>\<open>kernel/fork.c\<close> the lines that VarEMU added are modelled; the rest is unchanged QEMU or Linux code and
  mostly calls into code that is not here. Left out as well: device registration, debug output,
  the options file \<^verbatim>\<open>qemu-options.hx\<close>, the tables of system calls, boards and devices (\<^verbatim>\<open>stellaris.c\<close>, \<^verbatim>\<open>versatilepb.c\<close>),
  the graphical monitor \<^verbatim>\<open>QMP/vemu-power.py\<close>, the sample generator \<^verbatim>\<open>instance_gen_45.py\<close>, the example
  programs and the uncompiled power model \<^verbatim>\<open>vemu_power_tvlsi.c\<close>.
\<close>

section \<open>Properties of the whole system\<close>

text \<open>
  C1. What a guest program costs under a configuration file, and when it is counted at all. Let the emulator start with a file that leaves a clock frequency of at least
  one hertz and below \<open>2 ^ 64\<close>, and run any blocks (not at breakpoints, exception returns or
  the end of an instruction budget) whose built-in costs add up to at most \<open>2 ^ 53\<close>. If the
  file gave every instruction that starts a block a class in range, translation and
  accounting return and the total of the cycle counters is exactly the sum over the blocks
  of what the built-in tables say of the instruction at the block's address: classes only
  move cycles between counters. If it gave one of them a class out of range, the run stops
  at the assertion of the accounting. A file whose class indices are all in range is always
  of the first kind.
\<close>

theorem emulation_cost:
  assumes "option_variability q files junk fname t0 tr (initial_tables, pm0, cycles_state_zero) = Inr (tr', ts, pm, cs)"
    and "disas_ok tr" "freq_ok pm" "\<forall>tb \<in> set tbs. block_ok tr tb"
    and "v_pm (m_vemu mc) = pm" "v_cycles (m_vemu mc) = cs"
    and "sum_list (map (block_cost tr initial_tables) tbs) \<le> 2 ^ 53"
  shows "(if \<forall>tb \<in> set tbs. block_class tr ts tb < MAX_INSTR_CLASSES
       then \<exists>mc'. charge_blocks tr' ts tbs mc = Inr mc'
         \<and> vemu_get_cycles_all_classes (v_cycles (m_vemu mc')) = Inr (of_nat (sum_list (map (block_cost tr initial_tables) tbs)))
       else charge_blocks tr' ts tbs mc = Inl Assert_Fail)
    \<and> (\<forall>ci. file_classes q files junk fname = Some ci \<and> indices_ok q (qdict_items q ci)
         \<longrightarrow> (\<forall>tb \<in> set tbs. block_class tr ts tb < MAX_INSTR_CLASSES))"
proof -
  have v: "vemu_init q files junk fname t0 (initial_tables, pm0, cycles_state_zero) = Inr (ts, pm, cs)"
    and tr': "tr' = tr\<lparr>tr_singlestep := True\<rparr>"
    using assms(1) by (auto simp: option_variability_def cbind_Inr_iff)
  obtain ci fp where ci: "file_classes q files junk fname = Some ci" and l: "parse_loop q ci fp (initial_tables, pm0) = Inr (ts, pm)"
    and cs: "cs = vemu_init_cycles t0 cycles_state_zero"
    using vemu_init_Inr [OF v] by blast
  have same: "same_tables initial_tables ts" using parse_loop_same [OF l] by simp
  have wf: "tables_wf ts" using same_tables_wf [OF same initial_tables_wf] .
  have info: "block_info tr' = block_info tr" by (intro ext) (simp add: tr' block_info_def insn_info_def)
  have cost: "block_cost tr' ts = block_cost tr initial_tables" "block_class tr' ts = block_class tr ts"
    using block_cost_same [OF initial_tables_wf same, of tr] by (auto simp: fun_eq_iff block_cost_def block_class_def info)
  have ok: "disas_ok tr'" "tr_singlestep tr'" "\<forall>tb \<in> set tbs. block_ok tr' tb"
    using assms(2,4) by (simp_all add: tr' disas_ok_def block_ok_def)
  have "indices_ok q (qdict_items q ci) \<longrightarrow> classes_ok ts" using parse_loop_classes [OF _ l] initial_classes_ok by simp
  then have "indices_ok q (qdict_items q ci) \<longrightarrow> (\<forall>tb \<in> set tbs. block_class tr ts tb < MAX_INSTR_CLASSES)"
    using block_info_whole [OF wf] by blast
  then show ?thesis
    using charge_blocks_cost [OF ok(1) wf ok(2) _ ok(3), of mc t0] charge_blocks_assert [OF ok(1) wf ok(2) _ ok(3), of mc]
      assms(3,5-7) ci cs by (auto simp: cost)
qed

theorem emulation_cost_witness:
  "\<exists>tr' ts pm cs mc'. option_variability demo_qapi [''f'' \<mapsto> ''C'' @ [newline] @ ''X'' @ [newline]] [] ''f'' 0 demo_translator
      (initial_tables, demo_pm, cycles_state_zero) = Inr (tr', ts, pm, cs)
    \<and> charge_blocks tr' ts [demo_block, demo_block] (demo_machine False cs) = Inr mc'
    \<and> vemu_get_cycles_all_classes (v_cycles (m_vemu mc')) = Inr (of_nat (2 * block_cost demo_translator initial_tables demo_block))"
proof -
  let ?files = "[''f'' \<mapsto> ''C'' @ [newline] @ ''X'' @ [newline]]" and ?cs = "vemu_init_cycles 0 cycles_state_zero"
  let ?f = "\<lparr>rest = ''X'' @ [newline], eof = False, buffer = ''C'' @ [newline]\<rparr>"
  have g: "fgets 2000 \<lparr>rest = ''C'' @ [newline] @ ''X'' @ [newline], eof = False, buffer = []\<rparr> = ?f"
    using fgets_newline [of "''C''" 2000] by (simp add: newline_def)
  have l: "parse_loop demo_qapi demo_classes ?f s = Inr s" for s
    using parse_loop_lines [of "[''X'']" ?f demo_qapi demo_classes s]
    by (simp add: newline_def parse_line_def demo_qapi_def c_str_def split: prod.splits)
  have c: "file_classes demo_qapi ?files [] ''f'' = Some demo_classes"
    using g by (simp add: file_classes_def) (simp add: demo_qapi_def c_str_def newline_def)
  have v: "vemu_init demo_qapi ?files [] ''f'' 0 (initial_tables, demo_pm, cycles_state_zero) = Inr (initial_tables, demo_pm, ?cs)"
    using g l by (simp add: vemu_init_def vemu_parse_input_file_def deref_def)
      (simp add: demo_qapi_def demo_classes_def c_str_def newline_def)
  have o: "option_variability demo_qapi ?files [] ''f'' 0 demo_translator (initial_tables, demo_pm, cycles_state_zero)
      = Inr (demo_translator\<lparr>tr_singlestep := True\<rparr>, initial_tables, demo_pm, ?cs)"
    using v by (simp add: option_variability_def)
  have x: "indices_ok demo_qapi (qdict_items demo_qapi demo_classes)"
    by (simp add: indices_ok_def demo_qapi_def demo_classes_def MAX_INSTR_CLASSES_def)
  have b: "\<forall>tb \<in> set [demo_block, demo_block]. block_ok demo_translator tb"
    by (simp add: block_ok_def demo_block_def demo_translator_def)
  have "block_cost demo_translator initial_tables demo_block \<le> 5"
    using block_info_whole [OF initial_tables_wf, of demo_translator demo_block] by blast
  then have "sum_list (map (block_cost demo_translator initial_tables) [demo_block, demo_block]) \<le> 2 ^ 53" by simp
  from emulation_cost [OF o demo_translator_ok demo_freq b _ _ this, of "demo_machine False ?cs"] c x
  obtain mc' where "charge_blocks (demo_translator\<lparr>tr_singlestep := True\<rparr>) initial_tables [demo_block, demo_block] (demo_machine False ?cs) = Inr mc'"
    "vemu_get_cycles_all_classes (v_cycles (m_vemu mc')) = Inr (of_nat (2 * block_cost demo_translator initial_tables demo_block))"
    by (auto simp: demo_machine_def)
  then show ?thesis using o by blast
qed

end
